(* ===== verification/Prelude.thy ===== *)
theory Prelude
  imports
    Complex_Main
    "HOL-Library.AList"
    "HOL-Library.Char_ord"
    "HOL-Library.List_Lexorder"
    "HOL-Library.Multiset"
    "HOL-Library.Sublist"
begin

section \<open>Shared types, Python idioms and proof automation\<close>

text \<open>
  What every component of the model shares: the types that stand for Python's values, the
  operations of Python's standard library the source uses, and the lemma collections the
  component theories feed.

  \<^item> A Python \<^verbatim>\<open>float\<close> is an exact rational (\<open>rat\<close>): sums, means and comparisons are the
    mathematical ones, rounding is not modelled.  A Python \<^verbatim>\<open>int\<close> is \<open>int\<close>, or \<open>nat\<close> where
    the code only counts.
  \<^item> A \<^verbatim>\<open>str\<close> is \<open>string\<close>, its UTF-8 bytes; the lexicographic order of bytes is the order
    of code points, so \<open>sorted\<close> on strings is the order of \<open>List_Lexorder\<close>.
  \<^item> A \<^verbatim>\<open>dict\<close> is an insertion-ordered association list with distinct keys
    (\<open>AList.update\<close> overwrites in place or appends, as Python does).
  \<^item> A value of type \<^verbatim>\<open>Any\<close> (a decoded JSON document) is the datatype \<open>json\<close>.
  \<^item> An exception is a value of \<open>py_error\<close> in the left summand of a sum type.  Message
    texts are left out; the data a handler could read is kept.
\<close>

named_theorems dict_simps \<open>lookup, update and key lemmas of association-list dictionaries\<close>
named_theorems bounds_intros \<open>values that stay in the unit interval\<close>
named_theorems frame_simps \<open>fields an operation leaves alone\<close>

subsection \<open>Errors\<close>

datatype py_error =
    ValueError
  | TypeError
  | RuntimeError
  | KeyError
  | IndexError
  | TimeoutError
  | ZeroDivisionError
  | AssertionError
  | IllegalStateTransitionError
  | ProposalRejectedError "string list"
  | SearchSpaceExhaustedError
  | LLMProposalError
  | EntityNotFoundError
  | WorkspaceMismatchError
  | OptimisticConcurrencyError int int
  | DomainMissing
  | ObjectNotFoundError
  | PointerHashMismatchError
  | IntegrityViolationError
  | SandboxViolationError
  | AdapterError bool "rat option"

type_synonym 'a result = "py_error + 'a"

definition bind_result :: "'a result \<Rightarrow> ('a \<Rightarrow> 'b result) \<Rightarrow> 'b result" where
  "bind_result r f = (case r of Inl e \<Rightarrow> Inl e | Inr x \<Rightarrow> f x)"

lemma bind_result_simps [simp]:
  "bind_result (Inl e) f = Inl e"
  "bind_result (Inr x) f = f x"
  by (simp_all add: bind_result_def)

lemma bind_result_Inr_iff:
  "bind_result r f = Inr y \<longleftrightarrow> (\<exists>x. r = Inr x \<and> f x = Inr y)"
  by (cases r) auto

lemma bind_result_Inl_iff:
  "bind_result r f = Inl e \<longleftrightarrow> r = Inl e \<or> (\<exists>x. r = Inr x \<and> f x = Inl e)"
  by (cases r) auto

text \<open>A loop that stops at the first raise: \<open>[f x for x in xs]\<close>.\<close>

fun map_result :: "('a \<Rightarrow> 'b result) \<Rightarrow> 'a list \<Rightarrow> 'b list result" where
  "map_result f [] = Inr []"
| "map_result f (x # xs) =
     bind_result (f x) (\<lambda>y. bind_result (map_result f xs) (\<lambda>ys. Inr (y # ys)))"

lemma map_result_InrD:
  "map_result f xs = Inr ys \<Longrightarrow> list_all2 (\<lambda>x y. f x = Inr y) xs ys"
  by (induction xs arbitrary: ys) (auto simp: bind_result_Inr_iff)

lemma map_result_total:
  "(\<And>x. x \<in> set xs \<Longrightarrow> f x = Inr (g x)) \<Longrightarrow> map_result f xs = Inr (map g xs)"
  by (induction xs) auto

subsection \<open>Decoded JSON values\<close>

datatype json =
    JNull
  | JBool bool
  | JInt int
  | JFloat rat
  | JStr string
  | JList "json list"
  | JObj "(string \<times> json) list"

type_synonym 'v dict = "(string \<times> 'v) list"

text \<open>Python's \<open>==\<close> on such values: numbers compare by value (\<open>True == 1 == 1.0\<close>), lists
  element by element, dictionaries as maps, whatever their insertion order.\<close>

fun json_num :: "json \<Rightarrow> rat option" where
  "json_num (JBool b) = Some (if b then 1 else 0)"
| "json_num (JInt i) = Some (of_int i)"
| "json_num (JFloat q) = Some q"
| "json_num _ = None"

fun py_eq :: "json \<Rightarrow> json \<Rightarrow> bool"
  and py_eq_list :: "json list \<Rightarrow> json list \<Rightarrow> bool"
  and py_eq_fields :: "json dict \<Rightarrow> json dict \<Rightarrow> bool" where
  "py_eq JNull w = (w = JNull)"
| "py_eq (JStr s) w = (w = JStr s)"
| "py_eq (JBool b) w = (json_num w = Some (if b then 1 else 0))"
| "py_eq (JInt i) w = (json_num w = Some (of_int i))"
| "py_eq (JFloat q) w = (json_num w = Some q)"
| "py_eq (JList xs) w = (case w of JList ys \<Rightarrow> py_eq_list xs ys | _ \<Rightarrow> False)"
| "py_eq (JObj xs) w =
     (case w of JObj ys \<Rightarrow> length xs = length ys \<and> py_eq_fields xs ys | _ \<Rightarrow> False)"
| "py_eq_list [] ys = (ys = [])"
| "py_eq_list (x # xs) ys = (case ys of [] \<Rightarrow> False | y # ys' \<Rightarrow> py_eq x y \<and> py_eq_list xs ys')"
| "py_eq_fields [] ys = True"
| "py_eq_fields ((k, x) # xs) ys =
     (case map_of ys k of None \<Rightarrow> False | Some y \<Rightarrow> py_eq x y \<and> py_eq_fields xs ys)"

text \<open>The truth value of an object in a condition.\<close>

fun py_truthy :: "json \<Rightarrow> bool" where
  "py_truthy JNull = False"
| "py_truthy (JBool b) = b"
| "py_truthy (JInt i) = (i \<noteq> 0)"
| "py_truthy (JFloat q) = (q \<noteq> 0)"
| "py_truthy (JStr s) = (s \<noteq> '''')"
| "py_truthy (JList xs) = (xs \<noteq> [])"
| "py_truthy (JObj xs) = (xs \<noteq> [])"

fun as_dict :: "json \<Rightarrow> json dict option" where
  "as_dict (JObj d) = Some d"
| "as_dict _ = None"

fun as_list :: "json \<Rightarrow> json list option" where
  "as_list (JList xs) = Some xs"
| "as_list _ = None"

fun as_str :: "json \<Rightarrow> string option" where
  "as_str (JStr s) = Some s"
| "as_str _ = None"

subsection \<open>Dictionaries\<close>

definition dict_get :: "('k \<times> 'v) list \<Rightarrow> 'k \<Rightarrow> 'v \<Rightarrow> 'v" where
  "dict_get d k v0 = (case map_of d k of None \<Rightarrow> v0 | Some v \<Rightarrow> v)"

definition dict_keys :: "('k \<times> 'v) list \<Rightarrow> 'k list" where
  "dict_keys d = map fst d"

definition dict_modify :: "('k \<times> 'v) list \<Rightarrow> 'k \<Rightarrow> 'v \<Rightarrow> ('v \<Rightarrow> 'v) \<Rightarrow> ('k \<times> 'v) list" where
  "dict_modify d k v0 f = AList.update k (f (dict_get d k v0)) d"

text \<open>\<open>collections.Counter\<close>: \<open>c[k] += n\<close>.\<close>

definition counter_add :: "('k \<times> nat) list \<Rightarrow> 'k \<Rightarrow> nat \<Rightarrow> ('k \<times> nat) list" where
  "counter_add c k n = dict_modify c k 0 (\<lambda>m. m + n)"

definition counter_of :: "'k list \<Rightarrow> ('k \<times> nat) list" where
  "counter_of ks = foldl (\<lambda>c k. counter_add c k 1) [] ks"

lemma dict_get_Nil [dict_simps, simp]: "dict_get [] k v0 = v0"
  by (simp add: dict_get_def)

lemma dict_get_update [dict_simps]:
  "dict_get (AList.update k v d) k' v0 = (if k = k' then v else dict_get d k' v0)"
  by (auto simp: dict_get_def update_conv)

lemma dict_get_modify [dict_simps]:
  "dict_get (dict_modify d k v0 f) k' v0 = (if k = k' then f (dict_get d k v0) else dict_get d k' v0)"
  by (simp add: dict_modify_def dict_get_update)

lemma dict_keys_update [dict_simps]:
  "set (dict_keys (AList.update k v d)) = insert k (set (dict_keys d))"
  by (induction d) (auto simp: dict_keys_def)

lemma dict_keys_modify [dict_simps]:
  "set (dict_keys (dict_modify d k v0 f)) = insert k (set (dict_keys d))"
  by (simp add: dict_modify_def dict_keys_update)

lemma distinct_dict_keys_update [dict_simps]:
  "distinct (dict_keys d) \<Longrightarrow> distinct (dict_keys (AList.update k v d))"
  by (simp add: dict_keys_def distinct_update)

lemma distinct_dict_keys_modify [dict_simps]:
  "distinct (dict_keys d) \<Longrightarrow> distinct (dict_keys (dict_modify d k v0 f))"
  by (simp add: dict_modify_def distinct_dict_keys_update)

lemma counter_add_get [dict_simps]:
  "dict_get (counter_add c k n) k' 0 = dict_get c k' 0 + (if k = k' then n else 0)"
  by (simp add: counter_add_def dict_get_modify)

lemma counter_add_keys [dict_simps]:
  "set (dict_keys (counter_add c k n)) = insert k (set (dict_keys c))"
  by (simp add: counter_add_def dict_keys_modify)

lemma counter_add_distinct [dict_simps]:
  "distinct (dict_keys c) \<Longrightarrow> distinct (dict_keys (counter_add c k n))"
  by (simp add: counter_add_def distinct_dict_keys_modify)

lemma foldl_counter_get:
  "dict_get (foldl (\<lambda>c k. counter_add c k (Suc 0)) c ks) k 0 = dict_get c k 0 + count_list ks k"
  by (induction ks arbitrary: c) (auto simp: counter_add_get)

lemma foldl_counter_keys:
  "set (dict_keys (foldl (\<lambda>c k. counter_add c k (Suc 0)) c ks)) = set (dict_keys c) \<union> set ks"
  by (induction ks arbitrary: c) (auto simp: counter_add_keys)

lemma foldl_counter_distinct:
  "distinct (dict_keys c) \<Longrightarrow> distinct (dict_keys (foldl (\<lambda>c k. counter_add c k (Suc 0)) c ks))"
  by (induction ks arbitrary: c) (auto simp: counter_add_distinct)

lemma counter_of_get [dict_simps]: "dict_get (counter_of ks) k 0 = count_list ks k"
  by (simp add: counter_of_def foldl_counter_get)

lemma counter_of_keys [dict_simps]: "set (dict_keys (counter_of ks)) = set ks"
  by (simp add: counter_of_def foldl_counter_keys) (simp add: dict_keys_def)

lemma counter_of_distinct [dict_simps]: "distinct (dict_keys (counter_of ks))"
  using foldl_counter_distinct [of "[]" ks] by (simp add: counter_of_def dict_keys_def)

lemma map_of_dict_get:
  fixes v0 :: 'v
  shows "map_of d k = (if k \<in> set (dict_keys d) then Some (dict_get d k v0) else None)"
  by (auto simp: dict_get_def dict_keys_def map_of_eq_None_iff split: option.splits)

lemma counter_map_of:
  "map_of (counter_of ks) k = (if k \<in> set ks then Some (count_list ks k) else None)"
  using map_of_dict_get [of "counter_of ks" k 0] by (simp add: counter_of_get counter_of_keys)

lemma sum_list_dict:
  assumes "distinct (dict_keys d)"
  shows "(\<Sum>(k, v) \<leftarrow> d. f k v) = (\<Sum>k \<in> set (dict_keys d). f k (dict_get d k v0))"
  using assms
proof (induction d)
  case Nil
  then show ?case by (simp add: dict_keys_def)
next
  case (Cons p d)
  obtain k v where p: "p = (k, v)" by (cases p)
  have k: "k \<notin> set (dict_keys d)" "distinct (dict_keys d)"
    using Cons.prems p by (auto simp: dict_keys_def)
  have "(\<Sum>k' \<in> set (dict_keys d). f k' (dict_get (p # d) k' v0)) =
        (\<Sum>k' \<in> set (dict_keys d). f k' (dict_get d k' v0))"
    by (rule sum.cong) (use k p in \<open>auto simp: dict_get_def\<close>)
  then show ?case
    using Cons.IH [OF k(2)] k(1) p by (simp add: dict_keys_def dict_get_def)
qed

subsection \<open>Numbers\<close>

definition mean :: "rat list \<Rightarrow> rat" where
  "mean xs = sum_list xs / of_nat (length xs)"

lemma sum_list_unit_bounds:
  fixes xs :: "rat list"
  assumes "\<And>x. x \<in> set xs \<Longrightarrow> 0 \<le> x \<and> x \<le> 1"
  shows "0 \<le> sum_list xs \<and> sum_list xs \<le> of_nat (length xs)"
  using assms by (induction xs) (auto, force+)

lemma mean_unit [bounds_intros]:
  assumes "\<And>x. x \<in> set xs \<Longrightarrow> 0 \<le> x \<and> x \<le> 1"
  shows "0 \<le> mean xs \<and> mean xs \<le> 1"
  using sum_list_unit_bounds [OF assms]
  by (cases "xs = []") (auto simp: mean_def divide_le_eq_1)

lemma frac_unit [bounds_intros]:
  "a \<le> b \<Longrightarrow> 0 \<le> (of_nat a :: rat) / of_nat b \<and> (of_nat a :: rat) / of_nat b \<le> 1"
  by (auto simp: divide_le_eq_1)

text \<open>A count over a list: \<open>sum(1 for x in xs if p x)\<close>.\<close>

definition count_if :: "('a \<Rightarrow> bool) \<Rightarrow> 'a list \<Rightarrow> nat" where
  "count_if p xs = length (filter p xs)"

lemma count_if_le: "count_if p xs \<le> length xs"
  by (simp add: count_if_def)

lemma count_if_mono: "(\<And>x. x \<in> set xs \<Longrightarrow> p x \<Longrightarrow> q x) \<Longrightarrow> count_if p xs \<le> count_if q xs"
  by (induction xs) (auto simp: count_if_def)

lemma count_if_mset: "mset xs = mset ys \<Longrightarrow> count_if p xs = count_if p ys"
  by (metis count_if_def mset_filter size_mset)

subsection \<open>Strings\<close>

definition starts_with :: "string \<Rightarrow> string \<Rightarrow> bool" where
  "starts_with s p \<longleftrightarrow> take (length p) s = p"

definition lower_char :: "char \<Rightarrow> char" where
  "lower_char c = (if of_char c \<ge> (65 :: nat) \<and> of_char c \<le> (90 :: nat) then char_of (of_char c + 32 :: nat) else c)"

text \<open>\<open>str.lower\<close> and \<open>str.casefold\<close> on ASCII letters; other characters are left alone.\<close>

definition lower :: "string \<Rightarrow> string" where
  "lower s = map lower_char s"

fun split_on :: "char \<Rightarrow> string \<Rightarrow> string list" where
  "split_on c [] = [[]]"
| "split_on c (x # xs) =
     (if x = c then [] # split_on c xs
      else (case split_on c xs of [] \<Rightarrow> [[x]] | y # ys \<Rightarrow> (x # y) # ys))"

text \<open>\<open>s.split(c, 1)\<close>: what is left of the first \<open>c\<close>, and what is right of it, if any.\<close>

definition split_first :: "char \<Rightarrow> string \<Rightarrow> string \<times> string option" where
  "split_first c s =
     (takeWhile (\<lambda>x. x \<noteq> c) s,
      case dropWhile (\<lambda>x. x \<noteq> c) s of [] \<Rightarrow> None | _ # r \<Rightarrow> Some r)"

definition is_space :: "char \<Rightarrow> bool" where
  "is_space c \<longleftrightarrow> (of_char c :: nat) \<in> {9, 10, 11, 12, 13, 28, 29, 30, 31, 32}"

definition strip :: "string \<Rightarrow> string" where
  "strip s = rev (dropWhile is_space (rev (dropWhile is_space s)))"

definition is_digit :: "char \<Rightarrow> bool" where
  "is_digit c \<longleftrightarrow> (48 :: nat) \<le> of_char c \<and> of_char c \<le> (57 :: nat)"

definition digit_val :: "char \<Rightarrow> nat" where
  "digit_val c = of_char c - 48"

fun digits_val :: "nat \<Rightarrow> string \<Rightarrow> nat" where
  "digits_val n [] = n"
| "digits_val n (c # cs) = digits_val (10 * n + digit_val c) cs"

text \<open>The base-10 literals \<open>int()\<close> accepts: surrounding white space, a sign, and groups of
  digits joined by single underscores.\<close>

definition digit_groups :: "string \<Rightarrow> bool" where
  "digit_groups s \<longleftrightarrow> list_all (\<lambda>g. g \<noteq> [] \<and> list_all is_digit g) (split_on (CHR ''_'') s)"

definition parse_nat :: "string \<Rightarrow> nat option" where
  "parse_nat s =
     (if digit_groups s then Some (digits_val 0 (filter is_digit s)) else None)"

definition parse_int :: "string \<Rightarrow> int option" where
  "parse_int s =
     (case strip s of
        [] \<Rightarrow> None
      | c # cs \<Rightarrow>
          if c = CHR ''-'' then map_option (\<lambda>n. - int n) (parse_nat cs)
          else if c = CHR ''+'' then map_option int (parse_nat cs)
          else map_option int (parse_nat (c # cs)))"

fun nat_str :: "nat \<Rightarrow> string" where
  "nat_str n = (if n < 10 then [char_of (48 + n)] else nat_str (n div 10) @ [char_of (48 + n mod 10)])"

declare nat_str.simps [simp del]

definition int_str :: "int \<Rightarrow> string" where
  "int_str i = (if i < 0 then CHR ''-'' # nat_str (nat (- i)) else nat_str (nat i))"

text \<open>\<open>s.startswith\<close> and \<open>removeprefix\<close> undo a concatenation.\<close>

lemma starts_with_append [simp]: "starts_with (p @ s) p"
  by (simp add: starts_with_def)

lemma drop_prefix_append [simp]: "drop (length p) (p @ s) = s"
  by simp

subsection \<open>Sorting and sets of strings\<close>

text \<open>\<open>sorted(set(xs))\<close>.\<close>

definition sorted_set :: "'a::linorder list \<Rightarrow> 'a list" where
  "sorted_set xs = sort (remdups xs)"

lemma set_sorted_set [simp]: "set (sorted_set xs) = set xs"
  by (simp add: sorted_set_def)

lemma sorted_sorted_set [simp]: "sorted (sorted_set xs)"
  by (simp add: sorted_set_def)

lemma distinct_sorted_set [simp]: "distinct (sorted_set xs)"
  by (simp add: sorted_set_def)

lemma sorted_set_eq_Nil [simp]: "sorted_set xs = [] \<longleftrightarrow> xs = []"
  by (metis set_empty set_sorted_set)

lemma sorted_set_cong: "set xs = set ys \<Longrightarrow> sorted_set xs = sorted_set ys"
  by (metis distinct_sorted_set set_sorted_set sorted_distinct_set_unique sorted_sorted_set)

text \<open>\<open>max(xs, key=f)\<close>: the first element of the largest key.\<close>

fun max_by :: "('a \<Rightarrow> 'b::linorder) \<Rightarrow> 'a \<Rightarrow> 'a list \<Rightarrow> 'a" where
  "max_by f best [] = best"
| "max_by f best (x # xs) = max_by f (if f x > f best then x else best) xs"

lemma max_by_in: "max_by f b xs \<in> insert b (set xs)"
  by (induction xs arbitrary: b) auto

lemma max_by_ge: "x \<in> insert b (set xs) \<Longrightarrow> f x \<le> f (max_by f b xs)"
proof (induction xs arbitrary: b x)
  case Nil
  then show ?case by simp
next
  case (Cons y ys)
  let ?b = "if f y > f b then y else b"
  have "f ?b \<le> f (max_by f ?b ys)" by (rule Cons.IH) simp
  moreover have "x \<in> set ys \<Longrightarrow> f x \<le> f (max_by f ?b ys)" by (rule Cons.IH) simp
  ultimately show ?case using Cons.prems by (auto split: if_splits)
qed

text \<open>The elements at the chosen positions, in the order of the list:
  \<open>[c for i, c in enumerate(pool) if i in chosen]\<close>.\<close>

lemma nths_subseq: "subseq (nths xs A) xs"
  by (induction xs arbitrary: A) (auto simp: nths_Cons)

end
