(* ===== verification/Enums.thy ===== *)
theory Enums
  imports Prelude
begin

section \<open>The closed enums of the schemas\<close>

text \<open>
  Every \<^verbatim>\<open>StrEnum\<close> of \<^verbatim>\<open>schemas/enums.py\<close>, \<^verbatim>\<open>schemas/job.py\<close> and \<^verbatim>\<open>graders/base.py\<close>: a
  datatype with the source's members, the string each member is stored as, and the lookup by
  value that \<^verbatim>\<open>Role("viewer")\<close> performs (\<open>enum_of\<close>).  The locale \<open>str_enum\<close> states what
  makes such an enum storable - every member is listed and no two share a string - and proves
  once that reading a stored value back gives the member that was written.
\<close>

subsection \<open>The interface of an enum\<close>

text \<open>The lookup by value: a \<^verbatim>\<open>ValueError\<close> for a string that is no member's.\<close>

definition enum_of :: "('e \<Rightarrow> string) \<Rightarrow> 'e list \<Rightarrow> string \<Rightarrow> 'e result" where
  "enum_of val members s =
     (case find (\<lambda>x. val x = s) members of None \<Rightarrow> Inl ValueError | Some x \<Rightarrow> Inr x)"

lemma enum_of_InrD: "enum_of val members s = Inr x \<Longrightarrow> val x = s \<and> x \<in> set members"
  by (auto simp: enum_of_def find_Some_iff split: option.splits)

locale str_enum =
  fixes val :: "'e \<Rightarrow> string"
    and members :: "'e list"
  assumes all_listed: "x \<in> set members"
    and distinct_vals: "distinct (map val members)"
begin

lemma val_inj: "val x = val y \<Longrightarrow> x = y"
  using distinct_vals all_listed by (auto simp: distinct_map inj_on_def)

lemma of_value: "enum_of val members (val x) = Inr x"
proof -
  have "find (\<lambda>y. val y = val x) members \<noteq> None"
    using all_listed by (auto simp: find_None_iff)
  then obtain y where "find (\<lambda>y. val y = val x) members = Some y" by blast
  moreover from this have "val y = val x" by (auto simp: find_Some_iff)
  ultimately show ?thesis by (auto simp: enum_of_def dest: val_inj)
qed

lemma of_value_iff: "enum_of val members s = Inr x \<longleftrightarrow> s = val x"
  by (auto simp: of_value dest: enum_of_InrD)

lemma of_value_error: "enum_of val members s = Inl e \<longleftrightarrow> e = ValueError \<and> s \<notin> range val"
  using all_listed
  by (auto simp: enum_of_def find_None_iff find_Some_iff split: option.splits)

text \<open>A stored list of members reads back as it was written.\<close>

lemma map_of_value: "map_result (enum_of val members) (map val xs) = Inr xs"
  by (induction xs) (simp_all add: of_value)

end

subsection \<open>schemas/enums.py\<close>

datatype Role =
    VIEWER
  | EVALUATOR
  | EXPERIMENTER
  | MAINTAINER
  | ADMIN
  | AUDITOR

primrec Role_value :: "Role \<Rightarrow> string" where
  "Role_value Role.VIEWER = ''viewer''"
| "Role_value Role.EVALUATOR = ''evaluator''"
| "Role_value Role.EXPERIMENTER = ''experimenter''"
| "Role_value Role.MAINTAINER = ''maintainer''"
| "Role_value Role.ADMIN = ''admin''"
| "Role_value Role.AUDITOR = ''auditor''"

definition Role_members :: "Role list" where
  "Role_members = [Role.VIEWER, Role.EVALUATOR, Role.EXPERIMENTER, Role.MAINTAINER, Role.ADMIN, Role.AUDITOR]"

interpretation Role_enum: str_enum Role_value Role_members
proof unfold_locales
  fix x :: Role
  show "x \<in> set Role_members" by (cases x) (simp_all add: Role_members_def)
next
  show "distinct (map Role_value Role_members)" by (simp add: Role_members_def)
qed

datatype Level =
    SINGLE_STEP
  | MULTI_STEP
  | FINAL_RESPONSE
  | STEP_LEVEL
  | TOOL_CALL
  | RETRIEVAL
  | MEMORY_CONTEXT
  | WORKFLOW
  | TRAJECTORY
  | CONVERSATION
  | SYSTEM
  | AGENT

primrec Level_value :: "Level \<Rightarrow> string" where
  "Level_value Level.SINGLE_STEP = ''single_step''"
| "Level_value Level.MULTI_STEP = ''multi_step''"
| "Level_value Level.FINAL_RESPONSE = ''final_response''"
| "Level_value Level.STEP_LEVEL = ''step_level''"
| "Level_value Level.TOOL_CALL = ''tool_call''"
| "Level_value Level.RETRIEVAL = ''retrieval''"
| "Level_value Level.MEMORY_CONTEXT = ''memory_context''"
| "Level_value Level.WORKFLOW = ''workflow''"
| "Level_value Level.TRAJECTORY = ''trajectory''"
| "Level_value Level.CONVERSATION = ''conversation''"
| "Level_value Level.SYSTEM = ''system''"
| "Level_value Level.AGENT = ''agent''"

definition Level_members :: "Level list" where
  "Level_members = [Level.SINGLE_STEP, Level.MULTI_STEP, Level.FINAL_RESPONSE, Level.STEP_LEVEL, Level.TOOL_CALL, Level.RETRIEVAL, Level.MEMORY_CONTEXT, Level.WORKFLOW, Level.TRAJECTORY, Level.CONVERSATION, Level.SYSTEM, Level.AGENT]"

interpretation Level_enum: str_enum Level_value Level_members
proof unfold_locales
  fix x :: Level
  show "x \<in> set Level_members" by (cases x) (simp_all add: Level_members_def)
next
  show "distinct (map Level_value Level_members)" by (simp add: Level_members_def)
qed

datatype DatasetSource =
    HANDCRAFTED
  | PRODUCTION
  | STAGING
  | DEVELOPMENT
  | FAILURE
  | SYNTHETIC
  | ADVERSARIAL
  | HUMAN_LABELED
  | EXTERNAL_BENCHMARK
  | SIMULATION
  | CUSTOM

primrec DatasetSource_value :: "DatasetSource \<Rightarrow> string" where
  "DatasetSource_value DatasetSource.HANDCRAFTED = ''handcrafted''"
| "DatasetSource_value DatasetSource.PRODUCTION = ''production''"
| "DatasetSource_value DatasetSource.STAGING = ''staging''"
| "DatasetSource_value DatasetSource.DEVELOPMENT = ''development''"
| "DatasetSource_value DatasetSource.FAILURE = ''failure''"
| "DatasetSource_value DatasetSource.SYNTHETIC = ''synthetic''"
| "DatasetSource_value DatasetSource.ADVERSARIAL = ''adversarial''"
| "DatasetSource_value DatasetSource.HUMAN_LABELED = ''human_labeled''"
| "DatasetSource_value DatasetSource.EXTERNAL_BENCHMARK = ''external_benchmark''"
| "DatasetSource_value DatasetSource.SIMULATION = ''simulation''"
| "DatasetSource_value DatasetSource.CUSTOM = ''custom''"

definition DatasetSource_members :: "DatasetSource list" where
  "DatasetSource_members = [DatasetSource.HANDCRAFTED, DatasetSource.PRODUCTION, DatasetSource.STAGING, DatasetSource.DEVELOPMENT, DatasetSource.FAILURE, DatasetSource.SYNTHETIC, DatasetSource.ADVERSARIAL, DatasetSource.HUMAN_LABELED, DatasetSource.EXTERNAL_BENCHMARK, DatasetSource.SIMULATION, DatasetSource.CUSTOM]"

interpretation DatasetSource_enum: str_enum DatasetSource_value DatasetSource_members
proof unfold_locales
  fix x :: DatasetSource
  show "x \<in> set DatasetSource_members" by (cases x) (simp_all add: DatasetSource_members_def)
next
  show "distinct (map DatasetSource_value DatasetSource_members)" by (simp add: DatasetSource_members_def)
qed

datatype GroundTruthMethod =
    EXACT_MATCH
  | SCHEMA_VALIDATION
  | DETERMINISTIC_ASSERTION
  | REFERENCE_ANSWER
  | RUBRIC
  | PAIRWISE_PREFERENCE
  | OUTCOME_BASED
  | HUMAN_JUDGMENT
  | LLM_JUDGE
  | HYBRID

primrec GroundTruthMethod_value :: "GroundTruthMethod \<Rightarrow> string" where
  "GroundTruthMethod_value GroundTruthMethod.EXACT_MATCH = ''exact_match''"
| "GroundTruthMethod_value GroundTruthMethod.SCHEMA_VALIDATION = ''schema_validation''"
| "GroundTruthMethod_value GroundTruthMethod.DETERMINISTIC_ASSERTION = ''deterministic_assertion''"
| "GroundTruthMethod_value GroundTruthMethod.REFERENCE_ANSWER = ''reference_answer''"
| "GroundTruthMethod_value GroundTruthMethod.RUBRIC = ''rubric''"
| "GroundTruthMethod_value GroundTruthMethod.PAIRWISE_PREFERENCE = ''pairwise_preference''"
| "GroundTruthMethod_value GroundTruthMethod.OUTCOME_BASED = ''outcome_based''"
| "GroundTruthMethod_value GroundTruthMethod.HUMAN_JUDGMENT = ''human_judgment''"
| "GroundTruthMethod_value GroundTruthMethod.LLM_JUDGE = ''llm_judge''"
| "GroundTruthMethod_value GroundTruthMethod.HYBRID = ''hybrid''"

definition GroundTruthMethod_members :: "GroundTruthMethod list" where
  "GroundTruthMethod_members = [GroundTruthMethod.EXACT_MATCH, GroundTruthMethod.SCHEMA_VALIDATION, GroundTruthMethod.DETERMINISTIC_ASSERTION, GroundTruthMethod.REFERENCE_ANSWER, GroundTruthMethod.RUBRIC, GroundTruthMethod.PAIRWISE_PREFERENCE, GroundTruthMethod.OUTCOME_BASED, GroundTruthMethod.HUMAN_JUDGMENT, GroundTruthMethod.LLM_JUDGE, GroundTruthMethod.HYBRID]"

interpretation GroundTruthMethod_enum: str_enum GroundTruthMethod_value GroundTruthMethod_members
proof unfold_locales
  fix x :: GroundTruthMethod
  show "x \<in> set GroundTruthMethod_members" by (cases x) (simp_all add: GroundTruthMethod_members_def)
next
  show "distinct (map GroundTruthMethod_value GroundTruthMethod_members)" by (simp add: GroundTruthMethod_members_def)
qed

datatype DatasetType =
    SMOKE
  | GOLDEN
  | REGRESSION
  | CAPABILITY
  | PRODUCTION_SAMPLE
  | ADVERSARIAL_SAFETY
  | CALIBRATION
  | INCIDENT_QUEUE

primrec DatasetType_value :: "DatasetType \<Rightarrow> string" where
  "DatasetType_value DatasetType.SMOKE = ''smoke''"
| "DatasetType_value DatasetType.GOLDEN = ''golden''"
| "DatasetType_value DatasetType.REGRESSION = ''regression''"
| "DatasetType_value DatasetType.CAPABILITY = ''capability''"
| "DatasetType_value DatasetType.PRODUCTION_SAMPLE = ''production_sample''"
| "DatasetType_value DatasetType.ADVERSARIAL_SAFETY = ''adversarial_safety''"
| "DatasetType_value DatasetType.CALIBRATION = ''calibration''"
| "DatasetType_value DatasetType.INCIDENT_QUEUE = ''incident_queue''"

definition DatasetType_members :: "DatasetType list" where
  "DatasetType_members = [DatasetType.SMOKE, DatasetType.GOLDEN, DatasetType.REGRESSION, DatasetType.CAPABILITY, DatasetType.PRODUCTION_SAMPLE, DatasetType.ADVERSARIAL_SAFETY, DatasetType.CALIBRATION, DatasetType.INCIDENT_QUEUE]"

interpretation DatasetType_enum: str_enum DatasetType_value DatasetType_members
proof unfold_locales
  fix x :: DatasetType
  show "x \<in> set DatasetType_members" by (cases x) (simp_all add: DatasetType_members_def)
next
  show "distinct (map DatasetType_value DatasetType_members)" by (simp add: DatasetType_members_def)
qed

datatype SandboxMode =
    MOCK
  | DRY_RUN
  | LIVE_SANDBOXED
  | LIVE_CANARY

primrec SandboxMode_value :: "SandboxMode \<Rightarrow> string" where
  "SandboxMode_value SandboxMode.MOCK = ''mock''"
| "SandboxMode_value SandboxMode.DRY_RUN = ''dry_run''"
| "SandboxMode_value SandboxMode.LIVE_SANDBOXED = ''live_sandboxed''"
| "SandboxMode_value SandboxMode.LIVE_CANARY = ''live_canary''"

definition SandboxMode_members :: "SandboxMode list" where
  "SandboxMode_members = [SandboxMode.MOCK, SandboxMode.DRY_RUN, SandboxMode.LIVE_SANDBOXED, SandboxMode.LIVE_CANARY]"

interpretation SandboxMode_enum: str_enum SandboxMode_value SandboxMode_members
proof unfold_locales
  fix x :: SandboxMode
  show "x \<in> set SandboxMode_members" by (cases x) (simp_all add: SandboxMode_members_def)
next
  show "distinct (map SandboxMode_value SandboxMode_members)" by (simp add: SandboxMode_members_def)
qed

datatype RuntimeLocation =
    OFFLINE
  | REPLAY
  | SIMULATION
  | SHADOW
  | CANARY
  | ONLINE
  | HUMAN_REVIEW

primrec RuntimeLocation_value :: "RuntimeLocation \<Rightarrow> string" where
  "RuntimeLocation_value RuntimeLocation.OFFLINE = ''offline''"
| "RuntimeLocation_value RuntimeLocation.REPLAY = ''replay''"
| "RuntimeLocation_value RuntimeLocation.SIMULATION = ''simulation''"
| "RuntimeLocation_value RuntimeLocation.SHADOW = ''shadow''"
| "RuntimeLocation_value RuntimeLocation.CANARY = ''canary''"
| "RuntimeLocation_value RuntimeLocation.ONLINE = ''online''"
| "RuntimeLocation_value RuntimeLocation.HUMAN_REVIEW = ''human_review''"

definition RuntimeLocation_members :: "RuntimeLocation list" where
  "RuntimeLocation_members = [RuntimeLocation.OFFLINE, RuntimeLocation.REPLAY, RuntimeLocation.SIMULATION, RuntimeLocation.SHADOW, RuntimeLocation.CANARY, RuntimeLocation.ONLINE, RuntimeLocation.HUMAN_REVIEW]"

interpretation RuntimeLocation_enum: str_enum RuntimeLocation_value RuntimeLocation_members
proof unfold_locales
  fix x :: RuntimeLocation
  show "x \<in> set RuntimeLocation_members" by (cases x) (simp_all add: RuntimeLocation_members_def)
next
  show "distinct (map RuntimeLocation_value RuntimeLocation_members)" by (simp add: RuntimeLocation_members_def)
qed

datatype Mode =
    AGENT_LOOP
  | HANDOFF

primrec Mode_value :: "Mode \<Rightarrow> string" where
  "Mode_value Mode.AGENT_LOOP = ''agent_loop''"
| "Mode_value Mode.HANDOFF = ''handoff''"

definition Mode_members :: "Mode list" where
  "Mode_members = [Mode.AGENT_LOOP, Mode.HANDOFF]"

interpretation Mode_enum: str_enum Mode_value Mode_members
proof unfold_locales
  fix x :: Mode
  show "x \<in> set Mode_members" by (cases x) (simp_all add: Mode_members_def)
next
  show "distinct (map Mode_value Mode_members)" by (simp add: Mode_members_def)
qed

datatype ProposerStrategy =
    MANUAL
  | GRID
  | RANDOM
  | BAYESIAN
  | BANDIT
  | EVOLUTIONARY
  | LLM_PROPOSER

primrec ProposerStrategy_value :: "ProposerStrategy \<Rightarrow> string" where
  "ProposerStrategy_value ProposerStrategy.MANUAL = ''manual''"
| "ProposerStrategy_value ProposerStrategy.GRID = ''grid''"
| "ProposerStrategy_value ProposerStrategy.RANDOM = ''random''"
| "ProposerStrategy_value ProposerStrategy.BAYESIAN = ''bayesian''"
| "ProposerStrategy_value ProposerStrategy.BANDIT = ''bandit''"
| "ProposerStrategy_value ProposerStrategy.EVOLUTIONARY = ''evolutionary''"
| "ProposerStrategy_value ProposerStrategy.LLM_PROPOSER = ''llm_proposer''"

definition ProposerStrategy_members :: "ProposerStrategy list" where
  "ProposerStrategy_members = [ProposerStrategy.MANUAL, ProposerStrategy.GRID, ProposerStrategy.RANDOM, ProposerStrategy.BAYESIAN, ProposerStrategy.BANDIT, ProposerStrategy.EVOLUTIONARY, ProposerStrategy.LLM_PROPOSER]"

interpretation ProposerStrategy_enum: str_enum ProposerStrategy_value ProposerStrategy_members
proof unfold_locales
  fix x :: ProposerStrategy
  show "x \<in> set ProposerStrategy_members" by (cases x) (simp_all add: ProposerStrategy_members_def)
next
  show "distinct (map ProposerStrategy_value ProposerStrategy_members)" by (simp add: ProposerStrategy_members_def)
qed

datatype ExperimentState =
    DRAFT
  | QUEUED
  | RUNNING
  | PAUSED
  | COMPLETED
  | ABORTED
  | SUPERSEDED

primrec ExperimentState_value :: "ExperimentState \<Rightarrow> string" where
  "ExperimentState_value ExperimentState.DRAFT = ''draft''"
| "ExperimentState_value ExperimentState.QUEUED = ''queued''"
| "ExperimentState_value ExperimentState.RUNNING = ''running''"
| "ExperimentState_value ExperimentState.PAUSED = ''paused''"
| "ExperimentState_value ExperimentState.COMPLETED = ''completed''"
| "ExperimentState_value ExperimentState.ABORTED = ''aborted''"
| "ExperimentState_value ExperimentState.SUPERSEDED = ''superseded''"

definition ExperimentState_members :: "ExperimentState list" where
  "ExperimentState_members = [ExperimentState.DRAFT, ExperimentState.QUEUED, ExperimentState.RUNNING, ExperimentState.PAUSED, ExperimentState.COMPLETED, ExperimentState.ABORTED, ExperimentState.SUPERSEDED]"

interpretation ExperimentState_enum: str_enum ExperimentState_value ExperimentState_members
proof unfold_locales
  fix x :: ExperimentState
  show "x \<in> set ExperimentState_members" by (cases x) (simp_all add: ExperimentState_members_def)
next
  show "distinct (map ExperimentState_value ExperimentState_members)" by (simp add: ExperimentState_members_def)
qed

datatype FailureModeStatus =
    CANDIDATE
  | OFFICIAL
  | RETIRED

primrec FailureModeStatus_value :: "FailureModeStatus \<Rightarrow> string" where
  "FailureModeStatus_value FailureModeStatus.CANDIDATE = ''candidate''"
| "FailureModeStatus_value FailureModeStatus.OFFICIAL = ''official''"
| "FailureModeStatus_value FailureModeStatus.RETIRED = ''retired''"

definition FailureModeStatus_members :: "FailureModeStatus list" where
  "FailureModeStatus_members = [FailureModeStatus.CANDIDATE, FailureModeStatus.OFFICIAL, FailureModeStatus.RETIRED]"

interpretation FailureModeStatus_enum: str_enum FailureModeStatus_value FailureModeStatus_members
proof unfold_locales
  fix x :: FailureModeStatus
  show "x \<in> set FailureModeStatus_members" by (cases x) (simp_all add: FailureModeStatus_members_def)
next
  show "distinct (map FailureModeStatus_value FailureModeStatus_members)" by (simp add: FailureModeStatus_members_def)
qed

datatype SpanKind =
    AGENT_TURN
  | LLM_CALL
  | TOOL_CALL
  | RETRIEVAL
  | MEMORY_READ
  | MEMORY_WRITE
  | DECISION
  | HANDOFF
  | HUMAN_INTERVENTION
  | GUARDRAIL_CHECK
  | STT
  | TTS
  | ERROR
  | CUSTOM

primrec SpanKind_value :: "SpanKind \<Rightarrow> string" where
  "SpanKind_value SpanKind.AGENT_TURN = ''agent_turn''"
| "SpanKind_value SpanKind.LLM_CALL = ''llm_call''"
| "SpanKind_value SpanKind.TOOL_CALL = ''tool_call''"
| "SpanKind_value SpanKind.RETRIEVAL = ''retrieval''"
| "SpanKind_value SpanKind.MEMORY_READ = ''memory_read''"
| "SpanKind_value SpanKind.MEMORY_WRITE = ''memory_write''"
| "SpanKind_value SpanKind.DECISION = ''decision''"
| "SpanKind_value SpanKind.HANDOFF = ''handoff''"
| "SpanKind_value SpanKind.HUMAN_INTERVENTION = ''human_intervention''"
| "SpanKind_value SpanKind.GUARDRAIL_CHECK = ''guardrail_check''"
| "SpanKind_value SpanKind.STT = ''stt''"
| "SpanKind_value SpanKind.TTS = ''tts''"
| "SpanKind_value SpanKind.ERROR = ''error''"
| "SpanKind_value SpanKind.CUSTOM = ''custom''"

definition SpanKind_members :: "SpanKind list" where
  "SpanKind_members = [SpanKind.AGENT_TURN, SpanKind.LLM_CALL, SpanKind.TOOL_CALL, SpanKind.RETRIEVAL, SpanKind.MEMORY_READ, SpanKind.MEMORY_WRITE, SpanKind.DECISION, SpanKind.HANDOFF, SpanKind.HUMAN_INTERVENTION, SpanKind.GUARDRAIL_CHECK, SpanKind.STT, SpanKind.TTS, SpanKind.ERROR, SpanKind.CUSTOM]"

interpretation SpanKind_enum: str_enum SpanKind_value SpanKind_members
proof unfold_locales
  fix x :: SpanKind
  show "x \<in> set SpanKind_members" by (cases x) (simp_all add: SpanKind_members_def)
next
  show "distinct (map SpanKind_value SpanKind_members)" by (simp add: SpanKind_members_def)
qed

datatype StopReason =
    END_TURN
  | TOOL_USE
  | MAX_TOKENS
  | STOP_SEQUENCE
  | PAUSE_TURN
  | REFUSAL
  | ERROR

primrec StopReason_value :: "StopReason \<Rightarrow> string" where
  "StopReason_value StopReason.END_TURN = ''end_turn''"
| "StopReason_value StopReason.TOOL_USE = ''tool_use''"
| "StopReason_value StopReason.MAX_TOKENS = ''max_tokens''"
| "StopReason_value StopReason.STOP_SEQUENCE = ''stop_sequence''"
| "StopReason_value StopReason.PAUSE_TURN = ''pause_turn''"
| "StopReason_value StopReason.REFUSAL = ''refusal''"
| "StopReason_value StopReason.ERROR = ''error''"

definition StopReason_members :: "StopReason list" where
  "StopReason_members = [StopReason.END_TURN, StopReason.TOOL_USE, StopReason.MAX_TOKENS, StopReason.STOP_SEQUENCE, StopReason.PAUSE_TURN, StopReason.REFUSAL, StopReason.ERROR]"

interpretation StopReason_enum: str_enum StopReason_value StopReason_members
proof unfold_locales
  fix x :: StopReason
  show "x \<in> set StopReason_members" by (cases x) (simp_all add: StopReason_members_def)
next
  show "distinct (map StopReason_value StopReason_members)" by (simp add: StopReason_members_def)
qed

datatype TraceState =
    COMPLETED
  | ERRORED
  | TIMEOUT
  | ABORTED

primrec TraceState_value :: "TraceState \<Rightarrow> string" where
  "TraceState_value TraceState.COMPLETED = ''completed''"
| "TraceState_value TraceState.ERRORED = ''errored''"
| "TraceState_value TraceState.TIMEOUT = ''timeout''"
| "TraceState_value TraceState.ABORTED = ''aborted''"

definition TraceState_members :: "TraceState list" where
  "TraceState_members = [TraceState.COMPLETED, TraceState.ERRORED, TraceState.TIMEOUT, TraceState.ABORTED]"

interpretation TraceState_enum: str_enum TraceState_value TraceState_members
proof unfold_locales
  fix x :: TraceState
  show "x \<in> set TraceState_members" by (cases x) (simp_all add: TraceState_members_def)
next
  show "distinct (map TraceState_value TraceState_members)" by (simp add: TraceState_members_def)
qed

datatype ToolCallStatus =
    OK
  | ERROR
  | TIMEOUT

primrec ToolCallStatus_value :: "ToolCallStatus \<Rightarrow> string" where
  "ToolCallStatus_value ToolCallStatus.OK = ''ok''"
| "ToolCallStatus_value ToolCallStatus.ERROR = ''error''"
| "ToolCallStatus_value ToolCallStatus.TIMEOUT = ''timeout''"

definition ToolCallStatus_members :: "ToolCallStatus list" where
  "ToolCallStatus_members = [ToolCallStatus.OK, ToolCallStatus.ERROR, ToolCallStatus.TIMEOUT]"

interpretation ToolCallStatus_enum: str_enum ToolCallStatus_value ToolCallStatus_members
proof unfold_locales
  fix x :: ToolCallStatus
  show "x \<in> set ToolCallStatus_members" by (cases x) (simp_all add: ToolCallStatus_members_def)
next
  show "distinct (map ToolCallStatus_value ToolCallStatus_members)" by (simp add: ToolCallStatus_members_def)
qed

datatype PIIStatus =
    RAW
  | DETECTED
  | SCRUBBED
  | SYNTHETIC
  | APPROVED_RAW

primrec PIIStatus_value :: "PIIStatus \<Rightarrow> string" where
  "PIIStatus_value PIIStatus.RAW = ''raw''"
| "PIIStatus_value PIIStatus.DETECTED = ''detected''"
| "PIIStatus_value PIIStatus.SCRUBBED = ''scrubbed''"
| "PIIStatus_value PIIStatus.SYNTHETIC = ''synthetic''"
| "PIIStatus_value PIIStatus.APPROVED_RAW = ''approved_raw''"

definition PIIStatus_members :: "PIIStatus list" where
  "PIIStatus_members = [PIIStatus.RAW, PIIStatus.DETECTED, PIIStatus.SCRUBBED, PIIStatus.SYNTHETIC, PIIStatus.APPROVED_RAW]"

interpretation PIIStatus_enum: str_enum PIIStatus_value PIIStatus_members
proof unfold_locales
  fix x :: PIIStatus
  show "x \<in> set PIIStatus_members" by (cases x) (simp_all add: PIIStatus_members_def)
next
  show "distinct (map PIIStatus_value PIIStatus_members)" by (simp add: PIIStatus_members_def)
qed

datatype FeatureKind =
    PRODUCT_FEATURE
  | AGENT_CAPABILITY
  | SYSTEM_CAPABILITY
  | SAFETY_CAPABILITY

primrec FeatureKind_value :: "FeatureKind \<Rightarrow> string" where
  "FeatureKind_value FeatureKind.PRODUCT_FEATURE = ''product_feature''"
| "FeatureKind_value FeatureKind.AGENT_CAPABILITY = ''agent_capability''"
| "FeatureKind_value FeatureKind.SYSTEM_CAPABILITY = ''system_capability''"
| "FeatureKind_value FeatureKind.SAFETY_CAPABILITY = ''safety_capability''"

definition FeatureKind_members :: "FeatureKind list" where
  "FeatureKind_members = [FeatureKind.PRODUCT_FEATURE, FeatureKind.AGENT_CAPABILITY, FeatureKind.SYSTEM_CAPABILITY, FeatureKind.SAFETY_CAPABILITY]"

interpretation FeatureKind_enum: str_enum FeatureKind_value FeatureKind_members
proof unfold_locales
  fix x :: FeatureKind
  show "x \<in> set FeatureKind_members" by (cases x) (simp_all add: FeatureKind_members_def)
next
  show "distinct (map FeatureKind_value FeatureKind_members)" by (simp add: FeatureKind_members_def)
qed

datatype FeatureStatus =
    PROPOSED
  | ACTIVE
  | DEPRECATED
  | REMOVED

primrec FeatureStatus_value :: "FeatureStatus \<Rightarrow> string" where
  "FeatureStatus_value FeatureStatus.PROPOSED = ''proposed''"
| "FeatureStatus_value FeatureStatus.ACTIVE = ''active''"
| "FeatureStatus_value FeatureStatus.DEPRECATED = ''deprecated''"
| "FeatureStatus_value FeatureStatus.REMOVED = ''removed''"

definition FeatureStatus_members :: "FeatureStatus list" where
  "FeatureStatus_members = [FeatureStatus.PROPOSED, FeatureStatus.ACTIVE, FeatureStatus.DEPRECATED, FeatureStatus.REMOVED]"

interpretation FeatureStatus_enum: str_enum FeatureStatus_value FeatureStatus_members
proof unfold_locales
  fix x :: FeatureStatus
  show "x \<in> set FeatureStatus_members" by (cases x) (simp_all add: FeatureStatus_members_def)
next
  show "distinct (map FeatureStatus_value FeatureStatus_members)" by (simp add: FeatureStatus_members_def)
qed

datatype AgentType =
    SYSTEM_PROMPT
  | GRAPH
  | HANDOFF

primrec AgentType_value :: "AgentType \<Rightarrow> string" where
  "AgentType_value AgentType.SYSTEM_PROMPT = ''system_prompt''"
| "AgentType_value AgentType.GRAPH = ''graph''"
| "AgentType_value AgentType.HANDOFF = ''handoff''"

definition AgentType_members :: "AgentType list" where
  "AgentType_members = [AgentType.SYSTEM_PROMPT, AgentType.GRAPH, AgentType.HANDOFF]"

interpretation AgentType_enum: str_enum AgentType_value AgentType_members
proof unfold_locales
  fix x :: AgentType
  show "x \<in> set AgentType_members" by (cases x) (simp_all add: AgentType_members_def)
next
  show "distinct (map AgentType_value AgentType_members)" by (simp add: AgentType_members_def)
qed

datatype AgentStatus =
    DRAFT
  | ACTIVE
  | TESTING
  | PRODUCTION
  | DEPRECATED

primrec AgentStatus_value :: "AgentStatus \<Rightarrow> string" where
  "AgentStatus_value AgentStatus.DRAFT = ''draft''"
| "AgentStatus_value AgentStatus.ACTIVE = ''active''"
| "AgentStatus_value AgentStatus.TESTING = ''testing''"
| "AgentStatus_value AgentStatus.PRODUCTION = ''production''"
| "AgentStatus_value AgentStatus.DEPRECATED = ''deprecated''"

definition AgentStatus_members :: "AgentStatus list" where
  "AgentStatus_members = [AgentStatus.DRAFT, AgentStatus.ACTIVE, AgentStatus.TESTING, AgentStatus.PRODUCTION, AgentStatus.DEPRECATED]"

interpretation AgentStatus_enum: str_enum AgentStatus_value AgentStatus_members
proof unfold_locales
  fix x :: AgentStatus
  show "x \<in> set AgentStatus_members" by (cases x) (simp_all add: AgentStatus_members_def)
next
  show "distinct (map AgentStatus_value AgentStatus_members)" by (simp add: AgentStatus_members_def)
qed

datatype FleetStatus =
    DRAFT
  | ACTIVE
  | ARCHIVED

primrec FleetStatus_value :: "FleetStatus \<Rightarrow> string" where
  "FleetStatus_value FleetStatus.DRAFT = ''draft''"
| "FleetStatus_value FleetStatus.ACTIVE = ''active''"
| "FleetStatus_value FleetStatus.ARCHIVED = ''archived''"

definition FleetStatus_members :: "FleetStatus list" where
  "FleetStatus_members = [FleetStatus.DRAFT, FleetStatus.ACTIVE, FleetStatus.ARCHIVED]"

interpretation FleetStatus_enum: str_enum FleetStatus_value FleetStatus_members
proof unfold_locales
  fix x :: FleetStatus
  show "x \<in> set FleetStatus_members" by (cases x) (simp_all add: FleetStatus_members_def)
next
  show "distinct (map FleetStatus_value FleetStatus_members)" by (simp add: FleetStatus_members_def)
qed

datatype DatasetStatus =
    DRAFT
  | FROZEN
  | ACTIVE
  | ARCHIVED

primrec DatasetStatus_value :: "DatasetStatus \<Rightarrow> string" where
  "DatasetStatus_value DatasetStatus.DRAFT = ''draft''"
| "DatasetStatus_value DatasetStatus.FROZEN = ''frozen''"
| "DatasetStatus_value DatasetStatus.ACTIVE = ''active''"
| "DatasetStatus_value DatasetStatus.ARCHIVED = ''archived''"

definition DatasetStatus_members :: "DatasetStatus list" where
  "DatasetStatus_members = [DatasetStatus.DRAFT, DatasetStatus.FROZEN, DatasetStatus.ACTIVE, DatasetStatus.ARCHIVED]"

interpretation DatasetStatus_enum: str_enum DatasetStatus_value DatasetStatus_members
proof unfold_locales
  fix x :: DatasetStatus
  show "x \<in> set DatasetStatus_members" by (cases x) (simp_all add: DatasetStatus_members_def)
next
  show "distinct (map DatasetStatus_value DatasetStatus_members)" by (simp add: DatasetStatus_members_def)
qed

datatype ToolStatus =
    DRAFT
  | ACTIVE
  | DEPRECATED

primrec ToolStatus_value :: "ToolStatus \<Rightarrow> string" where
  "ToolStatus_value ToolStatus.DRAFT = ''draft''"
| "ToolStatus_value ToolStatus.ACTIVE = ''active''"
| "ToolStatus_value ToolStatus.DEPRECATED = ''deprecated''"

definition ToolStatus_members :: "ToolStatus list" where
  "ToolStatus_members = [ToolStatus.DRAFT, ToolStatus.ACTIVE, ToolStatus.DEPRECATED]"

interpretation ToolStatus_enum: str_enum ToolStatus_value ToolStatus_members
proof unfold_locales
  fix x :: ToolStatus
  show "x \<in> set ToolStatus_members" by (cases x) (simp_all add: ToolStatus_members_def)
next
  show "distinct (map ToolStatus_value ToolStatus_members)" by (simp add: ToolStatus_members_def)
qed

datatype GraderCardState =
    CALIBRATING
  | CALIBRATED
  | IN_USE
  | DRIFTING
  | RECALIBRATING
  | RETIRED

primrec GraderCardState_value :: "GraderCardState \<Rightarrow> string" where
  "GraderCardState_value GraderCardState.CALIBRATING = ''calibrating''"
| "GraderCardState_value GraderCardState.CALIBRATED = ''calibrated''"
| "GraderCardState_value GraderCardState.IN_USE = ''in_use''"
| "GraderCardState_value GraderCardState.DRIFTING = ''drifting''"
| "GraderCardState_value GraderCardState.RECALIBRATING = ''recalibrating''"
| "GraderCardState_value GraderCardState.RETIRED = ''retired''"

definition GraderCardState_members :: "GraderCardState list" where
  "GraderCardState_members = [GraderCardState.CALIBRATING, GraderCardState.CALIBRATED, GraderCardState.IN_USE, GraderCardState.DRIFTING, GraderCardState.RECALIBRATING, GraderCardState.RETIRED]"

interpretation GraderCardState_enum: str_enum GraderCardState_value GraderCardState_members
proof unfold_locales
  fix x :: GraderCardState
  show "x \<in> set GraderCardState_members" by (cases x) (simp_all add: GraderCardState_members_def)
next
  show "distinct (map GraderCardState_value GraderCardState_members)" by (simp add: GraderCardState_members_def)
qed

datatype DecisionOutcome =
    KEEP_CANDIDATE
  | REJECT
  | REVERT
  | FEATURE_FLAG
  | INVESTIGATE
  | REQUIRE_TRADEOFF_REVIEW
  | SPAWN_SUBEXPERIMENT

primrec DecisionOutcome_value :: "DecisionOutcome \<Rightarrow> string" where
  "DecisionOutcome_value DecisionOutcome.KEEP_CANDIDATE = ''keep_candidate''"
| "DecisionOutcome_value DecisionOutcome.REJECT = ''reject''"
| "DecisionOutcome_value DecisionOutcome.REVERT = ''revert''"
| "DecisionOutcome_value DecisionOutcome.FEATURE_FLAG = ''feature_flag''"
| "DecisionOutcome_value DecisionOutcome.INVESTIGATE = ''investigate''"
| "DecisionOutcome_value DecisionOutcome.REQUIRE_TRADEOFF_REVIEW = ''require_tradeoff_review''"
| "DecisionOutcome_value DecisionOutcome.SPAWN_SUBEXPERIMENT = ''spawn_subexperiment''"

definition DecisionOutcome_members :: "DecisionOutcome list" where
  "DecisionOutcome_members = [DecisionOutcome.KEEP_CANDIDATE, DecisionOutcome.REJECT, DecisionOutcome.REVERT, DecisionOutcome.FEATURE_FLAG, DecisionOutcome.INVESTIGATE, DecisionOutcome.REQUIRE_TRADEOFF_REVIEW, DecisionOutcome.SPAWN_SUBEXPERIMENT]"

interpretation DecisionOutcome_enum: str_enum DecisionOutcome_value DecisionOutcome_members
proof unfold_locales
  fix x :: DecisionOutcome
  show "x \<in> set DecisionOutcome_members" by (cases x) (simp_all add: DecisionOutcome_members_def)
next
  show "distinct (map DecisionOutcome_value DecisionOutcome_members)" by (simp add: DecisionOutcome_members_def)
qed

datatype IterationState =
    COMPLETED
  | FAILED
  | PAUSED

primrec IterationState_value :: "IterationState \<Rightarrow> string" where
  "IterationState_value IterationState.COMPLETED = ''completed''"
| "IterationState_value IterationState.FAILED = ''failed''"
| "IterationState_value IterationState.PAUSED = ''paused''"

definition IterationState_members :: "IterationState list" where
  "IterationState_members = [IterationState.COMPLETED, IterationState.FAILED, IterationState.PAUSED]"

interpretation IterationState_enum: str_enum IterationState_value IterationState_members
proof unfold_locales
  fix x :: IterationState
  show "x \<in> set IterationState_members" by (cases x) (simp_all add: IterationState_members_def)
next
  show "distinct (map IterationState_value IterationState_members)" by (simp add: IterationState_members_def)
qed

datatype Modality =
    TEXT
  | IMAGE
  | AUDIO
  | VOICE
  | BROWSER_USE
  | SENSOR

primrec Modality_value :: "Modality \<Rightarrow> string" where
  "Modality_value Modality.TEXT = ''text''"
| "Modality_value Modality.IMAGE = ''image''"
| "Modality_value Modality.AUDIO = ''audio''"
| "Modality_value Modality.VOICE = ''voice''"
| "Modality_value Modality.BROWSER_USE = ''browser_use''"
| "Modality_value Modality.SENSOR = ''sensor''"

definition Modality_members :: "Modality list" where
  "Modality_members = [Modality.TEXT, Modality.IMAGE, Modality.AUDIO, Modality.VOICE, Modality.BROWSER_USE, Modality.SENSOR]"

interpretation Modality_enum: str_enum Modality_value Modality_members
proof unfold_locales
  fix x :: Modality
  show "x \<in> set Modality_members" by (cases x) (simp_all add: Modality_members_def)
next
  show "distinct (map Modality_value Modality_members)" by (simp add: Modality_members_def)
qed

datatype MessageRole =
    SYSTEM
  | USER
  | ASSISTANT
  | TOOL

primrec MessageRole_value :: "MessageRole \<Rightarrow> string" where
  "MessageRole_value MessageRole.SYSTEM = ''system''"
| "MessageRole_value MessageRole.USER = ''user''"
| "MessageRole_value MessageRole.ASSISTANT = ''assistant''"
| "MessageRole_value MessageRole.TOOL = ''tool''"

definition MessageRole_members :: "MessageRole list" where
  "MessageRole_members = [MessageRole.SYSTEM, MessageRole.USER, MessageRole.ASSISTANT, MessageRole.TOOL]"

interpretation MessageRole_enum: str_enum MessageRole_value MessageRole_members
proof unfold_locales
  fix x :: MessageRole
  show "x \<in> set MessageRole_members" by (cases x) (simp_all add: MessageRole_members_def)
next
  show "distinct (map MessageRole_value MessageRole_members)" by (simp add: MessageRole_members_def)
qed

datatype ArenaState =
    DRAFT
  | ACTIVE
  | COMPLETED
  | ARCHIVED

primrec ArenaState_value :: "ArenaState \<Rightarrow> string" where
  "ArenaState_value ArenaState.DRAFT = ''draft''"
| "ArenaState_value ArenaState.ACTIVE = ''active''"
| "ArenaState_value ArenaState.COMPLETED = ''completed''"
| "ArenaState_value ArenaState.ARCHIVED = ''archived''"

definition ArenaState_members :: "ArenaState list" where
  "ArenaState_members = [ArenaState.DRAFT, ArenaState.ACTIVE, ArenaState.COMPLETED, ArenaState.ARCHIVED]"

interpretation ArenaState_enum: str_enum ArenaState_value ArenaState_members
proof unfold_locales
  fix x :: ArenaState
  show "x \<in> set ArenaState_members" by (cases x) (simp_all add: ArenaState_members_def)
next
  show "distinct (map ArenaState_value ArenaState_members)" by (simp add: ArenaState_members_def)
qed

datatype ArenaVariantState =
    REGISTERED
  | PREPARING
  | READY
  | FAILED
  | RETIRED

primrec ArenaVariantState_value :: "ArenaVariantState \<Rightarrow> string" where
  "ArenaVariantState_value ArenaVariantState.REGISTERED = ''registered''"
| "ArenaVariantState_value ArenaVariantState.PREPARING = ''preparing''"
| "ArenaVariantState_value ArenaVariantState.READY = ''ready''"
| "ArenaVariantState_value ArenaVariantState.FAILED = ''failed''"
| "ArenaVariantState_value ArenaVariantState.RETIRED = ''retired''"

definition ArenaVariantState_members :: "ArenaVariantState list" where
  "ArenaVariantState_members = [ArenaVariantState.REGISTERED, ArenaVariantState.PREPARING, ArenaVariantState.READY, ArenaVariantState.FAILED, ArenaVariantState.RETIRED]"

interpretation ArenaVariantState_enum: str_enum ArenaVariantState_value ArenaVariantState_members
proof unfold_locales
  fix x :: ArenaVariantState
  show "x \<in> set ArenaVariantState_members" by (cases x) (simp_all add: ArenaVariantState_members_def)
next
  show "distinct (map ArenaVariantState_value ArenaVariantState_members)" by (simp add: ArenaVariantState_members_def)
qed

datatype ArenaRoundState =
    PENDING
  | RUNNING
  | COMPLETED
  | FAILED
  | CANCELLED

primrec ArenaRoundState_value :: "ArenaRoundState \<Rightarrow> string" where
  "ArenaRoundState_value ArenaRoundState.PENDING = ''pending''"
| "ArenaRoundState_value ArenaRoundState.RUNNING = ''running''"
| "ArenaRoundState_value ArenaRoundState.COMPLETED = ''completed''"
| "ArenaRoundState_value ArenaRoundState.FAILED = ''failed''"
| "ArenaRoundState_value ArenaRoundState.CANCELLED = ''cancelled''"

definition ArenaRoundState_members :: "ArenaRoundState list" where
  "ArenaRoundState_members = [ArenaRoundState.PENDING, ArenaRoundState.RUNNING, ArenaRoundState.COMPLETED, ArenaRoundState.FAILED, ArenaRoundState.CANCELLED]"

interpretation ArenaRoundState_enum: str_enum ArenaRoundState_value ArenaRoundState_members
proof unfold_locales
  fix x :: ArenaRoundState
  show "x \<in> set ArenaRoundState_members" by (cases x) (simp_all add: ArenaRoundState_members_def)
next
  show "distinct (map ArenaRoundState_value ArenaRoundState_members)" by (simp add: ArenaRoundState_members_def)
qed

subsection \<open>schemas/job.py\<close>

datatype RunJobStatus =
    QUEUED
  | LEASED
  | RUNNING
  | SUCCEEDED
  | FAILED
  | CANCELLED
  | DEAD_LETTERED

primrec RunJobStatus_value :: "RunJobStatus \<Rightarrow> string" where
  "RunJobStatus_value RunJobStatus.QUEUED = ''queued''"
| "RunJobStatus_value RunJobStatus.LEASED = ''leased''"
| "RunJobStatus_value RunJobStatus.RUNNING = ''running''"
| "RunJobStatus_value RunJobStatus.SUCCEEDED = ''succeeded''"
| "RunJobStatus_value RunJobStatus.FAILED = ''failed''"
| "RunJobStatus_value RunJobStatus.CANCELLED = ''cancelled''"
| "RunJobStatus_value RunJobStatus.DEAD_LETTERED = ''dead_lettered''"

definition RunJobStatus_members :: "RunJobStatus list" where
  "RunJobStatus_members = [RunJobStatus.QUEUED, RunJobStatus.LEASED, RunJobStatus.RUNNING, RunJobStatus.SUCCEEDED, RunJobStatus.FAILED, RunJobStatus.CANCELLED, RunJobStatus.DEAD_LETTERED]"

interpretation RunJobStatus_enum: str_enum RunJobStatus_value RunJobStatus_members
proof unfold_locales
  fix x :: RunJobStatus
  show "x \<in> set RunJobStatus_members" by (cases x) (simp_all add: RunJobStatus_members_def)
next
  show "distinct (map RunJobStatus_value RunJobStatus_members)" by (simp add: RunJobStatus_members_def)
qed

datatype ScenarioJobStatus =
    PENDING
  | CLAIMED
  | RUNNING
  | SUCCEEDED
  | FAILED
  | DEAD_LETTERED
  | CANCELLED

primrec ScenarioJobStatus_value :: "ScenarioJobStatus \<Rightarrow> string" where
  "ScenarioJobStatus_value ScenarioJobStatus.PENDING = ''pending''"
| "ScenarioJobStatus_value ScenarioJobStatus.CLAIMED = ''claimed''"
| "ScenarioJobStatus_value ScenarioJobStatus.RUNNING = ''running''"
| "ScenarioJobStatus_value ScenarioJobStatus.SUCCEEDED = ''succeeded''"
| "ScenarioJobStatus_value ScenarioJobStatus.FAILED = ''failed''"
| "ScenarioJobStatus_value ScenarioJobStatus.DEAD_LETTERED = ''dead_lettered''"
| "ScenarioJobStatus_value ScenarioJobStatus.CANCELLED = ''cancelled''"

definition ScenarioJobStatus_members :: "ScenarioJobStatus list" where
  "ScenarioJobStatus_members = [ScenarioJobStatus.PENDING, ScenarioJobStatus.CLAIMED, ScenarioJobStatus.RUNNING, ScenarioJobStatus.SUCCEEDED, ScenarioJobStatus.FAILED, ScenarioJobStatus.DEAD_LETTERED, ScenarioJobStatus.CANCELLED]"

interpretation ScenarioJobStatus_enum: str_enum ScenarioJobStatus_value ScenarioJobStatus_members
proof unfold_locales
  fix x :: ScenarioJobStatus
  show "x \<in> set ScenarioJobStatus_members" by (cases x) (simp_all add: ScenarioJobStatus_members_def)
next
  show "distinct (map ScenarioJobStatus_value ScenarioJobStatus_members)" by (simp add: ScenarioJobStatus_members_def)
qed

subsection \<open>graders/base.py\<close>

datatype GradeLabel =
    PASS
  | FAIL
  | PARTIAL
  | ERROR
  | SKIPPED

primrec GradeLabel_value :: "GradeLabel \<Rightarrow> string" where
  "GradeLabel_value GradeLabel.PASS = ''pass''"
| "GradeLabel_value GradeLabel.FAIL = ''fail''"
| "GradeLabel_value GradeLabel.PARTIAL = ''partial''"
| "GradeLabel_value GradeLabel.ERROR = ''error''"
| "GradeLabel_value GradeLabel.SKIPPED = ''skipped''"

definition GradeLabel_members :: "GradeLabel list" where
  "GradeLabel_members = [GradeLabel.PASS, GradeLabel.FAIL, GradeLabel.PARTIAL, GradeLabel.ERROR, GradeLabel.SKIPPED]"

interpretation GradeLabel_enum: str_enum GradeLabel_value GradeLabel_members
proof unfold_locales
  fix x :: GradeLabel
  show "x \<in> set GradeLabel_members" by (cases x) (simp_all add: GradeLabel_members_def)
next
  show "distinct (map GradeLabel_value GradeLabel_members)" by (simp add: GradeLabel_members_def)
qed

end
