(* ===== verification/Experiment_Schema.thy ===== *)
theory Experiment_Schema
  imports Enums
begin

section \<open>schemas/_base.py and schemas/experiment.py\<close>

text \<open>
  The contract of an optimization run.  Each Pydantic model is a record with the fields of the
  class, its \<^verbatim>\<open>Field\<close> bounds are a predicate \<open>valid_\<dots>\<close>, and the model validators of
  \<^verbatim>\<open>Experiment\<close> are run in their order of declaration by \<open>validate_experiment\<close>, whose
  error is the exception raised by the first one that fails.  \<open>transition_to\<close> is the state
  machine; the lemmas at the end say which histories it allows.
\<close>

type_synonym timestamp = int

subsection \<open>Shared base models\<close>

record EntityRef =
  ref_id :: string
  ref_version :: "int option"

definition valid_EntityRef :: "EntityRef \<Rightarrow> bool" where
  "valid_EntityRef r \<longleftrightarrow>
     ref_id r \<noteq> [] \<and> (case ref_version r of None \<Rightarrow> True | Some v \<Rightarrow> 1 \<le> v)"

record BaseEntity =
  ent_id :: string
  workspace_id :: string
  version :: int
  created_at :: timestamp
  updated_at :: timestamp
  deleted_at :: "timestamp option"

definition valid_BaseEntity :: "'a BaseEntity_scheme \<Rightarrow> bool" where
  "valid_BaseEntity e \<longleftrightarrow> ent_id e \<noteq> [] \<and> workspace_id e \<noteq> [] \<and> 1 \<le> version e"

subsection \<open>Targets and the editable contract\<close>

datatype ComparisonOp = OpGT | OpGE | OpLT | OpLE | OpEQ

record MetricTarget =
  mt_name :: string
  mt_operator :: ComparisonOp
  mt_value :: rat

record TargetSpec =
  target_primary :: MetricTarget
  target_guardrails :: "MetricTarget list"
  target_primary_grader :: "string option"

record EditableContract =
  ed_prompt :: bool
  ed_model_params :: bool
  ed_model_choice :: bool
  ed_tool_descriptions :: bool
  ed_tool_code :: bool
  ed_workflow_graph :: bool
  ed_skills :: bool
  ed_dataset :: bool
  ed_graders :: bool

definition default_EditableContract :: EditableContract where
  "default_EditableContract = \<lparr>ed_prompt = True, ed_model_params = True, ed_model_choice = False,
     ed_tool_descriptions = False, ed_tool_code = False, ed_workflow_graph = False,
     ed_skills = False, ed_dataset = False, ed_graders = False\<rparr>"

definition fields_requiring_agent_loop :: "EditableContract \<Rightarrow> string list" where
  "fields_requiring_agent_loop e =
     (if ed_tool_code e then [''tool_code''] else []) @
     (if ed_workflow_graph e then [''workflow_graph''] else []) @
     (if ed_skills e then [''skills''] else [])"

record SearchSpace =
  ss_model_params :: "json dict"
  ss_prompt_variables :: "json dict"
  ss_tool_params :: "json dict"
  ss_agents :: "json dict list"

record FrozenSnapshot =
  frozen_fleet :: EntityRef
  frozen_agents :: "EntityRef list"
  frozen_tools :: "EntityRef list"
  frozen_datasets :: "EntityRef list"
  frozen_graders :: "EntityRef list"
  frozen_risk_registry :: "EntityRef option"
  frozen_feature_registry :: "EntityRef option"

definition valid_FrozenSnapshot :: "FrozenSnapshot \<Rightarrow> bool" where
  "valid_FrozenSnapshot f \<longleftrightarrow> frozen_agents f \<noteq> [] \<and> frozen_datasets f \<noteq> [] \<and>
     list_all valid_EntityRef (frozen_fleet f # frozen_agents f @ frozen_tools f @
       frozen_datasets f @ frozen_graders f)"

record ProposerSpec =
  pr_strategy :: ProposerStrategy
  pr_allow_search_space_expansion :: bool
  pr_parameters :: "json dict"

subsection \<open>How an experiment runs\<close>

record ConvergenceSpec =
  cv_min_delta :: rat
  cv_patience :: nat
  cv_early_stop :: "bool option"

definition valid_ConvergenceSpec :: "ConvergenceSpec \<Rightarrow> bool" where
  "valid_ConvergenceSpec c \<longleftrightarrow> 0 \<le> cv_min_delta c \<and> 1 \<le> cv_patience c"

record DatasetUsage =
  du_optimization :: EntityRef
  du_gates :: "EntityRef list"

record RetrySpec =
  rs_max_retries :: nat
  rs_base_delay_seconds :: rat
  rs_max_delay_seconds :: rat
  rs_multiplier :: rat
  rs_jitter :: rat

definition valid_RetrySpec :: "RetrySpec \<Rightarrow> bool" where
  "valid_RetrySpec r \<longleftrightarrow> rs_max_retries r \<le> 10 \<and>
     0 < rs_base_delay_seconds r \<and> rs_base_delay_seconds r \<le> 60 \<and>
     0 < rs_max_delay_seconds r \<and> rs_max_delay_seconds r \<le> 300 \<and>
     1 \<le> rs_multiplier r \<and> rs_multiplier r \<le> 10 \<and>
     0 \<le> rs_jitter r \<and> rs_jitter r \<le> 1"

record RateLimitSpec =
  rl_requests_per_minute :: "nat option"
  rl_burst :: "nat option"

definition valid_RateLimitSpec :: "RateLimitSpec \<Rightarrow> bool" where
  "valid_RateLimitSpec r \<longleftrightarrow>
     list_all (\<lambda>x. case x of None \<Rightarrow> True | Some n \<Rightarrow> 1 \<le> n \<and> n \<le> 100000)
       [rl_requests_per_minute r, rl_burst r]"

datatype SampleStrategy = SampleFull | SampleStratified | SampleRandomSubset

datatype PersistTraces = PersistNone | PersistAll | PersistFailed

record RunSpec =
  run_sandbox :: SandboxMode
  run_runtime :: RuntimeLocation
  run_sample_strategy :: SampleStrategy
  run_max_iterations :: nat
  run_repetitions_per_case :: nat
  run_parallelism :: nat
  run_convergence :: ConvergenceSpec
  run_retry :: RetrySpec
  run_rate_limit :: RateLimitSpec
  run_seed :: "int option"
  run_persist_traces :: PersistTraces

definition valid_RunSpec :: "RunSpec \<Rightarrow> bool" where
  "valid_RunSpec r \<longleftrightarrow>
     1 \<le> run_max_iterations r \<and> run_max_iterations r \<le> 10000 \<and>
     1 \<le> run_repetitions_per_case r \<and> run_repetitions_per_case r \<le> 100 \<and>
     1 \<le> run_parallelism r \<and> run_parallelism r \<le> 64 \<and>
     valid_ConvergenceSpec (run_convergence r) \<and> valid_RetrySpec (run_retry r) \<and>
     valid_RateLimitSpec (run_rate_limit r)"

subsection \<open>Judges, reliability, decisions\<close>

datatype ConsensusRule = Majority | Unanimous | Weighted

record JudgePanel =
  jp_members :: "string list"
  jp_consensus_rule :: ConsensusRule

datatype GenerationStrategy = Paraphrase | ManualPairs

record CounterfactualSpec =
  cf_enabled :: bool
  cf_generation_strategy :: GenerationStrategy
  cf_pairs_per_case :: nat
  cf_max_score_variance :: rat

record HumanSpotCheckSpec =
  hs_enabled :: bool
  hs_sample_rate :: rat
  hs_trigger_on_jump :: rat

record OutcomeMetricsSpec =
  om_metrics :: "string list"

record JudgeDefenses =
  jd_holdout_visible_to_proposer :: bool
  jd_overfit_penalty_max_delta :: rat
  jd_panel :: "JudgePanel option"
  jd_counterfactuals :: CounterfactualSpec
  jd_human_spot_check :: HumanSpotCheckSpec
  jd_adversarial_dataset :: "EntityRef option"
  jd_outcome_metrics :: "OutcomeMetricsSpec option"

definition unit_interval :: "rat \<Rightarrow> bool" where
  "unit_interval q \<longleftrightarrow> 0 \<le> q \<and> q \<le> 1"

definition valid_JudgeDefenses :: "JudgeDefenses \<Rightarrow> bool" where
  "valid_JudgeDefenses j \<longleftrightarrow>
     unit_interval (jd_overfit_penalty_max_delta j) \<and>
     1 \<le> cf_pairs_per_case (jd_counterfactuals j) \<and>
     unit_interval (cf_max_score_variance (jd_counterfactuals j)) \<and>
     unit_interval (hs_sample_rate (jd_human_spot_check j)) \<and>
     unit_interval (hs_trigger_on_jump (jd_human_spot_check j)) \<and>
     (case jd_outcome_metrics j of None \<Rightarrow> True | Some m \<Rightarrow> om_metrics m \<noteq> [] \<and> [] \<notin> set (om_metrics m))"

record ReliabilitySpec =
  rel_repetitions_per_case :: nat
  rel_metrics :: "string list"

text \<open>The pattern \<^verbatim>\<open>^(pass@\d+|pass\^\d+|consistency_rate|stability_score|recovery_rate)$\<close>.
  \<^verbatim>\<open>$\<close> also matches before one trailing newline.\<close>

definition reliability_metric_body :: "string \<Rightarrow> bool" where
  "reliability_metric_body s \<longleftrightarrow>
     (starts_with s ''pass@'' \<or> starts_with s ''pass^'') \<and>
       drop 5 s \<noteq> [] \<and> list_all is_digit (drop 5 s)
     \<or> s \<in> {''consistency_rate'', ''stability_score'', ''recovery_rate''}"

definition RELIABILITY_METRIC_RE :: "string \<Rightarrow> bool" where
  "RELIABILITY_METRIC_RE s \<longleftrightarrow>
     reliability_metric_body s \<or>
     s \<noteq> [] \<and> last s = CHR 0x0A \<and> reliability_metric_body (butlast s)"

definition valid_ReliabilitySpec :: "ReliabilitySpec \<Rightarrow> bool" where
  "valid_ReliabilitySpec r \<longleftrightarrow>
     1 \<le> rel_repetitions_per_case r \<and> rel_repetitions_per_case r \<le> 100 \<and>
     list_all (\<lambda>m. m \<noteq> [] \<and> RELIABILITY_METRIC_RE m) (rel_metrics r)"

datatype RegressionPolicy = RegReject | RegInvestigate | RegSpawnSubexperiment
datatype GuardrailPolicy = GuardReject | GuardRequireTradeoffReview
datatype DisagreePolicy = EscalateToCalibration | DisagreeInvestigate

record DecisionPolicy =
  if_regression_fails :: RegressionPolicy
  if_guardrail_fails :: GuardrailPolicy
  if_judge_human_disagree :: DisagreePolicy

text \<open>\<^verbatim>\<open>when\<close> and \<^verbatim>\<open>taxonomy\<close> have a single legal value and are left out.\<close>

record AnalysisTriggerSpec =
  trigger_threshold :: rat

datatype AnalysisScope = FailedOnly | AllCases

record ErrorAnalysisSpec =
  ea_enabled :: bool
  ea_trigger :: AnalysisTriggerSpec
  ea_scope :: AnalysisScope

definition should_stage :: "ErrorAnalysisSpec \<Rightarrow> rat \<Rightarrow> bool" where
  "should_stage s fail_rate =
     (if \<not> ea_enabled s then False else fail_rate > trigger_threshold (ea_trigger s))"

record ExperimentTaxonomy =
  tax_target_features :: "string list"
  tax_target_levels :: "string list"
  tax_dataset_types :: "DatasetType list"

definition valid_ExperimentTaxonomy :: "ExperimentTaxonomy \<Rightarrow> bool" where
  "valid_ExperimentTaxonomy t \<longleftrightarrow>
     tax_target_features t \<noteq> [] \<and> tax_dataset_types t \<noteq> [] \<and>
     [] \<notin> set (tax_target_features t) \<and> [] \<notin> set (tax_target_levels t) \<and>
     distinct (tax_target_features t) \<and> distinct (tax_target_levels t) \<and>
     distinct (tax_dataset_types t)"

subsection \<open>The experiment\<close>

record Experiment = BaseEntity +
  exp_name :: string
  exp_goal :: string
  exp_mode :: Mode
  exp_taxonomy :: ExperimentTaxonomy
  exp_datasets :: DatasetUsage
  exp_target :: TargetSpec
  exp_editable :: EditableContract
  exp_search_space :: SearchSpace
  exp_frozen :: FrozenSnapshot
  exp_proposer :: ProposerSpec
  exp_run :: RunSpec
  exp_judge_defenses :: JudgeDefenses
  exp_reliability :: ReliabilitySpec
  exp_decision :: DecisionPolicy
  exp_error_analysis :: ErrorAnalysisSpec
  exp_state :: ExperimentState
  exp_content_hash :: "string option"

definition valid_experiment_fields :: "Experiment \<Rightarrow> bool" where
  "valid_experiment_fields e \<longleftrightarrow> valid_BaseEntity e \<and> exp_name e \<noteq> [] \<and> exp_goal e \<noteq> [] \<and>
     valid_ExperimentTaxonomy (exp_taxonomy e) \<and> valid_FrozenSnapshot (exp_frozen e) \<and>
     valid_RunSpec (exp_run e) \<and> valid_JudgeDefenses (exp_judge_defenses e) \<and>
     valid_ReliabilitySpec (exp_reliability e) \<and>
     mt_name (target_primary (exp_target e)) \<noteq> [] \<and>
     list_all (\<lambda>g. mt_name g \<noteq> []) (target_guardrails (exp_target e)) \<and>
     unit_interval (trigger_threshold (ea_trigger (exp_error_analysis e)))"

definition editable_requires_agent_loop :: "Experiment \<Rightarrow> bool" where
  "editable_requires_agent_loop e \<longleftrightarrow>
     \<not> (fields_requiring_agent_loop (exp_editable e) \<noteq> [] \<and> exp_mode e \<noteq> Mode.AGENT_LOOP)"

definition live_canary_requires_outcome_metrics :: "Experiment \<Rightarrow> bool" where
  "live_canary_requires_outcome_metrics e \<longleftrightarrow>
     \<not> (run_sandbox (exp_run e) = SandboxMode.LIVE_CANARY \<and>
        jd_outcome_metrics (exp_judge_defenses e) = None)"

definition declared_metrics :: "Experiment \<Rightarrow> string list" where
  "declared_metrics e =
     mt_name (target_primary (exp_target e)) #
       map mt_name (target_guardrails (exp_target e)) @ rel_metrics (exp_reliability e)"

text \<open>\<^verbatim>\<open>int(name.split("^", 1)[1])\<close> where the name starts with \<^verbatim>\<open>pass^\<close>.\<close>

definition pass_hat_k :: "string \<Rightarrow> int option" where
  "pass_hat_k name =
     (if starts_with name ''pass^'' then parse_int (drop 5 name) else None)"

definition pass_hat_k_is_reachable :: "Experiment \<Rightarrow> bool" where
  "pass_hat_k_is_reachable e \<longleftrightarrow>
     list_all (\<lambda>name. case pass_hat_k name of
                        None \<Rightarrow> True
                      | Some k \<Rightarrow> \<not> k > int (run_repetitions_per_case (exp_run e)))
       (declared_metrics e)"

definition proposer_strategy_is_implemented :: "Experiment \<Rightarrow> bool" where
  "proposer_strategy_is_implemented e \<longleftrightarrow>
     pr_strategy (exp_proposer e) \<in>
       {ProposerStrategy.MANUAL, ProposerStrategy.GRID, ProposerStrategy.RANDOM,
        ProposerStrategy.LLM_PROPOSER}"

definition validate_experiment :: "Experiment \<Rightarrow> Experiment result" where
  "validate_experiment e =
     (if \<not> valid_experiment_fields e then Inl ValueError
      else if \<not> editable_requires_agent_loop e then Inl ValueError
      else if \<not> live_canary_requires_outcome_metrics e then Inl ValueError
      else if \<not> pass_hat_k_is_reachable e then Inl ValueError
      else if \<not> proposer_strategy_is_implemented e then Inl ValueError
      else Inr e)"

lemma validate_experiment_Inr:
  "validate_experiment e = Inr e' \<longleftrightarrow>
     e' = e \<and> valid_experiment_fields e \<and> editable_requires_agent_loop e \<and>
     live_canary_requires_outcome_metrics e \<and> pass_hat_k_is_reachable e \<and>
     proposer_strategy_is_implemented e"
  by (auto simp: validate_experiment_def)

lemma declared_pass_hat_reachable:
  assumes "validate_experiment e = Inr e'" "name \<in> set (declared_metrics e)"
    and "pass_hat_k name = Some k"
  shows "k \<le> int (run_repetitions_per_case (exp_run e))"
  using assms
  by (fastforce simp: validate_experiment_Inr pass_hat_k_is_reachable_def list_all_iff)

subsection \<open>The state machine\<close>

primrec LEGAL_TRANSITIONS :: "ExperimentState \<Rightarrow> ExperimentState list" where
  "LEGAL_TRANSITIONS ExperimentState.DRAFT = [ExperimentState.QUEUED, ExperimentState.ABORTED]"
| "LEGAL_TRANSITIONS ExperimentState.QUEUED =
     [ExperimentState.RUNNING, ExperimentState.ABORTED, ExperimentState.DRAFT]"
| "LEGAL_TRANSITIONS ExperimentState.RUNNING =
     [ExperimentState.PAUSED, ExperimentState.COMPLETED, ExperimentState.ABORTED]"
| "LEGAL_TRANSITIONS ExperimentState.PAUSED =
     [ExperimentState.RUNNING, ExperimentState.ABORTED, ExperimentState.COMPLETED]"
| "LEGAL_TRANSITIONS ExperimentState.COMPLETED = [ExperimentState.SUPERSEDED]"
| "LEGAL_TRANSITIONS ExperimentState.ABORTED = []"
| "LEGAL_TRANSITIONS ExperimentState.SUPERSEDED = []"

definition transition_to :: "Experiment \<Rightarrow> ExperimentState \<Rightarrow> Experiment result" where
  "transition_to e new_state =
     (if new_state \<notin> set (LEGAL_TRANSITIONS (exp_state e)) then Inl IllegalStateTransitionError
      else Inr (e\<lparr>exp_state := new_state\<rparr>))"

definition experiment_is_terminal :: "Experiment \<Rightarrow> bool" where
  "experiment_is_terminal e \<longleftrightarrow>
     exp_state e \<in> {ExperimentState.COMPLETED, ExperimentState.ABORTED, ExperimentState.SUPERSEDED}"

text \<open>One successful call of \<^verbatim>\<open>transition_to\<close>, as a step relation, and the runs it allows.\<close>

inductive exp_step :: "Experiment \<Rightarrow> Experiment \<Rightarrow> bool" where
  exp_step: "transition_to e s = Inr e' \<Longrightarrow> exp_step e e'"

inductive_cases exp_stepE: "exp_step e e'"

inductive exp_run_path :: "Experiment \<Rightarrow> Experiment list \<Rightarrow> Experiment \<Rightarrow> bool" where
  path_refl: "exp_run_path e [] e"
| path_step: "exp_step e e' \<Longrightarrow> exp_run_path e' es e'' \<Longrightarrow> exp_run_path e (e' # es) e''"

inductive_cases exp_pathE: "exp_run_path e es e'"

lemma exp_step_iff:
  "exp_step e e' \<longleftrightarrow>
     exp_state e' \<in> set (LEGAL_TRANSITIONS (exp_state e)) \<and> e' = e\<lparr>exp_state := exp_state e'\<rparr>"
proof
  assume "exp_step e e'"
  then show "exp_state e' \<in> set (LEGAL_TRANSITIONS (exp_state e)) \<and> e' = e\<lparr>exp_state := exp_state e'\<rparr>"
    by (cases rule: exp_step.cases) (auto simp: transition_to_def split: if_splits)
next
  assume "exp_state e' \<in> set (LEGAL_TRANSITIONS (exp_state e)) \<and> e' = e\<lparr>exp_state := exp_state e'\<rparr>"
  then have "transition_to e (exp_state e') = Inr e'"
    by (simp add: transition_to_def)
  then show "exp_step e e'" by (rule exp_step)
qed

lemma transition_to_frame [frame_simps]:
  "transition_to e s = Inr e' \<Longrightarrow> e' = e\<lparr>exp_state := s\<rparr> \<and> ent_id e' = ent_id e \<and> exp_run e' = exp_run e"
  by (auto simp: transition_to_def split: if_splits)

lemma terminal_step:
  assumes "exp_step e e'" "experiment_is_terminal e"
  shows "exp_state e = ExperimentState.COMPLETED" "exp_state e' = ExperimentState.SUPERSEDED"
  using assms by (auto simp: exp_step_iff experiment_is_terminal_def)

lemma terminal_stays_terminal:
  "exp_run_path e es e' \<Longrightarrow> experiment_is_terminal e \<Longrightarrow> \<forall>x \<in> set es. experiment_is_terminal x"
proof (induction rule: exp_run_path.induct)
  case (path_step e e' es e'')
  then have "experiment_is_terminal e'"
    using terminal_step [OF path_step.hyps(1) path_step.prems]
    by (simp add: experiment_is_terminal_def)
  with path_step.IH show ?case by simp
qed simp

text \<open>A state that an experiment which never ran can be in.\<close>

definition not_started :: "Experiment \<Rightarrow> bool" where
  "not_started e \<longleftrightarrow>
     exp_state e \<in> {ExperimentState.DRAFT, ExperimentState.QUEUED, ExperimentState.ABORTED}"

lemma not_started_step:
  "exp_step e e' \<Longrightarrow> not_started e \<Longrightarrow> not_started e' \<or> exp_state e' = ExperimentState.RUNNING"
  by (auto simp: exp_step_iff not_started_def)

lemma reaches_through_running:
  "exp_run_path e es e' \<Longrightarrow> not_started e \<Longrightarrow>
     not_started e' \<or> (\<exists>x \<in> set es. exp_state x = ExperimentState.RUNNING)"
proof (induction rule: exp_run_path.induct)
  case (path_step e e' es e'')
  then show ?case using not_started_step by fastforce
qed simp

end
