(* ===== verification/Iteration_Schema.thy ===== *)
theory Iteration_Schema
  imports Experiment_Schema
begin

section \<open>schemas/iteration.py\<close>

text \<open>
  The per-iteration ledger: what a proposer emits (\<open>Proposal\<close>), the gate every proposal passes
  before it runs (\<open>validate_against\<close>: the experiment's editable contract), and the records an
  iteration leaves behind, with the validators of \<^verbatim>\<open>IterationRecord\<close>.
\<close>

subsection \<open>Proposals and the editable contract\<close>

definition PROPOSAL_KEY_TO_EDITABLE :: "string dict" where
  "PROPOSAL_KEY_TO_EDITABLE =
    [(''prompt'', ''prompt''),
     (''system_prompt'', ''prompt''),
     (''model'', ''model_choice''),
     (''agent'', ''model_choice''),
     (''model_params'', ''model_params''),
     (''tool_descriptions'', ''tool_descriptions''),
     (''tool_code'', ''tool_code''),
     (''workflow_graph'', ''workflow_graph''),
     (''graph'', ''workflow_graph''),
     (''skills'', ''skills''),
     (''dataset'', ''dataset''),
     (''graders'', ''graders'')]"

text \<open>\<^verbatim>\<open>getattr(editable, flag)\<close>.\<close>

definition editable_flag :: "EditableContract \<Rightarrow> string \<Rightarrow> bool" where
  "editable_flag e flag =
    (if flag = ''prompt'' then ed_prompt e
     else if flag = ''model_params'' then ed_model_params e
     else if flag = ''model_choice'' then ed_model_choice e
     else if flag = ''tool_descriptions'' then ed_tool_descriptions e
     else if flag = ''tool_code'' then ed_tool_code e
     else if flag = ''workflow_graph'' then ed_workflow_graph e
     else if flag = ''skills'' then ed_skills e
     else if flag = ''dataset'' then ed_dataset e
     else ed_graders e)"

record CodeDiff =
  cd_path :: string
  cd_operation :: string
  cd_diff_pointer :: "string option"
  cd_diff_hash :: "string option"

record Proposal =
  pp_parameters :: "json dict"
  pp_hypothesis :: string
  pp_confidence :: rat
  pp_code_changes :: "CodeDiff list"
  pp_inputs_referenced :: "string list"
  pp_search_space_expansion_request :: "json dict option"

definition valid_Proposal :: "Proposal \<Rightarrow> bool" where
  "valid_Proposal p \<longleftrightarrow> pp_hypothesis p \<noteq> [] \<and> unit_interval (pp_confidence p) \<and>
     [] \<notin> set (pp_inputs_referenced p) \<and>
     list_all (\<lambda>c. cd_path c \<noteq> [] \<and> cd_operation c \<noteq> []) (pp_code_changes p)"

text \<open>The constructor \<^verbatim>\<open>Proposal(parameters=.., hypothesis=.., confidence=.., inputs_referenced=..)\<close>.\<close>

definition make_Proposal ::
    "json dict \<Rightarrow> string \<Rightarrow> rat \<Rightarrow> string list \<Rightarrow> Proposal result" where
  "make_Proposal params hyp conf inputs =
    (let p = \<lparr>pp_parameters = params, pp_hypothesis = hyp, pp_confidence = conf,
              pp_code_changes = [], pp_inputs_referenced = inputs,
              pp_search_space_expansion_request = None\<rparr>
     in if valid_Proposal p then Inr p else Inl ValueError)"

definition violations_against :: "Proposal \<Rightarrow> EditableContract \<Rightarrow> string list" where
  "violations_against p editable =
     filter (\<lambda>key. case map_of PROPOSAL_KEY_TO_EDITABLE key of
                     None \<Rightarrow> False
                   | Some gating_flag \<Rightarrow> \<not> editable_flag editable gating_flag)
       (dict_keys (pp_parameters p)) @
     (if pp_code_changes p \<noteq> [] \<and>
         \<not> (ed_tool_code editable \<or> ed_workflow_graph editable \<or> ed_skills editable)
      then [''code_changes''] else [])"

definition validate_against :: "Proposal \<Rightarrow> Experiment \<Rightarrow> unit result" where
  "validate_against p e =
     (let bad = violations_against p (exp_editable e) @
        (if pp_search_space_expansion_request p \<noteq> None \<and>
            \<not> pr_allow_search_space_expansion (exp_proposer e)
         then [''search_space_expansion_request''] else [])
      in if bad \<noteq> [] then Inl (ProposalRejectedError bad) else Inr ())"

text \<open>What the contract promises, stated without the code's bookkeeping: every key of the
  proposal that a flag gates has its flag set, code changes need one of the three code flags,
  and an expansion request needs the experiment's permission.\<close>

definition respects_contract :: "Experiment \<Rightarrow> Proposal \<Rightarrow> bool" where
  "respects_contract e p \<longleftrightarrow>
     (\<forall>key \<in> set (dict_keys (pp_parameters p)). \<forall>flag.
        map_of PROPOSAL_KEY_TO_EDITABLE key = Some flag \<longrightarrow> editable_flag (exp_editable e) flag) \<and>
     (pp_code_changes p \<noteq> [] \<longrightarrow>
        ed_tool_code (exp_editable e) \<or> ed_workflow_graph (exp_editable e) \<or> ed_skills (exp_editable e)) \<and>
     (pp_search_space_expansion_request p \<noteq> None \<longrightarrow>
        pr_allow_search_space_expansion (exp_proposer e))"

lemma validate_against_Inr:
  "validate_against p e = Inr u \<longleftrightarrow> respects_contract e p"
  by (auto simp: validate_against_def violations_against_def respects_contract_def Let_def
      filter_empty_conv split: option.splits if_splits)

lemma validate_against_cases:
  obtains (ok) "validate_against p e = Inr ()" "respects_contract e p"
  | (rejected) bad where "validate_against p e = Inl (ProposalRejectedError bad)" "bad \<noteq> []"
      "\<not> respects_contract e p"
proof (cases "validate_against p e")
  case (Inr u)
  then show ?thesis using ok by (auto simp: validate_against_Inr)
next
  case (Inl err)
  then obtain bad where "err = ProposalRejectedError bad" "bad \<noteq> []"
    by (auto simp: validate_against_def Let_def split: if_splits)
  moreover have "\<not> respects_contract e p" using Inl validate_against_Inr [of p e] by auto
  ultimately show ?thesis using rejected Inl by blast
qed

lemma make_Proposal_Inr:
  "make_Proposal params hyp conf inputs = Inr p \<Longrightarrow>
     valid_Proposal p \<and> pp_parameters p = params \<and> pp_hypothesis p = hyp \<and>
     pp_confidence p = conf \<and> pp_inputs_referenced p = inputs \<and> pp_code_changes p = [] \<and>
     pp_search_space_expansion_request p = None"
  by (auto simp: make_Proposal_def Let_def split: if_splits)

subsection \<open>Iteration records\<close>

record ProposerInputs =
  pi_type :: ProposerStrategy
  pi_strategy_parameters :: "json dict"
  pi_iterations_consulted :: "nat list"
  pi_failure_modes_consulted :: "string list"

record ExecutionInfo =
  ex_variant_id :: string
  ex_ran_against :: "nat dict"
  ex_trace_run_ids :: "string list"

record MetricObservation =
  mo_name :: string
  mo_value :: rat
  mo_delta_vs_baseline :: "rat option"

record IterationMetrics =
  im_primary :: MetricObservation
  im_guardrails :: "MetricObservation list"
  im_reliability :: "rat dict"
  im_cost_usd :: "rat option"
  im_duration_seconds :: "rat option"
  im_error_rate :: rat
  im_failure_mode_counts :: "nat dict"
  im_funnel :: "json dict"
  im_confusion :: "json option"

record IterationDecision =
  id_outcome :: DecisionOutcome
  id_next_action :: "string option"

record IterationRecord = BaseEntity +
  ir_experiment_id :: string
  ir_iteration :: nat
  ir_parent_iteration :: "nat option"
  ir_state :: IterationState
  ir_proposer :: ProposerInputs
  ir_hypothesis :: string
  ir_proposed_parameters :: "json dict"
  ir_execution :: ExecutionInfo
  ir_metrics :: "IterationMetrics option"
  ir_decision :: "IterationDecision option"
  ir_duration_seconds :: "rat option"
  ir_cost_usd :: "rat option"

definition completed_requires_metrics_and_decision :: "IterationRecord \<Rightarrow> bool" where
  "completed_requires_metrics_and_decision r \<longleftrightarrow>
     (ir_state r = IterationState.COMPLETED \<longrightarrow> ir_metrics r \<noteq> None \<and> ir_decision r \<noteq> None)"

definition parent_iteration_must_be_earlier :: "IterationRecord \<Rightarrow> bool" where
  "parent_iteration_must_be_earlier r \<longleftrightarrow>
     (case ir_parent_iteration r of None \<Rightarrow> True | Some p \<Rightarrow> \<not> p \<ge> ir_iteration r)"

definition validate_IterationRecord :: "IterationRecord \<Rightarrow> IterationRecord result" where
  "validate_IterationRecord r =
     (if \<not> completed_requires_metrics_and_decision r then Inl ValueError
      else if \<not> parent_iteration_must_be_earlier r then Inl ValueError
      else Inr r)"

record DecisionRecord = BaseEntity +
  dr_experiment_id :: string
  dr_iteration :: nat
  dr_variant_id :: string
  dr_outcome :: DecisionOutcome
  dr_metrics_snapshot :: "rat dict"
  dr_affected_artifacts :: "string list"
  dr_superseded_by :: "string option"

end
