(* ===== verification/Trace_Schema.thy ===== *)
theory Trace_Schema
  imports Experiment_Schema
begin

section \<open>schemas/trace.py\<close>

text \<open>
  The record of one agent run.  A span is one of fourteen payloads over the common fields of
  \<open>SpanBase\<close> (the discriminated union \<^verbatim>\<open>Span\<close>); \<open>validate_Trace\<close> runs the three validators of
  \<^verbatim>\<open>Trace\<close> in their order, and the lemmas say what a trace that passes them guarantees:
  unique span ids, no dangling parent, and every tool use requested by some LLM call.
\<close>

definition INLINE_PAYLOAD_MAX_CHARS :: nat where
  "INLINE_PAYLOAD_MAX_CHARS = 4096"

subsection \<open>Context of a run\<close>

record RunInfo =
  ri_run_id :: string
  ri_experiment_id :: "string option"
  ri_iteration :: "nat option"
  ri_variant_id :: "string option"
  ri_eval_case_id :: "string option"
  ri_repetition :: nat
  ri_seed :: "int option"
  ri_thread_id :: "string option"
  ri_thread_position :: "nat option"

record AgentSnapshotRef =
  as_fleet_version :: "int option"
  as_agent_id :: string
  as_agent_version :: int
  as_parameters_snapshot_id :: "string option"

record EnvironmentInfo =
  ev_framework_version :: string
  ev_runtime :: string
  ev_sandbox :: SandboxMode
  ev_tool_mocks :: "string list"
  ev_started_at :: timestamp
  ev_ended_at :: "timestamp option"

definition ended_after_started :: "EnvironmentInfo \<Rightarrow> bool" where
  "ended_after_started e \<longleftrightarrow>
     (case ev_ended_at e of None \<Rightarrow> True | Some t \<Rightarrow> \<not> t < ev_started_at e)"

record FinalState =
  fs_status :: TraceState
  fs_error :: "string option"

subsection \<open>LLM calls\<close>

record ReasoningBlock =
  rb_available :: bool
  rb_redacted :: bool
  rb_summary_pointer :: "string option"
  rb_full_pointer :: "string option"
  rb_thinking_tokens :: nat
  rb_signature :: "string option"

record TokenBreakdown =
  tb_input :: nat
  tb_input_cache_read :: nat
  tb_input_cache_creation :: nat
  tb_output :: nat
  tb_reasoning :: nat
  tb_total :: nat

definition total_covers_components :: "TokenBreakdown \<Rightarrow> bool" where
  "total_covers_components t \<longleftrightarrow>
     \<not> tb_total t < tb_input t + tb_input_cache_read t + tb_input_cache_creation t + tb_output t +
         tb_reasoning t"

record CostBreakdown =
  cb_input :: rat
  cb_cache_read :: rat
  cb_cache_creation :: rat
  cb_output :: rat
  cb_total :: rat

definition valid_CostBreakdown :: "CostBreakdown \<Rightarrow> bool" where
  "valid_CostBreakdown c \<longleftrightarrow> 0 \<le> cb_input c \<and> 0 \<le> cb_cache_read c \<and> 0 \<le> cb_cache_creation c \<and>
     0 \<le> cb_output c \<and> 0 \<le> cb_total c"

record ToolUseRequest =
  tur_tool :: string
  tur_tool_use_id :: string

record LLMOutput =
  lo_content_pointer :: "string option"
  lo_content_hash :: "string option"
  lo_content_inline :: "string option"
  lo_stop_reason :: "StopReason option"
  lo_tool_use_requested :: "ToolUseRequest list"

record RetrievedDoc =
  rd_doc_id :: string
  rd_doc_version :: "string option"
  rd_chunk_id :: "string option"
  rd_raw_score :: "rat option"
  rd_rerank_score :: "rat option"

subsection \<open>Spans\<close>

record SpanBase =
  span_id :: string
  span_parent_id :: "string option"
  span_name :: string
  span_started_at :: timestamp
  span_duration_ms :: nat

record LLMCallSpan = SpanBase +
  lc_provider :: string
  lc_model :: string
  lc_model_version_pinned :: "string option"
  lc_system_prompt_pointer :: "string option"
  lc_system_prompt_hash :: "string option"
  lc_system_prompt_inline :: "string option"
  lc_messages_pointer :: "string option"
  lc_messages_hash :: "string option"
  lc_messages_inline :: "string option"
  lc_tools_offered :: "string list"
  lc_tools_offered_hash :: "string option"
  lc_params :: "json dict"
  lc_reasoning :: ReasoningBlock
  lc_output :: LLMOutput
  lc_tokens :: TokenBreakdown
  lc_cost_usd :: CostBreakdown
  lc_time_to_first_token_ms :: "nat option"
  lc_tokens_per_second :: "rat option"
  lc_retries :: nat
  lc_cache_hit :: bool
  lc_provider_metadata :: "json dict"

record ToolCallSpan = SpanBase +
  tc_tool_name :: string
  tc_tool_version :: "string option"
  tc_tool_use_id :: "string option"
  tc_args_pointer :: "string option"
  tc_args_hash :: "string option"
  tc_args_inline :: "string option"
  tc_result_pointer :: "string option"
  tc_result_hash :: "string option"
  tc_result_inline :: "string option"
  tc_status :: ToolCallStatus
  tc_error :: "string option"
  tc_retry_chain :: "string list"
  tc_sandboxed :: bool
  tc_side_effects :: "json dict"

record RetrievalSpan = SpanBase +
  rt_retriever :: string
  rt_query_pointer :: "string option"
  rt_query_hash :: "string option"
  rt_query_embedding_model :: "string option"
  rt_top_k_requested :: nat
  rt_top_k_returned :: nat
  rt_retrieved :: "RetrievedDoc list"
  rt_reranker :: "string option"
  rt_grounding_used :: "string list"

record MemoryReadSpan = SpanBase +
  mr_memory_store :: string
  mr_keys_requested :: "string list"
  mr_keys_hit :: "string list"
  mr_keys_missed :: "string list"
  mr_values_pointer :: "string option"

record MemoryWriteSpan = SpanBase +
  mw_memory_store :: string
  mw_keys_written :: "string list"
  mw_values_pointer :: "string option"

record DecisionSpan = SpanBase +
  ds_decision_type :: string
  ds_chosen :: string
  ds_alternatives_considered :: "string list"
  ds_rationale_pointer :: "string option"
  ds_confidence :: "rat option"

record HandoffSpan = SpanBase +
  ho_target :: string
  ho_payload_pointer :: "string option"

record HumanInterventionSpan = SpanBase +
  hi_actor :: string
  hi_action :: string
  hi_rationale_pointer :: "string option"

record GuardrailCheckSpan = SpanBase +
  gc_guardrail :: string
  gc_passed :: bool
  gc_detail_pointer :: "string option"

record SttSpan = SpanBase +
  stt_provider :: string
  stt_model :: "string option"
  stt_audio_pointer :: "string option"
  stt_audio_hash :: "string option"
  stt_audio_duration_ms :: "nat option"
  stt_audio_mime_type :: "string option"
  stt_transcript_pointer :: "string option"
  stt_transcript_hash :: "string option"
  stt_transcript_inline :: "string option"
  stt_language :: "string option"
  stt_confidence :: "rat option"
  stt_streaming :: bool
  stt_time_to_first_transcript_ms :: "nat option"
  stt_provider_metadata :: "json dict"

record TtsSpan = SpanBase +
  tts_provider :: string
  tts_model :: "string option"
  tts_voice_id :: "string option"
  tts_text_pointer :: "string option"
  tts_text_hash :: "string option"
  tts_text_inline :: "string option"
  tts_audio_pointer :: "string option"
  tts_audio_hash :: "string option"
  tts_audio_duration_ms :: "nat option"
  tts_audio_mime_type :: "string option"
  tts_time_to_first_byte_ms :: "nat option"
  tts_provider_metadata :: "json dict"

record ErrorSpan = SpanBase +
  es_error_type :: string
  es_message :: string
  es_recoverable :: bool

record CustomSpan = SpanBase +
  cs_payload :: "json dict"

datatype Span =
    AgentTurnSpan SpanBase
  | LLMCallSpan LLMCallSpan
  | ToolCallSpan ToolCallSpan
  | RetrievalSpan RetrievalSpan
  | MemoryReadSpan MemoryReadSpan
  | MemoryWriteSpan MemoryWriteSpan
  | DecisionSpan DecisionSpan
  | HandoffSpan HandoffSpan
  | HumanInterventionSpan HumanInterventionSpan
  | GuardrailCheckSpan GuardrailCheckSpan
  | SttSpan SttSpan
  | TtsSpan TtsSpan
  | ErrorSpan ErrorSpan
  | CustomSpan CustomSpan

text \<open>The inherited fields of a span, whatever its kind, and the discriminator.\<close>

primrec span_base :: "Span \<Rightarrow> SpanBase" where
  "span_base (AgentTurnSpan s) = s"
| "span_base (LLMCallSpan s) = SpanBase.truncate s"
| "span_base (ToolCallSpan s) = SpanBase.truncate s"
| "span_base (RetrievalSpan s) = SpanBase.truncate s"
| "span_base (MemoryReadSpan s) = SpanBase.truncate s"
| "span_base (MemoryWriteSpan s) = SpanBase.truncate s"
| "span_base (DecisionSpan s) = SpanBase.truncate s"
| "span_base (HandoffSpan s) = SpanBase.truncate s"
| "span_base (HumanInterventionSpan s) = SpanBase.truncate s"
| "span_base (GuardrailCheckSpan s) = SpanBase.truncate s"
| "span_base (SttSpan s) = SpanBase.truncate s"
| "span_base (TtsSpan s) = SpanBase.truncate s"
| "span_base (ErrorSpan s) = SpanBase.truncate s"
| "span_base (CustomSpan s) = SpanBase.truncate s"

primrec span_kind :: "Span \<Rightarrow> SpanKind" where
  "span_kind (AgentTurnSpan s) = SpanKind.AGENT_TURN"
| "span_kind (LLMCallSpan s) = SpanKind.LLM_CALL"
| "span_kind (ToolCallSpan s) = SpanKind.TOOL_CALL"
| "span_kind (RetrievalSpan s) = SpanKind.RETRIEVAL"
| "span_kind (MemoryReadSpan s) = SpanKind.MEMORY_READ"
| "span_kind (MemoryWriteSpan s) = SpanKind.MEMORY_WRITE"
| "span_kind (DecisionSpan s) = SpanKind.DECISION"
| "span_kind (HandoffSpan s) = SpanKind.HANDOFF"
| "span_kind (HumanInterventionSpan s) = SpanKind.HUMAN_INTERVENTION"
| "span_kind (GuardrailCheckSpan s) = SpanKind.GUARDRAIL_CHECK"
| "span_kind (SttSpan s) = SpanKind.STT"
| "span_kind (TtsSpan s) = SpanKind.TTS"
| "span_kind (ErrorSpan s) = SpanKind.ERROR"
| "span_kind (CustomSpan s) = SpanKind.CUSTOM"

fun as_llm_call :: "Span \<Rightarrow> LLMCallSpan option" where
  "as_llm_call (LLMCallSpan s) = Some s"
| "as_llm_call _ = None"

fun as_tool_call :: "Span \<Rightarrow> ToolCallSpan option" where
  "as_tool_call (ToolCallSpan s) = Some s"
| "as_tool_call _ = None"

subsection \<open>Results and the trace\<close>

record GraderResult =
  gx_grader :: string
  gx_label :: string
  gx_score :: "rat option"
  gx_reason :: "string option"
  gx_reason_pointer :: "string option"
  gx_confidence :: "rat option"
  gx_failure_modes :: "string list"
  gx_breakdown :: "json option"

record TraceMetrics =
  tm_total_tokens_in :: nat
  tm_total_tokens_out :: nat
  tm_total_cost_usd :: rat
  tm_total_duration_ms :: nat
  tm_tool_call_count :: nat
  tm_llm_call_count :: nat
  tm_retries :: nat
  tm_recovery_events :: nat
  tm_loop_detected :: bool

record TraceOutputs =
  to_final_response_pointer :: "string option"
  to_structured_output :: "json dict option"

datatype TraceLinkKind = paraphrase_variant | replay_of | spawned_by

record TraceLink =
  tl_kind :: TraceLinkKind
  tl_trace_id :: string

record Trace = BaseEntity +
  tr_schema_version :: string
  tr_run :: RunInfo
  tr_agent :: AgentSnapshotRef
  tr_environment :: EnvironmentInfo
  tr_final_state :: FinalState
  tr_spans :: "Span list"
  tr_outputs :: TraceOutputs
  tr_grader_results :: "GraderResult list"
  tr_metrics :: TraceMetrics
  tr_links :: "TraceLink list"
  tr_snapshot_id :: "string option"

definition span_ids :: "Span list \<Rightarrow> string list" where
  "span_ids spans = map (\<lambda>s. span_id (span_base s)) spans"

definition span_ids_unique :: "Trace \<Rightarrow> bool" where
  "span_ids_unique t \<longleftrightarrow>
     \<not> card (set (span_ids (tr_spans t))) \<noteq> length (span_ids (tr_spans t))"

definition parent_ids_reference_existing_spans :: "Trace \<Rightarrow> bool" where
  "parent_ids_reference_existing_spans t \<longleftrightarrow>
     list_all (\<lambda>s. case span_parent_id (span_base s) of
                     None \<Rightarrow> True
                   | Some p \<Rightarrow> p \<in> set (span_ids (tr_spans t))) (tr_spans t)"

definition requested_tool_use_ids :: "Span list \<Rightarrow> string list" where
  "requested_tool_use_ids spans =
     concat (map (\<lambda>s. map tur_tool_use_id (lo_tool_use_requested (lc_output s)))
       (List.map_filter as_llm_call spans))"

definition tool_use_ids_linked :: "Trace \<Rightarrow> bool" where
  "tool_use_ids_linked t \<longleftrightarrow>
     list_all (\<lambda>s. case tc_tool_use_id s of
                     None \<Rightarrow> True
                   | Some i \<Rightarrow> i \<in> set (requested_tool_use_ids (tr_spans t)))
       (List.map_filter as_tool_call (tr_spans t))"

definition validate_Trace :: "Trace \<Rightarrow> Trace result" where
  "validate_Trace t =
     (if \<not> span_ids_unique t then Inl ValueError
      else if \<not> parent_ids_reference_existing_spans t then Inl ValueError
      else if \<not> tool_use_ids_linked t then Inl ValueError
      else Inr t)"

lemma span_ids_unique_iff: "span_ids_unique t \<longleftrightarrow> distinct (span_ids (tr_spans t))"
  by (auto simp: span_ids_unique_def distinct_card intro: card_distinct)

lemma as_llm_call_Some [simp]: "as_llm_call s = Some c \<longleftrightarrow> s = LLMCallSpan c"
  by (cases s) auto

lemma as_tool_call_Some [simp]: "as_tool_call s = Some c \<longleftrightarrow> s = ToolCallSpan c"
  by (cases s) auto

lemma set_map_filter: "set (List.map_filter f xs) = {y. \<exists>x \<in> set xs. f x = Some y}"
  by (induction xs) (auto simp: List.map_filter_simps split: option.splits)

lemma requested_tool_use_ids_iff:
  "i \<in> set (requested_tool_use_ids spans) \<longleftrightarrow>
     (\<exists>c r. LLMCallSpan c \<in> set spans \<and> r \<in> set (lo_tool_use_requested (lc_output c)) \<and>
            tur_tool_use_id r = i)"
  by (fastforce simp: requested_tool_use_ids_def set_map_filter)

lemma validate_Trace_Inr:
  "validate_Trace t = Inr t' \<longleftrightarrow>
     t' = t \<and> distinct (span_ids (tr_spans t)) \<and>
     (\<forall>s \<in> set (tr_spans t). \<forall>p. span_parent_id (span_base s) = Some p \<longrightarrow>
        p \<in> set (span_ids (tr_spans t))) \<and>
     (\<forall>c i. ToolCallSpan c \<in> set (tr_spans t) \<longrightarrow> tc_tool_use_id c = Some i \<longrightarrow>
        i \<in> set (requested_tool_use_ids (tr_spans t)))"
  by (auto simp: validate_Trace_def span_ids_unique_iff parent_ids_reference_existing_spans_def
      tool_use_ids_linked_def list_all_iff set_map_filter split: option.splits)

end
