(* ===== verification/Case_Schema.thy ===== *)
theory Case_Schema
  imports Experiment_Schema
begin

section \<open>schemas/eval_case.py and schemas/dataset.py\<close>

text \<open>
  The atomic unit of evaluation, with the validators every case passes when it is built (typed
  conversation input, privacy contract, disjoint tool lists), and the dataset that groups cases:
  its split allocation, and the assignment rule that keeps a frozen regression dataset's
  content.  A failed Pydantic validation is a \<open>ValueError\<close>.
\<close>

subsection \<open>Taxonomy\<close>

record FeatureTag =
  ft_primary :: string
  ft_secondary :: "string list"

definition valid_FeatureTag :: "FeatureTag \<Rightarrow> bool" where
  "valid_FeatureTag f \<longleftrightarrow> ft_primary f \<noteq> [] \<and> [] \<notin> set (ft_secondary f) \<and>
     distinct (ft_secondary f) \<and> ft_primary f \<notin> set (ft_secondary f)"

record SourceInfo =
  si_type :: DatasetSource
  si_failure_type :: "string option"
  si_failure_id :: "string option"
  si_parent_case_id :: "string option"

record GroundTruthSpec =
  gt_methods :: "GroundTruthMethod list"

definition valid_GroundTruthSpec :: "GroundTruthSpec \<Rightarrow> bool" where
  "valid_GroundTruthSpec g \<longleftrightarrow> gt_methods g \<noteq> [] \<and> distinct (gt_methods g)"

record RiskProfile =
  rp_overall :: string
  rp_user_trust :: "string option"
  rp_privacy :: "string option"
  rp_reversibility :: "string option"
  rp_safety :: "string option"
  rp_cost :: "string option"

record CaseTaxonomy =
  tx_level :: Level
  tx_feature :: FeatureTag
  tx_source :: SourceInfo
  tx_ground_truth :: GroundTruthSpec
  tx_runtime :: RuntimeLocation
  tx_dataset_type :: DatasetType
  tx_risk :: "RiskProfile option"

subsection \<open>Expectations and metadata\<close>

record Expected =
  ep_outcome :: "string option"
  ep_must_include :: "string list"
  ep_min_recall :: "rat option"
  ep_must_not_include :: "string list"
  ep_required_tools :: "string list"
  ep_forbidden_tools :: "string list"
  ep_required_citations :: "string list"
  ep_policy_flags :: "string list"
  ep_structured_output :: "json dict option"
  ep_output_schema :: "json dict option"
  ep_required_sections :: "string list"
  ep_aliases :: "string dict"

definition default_Expected :: Expected where
  "default_Expected = \<lparr>ep_outcome = None, ep_must_include = [], ep_min_recall = None,
     ep_must_not_include = [], ep_required_tools = [], ep_forbidden_tools = [],
     ep_required_citations = [], ep_policy_flags = [], ep_structured_output = None,
     ep_output_schema = None, ep_required_sections = [], ep_aliases = []\<rparr>"

definition valid_Expected :: "Expected \<Rightarrow> bool" where
  "valid_Expected e \<longleftrightarrow> (case ep_min_recall e of None \<Rightarrow> True | Some r \<Rightarrow> unit_interval r)"

record Blocking =
  bl_merge :: bool
  bl_release :: bool

record CaseMetadata =
  cm_owner :: "string option"
  cm_tags :: "string list"
  cm_pii_status :: PIIStatus
  cm_approved_raw_by :: "string option"
  cm_approved_raw_at :: "timestamp option"
  cm_notes :: "string option"

subsection \<open>Conversation input\<close>

record ContentBlock =
  bk_type :: Modality
  bk_text :: "string option"
  bk_extra :: "json dict"

datatype MessageContent = TextContent string | BlockContent "ContentBlock list"

record Message =
  ms_role :: MessageRole
  ms_content :: MessageContent
  ms_name :: "string option"

text \<open>\<^verbatim>\<open>model_validate\<close> on decoded JSON: required keys, types, enum members, and, for a model that
  forbids extra keys, no other key.\<close>

fun json_opt_str :: "json option \<Rightarrow> string option result" where
  "json_opt_str None = Inr None"
| "json_opt_str (Some JNull) = Inr None"
| "json_opt_str (Some (JStr s)) = Inr (Some s)"
| "json_opt_str (Some _) = Inl ValueError"

definition json_modality :: "json option \<Rightarrow> Modality result" where
  "json_modality j = (case j of
     None \<Rightarrow> Inr Modality.TEXT
   | Some (JStr s) \<Rightarrow> enum_of Modality_value Modality_members s
   | Some _ \<Rightarrow> Inl ValueError)"

definition parse_ContentBlock :: "json \<Rightarrow> ContentBlock result" where
  "parse_ContentBlock j = (case as_dict j of
     None \<Rightarrow> Inl ValueError
   | Some d \<Rightarrow>
       bind_result (json_modality (map_of d ''type'')) (\<lambda>ty.
       bind_result (json_opt_str (map_of d ''text'')) (\<lambda>tx.
         Inr \<lparr>bk_type = ty, bk_text = tx,
              bk_extra = filter (\<lambda>(k, _). k \<notin> {''type'', ''text''}) d\<rparr>)))"

definition parse_content :: "json \<Rightarrow> MessageContent result" where
  "parse_content j = (case j of
     JStr s \<Rightarrow> Inr (TextContent s)
   | JList bs \<Rightarrow>
       bind_result (map_result parse_ContentBlock bs) (\<lambda>blocks.
         if length blocks = 0 then Inl ValueError else Inr (BlockContent blocks))
   | _ \<Rightarrow> Inl ValueError)"

definition parse_Message :: "json \<Rightarrow> Message result" where
  "parse_Message j = (case as_dict j of
     None \<Rightarrow> Inl ValueError
   | Some d \<Rightarrow>
       if \<not> list_all (\<lambda>k. k \<in> {''role'', ''content'', ''name''}) (dict_keys d) then Inl ValueError
       else (case (map_of d ''role'', map_of d ''content'') of
         (Some (JStr r), Some c) \<Rightarrow>
           bind_result (enum_of MessageRole_value MessageRole_members r) (\<lambda>role.
           bind_result (parse_content c) (\<lambda>content.
           bind_result (json_opt_str (map_of d ''name'')) (\<lambda>nm.
             Inr \<lparr>ms_role = role, ms_content = content, ms_name = nm\<rparr>)))
       | _ \<Rightarrow> Inl ValueError))"

record ConversationInput =
  ci_messages :: "Message list"
  ci_extra :: "json dict"

definition at_least_one_non_assistant :: "Message list \<Rightarrow> bool" where
  "at_least_one_non_assistant ms \<longleftrightarrow> \<not> list_all (\<lambda>m. ms_role m = MessageRole.ASSISTANT) ms"

definition parse_ConversationInput :: "json dict \<Rightarrow> ConversationInput result" where
  "parse_ConversationInput d = (case map_of d ''messages'' of
     Some (JList js) \<Rightarrow>
       bind_result (map_result parse_Message js) (\<lambda>ms.
         if length ms < 1 then Inl ValueError
         else if \<not> at_least_one_non_assistant ms then Inl ValueError
         else Inr \<lparr>ci_messages = ms, ci_extra = filter (\<lambda>(k, _). k \<noteq> ''messages'') d\<rparr>)
   | _ \<Rightarrow> Inl ValueError)"

subsection \<open>Eval cases\<close>

record EvalCase = BaseEntity +
  ec_experiment_id :: "string option"
  ec_name :: string
  ec_task_type :: string
  ec_modalities :: "Modality list"
  ec_input :: "json dict"
  ec_context :: "json dict option"
  ec_expected :: Expected
  ec_taxonomy :: CaseTaxonomy
  ec_graders :: "string list"
  ec_failure_weights :: "int dict"
  ec_critical_failure_modes :: "string list"
  ec_reference_output :: "string option"
  ec_metadata :: CaseMetadata
  ec_blocking :: Blocking
  ec_holdout :: bool
  ec_content_hash :: "string option"

definition is_conversation :: "EvalCase \<Rightarrow> bool" where
  "is_conversation c \<longleftrightarrow> ''messages'' \<in> set (dict_keys (ec_input c))"

definition conversation :: "EvalCase \<Rightarrow> ConversationInput result" where
  "conversation c =
     (if \<not> is_conversation c then Inl ValueError else parse_ConversationInput (ec_input c))"

definition entries_unique :: "EvalCase \<Rightarrow> bool" where
  "entries_unique c \<longleftrightarrow>
     distinct (ec_modalities c) \<and> distinct (ec_graders c) \<and> distinct (ec_critical_failure_modes c)"

definition validate_conversation_shape :: "json dict \<Rightarrow> json dict result" where
  "validate_conversation_shape d =
     (if ''messages'' \<notin> set (dict_keys d) then Inr d
      else (case parse_ConversationInput d of Inl _ \<Rightarrow> Inl ValueError | Inr _ \<Rightarrow> Inr d))"

definition weights_non_negative :: "int dict \<Rightarrow> bool" where
  "weights_non_negative d \<longleftrightarrow> list_all (\<lambda>(k, w). \<not> w < 0) d"

definition pii_contract :: "EvalCase \<Rightarrow> bool" where
  "pii_contract c \<longleftrightarrow>
     \<not> (si_type (tx_source (ec_taxonomy c)) \<in> {DatasetSource.PRODUCTION, DatasetSource.STAGING} \<and>
        cm_pii_status (ec_metadata c) = PIIStatus.RAW \<and>
        \<not> (cm_approved_raw_by (ec_metadata c) \<notin> {None, Some []} \<and>
           cm_approved_raw_at (ec_metadata c) \<noteq> None))"

definition required_forbidden_tools_disjoint :: "EvalCase \<Rightarrow> bool" where
  "required_forbidden_tools_disjoint c \<longleftrightarrow>
     filter (\<lambda>t. t \<in> set (ep_forbidden_tools (ec_expected c)))
       (ep_required_tools (ec_expected c)) = []"

text \<open>The checks a case passes when it is constructed: field bounds first, then the two model
  validators.\<close>

definition EvalCase_fields_ok :: "EvalCase \<Rightarrow> bool" where
  "EvalCase_fields_ok c \<longleftrightarrow>
     ec_name c \<noteq> [] \<and> ec_task_type c \<noteq> [] \<and> ec_modalities c \<noteq> [] \<and> [] \<notin> set (ec_graders c) \<and>
     [] \<notin> set (ec_critical_failure_modes c) \<and> entries_unique c \<and>
     valid_Expected (ec_expected c) \<and> valid_FeatureTag (tx_feature (ec_taxonomy c)) \<and>
     valid_GroundTruthSpec (tx_ground_truth (ec_taxonomy c))"

definition validate_EvalCase :: "EvalCase \<Rightarrow> EvalCase result" where
  "validate_EvalCase c =
     (if \<not> EvalCase_fields_ok c then Inl ValueError
      else bind_result (validate_conversation_shape (ec_input c)) (\<lambda>_.
        if \<not> weights_non_negative (ec_failure_weights c) then Inl ValueError
        else if \<not> pii_contract c then Inl ValueError
        else if \<not> required_forbidden_tools_disjoint c then Inl ValueError
        else Inr c))"

text \<open>What a constructed case guarantees its consumers: its conversation view never fails, no
  tool is both required and forbidden, weights are non-negative, and raw production data has
  been approved by someone.\<close>

lemma parse_ConversationInput_Inr:
  "parse_ConversationInput d = Inr ci \<Longrightarrow>
     ci_messages ci \<noteq> [] \<and> at_least_one_non_assistant (ci_messages ci)"
  unfolding parse_ConversationInput_def
  by (cases "map_of d ''messages''"; cases "the (map_of d ''messages'')")
    (auto simp: bind_result_Inr_iff split: if_splits)

lemma validate_EvalCase_Inr:
  assumes "validate_EvalCase c = Inr c'"
  shows "c' = c"
    and "is_conversation c \<Longrightarrow> \<exists>ci. conversation c = Inr ci \<and> ci_messages ci \<noteq> [] \<and>
           (\<exists>m \<in> set (ci_messages ci). ms_role m \<noteq> MessageRole.ASSISTANT)"
    and "set (ep_required_tools (ec_expected c)) \<inter> set (ep_forbidden_tools (ec_expected c)) = {}"
    and "\<And>m. 0 \<le> dict_get (ec_failure_weights c) m 0"
    and "pii_contract c"
    and "distinct (ec_graders c)"
proof -
  have fields: "EvalCase_fields_ok c"
    using assms by (simp add: validate_EvalCase_def split: if_splits)
  then have eu: "entries_unique c" by (simp add: EvalCase_fields_ok_def)
  obtain d where shape: "validate_conversation_shape (ec_input c) = Inr d"
    using assms fields by (cases "validate_conversation_shape (ec_input c)") (simp_all add: validate_EvalCase_def)
  have rest: "weights_non_negative (ec_failure_weights c)" "pii_contract c"
      "required_forbidden_tools_disjoint c" "c' = c"
    using assms fields shape by (simp_all add: validate_EvalCase_def split: if_split_asm)
  show "c' = c" "pii_contract c" using rest by auto
  show "distinct (ec_graders c)" using eu by (simp add: entries_unique_def)
  show "set (ep_required_tools (ec_expected c)) \<inter> set (ep_forbidden_tools (ec_expected c)) = {}"
    using rest by (auto simp: required_forbidden_tools_disjoint_def filter_empty_conv)
  show "0 \<le> dict_get (ec_failure_weights c) m 0" for m
    using rest(1)
    by (auto simp: weights_non_negative_def list_all_iff dict_get_def not_less
        split: option.splits dest!: map_of_SomeD)
  show "\<exists>ci. conversation c = Inr ci \<and> ci_messages ci \<noteq> [] \<and>
      (\<exists>m \<in> set (ci_messages ci). ms_role m \<noteq> MessageRole.ASSISTANT)" if "is_conversation c"
  proof -
    from that shape obtain ci where ci: "parse_ConversationInput (ec_input c) = Inr ci"
      by (auto simp: validate_conversation_shape_def is_conversation_def split: sum.splits if_splits)
    with parse_ConversationInput_Inr [OF ci] that show ?thesis
      by (auto simp: conversation_def at_least_one_non_assistant_def list_all_iff)
  qed
qed

subsection \<open>Datasets\<close>

record SplitAllocation =
  sa_optimization :: rat
  sa_holdout :: rat
  sa_reliability :: rat
  sa_other :: "rat dict"

definition split_total :: "SplitAllocation \<Rightarrow> rat" where
  "split_total s = sa_optimization s + sa_holdout s + sa_reliability s + sum_list (map snd (sa_other s))"

definition validate_SplitAllocation :: "SplitAllocation \<Rightarrow> SplitAllocation result" where
  "validate_SplitAllocation s =
     (if \<not> unit_interval (sa_optimization s) \<or> \<not> unit_interval (sa_holdout s) \<or>
         \<not> unit_interval (sa_reliability s) then Inl ValueError
      else if \<not> list_all (\<lambda>(k, v). 0 \<le> v \<and> v \<le> 1) (sa_other s) then Inl ValueError
      else if \<bar>split_total s - 1\<bar> > 1 / 1000000 then Inl ValueError
      else Inr s)"

record DatasetStatistics =
  st_total_cases :: nat
  st_by_level :: "int dict"
  st_by_feature :: "int dict"
  st_by_source :: "int dict"
  st_by_risk :: "int dict"
  st_holdout_count :: nat
  st_pii_breakdown :: "int dict"

record Dataset = BaseEntity +
  da_name :: string
  da_description :: "string option"
  da_dataset_type :: DatasetType
  da_cases :: "EntityRef list"
  da_split_allocation :: SplitAllocation
  da_source_dataset_id :: "string option"
  da_manifest_hash :: "string option"
  da_status :: DatasetStatus
  da_statistics :: "DatasetStatistics option"

definition no_duplicate_cases :: "EntityRef list \<Rightarrow> bool" where
  "no_duplicate_cases cs \<longleftrightarrow> distinct (map ref_id cs)"

definition frozen_or_active_requires_manifest_hash :: "Dataset \<Rightarrow> bool" where
  "frozen_or_active_requires_manifest_hash d \<longleftrightarrow>
     \<not> (da_status d \<in> {DatasetStatus.FROZEN, DatasetStatus.ACTIVE} \<and>
        da_manifest_hash d \<in> {None, Some []})"

definition validate_Dataset :: "Dataset \<Rightarrow> Dataset result" where
  "validate_Dataset d =
     (if da_name d = [] \<or> \<not> list_all valid_EntityRef (da_cases d) \<or>
         \<not> no_duplicate_cases (da_cases d) then Inl ValueError
      else if \<not> frozen_or_active_requires_manifest_hash d then Inl ValueError
      else Inr d)"

text \<open>Assignments \<^verbatim>\<open>dataset.<name> = value\<close>: the guard on a frozen regression dataset, the cleared
  statistics cache, and the validation of the assigned model (\<^verbatim>\<open>validate_assignment\<close>).\<close>

datatype DatasetAssign =
    SetCases "EntityRef list"
  | SetDatasetType DatasetType
  | SetStatus DatasetStatus
  | SetManifestHash "string option"
  | SetStatistics "DatasetStatistics option"
  | SetSplit SplitAllocation
  | SetDatasetName string

definition frozen_regression :: "Dataset \<Rightarrow> bool" where
  "frozen_regression d \<longleftrightarrow>
     da_status d = DatasetStatus.FROZEN \<and> da_dataset_type d = DatasetType.REGRESSION"

fun content_field :: "DatasetAssign \<Rightarrow> bool" where
  "content_field (SetCases _) = True"
| "content_field (SetDatasetType _) = True"
| "content_field _ = False"

fun assign_field :: "DatasetAssign \<Rightarrow> Dataset \<Rightarrow> Dataset" where
  "assign_field (SetCases cs) d = d\<lparr>da_cases := cs\<rparr>"
| "assign_field (SetDatasetType t) d = d\<lparr>da_dataset_type := t\<rparr>"
| "assign_field (SetStatus s) d = d\<lparr>da_status := s\<rparr>"
| "assign_field (SetManifestHash h) d = d\<lparr>da_manifest_hash := h\<rparr>"
| "assign_field (SetStatistics s) d = d\<lparr>da_statistics := s\<rparr>"
| "assign_field (SetSplit s) d = d\<lparr>da_split_allocation := s\<rparr>"
| "assign_field (SetDatasetName n) d = d\<lparr>da_name := n\<rparr>"

definition dataset_setattr :: "DatasetAssign \<Rightarrow> Dataset \<Rightarrow> Dataset result" where
  "dataset_setattr a d =
     (if frozen_regression d \<and> content_field a then Inl ValueError
      else
        let d' = (if content_field a \<and> da_statistics d \<noteq> None
                  then d\<lparr>da_statistics := None\<rparr> else d)
        in validate_Dataset (assign_field a d'))"

fun dataset_assigns :: "DatasetAssign list \<Rightarrow> Dataset \<Rightarrow> Dataset result" where
  "dataset_assigns [] d = Inr d"
| "dataset_assigns (a # as) d = bind_result (dataset_setattr a d) (dataset_assigns as)"

lemma validate_Dataset_Inr: "validate_Dataset d = Inr d' \<Longrightarrow> d' = d"
  by (auto simp: validate_Dataset_def split: if_splits)

lemma dataset_setattr_frozen:
  assumes "frozen_regression d" "dataset_setattr a d = Inr d'" "\<And>s. a \<noteq> SetStatus s"
  shows "da_cases d' = da_cases d \<and> frozen_regression d'"
  using assms
  by (cases a)
    (auto simp: dataset_setattr_def frozen_regression_def Let_def dest!: validate_Dataset_Inr
      split: if_splits)

lemma dataset_assigns_frozen:
  assumes "frozen_regression d" "dataset_assigns as d = Inr d'" "\<And>s. SetStatus s \<notin> set as"
  shows "da_cases d' = da_cases d \<and> frozen_regression d'"
  using assms
proof (induction as arbitrary: d)
  case (Cons a as)
  then obtain d1 where d1: "dataset_setattr a d = Inr d1" "dataset_assigns as d1 = Inr d'"
    by (auto simp: bind_result_Inr_iff)
  have "da_cases d1 = da_cases d \<and> frozen_regression d1"
    using dataset_setattr_frozen [OF Cons.prems(1) d1(1)] Cons.prems(3) by force
  with Cons.IH [OF _ d1(2)] Cons.prems(3) show ?case by auto
qed simp

text \<open>The statistics cache never survives a change of the content it was computed from.\<close>

lemma dataset_setattr_statistics:
  "dataset_setattr a d = Inr d' \<Longrightarrow> content_field a \<Longrightarrow> da_statistics d' = None"
  by (cases a) (auto simp: dataset_setattr_def Let_def dest!: validate_Dataset_Inr split: if_splits)

record DatasetBaseline = BaseEntity +
  db_dataset_id :: string
  db_iteration_id :: string
  db_experiment_id :: string
  db_primary_metric :: string
  db_primary_value :: rat
  db_error_rate :: rat
  db_confusion :: "json option"

definition valid_DatasetBaseline :: "DatasetBaseline \<Rightarrow> bool" where
  "valid_DatasetBaseline b \<longleftrightarrow> db_dataset_id b \<noteq> [] \<and> db_iteration_id b \<noteq> [] \<and>
     db_experiment_id b \<noteq> [] \<and> db_primary_metric b \<noteq> [] \<and> unit_interval (db_error_rate b)"

end
