(* ===== verification/Grading.thy ===== *)
theory Grading
  imports Trace_Schema Case_Schema
begin

section \<open>graders/base.py and runner/adapters.py: results, breakdown trees, contexts\<close>

text \<open>
  What every grader consumes and produces.  \<open>BreakdownNode\<close> is the recursive funnel tree with
  its JSON form (\<open>to_dict\<close>, \<open>from_dict\<close>) and their round trip; \<open>GradeResult\<close> is one verdict.
  The locale \<open>grader_contract\<close> is the contract the aggregator and the funnel rely on, interpreted by
  every grader of the model: a grade carries the grader's name, its score is in the unit
  interval, and a failure names at least one failure mode.

  Reasons that render a number or a quoted value (\<^verbatim>\<open>{recall:.3f}\<close>, \<^verbatim>\<open>{label!r}\<close>), and the reason of a
  whole grade, are represented by \<open>no_text\<close>; a reason of plain text is written out, and one that
  is copied from one value to another is copied.  The field \<^verbatim>\<open>GradeResult.details\<close>
  (diagnostic values no other component of the model reads) is left out.
\<close>

definition no_text :: string where
  "no_text = []"

text \<open>\<^verbatim>\<open>failure_mode.replace("_", " ")\<close>, the text of an advisory leaf.\<close>

definition spaced :: "string \<Rightarrow> string" where
  "spaced s = map (\<lambda>c. if c = CHR ''_'' then CHR '' '' else c) s"

subsection \<open>Adapter requests and responses\<close>

record AdapterToolUse =
  atu_tool :: string
  atu_tool_use_id :: string
  atu_args :: "json dict"
  atu_result :: "json option"
  atu_status :: "string option"
  atu_error :: "string option"

record AdapterRequest =
  rq_workspace_id :: string
  rq_case_id :: string
  rq_input :: "json dict"
  rq_context :: "json dict option"
  rq_tools_allowed :: "string list"
  rq_parameters :: "json dict"
  rq_metadata :: "json dict"
  rq_otlp_endpoint :: "string option"

text \<open>\<^verbatim>\<open>(parameters or {}).get("model_params") or {}\<close>, then \<^verbatim>\<open>inner.get(key, default)\<close>; a truthy
  value that is not a dict has no \<^verbatim>\<open>get\<close>.\<close>

definition get_model_param :: "AdapterRequest \<Rightarrow> string \<Rightarrow> json \<Rightarrow> json result" where
  "get_model_param r key dflt =
     (let inner = dict_get (rq_parameters r) ''model_params'' JNull
      in if \<not> py_truthy inner then Inr dflt
         else (case as_dict inner of
                 None \<Rightarrow> Inl TypeError
               | Some d \<Rightarrow> Inr (dict_get d key dflt)))"

record AdapterResponse =
  rsp_content :: "string option"
  rsp_structured_output :: "json dict option"
  rsp_tool_uses :: "AdapterToolUse list"
  rsp_stop_reason :: "string option"
  rsp_tokens_input :: nat
  rsp_tokens_output :: nat
  rsp_tokens_reasoning :: nat
  rsp_tokens_cache_read :: nat
  rsp_tokens_cache_creation :: nat
  rsp_cost_usd :: rat
  rsp_provider_metadata :: "json dict"

subsection \<open>Breakdown trees\<close>

datatype BreakdownNode = BreakdownNode
  (bn_key: string)
  (bn_label: "GradeLabel option")
  (bn_score: "rat option")
  (bn_weight: rat)
  (bn_reason: string)
  (bn_failure_modes: "string list")
  (bn_children: "BreakdownNode list")

definition opt_json :: "('a \<Rightarrow> json) \<Rightarrow> 'a option \<Rightarrow> json" where
  "opt_json f x = (case x of None \<Rightarrow> JNull | Some y \<Rightarrow> f y)"

fun breakdown_to_dict :: "BreakdownNode \<Rightarrow> json" where
  "breakdown_to_dict (BreakdownNode k l s w r fms cs) =
     JObj [(''key'', JStr k),
           (''label'', opt_json (\<lambda>x. JStr (GradeLabel_value x)) l),
           (''score'', opt_json JFloat s),
           (''weight'', JFloat w),
           (''reason'', JStr r),
           (''failure_modes'', JList (map JStr fms)),
           (''children'', JList (map breakdown_to_dict cs))]"

text \<open>Reading the fields back.  A value of a type the dataclass never stores (\<open>DomainMissing\<close>)
  is outside the record.\<close>

definition json_label :: "json \<Rightarrow> GradeLabel option result" where
  "json_label j = (case j of
     JNull \<Rightarrow> Inr None
   | JStr s \<Rightarrow> map_sum id Some (enum_of GradeLabel_value GradeLabel_members s)
   | _ \<Rightarrow> Inl ValueError)"

definition json_number :: "json \<Rightarrow> rat result" where
  "json_number j = (case json_num j of None \<Rightarrow> Inl DomainMissing | Some q \<Rightarrow> Inr q)"

definition json_opt_number :: "json \<Rightarrow> rat option result" where
  "json_opt_number j = (if j = JNull then Inr None else map_sum id Some (json_number j))"

definition json_string :: "json \<Rightarrow> string result" where
  "json_string j = (case as_str j of None \<Rightarrow> Inl DomainMissing | Some s \<Rightarrow> Inr s)"

definition json_str_list :: "json \<Rightarrow> string list result" where
  "json_str_list j =
     (case as_list j of None \<Rightarrow> Inl TypeError | Some xs \<Rightarrow> map_result json_string xs)"

lemma map_result_cong [fundef_cong]:
  assumes "xs = ys" "\<And>x. x \<in> set ys \<Longrightarrow> f x = g x"
  shows "map_result f xs = map_result g ys"
  unfolding assms(1) using assms(2) by (induction ys) auto

lemma size_json_field: "map_of d k = Some v \<Longrightarrow> size v < size (JObj d)"
  by (induction d) (auto split: if_splits)

lemma size_json_elem: "x \<in> set xs \<Longrightarrow> size x < size (JList xs)"
  by (induction xs) auto

lemma as_list_Some [simp]: "as_list j = Some xs \<longleftrightarrow> j = JList xs"
  by (cases j) auto

lemma as_dict_Some [simp]: "as_dict j = Some d \<longleftrightarrow> j = JObj d"
  by (cases j) auto

lemma as_str_Some [simp]: "as_str j = Some s \<longleftrightarrow> j = JStr s"
  by (cases j) auto

text \<open>\<^verbatim>\<open>data.get("children", [])\<close>.\<close>

definition child_dicts :: "json dict \<Rightarrow> json list result" where
  "child_dicts d = (case as_list (dict_get d ''children'' (JList [])) of
     None \<Rightarrow> Inl TypeError | Some cs \<Rightarrow> Inr cs)"

lemma size_child_dicts: "child_dicts d = Inr cs \<Longrightarrow> c \<in> set cs \<Longrightarrow> size c < size (JObj d)"
  using size_json_field [of d "''children''"] size_json_elem [of c cs]
  by (fastforce simp: child_dicts_def dict_get_def split: option.splits)

function breakdown_from_dict :: "json \<Rightarrow> BreakdownNode result" where
  "breakdown_from_dict data = (case data of
     JObj d \<Rightarrow>
       bind_result (case map_of d ''key'' of None \<Rightarrow> Inl KeyError | Some j \<Rightarrow> json_string j) (\<lambda>k.
       bind_result (json_label (dict_get d ''label'' JNull)) (\<lambda>l.
       bind_result (json_opt_number (dict_get d ''score'' JNull)) (\<lambda>s.
       bind_result (json_number (dict_get d ''weight'' (JFloat 1))) (\<lambda>w.
       bind_result (json_string (dict_get d ''reason'' (JStr []))) (\<lambda>r.
       bind_result (json_str_list (dict_get d ''failure_modes'' (JList []))) (\<lambda>fms.
         (case child_dicts d of
            Inl e \<Rightarrow> Inl e
          | Inr cs \<Rightarrow>
              bind_result (map_result breakdown_from_dict cs) (\<lambda>nodes.
                Inr (BreakdownNode k l s w r fms nodes)))))))))
   | _ \<Rightarrow> Inl TypeError)"
  by pat_completeness auto
termination
  by (relation "measure size") (auto dest!: size_child_dicts)

declare breakdown_from_dict.simps [simp del]

lemma json_str_list_map: "json_str_list (JList (map JStr xs)) = Inr xs"
  by (simp add: json_str_list_def, induction xs) (simp_all add: json_string_def)

lemma json_label_opt: "json_label (opt_json (\<lambda>x. JStr (GradeLabel_value x)) l) = Inr l"
  by (cases l) (simp_all add: opt_json_def json_label_def GradeLabel_enum.of_value)

lemma json_opt_number_opt: "json_opt_number (opt_json JFloat s) = Inr s"
  by (cases s) (simp_all add: opt_json_def json_opt_number_def json_number_def)

lemma map_result_roundtrip:
  "(\<And>x. x \<in> set xs \<Longrightarrow> f (g x) = Inr x) \<Longrightarrow> map_result f (map g xs) = Inr xs"
  by (induction xs) auto

lemma breakdown_roundtrip_aux: "breakdown_from_dict (breakdown_to_dict n) = Inr n"
proof (induction n)
  case (BreakdownNode k l s w r fms cs)
  then have "map_result breakdown_from_dict (map breakdown_to_dict cs) = Inr cs"
    by (intro map_result_roundtrip) auto
  then show ?case
    by (simp add: breakdown_from_dict.simps dict_get_def json_label_opt json_opt_number_opt
        json_str_list_map child_dicts_def json_number_def json_string_def)
qed

subsection \<open>Grades and the grader contract\<close>

record GradeResult =
  gr_grader :: string
  gr_label :: GradeLabel
  gr_reason :: string
  gr_score :: "rat option"
  gr_confidence :: "rat option"
  gr_failure_modes :: "string list"
  gr_breakdown :: "BreakdownNode option"

record GraderContext =
  gcx_case :: EvalCase
  gcx_trace :: Trace
  gcx_response :: "AdapterResponse option"

text \<open>\<^verbatim>\<open>GradeResult(grader=.., label=.., reason=.., score=.., failure_modes=..)\<close>.\<close>

definition grade_result ::
    "string \<Rightarrow> GradeLabel \<Rightarrow> rat option \<Rightarrow> string list \<Rightarrow> BreakdownNode option \<Rightarrow> GradeResult" where
  "grade_result nm l s fms b = \<lparr>gr_grader = nm, gr_label = l, gr_reason = no_text, gr_score = s,
     gr_confidence = None, gr_failure_modes = fms, gr_breakdown = b\<rparr>"

lemma grade_result_simps [simp]:
  "gr_grader (grade_result nm l s fms b) = nm"
  "gr_label (grade_result nm l s fms b) = l"
  "gr_reason (grade_result nm l s fms b) = no_text"
  "gr_score (grade_result nm l s fms b) = s"
  "gr_confidence (grade_result nm l s fms b) = None"
  "gr_failure_modes (grade_result nm l s fms b) = fms"
  "gr_breakdown (grade_result nm l s fms b) = b"
  by (simp_all add: grade_result_def)

definition score_ok :: "rat option \<Rightarrow> bool" where
  "score_ok s \<longleftrightarrow> (case s of None \<Rightarrow> True | Some q \<Rightarrow> 0 \<le> q \<and> q \<le> 1)"

lemma score_ok_simps [simp]:
  "score_ok None"
  "score_ok (Some q) \<longleftrightarrow> 0 \<le> q \<and> q \<le> 1"
  by (simp_all add: score_ok_def)

definition well_graded :: "string \<Rightarrow> GradeResult \<Rightarrow> bool" where
  "well_graded nm g \<longleftrightarrow> gr_grader g = nm \<and> score_ok (gr_score g) \<and>
     (gr_label g = GradeLabel.FAIL \<longrightarrow> gr_failure_modes g \<noteq> [])"

lemma well_graded_grade_result [simp]:
  "well_graded nm (grade_result nm' l s fms b) \<longleftrightarrow>
     nm' = nm \<and> score_ok s \<and> (l = GradeLabel.FAIL \<longrightarrow> fms \<noteq> [])"
  by (simp add: well_graded_def)

text \<open>A context as the executor builds it: its case passed validation.\<close>

definition good_context :: "GraderContext \<Rightarrow> bool" where
  "good_context ctx \<longleftrightarrow> valid_Expected (ec_expected (gcx_case ctx))"

locale grader_contract =
  fixes nm :: string
    and grade :: "GraderContext \<Rightarrow> GradeResult result"
  assumes grades_well: "good_context ctx \<Longrightarrow> grade ctx = Inr g \<Longrightarrow> well_graded nm g"
begin

lemma keeps_name: "good_context ctx \<Longrightarrow> grade ctx = Inr g \<Longrightarrow> gr_grader g = nm"
  using grades_well by (simp add: well_graded_def)

lemma score_unit:
  "good_context ctx \<Longrightarrow> grade ctx = Inr g \<Longrightarrow> gr_score g = Some s \<Longrightarrow> 0 \<le> s \<and> s \<le> 1"
  using grades_well [of ctx g] by (auto simp: well_graded_def score_ok_def)

lemma fail_attributed:
  "good_context ctx \<Longrightarrow> grade ctx = Inr g \<Longrightarrow> gr_label g = GradeLabel.FAIL \<Longrightarrow>
     \<exists>m. m \<in> set (gr_failure_modes g)"
  using grades_well [of ctx g] by (auto simp: well_graded_def neq_Nil_conv)

lemma grades_all_well:
  "list_all good_context ctxs \<Longrightarrow> map_result grade ctxs = Inr gs \<Longrightarrow> \<forall>g \<in> set gs. well_graded nm g"
proof (induction ctxs arbitrary: gs)
  case (Cons ctx ctxs)
  then show ?case by (auto simp: bind_result_Inr_iff dest: grades_well)
qed simp

end

end
