(* ===== verification/Samples.thy ===== *)
theory Samples
  imports Iteration_Schema Grading
begin

section \<open>Concrete values\<close>

text \<open>
  Small concrete experiments, cases, traces and responses.  Every theorem of the development that
  has hypotheses is applied to some of them, so that its hypotheses are seen to hold together.
\<close>

definition sample_ref :: EntityRef where
  "sample_ref = \<lparr>ref_id = ''ref_1'', ref_version = Some 1\<rparr>"

definition sample_run_spec :: RunSpec where
  "sample_run_spec = \<lparr>run_sandbox = SandboxMode.MOCK, run_runtime = RuntimeLocation.OFFLINE,
     run_sample_strategy = SampleFull, run_max_iterations = 3, run_repetitions_per_case = 2,
     run_parallelism = 1,
     run_convergence = \<lparr>cv_min_delta = 1 / 100, cv_patience = 2, cv_early_stop = None\<rparr>,
     run_retry = \<lparr>rs_max_retries = 2, rs_base_delay_seconds = 1, rs_max_delay_seconds = 30,
       rs_multiplier = 2, rs_jitter = 0\<rparr>,
     run_rate_limit = \<lparr>rl_requests_per_minute = None, rl_burst = None\<rparr>,
     run_seed = None, run_persist_traces = PersistFailed\<rparr>"

definition sample_experiment :: Experiment where
  "sample_experiment = \<lparr>ent_id = ''exp_1'', workspace_id = ''ws_1'', version = 1, created_at = 0,
     updated_at = 0, deleted_at = None, exp_name = ''refunds'', exp_goal = ''fewer errors'',
     exp_mode = Mode.HANDOFF,
     exp_taxonomy = \<lparr>tax_target_features = [''refund''], tax_target_levels = [],
       tax_dataset_types = [DatasetType.CAPABILITY]\<rparr>,
     exp_datasets = \<lparr>du_optimization = sample_ref, du_gates = []\<rparr>,
     exp_target = \<lparr>target_primary = \<lparr>mt_name = ''pass^2'', mt_operator = OpGE, mt_value = 1 / 2\<rparr>,
       target_guardrails = [\<lparr>mt_name = ''critical_failure_count'', mt_operator = OpEQ, mt_value = 0\<rparr>],
       target_primary_grader = None\<rparr>,
     exp_editable = default_EditableContract,
     exp_search_space = \<lparr>ss_model_params = [(''temperature'', JList [JInt 0, JInt 1]), (''model'', JStr ''m'')],
       ss_prompt_variables = [], ss_tool_params = [], ss_agents = []\<rparr>,
     exp_frozen = \<lparr>frozen_fleet = sample_ref, frozen_agents = [sample_ref], frozen_tools = [],
       frozen_datasets = [sample_ref], frozen_graders = [], frozen_risk_registry = None,
       frozen_feature_registry = None\<rparr>,
     exp_proposer = \<lparr>pr_strategy = ProposerStrategy.GRID, pr_allow_search_space_expansion = False,
       pr_parameters = []\<rparr>,
     exp_run = sample_run_spec,
     exp_judge_defenses = \<lparr>jd_holdout_visible_to_proposer = False, jd_overfit_penalty_max_delta = 1 / 10,
       jd_panel = None,
       jd_counterfactuals = \<lparr>cf_enabled = False, cf_generation_strategy = Paraphrase,
         cf_pairs_per_case = 1, cf_max_score_variance = 1 / 10\<rparr>,
       jd_human_spot_check = \<lparr>hs_enabled = False, hs_sample_rate = 1 / 10, hs_trigger_on_jump = 1 / 10\<rparr>,
       jd_adversarial_dataset = None, jd_outcome_metrics = None\<rparr>,
     exp_reliability = \<lparr>rel_repetitions_per_case = 2, rel_metrics = [''consistency_rate'']\<rparr>,
     exp_decision = \<lparr>if_regression_fails = RegReject, if_guardrail_fails = GuardRequireTradeoffReview,
       if_judge_human_disagree = EscalateToCalibration\<rparr>,
     exp_error_analysis = \<lparr>ea_enabled = False, ea_trigger = \<lparr>trigger_threshold = 1 / 2\<rparr>,
       ea_scope = FailedOnly\<rparr>,
     exp_state = ExperimentState.DRAFT, exp_content_hash = None\<rparr>"

definition sample_case :: "string \<Rightarrow> bool \<Rightarrow> EvalCase" where
  "sample_case i held_out = \<lparr>ent_id = i, workspace_id = ''ws_1'', version = 1, created_at = 0,
     updated_at = 0, deleted_at = None, ec_experiment_id = None, ec_name = i,
     ec_task_type = ''refund'', ec_modalities = [Modality.TEXT], ec_input = [(''text'', JStr ''hi'')],
     ec_context = None,
     ec_expected = default_Expected\<lparr>ep_outcome := Some ''refund'', ep_must_include := [''refund'']\<rparr>,
     ec_taxonomy = \<lparr>tx_level = Level.FINAL_RESPONSE,
       tx_feature = \<lparr>ft_primary = ''refund'', ft_secondary = []\<rparr>,
       tx_source = \<lparr>si_type = DatasetSource.HANDCRAFTED, si_failure_type = None, si_failure_id = None,
         si_parent_case_id = None\<rparr>,
       tx_ground_truth = \<lparr>gt_methods = [GroundTruthMethod.EXACT_MATCH]\<rparr>,
       tx_runtime = RuntimeLocation.OFFLINE, tx_dataset_type = DatasetType.CAPABILITY, tx_risk = None\<rparr>,
     ec_graders = [], ec_failure_weights = [], ec_critical_failure_modes = [],
     ec_reference_output = None,
     ec_metadata = \<lparr>cm_owner = None, cm_tags = [], cm_pii_status = PIIStatus.RAW,
       cm_approved_raw_by = None, cm_approved_raw_at = None, cm_notes = None\<rparr>,
     ec_blocking = \<lparr>bl_merge = False, bl_release = False\<rparr>, ec_holdout = held_out,
     ec_content_hash = None\<rparr>"

definition sample_trace :: "string \<Rightarrow> string option \<Rightarrow> nat option \<Rightarrow> Trace" where
  "sample_trace i thread position = \<lparr>ent_id = i, workspace_id = ''ws_1'', version = 1,
     created_at = 0, updated_at = 0, deleted_at = None, tr_schema_version = ''1.5.0'',
     tr_run = \<lparr>ri_run_id = i, ri_experiment_id = None, ri_iteration = Some 0, ri_variant_id = None,
       ri_eval_case_id = None, ri_repetition = 0, ri_seed = None, ri_thread_id = thread,
       ri_thread_position = position\<rparr>,
     tr_agent = \<lparr>as_fleet_version = None, as_agent_id = ''agent'', as_agent_version = 1,
       as_parameters_snapshot_id = None\<rparr>,
     tr_environment = \<lparr>ev_framework_version = ''1'', ev_runtime = ''offline'',
       ev_sandbox = SandboxMode.MOCK, ev_tool_mocks = [], ev_started_at = 0, ev_ended_at = Some 1\<rparr>,
     tr_final_state = \<lparr>fs_status = TraceState.COMPLETED, fs_error = None\<rparr>,
     tr_spans = [], tr_outputs = \<lparr>to_final_response_pointer = None, to_structured_output = None\<rparr>,
     tr_grader_results = [],
     tr_metrics = \<lparr>tm_total_tokens_in = 0, tm_total_tokens_out = 0, tm_total_cost_usd = 0,
       tm_total_duration_ms = 10, tm_tool_call_count = 0, tm_llm_call_count = 0, tm_retries = 0,
       tm_recovery_events = 0, tm_loop_detected = False\<rparr>,
     tr_links = [], tr_snapshot_id = None\<rparr>"

definition sample_response :: "string \<Rightarrow> json dict option \<Rightarrow> AdapterResponse" where
  "sample_response text struct = \<lparr>rsp_content = Some text, rsp_structured_output = struct,
     rsp_tool_uses = [], rsp_stop_reason = None, rsp_tokens_input = 0, rsp_tokens_output = 0,
     rsp_tokens_reasoning = 0, rsp_tokens_cache_read = 0, rsp_tokens_cache_creation = 0,
     rsp_cost_usd = 0, rsp_provider_metadata = []\<rparr>"

definition sample_context :: "string \<Rightarrow> json dict option \<Rightarrow> GraderContext" where
  "sample_context text struct = \<lparr>gcx_case = sample_case ''ec_1'' False,
     gcx_trace = sample_trace ''tr_1'' None None,
     gcx_response = Some (sample_response text struct)\<rparr>"

definition sample_proposal :: Proposal where
  "sample_proposal = \<lparr>pp_parameters = [(''model_params'', JObj [(''temperature'', JInt 0)])],
     pp_hypothesis = ''colder'', pp_confidence = 1 / 2, pp_code_changes = [],
     pp_inputs_referenced = [], pp_search_space_expansion_request = None\<rparr>"

text \<open>They are accepted by the model's own constructors.\<close>

lemma sample_case_valid: "validate_EvalCase (sample_case (c # cs) h) = Inr (sample_case (c # cs) h)"
  by (simp add: validate_EvalCase_def EvalCase_fields_ok_def entries_unique_def valid_Expected_def
      valid_FeatureTag_def valid_GroundTruthSpec_def validate_conversation_shape_def
      weights_non_negative_def pii_contract_def required_forbidden_tools_disjoint_def sample_case_def
      default_Expected_def dict_keys_def)

lemma sample_experiment_valid: "validate_experiment sample_experiment = Inr sample_experiment"
  by code_simp

lemma sample_proposal_valid: "validate_against sample_proposal sample_experiment = Inr ()"
  by (simp add: validate_against_Inr respects_contract_def sample_proposal_def sample_experiment_def
      default_EditableContract_def PROPOSAL_KEY_TO_EDITABLE_def dict_keys_def editable_flag_def)

lemmas sample_defs = sample_ref_def sample_run_spec_def sample_experiment_def sample_case_def
  sample_trace_def sample_response_def sample_context_def sample_proposal_def

subsection \<open>Stored records\<close>

text \<open>Iteration records and datasets for the witnesses of the comparison and of the regression gate.\<close>

definition sample_metrics :: "rat \<Rightarrow> nat dict \<Rightarrow> IterationMetrics" where
  "sample_metrics q modes = \<lparr>im_primary = \<lparr>mo_name = ''pass@1'', mo_value = q, mo_delta_vs_baseline = None\<rparr>,
     im_guardrails = [], im_reliability = [(''consistency_rate'', 1)], im_cost_usd = None, im_duration_seconds = None,
     im_error_rate = 0, im_failure_mode_counts = modes, im_funnel = [], im_confusion = None\<rparr>"

definition sample_iteration :: "string \<Rightarrow> rat \<Rightarrow> nat dict \<Rightarrow> json dict \<Rightarrow> IterationRecord" where
  "sample_iteration i q modes params = \<lparr>ent_id = i, workspace_id = ''ws_1'', version = 1, created_at = 0, updated_at = 0,
     deleted_at = None, ir_experiment_id = ''exp_1'', ir_iteration = 0, ir_parent_iteration = None,
     ir_state = IterationState.COMPLETED,
     ir_proposer = \<lparr>pi_type = ProposerStrategy.GRID, pi_strategy_parameters = [], pi_iterations_consulted = [],
       pi_failure_modes_consulted = []\<rparr>,
     ir_hypothesis = ''h'', ir_proposed_parameters = params,
     ir_execution = \<lparr>ex_variant_id = ''v'', ex_ran_against = [], ex_trace_run_ids = []\<rparr>,
     ir_metrics = Some (sample_metrics q modes),
     ir_decision = Some \<lparr>id_outcome = DecisionOutcome.KEEP_CANDIDATE, id_next_action = None\<rparr>,
     ir_duration_seconds = None, ir_cost_usd = None\<rparr>"

definition sample_stored_dataset :: "string \<Rightarrow> Dataset" where
  "sample_stored_dataset i = \<lparr>ent_id = i, workspace_id = ''ws_1'', version = 1, created_at = 0, updated_at = 0, deleted_at = None,
     da_name = ''refunds'', da_description = None, da_dataset_type = DatasetType.SMOKE, da_cases = [],
     da_split_allocation = \<lparr>sa_optimization = 1, sa_holdout = 0, sa_reliability = 0, sa_other = []\<rparr>,
     da_source_dataset_id = None, da_manifest_hash = None, da_status = DatasetStatus.DRAFT, da_statistics = None\<rparr>"

end
