(* ===== verification/Schema_Properties.thy ===== *)
theory Schema_Properties
  imports Samples
begin

section \<open>Properties of the schemas\<close>

text \<open>
  What the validated records guarantee the rest of the program: the life of an experiment, the
  reachability of its declared reliability metrics, the shape of a case, of a trace and of a
  frozen dataset.
\<close>

text \<open>C20. Whatever sequence of legal transitions an experiment takes, it cannot get past its
  pre-run states (draft, queued, aborted) without having been running; and once it is terminal
  every later state is terminal too.\<close>

theorem experiment_life:
  assumes "exp_run_path e es e'"
  shows "(not_started e \<longrightarrow> not_started e' \<or> (\<exists>x \<in> set es. exp_state x = ExperimentState.RUNNING)) \<and>
         (experiment_is_terminal e \<longrightarrow> (\<forall>x \<in> set es. experiment_is_terminal x))"
  using reaches_through_running [OF assms] terminal_stays_terminal [OF assms] by blast

theorem experiment_life_witness:
  "let q = sample_experiment\<lparr>exp_state := ExperimentState.QUEUED\<rparr>;
       r = sample_experiment\<lparr>exp_state := ExperimentState.RUNNING\<rparr>;
       c = sample_experiment\<lparr>exp_state := ExperimentState.COMPLETED\<rparr>
   in exp_run_path sample_experiment [q, r, c] c \<and> not_started sample_experiment \<and>
      (\<exists>x \<in> {q, r, c}. exp_state x = ExperimentState.RUNNING)"
proof -
  let ?q = "sample_experiment\<lparr>exp_state := ExperimentState.QUEUED\<rparr>"
  let ?r = "sample_experiment\<lparr>exp_state := ExperimentState.RUNNING\<rparr>"
  let ?c = "sample_experiment\<lparr>exp_state := ExperimentState.COMPLETED\<rparr>"
  have s: "exp_state sample_experiment = ExperimentState.DRAFT" by (simp add: sample_experiment_def)
  have path: "exp_run_path sample_experiment [?q, ?r, ?c] ?c"
    by (intro path_step path_refl) (auto simp: exp_step_iff s)
  have "not_started sample_experiment" by (simp add: not_started_def s)
  moreover have "\<not> not_started ?c" by (simp add: not_started_def)
  ultimately show ?thesis using experiment_life [OF path] path by simp
qed

text \<open>An experiment that passes validation declares no \<^verbatim>\<open>pass^k\<close> - as primary metric, as
  guardrail or as reliability metric - that its repetitions per case could never reach.\<close>

theorem validated_pass_hat_reachable:
  assumes "validate_experiment e = Inr e'" "name \<in> set (declared_metrics e')"
    and "pass_hat_k name = Some k"
  shows "k \<le> int (run_repetitions_per_case (exp_run e'))"
  using declared_pass_hat_reachable assms by (metis validate_experiment_Inr)

theorem validated_pass_hat_reachable_witness:
  "pass_hat_k ''pass^2'' = Some 2 \<and> ''pass^2'' \<in> set (declared_metrics sample_experiment) \<and>
   (2::int) \<le> int (run_repetitions_per_case (exp_run sample_experiment))"
proof -
  have k: "pass_hat_k ''pass^2'' = Some 2" by code_simp
  have m: "''pass^2'' \<in> set (declared_metrics sample_experiment)"
    by (simp add: declared_metrics_def sample_experiment_def)
  show ?thesis
    using validated_pass_hat_reachable [OF sample_experiment_valid m k] k m by simp
qed

text \<open>A case that passes validation can be used by its consumers without a further check: its
  conversation view, when it has one, parses into at least one message not all of which are the
  assistant's; no tool is both required and forbidden; no failure weight is negative; and raw
  production or staging data carries who approved it and when.\<close>

theorem validated_case:
  assumes "validate_EvalCase c = Inr c'"
  shows "c' = c \<and>
    (is_conversation c \<longrightarrow> (\<exists>ci. conversation c = Inr ci \<and> ci_messages ci \<noteq> [] \<and>
       (\<exists>m \<in> set (ci_messages ci). ms_role m \<noteq> MessageRole.ASSISTANT))) \<and>
    set (ep_required_tools (ec_expected c)) \<inter> set (ep_forbidden_tools (ec_expected c)) = {} \<and>
    (\<forall>m. 0 \<le> dict_get (ec_failure_weights c) m 0) \<and>
    (si_type (tx_source (ec_taxonomy c)) \<in> {DatasetSource.PRODUCTION, DatasetSource.STAGING} \<longrightarrow>
       cm_pii_status (ec_metadata c) = PIIStatus.RAW \<longrightarrow>
       cm_approved_raw_by (ec_metadata c) \<notin> {None, Some []} \<and> cm_approved_raw_at (ec_metadata c) \<noteq> None)"
  using validate_EvalCase_Inr [OF assms] by (auto simp: pii_contract_def)

theorem validated_case_witness:
  "validate_EvalCase ((sample_case ''ec_1'' False)\<lparr>ec_input :=
       [(''messages'', JList [JObj [(''role'', JStr ''user''), (''content'', JStr ''hi'')]])]\<rparr>) =
     Inr ((sample_case ''ec_1'' False)\<lparr>ec_input :=
       [(''messages'', JList [JObj [(''role'', JStr ''user''), (''content'', JStr ''hi'')]])]\<rparr>) \<and>
   (\<exists>ci. conversation ((sample_case ''ec_1'' False)\<lparr>ec_input :=
       [(''messages'', JList [JObj [(''role'', JStr ''user''), (''content'', JStr ''hi'')]])]\<rparr>) = Inr ci \<and>
      ci_messages ci \<noteq> [])"
proof -
  let ?c = "(sample_case ''ec_1'' False)\<lparr>ec_input :=
    [(''messages'', JList [JObj [(''role'', JStr ''user''), (''content'', JStr ''hi'')]])]\<rparr>"
  have v: "validate_EvalCase ?c = Inr ?c" by code_simp
  have "is_conversation ?c" by (simp add: is_conversation_def dict_keys_def)
  then show ?thesis using validated_case [OF v] v by blast
qed

text \<open>A trace is accepted exactly when its span identifiers are distinct, every parent it
  names is one of its spans, and every tool call that carries a tool-use identifier answers a
  tool use some LLM call of the trace requested.\<close>

theorem trace_accepted_iff:
  "(\<exists>t'. validate_Trace t = Inr t') \<longleftrightarrow>
     distinct (span_ids (tr_spans t)) \<and>
     {p. \<exists>s \<in> set (tr_spans t). span_parent_id (span_base s) = Some p} \<subseteq> set (span_ids (tr_spans t)) \<and>
     {i. \<exists>c. ToolCallSpan c \<in> set (tr_spans t) \<and> tc_tool_use_id c = Some i} \<subseteq>
       {i. \<exists>c r. LLMCallSpan c \<in> set (tr_spans t) \<and> r \<in> set (lo_tool_use_requested (lc_output c)) \<and>
                 tur_tool_use_id r = i}"
  unfolding validate_Trace_Inr
  using requested_tool_use_ids_iff [of _ "tr_spans t"] by (simp add: subset_iff) blast

text \<open>While a regression dataset is frozen, no sequence of attribute assignments that leaves
  its status alone changes its cases, and the dataset stays a frozen regression dataset.\<close>

theorem frozen_regression_immutable:
  assumes "frozen_regression d" "dataset_assigns assigns d = Inr d'"
    and "\<And>s. SetStatus s \<notin> set assigns"
  shows "da_cases d' = da_cases d \<and> frozen_regression d'"
  by (rule dataset_assigns_frozen) (use assms in auto)

definition sample_dataset :: Dataset where
  "sample_dataset = \<lparr>ent_id = ''ds_1'', workspace_id = ''ws_1'', version = 1, created_at = 0,
     updated_at = 0, deleted_at = None, da_name = ''gate'', da_description = None,
     da_dataset_type = DatasetType.REGRESSION, da_cases = [sample_ref],
     da_split_allocation = \<lparr>sa_optimization = 1, sa_holdout = 0, sa_reliability = 0, sa_other = []\<rparr>,
     da_source_dataset_id = None, da_manifest_hash = Some ''h'', da_status = DatasetStatus.FROZEN,
     da_statistics = None\<rparr>"

theorem frozen_regression_immutable_witness:
  "\<exists>d'. dataset_assigns [SetManifestHash (Some ''h2''), SetDatasetName ''gate 2''] sample_dataset = Inr d' \<and>
        da_cases d' = [sample_ref]"
proof -
  let ?as = "[SetManifestHash (Some ''h2''), SetDatasetName ''gate 2'']"
  have f: "frozen_regression sample_dataset" by (simp add: frozen_regression_def sample_dataset_def)
  have d': "dataset_assigns ?as sample_dataset =
      Inr (sample_dataset\<lparr>da_manifest_hash := Some ''h2'', da_name := ''gate 2''\<rparr>)"
    by code_simp
  show ?thesis
    using frozen_regression_immutable [OF f d'] d' by (simp add: sample_dataset_def)
qed

end
