(* ===== verification/Confusion.thy ===== *)
theory Confusion
  imports Grading
begin

section \<open>graders/\_confusion.py\<close>

text \<open>
  The confusion matrix and its per-class metrics.  \<open>confusion_from_pairs\<close> is the code's single
  pass over (expected, predicted) pairs followed by the per-label loop; the lemmas give each
  field in closed form over the pairs (a cell is how often the pair occurs, a margin is how
  often the class does), so that bounds and independence of the order of the pairs follow, and
  the round trip through the stored JSON form.
\<close>

definition safe_div :: "rat \<Rightarrow> rat \<Rightarrow> rat option" where
  "safe_div num den = (if den = 0 then None else Some (num / den))"

definition f1_score :: "rat option \<Rightarrow> rat option \<Rightarrow> rat option" where
  "f1_score p r = (case (p, r) of
     (Some precision, Some recall) \<Rightarrow>
       if precision + recall = 0 then None
       else Some (2 * precision * recall / (precision + recall))
   | _ \<Rightarrow> None)"

record ConfusionReport =
  cr_n_pairs :: nat
  cr_accuracy :: rat
  cr_macro_f1 :: "rat option"
  cr_labels :: "string list"
  cr_confusion :: "((string \<times> string) \<times> nat) list"
  cr_per_label_precision :: "rat option dict"
  cr_per_label_recall :: "rat option dict"
  cr_per_label_f1 :: "rat option dict"

definition class_labels :: "((string \<times> string) \<times> nat) list \<Rightarrow> string list" where
  "class_labels confusion =
     sorted_set (map (\<lambda>(k, _). fst k) confusion @ map (\<lambda>(k, _). snd k) confusion)"

definition predicted_pos :: "((string \<times> string) \<times> nat) list \<Rightarrow> string \<Rightarrow> nat" where
  "predicted_pos confusion label = sum_list (map snd (filter (\<lambda>(k, c). snd k = label) confusion))"

definition actual_pos :: "((string \<times> string) \<times> nat) list \<Rightarrow> string \<Rightarrow> nat" where
  "actual_pos confusion label = sum_list (map snd (filter (\<lambda>(k, c). fst k = label) confusion))"

definition label_precision :: "((string \<times> string) \<times> nat) list \<Rightarrow> string \<Rightarrow> rat option" where
  "label_precision confusion label =
     safe_div (of_nat (dict_get confusion (label, label) 0)) (of_nat (predicted_pos confusion label))"

definition label_recall :: "((string \<times> string) \<times> nat) list \<Rightarrow> string \<Rightarrow> rat option" where
  "label_recall confusion label =
     safe_div (of_nat (dict_get confusion (label, label) 0)) (of_nat (actual_pos confusion label))"

definition label_f1 :: "((string \<times> string) \<times> nat) list \<Rightarrow> string \<Rightarrow> rat option" where
  "label_f1 confusion label = f1_score (label_precision confusion label) (label_recall confusion label)"

definition confusion_from_pairs :: "(string \<times> string) list \<Rightarrow> ConfusionReport" where
  "confusion_from_pairs pairs =
     (let confusion = counter_of pairs;
          correct = count_if (\<lambda>(expected, predicted). expected = predicted) pairs;
          n = length pairs
      in if n = 0 then
           \<lparr>cr_n_pairs = 0, cr_accuracy = 0, cr_macro_f1 = None, cr_labels = [],
            cr_confusion = [], cr_per_label_precision = [], cr_per_label_recall = [],
            cr_per_label_f1 = []\<rparr>
         else
           let labels = class_labels confusion;
               f1_values = List.map_filter (label_f1 confusion) labels
           in \<lparr>cr_n_pairs = n,
               cr_accuracy = of_nat correct / of_nat n,
               cr_macro_f1 = (if f1_values \<noteq> [] then Some (sum_list f1_values / of_nat (length f1_values))
                              else None),
               cr_labels = labels,
               cr_confusion = confusion,
               cr_per_label_precision = map (\<lambda>l. (l, label_precision confusion l)) labels,
               cr_per_label_recall = map (\<lambda>l. (l, label_recall confusion l)) labels,
               cr_per_label_f1 = map (\<lambda>l. (l, label_f1 confusion l)) labels\<rparr>)"

subsection \<open>The metrics in closed form\<close>

lemma sum_count_filter:
  "(\<Sum>k \<in> set xs. if P k then count_list xs k else 0) = count_if P xs"
proof -
  have "count_list (filter P xs) k = (if P k then count_list xs k else 0)" for k
    by (induction xs) auto
  then have "(\<Sum>k \<in> set xs. if P k then count_list xs k else 0) =
             (\<Sum>k \<in> set xs. count_list (filter P xs) k)" by simp
  also have "\<dots> = count_if P xs"
    unfolding count_if_def by (rule sum_count_set) auto
  finally show ?thesis .
qed

lemma counter_sum_filter:
  "sum_list (map snd (filter (\<lambda>(k, c). P k) (counter_of xs))) = count_if P xs"
proof -
  have "sum_list (map snd (filter (\<lambda>(k, c). P k) d)) = (\<Sum>(k, v) \<leftarrow> d. if P k then v else 0)"
    for d :: "('a \<times> nat) list"
    by (induction d) auto
  then have "sum_list (map snd (filter (\<lambda>(k, c). P k) (counter_of xs))) =
             (\<Sum>k \<in> set xs. if P k then count_list xs k else 0)"
    using sum_list_dict [OF counter_of_distinct, of "\<lambda>k v. if P k then v else 0" xs 0]
    by (simp add: counter_of_get counter_of_keys cong: if_cong)
  then show ?thesis by (simp add: sum_count_filter)
qed

lemma predicted_pos_counter:
  "predicted_pos (counter_of pairs) l = count_if (\<lambda>k. snd k = l) pairs"
  using counter_sum_filter [of "\<lambda>k. snd k = l"] by (simp add: predicted_pos_def)

lemma actual_pos_counter:
  "actual_pos (counter_of pairs) l = count_if (\<lambda>k. fst k = l) pairs"
  using counter_sum_filter [of "\<lambda>k. fst k = l"] by (simp add: actual_pos_def)

lemma class_labels_counter:
  "class_labels (counter_of pairs) = sorted_set (map fst pairs @ map snd pairs)"
proof -
  have "fst ` set (counter_of pairs) = set pairs"
    using counter_of_keys [of pairs] by (simp add: dict_keys_def)
  then have "(\<lambda>(k, _). f k) ` set (counter_of pairs) = f ` set pairs" for f :: "string \<times> string \<Rightarrow> string"
    by (force simp: image_iff case_prod_beta)
  then show ?thesis
    unfolding class_labels_def by (intro sorted_set_cong) (simp add: image_Un)
qed

lemma count_if_eq: "count_if (\<lambda>k. k = x) xs = count_list xs x"
  by (induction xs) (auto simp: count_if_def)

lemma diagonal_le:
  "count_list pairs (l, l) \<le> count_if (\<lambda>k. snd k = l) pairs"
  "count_list pairs (l, l) \<le> count_if (\<lambda>k. fst k = l) pairs"
  by (auto simp: count_if_eq [symmetric] intro: count_if_mono)

lemma safe_div_unit: "safe_div (of_nat a) (of_nat b) = Some q \<Longrightarrow> a \<le> b \<Longrightarrow> 0 \<le> q \<and> q \<le> 1"
  by (auto simp: safe_div_def divide_le_eq_1 split: if_splits)

lemma label_precision_unit:
  "label_precision (counter_of pairs) l = Some q \<Longrightarrow> 0 \<le> q \<and> q \<le> 1"
  using safe_div_unit [OF _ diagonal_le(1)]
  by (simp add: label_precision_def predicted_pos_counter counter_of_get)

lemma label_recall_unit: "label_recall (counter_of pairs) l = Some q \<Longrightarrow> 0 \<le> q \<and> q \<le> 1"
  using safe_div_unit [OF _ diagonal_le(2)]
  by (simp add: label_recall_def actual_pos_counter counter_of_get)

lemma f1_score_unit:
  assumes "f1_score p r = Some f" "\<And>x. p = Some x \<Longrightarrow> 0 \<le> x \<and> x \<le> 1"
    "\<And>x. r = Some x \<Longrightarrow> 0 \<le> x \<and> x \<le> 1"
  shows "0 \<le> f \<and> f \<le> 1"
proof -
  from assms(1) obtain x y where xy: "p = Some x" "r = Some y" "x + y \<noteq> 0"
    "f = 2 * x * y / (x + y)"
    by (auto simp: f1_score_def split: option.splits if_splits)
  from xy assms(2,3) have b: "0 \<le> x" "x \<le> 1" "0 \<le> y" "y \<le> 1" by auto
  with xy(3) have pos: "0 < x + y" by simp
  have "x * y \<le> x" "x * y \<le> y" using b by (simp_all add: mult_left_le mult_left_le_one_le)
  then have "2 * x * y \<le> x + y" by simp
  with pos b xy(4) show ?thesis by (simp add: divide_le_eq_1)
qed

lemma label_f1_unit: "label_f1 (counter_of pairs) l = Some f \<Longrightarrow> 0 \<le> f \<and> f \<le> 1"
  unfolding label_f1_def
  by (erule f1_score_unit) (auto dest: label_precision_unit label_recall_unit)

text \<open>The F1 of a class is undefined exactly when no instance of it was predicted correctly:
  when the class has no predicted or no actual instances, and also when it has both and every
  one of them was missed.\<close>

lemma label_f1_None_iff: "label_f1 (counter_of pairs) l = None \<longleftrightarrow> (l, l) \<notin> set pairs"
proof
  assume "(l, l) \<notin> set pairs"
  then have "count_list pairs (l, l) = 0" by simp
  then show "label_f1 (counter_of pairs) l = None"
    by (auto simp: label_f1_def label_precision_def label_recall_def safe_div_def f1_score_def
        counter_of_get split: option.splits)
next
  assume None: "label_f1 (counter_of pairs) l = None"
  show "(l, l) \<notin> set pairs"
  proof
    assume "(l, l) \<in> set pairs"
    then have pos: "0 < count_list pairs (l, l)" by (metis count_list_0_iff gr0I)
    with diagonal_le [of pairs l] have
      m: "0 < count_if (\<lambda>k. snd k = l) pairs" "0 < count_if (\<lambda>k. fst k = l) pairs" by linarith+
    let ?p = "of_nat (count_list pairs (l, l)) / of_nat (count_if (\<lambda>k. snd k = l) pairs) :: rat"
    let ?r = "of_nat (count_list pairs (l, l)) / of_nat (count_if (\<lambda>k. fst k = l) pairs) :: rat"
    have "?p + ?r > 0" using pos m by (intro add_pos_pos divide_pos_pos) simp_all
    moreover have "label_precision (counter_of pairs) l = Some ?p" "label_recall (counter_of pairs) l = Some ?r"
      using m by (simp_all add: label_precision_def label_recall_def safe_div_def counter_of_get
          predicted_pos_counter actual_pos_counter)
    ultimately show False using None by (auto simp: label_f1_def f1_score_def)
  qed
qed

lemma macro_f1_unit: "cr_macro_f1 (confusion_from_pairs pairs) = Some f \<Longrightarrow> 0 \<le> f \<and> f \<le> 1"
proof -
  assume "cr_macro_f1 (confusion_from_pairs pairs) = Some f"
  then have f: "f = mean (List.map_filter (label_f1 (counter_of pairs)) (class_labels (counter_of pairs)))"
    by (auto simp: confusion_from_pairs_def Let_def mean_def split: if_splits)
  show "0 \<le> f \<and> f \<le> 1" unfolding f
    by (rule mean_unit) (auto simp: set_map_filter dest: label_f1_unit)
qed

lemma label_metrics_mset:
  assumes "mset ps = mset qs"
  shows "label_precision (counter_of ps) = label_precision (counter_of qs)"
    and "label_recall (counter_of ps) = label_recall (counter_of qs)"
    and "label_f1 (counter_of ps) = label_f1 (counter_of qs)"
proof -
  have c: "count_list ps k = count_list qs k" for k
    using assms by (metis count_mset)
  show p: "label_precision (counter_of ps) = label_precision (counter_of qs)"
    by (rule ext) (simp add: label_precision_def predicted_pos_counter counter_of_get c
        count_if_mset [OF assms])
  show r: "label_recall (counter_of ps) = label_recall (counter_of qs)"
    by (rule ext) (simp add: label_recall_def actual_pos_counter counter_of_get c
        count_if_mset [OF assms])
  show "label_f1 (counter_of ps) = label_f1 (counter_of qs)"
    by (rule ext) (simp add: label_f1_def p r)
qed

lemma class_labels_mset:
  assumes "mset ps = mset qs"
  shows "class_labels (counter_of ps) = class_labels (counter_of qs)"
  unfolding class_labels_counter using mset_eq_setD [OF assms] by (intro sorted_set_cong) simp

subsection \<open>The stored form\<close>

definition to_nested :: "((string \<times> string) \<times> nat) list \<Rightarrow> nat dict dict" where
  "to_nested confusion =
     foldl (\<lambda>nested ((expected, predicted), count).
        dict_modify nested expected [] (\<lambda>row. AList.update predicted count row)) [] confusion"

definition metric_dict_json :: "rat option dict \<Rightarrow> json" where
  "metric_dict_json d = JObj (map (\<lambda>(k, v). (k, opt_json JFloat v)) d)"

definition confusion_to_dict :: "ConfusionReport \<Rightarrow> json" where
  "confusion_to_dict r =
     JObj [(''n_pairs'', JInt (int (cr_n_pairs r))),
           (''accuracy'', JFloat (cr_accuracy r)),
           (''macro_f1'', opt_json JFloat (cr_macro_f1 r)),
           (''labels'', JList (map JStr (cr_labels r))),
           (''matrix'', JObj (map (\<lambda>(e, row). (e, JObj (map (\<lambda>(p, c). (p, JInt (int c))) row)))
                                (to_nested (cr_confusion r)))),
           (''per_label_precision'', metric_dict_json (cr_per_label_precision r)),
           (''per_label_recall'', metric_dict_json (cr_per_label_recall r)),
           (''per_label_f1'', metric_dict_json (cr_per_label_f1 r))]"

text \<open>Reading it back; a count is a non-negative integer in every stored report.\<close>

definition json_nat :: "json \<Rightarrow> nat result" where
  "json_nat j = (case j of JInt i \<Rightarrow> if 0 \<le> i then Inr (nat i) else Inl DomainMissing
                 | _ \<Rightarrow> Inl DomainMissing)"

definition json_fields :: "json \<Rightarrow> json dict result" where
  "json_fields j = (case as_dict j of None \<Rightarrow> Inl TypeError | Some d \<Rightarrow> Inr d)"

definition metric_dict :: "json \<Rightarrow> rat option dict result" where
  "metric_dict j =
     bind_result (json_fields j)
       (map_result (\<lambda>(k, v). bind_result (json_opt_number v) (\<lambda>q. Inr (k, q))))"

definition row_cells :: "string \<times> json \<Rightarrow> ((string \<times> string) \<times> nat) list result" where
  "row_cells = (\<lambda>(expected, row).
     bind_result (json_fields row)
       (map_result (\<lambda>(predicted, count). bind_result (json_nat count) (\<lambda>c. Inr ((expected, predicted), c)))))"

definition confusion_from_dict :: "json dict \<Rightarrow> ConfusionReport result" where
  "confusion_from_dict data =
     bind_result (json_fields (dict_get data ''matrix'' (JObj []))) (\<lambda>matrix.
     bind_result (map_result row_cells matrix) (\<lambda>rows.
     bind_result (json_nat (dict_get data ''n_pairs'' (JInt 0))) (\<lambda>n.
     bind_result (json_number (dict_get data ''accuracy'' (JFloat 0))) (\<lambda>acc.
     bind_result (json_opt_number (dict_get data ''macro_f1'' JNull)) (\<lambda>macro.
     bind_result (json_str_list (dict_get data ''labels'' (JList []))) (\<lambda>labels.
     bind_result (metric_dict (dict_get data ''per_label_precision'' (JObj []))) (\<lambda>pp.
     bind_result (metric_dict (dict_get data ''per_label_recall'' (JObj []))) (\<lambda>pr.
     bind_result (metric_dict (dict_get data ''per_label_f1'' (JObj []))) (\<lambda>pf.
       Inr \<lparr>cr_n_pairs = n, cr_accuracy = acc, cr_macro_f1 = macro, cr_labels = labels,
            cr_confusion = foldl (\<lambda>d (k, c). AList.update k c d) [] (concat rows),
            cr_per_label_precision = pp, cr_per_label_recall = pr, cr_per_label_f1 = pf\<rparr>)))))))))"

text \<open>The nested view holds the same cells, so a stored report reads back with the same matrix (its
  cells regrouped by row) and the same metrics.\<close>

definition nested_lookup :: "nat dict dict \<Rightarrow> string \<Rightarrow> string \<Rightarrow> nat option" where
  "nested_lookup n e p = (case map_of n e of None \<Rightarrow> None | Some row \<Rightarrow> map_of row p)"

definition nested_distinct :: "nat dict dict \<Rightarrow> bool" where
  "nested_distinct n \<longleftrightarrow> distinct (dict_keys n) \<and> (\<forall>(e, row) \<in> set n. distinct (dict_keys row))"

definition flatten_nested :: "nat dict dict \<Rightarrow> ((string \<times> string) \<times> nat) list" where
  "flatten_nested n = concat (map (\<lambda>(e, row). map (\<lambda>(p, c). ((e, p), c)) row) n)"

lemma nested_lookup_modify:
  "nested_lookup (dict_modify n e [] (\<lambda>row. AList.update p c row)) e' p' =
     (if e = e' \<and> p = p' then Some c else nested_lookup n e' p')"
  by (auto simp: nested_lookup_def dict_modify_def update_conv dict_get_def split: option.splits)

lemma set_update_subset: "set (AList.update k v d) \<subseteq> insert (k, v) (set d)"
  by (induction d) auto

lemma nested_distinct_modify:
  assumes "nested_distinct n"
  shows "nested_distinct (dict_modify n e [] (\<lambda>row. AList.update p c row))"
proof -
  have "distinct (dict_keys (dict_get n e []))"
    using assms by (auto simp: nested_distinct_def dict_get_def dict_keys_def dest: map_of_SomeD
        split: option.splits)
  then show ?thesis
    using assms set_update_subset [of e "AList.update p c (dict_get n e [])" n]
    by (auto simp: nested_distinct_def dict_modify_def distinct_dict_keys_update)
qed

lemma to_nested_fold:
  fixes d :: "((string \<times> string) \<times> nat) list"
  defines "step \<equiv> \<lambda>nested ((e, p), c). dict_modify nested e [] (\<lambda>row. AList.update p c row)"
  assumes "nested_distinct n"
  shows "nested_distinct (foldl step n d) \<and>
    nested_lookup (foldl step n d) e p =
      (case map_of (rev d) (e, p) of None \<Rightarrow> nested_lookup n e p | Some c \<Rightarrow> Some c)"
  using assms(2)
proof (induction d arbitrary: n)
  case Nil
  then show ?case by simp
next
  case (Cons x d)
  obtain e' p' c' where x: "x = ((e', p'), c')" by (metis prod.exhaust)
  have "nested_distinct (step n x)" using Cons.prems by (simp add: step_def x nested_distinct_modify)
  from Cons.IH [OF this] show ?case
    by (auto simp: x step_def nested_lookup_modify map_add_def split: option.splits)
qed

lemma map_of_rev_distinct: "distinct (map fst d) \<Longrightarrow> map_of (rev d) = map_of d"
  by (metis distinct_rev map_of_inject_set rev_map set_rev)

lemma map_of_flatten:
  assumes "nested_distinct n"
  shows "distinct (map fst (flatten_nested n)) \<and>
         map_of (flatten_nested n) (e, p) = nested_lookup n e p"
  using assms
proof (induction n)
  case Nil
  then show ?case by (simp add: flatten_nested_def nested_lookup_def)
next
  case (Cons x n)
  obtain e' row where x: "x = (e', row)" by (cases x)
  have n: "nested_distinct n" "e' \<notin> set (dict_keys n)" "distinct (map fst row)"
    using Cons.prems by (auto simp: nested_distinct_def dict_keys_def x)
  have keys: "fst ` fst ` set (flatten_nested n) \<subseteq> set (dict_keys n)"
    by (auto simp: flatten_nested_def dict_keys_def) force
  have row: "map_of (map (\<lambda>(p, c). ((e', p), c)) row) (e, p) = (if e = e' then map_of row p else None)"
    by (induction row) auto
  have drow: "distinct (map fst (map (\<lambda>(p, c). ((e', p), c)) row))"
    using n(3) by (induction row) (auto simp: image_iff)
  have other: "((e', q), c) \<notin> set (flatten_nested n)" for q c
    using keys n(2) by force
  then have none: "map_of (flatten_nested n) (e', p) = None"
    by (meson map_of_SomeD not_None_eq)
  have split: "flatten_nested (x # n) = map (\<lambda>(p, c). ((e', p), c)) row @ flatten_nested n"
    by (simp add: flatten_nested_def x)
  have "fst ` set (map (\<lambda>(p, c). ((e', p), c)) row) \<inter> fst ` set (flatten_nested n) = {}"
    using other by fastforce
  then have "distinct (map fst (flatten_nested (x # n)))"
    using drow Cons.IH [OF n(1)] unfolding split map_append distinct_append by (simp add: image_image)
  moreover have "map_of (flatten_nested (x # n)) (e, p) = nested_lookup (x # n) e p"
    using row none Cons.IH [OF n(1)] unfolding split map_of_append
    by (auto simp: nested_lookup_def x map_add_def split: option.splits)
  ultimately show ?case by simp
qed

lemma map_of_foldl_update:
  "map_of (foldl (\<lambda>d (k, c). AList.update k c d) acc xs) k =
     (case map_of (rev xs) k of None \<Rightarrow> map_of acc k | Some c \<Rightarrow> Some c)"
  by (induction xs arbitrary: acc) (auto simp: update_conv map_add_def split: option.splits)

definition regroup :: "((string \<times> string) \<times> nat) list \<Rightarrow> ((string \<times> string) \<times> nat) list" where
  "regroup d = foldl (\<lambda>d (k, c). AList.update k c d) [] (flatten_nested (to_nested d))"

lemma map_of_regroup:
  assumes "distinct (map fst d)"
  shows "map_of (regroup d) = map_of d"
proof
  fix k :: "string \<times> string"
  obtain e p where k: "k = (e, p)" by (cases k)
  have nd: "nested_distinct []" by (simp add: nested_distinct_def dict_keys_def)
  have nested: "nested_distinct (to_nested d)"
    "nested_lookup (to_nested d) e p = map_of (rev d) (e, p)"
    using to_nested_fold [OF nd, of d e p]
    by (auto simp: to_nested_def nested_lookup_def split: option.splits)
  have flat: "distinct (map fst (flatten_nested (to_nested d)))"
    "map_of (flatten_nested (to_nested d)) (e, p) = nested_lookup (to_nested d) e p"
    using map_of_flatten [OF nested(1)] by auto
  have "map_of (regroup d) k = map_of (flatten_nested (to_nested d)) k"
    unfolding regroup_def map_of_foldl_update map_of_rev_distinct [OF flat(1)]
    by (simp split: option.splits)
  also have "\<dots> = map_of d k"
    using flat(2) nested(2) by (simp add: k map_of_rev_distinct [OF assms])
  finally show "map_of (regroup d) k = map_of d k" .
qed

lemma metric_dict_roundtrip: "metric_dict (metric_dict_json d) = Inr d"
  by (induction d)
    (auto simp: metric_dict_def metric_dict_json_def json_fields_def json_opt_number_opt)

lemma map_result_map: "map_result f (map g xs) = map_result (\<lambda>x. f (g x)) xs"
  by (induction xs) auto

lemma row_cells_json:
  "row_cells (e, JObj (map (\<lambda>(p, c). (p, JInt (int c))) row)) = Inr (map (\<lambda>(p, c). ((e, p), c)) row)"
  by (induction row) (auto simp: row_cells_def json_fields_def json_nat_def)

lemma matrix_roundtrip:
  "map_result row_cells (map (\<lambda>(e, row). (e, JObj (map (\<lambda>(p, c). (p, JInt (int c))) row))) n) =
     Inr (map (\<lambda>(e, row). map (\<lambda>(p, c). ((e, p), c)) row) n)"
  by (induction n) (auto simp: row_cells_json)

definition confusion_fields :: "ConfusionReport \<Rightarrow> json dict" where
  "confusion_fields r = (case as_dict (confusion_to_dict r) of None \<Rightarrow> [] | Some d \<Rightarrow> d)"

lemma confusion_roundtrip_aux:
  "confusion_from_dict (confusion_fields r) = Inr (r\<lparr>cr_confusion := regroup (cr_confusion r)\<rparr>)"
  by (simp add: confusion_fields_def confusion_to_dict_def confusion_from_dict_def dict_get_def
      json_fields_def matrix_roundtrip json_nat_def json_number_def json_opt_number_opt
      json_str_list_map metric_dict_roundtrip regroup_def flatten_nested_def)

end
