(* ===== verification/Select.thy ===== *)
theory Select
  imports Prelude
begin

section \<open>graders/\_select.py\<close>

text \<open>
  The path selector: \<open>split_path\<close> parses \<^verbatim>\<open>"a.b[].c"\<close> into steps, \<open>validate_path\<close> is the gate at
  construction time, and \<open>select\<close> walks a decoded JSON value.  A result of \<open>None\<close> is Python's
  \<^verbatim>\<open>None\<close>: absent, null or malformed.  The lemmas show that the walk is the fold of its steps,
  that projection keeps a list and drops what is not there, and what \<open>select_str_list\<close> admits.
\<close>

definition ends_brackets :: "string \<Rightarrow> bool" where
  "ends_brackets s \<longleftrightarrow> 2 \<le> length s \<and> drop (length s - 2) s = ''[]''"

definition path_step :: "string \<Rightarrow> string \<times> bool" where
  "path_step raw = (if ends_brackets raw then (take (length raw - 2) raw, True) else (raw, False))"

definition split_path :: "string \<Rightarrow> (string \<times> bool) list" where
  "split_path path =
     (let stripped = strip path
      in if stripped = [] \<or> stripped = ''.'' then []
         else map path_step (split_on (CHR ''.'') stripped))"

text \<open>\<^verbatim>\<open>_SEGMENT_RE\<close>: a non-empty run of characters other than \<^verbatim>\<open>.[]\<close>, then optionally \<^verbatim>\<open>[]\<close>.  A
  trailing newline before the end of the string is what \<^verbatim>\<open>$\<close> also allows; \<open>strip\<close> has removed
  it from the last segment, and inside a segment it is an ordinary character.\<close>

definition bare_key :: "string \<Rightarrow> bool" where
  "bare_key s \<longleftrightarrow> s \<noteq> [] \<and> list_all (\<lambda>c. c \<noteq> CHR ''.'' \<and> c \<noteq> CHR ''['' \<and> c \<noteq> CHR '']'') s"

definition drop_final_newline :: "string \<Rightarrow> string" where
  "drop_final_newline s = (if s \<noteq> [] \<and> last s = CHR 0x0A then butlast s else s)"

definition segment_re :: "string \<Rightarrow> bool" where
  "segment_re s \<longleftrightarrow> bare_key s \<or>
     (let t = drop_final_newline s in ends_brackets t \<and> bare_key (take (length t - 2) t))"

definition validate_path :: "string \<Rightarrow> unit result" where
  "validate_path path =
     (let stripped = strip path
      in if stripped = [] \<or> stripped = ''.'' then Inr ()
         else if list_all (\<lambda>seg. seg \<noteq> [] \<and> segment_re seg) (split_on (CHR ''.'') stripped)
         then Inr () else Inl ValueError)"

text \<open>\<^verbatim>\<open>d.get(key)\<close> on a dict, with Python's \<^verbatim>\<open>None\<close> for a missing key and for a null value.\<close>

definition none_if_null :: "json \<Rightarrow> json option" where
  "none_if_null j = (if j = JNull then None else Some j)"

definition get_key :: "json dict \<Rightarrow> string \<Rightarrow> json option" where
  "get_key d k = none_if_null (dict_get d k JNull)"

definition project_step :: "string \<Rightarrow> bool \<Rightarrow> json list \<Rightarrow> json list" where
  "project_step key is_projection xs =
     (let mapped = List.map_filter (\<lambda>el. case as_dict el of
                 None \<Rightarrow> None
               | Some d \<Rightarrow> if key \<noteq> [] then get_key d key else Some el) xs
      in if is_projection then concat (List.map_filter as_list mapped) else mapped)"

datatype cursor = At "json option" | Over "json list"

text \<open>The loop of \<^verbatim>\<open>select\<close>: \<open>At v\<close> before the first \<^verbatim>\<open>[]\<close> step, \<open>Over xs\<close> in projection mode; an
  early \<^verbatim>\<open>return None\<close> ends it.\<close>

fun select_steps :: "(string \<times> bool) list \<Rightarrow> cursor \<Rightarrow> json option" where
  "select_steps [] (At v) = v"
| "select_steps [] (Over xs) = Some (JList xs)"
| "select_steps ((key, is_projection) # steps) (Over xs) =
     select_steps steps (Over (project_step key is_projection xs))"
| "select_steps ((key, False) # steps) (At v) =
     select_steps steps (At (case v of Some (JObj d) \<Rightarrow> get_key d key | _ \<Rightarrow> None))"
| "select_steps ((key, True) # steps) (At v) =
     (let container = (case v of
            Some (JObj d) \<Rightarrow> if key \<noteq> [] then get_key d key else v
          | _ \<Rightarrow> v)
      in (case container of Some (JList xs) \<Rightarrow> select_steps steps (Over xs) | _ \<Rightarrow> None))"

definition select :: "json \<Rightarrow> string \<Rightarrow> json option" where
  "select doc path = select_steps (split_path path) (At (none_if_null doc))"

definition select_str_list :: "json \<Rightarrow> string \<Rightarrow> string list option" where
  "select_str_list doc path =
     (case select doc path of
        Some (JList xs) \<Rightarrow>
          if list_all (\<lambda>x. as_str x \<noteq> None) xs then Some (List.map_filter as_str xs) else None
      | _ \<Rightarrow> None)"

lemma map_filter_as_str:
  "list_all (\<lambda>x. as_str x \<noteq> None) xs \<Longrightarrow> map JStr (List.map_filter as_str xs) = xs"
proof (induction xs)
  case (Cons x xs)
  then show ?case by (cases x) (auto simp: List.map_filter_simps)
qed (simp add: List.map_filter_simps)

lemma select_steps_Over: "\<exists>ys. select_steps steps (Over xs) = Some (JList ys)"
  by (induction steps arbitrary: xs) auto

text \<open>The walk never answers null: what is selected is a value.\<close>

lemma none_if_null_value: "none_if_null j \<noteq> Some JNull"
  by (simp add: none_if_null_def)

lemma select_steps_value: "v \<noteq> Some JNull \<Longrightarrow> select_steps steps (At v) \<noteq> Some JNull"
proof (induction steps arbitrary: v)
  case Nil
  then show ?case by simp
next
  case (Cons st steps)
  obtain key pr where st: "st = (key, pr)" by (cases st)
  show ?case
  proof (cases pr)
    case True
    have "select_steps steps (Over xs) \<noteq> Some JNull" for xs
      using select_steps_Over [of steps xs] by auto
    with True st show ?thesis by (simp add: Let_def split: option.split json.split)
  next
    case False
    have "(case v of Some (JObj d) \<Rightarrow> get_key d key | _ \<Rightarrow> None) \<noteq> Some JNull"
      by (simp add: get_key_def none_if_null_value split: option.split json.split)
    with Cons.IH False st show ?thesis by simp
  qed
qed

lemma select_value: "select doc path \<noteq> Some JNull"
  by (simp add: select_def select_steps_value none_if_null_value)

lemma select_str_list_iff:
  "select_str_list doc path = Some ss \<longleftrightarrow> select doc path = Some (JList (map JStr ss))"
proof
  assume "select_str_list doc path = Some ss"
  then obtain xs where "select doc path = Some (JList xs)" "list_all (\<lambda>x. as_str x \<noteq> None) xs"
    "ss = List.map_filter as_str xs"
    by (auto simp: select_str_list_def split: option.splits json.splits if_splits)
  with map_filter_as_str [of xs] show "select doc path = Some (JList (map JStr ss))" by simp
next
  assume "select doc path = Some (JList (map JStr ss))"
  moreover have "list_all (\<lambda>x. as_str x \<noteq> None) (map JStr ss)" by (simp add: list_all_iff)
  moreover have "List.map_filter as_str (map JStr ss) = ss"
    by (induction ss) (simp_all add: List.map_filter_simps)
  ultimately show "select_str_list doc path = Some ss" by (simp add: select_str_list_def)
qed

end
