(* ===== verification/Set_Match.thy ===== *)
theory Set_Match
  imports Confusion Select
begin

section \<open>graders/set\_match.py\<close>

text \<open>
  Completeness, precision and F1 of a detected set against an expected one, after the case's
  aliases and the case fold.  The lemmas: all four scores are in the unit interval, a score of
  one means what it should of the two sets, and a failing grade names the side that failed.
\<close>

datatype GatingDimension = Completeness | Precision | Recall | F1

definition FM_MISSING :: string where "FM_MISSING = ''set_match_missing''"
definition FM_EXTRANEOUS :: string where "FM_EXTRANEOUS = ''set_match_extraneous''"
definition FM_NO_DETECTED :: string where "FM_NO_DETECTED = ''set_match_no_detected''"

record Scores =
  sc_completeness :: rat
  sc_precision :: rat
  sc_recall :: rat
  sc_f1 :: rat

fun scores_get :: "Scores \<Rightarrow> GatingDimension \<Rightarrow> rat" where
  "scores_get s Completeness = sc_completeness s"
| "scores_get s Precision = sc_precision s"
| "scores_get s Recall = sc_recall s"
| "scores_get s F1 = sc_f1 s"

definition set_match_normalize :: "string list \<Rightarrow> string dict \<Rightarrow> bool \<Rightarrow> string list" where
  "set_match_normalize items aliases case_sensitive =
     map (\<lambda>raw. let mapped = dict_get aliases raw raw in if case_sensitive then mapped else lower mapped) items"

definition extract_detected :: "GraderContext \<Rightarrow> string \<Rightarrow> string list option" where
  "extract_detected ctx extract =
     (case gcx_response ctx of
        None \<Rightarrow> None
      | Some r \<Rightarrow> (case rsp_structured_output r of
                    None \<Rightarrow> None
                  | Some d \<Rightarrow> select_str_list (JObj d) extract))"

definition compute_scores :: "string list \<Rightarrow> string list \<Rightarrow> Scores" where
  "compute_scores detected expected =
     (let detected_set = set detected;
          expected_set = set expected;
          inter = card (detected_set \<inter> expected_set);
          completeness = (if expected_set \<noteq> {} then of_nat inter / of_nat (card expected_set) else 1);
          precision = (if detected_set \<noteq> {} then of_nat inter / of_nat (card detected_set) else 1);
          recall = completeness;
          denom = precision + recall;
          f1 = (if denom > 0 then 2 * precision * recall / denom else 0)
      in \<lparr>sc_completeness = completeness, sc_precision = precision, sc_recall = recall, sc_f1 = f1\<rparr>)"

definition element_leaves :: "string list \<Rightarrow> string set \<Rightarrow> string \<Rightarrow> BreakdownNode list" where
  "element_leaves items counterpart failure_mode =
     map (\<lambda>item. let present = item \<in> counterpart in
        BreakdownNode item (Some (if present then GradeLabel.PASS else GradeLabel.FAIL))
          (Some (if present then 1 else 0)) 0
          (if present then ''matched'' else spaced failure_mode) (if present then [] else [failure_mode]) []) items"

definition set_match_breakdown ::
    "GradeLabel \<Rightarrow> rat \<Rightarrow> Scores \<Rightarrow> string list \<Rightarrow> string list \<Rightarrow> BreakdownNode" where
  "set_match_breakdown label gating_score scores detected expected =
     BreakdownNode ''set_match'' (Some label) (Some gating_score) 1
       ''set-membership funnel; gating dimension authoritative'' []
       [BreakdownNode ''completeness''
          (Some (if sc_completeness scores \<ge> 1 then GradeLabel.PASS else GradeLabel.FAIL))
          (Some (sc_completeness scores)) 0
          (nat_str (card (set detected \<inter> set expected)) @ ''/'' @ nat_str (card (set expected)) @
             '' expected detected'') [] (element_leaves expected (set detected) FM_MISSING),
        BreakdownNode ''precision''
          (Some (if sc_precision scores \<ge> 1 then GradeLabel.PASS else GradeLabel.FAIL))
          (Some (sc_precision scores)) 0
          (nat_str (card (set detected \<inter> set expected)) @ ''/'' @ nat_str (card (set detected)) @
             '' detected were expected'') [] (element_leaves detected (set expected) FM_EXTRANEOUS),
        BreakdownNode ''recall'' None (Some (sc_recall scores)) 0 ''alias of completeness'' [] [],
        BreakdownNode ''f1'' None (Some (sc_f1 scores)) 0
          ''harmonic mean of precision and recall'' [] []]"

definition collect_failure_modes :: "string list \<Rightarrow> string list \<Rightarrow> string list" where
  "collect_failure_modes detected expected =
     (if set expected - set detected \<noteq> {} then [FM_MISSING] else []) @
     (if set detected - set expected \<noteq> {} then [FM_EXTRANEOUS] else [])"

record SetMatchGrader =
  sm_name :: string
  sm_gating :: GatingDimension
  sm_threshold :: rat
  sm_case_sensitive :: bool
  sm_extract :: string

definition make_SetMatchGrader ::
    "string \<Rightarrow> GatingDimension \<Rightarrow> rat \<Rightarrow> bool \<Rightarrow> string \<Rightarrow> SetMatchGrader result" where
  "make_SetMatchGrader nm gating threshold case_sensitive extract =
     (if nm = [] then Inl ValueError
      else if \<not> (0 \<le> threshold \<and> threshold \<le> 1) then Inl ValueError
      else bind_result (validate_path extract) (\<lambda>_.
        Inr \<lparr>sm_name = nm, sm_gating = gating, sm_threshold = threshold,
             sm_case_sensitive = case_sensitive, sm_extract = extract\<rparr>))"

definition set_match_grade :: "SetMatchGrader \<Rightarrow> GraderContext \<Rightarrow> GradeResult result" where
  "set_match_grade g ctx =
     (let expected_spec = ec_expected (gcx_case ctx);
          aliases = ep_aliases expected_spec
      in case extract_detected ctx (sm_extract g) of
           None \<Rightarrow> Inr (grade_result (sm_name g) GradeLabel.FAIL (Some 0) [FM_NO_DETECTED] None)
         | Some raw_detected \<Rightarrow>
             let detected = set_match_normalize raw_detected aliases (sm_case_sensitive g);
                 expected = set_match_normalize (ep_must_include expected_spec) aliases (sm_case_sensitive g);
                 scores = compute_scores detected expected;
                 gating_score = scores_get scores (sm_gating g);
                 passed = (gating_score \<ge> sm_threshold g);
                 label = (if passed then GradeLabel.PASS else GradeLabel.FAIL)
             in Inr (grade_result (sm_name g) label (Some gating_score)
                  (if passed then [] else collect_failure_modes detected expected)
                  (Some (set_match_breakdown label gating_score scores detected expected))))"

subsection \<open>The scores\<close>

lemma card_Int_frac:
  fixes A B :: "'a set"
  assumes "finite A" "finite B"
  shows "0 \<le> (of_nat (card (A \<inter> B)) / of_nat (card B) :: rat)"
    and "(of_nat (card (A \<inter> B)) / of_nat (card B) :: rat) \<le> 1"
    and "B \<noteq> {} \<Longrightarrow> (of_nat (card (A \<inter> B)) / of_nat (card B) :: rat) = 1 \<longleftrightarrow> B \<subseteq> A"
proof -
  have le: "card (A \<inter> B) \<le> card B" by (simp add: assms card_mono)
  show "0 \<le> (of_nat (card (A \<inter> B)) / of_nat (card B) :: rat)" by simp
  show "(of_nat (card (A \<inter> B)) / of_nat (card B) :: rat) \<le> 1"
    using le by (auto simp: divide_le_eq_1)
  show "(of_nat (card (A \<inter> B)) / of_nat (card B) :: rat) = 1 \<longleftrightarrow> B \<subseteq> A" if "B \<noteq> {}"
  proof
    assume "(of_nat (card (A \<inter> B)) / of_nat (card B) :: rat) = 1"
    with that assms have "card (A \<inter> B) = card B" by (simp add: field_simps)
    then have "A \<inter> B = B" using assms by (metis card_subset_eq inf.cobounded2)
    then show "B \<subseteq> A" by blast
  next
    assume "B \<subseteq> A"
    then have "A \<inter> B = B" by blast
    with that assms show "(of_nat (card (A \<inter> B)) / of_nat (card B) :: rat) = 1" by simp
  qed
qed

lemma completeness_unit:
  "0 \<le> sc_completeness (compute_scores d e) \<and> sc_completeness (compute_scores d e) \<le> 1"
  using card_Int_frac(1,2) [of "set d" "set e"] by (simp add: compute_scores_def Let_def)

lemma precision_unit:
  "0 \<le> sc_precision (compute_scores d e) \<and> sc_precision (compute_scores d e) \<le> 1"
  using card_Int_frac(1,2) [of "set e" "set d"] by (simp add: compute_scores_def Let_def Int_commute)

lemma completeness_eq_1: "sc_completeness (compute_scores d e) = 1 \<longleftrightarrow> set e \<subseteq> set d"
  using card_Int_frac(3) [of "set d" "set e"] by (auto simp: compute_scores_def Let_def)

lemma precision_eq_1: "sc_precision (compute_scores d e) = 1 \<longleftrightarrow> set d \<subseteq> set e"
  using card_Int_frac(3) [of "set e" "set d"] by (auto simp: compute_scores_def Let_def Int_commute)

lemma recall_eq_completeness [simp]: "sc_recall (compute_scores d e) = sc_completeness (compute_scores d e)"
  by (simp add: compute_scores_def Let_def)

definition harmonic :: "rat \<Rightarrow> rat \<Rightarrow> rat" where
  "harmonic p r = (if p + r > 0 then 2 * p * r / (p + r) else 0)"

lemma harmonic_unit:
  assumes "0 \<le> p" "p \<le> 1" "0 \<le> r" "r \<le> 1"
  shows "0 \<le> harmonic p r \<and> harmonic p r \<le> 1"
proof -
  have "p * r \<le> p" "p * r \<le> r" using assms by (simp_all add: mult_left_le mult_left_le_one_le)
  then have "2 * p * r \<le> p + r" by simp
  with assms show ?thesis by (simp add: harmonic_def divide_le_eq_1)
qed

lemma harmonic_eq_1:
  assumes "0 \<le> p" "p \<le> 1" "0 \<le> r" "r \<le> 1"
  shows "harmonic p r = 1 \<longleftrightarrow> p = 1 \<and> r = 1"
proof
  assume h: "harmonic p r = 1"
  then have pos: "p + r > 0" by (simp add: harmonic_def split: if_splits)
  with h have eq: "2 * p * r = p + r" by (simp add: harmonic_def)
  have "p * r \<le> p" "p * r \<le> r" using assms by (simp_all add: mult_left_le mult_left_le_one_le)
  with eq have pr: "p * r = p" "p * r = r" by linarith+
  then have "p = r" by simp
  with pr pos have "p * (p - 1) = 0" "p \<noteq> 0" by (auto simp: algebra_simps)
  then show "p = 1 \<and> r = 1" using \<open>p = r\<close> by simp
next
  assume "p = 1 \<and> r = 1"
  then show "harmonic p r = 1" by (simp add: harmonic_def)
qed

lemma f1_harmonic:
  "sc_f1 (compute_scores d e) = harmonic (sc_precision (compute_scores d e)) (sc_completeness (compute_scores d e))"
  by (simp add: compute_scores_def Let_def harmonic_def)

lemma f1_eq_1: "sc_f1 (compute_scores d e) = 1 \<longleftrightarrow> set d = set e"
  using harmonic_eq_1 precision_unit [of d e] completeness_unit [of d e]
  by (auto simp: f1_harmonic precision_eq_1 completeness_eq_1)

lemma scores_unit: "0 \<le> scores_get (compute_scores d e) dm \<and> scores_get (compute_scores d e) dm \<le> 1"
  using completeness_unit [of d e] precision_unit [of d e]
  by (cases dm) (auto simp: f1_harmonic dest: harmonic_unit)

lemma score_at_least_1:
  "1 \<le> scores_get (compute_scores d e) dm \<longleftrightarrow>
     (case dm of Completeness \<Rightarrow> set e \<subseteq> set d | Recall \<Rightarrow> set e \<subseteq> set d
               | Precision \<Rightarrow> set d \<subseteq> set e | F1 \<Rightarrow> set d = set e)"
proof -
  have "1 \<le> scores_get (compute_scores d e) dm \<longleftrightarrow> scores_get (compute_scores d e) dm = 1"
    using scores_unit [of d e dm] by auto
  then show ?thesis
    by (cases dm) (simp_all add: completeness_eq_1 precision_eq_1 f1_eq_1)
qed

text \<open>Only equal sets score one on every dimension; a score below one on any dimension leaves
  something to report.\<close>

lemma scores_lt_1_modes:
  "scores_get (compute_scores d e) dm \<noteq> 1 \<Longrightarrow> collect_failure_modes d e \<noteq> []"
  by (cases dm) (auto simp: collect_failure_modes_def completeness_eq_1 precision_eq_1 f1_eq_1)

definition threshold_ok :: "SetMatchGrader \<Rightarrow> bool" where
  "threshold_ok g \<longleftrightarrow> 0 \<le> sm_threshold g \<and> sm_threshold g \<le> 1"

lemma make_SetMatchGrader_ok: "make_SetMatchGrader nm gt th cs ex = Inr g \<Longrightarrow> threshold_ok g"
  by (auto simp: make_SetMatchGrader_def threshold_ok_def bind_result_Inr_iff split: if_splits)

lemma set_match_well_graded:
  assumes "threshold_ok g" "set_match_grade g ctx = Inr r"
  shows "well_graded (sm_name g) r"
proof (cases "extract_detected ctx (sm_extract g)")
  case None
  with assms show ?thesis by (auto simp: set_match_grade_def)
next
  case (Some raw)
  define d where "d = set_match_normalize raw (ep_aliases (ec_expected (gcx_case ctx))) (sm_case_sensitive g)"
  define e where "e = set_match_normalize (ep_must_include (ec_expected (gcx_case ctx)))
    (ep_aliases (ec_expected (gcx_case ctx))) (sm_case_sensitive g)"
  have "collect_failure_modes d e \<noteq> []" if "\<not> scores_get (compute_scores d e) (sm_gating g) \<ge> sm_threshold g"
    using that assms(1) by (intro scores_lt_1_modes [where dm = "sm_gating g"]) (auto simp: threshold_ok_def)
  then show ?thesis
    using assms(2) Some scores_unit [of d e "sm_gating g"]
    by (auto simp: set_match_grade_def Let_def simp flip: d_def e_def split: if_splits)
qed

text \<open>The contract holds of every grader the constructor accepts.\<close>

interpretation set_match:
  grader_contract nm "\<lambda>ctx. bind_result (make_SetMatchGrader nm gating th cs ex) (\<lambda>g. set_match_grade g ctx)"
  for nm gating th cs ex
proof unfold_locales
  fix ctx r
  assume "bind_result (make_SetMatchGrader nm gating th cs ex) (\<lambda>g. set_match_grade g ctx) = Inr r"
  then obtain g where g: "make_SetMatchGrader nm gating th cs ex = Inr g" "set_match_grade g ctx = Inr r"
    by (auto simp: bind_result_Inr_iff)
  then have "sm_name g = nm"
    by (auto simp: make_SetMatchGrader_def bind_result_Inr_iff split: if_splits)
  with set_match_well_graded [OF make_SetMatchGrader_ok [OF g(1)] g(2)] show "well_graded nm r" by simp
qed

end
