(* ===== verification/Deterministic.thy ===== *)
theory Deterministic
  imports Grading
begin

section \<open>graders/deterministic.py\<close>

text \<open>
  Declarative rules over the final response and the trace.  \<open>collect_violations\<close> runs every rule;
  \<open>deterministic_grade\<close> turns the violations into a verdict, in the all-or-nothing mode and in
  the recall mode.  \<open>satisfies_rules\<close> is the abstract meaning of a case's expectations, stated
  without the code's bookkeeping, and the lemmas relate verdict, score and every leaf of the
  breakdown tree to it.  A compiled regular expression is its pattern text and its search
  function.
\<close>

fun contains :: "string \<Rightarrow> string \<Rightarrow> bool" where
  "contains [] needle = (needle = [])"
| "contains (c # cs) needle = (prefix needle (c # cs) \<or> contains cs needle)"

lemma contains_iff_sublist: "contains s t \<longleftrightarrow> sublist t s"
  by (induction s) (auto simp: sublist_Cons_right)

record Pattern =
  pat_pattern :: string
  pat_search :: "string \<Rightarrow> bool"

record Violation =
  vi_failure_mode :: string
  vi_detail :: string

definition violation :: "string \<Rightarrow> string \<Rightarrow> Violation" where
  "violation fm detail = \<lparr>vi_failure_mode = fm, vi_detail = detail\<rparr>"

lemma violation_simps [simp]:
  "vi_failure_mode (violation fm d) = fm"
  "vi_detail (violation fm d) = d"
  by (simp_all add: violation_def)

fun scalar_label :: "json \<Rightarrow> string option" where
  "scalar_label (JStr s) = Some s"
| "scalar_label (JInt i) = Some (int_str i)"
| "scalar_label (JBool b) = Some (if b then ''True'' else ''False'')"
| "scalar_label _ = None"

definition class_label :: "json option \<Rightarrow> string option" where
  "class_label value = (case value of
     None \<Rightarrow> None
   | Some (JObj d) \<Rightarrow> if length d = 1 then scalar_label (snd (hd d)) else None
   | Some v \<Rightarrow> scalar_label v)"

definition final_response_text :: "GraderContext \<Rightarrow> string" where
  "final_response_text ctx = (case gcx_response ctx of
     None \<Rightarrow> []
   | Some r \<Rightarrow>
       if rsp_content r \<notin> {None, Some []} then the (rsp_content r)
       else (case rsp_structured_output r of
               None \<Rightarrow> []
             | Some d \<Rightarrow> (case dict_get d ''content'' JNull of JStr s \<Rightarrow> s | _ \<Rightarrow> [])))"

definition tools_invoked :: "Trace \<Rightarrow> string list" where
  "tools_invoked t = map tc_tool_name (List.map_filter as_tool_call (tr_spans t))"

record DeterministicGrader =
  dg_name :: string
  dg_case_sensitive :: bool
  dg_regex :: "Pattern option"

definition make_DeterministicGrader ::
    "string \<Rightarrow> bool \<Rightarrow> Pattern option \<Rightarrow> DeterministicGrader result" where
  "make_DeterministicGrader nm cs re =
     (if nm = [] then Inl ValueError
      else Inr \<lparr>dg_name = nm, dg_case_sensitive = cs, dg_regex = re\<rparr>)"

definition fold_text :: "DeterministicGrader \<Rightarrow> string \<Rightarrow> string" where
  "fold_text g s = (if dg_case_sensitive g then s else lower s)"

definition response_struct :: "GraderContext \<Rightarrow> json option" where
  "response_struct ctx = (case gcx_response ctx of
     None \<Rightarrow> None | Some r \<Rightarrow> map_option JObj (rsp_structured_output r))"

text \<open>\<^verbatim>\<open>response_struct != expected.structured_output\<close>.\<close>

definition struct_differs :: "GraderContext \<Rightarrow> json dict \<Rightarrow> bool" where
  "struct_differs ctx ex =
     (case response_struct ctx of None \<Rightarrow> True | Some j \<Rightarrow> \<not> py_eq j (JObj ex))"

definition struct_violation :: "GraderContext \<Rightarrow> json dict \<Rightarrow> Violation" where
  "struct_violation ctx ex =
     (case (class_label (response_struct ctx), class_label (Some (JObj ex))) of
        (Some p, Some e) \<Rightarrow>
          violation (''misclassified:'' @ p @ ''->'' @ e) (''predicted='' @ p @ '' expected='' @ e)
      | _ \<Rightarrow> violation ''structured_output_mismatch'' ''expected != actual'')"

definition struct_violations :: "GraderContext \<Rightarrow> Expected \<Rightarrow> Violation list" where
  "struct_violations ctx expected = (case ep_structured_output expected of
     None \<Rightarrow> []
   | Some ex \<Rightarrow> if struct_differs ctx ex then [struct_violation ctx ex] else [])"

definition missing_substrings :: "DeterministicGrader \<Rightarrow> GraderContext \<Rightarrow> string list" where
  "missing_substrings g ctx =
     filter (\<lambda>needle. \<not> contains (fold_text g (final_response_text ctx)) (fold_text g needle))
       (ep_must_include (ec_expected (gcx_case ctx)))"

definition other_violations :: "DeterministicGrader \<Rightarrow> GraderContext \<Rightarrow> Violation list" where
  "other_violations g ctx =
     (let expected = ec_expected (gcx_case ctx);
          text = final_response_text ctx;
          haystack = fold_text g text;
          invoked = tools_invoked (gcx_trace ctx)
      in map (violation ''forbidden_substring'')
           (filter (\<lambda>needle. contains haystack (fold_text g needle)) (ep_must_not_include expected)) @
         map (violation ''missing_required_tool'')
           (filter (\<lambda>t. t \<notin> set invoked) (ep_required_tools expected)) @
         map (violation ''forbidden_tool_invoked'')
           (filter (\<lambda>t. t \<in> set invoked) (ep_forbidden_tools expected)) @
         (case dg_regex g of
            None \<Rightarrow> []
          | Some re \<Rightarrow> if \<not> pat_search re text then [violation ''regex_mismatch'' (pat_pattern re)] else []) @
         struct_violations ctx expected)"

text \<open>\<^verbatim>\<open>_collect_violations\<close>: the violations in the order of the rules, and how many required
  substrings are missing.\<close>

definition collect_violations :: "DeterministicGrader \<Rightarrow> GraderContext \<Rightarrow> Violation list \<times> nat" where
  "collect_violations g ctx =
     (map (violation ''missing_required_substring'') (missing_substrings g ctx) @ other_violations g ctx,
      length (missing_substrings g ctx))"

definition violated_keys :: "Violation list \<Rightarrow> string list" where
  "violated_keys vs = map (\<lambda>v. vi_failure_mode v @ '':'' @ vi_detail v) vs"

definition leaf :: "string \<Rightarrow> bool \<Rightarrow> string \<Rightarrow> string option \<Rightarrow> BreakdownNode" where
  "leaf key passed reason failure_mode =
     BreakdownNode key (Some (if passed then GradeLabel.PASS else GradeLabel.FAIL))
       (Some (if passed then 1 else 0)) 0 reason
       (if passed then [] else (case failure_mode of None \<Rightarrow> [] | Some fm \<Rightarrow> [fm])) []"

definition dimension :: "string list \<Rightarrow> string \<Rightarrow> string list \<Rightarrow> string \<Rightarrow> BreakdownNode list" where
  "dimension violated key items failure_mode =
     (if items = [] then []
      else
        let leaves = map (\<lambda>item. leaf item (failure_mode @ '':'' @ item \<notin> set violated)
                                   (spaced failure_mode @ '': '' @ item) (Some failure_mode)) items;
            passed_count = count_if (\<lambda>n. bn_label n = Some GradeLabel.PASS) leaves
        in [BreakdownNode key
              (Some (if passed_count = length leaves then GradeLabel.PASS else GradeLabel.FAIL))
              (Some (of_nat passed_count / of_nat (length leaves))) 0
              (nat_str passed_count @ ''/'' @ nat_str (length leaves) @ '' satisfied'') [] leaves])"

definition deterministic_breakdown ::
    "Expected \<Rightarrow> GradeLabel \<Rightarrow> rat \<Rightarrow> string list \<Rightarrow> BreakdownNode option" where
  "deterministic_breakdown expected label score violated =
     (let dimensions =
        dimension violated ''must_include'' (ep_must_include expected) ''missing_required_substring'' @
        dimension violated ''must_not_include'' (ep_must_not_include expected) ''forbidden_substring'' @
        dimension violated ''required_tools'' (ep_required_tools expected) ''missing_required_tool'' @
        dimension violated ''forbidden_tools'' (ep_forbidden_tools expected) ''forbidden_tool_invoked''
      in if dimensions = [] then None
         else Some (BreakdownNode ''deterministic'' (Some label) (Some score) 1
                ''per-rule funnel; output-state authoritative'' [] dimensions))"

definition deterministic_grade :: "DeterministicGrader \<Rightarrow> GraderContext \<Rightarrow> GradeResult result" where
  "deterministic_grade g ctx =
     (let expected = ec_expected (gcx_case ctx);
          (violations, missing_required) = collect_violations g ctx;
          violated = violated_keys violations;
          modes = sorted_set (map vi_failure_mode violations);
          graded = (\<lambda>label score fms.
            grade_result (dg_name g) label (Some score) fms
              (deterministic_breakdown expected label score violated))
      in case (ep_min_recall expected, ep_must_include expected) of
           (Some min_recall, _ # _) \<Rightarrow>
             let total = length (ep_must_include expected);
                 recall = of_nat (total - missing_required) / of_nat total;
                 hard_violations =
                   filter (\<lambda>v. vi_failure_mode v \<noteq> ''missing_required_substring'') violations;
                 recall_passes = (recall \<ge> min_recall)
             in if recall_passes \<and> hard_violations = []
                then Inr (graded GradeLabel.PASS recall modes)
                else Inr (graded GradeLabel.FAIL recall modes)
         | _ \<Rightarrow>
             if violations = [] then Inr (graded GradeLabel.PASS 1 [])
             else Inr (graded GradeLabel.FAIL 0 modes))"

subsection \<open>The rules\<close>

text \<open>The meaning of a case's expectations.  \<open>hard_rules\<close> are the ones recall never excuses.\<close>

definition rule_include :: "DeterministicGrader \<Rightarrow> GraderContext \<Rightarrow> string \<Rightarrow> bool" where
  "rule_include g ctx needle \<longleftrightarrow> sublist (fold_text g needle) (fold_text g (final_response_text ctx))"

definition hard_rules :: "DeterministicGrader \<Rightarrow> GraderContext \<Rightarrow> bool" where
  "hard_rules g ctx \<longleftrightarrow>
     (let e = ec_expected (gcx_case ctx)
      in (\<forall>n \<in> set (ep_must_not_include e). \<not> rule_include g ctx n) \<and>
         set (ep_required_tools e) \<subseteq> set (tools_invoked (gcx_trace ctx)) \<and>
         set (ep_forbidden_tools e) \<inter> set (tools_invoked (gcx_trace ctx)) = {} \<and>
         (\<forall>re. dg_regex g = Some re \<longrightarrow> pat_search re (final_response_text ctx)) \<and>
         (\<forall>ex. ep_structured_output e = Some ex \<longrightarrow>
            (\<exists>j. response_struct ctx = Some j \<and> py_eq j (JObj ex))))"

definition include_recall :: "DeterministicGrader \<Rightarrow> GraderContext \<Rightarrow> rat" where
  "include_recall g ctx =
     (let items = ep_must_include (ec_expected (gcx_case ctx))
      in of_nat (count_if (rule_include g ctx) items) / of_nat (length items))"

definition satisfies_rules :: "DeterministicGrader \<Rightarrow> GraderContext \<Rightarrow> bool" where
  "satisfies_rules g ctx \<longleftrightarrow> hard_rules g ctx \<and>
     (let e = ec_expected (gcx_case ctx)
      in if ep_min_recall e \<noteq> None \<and> ep_must_include e \<noteq> []
         then the (ep_min_recall e) \<le> include_recall g ctx
         else (\<forall>n \<in> set (ep_must_include e). rule_include g ctx n))"

lemma struct_violations_Nil:
  "struct_violations ctx e = [] \<longleftrightarrow>
     (\<forall>ex. ep_structured_output e = Some ex \<longrightarrow>
        (\<exists>j. response_struct ctx = Some j \<and> py_eq j (JObj ex)))"
  by (auto simp: struct_violations_def struct_differs_def split: option.splits if_splits)

lemma struct_violation_mode:
  "(\<exists>x y. struct_violation ctx ex = violation (''misclassified:'' @ x) y) \<or>
   struct_violation ctx ex = violation ''structured_output_mismatch'' ''expected != actual''"
  unfolding struct_violation_def
  by (cases "class_label (response_struct ctx)"; cases "class_label (Some (JObj ex))") (simp_all, blast)

lemma other_violations_Nil: "other_violations g ctx = [] \<longleftrightarrow> hard_rules g ctx"
  by (auto simp: other_violations_def hard_rules_def Let_def filter_empty_conv rule_include_def
      contains_iff_sublist struct_violations_Nil split: option.split)

lemma other_violation_cases:
  assumes "v \<in> set (other_violations g ctx)"
  obtains (forbidden) x where "v = violation ''forbidden_substring'' x"
  | (required) x where "v = violation ''missing_required_tool'' x"
  | (tool) x where "v = violation ''forbidden_tool_invoked'' x"
  | (regex) x where "v = violation ''regex_mismatch'' x"
  | (struct) x y where "v = violation (''misclassified:'' @ x) y"
  | (mismatch) x where "v = violation ''structured_output_mismatch'' x"
proof -
  let ?e = "ec_expected (gcx_case ctx)"
  have st: "(\<exists>x y. v = violation (''misclassified:'' @ x) y) \<or> (\<exists>x. v = violation ''structured_output_mismatch'' x)"
    if "v \<in> set (struct_violations ctx ?e)"
  proof -
    from that obtain ex where "v = struct_violation ctx ex"
      by (auto simp: struct_violations_def split: option.splits if_splits)
    then show ?thesis using struct_violation_mode [of ctx ex] by metis
  qed
  have re: "\<exists>x. v = violation ''regex_mismatch'' x"
    if "v \<in> set (case dg_regex g of None \<Rightarrow> []
          | Some re \<Rightarrow> if \<not> pat_search re (final_response_text ctx)
              then [violation ''regex_mismatch'' (pat_pattern re)] else [])"
    using that by (auto split: option.splits if_split_asm)
  consider "v \<in> violation ''forbidden_substring'' ` UNIV" | "v \<in> violation ''missing_required_tool'' ` UNIV"
    | "v \<in> violation ''forbidden_tool_invoked'' ` UNIV"
    | "v \<in> set (case dg_regex g of None \<Rightarrow> []
          | Some re \<Rightarrow> if \<not> pat_search re (final_response_text ctx)
              then [violation ''regex_mismatch'' (pat_pattern re)] else [])"
    | "v \<in> set (struct_violations ctx ?e)"
    using assms unfolding other_violations_def Let_def set_append set_map by blast
  then show ?thesis
  proof cases
    case 4
    then show ?thesis using re regex by blast
  next
    case 5
    then show ?thesis using st struct mismatch by blast
  qed (use forbidden required tool in blast)+
qed

lemma other_violation_mode:
  "v \<in> set (other_violations g ctx) \<Longrightarrow> vi_failure_mode v \<noteq> ''missing_required_substring''"
  by (erule other_violation_cases) simp_all

lemma hard_violations_Nil:
  "filter (\<lambda>v. vi_failure_mode v \<noteq> ''missing_required_substring'') (fst (collect_violations g ctx)) = []
     \<longleftrightarrow> hard_rules g ctx"
proof -
  have "filter (\<lambda>v. vi_failure_mode v \<noteq> ''missing_required_substring'') (other_violations g ctx) =
        other_violations g ctx"
    by (simp add: filter_id_conv other_violation_mode)
  then show ?thesis
    by (simp add: collect_violations_def other_violations_Nil [symmetric] filter_empty_conv)
qed

lemma missing_count:
  "snd (collect_violations g ctx) =
     length (ep_must_include (ec_expected (gcx_case ctx))) -
       count_if (rule_include g ctx) (ep_must_include (ec_expected (gcx_case ctx)))"
proof -
  have "length (filter (\<lambda>n. \<not> P n) xs) = length xs - count_if P xs" for P and xs :: "string list"
    using sum_length_filter_compl [of P xs] by (simp add: count_if_def)
  then show ?thesis
    by (simp add: collect_violations_def missing_substrings_def rule_include_def [abs_def]
        contains_iff_sublist)
qed

lemma violations_Nil:
  "fst (collect_violations g ctx) = [] \<longleftrightarrow>
     hard_rules g ctx \<and> (\<forall>n \<in> set (ep_must_include (ec_expected (gcx_case ctx))). rule_include g ctx n)"
  by (auto simp: collect_violations_def missing_substrings_def other_violations_Nil filter_empty_conv
      rule_include_def contains_iff_sublist)

lemma recall_eq:
  "of_nat (length (ep_must_include (ec_expected (gcx_case ctx))) - snd (collect_violations g ctx)) /
     of_nat (length (ep_must_include (ec_expected (gcx_case ctx)))) = include_recall g ctx"
  using count_if_le [of "rule_include g ctx" "ep_must_include (ec_expected (gcx_case ctx))"]
  by (simp add: include_recall_def Let_def missing_count)

lemma include_recall_unit: "0 \<le> include_recall g ctx \<and> include_recall g ctx \<le> 1"
  unfolding include_recall_def Let_def by (rule frac_unit) (rule count_if_le)

lemma deterministic_grade_cases:
  obtains l s fms b where
    "deterministic_grade g ctx = Inr (grade_result (dg_name g) l (Some s) fms b)"
    "l = (if satisfies_rules g ctx then GradeLabel.PASS else GradeLabel.FAIL)"
    "s = (if ep_min_recall (ec_expected (gcx_case ctx)) \<noteq> None \<and>
             ep_must_include (ec_expected (gcx_case ctx)) \<noteq> []
          then include_recall g ctx else if satisfies_rules g ctx then 1 else 0)"
    "set fms = vi_failure_mode ` set (fst (collect_violations g ctx))"
    "b = deterministic_breakdown (ec_expected (gcx_case ctx)) l s
           (violated_keys (fst (collect_violations g ctx)))"
proof -
  obtain vs m where cv: "collect_violations g ctx = (vs, m)" by (cases "collect_violations g ctx")
  show ?thesis
  proof (cases "ep_min_recall (ec_expected (gcx_case ctx)) \<noteq> None \<and>
      ep_must_include (ec_expected (gcx_case ctx)) \<noteq> []")
    case True
    then obtain mr x xs where e: "ep_min_recall (ec_expected (gcx_case ctx)) = Some mr"
      "ep_must_include (ec_expected (gcx_case ctx)) = x # xs" by (auto simp: neq_Nil_conv)
    have r: "of_nat (length (x # xs) - m) / of_nat (length (x # xs)) = include_recall g ctx"
      using recall_eq [of ctx g] by (simp add: cv e)
    have h: "filter (\<lambda>v. vi_failure_mode v \<noteq> ''missing_required_substring'') vs = [] \<longleftrightarrow> hard_rules g ctx"
      using hard_violations_Nil [of g ctx] by (simp add: cv)
    have sat: "satisfies_rules g ctx \<longleftrightarrow> mr \<le> include_recall g ctx \<and> hard_rules g ctx"
      by (auto simp: satisfies_rules_def Let_def e)
    have "deterministic_grade g ctx = Inr (grade_result (dg_name g)
        (if satisfies_rules g ctx then GradeLabel.PASS else GradeLabel.FAIL)
        (Some (include_recall g ctx)) (sorted_set (map vi_failure_mode vs))
        (deterministic_breakdown (ec_expected (gcx_case ctx))
          (if satisfies_rules g ctx then GradeLabel.PASS else GradeLabel.FAIL) (include_recall g ctx)
          (violated_keys vs)))"
      unfolding deterministic_grade_def Let_def cv e prod.case option.case list.case r h sat
      by simp
    from that [OF this] show ?thesis using True by (simp add: cv)
  next
    case False
    then have ne: "\<not> (\<exists>mr. ep_min_recall (ec_expected (gcx_case ctx)) = Some mr \<and>
        ep_must_include (ec_expected (gcx_case ctx)) \<noteq> [])" by auto
    have v: "vs = [] \<longleftrightarrow> satisfies_rules g ctx"
      using violations_Nil [of g ctx] False by (auto simp: satisfies_rules_def Let_def cv)
    have "deterministic_grade g ctx = Inr (grade_result (dg_name g)
        (if satisfies_rules g ctx then GradeLabel.PASS else GradeLabel.FAIL)
        (Some (if satisfies_rules g ctx then 1 else 0)) (sorted_set (map vi_failure_mode vs))
        (deterministic_breakdown (ec_expected (gcx_case ctx))
          (if satisfies_rules g ctx then GradeLabel.PASS else GradeLabel.FAIL)
          (if satisfies_rules g ctx then 1 else 0) (violated_keys vs)))"
    proof (cases "satisfies_rules g ctx")
      case True
      with v have "vs = []" by simp
      with ne True show ?thesis
        by (cases "ep_min_recall (ec_expected (gcx_case ctx))"; cases "ep_must_include (ec_expected (gcx_case ctx))")
          (simp_all add: deterministic_grade_def Let_def cv sorted_set_def)
    next
      case False
      with v have "vs \<noteq> []" by simp
      with ne False show ?thesis
        by (cases "ep_min_recall (ec_expected (gcx_case ctx))"; cases "ep_must_include (ec_expected (gcx_case ctx))")
          (simp_all add: deterministic_grade_def Let_def cv sorted_set_def)
    qed
    then show ?thesis
      by (rule that) (use False cv in \<open>auto simp: ne\<close>)
  qed
qed

interpretation deterministic: grader_contract "dg_name g" "deterministic_grade g" for g
proof unfold_locales
  fix ctx r
  assume good: "good_context ctx" and r: "deterministic_grade g ctx = Inr r"
  obtain l s fms b where c:
    "deterministic_grade g ctx = Inr (grade_result (dg_name g) l (Some s) fms b)"
    "l = (if satisfies_rules g ctx then GradeLabel.PASS else GradeLabel.FAIL)"
    "s = (if ep_min_recall (ec_expected (gcx_case ctx)) \<noteq> None \<and>
             ep_must_include (ec_expected (gcx_case ctx)) \<noteq> []
          then include_recall g ctx else if satisfies_rules g ctx then 1 else 0)"
    "set fms = vi_failure_mode ` set (fst (collect_violations g ctx))"
    by (rule deterministic_grade_cases)
  have "fms \<noteq> []" if "l = GradeLabel.FAIL"
  proof
    assume "fms = []"
    with c(4) have "fst (collect_violations g ctx) = []" by simp
    then have "hard_rules g ctx"
      "\<forall>n \<in> set (ep_must_include (ec_expected (gcx_case ctx))). rule_include g ctx n"
      by (simp_all add: violations_Nil)
    moreover from this have "include_recall g ctx = 1" if "ep_must_include (ec_expected (gcx_case ctx)) \<noteq> []"
      using that by (simp add: include_recall_def Let_def count_if_def)
    moreover have "the (ep_min_recall (ec_expected (gcx_case ctx))) \<le> 1"
      if "ep_min_recall (ec_expected (gcx_case ctx)) \<noteq> None"
      using that good by (auto simp: good_context_def valid_Expected_def unit_interval_def)
    ultimately have "satisfies_rules g ctx" by (auto simp: satisfies_rules_def Let_def)
    with that c(2) show False by simp
  qed
  moreover have "0 \<le> s \<and> s \<le> 1" using include_recall_unit [of g ctx] c(3) by auto
  ultimately show "well_graded (dg_name g) r" using r c(1) by (auto simp: well_graded_def)
qed

text \<open>Each leaf of the tree tells the verdict of its own rule.\<close>

lemma violated_iff:
  assumes "fm \<in> {''missing_required_substring'', ''forbidden_substring'',
    ''missing_required_tool'', ''forbidden_tool_invoked''}"
  shows "fm @ '':'' @ item \<in> set (violated_keys (fst (collect_violations g ctx))) \<longleftrightarrow>
    violation fm item \<in> set (fst (collect_violations g ctx))"
proof
  have eta: "v = violation (vi_failure_mode v) (vi_detail v)" for v
    by (simp add: violation_def)
  assume "fm @ '':'' @ item \<in> set (violated_keys (fst (collect_violations g ctx)))"
  then obtain v where v: "v \<in> set (fst (collect_violations g ctx))"
    "fm @ '':'' @ item = vi_failure_mode v @ '':'' @ vi_detail v"
    by (auto simp: violated_keys_def)
  consider (missing) x where "v = violation ''missing_required_substring'' x"
    | (other) "v \<in> set (other_violations g ctx)"
    using v(1) by (auto simp: collect_violations_def)
  then have "v = violation fm item"
  proof cases
    case missing
    with v(2) assms show ?thesis by auto
  next
    case other
    then show ?thesis
      by (cases rule: other_violation_cases) (use v(2) assms in auto)
  qed
  with v(1) show "violation fm item \<in> set (fst (collect_violations g ctx))" by simp
next
  assume "violation fm item \<in> set (fst (collect_violations g ctx))"
  then show "fm @ '':'' @ item \<in> set (violated_keys (fst (collect_violations g ctx)))"
    by (force simp: violated_keys_def image_iff)
qed

end
