(* ===== verification/Classification.thy ===== *)
theory Classification
  imports Confusion Select
begin

section \<open>graders/classification.py\<close>

text \<open>
  The single-label classification grader.  A graded pair travels to the aggregator inside a
  breakdown key (\<open>cell_key\<close>) that \<open>parse_cell_key\<close> takes apart; the lemmas say for which labels
  that is a round trip and for which it is not, what the grader answers on every branch, and
  that it honours the grader contract.
\<close>

definition FM_NO_PREDICTION :: string where
  "FM_NO_PREDICTION = ''classification_no_prediction''"

definition FM_NO_EXPECTED :: string where
  "FM_NO_EXPECTED = ''classification_no_expected''"

definition MISCLASSIFIED_PREFIX :: string where
  "MISCLASSIFIED_PREFIX = ''misclassified:''"

definition CELL_PREFIX :: string where
  "CELL_PREFIX = ''cell:''"

definition misclassified_mode :: "string \<Rightarrow> string \<Rightarrow> string" where
  "misclassified_mode predicted expected = MISCLASSIFIED_PREFIX @ predicted @ ''->'' @ expected"

definition cell_key :: "string \<Rightarrow> string \<Rightarrow> string" where
  "cell_key expected predicted = CELL_PREFIX @ expected @ ''->'' @ predicted"

text \<open>\<^verbatim>\<open>body.partition("->")\<close>: what precedes the first arrow and what follows it, if there is
  one.\<close>

fun partition_arrow :: "string \<Rightarrow> string \<times> string option" where
  "partition_arrow [] = ([], None)"
| "partition_arrow [c] = ([c], None)"
| "partition_arrow (c # d # cs) =
     (if c = CHR ''-'' \<and> d = CHR ''>'' then ([], Some cs)
      else let (a, b) = partition_arrow (d # cs) in (c # a, b))"

definition parse_cell_key :: "string \<Rightarrow> (string \<times> string) option" where
  "parse_cell_key key =
     (if \<not> starts_with key CELL_PREFIX then None
      else (case partition_arrow (drop (length CELL_PREFIX) key) of
              (_, None) \<Rightarrow> None
            | (expected, Some predicted) \<Rightarrow>
                if expected = [] \<or> predicted = [] then None else Some (expected, predicted)))"

fun has_arrow :: "string \<Rightarrow> bool" where
  "has_arrow (c # d # cs) = (c = CHR ''-'' \<and> d = CHR ''>'' \<or> has_arrow (d # cs))"
| "has_arrow _ = False"

lemma partition_arrow_append:
  "\<not> has_arrow (e @ ''-'') \<Longrightarrow> partition_arrow (e @ ''->'' @ p) = (e, Some p)"
proof (induction e rule: has_arrow.induct, goal_cases)
  case (3 c)
  then show ?case by auto
qed auto

lemma has_arrow_snoc_dash: "has_arrow (e @ ''-'') \<longleftrightarrow> has_arrow e"
proof (induction e rule: has_arrow.induct, goal_cases)
  case (3 c)
  then show ?case by auto
qed auto

lemma parse_cell_key_roundtrip:
  assumes "\<not> has_arrow e" "e \<noteq> []" "p \<noteq> []"
  shows "parse_cell_key (cell_key e p) = Some (e, p)"
  using assms partition_arrow_append [of e p]
  by (simp add: parse_cell_key_def cell_key_def has_arrow_snoc_dash)

text \<open>What a parsed key can be: its expected class never contains an arrow, so a class that does
  is read back cut at it.\<close>

lemma partition_arrow_fst: "partition_arrow s = (a, b) \<Longrightarrow> \<not> has_arrow a"
proof (induction s arbitrary: a b rule: partition_arrow.induct)
  case (3 c d cs)
  show ?case
  proof (cases "c = CHR ''-'' \<and> d = CHR ''>''")
    case True
    then have "a = []" using 3 by auto
    then show ?thesis by simp
  next
    case F: False
    obtain a' b' where p: "partition_arrow (d # cs) = (a', b')"
      by (cases "partition_arrow (d # cs)")
    then have a: "a = c # a'" using 3(2) F by (auto simp: partition_arrow.simps(3))
    have na: "\<not> has_arrow a'"
      using 3(1) F p by blast
    have hd: "a' = [] \<or> hd a' = d"
      using p by (cases cs) (auto split: if_splits prod.splits)
    show ?thesis using na hd F by (cases a') (auto simp: a)
  qed
qed auto

lemma parse_cell_key_no_arrow: "parse_cell_key key = Some (e, p) \<Longrightarrow> \<not> has_arrow e \<and> e \<noteq> [] \<and> p \<noteq> []"
  by (auto simp: parse_cell_key_def dest: partition_arrow_fst split: if_splits prod.splits option.splits)

text \<open>\<^verbatim>\<open>str(value)\<close> of a scalar; \<^verbatim>\<open>bool\<close> prints as \<^verbatim>\<open>True\<close> or \<^verbatim>\<open>False\<close>.\<close>

fun as_class_label :: "json option \<Rightarrow> string option" where
  "as_class_label (Some (JBool b)) = Some (if b then ''True'' else ''False'')"
| "as_class_label (Some (JStr s)) = Some s"
| "as_class_label (Some (JInt i)) = Some (int_str i)"
| "as_class_label _ = None"

definition extract_predicted :: "GraderContext \<Rightarrow> string \<Rightarrow> string option" where
  "extract_predicted ctx extract =
     (case gcx_response ctx of
        None \<Rightarrow> None
      | Some r \<Rightarrow> (case rsp_structured_output r of
                    None \<Rightarrow> None
                  | Some d \<Rightarrow> as_class_label (select (JObj d) extract)))"

definition extract_expected :: "Expected \<Rightarrow> string option \<Rightarrow> string option" where
  "extract_expected e expected_from =
     (case expected_from of
        Some path \<Rightarrow> (case ep_structured_output e of
                        None \<Rightarrow> None
                      | Some d \<Rightarrow> as_class_label (select (JObj d) path))
      | None \<Rightarrow> as_class_label (map_option JStr (ep_outcome e)))"

definition classification_breakdown :: "GradeLabel \<Rightarrow> string \<Rightarrow> string \<Rightarrow> bool \<Rightarrow> BreakdownNode" where
  "classification_breakdown label predicted expected matched =
     BreakdownNode ''classification'' (Some label) (Some (if matched then 1 else 0)) 1
       ''single-label classification cell'' []
       [BreakdownNode (cell_key expected predicted) (Some label) (Some (if matched then 1 else 0)) 1
          no_text (if matched then [] else [misclassified_mode predicted expected]) []]"

record ClassificationGrader =
  cg_name :: string
  cg_extract :: string
  cg_expected_from :: "string option"
  cg_case_sensitive :: bool

definition make_ClassificationGrader ::
    "string \<Rightarrow> string \<Rightarrow> string option \<Rightarrow> bool \<Rightarrow> ClassificationGrader result" where
  "make_ClassificationGrader nm extract expected_from case_sensitive =
     (if nm = [] then Inl ValueError
      else bind_result (validate_path extract) (\<lambda>_.
           bind_result (case expected_from of None \<Rightarrow> Inr () | Some p \<Rightarrow> validate_path p) (\<lambda>_.
             Inr \<lparr>cg_name = nm, cg_extract = extract, cg_expected_from = expected_from,
                  cg_case_sensitive = case_sensitive\<rparr>)))"

definition fold_label :: "ClassificationGrader \<Rightarrow> string \<Rightarrow> string" where
  "fold_label g label = (if cg_case_sensitive g then label else lower label)"

definition classification_grade :: "ClassificationGrader \<Rightarrow> GraderContext \<Rightarrow> GradeResult result" where
  "classification_grade g ctx =
     (case extract_predicted ctx (cg_extract g) of
        None \<Rightarrow> Inr (grade_result (cg_name g) GradeLabel.FAIL (Some 0) [FM_NO_PREDICTION] None)
      | Some raw_predicted \<Rightarrow>
          (case extract_expected (ec_expected (gcx_case ctx)) (cg_expected_from g) of
             None \<Rightarrow> Inr (grade_result (cg_name g) GradeLabel.FAIL (Some 0) [FM_NO_EXPECTED] None)
           | Some raw_expected \<Rightarrow>
               let predicted = fold_label g raw_predicted;
                   expected = fold_label g raw_expected;
                   matched = (predicted = expected);
                   label = (if matched then GradeLabel.PASS else GradeLabel.FAIL)
               in Inr (grade_result (cg_name g) label (Some (if matched then 1 else 0))
                    (if matched then [] else [misclassified_mode predicted expected])
                    (Some (classification_breakdown label predicted expected matched)))))"

interpretation classification: grader_contract "cg_name g" "classification_grade g" for g
  by unfold_locales
    (auto simp: classification_grade_def Let_def split: option.splits if_splits)

lemma classification_grade_total: "\<exists>r. classification_grade g ctx = Inr r"
  by (auto simp: classification_grade_def Let_def split: option.splits)

text \<open>A case passes exactly when both classes are there and agree up to the grader's folding.\<close>

lemma classification_grade_pass:
  assumes "classification_grade g ctx = Inr r"
  shows "gr_label r = GradeLabel.PASS \<longleftrightarrow>
    (\<exists>p e. extract_predicted ctx (cg_extract g) = Some p \<and>
           extract_expected (ec_expected (gcx_case ctx)) (cg_expected_from g) = Some e \<and>
           fold_label g p = fold_label g e)"
  using assms by (auto simp: classification_grade_def Let_def split: option.splits if_splits)

text \<open>The cell a graded case carries, and where it sits in the tree.\<close>

lemma classification_grade_cell:
  assumes "classification_grade g ctx = Inr r"
    and "extract_predicted ctx (cg_extract g) = Some p"
    and "extract_expected (ec_expected (gcx_case ctx)) (cg_expected_from g) = Some e"
  shows "\<exists>b c. gr_breakdown r = Some b \<and> bn_key b = ''classification'' \<and> bn_children b = [c] \<and>
     bn_children c = [] \<and> bn_key c = cell_key (fold_label g e) (fold_label g p)"
  using assms by (auto simp: classification_grade_def classification_breakdown_def Let_def)

end
