(* ===== verification/Grader_Properties.thy ===== *)
theory Grader_Properties
  imports Samples Set_Match Deterministic Classification
begin

section \<open>Properties of the graders\<close>

text \<open>
  What a verdict of the rule-based graders means, stated over the case's expectations and the
  agent's answer; the contract all of them share; and what the confusion matrix promises.
\<close>

subsection \<open>Verdicts\<close>

text \<open>The deterministic grader always answers; it passes exactly when the response satisfies the
  case's rules (substrings present or, with a recall threshold, present often enough; forbidden
  substrings absent; required tools invoked and forbidden ones not; pattern matched; structured
  output equal), fails otherwise, and names exactly the rules that were violated.\<close>

theorem deterministic_verdict:
  "\<exists>r. deterministic_grade g ctx = Inr r \<and>
     gr_label r = (if satisfies_rules g ctx then GradeLabel.PASS else GradeLabel.FAIL) \<and>
     set (gr_failure_modes r) = vi_failure_mode ` set (fst (collect_violations g ctx)) \<and>
     (gr_failure_modes r = [] \<longleftrightarrow> hard_rules g ctx \<and>
        list_all (rule_include g ctx) (ep_must_include (ec_expected (gcx_case ctx))))"
proof -
  obtain l s fms b where
    "deterministic_grade g ctx = Inr (grade_result (dg_name g) l (Some s) fms b)"
    "l = (if satisfies_rules g ctx then GradeLabel.PASS else GradeLabel.FAIL)"
    "set fms = vi_failure_mode ` set (fst (collect_violations g ctx))"
    by (rule deterministic_grade_cases [of g ctx]) blast
  moreover from this(3) have "fms = [] \<longleftrightarrow> fst (collect_violations g ctx) = []" by auto
  ultimately show ?thesis by (simp add: violations_Nil list_all_iff)
qed

text \<open>A set-match grader that demands a perfect score passes an answer exactly when, after the
  case's aliases and folding, the detected set contains the expected one (gating on completeness
  or recall), is contained in it (precision), or equals it (F1).\<close>

theorem set_match_perfect:
  assumes "make_SetMatchGrader nm gating 1 case_sensitive extract = Inr g"
    and "extract_detected ctx extract = Some raw"
  defines "nrm \<equiv> \<lambda>xs. set (set_match_normalize xs (ep_aliases (ec_expected (gcx_case ctx))) case_sensitive)"
  shows "\<exists>r. set_match_grade g ctx = Inr r \<and>
    (gr_label r = GradeLabel.PASS \<longleftrightarrow>
       (case gating of
          Completeness \<Rightarrow> nrm (ep_must_include (ec_expected (gcx_case ctx))) \<subseteq> nrm raw
        | Recall \<Rightarrow> nrm (ep_must_include (ec_expected (gcx_case ctx))) \<subseteq> nrm raw
        | Precision \<Rightarrow> nrm raw \<subseteq> nrm (ep_must_include (ec_expected (gcx_case ctx)))
        | F1 \<Rightarrow> nrm raw = nrm (ep_must_include (ec_expected (gcx_case ctx)))))"
proof -
  have g: "sm_gating g = gating" "sm_threshold g = 1" "sm_case_sensitive g = case_sensitive"
    "sm_extract g = extract"
    using assms(1) by (auto simp: make_SetMatchGrader_def bind_result_Inr_iff split: if_splits)
  show ?thesis
    using assms(2) unfolding nrm_def
    by (simp add: set_match_grade_def Let_def g score_at_least_1 split: GatingDimension.split)
qed

theorem set_match_perfect_witness:
  "\<exists>g r. make_SetMatchGrader ''set_match'' F1 1 False ''detected'' = Inr g \<and>
     set_match_grade g (sample_context ''x'' (Some [(''detected'', JList [JStr ''REFUND''])])) = Inr r \<and>
     gr_label r = GradeLabel.PASS"
proof -
  let ?ctx = "sample_context ''x'' (Some [(''detected'', JList [JStr ''REFUND''])])"
  obtain g where g: "make_SetMatchGrader ''set_match'' F1 1 False ''detected'' = Inr g"
    by (cases "make_SetMatchGrader ''set_match'' F1 1 False ''detected''") (simp_all, code_simp)
  have raw: "extract_detected ?ctx ''detected'' = Some [''REFUND'']" by code_simp
  have "set (set_match_normalize [''REFUND''] (ep_aliases (ec_expected (gcx_case ?ctx))) False) =
      set (set_match_normalize (ep_must_include (ec_expected (gcx_case ?ctx)))
        (ep_aliases (ec_expected (gcx_case ?ctx))) False)"
    by code_simp
  then show ?thesis using set_match_perfect [OF g raw] g by auto
qed

text \<open>C18. The rule-based graders share one contract on every validated case: a grade carries its
  grader's name, its score is a fraction in the unit interval, and a failure is attributed to at
  least one failure mode.\<close>

theorem graders_well_behaved:
  assumes "good_context ctx"
  shows "list_all (\<lambda>(nm, r). case r of Inl _ \<Rightarrow> True | Inr gr \<Rightarrow> well_graded nm gr)
    [(dg_name dg, deterministic_grade dg ctx), (cg_name cg, classification_grade cg ctx),
     (nm, bind_result (make_SetMatchGrader nm gating th cs ex) (\<lambda>g. set_match_grade g ctx))]"
  using deterministic.grades_well [OF assms, of dg] classification.grades_well [OF assms, of cg]
    set_match.grades_well [OF assms, of nm gating th cs ex]
  by (auto split: sum.splits)

definition sample_deterministic :: DeterministicGrader where
  "sample_deterministic = \<lparr>dg_name = ''d'', dg_case_sensitive = False, dg_regex = None\<rparr>"

definition sample_classification :: ClassificationGrader where
  "sample_classification = \<lparr>cg_name = ''c'', cg_extract = ''label'', cg_expected_from = None,
     cg_case_sensitive = False\<rparr>"

theorem graders_well_behaved_witness:
  "list_all (\<lambda>(nm, r). case r of Inl _ \<Rightarrow> True | Inr gr \<Rightarrow> well_graded nm gr)
    [(dg_name sample_deterministic, deterministic_grade sample_deterministic (sample_context ''x'' None)),
     (cg_name sample_classification, classification_grade sample_classification (sample_context ''x'' None)),
     (''s'', bind_result (make_SetMatchGrader ''s'' F1 1 False ''detected'')
        (\<lambda>g. set_match_grade g (sample_context ''x'' None)))]"
proof -
  have good: "good_context (sample_context ''x'' None)"
    by (simp add: good_context_def valid_Expected_def sample_context_def sample_case_def default_Expected_def)
  show ?thesis by (rule graders_well_behaved [OF good])
qed

subsection \<open>Classification\<close>

text \<open>The breakdown key of a confusion cell is read back as the pair it was written from exactly
  when the expected class contains no arrow and neither class is empty.\<close>

theorem cell_key_roundtrip:
  "parse_cell_key (cell_key e p) = Some (e, p) \<longleftrightarrow> \<not> has_arrow e \<and> e \<noteq> [] \<and> p \<noteq> []"
  using parse_cell_key_roundtrip [of e p] parse_cell_key_no_arrow [of "cell_key e p" e p] by blast

text \<open>A class that contains an arrow is read back as another pair.\<close>

lemma cell_key_not_injective:
  "parse_cell_key (cell_key ''a->b'' ''c'') = Some (''a'', ''b->c'')"
  "cell_key ''a->b'' ''c'' = cell_key ''a'' ''b->c''"
  by code_simp+

text \<open>A classification grade passes exactly when the predicted and the expected class agree up to
  the grader's case folding; otherwise its one failure mode names both classes.\<close>

theorem classification_verdict:
  assumes "extract_predicted ctx (cg_extract g) = Some p"
    and "extract_expected (ec_expected (gcx_case ctx)) (cg_expected_from g) = Some e"
  shows "\<exists>r. classification_grade g ctx = Inr r \<and>
    (gr_label r = GradeLabel.PASS \<longleftrightarrow> fold_label g p = fold_label g e) \<and>
    gr_failure_modes r = (if fold_label g p = fold_label g e then []
      else [MISCLASSIFIED_PREFIX @ fold_label g p @ ''->'' @ fold_label g e])"
  using assms by (simp add: classification_grade_def Let_def misclassified_mode_def)

theorem classification_verdict_witness:
  "\<exists>r. classification_grade sample_classification (sample_context ''x'' (Some [(''label'', JStr ''Cancel'')])) = Inr r \<and>
     gr_failure_modes r = [''misclassified:cancel->refund'']"
proof -
  let ?g = sample_classification
  let ?ctx = "sample_context ''x'' (Some [(''label'', JStr ''Cancel'')])"
  have p: "extract_predicted ?ctx (cg_extract ?g) = Some ''Cancel''" by code_simp
  have e: "extract_expected (ec_expected (gcx_case ?ctx)) (cg_expected_from ?g) = Some ''refund''"
    by code_simp
  have f: "fold_label ?g ''Cancel'' = ''cancel''" "fold_label ?g ''refund'' = ''refund''" by code_simp+
  show ?thesis
    using classification_verdict [OF p e] by (auto simp: f MISCLASSIFIED_PREFIX_def)
qed

subsection \<open>The confusion matrix\<close>

text \<open>For any pairs of expected and predicted classes: the matrix counts every pair once, the
  accuracy is the diagonal over the total, and every published precision, recall, F1 and the
  macro F1 is a fraction in the unit interval.\<close>

theorem confusion_sound:
  "let r = confusion_from_pairs pairs
   in sum_list (map snd (cr_confusion r)) = length pairs \<and> cr_n_pairs r = length pairs \<and>
      cr_accuracy r * of_nat (length pairs) = of_nat (count_if (\<lambda>(e, p). e = p) pairs) \<and>
      list_all score_ok (map snd (cr_per_label_precision r @ cr_per_label_recall r @ cr_per_label_f1 r)) \<and>
      score_ok (cr_macro_f1 r)"
proof (cases "pairs = []")
  case True
  then show ?thesis by (simp add: confusion_from_pairs_def count_if_def score_ok_def)
next
  case False
  have "sum_list (map snd (counter_of pairs)) = length pairs"
    using counter_sum_filter [of "\<lambda>_. True" pairs] by (simp add: count_if_def)
  moreover have "score_ok (label_precision (counter_of pairs) l)" "score_ok (label_recall (counter_of pairs) l)"
    "score_ok (label_f1 (counter_of pairs) l)" for l
    using label_precision_unit label_recall_unit label_f1_unit by (auto simp: score_ok_def split: option.splits)
  moreover have "score_ok (cr_macro_f1 (confusion_from_pairs pairs))"
    using macro_f1_unit [of pairs] by (auto simp: score_ok_def split: option.splits)
  ultimately show ?thesis using False
    by (auto simp: confusion_from_pairs_def Let_def list_all_iff count_if_def)
qed

text \<open>The F1 of an observed class is undefined exactly when no pair predicted the class
  correctly, be it that the class was never predicted, never expected, or always missed.\<close>

theorem f1_undefined_iff_no_hit:
  "map_of (cr_per_label_f1 (confusion_from_pairs pairs)) l = Some None \<longleftrightarrow>
     l \<in> set (map fst pairs @ map snd pairs) \<and> (l, l) \<notin> set pairs"
proof -
  have "set (class_labels (counter_of pairs)) = set (map fst pairs @ map snd pairs)"
    by (simp add: class_labels_counter)
  then show ?thesis
    by (auto simp: confusion_from_pairs_def Let_def map_of_map_restrict label_f1_None_iff restrict_map_def)
qed

text \<open>So classes that are always missed leave the macro F1 instead of lowering it.\<close>

lemma macro_f1_ignores_missed_classes:
  "cr_macro_f1 (confusion_from_pairs [(''a'', ''a''), (''b'', ''c''), (''c'', ''b'')]) = Some 1"
  "cr_accuracy (confusion_from_pairs [(''a'', ''a''), (''b'', ''c''), (''c'', ''b'')]) = 1 / 3"
  by code_simp+

text \<open>A confusion report built from pairs survives its stored form: every field is read back
  as it was, and the matrix as the same map from cells to counts.\<close>

theorem confusion_roundtrip:
  "\<exists>r'. confusion_from_dict (confusion_fields (confusion_from_pairs pairs)) = Inr r' \<and>
     map_of (cr_confusion r') = map_of (cr_confusion (confusion_from_pairs pairs)) \<and>
     r'\<lparr>cr_confusion := cr_confusion (confusion_from_pairs pairs)\<rparr> = confusion_from_pairs pairs"
proof -
  have "distinct (map fst (cr_confusion (confusion_from_pairs pairs)))"
    using counter_of_distinct [of pairs] by (simp add: confusion_from_pairs_def Let_def dict_keys_def)
  then show ?thesis by (simp add: confusion_roundtrip_aux map_of_regroup)
qed

end
