(* ===== verification/Scenario_Exec.thy ===== *)
theory Scenario_Exec
  imports Grading
begin

section \<open>optimization/scenario\_exec.py and the run records of runner/executor.py\<close>

text \<open>
  Running and grading one case: the grader selection of a case, the matrix of grades (one row per
  repetition, one column per active grader), the grades stamped onto the traces, and the collapse
  of a conversation's turns into one repetition per thread.  Running a case (\<open>run_case\<close>, the
  executor over an agent) and the graders themselves are arguments.  The concurrent
  \<^verbatim>\<open>asyncio.gather\<close> answers in task order; when several grades raise, the model reports the first
  in task order.
\<close>

record RepetitionResult =
  rr_repetition :: nat
  rr_trace :: Trace
  rr_response :: "AdapterResponse option"
  rr_error :: "string option"

record CaseRun =
  cn_case_id :: string
  cn_repetitions :: "RepetitionResult list"
  cn_simulator_cost_usd :: rat
  cn_simulator_turns :: nat

definition successful_count :: "CaseRun \<Rightarrow> nat" where
  "successful_count r = count_if (\<lambda>x. rr_error x = None) (cn_repetitions r)"

definition failed_count :: "CaseRun \<Rightarrow> nat" where
  "failed_count r = count_if (\<lambda>x. rr_error x \<noteq> None) (cn_repetitions r)"

record Grader =
  grd_name :: string
  grd_grade :: "GraderContext \<Rightarrow> GradeResult result"

definition graders_for_case :: "Grader list \<Rightarrow> EvalCase \<Rightarrow> Grader list" where
  "graders_for_case graders c =
     (if ec_graders c = [] then graders
      else let filtered = filter (\<lambda>g. grd_name g \<in> set (ec_graders c)) graders
           in if filtered \<noteq> [] then filtered else graders)"

definition valid_GraderResult :: "GraderResult \<Rightarrow> bool" where
  "valid_GraderResult g \<longleftrightarrow> gx_grader g \<noteq> [] \<and> score_ok (gx_confidence g) \<and> [] \<notin> set (gx_failure_modes g)"

definition to_trace_grader_result :: "GradeResult \<Rightarrow> GraderResult result" where
  "to_trace_grader_result g =
     (let r = \<lparr>gx_grader = gr_grader g, gx_label = GradeLabel_value (gr_label g),
              gx_score = gr_score g, gx_reason = Some (gr_reason g), gx_reason_pointer = None,
              gx_confidence = gr_confidence g, gx_failure_modes = gr_failure_modes g,
              gx_breakdown = map_option breakdown_to_dict (gr_breakdown g)\<rparr>
      in if valid_GraderResult r then Inr r else Inl ValueError)"

definition stamp_trace :: "RepetitionResult \<times> GradeResult list \<Rightarrow> RepetitionResult result" where
  "stamp_trace = (\<lambda>(rep, grades).
     bind_result (map_result to_trace_grader_result grades) (\<lambda>rs.
       Inr (rep\<lparr>rr_trace := (rr_trace rep)\<lparr>tr_grader_results := rs\<rparr>\<rparr>)))"

definition context_of :: "EvalCase \<Rightarrow> RepetitionResult \<Rightarrow> GraderContext" where
  "context_of c rep = \<lparr>gcx_case = c, gcx_trace = rr_trace rep, gcx_response = rr_response rep\<rparr>"

definition execute_and_grade_case ::
    "(EvalCase \<Rightarrow> CaseRun result) \<Rightarrow> Grader list \<Rightarrow> EvalCase \<Rightarrow>
       (CaseRun \<times> GradeResult list list) result" where
  "execute_and_grade_case run_case graders c =
     bind_result (run_case c) (\<lambda>case_run.
       let reps = cn_repetitions case_run;
           active = graders_for_case graders c;
           grade_tasks = concat (map (\<lambda>rep. map (\<lambda>g. (g, context_of c rep)) active) reps)
       in bind_result (map_result (\<lambda>(g, ctx). grd_grade g ctx) grade_tasks) (\<lambda>flat_grades.
            let width = length active;
                grades_per_rep =
                  map (\<lambda>i. take width (drop (i * width) flat_grades)) [0..<length reps]
            in bind_result (map_result stamp_trace (zip reps grades_per_rep)) (\<lambda>stamped.
                 Inr (case_run\<lparr>cn_repetitions := stamped\<rparr>, grades_per_rep))))"

subsection \<open>The matrix of grades\<close>

lemma map_result_append:
  "map_result f (xs @ ys) =
     bind_result (map_result f xs) (\<lambda>as. bind_result (map_result f ys) (\<lambda>bs. Inr (as @ bs)))"
proof (induction xs)
  case Nil
  then show ?case by (cases "map_result f ys") auto
next
  case (Cons x xs)
  then show ?case by (cases "f x"; cases "map_result f xs"; cases "map_result f ys") auto
qed

lemma map_result_length: "map_result f xs = Inr ys \<Longrightarrow> length ys = length xs"
  using map_result_InrD list_all2_lengthD by force

lemma chunks_concat:
  assumes "\<And>g. g \<in> set gss \<Longrightarrow> length g = w"
  shows "map (\<lambda>i. take w (drop (i * w) (concat gss))) [0..<length gss] = gss"
  using assms
proof (induction gss)
  case (Cons g gss)
  have w: "length g = w" using Cons.prems by simp
  have "map (\<lambda>i. take w (drop (i * w) (concat (g # gss)))) [0..<length (g # gss)] =
        take w (concat (g # gss)) #
        map (\<lambda>i. take w (drop (Suc i * w) (concat (g # gss)))) [0..<length gss]"
    by (simp add: upt_conv_Cons map_Suc_upt [symmetric] comp_def del: upt_Suc)
  also have "\<dots> = g # map (\<lambda>i. take w (drop (i * w) (concat gss))) [0..<length gss]"
    using w by simp
  finally show ?case using Cons by simp
qed simp

lemma grade_tasks_rows:
  assumes "map_result (\<lambda>(g, ctx). grd_grade g ctx)
      (concat (map (\<lambda>rep. map (\<lambda>g. (g, context_of c rep)) active) reps)) = Inr flat"
  shows "\<exists>gss. flat = concat gss \<and>
    list_all2 (\<lambda>rep gs. map_result (\<lambda>g. grd_grade g (context_of c rep)) active = Inr gs) reps gss"
  using assms
proof (induction reps arbitrary: flat)
  case (Cons rep reps)
  let ?f = "\<lambda>(g, ctx). grd_grade g ctx"
  let ?row = "map (\<lambda>g. (g, context_of c rep)) active"
  let ?rows = "concat (map (\<lambda>rep. map (\<lambda>g. (g, context_of c rep)) active) reps)"
  have app: "map_result ?f (?row @ ?rows) = Inr flat" using Cons.prems by simp
  obtain gs where gs: "map_result ?f ?row = Inr gs"
    using app by (cases "map_result ?f ?row") (simp_all add: map_result_append)
  obtain rest where rest: "map_result ?f ?rows = Inr rest"
    using app gs by (cases "map_result ?f ?rows") (simp_all add: map_result_append)
  have flat: "flat = gs @ rest" using app gs rest by (simp add: map_result_append)
  have "map_result ?f ?row = map_result (\<lambda>g. grd_grade g (context_of c rep)) active"
    by (induction active) simp_all
  with gs have row: "map_result (\<lambda>g. grd_grade g (context_of c rep)) active = Inr gs" by simp
  obtain gss where "rest = concat gss"
    "list_all2 (\<lambda>rep gs. map_result (\<lambda>g. grd_grade g (context_of c rep)) active = Inr gs) reps gss"
    using Cons.IH [OF rest] by blast
  with row flat show ?case by (intro exI [of _ "gs # gss"]) simp
qed simp

text \<open>Row \<open>i\<close> of the matrix holds the grade of every active grader on repetition \<open>i\<close>, in order.\<close>

lemma execute_and_grade_rows:
  assumes "execute_and_grade_case run_case graders c = Inr (run', gpr)"
  shows "\<exists>run. run_case c = Inr run \<and>
    list_all2 (\<lambda>rep gs. map_result (\<lambda>g. grd_grade g (context_of c rep)) (graders_for_case graders c) = Inr gs)
      (cn_repetitions run) gpr \<and> length (cn_repetitions run') = length (cn_repetitions run)"
proof -
  let ?active = "graders_for_case graders c"
  obtain run where run: "run_case c = Inr run"
    using assms by (cases "run_case c") (simp_all add: execute_and_grade_case_def)
  obtain flat where flat: "map_result (\<lambda>(g, ctx). grd_grade g ctx)
      (concat (map (\<lambda>rep. map (\<lambda>g. (g, context_of c rep)) ?active) (cn_repetitions run))) = Inr flat"
    using assms run
    by (cases "map_result (\<lambda>(g, ctx). grd_grade g ctx)
      (concat (map (\<lambda>rep. map (\<lambda>g. (g, context_of c rep)) ?active) (cn_repetitions run)))")
      (simp_all add: execute_and_grade_case_def Let_def)
  let ?gpr = "map (\<lambda>i. take (length ?active) (drop (i * length ?active) flat)) [0..<length (cn_repetitions run)]"
  obtain stamped where st: "map_result stamp_trace (zip (cn_repetitions run) ?gpr) = Inr stamped"
    using assms run flat
    by (cases "map_result stamp_trace (zip (cn_repetitions run) ?gpr)")
      (simp_all add: execute_and_grade_case_def Let_def)
  have gpr: "gpr = ?gpr" and run': "run' = run\<lparr>cn_repetitions := stamped\<rparr>"
    using assms run flat st by (simp_all add: execute_and_grade_case_def Let_def)
  obtain gss where gss: "flat = concat gss"
    "list_all2 (\<lambda>rep gs. map_result (\<lambda>g. grd_grade g (context_of c rep)) ?active = Inr gs)
       (cn_repetitions run) gss"
    using grade_tasks_rows [OF flat] by blast
  have "length g = length ?active" if "g \<in> set gss" for g
    using gss(2) that by (auto simp: list_all2_conv_all_nth in_set_conv_nth dest: map_result_length)
  from chunks_concat [of gss, OF this] have "gpr = gss"
    using gpr gss list_all2_lengthD [OF gss(2)] by simp
  moreover have "length stamped = length (cn_repetitions run)"
    using map_result_length [OF st] by simp
  ultimately show ?thesis using gss(2) run run' by auto
qed

subsection \<open>Conversation turns\<close>

definition thread_of :: "RepetitionResult \<Rightarrow> string" where
  "thread_of rep = (case ri_thread_id (tr_run (rr_trace rep)) of
     Some t \<Rightarrow> if t \<noteq> [] then t else ent_id (rr_trace rep)
   | None \<Rightarrow> ent_id (rr_trace rep))"

definition turn_position :: "RepetitionResult \<Rightarrow> nat" where
  "turn_position rep = (case ri_thread_position (tr_run (rr_trace rep)) of None \<Rightarrow> 0 | Some p \<Rightarrow> p)"

type_synonym turn = "RepetitionResult \<times> GradeResult list"

definition group_threads :: "turn list \<Rightarrow> turn list dict" where
  "group_threads ts =
     foldl (\<lambda>d t. dict_modify d (thread_of (fst t)) [] (\<lambda>xs. xs @ [t])) [] ts"

definition turn_node :: "nat \<Rightarrow> nat \<Rightarrow> turn \<Rightarrow> BreakdownNode" where
  "turn_node g_index position = (\<lambda>(_, turn_grades).
     let turn_grade = (if g_index < length turn_grades then Some (turn_grades ! g_index) else None);
         grader_children = (case turn_grade of
             None \<Rightarrow> []
           | Some g \<Rightarrow> (case gr_breakdown g of None \<Rightarrow> [] | Some b \<Rightarrow> bn_children b))
     in BreakdownNode (''turn_'' @ nat_str position) (map_option gr_label turn_grade)
          (case turn_grade of None \<Rightarrow> None | Some g \<Rightarrow> gr_score g) 0
          ''per-turn diagnostic (advisory)'' [] grader_children)"

definition synthetic_grade :: "turn list \<Rightarrow> nat \<Rightarrow> GradeResult \<Rightarrow> GradeResult" where
  "synthetic_grade turns g_index final_grade =
     final_grade\<lparr>gr_breakdown := Some (BreakdownNode ''conversation'' (Some (gr_label final_grade))
       (gr_score final_grade) 1 [] []
       (map (\<lambda>(position, t). turn_node g_index position t) (List.enumerate 0 turns)))\<rparr>"

definition collapse_thread :: "nat \<Rightarrow> turn list \<Rightarrow> turn" where
  "collapse_thread rep_index ts =
     (let turns = sort_key (\<lambda>t. turn_position (fst t)) ts;
          (final_rep, final_grades) = last turns
      in (\<lparr>rr_repetition = rep_index, rr_trace = rr_trace final_rep,
           rr_response = rr_response final_rep,
           rr_error = (case List.map_filter (\<lambda>t. rr_error (fst t)) turns of [] \<Rightarrow> None | e # _ \<Rightarrow> Some e)\<rparr>,
          map (\<lambda>(g_index, g). synthetic_grade turns g_index g) (List.enumerate 0 final_grades)))"

definition collapse_conversation_turns ::
    "CaseRun \<Rightarrow> GradeResult list list \<Rightarrow> (CaseRun \<times> GradeResult list list) result" where
  "collapse_conversation_turns case_run grades_per_turn =
     (if length (cn_repetitions case_run) \<noteq> length grades_per_turn then Inl ValueError
      else
        let threads = group_threads (zip (cn_repetitions case_run) grades_per_turn);
            collapsed = map (\<lambda>(i, (_, ts)). collapse_thread i ts) (List.enumerate 0 threads)
        in Inr (\<lparr>cn_case_id = cn_case_id case_run, cn_repetitions = map fst collapsed,
                 cn_simulator_cost_usd = 0, cn_simulator_turns = 0\<rparr>, map snd collapsed))"

lemma group_threads_fold:
  assumes "distinct (dict_keys d)"
  shows "dict_get (foldl (\<lambda>d t. dict_modify d (thread_of (fst t)) [] (\<lambda>xs. xs @ [t])) d ts) k [] =
           dict_get d k [] @ filter (\<lambda>t. thread_of (fst t) = k) ts"
    and "distinct (dict_keys (foldl (\<lambda>d t. dict_modify d (thread_of (fst t)) [] (\<lambda>xs. xs @ [t])) d ts))"
    and "set (dict_keys (foldl (\<lambda>d t. dict_modify d (thread_of (fst t)) [] (\<lambda>xs. xs @ [t])) d ts)) =
           set (dict_keys d) \<union> (\<lambda>t. thread_of (fst t)) ` set ts"
  using assms
  by (induction ts arbitrary: d) (simp_all add: dict_get_modify distinct_dict_keys_modify dict_keys_modify)

lemma group_threads_facts:
  "dict_get (group_threads ts) k [] = filter (\<lambda>t. thread_of (fst t) = k) ts"
  "distinct (dict_keys (group_threads ts))"
  "set (dict_keys (group_threads ts)) = (\<lambda>t. thread_of (fst t)) ` set ts"
  using group_threads_fold(1) [of "[]" ts k] group_threads_fold(2,3) [of "[]" ts]
  by (simp_all add: group_threads_def dict_keys_def)

lemma group_threads_entry:
  assumes "(k, turns) \<in> set (group_threads ts)"
  shows "turns = filter (\<lambda>t. thread_of (fst t) = k) ts" and "turns \<noteq> []"
proof -
  have "map_of (group_threads ts) k = Some turns"
    using assms group_threads_facts(2) [of ts] by (simp add: dict_keys_def)
  then show eq: "turns = filter (\<lambda>t. thread_of (fst t) = k) ts"
    using group_threads_facts(1) [of ts k] by (simp add: dict_get_def)
  have "k \<in> set (dict_keys (group_threads ts))"
    using assms by (force simp: dict_keys_def)
  then obtain t where "t \<in> set ts" "thread_of (fst t) = k"
    by (auto simp: group_threads_facts(3))
  then show "turns \<noteq> []" unfolding eq by (auto simp: filter_empty_conv)
qed

lemma collapse_count:
  assumes "collapse_conversation_turns run gpt = Inr (run', gpr)"
  shows "length (cn_repetitions run') = card (thread_of ` set (cn_repetitions run))"
    and "length gpr = length (cn_repetitions run')"
proof -
  have len: "length (cn_repetitions run) = length gpt"
    using assms by (auto simp: collapse_conversation_turns_def split: if_splits)
  then have run': "length (cn_repetitions run') = length (group_threads (zip (cn_repetitions run) gpt))"
    and g: "length gpr = length (cn_repetitions run')"
    using assms by (auto simp: collapse_conversation_turns_def Let_def split: if_splits)
  show "length gpr = length (cn_repetitions run')" by (rule g)
  have "length (group_threads (zip (cn_repetitions run) gpt)) =
        card (set (dict_keys (group_threads (zip (cn_repetitions run) gpt))))"
    using distinct_card [OF group_threads_facts(2)] by (simp add: dict_keys_def)
  also have "\<dots> = card (thread_of ` fst ` set (zip (cn_repetitions run) gpt))"
    by (simp add: group_threads_facts(3) image_image)
  also have "fst ` set (zip (cn_repetitions run) gpt) = set (cn_repetitions run)"
    using len by (metis map_fst_zip set_map)
  finally show "length (cn_repetitions run') = card (thread_of ` set (cn_repetitions run))"
    using run' by simp
qed

text \<open>A collapsed repetition answers with one turn of its thread, the last by position, and
  errors exactly when some turn of the thread did.\<close>

lemma map_filter_eq_Nil: "List.map_filter f xs = [] \<longleftrightarrow> (\<forall>x \<in> set xs. f x = None)"
  by (induction xs) (auto simp: List.map_filter_simps split: option.splits)

lemma sorted_last_max: "sorted (map f xs) \<Longrightarrow> x \<in> set xs \<Longrightarrow> f x \<le> f (last xs)"
  by (induction xs) auto

lemma collapse_thread_turn:
  assumes "ts \<noteq> []" "collapse_thread i ts = (rep, gs)"
  shows "\<exists>final \<in> set ts. rr_trace rep = rr_trace (fst final) \<and>
      rr_response rep = rr_response (fst final) \<and>
      (\<forall>t \<in> set ts. turn_position (fst t) \<le> turn_position (fst final)) \<and>
      map gr_label gs = map gr_label (snd final) \<and> map gr_score gs = map gr_score (snd final) \<and>
      map gr_failure_modes gs = map gr_failure_modes (snd final) \<and>
      map gr_grader gs = map gr_grader (snd final)"
    and "rr_error rep = None \<longleftrightarrow> (\<forall>t \<in> set ts. rr_error (fst t) = None)"
proof -
  let ?s = "sort_key (\<lambda>t. turn_position (fst t)) ts"
  have ne: "?s \<noteq> []" using assms(1) by (metis length_0_conv length_sort)
  obtain fr fg where f: "last ?s = (fr, fg)" by (cases "last ?s")
  have mem: "(fr, fg) \<in> set ts" using last_in_set [OF ne] f by simp
  have rep: "rr_trace rep = rr_trace fr" "rr_response rep = rr_response fr"
    "rr_error rep = (case List.map_filter (\<lambda>t. rr_error (fst t)) ?s of [] \<Rightarrow> None | e # _ \<Rightarrow> Some e)"
    "gs = map (\<lambda>(g_index, g). synthetic_grade ?s g_index g) (List.enumerate 0 fg)"
    using assms(2) f by (auto simp: collapse_thread_def Let_def)
  have proj: "map h gs = map h fg" if "\<And>i g. h (synthetic_grade ?s i g) = h g" for h :: "GradeResult \<Rightarrow> 'b"
  proof -
    have "map h gs = map h (map snd (List.enumerate 0 fg))"
      unfolding rep(4) map_map by (rule map_cong) (auto simp: that)
    then show ?thesis by simp
  qed
  have "turn_position (fst t) \<le> turn_position fr" if "t \<in> set ts" for t
    using sorted_last_max [of "\<lambda>t. turn_position (fst t)" ?s t] that f by simp
  then show "\<exists>final \<in> set ts. rr_trace rep = rr_trace (fst final) \<and>
      rr_response rep = rr_response (fst final) \<and>
      (\<forall>t \<in> set ts. turn_position (fst t) \<le> turn_position (fst final)) \<and>
      map gr_label gs = map gr_label (snd final) \<and> map gr_score gs = map gr_score (snd final) \<and>
      map gr_failure_modes gs = map gr_failure_modes (snd final) \<and>
      map gr_grader gs = map gr_grader (snd final)"
    using mem rep(1,2) proj [of gr_label] proj [of gr_score] proj [of gr_failure_modes] proj [of gr_grader]
    by (intro bexI [of _ "(fr, fg)"]) (simp_all add: synthetic_grade_def)
  show "rr_error rep = None \<longleftrightarrow> (\<forall>t \<in> set ts. rr_error (fst t) = None)"
    unfolding rep(3) using map_filter_eq_Nil [of "\<lambda>t. rr_error (fst t)" ?s]
    by (auto split: list.splits)
qed

end
