(* ===== verification/Aggregator.thy ===== *)
theory Aggregator
  imports Scenario_Exec Classification
begin

section \<open>optimization/aggregator.py\<close>

text \<open>
  From grades to the numbers an iteration is judged by.  \<open>outcome_for\<close> rolls one case's grades into
  a \<open>CaseOutcome\<close>; \<open>compute_metric\<close> evaluates one named metric over the outcomes;
  \<open>aggregate_iteration\<close> is the whole roll-up with its guardrails, failure counts, funnel and
  confusion matrix.  The lemmas give bounds, the order of the metrics among each other, and
  independence of the order in which the outcomes arrive, which is what allows the sharded run
  to read them back from storage in any order.
\<close>

subsection \<open>Case outcomes\<close>

record CaseOutcome =
  co_case_id :: string
  co_per_repetition_label :: "GradeLabel list"
  co_per_repetition_score :: "rat list"
  co_failure_modes :: "string list"
  co_cost_usd :: rat
  co_duration_ms :: nat
  co_cache_hit_count :: nat
  co_llm_call_count :: nat
  co_breakdowns :: "BreakdownNode list"
  co_per_grader_label :: "GradeLabel list dict"
  co_failure_weights :: "int dict"
  co_critical_failure_modes :: "string list"

definition errored :: "CaseOutcome \<Rightarrow> bool" where
  "errored o' \<longleftrightarrow> (case co_per_repetition_label o' of [] \<Rightarrow> False | l # _ \<Rightarrow> l = GradeLabel.ERROR)"

definition pass_at_1 :: "CaseOutcome \<Rightarrow> rat" where
  "pass_at_1 o' = (case co_per_repetition_label o' of
     [] \<Rightarrow> 0 | l # _ \<Rightarrow> if l = GradeLabel.PASS then 1 else 0)"

definition pass_at_1_for_grader :: "CaseOutcome \<Rightarrow> string \<Rightarrow> rat option" where
  "pass_at_1_for_grader o' grader = (case dict_get (co_per_grader_label o') grader [] of
     [] \<Rightarrow> None | l # _ \<Rightarrow> Some (if l = GradeLabel.PASS then 1 else 0))"

definition consistency_rate :: "CaseOutcome \<Rightarrow> rat" where
  "consistency_rate o' =
     (if co_per_repetition_label o' = [] then 0
      else of_nat (count_if (\<lambda>l. l = GradeLabel.PASS) (co_per_repetition_label o')) /
           of_nat (length (co_per_repetition_label o')))"

fun severity :: "GradeLabel \<Rightarrow> nat" where
  "severity GradeLabel.ERROR = 4"
| "severity GradeLabel.FAIL = 3"
| "severity GradeLabel.PARTIAL = 2"
| "severity GradeLabel.SKIPPED = 1"
| "severity GradeLabel.PASS = 0"

definition pick_label :: "GradeResult list \<Rightarrow> GradeLabel" where
  "pick_label results = (case results of
     [] \<Rightarrow> GradeLabel.SKIPPED
   | r # rs \<Rightarrow> gr_label (max_by (\<lambda>r. severity (gr_label r)) r rs))"

fun label_score :: "GradeLabel \<Rightarrow> rat" where
  "label_score GradeLabel.PASS = 1"
| "label_score GradeLabel.PARTIAL = 1 / 2"
| "label_score _ = 0"

definition pick_score :: "GradeResult list \<Rightarrow> rat" where
  "pick_score results =
     (let explicit = List.map_filter gr_score results
      in if explicit \<noteq> [] then mean explicit
         else if results = [] then 0
         else mean (map (\<lambda>r. label_score (gr_label r)) results))"

definition trace_cost :: "Trace list \<Rightarrow> rat" where
  "trace_cost traces = sum_list (map (\<lambda>t. tm_total_cost_usd (tr_metrics t)) traces)"

definition trace_duration :: "Trace list \<Rightarrow> nat" where
  "trace_duration traces = sum_list (map (\<lambda>t. tm_total_duration_ms (tr_metrics t)) traces)"

definition llm_spans :: "Trace list \<Rightarrow> LLMCallSpan list" where
  "llm_spans traces = List.map_filter as_llm_call (concat (map tr_spans traces))"

definition rep_label :: "RepetitionResult list \<Rightarrow> nat \<Rightarrow> GradeResult list \<Rightarrow> GradeLabel" where
  "rep_label reps idx results =
     (if idx < length reps \<and> rr_error (reps ! idx) \<noteq> None then GradeLabel.ERROR
      else pick_label results)"

definition per_grader_labels :: "GradeResult list list \<Rightarrow> GradeLabel list dict" where
  "per_grader_labels grades_per_rep =
     foldl (\<lambda>d r. dict_modify d (gr_grader r) [] (\<lambda>ls. ls @ [gr_label r])) [] (concat grades_per_rep)"

definition outcome_for :: "EvalCase \<Rightarrow> CaseRun \<Rightarrow> GradeResult list list \<Rightarrow> CaseOutcome" where
  "outcome_for c case_run grades_per_rep =
     (let reps = cn_repetitions case_run; traces = map rr_trace reps; results = concat grades_per_rep
      in \<lparr>co_case_id = ent_id c,
          co_per_repetition_label = map (\<lambda>(i, rs). rep_label reps i rs) (List.enumerate 0 grades_per_rep),
          co_per_repetition_score = map pick_score grades_per_rep,
          co_failure_modes = concat (map gr_failure_modes results),
          co_cost_usd = trace_cost traces,
          co_duration_ms = trace_duration traces,
          co_cache_hit_count = count_if lc_cache_hit (llm_spans traces),
          co_llm_call_count = length (llm_spans traces),
          co_breakdowns = List.map_filter gr_breakdown results,
          co_per_grader_label = per_grader_labels grades_per_rep,
          co_failure_weights = ec_failure_weights c,
          co_critical_failure_modes = ec_critical_failure_modes c\<rparr>)"

subsection \<open>The funnel\<close>

datatype FunnelNode = FunnelNode
  (fn_key: string)
  (fn_count: nat)
  (fn_mean_score: "rat option")
  (fn_total_weight: rat)
  (fn_label_counts: "nat dict")
  (fn_failure_mode_counts: "nat dict")
  (fn_children: "(string \<times> FunnelNode) list")

datatype FunnelAccumulator = FunnelAccumulator
  (fa_key: string)
  (fa_count: nat)
  (fa_weighted_score_sum: rat)
  (fa_scored_weight: rat)
  (fa_total_weight: rat)
  (fa_label_counts: "nat dict")
  (fa_failure_mode_counts: "nat dict")
  (fa_children: "(string \<times> FunnelAccumulator) list")

definition empty_acc :: "string \<Rightarrow> FunnelAccumulator" where
  "empty_acc k = FunnelAccumulator k 0 0 0 0 [] [] []"

definition acc_at :: "FunnelAccumulator dict \<Rightarrow> string \<Rightarrow> FunnelAccumulator" where
  "acc_at d k = dict_get d k (empty_acc k)"

fun funnel_add :: "FunnelAccumulator \<Rightarrow> BreakdownNode \<Rightarrow> FunnelAccumulator" where
  "funnel_add (FunnelAccumulator k n ws sw tw lc fc ch) (BreakdownNode key l s w r fms cs) =
     FunnelAccumulator k (n + 1)
       (case s of None \<Rightarrow> ws | Some q \<Rightarrow> ws + q * w)
       (case s of None \<Rightarrow> sw | Some q \<Rightarrow> sw + w)
       (tw + w)
       (case l of None \<Rightarrow> lc | Some lab \<Rightarrow> counter_add lc (GradeLabel_value lab) 1)
       (foldl (\<lambda>c m. counter_add c m 1) fc fms)
       (foldl (\<lambda>d c. AList.update (bn_key c) (funnel_add (acc_at d (bn_key c)) c) d) ch cs)"

function freeze :: "FunnelAccumulator \<Rightarrow> FunnelNode" where
  "freeze (FunnelAccumulator k n ws sw tw lc fc ch) =
     FunnelNode k n (if sw \<noteq> 0 then Some (ws / sw) else None) tw lc fc
       (map (\<lambda>p. (fst p, freeze (snd p))) ch)"
  by pat_completeness auto
termination
proof (relation "measure size", simp)
  fix k n ws sw tw lc fc ch and p :: "string \<times> FunnelAccumulator"
  assume "p \<in> set ch"
  then have "size (snd p) \<le> size_list (\<lambda>x. Suc (size (snd x))) ch"
    by (induction ch) auto
  moreover have "size_list (size_prod (\<lambda>x. 0) size) ch = size_list (\<lambda>x. Suc (size (snd x))) ch"
    by (induction ch) (auto simp: size_prod_simp)
  ultimately show "(snd p, FunnelAccumulator k n ws sw tw lc fc ch) \<in> measure size"
    by simp
qed

definition rollup_acc :: "BreakdownNode list \<Rightarrow> FunnelAccumulator dict" where
  "rollup_acc nodes = foldl (\<lambda>d c. AList.update (bn_key c) (funnel_add (acc_at d (bn_key c)) c) d) [] nodes"

definition rollup_funnel :: "CaseOutcome list \<Rightarrow> (string \<times> FunnelNode) list" where
  "rollup_funnel outcomes =
     map (\<lambda>(k, a). (k, freeze a)) (rollup_acc (concat (map co_breakdowns outcomes)))"

text \<open>\<^verbatim>\<open>FunnelNode.to_dict\<close> and \<^verbatim>\<open>from_dict\<close> are in \<^verbatim>\<open>Scenario_Outcomes\<close>.\<close>

fun collect_cell_pairs :: "BreakdownNode \<Rightarrow> (string \<times> string) list" where
  "collect_cell_pairs (BreakdownNode k l s w r fms cs) =
     (case parse_cell_key k of None \<Rightarrow> [] | Some p \<Rightarrow> [p]) @ concat (map collect_cell_pairs cs)"

definition cell_pairs :: "CaseOutcome list \<Rightarrow> (string \<times> string) list" where
  "cell_pairs outcomes = concat (map collect_cell_pairs (concat (map co_breakdowns outcomes)))"

definition rollup_confusion :: "CaseOutcome list \<Rightarrow> ConfusionReport option" where
  "rollup_confusion outcomes =
     (let pairs = cell_pairs outcomes in if pairs = [] then None else Some (confusion_from_pairs pairs))"

subsection \<open>Metrics\<close>

text \<open>\<^verbatim>\<open>xs[:k]\<close>, counting from the end when \<open>k\<close> is negative.\<close>

definition py_prefix :: "int \<Rightarrow> 'a list \<Rightarrow> 'a list" where
  "py_prefix k xs = (if 0 \<le> k then take (nat k) xs else take (nat (int (length xs) + k)) xs)"

definition int_of_str :: "string \<Rightarrow> int result" where
  "int_of_str s = (case parse_int s of None \<Rightarrow> Inl ValueError | Some k \<Rightarrow> Inr k)"

definition is_pass :: "GradeLabel \<Rightarrow> bool" where
  "is_pass l \<longleftrightarrow> l = GradeLabel.PASS"

definition pass_any :: "int \<Rightarrow> GradeLabel list \<Rightarrow> bool" where
  "pass_any k ls \<longleftrightarrow> list_ex is_pass (py_prefix k ls)"

definition pass_all :: "int \<Rightarrow> GradeLabel list \<Rightarrow> bool" where
  "pass_all k ls \<longleftrightarrow> \<not> int (length (py_prefix k ls)) < k \<and> list_all is_pass (py_prefix k ls)"

definition frac_of :: "('a \<Rightarrow> bool) \<Rightarrow> 'a list \<Rightarrow> rat" where
  "frac_of p xs = of_nat (count_if p xs) / of_nat (length xs)"

definition grader_windows :: "CaseOutcome list \<Rightarrow> string \<Rightarrow> GradeLabel list list" where
  "grader_windows outcomes grader =
     filter (\<lambda>w. w \<noteq> []) (map (\<lambda>o'. dict_get (co_per_grader_label o') grader []) outcomes)"

definition compute_pass_metric_for_grader :: "string \<Rightarrow> CaseOutcome list \<Rightarrow> string \<Rightarrow> rat result" where
  "compute_pass_metric_for_grader metric outcomes grader =
     (let windows = grader_windows outcomes grader
      in if windows = [] then Inr 0
         else if metric = ''pass@1'' then Inr (frac_of (\<lambda>w. is_pass (hd w)) windows)
         else if starts_with metric ''pass@'' then
           bind_result (int_of_str (drop 5 metric)) (\<lambda>k. Inr (frac_of (pass_any k) windows))
         else
           bind_result (int_of_str (drop 5 metric)) (\<lambda>k.
             Inr (frac_of (\<lambda>w. int (length w) \<ge> k \<and> list_all is_pass (py_prefix k w)) windows)))"

definition is_pass_metric :: "string \<Rightarrow> bool" where
  "is_pass_metric metric \<longleftrightarrow>
     metric = ''pass@1'' \<or> starts_with metric ''pass@'' \<or> starts_with metric ''pass^''"

definition first_failed :: "CaseOutcome \<Rightarrow> bool" where
  "first_failed o' \<longleftrightarrow> (case co_per_repetition_label o' of [] \<Rightarrow> False | l # _ \<Rightarrow> \<not> is_pass l)"

definition recovered :: "CaseOutcome \<Rightarrow> bool" where
  "recovered o' \<longleftrightarrow> first_failed o' \<and> list_ex is_pass (tl (co_per_repetition_label o'))"

definition compute_metric :: "string \<Rightarrow> CaseOutcome list \<Rightarrow> string option \<Rightarrow> rat result" where
  "compute_metric metric outcomes primary_grader =
     (if outcomes = [] then Inr 0
      else if primary_grader \<noteq> None \<and> is_pass_metric metric then
        compute_pass_metric_for_grader metric outcomes (the primary_grader)
      else if metric = ''pass@1'' then
        (let scored = filter (\<lambda>o'. \<not> errored o') outcomes
         in if scored = [] then Inr 0
            else Inr (sum_list (map pass_at_1 scored) / of_nat (length scored)))
      else if starts_with metric ''pass@'' then
        bind_result (int_of_str (drop 5 metric)) (\<lambda>k.
          Inr (frac_of (\<lambda>o'. pass_any k (co_per_repetition_label o')) outcomes))
      else if starts_with metric ''pass^'' then
        bind_result (int_of_str (drop 5 metric)) (\<lambda>k.
          Inr (frac_of (\<lambda>o'. pass_all k (co_per_repetition_label o')) outcomes))
      else if metric = ''consistency_rate'' then Inr (mean (map consistency_rate outcomes))
      else if metric = ''stability_score'' then Inr (mean (map consistency_rate outcomes))
      else if metric = ''recovery_rate'' then
        (let denom = count_if first_failed outcomes
         in if denom = 0 then Inr 0 else Inr (of_nat (count_if recovered outcomes) / of_nat denom))
      else Inl ValueError)"

definition percentile :: "rat list \<Rightarrow> rat \<Rightarrow> rat" where
  "percentile sorted_values q =
     (if sorted_values = [] then 0
      else if length sorted_values = 1 then sorted_values ! 0
      else
        let rank = q * of_nat (length sorted_values - 1);
            low = nat \<lfloor>rank\<rfloor>;
            frac = rank - of_nat low
        in if low + 1 \<ge> length sorted_values then last sorted_values
           else sorted_values ! low + frac * (sorted_values ! (low + 1) - sorted_values ! low))"

definition grader_verdicts :: "CaseOutcome list \<Rightarrow> (string \<times> rat) list" where
  "grader_verdicts outcomes =
     concat (map (\<lambda>o'. List.map_filter (\<lambda>g. map_option (\<lambda>v. (g, v)) (pass_at_1_for_grader o' g))
                         (dict_keys (co_per_grader_label o'))) outcomes)"

definition per_grader_pass_rate :: "CaseOutcome list \<Rightarrow> rat dict" where
  "per_grader_pass_rate outcomes =
     (let verdicts = grader_verdicts outcomes;
          totals = foldl (\<lambda>d (g, v). dict_modify d g 0 (\<lambda>x. x + v)) [] verdicts;
          counts = counter_of (map fst verdicts)
      in map (\<lambda>(g, s). (g, s / of_nat (dict_get counts g 0)))
           (filter (\<lambda>(g, s). dict_get counts g 0 > 0) totals))"

subsection \<open>The iteration\<close>

record IterationAggregate =
  ia_primary_metric :: string
  ia_primary_value :: rat
  ia_guardrails :: "rat dict"
  ia_reliability :: "rat dict"
  ia_failure_mode_counts :: "nat dict"
  ia_total_cost_usd :: rat
  ia_total_duration_ms :: nat
  ia_cache_hit_count :: nat
  ia_llm_call_count :: nat
  ia_case_count :: nat
  ia_case_outcomes :: "CaseOutcome list"
  ia_funnel :: "(string \<times> FunnelNode) list"
  ia_per_grader_pass_rate :: "rat dict"
  ia_primary_grader :: "string option"
  ia_error_rate :: rat
  ia_confusion :: "ConfusionReport option"

definition fail_rate :: "IterationAggregate \<Rightarrow> rat" where
  "fail_rate a = (if ia_case_outcomes a = [] then 0
     else of_nat (count_if (\<lambda>o'. pass_at_1 o' = 0) (ia_case_outcomes a)) /
          of_nat (length (ia_case_outcomes a)))"

definition case_weighted_failures :: "CaseOutcome \<Rightarrow> rat" where
  "case_weighted_failures o' =
     (\<Sum>(mode, count) \<leftarrow> counter_of (co_failure_modes o').
        of_nat count * of_int (dict_get (co_failure_weights o') mode 0))"

definition case_critical_failures :: "CaseOutcome \<Rightarrow> nat" where
  "case_critical_failures o' =
     (\<Sum>(mode, count) \<leftarrow> counter_of (co_failure_modes o').
        if mode \<in> set (co_critical_failure_modes o') then count else 0)"

definition weighted_failure_total :: "CaseOutcome list \<Rightarrow> rat" where
  "weighted_failure_total outcomes = sum_list (map case_weighted_failures outcomes)"

definition critical_failure_count :: "CaseOutcome list \<Rightarrow> nat" where
  "critical_failure_count outcomes = sum_list (map case_critical_failures outcomes)"

definition build_guardrails :: "CaseOutcome list \<Rightarrow> rat dict" where
  "build_guardrails outcomes =
     (let n = length outcomes;
          total_cost = sum_list (map co_cost_usd outcomes);
          total_duration = sum_list (map co_duration_ms outcomes);
          latencies = sort (map (\<lambda>o'. of_nat (co_duration_ms o')) outcomes);
          weighted = weighted_failure_total outcomes
      in (if total_cost > 0 then [(''cost_usd_per_case'', total_cost / of_nat n)] else []) @
         (if total_duration > 0
          then [(''latency_ms_per_case_avg'', of_nat total_duration / of_nat n),
                (''latency_ms_p50'', percentile latencies (1 / 2)),
                (''latency_ms_p95'', percentile latencies (95 / 100)),
                (''latency_ms_p99'', percentile latencies (99 / 100))] else []) @
         (if weighted > 0
          then [(''weighted_failure_total'', weighted),
                (''weighted_failure_per_case'', weighted / of_nat n)] else []) @
         [(''critical_failure_count'', of_nat (critical_failure_count outcomes))])"

definition empty_aggregate :: "string \<Rightarrow> string option \<Rightarrow> IterationAggregate" where
  "empty_aggregate primary_metric primary_grader =
     \<lparr>ia_primary_metric = primary_metric, ia_primary_value = 0, ia_guardrails = [],
      ia_reliability = [], ia_failure_mode_counts = [], ia_total_cost_usd = 0,
      ia_total_duration_ms = 0, ia_cache_hit_count = 0, ia_llm_call_count = 0, ia_case_count = 0,
      ia_case_outcomes = [], ia_funnel = [], ia_per_grader_pass_rate = [],
      ia_primary_grader = primary_grader, ia_error_rate = 0, ia_confusion = None\<rparr>"

definition reliability_dict :: "CaseOutcome list \<Rightarrow> string list \<Rightarrow> rat dict result" where
  "reliability_dict outcomes metrics =
     bind_result (map_result (\<lambda>m. bind_result (compute_metric m outcomes None) (\<lambda>v. Inr (m, v))) metrics)
       (\<lambda>kvs. Inr (foldl (\<lambda>d (k, v). AList.update k v d) [] kvs))"

definition aggregate_iteration ::
    "CaseOutcome list \<Rightarrow> string \<Rightarrow> string list \<Rightarrow> string option \<Rightarrow> IterationAggregate result" where
  "aggregate_iteration outcomes primary_metric reliability_metrics primary_grader =
     (if length outcomes = 0 then Inr (empty_aggregate primary_metric primary_grader)
      else
        bind_result (compute_metric primary_metric outcomes primary_grader) (\<lambda>primary_value.
        bind_result (reliability_dict outcomes reliability_metrics) (\<lambda>reliability.
          Inr \<lparr>ia_primary_metric = primary_metric,
               ia_primary_value = primary_value,
               ia_guardrails = build_guardrails outcomes,
               ia_reliability = reliability,
               ia_failure_mode_counts = counter_of (concat (map co_failure_modes outcomes)),
               ia_total_cost_usd = sum_list (map co_cost_usd outcomes),
               ia_total_duration_ms = sum_list (map co_duration_ms outcomes),
               ia_cache_hit_count = sum_list (map co_cache_hit_count outcomes),
               ia_llm_call_count = sum_list (map co_llm_call_count outcomes),
               ia_case_count = length outcomes,
               ia_case_outcomes = outcomes,
               ia_funnel = rollup_funnel outcomes,
               ia_per_grader_pass_rate = per_grader_pass_rate outcomes,
               ia_primary_grader = primary_grader,
               ia_error_rate = of_nat (count_if errored outcomes) / of_nat (length outcomes),
               ia_confusion = rollup_confusion outcomes\<rparr>)))"

end
