(* ===== verification/Aggregator_Facts.thy ===== *)
theory Aggregator_Facts
  imports Aggregator
begin

section \<open>Facts about the aggregator\<close>

text \<open>
  Bounds of every metric, their order, the percentile interpolation, what a case outcome keeps of
  its grades, the funnel's counts and means, and independence of the order of the outcomes.
\<close>

subsection \<open>Bounds\<close>

lemma frac_of_unit [bounds_intros]: "0 \<le> frac_of p xs \<and> frac_of p xs \<le> 1"
  unfolding frac_of_def by (rule frac_unit) (rule count_if_le)

lemma frac_of_mono: "(\<And>x. x \<in> set xs \<Longrightarrow> p x \<Longrightarrow> q x) \<Longrightarrow> frac_of p xs \<le> frac_of q xs"
  unfolding frac_of_def by (intro divide_right_mono) (auto intro: count_if_mono)

lemma pass_at_1_unit: "0 \<le> pass_at_1 o' \<and> pass_at_1 o' \<le> 1"
  by (auto simp: pass_at_1_def split: list.splits)

lemma consistency_rate_unit: "0 \<le> consistency_rate o' \<and> consistency_rate o' \<le> 1"
  using frac_unit [OF count_if_le [of "\<lambda>l. l = GradeLabel.PASS" "co_per_repetition_label o'"]]
  by (simp add: consistency_rate_def)

lemma recovered_le: "count_if recovered xs \<le> count_if first_failed xs"
  by (rule count_if_mono) (simp add: recovered_def)

lemma grader_metric_unit:
  "compute_pass_metric_for_grader m outcomes g = Inr v \<Longrightarrow> 0 \<le> v \<and> v \<le> 1"
  by (auto simp: compute_pass_metric_for_grader_def Let_def bind_result_Inr_iff frac_of_unit
      split: if_splits)

lemma compute_metric_unit_aux:
  assumes "compute_metric m outcomes pg = Inr v"
  shows "0 \<le> v \<and> v \<le> 1"
proof -
  have mean: "0 \<le> mean (map consistency_rate outcomes) \<and> mean (map consistency_rate outcomes) \<le> 1"
    by (rule mean_unit) (auto simp: consistency_rate_unit)
  have scored: "0 \<le> sum_list (map pass_at_1 xs) / of_nat (length xs) \<and>
      sum_list (map pass_at_1 xs) / of_nat (length xs) \<le> 1" for xs
    using mean_unit [of "map pass_at_1 xs"] pass_at_1_unit by (auto simp: mean_def)
  have rec: "0 \<le> (of_nat (count_if recovered outcomes) / of_nat (count_if first_failed outcomes) :: rat)
      \<and> (of_nat (count_if recovered outcomes) / of_nat (count_if first_failed outcomes) :: rat) \<le> 1"
    by (rule frac_unit) (rule recovered_le)
  show ?thesis
    using assms mean scored [of "filter (\<lambda>o'. \<not> errored o') outcomes"] rec
    unfolding compute_metric_def Let_def
    by (simp split: if_split_asm add: grader_metric_unit)
      (auto simp: bind_result_Inr_iff frac_of_unit)
qed

subsection \<open>pass@k and pass\^{}k\<close>

lemma pass_all_any: "1 \<le> k \<Longrightarrow> pass_all k ls \<Longrightarrow> pass_any k ls"
  by (cases "py_prefix k ls") (auto simp: pass_all_def pass_any_def)

lemma pass_all_hd: "1 \<le> k \<Longrightarrow> pass_all k ls \<Longrightarrow> ls \<noteq> [] \<and> is_pass (hd ls)"
  by (cases ls) (auto simp: pass_all_def py_prefix_def take_Cons' split: if_splits)

lemma sum_pass_at_1:
  "sum_list (map pass_at_1 xs) = of_nat (count_if (\<lambda>o'. pass_at_1 o' = 1) xs)"
  by (induction xs) (auto simp: count_if_def pass_at_1_def split: list.splits)

lemma pass_hat_1_scored:
  "count_if (\<lambda>o'. pass_all k (co_per_repetition_label o')) outcomes \<le>
     count_if (\<lambda>o'. pass_at_1 o' = 1) (filter (\<lambda>o'. \<not> errored o') outcomes)" if "1 \<le> k"
proof -
  have "pass_at_1 o' = 1 \<and> \<not> errored o'" if "pass_all k (co_per_repetition_label o')" for o'
    using pass_all_hd [OF \<open>1 \<le> k\<close> that]
    by (cases "co_per_repetition_label o'") (auto simp: pass_at_1_def errored_def is_pass_def)
  then have "count_if (\<lambda>o'. pass_all k (co_per_repetition_label o')) outcomes \<le>
      count_if (\<lambda>o'. pass_at_1 o' = 1 \<and> \<not> errored o') outcomes"
    by (intro count_if_mono) auto
  then show ?thesis by (simp add: count_if_def filter_filter conj_commute)
qed

lemma pass_hat_le_pass_at_aux:
  assumes "compute_metric (''pass@'' @ s) outcomes None = Inr a"
    and "compute_metric (''pass^'' @ s) outcomes None = Inr h"
    and "parse_int s = Some k" "1 \<le> k"
  shows "h \<le> a"
proof (cases "outcomes = []")
  case True
  with assms show ?thesis by (simp add: compute_metric_def)
next
  case False
  have h: "h = frac_of (\<lambda>o'. pass_all k (co_per_repetition_label o')) outcomes"
    using assms(2,3) False by (simp add: compute_metric_def starts_with_def int_of_str_def)
  show ?thesis
  proof (cases "s = ''1''")
    case one: True
    let ?scored = "filter (\<lambda>o'. \<not> errored o') outcomes"
    have le: "count_if (\<lambda>o'. pass_all k (co_per_repetition_label o')) outcomes \<le>
        count_if (\<lambda>o'. pass_at_1 o' = 1) ?scored"
      by (rule pass_hat_1_scored) (rule assms(4))
    show ?thesis
    proof (cases "?scored = []")
      case True
      then have "h = 0" using le h by (simp add: frac_of_def count_if_def)
      then show ?thesis using compute_metric_unit_aux [OF assms(1)] by simp
    next
      case ne: False
      have a: "a = of_nat (count_if (\<lambda>o'. pass_at_1 o' = 1) ?scored) / of_nat (length ?scored)"
        using assms(1) one False ne by (simp add: compute_metric_def Let_def sum_pass_at_1)
      have "h \<le> of_nat (count_if (\<lambda>o'. pass_at_1 o' = 1) ?scored) / of_nat (length outcomes)"
        unfolding h frac_of_def using le by (intro divide_right_mono) simp_all
      also have "\<dots> \<le> a" unfolding a
        using ne by (intro divide_left_mono) (simp_all add: False)
      finally show ?thesis .
    qed
  next
    case no: False
    then have "a = frac_of (\<lambda>o'. pass_any k (co_per_repetition_label o')) outcomes"
      using assms(1,3) False by (simp add: compute_metric_def starts_with_def int_of_str_def)
    then show ?thesis unfolding h using assms(4) by (simp add: frac_of_mono pass_all_any)
  qed
qed

subsection \<open>Percentiles\<close>

definition interp :: "rat list \<Rightarrow> rat \<Rightarrow> rat" where
  "interp xs r = (let low = nat \<lfloor>r\<rfloor> in
     if low + 1 \<ge> length xs then last xs
     else xs ! low + (r - of_nat low) * (xs ! (low + 1) - xs ! low))"

lemma interp_bounds:
  assumes "sorted xs" "xs \<noteq> []" "0 \<le> r" "r \<le> of_nat (length xs - 1)"
  shows "xs ! nat \<lfloor>r\<rfloor> \<le> interp xs r"
    and "interp xs r \<le> xs ! min (nat \<lfloor>r\<rfloor> + 1) (length xs - 1)"
    and "nat \<lfloor>r\<rfloor> \<le> length xs - 1"
proof -
  let ?l = "nat \<lfloor>r\<rfloor>"
  have l: "of_nat ?l \<le> r" "r < of_nat ?l + 1" using assms(3) by (simp_all add: of_nat_nat) linarith
  show len: "?l \<le> length xs - 1"
    using l(1) assms(4) by (metis of_nat_le_iff order_trans)
  consider (last) "?l + 1 \<ge> length xs" | (mid) "?l + 1 < length xs" by linarith
  then have "xs ! ?l \<le> interp xs r \<and> interp xs r \<le> xs ! min (?l + 1) (length xs - 1)"
  proof cases
    case last
    then have e: "?l = length xs - 1" using len by simp
    have "min (?l + 1) (length xs - 1) = length xs - 1" using e by simp
    moreover have "interp xs r = xs ! (length xs - 1)"
      using last assms(2) by (simp add: interp_def last_conv_nth)
    ultimately show ?thesis by (simp add: e)
  next
    case mid
    let ?d = "xs ! (?l + 1) - xs ! ?l"
    have d: "0 \<le> ?d" using assms(1) mid by (simp add: sorted_nth_mono)
    have f: "0 \<le> r - of_nat ?l" "r - of_nat ?l \<le> 1" using l by simp_all
    have i: "interp xs r = xs ! ?l + (r - of_nat ?l) * ?d" using mid by (simp add: interp_def Let_def)
    have "0 \<le> (r - of_nat ?l) * ?d" "(r - of_nat ?l) * ?d \<le> ?d"
      using f d by (simp_all add: mult_left_le_one_le)
    moreover have "min (?l + 1) (length xs - 1) = ?l + 1" using mid by simp
    ultimately show ?thesis by (simp add: i)
  qed
  then show "xs ! ?l \<le> interp xs r" "interp xs r \<le> xs ! min (?l + 1) (length xs - 1)" by simp_all
qed

lemma interp_mono:
  assumes "sorted xs" "xs \<noteq> []" "0 \<le> r" "r \<le> r'" "r' \<le> of_nat (length xs - 1)"
  shows "interp xs r \<le> interp xs r'"
proof -
  let ?l = "nat \<lfloor>r\<rfloor>" and ?l' = "nat \<lfloor>r'\<rfloor>"
  have le: "?l \<le> ?l'" using assms(4) by (simp add: floor_mono nat_mono)
  have b: "interp xs r \<le> xs ! min (?l + 1) (length xs - 1)"
    using interp_bounds(2) [OF assms(1,2,3)] assms(4,5) by simp
  have b': "xs ! ?l' \<le> interp xs r'" "?l' \<le> length xs - 1"
    using interp_bounds(1,3) [OF assms(1,2)] assms(3-5) by simp_all
  show ?thesis
  proof (cases "?l = ?l'")
    case True
    show ?thesis
    proof (cases "?l + 1 \<ge> length xs")
      case True
      then show ?thesis using \<open>?l = ?l'\<close> by (simp add: interp_def)
    next
      case False
      then have "0 \<le> xs ! (?l + 1) - xs ! ?l" using assms(1) by (simp add: sorted_nth_mono)
      then have "(r - of_nat ?l) * (xs ! (?l + 1) - xs ! ?l) \<le> (r' - of_nat ?l) * (xs ! (?l + 1) - xs ! ?l)"
        using assms(4) by (intro mult_right_mono) simp_all
      then show ?thesis using False True by (simp add: interp_def Let_def)
    qed
  next
    case False
    then have "min (?l + 1) (length xs - 1) \<le> ?l'" using le by simp
    moreover have "?l' < length xs" using b'(2) assms(2) by (cases xs) auto
    ultimately have "xs ! min (?l + 1) (length xs - 1) \<le> xs ! ?l'"
      using assms(1) by (simp add: sorted_nth_mono)
    then show ?thesis using b b'(1) by linarith
  qed
qed

lemma percentile_interp:
  "xs \<noteq> [] \<Longrightarrow> percentile xs q = (if length xs = 1 then hd xs else interp xs (q * of_nat (length xs - 1)))"
  by (simp add: percentile_def interp_def Let_def hd_conv_nth)

lemma percentile_mono_aux:
  assumes "sorted xs" "0 \<le> p" "p \<le> q" "q \<le> 1"
  shows "percentile xs p \<le> percentile xs q"
proof (cases "xs = []")
  case True
  then show ?thesis by (simp add: percentile_def)
next
  case False
  have "interp xs (p * of_nat (length xs - 1)) \<le> interp xs (q * of_nat (length xs - 1))"
    using assms False
    by (intro interp_mono) (simp_all add: mult_right_mono mult_left_le_one_le)
  then show ?thesis using False by (simp add: percentile_interp)
qed

lemma percentile_bounds:
  assumes "sorted xs" "xs \<noteq> []" "0 \<le> q" "q \<le> 1"
  shows "hd xs \<le> percentile xs q \<and> percentile xs q \<le> last xs"
proof -
  have z: "percentile xs 0 = hd xs"
    using assms(2) by (cases xs) (auto simp: percentile_def Let_def)
  have o: "percentile xs 1 = last xs"
    using assms(2) by (cases xs) (auto simp: percentile_def Let_def)
  show ?thesis
    using percentile_mono_aux [OF assms(1), of 0 q] percentile_mono_aux [OF assms(1), of q 1] assms(3,4) z o
    by simp
qed

subsection \<open>Case outcomes\<close>

lemma pick_label_worst:
  "results \<noteq> [] \<Longrightarrow> (\<exists>r \<in> set results. pick_label results = gr_label r) \<and>
     (\<forall>r \<in> set results. severity (gr_label r) \<le> severity (pick_label results))"
proof (cases results)
  case (Cons r rs)
  then show ?thesis
    using max_by_in [of "\<lambda>r. severity (gr_label r)" r rs]
      max_by_ge [of _ r rs "\<lambda>r. severity (gr_label r)"]
    by (auto simp: pick_label_def)
qed simp

lemma severity_zero: "severity l = 0 \<longleftrightarrow> l = GradeLabel.PASS"
  by (cases l) auto

lemma pick_label_pass:
  "pick_label results = GradeLabel.PASS \<longleftrightarrow> results \<noteq> [] \<and> (\<forall>r \<in> set results. gr_label r = GradeLabel.PASS)"
proof (cases "results = []")
  case True
  then show ?thesis by (simp add: pick_label_def)
next
  case False
  then show ?thesis
    using pick_label_worst [OF False] by (metis le_zero_eq severity_zero)
qed

lemma label_score_unit: "0 \<le> label_score l \<and> label_score l \<le> 1"
  by (cases l) auto

lemma pick_score_unit:
  assumes "\<forall>r \<in> set results. score_ok (gr_score r)"
  shows "0 \<le> pick_score results \<and> pick_score results \<le> 1"
proof -
  have "0 \<le> mean (List.map_filter gr_score results) \<and> mean (List.map_filter gr_score results) \<le> 1"
    by (rule mean_unit) (use assms in \<open>force simp: set_map_filter score_ok_def\<close>)
  moreover have "0 \<le> mean (map (\<lambda>r. label_score (gr_label r)) results) \<and>
      mean (map (\<lambda>r. label_score (gr_label r)) results) \<le> 1"
    by (rule mean_unit) (use label_score_unit in auto)
  ultimately show ?thesis by (simp add: pick_score_def Let_def)
qed

lemma per_grader_fold:
  "dict_get (foldl (\<lambda>d r. dict_modify d (gr_grader r) [] (\<lambda>ls. ls @ [gr_label r])) d rs) g [] =
     dict_get d g [] @ map gr_label (filter (\<lambda>r. gr_grader r = g) rs)"
  by (induction rs arbitrary: d) (simp_all add: dict_get_modify)

text \<open>Each grader's verdicts, in the order of the repetitions.\<close>

lemma per_grader_labels_get:
  "dict_get (per_grader_labels gpr) g [] = map gr_label (filter (\<lambda>r. gr_grader r = g) (concat gpr))"
  by (simp add: per_grader_labels_def per_grader_fold)

lemma outcome_for_labels:
  assumes "i < length gpr"
  shows "co_per_repetition_label (outcome_for c run gpr) ! i =
     (if i < length (cn_repetitions run) \<and> rr_error (cn_repetitions run ! i) \<noteq> None
      then GradeLabel.ERROR else pick_label (gpr ! i))"
  using assms by (simp add: outcome_for_def Let_def rep_label_def nth_enumerate_eq)

lemma outcome_for_lengths:
  "length (co_per_repetition_label (outcome_for c run gpr)) = length gpr"
  "length (co_per_repetition_score (outcome_for c run gpr)) = length gpr"
  by (simp_all add: outcome_for_def Let_def)

subsection \<open>Independence of the order of the outcomes\<close>

lemma frac_of_mset: "mset xs = mset ys \<Longrightarrow> frac_of p xs = frac_of p ys"
  by (metis count_if_mset frac_of_def size_mset)

lemma sum_list_map_mset:
  fixes f :: "'a \<Rightarrow> 'b::comm_monoid_add"
  assumes "mset xs = mset ys"
  shows "sum_list (map f xs) = sum_list (map f ys)"
  by (metis assms mset_map sum_mset_sum_list)

lemma mset_map_eq: "mset xs = mset ys \<Longrightarrow> mset (map f xs) = mset (map f ys)"
  by simp

lemma mset_filter_eq: "mset xs = mset ys \<Longrightarrow> mset (filter p xs) = mset (filter p ys)"
  by (metis mset_filter)

lemma mset_concat_map: "mset xs = mset ys \<Longrightarrow> mset (concat (map f xs)) = mset (concat (map f ys))"
  using sum_list_map_mset [of xs ys "\<lambda>x. mset (f x)"] by (simp add: mset_concat comp_def)

lemma mset_Nil: "mset xs = mset ys \<Longrightarrow> xs = [] \<longleftrightarrow> ys = []"
  by (metis mset_zero_iff)

lemma mset_length: "mset xs = mset ys \<Longrightarrow> length xs = length ys"
  by (metis size_mset)

lemma mean_mset: "mset xs = mset ys \<Longrightarrow> mean (map f xs) = mean (map f ys)"
  using sum_list_map_mset [of xs ys f] mset_length [of xs ys] by (simp add: mean_def)

lemma windows_mset:
  "mset xs = mset ys \<Longrightarrow> mset (grader_windows xs g) = mset (grader_windows ys g)"
  unfolding grader_windows_def by (intro mset_filter_eq mset_map_eq)

lemma grader_metric_mset:
  assumes "mset xs = mset ys"
  shows "compute_pass_metric_for_grader m xs g = compute_pass_metric_for_grader m ys g"
proof -
  note w = windows_mset [OF assms, of g]
  have f: "frac_of p (grader_windows xs g) = frac_of p (grader_windows ys g)" for p
    by (rule frac_of_mset [OF w])
  have "grader_windows xs g = [] \<longleftrightarrow> grader_windows ys g = []" by (rule mset_Nil [OF w])
  then show ?thesis by (simp add: compute_pass_metric_for_grader_def Let_def f)
qed

lemma compute_metric_mset:
  assumes "mset xs = mset ys"
  shows "compute_metric m xs pg = compute_metric m ys pg"
proof -
  have s: "mset (filter (\<lambda>o'. \<not> errored o') xs) = mset (filter (\<lambda>o'. \<not> errored o') ys)"
    by (rule mset_filter_eq [OF assms])
  have sc: "filter (\<lambda>o'. \<not> errored o') xs = [] \<longleftrightarrow> filter (\<lambda>o'. \<not> errored o') ys = []"
    by (rule mset_Nil [OF s])
  have f: "frac_of p xs = frac_of p ys" for p by (rule frac_of_mset [OF assms])
  have c: "count_if p xs = count_if p ys" for p by (rule count_if_mset [OF assms])
  show ?thesis
    unfolding compute_metric_def Let_def
    using sc mset_Nil [OF assms]
    by (simp add: f c grader_metric_mset [OF assms] mean_mset [OF assms]
        sum_list_map_mset [OF s] mset_length [OF s])
qed

lemma reliability_dict_mset:
  "mset xs = mset ys \<Longrightarrow> reliability_dict xs ms = reliability_dict ys ms"
  by (simp add: reliability_dict_def compute_metric_mset [of xs ys])

lemma build_guardrails_mset:
  assumes "mset xs = mset ys"
  shows "build_guardrails xs = build_guardrails ys"
proof -
  have "sort (map (\<lambda>o'. of_nat (co_duration_ms o') :: rat) xs) = sort (map (\<lambda>o'. of_nat (co_duration_ms o')) ys)"
    using assms by (metis mset_map properties_for_sort sorted_sort mset_sort)
  then show ?thesis
    by (simp add: build_guardrails_def Let_def weighted_failure_total_def critical_failure_count_def
        sum_list_map_mset [OF assms] mset_length [OF assms])
qed

text \<open>The fields of an aggregate over at least one outcome.\<close>

lemma aggregate_fields:
  assumes "aggregate_iteration xs pm rms pg = Inr a" "xs \<noteq> []"
  shows "compute_metric pm xs pg = Inr (ia_primary_value a)"
    and "reliability_dict xs rms = Inr (ia_reliability a)"
    and "ia_guardrails a = build_guardrails xs"
    and "ia_failure_mode_counts a = counter_of (concat (map co_failure_modes xs))"
    and "ia_total_cost_usd a = sum_list (map co_cost_usd xs)"
    and "ia_total_duration_ms a = sum_list (map co_duration_ms xs)"
    and "ia_case_count a = length xs" and "ia_case_outcomes a = xs"
    and "ia_error_rate a = of_nat (count_if errored xs) / of_nat (length xs)"
    and "ia_funnel a = rollup_funnel xs" and "ia_confusion a = rollup_confusion xs"
    and "ia_primary_metric a = pm"
proof -
  obtain pv where pv: "compute_metric pm xs pg = Inr pv"
    using assms by (cases "compute_metric pm xs pg") (simp_all add: aggregate_iteration_def)
  obtain rel where rel: "reliability_dict xs rms = Inr rel"
    using assms pv by (cases "reliability_dict xs rms") (simp_all add: aggregate_iteration_def)
  note a = assms(1) [symmetric] pv rel assms(2)
  show "compute_metric pm xs pg = Inr (ia_primary_value a)"
    "reliability_dict xs rms = Inr (ia_reliability a)"
    "ia_guardrails a = build_guardrails xs"
    "ia_failure_mode_counts a = counter_of (concat (map co_failure_modes xs))"
    "ia_total_cost_usd a = sum_list (map co_cost_usd xs)"
    "ia_total_duration_ms a = sum_list (map co_duration_ms xs)"
    "ia_case_count a = length xs" "ia_case_outcomes a = xs"
    "ia_error_rate a = of_nat (count_if errored xs) / of_nat (length xs)"
    "ia_funnel a = rollup_funnel xs" "ia_confusion a = rollup_confusion xs"
    "ia_primary_metric a = pm"
    using a by (simp_all add: aggregate_iteration_def)
qed

lemma aggregate_total:
  "compute_metric pm xs pg = Inr v \<Longrightarrow> reliability_dict xs rms = Inr r \<Longrightarrow>
     \<exists>a. aggregate_iteration xs pm rms pg = Inr a"
  by (simp add: aggregate_iteration_def)

text \<open>What does not depend on the order: everything a decision reads.\<close>

definition same_metrics :: "IterationAggregate \<Rightarrow> IterationAggregate \<Rightarrow> bool" where
  "same_metrics a b \<longleftrightarrow>
     ia_primary_value b = ia_primary_value a \<and> ia_guardrails b = ia_guardrails a \<and>
     ia_reliability b = ia_reliability a \<and> ia_error_rate b = ia_error_rate a \<and>
     ia_total_cost_usd b = ia_total_cost_usd a \<and> ia_total_duration_ms b = ia_total_duration_ms a \<and>
     ia_case_count b = ia_case_count a \<and> fail_rate b = fail_rate a \<and>
     map_of (ia_failure_mode_counts b) = map_of (ia_failure_mode_counts a)"

lemma counter_mset: "mset xs = mset ys \<Longrightarrow> map_of (counter_of xs) = map_of (counter_of ys)"
  by (intro ext) (metis counter_map_of count_mset mset_eq_setD)

lemma aggregate_mset:
  assumes eq: "mset xs = mset ys" and a: "aggregate_iteration xs pm rms pg = Inr a"
  shows "\<exists>b. aggregate_iteration ys pm rms pg = Inr b \<and> same_metrics a b"
proof (cases "xs = []")
  case True
  with assms have "ys = []" by simp
  with True a show ?thesis by (simp add: same_metrics_def)
next
  case False
  then have ys: "ys \<noteq> []" using mset_Nil [OF eq] by simp
  note fa = aggregate_fields [OF a False]
  obtain b where b: "aggregate_iteration ys pm rms pg = Inr b"
    using aggregate_total fa(1,2) compute_metric_mset [OF eq] reliability_dict_mset [OF eq] by metis
  note fb = aggregate_fields [OF b ys]
  have "ia_primary_value b = ia_primary_value a" "ia_reliability b = ia_reliability a"
    using fa(1,2) fb(1,2) compute_metric_mset [OF eq] reliability_dict_mset [OF eq] by simp_all
  moreover have "map_of (ia_failure_mode_counts b) = map_of (ia_failure_mode_counts a)"
    unfolding fa(4) fb(4) by (rule counter_mset [OF mset_concat_map [OF eq, symmetric]])
  moreover have "fail_rate b = fail_rate a"
    unfolding fail_rate_def fa(8) fb(8)
    using count_if_mset [OF eq] mset_length [OF eq] False ys by simp
  ultimately show ?thesis
    using b build_guardrails_mset [OF eq] count_if_mset [OF eq] mset_length [OF eq]
    by (simp add: same_metrics_def fa fb sum_list_map_mset [OF eq])
qed

subsection \<open>The funnel\<close>

text \<open>A node whose scores are fractions and whose weights are not negative, and the invariant such
  nodes keep in the accumulator: at every level the weighted score sum stays within the scored
  weight, so every mean score of the frozen funnel is a fraction.\<close>

inductive node_ok :: "BreakdownNode \<Rightarrow> bool" where
  "score_ok s \<Longrightarrow> 0 \<le> w \<Longrightarrow> (\<forall>c \<in> set cs. node_ok c) \<Longrightarrow> node_ok (BreakdownNode k l s w r fms cs)"

inductive acc_ok :: "FunnelAccumulator \<Rightarrow> bool" where
  "0 \<le> ws \<Longrightarrow> ws \<le> sw \<Longrightarrow> sw \<le> tw \<Longrightarrow> (\<forall>p \<in> set ch. acc_ok (snd p)) \<Longrightarrow>
     acc_ok (FunnelAccumulator k n ws sw tw lc fc ch)"

inductive funnel_ok :: "FunnelNode \<Rightarrow> bool" where
  "score_ok m \<Longrightarrow> 0 \<le> tw \<Longrightarrow> (\<forall>p \<in> set ch. funnel_ok (snd p)) \<Longrightarrow>
     funnel_ok (FunnelNode k n m tw lc fc ch)"

inductive_simps node_ok_simps: "node_ok (BreakdownNode k l s w r fms cs)"
inductive_simps acc_ok_simps: "acc_ok (FunnelAccumulator k n ws sw tw lc fc ch)"
inductive_simps funnel_ok_simps: "funnel_ok (FunnelNode k n m tw lc fc ch)"

lemma acc_ok_empty: "acc_ok (empty_acc k)"
  by (simp add: empty_acc_def acc_ok_simps)

definition accs_ok :: "FunnelAccumulator dict \<Rightarrow> bool" where
  "accs_ok d \<longleftrightarrow> (\<forall>p \<in> set d. acc_ok (snd p))"

lemma accs_okD: "accs_ok d \<Longrightarrow> (k, a) \<in> set d \<Longrightarrow> acc_ok a"
  by (force simp: accs_ok_def)

lemma acc_at_ok: "accs_ok d \<Longrightarrow> acc_ok (acc_at d k)"
  by (auto simp: acc_at_def dict_get_def acc_ok_empty dest: map_of_SomeD accs_okD split: option.split)

lemma accs_ok_update: "accs_ok d \<Longrightarrow> acc_ok a \<Longrightarrow> accs_ok (AList.update k a d)"
  using set_update_subset [of k a d] by (auto simp: accs_ok_def)

definition funnel_step :: "FunnelAccumulator dict \<Rightarrow> BreakdownNode \<Rightarrow> FunnelAccumulator dict" where
  "funnel_step d c = AList.update (bn_key c) (funnel_add (acc_at d (bn_key c)) c) d"

lemma funnel_steps_ok:
  assumes "\<And>c a. c \<in> set cs \<Longrightarrow> acc_ok a \<Longrightarrow> acc_ok (funnel_add a c)" "accs_ok d"
  shows "accs_ok (foldl funnel_step d cs)"
  using assms
proof (induction cs arbitrary: d)
  case (Cons c cs)
  have "accs_ok (funnel_step d c)"
    unfolding funnel_step_def using Cons.prems by (intro accs_ok_update) (simp_all add: acc_at_ok)
  with Cons show ?case by simp
qed simp

lemma funnel_add_ok: "node_ok n \<Longrightarrow> acc_ok a \<Longrightarrow> acc_ok (funnel_add a n)"
proof (induction n arbitrary: a)
  case (BreakdownNode key l s w r fms cs)
  obtain k n ws sw tw lc fc ch where a: "a = FunnelAccumulator k n ws sw tw lc fc ch" by (cases a)
  have node: "score_ok s" "0 \<le> w" "\<forall>c \<in> set cs. node_ok c"
    using BreakdownNode.prems(1) by (simp_all add: node_ok_simps)
  have acc: "0 \<le> ws" "ws \<le> sw" "sw \<le> tw" "accs_ok ch"
    using BreakdownNode.prems(2) by (simp_all add: a acc_ok_simps accs_ok_def)
  have "accs_ok (foldl funnel_step ch cs)"
    using BreakdownNode.IH node(3) acc(4) by (intro funnel_steps_ok) simp_all
  moreover have "q * w \<le> w" if "s = Some q" for q
    using node that by (simp add: mult_left_le_one_le)
  ultimately show ?case
    using node acc by (auto simp: a acc_ok_simps accs_ok_def funnel_step_def [abs_def] split: option.split)
qed

lemma freeze_ok: "acc_ok a \<Longrightarrow> funnel_ok (freeze a)"
proof (induction a rule: acc_ok.induct)
  case (1 ws sw tw ch k n lc fc)
  have "score_ok (if sw \<noteq> 0 then Some (ws / sw) else None)"
    using 1(1,2) by (auto simp: divide_le_eq_1)
  with 1 show ?case by (auto simp: funnel_ok_simps)
qed

lemma funnel_add_count: "fa_count (funnel_add a c) = fa_count a + 1"
  by (cases a; cases c) simp

lemma acc_at_update: "acc_at (AList.update k v d) k' = (if k = k' then v else acc_at d k')"
  by (simp add: acc_at_def dict_get_update)

lemma funnel_steps_count:
  "fa_count (acc_at (foldl funnel_step d cs) k) = fa_count (acc_at d k) + count_if (\<lambda>c. bn_key c = k) cs"
  by (induction cs arbitrary: d) (auto simp: funnel_step_def acc_at_update funnel_add_count count_if_def)

lemma rollup_acc_steps: "rollup_acc nodes = foldl funnel_step [] nodes"
  by (simp add: rollup_acc_def funnel_step_def [abs_def])

lemma rollup_acc_keys:
  "distinct (dict_keys (rollup_acc nodes))" "set (dict_keys (rollup_acc nodes)) = bn_key ` set nodes"
proof -
  have "distinct (dict_keys (foldl funnel_step d nodes)) \<and>
      set (dict_keys (foldl funnel_step d nodes)) = set (dict_keys d) \<union> bn_key ` set nodes"
    if "distinct (dict_keys d)" for d
    using that
    by (induction nodes arbitrary: d)
      (simp_all add: funnel_step_def distinct_dict_keys_update dict_keys_update)
  from this [of "[]"] show "distinct (dict_keys (rollup_acc nodes))"
    "set (dict_keys (rollup_acc nodes)) = bn_key ` set nodes"
    by (simp_all add: rollup_acc_steps dict_keys_def)
qed

lemma freeze_count: "fn_count (freeze a) = fa_count a"
  by (cases a) simp

lemma rollup_funnel_entry:
  assumes "(k, f) \<in> set (rollup_funnel outcomes)"
  shows "fn_count f = count_if (\<lambda>n. bn_key n = k) (concat (map co_breakdowns outcomes))"
    and "(\<forall>n \<in> set (concat (map co_breakdowns outcomes)). node_ok n) \<Longrightarrow> funnel_ok f"
proof -
  let ?nodes = "concat (map co_breakdowns outcomes)"
  obtain a where a: "(k, a) \<in> set (rollup_acc ?nodes)" "f = freeze a"
    using assms by (auto simp: rollup_funnel_def)
  then have "acc_at (rollup_acc ?nodes) k = a"
    using rollup_acc_keys(1) [of ?nodes] by (simp add: acc_at_def dict_get_def dict_keys_def)
  moreover have "fa_count (acc_at (rollup_acc ?nodes) k) = count_if (\<lambda>n. bn_key n = k) ?nodes"
    unfolding rollup_acc_steps funnel_steps_count by (simp add: acc_at_def empty_acc_def)
  ultimately show "fn_count f = count_if (\<lambda>n. bn_key n = k) ?nodes"
    by (simp add: a(2) freeze_count)
  assume "\<forall>n \<in> set ?nodes. node_ok n"
  then have "accs_ok (rollup_acc ?nodes)"
    unfolding rollup_acc_steps by (intro funnel_steps_ok) (auto simp: funnel_add_ok accs_ok_def)
  with a show "funnel_ok f" by (auto intro: freeze_ok accs_okD)
qed

subsection \<open>Classification cells\<close>

text \<open>The pair a classification grade carries arrives in the matrix unchanged unless its expected
  class contains an arrow.\<close>

lemma classification_cells:
  "\<not> has_arrow e \<Longrightarrow> e \<noteq> [] \<Longrightarrow> p \<noteq> [] \<Longrightarrow>
     collect_cell_pairs (classification_breakdown l p e m) = [(e, p)]"
  by (simp add: classification_breakdown_def parse_cell_key_roundtrip)
    (simp add: parse_cell_key_def starts_with_def CELL_PREFIX_def)

lemma rollup_confusion_cells:
  assumes "concat (map co_breakdowns outcomes) =
      map (\<lambda>(e, p). classification_breakdown (if p = e then GradeLabel.PASS else GradeLabel.FAIL) p e (p = e)) pairs"
    and "\<forall>(e, p) \<in> set pairs. \<not> has_arrow e \<and> e \<noteq> [] \<and> p \<noteq> []"
  shows "rollup_confusion outcomes = (if pairs = [] then None else Some (confusion_from_pairs pairs))"
proof -
  have "concat (map collect_cell_pairs (map (\<lambda>(e, p). classification_breakdown
      (if p = e then GradeLabel.PASS else GradeLabel.FAIL) p e (p = e)) pairs)) = pairs"
    using assms(2) by (induction pairs) (auto simp: classification_cells)
  moreover have "cell_pairs outcomes = concat (map collect_cell_pairs (concat (map co_breakdowns outcomes)))"
    by (simp add: cell_pairs_def)
  ultimately have "cell_pairs outcomes = pairs" by (simp add: assms(1))
  then show ?thesis by (simp add: rollup_confusion_def Let_def)
qed

subsection \<open>Zero-tolerance failure modes\<close>

lemma build_guardrails_critical:
  "map_of (build_guardrails outcomes) ''critical_failure_count'' =
     Some (of_nat (critical_failure_count outcomes))"
  by (simp add: build_guardrails_def Let_def)

lemma case_critical_zero:
  "case_critical_failures o' = 0 \<longleftrightarrow> set (co_failure_modes o') \<inter> set (co_critical_failure_modes o') = {}"
proof -
  have pos: "c > 0" if "(m, c) \<in> set (counter_of xs)" for m c and xs :: "string list"
  proof -
    have "map_of (counter_of xs) m = Some c"
      using that counter_of_distinct [of xs] by (simp add: dict_keys_def)
    then have "m \<in> set xs" "c = count_list xs m" by (auto simp: counter_map_of split: if_splits)
    then show ?thesis using count_list_0_iff [of xs m] by (cases c) auto
  qed
  have "case_critical_failures o' = 0 \<longleftrightarrow>
      (\<forall>x \<in> set (counter_of (co_failure_modes o')). fst x \<notin> set (co_critical_failure_modes o'))"
    unfolding case_critical_failures_def sum_list_eq_0_iff using pos by fastforce
  also have "\<dots> \<longleftrightarrow> (\<forall>m \<in> set (dict_keys (counter_of (co_failure_modes o'))).
      m \<notin> set (co_critical_failure_modes o'))"
    by (simp add: dict_keys_def)
  finally show ?thesis by (auto simp: counter_of_keys)
qed

lemma critical_failure_count_zero:
  "critical_failure_count outcomes = 0 \<longleftrightarrow>
     (\<forall>o' \<in> set outcomes. set (co_failure_modes o') \<inter> set (co_critical_failure_modes o') = {})"
  by (simp add: critical_failure_count_def case_critical_zero)

end
