(* ===== verification/Scenario_Outcomes.thy ===== *)
theory Scenario_Outcomes
  imports Aggregator_Facts
begin

section \<open>optimization/scenario\_outcomes.py\<close>

text \<open>
  The stored form of a case outcome, and the aggregation that reads it back.  The two functions
  are inverses on every outcome, and since no metric depends on the order of the outcomes, the
  sharded aggregation of any arrangement of the stored rows gives the metrics of the in-process
  run.  The stored form of a rolled-up funnel (\<^verbatim>\<open>FunnelNode.to_dict\<close>, \<^verbatim>\<open>from_dict\<close> of the
  aggregator) is here as well.
\<close>

definition labels_json :: "GradeLabel list \<Rightarrow> json" where
  "labels_json ls = JList (map (\<lambda>l. JStr (GradeLabel_value l)) ls)"

definition case_outcome_to_fields :: "CaseOutcome \<Rightarrow> json dict" where
  "case_outcome_to_fields c =
     [(''case_id'', JStr (co_case_id c)),
      (''labels'', labels_json (co_per_repetition_label c)),
      (''scores'', JList (map JFloat (co_per_repetition_score c))),
      (''per_grader_labels'', JObj (map (\<lambda>(g, ls). (g, labels_json ls)) (co_per_grader_label c))),
      (''failure_modes'', JList (map JStr (co_failure_modes c))),
      (''breakdowns'', JList (map breakdown_to_dict (co_breakdowns c))),
      (''failure_weights'', JObj (map (\<lambda>(m, w). (m, JInt w)) (co_failure_weights c))),
      (''critical_failure_modes'', JList (map JStr (co_critical_failure_modes c))),
      (''cost_usd'', JFloat (co_cost_usd c)),
      (''duration_ms'', JInt (int (co_duration_ms c))),
      (''llm_call_count'', JInt (int (co_llm_call_count c))),
      (''cache_hit_count'', JInt (int (co_cache_hit_count c)))]"

definition req_field :: "json dict \<Rightarrow> string \<Rightarrow> json result" where
  "req_field d k = (case map_of d k of None \<Rightarrow> Inl KeyError | Some j \<Rightarrow> Inr j)"

definition json_items :: "json \<Rightarrow> json list result" where
  "json_items j = (case as_list j of None \<Rightarrow> Inl TypeError | Some xs \<Rightarrow> Inr xs)"

definition label_of_json :: "json \<Rightarrow> GradeLabel result" where
  "label_of_json j = (case as_str j of
     None \<Rightarrow> Inl ValueError | Some s \<Rightarrow> enum_of GradeLabel_value GradeLabel_members s)"

definition labels_of_json :: "json \<Rightarrow> GradeLabel list result" where
  "labels_of_json j = bind_result (json_items j) (map_result label_of_json)"

definition json_integer :: "json \<Rightarrow> int result" where
  "json_integer j = (case j of JInt i \<Rightarrow> Inr i | _ \<Rightarrow> Inl DomainMissing)"

definition case_outcome_from_fields :: "json dict \<Rightarrow> CaseOutcome result" where
  "case_outcome_from_fields d =
     bind_result (bind_result (req_field d ''case_id'') json_string) (\<lambda>cid.
     bind_result (bind_result (req_field d ''labels'') labels_of_json) (\<lambda>labels.
     bind_result (bind_result (bind_result (req_field d ''scores'') json_items) (map_result json_number)) (\<lambda>scores.
     bind_result (bind_result (json_fields (dict_get d ''per_grader_labels'' (JObj [])))
        (map_result (\<lambda>(g, j). bind_result (labels_of_json j) (\<lambda>ls. Inr (g, ls))))) (\<lambda>pg.
     bind_result (json_str_list (dict_get d ''failure_modes'' (JList []))) (\<lambda>fms.
     bind_result (bind_result (json_items (dict_get d ''breakdowns'' (JList [])))
        (map_result breakdown_from_dict)) (\<lambda>bs.
     bind_result (bind_result (json_fields (dict_get d ''failure_weights'' (JObj [])))
        (map_result (\<lambda>(m, j). bind_result (json_integer j) (\<lambda>w. Inr (m, w))))) (\<lambda>fw.
     bind_result (json_str_list (dict_get d ''critical_failure_modes'' (JList []))) (\<lambda>cfm.
     bind_result (json_number (dict_get d ''cost_usd'' (JFloat 0))) (\<lambda>cost.
     bind_result (json_nat (dict_get d ''duration_ms'' (JInt 0))) (\<lambda>dur.
     bind_result (json_nat (dict_get d ''llm_call_count'' (JInt 0))) (\<lambda>llm.
     bind_result (json_nat (dict_get d ''cache_hit_count'' (JInt 0))) (\<lambda>hits.
       Inr \<lparr>co_case_id = cid, co_per_repetition_label = labels, co_per_repetition_score = scores,
            co_failure_modes = fms, co_cost_usd = cost, co_duration_ms = dur,
            co_cache_hit_count = hits, co_llm_call_count = llm, co_breakdowns = bs,
            co_per_grader_label = pg, co_failure_weights = fw,
            co_critical_failure_modes = cfm\<rparr>))))))))))))"

definition aggregate_iteration_from_storage ::
    "json dict list \<Rightarrow> string \<Rightarrow> string list \<Rightarrow> string option \<Rightarrow> IterationAggregate result" where
  "aggregate_iteration_from_storage rows primary_metric reliability_metrics primary_grader =
     bind_result (map_result case_outcome_from_fields rows) (\<lambda>outcomes.
       aggregate_iteration outcomes primary_metric reliability_metrics primary_grader)"

lemma labels_roundtrip: "labels_of_json (labels_json ls) = Inr ls"
proof -
  have "map_result label_of_json (map (\<lambda>l. JStr (GradeLabel_value l)) ls) = Inr ls"
    by (rule map_result_roundtrip) (simp add: label_of_json_def GradeLabel_enum.of_value)
  then show ?thesis by (simp add: labels_of_json_def labels_json_def json_items_def)
qed

lemma json_number_list: "map_result json_number (map JFloat xs) = Inr xs"
  by (induction xs) (simp_all add: json_number_def)

lemma grader_labels_roundtrip:
  "map_result (\<lambda>(g, j). bind_result (labels_of_json j) (\<lambda>ls. Inr (g, ls)))
     (map (\<lambda>(g, ls). (g, labels_json ls)) d) = Inr d"
  by (induction d) (auto simp: labels_roundtrip)

lemma weights_roundtrip:
  "map_result (\<lambda>(m, j). bind_result (json_integer j) (\<lambda>w. Inr (m, w)))
     (map (\<lambda>(m, w). (m, JInt w)) d) = Inr d"
  by (induction d) (auto simp: json_integer_def)

lemma breakdowns_roundtrip: "map_result breakdown_from_dict (map breakdown_to_dict bs) = Inr bs"
  by (rule map_result_roundtrip) (rule breakdown_roundtrip_aux)

lemma outcome_roundtrip_aux: "case_outcome_from_fields (case_outcome_to_fields c) = Inr c"
  by (simp add: case_outcome_from_fields_def case_outcome_to_fields_def req_field_def dict_get_def
      json_string_def json_items_def json_fields_def labels_roundtrip json_number_list
      grader_labels_roundtrip json_str_list_map breakdowns_roundtrip weights_roundtrip
      json_number_def json_nat_def)

lemma rows_roundtrip: "map_result case_outcome_from_fields (map case_outcome_to_fields cs) = Inr cs"
  by (rule map_result_roundtrip) (rule outcome_roundtrip_aux)

lemma sharded_equals_in_process:
  assumes "mset rows = mset (map case_outcome_to_fields outcomes)"
    and "aggregate_iteration outcomes pm rms pg = Inr a"
  shows "\<exists>b. aggregate_iteration_from_storage rows pm rms pg = Inr b \<and> same_metrics a b"
proof -
  define unrow where "unrow = (\<lambda>r. case case_outcome_from_fields r of Inr c \<Rightarrow> c | Inl _ \<Rightarrow> undefined)"
  have inv: "unrow (case_outcome_to_fields c) = c" for c
    by (simp add: unrow_def outcome_roundtrip_aux)
  have "set rows = case_outcome_to_fields ` set outcomes"
    using mset_eq_setD [OF assms(1)] by simp
  then have "map case_outcome_to_fields (map unrow rows) = rows"
    by (auto simp: inv intro!: map_idI)
  moreover have "mset (map unrow rows) = mset outcomes"
  proof -
    have "mset (map unrow rows) = image_mset unrow (mset (map case_outcome_to_fields outcomes))"
      by (metis assms(1) mset_map)
    also have "\<dots> = mset (map (\<lambda>c. unrow (case_outcome_to_fields c)) outcomes)"
      by (simp add: multiset.map_comp comp_def)
    finally show ?thesis by (simp add: inv)
  qed
  ultimately obtain cs where cs: "rows = map case_outcome_to_fields cs" "mset cs = mset outcomes"
    by metis
  then show ?thesis
    using aggregate_mset [OF cs(2) [symmetric] assms(2)]
    by (simp add: aggregate_iteration_from_storage_def rows_roundtrip)
qed

subsection \<open>The stored funnel\<close>

definition counts_json :: "nat dict \<Rightarrow> json" where
  "counts_json d = JObj (map (\<lambda>(k, n). (k, JInt (int n))) d)"

function funnel_to_dict :: "FunnelNode \<Rightarrow> json" where
  "funnel_to_dict (FunnelNode k n m tw lc fc ch) =
     JObj [(''key'', JStr k), (''count'', JInt (int n)), (''mean_score'', opt_json JFloat m),
           (''total_weight'', JFloat tw), (''label_counts'', counts_json lc),
           (''failure_mode_counts'', counts_json fc),
           (''children'', JObj (map (\<lambda>p. (fst p, funnel_to_dict (snd p))) ch))]"
  by pat_completeness auto
termination
proof (relation "measure size", simp)
  fix k n m tw lc fc ch and p :: "string \<times> FunnelNode"
  assume "p \<in> set ch"
  then have "size (snd p) \<le> size_list (\<lambda>x. Suc (size (snd x))) ch"
    by (induction ch) auto
  moreover have "size_list (size_prod (\<lambda>x. 0) size) ch = size_list (\<lambda>x. Suc (size (snd x))) ch"
    by (induction ch) (auto simp: size_prod_simp)
  ultimately show "(snd p, FunnelNode k n m tw lc fc ch) \<in> measure size"
    by simp
qed

definition counts_of_json :: "json \<Rightarrow> nat dict result" where
  "counts_of_json j = bind_result (json_fields j)
     (map_result (\<lambda>(k, v). bind_result (json_nat v) (\<lambda>n. Inr (k, n))))"

text \<open>\<^verbatim>\<open>(data.get("children") or {}).items()\<close>.\<close>

definition funnel_children :: "json dict \<Rightarrow> json dict result" where
  "funnel_children d =
     (let c = dict_get d ''children'' JNull in if \<not> py_truthy c then Inr [] else json_fields c)"

lemma size_funnel_children:
  assumes "funnel_children d = Inr cs" "p \<in> set cs"
  shows "size (snd p) < size (JObj d)"
proof -
  have "map_of d ''children'' = Some (JObj cs)"
    using assms by (auto simp: funnel_children_def Let_def json_fields_def dict_get_def
        split: if_splits option.splits)
  then have "size (JObj cs) < size (JObj d)" by (rule size_json_field)
  moreover have "size (snd p) < size (JObj cs)"
    using assms(2) by (induction cs) auto
  ultimately show ?thesis by simp
qed

function funnel_from_dict :: "json \<Rightarrow> FunnelNode result" where
  "funnel_from_dict data = (case data of
     JObj d \<Rightarrow>
       bind_result (bind_result (req_field d ''key'') json_string) (\<lambda>k.
       bind_result (json_nat (dict_get d ''count'' (JInt 0))) (\<lambda>n.
       bind_result (json_opt_number (dict_get d ''mean_score'' JNull)) (\<lambda>m.
       bind_result (json_number (dict_get d ''total_weight'' (JFloat 0))) (\<lambda>tw.
       bind_result (counts_of_json (dict_get d ''label_counts'' (JObj []))) (\<lambda>lc.
       bind_result (counts_of_json (dict_get d ''failure_mode_counts'' (JObj []))) (\<lambda>fc.
         (case funnel_children d of
            Inl e \<Rightarrow> Inl e
          | Inr cs \<Rightarrow>
              bind_result (map_result (\<lambda>p. bind_result (funnel_from_dict (snd p)) (\<lambda>f. Inr (fst p, f))) cs)
                (\<lambda>ch. Inr (FunnelNode k n m tw lc fc ch)))))))))
   | _ \<Rightarrow> Inl TypeError)"
  by pat_completeness auto
termination
  by (relation "measure size") (auto dest!: size_funnel_children)

declare funnel_from_dict.simps [simp del]

lemma counts_roundtrip: "counts_of_json (counts_json d) = Inr d"
  by (induction d) (auto simp: counts_of_json_def counts_json_def json_fields_def json_nat_def)

lemma funnel_roundtrip_aux: "funnel_from_dict (funnel_to_dict f) = Inr f"
proof (induction f)
  case (FunnelNode k n m tw lc fc ch)
  have step: "map_result (\<lambda>p. bind_result (funnel_from_dict (snd p)) (\<lambda>f. Inr (fst p, f)))
      (map (\<lambda>p. (fst p, funnel_to_dict (snd p))) ch) = Inr ch"
    by (rule map_result_roundtrip) (use FunnelNode in \<open>auto simp: snds.simps\<close>)
  have "funnel_children [(''key'', JStr k), (''count'', JInt (int n)), (''mean_score'', opt_json JFloat m),
           (''total_weight'', JFloat tw), (''label_counts'', counts_json lc),
           (''failure_mode_counts'', counts_json fc),
           (''children'', JObj (map (\<lambda>p. (fst p, funnel_to_dict (snd p))) ch))] =
        Inr (map (\<lambda>p. (fst p, funnel_to_dict (snd p))) ch)"
    by (auto simp: funnel_children_def dict_get_def json_fields_def)
  then show ?case
    unfolding funnel_to_dict.simps
    by (subst funnel_from_dict.simps) (simp add: req_field_def json_string_def dict_get_def json_nat_def
        json_opt_number_opt json_number_def counts_roundtrip step)
qed

end
