(* ===== verification/Decision.thy ===== *)
theory Decision
  imports Aggregator_Facts
begin

section \<open>decision/matrix.py\<close>

text \<open>
  The verdict on one iteration: guardrails first, then the absolute target (no baseline yet) or
  the comparison with the best iteration so far.  The locale \<open>guarded_evaluator\<close> is what the loop
  needs of an evaluator to trust its kept candidates; the matrix is an instance.  A violated
  guardrail is reported by its name (the code renders name and values into one message).
\<close>

record DecisionEvaluation =
  de_outcome :: DecisionOutcome
  de_violated_guardrails :: "string list"
  de_primary_delta :: "rat option"

fun OUTCOME_FOR_REGRESSION :: "RegressionPolicy \<Rightarrow> DecisionOutcome" where
  "OUTCOME_FOR_REGRESSION RegReject = DecisionOutcome.REJECT"
| "OUTCOME_FOR_REGRESSION RegInvestigate = DecisionOutcome.INVESTIGATE"
| "OUTCOME_FOR_REGRESSION RegSpawnSubexperiment = DecisionOutcome.SPAWN_SUBEXPERIMENT"

fun OUTCOME_FOR_GUARDRAIL :: "GuardrailPolicy \<Rightarrow> DecisionOutcome" where
  "OUTCOME_FOR_GUARDRAIL GuardReject = DecisionOutcome.REJECT"
| "OUTCOME_FOR_GUARDRAIL GuardRequireTradeoffReview = DecisionOutcome.REQUIRE_TRADEOFF_REVIEW"

fun check_operator :: "rat \<Rightarrow> ComparisonOp \<Rightarrow> rat \<Rightarrow> bool" where
  "check_operator v OpGT t = (v > t)"
| "check_operator v OpGE t = (v \<ge> t)"
| "check_operator v OpLT t = (v < t)"
| "check_operator v OpLE t = (v \<le> t)"
| "check_operator v OpEQ t = (v = t)"

text \<open>A metric's published value: the guardrails first, the reliability metrics as a fallback.\<close>

definition observed :: "IterationAggregate \<Rightarrow> string \<Rightarrow> rat option" where
  "observed a name = (case map_of (ia_guardrails a) name of
     Some v \<Rightarrow> Some v | None \<Rightarrow> map_of (ia_reliability a) name)"

definition guardrails_violated :: "IterationAggregate \<Rightarrow> MetricTarget list \<Rightarrow> string list" where
  "guardrails_violated a guardrails =
     map mt_name (filter (\<lambda>g. case observed a (mt_name g) of
         None \<Rightarrow> False
       | Some v \<Rightarrow> \<not> check_operator v (mt_operator g) (mt_value g)) guardrails)"

definition evaluate_iteration ::
    "Experiment \<Rightarrow> IterationAggregate \<Rightarrow> IterationAggregate option \<Rightarrow> DecisionEvaluation" where
  "evaluate_iteration e a baseline =
     (let target = target_primary (exp_target e);
          primary_value = ia_primary_value a;
          primary_delta = map_option (\<lambda>b. primary_value - ia_primary_value b) baseline;
          violations = guardrails_violated a (target_guardrails (exp_target e));
          meets = check_operator primary_value (mt_operator target) (mt_value target);
          evaluation = (\<lambda>outcome. \<lparr>de_outcome = outcome, de_violated_guardrails = violations,
                                     de_primary_delta = primary_delta\<rparr>)
      in if violations \<noteq> [] then evaluation (OUTCOME_FOR_GUARDRAIL (if_guardrail_fails (exp_decision e)))
         else (case primary_delta of
           None \<Rightarrow> evaluation (if meets then DecisionOutcome.KEEP_CANDIDATE else DecisionOutcome.INVESTIGATE)
         | Some delta \<Rightarrow>
             if delta \<le> 0 then
               (if meets then evaluation DecisionOutcome.REJECT
                else evaluation (OUTCOME_FOR_REGRESSION (if_regression_fails (exp_decision e))))
             else evaluation DecisionOutcome.KEEP_CANDIDATE))"

definition matrix_evaluate ::
    "Experiment \<Rightarrow> IterationAggregate \<Rightarrow> IterationAggregate option \<Rightarrow> DecisionOutcome" where
  "matrix_evaluate e a baseline = de_outcome (evaluate_iteration e a baseline)"

subsection \<open>What a verdict means\<close>

definition guardrail_holds :: "IterationAggregate \<Rightarrow> MetricTarget \<Rightarrow> bool" where
  "guardrail_holds a g \<longleftrightarrow>
     (\<forall>v. observed a (mt_name g) = Some v \<longrightarrow> check_operator v (mt_operator g) (mt_value g))"

lemma guardrails_violated_Nil:
  "guardrails_violated a gs = [] \<longleftrightarrow> (\<forall>g \<in> set gs. guardrail_holds a g)"
  by (auto simp: guardrails_violated_def guardrail_holds_def filter_empty_conv split: option.splits)

lemma keep_iff:
  "matrix_evaluate e a baseline = DecisionOutcome.KEEP_CANDIDATE \<longleftrightarrow>
     (\<forall>g \<in> set (target_guardrails (exp_target e)). guardrail_holds a g) \<and>
     (case baseline of
        None \<Rightarrow> check_operator (ia_primary_value a) (mt_operator (target_primary (exp_target e)))
                  (mt_value (target_primary (exp_target e)))
      | Some b \<Rightarrow> ia_primary_value a > ia_primary_value b)"
  unfolding guardrails_violated_Nil [symmetric]
  by (cases "if_guardrail_fails (exp_decision e)"; cases "if_regression_fails (exp_decision e)";
      cases baseline)
    (auto simp: matrix_evaluate_def evaluate_iteration_def Let_def)

locale guarded_evaluator =
  fixes evaluate :: "Experiment \<Rightarrow> IterationAggregate \<Rightarrow> IterationAggregate option \<Rightarrow> DecisionOutcome"
  assumes kept_guarded: "evaluate e a bo = DecisionOutcome.KEEP_CANDIDATE \<Longrightarrow>
      g \<in> set (target_guardrails (exp_target e)) \<Longrightarrow> guardrail_holds a g"
    and kept_improves: "evaluate e a (Some b) = DecisionOutcome.KEEP_CANDIDATE \<Longrightarrow>
      ia_primary_value a > ia_primary_value b"
begin

lemma equality_guardrail_kept:
  assumes "evaluate e a bo = DecisionOutcome.KEEP_CANDIDATE"
    and "g \<in> set (target_guardrails (exp_target e))" "mt_operator g = OpEQ"
    and "map_of (ia_guardrails a) (mt_name g) = Some v"
  shows "v = mt_value g"
  using kept_guarded [OF assms(1,2)] assms(3,4) by (simp add: guardrail_holds_def observed_def)

text \<open>Kept candidates, each judged against the one kept before it, improve strictly.\<close>

lemma kept_chain_increasing:
  assumes "successively (\<lambda>b a. evaluate e a (Some b) = DecisionOutcome.KEEP_CANDIDATE) as"
  shows "sorted_wrt (\<lambda>b a. ia_primary_value b < ia_primary_value a) as"
proof -
  have "successively (\<lambda>b a. ia_primary_value b < ia_primary_value a) as"
    by (rule successively_mono [OF assms]) (rule kept_improves)
  then show ?thesis
    by (subst (asm) successively_conv_sorted_wrt) (auto intro: transpI)
qed

end

interpretation matrix: guarded_evaluator matrix_evaluate
  by unfold_locales (auto simp: keep_iff)

end
