(* ===== verification/Aggregate_Properties.thy ===== *)
theory Aggregate_Properties
  imports Samples Scenario_Outcomes Decision
begin

section \<open>Properties of aggregation, storage and decisions\<close>

text \<open>
  The numbers of an iteration (bounds, order among metrics, independence of the order of the
  outcomes), what they survive on their way through storage, and what it means that the decision
  matrix keeps a candidate.
\<close>

definition sample_outcome :: "string \<Rightarrow> GradeLabel list \<Rightarrow> string list \<Rightarrow> CaseOutcome" where
  "sample_outcome i ls fms = \<lparr>co_case_id = i, co_per_repetition_label = ls,
     co_per_repetition_score = map label_score ls, co_failure_modes = fms, co_cost_usd = 1 / 100,
     co_duration_ms = 10, co_cache_hit_count = 0, co_llm_call_count = 1, co_breakdowns = [],
     co_per_grader_label = [(''g'', ls)], co_failure_weights = [], co_critical_failure_modes = [''leak'']\<rparr>"

definition sample_outcomes :: "CaseOutcome list" where
  "sample_outcomes =
     [sample_outcome ''ec_1'' [GradeLabel.PASS, GradeLabel.PASS] [],
      sample_outcome ''ec_2'' [GradeLabel.FAIL, GradeLabel.PASS] [''wrong_tool'']]"

subsection \<open>Metrics\<close>

text \<open>Every metric the aggregator can compute, over any outcomes and against the worst-of
  label or a single grader, is a fraction in the unit interval.\<close>

theorem metric_unit:
  assumes "compute_metric m outcomes grader = Inr v"
  shows "0 \<le> v \<and> v \<le> 1"
  by (rule compute_metric_unit_aux) (rule assms)

theorem metric_unit_witness:
  "compute_metric ''pass^2'' sample_outcomes None = Inr (1 / 2) \<and> (0::rat) \<le> 1 / 2 \<and> (1 / 2::rat) \<le> 1"
proof -
  have c: "compute_metric ''pass^2'' sample_outcomes None = Inr (1 / 2)" by code_simp
  show ?thesis using metric_unit [OF c] c by blast
qed

text \<open>For every positive k, \<^verbatim>\<open>pass^k\<close> (all of the first k repetitions pass) never exceeds
  \<^verbatim>\<open>pass@k\<close> (at least one of them passes), errored cases included.\<close>

theorem pass_hat_le_pass_at:
  assumes "compute_metric (''pass@'' @ s) outcomes None = Inr at_k"
    and "compute_metric (''pass^'' @ s) outcomes None = Inr hat_k"
    and "parse_int s = Some k" "1 \<le> k"
  shows "hat_k \<le> at_k"
  by (rule pass_hat_le_pass_at_aux) (rule assms)+

theorem pass_hat_le_pass_at_witness:
  "compute_metric ''pass@2'' sample_outcomes None = Inr 1 \<and>
   compute_metric ''pass^2'' sample_outcomes None = Inr (1 / 2) \<and> (1 / 2::rat) \<le> 1"
proof -
  have a: "compute_metric (''pass@'' @ ''2'') sample_outcomes None = Inr 1" by code_simp
  have h: "compute_metric (''pass^'' @ ''2'') sample_outcomes None = Inr (1 / 2)" by code_simp
  have k: "parse_int ''2'' = Some 2" by code_simp
  show ?thesis using pass_hat_le_pass_at [OF a h k] a h by simp
qed

text \<open>A repetition counts as passed exactly when its execution did not error, at least one
  grader ran, and every grader that ran passed it; and it counts as errored when its execution
  did.\<close>

theorem repetition_label_worst_of:
  fixes c :: EvalCase
  assumes "i < length gpr" "length gpr \<le> length (cn_repetitions run)"
  defines "l \<equiv> co_per_repetition_label (outcome_for c run gpr) ! i"
  shows "(l = GradeLabel.PASS \<longleftrightarrow> rr_error (cn_repetitions run ! i) = None \<and> gpr ! i \<noteq> [] \<and>
            (\<forall>r \<in> set (gpr ! i). gr_label r = GradeLabel.PASS)) \<and>
         \<not> (rr_error (cn_repetitions run ! i) \<noteq> None \<and> l \<noteq> GradeLabel.ERROR)"
  using assms(1,2) pick_label_pass [of "gpr ! i"]
  by (auto simp: l_def outcome_for_labels split: if_splits)

definition sample_run :: "string option \<Rightarrow> CaseRun" where
  "sample_run err = \<lparr>cn_case_id = ''ec_1'',
     cn_repetitions = [\<lparr>rr_repetition = 0, rr_trace = sample_trace ''tr_1'' None None,
       rr_response = Some (sample_response ''refund'' None), rr_error = err\<rparr>],
     cn_simulator_cost_usd = 0, cn_simulator_turns = 0\<rparr>"

theorem repetition_label_worst_of_witness:
  "co_per_repetition_label (outcome_for (sample_case ''ec_1'' False) (sample_run None)
     [[grade_result ''a'' GradeLabel.PASS None [] None, grade_result ''b'' GradeLabel.FAIL None [''m''] None]]) ! 0
   \<noteq> GradeLabel.PASS"
  using repetition_label_worst_of [of 0 "[[grade_result ''a'' GradeLabel.PASS None [] None,
      grade_result ''b'' GradeLabel.FAIL None [''m''] None]]" "sample_run None" "sample_case ''ec_1'' False"]
  by (simp add: sample_run_def)

text \<open>Whenever time was spent, the published latency percentiles are ordered and lie between
  the fastest and the slowest case.\<close>

theorem latency_percentiles_ordered:
  assumes "0 < sum_list (map co_duration_ms outcomes)"
  shows "\<exists>a b c. map_of (build_guardrails outcomes) ''latency_ms_p50'' = Some a \<and>
    map_of (build_guardrails outcomes) ''latency_ms_p95'' = Some b \<and>
    map_of (build_guardrails outcomes) ''latency_ms_p99'' = Some c \<and> a \<le> b \<and> b \<le> c \<and>
    of_nat (Min (co_duration_ms ` set outcomes)) \<le> a \<and> c \<le> of_nat (Max (co_duration_ms ` set outcomes))"
proof -
  let ?xs = "sort (map (\<lambda>o'. of_nat (co_duration_ms o') :: rat) outcomes)"
  have ne: "outcomes \<noteq> []" using assms by auto
  then have ne': "?xs \<noteq> []" by (metis length_0_conv length_map length_sort)
  have mem: "hd ?xs \<in> set ?xs" "last ?xs \<in> set ?xs"
    by (rule hd_in_set [OF ne'], rule last_in_set [OF ne'])
  have lo: "of_nat (Min (co_duration_ms ` set outcomes)) \<le> hd ?xs" using mem(1) by auto
  have hi: "last ?xs \<le> of_nat (Max (co_duration_ms ` set outcomes))" using mem(2) by auto
  have "percentile ?xs (1 / 2) \<le> percentile ?xs (95 / 100)"
    "percentile ?xs (95 / 100) \<le> percentile ?xs (99 / 100)"
    by (rule percentile_mono_aux, simp_all)+
  moreover have "hd ?xs \<le> percentile ?xs (1 / 2)" "percentile ?xs (99 / 100) \<le> last ?xs"
    using percentile_bounds [of ?xs "1 / 2"] percentile_bounds [of ?xs "99 / 100"] ne' by simp_all
  ultimately show ?thesis
    using assms lo hi by (auto simp: build_guardrails_def Let_def)
qed

theorem latency_percentiles_ordered_witness:
  "\<exists>a b c. map_of (build_guardrails sample_outcomes) ''latency_ms_p50'' = Some a \<and>
    map_of (build_guardrails sample_outcomes) ''latency_ms_p95'' = Some b \<and>
    map_of (build_guardrails sample_outcomes) ''latency_ms_p99'' = Some c \<and> a \<le> b \<and> b \<le> c"
proof -
  have "0 < sum_list (map co_duration_ms sample_outcomes)"
    by (simp add: sample_outcomes_def sample_outcome_def)
  from latency_percentiles_ordered [OF this] show ?thesis by blast
qed

text \<open>C17. What an iteration is judged by - primary value, guardrails, reliability, error and failure
  rates, totals, failure-mode counts - does not depend on the order of the case outcomes.\<close>

theorem aggregate_order_independent:
  assumes "mset ys = mset xs" "aggregate_iteration xs pm rms grader = Inr a"
  shows "\<exists>b. aggregate_iteration ys pm rms grader = Inr b \<and> same_metrics a b"
  using aggregate_mset [of xs ys] assms by simp

theorem aggregate_order_independent_witness:
  "\<exists>b. aggregate_iteration (rev sample_outcomes) ''pass^2'' [''consistency_rate''] None = Inr b \<and>
       ia_primary_value b = 1 / 2"
proof -
  have p: "compute_metric ''pass^2'' sample_outcomes None = Inr (1 / 2)" by code_simp
  obtain r where r: "reliability_dict sample_outcomes [''consistency_rate''] = Inr r"
    by (simp add: reliability_dict_def compute_metric_def sample_outcomes_def is_pass_metric_def starts_with_def)
  obtain a where a: "aggregate_iteration sample_outcomes ''pass^2'' [''consistency_rate''] None = Inr a"
    using aggregate_total [OF p r] by blast
  have "ia_primary_value a = 1 / 2"
    using aggregate_fields(1) [OF a] p by (simp add: sample_outcomes_def)
  then show ?thesis
    using aggregate_order_independent [OF _ a, of "rev sample_outcomes"] by (auto simp: same_metrics_def)
qed

subsection \<open>The funnel and the confusion matrix\<close>

text \<open>A funnel entry counts every breakdown node that carries its key, and when the graders'
  nodes have fractional scores and non-negative weights, every mean score of the entry and of its
  descendants is a fraction in the unit interval.\<close>

theorem funnel_sound:
  assumes "(k, f) \<in> set (rollup_funnel outcomes)"
    and "list_all node_ok (concat (map co_breakdowns outcomes))"
  shows "fn_count f = count_if (\<lambda>n. bn_key n = k) (concat (map co_breakdowns outcomes)) \<and> funnel_ok f"
  using rollup_funnel_entry [OF assms(1)] assms(2) by (simp add: list_all_iff)

theorem funnel_sound_witness:
  "\<exists>f. (''n'', f) \<in> set (rollup_funnel [(sample_outcome ''ec_1'' [] [])\<lparr>co_breakdowns :=
        [BreakdownNode ''n'' None (Some 1) 1 [] [] [], BreakdownNode ''n'' None (Some 0) 2 [] [] []]\<rparr>]) \<and>
       fn_count f = 2 \<and> funnel_ok f"
proof -
  let ?os = "[(sample_outcome ''ec_1'' [] [])\<lparr>co_breakdowns :=
        [BreakdownNode ''n'' None (Some 1) 1 [] [] [], BreakdownNode ''n'' None (Some 0) 2 [] [] []]\<rparr>]"
  have f: "(''n'', FunnelNode ''n'' 2 (Some (1 / 3)) 3 [] [] []) \<in> set (rollup_funnel ?os)"
    by (simp add: rollup_funnel_def rollup_acc_def acc_at_def empty_acc_def dict_get_def)
  have "list_all node_ok (concat (map co_breakdowns ?os))" by (simp add: node_ok_simps)
  from funnel_sound [OF f this] f show ?thesis by auto
qed

text \<open>When the breakdowns of an iteration are the ones the classification grader emits for
  classes without an arrow, the confusion matrix of the iteration is the one of exactly those
  pairs of expected and predicted class.\<close>

theorem classification_reaches_matrix:
  assumes "concat (map co_breakdowns outcomes) =
      map (\<lambda>(e, p). classification_breakdown (if p = e then GradeLabel.PASS else GradeLabel.FAIL) p e (p = e)) pairs"
    and "\<forall>(e, p) \<in> set pairs. \<not> has_arrow e \<and> e \<noteq> [] \<and> p \<noteq> []"
  shows "rollup_confusion outcomes = (if pairs = [] then None else Some (confusion_from_pairs pairs))"
  by (rule rollup_confusion_cells) (rule assms)+

theorem classification_reaches_matrix_witness:
  "rollup_confusion [(sample_outcome ''ec_1'' [] [])\<lparr>co_breakdowns :=
      [classification_breakdown GradeLabel.FAIL ''b'' ''a'' False]\<rparr>] =
     Some (confusion_from_pairs [(''a'', ''b'')])"
proof -
  have "\<forall>(e, p) \<in> set [(''a'', ''b'')]. \<not> has_arrow e \<and> e \<noteq> [] \<and> p \<noteq> []" by simp
  from classification_reaches_matrix [OF _ this, of "[(sample_outcome ''ec_1'' [] [])\<lparr>co_breakdowns :=
      [classification_breakdown GradeLabel.FAIL ''b'' ''a'' False]\<rparr>]"]
  show ?thesis by simp
qed

subsection \<open>Storage\<close>

text \<open>C19. The persisted forms lose nothing: a case outcome, a grader's breakdown tree and a funnel
  node are read back as they were written.\<close>

theorem stored_forms_roundtrip:
  "case_outcome_from_fields (case_outcome_to_fields outcome) = Inr outcome \<and>
   breakdown_from_dict (breakdown_to_dict node) = Inr node \<and>
   funnel_from_dict (funnel_to_dict funnel) = Inr funnel"
  by (simp add: outcome_roundtrip_aux breakdown_roundtrip_aux funnel_roundtrip_aux)

text \<open>C5. A sharded iteration is judged like an in-process one: aggregating the rows the workers
  stored, in whatever order they come back, gives the metrics of aggregating the outcomes
  directly.\<close>

theorem sharded_metrics_equal:
  assumes "mset rows = mset (map case_outcome_to_fields outcomes)"
    and "aggregate_iteration outcomes pm rms grader = Inr a"
  shows "\<exists>b. aggregate_iteration_from_storage rows pm rms grader = Inr b \<and> same_metrics a b"
  by (rule sharded_equals_in_process) (rule assms)+

theorem sharded_metrics_equal_witness:
  "\<exists>b. aggregate_iteration_from_storage (rev (map case_outcome_to_fields sample_outcomes))
         ''pass^2'' [] None = Inr b \<and> ia_primary_value b = 1 / 2"
proof -
  have p: "compute_metric ''pass^2'' sample_outcomes None = Inr (1 / 2)" by code_simp
  have r: "reliability_dict sample_outcomes [] = Inr []" by (simp add: reliability_dict_def)
  obtain a where a: "aggregate_iteration sample_outcomes ''pass^2'' [] None = Inr a"
    using aggregate_total [OF p r] by blast
  have "ia_primary_value a = 1 / 2"
    using aggregate_fields(1) [OF a] p by (simp add: sample_outcomes_def)
  then show ?thesis
    using sharded_metrics_equal [OF _ a, of "rev (map case_outcome_to_fields sample_outcomes)"]
    by (auto simp: same_metrics_def)
qed

subsection \<open>Decisions\<close>


text \<open>Candidates kept one after the other, each judged against the one before it, have strictly
  increasing primary values.\<close>

theorem kept_candidates_improve:
  assumes "successively (\<lambda>b a. matrix_evaluate e a (Some b) = DecisionOutcome.KEEP_CANDIDATE) as"
  shows "sorted_wrt (\<lambda>b a. ia_primary_value b < ia_primary_value a) as"
  by (rule matrix.kept_chain_increasing) (rule assms)

definition sample_aggregate :: "rat \<Rightarrow> IterationAggregate" where
  "sample_aggregate v = (empty_aggregate ''pass^2'' None)\<lparr>ia_primary_value := v\<rparr>"

theorem kept_candidates_improve_witness:
  "sorted_wrt (\<lambda>b a. ia_primary_value b < ia_primary_value a)
     [sample_aggregate (1 / 2), sample_aggregate (3 / 4), sample_aggregate 1]"
proof -
  have "successively (\<lambda>b a. matrix_evaluate sample_experiment a (Some b) = DecisionOutcome.KEEP_CANDIDATE)
      [sample_aggregate (1 / 2), sample_aggregate (3 / 4), sample_aggregate 1]"
    by (simp add: keep_iff guardrail_holds_def observed_def sample_aggregate_def empty_aggregate_def)
  then show ?thesis by (rule kept_candidates_improve)
qed

text \<open>C12. The zero-tolerance gate: if the experiment guards \<^verbatim>\<open>critical_failure_count == 0\<close> and the
  matrix keeps an iteration over at least one case, then no case showed any failure mode it
  declares critical.\<close>

theorem critical_gate:
  assumes "matrix_evaluate e a baseline = DecisionOutcome.KEEP_CANDIDATE"
    and "aggregate_iteration outcomes pm rms grader = Inr a" "outcomes \<noteq> []"
    and "\<lparr>mt_name = ''critical_failure_count'', mt_operator = OpEQ, mt_value = 0\<rparr>
           \<in> set (target_guardrails (exp_target e))"
  shows "\<forall>o' \<in> set outcomes. set (co_failure_modes o') \<inter> set (co_critical_failure_modes o') = {}"
proof -
  have "map_of (ia_guardrails a) ''critical_failure_count'' = Some (of_nat (critical_failure_count outcomes))"
    using aggregate_fields(3) [OF assms(2,3)] by (simp add: build_guardrails_critical)
  with matrix.equality_guardrail_kept [OF assms(1,4)] have "critical_failure_count outcomes = 0" by simp
  then show ?thesis by (simp add: critical_failure_count_zero)
qed

theorem critical_gate_witness:
  "\<exists>a. aggregate_iteration sample_outcomes ''pass^2'' [] None = Inr a \<and>
     matrix_evaluate sample_experiment a None = DecisionOutcome.KEEP_CANDIDATE \<and>
     set (co_failure_modes (sample_outcomes ! 1)) \<inter> set (co_critical_failure_modes (sample_outcomes ! 1)) = {}"
proof -
  have p: "compute_metric ''pass^2'' sample_outcomes None = Inr (1 / 2)" by code_simp
  have r: "reliability_dict sample_outcomes [] = Inr []" by (simp add: reliability_dict_def)
  obtain a where a: "aggregate_iteration sample_outcomes ''pass^2'' [] None = Inr a"
    using aggregate_total [OF p r] by blast
  have ne: "sample_outcomes \<noteq> []" by (simp add: sample_outcomes_def)
  note f = aggregate_fields [OF a ne]
  have zero: "critical_failure_count sample_outcomes = 0" by code_simp
  have k: "matrix_evaluate sample_experiment a None = DecisionOutcome.KEEP_CANDIDATE"
    using f(1,3) p zero build_guardrails_critical [of sample_outcomes]
    by (simp add: keep_iff guardrail_holds_def observed_def sample_experiment_def)
  have g: "\<lparr>mt_name = ''critical_failure_count'', mt_operator = OpEQ, mt_value = 0\<rparr>
      \<in> set (target_guardrails (exp_target sample_experiment))"
    by (simp add: sample_experiment_def)
  show ?thesis
    using critical_gate [OF k a ne g] a k by (simp add: sample_outcomes_def)
qed

text \<open>Over no case at all the count is not published, so the guardrail holds for want of a value.\<close>

lemma critical_count_unpublished_when_empty:
  "\<exists>a. aggregate_iteration [] pm rms grader = Inr a \<and> observed a ''critical_failure_count'' = None"
  by (simp add: aggregate_iteration_def empty_aggregate_def observed_def)

text \<open>The matrix reads a larger primary value as an improvement whatever the target's operator: a
  latency target of at most 100 keeps a candidate whose latency has doubled.\<close>

lemma matrix_ignores_target_direction:
  "matrix_evaluate (sample_experiment\<lparr>exp_target := \<lparr>target_primary =
       \<lparr>mt_name = ''latency'', mt_operator = OpLE, mt_value = 100\<rparr>, target_guardrails = [],
       target_primary_grader = None\<rparr>\<rparr>) (sample_aggregate 180) (Some (sample_aggregate 90)) =
     DecisionOutcome.KEEP_CANDIDATE"
  by (simp add: keep_iff sample_aggregate_def empty_aggregate_def)

end
