(* ===== verification/Sampling.thy ===== *)
theory Sampling
  imports Case_Schema
begin

section \<open>optimization/sampling.py\<close>

text \<open>
  Which cases the loop may see.  Held-out cases are set aside first; the rest is reduced by the
  run's strategy.  \<^verbatim>\<open>random.Random(seed).sample(population, k)\<close> is an argument of the model
  (\<open>sample\<close>); \<open>fair_sample\<close> is what the standard library documents of it: \<open>k\<close> distinct members
  of the population.  The lemmas: nothing held out is ever selected, the order of the input is
  kept, the size is the target size exactly, and a stratum never gets less than the floor of its
  share.
\<close>

datatype Seed = IntSeed int | StrSeed string

type_synonym sampler = "Seed \<Rightarrow> nat list \<Rightarrow> nat \<Rightarrow> nat list"

definition fair_sample :: "sampler \<Rightarrow> bool" where
  "fair_sample sample \<longleftrightarrow>
     (\<forall>s pop k. distinct pop \<longrightarrow> k \<le> length pop \<longrightarrow>
        distinct (sample s pop k) \<and> length (sample s pop k) = k \<and> set (sample s pop k) \<subseteq> set pop)"

lemma fair_sampleD:
  "fair_sample sample \<Longrightarrow> distinct pop \<Longrightarrow> k \<le> length pop \<Longrightarrow>
     distinct (sample s pop k) \<and> length (sample s pop k) = k \<and> set (sample s pop k) \<subseteq> set pop"
  unfolding fair_sample_def by blast

record OptimizationSplit =
  os_optimization :: "EvalCase list"
  os_holdout :: "EvalCase list"

definition DEFAULT_SEED :: int where
  "DEFAULT_SEED = 0"

definition run_seed_or_default :: "RunSpec \<Rightarrow> int" where
  "run_seed_or_default r = (case run_seed r of None \<Rightarrow> DEFAULT_SEED | Some s \<Rightarrow> s)"

definition sample_fraction :: "SplitAllocation option \<Rightarrow> rat" where
  "sample_fraction sa = (case sa of None \<Rightarrow> 1 | Some s \<Rightarrow> sa_optimization s)"

text \<open>\<^verbatim>\<open>round(x)\<close>: to the nearest integer, halves to the even one.\<close>

definition py_round :: "rat \<Rightarrow> int" where
  "py_round q =
     (let f = \<lfloor>q\<rfloor>; d = q - of_int f
      in if d < 1 / 2 then f else if d > 1 / 2 then f + 1 else if even f then f else f + 1)"

definition target_size :: "nat \<Rightarrow> rat \<Rightarrow> nat" where
  "target_size pool_size fraction =
     (if pool_size = 0 then 0
      else
        let t = py_round (fraction * of_nat pool_size);
            t' = (if fraction > 0 \<and> t = 0 then 1 else t)
        in nat (max 0 (min (int pool_size) t')))"

text \<open>\<^verbatim>\<open>[c for i, c in enumerate(pool) if i in chosen]\<close>.\<close>

definition pick_indices :: "'a list \<Rightarrow> nat set \<Rightarrow> 'a list" where
  "pick_indices pool chosen = map snd (filter (\<lambda>(i, c). i \<in> chosen) (List.enumerate 0 pool))"

definition random_subset :: "sampler \<Rightarrow> EvalCase list \<Rightarrow> rat \<Rightarrow> int \<Rightarrow> EvalCase list" where
  "random_subset sample pool fraction seed =
     (let target = target_size (length pool) fraction
      in if target \<ge> length pool then pool
         else pick_indices pool (set (sample (IntSeed seed) [0..<length pool] target)))"

definition case_feature :: "EvalCase \<Rightarrow> string" where
  "case_feature c = ft_primary (tx_feature (ec_taxonomy c))"

definition group_strata :: "EvalCase list \<Rightarrow> nat list dict" where
  "group_strata pool =
     foldl (\<lambda>d (i, c). dict_modify d (case_feature c) [] (\<lambda>is. is @ [i])) [] (List.enumerate 0 pool)"

definition apportion :: "nat list dict \<Rightarrow> rat \<Rightarrow> nat \<Rightarrow> nat dict" where
  "apportion strata fraction target =
     (let raw = (\<lambda>key. fraction * of_nat (length (dict_get strata key [])));
          floors = (\<lambda>key. nat \<lfloor>raw key\<rfloor>);
          counts = map (\<lambda>(key, idxs). (key, floors key)) strata;
          assigned = sum_list (map snd counts);
          leftover = int target - int assigned;
          remainders = sort_key (\<lambda>key. - (raw key - of_nat (floors key))) (sort (dict_keys strata));
          favoured = (if leftover > 0 then take (nat leftover) remainders else [])
      in map (\<lambda>(key, n). (key, if key \<in> set favoured
                                then min (n + 1) (length (dict_get strata key [])) else n)) counts)"

definition stratum_chosen :: "sampler \<Rightarrow> int \<Rightarrow> nat dict \<Rightarrow> string \<times> nat list \<Rightarrow> nat list" where
  "stratum_chosen sample seed counts = (\<lambda>(key, idxs).
     let n = min (dict_get counts key 0) (length idxs)
     in if n = 0 then [] else sample (StrSeed (int_str seed @ '':'' @ key)) idxs n)"

definition stratified_subset :: "sampler \<Rightarrow> EvalCase list \<Rightarrow> rat \<Rightarrow> int \<Rightarrow> EvalCase list" where
  "stratified_subset sample pool fraction seed =
     (let target = target_size (length pool) fraction
      in if target \<ge> length pool then pool
         else if target = 0 then []
         else
           let strata = group_strata pool;
               counts = apportion strata fraction target;
               chosen = set (concat (map (stratum_chosen sample seed counts) strata));
               selected = pick_indices pool chosen
           in if length selected < target then
                let remaining = filter (\<lambda>i. i \<notin> chosen) [0..<length pool];
                    extra = sample (StrSeed (int_str seed @ '':__topup__'')) remaining
                              (min (target - length selected) (length remaining))
                in pick_indices pool (chosen \<union> set extra)
              else selected)"

definition select_optimization_set ::
    "sampler \<Rightarrow> EvalCase list \<Rightarrow> RunSpec \<Rightarrow> SplitAllocation option \<Rightarrow> OptimizationSplit" where
  "select_optimization_set sample cases run_spec split_allocation =
     (let holdout = filter ec_holdout cases;
          pool = filter (\<lambda>c. \<not> ec_holdout c) cases;
          fraction = sample_fraction split_allocation;
          seed = run_seed_or_default run_spec;
          selected = (case run_sample_strategy run_spec of
              SampleFull \<Rightarrow> pool
            | SampleRandomSubset \<Rightarrow> random_subset sample pool fraction seed
            | SampleStratified \<Rightarrow> stratified_subset sample pool fraction seed)
      in \<lparr>os_optimization = selected, os_holdout = holdout\<rparr>)"

subsection \<open>Order and membership\<close>

lemma pick_indices_nths: "pick_indices pool chosen = nths pool chosen"
proof -
  have "map snd (filter (\<lambda>(i, c). i \<in> chosen) (List.enumerate n pool)) = nths pool {i. i + n \<in> chosen}" for n
  proof (induction pool arbitrary: n)
    case (Cons x pool)
    have "{i. Suc i + n \<in> chosen} = {i. i + Suc n \<in> chosen}" by simp
    with Cons [of "Suc n"] show ?case by (simp add: nths_Cons)
  qed simp
  from this [of 0] show ?thesis by (simp add: pick_indices_def)
qed

lemma pick_indices_subseq: "subseq (pick_indices pool chosen) pool"
  by (simp add: pick_indices_nths nths_subseq)

lemma pick_indices_length:
  assumes "chosen \<subseteq> {..<length pool}"
  shows "length (pick_indices pool chosen) = card chosen"
proof -
  have "{i. i < length pool \<and> i \<in> chosen} = chosen" using assms by auto
  then show ?thesis by (simp add: pick_indices_nths length_nths)
qed

lemma random_subset_subseq: "subseq (random_subset sample pool f s) pool"
  by (simp add: random_subset_def Let_def pick_indices_subseq)

lemma stratified_subset_subseq: "subseq (stratified_subset sample pool f s) pool"
  by (simp add: stratified_subset_def Let_def pick_indices_subseq)

lemma selection_subseq:
  "subseq (os_optimization (select_optimization_set sample cases r sa)) (filter (\<lambda>c. \<not> ec_holdout c) cases)"
  by (simp add: select_optimization_set_def Let_def random_subset_subseq stratified_subset_subseq
      split: SampleStrategy.split)

lemma selection_holdout_disjoint:
  "c \<in> set (os_optimization (select_optimization_set sample cases r sa)) \<Longrightarrow>
     c \<in> set cases \<and> \<not> ec_holdout c"
proof -
  assume c: "c \<in> set (os_optimization (select_optimization_set sample cases r sa))"
  obtain y where "y \<in> set (filter (\<lambda>c. \<not> ec_holdout c) cases)" "c = y"
    by (rule list_emb_set [OF selection_subseq c])
  then show ?thesis by simp
qed

subsection \<open>Sizes\<close>

lemma py_round_bounds: "\<lfloor>q\<rfloor> \<le> py_round q" "py_round q \<le> \<lceil>q\<rceil>"
proof -
  have d: "0 \<le> q - of_int \<lfloor>q\<rfloor>" "q - of_int \<lfloor>q\<rfloor> < 1" by linarith+
  show "\<lfloor>q\<rfloor> \<le> py_round q" by (simp add: py_round_def Let_def)
  show "py_round q \<le> \<lceil>q\<rceil>"
  proof (cases "q = of_int \<lfloor>q\<rfloor>")
    case True
    then have "q - of_int \<lfloor>q\<rfloor> = 0" by simp
    then have "py_round q = \<lfloor>q\<rfloor>" by (simp add: py_round_def Let_def)
    then show ?thesis by (simp add: floor_le_ceiling)
  next
    case False
    then have "\<lceil>q\<rceil> = \<lfloor>q\<rfloor> + 1" by (metis ceiling_altdef)
    then show ?thesis by (simp add: py_round_def Let_def)
  qed
qed

lemma target_size_le: "target_size n f \<le> n"
  by (auto simp: target_size_def Let_def nat_le_iff)

lemma target_size_floor:
  assumes "0 \<le> f" "f \<le> 1"
  shows "\<lfloor>f * of_nat n\<rfloor> \<le> int (target_size n f)"
proof -
  let ?q = "f * of_nat n :: rat"
  have q: "0 \<le> ?q" "?q \<le> of_nat n" using assms by (simp_all add: mult_left_le_one_le)
  then have n: "\<lfloor>?q\<rfloor> \<le> int n" by linarith
  have f: "0 \<le> \<lfloor>?q\<rfloor>" "\<lfloor>?q\<rfloor> \<le> py_round ?q" using q(1) py_round_bounds(1) by simp_all
  show ?thesis
  proof (cases "n = 0")
    case False
    define t where "t = (if f > 0 \<and> py_round ?q = 0 then 1 else py_round ?q)"
    have p: "0 \<le> py_round ?q" using f by (rule order_trans)
    have "py_round ?q \<le> t" "0 \<le> t" using p by (simp_all add: t_def)
    then have "\<lfloor>?q\<rfloor> \<le> t" "0 \<le> t" using f(2) by (blast intro: order_trans)+
    moreover have "target_size n f = nat (max 0 (min (int n) t))"
      using False by (simp add: target_size_def Let_def t_def)
    ultimately show ?thesis using n by simp
  qed (simp add: target_size_def)
qed

lemma target_size_pos: "0 < f \<Longrightarrow> f \<le> 1 \<Longrightarrow> 0 < n \<Longrightarrow> 0 < target_size n f"
proof -
  assume a: "0 < f" "f \<le> 1" "0 < n"
  then have "0 \<le> \<lfloor>f * of_nat n\<rfloor>" by simp
  then have "0 \<le> py_round (f * of_nat n)" using py_round_bounds(1) order_trans by blast
  then show ?thesis using a by (simp add: target_size_def Let_def)
qed

lemma random_subset_length:
  assumes "fair_sample sample"
  shows "length (random_subset sample pool f s) = target_size (length pool) f"
proof (cases "target_size (length pool) f \<ge> length pool")
  case True
  then show ?thesis using target_size_le [of "length pool" f] by (simp add: random_subset_def Let_def)
next
  case False
  let ?x = "sample (IntSeed s) [0..<length pool] (target_size (length pool) f)"
  have "distinct ?x \<and> length ?x = target_size (length pool) f \<and> set ?x \<subseteq> set [0..<length pool]"
    using assms False unfolding fair_sample_def
    by (metis diff_zero distinct_upt length_upt nat_le_linear)
  then show ?thesis
    using False pick_indices_length [of "set ?x" pool]
    by (simp add: random_subset_def Let_def distinct_card lessThan_atLeast0)
qed

text \<open>The strata partition the indices of the pool by feature.\<close>

lemma group_strata_fold:
  assumes "distinct (dict_keys d)"
  defines "step \<equiv> \<lambda>d (i, c). dict_modify d (case_feature c) [] (\<lambda>is. is @ [i])"
  shows "distinct (dict_keys (foldl step d ics)) \<and>
    dict_get (foldl step d ics) k [] =
      dict_get d k [] @ map fst (filter (\<lambda>(i, c). case_feature c = k) ics) \<and>
    set (dict_keys (foldl step d ics)) = set (dict_keys d) \<union> (\<lambda>(i, c). case_feature c) ` set ics"
  using assms(1)
proof (induction ics arbitrary: d)
  case (Cons x ics)
  obtain i c where x: "x = (i, c)" by (cases x)
  have "distinct (dict_keys (step d x))" using Cons.prems by (simp add: step_def x distinct_dict_keys_modify)
  from Cons.IH [OF this] show ?case
    by (auto simp: x step_def dict_get_modify dict_keys_modify)
qed simp

definition stratum :: "EvalCase list \<Rightarrow> string \<Rightarrow> nat list" where
  "stratum pool k = map fst (filter (\<lambda>(i, c). case_feature c = k) (List.enumerate 0 pool))"

lemma group_strata_facts:
  "distinct (dict_keys (group_strata pool))"
  "dict_get (group_strata pool) k [] = stratum pool k"
  "set (dict_keys (group_strata pool)) = case_feature ` set pool"
proof -
  have "(\<lambda>(i, c). case_feature c) ` set (List.enumerate 0 pool) = case_feature ` snd ` set (List.enumerate 0 pool)"
    by force
  also have "\<dots> = case_feature ` set pool" by (metis map_snd_enumerate set_map)
  finally show "distinct (dict_keys (group_strata pool))" "dict_get (group_strata pool) k [] = stratum pool k"
    "set (dict_keys (group_strata pool)) = case_feature ` set pool"
    using group_strata_fold [of "[]" "List.enumerate 0 pool" k]
    by (simp_all add: group_strata_def stratum_def dict_keys_def)
qed

lemma set_stratum: "set (stratum pool k) = {i. i < length pool \<and> case_feature (pool ! i) = k}"
  by (auto simp: stratum_def in_set_enumerate_eq image_iff)

lemma stratum_Nil:
  assumes "k \<notin> set (dict_keys (group_strata pool))"
  shows "stratum pool k = []"
proof -
  have "i \<notin> set (stratum pool k)" for i
  proof
    assume "i \<in> set (stratum pool k)"
    then have "i < length pool" "case_feature (pool ! i) = k" by (simp_all add: set_stratum)
    then have "k \<in> case_feature ` set pool" using nth_mem by blast
    with assms show False by (simp add: group_strata_facts(3))
  qed
  then show ?thesis by (meson last_in_set)
qed

lemma distinct_stratum: "distinct (stratum pool k)"
proof -
  have "distinct (map fst (List.enumerate 0 pool))" by simp
  then show ?thesis unfolding stratum_def using distinct_map_filter by fastforce
qed

lemma group_strata_entries: "group_strata pool = map (\<lambda>k. (k, stratum pool k)) (dict_keys (group_strata pool))"
proof (rule nth_equalityI)
  fix i assume i: "i < length (group_strata pool)"
  obtain k v where kv: "group_strata pool ! i = (k, v)" by (cases "group_strata pool ! i")
  have "(k, v) \<in> set (group_strata pool)" using i kv by (metis nth_mem)
  then have "map_of (group_strata pool) k = Some v"
    using group_strata_facts(1) [of pool] by (simp add: dict_keys_def)
  then have "v = stratum pool k" using group_strata_facts(2) [of pool k] by (simp add: dict_get_def)
  with i kv show "group_strata pool ! i = map (\<lambda>k. (k, stratum pool k)) (dict_keys (group_strata pool)) ! i"
    by (simp add: dict_keys_def)
qed (simp add: dict_keys_def)

definition share :: "EvalCase list \<Rightarrow> rat \<Rightarrow> string \<Rightarrow> nat" where
  "share pool f k = nat \<lfloor>f * of_nat (length (stratum pool k))\<rfloor>"

lemma share_le: "0 \<le> f \<Longrightarrow> f \<le> 1 \<Longrightarrow> share pool f k \<le> length (stratum pool k)"
  using mult_left_le_one_le [of "of_nat (length (stratum pool k)) :: rat" f]
  by (simp add: share_def nat_le_iff floor_le_iff)

text \<open>The apportionment: never below the floor, never above the stratum, and never more than the
  target in total.\<close>

definition favoured :: "EvalCase list \<Rightarrow> rat \<Rightarrow> nat \<Rightarrow> string list" where
  "favoured pool f target =
     (let keys = dict_keys (group_strata pool);
          leftover = int target - int (sum_list (map (share pool f) keys));
          remainders = sort_key (\<lambda>key. - (f * of_nat (length (stratum pool key)) - of_nat (share pool f key)))
            (sort keys)
      in if leftover > 0 then take (nat leftover) remainders else [])"

definition seats :: "EvalCase list \<Rightarrow> rat \<Rightarrow> nat \<Rightarrow> string \<Rightarrow> nat" where
  "seats pool f target k =
     (if k \<in> set (favoured pool f target) then min (share pool f k + 1) (length (stratum pool k))
      else share pool f k)"

lemma apportion_seats:
  "apportion (group_strata pool) f target =
     map (\<lambda>k. (k, seats pool f target k)) (dict_keys (group_strata pool))"
proof -
  have m: "map (\<lambda>(key, idxs). (key, share pool f key)) (group_strata pool) =
      map (\<lambda>k. (k, share pool f k)) (dict_keys (group_strata pool))"
    by (simp add: dict_keys_def case_prod_beta)
  show ?thesis
    unfolding apportion_def Let_def group_strata_facts(2) share_def [symmetric] m
    by (simp add: seats_def favoured_def Let_def comp_def)
qed

lemma seats_ge_share: "0 \<le> f \<Longrightarrow> f \<le> 1 \<Longrightarrow> share pool f k \<le> seats pool f target k"
  using share_le [of f pool k] by (simp add: seats_def)

lemma seats_le: "0 \<le> f \<Longrightarrow> f \<le> 1 \<Longrightarrow> seats pool f target k \<le> length (stratum pool k)"
  using share_le [of f pool k] by (simp add: seats_def)

lemma strata_total:
  "(\<Sum>k \<leftarrow> dict_keys (group_strata pool). length (stratum pool k)) = length pool"
proof -
  have "(\<Sum>k \<leftarrow> dict_keys (group_strata pool). length (stratum pool k)) =
        (\<Sum>k \<in> set (dict_keys (group_strata pool)). card (set (stratum pool k)))"
    using group_strata_facts(1) [of pool] by (simp add: sum_list_distinct_conv_sum_set distinct_card distinct_stratum)
  also have "\<dots> = card (\<Union>k \<in> set (dict_keys (group_strata pool)). set (stratum pool k))"
    by (rule card_UN_disjoint [symmetric]) (auto simp: set_stratum)
  also have "(\<Union>k \<in> set (dict_keys (group_strata pool)). set (stratum pool k)) = {..<length pool}"
    by (auto simp: set_stratum group_strata_facts(3) intro: nth_mem)
  finally show ?thesis by simp
qed

lemma share_total:
  assumes "0 \<le> f" "f \<le> 1"
  shows "sum_list (map (share pool f) (dict_keys (group_strata pool))) \<le> target_size (length pool) f"
proof -
  have "(of_nat (sum_list (map (share pool f) ks)) :: rat) \<le> f * of_nat (\<Sum>k \<leftarrow> ks. length (stratum pool k))" for ks
  proof (induction ks)
    case (Cons k ks)
    have "(of_nat (share pool f k) :: rat) \<le> f * of_nat (length (stratum pool k))"
      using assms(1) by (simp add: share_def of_nat_nat)
    with Cons show ?case by (simp add: distrib_left)
  qed simp
  from this [of "dict_keys (group_strata pool)"]
  have "(of_nat (sum_list (map (share pool f) (dict_keys (group_strata pool)))) :: rat) \<le> f * of_nat (length pool)"
    by (simp add: strata_total)
  then have "int (sum_list (map (share pool f) (dict_keys (group_strata pool)))) \<le> \<lfloor>f * of_nat (length pool)\<rfloor>"
    by (simp add: le_floor_iff)
  then show ?thesis using target_size_floor [OF assms, of "length pool"] by linarith
qed

lemma seats_total:
  assumes "0 \<le> f" "f \<le> 1"
  shows "sum_list (map (seats pool f (target_size (length pool) f)) (dict_keys (group_strata pool)))
    \<le> target_size (length pool) f"
proof -
  let ?t = "target_size (length pool) f" and ?ks = "dict_keys (group_strata pool)"
  have one: "seats pool f ?t k \<le> share pool f k + (if k \<in> set (favoured pool f ?t) then 1 else 0)" for k
    by (simp add: seats_def)
  have "sum_list (map (seats pool f ?t) ks) \<le>
      sum_list (map (share pool f) ks) + (\<Sum>k \<leftarrow> ks. if k \<in> set (favoured pool f ?t) then 1 else 0)" for ks
  proof (induction ks)
    case (Cons k ks)
    then show ?case using one [of k] by simp
  qed simp
  from this [of ?ks] have "sum_list (map (seats pool f ?t) ?ks) \<le>
      sum_list (map (share pool f) ?ks) + (\<Sum>k \<leftarrow> ?ks. if k \<in> set (favoured pool f ?t) then 1 else 0)" .
  moreover have "(\<Sum>k \<leftarrow> ?ks. if k \<in> set (favoured pool f ?t) then 1 else (0::nat)) =
      card (set ?ks \<inter> set (favoured pool f ?t))"
    using group_strata_facts(1) [of pool]
    by (simp add: sum_list_distinct_conv_sum_set sum.If_cases)
  moreover have "card (set ?ks \<inter> set (favoured pool f ?t)) \<le> length (favoured pool f ?t)"
    by (meson card_length card_mono finite_set inf_le2 le_trans)
  moreover have "length (favoured pool f ?t) \<le> ?t - sum_list (map (share pool f) ?ks)"
    by (auto simp: favoured_def Let_def)
  ultimately show ?thesis
    using share_total [OF assms, of pool] by linarith
qed

lemma stratum_chosen_facts:
  fixes t s
  assumes "fair_sample sample" "0 \<le> f" "f \<le> 1" "k \<in> set (dict_keys (group_strata pool))"
  defines "xs \<equiv> stratum_chosen sample s (apportion (group_strata pool) f t) (k, stratum pool k)"
  shows "distinct xs" "length xs = seats pool f t k" "set xs \<subseteq> set (stratum pool k)"
proof -
  have "dict_get (apportion (group_strata pool) f t) k 0 = seats pool f t k"
    using assms(4) by (simp add: apportion_seats dict_get_def map_of_map_restrict)
  then have m: "min (dict_get (apportion (group_strata pool) f t) k 0) (length (stratum pool k)) = seats pool f t k"
    using seats_le [OF assms(2,3)] by simp
  have "distinct xs \<and> length xs = seats pool f t k \<and> set xs \<subseteq> set (stratum pool k)"
    using assms(1) seats_le [OF assms(2,3), of pool t k] distinct_stratum [of pool k]
    by (auto simp: xs_def stratum_chosen_def Let_def m fair_sample_def)
  then show "distinct xs" "length xs = seats pool f t k" "set xs \<subseteq> set (stratum pool k)" by auto
qed

definition strata_chosen :: "sampler \<Rightarrow> EvalCase list \<Rightarrow> rat \<Rightarrow> nat \<Rightarrow> int \<Rightarrow> nat set" where
  "strata_chosen sample pool f t s =
     set (concat (map (stratum_chosen sample s (apportion (group_strata pool) f t)) (group_strata pool)))"

lemma strata_chosen_UN:
  "strata_chosen sample pool f t s =
     (\<Union>k \<in> set (dict_keys (group_strata pool)).
        set (stratum_chosen sample s (apportion (group_strata pool) f t) (k, stratum pool k)))"
  unfolding strata_chosen_def by (subst (2) group_strata_entries) simp

lemma strata_chosen_facts:
  assumes "fair_sample sample" "0 \<le> f" "f \<le> 1"
  shows "strata_chosen sample pool f t s \<subseteq> {..<length pool}"
    and "card (strata_chosen sample pool f t s) =
           sum_list (map (seats pool f t) (dict_keys (group_strata pool)))"
    and "card (strata_chosen sample pool f t s \<inter> set (stratum pool k)) \<ge> share pool f k"
proof -
  let ?c = "\<lambda>k. set (stratum_chosen sample s (apportion (group_strata pool) f t) (k, stratum pool k))"
  let ?K = "set (dict_keys (group_strata pool))"
  note sc = stratum_chosen_facts [OF assms]
  show sub: "strata_chosen sample pool f t s \<subseteq> {..<length pool}"
    unfolding strata_chosen_UN using sc(3) by (fastforce simp: set_stratum)
  have "card (strata_chosen sample pool f t s) = (\<Sum>k \<in> ?K. card (?c k))"
    unfolding strata_chosen_UN
  proof (rule card_UN_disjoint)
    show "\<forall>i \<in> ?K. \<forall>j \<in> ?K. i \<noteq> j \<longrightarrow> ?c i \<inter> ?c j = {}"
    proof (intro ballI impI)
      fix i j assume ij: "i \<in> ?K" "j \<in> ?K" "i \<noteq> j"
      have "set (stratum pool i) \<inter> set (stratum pool j) = {}" using ij(3) by (auto simp: set_stratum)
      then show "?c i \<inter> ?c j = {}" using sc(3) [OF ij(1)] sc(3) [OF ij(2)] by blast
    qed
  qed simp_all
  also have "\<dots> = (\<Sum>k \<in> ?K. seats pool f t k)"
    by (rule sum.cong) (simp_all add: distinct_card sc)
  finally show "card (strata_chosen sample pool f t s) =
      sum_list (map (seats pool f t) (dict_keys (group_strata pool)))"
    using group_strata_facts(1) [of pool] by (simp add: sum_list_distinct_conv_sum_set)
  show "card (strata_chosen sample pool f t s \<inter> set (stratum pool k)) \<ge> share pool f k"
  proof (cases "k \<in> ?K")
    case True
    then have "?c k \<subseteq> strata_chosen sample pool f t s \<inter> set (stratum pool k)"
      using sc(3) by (auto simp: strata_chosen_UN)
    then have "card (?c k) \<le> card (strata_chosen sample pool f t s \<inter> set (stratum pool k))"
      by (intro card_mono) simp_all
    then show ?thesis
      using seats_ge_share [OF assms(2,3), of pool k t] True by (simp add: distinct_card sc)
  next
    case False
    then have "stratum pool k = []" by (rule stratum_Nil)
    then show ?thesis by (simp add: share_def)
  qed
qed

text \<open>The stratified subset is the choice of the strata, topped up to the target.\<close>

lemma stratified_subset_chosen:
  assumes "fair_sample sample" "0 \<le> f" "f \<le> 1" "target_size (length pool) f < length pool"
  shows "\<exists>chosen. stratified_subset sample pool f s = pick_indices pool chosen \<and>
     chosen \<subseteq> {..<length pool} \<and> card chosen = target_size (length pool) f \<and>
     (\<forall>k. card (chosen \<inter> set (stratum pool k)) \<ge> share pool f k)"
proof (cases "target_size (length pool) f = 0")
  case True
  have "share pool f k = 0" for k
  proof (cases "k \<in> set (dict_keys (group_strata pool))")
    case k: True
    then have "share pool f k \<le> sum_list (map (share pool f) (dict_keys (group_strata pool)))"
      by (intro member_le_sum_list) simp_all
    with share_total [OF assms(2,3), of pool] True show ?thesis by linarith
  next
    case False
    then have "stratum pool k = []" by (rule stratum_Nil)
    then show ?thesis by (simp add: share_def)
  qed
  with True assms(4) show ?thesis
    by (intro exI [of _ "{}"]) (auto simp: stratified_subset_def pick_indices_def)
next
  case False
  let ?t = "target_size (length pool) f"
  let ?c = "strata_chosen sample pool f ?t s"
  note sc = strata_chosen_facts [OF assms(1-3), where pool = pool and t = ?t and s = s]
  have le: "card ?c \<le> ?t" using sc(2) seats_total [OF assms(2,3), of pool] by simp
  have len: "length (pick_indices pool ?c) = card ?c" by (rule pick_indices_length [OF sc(1)])
  have c: "set (concat (map (stratum_chosen sample s (apportion (group_strata pool) f ?t)) (group_strata pool))) = ?c"
    by (simp add: strata_chosen_def)
  show ?thesis
  proof (cases "card ?c < ?t")
    case short: True
    let ?rem = "filter (\<lambda>i. i \<notin> ?c) [0..<length pool]"
    let ?n = "min (?t - card ?c) (length ?rem)"
    let ?e = "sample (StrSeed (int_str s @ '':__topup__'')) ?rem ?n"
    have rem: "length ?rem = length pool - card ?c"
    proof -
      have "length ?rem = card (set ?rem)" by (rule distinct_card [symmetric]) simp
      also have "set ?rem = {..<length pool} - ?c" by auto
      finally show ?thesis using sc(1) by (simp add: card_Diff_subset finite_subset)
    qed
    then have n: "?n = ?t - card ?c" using assms(4) by simp
    have e: "distinct ?e \<and> length ?e = ?n \<and> set ?e \<subseteq> set ?rem"
      by (rule fair_sampleD [OF assms(1)]) simp_all
    have "stratified_subset sample pool f s = pick_indices pool (?c \<union> set ?e)"
      unfolding stratified_subset_def Let_def c len using assms(4) False short by simp
    moreover have "?c \<union> set ?e \<subseteq> {..<length pool}" using e sc(1) by auto
    moreover have "card (?c \<union> set ?e) = ?t"
    proof -
      have "card (?c \<union> set ?e) = card ?c + card (set ?e)"
        using e sc(1) by (intro card_Un_disjoint) (auto intro: finite_subset)
      also have "\<dots> = ?t" using e n short by (simp add: distinct_card)
      finally show ?thesis .
    qed
    moreover have "share pool f k \<le> card ((?c \<union> set ?e) \<inter> set (stratum pool k))" for k
      using sc(3) [of k] card_mono [of "(?c \<union> set ?e) \<inter> set (stratum pool k)" "?c \<inter> set (stratum pool k)"]
      by (auto intro: order_trans)
    ultimately show ?thesis by blast
  next
    case full: False
    then have "stratified_subset sample pool f s = pick_indices pool ?c"
      unfolding stratified_subset_def Let_def c len using assms(4) False by simp
    with full le sc show ?thesis by (intro exI [of _ ?c]) auto
  qed
qed

end
