(* ===== verification/Proposers.thy ===== *)
theory Proposers
  imports Iteration_Schema Grading
begin

section \<open>optimization/proposers.py\<close>

text \<open>
  Where candidate configurations come from: a fixed list (manual), the cartesian product of the
  search space (grid), independent samples (random), and the hypotheses of error analysis or an
  LLM's answer (llm).  Each proposer is a state and a \<^verbatim>\<open>propose\<close> that answers a proposal or an
  exception together with the state it leaves.  The locale \<open>contract_proposer\<close> is the promise all
  of them make - a proposal that is returned is well-formed and within the experiment's editable
  contract - with what follows for a whole run; every proposer is an instance of it.

  The random number generator (\<^verbatim>\<open>random.Random\<close>), the LLM behind the adapter and Python's parsing
  of a float literal are arguments.  The rendered part of a hypothesis text is left out
  (\<open>no_text\<close>), its fixed part is kept.
\<close>

record HypothesisRecord = BaseEntity +
  hy_experiment_id :: string
  hy_targets_mode_slug :: string
  hy_statement :: string
  hy_suggested_parameters :: "json dict"
  hy_consumed_by_iteration :: "nat option"

record ProposerContext =
  pc_iteration_index :: nat
  pc_history :: "IterationRecord list"
  pc_failure_modes :: "string list"
  pc_pending_hypotheses :: "HypothesisRecord list"

definition validated :: "Proposal \<Rightarrow> Experiment \<Rightarrow> Proposal result" where
  "validated p e = bind_result (validate_against p e) (\<lambda>_. Inr p)"

subsection \<open>The contract\<close>

definition acceptable :: "Experiment \<Rightarrow> Proposal \<Rightarrow> bool" where
  "acceptable e p \<longleftrightarrow> valid_Proposal p \<and> respects_contract e p"

lemma validated_Inr: "validated p e = Inr q \<longleftrightarrow> q = p \<and> respects_contract e p"
  by (auto simp: validated_def bind_result_Inr_iff validate_against_Inr)

locale contract_proposer =
  fixes propose :: "'s \<Rightarrow> Experiment \<Rightarrow> ProposerContext \<Rightarrow> Proposal result \<times> 's"
    and state_ok :: "'s \<Rightarrow> bool"
  assumes proposes_acceptable: "state_ok s \<Longrightarrow> propose s e ctx = (Inr p, s') \<Longrightarrow> acceptable e p"
    and keeps_state_ok: "state_ok s \<Longrightarrow> propose s e ctx = (r, s') \<Longrightarrow> state_ok s'"
begin

text \<open>The proposals of a run, one per context, until the proposer raises.\<close>

fun proposals :: "'s \<Rightarrow> Experiment \<Rightarrow> ProposerContext list \<Rightarrow> Proposal list" where
  "proposals s e [] = []"
| "proposals s e (ctx # ctxs) = (case propose s e ctx of
     (Inl err, s') \<Rightarrow> []
   | (Inr p, s') \<Rightarrow> p # proposals s' e ctxs)"

lemma run_acceptable: "state_ok s \<Longrightarrow> p \<in> set (proposals s e ctxs) \<Longrightarrow> acceptable e p"
proof (induction ctxs arbitrary: s)
  case (Cons ctx ctxs)
  obtain r s' where r: "propose s e ctx = (r, s')" by (cases "propose s e ctx")
  show ?case
  proof (cases r)
    case (Inl err)
    with r Cons.prems show ?thesis by simp
  next
    case (Inr q)
    with r Cons.prems Cons.IH [OF keeps_state_ok [OF Cons.prems(1) r]] proposes_acceptable [of s e ctx q s']
    show ?thesis by auto
  qed
qed simp

lemma gated_key_needs_flag:
  assumes "state_ok s" "propose s e ctx = (Inr p, s')" "key \<in> set (dict_keys (pp_parameters p))"
    and "map_of PROPOSAL_KEY_TO_EDITABLE key = Some flag"
  shows "editable_flag (exp_editable e) flag"
  using proposes_acceptable [OF assms(1,2)] assms(3,4)
  by (auto simp: acceptable_def respects_contract_def)

end

subsection \<open>Manual\<close>

datatype ManualEntry = EntryProposal Proposal | EntryDict "json dict"

definition coerce_manual :: "ManualEntry \<Rightarrow> Proposal result" where
  "coerce_manual entry = (case entry of
     EntryProposal p \<Rightarrow> Inr p
   | EntryDict d \<Rightarrow>
       let h = dict_get d ''hypothesis'' JNull
       in bind_result (if \<not> py_truthy h then Inr ''manual proposal'' else json_string h) (\<lambda>hypothesis.
            make_Proposal (filter (\<lambda>(k, _). k \<noteq> ''hypothesis'') d) hypothesis (1 / 2) []))"

definition make_ManualProposer :: "ManualEntry list \<Rightarrow> Proposal list result" where
  "make_ManualProposer entries =
     (if entries = [] then Inl ValueError else map_result coerce_manual entries)"

definition manual_propose :: "Proposal list \<Rightarrow> Experiment \<Rightarrow> ProposerContext \<Rightarrow> Proposal result \<times> Proposal list" where
  "manual_propose ps e ctx =
     (if pc_iteration_index ctx \<ge> length ps then (Inl SearchSpaceExhaustedError, ps)
      else (validated (ps ! pc_iteration_index ctx) e, ps))"

interpretation manual: contract_proposer manual_propose "list_all valid_Proposal"
  by unfold_locales
    (auto simp: manual_propose_def acceptable_def validated_Inr list_all_length split: if_splits)

lemma make_ManualProposer_valid:
  assumes "make_ManualProposer entries = Inr ps" "\<And>p. EntryProposal p \<in> set entries \<Longrightarrow> valid_Proposal p"
  shows "list_all valid_Proposal ps"
proof -
  have "list_all2 (\<lambda>x y. coerce_manual x = Inr y) entries ps"
    using assms(1) by (auto simp: make_ManualProposer_def dest: map_result_InrD split: if_splits)
  moreover have "valid_Proposal p" if "coerce_manual x = Inr p" "x \<in> set entries" for x p
    using that assms(2)
    by (cases x) (auto simp: coerce_manual_def Let_def bind_result_Inr_iff dest: make_Proposal_Inr)
  ultimately show ?thesis
    by (auto simp: list_all2_conv_all_nth list_all_length)
qed

subsection \<open>Grid\<close>

definition grid_combinations :: "json dict \<Rightarrow> json dict list" where
  "grid_combinations search_space =
     (let lists = List.map_filter (\<lambda>(k, v). map_option (\<lambda>xs. (k, xs)) (as_list v)) search_space;
          constants = filter (\<lambda>(k, v). as_list v = None) search_space
      in if lists = [] then (if constants \<noteq> [] then [constants] else [])
         else map (\<lambda>combo. foldl (\<lambda>d (k, v). AList.update k v d) constants (zip (map fst lists) combo))
                (product_lists (map snd lists)))"

type_synonym GridProposer = "json dict list option"

definition compute_combos :: "Experiment \<Rightarrow> json dict list result" where
  "compute_combos e =
     (let param_combos = grid_combinations (ss_model_params (exp_search_space e));
          agents = ss_agents (exp_search_space e)
      in if param_combos = [] \<and> agents = [] then Inl ValueError
         else if agents = [] then Inr (map (\<lambda>p. [(''model_params'', JObj p)]) param_combos)
         else if param_combos = [] then Inr (map (\<lambda>a. [(''agent'', JObj a)]) agents)
         else Inr (concat (map (\<lambda>a. map (\<lambda>p. [(''agent'', JObj a), (''model_params'', JObj p)])
                                      param_combos) agents)))"

definition ensure_combos :: "GridProposer \<Rightarrow> Experiment \<Rightarrow> json dict list result \<times> GridProposer" where
  "ensure_combos g e = (case g of
     Some combos \<Rightarrow> (Inr combos, g)
   | None \<Rightarrow> (case compute_combos e of
                Inl err \<Rightarrow> (Inl err, None)
              | Inr combos \<Rightarrow> (Inr combos, Some combos)))"

definition grid_size :: "GridProposer \<Rightarrow> Experiment \<Rightarrow> nat result \<times> GridProposer" where
  "grid_size g e = (case ensure_combos g e of (r, g') \<Rightarrow> (bind_result r (\<lambda>cs. Inr (length cs)), g'))"

definition grid_propose :: "GridProposer \<Rightarrow> Experiment \<Rightarrow> ProposerContext \<Rightarrow> Proposal result \<times> GridProposer" where
  "grid_propose g e ctx = (case ensure_combos g e of
     (Inl err, g') \<Rightarrow> (Inl err, g')
   | (Inr combos, g') \<Rightarrow>
       (if pc_iteration_index ctx \<ge> length combos then Inl SearchSpaceExhaustedError
        else bind_result
          (make_Proposal (combos ! pc_iteration_index ctx)
             (''grid['' @ nat_str (pc_iteration_index ctx) @ '']: '' @ no_text) (1 / 2) [])
          (\<lambda>p. validated p e), g'))"

lemma built_acceptable:
  "bind_result (make_Proposal params hyp conf inputs) (\<lambda>p. validated p e) = Inr q \<Longrightarrow>
     acceptable e q \<and> pp_parameters q = params \<and> pp_hypothesis q = hyp"
  by (auto simp: bind_result_Inr_iff validated_Inr acceptable_def dest: make_Proposal_Inr)

interpretation grid: contract_proposer grid_propose "\<lambda>_. True"
proof unfold_locales
  fix g e ctx p g'
  assume "grid_propose g e ctx = (Inr p, g')"
  then show "acceptable e p"
    by (auto simp: grid_propose_def dest: built_acceptable split: prod.splits sum.splits if_splits)
qed

text \<open>The size of the grid, and that iteration \<open>i\<close> of a fresh grid proposes combination \<open>i\<close>.\<close>

definition list_values :: "json dict \<Rightarrow> json list list" where
  "list_values d = List.map_filter (\<lambda>(k, v). as_list v) d"

lemma map_filter_pair_snd:
  "map snd (List.map_filter (\<lambda>(k, v). map_option (\<lambda>xs. (k, xs)) (as_list v)) d) = list_values d"
  by (induction d) (auto simp: list_values_def List.map_filter_simps split: option.splits)

lemma length_product_lists: "length (product_lists xss) = prod_list (map length xss)"
  by (induction xss) (simp_all add: length_concat comp_def sum_list_triv)

lemma grid_combinations_length:
  assumes "list_values d \<noteq> []"
  shows "length (grid_combinations d) = prod_list (map length (list_values d))"
proof -
  have "List.map_filter (\<lambda>(k, v). map_option (\<lambda>xs. (k, xs)) (as_list v)) d \<noteq> []"
    using assms map_filter_pair_snd [of d] by auto
  then show ?thesis
    by (simp add: grid_combinations_def Let_def map_filter_pair_snd length_product_lists)
qed

lemma compute_combos_length:
  assumes "compute_combos e = Inr combos"
  shows "length combos =
    (let ps = length (grid_combinations (ss_model_params (exp_search_space e)));
         as = length (ss_agents (exp_search_space e))
     in if as = 0 then ps else if ps = 0 then as else as * ps)"
  using assms
  by (auto simp: compute_combos_def Let_def length_concat comp_def sum_list_triv split: if_splits)

text \<open>A combination gives every key of the search space a value it allows.\<close>

definition allowed_value :: "json dict \<Rightarrow> string \<Rightarrow> json \<Rightarrow> bool" where
  "allowed_value d k v \<longleftrightarrow>
     (case map_of d k of None \<Rightarrow> False
      | Some spec \<Rightarrow> (case as_list spec of None \<Rightarrow> v = spec | Some xs \<Rightarrow> v \<in> set xs))"

lemma foldl_update_map_of:
  "map_of (foldl (\<lambda>d (k, v). AList.update k v d) d kvs) = map_of d ++ map_of (rev kvs)"
  by (induction kvs arbitrary: d) (auto simp: update_conv' map_add_assoc)

lemma product_lists_set: "combo \<in> set (product_lists xss) \<longleftrightarrow> list_all2 (\<lambda>v xs. v \<in> set xs) combo xss"
  by (induction xss arbitrary: combo) (auto simp: list_all2_Cons2)

lemma grid_combination_allowed:
  assumes "distinct (dict_keys d)" "c \<in> set (grid_combinations d)" "map_of c k = Some v"
  shows "allowed_value d k v"
proof -
  let ?lists = "List.map_filter (\<lambda>(k, v). map_option (\<lambda>xs. (k, xs)) (as_list v)) d"
  let ?scalars = "filter (\<lambda>(k, v). as_list v = None) d"
  have const: "allowed_value d k v" if "map_of ?scalars k = Some v" for k v
    using that assms(1)
    by (auto simp: allowed_value_def dict_keys_def dest!: map_of_SomeD)
  have lst: "map_of d k = Some (JList xs)" if "(k, xs) \<in> set ?lists" for k xs
    using that assms(1) by (auto simp: set_map_filter dict_keys_def)
  show ?thesis
  proof (cases "?lists = []")
    case True
    then show ?thesis using assms(2,3) const
      by (auto simp: grid_combinations_def Let_def split: if_splits)
  next
    case False
    then obtain combo where combo: "combo \<in> set (product_lists (map snd ?lists))"
      "c = foldl (\<lambda>d (k, v). AList.update k v d) ?scalars (zip (map fst ?lists) combo)"
      using assms(2) by (auto simp: grid_combinations_def Let_def)
    then have m: "map_of c = map_of ?scalars ++ map_of (rev (zip (map fst ?lists) combo))"
      by (simp add: foldl_update_map_of)
    from assms(3) consider "map_of (rev (zip (map fst ?lists) combo)) k = Some v"
      | "map_of ?scalars k = Some v"
      by (auto simp: m map_add_Some_iff)
    then show ?thesis
    proof cases
      case 1
      then have "(k, v) \<in> set (zip (map fst ?lists) combo)" by (auto dest: map_of_SomeD)
      then obtain i where i: "i < length ?lists" "i < length combo" "fst (?lists ! i) = k" "combo ! i = v"
        by (auto simp: in_set_zip)
      then have "v \<in> set (snd (?lists ! i))"
        using combo(1) by (auto simp: product_lists_set list_all2_conv_all_nth)
      moreover have "map_of d k = Some (JList (snd (?lists ! i)))"
        using i by (intro lst) (metis nth_mem prod.collapse)
      ultimately show ?thesis by (simp add: allowed_value_def)
    next
      case 2
      then show ?thesis by (rule const)
    qed
  qed
qed

subsection \<open>Random\<close>

text \<open>\<^verbatim>\<open>rng.choice(xs)\<close> by an index below the length, \<^verbatim>\<open>rng.uniform(lo, hi)\<close>, and the generator's
  next state.\<close>

record 's rng =
  rng_below :: "'s \<Rightarrow> nat \<Rightarrow> nat \<times> 's"
  rng_uniform :: "'s \<Rightarrow> rat \<Rightarrow> rat \<Rightarrow> rat \<times> 's"

definition rng_choice :: "'s rng \<Rightarrow> 's \<Rightarrow> 'a list \<Rightarrow> 'a result \<times> 's" where
  "rng_choice g s xs =
     (if xs = [] then (Inl IndexError, s)
      else (case rng_below g s (length xs) of (i, s') \<Rightarrow> (Inr (xs ! i), s')))"

definition sample_value :: "'s rng \<Rightarrow> 's \<Rightarrow> json \<Rightarrow> json result \<times> 's" where
  "sample_value g s spec = (case spec of
     JList xs \<Rightarrow> if xs = [] then (Inl ValueError, s) else rng_choice g s xs
   | JObj d \<Rightarrow>
       if ''choices'' \<in> set (dict_keys d) then
         (case as_list (dict_get d ''choices'' JNull) of
            None \<Rightarrow> (Inl DomainMissing, s) | Some xs \<Rightarrow> rng_choice g s xs)
       else if ''lo'' \<in> set (dict_keys d) \<and> ''hi'' \<in> set (dict_keys d) then
         (case (json_num (dict_get d ''lo'' JNull), json_num (dict_get d ''hi'' JNull)) of
            (Some lo, Some hi) \<Rightarrow> (case rng_uniform g s lo hi of (q, s') \<Rightarrow> (Inr (JFloat q), s'))
          | _ \<Rightarrow> (Inl DomainMissing, s))
       else (Inr spec, s)
   | _ \<Rightarrow> (Inr spec, s))"

fun sample_params :: "'s rng \<Rightarrow> 's \<Rightarrow> json dict \<Rightarrow> json dict result \<times> 's" where
  "sample_params g s [] = (Inr [], s)"
| "sample_params g s ((k, spec) # d) = (case sample_value g s spec of
     (Inl e, s') \<Rightarrow> (Inl e, s')
   | (Inr v, s') \<Rightarrow> (case sample_params g s' d of
       (Inl e, s'') \<Rightarrow> (Inl e, s'')
     | (Inr vs, s'') \<Rightarrow> (Inr ((k, v) # vs), s'')))"

definition random_params :: "'s rng \<Rightarrow> 's \<Rightarrow> SearchSpace \<Rightarrow> json dict result \<times> 's" where
  "random_params g s space = (case sample_params g s (ss_model_params space) of
     (Inl e, s') \<Rightarrow> (Inl e, s')
   | (Inr model_params, s') \<Rightarrow>
       if ss_agents space \<noteq> [] then
         (case rng_choice g s' (ss_agents space) of
            (Inl e, s'') \<Rightarrow> (Inl e, s'')
          | (Inr a, s'') \<Rightarrow>
              (Inr ((''agent'', JObj a) #
                 (if model_params \<noteq> [] then [(''model_params'', JObj model_params)] else [])), s''))
       else (Inr [(''model_params'', JObj model_params)], s'))"

definition random_propose ::
    "'s rng \<Rightarrow> nat \<Rightarrow> 's \<Rightarrow> Experiment \<Rightarrow> ProposerContext \<Rightarrow> Proposal result \<times> 's" where
  "random_propose g max_proposals s e ctx =
     (if pc_iteration_index ctx \<ge> max_proposals then (Inl SearchSpaceExhaustedError, s)
      else (case random_params g s (exp_search_space e) of
        (Inl err, s') \<Rightarrow> (Inl err, s')
      | (Inr params, s') \<Rightarrow>
          (bind_result
             (make_Proposal params (''random['' @ nat_str (pc_iteration_index ctx) @ '']: '' @ no_text) (1 / 2) [])
             (\<lambda>p. validated p e), s')))"

interpretation random: contract_proposer "random_propose g max_proposals" "\<lambda>_. True" for g max_proposals
proof unfold_locales
  fix s e ctx p s'
  assume "random_propose g max_proposals s e ctx = (Inr p, s')"
  then show "acceptable e p"
    by (auto simp: random_propose_def dest: built_acceptable split: prod.splits sum.splits if_splits)
qed

subsection \<open>LLM\<close>

definition next_pending :: "HypothesisRecord list \<Rightarrow> HypothesisRecord option" where
  "next_pending hs = find (\<lambda>h. hy_consumed_by_iteration h = None) hs"

fun mark_consumed :: "nat \<Rightarrow> HypothesisRecord list \<Rightarrow> HypothesisRecord list" where
  "mark_consumed i [] = []"
| "mark_consumed i (h # hs) =
     (if hy_consumed_by_iteration h = None then h\<lparr>hy_consumed_by_iteration := Some i\<rparr> # hs
      else h # mark_consumed i hs)"

definition proposal_from_hypothesis :: "HypothesisRecord \<Rightarrow> rat \<Rightarrow> Proposal result" where
  "proposal_from_hypothesis h confidence =
     make_Proposal (hy_suggested_parameters h) (hy_statement h) confidence [hy_targets_mode_slug h]"

text \<open>The offline path: the state it changes is the offered hypotheses, whose first pending record
  is stamped once its proposal has passed the contract.\<close>

definition propose_offline ::
    "rat \<Rightarrow> Experiment \<Rightarrow> ProposerContext \<Rightarrow> Proposal result \<times> HypothesisRecord list" where
  "propose_offline confidence e ctx = (case next_pending (pc_pending_hypotheses ctx) of
     None \<Rightarrow> (Inl SearchSpaceExhaustedError, pc_pending_hypotheses ctx)
   | Some h \<Rightarrow>
       (case bind_result (proposal_from_hypothesis h confidence) (\<lambda>p. validated p e) of
          Inl err \<Rightarrow> (Inl err, pc_pending_hypotheses ctx)
        | Inr p \<Rightarrow> (Inr p, mark_consumed (pc_iteration_index ctx) (pc_pending_hypotheses ctx))))"

definition json_confidence :: "(string \<Rightarrow> rat option) \<Rightarrow> json \<Rightarrow> rat result" where
  "json_confidence float_of_str j = (case j of
     JStr s \<Rightarrow> (case float_of_str s of None \<Rightarrow> Inl LLMProposalError | Some q \<Rightarrow> Inr q)
   | _ \<Rightarrow> (case json_num j of None \<Rightarrow> Inl LLMProposalError | Some q \<Rightarrow> Inr q))"

definition proposal_from_structured_output ::
    "(string \<Rightarrow> rat option) \<Rightarrow> json dict option \<Rightarrow> rat \<Rightarrow> Proposal result" where
  "proposal_from_structured_output float_of_str structured_output default_confidence =
     (case structured_output of
        None \<Rightarrow> Inl LLMProposalError
      | Some d \<Rightarrow>
          (case dict_get d ''hypothesis'' JNull of
             JStr hypothesis \<Rightarrow>
               if strip hypothesis = [] then Inl LLMProposalError
               else (case as_dict (dict_get d ''parameters'' (JObj [])) of
                 None \<Rightarrow> Inl LLMProposalError
               | Some parameters \<Rightarrow>
                   bind_result (json_confidence float_of_str
                     (dict_get d ''confidence'' (JFloat default_confidence))) (\<lambda>confidence.
                   case as_list (dict_get d ''inputs_referenced'' (JList [])) of
                     None \<Rightarrow> Inl LLMProposalError
                   | Some inputs \<Rightarrow>
                       bind_result (map_result json_string inputs) (\<lambda>ins.
                         make_Proposal parameters hypothesis confidence ins)))
           | _ \<Rightarrow> Inl LLMProposalError))"

definition propose_with_llm ::
    "(string \<Rightarrow> rat option) \<Rightarrow> (Experiment \<Rightarrow> ProposerContext \<Rightarrow> AdapterResponse result) \<Rightarrow> rat \<Rightarrow>
       Experiment \<Rightarrow> ProposerContext \<Rightarrow> Proposal result \<times> HypothesisRecord list" where
  "propose_with_llm float_of_str invoke confidence e ctx =
     (case bind_result (invoke e ctx) (\<lambda>response.
        bind_result (proposal_from_structured_output float_of_str
           (rsp_structured_output response) confidence) (\<lambda>p. validated p e)) of
        Inl err \<Rightarrow> (Inl err, pc_pending_hypotheses ctx)
      | Inr p \<Rightarrow> (Inr p, mark_consumed (pc_iteration_index ctx) (pc_pending_hypotheses ctx)))"

definition make_LLMProposer :: "rat \<Rightarrow> rat result" where
  "make_LLMProposer confidence =
     (if \<not> (0 \<le> confidence \<and> confidence \<le> 1) then Inl ValueError else Inr confidence)"

lemma propose_offline_acceptable: "propose_offline c e ctx = (Inr p, hs) \<Longrightarrow> acceptable e p"
  by (auto simp: propose_offline_def proposal_from_hypothesis_def dest: built_acceptable
      split: option.splits sum.splits)

lemma structured_output_valid:
  assumes "proposal_from_structured_output f so c = Inr p"
  shows "valid_Proposal p"
proof -
  obtain d where d: "so = Some d"
    using assms by (cases so) (simp_all add: proposal_from_structured_output_def)
  show ?thesis
    using assms d
    by (cases "dict_get d ''hypothesis'' JNull"; cases "as_dict (dict_get d ''parameters'' (JObj []))";
        cases "as_list (dict_get d ''inputs_referenced'' (JList []))")
      (auto simp: proposal_from_structured_output_def bind_result_Inr_iff dest: make_Proposal_Inr
        split: if_splits)
qed

lemma propose_with_llm_acceptable:
  assumes "propose_with_llm f ask c e ctx = (Inr p, hs)"
  shows "acceptable e p"
  using assms
  by (auto simp: propose_with_llm_def bind_result_Inr_iff validated_Inr acceptable_def
      dest: structured_output_valid split: sum.splits)

interpretation llm_offline:
  contract_proposer "\<lambda>hs e ctx. propose_offline c e (ctx\<lparr>pc_pending_hypotheses := hs\<rparr>)" "\<lambda>_. True" for c
  by unfold_locales (auto dest: propose_offline_acceptable)

interpretation llm:
  contract_proposer "\<lambda>hs e ctx. propose_with_llm f ask c e (ctx\<lparr>pc_pending_hypotheses := hs\<rparr>)" "\<lambda>_. True"
  for f ask c
  by unfold_locales (auto dest: propose_with_llm_acceptable)

text \<open>A consumed hypothesis is never offered again: each success of the offline path leaves one
  pending hypothesis fewer, so a run of it is finite.\<close>

definition pending_count :: "HypothesisRecord list \<Rightarrow> nat" where
  "pending_count hs = count_if (\<lambda>h. hy_consumed_by_iteration h = None) hs"

lemma pending_count_mark:
  "next_pending hs = Some h \<Longrightarrow> Suc (pending_count (mark_consumed i hs)) = pending_count hs"
  by (induction hs) (auto simp: pending_count_def count_if_def next_pending_def split: if_splits)

lemma propose_offline_consumes:
  assumes "propose_offline c e ctx = (Inr p, hs)"
  shows "Suc (pending_count hs) = pending_count (pc_pending_hypotheses ctx)"
  using assms
  by (auto simp: propose_offline_def pending_count_mark split: option.splits sum.splits)

end
