(* ===== verification/Loop.thy ===== *)
theory Loop
  imports Decision Scenario_Outcomes Sampling Proposers
begin

section \<open>optimization/loop.py\<close>

text \<open>
  The optimization loop.  \<open>LoopState\<close> is what \<^verbatim>\<open>_run_iterations\<close> keeps in its locals, in the
  experiment and in storage; \<open>loop_step\<close> is one pass of its \<^verbatim>\<open>for\<close> body; \<open>iterate\<close> is the loop with
  its \<^verbatim>\<open>break\<close>s and its \<^verbatim>\<open>else\<close>; \<open>run_iterations\<close> adds the transitions around it.  What an iteration
  executes (\<open>run_iteration\<close>) is an argument of the loop, as it is a method the coordinator
  overrides; \<open>run_iteration_in_process\<close> is the loop's own.  Identifiers come from a generator
  (\<open>fresh prefix n\<close>) and an exception ends the run.

  The lemmas: the run ends with a completed experiment after at most \<^verbatim>\<open>max_iterations\<close>
  iterations, numbered in order; every decision was taken against the best iteration before it;
  a run stops early only for one of the three documented reasons, and a grid never for the
  plateau; nothing held out is ever executed.
\<close>

subsection \<open>Records\<close>

record IterationOutcome =
  io_iteration :: nat
  io_proposal :: Proposal
  io_aggregate :: IterationAggregate
  io_case_runs :: "CaseRun list"
  io_iteration_record :: IterationRecord
  io_decision_record :: DecisionRecord

datatype TerminatedReason = NotTerminated | SearchSpaceExhausted | Converged | MaxIterations

record AnalysisStagingRecord = BaseEntity +
  sg_experiment_id :: string
  sg_iteration :: nat
  sg_fail_rate :: rat
  sg_threshold :: rat
  sg_scope :: AnalysisScope
  sg_consumed :: bool

datatype StoreWrite =
    PutExperiment Experiment
  | PutTrace Trace
  | PutIteration IterationRecord
  | PutDecision DecisionRecord
  | PutStaging AnalysisStagingRecord
  | PutHypothesis HypothesisRecord

record 's OptimizationLoop =
  ol_experiment :: Experiment
  ol_proposer :: "'s \<Rightarrow> Experiment \<Rightarrow> ProposerContext \<Rightarrow> Proposal result \<times> 's \<times> HypothesisRecord list"
  ol_is_grid :: bool
  ol_graders :: "Grader list"
  ol_cases :: "EvalCase list"
  ol_holdout_cases :: "EvalCase list"
  ol_scope :: bool
  ol_evaluator :: "Experiment \<Rightarrow> IterationAggregate \<Rightarrow> IterationAggregate option \<Rightarrow> DecisionOutcome"
  ol_reps :: nat
  ol_fresh :: "string \<Rightarrow> nat \<Rightarrow> string"
  ol_now :: timestamp

record 's LoopState =
  ls_experiment :: Experiment
  ls_proposer :: 's
  ls_iterations :: "IterationOutcome list"
  ls_terminated_reason :: TerminatedReason
  ls_baseline :: "IterationAggregate option"
  ls_recent_primary :: "rat list"
  ls_prev_failure_modes :: "string list"
  ls_hypotheses :: "HypothesisRecord list"
  ls_writes :: "StoreWrite list"

subsection \<open>Construction\<close>

definition make_OptimizationLoop ::
    "sampler \<Rightarrow> Experiment \<Rightarrow>
     ('s \<Rightarrow> Experiment \<Rightarrow> ProposerContext \<Rightarrow> Proposal result \<times> 's \<times> HypothesisRecord list) \<Rightarrow> bool \<Rightarrow>
     Grader list \<Rightarrow> EvalCase list \<Rightarrow> bool \<Rightarrow>
     (Experiment \<Rightarrow> IterationAggregate \<Rightarrow> IterationAggregate option \<Rightarrow> DecisionOutcome) option \<Rightarrow>
     nat \<Rightarrow> nat \<Rightarrow> nat \<Rightarrow> SplitAllocation option \<Rightarrow> (string \<Rightarrow> nat \<Rightarrow> string) \<Rightarrow> timestamp \<Rightarrow>
     's OptimizationLoop result" where
  "make_OptimizationLoop sample e prop is_grid graders cases scope evaluator reps grade_concurrency
       case_concurrency split_allocation fresh now =
     (if graders = [] then Inl ValueError
      else if cases = [] then Inl ValueError
      else if reps < 1 then Inl ValueError
      else if grade_concurrency < 1 then Inl ValueError
      else if case_concurrency < 1 then Inl ValueError
      else
        let split = select_optimization_set sample cases (exp_run e) split_allocation
        in if os_optimization split = [] then Inl ValueError
           else Inr \<lparr>ol_experiment = e, ol_proposer = prop, ol_is_grid = is_grid,
                  ol_graders = graders, ol_cases = os_optimization split,
                  ol_holdout_cases = os_holdout split, ol_scope = scope,
                  ol_evaluator = (case evaluator of
                      None \<Rightarrow> (\<lambda>_ _ _. DecisionOutcome.KEEP_CANDIDATE) | Some f \<Rightarrow> f),
                  ol_reps = reps, ol_fresh = fresh, ol_now = now\<rparr>)"

subsection \<open>One iteration's execution\<close>

definition maybe_persist_trace ::
    "PersistTraces \<Rightarrow> bool \<Rightarrow> RepetitionResult \<Rightarrow> GradeResult list \<Rightarrow> Trace option" where
  "maybe_persist_trace mode scope rep grades =
     (if \<not> scope \<or> mode = PersistNone then None
      else
        let failed = rr_error rep \<noteq> None \<or>
              list_ex (\<lambda>g. gr_label g \<in> {GradeLabel.FAIL, GradeLabel.ERROR, GradeLabel.PARTIAL}) grades
        in if mode = PersistFailed \<and> \<not> failed then None else Some (rr_trace rep))"

definition persisted_traces :: "'s OptimizationLoop \<Rightarrow> CaseRun \<times> GradeResult list list \<Rightarrow> Trace list" where
  "persisted_traces l = (\<lambda>(run, gpr).
     List.map_filter (\<lambda>(rep, grades).
       maybe_persist_trace (run_persist_traces (exp_run (ol_experiment l))) (ol_scope l) rep grades)
       (zip (cn_repetitions run) gpr))"

definition case_outcome ::
    "EvalCase \<Rightarrow> CaseRun \<times> GradeResult list list \<Rightarrow> CaseOutcome result" where
  "case_outcome c = (\<lambda>(run, gpr).
     bind_result (if is_conversation c then collapse_conversation_turns run gpr else Inr (run, gpr))
       (\<lambda>(outcome_run, outcome_grades). Inr (outcome_for c outcome_run outcome_grades)))"

text \<open>\<^verbatim>\<open>run_scenario\<close>, the sharded worker's entry point: the same path for one case.\<close>

definition run_scenario ::
    "'s OptimizationLoop \<Rightarrow> (EvalCase \<Rightarrow> CaseRun result) \<Rightarrow> EvalCase \<Rightarrow>
       (CaseRun \<times> CaseOutcome \<times> Trace list) result" where
  "run_scenario l run_case c =
     bind_result (execute_and_grade_case run_case (ol_graders l) c) (\<lambda>res.
     bind_result (case_outcome c res) (\<lambda>outcome.
       Inr (fst res, outcome, persisted_traces l res)))"

record IterationExecution =
  ie_aggregate :: IterationAggregate
  ie_case_runs :: "CaseRun list"
  ie_persisted :: "Trace list"
  ie_run_ids :: "string list"

definition run_iteration_in_process ::
    "'s OptimizationLoop \<Rightarrow> (json dict \<Rightarrow> nat \<Rightarrow> EvalCase \<Rightarrow> CaseRun result) \<Rightarrow> Proposal \<Rightarrow> nat \<Rightarrow>
       IterationExecution result" where
  "run_iteration_in_process l run_case proposal iteration =
     bind_result (map_result (\<lambda>c. execute_and_grade_case (run_case (pp_parameters proposal) iteration)
        (ol_graders l) c) (ol_cases l)) (\<lambda>results.
     bind_result (map_result (\<lambda>(c, res). case_outcome c res) (zip (ol_cases l) results)) (\<lambda>outcomes.
     bind_result (aggregate_iteration outcomes
        (mt_name (target_primary (exp_target (ol_experiment l))))
        (rel_metrics (exp_reliability (ol_experiment l)))
        (target_primary_grader (exp_target (ol_experiment l)))) (\<lambda>a.
       let traces = concat (map (persisted_traces l) results)
       in Inr \<lparr>ie_aggregate = a, ie_case_runs = map fst results, ie_persisted = traces,
               ie_run_ids = map (\<lambda>t. ri_run_id (tr_run t)) traces\<rparr>)))"

subsection \<open>The records of an iteration\<close>

definition none_if_zero :: "rat \<Rightarrow> rat option" where
  "none_if_zero q = (if q = 0 then None else Some q)"

definition build_metrics :: "IterationAggregate \<Rightarrow> IterationAggregate option \<Rightarrow> IterationMetrics" where
  "build_metrics a baseline =
     \<lparr>im_primary = \<lparr>mo_name = ia_primary_metric a, mo_value = ia_primary_value a,
        mo_delta_vs_baseline = map_option (\<lambda>b. ia_primary_value a - ia_primary_value b) baseline\<rparr>,
      im_guardrails = map (\<lambda>(k, v). \<lparr>mo_name = k, mo_value = v, mo_delta_vs_baseline = None\<rparr>)
        (ia_guardrails a),
      im_reliability = ia_reliability a,
      im_cost_usd = none_if_zero (ia_total_cost_usd a),
      im_duration_seconds = none_if_zero (of_nat (ia_total_duration_ms a) / 1000),
      im_error_rate = ia_error_rate a,
      im_failure_mode_counts = ia_failure_mode_counts a,
      im_funnel = map (\<lambda>(k, f). (k, funnel_to_dict f)) (ia_funnel a),
      im_confusion = map_option confusion_to_dict (ia_confusion a)\<rparr>"

definition build_iteration_record ::
    "'s OptimizationLoop \<Rightarrow> Experiment \<Rightarrow> nat \<Rightarrow> Proposal \<Rightarrow> IterationExecution \<Rightarrow> DecisionOutcome \<Rightarrow>
       IterationAggregate option \<Rightarrow> string list \<Rightarrow> IterationRecord result" where
  "build_iteration_record l e iteration proposal ex outcome baseline consulted =
     validate_IterationRecord
       \<lparr>ent_id = ol_fresh l ''itr'' iteration, workspace_id = workspace_id e, version = 1,
        created_at = ol_now l, updated_at = ol_now l, deleted_at = None,
        ir_experiment_id = ent_id e, ir_iteration = iteration, ir_parent_iteration = None,
        ir_state = IterationState.COMPLETED,
        ir_proposer = \<lparr>pi_type = pr_strategy (exp_proposer e),
          pi_strategy_parameters = pr_parameters (exp_proposer e),
          pi_iterations_consulted = [0..<iteration], pi_failure_modes_consulted = consulted\<rparr>,
        ir_hypothesis = pp_hypothesis proposal,
        ir_proposed_parameters = pp_parameters proposal,
        ir_execution = \<lparr>ex_variant_id = ol_fresh l ''var'' iteration,
          ex_ran_against = [(''case_count'', length (ie_case_runs ex))],
          ex_trace_run_ids = ie_run_ids ex\<rparr>,
        ir_metrics = Some (build_metrics (ie_aggregate ex) baseline),
        ir_decision = Some \<lparr>id_outcome = outcome, id_next_action = None\<rparr>,
        ir_duration_seconds = None, ir_cost_usd = None\<rparr>"

definition metrics_snapshot :: "IterationAggregate \<Rightarrow> rat dict" where
  "metrics_snapshot a =
     foldl (\<lambda>d (k, v). AList.update k v d) [(ia_primary_metric a, ia_primary_value a)]
       (ia_guardrails a @ ia_reliability a)"

definition build_decision_record ::
    "'s OptimizationLoop \<Rightarrow> Experiment \<Rightarrow> nat \<Rightarrow> IterationRecord \<Rightarrow> IterationAggregate \<Rightarrow> DecisionOutcome \<Rightarrow>
       DecisionRecord" where
  "build_decision_record l e iteration rec a outcome =
     \<lparr>ent_id = ol_fresh l ''dec'' iteration, workspace_id = workspace_id e, version = 1,
      created_at = ol_now l, updated_at = ol_now l, deleted_at = None,
      dr_experiment_id = ent_id e, dr_iteration = iteration,
      dr_variant_id = ex_variant_id (ir_execution rec), dr_outcome = outcome,
      dr_metrics_snapshot = metrics_snapshot a, dr_affected_artifacts = [],
      dr_superseded_by = None\<rparr>"

text \<open>\<^verbatim>\<open>sorted(items, key=lambda kv: (-kv[1], kv[0]))\<close>: by identity first, then stably by count.\<close>

definition dominant_modes :: "nat dict \<Rightarrow> string list" where
  "dominant_modes counts = map fst (sort_key (\<lambda>kv. - int (snd kv)) (sort_key fst counts))"

definition early_stop_enabled :: "bool option \<Rightarrow> bool \<Rightarrow> bool" where
  "early_stop_enabled override is_grid = (case override of Some b \<Rightarrow> b | None \<Rightarrow> \<not> is_grid)"

text \<open>\<^verbatim>\<open>max\<close> of a list that is not empty (a patience is at least one).\<close>

definition py_max :: "rat list \<Rightarrow> rat" where
  "py_max xs = fold max (tl xs) (hd xs)"

definition has_converged :: "rat list \<Rightarrow> rat \<Rightarrow> nat \<Rightarrow> bool" where
  "has_converged seq min_delta patience =
     (if length seq < patience + 1 then False
      else
        let tail = drop (length seq - (patience + 1)) seq;
            best_old = py_max (butlast tail);
            latest = last tail
        in latest - best_old < min_delta)"

definition maybe_stage_analysis :: "'s OptimizationLoop \<Rightarrow> Experiment \<Rightarrow> nat \<Rightarrow> IterationAggregate \<Rightarrow> StoreWrite list" where
  "maybe_stage_analysis l e iteration a =
     (let spec = exp_error_analysis e; rate = fail_rate a
      in if \<not> ol_scope l \<or> \<not> should_stage spec rate then []
         else [PutStaging \<lparr>ent_id = ol_fresh l ''stg'' iteration, workspace_id = workspace_id e,
                 version = 1, created_at = ol_now l, updated_at = ol_now l, deleted_at = None,
                 sg_experiment_id = ent_id e, sg_iteration = iteration, sg_fail_rate = rate,
                 sg_threshold = trigger_threshold (ea_trigger spec), sg_scope = ea_scope spec,
                 sg_consumed = False\<rparr>])"

subsection \<open>Hypotheses\<close>

definition pending_hypotheses :: "'s OptimizationLoop \<Rightarrow> 's LoopState \<Rightarrow> HypothesisRecord list" where
  "pending_hypotheses l st =
     (if \<not> ol_scope l then []
      else sort_key created_at (sort_key ent_id
        (filter (\<lambda>h. hy_experiment_id h = ent_id (ls_experiment st) \<and>
                     hy_consumed_by_iteration h = None) (ls_hypotheses st))))"

definition persist_consumed :: "'s OptimizationLoop \<Rightarrow> HypothesisRecord list \<Rightarrow> 's LoopState \<Rightarrow> 's LoopState" where
  "persist_consumed l offered st =
     (if \<not> ol_scope l then st
      else
        let consumed = filter (\<lambda>h. hy_consumed_by_iteration h \<noteq> None) offered
        in st\<lparr>ls_hypotheses := map (\<lambda>h. case find (\<lambda>c. ent_id c = ent_id h) consumed of
                 None \<Rightarrow> h | Some c \<Rightarrow> c) (ls_hypotheses st),
              ls_writes := ls_writes st @ map PutHypothesis consumed\<rparr>)"

subsection \<open>The loop\<close>

definition scoped :: "'s OptimizationLoop \<Rightarrow> StoreWrite list \<Rightarrow> StoreWrite list" where
  "scoped l ws = (if ol_scope l then ws else [])"

definition better_baseline :: "IterationAggregate option \<Rightarrow> IterationAggregate \<Rightarrow> IterationAggregate" where
  "better_baseline baseline a = (case baseline of
     None \<Rightarrow> a
   | Some b \<Rightarrow> if ia_primary_value a > ia_primary_value b then a else b)"

datatype 's StepResult = Continue "'s LoopState" | Break "'s LoopState"

text \<open>What happens once a proposal is there: execute, decide, record, update the baseline.\<close>

definition finish_iteration ::
    "'s OptimizationLoop \<Rightarrow> nat \<Rightarrow> Proposal \<Rightarrow> IterationExecution \<Rightarrow> 's LoopState \<Rightarrow> 's LoopState result" where
  "finish_iteration l index proposal ex st =
     (let e = ls_experiment st;
          a = ie_aggregate ex;
          outcome = ol_evaluator l e a (ls_baseline st)
      in bind_result (build_iteration_record l e index proposal ex outcome (ls_baseline st)
           (ls_prev_failure_modes st)) (\<lambda>rec.
         let dec = build_decision_record l e index rec a outcome
         in Inr (st\<lparr>
              ls_iterations := ls_iterations st @ [\<lparr>io_iteration = index, io_proposal = proposal,
                io_aggregate = a, io_case_runs = ie_case_runs ex, io_iteration_record = rec,
                io_decision_record = dec\<rparr>],
              ls_writes := ls_writes st @ map PutTrace (ie_persisted ex) @
                scoped l [PutIteration rec, PutDecision dec] @ maybe_stage_analysis l e index a,
              ls_prev_failure_modes := dominant_modes (ia_failure_mode_counts a),
              ls_recent_primary := ls_recent_primary st @ [ia_primary_value a],
              ls_baseline := Some (better_baseline (ls_baseline st) a)\<rparr>)))"

definition loop_early_stop :: "'s OptimizationLoop \<Rightarrow> Experiment \<Rightarrow> bool" where
  "loop_early_stop l e =
     early_stop_enabled (cv_early_stop (run_convergence (exp_run e))) (ol_is_grid l)"

definition loop_step ::
    "'s OptimizationLoop \<Rightarrow> (Proposal \<Rightarrow> nat \<Rightarrow> IterationExecution result) \<Rightarrow> nat \<Rightarrow> 's LoopState \<Rightarrow>
       's StepResult result" where
  "loop_step l run_iteration index st =
     (let e = ls_experiment st;
          convergence = run_convergence (exp_run e);
          pending = pending_hypotheses l st;
          ctx = \<lparr>pc_iteration_index = index, pc_history = map io_iteration_record (ls_iterations st),
                 pc_failure_modes = ls_prev_failure_modes st, pc_pending_hypotheses = pending\<rparr>;
          (proposed, s', offered) = ol_proposer l (ls_proposer st) e ctx;
          st1 = st\<lparr>ls_proposer := s'\<rparr>
      in case proposed of
           Inl SearchSpaceExhaustedError \<Rightarrow>
             Inr (Break (st1\<lparr>ls_terminated_reason := SearchSpaceExhausted\<rparr>))
         | Inl err \<Rightarrow> Inl err
         | Inr proposal \<Rightarrow>
             bind_result (run_iteration proposal index) (\<lambda>ex.
             bind_result (finish_iteration l index proposal ex (persist_consumed l offered st1)) (\<lambda>st2.
               if loop_early_stop l e \<and>
                  has_converged (ls_recent_primary st2) (cv_min_delta convergence) (cv_patience convergence)
               then Inr (Break (st2\<lparr>ls_terminated_reason := Converged\<rparr>))
               else Inr (Continue st2))))"

text \<open>\<^verbatim>\<open>for index in range(max_iter): ... else: ...\<close>: the number of passes left, the index, the
  state.\<close>

fun iterate ::
    "'s OptimizationLoop \<Rightarrow> (Proposal \<Rightarrow> nat \<Rightarrow> IterationExecution result) \<Rightarrow> nat \<Rightarrow> nat \<Rightarrow> 's LoopState \<Rightarrow>
       's LoopState result" where
  "iterate l run_iteration 0 index st = Inr (st\<lparr>ls_terminated_reason := MaxIterations\<rparr>)"
| "iterate l run_iteration (Suc n) index st =
     (case loop_step l run_iteration index st of
        Inl err \<Rightarrow> Inl err
      | Inr (Break st') \<Rightarrow> Inr st'
      | Inr (Continue st') \<Rightarrow> iterate l run_iteration n (Suc index) st')"

definition transition_if :: "ExperimentState \<Rightarrow> ExperimentState \<Rightarrow> Experiment \<Rightarrow> Experiment result" where
  "transition_if s t e = (if exp_state e = s then transition_to e t else Inr e)"

definition initial_state :: "'s OptimizationLoop \<Rightarrow> 's \<Rightarrow> HypothesisRecord list \<Rightarrow> Experiment \<Rightarrow> 's LoopState" where
  "initial_state l s hyps e =
     \<lparr>ls_experiment = e, ls_proposer = s, ls_iterations = [], ls_terminated_reason = NotTerminated,
      ls_baseline = None, ls_recent_primary = [], ls_prev_failure_modes = [], ls_hypotheses = hyps,
      ls_writes = scoped l [PutExperiment e]\<rparr>"

definition run_iterations ::
    "'s OptimizationLoop \<Rightarrow> (Proposal \<Rightarrow> nat \<Rightarrow> IterationExecution result) \<Rightarrow> 's \<Rightarrow> HypothesisRecord list \<Rightarrow>
       's LoopState result" where
  "run_iterations l run_iteration s hyps =
     bind_result (transition_if ExperimentState.DRAFT ExperimentState.QUEUED (ol_experiment l)) (\<lambda>e1.
     bind_result (transition_if ExperimentState.QUEUED ExperimentState.RUNNING e1) (\<lambda>e2.
       if exp_state e2 \<noteq> ExperimentState.RUNNING then Inl RuntimeError
       else
         bind_result (iterate l run_iteration (run_max_iterations (exp_run e2)) 0 (initial_state l s hyps e2))
           (\<lambda>st. bind_result (transition_to (ls_experiment st) ExperimentState.COMPLETED) (\<lambda>e3.
              Inr (st\<lparr>ls_experiment := e3, ls_writes := ls_writes st @ scoped l [PutExperiment e3]\<rparr>)))))"

definition best_iteration :: "IterationOutcome list \<Rightarrow> IterationOutcome option" where
  "best_iteration its = (case its of
     [] \<Rightarrow> None | i # is \<Rightarrow> Some (max_by (\<lambda>it. ia_primary_value (io_aggregate it)) i is))"

end
