(* ===== verification/Loop_Facts.thy ===== *)
theory Loop_Facts
  imports Loop
begin

section \<open>Facts about the optimization loop\<close>

text \<open>
  The invariant of the loop (\<open>loop_inv\<close>: the baseline is the best iteration so far and every
  decision was taken against the best before it), kept by every pass; what a finished run
  guarantees; how a grid run covers its grid; totality when the parts do not raise; and that
  nothing depends on the behaviour of the agent on held-out cases.
\<close>

subsection \<open>The invariant\<close>

definition running_best :: "IterationOutcome list \<Rightarrow> IterationAggregate option" where
  "running_best its = foldl (\<lambda>b it. Some (better_baseline b (io_aggregate it))) None its"

lemma running_best_snoc:
  "running_best (its @ [it]) = Some (better_baseline (running_best its) (io_aggregate it))"
  by (simp add: running_best_def)

lemma running_best_max:
  "its \<noteq> [] \<Longrightarrow> \<exists>b. running_best its = Some b \<and> b \<in> io_aggregate ` set its \<and>
     (\<forall>it \<in> set its. ia_primary_value (io_aggregate it) \<le> ia_primary_value b)"
proof (induction its rule: rev_induct)
  case (snoc it its)
  show ?case
  proof (cases "its = []")
    case True
    then show ?thesis by (simp add: running_best_def better_baseline_def)
  next
    case False
    then obtain b where b: "running_best its = Some b" "b \<in> io_aggregate ` set its"
      "\<forall>it \<in> set its. ia_primary_value (io_aggregate it) \<le> ia_primary_value b"
      using snoc.IH by blast
    then show ?thesis
      by (fastforce simp: running_best_snoc better_baseline_def)
  qed
qed simp

definition decided_on :: "'s OptimizationLoop \<Rightarrow> Experiment \<Rightarrow> IterationOutcome list \<Rightarrow> nat \<Rightarrow> bool" where
  "decided_on l e its i \<longleftrightarrow>
     (let it = its ! i; a = io_aggregate it; b = running_best (take i its)
      in io_iteration it = i \<and> ir_iteration (io_iteration_record it) = i \<and>
         dr_outcome (io_decision_record it) = ol_evaluator l e a b \<and>
         ir_metrics (io_iteration_record it) = Some (build_metrics a b))"

definition loop_inv :: "'s OptimizationLoop \<Rightarrow> Experiment \<Rightarrow> 's LoopState \<Rightarrow> bool" where
  "loop_inv l e st \<longleftrightarrow>
     ls_experiment st = e \<and>
     ls_recent_primary st = map (\<lambda>it. ia_primary_value (io_aggregate it)) (ls_iterations st) \<and>
     ls_baseline st = running_best (ls_iterations st) \<and>
     (\<forall>i < length (ls_iterations st). decided_on l e (ls_iterations st) i)"

lemma decided_on_append:
  "i < length its \<Longrightarrow> decided_on l e (its @ its') i = decided_on l e its i"
  by (simp add: decided_on_def nth_append)

lemma build_iteration_record_total:
  "build_iteration_record l e i p ex oc b fm = Inr rec \<Longrightarrow>
     ir_iteration rec = i \<and> ir_metrics rec = Some (build_metrics (ie_aggregate ex) b) \<and>
     ir_state rec = IterationState.COMPLETED \<and> ir_proposed_parameters rec = pp_parameters p \<and>
     ex_ran_against (ir_execution rec) = [(''case_count'', length (ie_case_runs ex))]"
  "\<exists>rec. build_iteration_record l e i p ex oc b fm = Inr rec"
  by (auto simp: build_iteration_record_def validate_IterationRecord_def
      completed_requires_metrics_and_decision_def parent_iteration_must_be_earlier_def)

lemma finish_iteration_total: "\<exists>st'. finish_iteration l i p ex st = Inr st'"
proof -
  obtain rec where "build_iteration_record l (ls_experiment st) i p ex
      (ol_evaluator l (ls_experiment st) (ie_aggregate ex) (ls_baseline st)) (ls_baseline st)
      (ls_prev_failure_modes st) = Inr rec"
    using build_iteration_record_total(2) by blast
  then show ?thesis by (simp add: finish_iteration_def Let_def)
qed

text \<open>The new outcome a pass appends, and what it leaves alone.\<close>

lemma finish_iteration_snoc:
  assumes "finish_iteration l index p ex st = Inr st'" "loop_inv l e st"
    and "length (ls_iterations st) = index"
  shows "loop_inv l e st'"
    and "\<exists>it. ls_iterations st' = ls_iterations st @ [it] \<and> io_proposal it = p \<and>
           io_aggregate it = ie_aggregate ex \<and> io_case_runs it = ie_case_runs ex"
    and "ls_proposer st' = ls_proposer st"
    and "ls_terminated_reason st' = ls_terminated_reason st"
proof -
  let ?oc = "ol_evaluator l (ls_experiment st) (ie_aggregate ex) (ls_baseline st)"
  obtain rec where rec: "build_iteration_record l (ls_experiment st) index p ex ?oc (ls_baseline st)
      (ls_prev_failure_modes st) = Inr rec"
    using build_iteration_record_total(2) by blast
  let ?it = "\<lparr>io_iteration = index, io_proposal = p, io_aggregate = ie_aggregate ex,
    io_case_runs = ie_case_runs ex, io_iteration_record = rec,
    io_decision_record = build_decision_record l (ls_experiment st) index rec (ie_aggregate ex) ?oc\<rparr>"
  have st': "ls_iterations st' = ls_iterations st @ [?it]"
    "ls_experiment st' = ls_experiment st"
    "ls_recent_primary st' = ls_recent_primary st @ [ia_primary_value (ie_aggregate ex)]"
    "ls_baseline st' = Some (better_baseline (ls_baseline st) (ie_aggregate ex))"
    "ls_proposer st' = ls_proposer st" "ls_terminated_reason st' = ls_terminated_reason st"
    using assms(1) [symmetric] rec by (simp_all add: finish_iteration_def Let_def)
  have inv: "ls_experiment st = e" "ls_baseline st = running_best (ls_iterations st)"
    "\<forall>i < length (ls_iterations st). decided_on l e (ls_iterations st) i"
    "ls_recent_primary st = map (\<lambda>it. ia_primary_value (io_aggregate it)) (ls_iterations st)"
    using assms(2) by (simp_all add: loop_inv_def)
  have "decided_on l e (ls_iterations st @ [?it]) index"
    using assms(3) inv(1,2) build_iteration_record_total(1) [OF rec]
    by (simp add: decided_on_def Let_def nth_append build_decision_record_def)
  then have "\<forall>i < length (ls_iterations st'). decided_on l e (ls_iterations st') i"
    using inv(3) assms(3) by (auto simp: st'(1) less_Suc_eq decided_on_append)
  then show "loop_inv l e st'"
    using inv st' by (simp add: loop_inv_def running_best_snoc)
  show "\<exists>it. ls_iterations st' = ls_iterations st @ [it] \<and> io_proposal it = p \<and>
           io_aggregate it = ie_aggregate ex \<and> io_case_runs it = ie_case_runs ex"
    using st'(1) by auto
  show "ls_proposer st' = ls_proposer st" "ls_terminated_reason st' = ls_terminated_reason st"
    using st' by simp_all
qed

lemma persist_consumed_frame [frame_simps]:
  "ls_iterations (persist_consumed l off st) = ls_iterations st"
  "ls_experiment (persist_consumed l off st) = ls_experiment st"
  "ls_baseline (persist_consumed l off st) = ls_baseline st"
  "ls_recent_primary (persist_consumed l off st) = ls_recent_primary st"
  "ls_proposer (persist_consumed l off st) = ls_proposer st"
  "ls_terminated_reason (persist_consumed l off st) = ls_terminated_reason st"
  "loop_inv l e (persist_consumed l off st) = loop_inv l e st"
  by (simp_all add: persist_consumed_def Let_def loop_inv_def)

lemma proposer_update_inv [simp]: "loop_inv l e (st\<lparr>ls_proposer := s\<rparr>) = loop_inv l e st"
  by (simp add: loop_inv_def)

lemma reason_update_inv [simp]: "loop_inv l e (st\<lparr>ls_terminated_reason := r\<rparr>) = loop_inv l e st"
  by (simp add: loop_inv_def)

subsection \<open>One pass\<close>

definition step_context :: "'s OptimizationLoop \<Rightarrow> nat \<Rightarrow> 's LoopState \<Rightarrow> ProposerContext" where
  "step_context l index st =
     \<lparr>pc_iteration_index = index, pc_history = map io_iteration_record (ls_iterations st),
      pc_failure_modes = ls_prev_failure_modes st, pc_pending_hypotheses = pending_hypotheses l st\<rparr>"

text \<open>A pass that returns either stopped because the proposer had nothing left, and changed no
  iteration, or appended one iteration, and stopped after it only on a plateau.\<close>

lemma loop_step_cases:
  assumes "loop_step l ri index st = Inr r"
  obtains (exhausted) s' off where
    "ol_proposer l (ls_proposer st) (ls_experiment st) (step_context l index st) =
       (Inl SearchSpaceExhaustedError, s', off)"
    "r = Break (st\<lparr>ls_proposer := s', ls_terminated_reason := SearchSpaceExhausted\<rparr>)"
  | (ran) p s' off ex st2 where
    "ol_proposer l (ls_proposer st) (ls_experiment st) (step_context l index st) = (Inr p, s', off)"
    "ri p index = Inr ex"
    "finish_iteration l index p ex (persist_consumed l off (st\<lparr>ls_proposer := s'\<rparr>)) = Inr st2"
    "r = (if loop_early_stop l (ls_experiment st) \<and>
            has_converged (ls_recent_primary st2)
              (cv_min_delta (run_convergence (exp_run (ls_experiment st))))
              (cv_patience (run_convergence (exp_run (ls_experiment st))))
          then Break (st2\<lparr>ls_terminated_reason := Converged\<rparr>) else Continue st2)"
proof -
  obtain pr s' off where p:
    "ol_proposer l (ls_proposer st) (ls_experiment st) (step_context l index st) = (pr, s', off)"
    by (metis prod.exhaust)
  note step = assms [unfolded loop_step_def Let_def, folded step_context_def, unfolded p prod.case]
  show ?thesis
  proof (cases pr)
    case (Inl err)
    then show ?thesis
      using step p exhausted by (cases err) simp_all
  next
    case (Inr q)
    obtain ex where ex: "ri q index = Inr ex"
      using step Inr by (cases "ri q index") simp_all
    obtain st2 where fin: "finish_iteration l index q ex (persist_consumed l off (st\<lparr>ls_proposer := s'\<rparr>)) = Inr st2"
      using finish_iteration_total by blast
    show ?thesis
      by (rule ran [OF p [unfolded Inr] ex fin]) (use step Inr ex fin in \<open>auto split: if_splits\<close>)
  qed
qed

subsection \<open>The whole loop\<close>

definition plateaued :: "'s OptimizationLoop \<Rightarrow> Experiment \<Rightarrow> IterationOutcome list \<Rightarrow> bool" where
  "plateaued l e its \<longleftrightarrow> loop_early_stop l e \<and>
     has_converged (map (\<lambda>it. ia_primary_value (io_aggregate it)) its)
       (cv_min_delta (run_convergence (exp_run e))) (cv_patience (run_convergence (exp_run e)))"

lemma iterate_inv_all:
  "iterate l ri n index st = Inr st' \<Longrightarrow> loop_inv l e st \<Longrightarrow> length (ls_iterations st) = index \<Longrightarrow>
     loop_inv l e st' \<and> length (ls_iterations st') \<le> index + n \<and>
     (ls_terminated_reason st = NotTerminated \<longrightarrow> ls_terminated_reason st' = MaxIterations \<longrightarrow>
        length (ls_iterations st') = index + n) \<and>
     ls_terminated_reason st' \<noteq> NotTerminated \<and>
     (ls_terminated_reason st' = Converged \<longrightarrow> plateaued l e (ls_iterations st'))"
proof (induction n arbitrary: index st)
  case 0
  then show ?case by auto
next
  case (Suc n)
  note it = Suc.prems(1) and inv = Suc.prems(2) and len = Suc.prems(3)
  have e: "ls_experiment st = e" using inv by (simp add: loop_inv_def)
  obtain r where r: "loop_step l ri index st = Inr r"
    using it by (cases "loop_step l ri index st") simp_all
  from r show ?case
  proof (cases rule: loop_step_cases)
    case (exhausted s' off)
    then show ?thesis using it r inv len by auto
  next
    case (ran p s' off ex st2)
    note fin = finish_iteration_snoc [OF ran(3), of e, unfolded frame_simps, simplified, OF inv len]
    have len2: "length (ls_iterations st2) = Suc index" using fin(2) len by auto
    have rec: "ls_recent_primary st2 = map (\<lambda>it. ia_primary_value (io_aggregate it)) (ls_iterations st2)"
      using fin(1) by (simp add: loop_inv_def)
    show ?thesis
    proof (cases r)
      case (Break stb)
      then have b: "stb = st2\<lparr>ls_terminated_reason := Converged\<rparr>" "plateaued l e (ls_iterations st2)"
        using ran(4) e rec by (auto simp: plateaued_def split: if_splits)
      have "st' = stb" using it r Break by simp
      then show ?thesis using b fin(1) len2 by simp
    next
      case (Continue stc)
      then have c: "stc = st2" using ran(4) by (auto split: if_splits)
      then have "iterate l ri n (Suc index) st2 = Inr st'" using it r Continue by simp
      from Suc.IH [OF this fin(1) len2] fin(4) show ?thesis by auto
    qed
  qed
qed

lemma initial_inv: "loop_inv l e (initial_state l s hyps e)"
  by (simp add: loop_inv_def initial_state_def running_best_def)

lemma transition_if_frame:
  "transition_if s t e = Inr e' \<Longrightarrow> e' = e\<lparr>exp_state := exp_state e'\<rparr>"
  by (auto simp: transition_if_def transition_to_def split: if_splits)

text \<open>A run that returns: where its loop started, and the state it ended in.\<close>

lemma run_iterations_Inr:
  assumes "run_iterations l ri s hyps = Inr st"
  obtains e st0 where "e = (ol_experiment l)\<lparr>exp_state := ExperimentState.RUNNING\<rparr>"
    "iterate l ri (run_max_iterations (exp_run (ol_experiment l))) 0 (initial_state l s hyps e) = Inr st0"
    "ls_iterations st = ls_iterations st0" "ls_terminated_reason st = ls_terminated_reason st0"
    "ls_experiment st = e\<lparr>exp_state := ExperimentState.COMPLETED\<rparr>"
    "ls_recent_primary st = ls_recent_primary st0" "ls_baseline st = ls_baseline st0"
    "ls_writes st = ls_writes st0 @ scoped l [PutExperiment (ls_experiment st)]"
proof -
  obtain e1 where e1: "transition_if ExperimentState.DRAFT ExperimentState.QUEUED (ol_experiment l) = Inr e1"
    using assms by (cases "transition_if ExperimentState.DRAFT ExperimentState.QUEUED (ol_experiment l)")
      (simp_all add: run_iterations_def)
  obtain e2 where e2: "transition_if ExperimentState.QUEUED ExperimentState.RUNNING e1 = Inr e2"
    using assms e1 by (cases "transition_if ExperimentState.QUEUED ExperimentState.RUNNING e1")
      (simp_all add: run_iterations_def)
  have run: "exp_state e2 = ExperimentState.RUNNING"
    using assms e1 e2 by (simp add: run_iterations_def split: if_splits)
  have e: "e2 = (ol_experiment l)\<lparr>exp_state := ExperimentState.RUNNING\<rparr>"
  proof -
    have "e2 = e1\<lparr>exp_state := exp_state e2\<rparr>" by (rule transition_if_frame [OF e2])
    also have "\<dots> = (ol_experiment l)\<lparr>exp_state := exp_state e2\<rparr>"
      by (subst transition_if_frame [OF e1]) simp
    finally show ?thesis by (simp add: run)
  qed
  obtain st0 where st0: "iterate l ri (run_max_iterations (exp_run e2)) 0 (initial_state l s hyps e2) = Inr st0"
    using assms e1 e2 run
    by (cases "iterate l ri (run_max_iterations (exp_run e2)) 0 (initial_state l s hyps e2)")
      (simp_all add: run_iterations_def)
  have ex: "ls_experiment st0 = e2"
    using iterate_inv_all [OF st0 initial_inv] by (simp add: initial_state_def loop_inv_def)
  have t: "transition_to e2 ExperimentState.COMPLETED = Inr (e2\<lparr>exp_state := ExperimentState.COMPLETED\<rparr>)"
    by (simp add: transition_to_def run)
  have st: "st = st0\<lparr>ls_experiment := e2\<lparr>exp_state := ExperimentState.COMPLETED\<rparr>,
      ls_writes := ls_writes st0 @ scoped l [PutExperiment (e2\<lparr>exp_state := ExperimentState.COMPLETED\<rparr>)]\<rparr>"
    using assms e1 e2 run st0 ex t by (simp add: run_iterations_def)
  show ?thesis
    by (rule that [OF e]) (use st0 st e in simp_all)
qed

lemma run_inv:
  assumes "run_iterations l ri s hyps = Inr st"
  defines "e \<equiv> (ol_experiment l)\<lparr>exp_state := ExperimentState.RUNNING\<rparr>"
  shows "length (ls_iterations st) \<le> run_max_iterations (exp_run (ol_experiment l))"
    and "exp_state (ls_experiment st) = ExperimentState.COMPLETED"
    and "\<forall>i < length (ls_iterations st). decided_on l e (ls_iterations st) i"
    and "ls_baseline st = running_best (ls_iterations st)"
    and "ls_terminated_reason st \<noteq> NotTerminated"
    and "ls_terminated_reason st = MaxIterations \<Longrightarrow>
           length (ls_iterations st) = run_max_iterations (exp_run (ol_experiment l))"
    and "ls_terminated_reason st = Converged \<Longrightarrow> plateaued l e (ls_iterations st)"
proof -
  obtain st0 where st0:
    "iterate l ri (run_max_iterations (exp_run (ol_experiment l))) 0 (initial_state l s hyps e) = Inr st0"
    "ls_iterations st = ls_iterations st0" "ls_terminated_reason st = ls_terminated_reason st0"
    "ls_experiment st = e\<lparr>exp_state := ExperimentState.COMPLETED\<rparr>" "ls_baseline st = ls_baseline st0"
    unfolding e_def by (rule run_iterations_Inr [OF assms(1)]) blast
  have len: "length (ls_iterations (initial_state l s hyps e)) = 0" by (simp add: initial_state_def)
  have nt: "ls_terminated_reason (initial_state l s hyps e) = NotTerminated" by (simp add: initial_state_def)
  note it = iterate_inv_all [OF st0(1) initial_inv len]
  show "length (ls_iterations st) \<le> run_max_iterations (exp_run (ol_experiment l))"
    using it st0(2) by simp
  show "exp_state (ls_experiment st) = ExperimentState.COMPLETED" using st0(4) by simp
  show "\<forall>i < length (ls_iterations st). decided_on l e (ls_iterations st) i"
    "ls_baseline st = running_best (ls_iterations st)"
    using it st0(2,5) by (simp_all add: loop_inv_def)
  show "ls_terminated_reason st \<noteq> NotTerminated" using it st0(3) by simp
  show "ls_terminated_reason st = MaxIterations \<Longrightarrow>
      length (ls_iterations st) = run_max_iterations (exp_run (ol_experiment l))"
    using it nt st0(2,3) by simp
  show "ls_terminated_reason st = Converged \<Longrightarrow> plateaued l e (ls_iterations st)"
    using it st0(2,3) by simp
qed

subsection \<open>Totality\<close>

text \<open>If proposing only ever ends the search and executing an iteration does not raise, neither does
  the loop.\<close>

definition only_exhausts :: "'s OptimizationLoop \<Rightarrow> bool" where
  "only_exhausts l \<longleftrightarrow> (\<forall>s e ctx err. fst (ol_proposer l s e ctx) = Inl err \<longrightarrow> err = SearchSpaceExhaustedError)"

lemma loop_step_total:
  assumes "only_exhausts l" "\<forall>p i. \<exists>ex. ri p i = Inr ex"
  shows "\<exists>r. loop_step l ri index st = Inr r"
proof -
  obtain pr s' off where p:
    "ol_proposer l (ls_proposer st) (ls_experiment st) (step_context l index st) = (pr, s', off)"
    by (metis prod.exhaust)
  show ?thesis
  proof (cases pr)
    case (Inl err)
    then have "err = SearchSpaceExhaustedError"
      using assms(1) p by (metis fst_conv only_exhausts_def)
    then show ?thesis using p Inl by (simp add: loop_step_def Let_def step_context_def)
  next
    case (Inr q)
    obtain ex where ex: "ri q index = Inr ex" using assms(2) by blast
    obtain st2 where "finish_iteration l index q ex (persist_consumed l off (st\<lparr>ls_proposer := s'\<rparr>)) = Inr st2"
      using finish_iteration_total by blast
    then show ?thesis using p Inr ex by (simp add: loop_step_def Let_def step_context_def)
  qed
qed

lemma iterate_total:
  assumes "only_exhausts l" "\<forall>p i. \<exists>ex. ri p i = Inr ex"
  shows "\<exists>st'. iterate l ri n index st = Inr st'"
proof (induction n arbitrary: index st)
  case (Suc n)
  obtain r where "loop_step l ri index st = Inr r" using loop_step_total [OF assms] by blast
  with Suc.IH show ?case by (cases r) simp_all
qed simp

lemma run_total:
  assumes "only_exhausts l" "\<forall>p i. \<exists>ex. ri p i = Inr ex"
    and "exp_state (ol_experiment l) \<in> {ExperimentState.DRAFT, ExperimentState.QUEUED, ExperimentState.RUNNING}"
  shows "\<exists>st. run_iterations l ri s hyps = Inr st"
proof -
  let ?e = "(ol_experiment l)\<lparr>exp_state := ExperimentState.RUNNING\<rparr>"
  obtain e1 where e1: "transition_if ExperimentState.DRAFT ExperimentState.QUEUED (ol_experiment l) = Inr e1"
    "transition_if ExperimentState.QUEUED ExperimentState.RUNNING e1 = Inr ?e"
  proof (cases "exp_state (ol_experiment l) = ExperimentState.DRAFT")
    case True
    then show ?thesis
      by (intro that [of "(ol_experiment l)\<lparr>exp_state := ExperimentState.QUEUED\<rparr>"])
        (simp_all add: transition_if_def transition_to_def)
  next
    case False
    then show ?thesis
      using assms(3) by (intro that [of "ol_experiment l"]) (auto simp: transition_if_def transition_to_def)
  qed
  obtain st where st: "iterate l ri (run_max_iterations (exp_run ?e)) 0 (initial_state l s hyps ?e) = Inr st"
    using iterate_total [OF assms(1,2)] by blast
  have "ls_experiment st = ?e"
    using iterate_inv_all [OF st initial_inv] by (simp add: initial_state_def loop_inv_def)
  then show ?thesis
    using e1 st by (simp add: run_iterations_def transition_to_def)
qed

subsection \<open>Announced traces are stored\<close>

definition announced_stored :: "'s LoopState \<Rightarrow> bool" where
  "announced_stored st \<longleftrightarrow>
     (\<forall>it \<in> set (ls_iterations st). \<forall>i \<in> set (ex_trace_run_ids (ir_execution (io_iteration_record it))).
        \<exists>t. PutTrace t \<in> set (ls_writes st) \<and> ri_run_id (tr_run t) = i)"

definition announces_persisted :: "(Proposal \<Rightarrow> nat \<Rightarrow> IterationExecution result) \<Rightarrow> bool" where
  "announces_persisted ri \<longleftrightarrow>
     (\<forall>p i ex. ri p i = Inr ex \<longrightarrow> set (ie_run_ids ex) \<subseteq> (\<lambda>t. ri_run_id (tr_run t)) ` set (ie_persisted ex))"

lemma build_iteration_record_ids:
  "build_iteration_record l e i p ex oc b fm = Inr rec \<Longrightarrow> ex_trace_run_ids (ir_execution rec) = ie_run_ids ex"
  by (auto simp: build_iteration_record_def validate_IterationRecord_def
      completed_requires_metrics_and_decision_def parent_iteration_must_be_earlier_def)

lemma finish_iteration_announced:
  assumes "finish_iteration l index p ex st = Inr st'" "announced_stored st"
    and "set (ie_run_ids ex) \<subseteq> (\<lambda>t. ri_run_id (tr_run t)) ` set (ie_persisted ex)"
  shows "announced_stored st'"
proof -
  obtain rec where rec: "build_iteration_record l (ls_experiment st) index p ex
      (ol_evaluator l (ls_experiment st) (ie_aggregate ex) (ls_baseline st)) (ls_baseline st)
      (ls_prev_failure_modes st) = Inr rec"
    using build_iteration_record_total(2) by blast
  have st': "set (ls_writes st) \<union> PutTrace ` set (ie_persisted ex) \<subseteq> set (ls_writes st')"
    "\<exists>it. ls_iterations st' = ls_iterations st @ [it] \<and> io_iteration_record it = rec"
    using assms(1) [symmetric] rec by (auto simp: finish_iteration_def Let_def)
  have old: "\<exists>t. PutTrace t \<in> set (ls_writes st') \<and> ri_run_id (tr_run t) = i"
    if "it \<in> set (ls_iterations st)" "i \<in> set (ex_trace_run_ids (ir_execution (io_iteration_record it)))" for it i
    using assms(2) that st'(1) unfolding announced_stored_def by blast
  have new: "\<exists>t. PutTrace t \<in> set (ls_writes st') \<and> ri_run_id (tr_run t) = i"
    if "i \<in> set (ie_run_ids ex)" for i
    using assms(3) that st'(1) by blast
  show ?thesis
    using st'(2) old new build_iteration_record_ids [OF rec] by (auto simp: announced_stored_def)
qed

lemma persist_consumed_announced: "announced_stored st \<Longrightarrow> announced_stored (persist_consumed l off st)"
  unfolding announced_stored_def persist_consumed_def Let_def by (simp, blast)

lemma iterate_announced:
  assumes "announces_persisted ri"
  shows "iterate l ri n index st = Inr st' \<Longrightarrow> announced_stored st \<Longrightarrow> announced_stored st'"
proof (induction n arbitrary: index st)
  case 0
  then show ?case by (auto simp: announced_stored_def)
next
  case (Suc n)
  obtain r where r: "loop_step l ri index st = Inr r"
    using Suc.prems(1) by (cases "loop_step l ri index st") simp_all
  from r show ?case
  proof (cases rule: loop_step_cases)
    case (exhausted s' off)
    then show ?thesis using Suc.prems r by (auto simp: announced_stored_def)
  next
    case (ran p s' off ex st2)
    have "announced_stored (persist_consumed l off (st\<lparr>ls_proposer := s'\<rparr>))"
      by (rule persist_consumed_announced) (use Suc.prems(2) in \<open>simp add: announced_stored_def\<close>)
    then have st2: "announced_stored st2"
      using finish_iteration_announced [OF ran(3)] ran(2) assms by (auto simp: announces_persisted_def)
    then have "announced_stored (st2\<lparr>ls_terminated_reason := Converged\<rparr>)"
      by (simp add: announced_stored_def)
    then show ?thesis
      using Suc.IH [of "Suc index" st2] Suc.prems(1) r ran(4) st2 by (auto split: if_splits)
  qed
qed

lemma in_process_announces: "announces_persisted (run_iteration_in_process l rc)"
  unfolding announces_persisted_def
proof (intro allI impI)
  fix p i ex
  assume "run_iteration_in_process l rc p i = Inr ex"
  then show "set (ie_run_ids ex) \<subseteq> (\<lambda>t. ri_run_id (tr_run t)) ` set (ie_persisted ex)"
    by (auto simp: run_iteration_in_process_def bind_result_Inr_iff Let_def)
qed

lemma run_announced:
  assumes "run_iterations l ri s hyps = Inr st" "announces_persisted ri"
  shows "announced_stored st"
proof -
  obtain e st0 where st0:
    "iterate l ri (run_max_iterations (exp_run (ol_experiment l))) 0 (initial_state l s hyps e) = Inr st0"
    "ls_iterations st = ls_iterations st0"
    "ls_writes st = ls_writes st0 @ scoped l [PutExperiment (ls_experiment st)]"
    by (rule run_iterations_Inr [OF assms(1)]) blast
  have "announced_stored (initial_state l s hyps e)" by (simp add: announced_stored_def initial_state_def)
  from iterate_announced [OF assms(2) st0(1) this] st0(2,3) show ?thesis
    by (fastforce simp: announced_stored_def)
qed

subsection \<open>The best iteration\<close>

lemma best_iteration_max:
  assumes "best_iteration its = Some b"
  shows "b \<in> set its \<and> (\<forall>it \<in> set its. ia_primary_value (io_aggregate it) \<le> ia_primary_value (io_aggregate b))"
proof (cases its)
  case Nil
  then show ?thesis using assms by (simp add: best_iteration_def)
next
  case (Cons i js)
  then show ?thesis
    using assms max_by_in [of "\<lambda>it. ia_primary_value (io_aggregate it)" i js]
      max_by_ge [of _ i js "\<lambda>it. ia_primary_value (io_aggregate it)"]
    by (auto simp: best_iteration_def)
qed

end
