(* ===== verification/Loop_Runs.thy ===== *)
theory Loop_Runs
  imports Loop_Facts
begin

section \<open>Grid runs, and what a run depends on\<close>

text \<open>
  A grid run proposes the combinations of its grid in order, one per iteration, until the grid or
  the iteration budget ends, whatever the metrics do (the plateau check is off for a grid unless
  the experiment asks for it).  A run depends on the agent only through the cases the selection
  kept: what the agent would do on a held-out case cannot change it.
\<close>

subsection \<open>Grid runs\<close>

text \<open>A proposer that is offered hypotheses and marks none.\<close>

definition lift_proposer ::
    "('s \<Rightarrow> Experiment \<Rightarrow> ProposerContext \<Rightarrow> Proposal result \<times> 's) \<Rightarrow>
     's \<Rightarrow> Experiment \<Rightarrow> ProposerContext \<Rightarrow> Proposal result \<times> 's \<times> HypothesisRecord list" where
  "lift_proposer propose s e ctx = (case propose s e ctx of (r, s') \<Rightarrow> (r, s', pc_pending_hypotheses ctx))"

definition ungated :: "Experiment \<Rightarrow> json dict \<Rightarrow> bool" where
  "ungated e c \<longleftrightarrow> list_all (\<lambda>key. case map_of PROPOSAL_KEY_TO_EDITABLE key of
     None \<Rightarrow> True | Some flag \<Rightarrow> editable_flag (exp_editable e) flag) (dict_keys c)"

lemma ungated_state [simp]: "ungated (e\<lparr>exp_state := s\<rparr>) = ungated e"
  by (simp add: ungated_def fun_eq_iff cong: option.case_cong)

lemma grid_propose_ready:
  assumes "ensure_combos g e = (Inr combos, g')" "list_all (ungated e) combos"
    and "pc_iteration_index ctx < length combos"
  shows "\<exists>p. grid_propose g e ctx = (Inr p, g') \<and> pp_parameters p = combos ! pc_iteration_index ctx"
proof -
  have "ungated e (combos ! pc_iteration_index ctx)"
    using assms(2,3) by (simp add: list_all_length)
  then have key: "editable_flag (exp_editable e) flag"
    if "key \<in> set (dict_keys (combos ! pc_iteration_index ctx))"
      "map_of PROPOSAL_KEY_TO_EDITABLE key = Some flag" for key flag
    using that by (fastforce simp: ungated_def list_all_iff)
  obtain p where p: "make_Proposal (combos ! pc_iteration_index ctx)
      (''grid['' @ nat_str (pc_iteration_index ctx) @ '']: '' @ no_text) (1 / 2) [] = Inr p"
    by (simp add: make_Proposal_def Let_def valid_Proposal_def unit_interval_def)
  then have "respects_contract e p"
    using make_Proposal_Inr [OF p] key by (simp add: respects_contract_def)
  then have "validated p e = Inr p" by (simp add: validated_Inr)
  then show ?thesis
    using assms(1,3) p make_Proposal_Inr [OF p] by (simp add: grid_propose_def)
qed

lemma grid_propose_exhausted:
  "ensure_combos g e = (Inr combos, g') \<Longrightarrow> length combos \<le> pc_iteration_index ctx \<Longrightarrow>
     grid_propose g e ctx = (Inl SearchSpaceExhaustedError, g')"
  by (simp add: grid_propose_def)

definition grid_loop :: "GridProposer OptimizationLoop \<Rightarrow> bool" where
  "grid_loop l \<longleftrightarrow> ol_proposer l = lift_proposer grid_propose \<and> ol_is_grid l \<and>
     cv_early_stop (run_convergence (exp_run (ol_experiment l))) = None"

definition grid_inv ::
    "GridProposer OptimizationLoop \<Rightarrow> Experiment \<Rightarrow> json dict list \<Rightarrow> nat \<Rightarrow> GridProposer LoopState \<Rightarrow> bool" where
  "grid_inv l e combos index st \<longleftrightarrow> loop_inv l e st \<and>
     fst (ensure_combos (ls_proposer st) e) = Inr combos \<and>
     map (\<lambda>it. pp_parameters (io_proposal it)) (ls_iterations st) = take index combos \<and>
     index \<le> length combos \<and> ls_terminated_reason st = NotTerminated"

lemma grid_inv_length: "grid_inv l e combos index st \<Longrightarrow> length (ls_iterations st) = index"
  by (metis grid_inv_def length_map length_take min.absorb2)

lemma ensure_combos_idem: "ensure_combos g e = (Inr combos, g') \<Longrightarrow> ensure_combos g' e = (Inr combos, g')"
  by (auto simp: ensure_combos_def split: option.splits sum.splits)

lemma grid_step:
  assumes l: "grid_loop l" and runs: "\<forall>p i. \<exists>ex. ri p i = Inr ex"
    and e: "exp_run e = exp_run (ol_experiment l)" "list_all (ungated e) combos"
    and inv: "grid_inv l e combos index st"
  shows "index < length combos \<Longrightarrow>
           \<exists>st'. loop_step l ri index st = Inr (Continue st') \<and> grid_inv l e combos (Suc index) st'"
    and "index = length combos \<Longrightarrow>
           \<exists>s'. loop_step l ri index st =
             Inr (Break (st\<lparr>ls_proposer := s', ls_terminated_reason := SearchSpaceExhausted\<rparr>))"
proof -
  let ?ctx = "step_context l index st"
  obtain g' where g: "ensure_combos (ls_proposer st) e = (Inr combos, g')"
    using inv by (cases "ensure_combos (ls_proposer st) e") (simp add: grid_inv_def)
  have ex: "ls_experiment st = e" using inv by (simp add: grid_inv_def loop_inv_def)
  have ctx: "pc_iteration_index ?ctx = index" by (simp add: step_context_def)
  show "\<exists>s'. loop_step l ri index st =
      Inr (Break (st\<lparr>ls_proposer := s', ls_terminated_reason := SearchSpaceExhausted\<rparr>))"
    if "index = length combos"
    by (rule exI [of _ g'])
      (use l ex g that grid_propose_exhausted [OF g, of ?ctx] in
        \<open>simp add: loop_step_def Let_def grid_loop_def lift_proposer_def step_context_def\<close>)
  show "\<exists>st'. loop_step l ri index st = Inr (Continue st') \<and> grid_inv l e combos (Suc index) st'"
    if less: "index < length combos"
  proof -
    obtain p where p: "grid_propose (ls_proposer st) e ?ctx = (Inr p, g')"
      "pp_parameters p = combos ! index"
      using grid_propose_ready [OF g e(2), of ?ctx] less ctx by auto
    obtain exn where exn: "ri p index = Inr exn" using runs by blast
    let ?st1 = "persist_consumed l (pc_pending_hypotheses ?ctx) (st\<lparr>ls_proposer := g'\<rparr>)"
    obtain st2 where fin: "finish_iteration l index p exn ?st1 = Inr st2"
      using finish_iteration_total by blast
    have off: "\<not> loop_early_stop l (ls_experiment st)"
      using l ex e(1) by (simp add: loop_early_stop_def early_stop_enabled_def grid_loop_def)
    have step: "loop_step l ri index st = Inr (Continue st2)"
      using p exn fin off l ex
      by (simp add: loop_step_def Let_def grid_loop_def lift_proposer_def step_context_def)
    have linv: "loop_inv l e ?st1" using inv by (simp add: grid_inv_def frame_simps)
    have len: "length (ls_iterations ?st1) = index"
      using grid_inv_length [OF inv] by (simp add: frame_simps)
    note f = finish_iteration_snoc [OF fin linv len]
    obtain it where it: "ls_iterations st2 = ls_iterations st @ [it]" "io_proposal it = p"
      using f(2) by (auto simp: frame_simps)
    have "grid_inv l e combos (Suc index) st2"
      using f(1,3,4) it p(2) inv less ensure_combos_idem [OF g]
      by (simp add: grid_inv_def frame_simps take_Suc_conv_app_nth)
    then show ?thesis using step by blast
  qed
qed

lemma grid_iterate:
  assumes "grid_loop l" "\<forall>p i. \<exists>ex. ri p i = Inr ex"
    and "exp_run e = exp_run (ol_experiment l)" "list_all (ungated e) combos"
  shows "grid_inv l e combos index st \<Longrightarrow>
     \<exists>st'. iterate l ri n index st = Inr st' \<and> ls_experiment st' = e \<and>
       map (\<lambda>it. pp_parameters (io_proposal it)) (ls_iterations st') = take (index + n) combos \<and>
       ls_terminated_reason st' =
         (if index + n \<le> length combos then MaxIterations else SearchSpaceExhausted)"
proof (induction n arbitrary: index st)
  case 0
  then show ?case by (simp add: grid_inv_def loop_inv_def)
next
  case (Suc n)
  consider "index < length combos" | "index = length combos"
    using Suc.prems by (force simp: grid_inv_def)
  then show ?case
  proof cases
    case 1
    obtain st1 where "loop_step l ri index st = Inr (Continue st1)" "grid_inv l e combos (Suc index) st1"
      using grid_step(1) [OF assms Suc.prems 1] by blast
    then show ?thesis using Suc.IH [of "Suc index" st1] by simp
  next
    case 2
    obtain s' where "loop_step l ri index st =
        Inr (Break (st\<lparr>ls_proposer := s', ls_terminated_reason := SearchSpaceExhausted\<rparr>))"
      using grid_step(2) [OF assms Suc.prems 2] by blast
    then show ?thesis using Suc.prems 2 by (simp add: grid_inv_def loop_inv_def)
  qed
qed

lemma grid_run_aux:
  assumes l: "grid_loop l" and runs: "\<forall>p i. \<exists>ex. ri p i = Inr ex"
    and st: "exp_state (ol_experiment l) = ExperimentState.DRAFT"
    and c: "compute_combos (ol_experiment l) = Inr combos" "list_all (ungated (ol_experiment l)) combos"
  defines "m \<equiv> run_max_iterations (exp_run (ol_experiment l))"
  shows "\<exists>out. run_iterations l ri None hyps = Inr out \<and>
     map (\<lambda>it. pp_parameters (io_proposal it)) (ls_iterations out) = take m combos \<and>
     ls_terminated_reason out = (if m \<le> length combos then MaxIterations else SearchSpaceExhausted) \<and>
     exp_state (ls_experiment out) = ExperimentState.COMPLETED"
proof -
  let ?e = "(ol_experiment l)\<lparr>exp_state := ExperimentState.RUNNING\<rparr>"
  have cc: "compute_combos ?e = Inr combos" using c(1) by (simp add: compute_combos_def)
  have "grid_inv l ?e combos 0 (initial_state l None hyps ?e)"
    using cc initial_inv [of l ?e None hyps]
    by (simp add: grid_inv_def ensure_combos_def initial_state_def)
  moreover have "list_all (ungated ?e) combos" using c(2) by simp
  ultimately obtain st' where st': "iterate l ri m 0 (initial_state l None hyps ?e) = Inr st'"
    "ls_experiment st' = ?e"
    "map (\<lambda>it. pp_parameters (io_proposal it)) (ls_iterations st') = take m combos"
    "ls_terminated_reason st' = (if m \<le> length combos then MaxIterations else SearchSpaceExhausted)"
    using grid_iterate [OF l runs, of ?e combos 0 "initial_state l None hyps ?e" m] by auto
  then show ?thesis
    by (simp add: run_iterations_def transition_if_def transition_to_def st m_def)
qed

subsection \<open>What a run depends on\<close>

lemma iteration_depends_on_cases:
  assumes "\<And>c. c \<in> set (ol_cases l) \<Longrightarrow> rc (pp_parameters p) i c = rc' (pp_parameters p) i c"
  shows "run_iteration_in_process l rc p i = run_iteration_in_process l rc' p i"
proof -
  have "map_result (\<lambda>c. execute_and_grade_case (rc (pp_parameters p) i) (ol_graders l) c) (ol_cases l) =
      map_result (\<lambda>c. execute_and_grade_case (rc' (pp_parameters p) i) (ol_graders l) c) (ol_cases l)"
    by (rule map_result_cong [OF refl]) (simp add: execute_and_grade_case_def assms)
  then show ?thesis by (simp add: run_iteration_in_process_def)
qed

lemma make_loop_cases:
  assumes "make_OptimizationLoop sample e pr g graders cases scope ev reps gc cc sa fresh now = Inr l"
  shows "ol_cases l \<noteq> []" "ol_cases l = os_optimization (select_optimization_set sample cases (exp_run e) sa)"
    "ol_experiment l = e" "graders \<noteq> []" "ol_graders l = graders"
  using assms by (auto simp: make_OptimizationLoop_def Let_def split: if_splits)

lemma loop_cases_not_held_out:
  assumes "make_OptimizationLoop sample e pr g graders cases scope ev reps gc cc sa fresh now = Inr l"
    and "c \<in> set (ol_cases l)"
  shows "c \<in> set cases \<and> \<not> ec_holdout c"
  using assms(2) selection_holdout_disjoint [of c sample cases "exp_run e" sa]
  by (simp add: make_loop_cases(2) [OF assms(1)])

lemma run_ignores_holdout_aux:
  assumes "make_OptimizationLoop sample e pr g graders cases scope ev reps gc cc sa fresh now = Inr l"
    and "\<And>ps i c. \<not> ec_holdout c \<Longrightarrow> rc ps i c = rc' ps i c"
  shows "run_iterations l (run_iteration_in_process l rc) s hyps =
         run_iterations l (run_iteration_in_process l rc') s hyps"
proof -
  have "run_iteration_in_process l rc = run_iteration_in_process l rc'"
    by (intro ext iteration_depends_on_cases)
      (use loop_cases_not_held_out [OF assms(1)] assms(2) in auto)
  then show ?thesis by simp
qed

end
