(* ===== verification/Loop_Properties.thy ===== *)
theory Loop_Properties
  imports Aggregate_Properties Loop_Runs
begin

section \<open>Properties of optimization runs\<close>

text \<open>
  What a run of the optimization loop guarantees as a whole: it ends, it is bounded, every decision
  is taken against the best iteration so far, a grid is walked in order, held-out cases have no
  influence, proposals respect the experiment's contract, and what the records announce is stored.
\<close>

subsection \<open>Concrete runs\<close>

definition fixed_proposer :: "'s \<Rightarrow> Experiment \<Rightarrow> ProposerContext \<Rightarrow> Proposal result \<times> 's \<times> HypothesisRecord list" where
  "fixed_proposer s e ctx =
     (if pc_iteration_index ctx \<ge> 2 then Inl SearchSpaceExhaustedError else Inr sample_proposal,
      s, pc_pending_hypotheses ctx)"

definition sample_loop :: "GridProposer OptimizationLoop" where
  "sample_loop = \<lparr>ol_experiment = sample_experiment, ol_proposer = fixed_proposer,
     ol_is_grid = False,
     ol_graders = [\<lparr>grd_name = ''g'', grd_grade = (\<lambda>ctx. Inr (grade_result ''g'' GradeLabel.FAIL (Some 0) [''m''] None))\<rparr>],
     ol_cases = [sample_case ''ec_1'' False], ol_holdout_cases = [], ol_scope = True,
     ol_evaluator = matrix_evaluate, ol_reps = 1, ol_fresh = (\<lambda>p n. p @ nat_str n), ol_now = 0\<rparr>"

definition sample_execution :: IterationExecution where
  "sample_execution = \<lparr>ie_aggregate = sample_aggregate (1 / 2), ie_case_runs = [], ie_persisted = [],
     ie_run_ids = []\<rparr>"

definition sample_run_case :: "json dict \<Rightarrow> nat \<Rightarrow> EvalCase \<Rightarrow> CaseRun result" where
  "sample_run_case ps i c = Inr (sample_run None)"

lemma sample_loop_exhausts: "only_exhausts sample_loop"
  by (simp add: only_exhausts_def sample_loop_def fixed_proposer_def)

lemma sample_loop_state: "exp_state (ol_experiment sample_loop) = ExperimentState.DRAFT"
  by (simp add: sample_loop_def sample_experiment_def)

lemma sample_iteration_runs: "\<exists>ex. run_iteration_in_process sample_loop sample_run_case p i = Inr ex"
proof -
  have exec: "\<exists>res. execute_and_grade_case (sample_run_case ps i) (ol_graders sample_loop) (sample_case ''ec_1'' False) = Inr res
      \<and> length (cn_repetitions (fst res)) = length (snd res)" for ps
    by (simp add: execute_and_grade_case_def sample_run_case_def sample_run_def sample_loop_def
        graders_for_case_def sample_case_def stamp_trace_def to_trace_grader_result_def
        valid_GraderResult_def Let_def)
  obtain res where res: "execute_and_grade_case (sample_run_case (pp_parameters p) i) (ol_graders sample_loop)
      (sample_case ''ec_1'' False) = Inr res" using exec by blast
  obtain oc where oc: "case_outcome (sample_case ''ec_1'' False) res = Inr oc"
    by (cases res) (simp add: case_outcome_def is_conversation_def sample_case_def dict_keys_def)
  have two: "int_of_str ''2'' = Inr 2" by code_simp
  obtain v where v: "compute_metric ''pass^2'' [oc] None = Inr v"
    by (simp add: compute_metric_def starts_with_def two)
  obtain r where r: "reliability_dict [oc] [''consistency_rate''] = Inr r"
    by (simp add: reliability_dict_def compute_metric_def starts_with_def is_pass_metric_def)
  obtain a where "aggregate_iteration [oc] ''pass^2'' [''consistency_rate''] None = Inr a"
    using aggregate_total [OF v r] by blast
  then show ?thesis
    using res oc by (simp add: run_iteration_in_process_def Let_def sample_loop_def sample_experiment_def)
qed

lemma sample_run_returns:
  "\<exists>st. run_iterations sample_loop (run_iteration_in_process sample_loop sample_run_case) None [] = Inr st"
  using run_total [OF sample_loop_exhausts] sample_iteration_runs sample_loop_state by simp

subsection \<open>Runs end\<close>

text \<open>C1. A run whose proposer only ever ends the search, whose iterations execute, and whose
  experiment may still run always returns: the experiment is completed, at most
  \<^verbatim>\<open>max_iterations\<close> iterations were made (exactly as many, if that is the reason given), and a
  reason is given.\<close>

theorem run_completes:
  assumes "only_exhausts l" "\<forall>p i. \<exists>ex. ri p i = Inr ex"
    and "exp_state (ol_experiment l) \<in> {ExperimentState.DRAFT, ExperimentState.QUEUED, ExperimentState.RUNNING}"
  shows "\<exists>st. run_iterations l ri s hyps = Inr st \<and>
    exp_state (ls_experiment st) = ExperimentState.COMPLETED \<and>
    length (ls_iterations st) \<le> run_max_iterations (exp_run (ol_experiment l)) \<and>
    (ls_terminated_reason st = MaxIterations \<longrightarrow>
       length (ls_iterations st) = run_max_iterations (exp_run (ol_experiment l))) \<and>
    ls_terminated_reason st \<noteq> NotTerminated"
proof -
  obtain st where "run_iterations l ri s hyps = Inr st" using run_total [OF assms] by blast
  with run_inv [OF this] show ?thesis by blast
qed

theorem run_completes_witness:
  "\<exists>st. run_iterations sample_loop (\<lambda>p i. Inr sample_execution) None [] = Inr st \<and>
     exp_state (ls_experiment st) = ExperimentState.COMPLETED \<and> length (ls_iterations st) \<le> 3"
  using run_completes [OF sample_loop_exhausts, of "\<lambda>p i. Inr sample_execution" None "[]"]
    sample_loop_state
  by (auto simp: sample_loop_def sample_experiment_def sample_run_spec_def)




definition plateau_loop :: "GridProposer OptimizationLoop" where
  "plateau_loop = sample_loop\<lparr>ol_proposer := (\<lambda>s e ctx. (Inr sample_proposal, s, [])),
     ol_experiment := sample_experiment\<lparr>exp_run := sample_run_spec\<lparr>run_max_iterations := 9\<rparr>\<rparr>\<rparr>"


text \<open>Whichever iteration the result reports as best has the highest primary value of the run,
  and that value is the baseline the run ended with.\<close>

theorem best_iteration_is_best:
  assumes "run_iterations l ri s hyps = Inr st" "best_iteration (ls_iterations st) = Some b"
  shows "b \<in> set (ls_iterations st) \<and>
    Max ((\<lambda>it. ia_primary_value (io_aggregate it)) ` set (ls_iterations st)) = ia_primary_value (io_aggregate b) \<and>
    map_option ia_primary_value (ls_baseline st) = Some (ia_primary_value (io_aggregate b))"
proof -
  note b = best_iteration_max [OF assms(2)]
  then have ne: "ls_iterations st \<noteq> []" by auto
  obtain a where a: "running_best (ls_iterations st) = Some a"
    "a \<in> io_aggregate ` set (ls_iterations st)"
    "\<forall>it \<in> set (ls_iterations st). ia_primary_value (io_aggregate it) \<le> ia_primary_value a"
    using running_best_max [OF ne] by blast
  have "ia_primary_value a = ia_primary_value (io_aggregate b)"
    using a(2,3) b by (auto intro: antisym)
  moreover have "Max ((\<lambda>it. ia_primary_value (io_aggregate it)) ` set (ls_iterations st)) =
      ia_primary_value (io_aggregate b)"
    using b by (intro Max_eqI) auto
  ultimately show ?thesis using run_inv(4) [OF assms(1)] a(1) b by simp
qed

theorem best_iteration_is_best_witness:
  "\<exists>st b. run_iterations plateau_loop (\<lambda>p i. Inr sample_execution) None [] = Inr st \<and>
     best_iteration (ls_iterations st) = Some b \<and>
     map_option ia_primary_value (ls_baseline st) = Some (ia_primary_value (io_aggregate b))"
proof -
  have ex: "only_exhausts plateau_loop" by (simp add: only_exhausts_def plateau_loop_def)
  have s: "exp_state (ol_experiment plateau_loop) = ExperimentState.DRAFT"
    by (simp add: plateau_loop_def sample_experiment_def)
  obtain st where st: "run_iterations plateau_loop (\<lambda>p i. Inr sample_execution) None [] = Inr st"
    using run_total [OF ex, of "\<lambda>p i. Inr sample_execution"] s by auto
  have "bind_result (run_iterations plateau_loop (\<lambda>p i. Inr sample_execution) None [])
      (\<lambda>st. Inr (ls_iterations st = [])) = Inr False"
    by code_simp
  then have "ls_iterations st \<noteq> []" by (simp add: st)
  then obtain b where b: "best_iteration (ls_iterations st) = Some b"
    by (cases "ls_iterations st") (simp_all add: best_iteration_def)
  show ?thesis using best_iteration_is_best [OF st b] st b by blast
qed

subsection \<open>Grids\<close>


definition sample_grid_loop :: "GridProposer OptimizationLoop" where
  "sample_grid_loop = sample_loop\<lparr>ol_proposer := lift_proposer grid_propose, ol_is_grid := True\<rparr>"

definition sample_combos :: "json dict list" where
  "sample_combos = [[(''model_params'', JObj [(''model'', JStr ''m''), (''temperature'', JInt 0)])],
                    [(''model_params'', JObj [(''model'', JStr ''m''), (''temperature'', JInt 1)])]]"


text \<open>The grid has one combination per choice of a value for every list-valued parameter, and
  every combination gives each parameter a value the search space allows.\<close>

theorem grid_combinations_complete:
  assumes "distinct (dict_keys d)" "list_values d \<noteq> []"
  shows "length (grid_combinations d) = prod_list (map length (list_values d)) \<and>
    {(k, v). \<exists>c \<in> set (grid_combinations d). map_of c k = Some v} \<subseteq> {(k, v). allowed_value d k v}"
  using grid_combinations_length [OF assms(2)] grid_combination_allowed [OF assms(1)] by auto

theorem grid_combinations_complete_witness:
  "length (grid_combinations [(''t'', JList [JInt 0, JInt 1]), (''m'', JList [JStr ''a'', JStr ''b'', JStr ''c''])]) = 6"
proof -
  have v: "list_values [(''t'', JList [JInt 0, JInt 1]), (''m'', JList [JStr ''a'', JStr ''b'', JStr ''c''])] =
      [[JInt 0, JInt 1], [JStr ''a'', JStr ''b'', JStr ''c'']]"
    by (simp add: list_values_def List.map_filter_simps)
  show ?thesis
    using grid_combinations_complete [of "[(''t'', JList [JInt 0, JInt 1]), (''m'', JList [JStr ''a'', JStr ''b'', JStr ''c''])]"]
    by (simp add: v dict_keys_def)
qed

subsection \<open>Held-out cases\<close>

text \<open>C3. What the agent does on held-out cases cannot change a run: two behaviours of the agent that
  agree on the other cases give the same run of the loop built from the same cases - proposals,
  metrics, decisions, records and writes.\<close>

theorem holdout_noninterference:
  assumes "make_OptimizationLoop sample e pr g graders cases scope ev reps gc cc sa fresh now = Inr l"
    and "\<And>ps i c. \<not> ec_holdout c \<Longrightarrow> rc ps i c = rc' ps i c"
  shows "run_iterations l (run_iteration_in_process l rc) s hyps =
         run_iterations l (run_iteration_in_process l rc') s hyps"
  by (rule run_ignores_holdout_aux) (use assms in auto)

theorem holdout_noninterference_witness:
  "\<exists>l. make_OptimizationLoop (\<lambda>s pop k. take k pop) sample_experiment
       (fixed_proposer :: GridProposer \<Rightarrow> _) False
       (ol_graders sample_loop) [sample_case ''ec_1'' False, sample_case ''ec_2'' True] True
       (Some matrix_evaluate) 1 8 8 None (\<lambda>p n. p) 0 = Inr l \<and>
     run_iterations l (run_iteration_in_process l sample_run_case) None [] =
     run_iterations l (run_iteration_in_process l
       (\<lambda>ps i c. if ec_holdout c then Inl RuntimeError else sample_run_case ps i c)) None []"
proof -
  obtain l where l: "make_OptimizationLoop (\<lambda>s pop k. take k pop) sample_experiment
       (fixed_proposer :: GridProposer \<Rightarrow> _) False
       (ol_graders sample_loop) [sample_case ''ec_1'' False, sample_case ''ec_2'' True] True
       (Some matrix_evaluate) 1 8 8 None (\<lambda>p n. p) 0 = Inr l"
    by (simp add: make_OptimizationLoop_def select_optimization_set_def sample_experiment_def
        sample_run_spec_def sample_case_def sample_loop_def Let_def)
  have "run_iterations l (run_iteration_in_process l sample_run_case) None [] =
     run_iterations l (run_iteration_in_process l
       (\<lambda>ps i c. if ec_holdout c then Inl RuntimeError else sample_run_case ps i c)) None []"
    by (rule holdout_noninterference [OF l]) simp
  with l show ?thesis by blast
qed

text \<open>The cases a run evaluates are cases it was given that are not held out, in the order they
  were given, under every sampling strategy.\<close>

theorem selection_keeps_order:
  "subseq (os_optimization (select_optimization_set sample cases r sa)) (filter (\<lambda>c. \<not> ec_holdout c) cases) \<and>
   os_holdout (select_optimization_set sample cases r sa) = filter ec_holdout cases"
  using selection_subseq [of sample cases r sa] by (simp add: select_optimization_set_def Let_def)

text \<open>With a sampler that draws distinct elements of its population, the random and the
  stratified subset have exactly the target size, and the stratified one holds of every feature
  at least the whole part of its share.\<close>

theorem sampling_sizes:
  assumes "fair_sample sample" "0 \<le> f" "f \<le> 1" "target_size (length pool) f < length pool"
  shows "length (random_subset sample pool f seed) = target_size (length pool) f \<and>
    (\<exists>chosen. stratified_subset sample pool f seed = pick_indices pool chosen \<and>
       chosen \<subseteq> {..<length pool} \<and> card chosen = target_size (length pool) f \<and>
       (\<forall>k. nat \<lfloor>f * of_nat (length (stratum pool k))\<rfloor> \<le> card (chosen \<inter> set (stratum pool k))))"
  using random_subset_length [OF assms(1)] stratified_subset_chosen [OF assms, of seed]
  by (simp add: share_def)

theorem sampling_sizes_witness:
  "length (random_subset (\<lambda>s pop k. take k pop)
     [sample_case ''ec_1'' False, sample_case ''ec_2'' False, sample_case ''ec_3'' False] (1 / 3) 7) = 1"
proof -
  have fair: "fair_sample (\<lambda>s pop k. take k pop)"
    by (auto simp: fair_sample_def dest: in_set_takeD)
  let ?pool = "[sample_case ''ec_1'' False, sample_case ''ec_2'' False, sample_case ''ec_3'' False]"
  have t: "target_size (length ?pool) (1 / 3) = 1" by code_simp
  have "length (random_subset (\<lambda>s pop k. take k pop) ?pool (1 / 3) 7) = target_size (length ?pool) (1 / 3)"
    by (rule conjunct1 [OF sampling_sizes [OF fair]]) (use t in simp_all)
  then show ?thesis by (simp only: t)
qed

subsection \<open>Proposals\<close>

text \<open>C15. Whichever proposer made it - manual, grid, random, hypotheses or an LLM - a proposal is
  well-formed and within the experiment's editable contract: it sets no parameter whose flag is
  off, and changes code only where code may be changed.\<close>

theorem proposals_within_contract:
  assumes "list_all valid_Proposal ps"
    and "r \<in> {fst (manual_propose ps e ctx), fst (grid_propose g e ctx), fst (random_propose rg n rs e ctx),
              fst (propose_offline conf e ctx), fst (propose_with_llm float_of_str ask conf e ctx)}"
    and "r = Inr p"
  shows "valid_Proposal p \<and> respects_contract e p"
proof -
  have "acceptable e p"
    using assms manual.proposes_acceptable [of ps e ctx p "snd (manual_propose ps e ctx)"]
      grid.proposes_acceptable [of g e ctx p "snd (grid_propose g e ctx)"]
      random.proposes_acceptable [OF TrueI, of rg n rs e ctx p "snd (random_propose rg n rs e ctx)"]
      propose_offline_acceptable [of conf e ctx p "snd (propose_offline conf e ctx)"]
      propose_with_llm_acceptable [of float_of_str ask conf e ctx p "snd (propose_with_llm float_of_str ask conf e ctx)"]
    by (auto simp: prod_eq_iff)
  then show ?thesis by (simp add: acceptable_def)
qed

theorem proposals_within_contract_witness:
  "\<exists>p. fst (manual_propose [sample_proposal] sample_experiment
       \<lparr>pc_iteration_index = 0, pc_history = [], pc_failure_modes = [], pc_pending_hypotheses = []\<rparr>) = Inr p \<and>
     respects_contract sample_experiment p"
proof -
  let ?ctx = "\<lparr>pc_iteration_index = 0, pc_history = [], pc_failure_modes = [], pc_pending_hypotheses = []\<rparr>"
  have v: "list_all valid_Proposal [sample_proposal]"
    by (simp add: valid_Proposal_def sample_proposal_def unit_interval_def)
  have m: "fst (manual_propose [sample_proposal] sample_experiment ?ctx) = Inr sample_proposal"
    using sample_proposal_valid by (simp add: manual_propose_def validated_def)
  show ?thesis
    using proposals_within_contract [OF v, of "Inr sample_proposal" sample_experiment ?ctx] m by simp
qed

subsection \<open>Records\<close>

text \<open>C14. Every trace identifier a run announces on an iteration record belongs to a trace the run
  wrote to storage.\<close>

theorem announced_traces_stored:
  assumes "run_iterations l (run_iteration_in_process l rc) s hyps = Inr st"
    and "it \<in> set (ls_iterations st)" "i \<in> set (ex_trace_run_ids (ir_execution (io_iteration_record it)))"
  shows "\<exists>t. PutTrace t \<in> set (ls_writes st) \<and> ri_run_id (tr_run t) = i"
  using run_announced [OF assms(1) in_process_announces] assms(2,3) by (auto simp: announced_stored_def)

theorem announced_traces_stored_witness:
  "\<exists>st t. run_iterations sample_loop (run_iteration_in_process sample_loop sample_run_case) None [] = Inr st \<and>
     PutTrace t \<in> set (ls_writes st) \<and> ri_run_id (tr_run t) = ''tr_1''"
proof -
  obtain st where st: "run_iterations sample_loop (run_iteration_in_process sample_loop sample_run_case) None [] = Inr st"
    using sample_run_returns by blast
  have "bind_result (run_iterations sample_loop (run_iteration_in_process sample_loop sample_run_case) None [])
      (\<lambda>st. Inr (map (\<lambda>it. ex_trace_run_ids (ir_execution (io_iteration_record it))) (ls_iterations st))) =
      Inr [[''tr_1''], [''tr_1'']]"
    by code_simp
  then have "map (\<lambda>it. ex_trace_run_ids (ir_execution (io_iteration_record it))) (ls_iterations st) =
      [[''tr_1''], [''tr_1'']]" by (simp add: st)
  then obtain it rest where cons: "ls_iterations st = it # rest"
    "ex_trace_run_ids (ir_execution (io_iteration_record it)) = [''tr_1'']"
    by (cases "ls_iterations st") simp_all
  have it: "it \<in> set (ls_iterations st)"
    "''tr_1'' \<in> set (ex_trace_run_ids (ir_execution (io_iteration_record it)))"
    by (simp_all add: cons)
  show ?thesis using announced_traces_stored [OF st it] st by blast
qed

end
