(* ===== verification/Jobs.thy ===== *)
theory Jobs
  imports Experiment_Schema
begin

section \<open>schemas/job.py\<close>

text \<open>
  The durable envelopes of sharded work: a \<^verbatim>\<open>RunJob\<close> is one launched experiment run, a
  \<^verbatim>\<open>ScenarioJob\<close> one (iteration, case) of it.  Each \<^verbatim>\<open>mark_*\<close> method assigns fields of the object;
  here it returns the updated record.  A failing scenario job goes back to the claimable
  frontier until its attempts are used up; a failing run job is set to \<^verbatim>\<open>FAILED\<close>, which is a
  terminal status.
\<close>

record RunJob = BaseEntity +
  rj_experiment_id :: string
  rj_status :: RunJobStatus
  rj_attempt :: nat
  rj_max_attempts :: nat
  rj_lease_owner :: "string option"
  rj_lease_expires_at :: "timestamp option"
  rj_cancel_requested_at :: "timestamp option"
  rj_started_at :: "timestamp option"
  rj_finished_at :: "timestamp option"
  rj_last_error :: "string option"
  rj_spec_payload :: "json dict"
  rj_reps :: nat

definition valid_RunJob :: "RunJob \<Rightarrow> bool" where
  "valid_RunJob j \<longleftrightarrow> valid_BaseEntity j \<and> rj_experiment_id j \<noteq> [] \<and> 1 \<le> rj_max_attempts j \<and> 1 \<le> rj_reps j"

definition run_job_terminal :: "RunJob \<Rightarrow> bool" where
  "run_job_terminal j \<longleftrightarrow> rj_status j \<in> {RunJobStatus.SUCCEEDED, RunJobStatus.FAILED,
     RunJobStatus.CANCELLED, RunJobStatus.DEAD_LETTERED}"

definition should_cancel :: "RunJob \<Rightarrow> bool" where
  "should_cancel j \<longleftrightarrow> rj_cancel_requested_at j \<noteq> None"

definition mark_cancel_requested :: "timestamp \<Rightarrow> RunJob \<Rightarrow> RunJob" where
  "mark_cancel_requested w j =
     (if \<not> run_job_terminal j \<and> rj_cancel_requested_at j = None
      then j\<lparr>rj_cancel_requested_at := Some w\<rparr> else j)"

definition mark_leased :: "string \<Rightarrow> timestamp \<Rightarrow> RunJob \<Rightarrow> RunJob" where
  "mark_leased owner expires j =
     j\<lparr>rj_status := RunJobStatus.LEASED, rj_lease_owner := Some owner, rj_lease_expires_at := Some expires\<rparr>"

definition mark_running :: "string \<Rightarrow> timestamp \<Rightarrow> timestamp \<Rightarrow> RunJob \<Rightarrow> RunJob" where
  "mark_running owner expires started j =
     j\<lparr>rj_status := RunJobStatus.RUNNING, rj_lease_owner := Some owner, rj_lease_expires_at := Some expires,
       rj_started_at := (case rj_started_at j of Some t \<Rightarrow> Some t | None \<Rightarrow> Some started)\<rparr>"

definition renew_lease :: "string \<Rightarrow> timestamp \<Rightarrow> RunJob \<Rightarrow> RunJob" where
  "renew_lease owner expires j = j\<lparr>rj_lease_owner := Some owner, rj_lease_expires_at := Some expires\<rparr>"

definition mark_succeeded :: "timestamp \<Rightarrow> RunJob \<Rightarrow> RunJob" where
  "mark_succeeded w j =
     j\<lparr>rj_status := RunJobStatus.SUCCEEDED, rj_finished_at := Some w, rj_lease_owner := None,
       rj_lease_expires_at := None, rj_last_error := None\<rparr>"

definition mark_cancelled :: "timestamp \<Rightarrow> RunJob \<Rightarrow> RunJob" where
  "mark_cancelled w j =
     j\<lparr>rj_status := RunJobStatus.CANCELLED, rj_finished_at := Some w, rj_lease_owner := None,
       rj_lease_expires_at := None\<rparr>"

datatype FailureVerdict = Retry | Dead

definition mark_failed_or_dead_lettered :: "string \<Rightarrow> timestamp \<Rightarrow> RunJob \<Rightarrow> RunJob \<times> FailureVerdict" where
  "mark_failed_or_dead_lettered err w j =
     (let j' = j\<lparr>rj_last_error := Some err, rj_lease_owner := None, rj_lease_expires_at := None\<rparr>
      in if rj_attempt j' \<ge> rj_max_attempts j'
         then (j'\<lparr>rj_status := RunJobStatus.DEAD_LETTERED, rj_finished_at := Some w\<rparr>, Dead)
         else (j'\<lparr>rj_status := RunJobStatus.FAILED\<rparr>, Retry))"

subsection \<open>Scenario jobs\<close>

record ScenarioJob = BaseEntity +
  sj_run_job_id :: string
  sj_experiment_id :: string
  sj_iteration :: nat
  sj_case_id :: string
  sj_reps :: nat
  sj_status :: ScenarioJobStatus
  sj_attempt :: nat
  sj_max_attempts :: nat
  sj_lease_until :: "timestamp option"
  sj_worker_id :: "string option"
  sj_error :: "string option"
  sj_parameter_overrides :: "json dict"
  sj_started_at :: "timestamp option"
  sj_finished_at :: "timestamp option"

definition valid_ScenarioJob :: "ScenarioJob \<Rightarrow> bool" where
  "valid_ScenarioJob j \<longleftrightarrow> valid_BaseEntity j \<and> sj_run_job_id j \<noteq> [] \<and> sj_experiment_id j \<noteq> [] \<and>
     sj_case_id j \<noteq> [] \<and> 1 \<le> sj_max_attempts j \<and> 1 \<le> sj_reps j"

definition scenario_job_terminal :: "ScenarioJob \<Rightarrow> bool" where
  "scenario_job_terminal j \<longleftrightarrow> sj_status j \<in> {ScenarioJobStatus.SUCCEEDED, ScenarioJobStatus.FAILED,
     ScenarioJobStatus.DEAD_LETTERED, ScenarioJobStatus.CANCELLED}"

definition mark_scenario_claimed :: "string \<Rightarrow> timestamp \<Rightarrow> ScenarioJob \<Rightarrow> ScenarioJob" where
  "mark_scenario_claimed worker until j =
     j\<lparr>sj_status := ScenarioJobStatus.CLAIMED, sj_worker_id := Some worker, sj_lease_until := Some until\<rparr>"

definition mark_scenario_running ::
    "string \<Rightarrow> timestamp \<Rightarrow> timestamp \<Rightarrow> ScenarioJob \<Rightarrow> ScenarioJob" where
  "mark_scenario_running worker until started j =
     j\<lparr>sj_status := ScenarioJobStatus.RUNNING, sj_worker_id := Some worker, sj_lease_until := Some until,
       sj_started_at := (case sj_started_at j of Some t \<Rightarrow> Some t | None \<Rightarrow> Some started)\<rparr>"

definition mark_scenario_succeeded :: "timestamp \<Rightarrow> ScenarioJob \<Rightarrow> ScenarioJob" where
  "mark_scenario_succeeded w j =
     j\<lparr>sj_status := ScenarioJobStatus.SUCCEEDED, sj_finished_at := Some w, sj_worker_id := None,
       sj_lease_until := None, sj_error := None\<rparr>"

definition mark_scenario_cancelled :: "timestamp \<Rightarrow> ScenarioJob \<Rightarrow> ScenarioJob" where
  "mark_scenario_cancelled w j =
     j\<lparr>sj_status := ScenarioJobStatus.CANCELLED, sj_finished_at := Some w, sj_worker_id := None,
       sj_lease_until := None\<rparr>"

definition mark_scenario_failed_or_dead_lettered ::
    "string \<Rightarrow> timestamp \<Rightarrow> ScenarioJob \<Rightarrow> ScenarioJob \<times> FailureVerdict" where
  "mark_scenario_failed_or_dead_lettered err w j =
     (let j' = j\<lparr>sj_error := Some err, sj_worker_id := None, sj_lease_until := None\<rparr>
      in if sj_attempt j' \<ge> sj_max_attempts j'
         then (j'\<lparr>sj_status := ScenarioJobStatus.DEAD_LETTERED, sj_finished_at := Some w\<rparr>, Dead)
         else (j'\<lparr>sj_status := ScenarioJobStatus.PENDING\<rparr>, Retry))"

subsection \<open>What a failure leaves behind\<close>

lemma failed_scenario_job:
  "sj_status (fst (mark_scenario_failed_or_dead_lettered err w j)) =
     (if sj_attempt j < sj_max_attempts j then ScenarioJobStatus.PENDING else ScenarioJobStatus.DEAD_LETTERED)"
  by (simp add: mark_scenario_failed_or_dead_lettered_def Let_def)

text \<open>A failed run job is terminal, with attempts left or without.\<close>

lemma failed_run_job_terminal:
  "run_job_terminal (fst (mark_failed_or_dead_lettered err w j))"
  by (simp add: mark_failed_or_dead_lettered_def Let_def run_job_terminal_def)

lemma failed_run_job_frame [frame_simps]:
  "ent_id (fst (mark_failed_or_dead_lettered err w j)) = ent_id j"
  "workspace_id (fst (mark_failed_or_dead_lettered err w j)) = workspace_id j"
  "version (fst (mark_failed_or_dead_lettered err w j)) = version j"
  "rj_attempt (fst (mark_failed_or_dead_lettered err w j)) = rj_attempt j"
  "rj_experiment_id (fst (mark_failed_or_dead_lettered err w j)) = rj_experiment_id j"
  by (simp_all add: mark_failed_or_dead_lettered_def Let_def)

lemma mark_cancel_requested_frame [frame_simps]:
  "ent_id (mark_cancel_requested w j) = ent_id j"
  "workspace_id (mark_cancel_requested w j) = workspace_id j"
  "version (mark_cancel_requested w j) = version j"
  "rj_status (mark_cancel_requested w j) = rj_status j"
  by (simp_all add: mark_cancel_requested_def)

end
