(* ===== verification/Entity_Store.thy ===== *)
theory Entity_Store
  imports Experiment_Schema "HOL-Library.Product_Lexorder"
begin

section \<open>storage/interface.py and storage/postgres/storage.py\<close>

text \<open>
  The entity store behind a workspace scope.  A table is the list of its rows, each entity with
  its own identifier (the primary key of the table, shared by all workspaces).  The statements
  of the scope and of its mappers are written out as what the SQL says: a lookup by primary
  key, an upsert that overwrites every column but the identifier and the creation time, a
  filtered and ordered listing (rows that tie keep their place in the table, an order SQL leaves
  open).  The scope checks the workspace before it writes and the version before it overwrites.
\<close>

type_synonym 'e table = "'e BaseEntity_scheme list"

definition find_row :: "'e table \<Rightarrow> string \<Rightarrow> 'e BaseEntity_scheme option" where
  "find_row t i = find (\<lambda>e. ent_id e = i) t"

text \<open>\<^verbatim>\<open>INSERT ... ON CONFLICT (id) DO UPDATE SET\<close>, every column but \<^verbatim>\<open>id\<close> and \<^verbatim>\<open>created_at\<close>.\<close>

definition restamp :: "'e BaseEntity_scheme \<Rightarrow> 'e BaseEntity_scheme \<Rightarrow> 'e BaseEntity_scheme" where
  "restamp e r = (if ent_id r = ent_id e then e\<lparr>created_at := created_at r\<rparr> else r)"

definition upsert :: "'e BaseEntity_scheme \<Rightarrow> 'e table \<Rightarrow> 'e table" where
  "upsert e t =
     (case find_row t (ent_id e) of None \<Rightarrow> t @ [e] | Some _ \<Rightarrow> map (restamp e) t)"

definition table_ok :: "'e table \<Rightarrow> bool" where
  "table_ok t \<longleftrightarrow> distinct (map ent_id t)"

subsection \<open>A scope\<close>

record WorkspaceScope =
  sc_workspace_id :: string
  sc_closed :: bool

definition open_scope :: "string \<Rightarrow> WorkspaceScope result" where
  "open_scope ws =
     (if ws = [] then Inl ValueError else Inr \<lparr>sc_workspace_id = ws, sc_closed = False\<rparr>)"

definition close_scope :: "WorkspaceScope \<Rightarrow> WorkspaceScope" where
  "close_scope sc = sc\<lparr>sc_closed := True\<rparr>"

definition guard_open :: "WorkspaceScope \<Rightarrow> unit result" where
  "guard_open sc = (if sc_closed sc then Inl RuntimeError else Inr ())"

definition assert_owns :: "WorkspaceScope \<Rightarrow> 'e BaseEntity_scheme \<Rightarrow> unit result" where
  "assert_owns sc e =
     (if workspace_id e \<noteq> sc_workspace_id sc then Inl WorkspaceMismatchError else Inr ())"

definition put_entity_with_mapper ::
    "WorkspaceScope \<Rightarrow> 'e BaseEntity_scheme \<Rightarrow> 'e table \<Rightarrow> 'e table result" where
  "put_entity_with_mapper sc e t = (case find_row t (ent_id e) of
     None \<Rightarrow> Inr (upsert e t)
   | Some r \<Rightarrow>
       if workspace_id r \<noteq> sc_workspace_id sc then Inl WorkspaceMismatchError
       else if version r \<notin> {version e - 1, version e}
         then Inl (OptimisticConcurrencyError (version e) (version r))
       else Inr (upsert e t))"

definition put_entity ::
    "WorkspaceScope \<Rightarrow> 'e BaseEntity_scheme \<Rightarrow> 'e table \<Rightarrow> 'e table result" where
  "put_entity sc e t =
     bind_result (guard_open sc) (\<lambda>_. bind_result (assert_owns sc e) (\<lambda>_. put_entity_with_mapper sc e t))"

text \<open>The mapper's \<^verbatim>\<open>load\<close>, then the second statement that tells a missing row from a foreign one.\<close>

definition load_row :: "'e table \<Rightarrow> string \<Rightarrow> string \<Rightarrow> 'e BaseEntity_scheme option" where
  "load_row t ws i = find (\<lambda>e. ent_id e = i \<and> workspace_id e = ws) t"

definition get_entity :: "WorkspaceScope \<Rightarrow> string \<Rightarrow> 'e table \<Rightarrow> 'e BaseEntity_scheme result" where
  "get_entity sc i t =
     bind_result (guard_open sc) (\<lambda>_. case load_row t (sc_workspace_id sc) i of
       Some e \<Rightarrow> Inr e
     | None \<Rightarrow> Inl (if find_row t i \<noteq> None then WorkspaceMismatchError else EntityNotFoundError))"

definition entity_exists :: "WorkspaceScope \<Rightarrow> string \<Rightarrow> 'e table \<Rightarrow> bool result" where
  "entity_exists sc i t =
     bind_result (guard_open sc) (\<lambda>_. Inr (load_row t (sc_workspace_id sc) i \<noteq> None))"

definition delete_row :: "string \<Rightarrow> 'e table \<Rightarrow> 'e table" where
  "delete_row i t = filter (\<lambda>e. ent_id e \<noteq> i) t"

definition delete_entity :: "WorkspaceScope \<Rightarrow> string \<Rightarrow> 'e table \<Rightarrow> 'e table result" where
  "delete_entity sc i t =
     bind_result (guard_open sc) (\<lambda>_. case find_row t i of
       None \<Rightarrow> Inl EntityNotFoundError
     | Some e \<Rightarrow> if workspace_id e \<noteq> sc_workspace_id sc then Inl WorkspaceMismatchError
                 else Inr (delete_row i t))"

subsection \<open>Listing\<close>

record ListFilter =
  lf_where :: "(string \<times> json) list"
  lf_limit :: "nat option"
  lf_offset :: nat
  lf_order_by :: string
  lf_order_desc :: bool

definition default_ListFilter :: ListFilter where
  "default_ListFilter = \<lparr>lf_where = [], lf_limit = None, lf_offset = 0,
     lf_order_by = ''created_at'', lf_order_desc = True\<rparr>"

text \<open>The columns a mapper can filter and order on, each with the value a row has there.\<close>

type_synonym 'e columns = "(string \<times> ('e BaseEntity_scheme \<Rightarrow> json)) list"

definition opt_timestamp :: "timestamp option \<Rightarrow> json" where
  "opt_timestamp x = (case x of None \<Rightarrow> JNull | Some i \<Rightarrow> JInt i)"

definition SHARED_COLUMNS :: "'e columns" where
  "SHARED_COLUMNS = [(''id'', \<lambda>e. JStr (ent_id e)), (''workspace_id'', \<lambda>e. JStr (workspace_id e)),
     (''version'', \<lambda>e. JInt (version e)), (''created_at'', \<lambda>e. JInt (created_at e)),
     (''updated_at'', \<lambda>e. JInt (updated_at e)), (''deleted_at'', \<lambda>e. opt_timestamp (deleted_at e))]"

definition validate_order_by ::
    "'e columns \<Rightarrow> string \<Rightarrow> ('e BaseEntity_scheme \<Rightarrow> json) result" where
  "validate_order_by cols c = (case map_of cols c of None \<Rightarrow> Inl ValueError | Some f \<Rightarrow> Inr f)"

text \<open>\<^verbatim>\<open>col = value\<close>; a comparison with NULL holds for no row.\<close>

definition scalar_where ::
    "'e columns \<Rightarrow> (string \<times> json) list \<Rightarrow> ('e BaseEntity_scheme \<Rightarrow> bool) result" where
  "scalar_where cols clauses =
     bind_result (map_result (\<lambda>(k, v). case map_of cols k of
         None \<Rightarrow> Inl ValueError | Some f \<Rightarrow> Inr (\<lambda>e. f e \<noteq> JNull \<and> f e = v)) clauses) (\<lambda>ps.
     Inr (\<lambda>e. list_all (\<lambda>p. p e) ps))"

text \<open>The order of a column: NULL after every value.\<close>

fun column_key :: "json \<Rightarrow> nat \<times> int \<times> string" where
  "column_key JNull = (1, 0, [])"
| "column_key (JInt i) = (0, i, [])"
| "column_key (JStr s) = (0, 0, s)"
| "column_key _ = (0, 0, [])"

definition order_rows :: "('e \<Rightarrow> json) \<Rightarrow> bool \<Rightarrow> 'e list \<Rightarrow> 'e list" where
  "order_rows f desc t =
     (if desc then rev (sort_key (\<lambda>e. column_key (f e)) (rev t)) else sort_key (\<lambda>e. column_key (f e)) t)"

definition load_many :: "'e columns \<Rightarrow> string \<Rightarrow> ListFilter \<Rightarrow> 'e table \<Rightarrow> 'e table result" where
  "load_many cols ws flt t =
     bind_result (validate_order_by cols (lf_order_by flt)) (\<lambda>f.
     bind_result (scalar_where cols (lf_where flt)) (\<lambda>p.
       let rows = order_rows f (lf_order_desc flt) (filter (\<lambda>e. workspace_id e = ws \<and> p e) t)
       in Inr (case lf_limit flt of None \<Rightarrow> rows | Some n \<Rightarrow> take n (drop (lf_offset flt) rows))))"

definition list_entities ::
    "WorkspaceScope \<Rightarrow> 'e columns \<Rightarrow> ListFilter option \<Rightarrow> 'e table \<Rightarrow> 'e table result" where
  "list_entities sc cols flt t =
     bind_result (guard_open sc) (\<lambda>_.
       load_many cols (sc_workspace_id sc) (case flt of None \<Rightarrow> default_ListFilter | Some x \<Rightarrow> x) t)"

subsection \<open>Transactions\<close>

text \<open>\<^verbatim>\<open>transaction()\<close> turns autocommit off around a block: the block's writes are committed when it
  returns and rolled back when it raises.  A block may itself call \<^verbatim>\<open>transaction\<close>, which raises.\<close>

record 'db Connection =
  cx_db :: 'db
  cx_autocommit :: bool

definition transaction ::
    "('db Connection \<Rightarrow> 'a result \<times> 'db Connection) \<Rightarrow> 'db Connection \<Rightarrow> 'a result \<times> 'db Connection" where
  "transaction block c =
     (if \<not> cx_autocommit c then (Inl RuntimeError, c)
      else case block (c\<lparr>cx_autocommit := False\<rparr>) of
             (Inl err, c') \<Rightarrow> (Inl err, c'\<lparr>cx_db := cx_db c, cx_autocommit := True\<rparr>)
           | (Inr x, c') \<Rightarrow> (Inr x, c'\<lparr>cx_autocommit := True\<rparr>))"

subsection \<open>Rows and identifiers\<close>

lemma find_row_Some: "find_row t i = Some e \<Longrightarrow> e \<in> set t \<and> ent_id e = i"
  by (auto simp: find_row_def find_Some_iff)

lemma find_row_None: "find_row t i = None \<longleftrightarrow> i \<notin> ent_id ` set t"
  by (auto simp: find_row_def find_None_iff)

lemma find_row_in: "table_ok t \<Longrightarrow> e \<in> set t \<Longrightarrow> find_row t (ent_id e) = Some e"
  unfolding find_row_def table_ok_def by (induction t) (auto simp: rev_image_eqI)

lemma load_row_conv:
  assumes "table_ok t"
  shows "load_row t ws i = (case find_row t i of
           None \<Rightarrow> None | Some e \<Rightarrow> if workspace_id e = ws then Some e else None)"
  using assms
proof (induction t)
  case (Cons a t)
  show ?case
  proof (cases "ent_id a = i")
    case True
    then have "find (\<lambda>e. ent_id e = i \<and> workspace_id e = ws) t = None"
      using Cons.prems by (auto simp: find_None_iff table_ok_def rev_image_eqI)
    with True show ?thesis by (simp add: load_row_def find_row_def)
  next
    case False
    with Cons show ?thesis by (simp add: load_row_def find_row_def table_ok_def)
  qed
qed (simp add: load_row_def find_row_def)

lemma ent_id_restamp [simp]: "ent_id (restamp e r) = ent_id r"
  by (simp add: restamp_def)

lemma upsert_ok: "table_ok t \<Longrightarrow> table_ok (upsert e t)"
  using find_row_None [of t "ent_id e"]
  by (cases "find_row t (ent_id e)") (simp_all add: upsert_def table_ok_def comp_def)

definition stamped :: "'e BaseEntity_scheme \<Rightarrow> 'e BaseEntity_scheme option \<Rightarrow> 'e BaseEntity_scheme" where
  "stamped e old = (case old of None \<Rightarrow> e | Some r \<Rightarrow> restamp e r)"

lemma find_row_map_restamp: "find_row (map (restamp e) t) i = map_option (restamp e) (find_row t i)"
  unfolding find_row_def by (induction t) simp_all

lemma find_row_snoc: "find_row (t @ [e]) i = (case find_row t i of
    None \<Rightarrow> if ent_id e = i then Some e else None | Some r \<Rightarrow> Some r)"
  unfolding find_row_def by (induction t) simp_all

lemma restamp_other: "ent_id r \<noteq> ent_id e \<Longrightarrow> restamp e r = r"
  by (simp add: restamp_def)

lemma find_row_upsert:
  "find_row (upsert e t) i = (if i = ent_id e then Some (stamped e (find_row t i)) else find_row t i)"
proof (cases "find_row t (ent_id e)")
  case None
  then show ?thesis
    by (cases "find_row t i") (auto simp: upsert_def find_row_snoc stamped_def)
next
  case (Some r)
  have "restamp e q = q" if "i \<noteq> ent_id e" "find_row t i = Some q" for q
    using that find_row_Some [of t i q] by (simp add: restamp_other)
  with Some show ?thesis
    by (cases "find_row t i") (auto simp: upsert_def find_row_map_restamp stamped_def)
qed

lemma stamped_fields [simp]:
  "workspace_id (stamped e (find_row t (ent_id e))) = workspace_id e"
  "version (stamped e (find_row t (ent_id e))) = version e"
  "ent_id (stamped e (find_row t (ent_id e))) = ent_id e"
proof (atomize (full), cases "find_row t (ent_id e)")
  case (Some r)
  then have "ent_id r = ent_id e" using find_row_Some [OF Some] by blast
  with Some show "workspace_id (stamped e (find_row t (ent_id e))) = workspace_id e \<and>
      version (stamped e (find_row t (ent_id e))) = version e \<and>
      ent_id (stamped e (find_row t (ent_id e))) = ent_id e"
    by (simp add: stamped_def restamp_def)
qed (simp add: stamped_def)

lemma stamped_eq:
  assumes "ent_id e = i"
  obtains c where "stamped e (find_row t i) = e\<lparr>created_at := c\<rparr>"
proof (cases "find_row t i")
  case None
  with that [of "created_at e"] show ?thesis by (simp add: stamped_def)
next
  case (Some r)
  then have "ent_id r = ent_id e" using find_row_Some [OF Some] assms by simp
  with that [of "created_at r"] Some show ?thesis by (simp add: stamped_def restamp_def)
qed

lemma guards_Inr [simp]:
  "guard_open sc = Inr u \<longleftrightarrow> \<not> sc_closed sc"
  "assert_owns sc e = Inr u \<longleftrightarrow> workspace_id e = sc_workspace_id sc"
  by (simp_all add: guard_open_def assert_owns_def)

lemma put_entity_Inr:
  "put_entity sc e t = Inr t' \<longleftrightarrow>
     \<not> sc_closed sc \<and> workspace_id e = sc_workspace_id sc \<and> t' = upsert e t \<and>
     (case find_row t (ent_id e) of None \<Rightarrow> True
      | Some r \<Rightarrow> workspace_id r = sc_workspace_id sc \<and> version r \<in> {version e - 1, version e})"
  by (cases "find_row t (ent_id e)")
    (auto simp: put_entity_def put_entity_with_mapper_def bind_result_Inr_iff simp del: insert_iff)

lemma put_entity_ok: "table_ok t \<Longrightarrow> put_entity sc e t = Inr t' \<Longrightarrow> table_ok t'"
  by (simp add: put_entity_Inr upsert_ok)

lemma delete_entity_Inr:
  "delete_entity sc i t = Inr t' \<longleftrightarrow>
     \<not> sc_closed sc \<and> t' = delete_row i t \<and>
     (\<exists>r. find_row t i = Some r \<and> workspace_id r = sc_workspace_id sc)"
  by (cases "find_row t i") (auto simp: delete_entity_def bind_result_Inr_iff)

lemma delete_row_ok: "table_ok t \<Longrightarrow> table_ok (delete_row i t)"
  by (auto simp: table_ok_def delete_row_def distinct_map_filter)

lemma find_row_delete: "find_row (delete_row i t) j = (if j = i then None else find_row t j)"
  unfolding find_row_def delete_row_def by (induction t) auto

subsection \<open>What a listing returns\<close>

lemma set_order_rows [simp]: "set (order_rows f desc t) = set t"
  by (simp add: order_rows_def)

lemma load_many_subset:
  assumes "load_many cols ws flt t = Inr rows" "e \<in> set rows"
  shows "e \<in> set t \<and> workspace_id e = ws"
  using assms by (auto simp: load_many_def bind_result_Inr_iff Let_def
      split: option.splits dest!: in_set_takeD in_set_dropD)

lemma list_entities_subset:
  "list_entities sc cols flt t = Inr rows \<Longrightarrow> e \<in> set rows \<Longrightarrow> e \<in> set t \<and> workspace_id e = sc_workspace_id sc"
  by (auto simp: list_entities_def bind_result_Inr_iff dest: load_many_subset)

subsection \<open>Isolation and versions\<close>

text \<open>One write of some client, through a scope of its own workspace.  A write that raises leaves the
  table alone.\<close>

datatype 'e StoreOp = PutOp string "'e BaseEntity_scheme" | DeleteOp string string

primrec op_workspace :: "'e StoreOp \<Rightarrow> string" where
  "op_workspace (PutOp ws e) = ws"
| "op_workspace (DeleteOp ws i) = ws"

primrec run_op :: "'e StoreOp \<Rightarrow> 'e table \<Rightarrow> 'e table result" where
  "run_op (PutOp ws e) t = bind_result (open_scope ws) (\<lambda>sc. put_entity sc e t)"
| "run_op (DeleteOp ws i) t = bind_result (open_scope ws) (\<lambda>sc. delete_entity sc i t)"

definition exec_op :: "'e table \<Rightarrow> 'e StoreOp \<Rightarrow> 'e table" where
  "exec_op t w = (case run_op w t of Inl _ \<Rightarrow> t | Inr t' \<Rightarrow> t')"

definition exec_ops :: "'e StoreOp list \<Rightarrow> 'e table \<Rightarrow> 'e table" where
  "exec_ops ops t = foldl exec_op t ops"

lemma open_scope_Inr [simp]:
  "open_scope ws = Inr sc \<longleftrightarrow> ws \<noteq> [] \<and> sc = \<lparr>sc_workspace_id = ws, sc_closed = False\<rparr>"
  by (auto simp: open_scope_def)

text \<open>The contract of a store that several tenants share: a state predicate kept by every write, and
  what one tenant sees is not touched by the writes of another.\<close>

locale tenant_store =
  fixes ok :: "'t \<Rightarrow> bool"
    and visible :: "'t \<Rightarrow> string \<Rightarrow> string \<Rightarrow> 'e option"
    and tenant :: "'w \<Rightarrow> string"
    and act :: "'t \<Rightarrow> 'w \<Rightarrow> 't"
  assumes write_ok: "ok t \<Longrightarrow> ok (act t w)"
    and write_frame: "ok t \<Longrightarrow> tenant w \<noteq> ws \<Longrightarrow> visible (act t w) ws = visible t ws"
begin

lemma writes_ok: "ok t \<Longrightarrow> ok (foldl act t ops)"
  by (induction ops arbitrary: t) (simp_all add: write_ok)

lemma writes_frame:
  "ok t \<Longrightarrow> ws \<notin> tenant ` set ops \<Longrightarrow> visible (foldl act t ops) ws = visible t ws"
  by (induction ops arbitrary: t) (auto simp: write_ok write_frame)

text \<open>Whatever the others do in between, a tenant's own writes have the effect they have alone.\<close>

lemma own_write_last:
  assumes "ok t" "ws \<notin> tenant ` set ops" "visible (act t w) ws = V"
  shows "visible (foldl act (act t w) ops) ws = V"
  using writes_frame [OF write_ok [OF assms(1)] assms(2)] assms(3) by simp

end

lemma run_op_ok: "table_ok t \<Longrightarrow> run_op w t = Inr t' \<Longrightarrow> table_ok t'"
  by (cases w) (auto simp: bind_result_Inr_iff delete_entity_Inr delete_row_ok dest: put_entity_ok)

lemma run_op_frame:
  assumes "table_ok t" "run_op w t = Inr t'" "op_workspace w \<noteq> ws"
  shows "load_row t' ws i = load_row t ws i"
proof (cases w)
  case (PutOp ws' e)
  with assms(2,3) have "t' = upsert e t" "workspace_id e = ws'" "ws' \<noteq> ws"
    and "\<And>r. find_row t (ent_id e) = Some r \<Longrightarrow> workspace_id r = ws'"
    by (auto simp: bind_result_Inr_iff put_entity_Inr)
  then show ?thesis
    using upsert_ok [OF assms(1), of e] assms(1)
    by (cases "find_row t (ent_id e)")
      (auto simp: load_row_conv find_row_upsert stamped_def restamp_def)
next
  case (DeleteOp ws' j)
  with assms(2,3) obtain r where "t' = delete_row j t" "find_row t j = Some r" "workspace_id r = ws'"
    "ws' \<noteq> ws"
    by (auto simp: bind_result_Inr_iff delete_entity_Inr)
  then show ?thesis
    using delete_row_ok [OF assms(1), of j] assms(1) by (simp add: load_row_conv find_row_delete)
qed

interpretation pg: tenant_store table_ok load_row op_workspace exec_op
proof
  show "table_ok t \<Longrightarrow> table_ok (exec_op t w)" for t :: "'a table" and w
    using run_op_ok [of t w] by (cases "run_op w t") (simp_all add: exec_op_def)
  show "table_ok t \<Longrightarrow> op_workspace w \<noteq> ws \<Longrightarrow> load_row (exec_op t w) ws = load_row t ws"
    for t :: "'a table" and w ws
    using run_op_frame [of t w] by (cases "run_op w t") (auto simp: exec_op_def)
qed

text \<open>A write that succeeds raises the stored version by at most one and never lowers it.\<close>

lemma put_version_step:
  assumes "put_entity sc e t = Inr t'" "find_row t (ent_id e) = Some r"
  shows "find_row t' (ent_id e) = Some (restamp e r) \<and> version (restamp e r) = version e \<and>
    version e \<in> {version r, version r + 1}"
  using assms find_row_Some [OF assms(2)]
  by (auto simp: put_entity_Inr find_row_upsert stamped_def restamp_def)

text \<open>A writer that read an older version is refused, one that read the current version is not: the
  code never raises the version of an entity by itself, so two writers that read the same version
  both succeed and the later write wins.\<close>

lemma stale_put_refused:
  assumes "find_row t (ent_id e) = Some r" "workspace_id r = sc_workspace_id sc"
    and "workspace_id e = sc_workspace_id sc" "\<not> sc_closed sc" "version e < version r"
  shows "put_entity sc e t = Inl (OptimisticConcurrencyError (version e) (version r))"
  using assms by (simp add: put_entity_def put_entity_with_mapper_def guard_open_def assert_owns_def)

lemma both_writers_succeed:
  assumes "put_entity sc e t = Inr t1" "ent_id e' = ent_id e" "workspace_id e' = workspace_id e"
    and "version e' = version e"
  shows "\<exists>t2. put_entity sc e' t1 = Inr t2"
proof -
  have t1: "t1 = upsert e t" "workspace_id e = sc_workspace_id sc" "\<not> sc_closed sc"
    using assms(1) by (simp_all add: put_entity_Inr)
  then have "put_entity sc e' t1 = Inr (upsert e' t1)"
    using assms(2-4) by (simp add: put_entity_Inr find_row_upsert)
  then show ?thesis by blast
qed

text \<open>What is read back after a write is what was written, but for the creation time.\<close>

lemma get_after_put:
  assumes "table_ok t" "put_entity sc e t = Inr t'"
  shows "get_entity sc (ent_id e) t' = Inr (stamped e (find_row t (ent_id e)))"
proof -
  have "t' = upsert e t" "workspace_id e = sc_workspace_id sc" "\<not> sc_closed sc"
    using assms(2) by (simp_all add: put_entity_Inr)
  then show ?thesis
    using upsert_ok [OF assms(1), of e]
    by (simp add: get_entity_def guard_open_def load_row_conv find_row_upsert)
qed

subsection \<open>Atomic batches\<close>

lemma transaction_rolls_back:
  "transaction block c = (Inl err, c') \<Longrightarrow> cx_db c' = cx_db c"
  by (auto simp: transaction_def split: if_splits prod.splits sum.splits)

lemma transaction_autocommit:
  "cx_autocommit c \<Longrightarrow> cx_autocommit (snd (transaction block c))"
  by (auto simp: transaction_def split: prod.splits sum.splits)

lemma transaction_nested:
  "transaction (transaction block) c = (Inl RuntimeError, c)"
  by (simp add: transaction_def)

end
