(* ===== verification/Run_Jobs.thy ===== *)
theory Run_Jobs
  imports Jobs Entity_Store Grading
begin

section \<open>api/run\_jobs.py, its queries, the sweeper and the launcher\<close>

text \<open>
  The life of a run job in the database: create, lease, run, heartbeat, cancel, fail, sweep.  The
  database is the two tables these functions write.  A scope is not a transaction, so what was
  written before an exception stays written: an operation returns its result and the database
  together.  The clock is read once per call (\<open>now\<close>); the identifier of a new job, the
  deserialization of the stored spec and the run itself are arguments.
\<close>

subsection \<open>Operations that may raise half-way\<close>

type_synonym ('s, 'a) exec = "'s \<Rightarrow> 'a result \<times> 's"

definition return_exec :: "'a \<Rightarrow> ('s, 'a) exec" where
  "return_exec x s = (Inr x, s)"

definition raise_exec :: "py_error \<Rightarrow> ('s, 'a) exec" where
  "raise_exec e s = (Inl e, s)"

definition bind_exec :: "('s, 'a) exec \<Rightarrow> ('a \<Rightarrow> ('s, 'b) exec) \<Rightarrow> ('s, 'b) exec" where
  "bind_exec m f s = (case m s of (Inl e, s') \<Rightarrow> (Inl e, s') | (Inr x, s') \<Rightarrow> f x s')"

definition lift_result :: "'a result \<Rightarrow> ('s, 'a) exec" where
  "lift_result r s = (r, s)"

record RunDb =
  rd_jobs :: "RunJob list"
  rd_experiments :: "Experiment list"

definition put_job :: "WorkspaceScope \<Rightarrow> RunJob \<Rightarrow> (RunDb, unit) exec" where
  "put_job sc j db = (case put_entity sc j (rd_jobs db) of
     Inl e \<Rightarrow> (Inl e, db) | Inr t \<Rightarrow> (Inr (), db\<lparr>rd_jobs := t\<rparr>))"

definition put_experiment :: "WorkspaceScope \<Rightarrow> Experiment \<Rightarrow> (RunDb, unit) exec" where
  "put_experiment sc e db = (case put_entity sc e (rd_experiments db) of
     Inl err \<Rightarrow> (Inl err, db) | Inr t \<Rightarrow> (Inr (), db\<lparr>rd_experiments := t\<rparr>))"

subsection \<open>api/run\_jobs.py\<close>

definition RUN_JOB_COLUMNS :: "(string \<times> (RunJob \<Rightarrow> json)) list" where
  "RUN_JOB_COLUMNS = SHARED_COLUMNS @
     [(''experiment_id'', \<lambda>j. JStr (rj_experiment_id j)),
      (''status'', \<lambda>j. JStr (RunJobStatus_value (rj_status j)))]"

definition create_run_job ::
    "timestamp \<Rightarrow> string \<Rightarrow> string \<Rightarrow> string \<Rightarrow> json dict \<Rightarrow> nat \<Rightarrow> nat \<Rightarrow> (RunDb, RunJob) exec" where
  "create_run_job now fresh ws experiment payload reps max_attempts =
     (let job = \<lparr>ent_id = fresh, workspace_id = ws, version = 1, created_at = now, updated_at = now,
            deleted_at = None, rj_experiment_id = experiment, rj_status = RunJobStatus.QUEUED,
            rj_attempt = 0, rj_max_attempts = max_attempts, rj_lease_owner = None,
            rj_lease_expires_at = None, rj_cancel_requested_at = None, rj_started_at = None,
            rj_finished_at = None, rj_last_error = None, rj_spec_payload = payload, rj_reps = reps\<rparr>
      in if \<not> valid_RunJob job then raise_exec ValueError
         else bind_exec (lift_result (open_scope ws)) (\<lambda>sc.
              bind_exec (put_job sc job) (\<lambda>_. return_exec job)))"

definition get_run_job :: "string \<Rightarrow> string \<Rightarrow> (RunDb, RunJob option) exec" where
  "get_run_job ws i db = (case bind_result (open_scope ws) (\<lambda>sc. get_entity sc i (rd_jobs db)) of
     Inl EntityNotFoundError \<Rightarrow> (Inr None, db)
   | Inl e \<Rightarrow> (Inl e, db)
   | Inr j \<Rightarrow> (Inr (Some j), db))"

definition jobs_of_experiment :: "WorkspaceScope \<Rightarrow> string \<Rightarrow> RunDb \<Rightarrow> RunJob list result" where
  "jobs_of_experiment sc experiment db =
     list_entities sc RUN_JOB_COLUMNS
       (Some (default_ListFilter\<lparr>lf_where := [(''experiment_id'', JStr experiment)],
          lf_order_by := ''updated_at''\<rparr>)) (rd_jobs db)"

definition latest_run_job_for_experiment :: "string \<Rightarrow> string \<Rightarrow> (RunDb, RunJob option) exec" where
  "latest_run_job_for_experiment ws experiment db =
     (bind_result (open_scope ws) (\<lambda>sc. bind_result (jobs_of_experiment sc experiment db) (\<lambda>jobs.
        Inr (case jobs of [] \<Rightarrow> None | j # _ \<Rightarrow> Some j))), db)"

definition abort_experiment_in_scope :: "WorkspaceScope \<Rightarrow> string \<Rightarrow> (RunDb, unit) exec" where
  "abort_experiment_in_scope sc i db = (case entity_exists sc i (rd_experiments db) of
     Inl err \<Rightarrow> (Inl err, db)
   | Inr False \<Rightarrow> (Inr (), db)
   | Inr True \<Rightarrow> (case get_entity sc i (rd_experiments db) of
       Inl err \<Rightarrow> (Inl err, db)
     | Inr e \<Rightarrow>
         if experiment_is_terminal e then (Inr (), db)
         else (case transition_to e ExperimentState.ABORTED of
             Inl err \<Rightarrow> (Inl err, db) | Inr e' \<Rightarrow> put_experiment sc e' db)))"

definition request_cancel_run_job ::
    "timestamp \<Rightarrow> string \<Rightarrow> string \<Rightarrow> (RunDb, RunJob option) exec" where
  "request_cancel_run_job now ws experiment =
     bind_exec (lift_result (open_scope ws)) (\<lambda>sc db. case jobs_of_experiment sc experiment db of
       Inl err \<Rightarrow> (Inl err, db)
     | Inr [] \<Rightarrow> (Inr None, db)
     | Inr (j # _) \<Rightarrow>
         let j1 = mark_cancel_requested now j
         in if rj_status j1 = RunJobStatus.QUEUED
            then let j2 = mark_cancelled now j1
                 in bind_exec (abort_experiment_in_scope sc experiment) (\<lambda>_.
                    bind_exec (put_job sc j2) (\<lambda>_. return_exec (Some j2))) db
            else bind_exec (put_job sc j1) (\<lambda>_. return_exec (Some j1)) db)"

definition lease_run_job ::
    "timestamp \<Rightarrow> int \<Rightarrow> string \<Rightarrow> string \<Rightarrow> string \<Rightarrow> (RunDb, RunJob option) exec" where
  "lease_run_job now lease_seconds ws i owner =
     bind_exec (lift_result (open_scope ws)) (\<lambda>sc db. case get_entity sc i (rd_jobs db) of
       Inl EntityNotFoundError \<Rightarrow> (Inr None, db)
     | Inl err \<Rightarrow> (Inl err, db)
     | Inr j \<Rightarrow>
         if run_job_terminal j then (Inr None, db)
         else if (case rj_lease_expires_at j of None \<Rightarrow> False | Some t \<Rightarrow> t > now) then (Inr None, db)
         else let j' = mark_leased owner (now + lease_seconds) (j\<lparr>rj_attempt := rj_attempt j + 1\<rparr>)
              in bind_exec (put_job sc j') (\<lambda>_. return_exec (Some j')) db)"

definition put_own_job :: "RunJob \<Rightarrow> (RunDb, RunJob) exec" where
  "put_own_job j = bind_exec (lift_result (open_scope (workspace_id j))) (\<lambda>sc.
     bind_exec (put_job sc j) (\<lambda>_. return_exec j))"

definition mark_run_job_running :: "timestamp \<Rightarrow> int \<Rightarrow> RunJob \<Rightarrow> string \<Rightarrow> (RunDb, RunJob) exec" where
  "mark_run_job_running now lease_seconds j owner =
     put_own_job (mark_running owner (now + lease_seconds) now j)"

definition renew_run_job_lease :: "timestamp \<Rightarrow> int \<Rightarrow> RunJob \<Rightarrow> string \<Rightarrow> (RunDb, RunJob) exec" where
  "renew_run_job_lease now lease_seconds j owner = put_own_job (renew_lease owner (now + lease_seconds) j)"

definition mark_run_job_succeeded :: "timestamp \<Rightarrow> RunJob \<Rightarrow> (RunDb, RunJob) exec" where
  "mark_run_job_succeeded now j = put_own_job (mark_succeeded now j)"

definition mark_run_job_cancelled :: "timestamp \<Rightarrow> RunJob \<Rightarrow> (RunDb, RunJob) exec" where
  "mark_run_job_cancelled now j =
     (let j' = mark_cancelled now j
      in bind_exec (lift_result (open_scope (workspace_id j))) (\<lambda>sc.
         bind_exec (abort_experiment_in_scope sc (rj_experiment_id j)) (\<lambda>_.
         bind_exec (put_job sc j') (\<lambda>_. return_exec j'))))"

definition mark_run_job_failed :: "timestamp \<Rightarrow> RunJob \<Rightarrow> string \<Rightarrow> (RunDb, RunJob \<times> bool) exec" where
  "mark_run_job_failed now j err =
     (let (j', verdict) = mark_failed_or_dead_lettered err now j
      in bind_exec (lift_result (open_scope (workspace_id j))) (\<lambda>sc.
         bind_exec (if verdict = Dead then abort_experiment_in_scope sc (rj_experiment_id j)
                    else return_exec ()) (\<lambda>_.
         bind_exec (put_job sc j') (\<lambda>_. return_exec (j', verdict = Retry)))))"

subsection \<open>storage/postgres/queries.py: leases and the durable queue\<close>

definition touch_run_job_lease ::
    "string \<Rightarrow> string \<Rightarrow> string \<Rightarrow> timestamp \<Rightarrow> (RunDb, bool) exec" where
  "touch_run_job_lease ws i owner expires db =
     (let hit = (\<lambda>j. ent_id j = i \<and> workspace_id j = ws \<and>
                     rj_status j \<in> {RunJobStatus.LEASED, RunJobStatus.RUNNING})
      in (Inr (list_ex hit (rd_jobs db)),
          db\<lparr>rd_jobs := map (\<lambda>j. if hit j
              then j\<lparr>rj_lease_owner := Some owner, rj_lease_expires_at := Some expires, updated_at := expires\<rparr>
              else j) (rd_jobs db)\<rparr>))"

definition heartbeat_run_job_lease ::
    "timestamp \<Rightarrow> int \<Rightarrow> string \<Rightarrow> string \<Rightarrow> string \<Rightarrow> (RunDb, bool) exec" where
  "heartbeat_run_job_lease now lease_seconds ws i owner = touch_run_job_lease ws i owner (now + lease_seconds)"

definition lease_expired :: "timestamp \<Rightarrow> RunJob \<Rightarrow> bool" where
  "lease_expired now j \<longleftrightarrow> rj_status j \<in> {RunJobStatus.LEASED, RunJobStatus.RUNNING} \<and>
     (case rj_lease_expires_at j of None \<Rightarrow> False | Some t \<Rightarrow> t < now)"

definition expired_run_job_leases :: "timestamp \<Rightarrow> nat \<Rightarrow> RunDb \<Rightarrow> (string \<times> string) list" where
  "expired_run_job_leases now limit db =
     map (\<lambda>j. (workspace_id j, ent_id j)) (take limit
       (order_rows (\<lambda>j. opt_timestamp (rj_lease_expires_at j)) False (filter (lease_expired now) (rd_jobs db))))"

definition queued_run_jobs :: "nat \<Rightarrow> RunDb \<Rightarrow> (string \<times> string) list" where
  "queued_run_jobs limit db =
     map (\<lambda>j. (workspace_id j, ent_id j)) (take limit (order_rows (\<lambda>j. JInt (created_at j)) False
       (filter (\<lambda>j. rj_status j = RunJobStatus.QUEUED \<and> deleted_at j = None) (rd_jobs db))))"

subsection \<open>worker/lease\_sweeper.py\<close>

definition SWEEP_ERROR :: string where
  "SWEEP_ERROR = ''lease expired: worker presumed dead (OOMKill/SIGKILL)''"

text \<open>The jobs still to look at, the number reaped and the jobs put back on the queue so far.\<close>

fun sweep_jobs ::
    "timestamp \<Rightarrow> bool \<Rightarrow> (string \<times> string) list \<Rightarrow> nat \<Rightarrow> RunJob list \<Rightarrow> (RunDb, nat \<times> RunJob list) exec" where
  "sweep_jobs now queue [] reaped requeued = return_exec (reaped, requeued)"
| "sweep_jobs now queue ((ws, i) # rest) reaped requeued =
     bind_exec (get_run_job ws i) (\<lambda>found. case found of
       None \<Rightarrow> sweep_jobs now queue rest reaped requeued
     | Some j \<Rightarrow>
         if run_job_terminal j then sweep_jobs now queue rest reaped requeued
         else bind_exec (mark_run_job_failed now j SWEEP_ERROR) (\<lambda>(j', should_retry).
           sweep_jobs now queue rest (reaped + 1)
             (if should_retry \<and> queue then requeued @ [j'] else requeued)))"

definition sweep_once :: "timestamp \<Rightarrow> bool \<Rightarrow> nat \<Rightarrow> (RunDb, nat \<times> RunJob list) exec" where
  "sweep_once now queue batch db = sweep_jobs now queue (expired_run_job_leases now batch db) 0 [] db"

subsection \<open>api/run\_launcher.py: executing a job\<close>

text \<open>The spec is read back by \<open>load_spec\<close>, the coordinator built from it is run by \<open>run_loop\<close>, which
  writes to the database and may raise; \<open>now\<close> are the clock readings of the lease, of the start
  and of the end.  The result says whether the job was handled, and which job was put back on the
  queue.\<close>

record RunClock =
  ck_lease :: timestamp
  ck_start :: timestamp
  ck_end :: timestamp

definition finish_run ::
    "RunClock \<Rightarrow> bool \<Rightarrow> RunJob \<Rightarrow> unit result \<times> RunDb \<Rightarrow> (bool \<times> RunJob list) result \<times> RunDb" where
  "finish_run ck queue job res = (case res of
     (Inr _, db) \<Rightarrow> (case mark_run_job_succeeded (ck_end ck) job db of
         (Inr _, db') \<Rightarrow> (Inr (True, []), db')
       | (Inl err, db') \<Rightarrow> bind_exec (mark_run_job_failed (ck_end ck) (mark_succeeded (ck_end ck) job) no_text)
           (\<lambda>(j', should_retry). return_exec (False, if should_retry \<and> queue then [j'] else [])) db')
   | (Inl err, db) \<Rightarrow> bind_exec (mark_run_job_failed (ck_end ck) job no_text)
       (\<lambda>(j', should_retry). return_exec (False, if should_retry \<and> queue then [j'] else [])) db)"

definition execute_run_job ::
    "(json dict \<Rightarrow> 'spec result) \<Rightarrow> ('spec \<Rightarrow> RunJob \<Rightarrow> (RunDb, unit) exec) \<Rightarrow> RunClock \<Rightarrow> int \<Rightarrow> bool \<Rightarrow>
       string \<Rightarrow> string \<Rightarrow> string \<Rightarrow> (RunDb, bool \<times> RunJob list) exec" where
  "execute_run_job load_spec run_loop ck lease_seconds queue ws i owner =
     bind_exec (lease_run_job (ck_lease ck) lease_seconds ws i owner) (\<lambda>leased. case leased of
       None \<Rightarrow> return_exec (False, [])
     | Some job \<Rightarrow>
         if should_cancel job
         then bind_exec (mark_run_job_cancelled (ck_end ck) job) (\<lambda>_. return_exec (True, []))
         else bind_exec (mark_run_job_running (ck_start ck) lease_seconds job owner) (\<lambda>job'.
           bind_exec (lift_result (load_spec (rj_spec_payload job'))) (\<lambda>spec db.
             finish_run ck queue job' (run_loop spec job' db))))"

end
