(* ===== verification/Run_Jobs_Facts.thy ===== *)
theory Run_Jobs_Facts
  imports Run_Jobs
begin

section \<open>Leases, retries and sweeps of run jobs\<close>

text \<open>
  Three groups of facts: what each operation does to the row of one job and what it leaves alone
  (\<open>row_kept\<close>), that a lease granted to one worker keeps every other worker out until it lapses
  (\<open>lease_held\<close>), and that a failed job is never run again.
\<close>

lemma exec_simps [simp]:
  "return_exec x s = (Inr x, s)"
  "raise_exec e s = (Inl e, s)"
  "lift_result r s = (r, s)"
  "bind_exec (lift_result (Inl e)) f s = (Inl e, s)"
  "bind_exec (lift_result (Inr y)) f s = f y s"
  by (simp_all add: return_exec_def raise_exec_def lift_result_def bind_exec_def)

lemma bind_exec_Inr:
  "bind_exec m f s = (Inr y, s') \<longleftrightarrow> (\<exists>x s1. m s = (Inr x, s1) \<and> f x s1 = (Inr y, s'))"
  by (auto simp: bind_exec_def split: prod.splits sum.splits)

subsection \<open>The row of one job\<close>

definition row_kept :: "string \<Rightarrow> RunDb \<Rightarrow> RunDb \<Rightarrow> bool" where
  "row_kept i db db' \<longleftrightarrow> table_ok (rd_jobs db') \<and> find_row (rd_jobs db') i = find_row (rd_jobs db) i"

lemma row_kept_refl: "table_ok (rd_jobs db) \<Longrightarrow> row_kept i db db"
  by (simp add: row_kept_def)

lemma row_kept_trans: "row_kept i db db1 \<Longrightarrow> row_kept i db1 db2 \<Longrightarrow> row_kept i db db2"
  by (simp add: row_kept_def)

lemma put_job_cases:
  assumes "put_job sc j db = (r, db')"
  obtains err where "r = Inl err" "db' = db"
  | "r = Inr ()" "put_entity sc j (rd_jobs db) = Inr (upsert j (rd_jobs db))"
    "db' = db\<lparr>rd_jobs := upsert j (rd_jobs db)\<rparr>"
proof (cases "put_entity sc j (rd_jobs db)")
  case (Inl e)
  with assms that(1) [of e] show ?thesis by (simp add: put_job_def)
next
  case (Inr t)
  then have "t = upsert j (rd_jobs db)" by (simp add: put_entity_Inr)
  with assms Inr that(2) show ?thesis by (simp add: put_job_def)
qed

lemma put_job_row_kept:
  assumes "table_ok (rd_jobs db)" "put_job sc j db = (r, db')" "ent_id j \<noteq> i"
  shows "row_kept i db db'"
  using assms(2)
proof (cases rule: put_job_cases)
  case 1
  with assms(1) show ?thesis by (simp add: row_kept_def)
next
  case 2
  with assms(1,3) show ?thesis by (simp add: row_kept_def upsert_ok find_row_upsert)
qed

lemma put_job_table_ok:
  assumes "table_ok (rd_jobs db)" "put_job sc j db = (r, db')"
  shows "table_ok (rd_jobs db')"
  using assms(2) by (cases rule: put_job_cases) (use assms(1) in \<open>simp_all add: upsert_ok\<close>)

lemma put_experiment_jobs: "put_experiment sc e db = (r, db') \<Longrightarrow> rd_jobs db' = rd_jobs db"
  by (cases "put_entity sc e (rd_experiments db)") (auto simp: put_experiment_def)

lemma abort_jobs: "abort_experiment_in_scope sc x db = (r, db') \<Longrightarrow> rd_jobs db' = rd_jobs db"
  by (auto simp: abort_experiment_in_scope_def
      split: sum.splits bool.splits if_splits dest: put_experiment_jobs)

lemma put_own_job_row_kept:
  assumes "table_ok (rd_jobs db)" "put_own_job j db = (r, db')" "ent_id j \<noteq> i"
  shows "row_kept i db db'"
proof (cases "open_scope (workspace_id j)")
  case (Inl e)
  with assms show ?thesis by (simp add: put_own_job_def row_kept_def)
next
  case (Inr sc)
  obtain r1 db1 where p: "put_job sc j db = (r1, db1)" by fastforce
  with assms(2) Inr have "db' = db1"
    by (cases r1) (simp_all add: put_own_job_def bind_exec_def lift_result_def)
  with put_job_row_kept [OF assms(1) p assms(3)] show ?thesis by simp
qed

text \<open>Failing a job touches its own row only.\<close>

lemma mark_run_job_failed_row_kept:
  assumes "table_ok (rd_jobs db)" "mark_run_job_failed now j err db = (r, db')" "ent_id j \<noteq> i"
  shows "row_kept i db db'"
proof -
  obtain j' v where m: "mark_failed_or_dead_lettered err now j = (j', v)" by fastforce
  have j': "ent_id j' = ent_id j" using failed_run_job_frame(1) [of err now j] m by simp
  show ?thesis
  proof (cases "open_scope (workspace_id j)")
    case (Inl e)
    with assms(1,2) m show ?thesis by (simp add: mark_run_job_failed_def row_kept_def)
  next
    case (Inr sc)
    obtain r1 db1 where a: "(if v = Dead then abort_experiment_in_scope sc (rj_experiment_id j)
        else return_exec ()) db = (r1, db1)" by fastforce
    then have db1: "rd_jobs db1 = rd_jobs db"
      by (cases "v = Dead") (auto dest: abort_jobs)
    obtain r2 db2 where p: "put_job sc j' db1 = (r2, db2)" by fastforce
    have "db' = (case r1 of Inl _ \<Rightarrow> db1 | Inr _ \<Rightarrow> db2)"
      using assms(2) m Inr a p
      by (cases r1; cases r2) (simp_all add: mark_run_job_failed_def bind_exec_def lift_result_def)
    moreover have "row_kept i db db2"
      using put_job_row_kept [OF _ p] assms(1,3) j' db1 by (simp add: row_kept_def)
    ultimately show ?thesis
      using assms(1) db1 by (cases r1) (simp_all add: row_kept_def)
  qed
qed

text \<open>What a failure stores.\<close>

lemma mark_run_job_failed_stores:
  assumes "table_ok (rd_jobs db)" "mark_run_job_failed now j err db = (Inr (j', retry), db')"
  shows "table_ok (rd_jobs db') \<and> j' = fst (mark_failed_or_dead_lettered err now j) \<and>
    find_row (rd_jobs db') (ent_id j) = Some (stamped j' (find_row (rd_jobs db) (ent_id j)))"
proof -
  obtain v where m: "mark_failed_or_dead_lettered err now j = (j', v)"
    and v: "retry = (v = Retry)"
    using assms(2) by (auto simp: mark_run_job_failed_def bind_exec_Inr split: prod.splits)
  have j': "ent_id j' = ent_id j" using failed_run_job_frame(1) [of err now j] m by simp
  from assms(2) m obtain sc db1 where
    a: "(if v = Dead then abort_experiment_in_scope sc (rj_experiment_id j) else return_exec ()) db = (Inr (), db1)"
    and p: "put_job sc j' db1 = (Inr (), db')"
    by (auto simp: mark_run_job_failed_def bind_exec_Inr)
  have db1: "rd_jobs db1 = rd_jobs db" using a by (cases "v = Dead") (auto dest: abort_jobs)
  from p have "rd_jobs db' = upsert j' (rd_jobs db)"
    by (cases rule: put_job_cases) (simp_all add: db1)
  with assms(1) m j' show ?thesis by (simp add: upsert_ok find_row_upsert)
qed

subsection \<open>Granting a lease\<close>

lemma lease_run_job_cases:
  assumes "table_ok (rd_jobs db)" "lease_run_job now secs ws i owner db = (r, db')"
  obtains (refused) "db' = db" "r = Inr None \<or> (\<exists>e. r = Inl e)"
  | (granted) j where "find_row (rd_jobs db) i = Some j" "workspace_id j = ws" "\<not> run_job_terminal j"
      "\<And>t. rj_lease_expires_at j = Some t \<Longrightarrow> t \<le> now"
      "r = Inr (Some (mark_leased owner (now + secs) (j\<lparr>rj_attempt := rj_attempt j + 1\<rparr>)))"
      "db' = db\<lparr>rd_jobs := upsert (mark_leased owner (now + secs) (j\<lparr>rj_attempt := rj_attempt j + 1\<rparr>)) (rd_jobs db)\<rparr>"
proof (cases "open_scope ws")
  case (Inl e)
  with assms(2) show ?thesis by (intro refused) (auto simp: lease_run_job_def)
next
  case (Inr sc)
  then have sc: "sc = \<lparr>sc_workspace_id = ws, sc_closed = False\<rparr>" "ws \<noteq> []" by simp_all
  show ?thesis
  proof (cases "get_entity sc i (rd_jobs db)")
    case (Inl e)
    with assms(2) Inr show ?thesis by (intro refused) (cases e; auto simp: lease_run_job_def)+
  next
    case get: (Inr j)
    then have j: "find_row (rd_jobs db) i = Some j" "workspace_id j = ws"
      using sc by (auto simp: get_entity_def guard_open_def load_row_conv [OF assms(1)]
          split: option.splits if_splits)
    then have "ent_id j = i" by (blast dest: find_row_Some)
    show ?thesis
    proof (cases "run_job_terminal j \<or> (\<exists>t. rj_lease_expires_at j = Some t \<and> t > now)")
      case True
      with assms(2) Inr get show ?thesis
        by (intro refused) (auto simp: lease_run_job_def split: option.splits if_splits)
    next
      case False
      let ?j = "mark_leased owner (now + secs) (j\<lparr>rj_attempt := rj_attempt j + 1\<rparr>)"
      have "put_job sc ?j db = (Inr (), db\<lparr>rd_jobs := upsert ?j (rd_jobs db)\<rparr>)"
      proof -
        have "put_entity sc ?j (rd_jobs db) = Inr (upsert ?j (rd_jobs db))"
          using j sc \<open>ent_id j = i\<close> by (simp add: put_entity_Inr mark_leased_def)
        then show ?thesis by (simp add: put_job_def)
      qed
      with assms(2) Inr get False j show ?thesis
        by (intro granted [of j])
          (auto simp: lease_run_job_def bind_exec_def Let_def split: option.splits if_splits)
    qed
  qed
qed

text \<open>A terminal job, and a job whose lease runs past \<open>now\<close>, is not leased.\<close>

lemma lease_refused:
  assumes "table_ok (rd_jobs db)" "find_row (rd_jobs db) i = Some j" "workspace_id j = ws" "ws \<noteq> []"
    and "run_job_terminal j \<or> (\<exists>t. rj_lease_expires_at j = Some t \<and> t > now)"
  shows "lease_run_job now secs ws i owner db = (Inr None, db)"
proof -
  have "get_entity \<lparr>sc_workspace_id = ws, sc_closed = False\<rparr> i (rd_jobs db) = Inr j"
    using assms(1-3) by (simp add: get_entity_def guard_open_def load_row_conv)
  then show ?thesis using assms(4,5) by (auto simp: lease_run_job_def open_scope_def)
qed

text \<open>Not even a failure that asks for a retry leaves a job that can be leased, queued or swept again.\<close>

lemma failed_run_not_leased:
  assumes "table_ok (rd_jobs db)" "mark_run_job_failed now j err db = (Inr (j', retry), db')"
  shows "lease_run_job now' secs (workspace_id j) (ent_id j) owner db' = (Inr None, db')"
proof -
  have ws: "workspace_id j \<noteq> []"
    using assms(2) by (auto simp: mark_run_job_failed_def bind_exec_Inr open_scope_def split: if_splits prod.splits)
  have s: "table_ok (rd_jobs db')" "j' = fst (mark_failed_or_dead_lettered err now j)"
    "find_row (rd_jobs db') (ent_id j) = Some (stamped j' (find_row (rd_jobs db) (ent_id j)))"
    using mark_run_job_failed_stores [OF assms] by simp_all
  then have j': "ent_id j' = ent_id j" "workspace_id j' = workspace_id j" "run_job_terminal j'"
    by (simp_all add: failed_run_job_terminal failed_run_job_frame)
  obtain c where c: "stamped j' (find_row (rd_jobs db) (ent_id j)) = j'\<lparr>created_at := c\<rparr>"
    using j'(1) by (rule stamped_eq)
  show ?thesis
    by (rule lease_refused [OF s(1,3)]) (use c j' ws in \<open>simp_all add: run_job_terminal_def\<close>)
qed

subsection \<open>A lease keeps others out until it lapses\<close>

text \<open>What workers, the heartbeat, the API and the sweeper do to the database, with the clock reading
  of each.\<close>

datatype JobOp =
    TryLease string string string
  | Heartbeat string string string
  | RequestCancel string string
  | Sweep bool nat

primrec run_job_op :: "int \<Rightarrow> timestamp \<Rightarrow> JobOp \<Rightarrow> RunDb \<Rightarrow> RunDb" where
  "run_job_op secs now (TryLease ws i owner) db = snd (lease_run_job now secs ws i owner db)"
| "run_job_op secs now (Heartbeat ws i owner) db = snd (heartbeat_run_job_lease now secs ws i owner db)"
| "run_job_op secs now (RequestCancel ws experiment) db = snd (request_cancel_run_job now ws experiment db)"
| "run_job_op secs now (Sweep queue batch) db = snd (sweep_once now queue batch db)"

definition run_job_ops :: "int \<Rightarrow> (timestamp \<times> JobOp) list \<Rightarrow> RunDb \<Rightarrow> RunDb" where
  "run_job_ops secs ops db = foldl (\<lambda>db (now, w). run_job_op secs now w db) db ops"

definition lease_held :: "timestamp \<Rightarrow> string \<Rightarrow> string \<Rightarrow> RunDb \<Rightarrow> bool" where
  "lease_held until ws i db \<longleftrightarrow> table_ok (rd_jobs db) \<and>
     (\<exists>j t. find_row (rd_jobs db) i = Some j \<and> workspace_id j = ws \<and>
        rj_status j \<in> {RunJobStatus.LEASED, RunJobStatus.RUNNING} \<and>
        rj_lease_expires_at j = Some t \<and> until \<le> t)"

lemma lease_held_row_kept: "lease_held until ws i db \<Longrightarrow> row_kept i db db' \<Longrightarrow> lease_held until ws i db'"
  by (simp add: lease_held_def row_kept_def)

lemma lease_held_try:
  assumes "lease_held until ws i db" "now < until"
  shows "lease_held until ws i (snd (lease_run_job now secs ws' i' owner db))"
proof -
  obtain r db' where l: "lease_run_job now secs ws' i' owner db = (r, db')" by fastforce
  have ok: "table_ok (rd_jobs db)" using assms(1) by (simp add: lease_held_def)
  from ok l show ?thesis
  proof (cases rule: lease_run_job_cases)
    case refused
    with l assms(1) show ?thesis by simp
  next
    case (granted j)
    have "i' \<noteq> i" using assms granted(1,4) by (auto simp: lease_held_def)
    moreover have "ent_id j = i'" using find_row_Some [OF granted(1)] by simp
    ultimately have "row_kept i db db'"
      using ok granted(6) by (simp add: row_kept_def upsert_ok find_row_upsert mark_leased_def)
    with l assms(1) show ?thesis by (simp add: lease_held_row_kept)
  qed
qed

lemma lease_held_heartbeat:
  assumes "lease_held until ws i db" "until \<le> now + secs"
  shows "lease_held until ws i (snd (heartbeat_run_job_lease now secs ws' i' owner db))"
proof -
  define touch :: "RunJob \<Rightarrow> RunJob" where "touch = (\<lambda>j. if ent_id j = i' \<and> workspace_id j = ws' \<and>
      rj_status j \<in> {RunJobStatus.LEASED, RunJobStatus.RUNNING}
    then j\<lparr>rj_lease_owner := Some owner, rj_lease_expires_at := Some (now + secs), updated_at := now + secs\<rparr> else j)"
  have eq: "rd_jobs (snd (heartbeat_run_job_lease now secs ws' i' owner db)) = map touch (rd_jobs db)"
    by (simp add: heartbeat_run_job_lease_def touch_run_job_lease_def touch_def)
  have ids: "ent_id (touch j) = ent_id j" for j by (simp add: touch_def)
  then have fr: "find_row (map touch t) i = map_option touch (find_row t i)" for t
    unfolding find_row_def by (induction t) simp_all
  have tok: "table_ok (map touch t) = table_ok t" for t
    by (simp add: table_ok_def comp_def ids)
  obtain j t where j: "find_row (rd_jobs db) i = Some j" "workspace_id j = ws"
    "rj_status j \<in> {RunJobStatus.LEASED, RunJobStatus.RUNNING}" "rj_lease_expires_at j = Some t" "until \<le> t"
    using assms(1) by (auto simp: lease_held_def)
  have "\<exists>t'. rj_lease_expires_at (touch j) = Some t' \<and> until \<le> t'"
    using j(4,5) assms(2) by (simp add: touch_def)
  moreover have "workspace_id (touch j) = workspace_id j" "rj_status (touch j) = rj_status j"
    by (simp_all add: touch_def)
  ultimately show ?thesis
    using assms(1) j(1-3) unfolding lease_held_def eq fr tok by simp
qed

lemma request_cancel_jobs:
  assumes "request_cancel_run_job now ws' experiment db = (r, db')"
  shows "rd_jobs db' = rd_jobs db \<or> (\<exists>j. j \<in> set (rd_jobs db) \<and>
    (rd_jobs db' = upsert (mark_cancel_requested now j) (rd_jobs db) \<and> rj_status j \<noteq> RunJobStatus.QUEUED \<or>
     rd_jobs db' = upsert (mark_cancelled now (mark_cancel_requested now j)) (rd_jobs db) \<and>
       rj_status j = RunJobStatus.QUEUED))"
proof (cases "open_scope ws'")
  case (Inl e)
  with assms show ?thesis by (simp add: request_cancel_run_job_def)
next
  case (Inr sc)
  show ?thesis
  proof (cases "jobs_of_experiment sc experiment db")
    case (Inl e)
    with assms Inr show ?thesis by (simp add: request_cancel_run_job_def)
  next
    case jobs: (Inr js)
    show ?thesis
    proof (cases js)
      case Nil
      with assms Inr jobs show ?thesis by (simp add: request_cancel_run_job_def)
    next
      case (Cons j rest)
      then have j: "j \<in> set (rd_jobs db)"
        using jobs list_entities_subset [of sc RUN_JOB_COLUMNS _ "rd_jobs db" js j]
        by (auto simp: jobs_of_experiment_def)
      show ?thesis
      proof (cases "rj_status j = RunJobStatus.QUEUED")
        case True
        let ?j = "mark_cancelled now (mark_cancel_requested now j)"
        obtain r1 db1 where a: "abort_experiment_in_scope sc experiment db = (r1, db1)" by fastforce
        obtain r2 db2 where p: "put_job sc ?j db1 = (r2, db2)" by fastforce
        have "db' = db1 \<or> db' = db2"
          using assms Inr jobs Cons True a p
          by (cases r1; cases r2) (auto simp: request_cancel_run_job_def Let_def bind_exec_def frame_simps)
        moreover have "rd_jobs db1 = rd_jobs db" using a by (rule abort_jobs)
        moreover from p have "db2 = db1 \<or> rd_jobs db2 = upsert ?j (rd_jobs db1)"
          by (cases rule: put_job_cases) simp_all
        ultimately show ?thesis using j True by auto
      next
        case False
        let ?j = "mark_cancel_requested now j"
        obtain r2 db2 where p: "put_job sc ?j db = (r2, db2)" by fastforce
        have "db' = db2"
          using assms Inr jobs Cons False p
          by (cases r2) (auto simp: request_cancel_run_job_def Let_def bind_exec_def frame_simps)
        moreover from p have "db2 = db \<or> rd_jobs db2 = upsert ?j (rd_jobs db)"
          by (cases rule: put_job_cases) simp_all
        ultimately show ?thesis using j False by auto
      qed
    qed
  qed
qed

lemma lease_held_cancel:
  assumes "lease_held until ws i db"
  shows "lease_held until ws i (snd (request_cancel_run_job now ws' experiment db))"
proof -
  obtain r db' where c: "request_cancel_run_job now ws' experiment db = (r, db')" by fastforce
  have ok: "table_ok (rd_jobs db)" using assms by (simp add: lease_held_def)
  consider (same) "rd_jobs db' = rd_jobs db"
    | (other) j' where "rd_jobs db' = upsert j' (rd_jobs db)" "ent_id j' \<noteq> i"
    | (own) j where "rd_jobs db' = upsert (mark_cancel_requested now j) (rd_jobs db)"
        "j \<in> set (rd_jobs db)" "ent_id j = i"
    using request_cancel_jobs [OF c]
  proof (elim disjE exE conjE)
    fix j assume j: "j \<in> set (rd_jobs db)" and q: "rj_status j = RunJobStatus.QUEUED"
      and u: "rd_jobs db' = upsert (mark_cancelled now (mark_cancel_requested now j)) (rd_jobs db)"
    have "ent_id j \<noteq> i" using find_row_in [OF ok j] q assms by (auto simp: lease_held_def)
    then show thesis by (intro other [OF u]) (simp add: mark_cancelled_def frame_simps)
  next
    fix j assume "j \<in> set (rd_jobs db)" "rd_jobs db' = upsert (mark_cancel_requested now j) (rd_jobs db)"
    then show thesis by (cases "ent_id j = i") (auto intro: own other simp: frame_simps)
  qed (rule same)
  then have "lease_held until ws i db'"
  proof cases
    case same
    with assms show ?thesis by (simp add: lease_held_def)
  next
    case other
    with assms ok show ?thesis
      by (intro lease_held_row_kept [OF assms]) (simp add: row_kept_def upsert_ok find_row_upsert)
  next
    case own
    obtain c where "stamped (mark_cancel_requested now j) (find_row (rd_jobs db) i) =
        (mark_cancel_requested now j)\<lparr>created_at := c\<rparr>"
      by (rule stamped_eq [of "mark_cancel_requested now j" i "rd_jobs db"]) (use own in \<open>simp add: frame_simps\<close>)
    then have "find_row (rd_jobs db') i = Some ((mark_cancel_requested now j)\<lparr>created_at := c\<rparr>)"
      using own by (simp add: find_row_upsert frame_simps)
    moreover have "find_row (rd_jobs db) i = Some j" using find_row_in [OF ok own(2)] own(3) by simp
    moreover have "table_ok (rd_jobs db')" using own(1) ok by (simp add: upsert_ok)
    ultimately show ?thesis
      using assms by (auto simp: lease_held_def mark_cancel_requested_def)
  qed
  with c show ?thesis by simp
qed

lemma get_run_job_found:
  assumes "get_run_job ws i db = (r, db')"
  shows "db' = db" "r = Inr (Some j) \<Longrightarrow> ent_id j = i"
proof -
  let ?g = "bind_result (open_scope ws) (\<lambda>sc. get_entity sc i (rd_jobs db))"
  have g: "ent_id j = i" if "?g = Inr j"
    using that by (auto simp: bind_result_Inr_iff get_entity_def load_row_def find_Some_iff
        split: option.splits)
  show "db' = db"
    using assms by (cases ?g) (auto simp: get_run_job_def split: py_error.splits)
  show "r = Inr (Some j) \<Longrightarrow> ent_id j = i"
    using assms g by (cases ?g) (auto simp: get_run_job_def split: py_error.splits)
qed

lemma sweep_jobs_row_kept:
  assumes "table_ok (rd_jobs db)" "i \<notin> snd ` set due" "sweep_jobs now queue due n acc db = (r, db')"
  shows "row_kept i db db'"
  using assms
proof (induction due arbitrary: db n acc)
  case Nil
  then show ?case by (simp add: row_kept_def)
next
  case (Cons d rest)
  obtain ws k where d: "d = (ws, k)" by fastforce
  obtain f db0 where g0: "get_run_job ws k db = (f, db0)" by fastforce
  then have g: "get_run_job ws k db = (f, db)" using get_run_job_found(1) [OF g0] by simp
  have skip: ?case if "sweep_jobs now queue rest n acc db = (r, db')"
    using Cons.IH [OF Cons.prems(1) _ that] Cons.prems(2) by simp
  show ?case
  proof (cases f)
    case (Inl e)
    with Cons.prems d g show ?thesis by (simp add: bind_exec_def row_kept_def)
  next
    case found: (Inr o')
    show ?thesis
    proof (cases "\<exists>j. o' = Some j \<and> \<not> run_job_terminal j")
      case False
      with Cons.prems(3) d g found skip show ?thesis
        by (cases o') (simp_all add: bind_exec_def)
    next
      case True
      then obtain j where j: "o' = Some j" "\<not> run_job_terminal j" by blast
      have "ent_id j = k" using get_run_job_found(2) [OF g] found j(1) by simp
      then have "ent_id j \<noteq> i" using Cons.prems(2) d by auto
      obtain r1 db1 where m: "mark_run_job_failed now j SWEEP_ERROR db = (r1, db1)" by fastforce
      have k: "row_kept i db db1"
        using Cons.prems(1) m \<open>ent_id j \<noteq> i\<close> by (rule mark_run_job_failed_row_kept)
      show ?thesis
      proof (cases r1)
        case (Inl e)
        with Cons.prems(3) d g found j m k show ?thesis by (simp add: bind_exec_def)
      next
        case (Inr p)
        obtain j' retry where p: "p = (j', retry)" by fastforce
        have "sweep_jobs now queue rest (n + 1) (if retry \<and> queue then acc @ [j'] else acc) db1 = (r, db')"
          using Cons.prems(3) d g found j m Inr p by (simp add: bind_exec_def)
        then have "row_kept i db1 db'"
          using Cons.IH [of db1] k Cons.prems(2) by (simp add: row_kept_def)
        with k show ?thesis by (rule row_kept_trans)
      qed
    qed
  qed
qed

lemma lease_held_sweep:
  assumes "lease_held until ws i db" "now \<le> until"
  shows "lease_held until ws i (snd (sweep_once now queue batch db))"
proof -
  obtain r db' where c: "sweep_once now queue batch db = (r, db')" by fastforce
  have ok: "table_ok (rd_jobs db)" using assms by (simp add: lease_held_def)
  have "\<not> lease_expired now j" if "j \<in> set (rd_jobs db)" "ent_id j = i" for j
    using find_row_in [OF ok that(1)] that(2) assms
    by (auto simp: lease_held_def lease_expired_def)
  then have "i \<notin> snd ` set (expired_run_job_leases now batch db)"
    by (auto simp: expired_run_job_leases_def dest!: in_set_takeD)
  then have "row_kept i db db'"
    using ok c by (auto simp: sweep_once_def intro: sweep_jobs_row_kept)
  with assms(1) c show ?thesis by (simp add: lease_held_row_kept)
qed

lemma lease_held_ops:
  assumes "lease_held until ws i db" "\<forall>(now, w) \<in> set ops. now < until \<and> until \<le> now + secs"
  shows "lease_held until ws i (run_job_ops secs ops db)"
  using assms
proof (induction ops arbitrary: db)
  case (Cons x ops)
  obtain now w where x: "x = (now, w)" by fastforce
  with Cons.prems have "now < until" "until \<le> now + secs" by simp_all
  then have "lease_held until ws i (run_job_op secs now w db)"
    using Cons.prems(1)
    by (cases w) (simp_all add: lease_held_try lease_held_heartbeat lease_held_cancel lease_held_sweep)
  with Cons x show ?case by (simp add: run_job_ops_def)
qed (simp add: run_job_ops_def)

lemma lease_granted_held:
  assumes "table_ok (rd_jobs db)" "lease_run_job now secs ws i owner db = (Inr (Some j), db')"
  shows "lease_held (now + secs) ws i db'"
  using assms
proof (cases rule: lease_run_job_cases)
  case refused
  then show ?thesis by auto
next
  case (granted j0)
  let ?j = "mark_leased owner (now + secs) (j0\<lparr>rj_attempt := rj_attempt j0 + 1\<rparr>)"
  have id: "ent_id ?j = i" using find_row_Some [OF granted(1)] by (simp add: mark_leased_def)
  obtain c where c: "stamped ?j (find_row (rd_jobs db) i) = ?j\<lparr>created_at := c\<rparr>"
    using id by (rule stamped_eq)
  have "find_row (rd_jobs db') i = Some (?j\<lparr>created_at := c\<rparr>)"
    using granted(6) c id by (simp add: find_row_upsert)
  moreover have "table_ok (rd_jobs db')" using granted(6) assms(1) by (simp add: upsert_ok)
  ultimately show ?thesis
    using granted(2) by (simp add: lease_held_def mark_leased_def)
qed

lemma lease_held_refuses:
  assumes "lease_held until ws i db" "now < until" "ws \<noteq> []"
  shows "lease_run_job now secs ws i owner db = (Inr None, db)"
  using assms by (auto simp: lease_held_def intro!: lease_refused)

lemma granted_workspace: "lease_run_job now secs ws i owner db = (Inr (Some j), db') \<Longrightarrow> ws \<noteq> []"
  by (auto simp: lease_run_job_def open_scope_def)

end
