(* ===== verification/Scenario_Queue.thy ===== *)
theory Scenario_Queue
  imports Run_Jobs Loop
begin

section \<open>Scenario jobs: the sharded execution of an iteration\<close>

text \<open>
  \<^verbatim>\<open>storage/postgres/queries.py\<close> (the statements over \<^verbatim>\<open>scenario_jobs\<close> and \<^verbatim>\<open>scenario_outcomes\<close>),
  \<^verbatim>\<open>api/run_jobs.py\<close> (planning) and \<^verbatim>\<open>worker/scenario_runner.py\<close> (the worker and the drain).  A
  statement is the function on tables it computes; a claim runs in one transaction and skips the
  rows that other transactions have locked.  Executing and grading a case is an argument
  (\<open>execute\<close>, of the claimed job, so that attempts may differ); it returns the outcome and the
  traces it persisted.  Identifiers of new rows are arguments, taken to be fresh.
\<close>

record OutcomeRow =
  ow_id :: string
  ow_workspace_id :: string
  ow_version :: int
  ow_created_at :: timestamp
  ow_updated_at :: timestamp
  ow_run_job_id :: string
  ow_scenario_job_id :: string
  ow_experiment_id :: string
  ow_iteration :: nat
  ow_case_id :: string
  ow_fields :: "json dict"

record QueueDb =
  qd_jobs :: "ScenarioJob list"
  qd_outcomes :: "OutcomeRow list"
  qd_traces :: "Trace list"

subsection \<open>Planning\<close>

definition job_key :: "ScenarioJob \<Rightarrow> string \<times> nat \<times> string" where
  "job_key j = (sj_run_job_id j, sj_iteration j, sj_case_id j)"

text \<open>\<^verbatim>\<open>INSERT ... ON CONFLICT (run_job_id, iteration, case_id) DO NOTHING\<close>, row by row.\<close>

definition insert_scenario_job :: "ScenarioJob list \<Rightarrow> ScenarioJob \<Rightarrow> ScenarioJob list" where
  "insert_scenario_job t j = (if job_key j \<in> job_key ` set t then t else t @ [j])"

definition insert_scenario_jobs :: "ScenarioJob list \<Rightarrow> ScenarioJob list \<Rightarrow> ScenarioJob list \<times> nat" where
  "insert_scenario_jobs jobs t =
     (let t' = foldl insert_scenario_job t jobs in (t', length t' - length t))"

definition planned_job :: "timestamp \<Rightarrow> RunJob \<Rightarrow> nat \<Rightarrow> json dict \<Rightarrow> nat \<Rightarrow> string \<Rightarrow> string \<Rightarrow> ScenarioJob" where
  "planned_job now run iteration overrides reps fresh case_id =
     \<lparr>ent_id = fresh, workspace_id = workspace_id run, version = 1, created_at = now, updated_at = now,
      deleted_at = None, sj_run_job_id = ent_id run, sj_experiment_id = rj_experiment_id run,
      sj_iteration = iteration, sj_case_id = case_id, sj_reps = reps,
      sj_status = ScenarioJobStatus.PENDING, sj_attempt = 0, sj_max_attempts = rj_max_attempts run,
      sj_lease_until = None, sj_worker_id = None, sj_error = None, sj_parameter_overrides = overrides,
      sj_started_at = None, sj_finished_at = None\<rparr>"

definition plan_scenario_jobs ::
    "timestamp \<Rightarrow> (string \<Rightarrow> string) \<Rightarrow> RunJob \<Rightarrow> string list \<Rightarrow> nat \<Rightarrow> json dict \<Rightarrow> nat \<Rightarrow>
       ScenarioJob list \<Rightarrow> ScenarioJob list \<times> nat" where
  "plan_scenario_jobs now fresh run case_ids iteration overrides reps t =
     insert_scenario_jobs (map (\<lambda>c. planned_job now run iteration overrides reps (fresh c) c) case_ids) t"

subsection \<open>Claiming and finishing\<close>

definition in_iteration :: "string \<Rightarrow> nat \<Rightarrow> ScenarioJob \<Rightarrow> bool" where
  "in_iteration run iteration j \<longleftrightarrow> sj_run_job_id j = run \<and> sj_iteration j = iteration"

definition frontier :: "string \<Rightarrow> nat \<Rightarrow> ScenarioJob \<Rightarrow> bool" where
  "frontier run iteration j \<longleftrightarrow> in_iteration run iteration j \<and> sj_status j = ScenarioJobStatus.PENDING"

definition claimed_row :: "string \<Rightarrow> timestamp \<Rightarrow> ScenarioJob \<Rightarrow> ScenarioJob" where
  "claimed_row worker until j =
     j\<lparr>sj_status := ScenarioJobStatus.CLAIMED, sj_worker_id := Some worker, sj_lease_until := Some until,
       sj_attempt := sj_attempt j + 1, updated_at := until\<rparr>"

text \<open>\<^verbatim>\<open>SELECT id ... ORDER BY id FOR UPDATE SKIP LOCKED LIMIT batch\<close>.\<close>

definition claimable_ids :: "string list \<Rightarrow> string \<Rightarrow> nat \<Rightarrow> nat \<Rightarrow> ScenarioJob list \<Rightarrow> string list" where
  "claimable_ids locked run iteration batch t =
     take batch (sort (map ent_id (filter (\<lambda>j. frontier run iteration j \<and> ent_id j \<notin> set locked) t)))"

definition claim_scenario_jobs ::
    "string list \<Rightarrow> string \<Rightarrow> nat \<Rightarrow> string \<Rightarrow> timestamp \<Rightarrow> nat \<Rightarrow> ScenarioJob list \<Rightarrow>
       ScenarioJob list \<times> ScenarioJob list" where
  "claim_scenario_jobs locked run iteration worker until batch t =
     (let ids = claimable_ids locked run iteration batch t
      in (map (claimed_row worker until) (filter (\<lambda>j. ent_id j \<in> set ids) t),
          map (\<lambda>j. if ent_id j \<in> set ids then claimed_row worker until j else j) t))"

definition finalized_row :: "ScenarioJobStatus \<Rightarrow> string option \<Rightarrow> timestamp \<Rightarrow> ScenarioJob \<Rightarrow> ScenarioJob" where
  "finalized_row st err tm j =
     j\<lparr>sj_status := st, sj_error := err, sj_worker_id := None, sj_lease_until := None,
       sj_finished_at := (if st = ScenarioJobStatus.PENDING then sj_finished_at j else Some tm),
       updated_at := tm\<rparr>"

definition finalize_scenario_job ::
    "string \<Rightarrow> ScenarioJobStatus \<Rightarrow> string option \<Rightarrow> timestamp \<Rightarrow> ScenarioJob list \<Rightarrow> ScenarioJob list" where
  "finalize_scenario_job i st err tm t = map (\<lambda>j. if ent_id j = i then finalized_row st err tm j else j) t"

definition touch_scenario_job_lease ::
    "string \<Rightarrow> string \<Rightarrow> timestamp \<Rightarrow> ScenarioJob list \<Rightarrow> ScenarioJob list \<times> bool" where
  "touch_scenario_job_lease i worker until t =
     (let hit = (\<lambda>j. ent_id j = i \<and> sj_status j \<in> {ScenarioJobStatus.CLAIMED, ScenarioJobStatus.RUNNING})
      in (map (\<lambda>j. if hit j then j\<lparr>sj_lease_until := Some until, sj_worker_id := Some worker, updated_at := until\<rparr>
                   else j) t, list_ex hit t))"

definition expired_scenario_job_leases :: "timestamp \<Rightarrow> nat \<Rightarrow> ScenarioJob list \<Rightarrow> (string \<times> string) list" where
  "expired_scenario_job_leases now limit t =
     map (\<lambda>j. (workspace_id j, ent_id j)) (take limit (order_rows (\<lambda>j. opt_timestamp (sj_lease_until j)) False
       (filter (\<lambda>j. sj_status j \<in> {ScenarioJobStatus.CLAIMED, ScenarioJobStatus.RUNNING} \<and>
                    (case sj_lease_until j of None \<Rightarrow> False | Some x \<Rightarrow> x < now)) t)))"

definition barrier_counts :: "string \<Rightarrow> nat \<Rightarrow> ScenarioJob list \<Rightarrow> (string \<times> nat) list" where
  "barrier_counts run iteration t =
     counter_of (map (\<lambda>j. ScenarioJobStatus_value (sj_status j)) (filter (in_iteration run iteration) t))"

subsection \<open>Stored outcomes\<close>

definition outcome_key :: "OutcomeRow \<Rightarrow> string \<times> nat \<times> string" where
  "outcome_key r = (ow_run_job_id r, ow_iteration r, ow_case_id r)"

text \<open>The upsert: on a conflict every column but \<^verbatim>\<open>id\<close> and \<^verbatim>\<open>created_at\<close> is overwritten.\<close>

definition upsert_outcome :: "OutcomeRow \<Rightarrow> OutcomeRow list \<Rightarrow> OutcomeRow list" where
  "upsert_outcome r t =
     (if outcome_key r \<in> outcome_key ` set t
      then map (\<lambda>x. if outcome_key x = outcome_key r
                    then r\<lparr>ow_id := ow_id x, ow_created_at := ow_created_at x\<rparr> else x) t
      else t @ [r])"

definition outcome_row :: "string \<Rightarrow> timestamp \<Rightarrow> ScenarioJob \<Rightarrow> CaseOutcome \<Rightarrow> OutcomeRow" where
  "outcome_row fresh now j outcome =
     \<lparr>ow_id = fresh, ow_workspace_id = workspace_id j, ow_version = 1, ow_created_at = now,
      ow_updated_at = now, ow_run_job_id = sj_run_job_id j, ow_scenario_job_id = ent_id j,
      ow_experiment_id = sj_experiment_id j, ow_iteration = sj_iteration j,
      ow_case_id = co_case_id outcome, ow_fields = case_outcome_to_fields outcome\<rparr>"

definition scenario_outcomes_for_iteration :: "string \<Rightarrow> nat \<Rightarrow> OutcomeRow list \<Rightarrow> json dict list" where
  "scenario_outcomes_for_iteration run iteration t =
     map ow_fields (sort_key ow_case_id (filter (\<lambda>r. ow_run_job_id r = run \<and> ow_iteration r = iteration) t))"

subsection \<open>The worker\<close>

record Worker =
  wk_run_job_id :: string
  wk_iteration :: nat
  wk_worker_id :: string
  wk_lease_until :: timestamp
  wk_batch :: nat
  wk_now :: timestamp

type_synonym executor = "ScenarioJob \<Rightarrow> (CaseOutcome \<times> Trace list) result"

definition run_one_scenario_job ::
    "executor \<Rightarrow> (ScenarioJob \<Rightarrow> string) \<Rightarrow> timestamp \<Rightarrow> ScenarioJob \<Rightarrow> QueueDb \<Rightarrow> QueueDb" where
  "run_one_scenario_job execute fresh now sj db = (case execute sj of
     Inr (outcome, traces) \<Rightarrow>
       db\<lparr>qd_traces := qd_traces db @ traces,
          qd_outcomes := upsert_outcome (outcome_row (fresh sj) now sj outcome) (qd_outcomes db),
          qd_jobs := finalize_scenario_job (ent_id sj) ScenarioJobStatus.SUCCEEDED None now (qd_jobs db)\<rparr>
   | Inl err \<Rightarrow>
       let (sj', _) = mark_scenario_failed_or_dead_lettered no_text now sj
       in db\<lparr>qd_jobs := finalize_scenario_job (ent_id sj) (sj_status sj') (Some no_text) now (qd_jobs db)\<rparr>)"

text \<open>One batch: claim, build the loop (which may raise, the claim being committed), run each claimed
  job.  Returns how many were processed.\<close>

definition run_scenario_jobs_once ::
    "unit result \<Rightarrow> executor \<Rightarrow> (ScenarioJob \<Rightarrow> string) \<Rightarrow> Worker \<Rightarrow> (QueueDb, nat) exec" where
  "run_scenario_jobs_once build execute fresh w db =
     (case claim_scenario_jobs [] (wk_run_job_id w) (wk_iteration w) (wk_worker_id w) (wk_lease_until w)
        (wk_batch w) (qd_jobs db) of
      (claimed, t) \<Rightarrow>
        let db1 = db\<lparr>qd_jobs := t\<rparr>
        in if claimed = [] then (Inr 0, db1)
           else (case build of
               Inl err \<Rightarrow> (Inl err, db1)
             | Inr _ \<Rightarrow> (Inr (length claimed),
                 foldl (\<lambda>d sj. run_one_scenario_job execute fresh (wk_now w) sj d) db1 claimed)))"

text \<open>\<^verbatim>\<open>while run_scenario_jobs_once(...): pass\<close>.  The loop is a partial function: \<open>None\<close> would be a
  drain that never returns.\<close>

partial_function (option) drain ::
    "unit result \<Rightarrow> executor \<Rightarrow> (ScenarioJob \<Rightarrow> string) \<Rightarrow> Worker \<Rightarrow> QueueDb \<Rightarrow> (unit result \<times> QueueDb) option" where
  [code]: "drain build execute fresh w db =
     (case run_scenario_jobs_once build execute fresh w db of
        (Inl err, db') \<Rightarrow> Some (Inl err, db')
      | (Inr n, db') \<Rightarrow> if n = 0 then Some (Inr (), db') else drain build execute fresh w db')"

end
