(* ===== verification/Scenario_Queue_Facts.thy ===== *)
theory Scenario_Queue_Facts
  imports Scenario_Queue
begin

section \<open>What a drain leaves behind\<close>

text \<open>
  The reference semantics of one job: \<open>resolve\<close> runs a claimed job again and again until it
  succeeds or its attempts are used up, as if it were the only job of the queue.  The lemmas show
  that a drain, which claims in batches and interleaves the attempts of different jobs, gives
  every job of the iteration exactly that result, that it returns, and which outcomes it stores.
\<close>

function resolve :: "executor \<Rightarrow> Worker \<Rightarrow> ScenarioJob \<Rightarrow> ScenarioJob \<times> CaseOutcome option" where
  "resolve execute w c = (case execute c of
     Inr (outcome, traces) \<Rightarrow> (finalized_row ScenarioJobStatus.SUCCEEDED None (wk_now w) c, Some outcome)
   | Inl err \<Rightarrow>
       if sj_max_attempts c \<le> sj_attempt c
       then (finalized_row ScenarioJobStatus.DEAD_LETTERED (Some no_text) (wk_now w) c, None)
       else resolve execute w (claimed_row (wk_worker_id w) (wk_lease_until w)
              (finalized_row ScenarioJobStatus.PENDING (Some no_text) (wk_now w) c)))"
  by pat_completeness auto
termination
  by (relation "measure (\<lambda>(_, _, c). sj_max_attempts c - sj_attempt c)")
    (auto simp: claimed_row_def finalized_row_def)

declare resolve.simps [simp del]

definition settle :: "executor \<Rightarrow> Worker \<Rightarrow> ScenarioJob \<Rightarrow> ScenarioJob \<times> CaseOutcome option" where
  "settle execute w j = resolve execute w (claimed_row (wk_worker_id w) (wk_lease_until w) j)"

subsection \<open>Rows an operation rewrites\<close>

lemma claimed_row_simps [simp]:
  "ent_id (claimed_row worker until j) = ent_id j"
  "job_key (claimed_row worker until j) = job_key j"
  "in_iteration run iteration (claimed_row worker until j) = in_iteration run iteration j"
  "sj_status (claimed_row worker until j) = ScenarioJobStatus.CLAIMED"
  "sj_attempt (claimed_row worker until j) = sj_attempt j + 1"
  "sj_max_attempts (claimed_row worker until j) = sj_max_attempts j"
  "sj_case_id (claimed_row worker until j) = sj_case_id j"
  by (simp_all add: claimed_row_def job_key_def in_iteration_def)

lemma finalized_row_simps [simp]:
  "ent_id (finalized_row st err tm j) = ent_id j"
  "job_key (finalized_row st err tm j) = job_key j"
  "in_iteration run iteration (finalized_row st err tm j) = in_iteration run iteration j"
  "sj_status (finalized_row st err tm j) = st"
  "sj_attempt (finalized_row st err tm j) = sj_attempt j"
  "sj_max_attempts (finalized_row st err tm j) = sj_max_attempts j"
  "sj_case_id (finalized_row st err tm j) = sj_case_id j"
  by (simp_all add: finalized_row_def job_key_def in_iteration_def)

definition jobs_ok :: "ScenarioJob list \<Rightarrow> bool" where
  "jobs_ok t \<longleftrightarrow> distinct (map ent_id t) \<and> distinct (map job_key t)"

lemma jobs_ok_map:
  "(\<And>j. ent_id (f j) = ent_id j) \<Longrightarrow> (\<And>j. job_key (f j) = job_key j) \<Longrightarrow> jobs_ok (map f t) = jobs_ok t"
  by (simp add: jobs_ok_def comp_def)

lemma jobs_ok_id: "jobs_ok t \<Longrightarrow> x \<in> set t \<Longrightarrow> y \<in> set t \<Longrightarrow> ent_id x = ent_id y \<Longrightarrow> x = y"
  by (auto simp: jobs_ok_def distinct_map dest: inj_onD)

lemma jobs_ok_key: "jobs_ok t \<Longrightarrow> x \<in> set t \<Longrightarrow> y \<in> set t \<Longrightarrow> job_key x = job_key y \<Longrightarrow> x = y"
  by (auto simp: jobs_ok_def distinct_map dest: inj_onD)

text \<open>What is claimed: rows of the frontier, at most a batch of them, and none only when there is none.\<close>

lemma claimable_ids_subset:
  "set (claimable_ids locked run iteration batch t) \<subseteq>
     {i. \<exists>j \<in> set t. ent_id j = i \<and> frontier run iteration j \<and> i \<notin> set locked}"
  by (auto simp: claimable_ids_def dest!: in_set_takeD)

lemma claimable_ids_Nil:
  "0 < batch \<Longrightarrow> claimable_ids [] run iteration batch t = [] \<longleftrightarrow> filter (frontier run iteration) t = []"
  unfolding claimable_ids_def by (metis (no_types, lifting) empty_set filter_cong length_0_conv
      length_map length_sort list.set(1) not_gr_zero take_eq_Nil empty_iff)

text \<open>The effect of running one claimed job on the table.\<close>

definition attempted_row :: "executor \<Rightarrow> timestamp \<Rightarrow> ScenarioJob \<Rightarrow> ScenarioJob" where
  "attempted_row execute now c = (case execute c of
     Inr _ \<Rightarrow> finalized_row ScenarioJobStatus.SUCCEEDED None now c
   | Inl _ \<Rightarrow> finalized_row (if sj_max_attempts c \<le> sj_attempt c then ScenarioJobStatus.DEAD_LETTERED
                            else ScenarioJobStatus.PENDING) (Some no_text) now c)"

lemma attempted_row_simps [simp]:
  "ent_id (attempted_row execute now c) = ent_id c"
  "job_key (attempted_row execute now c) = job_key c"
  "in_iteration run iteration (attempted_row execute now c) = in_iteration run iteration c"
  by (simp_all add: attempted_row_def split: sum.splits)

lemma run_one_jobs:
  assumes "jobs_ok (qd_jobs db)" "c \<in> set (qd_jobs db)"
  shows "qd_jobs (run_one_scenario_job execute fresh now c db) =
    map (\<lambda>j. if ent_id j = ent_id c then attempted_row execute now j else j) (qd_jobs db)"
proof -
  define f where "f j = (case execute c of
      Inr _ \<Rightarrow> finalized_row ScenarioJobStatus.SUCCEEDED None now j
    | Inl _ \<Rightarrow> finalized_row (if sj_max_attempts c \<le> sj_attempt c then ScenarioJobStatus.DEAD_LETTERED
                             else ScenarioJobStatus.PENDING) (Some no_text) now j)" for j
  have "qd_jobs (run_one_scenario_job execute fresh now c db) =
      map (\<lambda>j. if ent_id j = ent_id c then f j else j) (qd_jobs db)"
    by (cases "execute c") (auto simp: run_one_scenario_job_def finalize_scenario_job_def f_def Let_def
        mark_scenario_failed_or_dead_lettered_def)
  also have "\<dots> = map (\<lambda>j. if ent_id j = ent_id c then attempted_row execute now j else j) (qd_jobs db)"
  proof (rule map_cong [OF refl])
    fix j assume "j \<in> set (qd_jobs db)"
    then have "j = c" if "ent_id j = ent_id c" using jobs_ok_id [OF assms(1)] assms(2) that by blast
    then show "(if ent_id j = ent_id c then f j else j) =
        (if ent_id j = ent_id c then attempted_row execute now j else j)"
      by (cases "ent_id j = ent_id c") (simp_all add: f_def attempted_row_def)
  qed
  finally show ?thesis .
qed

subsection \<open>The result of every job is settled before its attempts are made\<close>

text \<open>The rows the jobs will have: those in hand are resolved, those of the frontier settled.\<close>

definition settled_row :: "executor \<Rightarrow> Worker \<Rightarrow> string set \<Rightarrow> ScenarioJob \<Rightarrow> ScenarioJob \<times> CaseOutcome option" where
  "settled_row execute w hand r =
     (if ent_id r \<in> hand then resolve execute w r
      else if frontier (wk_run_job_id w) (wk_iteration w) r then settle execute w r else (r, None))"

definition settled_jobs :: "executor \<Rightarrow> Worker \<Rightarrow> string set \<Rightarrow> ScenarioJob list \<Rightarrow> ScenarioJob list" where
  "settled_jobs execute w hand t = map (\<lambda>r. fst (settled_row execute w hand r)) t"

lemma settled_claim:
  assumes "jobs_ok t" "set ids \<subseteq> {i. \<exists>j \<in> set t. ent_id j = i \<and> frontier (wk_run_job_id w) (wk_iteration w) j}"
    and "r \<in> set t"
  shows "settled_row execute w (set ids)
      (if ent_id r \<in> set ids then claimed_row (wk_worker_id w) (wk_lease_until w) r else r) =
    settled_row execute w {} r"
proof (cases "ent_id r \<in> set ids")
  case True
  with assms(2) obtain j where "j \<in> set t" "ent_id j = ent_id r" "frontier (wk_run_job_id w) (wk_iteration w) j"
    by auto
  with jobs_ok_id [OF assms(1) this(1) assms(3)] True show ?thesis
    by (simp add: settled_row_def settle_def)
next
  case False
  then show ?thesis by (simp add: settled_row_def)
qed

lemma resolve_attempt:
  assumes "in_iteration (wk_run_job_id w) (wk_iteration w) c" "ent_id c \<notin> hand"
  shows "fst (settled_row execute w hand (attempted_row execute (wk_now w) c)) = fst (resolve execute w c)"
    and "execute c = Inl err \<Longrightarrow>
      snd (settled_row execute w hand (attempted_row execute (wk_now w) c)) = snd (resolve execute w c)"
    and "execute c = Inr p \<Longrightarrow> snd (settled_row execute w hand (attempted_row execute (wk_now w) c)) = None"
    and "execute c = Inr p \<Longrightarrow> snd (resolve execute w c) = Some (fst p)"
  using assms
  by (auto simp: settled_row_def resolve.simps [of execute w c] attempted_row_def settle_def frontier_def
      split: sum.splits prod.splits)

subsection \<open>Stored outcomes\<close>

definition stored :: "OutcomeRow list \<Rightarrow> string \<times> nat \<times> string \<Rightarrow> json dict option" where
  "stored outs key = map_option ow_fields (find (\<lambda>r. outcome_key r = key) outs)"

definition outcomes_ok :: "OutcomeRow list \<Rightarrow> bool" where
  "outcomes_ok outs \<longleftrightarrow> distinct (map outcome_key outs)"

definition overwritten :: "OutcomeRow \<Rightarrow> OutcomeRow \<Rightarrow> OutcomeRow" where
  "overwritten r x = (if outcome_key x = outcome_key r
     then r\<lparr>ow_id := ow_id x, ow_created_at := ow_created_at x\<rparr> else x)"

lemma overwritten_key [simp]: "outcome_key (overwritten r x) = outcome_key x"
  by (auto simp: overwritten_def outcome_key_def)

lemma upsert_outcome_conv:
  "upsert_outcome r t = (if outcome_key r \<in> outcome_key ` set t then map (overwritten r) t else t @ [r])"
  by (simp add: upsert_outcome_def overwritten_def)

lemma upsert_outcome_ok: "outcomes_ok t \<Longrightarrow> outcomes_ok (upsert_outcome r t)"
  by (auto simp: upsert_outcome_conv outcomes_ok_def comp_def)

lemma find_map_overwritten:
  "find (\<lambda>x. outcome_key x = key) (map (overwritten r) t) =
     map_option (overwritten r) (find (\<lambda>x. outcome_key x = key) t)"
  by (induction t) simp_all

lemma stored_map_overwritten:
  "stored (map (overwritten r) t) key =
     (if key = outcome_key r \<and> key \<in> outcome_key ` set t then Some (ow_fields r) else stored t key)"
proof (cases "find (\<lambda>x. outcome_key x = key) t")
  case None
  then have "key \<notin> outcome_key ` set t" by (auto simp: find_None_iff)
  with None show ?thesis by (auto simp: stored_def find_map_overwritten)
next
  case (Some x)
  then have x: "x \<in> set t" "outcome_key x = key" by (auto simp: find_Some_iff)
  then have "key \<in> outcome_key ` set t" by (metis imageI)
  with x Some show ?thesis by (auto simp: stored_def find_map_overwritten overwritten_def)
qed

lemma stored_snoc:
  "stored (t @ [r]) key = (case stored t key of Some x \<Rightarrow> Some x
     | None \<Rightarrow> if outcome_key r = key then Some (ow_fields r) else None)"
  unfolding stored_def by (induction t) auto

lemma stored_None: "stored t key = None \<longleftrightarrow> key \<notin> outcome_key ` set t"
  by (auto simp: stored_def find_None_iff)

lemma stored_upsert:
  "stored (upsert_outcome r t) key = (if key = outcome_key r then Some (ow_fields r) else stored t key)"
proof (cases "outcome_key r \<in> outcome_key ` set t")
  case True
  then show ?thesis by (auto simp: upsert_outcome_conv stored_map_overwritten)
next
  case False
  with stored_None [of t "outcome_key r"] show ?thesis
    by (simp add: upsert_outcome_conv stored_snoc split: option.split)
qed

subsection \<open>The invariant of a drain\<close>

definition hand_ok :: "Worker \<Rightarrow> ScenarioJob list \<Rightarrow> QueueDb \<Rightarrow> bool" where
  "hand_ok w hand db \<longleftrightarrow> jobs_ok (qd_jobs db) \<and> outcomes_ok (qd_outcomes db) \<and> set hand \<subseteq> set (qd_jobs db) \<and>
     distinct (map ent_id hand) \<and> list_all (in_iteration (wk_run_job_id w) (wk_iteration w)) hand"

definition expected :: "executor \<Rightarrow> Worker \<Rightarrow> string set \<Rightarrow> QueueDb \<Rightarrow> string \<times> nat \<times> string \<Rightarrow> json dict option" where
  "expected execute w hand db key =
     (case find (\<lambda>j. job_key j = key) (qd_jobs db) of
        None \<Rightarrow> stored (qd_outcomes db) key
      | Some r \<Rightarrow> (case snd (settled_row execute w hand r) of
            Some outcome \<Rightarrow> Some (case_outcome_to_fields outcome)
          | None \<Rightarrow> stored (qd_outcomes db) key))"

lemma find_map_key:
  "(\<And>j. job_key (f j) = job_key j) \<Longrightarrow>
     find (\<lambda>j. job_key j = key) (map f t) = map_option f (find (\<lambda>j. job_key j = key) t)"
  by (induction t) auto

lemma find_job_Some: "find (\<lambda>j. job_key j = key) t = Some r \<Longrightarrow> r \<in> set t \<and> job_key r = key"
  by (auto simp: find_Some_iff)

lemma run_one_outcomes:
  "qd_outcomes (run_one_scenario_job execute fresh now c db) =
     (case execute c of Inl _ \<Rightarrow> qd_outcomes db
      | Inr (outcome, traces) \<Rightarrow> upsert_outcome (outcome_row (fresh c) now c outcome) (qd_outcomes db))"
  by (cases "execute c") (auto simp: run_one_scenario_job_def Let_def split: prod.splits)

subsection \<open>Every batch brings the drain closer to its end\<close>

definition row_weight :: "Worker \<Rightarrow> string set \<Rightarrow> ScenarioJob \<Rightarrow> nat" where
  "row_weight w hand r =
     (if ent_id r \<in> hand
      then (if sj_attempt r < sj_max_attempts r then Suc (sj_max_attempts r - sj_attempt r) else 0)
      else if frontier (wk_run_job_id w) (wk_iteration w) r then Suc (sj_max_attempts r - sj_attempt r) else 0)"

definition queue_weight :: "Worker \<Rightarrow> string set \<Rightarrow> ScenarioJob list \<Rightarrow> nat" where
  "queue_weight w hand t = sum_list (map (row_weight w hand) t)"

lemma sum_list_map_less:
  fixes f g :: "'a \<Rightarrow> nat"
  assumes "\<And>x. x \<in> set xs \<Longrightarrow> f x \<le> g x" "y \<in> set xs" "f y < g y"
  shows "sum_list (map f xs) < sum_list (map g xs)"
  using assms
proof (induction xs)
  case (Cons x xs)
  have le: "sum_list (map f xs) \<le> sum_list (map g xs)"
    using Cons.prems(1) by (intro sum_list_mono) simp
  show ?case
  proof (cases "y = x")
    case True
    with le Cons.prems(3) show ?thesis by simp
  next
    case False
    with Cons have "sum_list (map f xs) < sum_list (map g xs)" by simp
    with Cons.prems(1) [of x] show ?thesis by simp
  qed
qed simp

text \<open>What the queue needs of whoever executes its jobs: the outcome is that of the job's case.\<close>

locale case_executor =
  fixes execute :: executor
  assumes own_case: "execute c = Inr (outcome, traces) \<Longrightarrow> co_case_id outcome = sj_case_id c"
begin

lemma run_one_step:
  fixes fresh :: "ScenarioJob \<Rightarrow> string" and w :: Worker
  assumes "hand_ok w (c # cs) db"
  defines "db' \<equiv> run_one_scenario_job execute fresh (wk_now w) c db"
  shows "hand_ok w cs db'"
    and "settled_jobs execute w (ent_id ` set cs) (qd_jobs db') =
           settled_jobs execute w (ent_id ` set (c # cs)) (qd_jobs db)"
    and "expected execute w (ent_id ` set cs) db' key = expected execute w (ent_id ` set (c # cs)) db key"
proof -
  let ?t = "qd_jobs db" and ?f = "\<lambda>j. if ent_id j = ent_id c then attempted_row execute (wk_now w) j else j"
  have ok: "jobs_ok ?t" "outcomes_ok (qd_outcomes db)" "c \<in> set ?t" "set cs \<subseteq> set ?t"
    "ent_id c \<notin> ent_id ` set cs" "distinct (map ent_id cs)"
    "in_iteration (wk_run_job_id w) (wk_iteration w) c"
    "list_all (in_iteration (wk_run_job_id w) (wk_iteration w)) cs"
    using assms(1) by (auto simp: hand_ok_def)
  have jobs: "qd_jobs db' = map ?f ?t"
    unfolding db'_def using ok(1,3) by (rule run_one_jobs)
  have uniq: "r = c" if "r \<in> set ?t" "ent_id r = ent_id c" for r
    using jobs_ok_id [OF ok(1) that(1) ok(3) that(2)] .
  have "set cs \<subseteq> set (map ?f ?t)"
  proof
    fix r assume "r \<in> set cs"
    then have "ent_id r \<in> ent_id ` set cs" by (rule imageI)
    then have "ent_id r \<noteq> ent_id c" using ok(5) by metis
    moreover have "r \<in> set ?t" using \<open>r \<in> set cs\<close> ok(4) by blast
    ultimately show "r \<in> set (map ?f ?t)" by (auto intro: image_eqI [of _ _ r])
  qed
  moreover have "outcomes_ok (qd_outcomes db')"
    unfolding db'_def run_one_outcomes using ok(2) by (simp add: upsert_outcome_ok split: sum.splits prod.splits)
  moreover have "jobs_ok (map ?f ?t)" using ok(1) by (simp add: jobs_ok_map)
  ultimately show "hand_ok w cs db'" using ok by (simp add: hand_ok_def jobs)
  have other: "settled_row execute w (ent_id ` set cs) r = settled_row execute w (ent_id ` set (c # cs)) r"
    if "ent_id r \<noteq> ent_id c" for r using that by (simp add: settled_row_def)
  have mine: "settled_row execute w (ent_id ` set (c # cs)) c = resolve execute w c"
    by (simp add: settled_row_def)
  show "settled_jobs execute w (ent_id ` set cs) (qd_jobs db') =
      settled_jobs execute w (ent_id ` set (c # cs)) (qd_jobs db)"
    unfolding jobs settled_jobs_def map_map comp_def
  proof (rule map_cong [OF refl])
    fix r assume "r \<in> set ?t"
    then show "fst (settled_row execute w (ent_id ` set cs) (?f r)) =
        fst (settled_row execute w (ent_id ` set (c # cs)) r)"
      using uniq [of r] other [of r] mine resolve_attempt(1) [OF ok(7,5), of execute] by auto
  qed
  have key_c: "outcome_key (outcome_row (fresh c) (wk_now w) c outcome) = job_key c"
    if "execute c = Inr (outcome, traces)" for outcome traces
    using own_case [OF that] by (simp add: outcome_row_def outcome_key_def job_key_def)
  have fnd: "find (\<lambda>j. job_key j = key) (qd_jobs db') = map_option ?f (find (\<lambda>j. job_key j = key) ?t)"
    unfolding jobs by (rule find_map_key) simp
  show "expected execute w (ent_id ` set cs) db' key = expected execute w (ent_id ` set (c # cs)) db key"
  proof (cases "key = job_key c")
    case True
    have "find (\<lambda>j. job_key j = key) ?t = Some c"
    proof (cases "find (\<lambda>j. job_key j = key) ?t")
      case None
      with ok(3) True show ?thesis by (auto simp: find_None_iff)
    next
      case (Some r)
      with find_job_Some [OF Some] jobs_ok_key [OF ok(1) _ ok(3)] True show ?thesis by auto
    qed
    then show ?thesis
      using fnd mine resolve_attempt [OF ok(7,5), of execute] key_c True
      by (cases "execute c")
        (auto simp: expected_def db'_def run_one_outcomes stored_upsert outcome_row_def split: option.splits)
  next
    case False
    have "stored (qd_outcomes db') key = stored (qd_outcomes db) key"
      unfolding db'_def run_one_outcomes
      using False key_c by (auto simp: stored_upsert split: sum.splits prod.splits)
    moreover have "ent_id r \<noteq> ent_id c" if "find (\<lambda>j. job_key j = key) ?t = Some r" for r
      using find_job_Some [OF that] uniq [of r] False by auto
    ultimately show ?thesis
      using fnd other by (cases "find (\<lambda>j. job_key j = key) ?t") (simp_all add: expected_def cong: option.case_cong)
  qed
qed

lemma run_hand:
  fixes fresh :: "ScenarioJob \<Rightarrow> string" and w :: Worker
  assumes "hand_ok w hand db"
  defines "db' \<equiv> foldl (\<lambda>d sj. run_one_scenario_job execute fresh (wk_now w) sj d) db hand"
  shows "hand_ok w [] db' \<and>
    settled_jobs execute w {} (qd_jobs db') = settled_jobs execute w (ent_id ` set hand) (qd_jobs db) \<and>
    expected execute w {} db' = expected execute w (ent_id ` set hand) db"
  using assms(1) unfolding db'_def
proof (induction hand arbitrary: db)
  case Nil
  then show ?case by simp
next
  case (Cons c cs)
  show ?case
    using Cons.IH [OF run_one_step(1) [OF Cons.prems, of fresh]] run_one_step(2,3) [OF Cons.prems, of fresh] by (simp add: ext)
qed

lemma claim_facts:
  assumes "jobs_ok t" "claim_scenario_jobs [] (wk_run_job_id w) (wk_iteration w) (wk_worker_id w)
      (wk_lease_until w) (wk_batch w) t = (claimed, t')"
  obtains ids where
    "t' = map (\<lambda>j. if ent_id j \<in> set ids then claimed_row (wk_worker_id w) (wk_lease_until w) j else j) t"
    "claimed = map (claimed_row (wk_worker_id w) (wk_lease_until w)) (filter (\<lambda>j. ent_id j \<in> set ids) t)"
    "set ids \<subseteq> {i. \<exists>j \<in> set t. ent_id j = i \<and> frontier (wk_run_job_id w) (wk_iteration w) j}"
    "ent_id ` set claimed = set ids"
    "\<forall>j \<in> set t. ent_id j \<in> set ids \<longrightarrow> frontier (wk_run_job_id w) (wk_iteration w) j"
    "ids = claimable_ids [] (wk_run_job_id w) (wk_iteration w) (wk_batch w) t"
proof
  let ?claim = "claimed_row (wk_worker_id w) (wk_lease_until w)"
  let ?ids = "claimable_ids [] (wk_run_job_id w) (wk_iteration w) (wk_batch w) t"
  show "t' = map (\<lambda>j. if ent_id j \<in> set ?ids then ?claim j else j) t"
    and c: "claimed = map ?claim (filter (\<lambda>j. ent_id j \<in> set ?ids) t)"
    using assms(2) by (auto simp: claim_scenario_jobs_def Let_def)
  show ids: "set ?ids \<subseteq> {i. \<exists>j \<in> set t. ent_id j = i \<and> frontier (wk_run_job_id w) (wk_iteration w) j}"
    using claimable_ids_subset [of "[]" "wk_run_job_id w" "wk_iteration w" "wk_batch w" t] by auto
  show "\<forall>j \<in> set t. ent_id j \<in> set ?ids \<longrightarrow> frontier (wk_run_job_id w) (wk_iteration w) j"
    using ids jobs_ok_id [OF assms(1)] by fastforce
  show "ent_id ` set claimed = set ?ids"
  proof
    show "ent_id ` set claimed \<subseteq> set ?ids" by (auto simp: c)
    show "set ?ids \<subseteq> ent_id ` set claimed"
    proof
      fix i assume i: "i \<in> set ?ids"
      with ids obtain j where j: "j \<in> set t" "ent_id j = i" by blast
      with i have "?claim j \<in> set claimed" by (auto simp: c)
      then show "i \<in> ent_id ` set claimed" using j(2) by (intro image_eqI [of _ _ "?claim j"]) simp_all
    qed
  qed
qed (rule refl)

lemma claim_step:
  fixes w :: Worker
  assumes "hand_ok w [] db" "claim_scenario_jobs [] (wk_run_job_id w) (wk_iteration w) (wk_worker_id w)
      (wk_lease_until w) (wk_batch w) (qd_jobs db) = (claimed, t)"
  defines "db1 \<equiv> db\<lparr>qd_jobs := t\<rparr>"
  shows "hand_ok w claimed db1"
    and "settled_jobs execute w (ent_id ` set claimed) (qd_jobs db1) = settled_jobs execute w {} (qd_jobs db)"
    and "expected execute w (ent_id ` set claimed) db1 = expected execute w {} db"
proof -
  let ?t = "qd_jobs db"
  let ?claim = "claimed_row (wk_worker_id w) (wk_lease_until w)"
  have ok: "jobs_ok ?t" "outcomes_ok (qd_outcomes db)" using assms(1) by (simp_all add: hand_ok_def)
  obtain ids where t: "t = map (\<lambda>j. if ent_id j \<in> set ids then ?claim j else j) ?t"
    and claimed: "claimed = map ?claim (filter (\<lambda>j. ent_id j \<in> set ids) ?t)"
    and ids: "set ids \<subseteq> {i. \<exists>j \<in> set ?t. ent_id j = i \<and> frontier (wk_run_job_id w) (wk_iteration w) j}"
    and hand: "ent_id ` set claimed = set ids"
    and fr: "\<forall>j \<in> set ?t. ent_id j \<in> set ids \<longrightarrow> frontier (wk_run_job_id w) (wk_iteration w) j"
    and "ids = claimable_ids [] (wk_run_job_id w) (wk_iteration w) (wk_batch w) ?t"
    by (rule claim_facts [OF ok(1) assms(2)]) (rule that)
  let ?f = "\<lambda>j. if ent_id j \<in> set ids then ?claim j else j"
  have "jobs_ok t" unfolding t using ok(1) by (simp add: jobs_ok_map)
  moreover have "distinct (map ent_id claimed)"
    using ok(1) by (simp add: claimed jobs_ok_def comp_def distinct_map_filter)
  ultimately show "hand_ok w claimed db1"
    using ok(2) fr by (auto simp: hand_ok_def db1_def claimed t list_all_iff frontier_def)
  have row: "settled_row execute w (set ids) (?f r) = settled_row execute w {} r" if "r \<in> set ?t" for r
    using ok(1) ids that by (rule settled_claim)
  then show "settled_jobs execute w (ent_id ` set claimed) (qd_jobs db1) = settled_jobs execute w {} ?t"
    by (simp add: settled_jobs_def db1_def t hand)
  have "find (\<lambda>j. job_key j = key) t = map_option ?f (find (\<lambda>j. job_key j = key) ?t)" for key
    unfolding t by (rule find_map_key) simp
  note fnd = this
  show "expected execute w (ent_id ` set claimed) db1 = expected execute w {} db"
  proof (rule ext)
    fix key
    show "expected execute w (ent_id ` set claimed) db1 key = expected execute w {} db key"
    proof (cases "find (\<lambda>j. job_key j = key) ?t")
      case None
      with fnd [of key] show ?thesis by (simp add: expected_def db1_def)
    next
      case (Some r)
      then have "settled_row execute w (set ids) (?f r) = settled_row execute w {} r"
        using find_job_Some [OF Some] row by blast
      moreover have "find (\<lambda>j. job_key j = key) (qd_jobs db1) = Some (?f r)" "qd_outcomes db1 = qd_outcomes db"
        using Some fnd [of key] by (simp_all add: db1_def)
      ultimately show ?thesis using Some by (simp only: expected_def hand option.case)
    qed
  qed
qed

lemma run_one_weight:
  assumes "hand_ok w (c # cs) db"
  shows "queue_weight w (ent_id ` set cs) (qd_jobs (run_one_scenario_job execute fresh (wk_now w) c db)) \<le>
    queue_weight w (ent_id ` set (c # cs)) (qd_jobs db)"
proof -
  let ?t = "qd_jobs db" and ?f = "\<lambda>j. if ent_id j = ent_id c then attempted_row execute (wk_now w) j else j"
  have ok: "jobs_ok ?t" "c \<in> set ?t" "ent_id c \<notin> ent_id ` set cs"
    using assms by (auto simp: hand_ok_def)
  have "row_weight w (ent_id ` set cs) (?f r) \<le> row_weight w (ent_id ` set (c # cs)) r" if "r \<in> set ?t" for r
  proof (cases "ent_id r = ent_id c")
    case True
    then have "r = c" using jobs_ok_id [OF ok(1) that ok(2)] by blast
    then show ?thesis
      using ok(3) by (simp add: row_weight_def attempted_row_def frontier_def split: sum.split)
  next
    case False
    then show ?thesis by (simp add: row_weight_def)
  qed
  then show ?thesis
    unfolding run_one_jobs [OF ok(1,2)] queue_weight_def map_map comp_def by (rule sum_list_mono)
qed

lemma run_hand_weight:
  assumes "hand_ok w hand db"
  shows "queue_weight w {} (qd_jobs (foldl (\<lambda>d sj. run_one_scenario_job execute fresh (wk_now w) sj d) db hand)) \<le>
    queue_weight w (ent_id ` set hand) (qd_jobs db)"
  using assms
proof (induction hand arbitrary: db)
  case (Cons c cs)
  show ?case
    using Cons.IH [OF run_one_step(1) [OF Cons.prems, of fresh]] run_one_weight [OF Cons.prems, of fresh] by simp
qed simp

lemma claim_weight:
  assumes "hand_ok w [] db" "claim_scenario_jobs [] (wk_run_job_id w) (wk_iteration w) (wk_worker_id w)
      (wk_lease_until w) (wk_batch w) (qd_jobs db) = (claimed, t)" "claimed \<noteq> []"
  shows "queue_weight w (ent_id ` set claimed) t < queue_weight w {} (qd_jobs db)"
proof -
  let ?t = "qd_jobs db" and ?claim = "claimed_row (wk_worker_id w) (wk_lease_until w)"
  have ok: "jobs_ok ?t" using assms(1) by (simp add: hand_ok_def)
  obtain ids where t: "t = map (\<lambda>j. if ent_id j \<in> set ids then ?claim j else j) ?t"
    and claimed: "claimed = map ?claim (filter (\<lambda>j. ent_id j \<in> set ids) ?t)"
    and ids: "set ids \<subseteq> {i. \<exists>j \<in> set ?t. ent_id j = i \<and> frontier (wk_run_job_id w) (wk_iteration w) j}"
    and hand: "ent_id ` set claimed = set ids"
    and fr: "\<forall>j \<in> set ?t. ent_id j \<in> set ids \<longrightarrow> frontier (wk_run_job_id w) (wk_iteration w) j"
    and "ids = claimable_ids [] (wk_run_job_id w) (wk_iteration w) (wk_batch w) ?t"
    by (rule claim_facts [OF ok assms(2)]) (rule that)
  let ?f = "\<lambda>j. if ent_id j \<in> set ids then ?claim j else j"
  have less: "row_weight w (ent_id ` set claimed) (?f r) < row_weight w {} r"
    if "r \<in> set ?t" "ent_id r \<in> set ids" for r
    using that fr by (simp add: row_weight_def hand) linarith
  obtain r where "r \<in> set ?t" "ent_id r \<in> set ids"
    using assms(3) unfolding claimed by (auto simp: filter_empty_conv)
  moreover have "row_weight w (ent_id ` set claimed) (?f r) \<le> row_weight w {} r" if "r \<in> set ?t" for r
    using that less [of r] by (cases "ent_id r \<in> set ids") (auto simp: row_weight_def hand)
  moreover have "row_weight w (ent_id ` set claimed) (?f r) < row_weight w {} r"
    using less [of r] calculation(1,2) by simp
  ultimately have "sum_list (map (\<lambda>r. row_weight w (ent_id ` set claimed) (?f r)) ?t) <
      sum_list (map (row_weight w {}) ?t)"
    by (intro sum_list_map_less [of ?t _ _ r]) simp_all
  then show ?thesis unfolding queue_weight_def t map_map comp_def .
qed

lemma nothing_claimed:
  assumes "claim_scenario_jobs [] (wk_run_job_id w) (wk_iteration w) (wk_worker_id w)
      (wk_lease_until w) (wk_batch w) t = ([], t')" "0 < wk_batch w"
  shows "t' = t \<and> (\<forall>r \<in> set t. \<not> frontier (wk_run_job_id w) (wk_iteration w) r)"
proof -
  define ids where "ids = claimable_ids [] (wk_run_job_id w) (wk_iteration w) (wk_batch w) t"
  have none: "filter (\<lambda>j. ent_id j \<in> set ids) t = []"
    using assms(1) by (simp add: claim_scenario_jobs_def Let_def ids_def)
  then have "\<forall>j \<in> set t. ent_id j \<notin> set ids" by (simp add: filter_empty_conv)
  moreover have "\<exists>j \<in> set t. ent_id j = i" if "i \<in> set ids" for i
    using that claimable_ids_subset [of "[]" "wk_run_job_id w" "wk_iteration w" "wk_batch w" t]
    unfolding ids_def by auto
  ultimately have "i \<notin> set ids" for i by metis
  then have "ids = []" by (metis list.set_intros(1) neq_Nil_conv)
  then have "filter (frontier (wk_run_job_id w) (wk_iteration w)) t = []"
    using claimable_ids_Nil [OF assms(2)] unfolding ids_def by blast
  moreover have "t' = t"
    using assms(1) \<open>ids = []\<close> by (simp add: claim_scenario_jobs_def Let_def ids_def)
  ultimately show ?thesis by (simp add: filter_empty_conv)
qed

text \<open>The drain returns, every job has the row \<open>resolve\<close> gives it, and the outcomes of the jobs that
  succeeded are stored.\<close>

lemma drain_settles:
  assumes "hand_ok w [] db" "0 < wk_batch w"
  shows "\<exists>db'. drain (Inr ()) execute fresh w db = Some (Inr (), db') \<and> hand_ok w [] db' \<and>
    qd_jobs db' = settled_jobs execute w {} (qd_jobs db) \<and>
    (\<forall>r \<in> set (qd_jobs db'). \<not> frontier (wk_run_job_id w) (wk_iteration w) r) \<and>
    stored (qd_outcomes db') = expected execute w {} db"
  using assms(1)
proof (induction "queue_weight w {} (qd_jobs db)" arbitrary: db rule: less_induct)
  case less
  obtain claimed t where c: "claim_scenario_jobs [] (wk_run_job_id w) (wk_iteration w) (wk_worker_id w)
      (wk_lease_until w) (wk_batch w) (qd_jobs db) = (claimed, t)" by fastforce
  let ?db1 = "db\<lparr>qd_jobs := t\<rparr>"
  show ?case
  proof (cases "claimed = []")
    case True
    with nothing_claimed [OF _ assms(2)] c
    have t: "t = qd_jobs db" "\<forall>r \<in> set t. \<not> frontier (wk_run_job_id w) (wk_iteration w) r" by blast+
    then have "drain (Inr ()) execute fresh w db = Some (Inr (), db)"
      using c True by (subst drain.simps) (simp add: run_scenario_jobs_once_def Let_def)
    moreover have "settled_jobs execute w {} (qd_jobs db) = qd_jobs db"
      unfolding settled_jobs_def by (rule map_idI) (use t in \<open>simp add: settled_row_def\<close>)
    moreover have "stored (qd_outcomes db) key = expected execute w {} db key" for key
      using t find_job_Some [of key "qd_jobs db"]
      by (cases "find (\<lambda>j. job_key j = key) (qd_jobs db)") (auto simp: expected_def settled_row_def)
    ultimately show ?thesis using less.prems t by (intro exI [of _ db]) auto
  next
    case False
    define db2 where "db2 = foldl (\<lambda>d sj. run_one_scenario_job execute fresh (wk_now w) sj d) ?db1 claimed"
    have once: "run_scenario_jobs_once (Inr ()) execute fresh w db = (Inr (length claimed), db2)"
      using c False by (simp add: run_scenario_jobs_once_def Let_def db2_def)
    note cl = claim_step [OF less.prems c]
    have rh: "hand_ok w [] db2" "settled_jobs execute w {} (qd_jobs db2) = settled_jobs execute w {} (qd_jobs db)"
      "expected execute w {} db2 = expected execute w {} db"
      using run_hand [OF cl(1), of fresh] cl(2,3) by (simp_all add: db2_def)
    have "queue_weight w {} (qd_jobs db2) < queue_weight w {} (qd_jobs db)"
      using run_hand_weight [OF cl(1), of fresh] claim_weight [OF less.prems c False] by (simp add: db2_def)
    from less.hyps [OF this rh(1)] obtain db' where
      d: "drain (Inr ()) execute fresh w db2 = Some (Inr (), db')" "hand_ok w [] db'"
        "qd_jobs db' = settled_jobs execute w {} (qd_jobs db2)"
        "\<forall>r \<in> set (qd_jobs db'). \<not> frontier (wk_run_job_id w) (wk_iteration w) r"
        "stored (qd_outcomes db') = expected execute w {} db2" by blast
    have "drain (Inr ()) execute fresh w db = drain (Inr ()) execute fresh w db2"
      using once False by (subst drain.simps) simp
    with d rh(2,3) show ?thesis by auto
  qed
qed

end

end
