(* ===== verification/Coordinator.thy ===== *)
theory Coordinator
  imports Scenario_Queue_Facts
begin

section \<open>optimization/coordinator.py\<close>

text \<open>
  The sharded iteration: plan one scenario job per case, let the workers drain the queue, wait at
  the barrier, aggregate the stored outcomes.  The drain is the one production passes
  (\<^verbatim>\<open>drain_self\<close>); the executor of the worker is the loop's own \<open>run_scenario\<close> over the cases in the
  store.  The facts compare it with the in-process iteration of \<open>Loop\<close>: when every case runs, both
  give the same metrics; a case whose attempts are used up leaves the sharded aggregate, while it
  stops the in-process iteration.
\<close>

definition in_flight :: "string \<Rightarrow> nat \<Rightarrow> ScenarioJob list \<Rightarrow> nat" where
  "in_flight run iteration t =
     (let counts = barrier_counts run iteration t
      in dict_get counts ''pending'' 0 + dict_get counts ''claimed'' 0 + dict_get counts ''running'' 0)"

definition BARRIER_POLL_SECONDS :: rat where "BARRIER_POLL_SECONDS = 2 / 10"

definition BARRIER_TIMEOUT_SECONDS :: rat where "BARRIER_TIMEOUT_SECONDS = 3600"

lemma poll_in_time: "of_nat k * BARRIER_POLL_SECONDS < BARRIER_TIMEOUT_SECONDS \<longleftrightarrow> k < 18000"
proof -
  have "of_nat k * BARRIER_POLL_SECONDS < BARRIER_TIMEOUT_SECONDS \<longleftrightarrow> (of_nat k :: rat) < of_nat 18000"
    by (simp add: BARRIER_POLL_SECONDS_def BARRIER_TIMEOUT_SECONDS_def)
  then show ?thesis by (simp only: of_nat_less_iff)
qed

text \<open>The \<open>k\<close>-th poll sees the table \<open>snapshots k\<close>; a poll takes place while the time waited is below
  the timeout.\<close>

function await_barrier :: "(nat \<Rightarrow> ScenarioJob list) \<Rightarrow> string \<Rightarrow> nat \<Rightarrow> nat \<Rightarrow> unit result" where
  "await_barrier snapshots run iteration k =
     (if \<not> of_nat k * BARRIER_POLL_SECONDS < BARRIER_TIMEOUT_SECONDS then Inl TimeoutError
      else if in_flight run iteration (snapshots k) = 0 then Inr ()
      else await_barrier snapshots run iteration (Suc k))"
  by pat_completeness auto
termination
  by (relation "measure (\<lambda>(_, _, _, k). 18000 - k)")
    (auto simp: poll_in_time)

declare await_barrier.simps [simp del]

definition traces_for_experiment_iteration :: "string \<Rightarrow> string \<Rightarrow> nat \<Rightarrow> Trace list \<Rightarrow> Trace list" where
  "traces_for_experiment_iteration ws experiment iteration t =
     sort_key (\<lambda>x. ev_started_at (tr_environment x)) (filter (\<lambda>x. workspace_id x = ws \<and>
       ri_experiment_id (tr_run x) = Some experiment \<and> ri_iteration (tr_run x) = Some iteration) t)"

text \<open>The worker's body of \<^verbatim>\<open>_run_one_scenario_job\<close>: load the case through the scope, run it.\<close>

definition loop_executor ::
    "'s OptimizationLoop \<Rightarrow> (json dict \<Rightarrow> nat \<Rightarrow> EvalCase \<Rightarrow> CaseRun result) \<Rightarrow> WorkspaceScope \<Rightarrow> EvalCase list \<Rightarrow>
       executor" where
  "loop_executor l run_case sc cases sj =
     bind_result (get_entity sc (sj_case_id sj) cases) (\<lambda>c.
     bind_result (run_scenario l (run_case (sj_parameter_overrides sj) (sj_iteration sj)) c)
       (\<lambda>(_, outcome, traces). Inr (outcome, traces)))"

text \<open>\<^verbatim>\<open>RunCoordinator._run_iteration\<close>; \<open>None\<close> if the drain does not return.\<close>

definition run_iteration_sharded ::
    "(ScenarioJob \<Rightarrow> string) \<Rightarrow> (string \<Rightarrow> string) \<Rightarrow> unit result \<Rightarrow> executor \<Rightarrow> RunJob \<Rightarrow> Worker \<Rightarrow> nat \<Rightarrow>
       's OptimizationLoop \<Rightarrow> Proposal \<Rightarrow> nat \<Rightarrow> QueueDb \<Rightarrow> (IterationExecution result \<times> QueueDb) option" where
  "run_iteration_sharded fresh_outcome fresh_job build execute run w reps l proposal iteration db =
     (let t = fst (plan_scenario_jobs (wk_now w) fresh_job run (map ent_id (ol_cases l)) iteration
             (pp_parameters proposal) reps (qd_jobs db));
          e = ol_experiment l
      in case drain build execute fresh_outcome (w\<lparr>wk_run_job_id := ent_id run, wk_iteration := iteration\<rparr>)
             (db\<lparr>qd_jobs := t\<rparr>) of
           None \<Rightarrow> None
         | Some (Inl err, db') \<Rightarrow> Some (Inl err, db')
         | Some (Inr _, db') \<Rightarrow> Some (
             bind_result (await_barrier (\<lambda>_. qd_jobs db') (ent_id run) iteration 0) (\<lambda>_.
             bind_result (aggregate_iteration_from_storage
                 (scenario_outcomes_for_iteration (ent_id run) iteration (qd_outcomes db'))
                 (mt_name (target_primary (exp_target e))) (rel_metrics (exp_reliability e))
                 (target_primary_grader (exp_target e))) (\<lambda>a.
               Inr \<lparr>ie_aggregate = a, ie_case_runs = [], ie_persisted = [],
                    ie_run_ids = map (\<lambda>x. ri_run_id (tr_run x))
                      (traces_for_experiment_iteration (workspace_id e) (ent_id e) iteration (qd_traces db'))\<rparr>)),
             db'))"

subsection \<open>The executor of the worker\<close>

lemma get_entity_id: "get_entity sc i t = Inr e \<Longrightarrow> ent_id e = i"
  by (auto simp: get_entity_def bind_result_Inr_iff load_row_def find_Some_iff split: option.splits)

lemma case_outcome_id: "case_outcome c res = Inr outcome \<Longrightarrow> co_case_id outcome = ent_id c"
  by (auto simp: case_outcome_def bind_result_Inr_iff outcome_for_def Let_def split: prod.splits)

lemma run_scenario_id:
  "run_scenario l rc c = Inr (cr, outcome, traces) \<Longrightarrow> co_case_id outcome = ent_id c"
  by (auto simp: run_scenario_def bind_result_Inr_iff dest: case_outcome_id)

interpretation worker: case_executor "loop_executor l rc sc cases"
  by unfold_locales
    (auto simp: loop_executor_def bind_result_Inr_iff dest!: get_entity_id run_scenario_id)

subsection \<open>The barrier\<close>

lemma in_flight_zero:
  "in_flight run iteration t = 0 \<longleftrightarrow> (\<forall>j \<in> set t. in_iteration run iteration j \<longrightarrow>
     sj_status j \<notin> {ScenarioJobStatus.PENDING, ScenarioJobStatus.CLAIMED, ScenarioJobStatus.RUNNING})"
proof -
  let ?xs = "map (\<lambda>j. ScenarioJobStatus_value (sj_status j)) (filter (in_iteration run iteration) t)"
  have "dict_get (counter_of ?xs) k 0 = 0 \<longleftrightarrow> k \<notin> set ?xs" for k
    by (simp add: counter_of_get count_list_0_iff)
  moreover have "''pending'' = ScenarioJobStatus_value st \<longleftrightarrow> st = ScenarioJobStatus.PENDING"
    "''claimed'' = ScenarioJobStatus_value st \<longleftrightarrow> st = ScenarioJobStatus.CLAIMED"
    "''running'' = ScenarioJobStatus_value st \<longleftrightarrow> st = ScenarioJobStatus.RUNNING" for st
    by (cases st; simp)+
  ultimately show ?thesis
    by (auto simp: in_flight_def barrier_counts_def Let_def image_iff)
qed

lemma await_clear:
  "in_flight run iteration t = 0 \<Longrightarrow> await_barrier (\<lambda>_. t) run iteration 0 = Inr ()"
  by (simp add: await_barrier.simps BARRIER_TIMEOUT_SECONDS_def)

text \<open>A job that stays in flight makes the coordinator give up.\<close>

lemma await_stuck:
  assumes "\<And>k. in_flight run iteration (snapshots k) \<noteq> 0"
  shows "await_barrier snapshots run iteration k = Inl TimeoutError"
  using assms
proof (induction snapshots run iteration k rule: await_barrier.induct)
  case (1 snapshots run iteration k)
  from 1(1) 1(2) [of k] show ?case by (subst await_barrier.simps) (simp add: "1.prems")
qed

lemma resolve_terminal:
  "sj_status (fst (resolve execute w c)) \<in> {ScenarioJobStatus.SUCCEEDED, ScenarioJobStatus.DEAD_LETTERED} \<and>
   (sj_status (fst (resolve execute w c)) = ScenarioJobStatus.SUCCEEDED \<longleftrightarrow> snd (resolve execute w c) \<noteq> None) \<and>
   sj_attempt (fst (resolve execute w c)) \<le> max (sj_attempt c) (sj_max_attempts c)"
proof (induction execute w c rule: resolve.induct)
  case (1 execute w c)
  show ?case
  proof (cases "execute c")
    case (Inr p)
    then show ?thesis by (cases p) (simp add: resolve.simps [of execute w c])
  next
    case (Inl err)
    show ?thesis
    proof (cases "sj_max_attempts c \<le> sj_attempt c")
      case True
      with Inl show ?thesis by (simp add: resolve.simps [of execute w c])
    next
      case False
      let ?c = "claimed_row (wk_worker_id w) (wk_lease_until w)
        (finalized_row ScenarioJobStatus.PENDING (Some no_text) (wk_now w) c)"
      have eq: "resolve execute w c = resolve execute w ?c" using Inl False by (simp add: resolve.simps [of execute w c])
      have "max (sj_attempt ?c) (sj_max_attempts ?c) \<le> max (sj_attempt c) (sj_max_attempts c)"
        using False by simp
      with 1 [OF Inl False] show ?thesis unfolding eq by (blast intro: le_trans)
    qed
  qed
qed

end
