(* ===== verification/Coordinator_Facts.thy ===== *)
theory Coordinator_Facts
  imports Coordinator
begin

section \<open>Sharded and in-process iterations\<close>

text \<open>
  Planning over a table that holds nothing of the iteration yet, the rows a drain leaves, and the
  comparison of \<open>run_iteration_sharded\<close> with \<open>run_iteration_in_process\<close>.
\<close>

subsection \<open>A first plan\<close>

definition new_iteration :: "string \<Rightarrow> nat \<Rightarrow> (string \<Rightarrow> string) \<Rightarrow> string list \<Rightarrow> QueueDb \<Rightarrow> bool" where
  "new_iteration run iteration fresh ids db \<longleftrightarrow>
     jobs_ok (qd_jobs db) \<and> outcomes_ok (qd_outcomes db) \<and>
     list_all (\<lambda>j. \<not> in_iteration run iteration j) (qd_jobs db) \<and>
     list_all (\<lambda>r. \<not> (ow_run_job_id r = run \<and> ow_iteration r = iteration)) (qd_outcomes db) \<and>
     distinct ids \<and> inj_on fresh (set ids) \<and> fresh ` set ids \<inter> ent_id ` set (qd_jobs db) = {}"

lemma planned_job_simps [simp]:
  "ent_id (planned_job now run iteration overrides reps i c) = i"
  "job_key (planned_job now run iteration overrides reps i c) = (ent_id run, iteration, c)"
  "in_iteration (ent_id run) iteration (planned_job now run iteration overrides reps i c)"
  "frontier (ent_id run) iteration (planned_job now run iteration overrides reps i c)"
  "sj_case_id (planned_job now run iteration overrides reps i c) = c"
  "sj_iteration (planned_job now run iteration overrides reps i c) = iteration"
  "sj_parameter_overrides (planned_job now run iteration overrides reps i c) = overrides"
  "sj_attempt (planned_job now run iteration overrides reps i c) = 0"
  "sj_max_attempts (planned_job now run iteration overrides reps i c) = rj_max_attempts run"
  by (simp_all add: planned_job_def job_key_def in_iteration_def frontier_def)

lemma insert_fresh_jobs:
  assumes "distinct (map job_key js)" "job_key ` set js \<inter> job_key ` set t = {}"
  shows "foldl insert_scenario_job t js = t @ js"
  using assms
proof (induction js arbitrary: t)
  case (Cons j js)
  then have "insert_scenario_job t j = t @ [j]" by (auto simp: insert_scenario_job_def)
  with Cons show ?case by auto
qed simp

lemma plan_fresh:
  fixes now :: timestamp and overrides :: "json dict" and reps :: nat
  assumes "new_iteration (ent_id run) iteration fresh ids db"
  defines "planned \<equiv> map (\<lambda>c. planned_job now run iteration overrides reps (fresh c) c) ids"
  shows "plan_scenario_jobs now fresh run ids iteration overrides reps (qd_jobs db) =
      (qd_jobs db @ planned, length ids)"
    and "jobs_ok (qd_jobs db @ planned)"
proof -
  have keys: "map job_key planned = map (\<lambda>c. (ent_id run, iteration, c)) ids"
    by (simp add: planned_def)
  have ids: "map ent_id planned = map fresh ids" by (simp add: planned_def)
  have "distinct ids" using assms(1) by (simp add: new_iteration_def)
  then have dk: "distinct (map job_key planned)"
    unfolding keys by (simp add: distinct_map inj_on_def)
  have di: "distinct (map ent_id planned)"
    unfolding ids using assms(1) by (simp add: new_iteration_def distinct_map)
  have "job_key j \<noteq> (ent_id run, iteration, c)" if "j \<in> set (qd_jobs db)" for j c
    using that assms(1) by (auto simp: new_iteration_def list_all_iff job_key_def in_iteration_def)
  then have disj: "job_key ` set planned \<inter> job_key ` set (qd_jobs db) = {}"
    by (auto simp: planned_def dest: sym)
  show "plan_scenario_jobs now fresh run ids iteration overrides reps (qd_jobs db) =
      (qd_jobs db @ planned, length ids)"
    using insert_fresh_jobs [OF dk disj]
    by (simp add: plan_scenario_jobs_def insert_scenario_jobs_def planned_def Let_def)
  have "ent_id ` set planned \<inter> ent_id ` set (qd_jobs db) = {}"
    using assms(1) by (auto simp: new_iteration_def planned_def)
  then show "jobs_ok (qd_jobs db @ planned)"
    using dk di disj assms(1) by (auto simp: jobs_ok_def new_iteration_def)
qed

subsection \<open>The rows of an iteration\<close>

lemma iteration_rows_mset:
  assumes "outcomes_ok outs" "distinct ids" "\<And>c. g c \<noteq> None \<Longrightarrow> c \<in> set ids"
    and "\<And>c. stored outs (run, iteration, c) = g c"
  shows "mset (scenario_outcomes_for_iteration run iteration outs) = mset (List.map_filter g ids)"
proof -
  define rows where "rows = filter (\<lambda>r. ow_run_job_id r = run \<and> ow_iteration r = iteration) outs"
  have key: "outcome_key r = (run, iteration, ow_case_id r)" if "r \<in> set rows" for r
    using that by (auto simp: rows_def outcome_key_def)
  have "distinct (map outcome_key rows)"
    using assms(1) by (simp add: outcomes_ok_def rows_def distinct_map_filter)
  moreover from this have "inj_on ow_case_id (set rows)"
    unfolding distinct_map inj_on_def using key by metis
  ultimately have d: "distinct (map ow_case_id rows)" by (simp add: distinct_map)
  have val: "g (ow_case_id r) = Some (ow_fields r)" if r: "r \<in> set rows" for r
  proof -
    have ro: "r \<in> set outs" using r by (simp add: rows_def)
    have "find (\<lambda>x. outcome_key x = outcome_key r) outs = Some r"
      using ro assms(1) unfolding outcomes_ok_def by (induction outs) (auto simp: rev_image_eqI)
    then show ?thesis using assms(4) [of "ow_case_id r"] key [OF r] by (simp add: stored_def)
  qed
  have "c \<in> ow_case_id ` set rows" if "g c \<noteq> None" for c
  proof -
    from that assms(4) [of c] obtain r where "find (\<lambda>r. outcome_key r = (run, iteration, c)) outs = Some r"
      by (auto simp: stored_def)
    then have "r \<in> set outs" "outcome_key r = (run, iteration, c)" by (auto simp: find_Some_iff)
    then have "r \<in> set rows" "ow_case_id r = c" by (auto simp: rows_def outcome_key_def)
    then show ?thesis by blast
  qed
  then have "set (map ow_case_id rows) = set (filter (\<lambda>c. g c \<noteq> None) ids)"
    using val assms(3) by fastforce
  moreover have "distinct (filter (\<lambda>c. g c \<noteq> None) ids)" using assms(2) by simp
  ultimately have m: "mset (map ow_case_id rows) = mset (filter (\<lambda>c. g c \<noteq> None) ids)"
    using d set_eq_iff_mset_eq_distinct by blast
  have "map ow_fields rows = map (\<lambda>c. the (g c)) (map ow_case_id rows)"
    using val by simp
  then have "mset (map ow_fields rows) = image_mset (\<lambda>c. the (g c)) (mset (map ow_case_id rows))"
    by (simp only: mset_map)
  also have "\<dots> = mset (List.map_filter g ids)"
    unfolding m by (simp add: List.map_filter_def comp_def)
  finally show ?thesis by (simp add: scenario_outcomes_for_iteration_def rows_def)
qed

lemma map_filter_cong: "(\<And>x. x \<in> set xs \<Longrightarrow> f x = g x) \<Longrightarrow> List.map_filter f xs = List.map_filter g xs"
  by (induction xs) (simp_all add: List.map_filter_simps cong: option.case_cong)

lemma map_filter_map_option:
  "List.map_filter (\<lambda>x. map_option h (f x)) xs = map h (List.map_filter f xs)"
  by (induction xs) (simp_all add: List.map_filter_simps split: option.split)

text \<open>What a case is settled to: its outcome, or nothing when its attempts are used up.\<close>

definition settled_outcome ::
    "executor \<Rightarrow> Worker \<Rightarrow> RunJob \<Rightarrow> nat \<Rightarrow> json dict \<Rightarrow> nat \<Rightarrow> (string \<Rightarrow> string) \<Rightarrow> string \<Rightarrow> CaseOutcome option" where
  "settled_outcome execute w run iteration overrides reps fresh c =
     snd (settle execute w (planned_job (wk_now w) run iteration overrides reps (fresh c) c))"

lemma find_planned:
  fixes now :: timestamp and overrides :: "json dict" and reps :: nat
  assumes "new_iteration (ent_id run) iteration fresh ids db"
  defines "t \<equiv> qd_jobs db @ map (\<lambda>c. planned_job now run iteration overrides reps (fresh c) c) ids"
  shows "find (\<lambda>j. job_key j = (ent_id run, iteration, c)) t =
    (if c \<in> set ids then Some (planned_job now run iteration overrides reps (fresh c) c) else None)"
proof -
  have "find (\<lambda>j. job_key j = (ent_id run, iteration, c)) (qd_jobs db) = None"
    using assms(1) by (auto simp: new_iteration_def list_all_iff job_key_def in_iteration_def find_None_iff)
  moreover have "find p (xs @ ys) = find p ys" if "find p xs = None" for p and xs ys :: "ScenarioJob list"
    using that by (induction xs) (auto split: if_splits)
  moreover have "find (\<lambda>j. job_key j = (ent_id run, iteration, c))
      (map (\<lambda>c. planned_job now run iteration overrides reps (fresh c) c) ids) =
      (if c \<in> set ids then Some (planned_job now run iteration overrides reps (fresh c) c) else None)"
    by (induction ids) auto
  ultimately show ?thesis by (simp add: t_def)
qed

lemma stored_new_iteration:
  assumes "new_iteration run iteration fresh ids db"
  shows "stored (qd_outcomes db) (run, iteration, c) = None"
  using assms by (auto simp: new_iteration_def stored_None list_all_iff outcome_key_def)

text \<open>The drain of a newly planned iteration: it returns, the barrier is clear, and the stored rows are
  the outcomes of the cases that were not given up.\<close>

context case_executor
begin

lemma drained_rows:
  fixes run :: RunJob and now :: timestamp
  assumes "new_iteration (ent_id run) iteration fresh ids db" "0 < wk_batch w"
    and "wk_run_job_id w = ent_id run" "wk_iteration w = iteration"
  shows "\<exists>db'. drain (Inr ()) execute fresh_outcome w
      (db\<lparr>qd_jobs := fst (plan_scenario_jobs (wk_now w) fresh run ids iteration overrides reps (qd_jobs db))\<rparr>) =
        Some (Inr (), db') \<and>
    in_flight (ent_id run) iteration (qd_jobs db') = 0 \<and>
    mset (scenario_outcomes_for_iteration (ent_id run) iteration (qd_outcomes db')) =
      mset (map case_outcome_to_fields
        (List.map_filter (settled_outcome execute w run iteration overrides reps fresh) ids))"
proof -
  define planned where "planned = map (\<lambda>c. planned_job (wk_now w) run iteration overrides reps (fresh c) c) ids"
  define db1 where "db1 = db\<lparr>qd_jobs := qd_jobs db @ planned\<rparr>"
  have plan: "fst (plan_scenario_jobs (wk_now w) fresh run ids iteration overrides reps (qd_jobs db)) =
      qd_jobs db @ planned" "jobs_ok (qd_jobs db @ planned)"
    using plan_fresh [OF assms(1)] by (simp_all add: planned_def)
  have "hand_ok w [] db1"
    using plan(2) assms(1) by (simp add: hand_ok_def db1_def new_iteration_def)
  from drain_settles [OF this assms(2)] obtain db' where
    d: "drain (Inr ()) execute fresh_outcome w db1 = Some (Inr (), db')" "hand_ok w [] db'"
      "qd_jobs db' = settled_jobs execute w {} (qd_jobs db1)"
      "stored (qd_outcomes db') = expected execute w {} db1" by blast
  let ?out = "settled_outcome execute w run iteration overrides reps fresh"
  let ?g = "\<lambda>c. if c \<in> set ids then map_option case_outcome_to_fields (?out c) else None"
  have "stored (qd_outcomes db') (ent_id run, iteration, c) = ?g c" for c
    using find_planned [OF assms(1)] stored_new_iteration [OF assms(1)] assms(3,4)
    unfolding d(4) expected_def db1_def planned_def
    by (auto simp: settled_row_def settled_outcome_def split: option.splits)
  moreover have "outcomes_ok (qd_outcomes db')" using d(2) by (simp add: hand_ok_def)
  ultimately have "mset (scenario_outcomes_for_iteration (ent_id run) iteration (qd_outcomes db')) =
      mset (List.map_filter ?g ids)"
    using assms(1) by (intro iteration_rows_mset) (auto simp: new_iteration_def split: if_splits)
  also have "List.map_filter ?g ids = map case_outcome_to_fields (List.map_filter ?out ids)"
    unfolding map_filter_map_option [symmetric] by (rule map_filter_cong) simp
  finally have rows: "mset (scenario_outcomes_for_iteration (ent_id run) iteration (qd_outcomes db')) =
      mset (map case_outcome_to_fields (List.map_filter ?out ids))" .
  have "in_flight (ent_id run) iteration (qd_jobs db') = 0"
    unfolding in_flight_zero
  proof (intro ballI impI)
    fix j assume j: "j \<in> set (qd_jobs db')" "in_iteration (ent_id run) iteration j"
    then obtain r where r: "r \<in> set (qd_jobs db1)" "j = fst (settled_row execute w {} r)"
      unfolding d(3) settled_jobs_def by auto
    have f: "frontier (ent_id run) iteration r"
    proof (rule ccontr)
      assume n: "\<not> frontier (ent_id run) iteration r"
      then have "j = r" using r(2) assms(3,4) by (simp add: settled_row_def)
      with j(2) r(1) n show False
        using assms(1) by (auto simp: db1_def planned_def new_iteration_def list_all_iff)
    qed
    then have "sj_status j \<in> {ScenarioJobStatus.SUCCEEDED, ScenarioJobStatus.DEAD_LETTERED}"
      using r(2) assms(3,4) by (simp add: settled_row_def settle_def resolve_terminal [THEN conjunct1, simplified])
    then show "sj_status j \<notin> {ScenarioJobStatus.PENDING, ScenarioJobStatus.CLAIMED, ScenarioJobStatus.RUNNING}"
      by auto
  qed
  with d(1) rows plan(1) show ?thesis unfolding db1_def by auto
qed

text \<open>The sharded iteration returns; when the outcomes of the cases that were not given up aggregate, it
  reports the metrics of that aggregate.\<close>

lemma sharded_iteration:
  fixes run :: RunJob and l :: "'s OptimizationLoop" and p :: Proposal and reps :: nat
  assumes "new_iteration (ent_id run) iteration fresh (map ent_id (ol_cases l)) db" "0 < wk_batch w"
  defines "e \<equiv> ol_experiment l"
  defines "outs \<equiv> List.map_filter (settled_outcome execute (w\<lparr>wk_run_job_id := ent_id run, wk_iteration := iteration\<rparr>)
      run iteration (pp_parameters p) reps fresh) (map ent_id (ol_cases l))"
  assumes "aggregate_iteration outs (mt_name (target_primary (exp_target e)))
      (rel_metrics (exp_reliability e)) (target_primary_grader (exp_target e)) = Inr a"
  shows "\<exists>ex db'. run_iteration_sharded fresh_outcome fresh (Inr ()) execute run w reps l p iteration db =
      Some (Inr ex, db') \<and> same_metrics a (ie_aggregate ex)"
proof -
  let ?w = "w\<lparr>wk_run_job_id := ent_id run, wk_iteration := iteration\<rparr>"
  obtain db' where d: "drain (Inr ()) execute fresh_outcome ?w
      (db\<lparr>qd_jobs := fst (plan_scenario_jobs (wk_now w) fresh run (map ent_id (ol_cases l)) iteration
        (pp_parameters p) reps (qd_jobs db))\<rparr>) = Some (Inr (), db')"
    and c: "in_flight (ent_id run) iteration (qd_jobs db') = 0"
    and m: "mset (scenario_outcomes_for_iteration (ent_id run) iteration (qd_outcomes db')) =
      mset (map case_outcome_to_fields outs)"
    using drained_rows [OF assms(1), of ?w fresh_outcome "pp_parameters p" reps] assms(2)
    unfolding outs_def by auto
  obtain b where "aggregate_iteration_from_storage
      (scenario_outcomes_for_iteration (ent_id run) iteration (qd_outcomes db'))
      (mt_name (target_primary (exp_target e))) (rel_metrics (exp_reliability e))
      (target_primary_grader (exp_target e)) = Inr b" "same_metrics a b"
    using sharded_equals_in_process [OF m assms(5)] by blast
  with d await_clear [OF c] show ?thesis
    by (simp add: run_iteration_sharded_def Let_def e_def)
qed

end

subsection \<open>The same iteration in process\<close>

lemma in_process_outcomes:
  assumes "run_iteration_in_process l rc p iteration = Inr ex"
  obtains outs where
    "list_all2 (\<lambda>c o'. \<exists>cr traces. run_scenario l (rc (pp_parameters p) iteration) c = Inr (cr, o', traces))
       (ol_cases l) outs"
    "aggregate_iteration outs (mt_name (target_primary (exp_target (ol_experiment l))))
       (rel_metrics (exp_reliability (ol_experiment l)))
       (target_primary_grader (exp_target (ol_experiment l))) = Inr (ie_aggregate ex)"
proof -
  obtain results outs a where
    r: "map_result (\<lambda>c. execute_and_grade_case (rc (pp_parameters p) iteration) (ol_graders l) c) (ol_cases l) = Inr results"
    and o': "map_result (\<lambda>(c, res). case_outcome c res) (zip (ol_cases l) results) = Inr outs"
    and a: "aggregate_iteration outs (mt_name (target_primary (exp_target (ol_experiment l))))
       (rel_metrics (exp_reliability (ol_experiment l)))
       (target_primary_grader (exp_target (ol_experiment l))) = Inr a"
    and ex: "ie_aggregate ex = a"
    using assms by (auto simp: run_iteration_in_process_def bind_result_Inr_iff Let_def)
  have 1: "list_all2 (\<lambda>c res. execute_and_grade_case (rc (pp_parameters p) iteration) (ol_graders l) c = Inr res)
      (ol_cases l) results"
    using map_result_InrD [OF r] .
  have 2: "list_all2 (\<lambda>x o'. (\<lambda>(c, res). case_outcome c res) x = Inr o') (zip (ol_cases l) results) outs"
    using map_result_InrD [OF o'] .
  have "list_all2 (\<lambda>c o'. \<exists>cr traces. run_scenario l (rc (pp_parameters p) iteration) c = Inr (cr, o', traces))
      (ol_cases l) outs"
    using 1 2 by (auto simp: list_all2_conv_all_nth run_scenario_def)
  with a ex that show thesis by blast
qed

text \<open>The worker's job of a case whose run succeeds is settled at its first attempt.\<close>

lemma settled_by_run_scenario:
  assumes "get_entity sc i cases = Inr c"
    and "run_scenario l (rc overrides iteration) c = Inr (cr, outcome, traces)"
  shows "settled_outcome (loop_executor l rc sc cases) w run iteration overrides reps fresh i = Some outcome"
proof -
  let ?j = "claimed_row (wk_worker_id w) (wk_lease_until w)
    (planned_job (wk_now w) run iteration overrides reps (fresh i) i)"
  have "sj_parameter_overrides ?j = overrides" "sj_iteration ?j = iteration" "sj_case_id ?j = i"
    by (simp_all add: claimed_row_def planned_job_def)
  with assms have "loop_executor l rc sc cases ?j = Inr (outcome, traces)"
    by (simp add: loop_executor_def)
  then show ?thesis by (simp add: settled_outcome_def settle_def resolve.simps)
qed

lemma sharded_like_in_process:
  fixes run :: RunJob and l :: "'s OptimizationLoop"
  assumes "run_iteration_in_process l rc p iteration = Inr ex"
    and "new_iteration (ent_id run) iteration fresh (map ent_id (ol_cases l)) db" "0 < wk_batch w"
    and "list_all (\<lambda>c. get_entity sc (ent_id c) cases = Inr c) (ol_cases l)"
  shows "\<exists>ex' db'. run_iteration_sharded fresh_outcome fresh (Inr ()) (loop_executor l rc sc cases) run w reps
      l p iteration db = Some (Inr ex', db') \<and> same_metrics (ie_aggregate ex) (ie_aggregate ex')"
proof -
  let ?w = "w\<lparr>wk_run_job_id := ent_id run, wk_iteration := iteration\<rparr>"
  obtain outs where o': "list_all2 (\<lambda>c o'. \<exists>cr traces.
        run_scenario l (rc (pp_parameters p) iteration) c = Inr (cr, o', traces)) (ol_cases l) outs"
    and a: "aggregate_iteration outs (mt_name (target_primary (exp_target (ol_experiment l))))
       (rel_metrics (exp_reliability (ol_experiment l)))
       (target_primary_grader (exp_target (ol_experiment l))) = Inr (ie_aggregate ex)"
    by (rule in_process_outcomes [OF assms(1)]) (rule that)
  have "List.map_filter (settled_outcome (loop_executor l rc sc cases) ?w run iteration (pp_parameters p) reps fresh)
      (map ent_id (ol_cases l)) = outs"
    using o' assms(4)
  proof (induction rule: list_all2_induct)
    case (Cons c cs o' os)
    then show ?case by (auto simp: List.map_filter_simps settled_by_run_scenario)
  qed (simp add: List.map_filter_simps)
  with worker.sharded_iteration [OF assms(2,3), of l rc sc cases p reps] a show ?thesis by simp
qed

end
