(* ===== verification/Scenario_Workers.thy ===== *)
theory Scenario_Workers
  imports Coordinator_Facts
begin

section \<open>Many workers on one queue\<close>

text \<open>
  Several workers drain the same table.  A claim is one transaction, so a step is a whole claim or
  the end of one job; between steps each worker holds the jobs it has claimed and not yet
  finished, and may die with them.  Invariant: a job is in the hands of at most one worker, and is
  marked claimed in the table.  The other side of it: a job whose worker died stays claimed, as
  nothing in the program gives up the lease of a scenario job, and the barrier stays closed.
\<close>

type_synonym worker_state = "ScenarioJob list \<times> (string \<Rightarrow> ScenarioJob list)"

text \<open>The status a job ends an attempt with.\<close>

definition attempt_status :: "ScenarioJob \<Rightarrow> bool \<Rightarrow> ScenarioJobStatus" where
  "attempt_status c success =
     (if success then ScenarioJobStatus.SUCCEEDED
      else sj_status (fst (mark_scenario_failed_or_dead_lettered no_text 0 c)))"

inductive worker_step :: "worker_state \<Rightarrow> worker_state \<Rightarrow> bool" where
  claim: "hands v = [] \<Longrightarrow> claim_scenario_jobs [] run iteration v until batch t = (claimed, t') \<Longrightarrow>
      worker_step (t, hands) (t', hands(v := claimed))"
| finish: "hands v = c # cs \<Longrightarrow>
      worker_step (t, hands)
        (finalize_scenario_job (ent_id c) (attempt_status c success) err tm t, hands(v := cs))"
| crash: "worker_step (t, hands) (t, hands(v := []))"

inductive_cases worker_stepE: "worker_step s s'"

definition held :: "(string \<Rightarrow> ScenarioJob list) \<Rightarrow> string \<Rightarrow> string set" where
  "held hands v = ent_id ` set (hands v)"

definition marked_claimed :: "ScenarioJob list \<Rightarrow> string \<Rightarrow> bool" where
  "marked_claimed t i \<longleftrightarrow> (\<exists>r \<in> set t. ent_id r = i \<and> sj_status r = ScenarioJobStatus.CLAIMED)"

definition workers_ok :: "worker_state \<Rightarrow> bool" where
  "workers_ok s = (case s of (t, hands) \<Rightarrow>
     distinct (map ent_id t) \<and>
     (\<forall>v. distinct (map ent_id (hands v)) \<and> (\<forall>i \<in> held hands v. marked_claimed t i)) \<and>
     (\<forall>u v. u \<noteq> v \<longrightarrow> held hands u \<inter> held hands v = {}))"

text \<open>A claim takes pending rows only, whatever the table.\<close>

lemma claim_general:
  assumes "distinct (map ent_id t)" "claim_scenario_jobs [] run iteration v until batch t = (claimed, t')"
  defines "ids \<equiv> set (claimable_ids [] run iteration batch t)"
  shows "t' = map (\<lambda>j. if ent_id j \<in> ids then claimed_row v until j else j) t"
    and "ent_id ` set claimed \<subseteq> ids" "distinct (map ent_id claimed)"
    and "\<And>j. j \<in> set t \<Longrightarrow> ent_id j \<in> ids \<Longrightarrow> sj_status j = ScenarioJobStatus.PENDING"
    and "\<And>i. i \<in> ent_id ` set claimed \<Longrightarrow> marked_claimed t' i"
proof -
  show t': "t' = map (\<lambda>j. if ent_id j \<in> ids then claimed_row v until j else j) t"
    and sub: "ent_id ` set claimed \<subseteq> ids"
    using assms(2) by (auto simp: claim_scenario_jobs_def Let_def ids_def)
  have c: "claimed = map (claimed_row v until) (filter (\<lambda>j. ent_id j \<in> ids) t)"
    using assms(2) by (auto simp: claim_scenario_jobs_def Let_def ids_def)
  then show "distinct (map ent_id claimed)"
    using assms(1) by (simp add: comp_def distinct_map_filter)
  show "sj_status j = ScenarioJobStatus.PENDING" if j: "j \<in> set t" "ent_id j \<in> ids" for j
  proof -
    obtain k where "k \<in> set t" "ent_id k = ent_id j" "frontier run iteration k"
      using j(2) claimable_ids_subset [of "[]" run iteration batch t] unfolding ids_def by auto
    moreover from this j(1) assms(1) have "k = j" by (auto simp: distinct_map dest: inj_onD)
    ultimately show ?thesis by (simp add: frontier_def)
  qed
  show "marked_claimed t' i" if "i \<in> ent_id ` set claimed" for i
    using that unfolding c t' marked_claimed_def by (auto intro!: bexI)
qed

lemma finalized_ids: "map ent_id (finalize_scenario_job i st err tm t) = map ent_id t"
  by (simp add: finalize_scenario_job_def comp_def if_distrib cong: if_cong)

lemma finalized_other:
  "k \<noteq> i \<Longrightarrow> marked_claimed (finalize_scenario_job i st err tm t) k = marked_claimed t k"
  by (auto simp: marked_claimed_def finalize_scenario_job_def)

lemma worker_step_ok:
  assumes "worker_step s s'" "workers_ok s"
  shows "workers_ok s'"
  using assms
proof (induction rule: worker_step.induct)
  case (claim hands v run iteration until batch t claimed t')
  have d: "distinct (map ent_id t)" and h: "\<And>u. \<forall>i \<in> held hands u. marked_claimed t i"
    and dis: "\<And>u u'. u \<noteq> u' \<Longrightarrow> held hands u \<inter> held hands u' = {}"
    and dh: "\<And>u. distinct (map ent_id (hands u))"
    using claim.prems by (auto simp: workers_ok_def)
  note cl = claim_general [OF d claim.hyps(2)]
  have same: "marked_claimed t' i" if m: "marked_claimed t i" for i
  proof -
    obtain r where r: "r \<in> set t" "ent_id r = i" "sj_status r = ScenarioJobStatus.CLAIMED"
      using m by (auto simp: marked_claimed_def)
    let ?r = "if ent_id r \<in> set (claimable_ids [] run iteration batch t) then claimed_row v until r else r"
    have "?r \<in> set t'" unfolding cl(1) set_map using r(1) by (rule imageI)
    moreover have "ent_id ?r = i" "sj_status ?r = ScenarioJobStatus.CLAIMED" using r by simp_all
    ultimately show ?thesis by (auto simp: marked_claimed_def)
  qed
  have new: "i \<notin> held hands u" if "i \<in> ent_id ` set claimed" for i u
  proof
    assume "i \<in> held hands u"
    with h obtain r where r: "r \<in> set t" "ent_id r = i" "sj_status r = ScenarioJobStatus.CLAIMED"
      by (auto simp: marked_claimed_def)
    have "i \<in> set (claimable_ids [] run iteration batch t)" using that cl(2) by blast
    then have "sj_status r = ScenarioJobStatus.PENDING" using cl(4) [OF r(1)] r(2) by simp
    with r(3) show False by simp
  qed
  have "held (hands(v := claimed)) u = (if u = v then ent_id ` set claimed else held hands u)" for u
    by (simp add: held_def)
  moreover have "distinct (map ent_id t')"
    using d unfolding cl(1) by (simp add: comp_def if_distrib cong: if_cong)
  ultimately show ?case
    using dh cl(3,5) h same new dis by (auto simp: workers_ok_def)
next
  case (finish hands v c cs t success err tm)
  have d: "distinct (map ent_id t)" and h: "\<And>u. \<forall>i \<in> held hands u. marked_claimed t i"
    and dis: "\<And>u u'. u \<noteq> u' \<Longrightarrow> held hands u \<inter> held hands u' = {}"
    and dh: "\<And>u. distinct (map ent_id (hands u))"
    using finish.prems by (auto simp: workers_ok_def)
  let ?hands = "hands(v := cs)"
  have sub: "held ?hands u \<subseteq> held hands u" for u using finish.hyps by (auto simp: held_def)
  have "ent_id c \<notin> held ?hands u" for u
  proof (cases "u = v")
    case True
    with dh [of v] finish.hyps show ?thesis by (simp add: held_def)
  next
    case False
    have "ent_id c \<in> held hands v" using finish.hyps by (simp add: held_def)
    with dis [OF False] False show ?thesis by (auto simp: held_def)
  qed
  then have "marked_claimed (finalize_scenario_job (ent_id c) st err tm t) i" if "i \<in> held ?hands u" for i u st
    using that sub h finalized_other [of i "ent_id c"] by (metis subsetD)
  moreover have "distinct (map ent_id (?hands u))" for u using dh [of v] dh [of u] finish.hyps by simp
  moreover have "held ?hands u \<inter> held ?hands u' = {}" if "u \<noteq> u'" for u u'
    using dis [OF that] sub by blast
  ultimately show ?case using d by (simp add: workers_ok_def finalized_ids)
next
  case (crash t hands v)
  then show ?case by (auto simp: workers_ok_def held_def)
qed

lemma reachable_ok: "worker_step\<^sup>*\<^sup>* s s' \<Longrightarrow> workers_ok s \<Longrightarrow> workers_ok s'"
  by (induction rule: rtranclp_induct) (auto intro: worker_step_ok)

subsection \<open>Jobs nobody holds\<close>

definition orphaned :: "string \<Rightarrow> worker_state \<Rightarrow> bool" where
  "orphaned i s = (case s of (t, hands) \<Rightarrow> marked_claimed t i \<and> (\<forall>v. i \<notin> held hands v))"

lemma orphaned_step:
  assumes "worker_step s s'" "workers_ok s" "orphaned i s"
  shows "orphaned i s'"
  using assms
proof (induction rule: worker_step.induct)
  case (claim hands v run iteration until batch t claimed t')
  have d: "distinct (map ent_id t)" using claim.prems by (simp add: workers_ok_def)
  obtain r where r: "r \<in> set t" "ent_id r = i" "sj_status r = ScenarioJobStatus.CLAIMED"
    using claim.prems by (auto simp: orphaned_def marked_claimed_def)
  note cl = claim_general [OF d claim.hyps(2)]
  have n: "i \<notin> set (claimable_ids [] run iteration batch t)" using cl(4) [OF r(1)] r(2,3) by auto
  then have "i \<notin> ent_id ` set claimed" using cl(2) by blast
  moreover have "marked_claimed t' i"
    using r n unfolding cl(1) marked_claimed_def by (auto intro!: bexI [of _ r])
  ultimately show ?case using claim.prems by (simp add: orphaned_def held_def)
next
  case (finish hands v c cs t success err tm)
  have "ent_id c \<in> held hands v" using finish.hyps by (simp add: held_def)
  with finish.prems(2) have "ent_id c \<noteq> i" by (auto simp: orphaned_def)
  moreover have "held (hands(v := cs)) u \<subseteq> held hands u" for u using finish.hyps by (auto simp: held_def)
  ultimately show ?case
    using finish.prems(2) by (auto simp: orphaned_def finalized_other dest: subsetD)
next
  case (crash t hands v)
  then show ?case by (simp add: orphaned_def held_def)
qed

lemma orphaned_forever:
  "worker_step\<^sup>*\<^sup>* s s' \<Longrightarrow> workers_ok s \<Longrightarrow> orphaned i s \<Longrightarrow> orphaned i s'"
  by (induction rule: rtranclp_induct) (auto intro: orphaned_step reachable_ok)

text \<open>Steps never move a row to another iteration.\<close>

definition row_keys :: "ScenarioJob list \<Rightarrow> (string \<times> string \<times> nat \<times> string) list" where
  "row_keys t = map (\<lambda>j. (ent_id j, job_key j)) t"

lemma worker_step_keys: "worker_step s s' \<Longrightarrow> row_keys (fst s') = row_keys (fst s)"
proof (induction rule: worker_step.induct)
  case (claim hands v run iteration until batch t claimed t')
  then show ?case by (auto simp: claim_scenario_jobs_def Let_def row_keys_def)
next
  case (finish hands v c cs t success err tm)
  then show ?case by (auto simp: finalize_scenario_job_def row_keys_def)
qed simp

lemma reachable_keys: "worker_step\<^sup>*\<^sup>* s s' \<Longrightarrow> row_keys (fst s') = row_keys (fst s)"
  by (induction rule: rtranclp_induct) (auto dest: worker_step_keys)

lemma in_iteration_of_keys:
  assumes "row_keys t' = row_keys t" "r \<in> set t" "in_iteration run iteration r"
    and "r' \<in> set t'" "ent_id r' = ent_id r" "distinct (map ent_id t)"
  shows "in_iteration run iteration r'"
proof -
  have "(ent_id r', job_key r') \<in> set (row_keys t)"
    using assms(4) unfolding assms(1) [symmetric] by (auto simp: row_keys_def)
  then obtain q where "q \<in> set t" "ent_id q = ent_id r'" "job_key q = job_key r'"
    by (auto simp: row_keys_def)
  moreover from this have "q = r" using assms(2,5,6) by (auto simp: distinct_map dest: inj_onD)
  ultimately show ?thesis using assms(3) by (simp add: job_key_def in_iteration_def)
qed

lemma orphan_in_flight:
  assumes "worker_step\<^sup>*\<^sup>* s s'" "workers_ok s" "orphaned i s"
    and "r \<in> set (fst s)" "ent_id r = i" "in_iteration run iteration r"
  shows "in_flight run iteration (fst s') \<noteq> 0"
proof -
  have "orphaned i s'" using assms(1-3) by (rule orphaned_forever)
  then obtain r' where r': "r' \<in> set (fst s')" "ent_id r' = i" "sj_status r' = ScenarioJobStatus.CLAIMED"
    by (auto simp: orphaned_def marked_claimed_def split: prod.splits)
  have "distinct (map ent_id (fst s))" using assms(2) by (auto simp: workers_ok_def split: prod.splits)
  then have "in_iteration run iteration r'"
    using in_iteration_of_keys [OF reachable_keys [OF assms(1)] assms(4,6) r'(1)] r'(2) assms(5) by simp
  with r' show ?thesis by (auto simp: in_flight_zero simp del: neq0_conv)
qed

end
