(* ===== verification/Shard_Properties.thy ===== *)
theory Shard_Properties
  imports Loop_Properties Run_Jobs_Facts Scenario_Workers
begin

section \<open>Properties of durable, sharded runs\<close>

text \<open>
  Workspaces are isolated; a lease is exclusive while it lasts; a drained iteration ends, with
  the metrics of the in-process one; no job is run by two workers at once.  And two behaviours the
  code does not mean to have: a failed run is never retried, and a job whose worker died keeps the
  barrier closed until the coordinator times out.
\<close>

subsection \<open>Workspaces and leases\<close>

text \<open>C10. Whatever entities the scopes of other workspaces put or delete, and in whatever order, what a
  workspace can load is unchanged.\<close>

theorem workspace_isolation:
  assumes "table_ok t" "ws \<notin> op_workspace ` set ops"
  shows "load_row (exec_ops ops t) ws = load_row t ws \<and> table_ok (exec_ops ops t)"
  using pg.writes_frame [OF assms] pg.writes_ok [OF assms(1)] by (simp add: exec_ops_def)

definition sample_job :: "string \<Rightarrow> string \<Rightarrow> RunJob" where
  "sample_job i ws = \<lparr>ent_id = i, workspace_id = ws, version = 1, created_at = 0, updated_at = 0,
     deleted_at = None, rj_experiment_id = ''exp_1'', rj_status = RunJobStatus.QUEUED, rj_attempt = 0,
     rj_max_attempts = 3, rj_lease_owner = None, rj_lease_expires_at = None,
     rj_cancel_requested_at = None, rj_started_at = None, rj_finished_at = None, rj_last_error = None,
     rj_spec_payload = [], rj_reps = 1\<rparr>"

theorem workspace_isolation_witness:
  "load_row (exec_ops [PutOp ''ws_2'' (sample_job ''job_1'' ''ws_2''), DeleteOp ''ws_2'' ''job_1'',
       PutOp ''ws_2'' (sample_job ''job_2'' ''ws_2'')] [sample_job ''job_1'' ''ws_1'']) ''ws_1'' ''job_1'' =
     Some (sample_job ''job_1'' ''ws_1'')"
  using workspace_isolation [of "[sample_job ''job_1'' ''ws_1'']" "''ws_1''"
      "[PutOp ''ws_2'' (sample_job ''job_1'' ''ws_2''), DeleteOp ''ws_2'' ''job_1'',
       PutOp ''ws_2'' (sample_job ''job_2'' ''ws_2'')]"]
  by (simp add: table_ok_def load_row_def sample_job_def)


definition sample_db :: RunDb where
  "sample_db = \<lparr>rd_jobs = [sample_job ''job_1'' ''ws_1''], rd_experiments = [sample_experiment]\<rparr>"

lemma sample_lease:
  "lease_run_job 100 300 ''ws_1'' ''job_1'' ''a'' sample_db =
     (Inr (Some (mark_leased ''a'' 400 ((sample_job ''job_1'' ''ws_1'')\<lparr>rj_attempt := 1\<rparr>))),
      sample_db\<lparr>rd_jobs := [mark_leased ''a'' 400 ((sample_job ''job_1'' ''ws_1'')\<lparr>rj_attempt := 1\<rparr>)]\<rparr>)"
  by code_simp

lemma sample_db_ok: "table_ok (rd_jobs sample_db)"
  by (simp add: table_ok_def sample_db_def)


text \<open>A run job that failed and was announced as retryable is never run again: every later
  execution of it finds it terminal and does nothing, whoever asks and whenever.\<close>

theorem failed_run_never_retried:
  assumes "table_ok (rd_jobs db)" "mark_run_job_failed now j err db = (Inr (j', True), db')"
  shows "execute_run_job load_spec run_loop ck secs queue (workspace_id j) (ent_id j) owner db' =
    (Inr (False, []), db')"
  using failed_run_not_leased [OF assms] by (simp add: execute_run_job_def bind_exec_def)

theorem failed_run_never_retried_witness:
  "\<exists>j' db'. mark_run_job_failed 200 ((sample_job ''job_1'' ''ws_1'')\<lparr>rj_attempt := 1\<rparr>) ''boom'' sample_db =
       (Inr (j', True), db') \<and> rj_attempt j' < rj_max_attempts j' \<and>
     execute_run_job (\<lambda>_. Inr ()) (\<lambda>_ _ db. (Inr (), db)) \<lparr>ck_lease = 300, ck_start = 301, ck_end = 302\<rparr> 300 True
       ''ws_1'' ''job_1'' ''b'' db' = (Inr (False, []), db')"
proof -
  let ?j = "(sample_job ''job_1'' ''ws_1'')\<lparr>rj_attempt := 1\<rparr>"
  let ?j' = "fst (mark_failed_or_dead_lettered ''boom'' 200 ?j)"
  have f: "mark_run_job_failed 200 ?j ''boom'' sample_db = (Inr (?j', True), sample_db\<lparr>rd_jobs := [?j']\<rparr>)"
    by code_simp
  have "workspace_id ?j = ''ws_1''" "ent_id ?j = ''job_1''" "rj_attempt ?j' < rj_max_attempts ?j'"
    by (simp_all add: sample_job_def mark_failed_or_dead_lettered_def Let_def)
  with f failed_run_never_retried [OF sample_db_ok f] show ?thesis by metis
qed

subsection \<open>Draining an iteration\<close>


definition sample_worker :: Worker where
  "sample_worker = \<lparr>wk_run_job_id = ''job_1'', wk_iteration = 0, wk_worker_id = ''a'', wk_lease_until = 400,
     wk_batch = 4, wk_now = 100\<rparr>"

definition planned_db :: QueueDb where
  "planned_db = \<lparr>qd_jobs = [planned_job 100 (sample_job ''job_1'' ''ws_1'') 0 [] 1 ''scj_1'' ''ec_9''],
     qd_outcomes = [], qd_traces = []\<rparr>"


text \<open>C6. A sharded iteration that starts from nothing reports the metrics of the in-process iteration,
  whenever that one runs and the workers find the loop's cases in the store.\<close>

theorem sharded_iteration_like_in_process:
  assumes "run_iteration_in_process l rc p iteration = Inr ex"
    and "new_iteration (ent_id run) iteration fresh (map ent_id (ol_cases l)) db" "0 < wk_batch w"
    and "list_all (\<lambda>c. get_entity sc (ent_id c) cases = Inr c) (ol_cases l)"
  shows "\<exists>ex' db'. run_iteration_sharded fresh_outcome fresh (Inr ()) (loop_executor l rc sc cases) (run :: RunJob)
      w reps l p iteration db = Some (Inr ex', db') \<and> same_metrics (ie_aggregate ex) (ie_aggregate ex')"
  by (rule sharded_like_in_process [OF assms])

theorem sharded_iteration_like_in_process_witness:
  "\<exists>ex ex' db'. run_iteration_in_process sample_loop sample_run_case sample_proposal 0 = Inr ex \<and>
     run_iteration_sharded (\<lambda>_. ''sco_1'') id (Inr ())
       (loop_executor sample_loop sample_run_case \<lparr>sc_workspace_id = ''ws_1'', sc_closed = False\<rparr> (ol_cases sample_loop))
       (sample_job ''job_1'' ''ws_1'') sample_worker 1 sample_loop sample_proposal 0
       \<lparr>qd_jobs = [], qd_outcomes = [], qd_traces = []\<rparr> = Some (Inr ex', db') \<and>
     same_metrics (ie_aggregate ex) (ie_aggregate ex')"
proof -
  obtain ex where ex: "run_iteration_in_process sample_loop sample_run_case sample_proposal 0 = Inr ex"
    using sample_iteration_runs by blast
  have n: "new_iteration (ent_id (sample_job ''job_1'' ''ws_1'')) 0 id (map ent_id (ol_cases sample_loop))
      \<lparr>qd_jobs = [], qd_outcomes = [], qd_traces = []\<rparr>"
    by (simp add: new_iteration_def jobs_ok_def outcomes_ok_def sample_loop_def)
  have c: "list_all (\<lambda>c. get_entity \<lparr>sc_workspace_id = ''ws_1'', sc_closed = False\<rparr> (ent_id c) (ol_cases sample_loop) = Inr c)
      (ol_cases sample_loop)"
    by (simp add: get_entity_def guard_open_def load_row_def sample_loop_def sample_case_def)
  have b: "0 < wk_batch sample_worker" by (simp add: sample_worker_def)
  show ?thesis using sharded_iteration_like_in_process [OF ex n b c] ex by blast
qed

text \<open>C11. What a sharded iteration reports are the metrics of the cases that were not given up: a case
  whose attempts are used up is left out of the aggregate, and the iteration goes on.\<close>

theorem sharded_reports_survivors:
  fixes l :: "'s OptimizationLoop" and rc :: "json dict \<Rightarrow> nat \<Rightarrow> EvalCase \<Rightarrow> CaseRun result"
    and sc :: WorkspaceScope and cases :: "EvalCase list" and p :: Proposal and reps :: nat and run :: RunJob
  assumes "new_iteration (ent_id run) iteration fresh (map ent_id (ol_cases l)) db" "0 < wk_batch w"
  defines "ex \<equiv> loop_executor l rc sc cases"
    and "target \<equiv> exp_target (ol_experiment l)"
    and "survivors \<equiv> List.map_filter (settled_outcome (loop_executor l rc sc cases)
       (w\<lparr>wk_run_job_id := ent_id run, wk_iteration := iteration\<rparr>) run iteration (pp_parameters p) reps fresh)
       (map ent_id (ol_cases l))"
  assumes "aggregate_iteration survivors (mt_name (target_primary target))
      (rel_metrics (exp_reliability (ol_experiment l))) (target_primary_grader target) = Inr a"
  shows "\<exists>e db'. run_iteration_sharded fresh_outcome fresh (Inr ()) ex (run :: RunJob) w reps l p iteration db =
      Some (Inr e, db') \<and> same_metrics a (ie_aggregate e)"
  unfolding ex_def
  by (rule worker.sharded_iteration [OF assms(1,2)]) (use assms(6) in \<open>simp add: survivors_def target_def\<close>)

text \<open>A loop over two cases, the second of which never runs.\<close>

definition failing_loop :: "GridProposer OptimizationLoop" where
  "failing_loop = sample_loop\<lparr>ol_cases := [sample_case ''ec_1'' False, sample_case ''ec_2'' False]\<rparr>"

definition failing_run_case :: "json dict \<Rightarrow> nat \<Rightarrow> EvalCase \<Rightarrow> CaseRun result" where
  "failing_run_case ps i c = (if ent_id c = ''ec_2'' then Inl RuntimeError else Inr (sample_run None))"

definition failing_executor :: executor where
  "failing_executor = loop_executor failing_loop failing_run_case
     \<lparr>sc_workspace_id = ''ws_1'', sc_closed = False\<rparr> (ol_cases failing_loop)"

text \<open>In process the failing case stops the iteration; sharded, it disappears from the case count.\<close>

lemma in_process_stops:
  "run_iteration_in_process failing_loop failing_run_case sample_proposal 0 = Inl RuntimeError"
  by code_simp

lemma sharded_goes_on:
  "map_option (\<lambda>(r, _). bind_result r (\<lambda>e. Inr (ia_case_count (ie_aggregate e))))
     (run_iteration_sharded (\<lambda>_. ''sco_1'') id (Inr ()) failing_executor (sample_job ''job_1'' ''ws_1'')
       sample_worker 1 failing_loop sample_proposal 0 \<lparr>qd_jobs = [], qd_outcomes = [], qd_traces = []\<rparr>) =
   Some (Inr 1)"
  by code_simp

lemma failing_survivors:
  "bind_result (aggregate_iteration (List.map_filter (settled_outcome failing_executor
       (sample_worker\<lparr>wk_run_job_id := ent_id (sample_job ''job_1'' ''ws_1''), wk_iteration := 0\<rparr>)
       (sample_job ''job_1'' ''ws_1'') 0 (pp_parameters sample_proposal) 1 id) (map ent_id (ol_cases failing_loop)))
     (mt_name (target_primary (exp_target (ol_experiment failing_loop))))
     (rel_metrics (exp_reliability (ol_experiment failing_loop)))
     (target_primary_grader (exp_target (ol_experiment failing_loop)))) (\<lambda>a. Inr (ia_case_count a)) = Inr 1"
  by code_simp

theorem sharded_reports_survivors_witness:
  "\<exists>a e db'. ia_case_count a = 1 \<and>
     run_iteration_sharded (\<lambda>_. ''sco_1'') id (Inr ()) failing_executor (sample_job ''job_1'' ''ws_1'')
       sample_worker 1 failing_loop sample_proposal 0 \<lparr>qd_jobs = [], qd_outcomes = [], qd_traces = []\<rparr> =
       Some (Inr e, db') \<and> same_metrics a (ie_aggregate e)"
proof -
  have n: "new_iteration (ent_id (sample_job ''job_1'' ''ws_1'')) 0 id (map ent_id (ol_cases failing_loop))
      \<lparr>qd_jobs = [], qd_outcomes = [], qd_traces = []\<rparr>"
    by (simp add: new_iteration_def jobs_ok_def outcomes_ok_def failing_loop_def sample_case_def)
  have b: "0 < wk_batch sample_worker" by (simp add: sample_worker_def)
  obtain a where "aggregate_iteration (List.map_filter (settled_outcome failing_executor
       (sample_worker\<lparr>wk_run_job_id := ent_id (sample_job ''job_1'' ''ws_1''), wk_iteration := 0\<rparr>)
       (sample_job ''job_1'' ''ws_1'') 0 (pp_parameters sample_proposal) 1 id) (map ent_id (ol_cases failing_loop)))
     (mt_name (target_primary (exp_target (ol_experiment failing_loop))))
     (rel_metrics (exp_reliability (ol_experiment failing_loop)))
     (target_primary_grader (exp_target (ol_experiment failing_loop))) = Inr a" "ia_case_count a = 1"
    using failing_survivors by (auto simp: bind_result_Inr_iff)
  with sharded_reports_survivors [OF n b, of failing_run_case
      "\<lparr>sc_workspace_id = ''ws_1'', sc_closed = False\<rparr>" "ol_cases failing_loop" sample_proposal 1 a "\<lambda>_. ''sco_1''"]
  show ?thesis unfolding failing_executor_def by blast
qed

subsection \<open>Workers side by side\<close>

text \<open>C8. Starting from workers that hold nothing, any interleaving of claims, ends of jobs and crashes of
  any number of workers leaves no job in the hands of two of them, and what a worker holds is
  marked claimed.\<close>

theorem no_double_claim:
  assumes "worker_step\<^sup>*\<^sup>* (t, \<lambda>_. []) (t', hands)" "distinct (map ent_id t)" "u \<noteq> v"
  shows "held hands u \<inter> held hands v = {} \<and> held hands u \<subseteq> {i. marked_claimed t' i}"
proof -
  have "workers_ok (t, \<lambda>_. [])" using assms(2) by (simp add: workers_ok_def held_def)
  with reachable_ok [OF assms(1)] assms(3) show ?thesis by (auto simp: workers_ok_def)
qed

text \<open>One worker claims the only job of an iteration.\<close>

definition one_claimed :: worker_state where
  "one_claimed = ([claimed_row ''a'' 400 (planned_job 100 (sample_job ''job_1'' ''ws_1'') 0 [] 1 ''scj_1'' ''ec_9'')],
     (\<lambda>_. [])(''a'' := [claimed_row ''a'' 400 (planned_job 100 (sample_job ''job_1'' ''ws_1'') 0 [] 1 ''scj_1'' ''ec_9'')]))"

lemma one_claimed_reached: "worker_step (qd_jobs planned_db, \<lambda>_. []) one_claimed"
  unfolding one_claimed_def
  by (rule claim [where run = "''job_1''" and iteration = 0 and batch = 4 and until = 400]) (simp, code_simp)

theorem no_double_claim_witness:
  "held (snd one_claimed) ''a'' = {''scj_1''} \<and> held (snd one_claimed) ''a'' \<inter> held (snd one_claimed) ''b'' = {}"
  using no_double_claim [of "qd_jobs planned_db" "fst one_claimed" "snd one_claimed" "''a''" "''b''"]
    one_claimed_reached
  by (simp add: planned_db_def one_claimed_def held_def)

text \<open>A claimed job that no worker holds any more (its worker died) stays claimed whatever the workers
  do, so the barrier of its iteration never opens and the coordinator ends in its timeout.\<close>

theorem orphaned_claim_times_out:
  assumes "workers_ok s" "orphaned (ent_id r) s" "r \<in> set (fst s)" "in_iteration run iteration r"
    and "\<And>k. worker_step\<^sup>*\<^sup>* s (snapshots k)"
  shows "await_barrier (\<lambda>k. fst (snapshots k)) run iteration 0 = Inl TimeoutError"
  by (rule await_stuck) (rule orphan_in_flight [OF assms(5,1,2,3) refl assms(4)])

theorem orphaned_claim_times_out_witness:
  "await_barrier (\<lambda>_. fst one_claimed) ''job_1'' 0 0 = Inl TimeoutError"
proof -
  let ?r = "claimed_row ''a'' 400 (planned_job 100 (sample_job ''job_1'' ''ws_1'') 0 [] 1 ''scj_1'' ''ec_9'')"
  let ?s = "(fst one_claimed, (snd one_claimed)(''a'' := []))"
  have h: "held ((snd one_claimed)(''a'' := [])) v = {}" for v by (simp add: one_claimed_def held_def)
  have m: "marked_claimed (fst one_claimed) ''scj_1''" by (simp add: one_claimed_def marked_claimed_def)
  have ok: "workers_ok ?s" using h by (simp add: workers_ok_def one_claimed_def held_def)
  have o': "orphaned (ent_id ?r) ?s" using h m by (simp add: orphaned_def)
  have "?r \<in> set (fst ?s)" by (simp add: one_claimed_def)
  moreover have "in_iteration ''job_1'' 0 ?r"
    by (simp add: in_iteration_def claimed_row_def planned_job_def sample_job_def)
  ultimately show ?thesis
    using orphaned_claim_times_out [OF ok o', of "''job_1''" 0 "\<lambda>_. ?s"] by simp
qed

end
