(* ===== verification/Pairing.thy ===== *)
theory Pairing
  imports Prelude "HOL-Library.Product_Lexorder"
begin

section \<open>optimization/pairing.py\<close>

text \<open>
  Which pairs of candidates a tournament judges.  The hash that makes the shuffle reproducible
  (SHA-256 of a text, in hexadecimal) is an argument.  The lemmas: a round robin has every pair
  once, a sampled plan gives every candidate at least its number of opponents (and may give it
  more), a Swiss round is a matching among pairs that have not met.
\<close>

type_synonym pair = "string \<times> string"

definition pair_key :: "string \<Rightarrow> string \<Rightarrow> pair" where
  "pair_key a b = (if a < b then (a, b) else (b, a))"

definition stable_shuffle :: "(string \<Rightarrow> string) \<Rightarrow> string list \<Rightarrow> string \<Rightarrow> string list" where
  "stable_shuffle digest items salt = sort_key (\<lambda>item. digest (salt @ '':'' @ item)) items"

definition vs_baseline :: "string list \<Rightarrow> string \<Rightarrow> pair list" where
  "vs_baseline candidates baseline = map (\<lambda>c. (c, baseline)) (filter (\<lambda>c. c \<noteq> baseline) candidates)"

text \<open>\<^verbatim>\<open>for i ...: for j in range(i + 1, n)\<close>: every element with each one after it.\<close>

fun pairs_in_order :: "'a list \<Rightarrow> ('a \<times> 'a) list" where
  "pairs_in_order [] = []"
| "pairs_in_order (x # xs) = map (\<lambda>y. (x, y)) xs @ pairs_in_order xs"

definition all_pairs :: "string list \<Rightarrow> pair list" where
  "all_pairs candidates = pairs_in_order (sorted_set candidates)"

definition opponents :: "(string \<Rightarrow> string) \<Rightarrow> string \<Rightarrow> string list \<Rightarrow> nat \<Rightarrow> string \<Rightarrow> string list" where
  "opponents digest salt ordered k c =
     take k (stable_shuffle digest (filter (\<lambda>x. x \<noteq> c) ordered) (salt @ '':'' @ c))"

text \<open>\<^verbatim>\<open>seen\<close> is the set of the pairs kept so far.\<close>

definition add_unseen :: "pair list \<Rightarrow> pair \<Rightarrow> pair list" where
  "add_unseen pairs key = (if key \<in> set pairs then pairs else pairs @ [key])"

definition sampled :: "(string \<Rightarrow> string) \<Rightarrow> string \<Rightarrow> string list \<Rightarrow> int \<Rightarrow> pair list" where
  "sampled digest salt candidates comparisons_per_candidate =
     (let ordered = sorted_set candidates; n = length ordered
      in if n < 2 \<or> comparisons_per_candidate < 1 then []
         else let k = min (nat comparisons_per_candidate) (n - 1)
              in foldl add_unseen [] (concat (map (\<lambda>c. map (pair_key c) (opponents digest salt ordered k c)) ordered)))"

fun swiss_greedy :: "pair list \<Rightarrow> string list \<Rightarrow> string list \<Rightarrow> pair list" where
  "swiss_greedy already_played [] paired = []"
| "swiss_greedy already_played (a # rest) paired =
     (if a \<in> set paired then swiss_greedy already_played rest paired
      else case find (\<lambda>b. b \<notin> set paired \<and> pair_key a b \<notin> set already_played) rest of
             None \<Rightarrow> swiss_greedy already_played rest paired
           | Some b \<Rightarrow> (a, b) # swiss_greedy already_played rest (a # b # paired))"

definition next_swiss_round :: "string list \<Rightarrow> rat dict \<Rightarrow> pair list \<Rightarrow> pair list" where
  "next_swiss_round candidates standings already_played =
     swiss_greedy already_played (sort_key (\<lambda>c. (- dict_get standings c 0, c)) candidates) []"

subsection \<open>Round robin\<close>

lemma set_pairs_in_order: "(a, b) \<in> set (pairs_in_order xs) \<Longrightarrow> a \<in> set xs \<and> b \<in> set xs"
  by (induction xs) auto

lemma distinct_pairs_in_order: "distinct xs \<Longrightarrow> distinct (pairs_in_order xs)"
  by (induction xs) (auto simp: distinct_map inj_on_def dest: set_pairs_in_order)

lemma length_pairs_in_order: "length (pairs_in_order xs) = length xs * (length xs - 1) div 2"
proof (induction xs)
  case (Cons x xs)
  have "length xs * (length xs - 1) div 2 + length xs = (length xs * (length xs - 1) + 2 * length xs) div 2"
    by simp
  also have "length xs * (length xs - 1) + 2 * length xs = Suc (length xs) * length xs"
    by (cases xs) (simp_all add: algebra_simps)
  finally show ?case using Cons by (simp add: add.commute)
qed simp

lemma pairs_in_order_sorted:
  "sorted xs \<Longrightarrow> distinct xs \<Longrightarrow>
     (a, b) \<in> set (pairs_in_order xs) \<longleftrightarrow> a \<in> set xs \<and> b \<in> set xs \<and> a < b"
  by (induction xs) (auto simp: less_le dest: set_pairs_in_order)

lemma all_pairs_iff: "(a, b) \<in> set (all_pairs cs) \<longleftrightarrow> a \<in> set cs \<and> b \<in> set cs \<and> a < b"
  by (simp add: all_pairs_def pairs_in_order_sorted)

lemma distinct_all_pairs: "distinct (all_pairs cs)"
  by (simp add: all_pairs_def distinct_pairs_in_order)

lemma length_sorted_set: "length (sorted_set cs) = card (set cs)"
  by (metis distinct_card distinct_sorted_set set_sorted_set)

lemma length_all_pairs: "length (all_pairs cs) = card (set cs) * (card (set cs) - 1) div 2"
  by (simp add: all_pairs_def length_pairs_in_order length_sorted_set)

subsection \<open>Sampled plans\<close>

lemma foldl_add_unseen:
  "set (foldl add_unseen ps keys) = set ps \<union> set keys \<and>
   (distinct ps \<longrightarrow> distinct (foldl add_unseen ps keys)) \<and>
   length (foldl add_unseen ps keys) \<le> length ps + length keys"
proof (induction keys arbitrary: ps)
  case (Cons key keys)
  have "length (add_unseen ps key) \<le> Suc (length ps)" by (simp add: add_unseen_def)
  with Cons [of "add_unseen ps key"] show ?case by (auto simp: add_unseen_def)
qed simp

lemma set_opponents: "set (opponents digest salt ordered k c) \<subseteq> set ordered - {c}"
  by (auto simp: opponents_def stable_shuffle_def dest: in_set_takeD)

lemma length_opponents:
  assumes "distinct ordered" "c \<in> set ordered" "k \<le> length ordered - 1"
  shows "length (opponents digest salt ordered k c) = k"
proof -
  have "length (filter (\<lambda>x. x \<noteq> c) ordered) = card (set ordered - {c})"
    using assms(1) by (simp add: distinct_card [symmetric] set_diff_eq)
  also have "\<dots> = length ordered - 1" using assms(1,2) by (simp add: distinct_card)
  finally have "length (filter (\<lambda>x. x \<noteq> c) ordered) = length ordered - 1" .
  with assms(3) show ?thesis by (simp add: opponents_def stable_shuffle_def)
qed

lemma distinct_opponents: "distinct ordered \<Longrightarrow> distinct (opponents digest salt ordered k c)"
  by (simp add: opponents_def stable_shuffle_def distinct_take)

lemma set_sampled:
  assumes "2 \<le> card (set cs)" "1 \<le> k"
  shows "set (sampled digest salt cs k) =
    (\<Union>c \<in> set cs. pair_key c ` set (opponents digest salt (sorted_set cs) (min (nat k) (card (set cs) - 1)) c))"
  using assms foldl_add_unseen [of "[]"] by (simp add: sampled_def Let_def length_sorted_set)

lemma pair_key_inj: "pair_key c a = pair_key c b \<Longrightarrow> a = b"
  by (auto simp: pair_key_def split: if_splits)

lemma pair_key_commute: "pair_key a b = pair_key b a"
  by (auto simp: pair_key_def)

text \<open>Every candidate meets at least the asked number of opponents (all of them, if there are fewer).\<close>

lemma sampled_opponents:
  assumes "2 \<le> card (set cs)" "1 \<le> k" "c \<in> set cs"
  shows "min (nat k) (card (set cs) - 1) \<le> card {x. pair_key c x \<in> set (sampled digest salt cs k)}"
proof -
  let ?k = "min (nat k) (card (set cs) - 1)"
  let ?ops = "opponents digest salt (sorted_set cs) ?k c"
  have "set ?ops \<subseteq> {x. pair_key c x \<in> set (sampled digest salt cs k)}"
    using assms by (auto simp: set_sampled)
  moreover have "finite {x. pair_key c x \<in> set (sampled digest salt cs k)}"
    by (rule finite_vimageI [of _ "pair_key c", unfolded vimage_def]) (auto simp: inj_on_def dest: pair_key_inj)
  moreover have "card (set ?ops) = ?k"
    using assms(3) length_opponents [of "sorted_set cs" c ?k] distinct_card [OF distinct_opponents, of "sorted_set cs"]
    by (simp add: length_sorted_set)
  ultimately show ?thesis by (metis card_mono)
qed

lemma sampled_pairs:
  assumes "(a, b) \<in> set (sampled digest salt cs k)"
  shows "a \<in> set cs \<and> b \<in> set cs \<and> a < b"
proof -
  have k: "2 \<le> card (set cs)" "1 \<le> k"
    using assms by (auto simp: sampled_def Let_def length_sorted_set split: if_splits)
  obtain c x where cx: "c \<in> set cs" "x \<in> set (opponents digest salt (sorted_set cs) (min (nat k) (card (set cs) - 1)) c)"
    "(a, b) = pair_key c x"
    using assms unfolding set_sampled [OF k] by auto
  then have "x \<in> set cs" "x \<noteq> c" using set_opponents by fastforce+
  with cx show ?thesis by (auto simp: pair_key_def split: if_splits)
qed

text \<open>The number of opponents is no bound from above: an opponent's own choice counts as well.\<close>

lemma sampled_exceeds_budget:
  "sampled (\<lambda>s. s) ''t'' [''a'', ''b'', ''c''] 1 = [(''a'', ''b''), (''a'', ''c'')]"
  by code_simp

subsection \<open>Swiss rounds\<close>

definition players :: "pair list \<Rightarrow> string list" where
  "players pairs = concat (map (\<lambda>(a, b). [a, b]) pairs)"

lemma swiss_greedy_matching:
  assumes "distinct cs"
  shows "distinct (players (swiss_greedy played cs paired)) \<and>
    set (players (swiss_greedy played cs paired)) \<subseteq> set cs - set paired \<and>
    list_all (\<lambda>(a, b). pair_key a b \<notin> set played) (swiss_greedy played cs paired)"
  using assms
proof (induction played cs paired rule: swiss_greedy.induct)
  case (2 played a rest paired)
  show ?case
  proof (cases "a \<in> set paired")
    case True
    with 2 show ?thesis by auto
  next
    case False
    show ?thesis
    proof (cases "find (\<lambda>b. b \<notin> set paired \<and> pair_key a b \<notin> set played) rest")
      case None
      with False 2 show ?thesis by auto
    next
      case (Some b)
      then have b: "b \<in> set rest" "b \<notin> set paired" "pair_key a b \<notin> set played"
        by (auto simp: find_Some_iff)
      from "2.IH"(3) [OF False Some] "2.prems"
      have ih: "distinct (players (swiss_greedy played rest (a # b # paired)))"
        "set (players (swiss_greedy played rest (a # b # paired))) \<subseteq> set rest - set (a # b # paired)"
        "list_all (\<lambda>(a, b). pair_key a b \<notin> set played) (swiss_greedy played rest (a # b # paired))"
        by simp_all
      with False Some b "2.prems" show ?thesis by (auto simp: players_def)
    qed
  qed
qed (simp add: players_def)

lemma next_swiss_round_matching:
  assumes "distinct cs"
  shows "distinct (players (next_swiss_round cs standings played))"
    "set (players (next_swiss_round cs standings played)) \<subseteq> set cs"
    "list_all (\<lambda>(a, b). pair_key a b \<notin> set played) (next_swiss_round cs standings played)"
  using swiss_greedy_matching [of "sort_key (\<lambda>c. (- dict_get standings c 0, c)) cs" played "[]"] assms
  unfolding next_swiss_round_def by auto

end
