(* ===== verification/Ranking.thy ===== *)
theory Ranking
  imports Prelude "HOL-Library.Product_Lexorder"
begin

section \<open>optimization/ranking.py\<close>

text \<open>
  From head-to-head outcomes to a total order: Elo, and Bradley-Terry strengths by the MM
  iteration.  The logistic curve of Elo, \<^verbatim>\<open>1 / (1 + 10 ** (d / 400))\<close>, is an argument (it is not
  rational); everything else is computed.  A division by zero raises, as in Python.
\<close>

datatype RankingMethod = Elo | BradleyTerry

record Outcome =
  out_winner_id :: string
  out_loser_id :: string
  out_tie :: bool
  out_weight :: rat

record RankingRow =
  row_candidate_id :: string
  row_score :: rat
  row_wins :: nat
  row_losses :: nat
  row_ties :: nat
  row_n_comparisons :: nat

record Ranking =
  rg_method :: RankingMethod
  rg_rows :: "RankingRow list"

subsection \<open>Counts\<close>

definition fromkeys :: "string list \<Rightarrow> 'v \<Rightarrow> 'v dict" where
  "fromkeys ks v = foldl (\<lambda>d k. AList.update k v d) [] ks"

definition bump :: "nat dict \<Rightarrow> string \<Rightarrow> nat dict" where
  "bump d k = (if k \<in> set (dict_keys d) then dict_modify d k 0 Suc else d)"

definition tally_step :: "nat dict \<times> nat dict \<times> nat dict \<Rightarrow> Outcome \<Rightarrow> nat dict \<times> nat dict \<times> nat dict" where
  "tally_step s o' = (case s of (wins, losses, ties) \<Rightarrow>
     if out_tie o' then (wins, losses, bump (bump ties (out_winner_id o')) (out_loser_id o'))
     else (bump wins (out_winner_id o'), bump losses (out_loser_id o'), ties))"

definition tally :: "string list \<Rightarrow> Outcome list \<Rightarrow> string \<Rightarrow> nat \<times> nat \<times> nat" where
  "tally candidates outcomes c =
     (case foldl tally_step (fromkeys candidates 0, fromkeys candidates 0, fromkeys candidates 0) outcomes of
        (wins, losses, ties) \<Rightarrow> (dict_get wins c 0, dict_get losses c 0, dict_get ties c 0))"

definition ranking_rows :: "string list \<Rightarrow> (string \<Rightarrow> rat) \<Rightarrow> Outcome list \<Rightarrow> RankingRow list" where
  "ranking_rows candidates scores outcomes =
     sort_key (\<lambda>r. (- row_score r, row_candidate_id r))
       (map (\<lambda>c. case tally candidates outcomes c of (w, l, t) \<Rightarrow>
          \<lparr>row_candidate_id = c, row_score = scores c, row_wins = w, row_losses = l, row_ties = t,
           row_n_comparisons = w + l + t\<rparr>) candidates)"

subsection \<open>Elo\<close>

definition elo_step ::
    "(rat \<Rightarrow> rat) \<Rightarrow> rat \<Rightarrow> string list \<Rightarrow> rat dict \<Rightarrow> Outcome \<Rightarrow> rat dict" where
  "elo_step logistic k known ratings o' =
     (if out_winner_id o' \<notin> set known \<or> out_loser_id o' \<notin> set known then ratings
      else let ra = dict_get ratings (out_winner_id o') 0; rb = dict_get ratings (out_loser_id o') 0;
               ea = logistic (rb - ra); eb = 1 - ea;
               sa = (if out_tie o' then 1 / 2 else 1); sb = (if out_tie o' then 1 / 2 else 0);
               ratings1 = AList.update (out_winner_id o') (ra + k * out_weight o' * (sa - ea)) ratings
           in AList.update (out_loser_id o') (rb + k * out_weight o' * (sb - eb)) ratings1)"

definition elo_table ::
    "(rat \<Rightarrow> rat) \<Rightarrow> rat \<Rightarrow> rat \<Rightarrow> string list \<Rightarrow> Outcome list \<Rightarrow> rat dict" where
  "elo_table logistic k base candidates outcomes =
     foldl (elo_step logistic k candidates) (fromkeys candidates base) outcomes"

definition elo_ratings ::
    "(rat \<Rightarrow> rat) \<Rightarrow> rat \<Rightarrow> rat \<Rightarrow> string list \<Rightarrow> Outcome list \<Rightarrow> Ranking" where
  "elo_ratings logistic k base candidates outcomes =
     \<lparr>rg_method = Elo,
      rg_rows = ranking_rows candidates
        (\<lambda>c. dict_get (elo_table logistic k base candidates outcomes) c 0) outcomes\<rparr>"

subsection \<open>Bradley-Terry\<close>

definition candidate_index :: "string list \<Rightarrow> string \<Rightarrow> nat option" where
  "candidate_index candidates c = map_of (rev (zip candidates [0..<length candidates])) c"

definition add_at :: "rat list \<Rightarrow> nat \<Rightarrow> rat \<Rightarrow> rat list" where
  "add_at xs i a = xs[i := xs ! i + a]"

definition add_at2 :: "rat list list \<Rightarrow> nat \<Rightarrow> nat \<Rightarrow> rat \<Rightarrow> rat list list" where
  "add_at2 m i j a = m[i := add_at (m ! i) j a]"

definition bt_record :: "string list \<Rightarrow> Outcome \<Rightarrow> rat list \<times> rat list list \<Rightarrow> rat list \<times> rat list list" where
  "bt_record candidates o' s = (case s of (wins, games) \<Rightarrow>
     (case (candidate_index candidates (out_winner_id o'), candidate_index candidates (out_loser_id o')) of
        (Some i, Some j) \<Rightarrow>
          let w = out_weight o'; games' = add_at2 (add_at2 games i j w) j i w
          in if out_tie o' then (add_at (add_at wins i (w / 2)) j (w / 2), games')
             else (add_at wins i w, games')
      | _ \<Rightarrow> (wins, games)))"

definition bt_tables :: "string list \<Rightarrow> Outcome list \<Rightarrow> rat list \<times> rat list list" where
  "bt_tables candidates outcomes =
     (let n = length candidates
      in fold (bt_record candidates) outcomes (replicate n 0, replicate n (replicate n 0)))"

text \<open>One term of the denominator, one new strength, one round.\<close>

definition bt_term :: "rat list list \<Rightarrow> rat list \<Rightarrow> nat \<Rightarrow> nat \<Rightarrow> rat result" where
  "bt_term games p i j =
     (if i = j \<or> games ! i ! j = 0 then Inr 0
      else if p ! i + p ! j = 0 then Inl ZeroDivisionError
      else Inr (games ! i ! j / (p ! i + p ! j)))"

definition bt_strength :: "nat \<Rightarrow> rat list \<Rightarrow> rat list list \<Rightarrow> rat list \<Rightarrow> nat \<Rightarrow> rat result" where
  "bt_strength n wins games p i =
     bind_result (map_result (bt_term games p i) [0..<n]) (\<lambda>ts.
       let denom = sum_list ts in Inr (if denom > 0 then wins ! i / denom else p ! i))"

definition bt_normalize :: "rat list \<Rightarrow> rat list" where
  "bt_normalize xs = (let total = (if sum_list xs = 0 then 1 else sum_list xs) in map (\<lambda>x. x / total) xs)"

definition bt_round :: "nat \<Rightarrow> rat list \<Rightarrow> rat list list \<Rightarrow> rat list \<Rightarrow> rat list result" where
  "bt_round n wins games p =
     bind_result (map_result (bt_strength n wins games p) [0..<n]) (\<lambda>q. Inr (bt_normalize q))"

definition bt_delta :: "rat list \<Rightarrow> rat list \<Rightarrow> rat" where
  "bt_delta q p = fold max (map2 (\<lambda>x y. \<bar>x - y\<bar>) q p) 0"

fun bt_iterate :: "nat \<Rightarrow> rat list \<Rightarrow> rat list list \<Rightarrow> rat \<Rightarrow> nat \<Rightarrow> rat list \<Rightarrow> rat list result" where
  "bt_iterate n wins games tol 0 p = Inr p"
| "bt_iterate n wins games tol (Suc m) p =
     bind_result (bt_round n wins games p) (\<lambda>q.
       if bt_delta q p < tol then Inr q else bt_iterate n wins games tol m q)"

definition bradley_terry :: "nat \<Rightarrow> rat \<Rightarrow> string list \<Rightarrow> Outcome list \<Rightarrow> Ranking result" where
  "bradley_terry max_iter tol candidates outcomes =
     (let n = length candidates
      in if n = 0 then Inr \<lparr>rg_method = BradleyTerry, rg_rows = []\<rparr>
         else if n = 1 then Inr \<lparr>rg_method = BradleyTerry, rg_rows = ranking_rows candidates (\<lambda>_. 1) outcomes\<rparr>
         else case bt_tables candidates outcomes of (wins, games) \<Rightarrow>
           bind_result (bt_iterate n wins games tol max_iter (replicate n 1)) (\<lambda>p.
             Inr \<lparr>rg_method = BradleyTerry,
                  rg_rows = ranking_rows candidates
                    (\<lambda>c. case candidate_index candidates c of None \<Rightarrow> 0 | Some i \<Rightarrow> p ! i) outcomes\<rparr>))"

subsection \<open>Rows\<close>

lemma ranking_rows_sorted:
  "sorted_wrt (\<lambda>r r'. (- row_score r, row_candidate_id r) \<le> (- row_score r', row_candidate_id r'))
     (ranking_rows candidates scores outcomes)"
  using sorted_sort_key [of "\<lambda>r. (- row_score r, row_candidate_id r)"]
  unfolding ranking_rows_def sorted_map by blast

lemma ranking_rows_best_first:
  "sorted_wrt (\<lambda>r r'. row_score r' \<le> row_score r) (ranking_rows candidates scores outcomes)"
  by (rule sorted_wrt_mono_rel [OF _ ranking_rows_sorted]) (auto simp: less_eq_prod_def)

lemma ranking_rows_candidates:
  "mset (map row_candidate_id (ranking_rows candidates scores outcomes)) = mset candidates"
proof -
  have "mset (map row_candidate_id (ranking_rows candidates scores outcomes)) =
      image_mset row_candidate_id (mset (map (\<lambda>c. case tally candidates outcomes c of (w, l, t) \<Rightarrow>
          \<lparr>row_candidate_id = c, row_score = scores c, row_wins = w, row_losses = l, row_ties = t,
           row_n_comparisons = w + l + t\<rparr>) candidates))"
    by (simp add: ranking_rows_def)
  also have "\<dots> = mset candidates"
    by (simp add: multiset.map_comp comp_def split_beta)
  finally show ?thesis .
qed

end
