(* ===== verification/Ranking_Facts.thy ===== *)
theory Ranking_Facts
  imports Ranking
begin

section \<open>Facts about rankings\<close>

text \<open>
  Elo: every comparison moves the same amount from one rating to the other, so their sum is
  constant.  Bradley-Terry: with positive weights no round divides by zero, the strengths are
  non-negative, sum to one, and stay positive for every candidate with a win; the tables do not
  depend on the order of the outcomes.  The counts of a row do not depend on it either.
\<close>

subsection \<open>Dictionaries of ratings\<close>

lemma fromkeys_fold:
  "set (map fst (foldl (\<lambda>d k. AList.update k v d) d ks)) = set (map fst d) \<union> set ks \<and>
   (distinct (map fst d) \<longrightarrow> distinct (map fst (foldl (\<lambda>d k. AList.update k v d) d ks))) \<and>
   (\<forall>x \<in> set (foldl (\<lambda>d k. AList.update k v d) d ks). x \<in> set d \<or> snd x = v)"
proof (induction ks arbitrary: d)
  case (Cons k ks)
  have "\<forall>x \<in> set (AList.update k v d). x \<in> set d \<or> snd x = v"
    by (induction d) auto
  with Cons [of "AList.update k v d"] show ?case
    by (auto simp: distinct_update update_keys)
qed simp

lemma fromkeys_facts:
  "set (dict_keys (fromkeys ks v)) = set ks" "distinct (dict_keys (fromkeys ks v))"
  "x \<in> set (fromkeys ks v) \<Longrightarrow> snd x = v"
  using fromkeys_fold [of v "[]" ks] by (auto simp: fromkeys_def dict_keys_def)

lemma sum_update:
  fixes d :: "rat dict"
  assumes "distinct (dict_keys d)" "k \<in> set (dict_keys d)"
  shows "sum_list (map snd (AList.update k v d)) = sum_list (map snd d) - dict_get d k 0 + v"
  using assms
proof (induction d)
  case (Cons p d)
  obtain a b where p: "p = (a, b)" by (cases p)
  show ?case
  proof (cases "a = k")
    case False
    with Cons p show ?thesis by (simp add: dict_keys_def dict_get_def)
  qed (simp add: p dict_get_def)
qed (simp add: dict_keys_def)

lemma sum_by_keys:
  fixes d :: "rat dict"
  assumes "distinct (dict_keys d)" "set (dict_keys d) = set cs" "distinct cs"
  shows "sum_list (map (\<lambda>c. dict_get d c 0) cs) = sum_list (map snd d)"
proof -
  have "mset cs = mset (dict_keys d)" using assms by (metis set_eq_iff_mset_eq_distinct)
  then have "sum_list (map (\<lambda>c. dict_get d c 0) cs) = sum_list (map (\<lambda>c. dict_get d c 0) (dict_keys d))"
    by (metis mset_map sum_mset_sum_list)
  also have "map (\<lambda>c. dict_get d c 0) (dict_keys d) = map snd d"
    using assms(1) by (auto simp: dict_keys_def dict_get_def map_of_eq_Some_iff comp_def)
  finally show ?thesis .
qed

subsection \<open>Elo\<close>

definition ratings_ok :: "string list \<Rightarrow> rat \<Rightarrow> rat dict \<Rightarrow> bool" where
  "ratings_ok cs tot d \<longleftrightarrow>
     set (dict_keys d) = set cs \<and> distinct (dict_keys d) \<and> sum_list (map snd d) = tot"

lemma elo_step_ok:
  assumes "ratings_ok cs tot d" "out_winner_id o' \<noteq> out_loser_id o'"
  shows "ratings_ok cs tot (elo_step logistic k cs d o')"
proof (cases "out_winner_id o' \<in> set cs \<and> out_loser_id o' \<in> set cs")
  case True
  then have "out_winner_id o' \<in> set (dict_keys d)" "out_loser_id o' \<in> set (dict_keys d)"
    using assms(1) by (simp_all add: ratings_ok_def)
  with assms True show ?thesis
    by (auto simp: elo_step_def Let_def ratings_ok_def sum_update dict_keys_update distinct_dict_keys_update
        dict_get_update algebra_simps)
next
  case False
  with assms(1) show ?thesis by (auto simp: elo_step_def)
qed

lemma elo_table_ok:
  assumes "list_all (\<lambda>o'. out_winner_id o' \<noteq> out_loser_id o') os"
  shows "ratings_ok cs tot d \<Longrightarrow> ratings_ok cs tot (foldl (elo_step logistic k cs) d os)"
  using assms by (induction os arbitrary: d) (simp_all add: elo_step_ok)

lemma fromkeys_ratings_ok:
  assumes "distinct cs"
  shows "ratings_ok cs (of_nat (length cs) * base) (fromkeys cs base)"
proof -
  have "length (fromkeys cs base) = length cs"
    using fromkeys_facts(1,2) [of cs base] assms
    by (metis dict_keys_def distinct_card length_map)
  moreover have "map snd (fromkeys cs base) = replicate (length (fromkeys cs base)) base"
    by (rule replicate_eqI) (auto simp: fromkeys_facts(3))
  ultimately show ?thesis by (simp add: ratings_ok_def fromkeys_facts(1,2) sum_list_replicate)
qed

lemma ranking_rows_scores:
  "mset (map row_score (ranking_rows cs scores outcomes)) = mset (map scores cs)"
proof -
  have "mset (map row_score (ranking_rows cs scores outcomes)) =
      image_mset row_score (mset (map (\<lambda>c. case tally cs outcomes c of (w, l, t) \<Rightarrow>
          \<lparr>row_candidate_id = c, row_score = scores c, row_wins = w, row_losses = l, row_ties = t,
           row_n_comparisons = w + l + t\<rparr>) cs))"
    by (simp add: ranking_rows_def)
  also have "\<dots> = mset (map scores cs)"
    by (simp add: multiset.map_comp comp_def split_beta)
  finally show ?thesis .
qed

lemma ranking_rows_score_sum:
  "sum_list (map row_score (ranking_rows cs scores outcomes)) = sum_list (map scores cs)"
  using ranking_rows_scores by (metis sum_mset_sum_list)

lemma elo_sum_aux:
  assumes "distinct cs" "list_all (\<lambda>o'. out_winner_id o' \<noteq> out_loser_id o') outcomes"
  shows "sum_list (map row_score (rg_rows (elo_ratings logistic k base cs outcomes))) = of_nat (length cs) * base"
proof -
  have ok: "ratings_ok cs (of_nat (length cs) * base) (elo_table logistic k base cs outcomes)"
    unfolding elo_table_def by (rule elo_table_ok [OF assms(2) fromkeys_ratings_ok [OF assms(1)]])
  then show ?thesis
    using sum_by_keys [of "elo_table logistic k base cs outcomes" cs] assms(1)
    by (simp add: elo_ratings_def ranking_rows_score_sum ratings_ok_def)
qed

text \<open>The winner of a comparison does not lose points and the loser does not gain any.\<close>

lemma elo_step_direction:
  assumes "\<And>x. 0 \<le> logistic x \<and> logistic x \<le> 1" "0 \<le> k" "0 \<le> out_weight o'" "\<not> out_tie o'"
    and "out_winner_id o' \<noteq> out_loser_id o'"
  shows "dict_get d (out_winner_id o') 0 \<le> dict_get (elo_step logistic k cs d o') (out_winner_id o') 0 \<and>
    dict_get (elo_step logistic k cs d o') (out_loser_id o') 0 \<le> dict_get d (out_loser_id o') 0"
proof -
  define l where "l = logistic (dict_get d (out_loser_id o') 0 - dict_get d (out_winner_id o') 0)"
  have "0 \<le> k * out_weight o' * (1 - l)" using assms(1-3) by (simp add: l_def)
  with assms(4,5) show ?thesis
    by (auto simp: elo_step_def Let_def dict_get_update l_def [symmetric] algebra_simps)
qed

subsection \<open>Bradley-Terry\<close>

text \<open>What the tables say of \<open>n\<close> candidates: wins and games are not negative, and where two of them met
  one of the two has a win.\<close>

definition bt_ok :: "nat \<Rightarrow> rat list \<times> rat list list \<Rightarrow> bool" where
  "bt_ok n s \<longleftrightarrow> length (fst s) = n \<and> length (snd s) = n \<and>
     (\<forall>i < n. 0 \<le> fst s ! i \<and> length (snd s ! i) = n \<and>
        (\<forall>j < n. 0 \<le> snd s ! i ! j \<and> (snd s ! i ! j \<noteq> 0 \<longrightarrow> 0 < fst s ! i \<or> 0 < fst s ! j)))"

lemma candidate_index_less: "candidate_index cs c = Some i \<Longrightarrow> i < length cs"
  unfolding candidate_index_def by (drule map_of_SomeD) (auto simp: in_set_zip)

lemma add_at_nth:
  "length (add_at xs i a) = length xs"
  "i < length xs \<Longrightarrow> add_at xs i a ! j = (if j = i then xs ! i + a else xs ! j)"
  by (simp_all add: add_at_def nth_list_update)

lemma add_at2_nth:
  "length (add_at2 m i j a) = length m"
  "i < length m \<Longrightarrow> add_at2 m i j a ! k = (if k = i then add_at (m ! i) j a else m ! k)"
  by (simp_all add: add_at2_def nth_list_update)

lemma bt_record_known:
  assumes "candidate_index cs (out_winner_id o') = Some i" "candidate_index cs (out_loser_id o') = Some j"
    and "length wins = length cs" "length games = length cs" "\<And>k. k < length cs \<Longrightarrow> length (games ! k) = length cs"
    and "0 < out_weight o'" "\<And>k. k < length cs \<Longrightarrow> 0 \<le> wins ! k"
  obtains wins' games' where "bt_record cs o' (wins, games) = (wins', games')"
    "length wins' = length cs" "length games' = length cs"
    "\<And>k. k < length cs \<Longrightarrow> wins ! k \<le> wins' ! k" "0 < wins' ! i"
    "\<And>k. k < length cs \<Longrightarrow> length (games' ! k) = length cs"
    "\<And>k l. k < length cs \<Longrightarrow> l < length cs \<Longrightarrow> games ! k ! l \<le> games' ! k ! l"
    "\<And>k l. k < length cs \<Longrightarrow> l < length cs \<Longrightarrow> games' ! k ! l \<noteq> games ! k ! l \<Longrightarrow> k = i \<or> l = i"
proof -
  define w where "w = out_weight o'"
  define wins' where "wins' = (if out_tie o' then add_at (add_at wins i (w / 2)) j (w / 2) else add_at wins i w)"
  define games' where "games' = add_at2 (add_at2 games i j w) j i w"
  have ij: "i < length cs" "j < length cs" using assms(1,2) by (simp_all add: candidate_index_less)
  have w: "0 < w" using assms(6) by (simp add: w_def)
  note [simp] = add_at_nth add_at2_nth
  have "bt_record cs o' (wins, games) = (wins', games')"
    using assms(1,2) by (simp add: bt_record_def wins'_def games'_def w_def Let_def)
  moreover have "wins ! k \<le> wins' ! k" if "k < length cs" for k
    using that ij w assms(3) by (simp add: wins'_def)
  moreover have "0 < wins' ! i"
    using ij w assms(3) assms(7) [OF ij(1)] by (auto simp: wins'_def add_nonneg_pos add_pos_nonneg)
  moreover have "length (games' ! k) = length cs" if "k < length cs" for k
    using that ij assms(4,5) by (simp add: games'_def)
  moreover have "games ! k ! l \<le> games' ! k ! l" if "k < length cs" "l < length cs" for k l
    using that ij w assms(4,5) by (simp add: games'_def)
  moreover have "k = i \<or> l = i" if "k < length cs" "l < length cs" "games' ! k ! l \<noteq> games ! k ! l" for k l
    using that ij assms(4,5) by (simp add: games'_def split: if_splits)
  ultimately show ?thesis using that [of wins' games'] assms(3,4) by (simp add: wins'_def games'_def)
qed

lemma bt_record_ok:
  assumes "bt_ok (length cs) s" "0 < out_weight o'"
  shows "bt_ok (length cs) (bt_record cs o' s)"
proof -
  obtain wins games where s: "s = (wins, games)" by (cases s)
  have ok: "\<And>k. k < length cs \<Longrightarrow> 0 \<le> wins ! k" "\<And>k. k < length cs \<Longrightarrow> length (games ! k) = length cs"
    "\<And>k l. k < length cs \<Longrightarrow> l < length cs \<Longrightarrow> 0 \<le> games ! k ! l"
    "\<And>k l. k < length cs \<Longrightarrow> l < length cs \<Longrightarrow> games ! k ! l \<noteq> 0 \<Longrightarrow> 0 < wins ! k \<or> 0 < wins ! l"
    "length wins = length cs" "length games = length cs"
    using assms(1) by (auto simp: bt_ok_def s)
  show ?thesis
  proof (cases "candidate_index cs (out_winner_id o') = None \<or> candidate_index cs (out_loser_id o') = None")
    case True
    with assms(1) show ?thesis by (auto simp: bt_record_def s split: option.splits)
  next
    case False
    then obtain i j where ij: "candidate_index cs (out_winner_id o') = Some i" "candidate_index cs (out_loser_id o') = Some j"
      by auto
    obtain wins' games' where r: "bt_record cs o' (wins, games) = (wins', games')"
      "length wins' = length cs" "length games' = length cs"
      "\<And>k. k < length cs \<Longrightarrow> wins ! k \<le> wins' ! k" "0 < wins' ! i"
      "\<And>k. k < length cs \<Longrightarrow> length (games' ! k) = length cs"
      "\<And>k l. k < length cs \<Longrightarrow> l < length cs \<Longrightarrow> games ! k ! l \<le> games' ! k ! l"
      "\<And>k l. k < length cs \<Longrightarrow> l < length cs \<Longrightarrow> games' ! k ! l \<noteq> games ! k ! l \<Longrightarrow> k = i \<or> l = i"
      using bt_record_known [OF ij ok(5,6,2) assms(2) ok(1)] by metis
    have "0 < wins' ! k \<or> 0 < wins' ! l" if kl: "k < length cs" "l < length cs" "games' ! k ! l \<noteq> 0" for k l
    proof (cases "games' ! k ! l = games ! k ! l")
      case True
      with ok(4) [OF kl(1,2)] r(4) [OF kl(1)] r(4) [OF kl(2)] kl(3) show ?thesis by fastforce
    next
      case False
      from r(8) [OF kl(1,2) this] r(5) show ?thesis by auto
    qed
    moreover have "0 \<le> wins' ! k" if "k < length cs" for k
      using ok(1) [OF that] r(4) [OF that] by simp
    moreover have "0 \<le> games' ! k ! l" if "k < length cs" "l < length cs" for k l
      using ok(3) [OF that] r(7) [OF that] by simp
    ultimately show ?thesis using r(1-3,6) by (simp add: bt_ok_def s)
  qed
qed

lemma map_result_ex: "(\<And>x. x \<in> set xs \<Longrightarrow> \<exists>y. f x = Inr y) \<Longrightarrow> \<exists>ys. map_result f xs = Inr ys"
  by (induction xs) (force simp: bind_result_Inr_iff)+

lemma bt_tables_ok:
  assumes "list_all (\<lambda>o'. 0 < out_weight o') outcomes"
  shows "bt_ok (length cs) (bt_tables cs outcomes)"
proof -
  have "bt_ok (length cs) s \<Longrightarrow> bt_ok (length cs) (fold (bt_record cs) outcomes s)" for s
    using assms by (induction outcomes arbitrary: s) (simp_all add: bt_record_ok)
  moreover have "bt_ok (length cs) (replicate (length cs) 0, replicate (length cs) (replicate (length cs) 0))"
    by (simp add: bt_ok_def)
  ultimately show ?thesis by (simp add: bt_tables_def Let_def)
qed

text \<open>What the strengths keep from one round to the next.\<close>

definition strengths_ok :: "nat \<Rightarrow> rat list \<Rightarrow> rat list \<Rightarrow> bool" where
  "strengths_ok n wins p \<longleftrightarrow> length p = n \<and> (\<forall>i < n. 0 \<le> p ! i \<and> (0 < wins ! i \<longrightarrow> 0 < p ! i)) \<and> 0 < sum_list p"

lemma bt_term_total:
  assumes "bt_ok n (wins, games)" "strengths_ok n wins p" "i < n" "j < n"
  shows "\<exists>t. bt_term games p i j = Inr t \<and> 0 \<le> t \<and> (t \<noteq> 0 \<longrightarrow> games ! i ! j \<noteq> 0 \<and> i \<noteq> j) \<and>
    (i \<noteq> j \<and> games ! i ! j \<noteq> 0 \<longrightarrow> 0 < t)"
proof (cases "i = j \<or> games ! i ! j = 0")
  case True
  then show ?thesis by (auto simp: bt_term_def)
next
  case False
  have p: "0 \<le> p ! i" "0 \<le> p ! j" "0 < wins ! i \<longrightarrow> 0 < p ! i" "0 < wins ! j \<longrightarrow> 0 < p ! j"
    using assms(2-4) by (auto simp: strengths_ok_def)
  moreover have "0 \<le> games ! i ! j" "0 < wins ! i \<or> 0 < wins ! j"
    using assms(1,3,4) False by (auto simp: bt_ok_def)
  ultimately have s: "0 < p ! i + p ! j" "0 < games ! i ! j" using False by (auto simp: add_pos_nonneg add_nonneg_pos)
  with False show ?thesis by (auto simp: bt_term_def)
qed

lemma bt_strength_total:
  assumes "bt_ok n (wins, games)" "strengths_ok n wins p" "i < n"
  shows "\<exists>x. bt_strength n wins games p i = Inr x \<and> 0 \<le> x \<and> (0 < wins ! i \<longrightarrow> 0 < x) \<and>
    ((\<forall>j < n. j \<noteq> i \<longrightarrow> games ! i ! j = 0) \<longrightarrow> x = p ! i)"
proof -
  obtain ts where ts: "map_result (bt_term games p i) [0..<n] = Inr ts"
    using map_result_ex [of "[0..<n]" "bt_term games p i"] bt_term_total [OF assms] by auto
  have len: "length ts = n" and nth: "\<And>j. j < n \<Longrightarrow> bt_term games p i j = Inr (ts ! j)"
    using map_result_InrD [OF ts] by (auto simp: list_all2_conv_all_nth)
  have nonneg: "\<forall>t \<in> set ts. 0 \<le> t"
    using bt_term_total [OF assms] nth len by (fastforce simp: in_set_conv_nth)
  then have denom: "0 \<le> sum_list ts" by (simp add: sum_list_nonneg)
  have zero: "sum_list ts = 0" if "\<forall>j < n. j \<noteq> i \<longrightarrow> games ! i ! j = 0"
  proof -
    have "\<forall>t \<in> set ts. t = 0"
      using bt_term_total [OF assms] nth len that by (fastforce simp: in_set_conv_nth)
    then have "ts = replicate n 0" using len by (simp add: replicate_eqI)
    then show ?thesis by (simp add: sum_list_replicate)
  qed
  have "0 \<le> wins ! i" "0 \<le> p ! i" "0 < wins ! i \<longrightarrow> 0 < p ! i"
    using assms by (auto simp: bt_ok_def strengths_ok_def)
  with denom zero show ?thesis
    by (simp add: bt_strength_def ts Let_def)
qed

lemma bt_normalize_ok:
  assumes "length q = n" "\<forall>i < n. 0 \<le> q ! i \<and> (0 < wins ! i \<longrightarrow> 0 < q ! i)" "0 < sum_list q"
  shows "strengths_ok n wins (bt_normalize q) \<and> sum_list (bt_normalize q) = 1"
proof -
  have q: "bt_normalize q = map (\<lambda>x. x / sum_list q) q" using assms(3) by (simp add: bt_normalize_def)
  have "sum_list (map (\<lambda>x. x / sum_list q) q) = sum_list q / sum_list q"
    by (simp add: divide_inverse sum_list_mult_const)
  then have "sum_list (bt_normalize q) = 1" using assms(3) by (simp add: q)
  with assms show ?thesis by (simp add: strengths_ok_def q)
qed

lemma sum_list_pos: "(\<And>x. x \<in> set xs \<Longrightarrow> 0 \<le> x) \<Longrightarrow> y \<in> set xs \<Longrightarrow> 0 < y \<Longrightarrow> 0 < sum_list (xs :: rat list)"
  by (induction xs) (auto simp: add_pos_nonneg add_nonneg_pos sum_list_nonneg)

lemma bt_round_total:
  assumes ok: "bt_ok n (wins, games)" and p: "strengths_ok n wins p"
  shows "\<exists>q. bt_round n wins games p = Inr q \<and> strengths_ok n wins q \<and> sum_list q = 1"
proof -
  note str = bt_strength_total [OF ok p]
  obtain q where q: "map_result (bt_strength n wins games p) [0..<n] = Inr q"
    using map_result_ex [of "[0..<n]" "bt_strength n wins games p"] str by auto
  have len: "length q = n" and nth: "\<And>i. i < n \<Longrightarrow> bt_strength n wins games p i = Inr (q ! i)"
    using map_result_InrD [OF q] by (auto simp: list_all2_conv_all_nth)
  have q1: "\<forall>i < n. 0 \<le> q ! i \<and> (0 < wins ! i \<longrightarrow> 0 < q ! i)" using str nth by fastforce
  then have nonneg: "\<And>x. x \<in> set q \<Longrightarrow> 0 \<le> x" using len by (auto simp: in_set_conv_nth)
  have "0 < sum_list q"
  proof (cases "\<exists>i < n. 0 < wins ! i")
    case True
    then obtain i where "i < n" "0 < wins ! i" by auto
    with q1 len show ?thesis using sum_list_pos [of q "q ! i", OF nonneg] by auto
  next
    case False
    with ok have "games ! i ! j = 0" if "i < n" "j < n" for i j
      using that by (auto simp: bt_ok_def)
    then have "q = p" using str nth len p by (fastforce simp: strengths_ok_def intro!: nth_equalityI)
    with p show ?thesis by (simp add: strengths_ok_def)
  qed
  from bt_normalize_ok [OF len q1 this] show ?thesis by (simp add: bt_round_def q)
qed

lemma bt_iterate_total:
  assumes "bt_ok n (wins, games)" "strengths_ok n wins p" "m \<noteq> 0 \<or> sum_list p = 1"
  shows "\<exists>q. bt_iterate n wins games tol m p = Inr q \<and> strengths_ok n wins q \<and> sum_list q = 1"
  using assms(2,3)
proof (induction m arbitrary: p)
  case (Suc m)
  obtain q where "bt_round n wins games p = Inr q" "strengths_ok n wins q" "sum_list q = 1"
    using bt_round_total [OF assms(1) Suc.prems(1)] by blast
  with Suc.IH [of q] show ?case by simp
qed simp

lemma candidate_index_nth: "distinct cs \<Longrightarrow> i < length cs \<Longrightarrow> candidate_index cs (cs ! i) = Some i"
  unfolding candidate_index_def
  by (subst map_of_eq_Some_iff) (auto simp: in_set_zip rev_map [symmetric] map_fst_zip intro!: exI [of _ i])

text \<open>A ranking of \<open>n > 0\<close> candidates from outcomes of positive weight.\<close>

lemma bradley_terry_total_aux:
  assumes "distinct cs" "cs \<noteq> []" "list_all (\<lambda>o'. 0 < out_weight o') outcomes" "0 < max_iter"
  shows "\<exists>r. bradley_terry max_iter tol cs outcomes = Inr r \<and>
    list_all (\<lambda>row. 0 \<le> row_score row) (rg_rows r) \<and> sum_list (map row_score (rg_rows r)) = 1"
proof (cases "length cs = 1")
  case True
  then obtain c where "cs = [c]" by (auto simp: length_Suc_conv)
  then show ?thesis
    using ranking_rows_scores [of cs "\<lambda>_. 1" outcomes] ranking_rows_score_sum [of cs "\<lambda>_. 1" outcomes]
    by (simp add: bradley_terry_def list_all_iff ranking_rows_def split: prod.splits)
next
  case False
  define n where "n = length cs"
  obtain wins games where t: "bt_tables cs outcomes = (wins, games)" by (cases "bt_tables cs outcomes")
  have ok: "bt_ok n (wins, games)" using bt_tables_ok [OF assms(3), of cs] by (simp add: n_def t)
  have "strengths_ok n wins (replicate n 1)"
    using assms(2) by (simp add: strengths_ok_def sum_list_replicate n_def)
  from bt_iterate_total [OF ok this, of max_iter tol] assms(4) obtain p where
    p: "bt_iterate n wins games tol max_iter (replicate n 1) = Inr p" "strengths_ok n wins p" "sum_list p = 1"
    by auto
  define score where "score = (\<lambda>c. case candidate_index cs c of None \<Rightarrow> 0 | Some i \<Rightarrow> p ! i)"
  have "map score cs = p"
    using p(2) candidate_index_nth [OF assms(1)]
    by (auto simp: score_def strengths_ok_def n_def intro!: nth_equalityI)
  moreover have "\<forall>x \<in> set p. 0 \<le> x" using p(2) by (auto simp: strengths_ok_def in_set_conv_nth)
  moreover have "set (map row_score (ranking_rows cs score outcomes)) = set (map score cs)"
    using ranking_rows_scores [of cs score outcomes] by (metis set_mset_mset)
  ultimately show ?thesis
    using False assms(2) p ranking_rows_score_sum [of cs score outcomes]
    by (simp add: bradley_terry_def Let_def t n_def [symmetric] score_def [symmetric] list_all_iff)
      (auto simp: n_def)
qed

subsection \<open>Order of the outcomes\<close>

lemma add_at_commute: "add_at (add_at xs i a) j b = add_at (add_at xs j b) i a"
proof (cases "i = j")
  case True
  then show ?thesis by (cases "j < length xs") (simp_all add: add_at_def add.assoc add.commute add.left_commute list_update_beyond)
next
  case False
  then show ?thesis by (simp add: add_at_def list_update_swap)
qed

lemma add_at2_commute: "add_at2 (add_at2 m i j a) k l b = add_at2 (add_at2 m k l b) i j a"
proof (cases "i = k")
  case True
  then show ?thesis
    by (cases "k < length m") (simp_all add: add_at2_def add_at_commute [of _ j] list_update_beyond)
next
  case False
  then show ?thesis by (simp add: add_at2_def list_update_swap)
qed

lemma bt_record_commute: "bt_record cs x (bt_record cs y s) = bt_record cs y (bt_record cs x s)"
proof -
  obtain wins games where s: "s = (wins, games)" by (cases s)
  note ac = add_at_commute add_at2_commute
  show ?thesis
  proof (cases "candidate_index cs (out_winner_id x) = None \<or> candidate_index cs (out_loser_id x) = None \<or>
      candidate_index cs (out_winner_id y) = None \<or> candidate_index cs (out_loser_id y) = None")
    case True
    then show ?thesis by (auto simp: bt_record_def s split: option.splits)
  next
    case False
    then obtain i j k l where "candidate_index cs (out_winner_id x) = Some i" "candidate_index cs (out_loser_id x) = Some j"
      "candidate_index cs (out_winner_id y) = Some k" "candidate_index cs (out_loser_id y) = Some l" by auto
    moreover have "add_at2 (add_at2 (add_at2 (add_at2 games k l v) l k v) i j w) j i w =
        add_at2 (add_at2 (add_at2 (add_at2 games i j w) j i w) k l v) l k v" for v w
      by (metis add_at2_commute)
    moreover have "add_at (add_at (add_at (add_at wins k v) l v) i w) j w =
        add_at (add_at (add_at (add_at wins i w) j w) k v) l v"
      "add_at (add_at (add_at wins k v) l v) i w = add_at (add_at (add_at wins i w) k v) l v"
      "add_at (add_at (add_at wins k v) i w) j w = add_at (add_at (add_at wins i w) j w) k v"
      "add_at (add_at wins k v) i w = add_at (add_at wins i w) k v" for v w
      by (metis add_at_commute)+
    ultimately show ?thesis by (simp add: bt_record_def s Let_def)
  qed
qed

lemma bt_tables_mset: "mset os = mset os' \<Longrightarrow> bt_tables cs os = bt_tables cs os'"
  unfolding bt_tables_def Let_def
  by (rule fun_cong [OF fold_multiset_equiv]) (auto simp: fun_eq_iff bt_record_commute)

text \<open>The counts of a candidate.\<close>

lemma bump_get: "k \<in> set (dict_keys d) \<Longrightarrow> dict_get (bump d j) k 0 = dict_get d k 0 + (if j = k then 1 else 0)"
  by (auto simp: bump_def dict_get_modify)

lemma bump_keys: "set (dict_keys (bump d j)) = set (dict_keys d)"
  by (auto simp: bump_def dict_keys_modify)

lemma tally_fold:
  assumes "c \<in> set (dict_keys w)" "c \<in> set (dict_keys l)" "c \<in> set (dict_keys t)"
    and "foldl tally_step (w, l, t) os = (w', l', t')"
  shows "dict_get w' c 0 = dict_get w c 0 + count_if (\<lambda>x. \<not> out_tie x \<and> out_winner_id x = c) os \<and>
    dict_get l' c 0 = dict_get l c 0 + count_if (\<lambda>x. \<not> out_tie x \<and> out_loser_id x = c) os \<and>
    dict_get t' c 0 = dict_get t c 0 + count_if (\<lambda>x. out_tie x \<and> out_winner_id x = c) os +
      count_if (\<lambda>x. out_tie x \<and> out_loser_id x = c) os"
  using assms
proof (induction os arbitrary: w l t)
  case (Cons x os)
  show ?case
  proof (cases "out_tie x")
    case True
    with Cons.prems Cons.IH [of w l "bump (bump t (out_winner_id x)) (out_loser_id x)"] show ?thesis
      by (simp add: tally_step_def bump_get bump_keys count_if_def)
  next
    case False
    with Cons.prems Cons.IH [of "bump w (out_winner_id x)" "bump l (out_loser_id x)" t] show ?thesis
      by (simp add: tally_step_def bump_get bump_keys count_if_def)
  qed
qed (simp add: count_if_def)

lemma fromkeys_get: "dict_get (fromkeys cs v) c v = v"
proof (cases "map_of (fromkeys cs v) c")
  case (Some x)
  with fromkeys_facts(3) [of "(c, x)" cs v] show ?thesis by (simp add: dict_get_def map_of_SomeD)
qed (simp add: dict_get_def)

lemma tally_counts:
  assumes "c \<in> set cs"
  shows "tally cs os c = (count_if (\<lambda>x. \<not> out_tie x \<and> out_winner_id x = c) os,
    count_if (\<lambda>x. \<not> out_tie x \<and> out_loser_id x = c) os,
    count_if (\<lambda>x. out_tie x \<and> out_winner_id x = c) os + count_if (\<lambda>x. out_tie x \<and> out_loser_id x = c) os)"
proof -
  let ?d = "fromkeys cs (0 :: nat)"
  obtain w l t where f: "foldl tally_step (?d, ?d, ?d) os = (w, l, t)" by (metis prod_cases3)
  from tally_fold [OF _ _ _ f, of c] assms show ?thesis
    by (simp add: tally_def f fromkeys_facts(1) fromkeys_get)
qed

lemma ranking_rows_mset: "mset os = mset os' \<Longrightarrow> ranking_rows cs scores os = ranking_rows cs scores os'"
  unfolding ranking_rows_def
  by (rule arg_cong [where f = "sort_key _"], rule map_cong) (simp_all add: tally_counts count_if_mset [of os os'])

lemma bradley_terry_mset_aux:
  assumes "mset os = mset os'"
  shows "bradley_terry max_iter tol cs os = bradley_terry max_iter tol cs os'"
proof -
  have "ranking_rows cs sc os = ranking_rows cs sc os'" for sc using ranking_rows_mset [OF assms] .
  then show ?thesis by (simp add: bradley_terry_def bt_tables_mset [OF assms] Let_def)
qed

end
