(* ===== verification/Trajectory.thy ===== *)
theory Trajectory
  imports Scenario_Exec Deterministic "HOL-Library.Sublist"
begin

section \<open>graders/trajectory.py and graders/trajectory\_checks.py\<close>

text \<open>
  The trajectory grader: the verdict of an output grader, four diagnostic checks of the trace
  attached as advisory nodes of weight 0, and the hard invariants, the only part of the trajectory
  that changes the verdict.  The lemmas give each check its meaning: the order check is
  subsequence, the loop check a block of equal tools or a count, the hard invariants a forbidden
  name or a total.
\<close>

record Diagnostic =
  dn_key :: string
  dn_failure_mode :: string
  dn_reason :: string

definition diagnostic :: "string \<Rightarrow> string \<Rightarrow> Diagnostic" where
  "diagnostic key mode = \<lparr>dn_key = key, dn_failure_mode = mode, dn_reason = no_text\<rparr>"

record HardInvariants =
  hv_forbidden_tools :: "string list"
  hv_max_tool_calls :: "int option"

record TrajectoryGrader =
  tg_name :: string
  tg_output_grader :: Grader
  tg_expected_tool_order :: "string list"
  tg_max_consecutive :: nat
  tg_max_total :: "nat option"
  tg_expect_routing_decision :: bool
  tg_hard :: HardInvariants

definition make_TrajectoryGrader ::
    "string \<Rightarrow> Grader option \<Rightarrow> Grader \<Rightarrow> string list option \<Rightarrow> int \<Rightarrow> int option \<Rightarrow> bool \<Rightarrow>
       HardInvariants option \<Rightarrow> TrajectoryGrader result" where
  "make_TrajectoryGrader nm output_grader dflt_grader order max_consecutive max_total expect_routing hard =
     (if nm = [] \<or> max_consecutive < 1 \<or> (case max_total of None \<Rightarrow> False | Some m \<Rightarrow> m < 0)
      then Inl ValueError
      else Inr \<lparr>tg_name = nm,
        tg_output_grader = (case output_grader of None \<Rightarrow> dflt_grader | Some g \<Rightarrow> g),
        tg_expected_tool_order = (case order of None \<Rightarrow> [] | Some xs \<Rightarrow> xs),
        tg_max_consecutive = nat max_consecutive, tg_max_total = map_option nat max_total,
        tg_expect_routing_decision = expect_routing,
        tg_hard = (case hard of None \<Rightarrow> \<lparr>hv_forbidden_tools = [], hv_max_tool_calls = None\<rparr> | Some h \<Rightarrow> h)\<rparr>)"

subsection \<open>The checks\<close>

fun tool_call_name :: "Span \<Rightarrow> string option" where
  "tool_call_name (ToolCallSpan s) = Some (tc_tool_name s)"
| "tool_call_name _ = None"

definition tools_invoked :: "Trace \<Rightarrow> string list" where
  "tools_invoked t = List.map_filter tool_call_name (tr_spans t)"

text \<open>\<^verbatim>\<open>it = iter(haystack); all(token in it for token in needle)\<close>: each search goes on where the last
  one stopped.\<close>

fun is_ordered_subsequence :: "string list \<Rightarrow> string list \<Rightarrow> bool" where
  "is_ordered_subsequence [] ys = True"
| "is_ordered_subsequence (x # xs) [] = False"
| "is_ordered_subsequence (x # xs) (y # ys) =
     (if x = y then is_ordered_subsequence xs ys else is_ordered_subsequence (x # xs) ys)"

definition check_tool_order :: "string list \<Rightarrow> string list \<Rightarrow> Diagnostic option" where
  "check_tool_order expected invoked =
     (if expected = [] \<or> is_ordered_subsequence expected invoked then None
      else Some (diagnostic ''wrong_tool_order'' ''trajectory_wrong_tool_order''))"

fun run_overrun :: "nat \<Rightarrow> string option \<Rightarrow> nat \<Rightarrow> string list \<Rightarrow> bool" where
  "run_overrun m run_tool run_len [] = False"
| "run_overrun m run_tool run_len (t # ts) =
     (let n = (if Some t = run_tool then run_len + 1 else 1)
      in if m < n then True else run_overrun m (Some t) n ts)"

definition total_overrun :: "nat option \<Rightarrow> string list \<Rightarrow> bool" where
  "total_overrun max_total invoked = (case max_total of
     None \<Rightarrow> False | Some m \<Rightarrow> list_ex (\<lambda>(_, c). m < c) (counter_of invoked))"

definition check_tool_loop :: "nat \<Rightarrow> nat option \<Rightarrow> string list \<Rightarrow> Diagnostic option" where
  "check_tool_loop max_consecutive max_total invoked =
     (if run_overrun max_consecutive None 0 invoked \<or> total_overrun max_total invoked
      then Some (diagnostic ''tool_loop_overrun'' ''trajectory_tool_loop_overrun'') else None)"

definition is_decision :: "Span \<Rightarrow> bool" where
  "is_decision s = (case s of DecisionSpan _ \<Rightarrow> True | _ \<Rightarrow> False)"

definition is_handoff :: "Span \<Rightarrow> bool" where
  "is_handoff s = (case s of HandoffSpan _ \<Rightarrow> True | _ \<Rightarrow> False)"

definition check_missing_routing :: "bool \<Rightarrow> Trace \<Rightarrow> Diagnostic option" where
  "check_missing_routing expect_routing t =
     (if list_ex is_decision (tr_spans t) then None
      else if list_ex is_handoff (tr_spans t) \<or> expect_routing
      then Some (diagnostic ''missing_routing_decision'' ''trajectory_missing_routing_decision'')
      else None)"

text \<open>\<^verbatim>\<open>s.query_hash or s.query_pointer\<close>: an empty hash falls through to the pointer.\<close>

fun retrieval_query :: "Span \<Rightarrow> string option" where
  "retrieval_query (RetrievalSpan s) =
     (case rt_query_hash s of Some (c # cs) \<Rightarrow> Some (c # cs) | _ \<Rightarrow> rt_query_pointer s)"
| "retrieval_query _ = None"

fun repeats :: "string list \<Rightarrow> string list \<Rightarrow> bool" where
  "repeats seen [] = False"
| "repeats seen (k # ks) = (k \<in> set seen \<or> repeats (k # seen) ks)"

definition check_redundant_retrieval :: "Trace \<Rightarrow> Diagnostic option" where
  "check_redundant_retrieval t =
     (if repeats [] (List.map_filter retrieval_query (tr_spans t))
      then Some (diagnostic ''redundant_retrieval'' ''trajectory_redundant_retrieval'') else None)"

definition diagnose :: "TrajectoryGrader \<Rightarrow> Trace \<Rightarrow> Diagnostic list" where
  "diagnose g t = List.map_filter id
     [check_tool_order (tg_expected_tool_order g) (tools_invoked t),
      check_tool_loop (tg_max_consecutive g) (tg_max_total g) (tools_invoked t),
      check_missing_routing (tg_expect_routing_decision g) t,
      check_redundant_retrieval t]"

definition check_hard_invariants :: "HardInvariants \<Rightarrow> Trace \<Rightarrow> Diagnostic list" where
  "check_hard_invariants h t =
     (let invoked = tools_invoked t
      in map (\<lambda>tool. diagnostic (''hard_forbidden_tool:'' @ tool) ''trajectory_hard_forbidden_tool'')
           (sorted_set (filter (\<lambda>tool. tool \<in> set invoked) (hv_forbidden_tools h))) @
         (case hv_max_tool_calls h of
            None \<Rightarrow> []
          | Some m \<Rightarrow> if m < int (length invoked)
                      then [diagnostic ''hard_max_tool_calls'' ''trajectory_hard_max_tool_calls''] else []))"

subsection \<open>The grade\<close>

definition trajectory_node :: "rat \<Rightarrow> Diagnostic \<Rightarrow> BreakdownNode" where
  "trajectory_node weight d =
     BreakdownNode (dn_key d) (Some GradeLabel.FAIL) (Some 0) weight (dn_reason d) [dn_failure_mode d] []"

definition trajectory_grade :: "TrajectoryGrader \<Rightarrow> GraderContext \<Rightarrow> GradeResult result" where
  "trajectory_grade g ctx =
     bind_result (grd_grade (tg_output_grader g) ctx) (\<lambda>res.
       let hard = check_hard_invariants (tg_hard g) (gcx_trace ctx);
           label = (if hard = [] then gr_label res else GradeLabel.FAIL);
           score = (if hard = [] then gr_score res else Some 0);
           modes = (if hard = [] then gr_failure_modes res
                    else sorted_set (gr_failure_modes res @ map dn_failure_mode hard))
       in Inr \<lparr>gr_grader = tg_name g, gr_label = label,
            gr_reason = (if hard = [] then gr_reason res else no_text),
            gr_score = score, gr_confidence = gr_confidence res, gr_failure_modes = modes,
            gr_breakdown = Some (BreakdownNode ''trajectory'' (Some label) score 1
              ''output-state authoritative; trajectory children advisory'' []
              (map (trajectory_node 0) (diagnose g (gcx_trace ctx)) @ map (trajectory_node 1) hard))\<rparr>)"

subsection \<open>What the checks mean\<close>

lemma ordered_subsequence_iff: "is_ordered_subsequence xs ys \<longleftrightarrow> subseq xs ys"
  by (induction xs ys rule: is_ordered_subsequence.induct) simp_all

lemma set_map_filter_iff: "y \<in> set (List.map_filter f xs) \<longleftrightarrow> (\<exists>x \<in> set xs. f x = Some y)"
  by (induction xs) (auto simp: map_filter_simps split: option.splits)

text \<open>A run of \<open>n\<close> equal tools before the list, of which the first \<open>k\<close> were counted.\<close>

lemma run_overrun_Some:
  "n \<le> m \<Longrightarrow> run_overrun m (Some t) n ts \<longleftrightarrow>
     (\<exists>us u vs. replicate n t @ ts = us @ replicate (Suc m) u @ vs)"
proof (induction ts arbitrary: t n)
  case Nil
  then show ?case by (auto dest!: arg_cong [where f = length])
next
  case (Cons x ts)
  show ?case
  proof (cases "x = t")
    case True
    have shift: "replicate (Suc n) t @ ts = replicate n t @ x # ts"
      by (simp add: True replicate_app_Cons_same)
    show ?thesis
    proof (cases "Suc n \<le> m")
      case le: True
      have "run_overrun m (Some t) n (x # ts) \<longleftrightarrow> run_overrun m (Some t) (Suc n) ts"
        using le True by (simp add: Let_def)
      with Cons.IH [OF le, of t] shift show ?thesis by (simp only:)
    next
      case False
      with Cons.prems have "n = m" by simp
      with shift have "replicate n t @ x # ts = [] @ replicate (Suc m) t @ ts" by simp
      then have "\<exists>us u vs. replicate n t @ x # ts = us @ replicate (Suc m) u @ vs" by blast
      with True \<open>n = m\<close> show ?thesis by (simp add: Let_def)
    qed
  next
    case False
    have skip: "(\<exists>us u vs. replicate n t @ x # ts = us @ replicate (Suc m) u @ vs) \<longleftrightarrow>
        (\<exists>us u vs. x # ts = us @ replicate (Suc m) u @ vs)"
    proof
      assume "\<exists>us u vs. replicate n t @ x # ts = us @ replicate (Suc m) u @ vs"
      then obtain us u vs where e: "replicate n t @ x # ts = us @ replicate (Suc m) u @ vs" by blast
      have "n \<le> length us"
      proof (rule ccontr)
        assume "\<not> n \<le> length us"
        then have lt: "length us < n" by simp
        have "(us @ replicate (Suc m) u @ vs) ! length us = u" by (simp add: nth_append)
        moreover have "(replicate n t @ x # ts) ! length us = t" using lt by (simp add: nth_append)
        ultimately have "u = t" using e by simp
        moreover have "n - length us < Suc m" using Cons.prems by simp
        then have "(us @ replicate (Suc m) u @ vs) ! n = u"
          using lt by (simp add: nth_append del: replicate_Suc)
        moreover have "(replicate n t @ x # ts) ! n = x" by (simp add: nth_append)
        ultimately show False using e False by simp
      qed
      then have "x # ts = drop n us @ replicate (Suc m) u @ vs"
        using arg_cong [OF e, of "drop n"] by simp
      then show "\<exists>us u vs. x # ts = us @ replicate (Suc m) u @ vs" by blast
    next
      assume "\<exists>us u vs. x # ts = us @ replicate (Suc m) u @ vs"
      then obtain us u vs where "x # ts = us @ replicate (Suc m) u @ vs" by blast
      then have "replicate n t @ x # ts = (replicate n t @ us) @ replicate (Suc m) u @ vs" by simp
      then show "\<exists>us u vs. replicate n t @ x # ts = us @ replicate (Suc m) u @ vs" by blast
    qed
    show ?thesis
    proof (cases m)
      case 0
      then have "x # ts = [] @ replicate (Suc m) x @ ts" by simp
      then have "\<exists>us u vs. x # ts = us @ replicate (Suc m) u @ vs" by blast
      with skip 0 False show ?thesis by (simp add: Let_def)
    next
      case (Suc k)
      with Cons.IH [of 1 x] skip False show ?thesis by (simp add: Let_def)
    qed
  qed
qed

lemma run_overrun_iff:
  "0 < m \<Longrightarrow> run_overrun m None 0 ts \<longleftrightarrow> (\<exists>us u vs. ts = us @ replicate (Suc m) u @ vs)"
  using run_overrun_Some [of 1 m] by (cases ts) (auto simp: Let_def)

lemma total_overrun_iff:
  "total_overrun max_total ts \<longleftrightarrow> (\<exists>m. max_total = Some m \<and> (\<exists>t \<in> set ts. m < count_list ts t))"
proof (cases max_total)
  case (Some m)
  have "(k, c) \<in> set (counter_of ts) \<longleftrightarrow> map_of (counter_of ts) k = Some c" for k c
    by (rule map_of_eq_Some_iff [symmetric]) (use counter_of_distinct [of ts] in \<open>simp add: dict_keys_def\<close>)
  then have "(\<exists>p \<in> set (counter_of ts). m < snd p) \<longleftrightarrow> (\<exists>t \<in> set ts. m < count_list ts t)"
    by (metis counter_map_of option.distinct(1) option.inject prod.collapse snd_conv)
  with Some show ?thesis by (simp add: total_overrun_def list_ex_iff split_beta)
qed (simp add: total_overrun_def)

lemma repeats_iff: "repeats seen ks \<longleftrightarrow> \<not> distinct ks \<or> set seen \<inter> set ks \<noteq> {}"
  by (induction seen ks rule: repeats.induct) auto

lemma hard_invariants_Nil:
  "check_hard_invariants h t = [] \<longleftrightarrow>
     set (hv_forbidden_tools h) \<inter> set (tools_invoked t) = {} \<and>
     (\<forall>m. hv_max_tool_calls h = Some m \<longrightarrow> int (length (tools_invoked t)) \<le> m)"
  by (cases "hv_max_tool_calls h")
    (auto simp: check_hard_invariants_def Let_def filter_empty_conv)

subsection \<open>The verdict\<close>

lemma trajectory_grade_cases:
  assumes "trajectory_grade g ctx = Inr r"
  obtains res where "grd_grade (tg_output_grader g) ctx = Inr res" "gr_grader r = tg_name g"
    "check_hard_invariants (tg_hard g) (gcx_trace ctx) = [] \<longrightarrow> gr_label r = gr_label res \<and>
       gr_score r = gr_score res \<and> gr_failure_modes r = gr_failure_modes res"
    "check_hard_invariants (tg_hard g) (gcx_trace ctx) \<noteq> [] \<longrightarrow> gr_label r = GradeLabel.FAIL \<and>
       gr_score r = Some 0 \<and> gr_failure_modes r \<noteq> []"
  using assms that by (auto simp: trajectory_grade_def bind_result_Inr_iff Let_def)

context grader_contract
begin

text \<open>A trajectory grader over an output grader that keeps the contract keeps it.\<close>

lemma trajectory_well:
  assumes "grd_grade (tg_output_grader g) = grade" "good_context ctx" "trajectory_grade g ctx = Inr r"
  shows "well_graded (tg_name g) r"
proof -
  obtain res where "grade ctx = Inr res" "gr_grader r = tg_name g"
    "check_hard_invariants (tg_hard g) (gcx_trace ctx) = [] \<longrightarrow> gr_label r = gr_label res \<and>
       gr_score r = gr_score res \<and> gr_failure_modes r = gr_failure_modes res"
    "check_hard_invariants (tg_hard g) (gcx_trace ctx) \<noteq> [] \<longrightarrow> gr_label r = GradeLabel.FAIL \<and>
       gr_score r = Some 0 \<and> gr_failure_modes r \<noteq> []"
    using trajectory_grade_cases [OF assms(3)] assms(1) by metis
  moreover from this have "well_graded nm res" using grades_well assms(2) by blast
  ultimately show ?thesis
    by (cases "check_hard_invariants (tg_hard g) (gcx_trace ctx) = []") (auto simp: well_graded_def)
qed

end

text \<open>The default output grader is the deterministic one.\<close>

interpretation trajectory:
  grader_contract "tg_name g" "trajectory_grade (g\<lparr>tg_output_grader := \<lparr>grd_name = dg_name d, grd_grade = deterministic_grade d\<rparr>\<rparr>)"
  for g d
proof
  fix ctx r
  assume "good_context ctx"
    and "trajectory_grade (g\<lparr>tg_output_grader := \<lparr>grd_name = dg_name d, grd_grade = deterministic_grade d\<rparr>\<rparr>) ctx = Inr r"
  then show "well_graded (tg_name g) r"
    using deterministic.trajectory_well [of "g\<lparr>tg_output_grader := \<lparr>grd_name = dg_name d, grd_grade = deterministic_grade d\<rparr>\<rparr>" d ctx r]
    by simp
qed

end
