(* ===== verification/Funnel.thy ===== *)
theory Funnel
  imports Scenario_Exec Select
begin

section \<open>graders/funnel.py\<close>

text \<open>
  A funnel scores a case in stages.  A level carries the grader that scores its stage, may gate its
  descendants, and contributes a node to the breakdown tree; the verdict is taken over the levels
  that were evaluated.  \<open>run_level\<close> is the code's recursion with its two accumulators (the row of
  nodes and the list of evaluated nodes, children first); \<open>reached\<close> says which levels are graded
  at all, and the lemmas relate the two: the verdict, the gates, the count and the grader contract.
\<close>

datatype Level = Level
  (lv_key: string)
  (lv_extract: string)
  (lv_match: Grader)
  (lv_gate: bool)
  (lv_failure_mode: "string option")
  (lv_feeds_extract: bool)
  (lv_children: "Level list")

subsection \<open>Builtin matches\<close>

definition structured :: "GraderContext \<Rightarrow> json dict option" where
  "structured ctx = (case gcx_response ctx of None \<Rightarrow> None | Some r \<Rightarrow> rsp_structured_output r)"

definition leaf :: "string \<Rightarrow> bool \<Rightarrow> string \<Rightarrow> GradeResult" where
  "leaf nm passed failure_mode =
     grade_result nm (if passed then GradeLabel.PASS else GradeLabel.FAIL) (Some (if passed then 1 else 0))
       (if passed then [] else [failure_mode]) None"

definition selected :: "GraderContext \<Rightarrow> string \<Rightarrow> json option" where
  "selected ctx path = (case structured ctx of None \<Rightarrow> None | Some so \<Rightarrow> select (JObj so) path)"

definition is_bool :: "json \<Rightarrow> bool" where
  "is_bool j = (case j of JBool _ \<Rightarrow> True | _ \<Rightarrow> False)"

text \<open>\<^verbatim>\<open>_eq\<close>; \<open>casefold\<close> is \<open>lower\<close> on ASCII.\<close>

definition contract_eq :: "bool \<Rightarrow> json option \<Rightarrow> json \<Rightarrow> bool" where
  "contract_eq case_sensitive actual expected =
     (let a = (case actual of None \<Rightarrow> JNull | Some x \<Rightarrow> x)
      in case (case_sensitive, a, expected) of
           (False, JStr s, JStr t) \<Rightarrow> lower s = lower t
         | _ \<Rightarrow> if is_bool a \<noteq> is_bool expected then False else py_eq a expected)"

definition exists_match :: "string \<Rightarrow> string \<Rightarrow> string \<Rightarrow> GraderContext \<Rightarrow> GradeResult result" where
  "exists_match nm slice fm ctx =
     Inr (leaf nm (selected ctx slice \<notin> {None, Some (JList []), Some (JObj []), Some (JStr [])}) fm)"

definition equals_match ::
    "string \<Rightarrow> string \<Rightarrow> json \<Rightarrow> bool \<Rightarrow> string \<Rightarrow> GraderContext \<Rightarrow> GradeResult result" where
  "equals_match nm slice v case_sensitive fm ctx =
     Inr (leaf nm (contract_eq case_sensitive (selected ctx slice) v) fm)"

definition by_key_match ::
    "string \<Rightarrow> string \<Rightarrow> string \<Rightarrow> json \<Rightarrow> bool \<Rightarrow> string \<Rightarrow> GraderContext \<Rightarrow> GradeResult result" where
  "by_key_match nm slice key v case_sensitive fm ctx =
     (let actual = (case selected ctx slice of Some (JObj d) \<Rightarrow> map_of d key | _ \<Rightarrow> None)
      in Inr (leaf nm (contract_eq case_sensitive actual v) fm))"

definition by_index_match ::
    "string \<Rightarrow> string \<Rightarrow> int \<Rightarrow> json \<Rightarrow> bool \<Rightarrow> string \<Rightarrow> GraderContext \<Rightarrow> GradeResult result" where
  "by_index_match nm slice i v case_sensitive fm ctx =
     (let actual = (case selected ctx slice of
          Some (JList xs) \<Rightarrow>
            if - int (length xs) \<le> i \<and> i < int (length xs)
            then Some (xs ! nat (if i < 0 then i + int (length xs) else i)) else None
        | _ \<Rightarrow> None)
      in Inr (leaf nm (contract_eq case_sensitive actual v) fm))"

definition tool_called_match :: "string \<Rightarrow> string \<Rightarrow> string \<Rightarrow> GraderContext \<Rightarrow> GradeResult result" where
  "tool_called_match nm tool fm ctx =
     Inr (leaf nm (list_ex (\<lambda>s. case s of ToolCallSpan t \<Rightarrow> tc_tool_name t = tool | _ \<Rightarrow> False)
       (tr_spans (gcx_trace ctx))) fm)"

definition span_exists_match :: "string \<Rightarrow> SpanKind \<Rightarrow> string \<Rightarrow> GraderContext \<Rightarrow> GradeResult result" where
  "span_exists_match nm kind fm ctx =
     Inr (leaf nm (list_ex (\<lambda>s. span_kind s = kind) (tr_spans (gcx_trace ctx))) fm)"

subsection \<open>Running the levels\<close>

text \<open>\<^verbatim>\<open>{**so, "detected": extracted}\<close>.\<close>

definition feed :: "string \<Rightarrow> GraderContext \<Rightarrow> GraderContext" where
  "feed slice ctx = (case gcx_response ctx of
     None \<Rightarrow> ctx
   | Some r \<Rightarrow> (case rsp_structured_output r of
       None \<Rightarrow> ctx
     | Some so \<Rightarrow>
         let extracted = (case select (JObj so) slice of None \<Rightarrow> JNull | Some v \<Rightarrow> v)
         in ctx\<lparr>gcx_response := Some (r\<lparr>rsp_structured_output := Some (AList.update ''detected'' extracted so)\<rparr>)\<rparr>))"

definition failing :: "GradeLabel \<Rightarrow> bool" where
  "failing l \<longleftrightarrow> l = GradeLabel.FAIL \<or> l = GradeLabel.ERROR"

text \<open>The grade of a level: a match that raises is an ERROR.\<close>

definition level_result :: "GraderContext \<Rightarrow> Level \<Rightarrow> GradeResult" where
  "level_result ctx lv =
     (case grd_grade (lv_match lv) (if lv_feeds_extract lv then feed (lv_extract lv) ctx else ctx) of
        Inl _ \<Rightarrow> grade_result (grd_name (lv_match lv)) GradeLabel.ERROR None [] None
      | Inr r \<Rightarrow> r)"

definition level_failure_modes :: "Level \<Rightarrow> GradeResult \<Rightarrow> string list" where
  "level_failure_modes lv r =
     (if \<not> failing (gr_label r) then []
      else case lv_failure_mode lv of
             Some m \<Rightarrow> [m]
           | None \<Rightarrow> if gr_failure_modes r \<noteq> [] then gr_failure_modes r
                     else [''funnel_'' @ lv_key lv @ ''_fail''])"

fun skipped_node :: "Level \<Rightarrow> BreakdownNode" where
  "skipped_node (Level key slice match gate fm feeds children) =
     BreakdownNode key (Some GradeLabel.SKIPPED) None 0 ''skipped: an upstream gate failed'' []
       (map skipped_node children)"

text \<open>The node of a level, and the evaluated nodes of its subtree in the order they are finished.\<close>

fun run_level :: "GraderContext \<Rightarrow> Level \<Rightarrow> BreakdownNode \<times> BreakdownNode list" where
  "run_level ctx (Level key slice match gate fm feeds children) =
     (let lv = Level key slice match gate fm feeds children;
          r = level_result ctx lv;
          inner = (case gr_breakdown r of None \<Rightarrow> [] | Some b \<Rightarrow> bn_children b);
          runs = (if gate \<and> failing (gr_label r) then map (\<lambda>c. (skipped_node c, [])) children
                  else map (run_level ctx) children);
          node = BreakdownNode key (Some (gr_label r)) (gr_score r) 1 (gr_reason r)
            (level_failure_modes lv r) (inner @ map fst runs)
      in (node, concat (map snd runs) @ [node]))"

subsection \<open>The grader\<close>

record FunnelGrader =
  fg_name :: string
  fg_levels :: "Level list"

fun all_levels :: "Level \<Rightarrow> Level list" where
  "all_levels (Level key slice match gate fm feeds children) =
     Level key slice match gate fm feeds children # concat (map all_levels children)"

definition all_keys :: "Level list \<Rightarrow> string list" where
  "all_keys levels = map lv_key (concat (map all_levels levels))"

definition make_FunnelGrader :: "string \<Rightarrow> Level list \<Rightarrow> FunnelGrader result" where
  "make_FunnelGrader nm levels =
     (if nm = [] \<or> levels = [] \<or> \<not> distinct (all_keys levels) then Inl ValueError
      else Inr \<lparr>fg_name = nm, fg_levels = levels\<rparr>)"

text \<open>\<^verbatim>\<open>list(dict.fromkeys(xs))\<close>: the first occurrence of each.\<close>

definition first_occurrences :: "'a list \<Rightarrow> 'a list" where
  "first_occurrences xs = rev (remdups (rev xs))"

definition funnel_label :: "GradeLabel list \<Rightarrow> GradeLabel" where
  "funnel_label labels =
     (if GradeLabel.ERROR \<in> set labels then GradeLabel.ERROR
      else if GradeLabel.FAIL \<in> set labels then GradeLabel.FAIL else GradeLabel.PASS)"

definition funnel_grade :: "FunnelGrader \<Rightarrow> GraderContext \<Rightarrow> GradeResult result" where
  "funnel_grade g ctx =
     (let runs = map (run_level ctx) (fg_levels g);
          evaluated = concat (map snd runs);
          label = funnel_label (List.map_filter bn_label evaluated);
          scored = List.map_filter bn_score evaluated;
          score = (if scored = [] then None else Some (sum_list scored / of_nat (length scored)));
          modes = first_occurrences (concat (map bn_failure_modes evaluated))
      in Inr (grade_result (fg_name g) label score modes
           (Some (BreakdownNode ''funnel'' (Some label) score 1 no_text modes (map fst runs)))))"

subsection \<open>Which levels are graded\<close>

fun reached :: "GraderContext \<Rightarrow> Level \<Rightarrow> Level list" where
  "reached ctx (Level key slice match gate fm feeds children) =
     (let lv = Level key slice match gate fm feeds children
      in (if gate \<and> failing (gr_label (level_result ctx lv)) then []
          else concat (map (reached ctx) children)) @ [lv])"

definition level_node_ok :: "GraderContext \<Rightarrow> Level \<Rightarrow> BreakdownNode \<Rightarrow> bool" where
  "level_node_ok ctx lv n \<longleftrightarrow> bn_key n = lv_key lv \<and> bn_label n = Some (gr_label (level_result ctx lv)) \<and>
     bn_score n = gr_score (level_result ctx lv) \<and> bn_weight n = 1 \<and>
     bn_failure_modes n = level_failure_modes lv (level_result ctx lv)"

lemma level_node_ok_self [simp]:
  fixes key slice match gate fm feeds children
  defines "lv \<equiv> Level key slice match gate fm feeds children"
  shows "level_node_ok ctx lv (BreakdownNode key (Some (gr_label (level_result ctx lv)))
    (gr_score (level_result ctx lv)) 1 rs (level_failure_modes lv (level_result ctx lv)) cs)"
  by (simp add: level_node_ok_def lv_def)

lemma list_all2_concat: "list_all2 (list_all2 P) xss yss \<Longrightarrow> list_all2 P (concat xss) (concat yss)"
  by (induction xss yss rule: list_all2_induct) (auto intro: list_all2_appendI)

text \<open>The evaluated nodes are those of the levels reached, in the same order.\<close>

lemma run_level_reached: "list_all2 (level_node_ok ctx) (reached ctx lv) (snd (run_level ctx lv))"
proof (induction lv)
  case (Level key slice match gate fm feeds children)
  then have "list_all2 (list_all2 (level_node_ok ctx)) (map (reached ctx) children)
      (map (\<lambda>c. snd (run_level ctx c)) children)"
    by (simp add: list_all2_conv_all_nth)
  from list_all2_concat [OF this] show ?case
    by (cases "gate \<and> failing (gr_label (level_result ctx (Level key slice match gate fm feeds children)))")
      (auto simp: Let_def comp_def map_replicate_const intro!: list_all2_appendI)
qed

lemma evaluated_reached:
  "list_all2 (level_node_ok ctx) (concat (map (reached ctx) lvs)) (concat (map (\<lambda>lv. snd (run_level ctx lv)) lvs))"
  by (induction lvs) (auto intro: list_all2_appendI run_level_reached)

lemma evaluated_map:
  assumes "list_all2 (level_node_ok ctx) lvs ns"
  shows "List.map_filter bn_label ns = map (\<lambda>lv. gr_label (level_result ctx lv)) lvs"
    "List.map_filter bn_score ns = List.map_filter (\<lambda>lv. gr_score (level_result ctx lv)) lvs"
    "concat (map bn_failure_modes ns) = concat (map (\<lambda>lv. level_failure_modes lv (level_result ctx lv)) lvs)"
  using assms by (induction rule: list_all2_induct)
    (auto simp: level_node_ok_def map_filter_simps split: option.splits)

lemma set_first_occurrences [simp]: "set (first_occurrences xs) = set xs"
  by (simp add: first_occurrences_def)

text \<open>The verdict in terms of the levels reached.\<close>

definition funnel_reached :: "FunnelGrader \<Rightarrow> GraderContext \<Rightarrow> Level list" where
  "funnel_reached g ctx = concat (map (reached ctx) (fg_levels g))"

lemma funnel_grade_reached:
  "\<exists>b. funnel_grade g ctx = Inr (grade_result (fg_name g)
     (funnel_label (map (\<lambda>lv. gr_label (level_result ctx lv)) (funnel_reached g ctx)))
     (let s = List.map_filter (\<lambda>lv. gr_score (level_result ctx lv)) (funnel_reached g ctx)
      in if s = [] then None else Some (mean s))
     (first_occurrences (concat (map (\<lambda>lv. level_failure_modes lv (level_result ctx lv)) (funnel_reached g ctx)))) b)"
  using evaluated_map [OF evaluated_reached, of ctx "fg_levels g"]
  by (simp add: funnel_grade_def Let_def comp_def funnel_reached_def mean_def grade_result_def)

lemma funnel_label_cases:
  "funnel_label ls = GradeLabel.ERROR \<longleftrightarrow> GradeLabel.ERROR \<in> set ls"
  "funnel_label ls = GradeLabel.FAIL \<longleftrightarrow> GradeLabel.FAIL \<in> set ls \<and> GradeLabel.ERROR \<notin> set ls"
  "funnel_label ls = GradeLabel.PASS \<longleftrightarrow> (\<forall>l \<in> set ls. \<not> failing l)"
  by (auto simp: funnel_label_def failing_def)

lemma reached_self: "lv \<in> set (reached ctx lv)"
  by (cases lv) (simp add: Let_def)

lemma reached_subset: "set (reached ctx lv) \<subseteq> set (all_levels lv)"
  by (induction lv) (auto simp: Let_def)

subsection \<open>Gates\<close>

text \<open>What a failed gate keeps out: its descendants are skipped, with weight 0 and no score.\<close>

fun all_skipped :: "BreakdownNode \<Rightarrow> bool" where
  "all_skipped (BreakdownNode k l s w r fms cs) \<longleftrightarrow>
     l = Some GradeLabel.SKIPPED \<and> s = None \<and> w = 0 \<and> fms = [] \<and> list_all all_skipped cs"

lemma skipped_node_all: "all_skipped (skipped_node lv)"
  by (induction lv) (simp add: list_all_iff)

lemma failed_gate:
  assumes "lv_gate lv" "failing (gr_label (level_result ctx lv))"
  shows "reached ctx lv = [lv] \<and> length (snd (run_level ctx lv)) = 1 \<and>
    (\<exists>inner. bn_children (fst (run_level ctx lv)) = inner @ map skipped_node (lv_children lv))"
  using assms by (cases lv) (auto simp: Let_def comp_def)

text \<open>Without a failed gate every level of the tree is graded.\<close>

lemma reached_all:
  assumes "\<And>l. l \<in> set (all_levels lv) \<Longrightarrow> \<not> (lv_gate l \<and> failing (gr_label (level_result ctx l)))"
  shows "set (reached ctx lv) = set (all_levels lv) \<and> length (reached ctx lv) = length (all_levels lv)"
  using assms
proof (induction lv)
  case (Level key slice match gate fm feeds children)
  have "set (reached ctx c) = set (all_levels c) \<and> length (reached ctx c) = length (all_levels c)"
    if "c \<in> set children" for c
    using Level.IH [OF that] Level.prems that by (simp, blast)
  moreover from this have "sum_list (map (\<lambda>c. length (reached ctx c)) children) =
      sum_list (map (\<lambda>c. length (all_levels c)) children)"
    by (intro arg_cong [where f = sum_list] map_cong) auto
  moreover have "\<not> (gate \<and> failing (gr_label (level_result ctx (Level key slice match gate fm feeds children))))"
    using Level.prems [of "Level key slice match gate fm feeds children"] by simp
  ultimately show ?case by (auto simp: Let_def length_concat comp_def)
qed

subsection \<open>The grader contract\<close>

lemma good_context_feed: "good_context (feed e ctx) = good_context ctx"
  by (simp add: feed_def good_context_def Let_def split: option.splits)

definition sound_level :: "Level \<Rightarrow> bool" where
  "sound_level lv \<longleftrightarrow> (\<forall>ctx g. good_context ctx \<longrightarrow> grd_grade (lv_match lv) ctx = Inr g \<longrightarrow>
     well_graded (grd_name (lv_match lv)) g)"

lemma level_result_score:
  assumes "sound_level lv" "good_context ctx"
  shows "score_ok (gr_score (level_result ctx lv))"
proof -
  let ?ctx = "if lv_feeds_extract lv then feed (lv_extract lv) ctx else ctx"
  have "good_context ?ctx" using assms(2) by (simp add: good_context_feed)
  with assms(1) show ?thesis
    by (cases "grd_grade (lv_match lv) ?ctx") (simp_all add: level_result_def sound_level_def well_graded_def)
qed

lemma level_failure_modes_nonempty: "failing (gr_label r) \<Longrightarrow> level_failure_modes lv r \<noteq> []"
  by (simp add: level_failure_modes_def split: option.splits)

lemma funnel_well:
  assumes "list_all sound_level (concat (map all_levels (fg_levels g)))" "good_context ctx" "funnel_grade g ctx = Inr r"
  shows "well_graded (fg_name g) r"
proof -
  let ?lvs = "funnel_reached g ctx"
  let ?s = "List.map_filter (\<lambda>lv. gr_score (level_result ctx lv)) ?lvs"
  have sub: "set ?lvs \<subseteq> set (concat (map all_levels (fg_levels g)))"
    using reached_subset by (fastforce simp: funnel_reached_def)
  have "\<forall>x \<in> set ?s. 0 \<le> x \<and> x \<le> 1"
  proof
    fix x assume "x \<in> set ?s"
    then obtain lv where "lv \<in> set ?lvs" "gr_score (level_result ctx lv) = Some x"
      by (auto simp: List.map_filter_def)
    moreover from this have "sound_level lv" using assms(1) sub by (auto simp: list_all_iff)
    ultimately show "0 \<le> x \<and> x \<le> 1" using level_result_score [OF _ assms(2), of lv] by simp
  qed
  then have "score_ok (if ?s = [] then None else Some (mean ?s))" using mean_unit [of ?s] by simp
  moreover have "\<exists>lv \<in> set ?lvs. failing (gr_label (level_result ctx lv))"
    if "funnel_label (map (\<lambda>lv. gr_label (level_result ctx lv)) ?lvs) = GradeLabel.FAIL"
  proof -
    from that have "GradeLabel.FAIL \<in> (\<lambda>lv. gr_label (level_result ctx lv)) ` set ?lvs" by (simp add: funnel_label_cases)
    then show ?thesis by (force simp: failing_def)
  qed
  ultimately show ?thesis
    using funnel_grade_reached [of g ctx] assms(3) level_failure_modes_nonempty
    by (fastforce simp: Let_def first_occurrences_def)
qed

text \<open>Every builtin match keeps the contract.\<close>

lemma leaf_well [simp]: "well_graded nm (leaf nm p fm)"
  by (simp add: leaf_def)

interpretation exists_match: grader_contract nm "exists_match nm slice fm" for nm slice fm
  by unfold_locales (auto simp: exists_match_def)

interpretation equals_match: grader_contract nm "equals_match nm slice v cs fm" for nm slice v cs fm
  by unfold_locales (auto simp: equals_match_def)

interpretation by_key_match: grader_contract nm "by_key_match nm slice key v cs fm" for nm slice key v cs fm
  by unfold_locales (auto simp: by_key_match_def Let_def)

interpretation by_index_match: grader_contract nm "by_index_match nm slice i v cs fm" for nm slice i v cs fm
  by unfold_locales (auto simp: by_index_match_def Let_def)

interpretation tool_called_match: grader_contract nm "tool_called_match nm tool fm" for nm tool fm
  by unfold_locales (auto simp: tool_called_match_def)

interpretation span_exists_match: grader_contract nm "span_exists_match nm kind fm" for nm kind fm
  by unfold_locales (auto simp: span_exists_match_def)

end
