(* ===== verification/Judges.thy ===== *)
theory Judges
  imports Scenario_Exec
begin

section \<open>graders/llm\_judge.py, graders/pairwise.py and schemas/grader\_card.py\<close>

text \<open>
  The two graders that ask a model.  The judge is an argument: it maps the texts shown in the prompt
  to a reply, or raises; a reply text is represented by what \<^verbatim>\<open>json.loads\<close> makes of it (\<open>None\<close> for a
  text that is not JSON), and \<open>float_of_str\<close> stands for \<^verbatim>\<open>float\<close> on a string.  Everything the code does
  with the reply is modelled: which replies become a verdict, which an ERROR, and which exceptions
  escape.
\<close>

type_synonym reply = "json option"

text \<open>\<^verbatim>\<open>str(data.get(key, "")).strip().lower()\<close>.  The text of a value that is not a string (\<^verbatim>\<open>None\<close>, a
  number, a rendered list) is never one of the words a judge may answer.\<close>

definition reply_word :: "json dict \<Rightarrow> string \<Rightarrow> string" where
  "reply_word d k = (case dict_get d k (JStr []) of JStr s \<Rightarrow> lower (strip s) | _ \<Rightarrow> ''none'')"

text \<open>\<^verbatim>\<open>str(data.get("reason", "")).strip() or "no reason supplied"\<close>.\<close>

definition reply_reason :: "json dict \<Rightarrow> string" where
  "reply_reason d = (case dict_get d ''reason'' (JStr []) of
     JStr s \<Rightarrow> if strip s = [] then ''no reason supplied'' else strip s
   | _ \<Rightarrow> no_text)"

text \<open>\<^verbatim>\<open>float(value)\<close>: a string may not parse, a container or \<^verbatim>\<open>None\<close> has no value at all.\<close>

definition py_float :: "(string \<Rightarrow> rat option) \<Rightarrow> json \<Rightarrow> rat result" where
  "py_float float_of_str j = (case j of
     JStr s \<Rightarrow> (case float_of_str s of None \<Rightarrow> Inl ValueError | Some q \<Rightarrow> Inr q)
   | _ \<Rightarrow> (case json_num j of None \<Rightarrow> Inl TypeError | Some q \<Rightarrow> Inr q))"

definition reply_object :: "reply \<Rightarrow> json dict result" where
  "reply_object r = (case r of Some (JObj d) \<Rightarrow> Inr d | _ \<Rightarrow> Inl ValueError)"

subsection \<open>Grader cards\<close>

record CalibrationMetrics =
  cme_precision :: "rat option"
  cme_recall :: "rat option"
  cme_high_risk_false_negatives :: "nat option"

record CalibrationThresholds =
  cth_min_precision :: "rat option"
  cth_min_recall :: "rat option"
  cth_max_high_risk_false_negatives :: "nat option"

record GraderCard =
  gcd_blocking :: bool
  gcd_metrics :: CalibrationMetrics
  gcd_thresholds :: CalibrationThresholds

definition validate_GraderCard :: "GraderCard \<Rightarrow> GraderCard result" where
  "validate_GraderCard c =
     (let t = gcd_thresholds c;
          bad = (case cth_min_precision t of None \<Rightarrow> True | Some x \<Rightarrow> x < 90 / 100) \<or>
            (case cth_min_recall t of None \<Rightarrow> True | Some x \<Rightarrow> x < 95 / 100) \<or>
            cth_max_high_risk_false_negatives t \<noteq> Some 0
      in if gcd_blocking c \<and> bad then Inl ValueError else Inr c)"

definition below_minimum :: "rat option \<Rightarrow> rat option \<Rightarrow> bool" where
  "below_minimum threshold metric = (case threshold of
     None \<Rightarrow> False | Some t \<Rightarrow> (case metric of None \<Rightarrow> True | Some m \<Rightarrow> m < t))"

definition is_card_calibrated :: "GraderCard option \<Rightarrow> bool" where
  "is_card_calibrated c = (case c of
     None \<Rightarrow> True
   | Some gc \<Rightarrow>
       if \<not> gcd_blocking gc then True
       else let m = gcd_metrics gc; t = gcd_thresholds gc
            in if below_minimum (cth_min_precision t) (cme_precision m) then False
               else if below_minimum (cth_min_recall t) (cme_recall m) then False
               else (case cth_max_high_risk_false_negatives t of
                       None \<Rightarrow> True
                     | Some mx \<Rightarrow> (case cme_high_risk_false_negatives m of None \<Rightarrow> False | Some n \<Rightarrow> n \<le> mx)))"

subsection \<open>The rubric judge\<close>

record JudgeDecision =
  jdn_label :: GradeLabel
  jdn_reason :: string
  jdn_score :: "rat option"
  jdn_confidence :: "rat option"

definition opt_float :: "(string \<Rightarrow> rat option) \<Rightarrow> json \<Rightarrow> rat option result" where
  "opt_float float_of_str j = (if j = JNull then Inr None else map_sum id Some (py_float float_of_str j))"

definition parse_judge_output :: "(string \<Rightarrow> rat option) \<Rightarrow> reply \<Rightarrow> JudgeDecision result" where
  "parse_judge_output float_of_str r =
     bind_result (reply_object r) (\<lambda>d.
     bind_result (enum_of GradeLabel_value GradeLabel_members (reply_word d ''label'')) (\<lambda>label.
     bind_result (opt_float float_of_str (dict_get d ''score'' JNull)) (\<lambda>score.
     bind_result (opt_float float_of_str (dict_get d ''confidence'' JNull)) (\<lambda>confidence.
       Inr \<lparr>jdn_label = label, jdn_reason = reply_reason d, jdn_score = score, jdn_confidence = confidence\<rparr>))))"

record LLMJudgeGrader =
  lj_name :: string
  lj_card :: "GraderCard option"
  lj_force :: bool

definition extract_response_text :: "GraderContext \<Rightarrow> string" where
  "extract_response_text ctx = (case gcx_response ctx of
     None \<Rightarrow> [] | Some r \<Rightarrow> (case rsp_content r of None \<Rightarrow> [] | Some s \<Rightarrow> s))"

text \<open>\<open>judge\<close> is shown the case and the agent's text.\<close>

definition llm_judge_grade ::
    "(string \<Rightarrow> rat option) \<Rightarrow> (EvalCase \<Rightarrow> string \<Rightarrow> reply result) \<Rightarrow> LLMJudgeGrader \<Rightarrow> GraderContext \<Rightarrow>
       GradeResult result" where
  "llm_judge_grade float_of_str judge g ctx =
     (if \<not> lj_force g \<and> \<not> is_card_calibrated (lj_card g)
      then Inr (grade_result (lj_name g) GradeLabel.SKIPPED None [] None)
      else case judge (gcx_case ctx) (extract_response_text ctx) of
        Inl _ \<Rightarrow> Inr (grade_result (lj_name g) GradeLabel.ERROR None [] None)
      | Inr r \<Rightarrow> (case parse_judge_output float_of_str r of
          Inl ValueError \<Rightarrow> Inr (grade_result (lj_name g) GradeLabel.ERROR None [] None)
        | Inl e \<Rightarrow> Inl e
        | Inr d \<Rightarrow> Inr \<lparr>gr_grader = lj_name g, gr_label = jdn_label d, gr_reason = jdn_reason d,
              gr_score = jdn_score d, gr_confidence = jdn_confidence d, gr_failure_modes = [],
              gr_breakdown = None\<rparr>))"

subsection \<open>The pairwise judge\<close>

datatype Preferred = PrefA | PrefB | PrefTie

definition Preferred_value :: "Preferred \<Rightarrow> string" where
  "Preferred_value p = (case p of PrefA \<Rightarrow> ''a'' | PrefB \<Rightarrow> ''b'' | PrefTie \<Rightarrow> ''tie'')"

record PairwiseDecision =
  pd_preferred :: Preferred
  pd_margin :: rat
  pd_reason :: string

definition parse_preferred :: "string \<Rightarrow> Preferred result" where
  "parse_preferred s =
     (if s = ''a'' then Inr PrefA else if s = ''b'' then Inr PrefB
      else if s = ''tie'' then Inr PrefTie else Inl ValueError)"

definition parse_pairwise_output :: "(string \<Rightarrow> rat option) \<Rightarrow> reply \<Rightarrow> PairwiseDecision result" where
  "parse_pairwise_output float_of_str r =
     bind_result (reply_object r) (\<lambda>d.
     bind_result (parse_preferred (reply_word d ''preferred'')) (\<lambda>p.
     case py_float float_of_str (dict_get d ''margin'' (JFloat 0)) of
       Inl _ \<Rightarrow> Inl ValueError
     | Inr q \<Rightarrow> Inr \<lparr>pd_preferred = p, pd_margin = (if p = PrefTie then 0 else max 0 (min 1 q)),
          pd_reason = reply_reason d\<rparr>))"

definition signed_margin :: "PairwiseDecision \<Rightarrow> rat" where
  "signed_margin d = (case pd_preferred d of PrefA \<Rightarrow> pd_margin d | PrefB \<Rightarrow> - pd_margin d | PrefTie \<Rightarrow> 0)"

definition unswap :: "PairwiseDecision \<Rightarrow> PairwiseDecision" where
  "unswap d = (case pd_preferred d of
     PrefA \<Rightarrow> d\<lparr>pd_preferred := PrefB\<rparr> | PrefB \<Rightarrow> d\<lparr>pd_preferred := PrefA\<rparr> | PrefTie \<Rightarrow> d)"

definition average_decisions :: "PairwiseDecision \<Rightarrow> PairwiseDecision \<Rightarrow> PairwiseDecision" where
  "average_decisions d1 d2 =
     (let avg = (signed_margin d1 + signed_margin d2) / 2;
          reason = ''swap-averaged: '' @ pd_reason d1 @ '' | '' @ pd_reason d2
      in if \<bar>avg\<bar> < 1 / 1000000000 then \<lparr>pd_preferred = PrefTie, pd_margin = 0, pd_reason = reason\<rparr>
         else if 0 < avg then \<lparr>pd_preferred = PrefA, pd_margin = avg, pd_reason = reason\<rparr>
         else \<lparr>pd_preferred = PrefB, pd_margin = - avg, pd_reason = reason\<rparr>)"

text \<open>The judge is shown two texts, the first as response A.\<close>

type_synonym pair_judge = "string \<Rightarrow> string \<Rightarrow> reply result"

definition invoke_judge ::
    "(string \<Rightarrow> rat option) \<Rightarrow> pair_judge \<Rightarrow> string \<Rightarrow> string \<Rightarrow> bool \<Rightarrow> PairwiseDecision result" where
  "invoke_judge float_of_str judge a b swapped =
     bind_result (if swapped then judge b a else judge a b) (\<lambda>r.
     bind_result (parse_pairwise_output float_of_str r) (\<lambda>d. Inr (if swapped then unswap d else d)))"

definition judge_pair ::
    "(string \<Rightarrow> rat option) \<Rightarrow> pair_judge \<Rightarrow> bool \<Rightarrow> string \<Rightarrow> string \<Rightarrow> PairwiseDecision result" where
  "judge_pair float_of_str judge swap_and_average a b =
     bind_result (invoke_judge float_of_str judge a b False) (\<lambda>d.
       if swap_and_average
       then bind_result (invoke_judge float_of_str judge a b True) (\<lambda>s. Inr (average_decisions d s))
       else Inr d)"

record PairwiseGrader =
  pg_name :: string
  pg_tie_is_pass :: bool
  pg_swap :: bool

definition pairwise_result :: "PairwiseGrader \<Rightarrow> PairwiseDecision \<Rightarrow> GradeResult" where
  "pairwise_result g d =
     (let r = (\<lambda>label score modes. (grade_result (pg_name g) label (Some score) modes None)\<lparr>gr_reason := pd_reason d\<rparr>)
      in case pd_preferred d of
           PrefA \<Rightarrow> r GradeLabel.PASS (1 / 2 + pd_margin d / 2) []
         | PrefTie \<Rightarrow> r (if pg_tie_is_pass g then GradeLabel.PASS else GradeLabel.FAIL) (1 / 2) []
         | PrefB \<Rightarrow> r GradeLabel.FAIL (1 / 2 - pd_margin d / 2) [''worse_than_reference''])"

definition pairwise_grade ::
    "(string \<Rightarrow> rat option) \<Rightarrow> (EvalCase \<Rightarrow> pair_judge) \<Rightarrow> PairwiseGrader \<Rightarrow> GraderContext \<Rightarrow> GradeResult result" where
  "pairwise_grade float_of_str judge g ctx = (case ec_reference_output (gcx_case ctx) of
     None \<Rightarrow> Inr (grade_result (pg_name g) GradeLabel.SKIPPED None [] None)
   | Some reference \<Rightarrow>
       (case judge_pair float_of_str (judge (gcx_case ctx)) (pg_swap g) (extract_response_text ctx) reference of
          Inl _ \<Rightarrow> Inr (grade_result (pg_name g) GradeLabel.ERROR None [] None)
        | Inr d \<Rightarrow> Inr (pairwise_result g d)))"

subsection \<open>What a decision can be\<close>

definition decision_ok :: "PairwiseDecision \<Rightarrow> bool" where
  "decision_ok d \<longleftrightarrow> 0 \<le> pd_margin d \<and> pd_margin d \<le> 1 \<and> (pd_preferred d = PrefTie \<longrightarrow> pd_margin d = 0)"

lemma parse_pairwise_ok: "parse_pairwise_output f r = Inr d \<Longrightarrow> decision_ok d"
proof -
  assume "parse_pairwise_output f r = Inr d"
  then obtain x p where e: "(case py_float f (dict_get x ''margin'' (JFloat 0)) of Inl _ \<Rightarrow> Inl ValueError
      | Inr q \<Rightarrow> Inr \<lparr>pd_preferred = p, pd_margin = (if p = PrefTie then 0 else max 0 (min 1 q)),
          pd_reason = reply_reason x\<rparr>) = Inr d"
    unfolding parse_pairwise_output_def bind_result_Inr_iff by blast
  then show ?thesis
    by (cases "py_float f (dict_get x ''margin'' (JFloat 0))") (auto simp: decision_ok_def)
qed

lemma unswap_ok: "decision_ok (unswap d) = decision_ok d"
  by (simp add: decision_ok_def unswap_def split: Preferred.splits)

lemma signed_margin_unswap: "signed_margin (unswap d) = - signed_margin d"
  by (simp add: signed_margin_def unswap_def split: Preferred.splits)

lemma signed_margin_bounds: "decision_ok d \<Longrightarrow> - 1 \<le> signed_margin d \<and> signed_margin d \<le> 1"
  by (auto simp: decision_ok_def signed_margin_def split: Preferred.splits)

lemma average_ok:
  assumes "decision_ok d1" "decision_ok d2"
  shows "decision_ok (average_decisions d1 d2)"
  using signed_margin_bounds [OF assms(1)] signed_margin_bounds [OF assms(2)]
  by (auto simp: average_decisions_def Let_def decision_ok_def abs_less_iff)

lemma judge_pair_ok: "judge_pair f judge swap a b = Inr d \<Longrightarrow> decision_ok d"
  by (auto simp: judge_pair_def invoke_judge_def bind_result_Inr_iff unswap_ok average_ok
      dest!: parse_pairwise_ok split: if_splits)

text \<open>Swapping the two responses mirrors a swap-averaged decision: the position of a response in the
  prompt does not decide.\<close>

definition mirror :: "Preferred \<Rightarrow> Preferred" where
  "mirror p = (case p of PrefA \<Rightarrow> PrefB | PrefB \<Rightarrow> PrefA | PrefTie \<Rightarrow> PrefTie)"

lemma average_mirror:
  "pd_preferred (average_decisions (unswap d2) (unswap d1)) = mirror (pd_preferred (average_decisions d1 d2)) \<and>
   pd_margin (average_decisions (unswap d2) (unswap d1)) = pd_margin (average_decisions d1 d2)"
proof -
  have "(signed_margin (unswap d2) + signed_margin (unswap d1)) / 2 = - ((signed_margin d1 + signed_margin d2) / 2)"
    by (simp add: signed_margin_unswap field_simps)
  then show ?thesis
    by (auto simp: average_decisions_def Let_def mirror_def)
qed

lemma unswap_unswap [simp]: "unswap (unswap d) = d"
  by (cases "pd_preferred d") (simp_all add: unswap_def)

lemma swap_symmetric:
  assumes "judge_pair f judge True a b = Inr d"
  shows "\<exists>d'. judge_pair f judge True b a = Inr d' \<and> pd_preferred d' = mirror (pd_preferred d) \<and>
    pd_margin d' = pd_margin d"
proof -
  obtain r s d1 d2 where "judge a b = Inr r" "parse_pairwise_output f r = Inr d1"
    "judge b a = Inr s" "parse_pairwise_output f s = Inr d2" "d = average_decisions d1 (unswap d2)"
    using assms by (auto simp: judge_pair_def invoke_judge_def bind_result_Inr_iff)
  moreover from this have "judge_pair f judge True b a = Inr (average_decisions d2 (unswap d1))"
    by (simp add: judge_pair_def invoke_judge_def)
  ultimately show ?thesis using average_mirror [where ?d1.0 = d1 and ?d2.0 = "unswap d2"] by simp
qed

subsection \<open>The graders\<close>

lemma pairwise_grade_total: "\<exists>r. pairwise_grade f judge g ctx = Inr r"
  by (auto simp: pairwise_grade_def split: option.splits sum.splits)

text \<open>With ties passing, the pairwise grader keeps the grader contract.\<close>

interpretation pairwise: grader_contract "pg_name g" "pairwise_grade f judge (g\<lparr>pg_tie_is_pass := True\<rparr>)" for g f judge
proof
  fix ctx r
  assume "good_context ctx" and r: "pairwise_grade f judge (g\<lparr>pg_tie_is_pass := True\<rparr>) ctx = Inr r"
  have "well_graded (pg_name g) (pairwise_result (g\<lparr>pg_tie_is_pass := True\<rparr>) d)" if "decision_ok d" for d
    using that by (auto simp: pairwise_result_def Let_def well_graded_def decision_ok_def split: Preferred.splits)
  with r judge_pair_ok show "well_graded (pg_name g) r"
    by (auto simp: pairwise_grade_def split: option.splits sum.splits)
qed

text \<open>With ties failing it does not: a tie fails without a failure mode.\<close>

lemma tie_fails_unattributed:
  "\<not> pg_tie_is_pass g \<Longrightarrow> pd_preferred d = PrefTie \<Longrightarrow>
     gr_label (pairwise_result g d) = GradeLabel.FAIL \<and> gr_failure_modes (pairwise_result g d) = []"
  by (simp add: pairwise_result_def Let_def)

text \<open>The rubric judge does not clamp the score, does not restrict the label to a vote, and lets a
  score of the wrong type escape as an exception.\<close>

lemma judge_score_unclamped:
  assumes "judge (gcx_case ctx) (extract_response_text ctx) =
      Inr (Some (JObj [(''label'', JStr ''pass''), (''score'', JInt 5)]))" "is_card_calibrated (lj_card g)"
  shows "\<exists>r. llm_judge_grade f judge g ctx = Inr r \<and> gr_label r = GradeLabel.PASS \<and> gr_score r = Some 5"
proof -
  have "parse_judge_output f (Some (JObj [(''label'', JStr ''pass''), (''score'', JInt 5)])) =
      Inr \<lparr>jdn_label = GradeLabel.PASS, jdn_reason = ''no reason supplied'', jdn_score = Some 5, jdn_confidence = None\<rparr>"
    by (simp add: parse_judge_output_def reply_object_def reply_word_def dict_get_def opt_float_def py_float_def
        reply_reason_def strip_def lower_def lower_char_def is_space_def enum_of_def GradeLabel_members_def)
  with assms show ?thesis by (simp add: llm_judge_grade_def)
qed

lemma judge_type_error_escapes:
  assumes "judge (gcx_case ctx) (extract_response_text ctx) =
      Inr (Some (JObj [(''label'', JStr ''pass''), (''score'', JList [])]))" "is_card_calibrated (lj_card g)"
  shows "llm_judge_grade f judge g ctx = Inl TypeError"
proof -
  have "parse_judge_output f (Some (JObj [(''label'', JStr ''pass''), (''score'', JList [])])) = Inl TypeError"
    by (simp add: parse_judge_output_def reply_object_def reply_word_def dict_get_def opt_float_def py_float_def
        strip_def lower_def lower_char_def is_space_def enum_of_def GradeLabel_members_def)
  with assms show ?thesis by (simp add: llm_judge_grade_def)
qed

text \<open>A blocking card that was validated lets the judge vote only above the strict bar.\<close>

lemma calibrated_blocking_card:
  assumes "validate_GraderCard c = Inr c" "gcd_blocking c" "is_card_calibrated (Some c)"
  shows "\<exists>p r. cme_precision (gcd_metrics c) = Some p \<and> 90 / 100 \<le> p \<and>
    cme_recall (gcd_metrics c) = Some r \<and> 95 / 100 \<le> r \<and>
    cme_high_risk_false_negatives (gcd_metrics c) = Some 0"
  using assms
  by (fastforce simp: validate_GraderCard_def is_card_calibrated_def below_minimum_def Let_def
      split: option.splits if_splits)

end
