(* ===== verification/Judge_Panel.thy ===== *)
theory Judge_Panel
  imports Scenario_Exec "HOL-Library.Product_Lexorder"
begin

section \<open>graders/judge\_panel.py and graders/judge\_panel\_consensus.py\<close>

text \<open>
  A panel of judges and its consensus.  Members run on the same context, one that raises counts as
  an ERROR; errors and skips do not vote.  The paraphraser of the counterfactual check is an
  argument.  The human spot check and the calibration note only fill \<^verbatim>\<open>GradeResult.details\<close>, which
  the model leaves out.  The facts: what a consensus is, that it does not depend on the order of
  the members, that counterfactuals never change label or score, when the panel raises.
\<close>

record MemberOutcome =
  mo_name :: string
  mo_result :: GradeResult
  mo_weight :: rat

record CounterfactualConfig =
  cfc_enabled :: bool
  cfc_pairs_per_case :: nat
  cfc_max_score_variance :: rat

record JudgePanelGrader =
  pnl_name :: string
  pnl_judges :: "Grader list"
  pnl_consensus_rule :: ConsensusRule
  pnl_weights :: "rat list"
  pnl_counterfactuals :: CounterfactualConfig

definition make_JudgePanelGrader ::
    "string \<Rightarrow> Grader list \<Rightarrow> ConsensusRule \<Rightarrow> rat list option \<Rightarrow> CounterfactualConfig option \<Rightarrow>
       JudgePanelGrader result" where
  "make_JudgePanelGrader nm judges rule weights cf =
     (if nm = [] \<or> judges = [] then Inl ValueError
      else if (case weights of None \<Rightarrow> False
               | Some ws \<Rightarrow> length ws \<noteq> length judges \<or> list_ex (\<lambda>w. w < 0) ws) then Inl ValueError
      else if rule = Weighted \<and> weights = None then Inl ValueError
      else if \<not> distinct (map grd_name judges) then Inl ValueError
      else Inr \<lparr>pnl_name = nm, pnl_judges = judges, pnl_consensus_rule = rule,
        pnl_weights = (case weights of Some ws \<Rightarrow> ws | None \<Rightarrow> replicate (length judges) 1),
        pnl_counterfactuals = (case cf of Some c \<Rightarrow> c
          | None \<Rightarrow> \<lparr>cfc_enabled = False, cfc_pairs_per_case = 3, cfc_max_score_variance = 5 / 100\<rparr>)\<rparr>)"

subsection \<open>Consensus\<close>

definition LABEL_SCORE :: "GradeLabel \<Rightarrow> rat" where
  "LABEL_SCORE l = (case l of GradeLabel.PASS \<Rightarrow> 1 | GradeLabel.PARTIAL \<Rightarrow> 1 / 2 | _ \<Rightarrow> 0)"

definition VOTING_LABELS :: "GradeLabel list" where
  "VOTING_LABELS = [GradeLabel.FAIL, GradeLabel.PARTIAL, GradeLabel.PASS]"

definition CONSERVATISM_RANK :: "GradeLabel \<Rightarrow> int" where
  "CONSERVATISM_RANK l = (case l of GradeLabel.FAIL \<Rightarrow> 0 | GradeLabel.PARTIAL \<Rightarrow> 1 | _ \<Rightarrow> 2)"

definition votes :: "MemberOutcome \<Rightarrow> bool" where
  "votes o' \<longleftrightarrow> gr_label (mo_result o') \<in> set VOTING_LABELS"

text \<open>\<^verbatim>\<open>max\<close> of an empty sequence raises.\<close>

definition argmax_label :: "(GradeLabel \<Rightarrow> rat) \<Rightarrow> GradeLabel result" where
  "argmax_label tally = (case filter (\<lambda>l. tally l \<noteq> 0) VOTING_LABELS of
     [] \<Rightarrow> Inl ValueError
   | l # ls \<Rightarrow> Inr (max_by (\<lambda>l. (tally l, - CONSERVATISM_RANK l)) l ls))"

definition label_weight :: "(MemberOutcome \<Rightarrow> rat) \<Rightarrow> MemberOutcome list \<Rightarrow> GradeLabel \<Rightarrow> rat" where
  "label_weight w voting l = sum_list (map w (filter (\<lambda>o'. gr_label (mo_result o') = l) voting))"

fun most_conservative :: "MemberOutcome list \<Rightarrow> GradeLabel result" where
  "most_conservative [] = Inl ValueError"
| "most_conservative (o' # os) =
     Inr (max_by (\<lambda>l. - CONSERVATISM_RANK l) (gr_label (mo_result o')) (map (\<lambda>x. gr_label (mo_result x)) os))"

definition combine_labels :: "ConsensusRule \<Rightarrow> MemberOutcome list \<Rightarrow> GradeLabel result" where
  "combine_labels rule voting = (case rule of
     Unanimous \<Rightarrow>
       if (\<lambda>o'. gr_label (mo_result o')) ` set voting = {GradeLabel.PASS} then Inr GradeLabel.PASS
       else most_conservative voting
   | Weighted \<Rightarrow> argmax_label (label_weight mo_weight voting)
   | Majority \<Rightarrow> argmax_label (label_weight (\<lambda>_. 1) voting))"

definition member_score :: "GradeResult \<Rightarrow> rat" where
  "member_score r = (case gr_score r of Some s \<Rightarrow> s | None \<Rightarrow> LABEL_SCORE (gr_label r))"

definition rule_weight :: "ConsensusRule \<Rightarrow> MemberOutcome \<Rightarrow> rat" where
  "rule_weight rule o' = (if rule = Weighted then mo_weight o' else 1)"

definition combine_scores :: "ConsensusRule \<Rightarrow> MemberOutcome list \<Rightarrow> GradeLabel \<Rightarrow> rat" where
  "combine_scores rule voting label =
     (let num = sum_list (map (\<lambda>o'. rule_weight rule o' * member_score (mo_result o')) voting);
          den = sum_list (map (rule_weight rule) voting)
      in if den = 0 then LABEL_SCORE label else num / den)"

definition aggregate_confidence :: "MemberOutcome list \<Rightarrow> rat option" where
  "aggregate_confidence voting =
     (let cs = List.map_filter (\<lambda>o'. gr_confidence (mo_result o')) voting
      in if cs = [] then None else Some (sum_list cs / of_nat (length cs)))"

definition population_variance :: "rat list \<Rightarrow> rat" where
  "population_variance vs =
     (if length vs < 2 then 0
      else let m = sum_list vs / of_nat (length vs)
           in sum_list (map (\<lambda>v. (v - m) ^ 2) vs) / of_nat (length vs))"

subsection \<open>Running the panel\<close>

definition run_member :: "GraderContext \<Rightarrow> Grader \<times> rat \<Rightarrow> MemberOutcome" where
  "run_member ctx m = (case m of (judge, w) \<Rightarrow>
     \<lparr>mo_name = grd_name judge,
      mo_result = (case grd_grade judge ctx of
          Inl _ \<Rightarrow> grade_result (grd_name judge) GradeLabel.ERROR None [] None
        | Inr r \<Rightarrow> r),
      mo_weight = w\<rparr>)"

definition run_panel :: "JudgePanelGrader \<Rightarrow> GraderContext \<Rightarrow> MemberOutcome list" where
  "run_panel g ctx = map (run_member ctx) (zip (pnl_judges g) (pnl_weights g))"

definition variant_context :: "(string \<Rightarrow> nat \<Rightarrow> string) \<Rightarrow> GraderContext \<Rightarrow> nat \<Rightarrow> GraderContext" where
  "variant_context paraphraser ctx i =
     (let text = (case gcx_response ctx of None \<Rightarrow> []
            | Some r \<Rightarrow> (case rsp_content r of None \<Rightarrow> [] | Some s \<Rightarrow> s));
          new = paraphraser text i
      in ctx\<lparr>gcx_trace := (gcx_trace ctx)\<lparr>ent_id := ent_id (gcx_trace ctx) @ ''-cf'' @ nat_str i\<rparr>,
             gcx_response := Some (case gcx_response ctx of
                 Some r \<Rightarrow> r\<lparr>rsp_content := Some new\<rparr>
               | None \<Rightarrow> \<lparr>rsp_content = Some new, rsp_structured_output = None, rsp_tool_uses = [],
                   rsp_stop_reason = None, rsp_tokens_input = 0, rsp_tokens_output = 0,
                   rsp_tokens_reasoning = 0, rsp_tokens_cache_read = 0, rsp_tokens_cache_creation = 0,
                   rsp_cost_usd = 0, rsp_provider_metadata = []\<rparr>)\<rparr>)"

definition build_variant_contexts ::
    "(string \<Rightarrow> nat \<Rightarrow> string) \<Rightarrow> GraderContext \<Rightarrow> nat \<Rightarrow> GraderContext list" where
  "build_variant_contexts paraphraser ctx n = map (variant_context paraphraser ctx) [0..<n]"

text \<open>The score of a variant; \<open>None\<close> when nobody votes on it.\<close>

definition variant_score :: "JudgePanelGrader \<Rightarrow> GraderContext \<Rightarrow> rat option result" where
  "variant_score g ctx =
     (let voting = filter votes (run_panel g ctx)
      in if voting = [] then Inr None
         else bind_result (combine_labels (pnl_consensus_rule g) voting) (\<lambda>label.
           Inr (Some (combine_scores (pnl_consensus_rule g) voting label))))"

text \<open>The node and whether the variance is high.\<close>

definition counterfactual_variance ::
    "(string \<Rightarrow> nat \<Rightarrow> string) \<Rightarrow> JudgePanelGrader \<Rightarrow> GraderContext \<Rightarrow> rat \<Rightarrow> (BreakdownNode \<times> bool) result" where
  "counterfactual_variance paraphraser g ctx base_score =
     bind_result (map_result (variant_score g)
         (build_variant_contexts paraphraser ctx (cfc_pairs_per_case (pnl_counterfactuals g)))) (\<lambda>scores.
       let variance = population_variance (base_score # List.map_filter id scores);
           high = cfc_max_score_variance (pnl_counterfactuals g) < variance
       in Inr (BreakdownNode ''counterfactual_variance'' None (Some variance) 0 no_text
            (if high then [''judge_instability''] else []) [], high))"

definition member_node :: "MemberOutcome \<Rightarrow> BreakdownNode" where
  "member_node o' = (let r = mo_result o' in
     BreakdownNode (mo_name o') (Some (gr_label r)) (gr_score r) (mo_weight o') (gr_reason r) (gr_failure_modes r) [])"

definition panel_breakdown :: "MemberOutcome list \<Rightarrow> BreakdownNode option \<Rightarrow> BreakdownNode" where
  "panel_breakdown outcomes cf_node =
     BreakdownNode ''judge_panel'' None None 1 no_text []
       (map member_node outcomes @ (case cf_node of None \<Rightarrow> [] | Some n \<Rightarrow> [n]))"

definition judge_panel_grade ::
    "(string \<Rightarrow> nat \<Rightarrow> string) \<Rightarrow> JudgePanelGrader \<Rightarrow> GraderContext \<Rightarrow> GradeResult result" where
  "judge_panel_grade paraphraser g ctx =
     (let outcomes = run_panel g ctx; voting = filter votes outcomes; rule = pnl_consensus_rule g
      in if voting = []
         then Inr (grade_result (pnl_name g) GradeLabel.ERROR None [] (Some (panel_breakdown outcomes None)))
         else bind_result (combine_labels rule voting) (\<lambda>label.
           let score = combine_scores rule voting label; confidence = aggregate_confidence voting
           in bind_result (if cfc_enabled (pnl_counterfactuals g)
                 then map_sum id Some (counterfactual_variance paraphraser g ctx score) else Inr None) (\<lambda>cf.
             let confidence' = (case cf of Some (_, True) \<Rightarrow> map_option (\<lambda>c. c * (1 / 2)) confidence | _ \<Rightarrow> confidence)
             in Inr ((grade_result (pnl_name g) label (Some score) []
                   (Some (panel_breakdown outcomes (map_option fst cf))))\<lparr>gr_confidence := confidence'\<rparr>))))"

subsection \<open>Facts about consensus\<close>

lemma rank_inj: "l \<in> set VOTING_LABELS \<Longrightarrow> m \<in> set VOTING_LABELS \<Longrightarrow> CONSERVATISM_RANK l = CONSERVATISM_RANK m \<Longrightarrow> l = m"
  by (auto simp: VOTING_LABELS_def CONSERVATISM_RANK_def)

text \<open>The winner has the largest tally, and of those with the largest tally it is the most conservative.\<close>

definition wins :: "(GradeLabel \<Rightarrow> rat) \<Rightarrow> GradeLabel \<Rightarrow> bool" where
  "wins tally l \<longleftrightarrow> l \<in> set VOTING_LABELS \<and> tally l \<noteq> 0 \<and>
     list_all (\<lambda>m. tally m = 0 \<or> tally m < tally l \<or> tally m = tally l \<and> CONSERVATISM_RANK l \<le> CONSERVATISM_RANK m)
       VOTING_LABELS"

lemma winsI:
  assumes "l \<in> set VOTING_LABELS" "tally l \<noteq> 0"
    and "\<And>m. m \<in> set VOTING_LABELS \<Longrightarrow> tally m \<noteq> 0 \<Longrightarrow>
      tally m < tally l \<or> tally m = tally l \<and> CONSERVATISM_RANK l \<le> CONSERVATISM_RANK m"
  shows "wins tally l"
  using assms by (auto simp: wins_def list_all_iff)

lemma wins_unique: "wins tally l \<Longrightarrow> wins tally m \<Longrightarrow> l = m"
proof -
  assume l: "wins tally l" and m: "wins tally m"
  then have "tally m < tally l \<or> tally m = tally l \<and> CONSERVATISM_RANK l \<le> CONSERVATISM_RANK m"
    "tally l < tally m \<or> tally l = tally m \<and> CONSERVATISM_RANK m \<le> CONSERVATISM_RANK l"
    by (auto simp: wins_def list_all_iff)
  then have "CONSERVATISM_RANK l = CONSERVATISM_RANK m" by linarith
  with l m show "l = m" using rank_inj [of l m] by (simp add: wins_def)
qed

lemma argmax_label_wins_aux: "argmax_label tally = Inr l \<Longrightarrow> wins tally l"
proof -
  let ?key = "\<lambda>l. (tally l, - CONSERVATISM_RANK l)"
  assume "argmax_label tally = Inr l"
  then obtain x xs where f: "filter (\<lambda>l. tally l \<noteq> 0) VOTING_LABELS = x # xs" and l: "l = max_by ?key x xs"
    by (auto simp: argmax_label_def split: list.splits)
  have s: "insert x (set xs) = {l \<in> set VOTING_LABELS. tally l \<noteq> 0}"
    using arg_cong [OF f, of set] by simp
  show "wins tally l"
  proof (rule winsI)
    show "l \<in> set VOTING_LABELS" "tally l \<noteq> 0" using max_by_in [of ?key x xs] s l by auto
  next
    fix m assume "m \<in> set VOTING_LABELS" "tally m \<noteq> 0"
    then have "m \<in> insert x (set xs)" using s by simp
    from max_by_ge [OF this, of ?key]
    show "tally m < tally l \<or> tally m = tally l \<and> CONSERVATISM_RANK l \<le> CONSERVATISM_RANK m"
      by (simp add: l less_eq_prod_def) linarith
  qed
qed

lemma argmax_label_wins: "argmax_label tally = Inr l \<longleftrightarrow> wins tally l"
proof
  assume l: "wins tally l"
  then have "filter (\<lambda>l. tally l \<noteq> 0) VOTING_LABELS \<noteq> []" by (auto simp: wins_def filter_empty_conv)
  then obtain m where m: "argmax_label tally = Inr m"
    by (cases "filter (\<lambda>l. tally l \<noteq> 0) VOTING_LABELS") (simp_all add: argmax_label_def)
  with wins_unique [OF l argmax_label_wins_aux [OF m]] show "argmax_label tally = Inr l" by simp
qed (rule argmax_label_wins_aux)

lemma argmax_label_total: "(\<exists>l. argmax_label tally = Inr l) \<longleftrightarrow> (\<exists>l \<in> set VOTING_LABELS. tally l \<noteq> 0)"
proof -
  have t: "(\<exists>l. (case xs of [] \<Rightarrow> Inl e | x # ys \<Rightarrow> Inr (f x ys)) = Inr l) \<longleftrightarrow> xs \<noteq> []"
    for xs :: "GradeLabel list" and e :: py_error and f :: "GradeLabel \<Rightarrow> GradeLabel list \<Rightarrow> GradeLabel"
    by (cases xs) simp_all
  show ?thesis unfolding argmax_label_def t filter_empty_conv by simp
qed

lemma label_weight_mset: "mset os = mset os' \<Longrightarrow> label_weight w os = label_weight w os'"
  by (simp add: label_weight_def fun_eq_iff flip: sum_mset_sum_list)

lemma most_conservative_iff:
  "\<forall>o' \<in> set os. votes o' \<Longrightarrow> most_conservative os = Inr l \<longleftrightarrow>
     l \<in> (\<lambda>o'. gr_label (mo_result o')) ` set os \<and>
     (\<forall>o' \<in> set os. CONSERVATISM_RANK l \<le> CONSERVATISM_RANK (gr_label (mo_result o')))"
proof (cases os)
  case (Cons o' os')
  assume v: "\<forall>o' \<in> set os. votes o'"
  let ?lab = "\<lambda>x. gr_label (mo_result x)" and ?m = "max_by (\<lambda>l. - CONSERVATISM_RANK l) (gr_label (mo_result o')) (map (\<lambda>x. gr_label (mo_result x)) os')"
  have in_os: "?m \<in> ?lab ` set os"
    using max_by_in [of "\<lambda>l. - CONSERVATISM_RANK l" "?lab o'" "map ?lab os'"] Cons by auto
  have le: "CONSERVATISM_RANK ?m \<le> CONSERVATISM_RANK (?lab x)" if "x \<in> set os" for x
    using max_by_ge [of "?lab x" "?lab o'" "map ?lab os'" "\<lambda>l. - CONSERVATISM_RANK l"] that Cons by auto
  have "?m = l" if l: "l \<in> ?lab ` set os" "\<forall>x \<in> set os. CONSERVATISM_RANK l \<le> CONSERVATISM_RANK (?lab x)"
  proof (rule rank_inj)
    show "?m \<in> set VOTING_LABELS" "l \<in> set VOTING_LABELS" using in_os l(1) v by (auto simp: votes_def)
    have "CONSERVATISM_RANK l \<le> CONSERVATISM_RANK ?m" using l(2) in_os by fastforce
    moreover have "CONSERVATISM_RANK ?m \<le> CONSERVATISM_RANK l" using le l(1) by fastforce
    ultimately show "CONSERVATISM_RANK ?m = CONSERVATISM_RANK l" by simp
  qed
  then have "?m = l \<longleftrightarrow> l \<in> ?lab ` set os \<and> (\<forall>x \<in> set os. CONSERVATISM_RANK l \<le> CONSERVATISM_RANK (?lab x))"
    using in_os le by blast
  then show ?thesis by (simp add: Cons)
qed simp

lemma combine_labels_mset:
  assumes "mset os = mset os'" "\<forall>o' \<in> set os. votes o'"
  shows "combine_labels rule os = combine_labels rule os'"
proof -
  have s: "set os = set os'" using assms(1) by (metis set_mset_mset)
  have "most_conservative os = most_conservative os'"
  proof (cases os)
    case Nil
    with s show ?thesis by simp
  next
    case (Cons x xs)
    then obtain l where l: "most_conservative os = Inr l" by simp
    then have "most_conservative os' = Inr l"
      using most_conservative_iff [OF assms(2), of l] most_conservative_iff [of os' l] assms(2) s by simp
    with l show ?thesis by simp
  qed
  then show ?thesis by (simp add: combine_labels_def s label_weight_mset [OF assms(1)] split: ConsensusRule.splits)
qed

lemma unanimous_pass_iff:
  assumes "os \<noteq> []" "\<forall>o' \<in> set os. votes o'"
  shows "combine_labels Unanimous os = Inr GradeLabel.PASS \<longleftrightarrow>
    (\<forall>o' \<in> set os. gr_label (mo_result o') = GradeLabel.PASS)"
proof (cases "\<forall>o' \<in> set os. gr_label (mo_result o') = GradeLabel.PASS")
  case True
  then have "(\<lambda>o'. gr_label (mo_result o')) ` set os = {GradeLabel.PASS}" using assms(1) by (auto simp: image_iff neq_Nil_conv)
  with True show ?thesis by (simp add: combine_labels_def)
next
  case False
  then obtain x where "x \<in> set os" "gr_label (mo_result x) \<noteq> GradeLabel.PASS" by blast
  moreover from this have "CONSERVATISM_RANK (gr_label (mo_result x)) < CONSERVATISM_RANK GradeLabel.PASS"
    using assms(2) by (fastforce simp: votes_def VOTING_LABELS_def CONSERVATISM_RANK_def)
  ultimately show ?thesis
    using False most_conservative_iff [OF assms(2), of GradeLabel.PASS] by (auto simp: combine_labels_def)
qed

lemma LABEL_SCORE_unit: "0 \<le> LABEL_SCORE l \<and> LABEL_SCORE l \<le> 1"
  by (simp add: LABEL_SCORE_def split: GradeLabel.splits)

lemma weighted_mean_unit:
  fixes w s :: "'a \<Rightarrow> rat"
  assumes "\<forall>x \<in> set xs. 0 \<le> w x \<and> 0 \<le> s x \<and> s x \<le> 1"
  shows "0 \<le> (\<Sum>x\<leftarrow>xs. w x * s x) \<and> (\<Sum>x\<leftarrow>xs. w x * s x) \<le> (\<Sum>x\<leftarrow>xs. w x)"
  using assms by (induction xs) (auto intro!: add_mono mult_left_le)

lemma combine_scores_unit:
  assumes "\<forall>o' \<in> set os. 0 \<le> mo_weight o' \<and> score_ok (gr_score (mo_result o'))"
  shows "0 \<le> combine_scores rule os l \<and> combine_scores rule os l \<le> 1"
proof -
  have "\<forall>o' \<in> set os. 0 \<le> rule_weight rule o' \<and> 0 \<le> member_score (mo_result o') \<and> member_score (mo_result o') \<le> 1"
    using assms LABEL_SCORE_unit by (auto simp: rule_weight_def member_score_def split: option.splits)
  from weighted_mean_unit [OF this] show ?thesis
    using LABEL_SCORE_unit [of l] by (auto simp: combine_scores_def Let_def divide_le_eq zero_le_divide_iff)
qed

subsection \<open>Facts about the grade\<close>

lemma judge_panel_cases:
  assumes "judge_panel_grade paraphraser g ctx = Inr r"
  shows "if filter votes (run_panel g ctx) = [] then gr_label r = GradeLabel.ERROR \<and> gr_score r = None
    else combine_labels (pnl_consensus_rule g) (filter votes (run_panel g ctx)) = Inr (gr_label r) \<and>
      gr_score r = Some (combine_scores (pnl_consensus_rule g) (filter votes (run_panel g ctx)) (gr_label r))"
proof (cases "filter votes (run_panel g ctx) = []")
  case True
  with assms show ?thesis by (auto simp: judge_panel_grade_def Let_def)
next
  case False
  with assms obtain label where "combine_labels (pnl_consensus_rule g) (filter votes (run_panel g ctx)) = Inr label"
    "gr_label r = label" "gr_score r = Some (combine_scores (pnl_consensus_rule g) (filter votes (run_panel g ctx)) label)"
    unfolding judge_panel_grade_def Let_def by (auto simp only: bind_result_Inr_iff if_False) simp_all
  with False show ?thesis by simp
qed

text \<open>Counterfactuals are advisory: label and score are those of the panel without them.\<close>

lemma counterfactuals_advisory:
  assumes "judge_panel_grade paraphraser g ctx = Inr r"
  shows "\<exists>r'. judge_panel_grade paraphraser (g\<lparr>pnl_counterfactuals := (pnl_counterfactuals g)\<lparr>cfc_enabled := False\<rparr>\<rparr>) ctx = Inr r' \<and>
    gr_label r = gr_label r' \<and> gr_score r = gr_score r'"
proof -
  let ?g = "g\<lparr>pnl_counterfactuals := (pnl_counterfactuals g)\<lparr>cfc_enabled := False\<rparr>\<rparr>"
  have run: "run_panel ?g ctx = run_panel g ctx" by (simp add: run_panel_def)
  then have "\<exists>r'. judge_panel_grade paraphraser ?g ctx = Inr r'"
    using assms by (auto simp: judge_panel_grade_def Let_def bind_result_Inr_iff)
  then obtain r' where r': "judge_panel_grade paraphraser ?g ctx = Inr r'" by blast
  show ?thesis
    using judge_panel_cases [OF assms] judge_panel_cases [OF r'] r'
    by (auto simp: run split: if_splits)
qed

lemma sum_list_zero: "(\<And>x. x \<in> set xs \<Longrightarrow> f x = 0) \<Longrightarrow> sum_list (map f xs) = (0 :: rat)"
  by (induction xs) simp_all

text \<open>The panel raises when the votes that are left weigh nothing.\<close>

lemma weightless_panel_raises:
  assumes "pnl_consensus_rule g = Weighted" "filter votes (run_panel g ctx) \<noteq> []"
    and "\<forall>o' \<in> set (filter votes (run_panel g ctx)). mo_weight o' = 0"
  shows "judge_panel_grade paraphraser g ctx = Inl ValueError"
proof -
  have "label_weight mo_weight (filter votes (run_panel g ctx)) l = 0" for l
    unfolding label_weight_def by (rule sum_list_zero) (use assms(3) in auto)
  then have "argmax_label (label_weight mo_weight (filter votes (run_panel g ctx))) = Inl ValueError"
    by (simp add: argmax_label_def)
  with assms(1,2) show ?thesis by (simp add: judge_panel_grade_def Let_def combine_labels_def)
qed

end
