(* ===== verification/Pairwise_Ops.thy ===== *)
theory Pairwise_Ops
  imports Judges Run_Jobs Pairing Case_Schema
begin

section \<open>schemas/pairwise\_verdict.py and runner/pairwise\_ops.py\<close>

text \<open>
  The verdict on a pair of outputs, and what the store does with verdicts: a batch is validated
  before any of it is written, a listing filters on the query columns, the calibration report
  compares the verdicts of the model with those of humans.  The lemmas count what the report
  counts, and show where it goes wrong: the two sides of a pair are sorted, the preferred side is
  not turned with them.
\<close>

datatype PairKind = AgentOutput | Reference | FromIteration | Arbitrary
datatype JudgeKind = LLM | Human
datatype Position = AB | BA

definition JudgeKind_value :: "JudgeKind \<Rightarrow> string" where
  "JudgeKind_value k = (case k of LLM \<Rightarrow> ''llm'' | Human \<Rightarrow> ''human'')"

record PairRef =
  pr_kind :: PairKind
  pr_trace_id :: "string option"
  pr_case_id :: "string option"
  pr_iteration_id :: "string option"
  pr_content_snapshot :: "string option"

record PairwiseVerdict = BaseEntity +
  pv_a_ref :: PairRef
  pv_b_ref :: PairRef
  pv_preferred :: Preferred
  pv_margin :: rat
  pv_rationale :: "string option"
  pv_judge_kind :: JudgeKind
  pv_judge_id :: string
  pv_judge_model :: "string option"
  pv_rubric_version :: "int option"
  pv_position :: "Position option"
  pv_experiment_id :: "string option"
  pv_case_id :: "string option"
  pv_dataset_id :: "string option"
  pv_submitted_at :: "timestamp option"
  pv_duration_seconds :: "rat option"

definition tie_has_no_margin :: "PairwiseVerdict \<Rightarrow> bool" where
  "tie_has_no_margin v \<longleftrightarrow> \<not> (pv_preferred v = PrefTie \<and> pv_margin v \<noteq> 0)"

definition valid_PairwiseVerdict :: "PairwiseVerdict \<Rightarrow> bool" where
  "valid_PairwiseVerdict v \<longleftrightarrow> valid_BaseEntity v \<and> 0 \<le> pv_margin v \<and> pv_margin v \<le> 1 \<and> pv_judge_id v \<noteq> [] \<and>
     (case pv_rubric_version v of None \<Rightarrow> True | Some n \<Rightarrow> 1 \<le> n) \<and>
     (case pv_duration_seconds v of None \<Rightarrow> True | Some d \<Rightarrow> 0 \<le> d) \<and> tie_has_no_margin v"

subsection \<open>The store\<close>

text \<open>The tables these operations read or write.\<close>

record PairDb =
  pdb_verdicts :: "PairwiseVerdict list"
  pdb_experiments :: "Experiment list"
  pdb_cases :: "EvalCase list"
  pdb_traces :: "Trace list"

definition known :: "WorkspaceScope \<Rightarrow> 'e BaseEntity_scheme list \<Rightarrow> string option \<Rightarrow> bool result" where
  "known sc t i = (case i of None \<Rightarrow> Inr True | Some x \<Rightarrow> entity_exists sc x t)"

definition require_known :: "WorkspaceScope \<Rightarrow> 'e BaseEntity_scheme list \<Rightarrow> string option \<Rightarrow> unit result" where
  "require_known sc t i = bind_result (known sc t i) (\<lambda>b. if b then Inr () else Inl ValueError)"

definition validate_refs :: "WorkspaceScope \<Rightarrow> PairDb \<Rightarrow> PairwiseVerdict \<Rightarrow> unit result" where
  "validate_refs sc db v =
     bind_result (require_known sc (pdb_experiments db) (pv_experiment_id v)) (\<lambda>_.
     bind_result (require_known sc (pdb_cases db) (pv_case_id v)) (\<lambda>_.
     bind_result (require_known sc (pdb_traces db) (pr_trace_id (pv_a_ref v))) (\<lambda>_.
     require_known sc (pdb_traces db) (pr_trace_id (pv_b_ref v)))))"

text \<open>Verdicts are written one by one: those before a refused one stay.\<close>

fun put_verdicts :: "WorkspaceScope \<Rightarrow> PairwiseVerdict list \<Rightarrow> (PairDb, unit) exec" where
  "put_verdicts sc [] db = (Inr (), db)"
| "put_verdicts sc (v # vs) db =
     (case bind_result (assert_owns sc v) (\<lambda>_. put_entity sc v (pdb_verdicts db)) of
        Inl e \<Rightarrow> (Inl e, db)
      | Inr t \<Rightarrow> put_verdicts sc vs (db\<lparr>pdb_verdicts := t\<rparr>))"

definition ingest_verdicts ::
    "WorkspaceScope \<Rightarrow> bool \<Rightarrow> PairwiseVerdict list \<Rightarrow> (PairDb, PairwiseVerdict list) exec" where
  "ingest_verdicts sc validate vs db =
     (case (if validate then map_result (validate_refs sc db) vs else Inr []) of
        Inl e \<Rightarrow> (Inl e, db)
      | Inr _ \<Rightarrow> bind_exec (put_verdicts sc vs) (\<lambda>_. return_exec vs) db)"

definition json_opt :: "string option \<Rightarrow> json" where
  "json_opt s = (case s of None \<Rightarrow> JNull | Some x \<Rightarrow> JStr x)"

definition VERDICT_COLUMNS :: "(string \<times> (PairwiseVerdict \<Rightarrow> json)) list" where
  "VERDICT_COLUMNS = SHARED_COLUMNS @
     [(''experiment_id'', \<lambda>v. json_opt (pv_experiment_id v)), (''case_id'', \<lambda>v. json_opt (pv_case_id v)),
      (''judge_kind'', \<lambda>v. JStr (JudgeKind_value (pv_judge_kind v)))]"

definition where_clause :: "string \<Rightarrow> string option \<Rightarrow> (string \<times> json) list" where
  "where_clause column x = (case x of None \<Rightarrow> [] | Some s \<Rightarrow> [(column, JStr s)])"

definition list_verdicts ::
    "WorkspaceScope \<Rightarrow> string option \<Rightarrow> string option \<Rightarrow> string option \<Rightarrow> PairDb \<Rightarrow> PairwiseVerdict list result" where
  "list_verdicts sc experiment case_id judge_kind db =
     list_entities sc VERDICT_COLUMNS
       (Some (default_ListFilter\<lparr>lf_where := where_clause ''experiment_id'' experiment @
          where_clause ''case_id'' case_id @ where_clause ''judge_kind'' judge_kind\<rparr>)) (pdb_verdicts db)"

subsection \<open>Calibration of the model against humans\<close>

text \<open>\<^verbatim>\<open>trace_id or content_snapshot or ""\<close>\<close>

definition side_key :: "PairRef \<Rightarrow> string" where
  "side_key r = (case pr_trace_id r of
     Some (c # cs) \<Rightarrow> c # cs
   | _ \<Rightarrow> (case pr_content_snapshot r of Some s \<Rightarrow> s | None \<Rightarrow> []))"

definition verdict_pair_key :: "PairwiseVerdict \<Rightarrow> pair" where
  "verdict_pair_key v =
     (let a = side_key (pv_a_ref v); b = side_key (pv_b_ref v) in if a \<le> b then (a, b) else (b, a))"

record CalibrationCell =
  cc_rubric_version :: "int option"
  cc_compared_pairs :: nat
  cc_agreements :: nat
  cc_disagreements :: nat

record CalibrationReport =
  cr_compared_pairs :: nat
  cr_agreements :: nat
  cr_disagreements :: nat
  cr_by_rubric_version :: "CalibrationCell list"

definition rate :: "nat \<Rightarrow> nat \<Rightarrow> rat" where
  "rate agreements disagreements =
     (let t = agreements + disagreements in if t \<noteq> 0 then of_nat agreements / of_nat t else 0)"

definition cell_agreement_rate :: "CalibrationCell \<Rightarrow> rat" where
  "cell_agreement_rate c = rate (cc_agreements c) (cc_disagreements c)"

definition report_agreement_rate :: "CalibrationReport \<Rightarrow> rat" where
  "report_agreement_rate r = rate (cr_agreements r) (cr_disagreements r)"

type_synonym judged = "(JudgeKind \<times> Preferred) list"
type_synonym by_pair = "(pair \<times> (int option \<times> judged) list) list"

definition record_verdict :: "by_pair \<Rightarrow> PairwiseVerdict \<Rightarrow> by_pair" where
  "record_verdict d v =
     dict_modify d (verdict_pair_key v) [] (\<lambda>versions.
       dict_modify versions (pv_rubric_version v) [] (AList.update (pv_judge_kind v) (pv_preferred v)))"

definition by_pair_of :: "PairwiseVerdict list \<Rightarrow> by_pair" where
  "by_pair_of vs = foldl record_verdict [] vs"

text \<open>The versions of all pairs in the order of the two nested loops, then the two counters.\<close>

definition judged_versions :: "by_pair \<Rightarrow> (int option \<times> judged) list" where
  "judged_versions d = concat (map snd d)"

definition both_judged :: "judged \<Rightarrow> bool" where
  "both_judged j \<longleftrightarrow> LLM \<in> set (dict_keys j) \<and> Human \<in> set (dict_keys j)"

definition agreed :: "judged \<Rightarrow> bool" where
  "agreed j \<longleftrightarrow> map_of j LLM = map_of j Human"

definition agree_counts :: "(int option \<times> judged) list \<Rightarrow> (int option \<times> nat) list" where
  "agree_counts xs = counter_of (map fst (filter (\<lambda>(_, j). both_judged j \<and> agreed j) xs))"

definition disagree_counts :: "(int option \<times> judged) list \<Rightarrow> (int option \<times> nat) list" where
  "disagree_counts xs = counter_of (map fst (filter (\<lambda>(_, j). both_judged j \<and> \<not> agreed j) xs))"

definition version_order :: "int option \<Rightarrow> bool \<times> int" where
  "version_order rv = (case rv of None \<Rightarrow> (True, 0) | Some n \<Rightarrow> (False, n))"

definition calibrate :: "PairwiseVerdict list \<Rightarrow> CalibrationReport" where
  "calibrate vs =
     (let xs = judged_versions (by_pair_of vs);
          agree = agree_counts xs; disagree = disagree_counts xs;
          versions = sort_key version_order (remdups (dict_keys agree @ dict_keys disagree));
          total_agree = sum_list (map snd agree); total_disagree = sum_list (map snd disagree)
      in \<lparr>cr_compared_pairs = total_agree + total_disagree, cr_agreements = total_agree,
          cr_disagreements = total_disagree,
          cr_by_rubric_version = map (\<lambda>rv.
            \<lparr>cc_rubric_version = rv, cc_compared_pairs = dict_get agree rv 0 + dict_get disagree rv 0,
             cc_agreements = dict_get agree rv 0, cc_disagreements = dict_get disagree rv 0\<rparr>) versions\<rparr>)"

definition compute_calibration :: "WorkspaceScope \<Rightarrow> string option \<Rightarrow> PairDb \<Rightarrow> CalibrationReport result" where
  "compute_calibration sc experiment db =
     bind_result (list_verdicts sc experiment None None db) (\<lambda>vs. Inr (calibrate vs))"

subsection \<open>Writing\<close>

lemma require_known_iff:
  "require_known sc t i = Inr () \<longleftrightarrow> (\<forall>x. i = Some x \<longrightarrow> entity_exists sc x t = Inr True)"
  by (cases i) (auto simp: require_known_def known_def bind_result_Inr_iff split: if_splits)

text \<open>Nothing is written when a reference of any verdict of the batch is missing.\<close>

lemma ingest_validates_first:
  assumes "v \<in> set vs" "validate_refs sc db v \<noteq> Inr ()"
  shows "\<exists>e. ingest_verdicts sc True vs db = (Inl e, db)"
proof -
  have "map_result (validate_refs sc db) vs \<noteq> Inr us" for us
    using assms by (auto dest!: map_result_InrD simp: list_all2_conv_all_nth in_set_conv_nth)
  then obtain e where "map_result (validate_refs sc db) vs = Inl e"
    by (cases "map_result (validate_refs sc db) vs") auto
  then show ?thesis by (simp add: ingest_verdicts_def)
qed

lemma put_verdicts_frame: "\<exists>t. snd (put_verdicts sc vs db) = db\<lparr>pdb_verdicts := t\<rparr>"
proof (induction vs arbitrary: db)
  case Nil
  show ?case by (rule exI [of _ "pdb_verdicts db"]) simp
next
  case (Cons v vs)
  show ?case
  proof (cases "bind_result (assert_owns sc v) (\<lambda>_. put_entity sc v (pdb_verdicts db))")
    case (Inl e)
    then show ?thesis by (intro exI [of _ "pdb_verdicts db"]) simp
  next
    case (Inr t)
    with Cons.IH [of "db\<lparr>pdb_verdicts := t\<rparr>"] show ?thesis by auto
  qed
qed

lemma put_verdicts_ok: "table_ok (pdb_verdicts db) \<Longrightarrow> table_ok (pdb_verdicts (snd (put_verdicts sc vs db)))"
proof (induction vs arbitrary: db)
  case (Cons v vs)
  show ?case
  proof (cases "bind_result (assert_owns sc v) (\<lambda>_. put_entity sc v (pdb_verdicts db))")
    case (Inr t)
    then have "put_entity sc v (pdb_verdicts db) = Inr t" by (auto simp: bind_result_Inr_iff)
    with Cons have "table_ok t" using put_entity_ok by blast
    with Inr Cons.IH [of "db\<lparr>pdb_verdicts := t\<rparr>"] show ?thesis by simp
  qed (use Cons.prems in simp)
qed simp

subsection \<open>Counting\<close>

text \<open>The verdicts by pair and version, flat; the latest verdict of a judge on a pair.\<close>

definition flat :: "by_pair \<Rightarrow> ((pair \<times> int option) \<times> judged) list" where
  "flat d = concat (map (\<lambda>(k, versions). map (\<lambda>(rv, j). ((k, rv), j)) versions) d)"

definition latest :: "PairwiseVerdict list \<Rightarrow> pair \<times> int option \<Rightarrow> JudgeKind \<Rightarrow> Preferred option" where
  "latest vs key jk = map_option pv_preferred
     (find (\<lambda>v. (verdict_pair_key v, pv_rubric_version v) = key \<and> pv_judge_kind v = jk) (rev vs))"

definition by_pair_ok :: "by_pair \<Rightarrow> bool" where
  "by_pair_ok d \<longleftrightarrow> distinct (dict_keys d) \<and> (\<forall>(k, versions) \<in> set d. distinct (dict_keys versions))"

lemma flat_Cons: "flat ((k, versions) # d) = map (\<lambda>(rv, j). ((k, rv), j)) versions @ flat d"
  by (simp add: flat_def)

lemma map_of_versions:
  "map_of (map (\<lambda>(rv, j). ((k, rv), j)) versions) (k', rv') = (if k' = k then map_of versions rv' else None)"
  by (induction versions) auto

lemma flat_keys: "fst ` set (flat d) \<subseteq> {(k, rv). k \<in> set (dict_keys d)}"
  by (force simp: flat_def dict_keys_def)

lemma flat_distinct: "by_pair_ok d \<Longrightarrow> distinct (map fst (flat d))"
proof (induction d)
  case (Cons p d)
  obtain k versions where p: "p = (k, versions)" by (cases p)
  from Cons.prems have ok: "by_pair_ok d" "distinct (dict_keys versions)" "k \<notin> set (dict_keys d)"
    by (auto simp: by_pair_ok_def p dict_keys_def)
  have "map fst (map (\<lambda>(rv, j). ((k, rv), j)) versions) = map (Pair k) (dict_keys versions)"
    by (simp add: dict_keys_def split_beta comp_def)
  moreover have "distinct (map (Pair k) (dict_keys versions))"
    using ok(2) by (simp add: distinct_map inj_on_def)
  moreover have "set (map (Pair k) (dict_keys versions)) \<inter> set (map fst (flat d)) = {}"
    using flat_keys [of d] ok(3) by auto
  ultimately show ?case using Cons.IH [OF ok(1)] by (simp add: p flat_Cons)
qed (simp add: flat_def)

lemma map_of_flat: "distinct (dict_keys d) \<Longrightarrow> map_of (flat d) (k, rv) = map_of (dict_get d k []) rv"
proof (induction d)
  case (Cons p d)
  obtain k' versions where p: "p = (k', versions)" by (cases p)
  with Cons.prems have d: "distinct (dict_keys d)" "k' \<notin> set (dict_keys d)" by (auto simp: dict_keys_def)
  show ?case
  proof (cases "k' = k")
    case True
    then have "map_of (flat d) (k, rv) = None" using flat_keys [of d] d(2) by (auto simp: map_of_eq_None_iff)
    with True show ?thesis
      by (auto simp: p flat_Cons map_add_def map_of_versions dict_get_def split: option.splits)
  next
    case False
    with Cons.IH [OF d(1)] show ?thesis
      by (simp add: p flat_Cons map_add_def map_of_versions dict_get_def split: option.splits)
  qed
qed (simp add: flat_def)

lemma record_verdict_ok:
  assumes "by_pair_ok d"
  shows "by_pair_ok (record_verdict d v)"
proof -
  have inner: "distinct (dict_keys (dict_get d k []))" for k
  proof (cases "map_of d k")
    case (Some versions)
    with map_of_SomeD [OF this] assms show ?thesis by (auto simp: by_pair_ok_def dict_get_def)
  qed (simp add: dict_get_def dict_keys_def)
  have "distinct (dict_keys versions)" if "(k, versions) \<in> set (record_verdict d v)" for k versions
  proof -
    have "distinct (dict_keys (record_verdict d v))"
      using assms by (simp add: record_verdict_def by_pair_ok_def dict_simps)
    with that have "versions = dict_get (record_verdict d v) k []"
      by (simp add: dict_get_def dict_keys_def)
    then show ?thesis using inner by (simp add: record_verdict_def dict_simps)
  qed
  with assms show ?thesis by (auto simp: by_pair_ok_def record_verdict_def dict_simps)
qed

lemma by_pair_of_ok: "by_pair_ok (by_pair_of vs)"
proof -
  have "by_pair_ok (foldl record_verdict d vs)" if "by_pair_ok d" for d
    using that by (induction vs arbitrary: d) (simp_all add: record_verdict_ok)
  moreover have "by_pair_ok []" by (simp add: by_pair_ok_def dict_keys_def)
  ultimately show ?thesis by (simp add: by_pair_of_def)
qed

lemma map_of_flat_record:
  assumes "by_pair_ok d"
  shows "map_of (flat (record_verdict d v)) key =
    (if key = (verdict_pair_key v, pv_rubric_version v)
     then Some (AList.update (pv_judge_kind v) (pv_preferred v) (dict_get (flat d) key []))
     else map_of (flat d) key)"
proof -
  obtain k rv where key: "key = (k, rv)" by (cases key)
  have d: "distinct (dict_keys d)" "distinct (dict_keys (record_verdict d v))"
    using assms record_verdict_ok [OF assms] by (simp_all add: by_pair_ok_def)
  show ?thesis
    by (simp add: key map_of_flat [OF d(1)] map_of_flat [OF d(2)] dict_get_def [of "flat d"])
      (simp add: record_verdict_def dict_simps dict_modify_def [of "dict_get d k []"] update_conv
        dict_get_def [where d = "dict_get d _ _"])
qed

lemma latest_snoc:
  "latest (vs @ [v]) key jk =
    (if (verdict_pair_key v, pv_rubric_version v) = key \<and> pv_judge_kind v = jk then Some (pv_preferred v)
     else latest vs key jk)"
  by (simp add: latest_def)

lemma by_pair_latest:
  "map_of (flat (by_pair_of vs)) key = None \<longrightarrow> (\<forall>jk. latest vs key jk = None)"
  "map_of (flat (by_pair_of vs)) key = Some j \<longrightarrow> (\<forall>jk. map_of j jk = latest vs key jk)"
proof (induction vs arbitrary: j rule: rev_induct)
  case Nil
  { case 1 show ?case by (simp add: latest_def) }
  { case 2 show ?case by (simp add: by_pair_of_def flat_def) }
next
  case (snoc v vs)
  have e: "by_pair_of (vs @ [v]) = record_verdict (by_pair_of vs) v" by (simp add: by_pair_of_def)
  note step = map_of_flat_record [OF by_pair_of_ok [of vs], of v key]
  { case 1 from snoc.IH(1) show ?case by (auto simp: e step latest_snoc) }
  { case 2 from snoc.IH show ?case
      by (cases "map_of (flat (by_pair_of vs)) key")
        (auto simp: e step latest_snoc update_conv dict_get_def) }
qed

lemma sum_counter_of: "sum_list (map snd (counter_of ks)) = length ks"
proof -
  have "sum_list (map snd (counter_of ks)) = (\<Sum>(k, v) \<leftarrow> counter_of ks. v)"
    by (rule arg_cong [where f = sum_list]) (simp add: split_beta)
  also have "\<dots> = (\<Sum>k \<in> set ks. count_list ks k)"
    by (simp add: sum_list_dict [where f = "\<lambda>k v. v" and ?v0.0 = 0] dict_simps)
  also have "\<dots> = length ks" by (rule sum_count_set) simp_all
  finally show ?thesis .
qed

lemma judged_versions_flat: "judged_versions d = map (\<lambda>((k, rv), j). (rv, j)) (flat d)"
  by (induction d) (auto simp: judged_versions_def flat_def case_prod_unfold comp_def)

text \<open>The number of entries with a property, as a number of keys.\<close>

lemma length_filter_map_of:
  assumes "distinct (map fst xs)"
  shows "length (filter (\<lambda>(k, v). P v) xs) = card {k. \<exists>v. map_of xs k = Some v \<and> P v}"
proof -
  let ?ys = "filter (\<lambda>(k, v). P v) xs"
  have "distinct (map fst ?ys)" using assms by (rule distinct_map_filter)
  then have "length ?ys = card (fst ` set ?ys)" by (metis distinct_card length_map list.set_map)
  also have "fst ` set ?ys = {k. \<exists>v. map_of xs k = Some v \<and> P v}"
    using assms by (force simp: image_iff)
  finally show ?thesis .
qed

lemma judged_count:
  "length (filter (\<lambda>(_, j). P j) (judged_versions (by_pair_of vs))) =
    card {key. \<exists>j. map_of (flat (by_pair_of vs)) key = Some j \<and> P j}"
proof -
  have "length (filter (\<lambda>(_, j). P j) (judged_versions (by_pair_of vs))) =
      length (filter (\<lambda>(k, j). P j) (flat (by_pair_of vs)))"
    by (simp add: judged_versions_flat filter_map comp_def case_prod_unfold)
  then show ?thesis using length_filter_map_of [OF flat_distinct [OF by_pair_of_ok]] by simp
qed

lemma keys_map_of: "k \<in> set (dict_keys j) \<longleftrightarrow> map_of j k \<noteq> None"
  by (auto simp: dict_keys_def map_of_eq_None_iff)

lemma judged_latest:
  assumes "\<And>j j'. (\<forall>jk. map_of j jk = map_of j' jk) \<Longrightarrow> P j = P j'" "\<not> P []"
    and "\<And>j. (\<forall>jk. map_of j jk = latest vs key jk) \<Longrightarrow> P j \<longleftrightarrow> Q"
  shows "(\<exists>j. map_of (flat (by_pair_of vs)) key = Some j \<and> P j) \<longleftrightarrow> Q"
proof (cases "map_of (flat (by_pair_of vs)) key")
  case None
  with by_pair_latest(1) [of vs key] have "\<forall>jk. map_of [] jk = latest vs key jk" by simp
  from assms(3) [OF this] assms(2) None show ?thesis by simp
next
  case (Some j)
  with by_pair_latest(2) [of vs key j] assms(3) [of j] show ?thesis by simp
qed

lemma calibrate_counts_aux:
  "cr_agreements (calibrate vs) =
     card {key. latest vs key LLM \<noteq> None \<and> latest vs key Human = latest vs key LLM}"
  "cr_disagreements (calibrate vs) =
     card {key. latest vs key LLM \<noteq> None \<and> latest vs key Human \<noteq> None \<and> latest vs key Human \<noteq> latest vs key LLM}"
proof -
  have "(\<exists>j. map_of (flat (by_pair_of vs)) key = Some j \<and> (both_judged j \<and> agreed j)) \<longleftrightarrow>
      latest vs key LLM \<noteq> None \<and> latest vs key Human = latest vs key LLM" for key
    by (rule judged_latest) (auto simp: both_judged_def agreed_def keys_map_of)
  then show "cr_agreements (calibrate vs) =
      card {key. latest vs key LLM \<noteq> None \<and> latest vs key Human = latest vs key LLM}"
    using judged_count [of "\<lambda>j. both_judged j \<and> agreed j"]
    by (simp add: calibrate_def Let_def agree_counts_def sum_counter_of)
  have "(\<exists>j. map_of (flat (by_pair_of vs)) key = Some j \<and> (both_judged j \<and> \<not> agreed j)) \<longleftrightarrow>
      latest vs key LLM \<noteq> None \<and> latest vs key Human \<noteq> None \<and> latest vs key Human \<noteq> latest vs key LLM" for key
    by (rule judged_latest) (auto simp: both_judged_def agreed_def keys_map_of)
  then show "cr_disagreements (calibrate vs) =
      card {key. latest vs key LLM \<noteq> None \<and> latest vs key Human \<noteq> None \<and> latest vs key Human \<noteq> latest vs key LLM}"
    using judged_count [of "\<lambda>j. both_judged j \<and> \<not> agreed j"]
    by (simp add: calibrate_def Let_def disagree_counts_def sum_counter_of)
qed

text \<open>The cells split the totals by version.\<close>

lemma sum_over_keys:
  assumes "distinct (dict_keys d)" "distinct ks" "set (dict_keys d) \<subseteq> set ks"
  shows "(\<Sum>k \<leftarrow> ks. dict_get d k (0 :: nat)) = sum_list (map snd d)"
proof -
  have "(\<Sum>k \<leftarrow> ks. dict_get d k 0) = (\<Sum>k \<in> set ks. dict_get d k 0)"
    using assms(2) by (simp add: sum_list_distinct_conv_sum_set)
  also have "\<dots> = (\<Sum>k \<in> set (dict_keys d). dict_get d k 0)"
    using assms(3) by (intro sum.mono_neutral_right) (auto simp: dict_get_def keys_map_of split: option.splits)
  also have "\<dots> = sum_list (map snd d)"
    using sum_list_dict [OF assms(1), where f = "\<lambda>k v. v" and ?v0.0 = 0] by (simp add: case_prod_unfold)
  finally show ?thesis .
qed

lemma calibrate_cells_aux:
  "sum_list (map cc_agreements (cr_by_rubric_version (calibrate vs))) = cr_agreements (calibrate vs)"
  "sum_list (map cc_disagreements (cr_by_rubric_version (calibrate vs))) = cr_disagreements (calibrate vs)"
  "distinct (map cc_rubric_version (cr_by_rubric_version (calibrate vs)))"
proof -
  let ?xs = "judged_versions (by_pair_of vs)"
  let ?ks = "sort_key version_order (remdups (dict_keys (agree_counts ?xs) @ dict_keys (disagree_counts ?xs)))"
  have d: "distinct (dict_keys (agree_counts ?xs))" "distinct (dict_keys (disagree_counts ?xs))"
    by (simp_all add: agree_counts_def disagree_counts_def dict_simps)
  show "sum_list (map cc_agreements (cr_by_rubric_version (calibrate vs))) = cr_agreements (calibrate vs)"
    using sum_over_keys [OF d(1), of ?ks] by (simp add: calibrate_def Let_def comp_def)
  show "sum_list (map cc_disagreements (cr_by_rubric_version (calibrate vs))) = cr_disagreements (calibrate vs)"
    using sum_over_keys [OF d(2), of ?ks] by (simp add: calibrate_def Let_def comp_def)
  show "distinct (map cc_rubric_version (cr_by_rubric_version (calibrate vs)))"
    by (simp add: calibrate_def Let_def comp_def)
qed

text \<open>A pair is found whichever side came first, but the preferred side is compared as it was
  written: two judges that prefer the same text count as disagreeing when they saw the pair in
  opposite orders.\<close>

lemma mirrored_verdicts_disagree_aux:
  assumes "pv_judge_kind v = LLM" "pv_judge_kind w = Human" "pv_rubric_version v = pv_rubric_version w"
    and "pv_a_ref w = pv_b_ref v" "pv_b_ref w = pv_a_ref v"
    and "pv_preferred w = mirror (pv_preferred v)" "pv_preferred v \<noteq> PrefTie"
  shows "cr_disagreements (calibrate [v, w]) = 1 \<and> cr_agreements (calibrate [v, w]) = 0"
proof -
  have key: "verdict_pair_key w = verdict_pair_key v"
    using assms(4,5) by (auto simp: verdict_pair_key_def Let_def)
  have ne: "pv_preferred w \<noteq> pv_preferred v"
    using assms(6,7) by (auto simp: mirror_def split: Preferred.splits)
  have l: "latest [v, w] k LLM = (if k = (verdict_pair_key v, pv_rubric_version v) then Some (pv_preferred v) else None)"
    "latest [v, w] k Human = (if k = (verdict_pair_key v, pv_rubric_version v) then Some (pv_preferred w) else None)" for k
    using assms(1-3) by (auto simp: latest_def key)
  have eq: "{k. latest [v, w] k LLM \<noteq> None \<and> latest [v, w] k Human = latest [v, w] k LLM} = {}"
    "{k. latest [v, w] k LLM \<noteq> None \<and> latest [v, w] k Human \<noteq> None \<and> latest [v, w] k Human \<noteq> latest [v, w] k LLM} =
      {(verdict_pair_key v, pv_rubric_version v)}"
    using ne by (auto simp: l)
  show ?thesis unfolding calibrate_counts_aux eq by simp
qed

end
