(* ===== verification/Tournament.thy ===== *)
theory Tournament
  imports Pairwise_Ops Ranking_Facts
begin

section \<open>schemas/tournament.py and runner/pairwise\_tournament.py\<close>

text \<open>
  A tournament: plan the pairs (or play Swiss rounds), judge each of them, store the verdicts, rank
  the candidates, store the ranking.  A judge call that raises drops its comparison; an unknown
  identifier raises out of the tournament.  The judge of a pair, the digest behind the sampled
  plan, the logistic curve of Elo, the fresh identifiers and the clock are arguments; the
  semaphore only bounds how many judge calls run at once and is left out.
\<close>

record TournamentRow =
  tw_candidate_id :: string
  tw_rank :: nat
  tw_score :: rat
  tw_wins :: nat
  tw_losses :: nat
  tw_ties :: nat
  tw_n_comparisons :: nat

record Tournament = BaseEntity +
  tn_experiment_id :: "string option"
  tn_strategy :: string
  tn_method :: string
  tn_candidate_ids :: "string list"
  tn_baseline_id :: "string option"
  tn_n_comparisons :: nat
  tn_swap_and_average :: bool
  tn_ranking :: "TournamentRow list"

definition PAIRING_STRATEGIES :: "string list" where
  "PAIRING_STRATEGIES = [''vs_baseline'', ''all_pairs'', ''sampled'', ''swiss'']"

definition RANKING_METHODS :: "string list" where
  "RANKING_METHODS = [''elo'', ''bradley_terry'']"

definition valid_TournamentRow :: "TournamentRow \<Rightarrow> bool" where
  "valid_TournamentRow r \<longleftrightarrow> tw_candidate_id r \<noteq> [] \<and> 1 \<le> tw_rank r"

definition valid_Tournament :: "Tournament \<Rightarrow> bool" where
  "valid_Tournament t \<longleftrightarrow> valid_BaseEntity t \<and> tn_strategy t \<in> set PAIRING_STRATEGIES \<and>
     tn_method t \<in> set RANKING_METHODS \<and> list_all (\<lambda>c. c \<noteq> []) (tn_candidate_ids t) \<and>
     list_all valid_TournamentRow (tn_ranking t)"

subsection \<open>One comparison\<close>

record Candidate =
  cd_id :: string
  cd_output_text :: string
  cd_trace_id :: "string option"

text \<open>The arguments that stand for code outside: \<open>te_judge a b\<close> judges the texts of the candidates
  \<open>a\<close> and \<open>b\<close>, \<open>te_verdict_id a b\<close> is the identifier their verdict gets.\<close>

record TournamentEnv =
  te_judge :: "string \<Rightarrow> string \<Rightarrow> pair_judge"
  te_float_of_str :: "string \<Rightarrow> rat option"
  te_digest :: "string \<Rightarrow> string"
  te_logistic :: "rat \<Rightarrow> rat"
  te_verdict_id :: "string \<Rightarrow> string \<Rightarrow> string"
  te_tournament_id :: string
  te_now :: timestamp

record TournamentSpec =
  ts_strategy :: string
  ts_method :: string
  ts_baseline_id :: "string option"
  ts_comparisons_per_candidate :: int
  ts_swiss_rounds :: int
  ts_swap_and_average :: bool
  ts_experiment_id :: "string option"

definition candidates_by_id :: "Candidate list \<Rightarrow> Candidate dict" where
  "candidates_by_id cs = foldl (\<lambda>d c. AList.update (cd_id c) c d) [] cs"

definition candidate_ids :: "Candidate list \<Rightarrow> string list" where
  "candidate_ids cs = sorted_set (dict_keys (candidates_by_id cs))"

definition plan_pairs ::
    "(string \<Rightarrow> string) \<Rightarrow> string \<Rightarrow> string list \<Rightarrow> string option \<Rightarrow> int \<Rightarrow> pair list result" where
  "plan_pairs digest strategy ids baseline per_candidate =
     (if strategy = ''vs_baseline''
      then (case baseline of None \<Rightarrow> Inl ValueError | Some b \<Rightarrow> Inr (vs_baseline ids b))
      else if strategy = ''all_pairs'' then Inr (all_pairs ids)
      else if strategy = ''sampled'' then Inr (sampled digest ''selfevals-tournament'' ids per_candidate)
      else Inl ValueError)"

definition outcome_from :: "PairwiseDecision \<Rightarrow> string \<Rightarrow> string \<Rightarrow> Outcome" where
  "outcome_from d a b = (case pd_preferred d of
     PrefA \<Rightarrow> \<lparr>out_winner_id = a, out_loser_id = b, out_tie = False, out_weight = 1 + pd_margin d\<rparr>
   | PrefB \<Rightarrow> \<lparr>out_winner_id = b, out_loser_id = a, out_tie = False, out_weight = 1 + pd_margin d\<rparr>
   | PrefTie \<Rightarrow> \<lparr>out_winner_id = a, out_loser_id = b, out_tie = True, out_weight = 1\<rparr>)"

definition candidate_ref :: "Candidate \<Rightarrow> PairRef" where
  "candidate_ref c = \<lparr>pr_kind = Arbitrary, pr_trace_id = cd_trace_id c, pr_case_id = None,
     pr_iteration_id = None, pr_content_snapshot = Some (cd_output_text c)\<rparr>"

definition verdict_from ::
    "timestamp \<Rightarrow> string \<Rightarrow> string \<Rightarrow> string option \<Rightarrow> bool \<Rightarrow> PairwiseDecision \<Rightarrow> Candidate \<Rightarrow> Candidate \<Rightarrow>
       PairwiseVerdict" where
  "verdict_from now fresh ws experiment swap d a b =
     \<lparr>ent_id = fresh, workspace_id = ws, version = 1, created_at = now, updated_at = now, deleted_at = None,
      pv_a_ref = candidate_ref a, pv_b_ref = candidate_ref b, pv_preferred = pd_preferred d,
      pv_margin = pd_margin d, pv_rationale = Some (pd_reason d), pv_judge_kind = LLM,
      pv_judge_id = ''llm:tournament'', pv_judge_model = None, pv_rubric_version = None,
      pv_position = (if \<not> swap then Some AB else None), pv_experiment_id = experiment,
      pv_case_id = None, pv_dataset_id = None, pv_submitted_at = None, pv_duration_seconds = None\<rparr>"

text \<open>The two candidates are looked up outside the \<^verbatim>\<open>try\<close>; only the judge is inside.\<close>

definition compare_pair ::
    "TournamentEnv \<Rightarrow> string \<Rightarrow> TournamentSpec \<Rightarrow> Candidate dict \<Rightarrow> pair \<Rightarrow> (Outcome \<times> PairwiseVerdict) option result" where
  "compare_pair env ws spec by_id p = (case p of (a_id, b_id) \<Rightarrow>
     (case (map_of by_id a_id, map_of by_id b_id) of
        (Some a, Some b) \<Rightarrow>
          (case judge_pair (te_float_of_str env) (te_judge env a_id b_id) (ts_swap_and_average spec)
                  (cd_output_text a) (cd_output_text b) of
             Inl _ \<Rightarrow> Inr None
           | Inr d \<Rightarrow>
               let v = verdict_from (te_now env) (te_verdict_id env a_id b_id) ws (ts_experiment_id spec)
                         (ts_swap_and_average spec) d a b
               in if valid_PairwiseVerdict v then Inr (Some (outcome_from d a_id b_id, v)) else Inl ValueError)
      | _ \<Rightarrow> Inl KeyError))"

definition compare_all ::
    "(pair \<Rightarrow> ('a) option result) \<Rightarrow> pair list \<Rightarrow> 'a list result" where
  "compare_all compare pairs = map_sum id (List.map_filter id) (map_result compare pairs)"

subsection \<open>Swiss rounds\<close>

fun credit :: "rat dict \<Rightarrow> Outcome list \<Rightarrow> rat dict result" where
  "credit standings [] = Inr standings"
| "credit standings (o' # os) =
     (if out_tie o' then credit standings os
      else if out_winner_id o' \<in> set (dict_keys standings)
      then credit (dict_modify standings (out_winner_id o') 0 (\<lambda>x. x + 1)) os
      else Inl KeyError)"

fun swiss_rounds ::
    "(pair \<Rightarrow> (Outcome \<times> 'v) option result) \<Rightarrow> string list \<Rightarrow> nat \<Rightarrow> rat dict \<Rightarrow> pair list \<Rightarrow>
       (Outcome \<times> 'v) list result" where
  "swiss_rounds compare ids 0 standings played = Inr []"
| "swiss_rounds compare ids (Suc n) standings played =
     (let pairs = next_swiss_round ids standings played
      in if pairs = [] then Inr []
         else bind_result (compare_all compare pairs) (\<lambda>res.
              bind_result (credit standings (map fst res)) (\<lambda>standings'.
              bind_result (swiss_rounds compare ids n standings' (map (\<lambda>(a, b). pair_key a b) pairs @ played)) (\<lambda>rest.
                Inr (res @ rest)))))"

definition run_swiss ::
    "string list \<Rightarrow> (pair \<Rightarrow> (Outcome \<times> 'v) option result) \<Rightarrow> int \<Rightarrow> (Outcome \<times> 'v) list result" where
  "run_swiss ids compare rounds = swiss_rounds compare ids (nat rounds) (fromkeys ids 0) []"

definition play ::
    "TournamentEnv \<Rightarrow> string \<Rightarrow> TournamentSpec \<Rightarrow> Candidate list \<Rightarrow> (Outcome \<times> PairwiseVerdict) list result" where
  "play env ws spec cs =
     (let compare = compare_pair env ws spec (candidates_by_id cs); ids = candidate_ids cs
      in if ts_strategy spec = ''swiss'' then run_swiss ids compare (ts_swiss_rounds spec)
         else bind_result (plan_pairs (te_digest env) (ts_strategy spec) ids (ts_baseline_id spec)
                (ts_comparisons_per_candidate spec)) (compare_all compare))"

subsection \<open>The tournament\<close>

record TournamentDb =
  td_pairs :: PairDb
  td_tournaments :: "Tournament list"

record TournamentResult =
  tres_tournament :: Tournament
  tres_ranking :: Ranking
  tres_n_comparisons :: nat

definition on_pairs :: "(PairDb, 'a) exec \<Rightarrow> (TournamentDb, 'a) exec" where
  "on_pairs m db = (case m (td_pairs db) of (r, p) \<Rightarrow> (r, db\<lparr>td_pairs := p\<rparr>))"

definition rank_candidates :: "TournamentEnv \<Rightarrow> string \<Rightarrow> string list \<Rightarrow> Outcome list \<Rightarrow> Ranking result" where
  "rank_candidates env meth ids outcomes =
     (if meth = ''elo'' then Inr (elo_ratings (te_logistic env) 32 1500 ids outcomes)
      else bradley_terry 100 (1 / 1000000) ids outcomes)"

definition tournament_rows :: "RankingRow list \<Rightarrow> TournamentRow list" where
  "tournament_rows rows = map (\<lambda>(i, r).
     \<lparr>tw_candidate_id = row_candidate_id r, tw_rank = i + 1, tw_score = row_score r, tw_wins = row_wins r,
      tw_losses = row_losses r, tw_ties = row_ties r, tw_n_comparisons = row_n_comparisons r\<rparr>)
     (zip [0..<length rows] rows)"

definition persist_tournament ::
    "TournamentEnv \<Rightarrow> WorkspaceScope \<Rightarrow> TournamentSpec \<Rightarrow> Ranking \<Rightarrow> string list \<Rightarrow> nat \<Rightarrow>
       (TournamentDb, Tournament) exec" where
  "persist_tournament env sc spec r ids n db =
     (let t = \<lparr>ent_id = te_tournament_id env, workspace_id = sc_workspace_id sc, version = 1,
            created_at = te_now env, updated_at = te_now env, deleted_at = None,
            tn_experiment_id = ts_experiment_id spec, tn_strategy = ts_strategy spec,
            tn_method = ts_method spec, tn_candidate_ids = ids, tn_baseline_id = ts_baseline_id spec,
            tn_n_comparisons = n, tn_swap_and_average = ts_swap_and_average spec,
            tn_ranking = tournament_rows (rg_rows r)\<rparr>
      in if \<not> valid_Tournament t then (Inl ValueError, db)
         else case put_entity sc t (td_tournaments db) of
                Inl e \<Rightarrow> (Inl e, db)
              | Inr ts \<Rightarrow> (Inr t, db\<lparr>td_tournaments := ts\<rparr>))"

definition run_tournament ::
    "TournamentEnv \<Rightarrow> WorkspaceScope \<Rightarrow> TournamentSpec \<Rightarrow> Candidate list \<Rightarrow> (TournamentDb, TournamentResult) exec" where
  "run_tournament env sc spec cs =
     bind_exec (lift_result (play env (sc_workspace_id sc) spec cs)) (\<lambda>results.
       let outcomes = map fst results; verdicts = map snd results; ids = candidate_ids cs
       in bind_exec (if verdicts = [] then return_exec [] else on_pairs (ingest_verdicts sc False verdicts)) (\<lambda>_.
          bind_exec (lift_result (rank_candidates env (ts_method spec) ids outcomes)) (\<lambda>r.
          bind_exec (persist_tournament env sc spec r ids (length outcomes)) (\<lambda>t.
            return_exec \<lparr>tres_tournament = t, tres_ranking = r, tres_n_comparisons = length outcomes\<rparr>))))"

end
