(* ===== verification/Tournament_Facts.thy ===== *)
theory Tournament_Facts
  imports Tournament
begin

section \<open>What a tournament guarantees\<close>

text \<open>
  The locale states what the tournament needs of a comparison: its outcome is between the two
  candidates that were compared.  From it follow, for the up-front plans and for the Swiss rounds
  alike, that no two results are about the same pair and that a comparison that returns for all
  candidates makes the whole play return.  The model's comparison is an instance of it.  Then what
  is written: the verdicts are appended, the ranking is stored once.
\<close>

subsection \<open>Plans\<close>

definition key_of :: "pair \<Rightarrow> pair" where
  "key_of p = (case p of (a, b) \<Rightarrow> pair_key a b)"

lemma key_of_pair [simp]: "key_of (a, b) = pair_key a b"
  by (simp add: key_of_def)

definition plan_ok :: "string list \<Rightarrow> pair list \<Rightarrow> bool" where
  "plan_ok ids ps \<longleftrightarrow> distinct (map key_of ps) \<and> list_all (\<lambda>(a, b). a \<in> set ids \<and> b \<in> set ids \<and> a \<noteq> b) ps"

lemma pair_key_ordered: "a < b \<Longrightarrow> pair_key a b = (a, b)"
  by (simp add: pair_key_def)

lemma pair_key_eq: "pair_key a b = pair_key c d \<longleftrightarrow> (a = c \<and> b = d) \<or> (a = d \<and> b = c)"
  by (auto simp: pair_key_def)

lemma ordered_plan_ok:
  assumes "distinct ps" "\<And>a b. (a, b) \<in> set ps \<Longrightarrow> a \<in> set ids \<and> b \<in> set ids \<and> a < b"
  shows "plan_ok ids ps"
proof -
  have "map key_of ps = ps"
    by (rule map_idI) (use assms(2) in \<open>auto simp: pair_key_ordered\<close>)
  with assms show ?thesis by (fastforce simp: plan_ok_def list_all_iff)
qed

lemma plan_pairs_ok:
  assumes "plan_pairs digest strategy ids baseline k = Inr ps" "distinct ids"
    and "strategy = ''vs_baseline'' \<longrightarrow> (\<exists>b \<in> set ids. baseline = Some b)"
  shows "plan_ok ids ps"
proof -
  consider "strategy = ''vs_baseline''" | "ps = all_pairs ids"
    | "ps = sampled digest ''selfevals-tournament'' ids k"
    using assms(1) by (auto simp: plan_pairs_def split: if_splits)
  then show ?thesis
  proof cases
    case 1
    with assms obtain b where b: "b \<in> set ids" "ps = vs_baseline ids b" by (auto simp: plan_pairs_def)
    then show ?thesis
      using assms(2) by (auto simp: plan_ok_def vs_baseline_def list_all_iff distinct_map inj_on_def pair_key_eq)
  next
    case 2
    then show ?thesis by (intro ordered_plan_ok) (simp_all add: distinct_all_pairs all_pairs_iff)
  next
    case 3
    have "distinct ps" using foldl_add_unseen [of "[]"] by (simp add: 3 sampled_def Let_def)
    with 3 show ?thesis by (intro ordered_plan_ok) (auto dest: sampled_pairs)
  qed
qed

lemma plan_pairs_total:
  assumes "strategy \<in> set PAIRING_STRATEGIES" "strategy \<noteq> ''swiss''"
    and "strategy = ''vs_baseline'' \<longrightarrow> (\<exists>b \<in> set ids. baseline = Some b)"
  shows "\<exists>ps. plan_pairs digest strategy ids baseline k = Inr ps"
proof -
  consider "strategy = ''vs_baseline''" | "strategy = ''all_pairs''" | "strategy = ''sampled''"
    using assms(1,2) unfolding PAIRING_STRATEGIES_def by (simp only: list.set insert_iff empty_iff) blast
  then show ?thesis
  proof cases
    case 1
    with assms(3) obtain b where "baseline = Some b" by blast
    with 1 show ?thesis by (simp add: plan_pairs_def)
  qed (simp_all add: plan_pairs_def)
qed

lemma players_in: "(a, b) \<in> set ps \<Longrightarrow> a \<in> set (players ps) \<and> b \<in> set (players ps)"
  by (induction ps) (auto simp: players_def)

text \<open>A matching never has two pairs with the same key.\<close>

lemma matching_keys:
  "distinct (players ps) \<Longrightarrow> distinct (map key_of ps) \<and> list_all (\<lambda>(a, b). a \<noteq> b) ps"
proof (induction ps)
  case (Cons p ps)
  obtain a b where p: "p = (a, b)" by (cases p)
  with Cons.prems have d: "distinct (players ps)" "a \<noteq> b" "a \<notin> set (players ps)" by (auto simp: players_def)
  have "pair_key a b \<noteq> key_of q" if "q \<in> set ps" for q
  proof -
    obtain c d where q: "q = (c, d)" by (cases q)
    with that have "c \<in> set (players ps)" "d \<in> set (players ps)" using players_in by blast+
    with d(3) show ?thesis by (auto simp: q pair_key_eq)
  qed
  with Cons.IH [OF d(1)] d(2) show ?case by (auto simp: p)
qed simp

lemma swiss_round_ok:
  assumes "distinct ids"
  shows "plan_ok ids (next_swiss_round ids standings played)"
    "set (map key_of (next_swiss_round ids standings played)) \<inter> set played = {}"
proof -
  note m = next_swiss_round_matching [OF assms, where standings = standings and played = played]
  have "a \<in> set ids \<and> b \<in> set ids" if "(a, b) \<in> set (next_swiss_round ids standings played)" for a b
    using m(2) players_in [OF that] by blast
  with matching_keys [OF m(1)] show "plan_ok ids (next_swiss_round ids standings played)"
    unfolding plan_ok_def list_all_iff by blast
  show "set (map key_of (next_swiss_round ids standings played)) \<inter> set played = {}"
    using m(3) by (auto simp: list_all_iff)
qed

subsection \<open>Comparisons\<close>

lemma subseq_set: "subseq xs ys \<Longrightarrow> set xs \<subseteq> set ys"
  by (induction rule: list_emb.induct) auto

lemma subseq_distinct: "subseq xs ys \<Longrightarrow> distinct ys \<Longrightarrow> distinct xs"
proof (induction rule: list_emb.induct)
  case (list_emb_Cons2 x y xs ys)
  with subseq_set [OF list_emb_Cons2(2)] show ?case by auto
qed simp_all

locale comparison =
  fixes compare :: "pair \<Rightarrow> (Outcome \<times> 'v) option result"
  assumes sides: "compare (a, b) = Inr (Some (o', v)) \<Longrightarrow>
    (out_winner_id o' = a \<and> out_loser_id o' = b) \<or> (out_winner_id o' = b \<and> out_loser_id o' = a)"
begin

definition result_key :: "Outcome \<times> 'v \<Rightarrow> pair" where
  "result_key x = pair_key (out_winner_id (fst x)) (out_loser_id (fst x))"

lemma result_key_of: "compare p = Inr (Some x) \<Longrightarrow> result_key x = key_of p"
  using sides [of "fst p" "snd p" "fst x" "snd x"]
  by (cases p) (auto simp: result_key_def pair_key_commute)

lemma compare_all_keys:
  assumes "compare_all compare ps = Inr xs"
  shows "subseq (map result_key xs) (map key_of ps) \<and> (\<forall>x \<in> set xs. \<exists>p \<in> set ps. compare p = Inr (Some x))"
proof -
  obtain ys where "map_result compare ps = Inr ys" and xs: "xs = List.map_filter id ys"
    using assms by (auto simp: compare_all_def map_sum_def split: sum.splits)
  then have "list_all2 (\<lambda>p y. compare p = Inr y) ps ys" by (auto dest: map_result_InrD)
  then have "subseq (map result_key (List.map_filter id ys)) (map key_of ps) \<and>
      (\<forall>x \<in> set (List.map_filter id ys). \<exists>p \<in> set ps. compare p = Inr (Some x))"
  proof (induction rule: list_all2_induct)
    case (Cons p ps y ys)
    then show ?case by (cases y) (auto simp: map_filter_simps result_key_of)
  qed (simp add: map_filter_simps)
  with xs show ?thesis by simp
qed

lemma compare_all_total:
  "(\<And>p. p \<in> set ps \<Longrightarrow> \<exists>y. compare p = Inr y) \<Longrightarrow> \<exists>xs. compare_all compare ps = Inr xs"
proof -
  assume "\<And>p. p \<in> set ps \<Longrightarrow> \<exists>y. compare p = Inr y"
  then obtain ys where "map_result compare ps = Inr ys" using map_result_ex by metis
  then show ?thesis by (simp add: compare_all_def)
qed

lemma plan_results:
  assumes "compare_all compare ps = Inr xs" "plan_ok ids ps"
  shows "distinct (map result_key xs)"
    "\<forall>x \<in> set xs. \<exists>a b. a \<in> set ids \<and> b \<in> set ids \<and> a \<noteq> b \<and> compare (a, b) = Inr (Some x)"
proof -
  from compare_all_keys [OF assms(1)] have s: "subseq (map result_key xs) (map key_of ps)"
    "\<forall>x \<in> set xs. \<exists>p \<in> set ps. compare p = Inr (Some x)" by blast+
  show "distinct (map result_key xs)"
    using assms(2) subseq_distinct [OF s(1)] by (simp add: plan_ok_def)
  show "\<forall>x \<in> set xs. \<exists>a b. a \<in> set ids \<and> b \<in> set ids \<and> a \<noteq> b \<and> compare (a, b) = Inr (Some x)"
    using s(2) assms(2) by (fastforce simp: plan_ok_def list_all_iff)
qed

lemma credit_total:
  "\<forall>x \<in> set os. out_winner_id x \<in> set (dict_keys st) \<Longrightarrow>
     \<exists>st'. credit st os = Inr st' \<and> set (dict_keys st') = set (dict_keys st)"
proof (induction os arbitrary: st)
  case (Cons o' os)
  let ?st = "dict_modify st (out_winner_id o') 0 (\<lambda>x. x + 1)"
  have k: "set (dict_keys ?st) = set (dict_keys st)" using Cons.prems by (auto simp: dict_simps)
  show ?case
  proof (cases "out_tie o'")
    case True
    with Cons show ?thesis by simp
  next
    case False
    with Cons.IH [of ?st] Cons.prems k show ?thesis by auto
  qed
qed simp

text \<open>The Swiss rounds: nobody meets the same opponent twice, and they return when every comparison does.\<close>

lemma swiss_rounds_keys:
  assumes "swiss_rounds compare ids n st played = Inr xs" "distinct ids"
  shows "distinct (map result_key xs) \<and> set (map result_key xs) \<inter> set played = {} \<and>
    (\<forall>x \<in> set xs. \<exists>a b. a \<in> set ids \<and> b \<in> set ids \<and> a \<noteq> b \<and> compare (a, b) = Inr (Some x))"
  using assms
proof (induction n arbitrary: st played xs)
  case (Suc n)
  let ?ps = "next_swiss_round ids st played"
  let ?played = "map (\<lambda>(a, b). pair_key a b) ?ps @ played"
  have k: "set ?played = set (map key_of ?ps) \<union> set played" by (force simp: key_of_def)
  show ?case
  proof (cases "?ps = []")
    case True
    with Suc.prems(1) show ?thesis by simp
  next
    case False
    with Suc.prems(1) obtain res st' rest where r: "compare_all compare ?ps = Inr res"
      "swiss_rounds compare ids n st' ?played = Inr rest" "xs = res @ rest"
      by (auto simp: Let_def bind_result_Inr_iff)
    note ih = Suc.IH [OF r(2) Suc.prems(2)]
    note ok = swiss_round_ok [OF Suc.prems(2), of st played]
    note res = plan_results [OF r(1) ok(1)]
    have "set (map result_key res) \<subseteq> set (map key_of ?ps)"
      using compare_all_keys [OF r(1)] using subseq_set by blast
    then have "set (map result_key res) \<inter> set played = {}" "set (map result_key res) \<subseteq> set ?played"
      using ok(2) k by blast+
    moreover from this ih have "set (map result_key res) \<inter> set (map result_key rest) = {}" by blast
    ultimately show ?thesis using ih res k unfolding r(3) map_append distinct_append set_append by blast
  qed
qed simp

lemma swiss_rounds_total:
  assumes "distinct ids" "set ids \<subseteq> set (dict_keys st)"
    and "\<And>a b. a \<in> set ids \<Longrightarrow> b \<in> set ids \<Longrightarrow> \<exists>y. compare (a, b) = Inr y"
  shows "\<exists>xs. swiss_rounds compare ids n st played = Inr xs"
  using assms(2)
proof (induction n arbitrary: st played)
  case (Suc n)
  let ?ps = "next_swiss_round ids st played"
  note ok = swiss_round_ok(1) [OF assms(1), of st played]
  show ?case
  proof (cases "?ps = []")
    case False
    have "\<exists>y. compare p = Inr y" if "p \<in> set ?ps" for p
      using that ok assms(3) by (cases p) (auto simp: plan_ok_def list_all_iff)
    then obtain res where res: "compare_all compare ?ps = Inr res" using compare_all_total by metis
    have "\<forall>x \<in> set (map fst res). out_winner_id x \<in> set (dict_keys st)"
    proof
      fix x assume "x \<in> set (map fst res)"
      then obtain v where "(x, v) \<in> set res" by auto
      with plan_results(2) [OF res ok] obtain a b where
        "a \<in> set ids" "b \<in> set ids" "compare (a, b) = Inr (Some (x, v))" by blast
      with sides [OF this(3)] Suc.prems show "out_winner_id x \<in> set (dict_keys st)" by auto
    qed
    from credit_total [OF this] obtain st' where
      st': "credit st (map fst res) = Inr st'" "set (dict_keys st') = set (dict_keys st)" by blast
    with Suc.IH [of st' "map (\<lambda>(a, b). pair_key a b) ?ps @ played"] Suc.prems obtain rest where
      "swiss_rounds compare ids n st' (map (\<lambda>(a, b). pair_key a b) ?ps @ played) = Inr rest" by auto
    with False res st' show ?thesis by (simp add: Let_def)
  qed simp
qed simp

end

text \<open>The comparison of the tournament.\<close>

interpretation judged: comparison "compare_pair env ws spec by_id" for env ws spec by_id
proof
  fix a b o' v
  assume c: "compare_pair env ws spec by_id (a, b) = Inr (Some (o', v))"
  then obtain d where "o' = outcome_from d a b"
    by (auto simp: compare_pair_def Let_def split: option.splits sum.splits if_splits)
  then show "(out_winner_id o' = a \<and> out_loser_id o' = b) \<or> (out_winner_id o' = b \<and> out_loser_id o' = a)"
    by (auto simp: outcome_from_def split: Preferred.splits)
qed

text \<open>What a judged pair gives: an outcome of positive weight and a verdict that passes validation.\<close>

lemma compare_pair_Some:
  assumes "compare_pair env ws spec by_id (a, b) = Inr (Some (o', v))"
  shows "0 < out_weight o'" "valid_PairwiseVerdict v" "ent_id v = te_verdict_id env a b" "workspace_id v = ws"
proof -
  from assms obtain x y where "map_of by_id a = Some x" "map_of by_id b = Some y"
    by (auto simp: compare_pair_def split: option.splits)
  with assms obtain d where d: "judge_pair (te_float_of_str env) (te_judge env a b) (ts_swap_and_average spec)
        (cd_output_text x) (cd_output_text y) = Inr d" "o' = outcome_from d a b" "valid_PairwiseVerdict v"
    "v = verdict_from (te_now env) (te_verdict_id env a b) ws (ts_experiment_id spec) (ts_swap_and_average spec) d x y"
    by (auto simp: compare_pair_def Let_def split: sum.splits if_splits)
  from judge_pair_ok [OF d(1)] have "0 < 1 + pd_margin d" by (simp add: decision_ok_def)
  then show "0 < out_weight o'" by (simp add: d(2) outcome_from_def split: Preferred.splits)
  show "valid_PairwiseVerdict v" "ent_id v = te_verdict_id env a b" "workspace_id v = ws"
    using d(3) by (simp_all add: d(4) verdict_from_def)
qed

lemma compare_pair_total:
  assumes "map_of by_id a = Some x" "map_of by_id b = Some y" "ws \<noteq> []" "te_verdict_id env a b \<noteq> []"
  shows "\<exists>r. compare_pair env ws spec by_id (a, b) = Inr r"
proof (cases "judge_pair (te_float_of_str env) (te_judge env a b) (ts_swap_and_average spec)
        (cd_output_text x) (cd_output_text y)")
  case (Inr d)
  with judge_pair_ok [OF Inr] assms show ?thesis
    by (auto simp: compare_pair_def Let_def valid_PairwiseVerdict_def verdict_from_def valid_BaseEntity_def
        decision_ok_def tie_has_no_margin_def)
qed (use assms in \<open>simp add: compare_pair_def\<close>)

lemma candidates_by_id_keys: "set (dict_keys (candidates_by_id cs)) = cd_id ` set cs"
proof -
  have "set (dict_keys (foldl (\<lambda>d c. AList.update (cd_id c) c d) d cs)) = set (dict_keys d) \<union> cd_id ` set cs"
    for d :: "Candidate dict"
    by (induction cs arbitrary: d) (auto simp: dict_simps)
  from this [of "[]"] show ?thesis by (simp add: candidates_by_id_def dict_keys_def)
qed

lemma candidate_ids [simp]: "set (candidate_ids cs) = cd_id ` set cs" "distinct (candidate_ids cs)"
  by (simp_all add: candidate_ids_def candidates_by_id_keys)

subsection \<open>The play\<close>

text \<open>What holds of the results of a play, whatever the strategy.\<close>

definition play_ok :: "TournamentEnv \<Rightarrow> string \<Rightarrow> string list \<Rightarrow> (Outcome \<times> PairwiseVerdict) list \<Rightarrow> bool" where
  "play_ok env ws ids xs \<longleftrightarrow> distinct (map judged.result_key xs) \<and>
     (\<forall>(o', v) \<in> set xs. 0 < out_weight o' \<and> out_winner_id o' \<noteq> out_loser_id o' \<and> workspace_id v = ws \<and>
        valid_PairwiseVerdict v \<and>
        (\<exists>a b. a \<in> set ids \<and> b \<in> set ids \<and> pair_key a b = judged.result_key (o', v) \<and> ent_id v = te_verdict_id env a b))"

lemma play_ok_intro:
  assumes "distinct (map judged.result_key xs)"
    and "\<forall>x \<in> set xs. \<exists>a b. a \<in> set ids \<and> b \<in> set ids \<and> a \<noteq> b \<and> compare_pair env ws spec by_id (a, b) = Inr (Some x)"
  shows "play_ok env ws ids xs"
proof -
  have "0 < out_weight o' \<and> out_winner_id o' \<noteq> out_loser_id o' \<and> workspace_id v = ws \<and> valid_PairwiseVerdict v \<and>
      (\<exists>a b. a \<in> set ids \<and> b \<in> set ids \<and> pair_key a b = judged.result_key (o', v) \<and> ent_id v = te_verdict_id env a b)"
    if mem: "(o', v) \<in> set xs" for o' v
  proof -
    obtain a b where ab: "a \<in> set ids" "b \<in> set ids" "a \<noteq> b"
      "compare_pair env ws spec by_id (a, b) = Inr (Some (o', v))" using bspec [OF assms(2) mem] by blast
    have "pair_key a b = judged.result_key (o', v)" using judged.result_key_of [OF ab(4)] by simp
    moreover have "out_winner_id o' \<noteq> out_loser_id o'" using judged.sides [OF ab(4)] ab(3) by auto
    ultimately show ?thesis using compare_pair_Some [OF ab(4)] ab(1,2) by metis
  qed
  with assms(1) show ?thesis by (auto simp: play_ok_def)
qed

lemma play_cases:
  assumes "play env ws spec cs = Inr xs"
    and "ts_strategy spec = ''vs_baseline'' \<longrightarrow> (\<exists>b \<in> cd_id ` set cs. ts_baseline_id spec = Some b)"
  shows "play_ok env ws (candidate_ids cs) xs"
proof (cases "ts_strategy spec = ''swiss''")
  case True
  with assms(1) have "swiss_rounds (compare_pair env ws spec (candidates_by_id cs)) (candidate_ids cs)
      (nat (ts_swiss_rounds spec)) (fromkeys (candidate_ids cs) 0) [] = Inr xs"
    by (simp add: play_def Let_def run_swiss_def)
  from judged.swiss_rounds_keys [OF this candidate_ids(2)] show ?thesis by (intro play_ok_intro) blast+
next
  case False
  with assms(1) obtain ps where ps: "plan_pairs (te_digest env) (ts_strategy spec) (candidate_ids cs)
      (ts_baseline_id spec) (ts_comparisons_per_candidate spec) = Inr ps"
    "compare_all (compare_pair env ws spec (candidates_by_id cs)) ps = Inr xs"
    by (auto simp: play_def Let_def bind_result_Inr_iff)
  have "plan_ok (candidate_ids cs) ps" using plan_pairs_ok [OF ps(1)] assms(2) by simp
  from judged.plan_results [OF ps(2) this] show ?thesis by (intro play_ok_intro) blast+
qed

lemma play_total:
  assumes "ws \<noteq> []" "\<forall>a \<in> cd_id ` set cs. \<forall>b \<in> cd_id ` set cs. te_verdict_id env a b \<noteq> []"
    and "ts_strategy spec \<in> set PAIRING_STRATEGIES"
    and "ts_strategy spec = ''vs_baseline'' \<longrightarrow> (\<exists>b \<in> cd_id ` set cs. ts_baseline_id spec = Some b)"
  shows "\<exists>xs. play env ws spec cs = Inr xs"
proof -
  let ?cmp = "compare_pair env ws spec (candidates_by_id cs)" and ?ids = "candidate_ids cs"
  have tot: "\<exists>r. ?cmp (a, b) = Inr r" if "a \<in> set ?ids" "b \<in> set ?ids" for a b
  proof -
    from that obtain x y where "map_of (candidates_by_id cs) a = Some x" "map_of (candidates_by_id cs) b = Some y"
      using keys_map_of [of _ "candidates_by_id cs"] by (auto simp: candidates_by_id_keys)
    moreover have "te_verdict_id env a b \<noteq> []" using that assms(2) unfolding candidate_ids by blast
    ultimately show ?thesis using assms(1) compare_pair_total by blast
  qed
  show ?thesis
  proof (cases "ts_strategy spec = ''swiss''")
    case True
    have "set ?ids \<subseteq> set (dict_keys (fromkeys ?ids (0 :: rat)))" by (simp only: fromkeys_facts)
    from judged.swiss_rounds_total [OF candidate_ids(2) this tot] True show ?thesis
      by (simp add: play_def Let_def run_swiss_def)
  next
    case False
    then obtain ps where ps: "plan_pairs (te_digest env) (ts_strategy spec) ?ids
        (ts_baseline_id spec) (ts_comparisons_per_candidate spec) = Inr ps"
      using plan_pairs_total assms(3,4) by fastforce
    have "plan_ok ?ids ps" using plan_pairs_ok [OF ps] assms(4) by simp
    with tot have "\<exists>y. ?cmp p = Inr y" if "p \<in> set ps" for p
      using that by (cases p) (auto simp: plan_ok_def list_all_iff)
    from judged.compare_all_total [OF this] False ps show ?thesis by (simp add: play_def Let_def)
  qed
qed

subsection \<open>What is written\<close>

lemma put_new_entity:
  assumes "\<not> sc_closed sc" "workspace_id e = sc_workspace_id sc" "ent_id e \<notin> ent_id ` set t"
  shows "put_entity sc e t = Inr (t @ [e])"
  using assms by (simp add: put_entity_def guard_open_def assert_owns_def put_entity_with_mapper_def upsert_def
      find_row_None [THEN iffD2])

lemma put_verdicts_new:
  assumes "\<not> sc_closed sc" "\<forall>v \<in> set vs. workspace_id v = sc_workspace_id sc"
    and "distinct (map ent_id vs)" "ent_id ` set vs \<inter> ent_id ` set (pdb_verdicts db) = {}"
  shows "put_verdicts sc vs db = (Inr (), db\<lparr>pdb_verdicts := pdb_verdicts db @ vs\<rparr>)"
  using assms(2-)
proof (induction vs arbitrary: db)
  case (Cons v vs)
  have "put_entity sc v (pdb_verdicts db) = Inr (pdb_verdicts db @ [v])"
    by (rule put_new_entity) (use assms(1) Cons.prems in auto)
  moreover have "put_verdicts sc vs (db\<lparr>pdb_verdicts := pdb_verdicts db @ [v]\<rparr>) =
      (Inr (), db\<lparr>pdb_verdicts := (pdb_verdicts db @ [v]) @ vs\<rparr>)"
    using Cons.IH [of "db\<lparr>pdb_verdicts := pdb_verdicts db @ [v]\<rparr>"] Cons.prems by auto
  ultimately show ?case using Cons.prems by (simp add: assert_owns_def)
qed simp

lemma play_ids:
  assumes "play_ok env ws ids xs" "inj_on (\<lambda>(a, b). te_verdict_id env a b) (set ids \<times> set ids)"
  shows "distinct (map (\<lambda>x. ent_id (snd x)) xs)"
  using assms(1)
proof (induction xs)
  case (Cons x xs)
  then have IH: "distinct (map (\<lambda>x. ent_id (snd x)) xs)" by (simp add: play_ok_def)
  have "ent_id (snd x) \<noteq> ent_id (snd y)" if y: "y \<in> set xs" for y
  proof
    assume e: "ent_id (snd x) = ent_id (snd y)"
    obtain a b where ab: "a \<in> set ids" "b \<in> set ids" "pair_key a b = judged.result_key x"
      "ent_id (snd x) = te_verdict_id env a b" using Cons.prems by (fastforce simp: play_ok_def)
    obtain c d where cd: "c \<in> set ids" "d \<in> set ids" "pair_key c d = judged.result_key y"
      "ent_id (snd y) = te_verdict_id env c d" using Cons.prems y by (fastforce simp: play_ok_def)
    from e ab cd have "(a, b) = (c, d)" by (intro inj_onD [OF assms(2)]) auto
    with ab(3) cd(3) have "judged.result_key x = judged.result_key y" by simp
    with Cons.prems y show False by (simp add: play_ok_def rev_image_eqI)
  qed
  with IH show ?case by auto
qed simp

subsection \<open>The ranking\<close>

lemma tournament_rows_facts:
  "map tw_rank (tournament_rows rows) = [1..<Suc (length rows)]"
  "map tw_candidate_id (tournament_rows rows) = map row_candidate_id rows"
  "map tw_score (tournament_rows rows) = map row_score rows"
proof -
  have z: "map (\<lambda>(i, r). f r) (zip [0..<length rows] rows) = map f rows" for f :: "RankingRow \<Rightarrow> 'b"
    by (rule nth_equalityI) simp_all
  show "map tw_rank (tournament_rows rows) = [1..<Suc (length rows)]"
    by (rule nth_equalityI) (simp_all add: tournament_rows_def del: upt_Suc)
  show "map tw_candidate_id (tournament_rows rows) = map row_candidate_id rows"
    using z [of row_candidate_id] by (simp add: tournament_rows_def comp_def case_prod_unfold)
  show "map tw_score (tournament_rows rows) = map row_score rows"
    using z [of row_score] by (simp add: tournament_rows_def comp_def case_prod_unfold)
qed

lemma sorted_scores_map:
  "sorted_wrt (\<lambda>r r'. f r' \<le> f r) xs \<longleftrightarrow> sorted_wrt (\<lambda>x y. y \<le> (x :: rat)) (map f xs)"
  by (simp add: sorted_wrt_map)

lemma bradley_terry_rows:
  assumes "bradley_terry max_iter tol cs os = Inr r" "cs \<noteq> []"
  shows "\<exists>scores. rg_rows r = ranking_rows cs scores os"
  using assms by (auto simp: bradley_terry_def Let_def bind_result_Inr_iff split: if_splits prod.splits)

text \<open>Either method ranks: every candidate once, best first, with the scores adding up to 1500 points a
  candidate for Elo and to 1 for Bradley-Terry.\<close>

lemma rank_candidates_sound:
  assumes "distinct ids" "ids \<noteq> []" "list_all (\<lambda>o'. 0 < out_weight o' \<and> out_winner_id o' \<noteq> out_loser_id o') os"
  shows "\<exists>r. rank_candidates env meth ids os = Inr r \<and> mset (map row_candidate_id (rg_rows r)) = mset ids \<and>
    sorted_wrt (\<lambda>x y. row_score y \<le> row_score x) (rg_rows r) \<and>
    sum_list (map row_score (rg_rows r)) = (if meth = ''elo'' then of_nat (length ids) * 1500 else 1)"
proof (cases "meth = ''elo''")
  case True
  have "list_all (\<lambda>o'. out_winner_id o' \<noteq> out_loser_id o') os" using assms(3) by (auto simp: list_all_iff)
  from elo_sum_aux [OF assms(1) this] show ?thesis
    using True ranking_rows_candidates ranking_rows_best_first
    by (simp add: rank_candidates_def elo_ratings_def)
next
  case False
  have "list_all (\<lambda>o'. 0 < out_weight o') os" using assms(3) by (auto simp: list_all_iff)
  from bradley_terry_total_aux [OF assms(1,2) this, of 100 "1 / 1000000"] obtain r where
    r: "bradley_terry 100 (1 / 1000000) ids os = Inr r" "sum_list (map row_score (rg_rows r)) = 1" by auto
  obtain scores where "rg_rows r = ranking_rows ids scores os" using bradley_terry_rows [OF r(1) assms(2)] by blast
  then show ?thesis
    using False r ranking_rows_candidates [of ids scores os] ranking_rows_best_first [of ids scores os]
    by (simp add: rank_candidates_def)
qed

text \<open>One ranking is stored, with ranks from 1 on.\<close>

lemma persist_tournament_ok:
  assumes "\<not> sc_closed sc" "sc_workspace_id sc \<noteq> []" "te_tournament_id env \<noteq> []"
    and "te_tournament_id env \<notin> ent_id ` set (td_tournaments db)"
    and "ts_strategy spec \<in> set PAIRING_STRATEGIES" "ts_method spec \<in> set RANKING_METHODS"
    and "\<forall>c \<in> set ids. c \<noteq> []" "mset (map row_candidate_id (rg_rows r)) = mset ids"
  shows "\<exists>t. persist_tournament env sc spec r ids n db = (Inr t, db\<lparr>td_tournaments := td_tournaments db @ [t]\<rparr>) \<and>
    tn_ranking t = tournament_rows (rg_rows r) \<and> tn_n_comparisons t = n"
proof -
  define t where "t = \<lparr>ent_id = te_tournament_id env, workspace_id = sc_workspace_id sc, version = 1,
            created_at = te_now env, updated_at = te_now env, deleted_at = None,
            tn_experiment_id = ts_experiment_id spec, tn_strategy = ts_strategy spec,
            tn_method = ts_method spec, tn_candidate_ids = ids, tn_baseline_id = ts_baseline_id spec,
            tn_n_comparisons = n, tn_swap_and_average = ts_swap_and_average spec,
            tn_ranking = tournament_rows (rg_rows r)\<rparr>"
  have "set (map tw_candidate_id (tournament_rows (rg_rows r))) = set ids"
    using tournament_rows_facts(2) assms(8) by (metis set_mset_mset)
  then have "tw_candidate_id w \<noteq> []" if "w \<in> set (tournament_rows (rg_rows r))" for w
    using that assms(7) by auto
  moreover have "1 \<le> tw_rank w" if "w \<in> set (tournament_rows (rg_rows r))" for w
    using that by (auto simp: tournament_rows_def)
  ultimately have "valid_Tournament t"
    using assms(2,3,5-7) by (simp add: valid_Tournament_def t_def valid_BaseEntity_def list_all_iff valid_TournamentRow_def)
  moreover have "put_entity sc t (td_tournaments db) = Inr (td_tournaments db @ [t])"
    by (rule put_new_entity) (use assms(1,4) in \<open>simp_all add: t_def\<close>)
  ultimately have "persist_tournament env sc spec r ids n db = (Inr t, db\<lparr>td_tournaments := td_tournaments db @ [t]\<rparr>)"
    by (simp add: persist_tournament_def t_def [symmetric])
  moreover have "tn_ranking t = tournament_rows (rg_rows r)" "tn_n_comparisons t = n" by (simp_all add: t_def)
  ultimately show ?thesis by blast
qed

subsection \<open>The whole tournament\<close>

lemma ingest_new:
  assumes "\<not> sc_closed sc" "\<forall>v \<in> set vs. workspace_id v = sc_workspace_id sc"
    and "distinct (map ent_id vs)" "ent_id ` set vs \<inter> ent_id ` set (pdb_verdicts (td_pairs db)) = {}"
  shows "snd ((if vs = [] then return_exec [] else on_pairs (ingest_verdicts sc False vs)) db) =
      db\<lparr>td_pairs := (td_pairs db)\<lparr>pdb_verdicts := pdb_verdicts (td_pairs db) @ vs\<rparr>\<rparr>"
    "fst ((if vs = [] then return_exec [] else on_pairs (ingest_verdicts sc False vs)) db) = Inr vs"
  using put_verdicts_new [OF assms]
  by (simp_all add: return_exec_def on_pairs_def ingest_verdicts_def bind_exec_def split: prod.splits)

lemma run_tournament_sound_aux:
  fixes ids cs
  defines "ids \<equiv> candidate_ids cs"
  assumes scope: "\<not> sc_closed sc" "sc_workspace_id sc \<noteq> []"
    and verdict_ids: "inj_on (\<lambda>(a, b). te_verdict_id env a b) (set ids \<times> set ids)"
      "\<forall>a \<in> set ids. \<forall>b \<in> set ids. te_verdict_id env a b \<noteq> [] \<and>
         te_verdict_id env a b \<notin> ent_id ` set (pdb_verdicts (td_pairs db))"
    and tournament_id: "te_tournament_id env \<noteq> []" "te_tournament_id env \<notin> ent_id ` set (td_tournaments db)"
    and spec: "ts_strategy spec \<in> set PAIRING_STRATEGIES" "ts_method spec \<in> set RANKING_METHODS"
      "ts_strategy spec = ''vs_baseline'' \<longrightarrow> (\<exists>b \<in> set ids. ts_baseline_id spec = Some b)"
    and cs: "cs \<noteq> []" "\<forall>c \<in> set ids. c \<noteq> []"
  shows "\<exists>t r vs. run_tournament env sc spec cs db =
      (Inr \<lparr>tres_tournament = t, tres_ranking = r, tres_n_comparisons = length vs\<rparr>,
       \<lparr>td_pairs = (td_pairs db)\<lparr>pdb_verdicts := pdb_verdicts (td_pairs db) @ vs\<rparr>,
        td_tournaments = td_tournaments db @ [t]\<rparr>) \<and>
    list_all valid_PairwiseVerdict vs \<and> tn_n_comparisons t = length vs \<and>
    map tw_rank (tn_ranking t) = [1..<Suc (length ids)] \<and>
    mset (map tw_candidate_id (tn_ranking t)) = mset ids \<and>
    sorted_wrt (\<lambda>x y. y \<le> x) (map tw_score (tn_ranking t)) \<and>
    sum_list (map tw_score (tn_ranking t)) = (if ts_method spec = ''elo'' then of_nat (length ids) * 1500 else 1)"
proof -
  have ids: "distinct ids" "set ids = cd_id ` set cs" "ids \<noteq> []"
    using cs(1) by (simp_all add: ids_def flip: set_empty)
  obtain xs where xs: "play env (sc_workspace_id sc) spec cs = Inr xs"
    using play_total [OF scope(2), of cs env spec] verdict_ids(2) spec ids(2) by auto
  have ok: "play_ok env (sc_workspace_id sc) ids xs"
    using play_cases [OF xs] spec(3) by (simp add: ids_def)
  let ?vs = "map snd xs" and ?os = "map fst xs"
  have vs: "\<forall>v \<in> set ?vs. workspace_id v = sc_workspace_id sc" "list_all valid_PairwiseVerdict ?vs"
    "list_all (\<lambda>o'. 0 < out_weight o' \<and> out_winner_id o' \<noteq> out_loser_id o') ?os"
    using ok by (auto simp: play_ok_def list_all_iff)
  have distinct: "distinct (map ent_id ?vs)" using play_ids [OF ok verdict_ids(1)] by (simp add: comp_def)
  have fresh: "ent_id ` set ?vs \<inter> ent_id ` set (pdb_verdicts (td_pairs db)) = {}"
    using ok verdict_ids(2) by (fastforce simp: play_ok_def)
  obtain r where r: "rank_candidates env (ts_method spec) ids ?os = Inr r"
    "mset (map row_candidate_id (rg_rows r)) = mset ids"
    "sorted_wrt (\<lambda>x y. row_score y \<le> row_score x) (rg_rows r)"
    "sum_list (map row_score (rg_rows r)) = (if ts_method spec = ''elo'' then of_nat (length ids) * 1500 else 1)"
    using rank_candidates_sound [OF ids(1,3) vs(3), of env "ts_method spec"] by blast
  let ?db = "db\<lparr>td_pairs := (td_pairs db)\<lparr>pdb_verdicts := pdb_verdicts (td_pairs db) @ ?vs\<rparr>\<rparr>"
  obtain t where t: "persist_tournament env sc spec r ids (length ?os) ?db =
      (Inr t, ?db\<lparr>td_tournaments := td_tournaments ?db @ [t]\<rparr>)"
    "tn_ranking t = tournament_rows (rg_rows r)" "tn_n_comparisons t = length ?os"
    using persist_tournament_ok [OF scope tournament_id(1) _ spec(1,2) cs(2) r(2), of ?db "length ?os"]
      tournament_id(2) by auto
  have len: "length (rg_rows r) = length ids" using r(2) by (metis length_map size_mset)
  note ingest = ingest_new [OF scope(1) vs(1) distinct fresh]
  have run: "run_tournament env sc spec cs db =
      (Inr \<lparr>tres_tournament = t, tres_ranking = r, tres_n_comparisons = length ?vs\<rparr>,
       \<lparr>td_pairs = (td_pairs db)\<lparr>pdb_verdicts := pdb_verdicts (td_pairs db) @ ?vs\<rparr>,
        td_tournaments = td_tournaments db @ [t]\<rparr>)"
    using ingest t(1) r(1)
    by (simp add: run_tournament_def xs lift_result_def bind_exec_def Let_def ids_def [symmetric] return_exec_def
        case_prod_beta)
  have n: "tn_n_comparisons t = length ?vs" by (simp only: t(3) length_map)
  have ranks: "map tw_rank (tn_ranking t) = [1..<Suc (length ids)]"
    by (simp only: t(2) tournament_rows_facts(1) len)
  have members: "mset (map tw_candidate_id (tn_ranking t)) = mset ids"
    unfolding t(2) tournament_rows_facts(2) by (rule r(2))
  have order: "sorted_wrt (\<lambda>x y. y \<le> x) (map tw_score (tn_ranking t))"
    unfolding t(2) tournament_rows_facts(3) sorted_scores_map [symmetric] by (rule r(3))
  have scores: "sum_list (map tw_score (tn_ranking t)) =
      (if ts_method spec = ''elo'' then of_nat (length ids) * 1500 else 1)"
    unfolding t(2) tournament_rows_facts(3) by (rule r(4))
  show ?thesis
    by (intro exI [of _ t] exI [of _ r] exI [of _ ?vs] conjI run vs(2) n ranks members order scores)
qed

end
