(* ===== verification/Tournament_Properties.thy ===== *)
theory Tournament_Properties
  imports Tournament_Facts
begin

section \<open>Properties of tournaments and verdicts\<close>

text \<open>
  The claims about pairwise judging above the single comparison, each with a witness on a small
  tournament of three candidates.
\<close>

subsection \<open>A small tournament\<close>

text \<open>The judge prefers the text that is shown first when it starts with a letter before the other's.\<close>

definition sample_judge :: "string \<Rightarrow> string \<Rightarrow> pair_judge" where
  "sample_judge a_id b_id a b =
     (if a < b then Inr (Some (JObj [(''preferred'', JStr ''a''), (''margin'', JFloat 1)]))
      else Inl TimeoutError)"

definition sample_env :: TournamentEnv where
  "sample_env = \<lparr>te_judge = sample_judge, te_float_of_str = (\<lambda>_. None), te_digest = (\<lambda>s. s),
     te_logistic = (\<lambda>_. 1 / 2), te_verdict_id = (\<lambda>a b. ''pv_'' @ a @ b), te_tournament_id = ''tn_1'', te_now = 7\<rparr>"

definition sample_spec :: TournamentSpec where
  "sample_spec = \<lparr>ts_strategy = ''swiss'', ts_method = ''elo'', ts_baseline_id = None,
     ts_comparisons_per_candidate = 3, ts_swiss_rounds = 3, ts_swap_and_average = False, ts_experiment_id = None\<rparr>"

definition sample_candidates :: "Candidate list" where
  "sample_candidates = [\<lparr>cd_id = ''c'', cd_output_text = ''z'', cd_trace_id = None\<rparr>,
     \<lparr>cd_id = ''a'', cd_output_text = ''x'', cd_trace_id = None\<rparr>,
     \<lparr>cd_id = ''b'', cd_output_text = ''y'', cd_trace_id = None\<rparr>]"

definition sample_db :: TournamentDb where
  "sample_db = \<lparr>td_pairs = \<lparr>pdb_verdicts = [], pdb_experiments = [], pdb_cases = [], pdb_traces = []\<rparr>,
     td_tournaments = []\<rparr>"

definition sample_pair_scope :: WorkspaceScope where
  "sample_pair_scope = \<lparr>sc_workspace_id = ''ws'', sc_closed = False\<rparr>"

lemma sample_ids: "candidate_ids sample_candidates = [''a'', ''b'', ''c'']"
  by code_simp

subsection \<open>The claims\<close>



text \<open>C28. No pair is judged twice in one tournament, whatever the strategy and in whatever Swiss round,
  and no candidate is judged against itself.\<close>

theorem no_pair_judged_twice:
  assumes "play env ws spec cs = Inr xs"
    and "ts_strategy spec = ''vs_baseline'' \<longrightarrow> (\<exists>b \<in> cd_id ` set cs. ts_baseline_id spec = Some b)"
  shows "distinct (map (\<lambda>(o', v). pair_key (out_winner_id o') (out_loser_id o')) xs) \<and>
    list_all (\<lambda>(o', v). out_winner_id o' \<noteq> out_loser_id o') xs"
proof -
  have k: "judged.result_key = (\<lambda>(o', v :: PairwiseVerdict). pair_key (out_winner_id o') (out_loser_id o'))"
    by (simp add: judged.result_key_def fun_eq_iff)
  show ?thesis using play_cases [OF assms] by (auto simp: play_ok_def k list_all_iff)
qed

lemma sample_play:
  "map_sum id (map fst) (play sample_env ''ws'' sample_spec sample_candidates) =
     Inr [\<lparr>out_winner_id = ''a'', out_loser_id = ''b'', out_tie = False, out_weight = 2\<rparr>,
          \<lparr>out_winner_id = ''a'', out_loser_id = ''c'', out_tie = False, out_weight = 2\<rparr>,
          \<lparr>out_winner_id = ''b'', out_loser_id = ''c'', out_tie = False, out_weight = 2\<rparr>]"
  by code_simp

theorem no_pair_judged_twice_witness:
  "\<exists>xs. play sample_env ''ws'' sample_spec sample_candidates = Inr xs \<and> length xs = 3 \<and>
     distinct (map (\<lambda>(o', v). pair_key (out_winner_id o') (out_loser_id o')) xs) \<and>
     list_all (\<lambda>(o', v). out_winner_id o' \<noteq> out_loser_id o') xs"
proof -
  obtain xs where xs: "play sample_env ''ws'' sample_spec sample_candidates = Inr xs"
    "map fst xs = [\<lparr>out_winner_id = ''a'', out_loser_id = ''b'', out_tie = False, out_weight = 2\<rparr>,
          \<lparr>out_winner_id = ''a'', out_loser_id = ''c'', out_tie = False, out_weight = 2\<rparr>,
          \<lparr>out_winner_id = ''b'', out_loser_id = ''c'', out_tie = False, out_weight = 2\<rparr>]"
    using sample_play by (cases "play sample_env ''ws'' sample_spec sample_candidates") simp_all
  from arg_cong [OF xs(2), of length] have "length xs = 3" by simp
  with xs(1) no_pair_judged_twice [OF xs(1)] show ?thesis by (simp add: sample_spec_def)
qed

text \<open>A batch of verdicts is validated as a whole before any of it is written: one verdict with a
  reference that the scope does not know refuses the batch and leaves the store as it was.\<close>

theorem ingest_is_all_or_nothing_on_refs:
  assumes "v \<in> set vs" "validate_refs sc db v \<noteq> Inr ()"
  shows "\<exists>e. ingest_verdicts sc True vs db = (Inl e, db)"
  using assms by (rule ingest_validates_first)

definition sample_verdict :: "string \<Rightarrow> JudgeKind \<Rightarrow> string \<Rightarrow> string \<Rightarrow> Preferred \<Rightarrow> PairwiseVerdict" where
  "sample_verdict i kind a b p =
     (verdict_from 7 i ''ws'' None False \<lparr>pd_preferred = p, pd_margin = 0, pd_reason = []\<rparr>
       \<lparr>cd_id = a, cd_output_text = a, cd_trace_id = None\<rparr> \<lparr>cd_id = b, cd_output_text = b, cd_trace_id = None\<rparr>)
     \<lparr>pv_judge_kind := kind\<rparr>"

theorem ingest_is_all_or_nothing_on_refs_witness:
  "\<exists>e. ingest_verdicts sample_pair_scope True
     [sample_verdict ''v1'' LLM ''x'' ''y'' PrefA,
      (sample_verdict ''v2'' LLM ''x'' ''y'' PrefA)\<lparr>pv_experiment_id := Some ''gone''\<rparr>] (td_pairs sample_db) =
     (Inl e, td_pairs sample_db)"
  by (rule ingest_is_all_or_nothing_on_refs
      [of "(sample_verdict ''v2'' LLM ''x'' ''y'' PrefA)\<lparr>pv_experiment_id := Some ''gone''\<rparr>"])
    (simp_all add: validate_refs_def require_known_def known_def entity_exists_def guard_open_def
      sample_pair_scope_def sample_db_def load_row_def)

text \<open>The calibration report counts the pairs (per rubric version) whose latest model verdict and
  latest human verdict both exist: an agreement where they prefer the same side, a disagreement
  where they do not; its cells, one for each version, add up to the totals.\<close>

theorem calibration_counts:
  "cr_agreements (calibrate vs) =
     card {key. latest vs key LLM \<noteq> None \<and> latest vs key Human = latest vs key LLM} \<and>
   cr_disagreements (calibrate vs) =
     card {key. latest vs key LLM \<noteq> None \<and> latest vs key Human \<noteq> None \<and> latest vs key Human \<noteq> latest vs key LLM} \<and>
   cr_compared_pairs (calibrate vs) = cr_agreements (calibrate vs) + cr_disagreements (calibrate vs) \<and>
   sum_list (map cc_agreements (cr_by_rubric_version (calibrate vs))) = cr_agreements (calibrate vs) \<and>
   sum_list (map cc_disagreements (cr_by_rubric_version (calibrate vs))) = cr_disagreements (calibrate vs) \<and>
   distinct (map cc_rubric_version (cr_by_rubric_version (calibrate vs)))"
  unfolding calibrate_counts_aux [symmetric] calibrate_cells_aux
  using calibrate_cells_aux(3) by (simp add: calibrate_def Let_def)

text \<open>A model and a human that judged the same two texts in opposite orders and preferred the same
  text are counted as one disagreement and no agreement: the pair is recognised whichever side
  comes first, the preferred side is not turned with it.\<close>

theorem mirrored_verdicts_disagree:
  assumes "pv_judge_kind v = LLM" "pv_judge_kind w = Human" "pv_rubric_version v = pv_rubric_version w"
    and "pv_a_ref w = pv_b_ref v" "pv_b_ref w = pv_a_ref v"
    and "pv_preferred w = mirror (pv_preferred v)" "pv_preferred v \<noteq> PrefTie"
  shows "cr_disagreements (calibrate [v, w]) = 1 \<and> cr_agreements (calibrate [v, w]) = 0"
  using assms by (rule mirrored_verdicts_disagree_aux)

theorem mirrored_verdicts_disagree_witness:
  "cr_disagreements (calibrate [sample_verdict ''v1'' LLM ''x'' ''y'' PrefA, sample_verdict ''v2'' Human ''y'' ''x'' PrefB]) = 1 \<and>
   cr_agreements (calibrate [sample_verdict ''v1'' LLM ''x'' ''y'' PrefA, sample_verdict ''v2'' Human ''y'' ''x'' PrefB]) = 0"
  by (rule mirrored_verdicts_disagree) (simp_all add: sample_verdict_def verdict_from_def mirror_def candidate_ref_def)

text \<open>Bradley-Terry does not depend on the order of the outcomes, and on outcomes of positive weight it
  returns scores that are not negative and add up to 1 (no division by zero on the way).\<close>

theorem bradley_terry_sound:
  assumes "distinct cs" "cs \<noteq> []" "list_all (\<lambda>o'. 0 < out_weight o') os" "0 < max_iter" "mset os' = mset os"
  shows "\<exists>r. bradley_terry max_iter tol cs os = Inr r \<and> bradley_terry max_iter tol cs os' = Inr r \<and>
    list_all (\<lambda>row. 0 \<le> row_score row) (rg_rows r) \<and> sum_list (map row_score (rg_rows r)) = 1"
  using bradley_terry_total_aux [OF assms(1-4), of tol] bradley_terry_mset_aux [OF assms(5), of max_iter tol cs] by auto

theorem bradley_terry_sound_witness:
  "\<exists>r. bradley_terry 2 0 [''a'', ''b'']
        [\<lparr>out_winner_id = ''a'', out_loser_id = ''b'', out_tie = False, out_weight = 1\<rparr>,
         \<lparr>out_winner_id = ''b'', out_loser_id = ''a'', out_tie = False, out_weight = 2\<rparr>] = Inr r \<and>
     bradley_terry 2 0 [''a'', ''b'']
        [\<lparr>out_winner_id = ''b'', out_loser_id = ''a'', out_tie = False, out_weight = 2\<rparr>,
         \<lparr>out_winner_id = ''a'', out_loser_id = ''b'', out_tie = False, out_weight = 1\<rparr>] = Inr r \<and>
     list_all (\<lambda>row. 0 \<le> row_score row) (rg_rows r) \<and> sum_list (map row_score (rg_rows r)) = 1"
  by (rule bradley_terry_sound) simp_all

end
