(* ===== verification/Object_Store.thy ===== *)
theory Object_Store
  imports Prelude
begin

section \<open>storage/filesystem.py and trace/payload\_router.py\<close>

text \<open>
  The object store on a directory tree and the router that decides which payload goes there.  A
  store is the files below its root, each under its path (a list of names); bytes are characters.
  The SHA-256 digest is an argument; \<open>valid_digest\<close> is what is relied on.  Links and a root that is
  itself named by two hex digits are not modelled.  The abstract store is a map from (workspace,
  hash) to bytes; the lemmas show that put, get and delete are an update, a lookup and a removal
  in it, and that clearing a workspace is the removal of that workspace for every workspace but
  those called by one or two dots.
\<close>

type_synonym bytes = string
type_synonym path = "string list"

record ObjectStore =
  os_files :: "(path \<times> bytes) list"

definition workspace_char :: "char \<Rightarrow> bool" where
  "workspace_char c \<longleftrightarrow> (CHR ''a'' \<le> c \<and> c \<le> CHR ''z'') \<or> (CHR ''A'' \<le> c \<and> c \<le> CHR ''Z'') \<or>
     is_digit c \<or> c = CHR ''.'' \<or> c = CHR ''_'' \<or> c = CHR ''-''"

definition valid_workspace_id :: "string \<Rightarrow> bool" where
  "valid_workspace_id ws \<longleftrightarrow> ws \<noteq> [] \<and> list_all workspace_char ws"

definition validate_workspace_id :: "string \<Rightarrow> unit result" where
  "validate_workspace_id ws = (if valid_workspace_id ws then Inr () else Inl ValueError)"

definition hex_char :: "char \<Rightarrow> bool" where
  "hex_char c \<longleftrightarrow> is_digit c \<or> (CHR ''a'' \<le> c \<and> c \<le> CHR ''f'')"

definition valid_digest :: "string \<Rightarrow> bool" where
  "valid_digest d \<longleftrightarrow> length d = 64 \<and> list_all hex_char d"

definition bytes_hash :: "(bytes \<Rightarrow> string) \<Rightarrow> bytes \<Rightarrow> string" where
  "bytes_hash digest data = ''sha256:'' @ digest data"

subsection \<open>Pointers\<close>

definition make_pointer :: "string \<Rightarrow> string \<Rightarrow> string result" where
  "make_pointer ws h = bind_result (validate_workspace_id ws) (\<lambda>_.
     if \<not> starts_with h ''sha256:'' \<or> length h \<noteq> length ''sha256:'' + 64 then Inl ValueError
     else Inr (''oss://'' @ ws @ ''/'' @ h))"

text \<open>The pattern ends in \<^verbatim>\<open>$\<close>, which also matches before one final newline.\<close>

definition parse_hash :: "string \<Rightarrow> string option" where
  "parse_hash s = (let d = take 64 (drop 7 s); rest = drop 71 s
     in if starts_with s ''sha256:'' \<and> valid_digest d \<and> (rest = [] \<or> rest = [CHR 0x0A])
        then Some (''sha256:'' @ d) else None)"

definition parse_pointer :: "string \<Rightarrow> (string \<times> string) result" where
  "parse_pointer p =
     (if starts_with p ''oss://''
      then case split_first (CHR ''/'') (drop 6 p) of
             (ws, Some s) \<Rightarrow> (case parse_hash s of
                Some h \<Rightarrow> if valid_workspace_id ws then Inr (ws, h) else Inl ValueError
              | None \<Rightarrow> Inl ValueError)
           | (_, None) \<Rightarrow> Inl ValueError
      else Inl ValueError)"

subsection \<open>Paths\<close>

text \<open>\<^verbatim>\<open>Path.resolve\<close> below the root; \<open>None\<close> when the path leaves it.\<close>

fun resolve :: "path \<Rightarrow> path \<Rightarrow> path option" where
  "resolve base [] = Some base"
| "resolve base (x # xs) =
     (if x = ''.'' then resolve base xs
      else if x = ''..'' then (if base = [] then None else resolve (butlast base) xs)
      else resolve (base @ [x]) xs)"

definition path_for :: "string \<Rightarrow> string \<Rightarrow> path result" where
  "path_for ws h = bind_result (validate_workspace_id ws) (\<lambda>_.
     case split_first (CHR '':'') h of
       (_, None) \<Rightarrow> Inl IndexError
     | (_, Some hex) \<Rightarrow> (case resolve [] [ws, take 2 hex, hex @ ''.bin''] of
         None \<Rightarrow> Inl ValueError | Some p \<Rightarrow> Inr p))"

subsection \<open>Operations\<close>

definition os_put ::
    "(bytes \<Rightarrow> string) \<Rightarrow> string \<Rightarrow> string \<Rightarrow> bytes \<Rightarrow> ObjectStore \<Rightarrow> (string \<times> ObjectStore) result" where
  "os_put digest ws key data st =
     bind_result (validate_workspace_id ws) (\<lambda>_.
     if key = [] then Inl ValueError
     else let h = bytes_hash digest data in
     bind_result (path_for ws h) (\<lambda>p.
     case map_of (os_files st) p of
       Some existing \<Rightarrow>
         if existing \<noteq> data then Inl IntegrityViolationError
         else bind_result (make_pointer ws h) (\<lambda>ptr. Inr (ptr, st))
     | None \<Rightarrow> bind_result (make_pointer ws h) (\<lambda>ptr.
         Inr (ptr, st\<lparr>os_files := AList.update p data (os_files st)\<rparr>))))"

definition os_get :: "(bytes \<Rightarrow> string) \<Rightarrow> string \<Rightarrow> ObjectStore \<Rightarrow> bytes result" where
  "os_get digest ptr st =
     bind_result (parse_pointer ptr) (\<lambda>(ws, h).
     bind_result (path_for ws h) (\<lambda>p.
     case map_of (os_files st) p of
       None \<Rightarrow> Inl ObjectNotFoundError
     | Some data \<Rightarrow> if bytes_hash digest data \<noteq> h then Inl PointerHashMismatchError else Inr data))"

definition os_exists :: "string \<Rightarrow> ObjectStore \<Rightarrow> bool result" where
  "os_exists ptr st = (case parse_pointer ptr of
     Inl _ \<Rightarrow> Inr False
   | Inr (ws, h) \<Rightarrow> bind_result (path_for ws h) (\<lambda>p. Inr (map_of (os_files st) p \<noteq> None)))"

definition os_delete :: "string \<Rightarrow> ObjectStore \<Rightarrow> ObjectStore result" where
  "os_delete ptr st =
     bind_result (parse_pointer ptr) (\<lambda>(ws, h).
     bind_result (path_for ws h) (\<lambda>p.
     if map_of (os_files st) p = None then Inl ObjectNotFoundError
     else Inr (st\<lparr>os_files := AList.delete p (os_files st)\<rparr>)))"

definition workspace_for :: "string \<Rightarrow> string result" where
  "workspace_for ptr = bind_result (parse_pointer ptr) (\<lambda>(ws, _). Inr ws)"

text \<open>\<^verbatim>\<open>shutil.rmtree(root / workspace_id)\<close>: no check that the directory is below the root.  A tree that
  contains the root takes every file with it (that removing such a tree may itself end in an operating system error is
  left out).\<close>

definition below :: "path \<Rightarrow> path \<Rightarrow> bool" where
  "below dir p \<longleftrightarrow> take (length dir) p = dir"

definition clear_workspace :: "string \<Rightarrow> ObjectStore \<Rightarrow> ObjectStore result" where
  "clear_workspace ws st = bind_result (validate_workspace_id ws) (\<lambda>_.
     Inr (case resolve [] [ws] of
       None \<Rightarrow> st\<lparr>os_files := []\<rparr>
     | Some dir \<Rightarrow> st\<lparr>os_files := filter (\<lambda>(p, _). \<not> below dir p) (os_files st)\<rparr>))"

subsection \<open>Routing\<close>

datatype PayloadDecision = INLINE | POINTER

record 'v RoutedPayload =
  rp_decision :: PayloadDecision
  rp_inline_value :: "'v option"
  rp_pointer :: "string option"
  rp_content_hash :: string
  rp_byte_size :: nat

record PayloadRouter =
  rt_workspace_id :: string
  rt_threshold :: nat

definition make_PayloadRouter :: "string \<Rightarrow> int \<Rightarrow> PayloadRouter result" where
  "make_PayloadRouter ws threshold =
     (if ws = [] \<or> threshold < 0 then Inl ValueError
      else Inr \<lparr>rt_workspace_id = ws, rt_threshold = nat threshold\<rparr>)"

definition DEFAULT_INLINE_THRESHOLD_BYTES :: int where
  "DEFAULT_INLINE_THRESHOLD_BYTES = 4 * 1024"

text \<open>The router writes through the interface of a store, whatever the store.\<close>

type_synonym 's store_put = "string \<Rightarrow> string \<Rightarrow> bytes \<Rightarrow> 's \<Rightarrow> (string \<times> 's) result"

definition route_encoded ::
    "(bytes \<Rightarrow> string) \<Rightarrow> 's store_put \<Rightarrow> PayloadRouter \<Rightarrow> string \<Rightarrow> 'v \<Rightarrow> bytes \<Rightarrow> 's \<Rightarrow> ('v RoutedPayload \<times> 's) result" where
  "route_encoded digest put router key original encoded st =
     (let size = length encoded; h = bytes_hash digest encoded
      in if size \<le> rt_threshold router
         then Inr (\<lparr>rp_decision = INLINE, rp_inline_value = Some original, rp_pointer = None,
                rp_content_hash = h, rp_byte_size = size\<rparr>, st)
         else bind_result (put (rt_workspace_id router) key encoded st) (\<lambda>(ptr, st').
              Inr (\<lparr>rp_decision = POINTER, rp_inline_value = None, rp_pointer = Some ptr,
                rp_content_hash = h, rp_byte_size = size\<rparr>, st')))"

text \<open>\<open>dumps\<close> is \<^verbatim>\<open>json.dumps(..., sort_keys=True, ...)\<close> followed by the UTF-8 encoding, \<open>utf8\<close> the encoding
  of a string.\<close>

definition encode_value :: "(json \<Rightarrow> bytes) \<Rightarrow> (string \<Rightarrow> bytes) \<Rightarrow> json \<Rightarrow> bytes" where
  "encode_value dumps utf8 v = (case v of JStr s \<Rightarrow> utf8 s | _ \<Rightarrow> dumps v)"

definition route_value ::
    "(json \<Rightarrow> bytes) \<Rightarrow> (string \<Rightarrow> bytes) \<Rightarrow> (bytes \<Rightarrow> string) \<Rightarrow> 's store_put \<Rightarrow> PayloadRouter \<Rightarrow> string \<Rightarrow> json \<Rightarrow>
       's \<Rightarrow> (json RoutedPayload \<times> 's) result" where
  "route_value dumps utf8 digest put router key v =
     route_encoded digest put router key v (encode_value dumps utf8 v)"

definition route_bytes ::
    "(bytes \<Rightarrow> string) \<Rightarrow> 's store_put \<Rightarrow> PayloadRouter \<Rightarrow> string \<Rightarrow> bytes \<Rightarrow> 's \<Rightarrow> (bytes RoutedPayload \<times> 's) result" where
  "route_bytes digest put router key data = route_encoded digest put router key data data"

definition put_bytes :: "'s store_put \<Rightarrow> PayloadRouter \<Rightarrow> string \<Rightarrow> bytes \<Rightarrow> 's \<Rightarrow> (string \<times> 's) result" where
  "put_bytes put router key data = put (rt_workspace_id router) key data"

text \<open>trace/context.py: audio always ends behind a pointer.\<close>

definition route_audio ::
    "(bytes \<Rightarrow> string) \<Rightarrow> 's store_put \<Rightarrow> PayloadRouter option \<Rightarrow> string \<Rightarrow> bytes \<Rightarrow> 's \<Rightarrow>
       ((string option \<times> string option) \<times> 's) result" where
  "route_audio digest put router key data st = (case router of
     None \<Rightarrow> Inr ((None, None), st)
   | Some r \<Rightarrow> bind_result (route_bytes digest put r key data st) (\<lambda>(routed, st').
       case rp_pointer routed of
         Some ptr \<Rightarrow> Inr ((Some ptr, Some (rp_content_hash routed)), st')
       | None \<Rightarrow> bind_result (put_bytes put r key data st') (\<lambda>(ptr, st'').
           Inr ((Some ptr, Some (rp_content_hash routed)), st''))))"

subsection \<open>Pointers and paths\<close>

lemma workspace_char_sep: "workspace_char c \<Longrightarrow> c \<noteq> CHR ''/''"
  by (auto simp: workspace_char_def is_digit_def less_eq_char_def)

lemma split_first_append: "c \<notin> set xs \<Longrightarrow> split_first c (xs @ c # ys) = (xs, Some ys)"
  by (induction xs) (auto simp: split_first_def)

lemma valid_workspace_sep: "valid_workspace_id ws \<Longrightarrow> CHR ''/'' \<notin> set ws"
  using workspace_char_sep by (fastforce simp: valid_workspace_id_def list_all_iff)

lemma parse_hash_iff: "parse_hash h = Some h \<longleftrightarrow> (\<exists>d. valid_digest d \<and> h = ''sha256:'' @ d)"
proof
  assume "\<exists>d. valid_digest d \<and> h = ''sha256:'' @ d"
  then show "parse_hash h = Some h" by (auto simp: parse_hash_def valid_digest_def starts_with_def)
next
  assume "parse_hash h = Some h"
  then show "\<exists>d. valid_digest d \<and> h = ''sha256:'' @ d"
    unfolding parse_hash_def Let_def by (metis option.distinct(1) option.inject)
qed

lemma parse_hash_Some: "parse_hash s = Some h \<Longrightarrow> parse_hash h = Some h"
  unfolding parse_hash_iff by (auto simp: parse_hash_def Let_def split: if_splits)

lemma parse_pointer_Inr: "parse_pointer p = Inr (ws, h) \<Longrightarrow> valid_workspace_id ws \<and> parse_hash h = Some h"
  by (auto simp: parse_pointer_def dest: parse_hash_Some split: if_splits prod.splits option.splits)

lemma make_pointer_Inr:
  "valid_workspace_id ws \<Longrightarrow> parse_hash h = Some h \<Longrightarrow> make_pointer ws h = Inr (''oss://'' @ ws @ ''/'' @ h)"
  by (auto simp: parse_hash_iff make_pointer_def validate_workspace_id_def valid_digest_def starts_with_def)

lemma parse_make_pointer:
  assumes "valid_workspace_id ws" "parse_hash h = Some h" "make_pointer ws h = Inr p"
  shows "parse_pointer p = Inr (ws, h)"
proof -
  have "p = ''oss://'' @ ws @ CHR ''/'' # h" using make_pointer_Inr [OF assms(1,2)] assms(3) by simp
  with assms(1,2) valid_workspace_sep show ?thesis
    by (simp add: parse_pointer_def starts_with_def split_first_append)
qed

text \<open>Where a blob lies.  The workspace called \<^verbatim>\<open>.\<close> has the root itself as its directory, the one called
  \<^verbatim>\<open>..\<close> has none.\<close>

lemma digest_names:
  assumes "valid_digest d"
  shows "take 2 d \<noteq> ''.'' \<and> take 2 d \<noteq> ''..'' \<and> d @ ''.bin'' \<noteq> ''.'' \<and> d @ ''.bin'' \<noteq> ''..''"
proof -
  obtain a b r where "d = a # b # r" "hex_char a"
    using assms by (cases d; cases "tl d") (auto simp: valid_digest_def)
  then show ?thesis using assms by (auto simp: valid_digest_def hex_char_def is_digit_def less_eq_char_def)
qed

lemma path_for_digest:
  assumes "valid_workspace_id ws" "valid_digest d"
  shows "path_for ws (''sha256:'' @ d) =
    (if ws = ''..'' then Inl ValueError
     else Inr ((if ws = ''.'' then [] else [ws]) @ [take 2 d, d @ ''.bin'']))"
  using assms digest_names [OF assms(2)]
  by (simp add: path_for_def validate_workspace_id_def split_first_def)

lemma path_for_hash:
  assumes "valid_workspace_id ws" "parse_hash h = Some h"
  shows "path_for ws h = (if ws = ''..'' then Inl ValueError
     else Inr ((if ws = ''.'' then [] else [ws]) @ [take 2 (drop 7 h), drop 7 h @ ''.bin'']))"
proof -
  obtain d where d: "valid_digest d" "h = ''sha256:'' @ d" using assms(2) unfolding parse_hash_iff by blast
  then have "drop 7 h = d" by simp
  with path_for_digest [OF assms(1) d(1)] show ?thesis unfolding d(2) [symmetric] by simp
qed

lemma path_for_inj:
  assumes "valid_workspace_id ws" "valid_workspace_id ws'" "parse_hash h = Some h" "parse_hash h' = Some h'"
    and "path_for ws h = Inr p" "path_for ws' h' = Inr p"
  shows "ws = ws' \<and> h = h'"
proof -
  obtain d d' where d: "h = ''sha256:'' @ d" "h' = ''sha256:'' @ d'"
    using assms(3,4) unfolding parse_hash_iff by blast
  have "p = (if ws = ''.'' then [] else [ws]) @ [take 2 (drop 7 h), drop 7 h @ ''.bin'']"
    "p = (if ws' = ''.'' then [] else [ws']) @ [take 2 (drop 7 h'), drop 7 h' @ ''.bin'']"
    using path_for_hash [OF assms(1,3)] path_for_hash [OF assms(2,4)] assms(5,6) by (simp_all split: if_splits)
  then have "ws = ws' \<and> drop 7 h = drop 7 h'" by (auto split: if_splits)
  then show ?thesis by (simp add: d)
qed

subsection \<open>The abstract store\<close>

definition contents :: "ObjectStore \<Rightarrow> string \<times> string \<Rightarrow> bytes option" where
  "contents st a = (case a of (ws, h) \<Rightarrow>
     if valid_workspace_id ws \<and> parse_hash h = Some h
     then (case path_for ws h of Inl _ \<Rightarrow> None | Inr p \<Rightarrow> map_of (os_files st) p) else None)"

definition well_addressed :: "(bytes \<Rightarrow> string) \<Rightarrow> ObjectStore \<Rightarrow> bool" where
  "well_addressed digest st \<longleftrightarrow> (\<forall>data. valid_digest (digest data)) \<and>
     (\<forall>ws h data. contents st (ws, h) = Some data \<longrightarrow> h = bytes_hash digest data)"

lemma bytes_hash_ok: "valid_digest (digest data) \<Longrightarrow> parse_hash (bytes_hash digest data) = Some (bytes_hash digest data)"
  by (auto simp: parse_hash_iff bytes_hash_def)

text \<open>A change of the files under one address, seen from all addresses.\<close>

lemma contents_change:
  assumes "valid_workspace_id ws" "parse_hash h = Some h" "path_for ws h = Inr p"
    and "\<And>q. map_of (os_files st') q = (if q = p then x else map_of (os_files st) q)"
  shows "contents st' = (contents st)((ws, h) := x)"
proof
  fix a :: "string \<times> string"
  obtain ws' h' where a: "a = (ws', h')" by (cases a)
  show "contents st' a = ((contents st)((ws, h) := x)) a"
  proof (cases "valid_workspace_id ws' \<and> parse_hash h' = Some h'")
    case True
    show ?thesis
    proof (cases "path_for ws' h'")
      case (Inl e)
      with True assms(3) show ?thesis by (auto simp: a contents_def)
    next
      case (Inr q)
      have "ws' = ws \<and> h' = h" if "q = p"
        by (rule path_for_inj [of _ _ _ _ p]) (use True assms(1-3) Inr that in simp_all)
      moreover have "q = p" if "ws' = ws \<and> h' = h" using that Inr assms(3) by simp
      ultimately have "q = p \<longleftrightarrow> ws' = ws \<and> h' = h" by blast
      with True Inr show ?thesis by (simp add: a contents_def assms(4))
    qed
  next
    case False
    with assms(1,2) show ?thesis by (auto simp: a contents_def)
  qed
qed

lemma os_put_Inr:
  assumes "os_put digest ws key data st = Inr (ptr, st')"
  shows "valid_workspace_id ws \<and> (\<exists>p. path_for ws (bytes_hash digest data) = Inr p \<and>
    make_pointer ws (bytes_hash digest data) = Inr ptr \<and>
    (map_of (os_files st) p = Some data \<and> st' = st \<or>
     map_of (os_files st) p = None \<and> st' = st\<lparr>os_files := AList.update p data (os_files st)\<rparr>))"
proof -
  let ?h = "bytes_hash digest data"
  have ws: "valid_workspace_id ws" "key \<noteq> []"
    using assms by (simp_all add: os_put_def validate_workspace_id_def split: if_splits)
  obtain p where p: "path_for ws ?h = Inr p"
    using assms ws by (cases "path_for ws ?h") (simp_all add: os_put_def Let_def validate_workspace_id_def)
  show ?thesis
  proof (cases "map_of (os_files st) p")
    case None
    with assms ws p show ?thesis
      by (simp add: os_put_def Let_def validate_workspace_id_def bind_result_Inr_iff)
  next
    case (Some x)
    with assms ws p show ?thesis
      by (simp add: os_put_def Let_def validate_workspace_id_def bind_result_Inr_iff split: if_splits)
  qed
qed

lemma put_refines_aux:
  assumes "valid_digest (digest data)" "os_put digest ws key data st = Inr (ptr, st')"
  shows "parse_pointer ptr = Inr (ws, bytes_hash digest data) \<and>
    contents st' = (contents st)((ws, bytes_hash digest data) \<mapsto> data)"
proof -
  let ?h = "bytes_hash digest data"
  from os_put_Inr [OF assms(2)] obtain p where ws: "valid_workspace_id ws" and p: "path_for ws ?h = Inr p"
    and ptr: "make_pointer ws ?h = Inr ptr"
    and st': "map_of (os_files st) p = Some data \<and> st' = st \<or>
     map_of (os_files st) p = None \<and> st' = st\<lparr>os_files := AList.update p data (os_files st)\<rparr>" by blast
  have h: "parse_hash ?h = Some ?h" using assms(1) by (rule bytes_hash_ok)
  have "map_of (os_files st') q = (if q = p then Some data else map_of (os_files st) q)" for q
    using st' by (auto simp: update_conv)
  from contents_change [OF ws h p this] parse_make_pointer [OF ws h ptr] show ?thesis by simp
qed

lemma get_refines_aux:
  "os_get digest ptr st = Inr data \<longleftrightarrow>
     (\<exists>ws h. parse_pointer ptr = Inr (ws, h) \<and> contents st (ws, h) = Some data \<and> bytes_hash digest data = h)"
proof (cases "parse_pointer ptr")
  case (Inr a)
  obtain ws h where a: "a = (ws, h)" by (cases a)
  have v: "valid_workspace_id ws \<and> parse_hash h = Some h" using parse_pointer_Inr Inr a by blast
  show ?thesis
    by (cases "path_for ws h") (use v in \<open>auto simp: os_get_def Inr a contents_def split: option.splits\<close>)
qed (simp add: os_get_def)

lemma delete_refines_aux:
  assumes "os_delete ptr st = Inr st'"
  shows "\<exists>ws h. parse_pointer ptr = Inr (ws, h) \<and> contents st (ws, h) \<noteq> None \<and>
    contents st' = (contents st)((ws, h) := None)"
proof -
  obtain ws h p where p: "parse_pointer ptr = Inr (ws, h)" "path_for ws h = Inr p"
    "map_of (os_files st) p \<noteq> None" "st' = st\<lparr>os_files := AList.delete p (os_files st)\<rparr>"
    using assms by (auto simp: os_delete_def bind_result_Inr_iff split: if_splits)
  have v: "valid_workspace_id ws" "parse_hash h = Some h" using parse_pointer_Inr [OF p(1)] by auto
  have "map_of (os_files st') q = (if q = p then None else map_of (os_files st) q)" for q
    by (simp add: p(4) delete_conv)
  from contents_change [OF v p(2) this] p v show ?thesis by (auto simp: contents_def)
qed

lemma put_get_aux:
  assumes "valid_digest (digest data)" "os_put digest ws key data st = Inr (ptr, st')"
  shows "os_get digest ptr st' = Inr data"
  using put_refines_aux [OF assms] by (simp add: get_refines_aux)

lemma put_total_aux:
  assumes "well_addressed digest st" "valid_workspace_id ws" "ws \<noteq> ''..''" "key \<noteq> []" "\<And>d. digest d = digest data \<Longrightarrow> d = data"
  shows "\<exists>ptr st'. os_put digest ws key data st = Inr (ptr, st')"
proof -
  let ?h = "bytes_hash digest data"
  have d: "valid_digest (digest data)" using assms(1) by (simp add: well_addressed_def)
  obtain p where p: "path_for ws ?h = Inr p"
    using path_for_hash [OF assms(2) bytes_hash_ok [of digest data, OF d]] assms(3) by auto
  have "existing = data" if "map_of (os_files st) p = Some existing" for existing
  proof -
    have "contents st (ws, ?h) = Some existing" using that p assms(2) bytes_hash_ok [of digest data, OF d] by (simp add: contents_def)
    then have "?h = bytes_hash digest existing" using assms(1) by (auto simp: well_addressed_def)
    then show ?thesis using assms(5) by (simp add: bytes_hash_def)
  qed
  with p assms(2,4) make_pointer_Inr [OF assms(2), of ?h] bytes_hash_ok [of digest data, OF d] show ?thesis
    by (cases "map_of (os_files st) p") (simp_all add: os_put_def Let_def validate_workspace_id_def)
qed

lemma put_well_addressed:
  "well_addressed digest st \<Longrightarrow> os_put digest ws key data st = Inr (ptr, st') \<Longrightarrow> well_addressed digest st'"
  using put_refines_aux [of digest data ws key st ptr st'] by (auto simp: well_addressed_def)

subsection \<open>Clearing a workspace\<close>

lemma clear_refines_aux:
  assumes "clear_workspace ws st = Inr st'" "ws \<noteq> ''.''" "ws \<noteq> ''..''" "w \<noteq> ''.''"
  shows "contents st' (w, h) = (if w = ws then None else contents st (w, h))"
proof (cases "valid_workspace_id w \<and> parse_hash h = Some h")
  case True
  have st': "st' = st\<lparr>os_files := filter (\<lambda>(p, _). \<not> below [ws] p) (os_files st)\<rparr>"
    using assms(1-3) by (auto simp: clear_workspace_def bind_result_Inr_iff)
  have "map_of (filter (\<lambda>(p, _). \<not> below [ws] p) fs) (w # r) = (if w = ws then None else map_of fs (w # r))" for fs r
    by (induction fs) (auto simp: below_def)
  from this [of "os_files st" "[take 2 (drop 7 h), drop 7 h @ ''.bin'']"] True st' assms(4) show ?thesis
    by (cases "w = ''..''") (simp_all add: contents_def path_for_hash)
qed (auto simp: contents_def)

lemma clear_dot_aux: "clear_workspace ''.'' st = Inr (st\<lparr>os_files := []\<rparr>)"
  "clear_workspace ''..'' st = Inr (st\<lparr>os_files := []\<rparr>)"
  by (simp_all add: clear_workspace_def validate_workspace_id_def valid_workspace_id_def workspace_char_def
      below_def filter_False)

subsection \<open>The interface of a store, and the router over it\<close>

text \<open>What a client of a content-addressed store relies on: what was put can be got, and stays.\<close>

locale content_store =
  fixes put :: "'s store_put" and get :: "string \<Rightarrow> 's \<Rightarrow> bytes result" and ok :: "'s \<Rightarrow> bool"
  assumes put_ok: "ok st \<Longrightarrow> put ws key data st = Inr (ptr, st') \<Longrightarrow> ok st'"
    and put_get: "ok st \<Longrightarrow> put ws key data st = Inr (ptr, st') \<Longrightarrow> get ptr st' = Inr data"
    and put_keeps: "ok st \<Longrightarrow> put ws key data st = Inr (ptr, st') \<Longrightarrow> get q st = Inr x \<Longrightarrow> get q st' = Inr x"
begin

text \<open>A routed payload can be read back, in line or behind its pointer; what was there stays.\<close>

lemma route_recoverable:
  assumes "ok st" "route_encoded digest put router key original encoded st = Inr (r, st')"
  shows "ok st' \<and> rp_content_hash r = bytes_hash digest encoded \<and> rp_byte_size r = length encoded \<and>
    (if length encoded \<le> rt_threshold router then rp_inline_value r = Some original \<and> rp_pointer r = None
     else rp_inline_value r = None \<and> (\<exists>ptr. rp_pointer r = Some ptr \<and> get ptr st' = Inr encoded)) \<and>
    (\<forall>q x. get q st = Inr x \<longrightarrow> get q st' = Inr x)"
proof (cases "length encoded \<le> rt_threshold router")
  case True
  with assms show ?thesis by (auto simp: route_encoded_def Let_def)
next
  case False
  with assms(2) obtain ptr where ptr: "put (rt_workspace_id router) key encoded st = Inr (ptr, st')"
    "r = \<lparr>rp_decision = POINTER, rp_inline_value = None, rp_pointer = Some ptr,
          rp_content_hash = bytes_hash digest encoded, rp_byte_size = length encoded\<rparr>"
    by (auto simp: route_encoded_def Let_def bind_result_Inr_iff)
  with False put_ok [OF assms(1) ptr(1)] put_get [OF assms(1) ptr(1)] put_keeps [OF assms(1) ptr(1)]
  show ?thesis by simp
qed

lemma audio_pointer:
  assumes "ok st" "route_audio digest put (Some router) key data st = Inr ((p, h), st')"
  shows "h = Some (bytes_hash digest data) \<and> (\<exists>ptr. p = Some ptr \<and> get ptr st' = Inr data)"
proof -
  obtain r st1 where r: "route_encoded digest put router key data data st = Inr (r, st1)"
    using assms(2) by (auto simp: route_audio_def route_bytes_def bind_result_Inr_iff)
  note rec = route_recoverable [OF assms(1) r]
  show ?thesis
  proof (cases "rp_pointer r")
    case None
    with assms(2) r obtain ptr where "put (rt_workspace_id router) key data st1 = Inr (ptr, st')"
      "p = Some ptr" "h = Some (rp_content_hash r)"
      by (auto simp: route_audio_def route_bytes_def put_bytes_def bind_result_Inr_iff)
    with rec put_get show ?thesis by blast
  next
    case (Some ptr)
    with assms(2) r rec show ?thesis by (auto simp: route_audio_def route_bytes_def split: if_splits)
  qed
qed

end

interpretation files: content_store "os_put digest" "os_get digest" "well_addressed digest" for digest
proof
  fix st st' ws key data ptr
  assume ok: "well_addressed digest st" and put: "os_put digest ws key data st = Inr (ptr, st')"
  have d: "valid_digest (digest data)" using ok by (simp add: well_addressed_def)
  show "well_addressed digest st'" using put_well_addressed ok put by blast
  show "os_get digest ptr st' = Inr data" using put_get_aux [OF d put] .
  fix q x assume "os_get digest q st = Inr x"
  then obtain w h where q: "parse_pointer q = Inr (w, h)" "contents st (w, h) = Some x" "bytes_hash digest x = h"
    unfolding get_refines_aux by blast
  have "contents st' (w, h) = Some x"
  proof (cases "(w, h) = (ws, bytes_hash digest data)")
    case True
    have "contents st (ws, bytes_hash digest data) = Some x \<Longrightarrow> x = data"
      using os_put_Inr [OF put] by (auto simp: contents_def split: if_splits)
    with True q(2) put put_refines_aux [OF d put] show ?thesis by simp
  next
    case False
    with q(2) put_refines_aux [OF d put] show ?thesis by auto
  qed
  with q show "os_get digest q st' = Inr x" unfolding get_refines_aux by blast
qed

end
