(* ===== verification/Object_Properties.thy ===== *)
theory Object_Properties
  imports Object_Store
begin

section \<open>What the object store promises\<close>

text \<open>
  The store of files is a map from addresses, a workspace and a hash, to blobs: every operation on
  files is the same operation on the map, errors included.
\<close>

type_synonym blobs = "string \<times> string \<Rightarrow> bytes option"

definition abs_put :: "(bytes \<Rightarrow> string) \<Rightarrow> string \<Rightarrow> string \<Rightarrow> bytes \<Rightarrow> blobs \<Rightarrow> (string \<times> blobs) result" where
  "abs_put digest ws key data m =
     (if \<not> valid_workspace_id ws \<or> key = [] \<or> ws = ''..'' then Inl ValueError
      else let h = bytes_hash digest data
           in if m (ws, h) \<in> {None, Some data} then Inr (''oss://'' @ ws @ ''/'' @ h, m((ws, h) \<mapsto> data))
              else Inl IntegrityViolationError)"

definition abs_get :: "(bytes \<Rightarrow> string) \<Rightarrow> string \<Rightarrow> blobs \<Rightarrow> bytes result" where
  "abs_get digest ptr m = (case parse_pointer ptr of
     Inl e \<Rightarrow> Inl e
   | Inr (ws, h) \<Rightarrow>
       if ws = ''..'' then Inl ValueError
       else (case m (ws, h) of
         None \<Rightarrow> Inl ObjectNotFoundError
       | Some data \<Rightarrow> if bytes_hash digest data = h then Inr data else Inl PointerHashMismatchError))"

definition abs_exists :: "string \<Rightarrow> blobs \<Rightarrow> bool result" where
  "abs_exists ptr m = (case parse_pointer ptr of
     Inl _ \<Rightarrow> Inr False
   | Inr (ws, h) \<Rightarrow> if ws = ''..'' then Inl ValueError else Inr (m (ws, h) \<noteq> None))"

definition abs_delete :: "string \<Rightarrow> blobs \<Rightarrow> blobs result" where
  "abs_delete ptr m = (case parse_pointer ptr of
     Inl e \<Rightarrow> Inl e
   | Inr (ws, h) \<Rightarrow>
       if ws = ''..'' then Inl ValueError
       else if m (ws, h) = None then Inl ObjectNotFoundError
       else Inr (m((ws, h) := None)))"

definition seen :: "('a \<times> ObjectStore) result \<Rightarrow> ('a \<times> blobs) result" where
  "seen r = (case r of Inl e \<Rightarrow> Inl e | Inr (x, st) \<Rightarrow> Inr (x, contents st))"

lemma contents_at:
  "valid_workspace_id ws \<Longrightarrow> parse_hash h = Some h \<Longrightarrow> path_for ws h = Inr p \<Longrightarrow> contents st (ws, h) = map_of (os_files st) p"
  by (simp add: contents_def)

lemma put_refines:
  assumes "valid_digest (digest data)"
  shows "seen (os_put digest ws key data st) = abs_put digest ws key data (contents st)"
proof (cases "valid_workspace_id ws \<and> key \<noteq> [] \<and> ws \<noteq> ''..''")
  case False
  with path_for_hash [of ws "bytes_hash digest data"] bytes_hash_ok [of digest data, OF assms] show ?thesis
    by (auto simp: os_put_def abs_put_def seen_def validate_workspace_id_def Let_def)
next
  case True
  let ?h = "bytes_hash digest data"
  have h: "parse_hash ?h = Some ?h" using bytes_hash_ok [of digest data, OF assms] .
  obtain p where p: "path_for ws ?h = Inr p" using path_for_hash [OF _ h, of ws] True by auto
  have ptr: "make_pointer ws ?h = Inr (''oss://'' @ ws @ ''/'' @ ?h)" using make_pointer_Inr True h by blast
  have at: "contents st (ws, ?h) = map_of (os_files st) p" using contents_at True h p by blast
  show ?thesis
  proof (cases "contents st (ws, ?h) \<in> {None, Some data}")
    case False
    with True p at show ?thesis
      by (auto simp: os_put_def abs_put_def seen_def validate_workspace_id_def Let_def split: option.splits)
  next
    case same: True
    obtain st' where st': "os_put digest ws key data st = Inr (''oss://'' @ ws @ ''/'' @ ?h, st')"
      using True p ptr at same by (auto simp: os_put_def validate_workspace_id_def Let_def split: option.splits)
    with put_refines_aux [of digest data, OF assms st'] True same show ?thesis
      by (auto simp: abs_put_def seen_def Let_def)
  qed
qed

lemma get_refines: "os_get digest ptr st = abs_get digest ptr (contents st)"
proof (cases "parse_pointer ptr")
  case (Inr a)
  obtain ws h where a: "a = (ws, h)" by (cases a)
  have v: "valid_workspace_id ws" "parse_hash h = Some h" using parse_pointer_Inr Inr a by auto
  show ?thesis
    by (cases "ws = ''..''") (use v path_for_hash [OF v] Inr a in \<open>auto simp: os_get_def abs_get_def contents_def split: option.splits\<close>)
qed (simp add: os_get_def abs_get_def)

lemma exists_refines: "os_exists ptr st = abs_exists ptr (contents st)"
proof (cases "parse_pointer ptr")
  case (Inr a)
  obtain ws h where a: "a = (ws, h)" by (cases a)
  have v: "valid_workspace_id ws" "parse_hash h = Some h" using parse_pointer_Inr Inr a by auto
  show ?thesis
    by (cases "ws = ''..''") (use v path_for_hash [OF v] Inr a in \<open>auto simp: os_exists_def abs_exists_def contents_def\<close>)
qed (simp add: os_exists_def abs_exists_def)

lemma delete_refines: "seen (bind_result (os_delete ptr st) (\<lambda>st'. Inr ((), st'))) =
    bind_result (abs_delete ptr (contents st)) (\<lambda>m. Inr ((), m))"
proof (cases "parse_pointer ptr")
  case (Inr a)
  obtain ws h where a: "a = (ws, h)" by (cases a)
  have v: "valid_workspace_id ws" "parse_hash h = Some h" using parse_pointer_Inr Inr a by auto
  show ?thesis
  proof (cases "os_delete ptr st")
    case (Inl e)
    then show ?thesis using v path_for_hash [OF v] Inr a
      by (auto simp: os_delete_def abs_delete_def seen_def contents_def split: if_splits)
  next
    case ok: (Inr st')
    from delete_refines_aux [OF ok] Inr a have "contents st (ws, h) \<noteq> None" "contents st' = (contents st)((ws, h) := None)" by auto
    moreover have "ws \<noteq> ''..''" using ok Inr a v path_for_hash [OF v] by (auto simp: os_delete_def)
    ultimately show ?thesis using Inr a ok by (simp add: abs_delete_def seen_def)
  qed
qed (simp add: os_delete_def abs_delete_def seen_def)

subsection \<open>The properties\<close>

text \<open>C21. The store of files is a map from addresses to blobs: putting, getting, testing and deleting on the
  files give the same answers and the same errors as on the map, and leave the files of the new map.\<close>

theorem object_store_refines_map:
  assumes "valid_digest (digest data)"
  shows "seen (os_put digest ws key data st) = abs_put digest ws key data (contents st) \<and>
    os_get digest ptr st = abs_get digest ptr (contents st) \<and>
    os_exists ptr st = abs_exists ptr (contents st) \<and>
    seen (bind_result (os_delete ptr st) (\<lambda>st'. Inr ((), st'))) = bind_result (abs_delete ptr (contents st)) (\<lambda>m. Inr ((), m))"
  using put_refines [of digest data, OF assms] get_refines exists_refines delete_refines by blast

definition zero_digest :: "bytes \<Rightarrow> string" where
  "zero_digest data = replicate 64 CHR ''0''"

lemma zero_digest_valid: "valid_digest (zero_digest data)"
  by (simp add: zero_digest_def valid_digest_def hex_char_def is_digit_def list_all_iff)

theorem object_store_refines_map_witness:
  "seen (os_put zero_digest ''ws'' ''k'' ''abc'' \<lparr>os_files = []\<rparr>) =
     abs_put zero_digest ''ws'' ''k'' ''abc'' (contents \<lparr>os_files = []\<rparr>)"
  using object_store_refines_map [of zero_digest "''abc''", OF zero_digest_valid] by blast

text \<open>A payload the router takes can be read back: in line when it fits the threshold, behind its
  pointer otherwise, with the hash and the size of its encoding; what the store held stays.\<close>

theorem routed_payload_recoverable:
  assumes "well_addressed digest st" "route_encoded digest (os_put digest) router key original encoded st = Inr (r, st')"
  shows "well_addressed digest st' \<and> rp_content_hash r = bytes_hash digest encoded \<and> rp_byte_size r = length encoded \<and>
    (if length encoded \<le> rt_threshold router then rp_inline_value r = Some original \<and> rp_pointer r = None
     else rp_inline_value r = None \<and> (\<exists>ptr. rp_pointer r = Some ptr \<and> os_get digest ptr st' = Inr encoded))"
  using files.route_recoverable [OF assms] by blast

theorem routed_payload_recoverable_witness:
  "\<exists>r st' ptr. route_encoded zero_digest (os_put zero_digest) \<lparr>rt_workspace_id = ''ws'', rt_threshold = 1\<rparr> ''k'' JNull ''abc'' \<lparr>os_files = []\<rparr>
      = Inr (r, st') \<and> rp_pointer r = Some ptr \<and> os_get zero_digest ptr st' = Inr ''abc''"
proof -
  have ok: "well_addressed zero_digest \<lparr>os_files = []\<rparr>"
    by (auto simp: well_addressed_def zero_digest_valid contents_def split: if_splits sum.splits)
  have "seen (os_put zero_digest ''ws'' ''k'' ''abc'' \<lparr>os_files = []\<rparr>) =
      abs_put zero_digest ''ws'' ''k'' ''abc'' (contents \<lparr>os_files = []\<rparr>)"
    by (rule put_refines [of zero_digest "''abc''", OF zero_digest_valid])
  moreover have "contents \<lparr>os_files = []\<rparr> (ws, h) = None" for ws h by (simp add: contents_def split: sum.splits)
  ultimately obtain ptr st' where p: "os_put zero_digest ''ws'' ''k'' ''abc'' \<lparr>os_files = []\<rparr> = Inr (ptr, st')"
    by (auto simp: seen_def abs_put_def valid_workspace_id_def workspace_char_def less_eq_char_def Let_def split: sum.splits prod.splits)
  let ?r = "\<lparr>rp_decision = POINTER, rp_inline_value = None, rp_pointer = Some ptr,
      rp_content_hash = bytes_hash zero_digest ''abc'', rp_byte_size = 3\<rparr>"
  have r: "route_encoded zero_digest (os_put zero_digest) \<lparr>rt_workspace_id = ''ws'', rt_threshold = 1\<rparr> ''k'' JNull ''abc'' \<lparr>os_files = []\<rparr>
      = Inr (?r, st')"
    using p by (simp add: route_encoded_def Let_def)
  with routed_payload_recoverable [OF ok r] show ?thesis by auto
qed

text \<open>Clearing the workspace called by a single dot, which is a valid identifier, empties every workspace.\<close>

theorem clear_dot_empties_all:
  "\<exists>st'. clear_workspace ''.'' st = Inr st' \<and> contents st' = (\<lambda>_. None)"
  using clear_dot_aux(1) by (auto simp: contents_def fun_eq_iff split: sum.splits)

end
