(* ===== verification/Recorder.thy ===== *)
theory Recorder
  imports Run_Jobs
begin

section \<open>trace/recorder.py, trace/recorder\_spans.py and trace/context.py\<close>

text \<open>
  The recorder of one execution.  What runs inside it is a script: context managers that open a
  span around a block, spans that are added at once, and exceptions raised anywhere in a block.  A
  context manager pushes its span on the stack of open parents, runs the block, pops it and
  records the span, whether the block raised or not.  A builder is given as it is when its block
  ends.  Identifiers and clocks come from \<open>Sources\<close>: the recorder counts how often it has asked.
  The live sink is told of spans and cannot fail (its errors are swallowed), so it is left out.
\<close>

record Sources =
  src_span_id :: "nat \<Rightarrow> string"
  src_now :: "nat \<Rightarrow> timestamp"
  src_elapsed_ms :: "nat \<Rightarrow> nat \<Rightarrow> nat"

subsection \<open>Builders\<close>

record LLMSpanBuilder =
  lb_provider :: string
  lb_model :: string
  lb_model_version_pinned :: "string option"
  lb_params :: "json dict"
  lb_reasoning :: ReasoningBlock
  lb_output :: LLMOutput
  lb_tokens :: TokenBreakdown
  lb_cost :: CostBreakdown
  lb_cache_hit :: bool
  lb_retries :: nat
  lb_provider_metadata :: "json dict"
  lb_system_prompt_pointer :: "string option"
  lb_system_prompt_hash :: "string option"
  lb_system_prompt_inline :: "string option"
  lb_messages_pointer :: "string option"
  lb_messages_hash :: "string option"
  lb_messages_inline :: "string option"
  lb_tools_offered :: "string list"
  lb_tools_offered_hash :: "string option"
  lb_time_to_first_token_ms :: "nat option"
  lb_tokens_per_second :: "rat option"

definition empty_tokens :: TokenBreakdown where
  "empty_tokens = \<lparr>tb_input = 0, tb_input_cache_read = 0, tb_input_cache_creation = 0, tb_output = 0,
     tb_reasoning = 0, tb_total = 0\<rparr>"

definition zero_cost :: CostBreakdown where
  "zero_cost = \<lparr>cb_input = 0, cb_cache_read = 0, cb_cache_creation = 0, cb_output = 0, cb_total = 0\<rparr>"

definition empty_reasoning :: ReasoningBlock where
  "empty_reasoning = \<lparr>rb_available = False, rb_redacted = False, rb_summary_pointer = None,
     rb_full_pointer = None, rb_thinking_tokens = 0, rb_signature = None\<rparr>"

definition empty_output :: LLMOutput where
  "empty_output = \<lparr>lo_content_pointer = None, lo_content_hash = None, lo_content_inline = None,
     lo_stop_reason = None, lo_tool_use_requested = []\<rparr>"

definition new_LLMSpanBuilder :: "string \<Rightarrow> string \<Rightarrow> string option \<Rightarrow> LLMSpanBuilder" where
  "new_LLMSpanBuilder provider model pinned =
     \<lparr>lb_provider = provider, lb_model = model, lb_model_version_pinned = pinned, lb_params = [],
      lb_reasoning = empty_reasoning, lb_output = empty_output, lb_tokens = empty_tokens, lb_cost = zero_cost,
      lb_cache_hit = False, lb_retries = 0, lb_provider_metadata = [], lb_system_prompt_pointer = None,
      lb_system_prompt_hash = None, lb_system_prompt_inline = None, lb_messages_pointer = None,
      lb_messages_hash = None, lb_messages_inline = None, lb_tools_offered = [], lb_tools_offered_hash = None,
      lb_time_to_first_token_ms = None, lb_tokens_per_second = None\<rparr>"

definition set_output ::
    "StopReason option \<Rightarrow> string option \<Rightarrow> string option \<Rightarrow> string option \<Rightarrow> ToolUseRequest list \<Rightarrow>
       LLMSpanBuilder \<Rightarrow> LLMSpanBuilder" where
  "set_output stop ptr h inline reqs b = b\<lparr>lb_output := \<lparr>lo_content_pointer = ptr, lo_content_hash = h,
     lo_content_inline = inline, lo_stop_reason = stop, lo_tool_use_requested = reqs\<rparr>\<rparr>"

definition add_tokens ::
    "nat \<Rightarrow> nat \<Rightarrow> nat \<Rightarrow> nat \<Rightarrow> nat \<Rightarrow> nat option \<Rightarrow> LLMSpanBuilder \<Rightarrow> LLMSpanBuilder result" where
  "add_tokens inp cache_read cache_creation out reasoning tot b =
     (let t = \<lparr>tb_input = inp, tb_input_cache_read = cache_read, tb_input_cache_creation = cache_creation,
            tb_output = out, tb_reasoning = reasoning,
            tb_total = (case tot of Some n \<Rightarrow> n | None \<Rightarrow> inp + cache_read + cache_creation + out + reasoning)\<rparr>
      in if total_covers_components t then Inr (b\<lparr>lb_tokens := t\<rparr>) else Inl ValueError)"

definition set_timing :: "nat option \<Rightarrow> rat option \<Rightarrow> LLMSpanBuilder \<Rightarrow> LLMSpanBuilder" where
  "set_timing ttft tps b =
     (let b1 = (if ttft \<noteq> None then b\<lparr>lb_time_to_first_token_ms := ttft\<rparr> else b)
      in if tps \<noteq> None then b1\<lparr>lb_tokens_per_second := tps\<rparr> else b1)"

definition set_cost :: "CostBreakdown option \<Rightarrow> LLMSpanBuilder \<Rightarrow> LLMSpanBuilder" where
  "set_cost c b = (case c of None \<Rightarrow> b | Some x \<Rightarrow> b\<lparr>lb_cost := x\<rparr>)"

definition set_reasoning ::
    "string option \<Rightarrow> string option \<Rightarrow> nat \<Rightarrow> string option \<Rightarrow> bool \<Rightarrow> LLMSpanBuilder \<Rightarrow> LLMSpanBuilder" where
  "set_reasoning summary full thinking signature redacted b =
     b\<lparr>lb_reasoning := \<lparr>rb_available = True, rb_redacted = redacted, rb_summary_pointer = summary,
        rb_full_pointer = full, rb_thinking_tokens = thinking, rb_signature = signature\<rparr>\<rparr>"

record ToolSpanBuilder =
  tlb_tool_name :: string
  tlb_tool_use_id :: "string option"
  tlb_tool_version :: "string option"
  tlb_args_pointer :: "string option"
  tlb_args_hash :: "string option"
  tlb_args_inline :: "string option"
  tlb_result_pointer :: "string option"
  tlb_result_hash :: "string option"
  tlb_result_inline :: "string option"
  tlb_status :: ToolCallStatus
  tlb_error :: "string option"
  tlb_retry_chain :: "string list"
  tlb_sandboxed :: bool
  tlb_side_effects :: "json dict"

record SttSpanBuilder =
  sb_provider :: string
  sb_model :: "string option"
  sb_audio_pointer :: "string option"
  sb_audio_hash :: "string option"
  sb_audio_duration_ms :: "nat option"
  sb_audio_mime_type :: "string option"
  sb_transcript_pointer :: "string option"
  sb_transcript_hash :: "string option"
  sb_transcript_inline :: "string option"
  sb_language :: "string option"
  sb_confidence :: "rat option"
  sb_streaming :: bool
  sb_time_to_first_transcript_ms :: "nat option"
  sb_provider_metadata :: "json dict"

record TtsSpanBuilder =
  ttb_provider :: string
  ttb_model :: "string option"
  ttb_voice_id :: "string option"
  ttb_text_pointer :: "string option"
  ttb_text_hash :: "string option"
  ttb_text_inline :: "string option"
  ttb_audio_pointer :: "string option"
  ttb_audio_hash :: "string option"
  ttb_audio_duration_ms :: "nat option"
  ttb_audio_mime_type :: "string option"
  ttb_time_to_first_byte_ms :: "nat option"
  ttb_provider_metadata :: "json dict"

text \<open>A builder baked into its span.  The throughput is derived when the adapter did not measure it.\<close>

definition build_base :: "string \<Rightarrow> string option \<Rightarrow> string \<Rightarrow> timestamp \<Rightarrow> nat \<Rightarrow> SpanBase" where
  "build_base i parent nm started dur =
     \<lparr>span_id = i, span_parent_id = parent, span_name = nm, span_started_at = started, span_duration_ms = dur\<rparr>"

definition build_llm_call_span ::
    "string \<Rightarrow> string option \<Rightarrow> string \<Rightarrow> timestamp \<Rightarrow> nat \<Rightarrow> LLMSpanBuilder \<Rightarrow> LLMCallSpan" where
  "build_llm_call_span i parent nm started dur b =
     \<lparr>span_id = i, span_parent_id = parent, span_name = nm, span_started_at = started, span_duration_ms = dur,
      lc_provider = lb_provider b, lc_model = lb_model b, lc_model_version_pinned = lb_model_version_pinned b,
      lc_system_prompt_pointer = lb_system_prompt_pointer b, lc_system_prompt_hash = lb_system_prompt_hash b,
      lc_system_prompt_inline = lb_system_prompt_inline b, lc_messages_pointer = lb_messages_pointer b,
      lc_messages_hash = lb_messages_hash b, lc_messages_inline = lb_messages_inline b,
      lc_tools_offered = lb_tools_offered b, lc_tools_offered_hash = lb_tools_offered_hash b,
      lc_params = lb_params b, lc_reasoning = lb_reasoning b, lc_output = lb_output b, lc_tokens = lb_tokens b,
      lc_cost_usd = lb_cost b, lc_time_to_first_token_ms = lb_time_to_first_token_ms b,
      lc_tokens_per_second =
        (case lb_tokens_per_second b of
           Some x \<Rightarrow> Some x
         | None \<Rightarrow> if 0 < tb_output (lb_tokens b) \<and> 0 < dur
                   then Some (of_nat (tb_output (lb_tokens b)) / (of_nat dur / 1000)) else None),
      lc_retries = lb_retries b, lc_cache_hit = lb_cache_hit b, lc_provider_metadata = lb_provider_metadata b\<rparr>"

definition build_tool_call_span ::
    "string \<Rightarrow> string option \<Rightarrow> string \<Rightarrow> timestamp \<Rightarrow> nat \<Rightarrow> ToolSpanBuilder \<Rightarrow> ToolCallSpan" where
  "build_tool_call_span i parent nm started dur b =
     \<lparr>span_id = i, span_parent_id = parent, span_name = nm, span_started_at = started, span_duration_ms = dur,
      tc_tool_name = tlb_tool_name b, tc_tool_version = tlb_tool_version b, tc_tool_use_id = tlb_tool_use_id b,
      tc_args_pointer = tlb_args_pointer b, tc_args_hash = tlb_args_hash b, tc_args_inline = tlb_args_inline b,
      tc_result_pointer = tlb_result_pointer b, tc_result_hash = tlb_result_hash b,
      tc_result_inline = tlb_result_inline b, tc_status = tlb_status b, tc_error = tlb_error b,
      tc_retry_chain = tlb_retry_chain b, tc_sandboxed = tlb_sandboxed b, tc_side_effects = tlb_side_effects b\<rparr>"

definition build_stt_span ::
    "string \<Rightarrow> string option \<Rightarrow> string \<Rightarrow> timestamp \<Rightarrow> nat \<Rightarrow> SttSpanBuilder \<Rightarrow> SttSpan" where
  "build_stt_span i parent nm started dur b =
     \<lparr>span_id = i, span_parent_id = parent, span_name = nm, span_started_at = started, span_duration_ms = dur,
      stt_provider = sb_provider b, stt_model = sb_model b, stt_audio_pointer = sb_audio_pointer b,
      stt_audio_hash = sb_audio_hash b, stt_audio_duration_ms = sb_audio_duration_ms b,
      stt_audio_mime_type = sb_audio_mime_type b, stt_transcript_pointer = sb_transcript_pointer b,
      stt_transcript_hash = sb_transcript_hash b, stt_transcript_inline = sb_transcript_inline b,
      stt_language = sb_language b, stt_confidence = sb_confidence b, stt_streaming = sb_streaming b,
      stt_time_to_first_transcript_ms = sb_time_to_first_transcript_ms b,
      stt_provider_metadata = sb_provider_metadata b\<rparr>"

definition build_tts_span ::
    "string \<Rightarrow> string option \<Rightarrow> string \<Rightarrow> timestamp \<Rightarrow> nat \<Rightarrow> TtsSpanBuilder \<Rightarrow> TtsSpan" where
  "build_tts_span i parent nm started dur b =
     \<lparr>span_id = i, span_parent_id = parent, span_name = nm, span_started_at = started, span_duration_ms = dur,
      tts_provider = ttb_provider b, tts_model = ttb_model b, tts_voice_id = ttb_voice_id b,
      tts_text_pointer = ttb_text_pointer b, tts_text_hash = ttb_text_hash b, tts_text_inline = ttb_text_inline b,
      tts_audio_pointer = ttb_audio_pointer b, tts_audio_hash = ttb_audio_hash b,
      tts_audio_duration_ms = ttb_audio_duration_ms b, tts_audio_mime_type = ttb_audio_mime_type b,
      tts_time_to_first_byte_ms = ttb_time_to_first_byte_ms b, tts_provider_metadata = ttb_provider_metadata b\<rparr>"

subsection \<open>Spans added at once\<close>

datatype Instant =
    Retrieval string nat "RetrievedDoc list" "string option" "string option" "string option"
  | MemoryRead string "string list" "string list"
  | MemoryWrite string "string list"
  | Decision string string "string list" "rat option"
  | Handoff string
  | HumanIntervention string string
  | GuardrailCheck string bool
  | ErrorMark string string bool

text \<open>trace/recorder\_spans.py.\<close>

definition build_instant_span :: "string \<Rightarrow> string option \<Rightarrow> string \<Rightarrow> timestamp \<Rightarrow> Instant \<Rightarrow> Span" where
  "build_instant_span i parent nm started k = (case k of
     Retrieval retriever top_k docs reranker query_pointer query_hash \<Rightarrow> RetrievalSpan
       \<lparr>span_id = i, span_parent_id = parent, span_name = nm, span_started_at = started, span_duration_ms = 0,
        rt_retriever = retriever, rt_query_pointer = query_pointer, rt_query_hash = query_hash,
        rt_query_embedding_model = None, rt_top_k_requested = top_k, rt_top_k_returned = length docs,
        rt_retrieved = docs, rt_reranker = reranker, rt_grounding_used = []\<rparr>
   | MemoryRead store hits misses \<Rightarrow> MemoryReadSpan
       \<lparr>span_id = i, span_parent_id = parent, span_name = nm, span_started_at = started, span_duration_ms = 0,
        mr_memory_store = store, mr_keys_requested = [], mr_keys_hit = hits, mr_keys_missed = misses,
        mr_values_pointer = None\<rparr>
   | MemoryWrite store ks \<Rightarrow> MemoryWriteSpan
       \<lparr>span_id = i, span_parent_id = parent, span_name = nm, span_started_at = started, span_duration_ms = 0,
        mw_memory_store = store, mw_keys_written = ks, mw_values_pointer = None\<rparr>
   | Decision kind chosen alternatives confidence \<Rightarrow> DecisionSpan
       \<lparr>span_id = i, span_parent_id = parent, span_name = nm, span_started_at = started, span_duration_ms = 0,
        ds_decision_type = kind, ds_chosen = chosen, ds_alternatives_considered = alternatives,
        ds_rationale_pointer = None, ds_confidence = confidence\<rparr>
   | Handoff target \<Rightarrow> HandoffSpan
       \<lparr>span_id = i, span_parent_id = parent, span_name = nm, span_started_at = started, span_duration_ms = 0,
        ho_target = target, ho_payload_pointer = None\<rparr>
   | HumanIntervention actor action \<Rightarrow> HumanInterventionSpan
       \<lparr>span_id = i, span_parent_id = parent, span_name = nm, span_started_at = started, span_duration_ms = 0,
        hi_actor = actor, hi_action = action, hi_rationale_pointer = None\<rparr>
   | GuardrailCheck guardrail passed \<Rightarrow> GuardrailCheckSpan
       \<lparr>span_id = i, span_parent_id = parent, span_name = nm, span_started_at = started, span_duration_ms = 0,
        gc_guardrail = guardrail, gc_passed = passed, gc_detail_pointer = None\<rparr>
   | ErrorMark error_type message recoverable \<Rightarrow> ErrorSpan
       \<lparr>span_id = i, span_parent_id = parent, span_name = nm, span_started_at = started, span_duration_ms = 0,
        es_error_type = error_type, es_message = message, es_recoverable = recoverable\<rparr>)"

text \<open>The field bounds of a span: what pydantic checks when the span is made.\<close>

definition unit_opt :: "rat option \<Rightarrow> bool" where
  "unit_opt x = (case x of None \<Rightarrow> True | Some q \<Rightarrow> 0 \<le> q \<and> q \<le> 1)"

definition kind_fields_ok :: "Span \<Rightarrow> bool" where
  "kind_fields_ok s = (case s of
     AgentTurnSpan _ \<Rightarrow> True
   | LLMCallSpan x \<Rightarrow> lc_provider x \<noteq> [] \<and> lc_model x \<noteq> [] \<and> list_all (\<lambda>t. t \<noteq> []) (lc_tools_offered x) \<and>
       (case lc_tokens_per_second x of None \<Rightarrow> True | Some q \<Rightarrow> 0 \<le> q)
   | ToolCallSpan x \<Rightarrow> tc_tool_name x \<noteq> []
   | RetrievalSpan x \<Rightarrow> rt_retriever x \<noteq> [] \<and> 1 \<le> rt_top_k_requested x
   | MemoryReadSpan x \<Rightarrow> mr_memory_store x \<noteq> []
   | MemoryWriteSpan x \<Rightarrow> mw_memory_store x \<noteq> []
   | DecisionSpan x \<Rightarrow> ds_decision_type x \<noteq> [] \<and> unit_opt (ds_confidence x)
   | HandoffSpan x \<Rightarrow> ho_target x \<noteq> []
   | HumanInterventionSpan x \<Rightarrow> hi_actor x \<noteq> [] \<and> hi_action x \<noteq> []
   | GuardrailCheckSpan x \<Rightarrow> gc_guardrail x \<noteq> []
   | SttSpan x \<Rightarrow> stt_provider x \<noteq> [] \<and> unit_opt (stt_confidence x)
   | TtsSpan x \<Rightarrow> tts_provider x \<noteq> []
   | ErrorSpan x \<Rightarrow> es_error_type x \<noteq> []
   | CustomSpan _ \<Rightarrow> True)"

definition span_fields_ok :: "Span \<Rightarrow> bool" where
  "span_fields_ok s \<longleftrightarrow> span_id (span_base s) \<noteq> [] \<and> span_name (span_base s) \<noteq> [] \<and>
     span_parent_id (span_base s) \<noteq> Some [] \<and> kind_fields_ok s"

subsection \<open>The recorder\<close>

record Recorder =
  rc_workspace_id :: string
  rc_run :: RunInfo
  rc_agent :: AgentSnapshotRef
  rc_framework_version :: string
  rc_runtime :: string
  rc_sandbox :: SandboxMode
  rc_env_started_at :: timestamp
  rc_env_ended_at :: "timestamp option"
  rc_spans :: "Span list"
  rc_open_parents :: "string list"
  rc_grader_results :: "GraderResult list"
  rc_outputs :: TraceOutputs
  rc_links :: "TraceLink list"
  rc_final_state :: "FinalState option"
  rc_tokens_in :: nat
  rc_tokens_out :: nat
  rc_cost_usd :: rat
  rc_tool_call_count :: nat
  rc_llm_call_count :: nat
  rc_retries :: nat
  rc_asked :: nat

definition make_TraceRecorder ::
    "string \<Rightarrow> RunInfo \<Rightarrow> AgentSnapshotRef \<Rightarrow> string \<Rightarrow> string \<Rightarrow> SandboxMode \<Rightarrow> timestamp \<Rightarrow> Recorder result" where
  "make_TraceRecorder ws run agent framework runtime sandbox started =
     (if ws = [] then Inl ValueError
      else Inr \<lparr>rc_workspace_id = ws, rc_run = run, rc_agent = agent, rc_framework_version = framework,
        rc_runtime = runtime, rc_sandbox = sandbox, rc_env_started_at = started, rc_env_ended_at = None,
        rc_spans = [], rc_open_parents = [], rc_grader_results = [],
        rc_outputs = \<lparr>to_final_response_pointer = None, to_structured_output = None\<rparr>, rc_links = [],
        rc_final_state = None, rc_tokens_in = 0, rc_tokens_out = 0, rc_cost_usd = 0, rc_tool_call_count = 0,
        rc_llm_call_count = 0, rc_retries = 0, rc_asked = 0\<rparr>)"

definition set_state :: "TraceState \<Rightarrow> string option \<Rightarrow> Recorder \<Rightarrow> Recorder" where
  "set_state st err r = r\<lparr>rc_final_state := Some \<lparr>fs_status = st, fs_error = err\<rparr>\<rparr>"

definition complete :: "Recorder \<Rightarrow> Recorder" where
  "complete = set_state TraceState.COMPLETED None"

definition abort :: "string option \<Rightarrow> Recorder \<Rightarrow> Recorder" where
  "abort reason = set_state TraceState.ABORTED reason"

definition fail :: "string \<Rightarrow> Recorder \<Rightarrow> Recorder" where
  "fail err = set_state TraceState.ERRORED (Some err)"

definition timeout :: "Recorder \<Rightarrow> Recorder" where
  "timeout = set_state TraceState.TIMEOUT None"

definition add_grader_result :: "GraderResult \<Rightarrow> Recorder \<Rightarrow> Recorder" where
  "add_grader_result g r = r\<lparr>rc_grader_results := rc_grader_results r @ [g]\<rparr>"

definition set_outputs :: "TraceOutputs \<Rightarrow> Recorder \<Rightarrow> Recorder" where
  "set_outputs out r = r\<lparr>rc_outputs := out\<rparr>"

definition add_link :: "TraceLink \<Rightarrow> Recorder \<Rightarrow> Recorder" where
  "add_link l r = r\<lparr>rc_links := rc_links r @ [l]\<rparr>"

definition current_parent :: "Recorder \<Rightarrow> string option" where
  "current_parent r = (case rc_open_parents r of [] \<Rightarrow> None | p # _ \<Rightarrow> Some p)"

text \<open>\<^verbatim>\<open>_record\<close>, after the span was made.\<close>

definition record_span :: "Span \<Rightarrow> Recorder \<Rightarrow> Recorder" where
  "record_span s r = r\<lparr>rc_spans := rc_spans r @ [s]\<rparr>"

definition add_instant :: "Sources \<Rightarrow> string \<Rightarrow> Instant \<Rightarrow> (Recorder, unit) exec" where
  "add_instant src nm k r =
     (let n = rc_asked r; s = build_instant_span (src_span_id src n) (current_parent r) nm (src_now src n) k;
          r1 = r\<lparr>rc_asked := n + 1\<rparr>
      in if span_fields_ok s then (Inr (), record_span s r1) else (Inl ValueError, r1))"

text \<open>The shape of every context manager: push, run the block, pop, make the span, record it, count.
  \<open>mk\<close> is told whether the block raised.  A span that cannot be made raises in the \<^verbatim>\<open>finally\<close>.\<close>

definition with_span ::
    "Sources \<Rightarrow> (string \<Rightarrow> string option \<Rightarrow> timestamp \<Rightarrow> nat \<Rightarrow> bool \<Rightarrow> Span) \<Rightarrow> (Span \<Rightarrow> Recorder \<Rightarrow> Recorder) \<Rightarrow>
       (Recorder, unit) exec \<Rightarrow> (Recorder, unit) exec" where
  "with_span src mk acc block r =
     (let n = rc_asked r; i = src_span_id src n; parent = current_parent r
      in case block (r\<lparr>rc_asked := n + 1, rc_open_parents := i # rc_open_parents r\<rparr>) of (res, r1) \<Rightarrow>
         let r2 = r1\<lparr>rc_open_parents := tl (rc_open_parents r1)\<rparr>;
             s = mk i parent (src_now src n) (src_elapsed_ms src n (rc_asked r2)) (res \<noteq> Inr ())
         in if span_fields_ok s then (res, acc s (record_span s r2)) else (Inl ValueError, r2))"

definition count_llm :: "Span \<Rightarrow> Recorder \<Rightarrow> Recorder" where
  "count_llm s r = (case as_llm_call s of
     None \<Rightarrow> r
   | Some c \<Rightarrow> r\<lparr>rc_llm_call_count := rc_llm_call_count r + 1,
       rc_tokens_in := rc_tokens_in r + (tb_input (lc_tokens c) + tb_input_cache_read (lc_tokens c)),
       rc_tokens_out := rc_tokens_out r + tb_output (lc_tokens c),
       rc_cost_usd := rc_cost_usd r + cb_total (lc_cost_usd c),
       rc_retries := rc_retries r + lc_retries c\<rparr>)"

definition count_tool :: "Span \<Rightarrow> Recorder \<Rightarrow> Recorder" where
  "count_tool s r = r\<lparr>rc_tool_call_count := rc_tool_call_count r + 1\<rparr>"

definition count_nothing :: "Span \<Rightarrow> Recorder \<Rightarrow> Recorder" where
  "count_nothing s r = r"

definition tool_raised :: "ToolSpanBuilder \<Rightarrow> ToolSpanBuilder" where
  "tool_raised b = b\<lparr>tlb_status := ToolCallStatus.ERROR, tlb_error := Some no_text\<rparr>"

subsection \<open>Scripts\<close>

datatype Act =
    AgentTurn string "Act list"
  | LLMCall string LLMSpanBuilder "Act list"
  | ToolCall string ToolSpanBuilder "Act list"
  | Stt string SttSpanBuilder "Act list"
  | Tts string TtsSpanBuilder "Act list"
  | Add string Instant
  | SetOutputs TraceOutputs
  | AddLink TraceLink
  | AddGraderResult GraderResult
  | SetState TraceState "string option"
  | Raise py_error
  | Try "Act list"

text \<open>\<open>Try\<close> is a block whose exception somebody outside the recorder (an adapter) catches.\<close>

fun run_act :: "Sources \<Rightarrow> Act \<Rightarrow> (Recorder, unit) exec"
  and run_acts :: "Sources \<Rightarrow> Act list \<Rightarrow> (Recorder, unit) exec" where
  "run_act src (AgentTurn nm acts) =
     with_span src (\<lambda>i p t d raised. AgentTurnSpan (build_base i p nm t d)) count_nothing (run_acts src acts)"
| "run_act src (LLMCall nm b acts) =
     with_span src (\<lambda>i p t d raised. LLMCallSpan (build_llm_call_span i p nm t d b)) count_llm (run_acts src acts)"
| "run_act src (ToolCall nm b acts) =
     with_span src (\<lambda>i p t d raised.
       ToolCallSpan (build_tool_call_span i p nm t d (if raised then tool_raised b else b))) count_tool (run_acts src acts)"
| "run_act src (Stt nm b acts) =
     with_span src (\<lambda>i p t d raised. SttSpan (build_stt_span i p nm t d b)) count_nothing (run_acts src acts)"
| "run_act src (Tts nm b acts) =
     with_span src (\<lambda>i p t d raised. TtsSpan (build_tts_span i p nm t d b)) count_nothing (run_acts src acts)"
| "run_act src (Add nm k) = add_instant src nm k"
| "run_act src (SetOutputs out) = (\<lambda>r. (Inr (), set_outputs out r))"
| "run_act src (AddLink l) = (\<lambda>r. (Inr (), add_link l r))"
| "run_act src (AddGraderResult g) = (\<lambda>r. (Inr (), add_grader_result g r))"
| "run_act src (SetState st err) = (\<lambda>r. (Inr (), set_state st err r))"
| "run_act src (Raise e) = raise_exec e"
| "run_act src (Try acts) = (\<lambda>r. (Inr (), snd (run_acts src acts r)))"
| "run_acts src [] = return_exec ()"
| "run_acts src (a # as) = bind_exec (run_act src a) (\<lambda>_. run_acts src as)"

subsection \<open>The end of a recording\<close>

text \<open>\<^verbatim>\<open>__exit__\<close>: an explicit state wins; otherwise the exception, if any, decides.\<close>

definition exit_recorder :: "timestamp \<Rightarrow> bool \<Rightarrow> Recorder \<Rightarrow> Recorder" where
  "exit_recorder now raised r =
     (let r1 = (case rc_final_state r of
            Some _ \<Rightarrow> r
          | None \<Rightarrow> if raised then fail no_text r else complete r)
      in r1\<lparr>rc_env_ended_at := Some now\<rparr>)"

text \<open>\<^verbatim>\<open>with recorder: ...\<close>\<close>

definition record_block :: "Sources \<Rightarrow> timestamp \<Rightarrow> Act list \<Rightarrow> Recorder \<Rightarrow> unit result \<times> Recorder" where
  "record_block src now acts r =
     (case run_acts src acts r of (res, r') \<Rightarrow> (res, exit_recorder now (res \<noteq> Inr ()) r'))"

text \<open>Timestamps count microseconds.\<close>

definition metrics_of :: "nat \<Rightarrow> Recorder \<Rightarrow> TraceMetrics" where
  "metrics_of duration r = \<lparr>tm_total_tokens_in = rc_tokens_in r, tm_total_tokens_out = rc_tokens_out r,
     tm_total_cost_usd = rc_cost_usd r, tm_total_duration_ms = duration, tm_tool_call_count = rc_tool_call_count r,
     tm_llm_call_count = rc_llm_call_count r, tm_retries = rc_retries r, tm_recovery_events = 0,
     tm_loop_detected = False\<rparr>"

definition build_trace :: "string \<Rightarrow> timestamp \<Rightarrow> Recorder \<Rightarrow> Trace result" where
  "build_trace fresh now r =
     (let final = (case rc_final_state r of Some f \<Rightarrow> f | None \<Rightarrow> \<lparr>fs_status = TraceState.COMPLETED, fs_error = None\<rparr>);
          ended = (case rc_env_ended_at r of Some t \<Rightarrow> t | None \<Rightarrow> now);
          env = \<lparr>ev_framework_version = rc_framework_version r, ev_runtime = rc_runtime r,
            ev_sandbox = rc_sandbox r, ev_tool_mocks = [], ev_started_at = rc_env_started_at r,
            ev_ended_at = Some ended\<rparr>
      in if \<not> ended_after_started env then Inl ValueError
         else if rc_cost_usd r < 0 then Inl ValueError
         else validate_Trace \<lparr>ent_id = fresh, workspace_id = rc_workspace_id r, version = 1, created_at = now,
           updated_at = now, deleted_at = None, tr_schema_version = ''1.5.0'', tr_run = rc_run r,
           tr_agent = rc_agent r, tr_environment = env, tr_final_state = final, tr_spans = rc_spans r,
           tr_outputs = rc_outputs r, tr_grader_results = rc_grader_results r,
           tr_metrics = metrics_of (nat ((ended - rc_env_started_at r) div 1000)) r,
           tr_links = rc_links r, tr_snapshot_id = None\<rparr>)"

definition span_count :: "Recorder \<Rightarrow> nat" where
  "span_count r = length (rc_spans r)"

end
