(* ===== verification/Recorder_Facts.thy ===== *)
theory Recorder_Facts
  imports Recorder
begin

section \<open>What a recording is\<close>

text \<open>
  Whatever a script does, and wherever it raises, the spans it adds have fresh distinct
  identifiers, every one of them hangs under the span that was open when it began, which is
  recorded after it, and the counters of the recorder grow by what the new spans add up to.  So a
  trace built at the end passes the validators of the schema but for one: a tool call may name a
  tool use that no model call requested.
\<close>

subsection \<open>Totals over spans\<close>

type_synonym totals = "nat \<times> nat \<times> nat \<times> nat \<times> nat \<times> rat"

fun plus_totals :: "totals \<Rightarrow> totals \<Rightarrow> totals" where
  "plus_totals (a, b, c, d, e, f) (a', b', c', d', e', f') = (a + a', b + b', c + c', d + d', e + e', f + f')"

lemma plus_totals_assoc: "plus_totals (plus_totals x y) z = plus_totals x (plus_totals y z)"
  by (cases x; cases y; cases z) (simp add: add.assoc)

definition llm_spans_of :: "Span list \<Rightarrow> LLMCallSpan list" where
  "llm_spans_of ss = List.map_filter as_llm_call ss"

definition totals_of :: "Span list \<Rightarrow> totals" where
  "totals_of ss = (length (llm_spans_of ss), length (List.map_filter as_tool_call ss),
     sum_list (map (\<lambda>c. tb_input (lc_tokens c) + tb_input_cache_read (lc_tokens c)) (llm_spans_of ss)),
     sum_list (map (\<lambda>c. tb_output (lc_tokens c)) (llm_spans_of ss)),
     sum_list (map lc_retries (llm_spans_of ss)),
     sum_list (map (\<lambda>c. cb_total (lc_cost_usd c)) (llm_spans_of ss)))"

definition totals :: "Recorder \<Rightarrow> totals" where
  "totals r = (rc_llm_call_count r, rc_tool_call_count r, rc_tokens_in r, rc_tokens_out r, rc_retries r, rc_cost_usd r)"

lemma map_filter_append: "List.map_filter f (xs @ ys) = List.map_filter f xs @ List.map_filter f ys"
  by (simp add: List.map_filter_def)

lemma totals_of_append: "totals_of (xs @ ys) = plus_totals (totals_of xs) (totals_of ys)"
  by (simp add: totals_of_def llm_spans_of_def map_filter_append)

lemma totals_of_Nil [simp]: "plus_totals x (totals_of []) = x"
  by (cases x) (simp add: totals_of_def llm_spans_of_def map_filter_simps)

lemma totals_simps [simp]:
  "totals (r\<lparr>rc_asked := n\<rparr>) = totals r" "totals (r\<lparr>rc_open_parents := ps\<rparr>) = totals r"
  "totals (record_span s r) = totals r"
  by (simp_all add: totals_def record_span_def)

lemma record_span_fields [simp]:
  "rc_spans (record_span s r) = rc_spans r @ [s]" "rc_asked (record_span s r) = rc_asked r"
  "rc_open_parents (record_span s r) = rc_open_parents r" "rc_env_started_at (record_span s r) = rc_env_started_at r"
  "rc_env_ended_at (record_span s r) = rc_env_ended_at r" "rc_workspace_id (record_span s r) = rc_workspace_id r"
  "rc_run (record_span s r) = rc_run r"
  by (simp_all add: record_span_def)

subsection \<open>Nesting\<close>

fun well_nested :: "string option \<Rightarrow> Span list \<Rightarrow> bool" where
  "well_nested p [] = True"
| "well_nested p (s # ss) =
     ((span_parent_id (span_base s) = p \<or> span_parent_id (span_base s) \<in> Some ` set (span_ids ss)) \<and> well_nested p ss)"

lemma span_ids_append [simp]: "span_ids (xs @ ys) = span_ids xs @ span_ids ys"
  by (simp add: span_ids_def)

lemma span_ids_Cons [simp]: "span_ids (s # ss) = span_id (span_base s) # span_ids ss" "span_ids [] = []"
  by (simp_all add: span_ids_def)

lemma well_nested_append: "well_nested p xs \<Longrightarrow> well_nested p ys \<Longrightarrow> well_nested p (xs @ ys)"
  by (induction xs) auto

lemma well_nested_close:
  "well_nested (Some i) xs \<Longrightarrow> span_id (span_base s) = i \<Longrightarrow> span_parent_id (span_base s) = p \<Longrightarrow> well_nested p (xs @ [s])"
  by (induction xs) auto

lemma well_nested_parents:
  "well_nested None ss \<Longrightarrow> s \<in> set ss \<Longrightarrow> span_parent_id (span_base s) = Some q \<Longrightarrow> q \<in> set (span_ids ss)"
  by (induction ss) auto

subsection \<open>What a block adds\<close>

definition sources_ok :: "Sources \<Rightarrow> bool" where
  "sources_ok src \<longleftrightarrow> inj (src_span_id src) \<and> (\<forall>n. src_span_id src n \<noteq> [])"

definition costs_ok :: "Span list \<Rightarrow> bool" where
  "costs_ok ss \<longleftrightarrow> list_all (\<lambda>c. 0 \<le> cb_total (lc_cost_usd c)) (llm_spans_of ss)"

lemma costs_ok_simps [simp]:
  "costs_ok []" "costs_ok (xs @ ys) \<longleftrightarrow> costs_ok xs \<and> costs_ok ys"
  "costs_ok [s] \<longleftrightarrow> (case as_llm_call s of None \<Rightarrow> True | Some c \<Rightarrow> 0 \<le> cb_total (lc_cost_usd c))"
  by (simp_all add: costs_ok_def llm_spans_of_def map_filter_append map_filter_simps split: option.splits)

definition extends_by :: "Sources \<Rightarrow> Recorder \<Rightarrow> Recorder \<Rightarrow> Span list \<Rightarrow> nat list \<Rightarrow> bool" where
  "extends_by src r r' ss ns \<longleftrightarrow> rc_spans r' = rc_spans r @ ss \<and> span_ids ss = map (src_span_id src) ns \<and>
     distinct ns \<and> set ns \<subseteq> {rc_asked r..<rc_asked r'} \<and> rc_asked r \<le> rc_asked r' \<and>
     rc_open_parents r' = rc_open_parents r \<and> well_nested (current_parent r) ss \<and>
     totals r' = plus_totals (totals r) (totals_of ss) \<and> rc_env_started_at r' = rc_env_started_at r \<and>
     rc_env_ended_at r' = rc_env_ended_at r \<and> rc_workspace_id r' = rc_workspace_id r \<and> rc_run r' = rc_run r \<and>
     costs_ok ss"

definition extends :: "Sources \<Rightarrow> Recorder \<Rightarrow> Recorder \<Rightarrow> bool" where
  "extends src r r' \<longleftrightarrow> (\<exists>ss ns. extends_by src r r' ss ns)"

lemma extends_refl: "extends src r r"
  by (auto simp: extends_def extends_by_def intro!: exI [of _ "[]"])

lemma extends_trans:
  assumes "extends src r1 r2" "extends src r2 r3"
  shows "extends src r1 r3"
proof -
  obtain ss ns ts ms where e: "extends_by src r1 r2 ss ns" "extends_by src r2 r3 ts ms"
    using assms by (auto simp: extends_def)
  then have "set ns \<inter> set ms = {}" by (fastforce simp: extends_by_def)
  moreover have "current_parent r2 = current_parent r1" using e(1) by (simp add: extends_by_def current_parent_def)
  ultimately have "extends_by src r1 r3 (ss @ ts) (ns @ ms)"
    using e by (auto simp: extends_by_def totals_of_append well_nested_append plus_totals_assoc)
  then show ?thesis unfolding extends_def by blast
qed

text \<open>A change of a field no recording depends on.\<close>

lemma extends_other:
  assumes "rc_spans r' = rc_spans r" "rc_asked r' = rc_asked r" "rc_open_parents r' = rc_open_parents r"
    and "totals r' = totals r" "rc_env_started_at r' = rc_env_started_at r" "rc_env_ended_at r' = rc_env_ended_at r"
    and "rc_workspace_id r' = rc_workspace_id r" "rc_run r' = rc_run r"
  shows "extends src r r'"
  using assms by (auto simp: extends_def extends_by_def intro!: exI [of _ "[]"])

lemma add_instant_extends:
  assumes "sources_ok src" "add_instant src nm k r = (res, r')"
  shows "extends src r r'"
proof -
  let ?s = "build_instant_span (src_span_id src (rc_asked r)) (current_parent r) nm (src_now src (rc_asked r)) k"
  have b: "span_id (span_base ?s) = src_span_id src (rc_asked r)" "span_parent_id (span_base ?s) = current_parent r"
    "as_llm_call ?s = None" "as_tool_call ?s = None"
    by (simp_all add: build_instant_span_def SpanBase.defs split: Instant.splits)
  show ?thesis
  proof (cases "span_fields_ok ?s")
    case True
    with assms(2) have r': "r' = record_span ?s (r\<lparr>rc_asked := rc_asked r + 1\<rparr>)"
      by (simp add: add_instant_def Let_def)
    have "extends_by src r r' [?s] [rc_asked r]"
      using b by (simp add: extends_by_def r' record_span_def totals_def totals_of_def llm_spans_of_def
          map_filter_simps)
    then show ?thesis unfolding extends_def by blast
  next
    case False
    with assms(2) have "r' = r\<lparr>rc_asked := rc_asked r + 1\<rparr>" by (simp add: add_instant_def Let_def)
    then have "extends_by src r r' [] []" by (simp add: extends_by_def)
    then show ?thesis unfolding extends_def by blast
  qed
qed

text \<open>A context manager whose span can be made.\<close>

lemma with_span_extends:
  assumes "sources_ok src" "with_span src mk acc block r = (res, r')"
    and "\<And>r1 res1. block (r\<lparr>rc_asked := rc_asked r + 1,
        rc_open_parents := src_span_id src (rc_asked r) # rc_open_parents r\<rparr>) = (res1, r1) \<Longrightarrow>
      extends src (r\<lparr>rc_asked := rc_asked r + 1,
        rc_open_parents := src_span_id src (rc_asked r) # rc_open_parents r\<rparr>) r1"
    and mk: "\<And>i p t d b. span_id (span_base (mk i p t d b)) = i" "\<And>i p t d b. span_parent_id (span_base (mk i p t d b)) = p"
    and cost: "\<And>i p t d b. costs_ok [mk i p t d b]"
    and fields: "\<And>p t d b. p \<noteq> Some [] \<Longrightarrow> span_fields_ok (mk (src_span_id src (rc_asked r)) p t d b)"
    and parent: "current_parent r \<noteq> Some []"
    and acc: "\<And>i p t d b r. totals (acc (mk i p t d b) r) = plus_totals (totals r) (totals_of [mk i p t d b])"
      "\<And>s r. rc_spans (acc s r) = rc_spans r" "\<And>s r. rc_asked (acc s r) = rc_asked r"
      "\<And>s r. rc_open_parents (acc s r) = rc_open_parents r" "\<And>s r. rc_env_started_at (acc s r) = rc_env_started_at r"
      "\<And>s r. rc_env_ended_at (acc s r) = rc_env_ended_at r" "\<And>s r. rc_workspace_id (acc s r) = rc_workspace_id r"
      "\<And>s r. rc_run (acc s r) = rc_run r"
  shows "extends src r r'"
proof -
  let ?n = "rc_asked r"
  let ?i = "src_span_id src ?n"
  let ?in = "r\<lparr>rc_asked := ?n + 1, rc_open_parents := ?i # rc_open_parents r\<rparr>"
  obtain res1 r1 where b: "block ?in = (res1, r1)" by (cases "block ?in")
  obtain ss ns where e: "extends_by src ?in r1 ss ns" using assms(3) [OF b] by (auto simp: extends_def)
  let ?s = "mk ?i (current_parent r) (src_now src ?n) (src_elapsed_ms src ?n (rc_asked r1)) (res1 \<noteq> Inr ())"
  let ?r2 = "r1\<lparr>rc_open_parents := tl (rc_open_parents r1)\<rparr>"
  have r': "r' = acc ?s (record_span ?s ?r2)"
    using assms(2) b fields [OF parent] by (auto simp: with_span_def Let_def)
  have "well_nested (current_parent r) (ss @ [?s])"
    by (rule well_nested_close [of ?i]) (use e mk in \<open>simp_all add: extends_by_def current_parent_def\<close>)
  moreover have "distinct (ns @ [?n])" using e by (auto simp: extends_by_def)
  moreover have "set (ns @ [?n]) \<subseteq> {?n..<rc_asked r1}" using e by (auto simp: extends_by_def)
  ultimately have "extends_by src r r' (ss @ [?s]) (ns @ [?n])"
    using e mk cost by (auto simp del: costs_ok_simps(3) simp: extends_by_def r' acc totals_of_append plus_totals_assoc)
  then show ?thesis unfolding extends_def by blast
qed

subsection \<open>Scripts\<close>

text \<open>A script whose spans can be made: the names and bounds pydantic asks for.\<close>

primrec act_ok :: "Act \<Rightarrow> bool" where
  "act_ok (AgentTurn nm acts) = (nm \<noteq> [] \<and> list_all id (map act_ok acts))"
| "act_ok (LLMCall nm b acts) = (nm \<noteq> [] \<and> kind_fields_ok (LLMCallSpan (build_llm_call_span [] None nm 0 0 b)) \<and>
     0 \<le> cb_total (lb_cost b) \<and> list_all id (map act_ok acts))"
| "act_ok (ToolCall nm b acts) = (nm \<noteq> [] \<and> tlb_tool_name b \<noteq> [] \<and> list_all id (map act_ok acts))"
| "act_ok (Stt nm b acts) = (nm \<noteq> [] \<and> sb_provider b \<noteq> [] \<and> unit_opt (sb_confidence b) \<and> list_all id (map act_ok acts))"
| "act_ok (Tts nm b acts) = (nm \<noteq> [] \<and> ttb_provider b \<noteq> [] \<and> list_all id (map act_ok acts))"
| "act_ok (Add nm k) = True"
| "act_ok (SetOutputs out) = True"
| "act_ok (AddLink l) = True"
| "act_ok (AddGraderResult g) = True"
| "act_ok (SetState st err) = True"
| "act_ok (Raise e) = True"
| "act_ok (Try acts) = list_all id (map act_ok acts)"

definition acts_ok :: "Act list \<Rightarrow> bool" where
  "acts_ok acts \<longleftrightarrow> list_all act_ok acts"

lemma acts_ok_simps [simp]: "acts_ok []" "acts_ok (a # as) \<longleftrightarrow> act_ok a \<and> acts_ok as"
  "list_all id (map act_ok acts) = acts_ok acts"
  by (simp_all add: acts_ok_def list_all_iff)

lemma llm_fields:
  "kind_fields_ok (LLMCallSpan (build_llm_call_span [] None nm 0 0 b)) \<Longrightarrow>
     kind_fields_ok (LLMCallSpan (build_llm_call_span i p nm t d b))"
  by (auto simp: kind_fields_ok_def build_llm_call_span_def split: option.splits)

lemma count_totals:
  "totals (count_nothing s r) = totals r"
  "totals (count_llm (LLMCallSpan c) r) = plus_totals (totals r) (totals_of [LLMCallSpan c])"
  "totals (count_tool (ToolCallSpan x) r) = plus_totals (totals r) (totals_of [ToolCallSpan x])"
  "totals_of [AgentTurnSpan y] = (0, 0, 0, 0, 0, 0)" "totals_of [SttSpan z] = (0, 0, 0, 0, 0, 0)"
  "totals_of [TtsSpan w] = (0, 0, 0, 0, 0, 0)" "plus_totals u (0, 0, 0, 0, 0, 0) = u"
  by (cases u; simp add: count_nothing_def count_llm_def count_tool_def totals_def totals_of_def llm_spans_of_def
      map_filter_simps)+

lemma count_fields:
  "rc_spans (count_nothing s r) = rc_spans r" "rc_asked (count_nothing s r) = rc_asked r"
  "rc_open_parents (count_nothing s r) = rc_open_parents r" "rc_env_started_at (count_nothing s r) = rc_env_started_at r"
  "rc_env_ended_at (count_nothing s r) = rc_env_ended_at r" "rc_workspace_id (count_nothing s r) = rc_workspace_id r"
  "rc_run (count_nothing s r) = rc_run r"
  "rc_spans (count_tool s r) = rc_spans r" "rc_asked (count_tool s r) = rc_asked r"
  "rc_open_parents (count_tool s r) = rc_open_parents r" "rc_env_started_at (count_tool s r) = rc_env_started_at r"
  "rc_env_ended_at (count_tool s r) = rc_env_ended_at r" "rc_workspace_id (count_tool s r) = rc_workspace_id r"
  "rc_run (count_tool s r) = rc_run r"
  "rc_spans (count_llm s r) = rc_spans r" "rc_asked (count_llm s r) = rc_asked r"
  "rc_open_parents (count_llm s r) = rc_open_parents r" "rc_env_started_at (count_llm s r) = rc_env_started_at r"
  "rc_env_ended_at (count_llm s r) = rc_env_ended_at r" "rc_workspace_id (count_llm s r) = rc_workspace_id r"
  "rc_run (count_llm s r) = rc_run r"
  by (simp_all add: count_nothing_def count_tool_def count_llm_def split: option.splits)

lemma open_nonempty: "[] \<notin> set (rc_open_parents r) \<Longrightarrow> current_parent r \<noteq> Some []"
  by (auto simp: current_parent_def split: list.splits)

lemmas span_builds = build_base_def build_llm_call_span_def build_tool_call_span_def build_stt_span_def
  build_tts_span_def SpanBase.defs tool_raised_def

lemma scope_extends:
  assumes src: "sources_ok src" "[] \<notin> set (rc_open_parents r)" and run: "with_span src mk acc block r = (res, r')"
    and block: "\<And>r res r'. [] \<notin> set (rc_open_parents r) \<Longrightarrow> block r = (res, r') \<Longrightarrow> extends src r r'"
    and mk: "\<And>i p t d b. span_id (span_base (mk i p t d b)) = i" "\<And>i p t d b. span_parent_id (span_base (mk i p t d b)) = p"
    and cost: "\<And>i p t d b. costs_ok [mk i p t d b]"
    and fields: "\<And>i p t d b. i \<noteq> [] \<Longrightarrow> p \<noteq> Some [] \<Longrightarrow> span_fields_ok (mk i p t d b)"
    and acc: "acc \<in> {count_nothing, count_tool, count_llm}"
      "\<And>i p t d b r. totals (acc (mk i p t d b) r) = plus_totals (totals r) (totals_of [mk i p t d b])"
  shows "extends src r r'"
proof (rule with_span_extends [OF src(1) run])
  have i: "src_span_id src (rc_asked r) \<noteq> []" using src(1) by (simp add: sources_ok_def)
  show "extends src (r\<lparr>rc_asked := rc_asked r + 1, rc_open_parents := src_span_id src (rc_asked r) # rc_open_parents r\<rparr>) r1"
    if "block (r\<lparr>rc_asked := rc_asked r + 1,
        rc_open_parents := src_span_id src (rc_asked r) # rc_open_parents r\<rparr>) = (res1, r1)" for r1 res1
    by (rule block [OF _ that]) (use i src(2) in simp)
  show "span_fields_ok (mk (src_span_id src (rc_asked r)) p t d b)" if "p \<noteq> Some []" for p t d b
    using fields i that by blast
  show "current_parent r \<noteq> Some []" using src(2) by (rule open_nonempty)
qed (use mk acc cost count_fields in auto)

lemma run_acts_extends:
  shows "sources_ok src \<Longrightarrow> act_ok a \<Longrightarrow> [] \<notin> set (rc_open_parents r) \<Longrightarrow> run_act src a r = (res, r') \<Longrightarrow> extends src r r'"
    and "sources_ok src \<Longrightarrow> acts_ok as \<Longrightarrow> [] \<notin> set (rc_open_parents r) \<Longrightarrow> run_acts src as r = (res, r') \<Longrightarrow> extends src r r'"
proof (induction src a and src as arbitrary: r res r' and r res r' rule: run_act_run_acts.induct)
  case (1 src nm acts)
  show ?case
    by (rule scope_extends [OF "1.prems"(1,3) "1.prems"(4) [unfolded run_act.simps]])
      (use 1 in \<open>auto simp: span_builds span_fields_ok_def kind_fields_ok_def count_totals\<close>)
next
  case (2 src nm b acts)
  have f: "kind_fields_ok (LLMCallSpan (build_llm_call_span i p nm t d b))" for i p t d
    using 2 llm_fields by (simp del: list.map)
  show ?case
    by (rule scope_extends [OF "2.prems"(1,3) "2.prems"(4) [unfolded run_act.simps]])
      (use 2 f in \<open>auto simp: span_fields_ok_def count_totals SpanBase.defs build_llm_call_span_def\<close>)
next
  case (3 src nm b acts)
  show ?case
    by (rule scope_extends [OF "3.prems"(1,3) "3.prems"(4) [unfolded run_act.simps]])
      (use 3 in \<open>auto simp: span_builds span_fields_ok_def kind_fields_ok_def count_totals\<close>)
next
  case (4 src nm b acts)
  show ?case
    by (rule scope_extends [OF "4.prems"(1,3) "4.prems"(4) [unfolded run_act.simps]])
      (use 4 in \<open>auto simp: span_builds span_fields_ok_def kind_fields_ok_def count_totals\<close>)
next
  case (5 src nm b acts)
  show ?case
    by (rule scope_extends [OF "5.prems"(1,3) "5.prems"(4) [unfolded run_act.simps]])
      (use 5 in \<open>auto simp: span_builds span_fields_ok_def kind_fields_ok_def count_totals\<close>)
next
  case (6 src nm k)
  then show ?case using add_instant_extends by simp
next
  case (12 src acts)
  then show ?case by (cases "run_acts src acts r") auto
next
  case (14 src a as)
  obtain res1 r1 where a: "run_act src a r = (res1, r1)" by (cases "run_act src a r")
  have e1: "extends src r r1" using 14 a by simp
  then have ps: "rc_open_parents r1 = rc_open_parents r" by (auto simp: extends_def extends_by_def)
  show ?case
  proof (cases res1)
    case (Inl e)
    with "14.prems"(4) a e1 show ?thesis by (simp add: bind_exec_def)
  next
    case (Inr u)
    with "14.prems"(4) a have "run_acts src as r1 = (res, r')" by (simp add: bind_exec_def)
    moreover have "acts_ok as" "[] \<notin> set (rc_open_parents r1)" using "14.prems" ps by simp_all
    ultimately have "extends src r1 r'" using "14.IH"(2) [where r = r1] "14.prems"(1) by blast
    with e1 show ?thesis using extends_trans by blast
  qed
qed (auto intro!: extends_other extends_refl
    simp: set_outputs_def add_link_def add_grader_result_def set_state_def raise_exec_def return_exec_def totals_def)

subsection \<open>The trace at the end\<close>

lemma total_cost_nonneg: "costs_ok ss \<Longrightarrow> totals r = totals_of ss \<Longrightarrow> 0 \<le> rc_cost_usd r"
  by (auto simp: totals_def totals_of_def costs_ok_def list_all_iff intro!: sum_list_nonneg)

lemma exit_recorder_fields [simp]:
  "rc_spans (exit_recorder now raised r) = rc_spans r" "rc_open_parents (exit_recorder now raised r) = rc_open_parents r"
  "totals (exit_recorder now raised r) = totals r" "rc_env_ended_at (exit_recorder now raised r) = Some now"
  "rc_env_started_at (exit_recorder now raised r) = rc_env_started_at r" "rc_run (exit_recorder now raised r) = rc_run r"
  "rc_workspace_id (exit_recorder now raised r) = rc_workspace_id r"
  by (simp_all add: exit_recorder_def Let_def fail_def complete_def set_state_def totals_def split: option.splits)

lemma exit_recorder_state:
  "rc_final_state (exit_recorder now raised r) = (case rc_final_state r of
     Some f \<Rightarrow> Some f
   | None \<Rightarrow> Some (if raised then \<lparr>fs_status = TraceState.ERRORED, fs_error = Some no_text\<rparr>
                   else \<lparr>fs_status = TraceState.COMPLETED, fs_error = None\<rparr>))"
  by (simp add: exit_recorder_def Let_def fail_def complete_def set_state_def split: option.splits)

lemma recorded_spans:
  assumes "sources_ok src" "acts_ok acts" "make_TraceRecorder ws run agent fw rt sb started = Inr r0"
    and "record_block src now acts r0 = (res, r)"
  shows "well_nested None (rc_spans r) \<and> distinct (span_ids (rc_spans r)) \<and> rc_open_parents r = [] \<and>
    totals r = totals_of (rc_spans r) \<and> costs_ok (rc_spans r) \<and> rc_env_started_at r = started \<and>
    rc_env_ended_at r = Some now \<and> rc_workspace_id r = ws \<and> rc_run r = run"
proof -
  obtain r1 where r1: "run_acts src acts r0 = (res, r1)" "r = exit_recorder now (res \<noteq> Inr ()) r1"
    using assms(4) by (auto simp: record_block_def split: prod.splits)
  have r0: "rc_open_parents r0 = []" "rc_spans r0 = []" "totals r0 = (0, 0, 0, 0, 0, 0)" "rc_env_started_at r0 = started"
    "rc_workspace_id r0 = ws" "rc_run r0 = run"
    using assms(3) by (auto simp: make_TraceRecorder_def totals_def split: if_splits)
  then obtain ss ns where e: "extends_by src r0 r1 ss ns"
    using run_acts_extends(2) [OF assms(1,2) _ r1(1)] by (auto simp: extends_def)
  have "distinct (span_ids ss)"
    using e assms(1) by (auto simp: extends_by_def distinct_map sources_ok_def intro: inj_on_subset)
  moreover have "plus_totals (0, 0, 0, 0, 0, 0) t = t" for t by (cases t) simp
  ultimately show ?thesis using e r0 by (simp add: extends_by_def r1(2) current_parent_def)
qed

lemma build_trace_recorded:
  assumes "sources_ok src" "acts_ok acts" "make_TraceRecorder ws run agent fw rt sb started = Inr r0"
    and "record_block src now acts r0 = (res, r)" "started \<le> now"
  shows "\<exists>t. build_trace fresh now' r = (if tool_use_ids_linked t then Inr t else Inl ValueError) \<and>
    tr_spans t = rc_spans r \<and> workspace_id t = ws \<and> tr_run t = run \<and>
    Some (tr_final_state t) = rc_final_state r \<and>
    (tm_llm_call_count (tr_metrics t), tm_tool_call_count (tr_metrics t), tm_total_tokens_in (tr_metrics t),
     tm_total_tokens_out (tr_metrics t), tm_retries (tr_metrics t), tm_total_cost_usd (tr_metrics t)) = totals_of (tr_spans t)"
proof -
  note s = recorded_spans [OF assms(1-4)]
  define t where "t = \<lparr>ent_id = fresh, workspace_id = rc_workspace_id r, version = 1, created_at = now',
           updated_at = now', deleted_at = None, tr_schema_version = ''1.5.0'', tr_run = rc_run r,
           tr_agent = rc_agent r, tr_environment = \<lparr>ev_framework_version = rc_framework_version r, ev_runtime = rc_runtime r,
            ev_sandbox = rc_sandbox r, ev_tool_mocks = [], ev_started_at = rc_env_started_at r,
            ev_ended_at = Some now\<rparr>,
           tr_final_state = (case rc_final_state r of Some f \<Rightarrow> f | None \<Rightarrow> \<lparr>fs_status = TraceState.COMPLETED, fs_error = None\<rparr>),
           tr_spans = rc_spans r, tr_outputs = rc_outputs r, tr_grader_results = rc_grader_results r,
           tr_metrics = metrics_of (nat ((now - rc_env_started_at r) div 1000)) r,
           tr_links = rc_links r, tr_snapshot_id = None\<rparr>"
  have "0 \<le> rc_cost_usd r" using s total_cost_nonneg by blast
  then have b: "build_trace fresh now' r = validate_Trace t"
    using s assms(5) by (simp add: build_trace_def ended_after_started_def t_def)
  have "span_ids_unique t" using s by (simp add: span_ids_unique_iff t_def)
  moreover have "parent_ids_reference_existing_spans t"
    using s well_nested_parents [of "rc_spans r"]
    by (auto simp: parent_ids_reference_existing_spans_def list_all_iff t_def split: option.splits)
  ultimately have "build_trace fresh now' r = (if tool_use_ids_linked t then Inr t else Inl ValueError)"
    by (simp add: b validate_Trace_def)
  moreover have "\<exists>f. rc_final_state r = Some f"
    using assms(4) by (auto simp: record_block_def exit_recorder_state split: prod.splits option.splits)
  ultimately show ?thesis
    using s by (intro exI [of _ t]) (auto simp: t_def metrics_of_def totals_def)
qed

text \<open>The state of the trace, when the script does not set one itself.\<close>

primrec sets_state :: "Act \<Rightarrow> bool" where
  "sets_state (AgentTurn nm acts) = list_ex id (map sets_state acts)"
| "sets_state (LLMCall nm b acts) = list_ex id (map sets_state acts)"
| "sets_state (ToolCall nm b acts) = list_ex id (map sets_state acts)"
| "sets_state (Stt nm b acts) = list_ex id (map sets_state acts)"
| "sets_state (Tts nm b acts) = list_ex id (map sets_state acts)"
| "sets_state (Add nm k) = False"
| "sets_state (SetOutputs out) = False"
| "sets_state (AddLink l) = False"
| "sets_state (AddGraderResult g) = False"
| "sets_state (SetState st err) = True"
| "sets_state (Raise e) = False"
| "sets_state (Try acts) = list_ex id (map sets_state acts)"

lemma sets_state_acts: "list_ex id (map sets_state acts) \<longleftrightarrow> list_ex sets_state acts"
  by (induction acts) simp_all

lemma with_span_final_state:
  assumes "with_span src mk acc block r = (res, r')" "acc \<in> {count_nothing, count_tool, count_llm}"
    and "\<And>r res r'. block r = (res, r') \<Longrightarrow> rc_final_state r' = rc_final_state r"
  shows "rc_final_state r' = rc_final_state r"
proof -
  let ?in = "r\<lparr>rc_asked := rc_asked r + 1, rc_open_parents := src_span_id src (rc_asked r) # rc_open_parents r\<rparr>"
  obtain res1 r1 where b: "block ?in = (res1, r1)" by (cases "block ?in")
  have "rc_final_state r1 = rc_final_state r" using assms(3) [OF b] by simp
  with assms(1,2) b show ?thesis
    by (auto simp: with_span_def Let_def record_span_def count_nothing_def count_tool_def count_llm_def
        split: if_splits option.splits)
qed

lemma run_acts_final_state:
  shows "\<not> sets_state a \<Longrightarrow> run_act src a r = (res, r') \<Longrightarrow> rc_final_state r' = rc_final_state r"
    and "\<not> list_ex sets_state as \<Longrightarrow> run_acts src as r = (res, r') \<Longrightarrow> rc_final_state r' = rc_final_state r"
proof (induction src a and src as arbitrary: r res r' and r res r' rule: run_act_run_acts.induct)
  case (12 src acts)
  then show ?case by (cases "run_acts src acts r") (auto simp: sets_state_acts)
next
  case (14 src a as)
  obtain res1 r1 where a: "run_act src a r = (res1, r1)" by (cases "run_act src a r")
  have e1: "rc_final_state r1 = rc_final_state r" using 14 a by simp
  show ?case
  proof (cases res1)
    case (Inl e)
    with "14.prems"(2) a e1 show ?thesis by (simp add: bind_exec_def)
  next
    case (Inr u)
    with "14.prems"(2) a have "run_acts src as r1 = (res, r')" by (simp add: bind_exec_def)
    with "14.IH"(2) [where r = r1] "14.prems"(1) e1 show ?thesis by simp
  qed
qed (auto simp: sets_state_acts set_outputs_def add_link_def add_grader_result_def raise_exec_def return_exec_def
    add_instant_def Let_def record_span_def split: if_splits elim!: with_span_final_state)

lemma record_block_state:
  assumes "make_TraceRecorder ws run agent fw rt sb started = Inr r0" "\<not> list_ex sets_state acts"
    and "record_block src now acts r0 = (res, r)"
  shows "rc_final_state r = Some (if res = Inr () then \<lparr>fs_status = TraceState.COMPLETED, fs_error = None\<rparr>
    else \<lparr>fs_status = TraceState.ERRORED, fs_error = Some no_text\<rparr>)"
proof -
  obtain r1 where r1: "run_acts src acts r0 = (res, r1)" "r = exit_recorder now (res \<noteq> Inr ()) r1"
    using assms(3) by (auto simp: record_block_def split: prod.splits)
  have "rc_final_state r1 = None"
    using run_acts_final_state(2) [OF assms(2) r1(1)] assms(1) by (auto simp: make_TraceRecorder_def split: if_splits)
  then show ?thesis by (simp add: r1(2) exit_recorder_state)
qed

end
