(* ===== verification/Pricing.thy ===== *)
theory Pricing
  imports Recorder Object_Store
begin

section \<open>runner/pricing.py\<close>

text \<open>
  Token prices.  Rates are exact rationals for USD per million tokens; the warning about an unknown
  model is left out, its price is \<open>None\<close>.
\<close>

record ModelPricing =
  mp_input_per_mtok :: rat
  mp_output_per_mtok :: rat
  mp_cache_read_multiplier :: rat
  mp_cache_write_multiplier :: rat
  mp_batch_multiplier :: rat

definition price_call :: "TokenBreakdown \<Rightarrow> ModelPricing \<Rightarrow> bool \<Rightarrow> CostBreakdown" where
  "price_call t p batch =
     (let factor = (if batch then mp_batch_multiplier p else 1);
          input_rate = mp_input_per_mtok p / 1000000; output_rate = mp_output_per_mtok p / 1000000;
          inp = of_nat (tb_input t) * input_rate * factor;
          rd = of_nat (tb_input_cache_read t) * input_rate * mp_cache_read_multiplier p * factor;
          wr = of_nat (tb_input_cache_creation t) * input_rate * mp_cache_write_multiplier p * factor;
          out = of_nat (tb_output t + tb_reasoning t) * output_rate * factor
      in \<lparr>cb_input = inp, cb_cache_read = rd, cb_cache_creation = wr, cb_output = out,
          cb_total = inp + rd + wr + out\<rparr>)"

text \<open>\<^verbatim>\<open>base.rsplit("-", 1)\<close>: the last dash splits.\<close>

definition rsplit_dash :: "string \<Rightarrow> (string \<times> string) option" where
  "rsplit_dash s = (case split_first (CHR ''-'') (rev s) of
     (t, Some r) \<Rightarrow> Some (rev r, rev t) | (_, None) \<Rightarrow> None)"

definition normalize_model :: "string \<Rightarrow> string" where
  "normalize_model nm =
     (let base = fst (split_first (CHR '':'') (lower (strip nm)))
      in case rsplit_dash base of
           Some (a, b) \<Rightarrow> if b \<noteq> [] \<and> list_all is_digit b \<and> 6 \<le> length b then a else base
         | None \<Rightarrow> base)"

type_synonym price_table = "((string \<times> string) \<times> ModelPricing) list"

definition price_key :: "string \<Rightarrow> string \<Rightarrow> string \<times> string" where
  "price_key provider model = (lower (strip provider), normalize_model model)"

definition register_price :: "string \<Rightarrow> string \<Rightarrow> ModelPricing \<Rightarrow> price_table \<Rightarrow> price_table" where
  "register_price provider model p t = AList.update (price_key provider model) p t"

definition lookup_price :: "string \<Rightarrow> string \<Rightarrow> price_table \<Rightarrow> ModelPricing option" where
  "lookup_price provider model t = map_of t (price_key provider model)"

definition estimate_cost :: "price_table \<Rightarrow> string \<Rightarrow> string \<Rightarrow> TokenBreakdown \<Rightarrow> bool \<Rightarrow> CostBreakdown option" where
  "estimate_cost t provider model tokens batch =
     map_option (\<lambda>p. price_call tokens p batch) (lookup_price provider model t)"

definition anthropic_price :: "rat \<Rightarrow> rat \<Rightarrow> ModelPricing" where
  "anthropic_price inp out = \<lparr>mp_input_per_mtok = inp, mp_output_per_mtok = out,
     mp_cache_read_multiplier = 1 / 10, mp_cache_write_multiplier = 125 / 100, mp_batch_multiplier = 1 / 2\<rparr>"

definition openai_price :: "rat \<Rightarrow> rat \<Rightarrow> rat \<Rightarrow> ModelPricing" where
  "openai_price inp out cached = \<lparr>mp_input_per_mtok = inp, mp_output_per_mtok = out,
     mp_cache_read_multiplier = (if inp \<noteq> 0 then cached / inp else 1), mp_cache_write_multiplier = 1,
     mp_batch_multiplier = 1 / 2\<rparr>"

definition DEFAULT_PRICES :: price_table where
  "DEFAULT_PRICES =
     [((''anthropic'', ''claude-opus-4-1''), anthropic_price 15 75),
      ((''anthropic'', ''claude-opus-4''), anthropic_price 15 75),
      ((''anthropic'', ''claude-sonnet-4-6''), anthropic_price 3 15),
      ((''anthropic'', ''claude-sonnet-4-5''), anthropic_price 3 15),
      ((''anthropic'', ''claude-sonnet-4''), anthropic_price 3 15),
      ((''anthropic'', ''claude-haiku-4-5''), anthropic_price 1 5),
      ((''anthropic'', ''claude-3-5-haiku''), anthropic_price (80 / 100) 4),
      ((''openai'', ''gpt-4o''), openai_price (25 / 10) 10 (125 / 100)),
      ((''openai'', ''gpt-4o-mini''), openai_price (15 / 100) (60 / 100) (75 / 1000)),
      ((''openai'', ''gpt-4.1''), openai_price 2 8 (1 / 2)),
      ((''openai'', ''gpt-4.1-mini''), openai_price (40 / 100) (160 / 100) (1 / 10)),
      ((''openai'', ''o3''), openai_price 2 8 (1 / 2)),
      ((''openai'', ''o4-mini''), openai_price (110 / 100) (440 / 100) (275 / 1000))]"

subsection \<open>Prices\<close>

definition sane_pricing :: "ModelPricing \<Rightarrow> bool" where
  "sane_pricing p \<longleftrightarrow> 0 \<le> mp_input_per_mtok p \<and> 0 \<le> mp_output_per_mtok p \<and> 0 \<le> mp_cache_read_multiplier p \<and>
     0 \<le> mp_cache_write_multiplier p \<and> 0 \<le> mp_batch_multiplier p"

lemma default_prices_sane: "list_all (\<lambda>(k, p). sane_pricing p) DEFAULT_PRICES"
  by (simp add: DEFAULT_PRICES_def sane_pricing_def anthropic_price_def openai_price_def)

lemma price_call_valid: "sane_pricing p \<Longrightarrow> valid_CostBreakdown (price_call t p batch)"
  by (simp add: price_call_def Let_def valid_CostBreakdown_def sane_pricing_def)

lemma estimate_default_valid: "estimate_cost DEFAULT_PRICES provider model t batch = Some c \<Longrightarrow> valid_CostBreakdown c"
  using default_prices_sane
  by (auto simp: estimate_cost_def lookup_price_def list_all_iff intro!: price_call_valid dest!: map_of_SomeD)

text \<open>A date pin of six digits or more does not change the price; a shorter one does.\<close>

lemma pinned_model:
  assumes "list_all is_digit d" "6 \<le> length d" "CHR '':'' \<notin> set m" "strip (m @ CHR ''-'' # d) = m @ CHR ''-'' # d"
    and "lower (m @ CHR ''-'' # d) = m @ CHR ''-'' # d"
  shows "normalize_model (m @ CHR ''-'' # d) = m"
proof -
  have dash: "CHR ''-'' \<notin> set d" and colon: "CHR '':'' \<notin> set d"
    using assms(1) by (auto simp: list_all_iff is_digit_def less_eq_char_def)
  have "takeWhile (\<lambda>x. x \<noteq> CHR '':'') (m @ CHR ''-'' # d) = m @ CHR ''-'' # d"
    using assms(3) colon by (auto simp: takeWhile_eq_all_conv)
  then have base: "fst (split_first (CHR '':'') (lower (strip (m @ CHR ''-'' # d)))) = m @ CHR ''-'' # d"
    by (simp only: assms(4,5) split_first_def fst_conv)
  have "rsplit_dash (m @ CHR ''-'' # d) = Some (m, d)"
    using split_first_append [of "CHR ''-''" "rev d" "rev m"] dash by (simp add: rsplit_dash_def)
  with base assms(1,2) show ?thesis by (auto simp: normalize_model_def Let_def)
qed

end
