(* ===== verification/Executor.thy ===== *)
theory Executor
  imports Recorder_Facts Pricing Scenario_Exec
begin

section \<open>runner/sandbox.py, runner/trace\_response\_writer.py and runner/executor.py\<close>

text \<open>
  One repetition of a case: pick the adapter, open a recorder, invoke the agent inside the case
  turn, record what came back, build the trace.  What an agent does between request and response
  is an argument: the spans it emits through the trace handle (whose exceptions its adapter
  catches) and then a response or an error.  The recorder part is a script of the recorder, so the
  facts about scripts apply to it.  Identifiers and clocks of a repetition are given by \<open>RepEnv\<close>;
  the semaphore, the OTLP receiver and the closing of clients are left out.
\<close>

subsection \<open>Sandbox\<close>

definition is_mvp_supported :: "SandboxMode \<Rightarrow> bool" where
  "is_mvp_supported m \<longleftrightarrow> m \<in> {SandboxMode.MOCK, SandboxMode.DRY_RUN}"

definition should_mock_tool :: "SandboxMode \<Rightarrow> bool \<Rightarrow> bool" where
  "should_mock_tool m side_effects =
     (if m = SandboxMode.MOCK then True else if m = SandboxMode.DRY_RUN then side_effects else False)"

definition ensure_runnable :: "SandboxMode \<Rightarrow> unit result" where
  "ensure_runnable m = (if is_mvp_supported m then Inr () else Inl SandboxViolationError)"

subsection \<open>Adapters\<close>

record ModelRef =
  mdl_provider :: string
  mdl_name :: string

record AgentInfo =
  agt_id :: string
  agt_version :: int
  agt_model :: ModelRef

record Adapter =
  ad_key :: string
  ad_agent :: "AgentInfo option"
  ad_model :: "ModelRef option"

subsection \<open>Writing a response\<close>

definition INLINE_PAYLOAD_MAX_CHARS :: nat where
  "INLINE_PAYLOAD_MAX_CHARS = 4096"

definition normalize_stop_reason :: "string option \<Rightarrow> StopReason option" where
  "normalize_stop_reason v = (case v of
     None \<Rightarrow> None
   | Some s \<Rightarrow> (case enum_of StopReason_value StopReason_members (lower (strip s)) of Inl _ \<Rightarrow> None | Inr r \<Rightarrow> Some r))"

definition optional_int :: "json \<Rightarrow> nat option" where
  "optional_int v = (case v of
     JInt i \<Rightarrow> if 0 \<le> i then Some (nat i) else None
   | JFloat q \<Rightarrow> if 0 \<le> q then Some (nat \<lfloor>q\<rfloor>) else None
   | _ \<Rightarrow> None)"

definition optional_float :: "json \<Rightarrow> rat option" where
  "optional_float v = (case v of
     JInt i \<Rightarrow> if 0 \<le> i then Some (of_int i) else None
   | JFloat q \<Rightarrow> if 0 \<le> q then Some q else None
   | _ \<Rightarrow> None)"

definition str_or_none :: "json \<Rightarrow> string option" where
  "str_or_none v = (case v of JStr s \<Rightarrow> if strip s \<noteq> [] then Some s else None | _ \<Rightarrow> None)"

definition system_prompt_in :: "json dict \<Rightarrow> string option" where
  "system_prompt_in inner = (case str_or_none (dict_get inner ''system_prompt'' JNull) of
     Some s \<Rightarrow> Some s | None \<Rightarrow> str_or_none (dict_get inner ''system'' JNull))"

definition extract_system_prompt :: "AdapterRequest \<Rightarrow> string option result" where
  "extract_system_prompt r =
     (let inner = dict_get (rq_parameters r) ''model_params'' JNull
      in if \<not> py_truthy inner then Inr None
         else case as_dict inner of None \<Rightarrow> Inl TypeError | Some d \<Rightarrow> Inr (system_prompt_in d))"

text \<open>What a payload router answers: a pointer, if it offloaded, and the hash.\<close>

type_synonym router = "string \<Rightarrow> json \<Rightarrow> string option \<times> string"

definition route_payload ::
    "(json \<Rightarrow> string) \<Rightarrow> router option \<Rightarrow> string \<Rightarrow> json \<Rightarrow> string option \<times> string option \<times> string option" where
  "route_payload dumps router key v =
     (if v = JNull then (None, None, None)
      else let text = (case v of JStr s \<Rightarrow> s | _ \<Rightarrow> dumps v);
               inline = (if length text \<le> INLINE_PAYLOAD_MAX_CHARS then text else take INLINE_PAYLOAD_MAX_CHARS text)
           in case router of
                None \<Rightarrow> (None, None, Some inline)
              | Some route \<Rightarrow> (case route key v of (ptr, h) \<Rightarrow> (ptr, Some h, Some inline)))"

definition response_tokens :: "AdapterResponse \<Rightarrow> TokenBreakdown" where
  "response_tokens r = \<lparr>tb_input = rsp_tokens_input r, tb_input_cache_read = rsp_tokens_cache_read r,
     tb_input_cache_creation = rsp_tokens_cache_creation r, tb_output = rsp_tokens_output r,
     tb_reasoning = rsp_tokens_reasoning r,
     tb_total = rsp_tokens_input r + rsp_tokens_cache_read r + rsp_tokens_cache_creation r +
       rsp_tokens_output r + rsp_tokens_reasoning r\<rparr>"

definition known_model :: "Adapter \<Rightarrow> ModelRef option" where
  "known_model ad = (case ad_model ad of Some m \<Rightarrow> Some m | None \<Rightarrow> map_option agt_model (ad_agent ad))"

definition cost_for :: "price_table \<Rightarrow> Adapter \<Rightarrow> AdapterResponse \<Rightarrow> CostBreakdown option" where
  "cost_for prices ad r =
     (if 0 < rsp_cost_usd r then Some (zero_cost\<lparr>cb_total := rsp_cost_usd r\<rparr>)
      else case known_model ad of
             None \<Rightarrow> None
           | Some m \<Rightarrow> estimate_cost prices (mdl_provider m) (mdl_name m) (response_tokens r) False)"

definition tool_status :: "AdapterToolUse \<Rightarrow> ToolCallStatus" where
  "tool_status tu =
     (if atu_error tu \<noteq> None then ToolCallStatus.ERROR
      else let raw = lower (strip (case atu_status tu of None \<Rightarrow> [] | Some s \<Rightarrow> s))
           in if raw \<in> {[], ''ok'', ''success'', ''succeeded''} then ToolCallStatus.OK
              else if raw = ''timeout'' then ToolCallStatus.TIMEOUT
              else ToolCallStatus.ERROR)"

definition tool_builder ::
    "(json \<Rightarrow> string) \<Rightarrow> router option \<Rightarrow> SandboxMode \<Rightarrow> AdapterToolUse \<Rightarrow> ToolSpanBuilder" where
  "tool_builder dumps router mode tu =
     (let args = (if atu_args tu = [] then (None, None, None)
            else route_payload dumps router (''tool_args:'' @ atu_tool tu) (JObj (atu_args tu)));
          result = (case atu_result tu of None \<Rightarrow> (None, None, None)
            | Some v \<Rightarrow> route_payload dumps router (''tool_result:'' @ atu_tool tu) v)
      in \<lparr>tlb_tool_name = atu_tool tu, tlb_tool_use_id = Some (atu_tool_use_id tu), tlb_tool_version = None,
          tlb_args_pointer = fst args, tlb_args_hash = fst (snd args), tlb_args_inline = snd (snd args),
          tlb_result_pointer = fst result, tlb_result_hash = fst (snd result), tlb_result_inline = snd (snd result),
          tlb_status = tool_status tu, tlb_error = atu_error tu, tlb_retry_chain = [],
          tlb_sandboxed = should_mock_tool mode False, tlb_side_effects = []\<rparr>)"

definition write_tool_spans ::
    "(json \<Rightarrow> string) \<Rightarrow> router option \<Rightarrow> SandboxMode \<Rightarrow> AdapterResponse \<Rightarrow> Act list" where
  "write_tool_spans dumps router mode r =
     map (\<lambda>tu. ToolCall (atu_tool tu) (tool_builder dumps router mode tu) []) (rsp_tool_uses r)"

definition first_name :: "string option list \<Rightarrow> string" where
  "first_name xs = (case List.map_filter id xs of [] \<Rightarrow> ''unknown'' | x # _ \<Rightarrow> x)"

text \<open>The builder after each stage of the block: tokens and messages, system prompt, offered tools, output.\<close>

definition llm_stage1 ::
    "(json \<Rightarrow> string) \<Rightarrow> router option \<Rightarrow> Adapter \<Rightarrow> AdapterResponse \<Rightarrow> AdapterRequest \<Rightarrow> LLMSpanBuilder" where
  "llm_stage1 dumps router ad r req =
     (let meta = rsp_provider_metadata r; agent_model = map_option agt_model (ad_agent ad);
          provider = first_name [str_or_none (dict_get meta ''provider'' JNull), map_option mdl_provider (ad_model ad),
            map_option mdl_provider agent_model];
          model = first_name [str_or_none (dict_get meta ''model'' JNull), map_option mdl_name (ad_model ad),
            map_option mdl_name agent_model];
          m = route_payload dumps router ''messages'' (JObj (rq_input req))
      in (new_LLMSpanBuilder provider model None)\<lparr>lb_tokens := response_tokens r, lb_messages_pointer := fst m,
           lb_messages_hash := fst (snd m), lb_messages_inline := snd (snd m)\<rparr>)"

definition llm_stage2 ::
    "(json \<Rightarrow> string) \<Rightarrow> router option \<Rightarrow> string option \<Rightarrow> AdapterRequest \<Rightarrow> LLMSpanBuilder \<Rightarrow> LLMSpanBuilder" where
  "llm_stage2 dumps router prompt req b =
     (case prompt of
        None \<Rightarrow> b
      | Some p \<Rightarrow> (case route_payload dumps router ''system_prompt'' (JStr p) of (ptr, h, inline) \<Rightarrow>
          b\<lparr>lb_system_prompt_pointer := ptr, lb_system_prompt_hash := h, lb_system_prompt_inline := inline\<rparr>))
     \<lparr>lb_tools_offered := rq_tools_allowed req\<rparr>"

definition llm_stage3 ::
    "(json \<Rightarrow> string) \<Rightarrow> router option \<Rightarrow> price_table \<Rightarrow> Adapter \<Rightarrow> AdapterResponse \<Rightarrow> LLMSpanBuilder \<Rightarrow> LLMSpanBuilder" where
  "llm_stage3 dumps router prices ad r b =
     (case route_payload dumps router ''content'' (case rsp_content r of None \<Rightarrow> JNull | Some s \<Rightarrow> JStr s) of
        (ptr, h, inline) \<Rightarrow>
          (set_cost (cost_for prices ad r)
            (set_timing (optional_int (dict_get (rsp_provider_metadata r) ''time_to_first_token_ms'' JNull))
                        (optional_float (dict_get (rsp_provider_metadata r) ''tokens_per_second'' JNull))
              (set_output (normalize_stop_reason (rsp_stop_reason r)) ptr h inline
                (map (\<lambda>tu. \<lparr>tur_tool = atu_tool tu, tur_tool_use_id = atu_tool_use_id tu\<rparr>) (rsp_tool_uses r)) b)))
          \<lparr>lb_provider_metadata := rsp_provider_metadata r\<rparr>)"

text \<open>The tool uses the span cannot be made with: an empty tool name or identifier.\<close>

definition tool_uses_ok :: "AdapterResponse \<Rightarrow> bool" where
  "tool_uses_ok r \<longleftrightarrow> list_all (\<lambda>tu. atu_tool tu \<noteq> [] \<and> atu_tool_use_id tu \<noteq> []) (rsp_tool_uses r)"

definition outputs_acts :: "AdapterResponse \<Rightarrow> Act list" where
  "outputs_acts r = (case rsp_structured_output r of
     None \<Rightarrow> [] | Some d \<Rightarrow> [SetOutputs \<lparr>to_final_response_pointer = None, to_structured_output = Some d\<rparr>])"

definition record_adapter_response ::
    "(json \<Rightarrow> string) \<Rightarrow> router option \<Rightarrow> price_table \<Rightarrow> SandboxMode \<Rightarrow> Adapter \<Rightarrow> bool \<Rightarrow> AdapterRequest \<Rightarrow>
       AdapterResponse \<Rightarrow> Act list" where
  "record_adapter_response dumps router prices mode ad agent_emitted_spans req r =
     (if agent_emitted_spans then outputs_acts r
      else let b1 = llm_stage1 dumps router ad r req in
        case extract_system_prompt req of
          Inl e \<Rightarrow> [LLMCall ''adapter_response'' b1 [Raise e]]
        | Inr prompt \<Rightarrow>
            let b2 = llm_stage2 dumps router prompt req b1
            in if \<not> tool_uses_ok r then [LLMCall ''adapter_response'' b2 [Raise ValueError]]
               else LLMCall ''adapter_response'' (llm_stage3 dumps router prices ad r b2) [] #
                    outputs_acts r @ write_tool_spans dumps router mode r)"

subsection \<open>The executor\<close>

record Executor =
  ex_adapter :: Adapter
  ex_cache :: "(string \<times> Adapter) list"
  ex_sandbox :: SandboxMode
  ex_workspace_id :: string
  ex_framework_version :: string
  ex_runtime :: string

definition make_Executor :: "Adapter \<Rightarrow> SandboxMode \<Rightarrow> string \<Rightarrow> string \<Rightarrow> string \<Rightarrow> int \<Rightarrow> Executor result" where
  "make_Executor ad mode ws framework runtime concurrency =
     (if ws = [] \<or> concurrency < 1 then Inl ValueError
      else bind_result (ensure_runnable mode) (\<lambda>_.
        Inr \<lparr>ex_adapter = ad, ex_cache = [], ex_sandbox = mode, ex_workspace_id = ws,
             ex_framework_version = framework, ex_runtime = runtime\<rparr>))"

text \<open>The world around the executor: how it builds adapters, what agents do, how payloads are stored.\<close>

record World =
  wd_factory :: "(json dict \<Rightarrow> Adapter result) option"
  wd_block_key :: "json dict \<Rightarrow> string"
  wd_invoke :: "Adapter \<Rightarrow> RunInfo \<Rightarrow> AdapterRequest \<Rightarrow> Act list \<times> AdapterResponse result"
  wd_dumps :: "json \<Rightarrow> string"
  wd_router :: "router option"
  wd_prices :: price_table
  wd_taxonomy_json :: "CaseTaxonomy \<Rightarrow> json"

definition adapter_for :: "World \<Rightarrow> json dict \<Rightarrow> (Executor, Adapter) exec" where
  "adapter_for wd overrides ex =
     (case dict_get overrides ''agent'' JNull of
        JNull \<Rightarrow> (Inr (ex_adapter ex), ex)
      | JObj block \<Rightarrow>
          (case wd_factory wd of
             None \<Rightarrow> (Inl ValueError, ex)
           | Some factory \<Rightarrow>
               (case map_of (ex_cache ex) (wd_block_key wd block) of
                  Some ad \<Rightarrow> (Inr ad, ex)
                | None \<Rightarrow> (case factory block of
                    Inl e \<Rightarrow> (Inl e, ex)
                  | Inr ad \<Rightarrow> (Inr ad, ex\<lparr>ex_cache := AList.update (wd_block_key wd block) ad (ex_cache ex)\<rparr>))))
      | _ \<Rightarrow> (Inl ValueError, ex))"

definition agent_ref :: "World \<Rightarrow> json dict \<Rightarrow> (Executor, AgentSnapshotRef) exec" where
  "agent_ref wd overrides = bind_exec (adapter_for wd overrides) (\<lambda>ad. return_exec (case ad_agent ad of
     None \<Rightarrow> \<lparr>as_fleet_version = None, as_agent_id = ''unknown'', as_agent_version = 1, as_parameters_snapshot_id = None\<rparr>
   | Some a \<Rightarrow> \<lparr>as_fleet_version = None, as_agent_id = agt_id a, as_agent_version = agt_version a,
       as_parameters_snapshot_id = None\<rparr>))"

definition tools_allowed :: "SandboxMode \<Rightarrow> EvalCase \<Rightarrow> string list" where
  "tools_allowed mode c = (let required = ep_required_tools (ec_expected c)
     in if mode = SandboxMode.MOCK then required else required)"

text \<open>\<^verbatim>\<open>trace_handle.used\<close>: a span was opened before anything was raised.\<close>

fun emits_spans :: "Act list \<Rightarrow> bool" where
  "emits_spans [] = False"
| "emits_spans (Raise e # acts) = False"
| "emits_spans (AgentTurn nm body # acts) = True"
| "emits_spans (LLMCall nm b body # acts) = True"
| "emits_spans (ToolCall nm b body # acts) = True"
| "emits_spans (Stt nm b body # acts) = True"
| "emits_spans (Tts nm b body # acts) = True"
| "emits_spans (Add nm k # acts) = True"
| "emits_spans (a # acts) = emits_spans acts"

record RepEnv =
  re_run_id :: string
  re_trace_id :: string
  re_sources :: Sources
  re_started :: timestamp
  re_ended :: timestamp
  re_built :: timestamp

definition make_request ::
    "World \<Rightarrow> Executor \<Rightarrow> EvalCase \<Rightarrow> json dict \<Rightarrow> json dict option \<Rightarrow> AdapterRequest" where
  "make_request wd ex c overrides input_override =
     \<lparr>rq_workspace_id = ex_workspace_id ex, rq_case_id = ent_id c,
      rq_input = (case input_override of None \<Rightarrow> ec_input c | Some i \<Rightarrow> i), rq_context = ec_context c,
      rq_tools_allowed = tools_allowed (ex_sandbox ex) c, rq_parameters = overrides,
      rq_metadata = [(''taxonomy'', wd_taxonomy_json wd (ec_taxonomy c))], rq_otlp_endpoint = None\<rparr>"

text \<open>The script of one repetition, and whether the adapter failed.\<close>

definition repetition_script ::
    "World \<Rightarrow> Executor \<Rightarrow> Adapter \<Rightarrow> EvalCase \<Rightarrow> AdapterRequest \<Rightarrow> Act list \<times> AdapterResponse result \<Rightarrow> Act list" where
  "repetition_script wd ex ad c req played =
     [AgentTurn (''case:'' @ ec_name c) (Try (fst played) #
        (case snd played of
           Inr r \<Rightarrow> record_adapter_response (wd_dumps wd) (wd_router wd) (wd_prices wd) (ex_sandbox ex) ad
             (emits_spans (fst played)) req r
         | Inl (AdapterError retryable after) \<Rightarrow>
             [Add ''adapter_error'' (ErrorMark ''AdapterError'' no_text False), SetState TraceState.ERRORED (Some no_text)]
         | Inl e \<Rightarrow> [Raise e]))]"

definition is_adapter_error :: "'a result \<Rightarrow> bool" where
  "is_adapter_error r = (case r of Inl (AdapterError _ _) \<Rightarrow> True | _ \<Rightarrow> False)"

definition run_single ::
    "World \<Rightarrow> RepEnv \<Rightarrow> EvalCase \<Rightarrow> RunInfo \<Rightarrow> AgentSnapshotRef \<Rightarrow> json dict \<Rightarrow> json dict option \<Rightarrow>
       (Executor, RepetitionResult) exec" where
  "run_single wd env c run ref overrides input_override ex =
     bind_exec (adapter_for wd overrides) (\<lambda>ad.
     bind_exec (lift_result (make_TraceRecorder (ex_workspace_id ex) run ref (ex_framework_version ex) (ex_runtime ex)
        (ex_sandbox ex) (re_started env))) (\<lambda>rec.
     let req = make_request wd ex c overrides input_override; played = wd_invoke wd ad run req
     in case record_block (re_sources env) (re_ended env) (repetition_script wd ex ad c req played) rec of
          (Inl e, _) \<Rightarrow> raise_exec e
        | (Inr _, r) \<Rightarrow> bind_exec (lift_result (build_trace (re_trace_id env) (re_built env) r)) (\<lambda>t.
            return_exec \<lparr>rr_repetition = ri_repetition run, rr_trace = t,
              rr_response = (case snd played of Inr rsp \<Rightarrow> Some rsp | Inl _ \<Rightarrow> None),
              rr_error = (if is_adapter_error (snd played) then Some no_text else None)\<rparr>))) ex"

record RunContext =
  cx_experiment_id :: "string option"
  cx_iteration :: "nat option"
  cx_variant_id :: "string option"

definition run_info_for :: "RunContext \<Rightarrow> string \<Rightarrow> EvalCase \<Rightarrow> nat \<Rightarrow> RunInfo" where
  "run_info_for cx run_id c rep = \<lparr>ri_run_id = run_id, ri_experiment_id = cx_experiment_id cx,
     ri_iteration = cx_iteration cx, ri_variant_id = cx_variant_id cx, ri_eval_case_id = Some (ent_id c),
     ri_repetition = rep, ri_seed = None, ri_thread_id = None, ri_thread_position = None\<rparr>"

fun for_reps :: "(nat \<Rightarrow> ('s, 'a) exec) \<Rightarrow> nat list \<Rightarrow> ('s, 'a list) exec" where
  "for_reps step [] = return_exec []"
| "for_reps step (i # is) = bind_exec (step i) (\<lambda>x. bind_exec (for_reps step is) (\<lambda>xs. return_exec (x # xs)))"

definition run_case ::
    "World \<Rightarrow> (nat \<Rightarrow> RepEnv) \<Rightarrow> RunContext \<Rightarrow> EvalCase \<Rightarrow> int \<Rightarrow> json dict \<Rightarrow> (Executor, CaseRun) exec" where
  "run_case wd envs cx c repetitions overrides =
     (if repetitions < 1 then raise_exec ValueError
      else bind_exec (agent_ref wd overrides) (\<lambda>ref.
           bind_exec (for_reps (\<lambda>rep. run_single wd (envs rep) c (run_info_for cx (re_run_id (envs rep)) c rep) ref
             overrides None) [0..<nat repetitions]) (\<lambda>results.
           return_exec \<lparr>cn_case_id = ent_id c, cn_repetitions = results, cn_simulator_cost_usd = 0,
             cn_simulator_turns = 0\<rparr>)))"

end
