(* ===== verification/Executor_Facts.thy ===== *)
theory Executor_Facts
  imports Executor
begin

section \<open>What the executor guarantees\<close>

text \<open>
  A script that never raises records exactly what it says: the model calls and tool calls of the
  trace are those of the script, in the order they end.  With it a repetition is followed from the
  adapter's response to the trace: one model call with the tokens and the cost of the response, one
  tool call for each tool use, every tool use linked.
\<close>

subsection \<open>Scripts that never raise\<close>

primrec clean :: "Act \<Rightarrow> bool" where
  "clean (AgentTurn nm acts) = list_all id (map clean acts)"
| "clean (LLMCall nm b acts) = list_all id (map clean acts)"
| "clean (ToolCall nm b acts) = list_all id (map clean acts)"
| "clean (Stt nm b acts) = list_all id (map clean acts)"
| "clean (Tts nm b acts) = list_all id (map clean acts)"
| "clean (Add nm k) = (nm \<noteq> [] \<and> kind_fields_ok (build_instant_span [] None nm 0 k))"
| "clean (SetOutputs out) = True"
| "clean (AddLink l) = True"
| "clean (AddGraderResult g) = True"
| "clean (SetState st err) = True"
| "clean (Raise e) = False"
| "clean (Try acts) = list_all id (map clean acts)"

text \<open>The builders of a script in the order their blocks end.\<close>

primrec llm_builders :: "Act \<Rightarrow> LLMSpanBuilder list" where
  "llm_builders (AgentTurn nm acts) = concat (map llm_builders acts)"
| "llm_builders (LLMCall nm b acts) = concat (map llm_builders acts) @ [b]"
| "llm_builders (ToolCall nm b acts) = concat (map llm_builders acts)"
| "llm_builders (Stt nm b acts) = concat (map llm_builders acts)"
| "llm_builders (Tts nm b acts) = concat (map llm_builders acts)"
| "llm_builders (Add nm k) = []"
| "llm_builders (SetOutputs out) = []"
| "llm_builders (AddLink l) = []"
| "llm_builders (AddGraderResult g) = []"
| "llm_builders (SetState st err) = []"
| "llm_builders (Raise e) = []"
| "llm_builders (Try acts) = concat (map llm_builders acts)"

primrec tool_builders :: "Act \<Rightarrow> ToolSpanBuilder list" where
  "tool_builders (AgentTurn nm acts) = concat (map tool_builders acts)"
| "tool_builders (LLMCall nm b acts) = concat (map tool_builders acts)"
| "tool_builders (ToolCall nm b acts) = concat (map tool_builders acts) @ [b]"
| "tool_builders (Stt nm b acts) = concat (map tool_builders acts)"
| "tool_builders (Tts nm b acts) = concat (map tool_builders acts)"
| "tool_builders (Add nm k) = []"
| "tool_builders (SetOutputs out) = []"
| "tool_builders (AddLink l) = []"
| "tool_builders (AddGraderResult g) = []"
| "tool_builders (SetState st err) = []"
| "tool_builders (Raise e) = []"
| "tool_builders (Try acts) = concat (map tool_builders acts)"

definition llm_view :: "LLMCallSpan \<Rightarrow> LLMOutput \<times> TokenBreakdown \<times> CostBreakdown \<times> nat" where
  "llm_view c = (lc_output c, lc_tokens c, lc_cost_usd c, lc_retries c)"

definition llm_builder_view :: "LLMSpanBuilder \<Rightarrow> LLMOutput \<times> TokenBreakdown \<times> CostBreakdown \<times> nat" where
  "llm_builder_view b = (lb_output b, lb_tokens b, lb_cost b, lb_retries b)"

definition tool_view :: "ToolCallSpan \<Rightarrow> string \<times> string option \<times> ToolCallStatus \<times> bool" where
  "tool_view c = (tc_tool_name c, tc_tool_use_id c, tc_status c, tc_sandboxed c)"

definition tool_builder_view :: "ToolSpanBuilder \<Rightarrow> string \<times> string option \<times> ToolCallStatus \<times> bool" where
  "tool_builder_view b = (tlb_tool_name b, tlb_tool_use_id b, tlb_status b, tlb_sandboxed b)"

definition tool_spans_of :: "Span list \<Rightarrow> ToolCallSpan list" where
  "tool_spans_of ss = List.map_filter as_tool_call ss"

definition records ::
    "Recorder \<Rightarrow> Recorder \<Rightarrow> LLMSpanBuilder list \<Rightarrow> ToolSpanBuilder list \<Rightarrow> bool" where
  "records r r' ls ts \<longleftrightarrow> rc_open_parents r' = rc_open_parents r \<and> (\<exists>ss. rc_spans r' = rc_spans r @ ss \<and>
     map llm_view (llm_spans_of ss) = map llm_builder_view ls \<and>
     map tool_view (tool_spans_of ss) = map tool_builder_view ts)"

lemma spans_of_simps [simp]:
  "llm_spans_of [] = []" "tool_spans_of [] = []"
  "llm_spans_of (xs @ ys) = llm_spans_of xs @ llm_spans_of ys" "tool_spans_of (xs @ ys) = tool_spans_of xs @ tool_spans_of ys"
  by (simp_all add: llm_spans_of_def tool_spans_of_def map_filter_append map_filter_simps)

lemma records_refl: "rc_spans r' = rc_spans r \<Longrightarrow> rc_open_parents r' = rc_open_parents r \<Longrightarrow> records r r' [] []"
  by (auto simp: records_def intro!: exI [of _ "[]"])

lemma records_trans: "records r1 r2 ls ts \<Longrightarrow> records r2 r3 ms us \<Longrightarrow> records r1 r3 (ls @ ms) (ts @ us)"
  unfolding records_def by (metis (no_types, opaque_lifting) append.assoc map_append spans_of_simps(3,4))

lemma with_span_records:
  assumes "sources_ok src" "[] \<notin> set (rc_open_parents r)" "acc \<in> {count_nothing, count_tool, count_llm}"
    and fields: "\<And>i p t d b. i \<noteq> [] \<Longrightarrow> p \<noteq> Some [] \<Longrightarrow> span_fields_ok (mk i p t d b)"
    and block: "\<And>r. [] \<notin> set (rc_open_parents r) \<Longrightarrow> \<exists>r'. block r = (Inr (), r') \<and> records r r' ls ts"
    and view: "\<And>i p t d. map llm_view (llm_spans_of [mk i p t d False]) = map llm_builder_view ms \<and>
      map tool_view (tool_spans_of [mk i p t d False]) = map tool_builder_view us"
  shows "\<exists>r'. with_span src mk acc block r = (Inr (), r') \<and> records r r' (ls @ ms) (ts @ us)"
proof -
  let ?i = "src_span_id src (rc_asked r)"
  let ?in = "r\<lparr>rc_asked := rc_asked r + 1, rc_open_parents := ?i # rc_open_parents r\<rparr>"
  have i: "?i \<noteq> []" using assms(1) by (simp add: sources_ok_def)
  obtain r1 where r1: "block ?in = (Inr (), r1)" "records ?in r1 ls ts" using block [of ?in] i assms(2) by auto
  let ?r2 = "r1\<lparr>rc_open_parents := tl (rc_open_parents r1)\<rparr>"
  let ?s = "mk ?i (current_parent r) (src_now src (rc_asked r)) (src_elapsed_ms src (rc_asked r) (rc_asked ?r2)) False"
  have run: "with_span src mk acc block r = (Inr (), acc ?s (record_span ?s ?r2))"
    using r1(1) fields [OF i open_nonempty [OF assms(2)]] by (simp add: with_span_def Let_def)
  have a: "rc_spans (acc s x) = rc_spans x" "rc_open_parents (acc s x) = rc_open_parents x" for s x
    using assms(3) count_fields by auto
  from r1(2) obtain ss where ss: "rc_open_parents r1 = ?i # rc_open_parents r" "rc_spans r1 = rc_spans r @ ss"
    "map llm_view (llm_spans_of ss) = map llm_builder_view ls" "map tool_view (tool_spans_of ss) = map tool_builder_view ts"
    by (auto simp: records_def)
  have "map llm_view (llm_spans_of (ss @ [?s])) = map llm_builder_view (ls @ ms)"
    "map tool_view (tool_spans_of (ss @ [?s])) = map tool_builder_view (ts @ us)"
    unfolding spans_of_simps map_append using ss(3,4) view by simp_all
  with ss(1,2) have "records r (acc ?s (record_span ?s ?r2)) (ls @ ms) (ts @ us)"
    unfolding records_def a by (intro conjI exI [of _ "ss @ [?s]"]) simp_all
  with run show ?thesis by blast
qed

lemma view_simps:
  "llm_spans_of [LLMCallSpan c] = [c]" "tool_spans_of [LLMCallSpan c] = []" "llm_spans_of [ToolCallSpan x] = []"
  "tool_spans_of [ToolCallSpan x] = [x]" "llm_spans_of [AgentTurnSpan y] = []" "tool_spans_of [AgentTurnSpan y] = []"
  "llm_spans_of [SttSpan z] = []" "tool_spans_of [SttSpan z] = []" "llm_spans_of [TtsSpan w] = []" "tool_spans_of [TtsSpan w] = []"
  by (simp_all add: llm_spans_of_def tool_spans_of_def map_filter_simps)

lemma clean_acts: "list_all id (map clean acts) \<longleftrightarrow> list_all clean acts"
  by (simp add: list_all_iff)

lemma run_acts_records:
  shows "sources_ok src \<Longrightarrow> act_ok a \<Longrightarrow> clean a \<Longrightarrow> [] \<notin> set (rc_open_parents r) \<Longrightarrow>
      \<exists>r'. run_act src a r = (Inr (), r') \<and> records r r' (llm_builders a) (tool_builders a)"
    and "sources_ok src \<Longrightarrow> acts_ok as \<Longrightarrow> list_all clean as \<Longrightarrow> [] \<notin> set (rc_open_parents r) \<Longrightarrow>
      \<exists>r'. run_acts src as r = (Inr (), r') \<and> records r r' (concat (map llm_builders as)) (concat (map tool_builders as))"
proof (induction src a and src as arbitrary: r and r rule: run_act_run_acts.induct)
  case (1 src nm acts)
  have "\<exists>r'. run_act src (AgentTurn nm acts) r = (Inr (), r') \<and>
      records r r' (concat (map llm_builders acts) @ []) (concat (map tool_builders acts) @ [])"
    unfolding run_act.simps
    by (rule with_span_records)
      (use 1 in \<open>auto simp: clean_acts span_builds span_fields_ok_def kind_fields_ok_def view_simps\<close>)
  then show ?case by simp
next
  case (2 src nm b acts)
  have f: "kind_fields_ok (LLMCallSpan (build_llm_call_span i p nm t d b))" for i p t d
    using 2 llm_fields by (simp del: list.map)
  have "\<exists>r'. run_act src (LLMCall nm b acts) r = (Inr (), r') \<and>
      records r r' (concat (map llm_builders acts) @ [b]) (concat (map tool_builders acts) @ [])"
    unfolding run_act.simps
    by (rule with_span_records)
      (use 2 f in \<open>auto simp: clean_acts span_fields_ok_def view_simps SpanBase.defs build_llm_call_span_def
         llm_view_def llm_builder_view_def\<close>)
  then show ?case by simp
next
  case (3 src nm b acts)
  have "\<exists>r'. run_act src (ToolCall nm b acts) r = (Inr (), r') \<and>
      records r r' (concat (map llm_builders acts) @ []) (concat (map tool_builders acts) @ [b])"
    unfolding run_act.simps
    by (rule with_span_records)
      (use 3 in \<open>auto simp: clean_acts span_builds span_fields_ok_def kind_fields_ok_def view_simps
         tool_view_def tool_builder_view_def\<close>)
  then show ?case by simp
next
  case (4 src nm b acts)
  have "\<exists>r'. run_act src (Stt nm b acts) r = (Inr (), r') \<and>
      records r r' (concat (map llm_builders acts) @ []) (concat (map tool_builders acts) @ [])"
    unfolding run_act.simps
    by (rule with_span_records)
      (use 4 in \<open>auto simp: clean_acts span_builds span_fields_ok_def kind_fields_ok_def view_simps\<close>)
  then show ?case by simp
next
  case (5 src nm b acts)
  have "\<exists>r'. run_act src (Tts nm b acts) r = (Inr (), r') \<and>
      records r r' (concat (map llm_builders acts) @ []) (concat (map tool_builders acts) @ [])"
    unfolding run_act.simps
    by (rule with_span_records)
      (use 5 in \<open>auto simp: clean_acts span_builds span_fields_ok_def kind_fields_ok_def view_simps\<close>)
  then show ?case by simp
next
  case (6 src nm k)
  let ?s = "build_instant_span (src_span_id src (rc_asked r)) (current_parent r) nm (src_now src (rc_asked r)) k"
  have b: "span_id (span_base ?s) = src_span_id src (rc_asked r)" "span_parent_id (span_base ?s) = current_parent r"
    "span_name (span_base ?s) = nm" "as_llm_call ?s = None" "as_tool_call ?s = None"
    by (simp_all add: build_instant_span_def SpanBase.defs split: Instant.splits)
  have "kind_fields_ok ?s"
    using 6 by (auto simp: build_instant_span_def kind_fields_ok_def split: Instant.splits)
  moreover have "src_span_id src (rc_asked r) \<noteq> []" using 6 by (simp add: sources_ok_def)
  ultimately have "span_fields_ok ?s" using b 6 open_nonempty [of r] by (simp add: span_fields_ok_def)
  then show ?case
    using b by (auto simp: add_instant_def Let_def records_def llm_spans_of_def tool_spans_of_def map_filter_simps)
next
  case (12 src acts)
  then obtain r' where "run_acts src acts r = (Inr (), r')"
    "records r r' (concat (map llm_builders acts)) (concat (map tool_builders acts))"
    by (auto simp: clean_acts)
  then show ?case by simp
next
  case (14 src a as)
  then obtain r1 where a: "run_act src a r = (Inr (), r1)" "records r r1 (llm_builders a) (tool_builders a)" by auto
  have "[] \<notin> set (rc_open_parents r1)" using 14 a(2) by (simp add: records_def)
  then obtain r2 where "run_acts src as r1 = (Inr (), r2)"
    "records r1 r2 (concat (map llm_builders as)) (concat (map tool_builders as))"
    using "14.IH"(2) [of r1] 14 by auto
  with a records_trans show ?case by (fastforce simp: bind_exec_def)
qed (auto intro!: records_refl
    simp: set_outputs_def add_link_def add_grader_result_def set_state_def raise_exec_def return_exec_def)

end
