(* ===== verification/Multiturn.thy ===== *)
theory Multiturn
  imports Executor_Facts Deterministic
begin

section \<open>runner/simulator.py and runner/multiturn.py\<close>

text \<open>
  Conversations: the scripted turns of a case are replayed one by one, each with the history so
  far, and then a simulated user may go on until its cap, its stop condition or its success
  criteria.  The state of a thread is the executor (its cache of adapters), the simulator (its
  counter), the running history and the results so far.  The wrapped adapter of the simulator is a
  function of the request; the prompt it is given is text and is left out.
\<close>

subsection \<open>The simulated user\<close>

record SimulatorSpec =
  ss_persona :: string
  ss_goal :: string
  ss_success_criteria :: "string list"
  ss_stop_condition :: "string option"
  ss_max_turns :: int

definition make_SimulatorSpec ::
    "string \<Rightarrow> string \<Rightarrow> string list \<Rightarrow> string option \<Rightarrow> int \<Rightarrow> SimulatorSpec result" where
  "make_SimulatorSpec persona goal criteria stop cap =
     (if persona = [] then Inl ValueError
      else if goal = [] then Inl ValueError
      else if cap < 1 then Inl ValueError
      else Inr \<lparr>ss_persona = persona, ss_goal = goal, ss_success_criteria = criteria,
        ss_stop_condition = stop, ss_max_turns = cap\<rparr>)"

definition is_success :: "SimulatorSpec \<Rightarrow> string option \<Rightarrow> bool" where
  "is_success sp reply = (case reply of
     None \<Rightarrow> False
   | Some r \<Rightarrow> ss_success_criteria sp \<noteq> [] \<and>
       list_all (\<lambda>c. contains (lower r) (lower c)) (ss_success_criteria sp))"

definition hit_stop_condition :: "SimulatorSpec \<Rightarrow> string option \<Rightarrow> bool" where
  "hit_stop_condition sp reply = (case (ss_stop_condition sp, reply) of
     (Some c, Some r) \<Rightarrow> c \<noteq> [] \<and> contains (lower r) (lower c)
   | _ \<Rightarrow> False)"

text \<open>\<^verbatim>\<open>str(v)\<close>, \<^verbatim>\<open>list(v or [])\<close> and \<^verbatim>\<open>int(v)\<close> on decoded JSON; the text of a value that is not a
  string is never empty and otherwise left open.\<close>

definition as_text :: "json \<Rightarrow> string" where
  "as_text v = (case v of JStr s \<Rightarrow> s | _ \<Rightarrow> ''rendered'')"

definition list_or_empty :: "json \<Rightarrow> string list result" where
  "list_or_empty v =
     (if \<not> py_truthy v then Inr []
      else case v of
        JList xs \<Rightarrow> Inr (map as_text xs)
      | JStr s \<Rightarrow> Inr (map (\<lambda>c. [c]) s)
      | JObj d \<Rightarrow> Inr (dict_keys d)
      | _ \<Rightarrow> Inl TypeError)"

definition int_of_json :: "json \<Rightarrow> int result" where
  "int_of_json v = (case v of
     JInt i \<Rightarrow> Inr i
   | JBool b \<Rightarrow> Inr (if b then 1 else 0)
   | JFloat q \<Rightarrow> Inr (if 0 \<le> q then \<lfloor>q\<rfloor> else \<lceil>q\<rceil>)
   | JStr s \<Rightarrow> (case parse_int s of None \<Rightarrow> Inl ValueError | Some i \<Rightarrow> Inr i)
   | _ \<Rightarrow> Inl TypeError)"

definition simulator_spec_from_dict :: "json \<Rightarrow> SimulatorSpec result" where
  "simulator_spec_from_dict j = (case as_dict j of
     None \<Rightarrow> Inl ValueError
   | Some d \<Rightarrow>
       (case (map_of d ''persona'', map_of d ''goal'') of
          (Some p, Some g) \<Rightarrow>
            bind_result (list_or_empty (dict_get d ''success_criteria'' JNull)) (\<lambda>cs.
            bind_result (int_of_json (dict_get d ''max_turns'' (JInt 8))) (\<lambda>n.
              make_SimulatorSpec (as_text p) (as_text g) cs
                (case dict_get d ''stop_condition'' JNull of JNull \<Rightarrow> None | v \<Rightarrow> Some (as_text v)) n))
        | _ \<Rightarrow> Inl ValueError))"

type_synonym invoker = "AdapterRequest \<Rightarrow> AdapterResponse result"

record UserSimulator =
  us_spec :: SimulatorSpec
  us_scripted :: "string list"
  us_judge :: "invoker option"
  us_turns_emitted :: nat

definition make_UserSimulator ::
    "SimulatorSpec \<Rightarrow> string list option \<Rightarrow> invoker option \<Rightarrow> UserSimulator result" where
  "make_UserSimulator sp replies judge =
     (if replies = None \<and> judge = None then Inl ValueError
      else Inr \<lparr>us_spec = sp, us_scripted = (case replies of None \<Rightarrow> [] | Some rs \<Rightarrow> rs), us_judge = judge,
        us_turns_emitted = 0\<rparr>)"

definition reset :: "UserSimulator \<Rightarrow> UserSimulator" where
  "reset u = u\<lparr>us_turns_emitted := 0\<rparr>"

definition plain_response :: "string \<Rightarrow> string \<Rightarrow> string \<Rightarrow> AdapterResponse" where
  "plain_response content k v = \<lparr>rsp_content = Some content, rsp_structured_output = None, rsp_tool_uses = [],
     rsp_stop_reason = Some ''end_turn'', rsp_tokens_input = 0, rsp_tokens_output = 0, rsp_tokens_reasoning = 0,
     rsp_tokens_cache_read = 0, rsp_tokens_cache_creation = 0, rsp_cost_usd = 0,
     rsp_provider_metadata = [(''role_tag'', JStr ''user_simulator''), (k, JStr v)]\<rparr>"

definition build_judge_request :: "SimulatorSpec \<Rightarrow> AdapterRequest \<Rightarrow> json list \<Rightarrow> AdapterRequest" where
  "build_judge_request sp req history = \<lparr>rq_workspace_id = rq_workspace_id req, rq_case_id = rq_case_id req,
     rq_input = [(''system_prompt'', JStr no_text), (''messages'', JList history)], rq_context = None,
     rq_tools_allowed = [], rq_parameters = [], rq_metadata = [(''role_tag'', JStr ''user_simulator'')],
     rq_otlp_endpoint = None\<rparr>"

definition judge_turn :: "AdapterResponse \<Rightarrow> AdapterResponse" where
  "judge_turn r = (plain_response (strip (case rsp_content r of None \<Rightarrow> [] | Some s \<Rightarrow> s)) ''source'' ''judge'')
     \<lparr>rsp_tokens_input := rsp_tokens_input r, rsp_tokens_output := rsp_tokens_output r,
      rsp_tokens_reasoning := rsp_tokens_reasoning r, rsp_tokens_cache_read := rsp_tokens_cache_read r,
      rsp_tokens_cache_creation := rsp_tokens_cache_creation r, rsp_cost_usd := rsp_cost_usd r\<rparr>"

definition simulate :: "AdapterRequest \<Rightarrow> (UserSimulator, AdapterResponse) exec" where
  "simulate req u =
     (if ss_max_turns (us_spec u) \<le> int (us_turns_emitted u)
      then (Inr (plain_response [] ''termination'' ''max_turns''), u)
      else if us_turns_emitted u < length (us_scripted u)
      then (Inr (plain_response (us_scripted u ! us_turns_emitted u) ''source'' ''scripted''),
            u\<lparr>us_turns_emitted := us_turns_emitted u + 1\<rparr>)
      else case us_judge u of
        None \<Rightarrow> (Inr (plain_response [] ''termination'' ''scripted_exhausted''), u)
      | Some judge \<Rightarrow>
          (case judge (build_judge_request (us_spec u) req
              (case dict_get (rq_input req) ''messages'' JNull of JList ms \<Rightarrow> ms | _ \<Rightarrow> [])) of
             Inl e \<Rightarrow> (Inl e, u)
           | Inr r \<Rightarrow> (Inr (judge_turn r), u\<lparr>us_turns_emitted := us_turns_emitted u + 1\<rparr>)))"

text \<open>An answer with content is one more turn, and never beyond the cap.\<close>

lemma simulate_progress:
  assumes "simulate req u = (Inr r, u')" "rsp_content r \<noteq> None" "rsp_content r \<noteq> Some []"
  shows "us_turns_emitted u' = us_turns_emitted u + 1" "int (us_turns_emitted u) < ss_max_turns (us_spec u)"
    "us_spec u' = us_spec u"
  using assms by (auto simp: simulate_def plain_response_def split: if_splits option.splits sum.splits)

lemma simulate_measure:
  assumes "(Inr r, u') = simulate req u" "rsp_content r = Some (ch # chs)"
  shows "nat (ss_max_turns (us_spec u')) - us_turns_emitted u' < nat (ss_max_turns (us_spec u)) - us_turns_emitted u"
  using simulate_progress [OF assms(1) [symmetric]] assms(2) by auto

subsection \<open>Turns of a conversation\<close>

text \<open>A turn is a half-open span of the scripted messages that ends after a user or tool message.\<close>

fun turn_boundaries_from :: "nat \<Rightarrow> nat \<Rightarrow> Message list \<Rightarrow> (nat \<times> nat) list" where
  "turn_boundaries_from start i [] = []"
| "turn_boundaries_from start i (m # ms) =
     (if ms_role m \<in> {MessageRole.USER, MessageRole.TOOL}
      then (start, i + 1) # turn_boundaries_from (i + 1) (i + 1) ms
      else turn_boundaries_from start (i + 1) ms)"

definition turn_boundaries :: "Message list \<Rightarrow> (nat \<times> nat) list" where
  "turn_boundaries ms = turn_boundaries_from 0 0 ms"

definition block_to_json :: "ContentBlock \<Rightarrow> json" where
  "block_to_json b = JObj ((''type'', JStr (Modality_value (bk_type b))) #
     (case bk_text b of None \<Rightarrow> [] | Some t \<Rightarrow> [(''text'', JStr t)]) @ filter (\<lambda>(k, v). v \<noteq> JNull) (bk_extra b))"

definition message_to_json :: "Message \<Rightarrow> json dict" where
  "message_to_json m = [(''role'', JStr (MessageRole_value (ms_role m))),
     (''content'', case ms_content m of TextContent s \<Rightarrow> JStr s | BlockContent bs \<Rightarrow> JList (map block_to_json bs))] @
     (case ms_name m of None \<Rightarrow> [] | Some n \<Rightarrow> [(''name'', JStr n)])"

definition assistant_reply :: "AdapterResponse option \<Rightarrow> json dict" where
  "assistant_reply r = [(''role'', JStr ''assistant''),
     (''content'', JStr (case r of None \<Rightarrow> [] | Some x \<Rightarrow> (case rsp_content x of None \<Rightarrow> [] | Some s \<Rightarrow> s)))]"

definition turn_input :: "EvalCase \<Rightarrow> json dict list \<Rightarrow> json dict" where
  "turn_input c history = AList.update ''messages'' (JList (map JObj history))
     (filter (\<lambda>(k, v). k \<notin> {''messages'', ''simulator''}) (ec_input c))"

text \<open>The text of a message; blocks are joined line by line.\<close>

definition block_text :: "json \<Rightarrow> string option" where
  "block_text b = (case as_dict b of
     None \<Rightarrow> None
   | Some d \<Rightarrow> (case dict_get d ''text'' JNull of JNull \<Rightarrow> None | v \<Rightarrow> Some (as_text v)))"

fun join_lines :: "string list \<Rightarrow> string" where
  "join_lines [] = []"
| "join_lines [s] = s"
| "join_lines (s # ss) = s @ CHR 0x0A # join_lines ss"

definition message_content :: "json dict \<Rightarrow> string option" where
  "message_content m = (case dict_get m ''content'' JNull of
     JStr s \<Rightarrow> Some s
   | JList bs \<Rightarrow> (case List.map_filter block_text bs of [] \<Rightarrow> None | ts \<Rightarrow> Some (join_lines ts))
   | _ \<Rightarrow> None)"

definition last_assistant_content :: "json dict list \<Rightarrow> string option" where
  "last_assistant_content history =
     (case find (\<lambda>m. dict_get m ''role'' JNull = JStr ''assistant'') (rev history) of
        None \<Rightarrow> None
      | Some m \<Rightarrow> message_content m)"

subsection \<open>The thread\<close>

record Thread =
  th_executor :: Executor
  th_history :: "json dict list"
  th_results :: "RepetitionResult list"

text \<open>What does not change in the course of a thread.\<close>

record TurnEnv =
  te_world :: World
  te_case :: EvalCase
  te_ref :: AgentSnapshotRef
  te_overrides :: "json dict"
  te_context :: RunContext
  te_rep :: nat
  te_thread_id :: string
  te_envs :: "nat \<Rightarrow> RepEnv"

definition turn_info :: "TurnEnv \<Rightarrow> nat \<Rightarrow> RunInfo" where
  "turn_info te position = (run_info_for (te_context te) (re_run_id (te_envs te position)) (te_case te) (te_rep te))
     \<lparr>ri_thread_id := Some (te_thread_id te), ri_thread_position := Some position\<rparr>"

definition run_turn :: "TurnEnv \<Rightarrow> nat \<Rightarrow> (Thread, RepetitionResult) exec" where
  "run_turn te position s =
     (case run_single (te_world te) (te_envs te position) (te_case te) (turn_info te position) (te_ref te)
         (te_overrides te) (Some (turn_input (te_case te) (th_history s))) (th_executor s) of
        (Inl e, ex) \<Rightarrow> (Inl e, s\<lparr>th_executor := ex\<rparr>)
      | (Inr r, ex) \<Rightarrow> (Inr r, s\<lparr>th_executor := ex, th_results := th_results s @ [r],
          th_history := (if rr_error r \<noteq> None then th_history s
                         else th_history s @ [assistant_reply (rr_response r)])\<rparr>))"

definition slice :: "nat \<times> nat \<Rightarrow> 'a list \<Rightarrow> 'a list" where
  "slice b xs = take (snd b - fst b) (drop (fst b) xs)"

definition extend_history :: "json dict list \<Rightarrow> (Thread, unit) exec" where
  "extend_history ms s = (Inr (), s\<lparr>th_history := th_history s @ ms\<rparr>)"

fun run_scripted_turns ::
    "TurnEnv \<Rightarrow> Message list \<Rightarrow> nat \<Rightarrow> nat \<times> nat \<Rightarrow> (nat \<times> nat) list \<Rightarrow> (Thread, RepetitionResult) exec" where
  "run_scripted_turns te scripted position b bs =
     bind_exec (extend_history (map message_to_json (slice b scripted))) (\<lambda>_.
     bind_exec (run_turn te position) (\<lambda>r.
       case bs of
         [] \<Rightarrow> return_exec r
       | b' # bs' \<Rightarrow> if rr_error r \<noteq> None then return_exec r
           else run_scripted_turns te scripted (position + 1) b' bs'))"

definition simulator_request :: "TurnEnv \<Rightarrow> Thread \<Rightarrow> AdapterRequest" where
  "simulator_request te s = \<lparr>rq_workspace_id = ex_workspace_id (th_executor s), rq_case_id = ent_id (te_case te),
     rq_input = [(''messages'', JList (map JObj (th_history s)))], rq_context = ec_context (te_case te),
     rq_tools_allowed = [], rq_parameters = [], rq_metadata = [(''role_tag'', JStr ''user_simulator'')],
     rq_otlp_endpoint = None\<rparr>"

definition simulated_message :: "string \<Rightarrow> json dict" where
  "simulated_message content = [(''role'', JStr ''user''), (''content'', JStr content), (''name'', JStr ''simulator'')]"

text \<open>The loop of the simulated user.  It ends because every turn it adds counts towards the cap.\<close>

function run_simulator_phase ::
    "TurnEnv \<Rightarrow> nat \<Rightarrow> rat \<Rightarrow> nat \<Rightarrow> UserSimulator \<Rightarrow> (Thread, UserSimulator \<times> rat \<times> nat) exec" where
  "run_simulator_phase te position cost emitted u s =
     (let last_reply = last_assistant_content (th_history s)
      in if is_success (us_spec u) last_reply \<or> hit_stop_condition (us_spec u) last_reply
         then (Inr (u, cost, emitted), s)
         else case simulate (simulator_request te s) u of
           (Inl (AdapterError retryable after), u') \<Rightarrow> (Inr (u', cost, emitted), s)
         | (Inl e, u') \<Rightarrow> (Inl e, s)
         | (Inr r, u') \<Rightarrow>
             (case rsp_content r of
                None \<Rightarrow> (Inr (u', cost, emitted), s)
              | Some [] \<Rightarrow> (Inr (u', cost, emitted), s)
              | Some (ch # chs) \<Rightarrow>
                  (case run_turn te position (s\<lparr>th_history := th_history s @ [simulated_message (ch # chs)]\<rparr>) of
                     (Inl e, s') \<Rightarrow> (Inl e, s')
                   | (Inr res, s') \<Rightarrow>
                       if rr_error res \<noteq> None then (Inr (u', cost + rsp_cost_usd r, emitted + 1), s')
                       else run_simulator_phase te (position + 1) (cost + rsp_cost_usd r) (emitted + 1) u' s')))"
  by pat_completeness auto
termination
  by (relation "measure (\<lambda>(te, position, cost, emitted, u, s). nat (ss_max_turns (us_spec u)) - us_turns_emitted u)")
    (auto dest: simulate_measure)

declare run_simulator_phase.simps [simp del]

subsection \<open>Running a conversation case\<close>

record CaseLoop =
  cl_executor :: Executor
  cl_simulator :: "UserSimulator option"
  cl_results :: "RepetitionResult list"
  cl_cost :: rat
  cl_turns :: nat

definition thread_env ::
    "World \<Rightarrow> (nat \<Rightarrow> nat \<Rightarrow> RepEnv) \<Rightarrow> (nat \<Rightarrow> string) \<Rightarrow> RunContext \<Rightarrow> EvalCase \<Rightarrow> AgentSnapshotRef \<Rightarrow> json dict \<Rightarrow>
       nat \<Rightarrow> TurnEnv" where
  "thread_env wd envs threads cx c ref overrides rep = \<lparr>te_world = wd, te_case = c, te_ref = ref,
     te_overrides = overrides, te_context = cx, te_rep = rep, te_thread_id = threads rep, te_envs = envs rep\<rparr>"

text \<open>One repetition: the scripted turns, then the simulated user if there is one and nothing failed.\<close>

definition run_thread ::
    "TurnEnv \<Rightarrow> Message list \<Rightarrow> nat \<times> nat \<Rightarrow> (nat \<times> nat) list \<Rightarrow> (CaseLoop, unit) exec" where
  "run_thread te scripted b bs cl =
     (let start = \<lparr>th_executor = cl_executor cl, th_history = [], th_results = cl_results cl\<rparr>;
          sim = map_option reset (cl_simulator cl)
      in case run_scripted_turns te scripted 0 b bs start of
           (Inl e, s) \<Rightarrow> (Inl e, cl\<lparr>cl_executor := th_executor s, cl_simulator := sim, cl_results := th_results s\<rparr>)
         | (Inr last_result, s) \<Rightarrow>
             let cl1 = cl\<lparr>cl_executor := th_executor s, cl_simulator := sim, cl_results := th_results s\<rparr>
             in if rr_error last_result \<noteq> None then (Inr (), cl1)
                else case sim of
                  None \<Rightarrow> (Inr (), cl1)
                | Some u \<Rightarrow>
                    (case run_simulator_phase te (length (b # bs)) 0 0 u s of
                       (Inl e, s') \<Rightarrow> (Inl e, cl1\<lparr>cl_executor := th_executor s', cl_results := th_results s'\<rparr>)
                     | (Inr (u', cost, emitted), s') \<Rightarrow>
                         (Inr (), cl1\<lparr>cl_executor := th_executor s', cl_simulator := Some u', cl_results := th_results s',
                            cl_cost := cl_cost cl1 + cost, cl_turns := cl_turns cl1 + emitted\<rparr>)))"

fun run_threads :: "(nat \<Rightarrow> (CaseLoop, unit) exec) \<Rightarrow> nat list \<Rightarrow> (CaseLoop, unit) exec" where
  "run_threads thread [] = return_exec ()"
| "run_threads thread (rep # reps) = bind_exec (thread rep) (\<lambda>_. run_threads thread reps)"

definition declared_spec_ok :: "EvalCase \<Rightarrow> UserSimulator option \<Rightarrow> unit result" where
  "declared_spec_ok c sim =
     (if sim = None \<and> ''simulator'' \<in> set (dict_keys (ec_input c))
      then bind_result (simulator_spec_from_dict (dict_get (ec_input c) ''simulator'' JNull)) (\<lambda>_. Inr ())
      else Inr ())"

definition run_conversation ::
    "World \<Rightarrow> (nat \<Rightarrow> nat \<Rightarrow> RepEnv) \<Rightarrow> (nat \<Rightarrow> string) \<Rightarrow> RunContext \<Rightarrow> EvalCase \<Rightarrow> int \<Rightarrow> json dict \<Rightarrow>
       UserSimulator option \<Rightarrow> (Executor, CaseRun) exec" where
  "run_conversation wd envs threads cx c repetitions overrides sim ex =
     (if repetitions < 1 then raise_exec ValueError ex
      else if \<not> is_conversation c then raise_exec ValueError ex
      else case conversation c of
        Inl e \<Rightarrow> raise_exec e ex
      | Inr ci \<Rightarrow>
          (case turn_boundaries (ci_messages ci) of
             [] \<Rightarrow> raise_exec ValueError ex
           | b # bs \<Rightarrow>
               bind_exec (lift_result (declared_spec_ok c sim)) (\<lambda>_.
               bind_exec (agent_ref wd []) (\<lambda>ref ex1.
                 case run_threads (\<lambda>rep. run_thread (thread_env wd envs threads cx c ref overrides rep) (ci_messages ci) b bs)
                     [0..<nat repetitions] \<lparr>cl_executor = ex1, cl_simulator = sim, cl_results = [], cl_cost = 0, cl_turns = 0\<rparr>
                 of (Inl e, cl) \<Rightarrow> (Inl e, cl_executor cl)
                  | (Inr _, cl) \<Rightarrow> (Inr \<lparr>cn_case_id = ent_id c, cn_repetitions = cl_results cl,
                      cn_simulator_cost_usd = cl_cost cl, cn_simulator_turns = cl_turns cl\<rparr>, cl_executor cl))) ex))"

end
