(* ===== verification/Executor_Properties.thy ===== *)
theory Executor_Properties
  imports Executor_Facts Samples
begin

section \<open>What a repetition records\<close>

text \<open>
  A repetition whose adapter answers is one completed trace with one model call and one tool call
  per tool use; a repetition whose adapter fails is one errored trace and no exception; an agent
  that emits its own spans is not counted a second time.  The repetitions of a case come back in
  order.
\<close>

subsection \<open>Answers that can be written\<close>

definition named :: "ModelRef option \<Rightarrow> bool" where
  "named m = (case m of None \<Rightarrow> True | Some x \<Rightarrow> mdl_provider x \<noteq> [] \<and> mdl_name x \<noteq> [])"

definition answer_ok :: "World \<Rightarrow> Adapter \<Rightarrow> AdapterRequest \<Rightarrow> AdapterResponse \<Rightarrow> bool" where
  "answer_ok wd ad req r \<longleftrightarrow> named (ad_model ad) \<and> named (map_option agt_model (ad_agent ad)) \<and>
     [] \<notin> set (rq_tools_allowed req) \<and> tool_uses_ok r \<and> 0 \<le> rsp_cost_usd r \<and>
     list_all (\<lambda>(k, p). sane_pricing p) (wd_prices wd) \<and>
     (case extract_system_prompt req of Inl _ \<Rightarrow> False | Inr _ \<Rightarrow> True)"

text \<open>The cost written on the span: what the adapter reports, or the estimate of the price table.\<close>

definition written_cost :: "World \<Rightarrow> Adapter \<Rightarrow> AdapterResponse \<Rightarrow> CostBreakdown" where
  "written_cost wd ad r = (case cost_for (wd_prices wd) ad r of None \<Rightarrow> zero_cost | Some c \<Rightarrow> c)"

lemma str_or_none_nonempty: "str_or_none j \<noteq> Some []"
  by (auto simp: str_or_none_def strip_def split: json.splits)

lemma first_name_nonempty: "Some [] \<notin> set xs \<Longrightarrow> first_name xs \<noteq> []"
  by (induction xs) (auto simp: first_name_def map_filter_simps split: option.splits list.splits)

lemma cost_for_nonneg:
  assumes "0 \<le> rsp_cost_usd r" "list_all (\<lambda>(k, p). sane_pricing p) prices" "cost_for prices ad r = Some c"
  shows "0 \<le> cb_total c"
proof -
  have "valid_CostBreakdown x" if "estimate_cost prices pr nm t False = Some x" for pr nm t x
    using that assms(2)
    by (auto simp: estimate_cost_def lookup_price_def list_all_iff intro!: price_call_valid dest!: map_of_SomeD)
  then show ?thesis using assms(1,3)
    by (fastforce simp: cost_for_def valid_CostBreakdown_def split: if_splits option.splits)
qed

lemma optional_float_nonneg: "optional_float j = Some q \<Longrightarrow> 0 \<le> q"
  by (auto simp: optional_float_def split: json.splits if_splits)

lemma set_fields [simp]:
  "lb_provider (set_output st p h i q b) = lb_provider b" "lb_model (set_output st p h i q b) = lb_model b"
  "lb_tokens (set_output st p h i q b) = lb_tokens b" "lb_cost (set_output st p h i q b) = lb_cost b"
  "lb_retries (set_output st p h i q b) = lb_retries b" "lb_tools_offered (set_output st p h i q b) = lb_tools_offered b"
  "lo_tool_use_requested (lb_output (set_output st p h i q b)) = q"
  "lb_tokens_per_second (set_output st p h i q b) = lb_tokens_per_second b"
  "lb_provider (set_timing f g b) = lb_provider b" "lb_model (set_timing f g b) = lb_model b"
  "lb_tokens (set_timing f g b) = lb_tokens b" "lb_cost (set_timing f g b) = lb_cost b"
  "lb_retries (set_timing f g b) = lb_retries b" "lb_tools_offered (set_timing f g b) = lb_tools_offered b"
  "lb_output (set_timing f g b) = lb_output b"
  "lb_tokens_per_second (set_timing f g b) = (if g = None then lb_tokens_per_second b else g)"
  "lb_provider (set_cost c b) = lb_provider b" "lb_model (set_cost c b) = lb_model b"
  "lb_tokens (set_cost c b) = lb_tokens b" "lb_cost (set_cost c b) = (case c of None \<Rightarrow> lb_cost b | Some x \<Rightarrow> x)"
  "lb_retries (set_cost c b) = lb_retries b" "lb_tools_offered (set_cost c b) = lb_tools_offered b"
  "lb_output (set_cost c b) = lb_output b" "lb_tokens_per_second (set_cost c b) = lb_tokens_per_second b"
  by (simp_all add: set_output_def set_timing_def set_cost_def split: option.splits)

lemma stage_fields:
  "lb_provider (llm_stage2 dumps router p req b) = lb_provider b" "lb_model (llm_stage2 dumps router p req b) = lb_model b"
  "lb_tokens (llm_stage2 dumps router p req b) = lb_tokens b" "lb_cost (llm_stage2 dumps router p req b) = lb_cost b"
  "lb_retries (llm_stage2 dumps router p req b) = lb_retries b"
  "lb_tools_offered (llm_stage2 dumps router p req b) = rq_tools_allowed req"
  "lb_tokens_per_second (llm_stage2 dumps router p req b) = lb_tokens_per_second b"
  "lb_provider (llm_stage3 dumps router prices ad r b) = lb_provider b"
  "lb_model (llm_stage3 dumps router prices ad r b) = lb_model b"
  "lb_tokens (llm_stage3 dumps router prices ad r b) = lb_tokens b"
  "lb_cost (llm_stage3 dumps router prices ad r b) = (case cost_for prices ad r of None \<Rightarrow> lb_cost b | Some x \<Rightarrow> x)"
  "lb_retries (llm_stage3 dumps router prices ad r b) = lb_retries b"
  "lb_tools_offered (llm_stage3 dumps router prices ad r b) = lb_tools_offered b"
  "lo_tool_use_requested (lb_output (llm_stage3 dumps router prices ad r b)) =
     map (\<lambda>tu. \<lparr>tur_tool = atu_tool tu, tur_tool_use_id = atu_tool_use_id tu\<rparr>) (rsp_tool_uses r)"
  "lb_tokens_per_second (llm_stage3 dumps router prices ad r b) =
     (case optional_float (dict_get (rsp_provider_metadata r) ''tokens_per_second'' JNull) of
        None \<Rightarrow> lb_tokens_per_second b | Some x \<Rightarrow> Some x)"
  by (simp_all add: llm_stage2_def llm_stage3_def split: option.splits prod.splits)

lemma stage1_fields:
  assumes "named (ad_model ad)" "named (map_option agt_model (ad_agent ad))"
  shows "lb_provider (llm_stage1 dumps router ad r req) \<noteq> []" "lb_model (llm_stage1 dumps router ad r req) \<noteq> []"
    and "lb_tokens (llm_stage1 dumps router ad r req) = response_tokens r"
    and "lb_cost (llm_stage1 dumps router ad r req) = zero_cost" "lb_retries (llm_stage1 dumps router ad r req) = 0"
    and "lb_tokens_per_second (llm_stage1 dumps router ad r req) = None"
proof -
  note defs = llm_stage1_def new_LLMSpanBuilder_def Let_def
  have "Some [] \<notin> set [str_or_none j, map_option mdl_provider (ad_model ad), map_option mdl_provider (map_option agt_model (ad_agent ad))]"
    "Some [] \<notin> set [str_or_none j, map_option mdl_name (ad_model ad), map_option mdl_name (map_option agt_model (ad_agent ad))]" for j
    using assms str_or_none_nonempty [of j] by (auto simp: named_def split: option.splits)
  from this [THEN first_name_nonempty]
  show "lb_provider (llm_stage1 dumps router ad r req) \<noteq> []" "lb_model (llm_stage1 dumps router ad r req) \<noteq> []"
    by (simp_all add: defs)
qed (simp_all add: llm_stage1_def new_LLMSpanBuilder_def Let_def)

lemma answer_script:
  assumes "answer_ok wd ad req r"
  obtains b where
    "record_adapter_response dumps router (wd_prices wd) mode ad False req r =
       LLMCall ''adapter_response'' b [] # outputs_acts r @ write_tool_spans dumps router mode r"
    "lb_tokens b = response_tokens r" "lb_cost b = written_cost wd ad r" "lb_retries b = 0"
    "map tur_tool_use_id (lo_tool_use_requested (lb_output b)) = map atu_tool_use_id (rsp_tool_uses r)"
    "act_ok (LLMCall ''adapter_response'' b [])"
proof -
  obtain p where p: "extract_system_prompt req = Inr p" using assms by (auto simp: answer_ok_def split: sum.splits)
  define b1 where "b1 = llm_stage1 dumps router ad r req"
  define b where "b = llm_stage3 dumps router (wd_prices wd) ad r (llm_stage2 dumps router p req b1)"
  have named: "named (ad_model ad)" "named (map_option agt_model (ad_agent ad))" using assms by (simp_all add: answer_ok_def)
  note one = stage1_fields [OF named, of dumps router r req, folded b1_def]
  have fields: "lb_tokens b = response_tokens r" "lb_cost b = written_cost wd ad r" "lb_retries b = 0"
    "map tur_tool_use_id (lo_tool_use_requested (lb_output b)) = map atu_tool_use_id (rsp_tool_uses r)"
    "lb_tools_offered b = rq_tools_allowed req" "lb_provider b \<noteq> []" "lb_model b \<noteq> []"
    "lb_tokens_per_second b = optional_float (dict_get (rsp_provider_metadata r) ''tokens_per_second'' JNull)"
    by (simp_all add: b_def stage_fields one written_cost_def split: option.splits)
  have "0 \<le> cb_total (lb_cost b)"
    using assms cost_for_nonneg [of r "wd_prices wd" ad]
    by (auto simp: fields written_cost_def answer_ok_def zero_cost_def split: option.splits)
  moreover have "kind_fields_ok (LLMCallSpan (build_llm_call_span [] None nm 0 0 b))" for nm
    using assms optional_float_nonneg
    by (auto simp: kind_fields_ok_def build_llm_call_span_def fields answer_ok_def list_all_iff split: option.splits)
  ultimately have ok: "act_ok (LLMCall ''adapter_response'' b [])" by simp
  have "record_adapter_response dumps router (wd_prices wd) mode ad False req r =
      LLMCall ''adapter_response'' b [] # outputs_acts r @ write_tool_spans dumps router mode r"
    using assms p by (simp add: record_adapter_response_def answer_ok_def Let_def b_def b1_def)
  then show thesis using that fields(1-4) ok by blast
qed

lemma acts_ok_append: "acts_ok (xs @ ys) \<longleftrightarrow> acts_ok xs \<and> acts_ok ys"
  by (simp add: acts_ok_def)

lemma write_tool_spans_facts:
  assumes "tool_uses_ok r"
  shows "acts_ok (outputs_acts r @ write_tool_spans dumps router mode r)"
    and "list_all clean (outputs_acts r @ write_tool_spans dumps router mode r)"
    and "concat (map llm_builders (outputs_acts r @ write_tool_spans dumps router mode r)) = []"
    and "concat (map tool_builders (outputs_acts r @ write_tool_spans dumps router mode r)) =
      map (tool_builder dumps router mode) (rsp_tool_uses r)"
    and "\<not> list_ex sets_state (outputs_acts r @ write_tool_spans dumps router mode r)"
  using assms
  by (auto simp: acts_ok_def outputs_acts_def write_tool_spans_def tool_uses_ok_def list_all_iff list_ex_iff
      tool_builder_def Let_def o_def split: option.splits)

subsection \<open>One repetition\<close>

lemma with_span_state:
  assumes "with_span src mk acc block r = (Inr (), r')" "acc \<in> {count_nothing, count_tool, count_llm}"
  obtains r0 r1 where "block r0 = (Inr (), r1)" "rc_final_state r' = rc_final_state r1"
proof -
  let ?in = "r\<lparr>rc_asked := rc_asked r + 1, rc_open_parents := src_span_id src (rc_asked r) # rc_open_parents r\<rparr>"
  obtain res1 r1 where b: "block ?in = (res1, r1)" by (cases "block ?in")
  with assms have "res1 = Inr ()" "rc_final_state r' = rc_final_state r1"
    by (auto simp: with_span_def Let_def record_span_def count_nothing_def count_tool_def count_llm_def
        split: if_splits option.splits)
  with b that show thesis by blast
qed

lemma state_set_last: "run_acts src (acts @ [SetState st e]) r = (Inr (), r') \<Longrightarrow> rc_final_state r' = Some \<lparr>fs_status = st, fs_error = e\<rparr>"
proof (induction acts arbitrary: r)
  case Nil
  then show ?case by (auto simp: bind_exec_def return_exec_def set_state_def)
next
  case (Cons a acts)
  then show ?case by (auto simp: bind_exec_def split: prod.splits sum.splits)
qed

text \<open>A script of one case turn that never raises, up to the trace that is built from it.\<close>

lemma clean_repetition:
  assumes src: "sources_ok src" "acts_ok acts" "list_all clean acts" and r0: "make_TraceRecorder ws run ref fw rt sb started = Inr r0"
    and "started \<le> ended"
  obtains r t r1 where "record_block src ended acts r0 = (Inr (), r)"
    "build_trace fresh built r = (if tool_use_ids_linked t then Inr t else Inl ValueError)"
    "map llm_view (llm_spans_of (tr_spans t)) = map llm_builder_view (concat (map llm_builders acts))"
    "map tool_view (tool_spans_of (tr_spans t)) = map tool_builder_view (concat (map tool_builders acts))"
    "tr_run t = run" "Some (tr_final_state t) = rc_final_state r" "run_acts src acts r0 = (Inr (), r1)"
    "(tm_llm_call_count (tr_metrics t), tm_tool_call_count (tr_metrics t), tm_total_tokens_in (tr_metrics t),
      tm_total_tokens_out (tr_metrics t), tm_retries (tr_metrics t), tm_total_cost_usd (tr_metrics t)) = totals_of (tr_spans t)"
    "rc_final_state r = (case rc_final_state r1 of Some f \<Rightarrow> Some f
       | None \<Rightarrow> Some \<lparr>fs_status = TraceState.COMPLETED, fs_error = None\<rparr>)"
proof -
  have r0': "rc_open_parents r0 = []" "rc_spans r0 = []"
    using r0 by (auto simp: make_TraceRecorder_def split: if_splits)
  obtain r1 where r1: "run_acts src acts r0 = (Inr (), r1)"
    "records r0 r1 (concat (map llm_builders acts)) (concat (map tool_builders acts))"
    using run_acts_records(2) [OF src, of r0] r0' by auto
  define r where "r = exit_recorder ended False r1"
  have b: "record_block src ended acts r0 = (Inr (), r)" by (simp add: record_block_def r1 r_def)
  obtain t where t: "build_trace fresh built r = (if tool_use_ids_linked t then Inr t else Inl ValueError)"
    "tr_spans t = rc_spans r" "tr_run t = run" "Some (tr_final_state t) = rc_final_state r"
    "(tm_llm_call_count (tr_metrics t), tm_tool_call_count (tr_metrics t), tm_total_tokens_in (tr_metrics t),
      tm_total_tokens_out (tr_metrics t), tm_retries (tr_metrics t), tm_total_cost_usd (tr_metrics t)) = totals_of (tr_spans t)"
    using build_trace_recorded [OF src(1,2) r0 b assms(5), of fresh built] by auto
  show thesis
    by (rule that [OF b t(1) _ _ t(3,4) r1(1) t(5)])
      (use r1(2) r0'(2) in \<open>auto simp: t(2) r_def records_def exit_recorder_state\<close>)
qed

lemma run_single_clean:
  assumes "adapter_for wd overrides ex = (Inr ad, ex')" "wd_invoke wd ad run (make_request wd ex c overrides inp) = played"
    and "make_TraceRecorder (ex_workspace_id ex) run ref (ex_framework_version ex) (ex_runtime ex) (ex_sandbox ex)
      (re_started env) = Inr r0"
    and "record_block (re_sources env) (re_ended env)
      (repetition_script wd ex ad c (make_request wd ex c overrides inp) played) r0 = (Inr (), r)"
  shows "run_single wd env c run ref overrides inp ex = (bind_result (build_trace (re_trace_id env) (re_built env) r) (\<lambda>t.
    Inr \<lparr>rr_repetition = ri_repetition run, rr_trace = t,
      rr_response = (case snd played of Inr rsp \<Rightarrow> Some rsp | Inl _ \<Rightarrow> None),
      rr_error = (if is_adapter_error (snd played) then Some no_text else None)\<rparr>), ex')"
  using assms
  by (cases "build_trace (re_trace_id env) (re_built env) r")
    (simp_all add: run_single_def bind_exec_def lift_result_def return_exec_def Let_def)

lemma linked_tools:
  assumes "llm_spans_of (tr_spans t) = [m]" "map tur_tool_use_id (lo_tool_use_requested (lc_output m)) = map atu_tool_use_id tus"
    and "map tool_view (tool_spans_of (tr_spans t)) = map tool_builder_view (map (tool_builder dumps router mode) tus)"
  shows "tool_use_ids_linked t"
proof -
  have req: "set (requested_tool_use_ids (tr_spans t)) = set (map atu_tool_use_id tus)"
    using assms(1,2) by (auto simp: requested_tool_use_ids_def llm_spans_of_def)
  have "map (fst \<circ> snd) (map tool_view (tool_spans_of (tr_spans t))) = map (Some \<circ> atu_tool_use_id) tus"
    unfolding assms(3) by (simp add: tool_builder_view_def tool_builder_def Let_def)
  then have "map tc_tool_use_id (tool_spans_of (tr_spans t)) = map (Some \<circ> atu_tool_use_id) tus"
    by (simp add: tool_view_def o_def)
  then have "set (map tc_tool_use_id (tool_spans_of (tr_spans t))) = Some ` set (map atu_tool_use_id tus)"
    by (simp add: image_comp flip: set_map)
  then have "tc_tool_use_id x \<in> Some ` set (map atu_tool_use_id tus)" if "x \<in> set (tool_spans_of (tr_spans t))" for x
    using that by auto
  then show ?thesis
    by (force simp: tool_use_ids_linked_def list_all_iff req tool_spans_of_def)
qed

definition repetition_env_ok :: "RepEnv \<Rightarrow> bool" where
  "repetition_env_ok env \<longleftrightarrow> sources_ok (re_sources env) \<and> re_started env \<le> re_ended env"

lemma answered_repetition_aux:
  assumes env: "repetition_env_ok env" "ex_workspace_id ex \<noteq> []"
    and ad: "adapter_for wd overrides ex = (Inr ad, ex')"
    and played: "wd_invoke wd ad run (make_request wd ex c overrides inp) = ([], Inr rsp)"
    and ok: "answer_ok wd ad (make_request wd ex c overrides inp) rsp"
  shows "\<exists>t m. run_single wd env c run ref overrides inp ex =
      (Inr \<lparr>rr_repetition = ri_repetition run, rr_trace = t, rr_response = Some rsp, rr_error = None\<rparr>, ex') \<and>
    tr_run t = run \<and> fs_status (tr_final_state t) = TraceState.COMPLETED \<and>
    llm_spans_of (tr_spans t) = [m] \<and> lc_tokens m = response_tokens rsp \<and> lc_cost_usd m = written_cost wd ad rsp \<and>
    map tool_view (tool_spans_of (tr_spans t)) =
      map (\<lambda>tu. (atu_tool tu, Some (atu_tool_use_id tu), tool_status tu, should_mock_tool (ex_sandbox ex) False)) (rsp_tool_uses rsp) \<and>
    tm_llm_call_count (tr_metrics t) = 1 \<and> tm_tool_call_count (tr_metrics t) = length (rsp_tool_uses rsp) \<and>
    tm_total_cost_usd (tr_metrics t) = cb_total (written_cost wd ad rsp)"
proof -
  let ?req = "make_request wd ex c overrides inp"
  obtain b where b: "record_adapter_response (wd_dumps wd) (wd_router wd) (wd_prices wd) (ex_sandbox ex) ad False ?req rsp =
       LLMCall ''adapter_response'' b [] # outputs_acts rsp @ write_tool_spans (wd_dumps wd) (wd_router wd) (ex_sandbox ex) rsp"
    "lb_tokens b = response_tokens rsp" "lb_cost b = written_cost wd ad rsp"
    "map tur_tool_use_id (lo_tool_use_requested (lb_output b)) = map atu_tool_use_id (rsp_tool_uses rsp)"
    "act_ok (LLMCall ''adapter_response'' b [])"
    by (rule answer_script [OF ok])
  define acts where "acts = repetition_script wd ex ad c ?req ([], Inr rsp)"
  let ?rest = "outputs_acts rsp @ write_tool_spans (wd_dumps wd) (wd_router wd) (ex_sandbox ex) rsp"
  have acts: "acts = [AgentTurn (''case:'' @ ec_name c) (Try [] # LLMCall ''adapter_response'' b [] # ?rest)]"
    by (simp add: acts_def repetition_script_def b(1))
  have uses: "tool_uses_ok rsp" using ok by (simp add: answer_ok_def)
  note rest = write_tool_spans_facts [OF uses, of "wd_dumps wd" "wd_router wd" "ex_sandbox ex"]
  have good: "acts_ok acts" "list_all clean acts" "\<not> list_ex sets_state acts"
    using b(5) rest(1,2,5) by (simp_all add: acts clean_acts sets_state_acts acts_ok_append)
  have builders: "concat (map llm_builders acts) = [b]"
    "concat (map tool_builders acts) = map (tool_builder (wd_dumps wd) (wd_router wd) (ex_sandbox ex)) (rsp_tool_uses rsp)"
    using rest(3,4) by (simp_all add: acts)
  obtain r0 where r0: "make_TraceRecorder (ex_workspace_id ex) run ref (ex_framework_version ex) (ex_runtime ex)
      (ex_sandbox ex) (re_started env) = Inr r0"
    using env(2) by (simp add: make_TraceRecorder_def)
  obtain r t r1 where t: "record_block (re_sources env) (re_ended env) acts r0 = (Inr (), r)"
    "build_trace (re_trace_id env) (re_built env) r = (if tool_use_ids_linked t then Inr t else Inl ValueError)"
    "map llm_view (llm_spans_of (tr_spans t)) = map llm_builder_view [b]"
    "map tool_view (tool_spans_of (tr_spans t)) =
       map tool_builder_view (map (tool_builder (wd_dumps wd) (wd_router wd) (ex_sandbox ex)) (rsp_tool_uses rsp))"
    "tr_run t = run" "Some (tr_final_state t) = rc_final_state r"
    "(tm_llm_call_count (tr_metrics t), tm_tool_call_count (tr_metrics t), tm_total_tokens_in (tr_metrics t),
      tm_total_tokens_out (tr_metrics t), tm_retries (tr_metrics t), tm_total_cost_usd (tr_metrics t)) = totals_of (tr_spans t)"
    using clean_repetition [OF _ good(1,2) r0] env(1) unfolding builders repetition_env_ok_def by metis
  obtain m where m: "llm_spans_of (tr_spans t) = [m]" "llm_view m = llm_builder_view b" using t(3) by auto
  have view: "lc_tokens m = response_tokens rsp" "lc_cost_usd m = written_cost wd ad rsp" "lc_output m = lb_output b"
    using m(2) b(2,3) by (auto simp: llm_view_def llm_builder_view_def)
  have "tool_use_ids_linked t"
    using linked_tools [OF m(1) _ t(4)] b(4) view(3) by simp
  moreover have "fs_status (tr_final_state t) = TraceState.COMPLETED"
    using record_block_state [OF r0 good(3) t(1)] t(6) by simp
  moreover have "length (tool_spans_of (tr_spans t)) = length (rsp_tool_uses rsp)"
    using t(4) by (metis length_map)
  moreover have "run_single wd env c run ref overrides inp ex = (bind_result (build_trace (re_trace_id env) (re_built env) r) (\<lambda>t.
      Inr \<lparr>rr_repetition = ri_repetition run, rr_trace = t, rr_response = Some rsp, rr_error = None\<rparr>), ex')"
    using run_single_clean [OF ad played r0, of r] t(1) by (simp add: acts_def is_adapter_error_def)
  ultimately show ?thesis
    using t(2,4,5,7) m(1) view
    by (intro exI [of _ t] exI [of _ m])
      (simp add: totals_of_def tool_spans_of_def tool_builder_view_def tool_builder_def Let_def o_def)
qed

lemma failed_repetition_aux:
  assumes env: "repetition_env_ok env" "ex_workspace_id ex \<noteq> []"
    and ad: "adapter_for wd overrides ex = (Inr ad, ex')"
    and played: "wd_invoke wd ad run (make_request wd ex c overrides inp) = ([], Inl (AdapterError retryable after))"
  shows "\<exists>t. run_single wd env c run ref overrides inp ex =
      (Inr \<lparr>rr_repetition = ri_repetition run, rr_trace = t, rr_response = None, rr_error = Some no_text\<rparr>, ex') \<and>
    tr_run t = run \<and> fs_status (tr_final_state t) = TraceState.ERRORED \<and> llm_spans_of (tr_spans t) = [] \<and>
    tool_spans_of (tr_spans t) = [] \<and> tm_llm_call_count (tr_metrics t) = 0 \<and> tm_total_cost_usd (tr_metrics t) = 0"
proof -
  let ?played = "([], Inl (AdapterError retryable after)) :: Act list \<times> AdapterResponse result"
  define acts where "acts = repetition_script wd ex ad c (make_request wd ex c overrides inp) ?played"
  let ?body = "[Try [], Add ''adapter_error'' (ErrorMark ''AdapterError'' no_text False), SetState TraceState.ERRORED (Some no_text)]"
  have acts: "acts = [AgentTurn (''case:'' @ ec_name c) ?body]"
    by (simp add: acts_def repetition_script_def)
  have good: "acts_ok acts" "list_all clean acts"
    by (simp_all add: acts kind_fields_ok_def build_instant_span_def)
  have builders: "concat (map llm_builders acts) = []" "concat (map tool_builders acts) = []"
    by (simp_all add: acts)
  obtain r0 where r0: "make_TraceRecorder (ex_workspace_id ex) run ref (ex_framework_version ex) (ex_runtime ex)
      (ex_sandbox ex) (re_started env) = Inr r0"
    using env(2) by (simp add: make_TraceRecorder_def)
  obtain r t r1 where t: "record_block (re_sources env) (re_ended env) acts r0 = (Inr (), r)"
    "build_trace (re_trace_id env) (re_built env) r = (if tool_use_ids_linked t then Inr t else Inl ValueError)"
    "map llm_view (llm_spans_of (tr_spans t)) = []" "map tool_view (tool_spans_of (tr_spans t)) = []"
    "tr_run t = run" "Some (tr_final_state t) = rc_final_state r" "run_acts (re_sources env) acts r0 = (Inr (), r1)"
    "(tm_llm_call_count (tr_metrics t), tm_tool_call_count (tr_metrics t), tm_total_tokens_in (tr_metrics t),
      tm_total_tokens_out (tr_metrics t), tm_retries (tr_metrics t), tm_total_cost_usd (tr_metrics t)) = totals_of (tr_spans t)"
    "rc_final_state r = (case rc_final_state r1 of Some f \<Rightarrow> Some f
       | None \<Rightarrow> Some \<lparr>fs_status = TraceState.COMPLETED, fs_error = None\<rparr>)"
    using clean_repetition [OF _ good r0] env(1) unfolding builders repetition_env_ok_def by (metis list.map(1))
  obtain ra rb where "run_acts (re_sources env) ?body ra = (Inr (), rb)" "rc_final_state r1 = rc_final_state rb"
    using t(7) by (auto simp: acts bind_exec_def return_exec_def split: prod.splits sum.splits elim!: with_span_state)
  then have st: "rc_final_state r1 = Some \<lparr>fs_status = TraceState.ERRORED, fs_error = Some no_text\<rparr>"
    using state_set_last [of "re_sources env" "[Try [], Add ''adapter_error'' (ErrorMark ''AdapterError'' no_text False)]"]
    by simp
  have none: "llm_spans_of (tr_spans t) = []" "tool_spans_of (tr_spans t) = []" using t(3,4) by simp_all
  then have "tool_use_ids_linked t" by (simp add: tool_use_ids_linked_def tool_spans_of_def)
  moreover have "run_single wd env c run ref overrides inp ex = (bind_result (build_trace (re_trace_id env) (re_built env) r) (\<lambda>t.
      Inr \<lparr>rr_repetition = ri_repetition run, rr_trace = t, rr_response = None, rr_error = Some no_text\<rparr>), ex')"
    using run_single_clean [OF ad played r0, of r] t(1) by (simp add: acts_def is_adapter_error_def)
  ultimately show ?thesis
    using t(2,5,6,8,9) st none by (intro exI [of _ t]) (simp add: totals_of_def)
qed

lemma view_costs:
  "map llm_view ms = map llm_builder_view bs \<Longrightarrow> map (\<lambda>m. cb_total (lc_cost_usd m)) ms = map (\<lambda>b. cb_total (lb_cost b)) bs"
  by (induction ms arbitrary: bs) (auto simp: llm_view_def llm_builder_view_def Cons_eq_map_conv)

lemma embedded_repetition_aux:
  assumes env: "repetition_env_ok env" "ex_workspace_id ex \<noteq> []"
    and ad: "adapter_for wd overrides ex = (Inr ad, ex')"
    and played: "wd_invoke wd ad run (make_request wd ex c overrides inp) = (own, Inr rsp)"
    and own: "acts_ok own" "list_all clean own" "emits_spans own"
  shows "\<exists>t. run_single wd env c run ref overrides inp ex =
      (if tool_use_ids_linked t
       then Inr \<lparr>rr_repetition = ri_repetition run, rr_trace = t, rr_response = Some rsp, rr_error = None\<rparr>
       else Inl ValueError, ex') \<and>
    map llm_view (llm_spans_of (tr_spans t)) = map llm_builder_view (concat (map llm_builders own)) \<and>
    map tool_view (tool_spans_of (tr_spans t)) = map tool_builder_view (concat (map tool_builders own)) \<and>
    tm_total_cost_usd (tr_metrics t) = sum_list (map (\<lambda>b. cb_total (lb_cost b)) (concat (map llm_builders own)))"
proof -
  define acts where "acts = repetition_script wd ex ad c (make_request wd ex c overrides inp) (own, Inr rsp)"
  have acts: "acts = [AgentTurn (''case:'' @ ec_name c) (Try own # outputs_acts rsp)]"
    using own(3) by (simp add: acts_def repetition_script_def record_adapter_response_def)
  have outs: "acts_ok (outputs_acts rsp)" "list_all clean (outputs_acts rsp)" "concat (map llm_builders (outputs_acts rsp)) = []"
    "concat (map tool_builders (outputs_acts rsp)) = []"
    by (auto simp: outputs_acts_def split: option.splits)
  have good: "acts_ok acts" "list_all clean acts"
    using own(1,2) outs(1,2) by (simp_all add: acts clean_acts)
  have builders: "concat (map llm_builders acts) = concat (map llm_builders own)"
    "concat (map tool_builders acts) = concat (map tool_builders own)"
    using outs(3,4) by (simp_all add: acts)
  obtain r0 where r0: "make_TraceRecorder (ex_workspace_id ex) run ref (ex_framework_version ex) (ex_runtime ex)
      (ex_sandbox ex) (re_started env) = Inr r0"
    using env(2) by (simp add: make_TraceRecorder_def)
  obtain r t r1 where t: "record_block (re_sources env) (re_ended env) acts r0 = (Inr (), r)"
    "build_trace (re_trace_id env) (re_built env) r = (if tool_use_ids_linked t then Inr t else Inl ValueError)"
    "map llm_view (llm_spans_of (tr_spans t)) = map llm_builder_view (concat (map llm_builders own))"
    "map tool_view (tool_spans_of (tr_spans t)) = map tool_builder_view (concat (map tool_builders own))"
    "(tm_llm_call_count (tr_metrics t), tm_tool_call_count (tr_metrics t), tm_total_tokens_in (tr_metrics t),
      tm_total_tokens_out (tr_metrics t), tm_retries (tr_metrics t), tm_total_cost_usd (tr_metrics t)) = totals_of (tr_spans t)"
    using clean_repetition [OF _ good r0] env(1) unfolding builders repetition_env_ok_def by metis
  have "map (\<lambda>m. cb_total (lc_cost_usd m)) (llm_spans_of (tr_spans t)) =
      map (\<lambda>b. cb_total (lb_cost b)) (concat (map llm_builders own))"
    by (rule view_costs [OF t(3)])
  moreover have "run_single wd env c run ref overrides inp ex = (bind_result (build_trace (re_trace_id env) (re_built env) r) (\<lambda>t.
      Inr \<lparr>rr_repetition = ri_repetition run, rr_trace = t, rr_response = Some rsp, rr_error = None\<rparr>), ex')"
    using run_single_clean [OF ad played r0, of r] t(1) by (simp add: acts_def is_adapter_error_def)
  ultimately show ?thesis
    using t(2,3,4,5) by (intro exI [of _ t]) (simp add: totals_of_def)
qed

subsection \<open>The adapter of a repetition\<close>

text \<open>The cache never answers anything but what the factory would, when the key of a block determines its adapter.\<close>

definition cache_sound :: "World \<Rightarrow> Executor \<Rightarrow> bool" where
  "cache_sound wd ex \<longleftrightarrow> (\<forall>factory block ad. wd_factory wd = Some factory \<longrightarrow>
     map_of (ex_cache ex) (wd_block_key wd block) = Some ad \<longrightarrow> factory block = Inr ad)"

lemma adapter_for_sound:
  assumes "cache_sound wd ex" "adapter_for wd overrides ex = (res, ex')" "wd_factory wd = Some factory"
    and key: "\<And>b1 b2. wd_block_key wd b1 = wd_block_key wd b2 \<Longrightarrow> factory b1 = factory b2"
  shows "cache_sound wd ex'" and "dict_get overrides ''agent'' JNull = JObj block \<Longrightarrow> res = factory block"
    and "dict_get overrides ''agent'' JNull = JNull \<Longrightarrow> res = Inr (ex_adapter ex)"
    and "ex_adapter ex' = ex_adapter ex"
proof -
  have upd: "cache_sound wd (ex\<lparr>ex_cache := AList.update (wd_block_key wd b) ad (ex_cache ex)\<rparr>)" if "factory b = Inr ad" for b ad
    unfolding cache_sound_def
  proof (intro allI impI)
    fix f block x
    assume f: "wd_factory wd = Some f"
      "map_of (ex_cache (ex\<lparr>ex_cache := AList.update (wd_block_key wd b) ad (ex_cache ex)\<rparr>)) (wd_block_key wd block) = Some x"
    show "f block = Inr x"
    proof (cases "wd_block_key wd block = wd_block_key wd b")
      case True
      with f that assms(3) key [OF True] show ?thesis by (simp add: update_conv')
    next
      case False
      with f assms(1) show ?thesis by (simp add: update_conv' cache_sound_def)
    qed
  qed
  show "cache_sound wd ex'"
    using assms(1-3) upd by (auto simp: adapter_for_def split: json.splits option.splits sum.splits)
  show "res = factory block" if "dict_get overrides ''agent'' JNull = JObj block"
    using assms(1-3) that by (auto simp: adapter_for_def cache_sound_def split: option.splits sum.splits)
  show "res = Inr (ex_adapter ex)" if "dict_get overrides ''agent'' JNull = JNull"
    using assms(2) that by (auto simp: adapter_for_def)
  show "ex_adapter ex' = ex_adapter ex"
    using assms(2) by (auto simp: adapter_for_def split: json.splits option.splits sum.splits)
qed

subsection \<open>The repetitions of a case\<close>

lemma with_span_run:
  assumes "with_span src mk acc block r = (res, r')" "acc \<in> {count_nothing, count_tool, count_llm}"
    and "\<And>r res r'. block r = (res, r') \<Longrightarrow> rc_run r' = rc_run r"
  shows "rc_run r' = rc_run r"
proof -
  let ?in = "r\<lparr>rc_asked := rc_asked r + 1, rc_open_parents := src_span_id src (rc_asked r) # rc_open_parents r\<rparr>"
  obtain res1 r1 where b: "block ?in = (res1, r1)" by (cases "block ?in")
  have "rc_run r1 = rc_run r" using assms(3) [OF b] by simp
  with assms(1,2) b show ?thesis
    by (auto simp: with_span_def Let_def record_span_def count_nothing_def count_tool_def count_llm_def
        split: if_splits option.splits)
qed

lemma run_acts_run:
  shows "run_act src a r = (res, r') \<Longrightarrow> rc_run r' = rc_run r"
    and "run_acts src as r = (res, r') \<Longrightarrow> rc_run r' = rc_run r"
proof (induction src a and src as arbitrary: r res r' and r res r' rule: run_act_run_acts.induct)
  case (12 src acts)
  then show ?case by (cases "run_acts src acts r") auto
next
  case (14 src a as)
  obtain res1 r1 where a: "run_act src a r = (res1, r1)" by (cases "run_act src a r")
  with 14 show ?case by (cases res1) (auto simp: bind_exec_def)
qed (auto simp: set_outputs_def add_link_def add_grader_result_def set_state_def raise_exec_def return_exec_def
    add_instant_def Let_def record_span_def split: if_splits elim!: with_span_run)

lemma run_single_run:
  assumes "run_single wd env c run ref overrides inp ex = (Inr rr, ex')"
  shows "rr_repetition rr = ri_repetition run" and "tr_run (rr_trace rr) = run"
proof -
  obtain ad ex1 where ad: "adapter_for wd overrides ex = (Inr ad, ex1)"
    using assms by (auto simp: run_single_def bind_exec_def split: prod.splits sum.splits)
  obtain r0 where r0: "make_TraceRecorder (ex_workspace_id ex) run ref (ex_framework_version ex) (ex_runtime ex)
      (ex_sandbox ex) (re_started env) = Inr r0"
    using assms ad by (auto simp: run_single_def bind_exec_def lift_result_def split: prod.splits sum.splits)
  let ?played = "wd_invoke wd ad run (make_request wd ex c overrides inp)"
  let ?acts = "repetition_script wd ex ad c (make_request wd ex c overrides inp) ?played"
  obtain r where r: "record_block (re_sources env) (re_ended env) ?acts r0 = (Inr (), r)"
    using assms ad r0
    by (auto simp: run_single_def bind_exec_def lift_result_def Let_def raise_exec_def split: prod.splits sum.splits)
  obtain t where t: "build_trace (re_trace_id env) (re_built env) r = Inr t" "rr_repetition rr = ri_repetition run" "rr_trace rr = t"
    using assms unfolding run_single_clean [OF ad refl r0 r] by (auto simp: bind_result_Inr_iff)
  have "rc_run r0 = run" using r0 by (auto simp: make_TraceRecorder_def split: if_splits)
  moreover obtain r1 where "run_acts (re_sources env) ?acts r0 = (Inr (), r1)" "r = exit_recorder (re_ended env) False r1"
    using r by (auto simp: record_block_def split: prod.splits)
  ultimately have "rc_run r = run" using run_acts_run(2) by simp
  then have "tr_run t = run"
    using t(1) by (auto simp: build_trace_def validate_Trace_def Let_def split: if_splits)
  with t(2,3) show "rr_repetition rr = ri_repetition run" "tr_run (rr_trace rr) = run" by simp_all
qed

lemma for_reps_all2:
  assumes "for_reps step is s = (Inr xs, s')" "\<And>i s x s'. step i s = (Inr x, s') \<Longrightarrow> P i x"
  shows "list_all2 P is xs"
  using assms(1)
proof (induction "is" arbitrary: s xs)
  case Nil
  then show ?case by (simp add: return_exec_def)
next
  case (Cons i "is")
  obtain x s1 where x: "step i s = (Inr x, s1)"
    using Cons.prems by (auto simp: bind_exec_def split: prod.splits sum.splits)
  obtain ys where ys: "for_reps step is s1 = (Inr ys, s')" "xs = x # ys"
    using Cons.prems x by (auto simp: bind_exec_def return_exec_def split: prod.splits sum.splits)
  show ?case using Cons.IH [OF ys(1)] assms(2) [OF x] ys(2) by simp
qed

lemma run_case_in_order_aux:
  assumes "run_case wd envs cx c n overrides ex = (Inr cr, ex')"
  shows "1 \<le> n" and "cn_case_id cr = ent_id c"
    and "list_all2 (\<lambda>rep r. rr_repetition r = rep \<and>
      tr_run (rr_trace r) = run_info_for cx (re_run_id (envs rep)) c rep) [0..<nat n] (cn_repetitions cr)"
proof -
  show n: "1 \<le> n" using assms by (auto simp: run_case_def raise_exec_def split: if_splits)
  then obtain ref ex1 rs where rs: "for_reps (\<lambda>rep. run_single wd (envs rep) c (run_info_for cx (re_run_id (envs rep)) c rep)
      ref overrides None) [0..<nat n] ex1 = (Inr rs, ex')"
    "cr = \<lparr>cn_case_id = ent_id c, cn_repetitions = rs, cn_simulator_cost_usd = 0, cn_simulator_turns = 0\<rparr>"
    using assms by (auto simp: run_case_def bind_exec_def return_exec_def split: prod.splits sum.splits)
  show "cn_case_id cr = ent_id c" by (simp add: rs(2))
  show "list_all2 (\<lambda>rep r. rr_repetition r = rep \<and>
      tr_run (rr_trace r) = run_info_for cx (re_run_id (envs rep)) c rep) [0..<nat n] (cn_repetitions cr)"
    unfolding rs(2) CaseRun.simps
    by (rule for_reps_all2 [OF rs(1)]) (use run_single_run in \<open>fastforce simp: run_info_for_def\<close>)
qed

text \<open>A case all of whose invocations answer, or fail the way adapters fail, runs to the end.\<close>

definition plain_play :: "World \<Rightarrow> Executor \<Rightarrow> EvalCase \<Rightarrow> json dict \<Rightarrow> RunInfo \<Rightarrow> bool" where
  "plain_play wd ex c overrides run =
     (let req = make_request wd ex c overrides None
      in case wd_invoke wd (ex_adapter ex) run req of
           (own, Inr rsp) \<Rightarrow> own = [] \<and> answer_ok wd (ex_adapter ex) req rsp
         | (own, Inl e) \<Rightarrow> own = [] \<and> is_adapter_error (Inl e :: AdapterResponse result))"

definition completed :: "RepetitionResult \<Rightarrow> bool" where
  "completed r \<longleftrightarrow> fs_status (tr_final_state (rr_trace r)) = TraceState.COMPLETED"

lemma for_reps_total:
  assumes "\<And>i. i \<in> set is \<Longrightarrow> \<exists>x. step i s = (Inr x, s) \<and> P i x"
  shows "\<exists>xs. for_reps step is s = (Inr xs, s) \<and> list_all2 P is xs"
  using assms
proof (induction "is")
  case Nil
  then show ?case by (simp add: return_exec_def)
next
  case (Cons i "is")
  obtain x where x: "step i s = (Inr x, s)" "P i x" using Cons.prems [of i] by auto
  obtain xs where xs: "for_reps step is s = (Inr xs, s)" "list_all2 P is xs" using Cons.IH Cons.prems by auto
  show ?case by (rule exI [of _ "x # xs"]) (simp add: bind_exec_def return_exec_def x xs)
qed

lemma run_case_answers_aux:
  assumes n: "1 \<le> n" and env: "\<And>rep. repetition_env_ok (envs rep)" "ex_workspace_id ex \<noteq> []"
    and ad: "dict_get overrides ''agent'' JNull = JNull" and play: "\<And>run. plain_play wd ex c overrides run"
  shows "\<exists>cr. run_case wd envs cx c n overrides ex = (Inr cr, ex) \<and> list_all2 (\<lambda>rep r. rr_repetition r = rep \<and>
    (rr_error r = None \<longleftrightarrow> completed r) \<and> tm_llm_call_count (tr_metrics (rr_trace r)) = (if rr_error r = None then 1 else 0))
    [0..<nat n] (cn_repetitions cr)"
proof -
  let ?P = "\<lambda>rep r. rr_repetition r = rep \<and> (rr_error r = None \<longleftrightarrow> completed r) \<and>
    tm_llm_call_count (tr_metrics (rr_trace r)) = (if rr_error r = None then 1 else 0)"
  have ad': "adapter_for wd overrides ex = (Inr (ex_adapter ex), ex)" using ad by (simp add: adapter_for_def)
  obtain ref where ref: "agent_ref wd overrides ex = (Inr ref, ex)"
    using ad' by (simp add: agent_ref_def bind_exec_def return_exec_def)
  have step: "\<exists>x. run_single wd (envs rep) c (run_info_for cx (re_run_id (envs rep)) c rep) ref overrides None ex = (Inr x, ex) \<and>
      ?P rep x" for rep
  proof -
    let ?run = "run_info_for cx (re_run_id (envs rep)) c rep"
    have rep: "ri_repetition ?run = rep" by (simp add: run_info_for_def)
    obtain own ans where w: "wd_invoke wd (ex_adapter ex) ?run (make_request wd ex c overrides None) = (own, ans)"
      by (cases "wd_invoke wd (ex_adapter ex) ?run (make_request wd ex c overrides None)")
    show ?thesis
    proof (cases ans)
      case (Inr rsp)
      with play [of ?run] w have "own = []" "answer_ok wd (ex_adapter ex) (make_request wd ex c overrides None) rsp"
        by (simp_all add: plain_play_def)
      with answered_repetition_aux [OF env(1) env(2) ad', of ?run c None rsp rep ref] w Inr rep show ?thesis
        by (fastforce simp: completed_def)
    next
      case (Inl e)
      with play [of ?run] w have "own = []" "is_adapter_error (Inl e :: AdapterResponse result)"
        by (simp_all add: plain_play_def)
      then obtain retryable after where "own = []" "e = AdapterError retryable after"
        by (auto simp: is_adapter_error_def split: py_error.splits)
      with failed_repetition_aux [OF env(1) env(2) ad', of ?run c None retryable after rep ref] w Inl rep show ?thesis
        by (fastforce simp: completed_def)
    qed
  qed
  have "\<exists>rs. for_reps (\<lambda>rep. run_single wd (envs rep) c (run_info_for cx (re_run_id (envs rep)) c rep) ref overrides None)
      [0..<nat n] ex = (Inr rs, ex) \<and> list_all2 ?P [0..<nat n] rs"
    by (rule for_reps_total) (rule step)
  then obtain rs where "for_reps (\<lambda>rep. run_single wd (envs rep) c (run_info_for cx (re_run_id (envs rep)) c rep) ref overrides None)
      [0..<nat n] ex = (Inr rs, ex)" "list_all2 ?P [0..<nat n] rs" by blast
  then show ?thesis using n ref by (simp add: run_case_def bind_exec_def return_exec_def)
qed

subsection \<open>The properties\<close>

text \<open>A world for the instances: one adapter, one scripted answer.\<close>

definition demo_env :: "nat \<Rightarrow> RepEnv" where
  "demo_env rep = \<lparr>re_run_id = ''run_1'', re_trace_id = ''tr_1'', re_sources = \<lparr>src_span_id = (\<lambda>n. replicate (Suc n) CHR ''s''),
     src_now = (\<lambda>n. int n), src_elapsed_ms = (\<lambda>n m. 0)\<rparr>, re_started = 0, re_ended = 5000, re_built = 6000\<rparr>"

definition demo_executor :: Executor where
  "demo_executor = \<lparr>ex_adapter = \<lparr>ad_key = ''default'', ad_agent = None,
       ad_model = Some \<lparr>mdl_provider = ''openai'', mdl_name = ''gpt''\<rparr>\<rparr>, ex_cache = [], ex_sandbox = SandboxMode.DRY_RUN,
     ex_workspace_id = ''ws_1'', ex_framework_version = ''selfevals/0.0.4'', ex_runtime = ''python-3.12''\<rparr>"

definition demo_world :: "Act list \<times> AdapterResponse result \<Rightarrow> World" where
  "demo_world played = \<lparr>wd_factory = None, wd_block_key = (\<lambda>b. []), wd_invoke = (\<lambda>ad run req. played), wd_dumps = (\<lambda>j. []),
     wd_router = None, wd_prices = [], wd_taxonomy_json = (\<lambda>t. JNull)\<rparr>"

definition demo_answer :: AdapterResponse where
  "demo_answer = (sample_response ''done'' None)\<lparr>rsp_tool_uses := [\<lparr>atu_tool = ''search'', atu_tool_use_id = ''tu_1'',
     atu_args = [], atu_result = None, atu_status = None, atu_error = None\<rparr>], rsp_tokens_input := 7, rsp_cost_usd := 1 / 2\<rparr>"

definition demo_ref :: AgentSnapshotRef where
  "demo_ref = \<lparr>as_fleet_version = None, as_agent_id = ''unknown'', as_agent_version = 1, as_parameters_snapshot_id = None\<rparr>"

definition demo_run :: RunInfo where
  "demo_run = run_info_for \<lparr>cx_experiment_id = None, cx_iteration = None, cx_variant_id = None\<rparr> ''run_1'' (sample_case ''ec_1'' False) 0"

lemma demo_env_ok: "repetition_env_ok (demo_env rep)"
  by (auto simp: repetition_env_ok_def sources_ok_def demo_env_def inj_on_def dest: arg_cong [of _ _ length])

lemma demo_adapter: "dict_get overrides ''agent'' JNull = JNull \<Longrightarrow>
    adapter_for (demo_world played) overrides demo_executor = (Inr (ex_adapter demo_executor), demo_executor)"
  by (simp add: adapter_for_def)

lemma demo_answer_ok:
  "answer_ok (demo_world played) (ex_adapter demo_executor) (make_request (demo_world played) demo_executor (sample_case ''ec_1'' False) [] None)
    demo_answer"
  by (simp add: answer_ok_def named_def demo_executor_def demo_world_def make_request_def tools_allowed_def sample_case_def
      default_Expected_def tool_uses_ok_def demo_answer_def sample_response_def extract_system_prompt_def Let_def)



text \<open>An agent that records its own spans is not counted a second time: the model calls, the tool
  calls and the cost of the trace are the agent's own.  The repetition fails exactly when one of
  its tool calls names a tool use that none of its model calls requested.\<close>

theorem embedded_repetition:
  assumes "repetition_env_ok env" "ex_workspace_id ex \<noteq> []" "adapter_for wd overrides ex = (Inr ad, ex')"
    and "wd_invoke wd ad run (make_request wd ex c overrides inp) = (own, Inr rsp)"
    and "acts_ok own" "list_all clean own" "emits_spans own"
  shows "\<exists>t. run_single wd env c run ref overrides inp ex =
      (if tool_use_ids_linked t
       then Inr \<lparr>rr_repetition = ri_repetition run, rr_trace = t, rr_response = Some rsp, rr_error = None\<rparr>
       else Inl ValueError, ex') \<and>
    map llm_view (llm_spans_of (tr_spans t)) = map llm_builder_view (concat (map llm_builders own)) \<and>
    map tool_view (tool_spans_of (tr_spans t)) = map tool_builder_view (concat (map tool_builders own)) \<and>
    tm_total_cost_usd (tr_metrics t) = sum_list (map (\<lambda>b. cb_total (lb_cost b)) (concat (map llm_builders own)))"
  using assms by (rule embedded_repetition_aux)

definition own_call :: "Act list" where
  "own_call = [LLMCall ''plan'' ((new_LLMSpanBuilder ''openai'' ''gpt'' None)\<lparr>lb_cost := zero_cost\<lparr>cb_total := 1 / 4\<rparr>\<rparr>) []]"

theorem embedded_repetition_witness:
  "\<exists>rr. fst (run_single (demo_world (own_call, Inr demo_answer)) (demo_env 0) (sample_case ''ec_1'' False) demo_run
      demo_ref [] None
      demo_executor) = Inr rr \<and> tm_total_cost_usd (tr_metrics (rr_trace rr)) = 1 / 4"
proof -
  have own: "acts_ok own_call" "list_all clean own_call" "emits_spans own_call"
    by (simp_all add: own_call_def kind_fields_ok_def build_llm_call_span_def new_LLMSpanBuilder_def empty_tokens_def)
  obtain t where t: "run_single (demo_world (own_call, Inr demo_answer)) (demo_env 0) (sample_case ''ec_1'' False) demo_run
      demo_ref [] None
      demo_executor = (if tool_use_ids_linked t
        then Inr \<lparr>rr_repetition = ri_repetition demo_run, rr_trace = t, rr_response = Some demo_answer, rr_error = None\<rparr>
        else Inl ValueError, demo_executor)"
    "map tool_view (tool_spans_of (tr_spans t)) = map tool_builder_view (concat (map tool_builders own_call))"
    "tm_total_cost_usd (tr_metrics t) = sum_list (map (\<lambda>b. cb_total (lb_cost b)) (concat (map llm_builders own_call)))"
    using embedded_repetition [where wd = "demo_world (own_call, Inr demo_answer)" and run = demo_run and ref = demo_ref
        and overrides = "[]" and c = "sample_case ''ec_1'' False" and inp = None and rsp = demo_answer,
        OF demo_env_ok [of 0] _ demo_adapter _ own]
    by (auto simp: demo_world_def demo_executor_def)
  have "tool_spans_of (tr_spans t) = []" using t(2) by (simp add: own_call_def)
  then have "tool_use_ids_linked t" by (simp add: tool_use_ids_linked_def tool_spans_of_def)
  with t(1,3) show ?thesis by (simp add: own_call_def)
qed

text \<open>An agent that reports a tool call with the identifier of a tool use but no model call of its
  own ends the repetition with an exception that nobody records, although its adapter answered.\<close>

theorem unlinked_tool_use_escapes:
  assumes "repetition_env_ok env" "ex_workspace_id ex \<noteq> []" "adapter_for wd overrides ex = (Inr ad, ex')"
    and "wd_invoke wd ad run (make_request wd ex c overrides inp) = ([ToolCall nm b []], Inr rsp)"
    and "nm \<noteq> []" "tlb_tool_name b \<noteq> []" "tlb_tool_use_id b = Some i"
  shows "run_single wd env c run ref overrides inp ex = (Inl ValueError, ex')"
proof -
  obtain t where t: "run_single wd env c run ref overrides inp ex =
      (if tool_use_ids_linked t
       then Inr \<lparr>rr_repetition = ri_repetition run, rr_trace = t, rr_response = Some rsp, rr_error = None\<rparr>
       else Inl ValueError, ex')" "llm_spans_of (tr_spans t) = []"
    "map tool_view (tool_spans_of (tr_spans t)) = [tool_builder_view b]"
    using embedded_repetition_aux [OF assms(1-4), of ref] assms(5,6) by auto
  obtain x where x: "tool_spans_of (tr_spans t) = [x]" "tc_tool_use_id x = Some i"
    using t(3) assms(7) by (auto simp: tool_view_def tool_builder_view_def)
  have "\<not> tool_use_ids_linked t"
    using x t(2) by (simp add: tool_use_ids_linked_def tool_spans_of_def llm_spans_of_def requested_tool_use_ids_def)
  with t(1) show ?thesis by simp
qed

definition own_tool :: ToolSpanBuilder where
  "own_tool = \<lparr>tlb_tool_name = ''search'', tlb_tool_use_id = Some ''tu_9'', tlb_tool_version = None, tlb_args_pointer = None,
     tlb_args_hash = None, tlb_args_inline = None, tlb_result_pointer = None, tlb_result_hash = None, tlb_result_inline = None,
     tlb_status = ToolCallStatus.OK, tlb_error = None, tlb_retry_chain = [], tlb_sandboxed = False, tlb_side_effects = []\<rparr>"

theorem unlinked_tool_use_escapes_witness:
  "run_single (demo_world ([ToolCall ''search'' own_tool []], Inr demo_answer)) (demo_env 0) (sample_case ''ec_1'' False) demo_run
      demo_ref [] None
      demo_executor = (Inl ValueError, demo_executor)"
  by (rule unlinked_tool_use_escapes [where rsp = demo_answer and nm = "''search''" and b = own_tool and i = "''tu_9''"
        and ad = "ex_adapter demo_executor"])
    (simp_all add: demo_env_ok demo_adapter demo_world_def demo_executor_def own_tool_def adapter_for_def)



end
