(* ===== verification/Multiturn_Properties.thy ===== *)
theory Multiturn_Properties
  imports Multiturn Executor_Properties
begin

section \<open>What a conversation run is\<close>

text \<open>
  The turns partition the script; a thread is a run of consecutive turns of which only the last may
  have failed; the simulated user never exceeds its cap; and the turns of a case collapse to one
  repetition per thread, which is one per requested repetition.
\<close>

subsection \<open>Turn boundaries\<close>

definition driving :: "Message \<Rightarrow> bool" where
  "driving m \<longleftrightarrow> ms_role m \<in> {MessageRole.USER, MessageRole.TOOL}"

definition turn_shaped :: "Message list \<Rightarrow> bool" where
  "turn_shaped ms \<longleftrightarrow> ms \<noteq> [] \<and> driving (last ms) \<and> list_all (\<lambda>m. \<not> driving m) (butlast ms)"

lemma slice_Suc: "start \<le> i \<Longrightarrow> drop i xs = m # ms \<Longrightarrow> slice (start, i + 1) xs = slice (start, i) xs @ [m]"
proof -
  assume a: "start \<le> i" "drop i xs = m # ms"
  then have i: "i < length xs" "xs ! i = m" by (auto simp: drop_eq_Nil nth_via_drop intro: not_le_imp_less)
  then have "take (Suc (i - start)) (drop start xs) = take (i - start) (drop start xs) @ [drop start xs ! (i - start)]"
    using a(1) by (intro take_Suc_conv_app_nth) simp
  with a(1) i show ?thesis by (simp add: slice_def Suc_diff_le)
qed

lemma slice_drop: "start \<le> i \<Longrightarrow> slice (start, i) xs @ drop i xs = drop start xs"
  by (simp add: slice_def) (metis append_take_drop_id drop_drop le_add_diff_inverse2)

lemma boundaries_from:
  assumes "start \<le> i" "drop i xs = ms" "list_all (\<lambda>m. \<not> driving m) (slice (start, i) xs)"
  shows "\<exists>rest. drop start xs = concat (map (\<lambda>b. slice b xs) (turn_boundaries_from start i ms)) @ rest \<and>
      list_all (\<lambda>m. \<not> driving m) rest \<and> list_all (\<lambda>b. turn_shaped (slice b xs)) (turn_boundaries_from start i ms)"
  using assms
proof (induction start i ms rule: turn_boundaries_from.induct)
  case (1 start i)
  then show ?case using slice_drop [of start i xs] by auto
next
  case (2 start i m ms)
  have ms: "drop (i + 1) xs = ms" using "2.prems"(2) by (metis Suc_eq_plus1 drop_Suc tl_drop list.sel(3))
  note s = slice_Suc [OF "2.prems"(1,2)]
  show ?case
  proof (cases "ms_role m \<in> {MessageRole.USER, MessageRole.TOOL}")
    case True
    obtain rest where rest: "drop (i + 1) xs = concat (map (\<lambda>b. slice b xs) (turn_boundaries_from (i + 1) (i + 1) ms)) @ rest"
      "list_all (\<lambda>m. \<not> driving m) rest" "list_all (\<lambda>b. turn_shaped (slice b xs)) (turn_boundaries_from (i + 1) (i + 1) ms)"
      using "2.IH"(1) [OF True _ ms] by (auto simp: slice_def)
    have "turn_shaped (slice (start, i + 1) xs)"
      unfolding s turn_shaped_def using True "2.prems"(3) by (simp add: driving_def)
    moreover have "drop start xs = slice (start, i + 1) xs @ drop (i + 1) xs"
      using slice_drop [of start "i + 1" xs] "2.prems"(1) by simp
    ultimately show ?thesis using True rest by (intro exI [of _ rest]) simp
  next
    case False
    with "2.prems"(3) have "list_all (\<lambda>m. \<not> driving m) (slice (start, i + 1) xs)" unfolding s by (simp add: driving_def)
    with "2.IH"(2) [OF False _ ms] "2.prems"(1) False show ?thesis by simp
  qed
qed

lemma turns_partition_aux:
  "\<exists>rest. ms = concat (map (\<lambda>b. slice b ms) (turn_boundaries ms)) @ rest \<and> list_all (\<lambda>m. \<not> driving m) rest \<and>
     list_all (\<lambda>b. turn_shaped (slice b ms)) (turn_boundaries ms)"
  using boundaries_from [of 0 0 ms ms] by (simp add: turn_boundaries_def slice_def)

lemma boundaries_count: "length (turn_boundaries_from start i ms) = length (filter driving ms)"
  by (induction start i ms rule: turn_boundaries_from.induct) (auto simp: driving_def)

subsection \<open>Runs of turns\<close>

text \<open>Consecutive turns of one thread, of which only the last may have failed.\<close>

definition turn_run :: "TurnEnv \<Rightarrow> nat \<Rightarrow> RepetitionResult list \<Rightarrow> bool" where
  "turn_run te position rs \<longleftrightarrow>
     map (\<lambda>r. tr_run (rr_trace r)) rs = map (turn_info te) [position..<position + length rs] \<and>
     list_all (\<lambda>r. rr_repetition r = te_rep te) rs \<and> list_all (\<lambda>r. rr_error r = None) (butlast rs)"

lemma turn_run_simps [simp]: "turn_run te p []"
  "turn_run te p (r # rs) \<longleftrightarrow> tr_run (rr_trace r) = turn_info te p \<and> rr_repetition r = te_rep te \<and>
     (rs \<noteq> [] \<longrightarrow> rr_error r = None) \<and> turn_run te (p + 1) rs"
proof -
  show "turn_run te p []" by (simp add: turn_run_def)
  have "[p..<p + length (r # rs)] = p # [p + 1..<p + 1 + length rs]" by (simp add: upt_rec)
  then show "turn_run te p (r # rs) \<longleftrightarrow> tr_run (rr_trace r) = turn_info te p \<and> rr_repetition r = te_rep te \<and>
     (rs \<noteq> [] \<longrightarrow> rr_error r = None) \<and> turn_run te (p + 1) rs"
    by (auto simp: turn_run_def)
qed

lemma turn_run_append:
  "turn_run te p rs \<Longrightarrow> (rs \<noteq> [] \<Longrightarrow> rr_error (last rs) = None) \<Longrightarrow> turn_run te (p + length rs) ss \<Longrightarrow> turn_run te p (rs @ ss)"
  by (induction rs arbitrary: p) (auto split: if_splits)

lemma run_turn_facts:
  assumes "run_turn te p s = (Inr r, s')"
  shows "tr_run (rr_trace r) = turn_info te p" "rr_repetition r = te_rep te" "th_results s' = th_results s @ [r]"
    and "th_history s' = (if rr_error r \<noteq> None then th_history s else th_history s @ [assistant_reply (rr_response r)])"
proof -
  obtain ex where ex: "run_single (te_world te) (te_envs te p) (te_case te) (turn_info te p) (te_ref te)
      (te_overrides te) (Some (turn_input (te_case te) (th_history s))) (th_executor s) = (Inr r, ex)"
    "s' = s\<lparr>th_executor := ex, th_results := th_results s @ [r],
          th_history := (if rr_error r \<noteq> None then th_history s else th_history s @ [assistant_reply (rr_response r)])\<rparr>"
    using assms by (auto simp: run_turn_def split: prod.splits sum.splits)
  show "tr_run (rr_trace r) = turn_info te p" "rr_repetition r = te_rep te"
    using run_single_run [OF ex(1)] by (simp_all add: turn_info_def run_info_for_def)
  show "th_results s' = th_results s @ [r]"
    "th_history s' = (if rr_error r \<noteq> None then th_history s else th_history s @ [assistant_reply (rr_response r)])"
    by (simp_all add: ex(2))
qed

text \<open>The history a full run of turns leaves behind.\<close>

definition dialogue :: "Message list \<Rightarrow> (nat \<times> nat) list \<Rightarrow> RepetitionResult list \<Rightarrow> json dict list" where
  "dialogue scripted bs rs =
     concat (map (\<lambda>(b, r). map message_to_json (slice b scripted) @ [assistant_reply (rr_response r)]) (zip bs rs))"

lemma scripted_turns_run:
  assumes "run_scripted_turns te scripted p b bs s = (Inr r, s')"
  shows "\<exists>rs. th_results s' = th_results s @ rs \<and> turn_run te p rs \<and> rs \<noteq> [] \<and> last rs = r \<and>
    length rs \<le> length (b # bs) \<and>
    (rr_error r = None \<longrightarrow> length rs = length (b # bs) \<and> th_history s' = th_history s @ dialogue scripted (b # bs) rs)"
  using assms
proof (induction te scripted p b bs arbitrary: s rule: run_scripted_turns.induct)
  case (1 te scripted p b bs)
  let ?s = "s\<lparr>th_history := th_history s @ map message_to_json (slice b scripted)\<rparr>"
  obtain x s1 where x: "run_turn te p ?s = (Inr x, s1)"
    using "1.prems" by (auto simp: bind_exec_def extend_history_def split: prod.splits sum.splits)
  note f = run_turn_facts [OF x]
  show ?case
  proof (cases "bs = [] \<or> rr_error x \<noteq> None")
    case True
    with "1.prems" x have "r = x" "s' = s1"
      by (auto simp: bind_exec_def extend_history_def return_exec_def split: list.splits)
    with f True show ?thesis by (intro exI [of _ "[x]"]) (auto simp: dialogue_def)
  next
    case False
    then obtain b' bs' where bs: "bs = b' # bs'" "rr_error x = None" by (cases bs) auto
    with "1.prems" x have nx: "run_scripted_turns te scripted (p + 1) b' bs' s1 = (Inr r, s')"
      by (simp add: bind_exec_def extend_history_def)
    have ok: "\<not> rr_error x \<noteq> None" using bs(2) by simp
    obtain rs where rs: "th_results s' = th_results s1 @ rs" "turn_run te (p + 1) rs" "rs \<noteq> []" "last rs = r"
      "length rs \<le> length (b' # bs')"
      "rr_error r = None \<longrightarrow> length rs = length (b' # bs') \<and> th_history s' = th_history s1 @ dialogue scripted (b' # bs') rs"
      using "1.IH" [OF bs(1) ok nx] by auto
    show ?thesis
      using rs f bs by (intro exI [of _ "x # rs"]) (auto simp: dialogue_def)
  qed
qed

subsection \<open>The simulated user\<close>

lemma simulate_bound:
  assumes "simulate req u = (Inr r, u')"
  shows "us_spec u' = us_spec u" "int (us_turns_emitted u) \<le> ss_max_turns (us_spec u) \<Longrightarrow>
    int (us_turns_emitted u') \<le> ss_max_turns (us_spec u)"
  using assms by (auto simp: simulate_def split: if_splits option.splits sum.splits)

lemma simulate_error: "simulate req u = (Inl e, u') \<Longrightarrow> u' = u"
  by (auto simp: simulate_def split: if_splits option.splits sum.splits)

lemma simulator_phase_run:
  assumes "run_simulator_phase te p cost emitted u s = (Inr (u', cost', emitted'), s')"
  shows "\<exists>rs. th_results s' = th_results s @ rs \<and> turn_run te p rs \<and> emitted' = emitted + length rs \<and>
    us_spec u' = us_spec u \<and> length rs \<le> nat (ss_max_turns (us_spec u)) - us_turns_emitted u"
  using assms
proof (induction te p cost emitted u s rule: run_simulator_phase.induct)
  case (1 te p cost emitted u s)
  let ?last = "last_assistant_content (th_history s)"
  let ?goal = "\<lambda>rs. th_results s' = th_results s @ rs \<and> turn_run te p rs \<and> emitted' = emitted + length rs \<and>
    us_spec u' = us_spec u \<and> length rs \<le> nat (ss_max_turns (us_spec u)) - us_turns_emitted u"
  note step = "1.prems" [unfolded run_simulator_phase.simps [of te p cost emitted u s] Let_def]
  show ?case
  proof (cases "is_success (us_spec u) ?last \<or> hit_stop_condition (us_spec u) ?last")
    case True
    with step show ?thesis by (intro exI [of _ "[]"]) simp
  next
    case go: False
    obtain res u1 where sim: "simulate (simulator_request te s) u = (res, u1)" by (cases "simulate (simulator_request te s) u")
    show ?thesis
    proof (cases res)
      case (Inl e)
      with sim simulate_error have "u1 = u" by simp
      with step go sim Inl show ?thesis
        by (intro exI [of _ "[]"]) (auto split: py_error.splits)
    next
      case (Inr r)
      show ?thesis
      proof (cases "rsp_content r = None \<or> rsp_content r = Some []")
        case True
        with step go sim Inr simulate_bound(1) show ?thesis
          by (intro exI [of _ "[]"]) (auto split: option.splits list.splits)
      next
        case False
        then obtain ch chs where content: "rsp_content r = Some (ch # chs)"
          by (cases "rsp_content r"; cases "the (rsp_content r)") auto
        note prog = simulate_progress [OF sim [unfolded Inr]]
        let ?s = "s\<lparr>th_history := th_history s @ [simulated_message (ch # chs)]\<rparr>"
        obtain x s1 where x: "run_turn te p ?s = (Inr x, s1)"
          using step go sim Inr content by (auto split: prod.splits sum.splits)
        note f = run_turn_facts [OF x]
        show ?thesis
        proof (cases "rr_error x = None")
          case False
          with step go sim Inr content x have "s' = s1" "u' = u1" "emitted' = emitted + 1" by auto
          with f prog content show ?thesis by (intro exI [of _ "[x]"]) auto
        next
          case True
          with step go sim Inr content x have nxt: "run_simulator_phase te (p + 1) (cost + rsp_cost_usd r) (emitted + 1) u1 s1 =
              (Inr (u', cost', emitted'), s')" by simp
          have "\<exists>rs. th_results s' = th_results s1 @ rs \<and> turn_run te (p + 1) rs \<and> emitted' = emitted + 1 + length rs \<and>
            us_spec u' = us_spec u1 \<and> length rs \<le> nat (ss_max_turns (us_spec u1)) - us_turns_emitted u1"
            by (rule "1.IH" [OF refl _ sim [symmetric] Inr content refl x [symmetric] refl _ nxt]) (use go True in auto)
          then obtain rs where rs: "th_results s' = th_results s1 @ rs" "turn_run te (p + 1) rs" "emitted' = emitted + 1 + length rs"
            "us_spec u' = us_spec u1" "length rs \<le> nat (ss_max_turns (us_spec u1)) - us_turns_emitted u1" by blast
          show ?thesis using rs f prog content True by (intro exI [of _ "x # rs"]) auto
        qed
      qed
    qed
  qed
qed

subsection \<open>Threads and cases\<close>

lemma run_thread_facts:
  assumes "run_thread te scripted b bs cl = (Inr (), cl')"
  shows "\<exists>rs. cl_results cl' = cl_results cl @ rs \<and> turn_run te 0 rs \<and> rs \<noteq> [] \<and>
    cl_turns cl' = cl_turns cl + (length rs - length (b # bs)) \<and>
    map_option us_spec (cl_simulator cl') = map_option us_spec (cl_simulator cl) \<and>
    length rs \<le> length (b # bs) + (case cl_simulator cl of None \<Rightarrow> 0 | Some u \<Rightarrow> nat (ss_max_turns (us_spec u)))"
proof -
  let ?start = "\<lparr>th_executor = cl_executor cl, th_history = [], th_results = cl_results cl\<rparr>"
  let ?sim = "map_option reset (cl_simulator cl)"
  obtain r s where s: "run_scripted_turns te scripted 0 b bs ?start = (Inr r, s)"
    using assms by (auto simp: run_thread_def Let_def split: prod.splits sum.splits)
  obtain rs where rs: "th_results s = cl_results cl @ rs" "turn_run te 0 rs" "rs \<noteq> []" "last rs = r"
    "length rs \<le> length (b # bs)" "rr_error r = None \<Longrightarrow> length rs = length (b # bs)"
    using scripted_turns_run [OF s] by auto
  show ?thesis
  proof (cases "rr_error r = None \<and> ?sim \<noteq> None")
    case False
    with assms s have "cl' = cl\<lparr>cl_executor := th_executor s, cl_simulator := ?sim, cl_results := th_results s\<rparr>"
      by (auto simp: run_thread_def Let_def split: option.splits)
    with rs show ?thesis by (intro exI [of _ rs]) (auto simp: reset_def option.map_comp o_def split: option.splits)
  next
    case True
    then obtain u0 where u0: "cl_simulator cl = Some u0" "rr_error r = None" by auto
    obtain u' cost emitted s' where ph: "run_simulator_phase te (length (b # bs)) 0 0 (reset u0) s = (Inr (u', cost, emitted), s')"
      "cl' = cl\<lparr>cl_executor := th_executor s', cl_simulator := Some u', cl_results := th_results s',
         cl_cost := cl_cost cl + cost, cl_turns := cl_turns cl + emitted\<rparr>"
      using assms s u0 by (auto simp: run_thread_def Let_def split: prod.splits sum.splits)
    obtain ss where ss: "th_results s' = th_results s @ ss" "turn_run te (length (b # bs)) ss" "emitted = length ss"
      "us_spec u' = us_spec u0" "length ss \<le> nat (ss_max_turns (us_spec u0))"
      using simulator_phase_run [OF ph(1)] by (auto simp: reset_def)
    have "turn_run te 0 (rs @ ss)"
      using turn_run_append [OF rs(2)] rs(4,6) ss(2) u0(2) by simp
    then show ?thesis
      using rs ss ph(2) u0 by (intro exI [of _ "rs @ ss"]) (auto simp del: turn_run_simps)
  qed
qed

lemma run_threads_facts:
  assumes "run_threads (\<lambda>rep. run_thread (env rep) scripted b bs) reps cl = (Inr (), cl')"
  shows "\<exists>rss. cl_results cl' = cl_results cl @ concat rss \<and>
    list_all2 (\<lambda>rep rs. turn_run (env rep) 0 rs \<and> rs \<noteq> [] \<and> length rs \<le> length (b # bs) +
      (case cl_simulator cl of None \<Rightarrow> 0 | Some u \<Rightarrow> nat (ss_max_turns (us_spec u)))) reps rss \<and>
    cl_turns cl' = cl_turns cl + sum_list (map (\<lambda>rs. length rs - length (b # bs)) rss)"
  using assms
proof (induction reps arbitrary: cl)
  case Nil
  then show ?case by (simp add: return_exec_def)
next
  case (Cons rep reps)
  obtain cl1 where one: "run_thread (env rep) scripted b bs cl = (Inr (), cl1)"
    "run_threads (\<lambda>rep. run_thread (env rep) scripted b bs) reps cl1 = (Inr (), cl')"
    using Cons.prems by (auto simp: bind_exec_def split: prod.splits sum.splits)
  obtain rs where rs: "cl_results cl1 = cl_results cl @ rs" "turn_run (env rep) 0 rs" "rs \<noteq> []"
    "cl_turns cl1 = cl_turns cl + (length rs - length (b # bs))"
    "map_option us_spec (cl_simulator cl1) = map_option us_spec (cl_simulator cl)"
    "length rs \<le> length (b # bs) + (case cl_simulator cl of None \<Rightarrow> 0 | Some u \<Rightarrow> nat (ss_max_turns (us_spec u)))"
    using run_thread_facts [OF one(1)] by blast
  have cap: "(case cl_simulator cl1 of None \<Rightarrow> 0 | Some u \<Rightarrow> nat (ss_max_turns (us_spec u))) =
      (case cl_simulator cl of None \<Rightarrow> 0 | Some u \<Rightarrow> nat (ss_max_turns (us_spec u)))"
    using rs(5) by (cases "cl_simulator cl"; cases "cl_simulator cl1") auto
  obtain rss where rss: "cl_results cl' = cl_results cl1 @ concat rss"
    "list_all2 (\<lambda>rep rs. turn_run (env rep) 0 rs \<and> rs \<noteq> [] \<and> length rs \<le> length (b # bs) +
      (case cl_simulator cl of None \<Rightarrow> 0 | Some u \<Rightarrow> nat (ss_max_turns (us_spec u)))) reps rss"
    "cl_turns cl' = cl_turns cl1 + sum_list (map (\<lambda>rs. length rs - length (b # bs)) rss)"
    using Cons.IH [OF one(2)] unfolding cap by blast
  show ?case using rs rss by (intro exI [of _ "rs # rss"]) (simp del: turn_run_simps)
qed

definition cap_of :: "UserSimulator option \<Rightarrow> nat" where
  "cap_of sim = (case sim of None \<Rightarrow> 0 | Some u \<Rightarrow> nat (ss_max_turns (us_spec u)))"

lemma run_conversation_aux:
  assumes "run_conversation wd envs threads cx c n overrides sim ex = (Inr cr, ex')"
  obtains ci ref rss where "1 \<le> n" "conversation c = Inr ci" "cn_case_id cr = ent_id c" "cn_repetitions cr = concat rss"
    "list_all2 (\<lambda>rep rs. turn_run (thread_env wd envs threads cx c ref overrides rep) 0 rs \<and> rs \<noteq> [] \<and>
       length rs \<le> length (filter driving (ci_messages ci)) + cap_of sim) [0..<nat n] rss"
    "cn_simulator_turns cr = sum_list (map (\<lambda>rs. length rs - length (filter driving (ci_messages ci))) rss)"
proof -
  have n: "1 \<le> n" using assms by (auto simp: run_conversation_def raise_exec_def split: if_splits)
  obtain ci b bs where ci: "conversation c = Inr ci" "turn_boundaries (ci_messages ci) = b # bs"
    using assms n by (auto simp: run_conversation_def raise_exec_def split: if_splits sum.splits list.splits)
  obtain ref ex1 cl where cl: "run_threads (\<lambda>rep. run_thread (thread_env wd envs threads cx c ref overrides rep) (ci_messages ci) b bs)
      [0..<nat n] \<lparr>cl_executor = ex1, cl_simulator = sim, cl_results = [], cl_cost = 0, cl_turns = 0\<rparr> = (Inr (), cl)"
    "cr = \<lparr>cn_case_id = ent_id c, cn_repetitions = cl_results cl, cn_simulator_cost_usd = cl_cost cl,
      cn_simulator_turns = cl_turns cl\<rparr>"
    using assms n ci
    by (auto simp: run_conversation_def bind_exec_def lift_result_def raise_exec_def split: if_splits prod.splits sum.splits)
  have len: "length (b # bs) = length (filter driving (ci_messages ci))"
    using ci(2) boundaries_count [of 0 0 "ci_messages ci"] by (simp add: turn_boundaries_def)
  obtain rss where rss: "cl_results cl = concat rss"
    "list_all2 (\<lambda>rep rs. turn_run (thread_env wd envs threads cx c ref overrides rep) 0 rs \<and> rs \<noteq> [] \<and>
       length rs \<le> length (b # bs) + cap_of sim) [0..<nat n] rss"
    "cl_turns cl = sum_list (map (\<lambda>rs. length rs - length (b # bs)) rss)"
    using run_threads_facts [OF cl(1)] by (auto simp: cap_of_def simp del: turn_run_simps)
  show thesis
    by (rule that [OF n ci(1) _ _ rss(2) [unfolded len]]) (simp_all add: cl(2) rss(1) rss(3) [unfolded len])
qed

subsection \<open>Conversations that run to the end\<close>

definition plain_turn :: "World \<Rightarrow> Executor \<Rightarrow> EvalCase \<Rightarrow> json dict \<Rightarrow> RunInfo \<Rightarrow> json dict option \<Rightarrow> bool" where
  "plain_turn wd ex c overrides run inp =
     (let req = make_request wd ex c overrides inp
      in case wd_invoke wd (ex_adapter ex) run req of
           (own, Inr rsp) \<Rightarrow> own = [] \<and> answer_ok wd (ex_adapter ex) req rsp
         | (own, Inl e) \<Rightarrow> own = [] \<and> is_adapter_error (Inl e :: AdapterResponse result))"

lemma run_single_plain:
  assumes "repetition_env_ok env" "ex_workspace_id ex \<noteq> []" "dict_get overrides ''agent'' JNull = JNull"
    and "plain_turn wd ex c overrides run inp"
  shows "\<exists>rr. run_single wd env c run ref overrides inp ex = (Inr rr, ex)"
proof -
  have ad: "adapter_for wd overrides ex = (Inr (ex_adapter ex), ex)" using assms(3) by (simp add: adapter_for_def)
  obtain own ans where w: "wd_invoke wd (ex_adapter ex) run (make_request wd ex c overrides inp) = (own, ans)"
    by (cases "wd_invoke wd (ex_adapter ex) run (make_request wd ex c overrides inp)")
  show ?thesis
  proof (cases ans)
    case (Inr rsp)
    with assms(4) w have "own = []" "answer_ok wd (ex_adapter ex) (make_request wd ex c overrides inp) rsp"
      by (simp_all add: plain_turn_def)
    with answered_repetition_aux [OF assms(1,2) ad, of run c inp rsp ref] w Inr show ?thesis by blast
  next
    case (Inl e)
    with assms(4) w obtain retryable after where "own = []" "e = AdapterError retryable after"
      by (auto simp: plain_turn_def is_adapter_error_def split: py_error.splits)
    with failed_repetition_aux [OF assms(1,2) ad, of run c inp retryable after ref] w Inl show ?thesis by blast
  qed
qed

text \<open>The hypotheses on the surroundings of a thread.\<close>

definition thread_ok :: "TurnEnv \<Rightarrow> Executor \<Rightarrow> bool" where
  "thread_ok te ex \<longleftrightarrow> (\<forall>p. repetition_env_ok (te_envs te p)) \<and> ex_workspace_id ex \<noteq> [] \<and>
     dict_get (te_overrides te) ''agent'' JNull = JNull \<and>
     (\<forall>run inp. plain_turn (te_world te) ex (te_case te) (te_overrides te) run inp)"

definition judge_ok :: "UserSimulator \<Rightarrow> bool" where
  "judge_ok u \<longleftrightarrow> (\<forall>judge req e. us_judge u = Some judge \<longrightarrow> judge req = Inl e \<longrightarrow> is_adapter_error (Inl e :: AdapterResponse result))"

lemma run_turn_plain:
  assumes "thread_ok te (th_executor s)"
  obtains r s' where "run_turn te p s = (Inr r, s')" "th_executor s' = th_executor s"
proof -
  obtain rr where rr: "run_single (te_world te) (te_envs te p) (te_case te) (turn_info te p) (te_ref te) (te_overrides te)
      (Some (turn_input (te_case te) (th_history s))) (th_executor s) = (Inr rr, th_executor s)"
    using run_single_plain assms unfolding thread_ok_def by blast
  then have "run_turn te p s = (Inr rr, s\<lparr>th_executor := th_executor s, th_results := th_results s @ [rr],
      th_history := (if rr_error rr \<noteq> None then th_history s else th_history s @ [assistant_reply (rr_response rr)])\<rparr>)"
    by (simp add: run_turn_def)
  then show thesis by (rule that) simp
qed

lemma scripted_turns_plain:
  assumes "thread_ok te (th_executor s)"
  shows "\<exists>r s'. run_scripted_turns te scripted p b bs s = (Inr r, s') \<and> th_executor s' = th_executor s"
  using assms
proof (induction te scripted p b bs arbitrary: s rule: run_scripted_turns.induct)
  case (1 te scripted p b bs)
  let ?s = "s\<lparr>th_history := th_history s @ map message_to_json (slice b scripted)\<rparr>"
  obtain x s1 where x: "run_turn te p ?s = (Inr x, s1)" "th_executor s1 = th_executor s"
    using run_turn_plain [of te ?s p] "1.prems" by auto
  show ?case
  proof (cases "bs = [] \<or> rr_error x \<noteq> None")
    case True
    with x show ?thesis by (auto simp: bind_exec_def extend_history_def return_exec_def split: list.splits)
  next
    case False
    then obtain b' bs' where bs: "bs = b' # bs'" and ok: "\<not> rr_error x \<noteq> None" by (cases bs) auto
    with "1.IH" [OF bs ok, of s1] "1.prems" x show ?thesis by (simp add: bind_exec_def extend_history_def)
  qed
qed

lemma simulate_plain: "judge_ok u \<Longrightarrow> simulate req u = (Inl e, u') \<Longrightarrow> is_adapter_error (Inl e :: AdapterResponse result)"
  by (auto simp: simulate_def judge_ok_def split: if_splits option.splits sum.splits)

lemma simulate_judge: "simulate req u = (res, u') \<Longrightarrow> us_judge u' = us_judge u"
  by (auto simp: simulate_def split: if_splits option.splits sum.splits)

lemma simulator_phase_plain:
  assumes "thread_ok te (th_executor s)" "judge_ok u"
  shows "\<exists>u' cost' emitted' s'. run_simulator_phase te p cost emitted u s = (Inr (u', cost', emitted'), s') \<and>
    th_executor s' = th_executor s \<and> judge_ok u'"
  using assms
proof (induction te p cost emitted u s rule: run_simulator_phase.induct)
  case (1 te p cost emitted u s)
  let ?last = "last_assistant_content (th_history s)"
  note unf = run_simulator_phase.simps [of te p cost emitted u s] Let_def
  obtain res u1 where sim: "simulate (simulator_request te s) u = (res, u1)" by (cases "simulate (simulator_request te s) u")
  have j: "judge_ok u1" using simulate_judge [OF sim] "1.prems"(2) by (simp add: judge_ok_def)
  show ?case
  proof (cases "is_success (us_spec u) ?last \<or> hit_stop_condition (us_spec u) ?last")
    case True
    with "1.prems"(2) show ?thesis unfolding unf by simp
  next
    case go: False
    show ?thesis
    proof (cases res)
      case (Inl e)
      have "is_adapter_error (Inl e :: AdapterResponse result)" by (rule simulate_plain [OF "1.prems"(2) sim [unfolded Inl]])
      then obtain a b where "e = AdapterError a b" by (auto simp: is_adapter_error_def split: py_error.splits)
      with go sim Inl j show ?thesis unfolding unf by simp
    next
      case (Inr r)
      show ?thesis
      proof (cases "rsp_content r = None \<or> rsp_content r = Some []")
        case True
        with go sim Inr j show ?thesis unfolding unf by auto
      next
        case False
        then obtain ch chs where content: "rsp_content r = Some (ch # chs)"
          by (cases "rsp_content r"; cases "the (rsp_content r)") auto
        let ?s = "s\<lparr>th_history := th_history s @ [simulated_message (ch # chs)]\<rparr>"
        obtain x s1 where x: "run_turn te p ?s = (Inr x, s1)" "th_executor s1 = th_executor s"
          using run_turn_plain [of te ?s p] "1.prems"(1) by auto
        show ?thesis
        proof (cases "rr_error x = None")
          case False
          with go sim Inr content x j show ?thesis unfolding unf by simp
        next
          case True
          have "\<exists>u' cost' emitted' s'. run_simulator_phase te (p + 1) (cost + rsp_cost_usd r) (emitted + 1) u1 s1 =
              (Inr (u', cost', emitted'), s') \<and> th_executor s' = th_executor s1 \<and> judge_ok u'"
            by (rule "1.IH" [OF refl _ sim [symmetric] Inr content refl x(1) [symmetric] refl _ _ j]) (use go True x(2) "1.prems"(1) in auto)
          with go sim Inr content x True show ?thesis unfolding unf by simp
        qed
      qed
    qed
  qed
qed

definition sim_ok :: "UserSimulator option \<Rightarrow> bool" where
  "sim_ok sim = (case sim of None \<Rightarrow> True | Some u \<Rightarrow> judge_ok u)"

lemma run_thread_plain:
  assumes "thread_ok te (cl_executor cl)" "sim_ok (cl_simulator cl)"
  obtains cl' where "run_thread te scripted b bs cl = (Inr (), cl')" "cl_executor cl' = cl_executor cl" "sim_ok (cl_simulator cl')"
proof -
  let ?start = "\<lparr>th_executor = cl_executor cl, th_history = [], th_results = cl_results cl\<rparr>"
  let ?sim = "map_option reset (cl_simulator cl)"
  have sim: "sim_ok ?sim" using assms(2) by (auto simp: sim_ok_def judge_ok_def reset_def split: option.splits)
  obtain r s where s: "run_scripted_turns te scripted 0 b bs ?start = (Inr r, s)" "th_executor s = cl_executor cl"
    using scripted_turns_plain [of te ?start scripted 0 b bs] assms(1) by auto
  show thesis
  proof (cases "rr_error r = None \<and> ?sim \<noteq> None")
    case False
    with s have "run_thread te scripted b bs cl = (Inr (), cl\<lparr>cl_executor := th_executor s, cl_simulator := ?sim, cl_results := th_results s\<rparr>)"
      by (auto simp: run_thread_def Let_def split: option.splits)
    then show thesis by (rule that) (simp_all add: s sim)
  next
    case True
    then obtain u0 where u: "cl_simulator cl = Some u0" "rr_error r = None" by auto
    have "judge_ok (reset u0)" using sim u(1) by (simp add: sim_ok_def)
    then obtain u' cost emitted s' where ph:
      "run_simulator_phase te (length (b # bs)) 0 0 (reset u0) s = (Inr (u', cost, emitted), s')"
      "th_executor s' = th_executor s" "judge_ok u'"
      using simulator_phase_plain [of te s "reset u0" "length (b # bs)" 0 0] assms(1) s(2) by auto
    have "run_thread te scripted b bs cl = (Inr (), cl\<lparr>cl_executor := th_executor s', cl_simulator := Some u',
        cl_results := th_results s', cl_cost := cl_cost cl + cost, cl_turns := cl_turns cl + emitted\<rparr>)"
      using s(1) u ph(1) by (simp add: run_thread_def Let_def del: run_scripted_turns.simps)
    then show thesis by (rule that) (use s(2) ph in \<open>simp_all add: sim_ok_def\<close>)
  qed
qed

lemma run_threads_plain:
  assumes "\<And>rep. thread_ok (env rep) (cl_executor cl)" "sim_ok (cl_simulator cl)"
  shows "\<exists>cl'. run_threads (\<lambda>rep. run_thread (env rep) scripted b bs) reps cl = (Inr (), cl') \<and> cl_executor cl' = cl_executor cl"
  using assms
proof (induction reps arbitrary: cl)
  case Nil
  then show ?case by (simp add: return_exec_def)
next
  case (Cons rep reps)
  obtain cl1 where "run_thread (env rep) scripted b bs cl = (Inr (), cl1)" "cl_executor cl1 = cl_executor cl" "sim_ok (cl_simulator cl1)"
    using run_thread_plain [OF Cons.prems(1) [of rep] Cons.prems(2)] by blast
  with Cons.IH [of cl1] Cons.prems(1) show ?case by (simp add: bind_exec_def)
qed

lemma run_conversation_plain:
  assumes "1 \<le> n" "conversation c = Inr ci" "list_ex driving (ci_messages ci)" "declared_spec_ok c sim = Inr ()"
    and "\<And>rep p. repetition_env_ok (envs rep p)" "ex_workspace_id ex \<noteq> []" "dict_get overrides ''agent'' JNull = JNull"
    and "\<And>run inp. plain_turn wd ex c overrides run inp" "sim_ok sim"
  shows "\<exists>cr. run_conversation wd envs threads cx c n overrides sim ex = (Inr cr, ex)"
proof -
  have conv: "is_conversation c" using assms(2) by (auto simp: conversation_def split: if_splits)
  have "length (turn_boundaries (ci_messages ci)) \<noteq> 0"
    using boundaries_count [of 0 0 "ci_messages ci"] assms(3) by (auto simp: turn_boundaries_def list_ex_iff filter_empty_conv)
  then obtain b bs where b: "turn_boundaries (ci_messages ci) = b # bs" by (cases "turn_boundaries (ci_messages ci)") auto
  obtain ref where ref: "agent_ref wd [] ex = (Inr ref, ex)"
    by (simp add: agent_ref_def adapter_for_def bind_exec_def return_exec_def)
  have "thread_ok (thread_env wd envs threads cx c ref overrides rep) ex" for rep
    using assms(5-8) by (simp add: thread_ok_def thread_env_def)
  then obtain cl where "run_threads (\<lambda>rep. run_thread (thread_env wd envs threads cx c ref overrides rep) (ci_messages ci) b bs)
      [0..<nat n] \<lparr>cl_executor = ex, cl_simulator = sim, cl_results = [], cl_cost = 0, cl_turns = 0\<rparr> = (Inr (), cl)"
    "cl_executor cl = ex"
    using run_threads_plain [where env = "\<lambda>rep. thread_env wd envs threads cx c ref overrides rep"
        and cl = "\<lparr>cl_executor = ex, cl_simulator = sim, cl_results = [], cl_cost = 0, cl_turns = 0\<rparr>"] assms(9)
    by fastforce
  then show ?thesis
    using assms(1,2,4) conv b ref by (simp add: run_conversation_def bind_exec_def lift_result_def)
qed

subsection \<open>A failing simulator\<close>

text \<open>A simulated user whose adapter fails ends the thread without a trace of it: no turn, no error, no cost.\<close>

lemma simulator_failure_silent:
  assumes "us_judge u = Some judge" "\<And>req. judge req = Inl (AdapterError a b)" "length (us_scripted u) \<le> us_turns_emitted u"
    and "int (us_turns_emitted u) < ss_max_turns (us_spec u)"
  shows "run_simulator_phase te p cost emitted u s = (Inr (u, cost, emitted), s)"
  using assms by (simp add: run_simulator_phase.simps [of te p cost emitted u s] simulate_def Let_def)

subsection \<open>The properties\<close>

text \<open>The turns of a conversation partition its script up to the last user or tool message: in order,
  each is a run of other messages closed by one user or tool message, and what is left over has none.\<close>

theorem turns_partition:
  "\<exists>rest. ms = concat (map (\<lambda>b. slice b ms) (turn_boundaries ms)) @ rest \<and> list_all (\<lambda>m. \<not> driving m) rest \<and>
     list_all (\<lambda>b. turn_shaped (slice b ms)) (turn_boundaries ms)"
  by (rule turns_partition_aux)

definition demo_dialogue :: EvalCase where
  "demo_dialogue = (sample_case ''ec_1'' False)\<lparr>ec_input := [(''messages'',
     JList [JObj [(''role'', JStr ''user''), (''content'', JStr ''hi'')]])]\<rparr>"

definition demo_simulator :: UserSimulator where
  "demo_simulator = \<lparr>us_spec = \<lparr>ss_persona = ''p'', ss_goal = ''g'', ss_success_criteria = [], ss_stop_condition = None,
     ss_max_turns = 2\<rparr>, us_scripted = [''and?'', ''thanks''], us_judge = None, us_turns_emitted = 0\<rparr>"

definition demo_context :: RunContext where
  "demo_context = \<lparr>cx_experiment_id = None, cx_iteration = None, cx_variant_id = None\<rparr>"

definition demo_message :: Message where
  "demo_message = \<lparr>ms_role = MessageRole.USER, ms_content = TextContent ''hi'', ms_name = None\<rparr>"

lemma demo_conversation: "conversation demo_dialogue = Inr \<lparr>ci_messages = [demo_message], ci_extra = []\<rparr>"
proof -
  have "enum_of MessageRole_value MessageRole_members ''user'' = Inr MessageRole.USER" by code_simp
  then show ?thesis
    by (simp add: conversation_def is_conversation_def demo_dialogue_def dict_keys_def parse_ConversationInput_def
        parse_Message_def parse_content_def at_least_one_non_assistant_def demo_message_def)
qed

lemma demo_plain_turn: "plain_turn (demo_world ([], Inr demo_answer)) demo_executor demo_dialogue [] run inp"
  using demo_answer_ok
  by (simp add: plain_turn_def demo_world_def Let_def answer_ok_def make_request_def extract_system_prompt_def tools_allowed_def
      demo_dialogue_def sample_case_def default_Expected_def)

lemma demo_declared: "declared_spec_ok demo_dialogue sim = Inr ()"
  by (simp add: declared_spec_ok_def demo_dialogue_def dict_keys_def)

lemma demo_executor_workspace: "ex_workspace_id demo_executor \<noteq> []"
  by (simp add: demo_executor_def)

lemma demo_sim_ok: "sim_ok (Some demo_simulator)"
  by (simp add: sim_ok_def judge_ok_def demo_simulator_def)

lemma demo_run: "\<exists>cr. run_conversation (demo_world ([], Inr demo_answer)) (\<lambda>rep. demo_env) (\<lambda>rep. replicate (Suc rep) CHR ''t'')
    demo_context demo_dialogue 2 [] (Some demo_simulator) demo_executor = (Inr cr, demo_executor)"
  by (rule run_conversation_plain [OF _ demo_conversation _ demo_declared])
    (simp_all add: demo_env_ok demo_plain_turn demo_sim_ok driving_def demo_message_def demo_executor_workspace)



text \<open>A conversation run is one thread per repetition, in order: each a run of consecutive turns from
  position 0 that share the thread, of which only the last may have failed, and never longer than
  the scripted turns plus the cap of the simulated user.  The simulated turns it reports are those
  beyond the script.\<close>

theorem conversation_threads:
  assumes "run_conversation wd envs threads cx c n overrides sim ex = (Inr cr, ex')"
  shows "\<exists>ci ref rss. conversation c = Inr ci \<and> cn_repetitions cr = concat rss \<and>
    list_all2 (\<lambda>rep rs. turn_run (thread_env wd envs threads cx c ref overrides rep) 0 rs \<and> rs \<noteq> [] \<and>
       length rs \<le> length (filter driving (ci_messages ci)) + cap_of sim) [0..<nat n] rss \<and>
    cn_simulator_turns cr = sum_list (map (\<lambda>rs. length rs - length (filter driving (ci_messages ci))) rss)"
  by (rule run_conversation_aux [OF assms]) blast

theorem conversation_threads_witness:
  "\<exists>cr rss. run_conversation (demo_world ([], Inr demo_answer)) (\<lambda>rep. demo_env) (\<lambda>rep. replicate (Suc rep) CHR ''t'')
      demo_context demo_dialogue 2 [] (Some demo_simulator) demo_executor = (Inr cr, demo_executor) \<and>
    cn_repetitions cr = concat rss \<and> length rss = 2 \<and> list_all (\<lambda>rs. length rs \<le> 3) rss"
proof -
  obtain cr where cr: "run_conversation (demo_world ([], Inr demo_answer)) (\<lambda>rep. demo_env) (\<lambda>rep. replicate (Suc rep) CHR ''t'')
      demo_context demo_dialogue 2 [] (Some demo_simulator) demo_executor = (Inr cr, demo_executor)"
    using demo_run by blast
  obtain ref rss where rss: "cn_repetitions cr = concat rss"
    "list_all2 (\<lambda>rep rs. turn_run (thread_env (demo_world ([], Inr demo_answer)) (\<lambda>rep. demo_env)
        (\<lambda>rep. replicate (Suc rep) CHR ''t'') demo_context demo_dialogue ref [] rep) 0 rs \<and> rs \<noteq> [] \<and>
      length rs \<le> length (filter driving [demo_message]) + cap_of (Some demo_simulator)) [0..<nat 2] rss"
    using conversation_threads [OF cr] unfolding demo_conversation by auto
  have "length (filter driving [demo_message]) + cap_of (Some demo_simulator) = 3"
    by (simp add: driving_def demo_message_def cap_of_def demo_simulator_def)
  with rss(2) have "length rss = 2" "list_all (\<lambda>rs. length rs \<le> 3) rss"
    by (auto simp: list_all2_conv_all_nth list_all_length)
  with cr rss(1) show ?thesis by blast
qed

lemma thread_of_turns:
  "turn_run te p rs \<Longrightarrow> te_thread_id te \<noteq> [] \<Longrightarrow> r \<in> set rs \<Longrightarrow> thread_of r = te_thread_id te"
  by (induction rs arbitrary: p) (auto simp: thread_of_def turn_info_def run_info_for_def)

text \<open>The turns of a conversation collapse to exactly one graded repetition for each repetition asked
  for, when the identifiers of the threads are distinct.\<close>

theorem conversation_collapses:
  assumes "run_conversation wd envs threads cx c n overrides sim ex = (Inr cr, ex')"
    and "inj threads" "\<And>rep. threads rep \<noteq> []" "collapse_conversation_turns cr grades = Inr (cr', grades')"
  shows "length (cn_repetitions cr') = nat n"
proof (rule run_conversation_aux [OF assms(1)])
  fix ci ref rss
  assume cr: "cn_repetitions cr = concat rss"
    and rss: "list_all2 (\<lambda>rep rs. turn_run (thread_env wd envs threads cx c ref overrides rep) 0 rs \<and> rs \<noteq> [] \<and>
       length rs \<le> length (filter driving (ci_messages ci)) + cap_of sim) [0..<nat n] rss"
  have len: "length rss = nat n" using rss by (auto dest: list_all2_lengthD)
  have one: "thread_of ` set (rss ! i) = {threads i}" if "i < nat n" for i
  proof -
    have r: "turn_run (thread_env wd envs threads cx c ref overrides i) 0 (rss ! i)" "rss ! i \<noteq> []"
      using rss that by (auto simp: list_all2_conv_all_nth)
    then have "thread_of r = threads i" if "r \<in> set (rss ! i)" for r
      using thread_of_turns [OF r(1) _ that] assms(3) by (simp add: thread_env_def)
    with r(2) show ?thesis by (cases "rss ! i") auto
  qed
  have nths: "set rss = (!) rss ` {..<nat n}" using len by (auto simp: set_conv_nth)
  have "thread_of ` set (cn_repetitions cr) = (\<Union>i < nat n. thread_of ` set (rss ! i))"
    by (simp add: cr nths image_UN)
  also have "\<dots> = threads ` {..<nat n}" using one by auto
  finally show ?thesis
    using collapse_count [OF assms(4)] assms(2) by (simp add: card_image inj_on_def)
qed

theorem conversation_collapses_witness:
  "\<exists>cr cr' grades'. run_conversation (demo_world ([], Inr demo_answer)) (\<lambda>rep. demo_env) (\<lambda>rep. replicate (Suc rep) CHR ''t'')
      demo_context demo_dialogue 2 [] (Some demo_simulator) demo_executor = (Inr cr, demo_executor) \<and>
    collapse_conversation_turns cr (replicate (length (cn_repetitions cr)) []) = Inr (cr', grades') \<and> length (cn_repetitions cr') = 2"
proof -
  obtain cr where cr: "run_conversation (demo_world ([], Inr demo_answer)) (\<lambda>rep. demo_env) (\<lambda>rep. replicate (Suc rep) CHR ''t'')
      demo_context demo_dialogue 2 [] (Some demo_simulator) demo_executor = (Inr cr, demo_executor)"
    using demo_run by blast
  obtain cr' grades' where c: "collapse_conversation_turns cr (replicate (length (cn_repetitions cr)) []) = Inr (cr', grades')"
    by (simp add: collapse_conversation_turns_def Let_def)
  have "inj (\<lambda>rep. replicate (Suc rep) CHR ''t'')" by (rule injI) (auto dest: arg_cong [of _ _ length])
  with conversation_collapses [OF cr _ _ c] cr c show ?thesis by auto
qed

end
