(* ===== verification/Throttle.thy ===== *)
theory Throttle
  imports Run_Jobs
begin

section \<open>runner/throttle.py and runner/redis\_throttle.py\<close>

text \<open>
  Two token buckets with one contract.  An attempt to take tokens happens at a moment: it refills
  the bucket, and either takes the tokens or says how long to wait.  The attempts of concurrent
  callers interleave in any order; the lock of the one and the atomicity of the script of the other
  make each attempt one step.  The clock, and whether Redis can be reached, are arguments.  That an
  idle key of Redis expires is left out.
\<close>

definition epsilon :: rat where
  "epsilon = 1 / 1000000000"

subsection \<open>The bucket of one process\<close>

record AsyncTokenBucket =
  atb_rate :: rat
  atb_capacity :: rat
  atb_tokens :: rat
  atb_updated :: rat

definition make_AsyncTokenBucket :: "rat \<Rightarrow> rat \<Rightarrow> rat \<Rightarrow> AsyncTokenBucket result" where
  "make_AsyncTokenBucket rate capacity now =
     (if rate \<le> 0 then Inl ValueError
      else if capacity \<le> 0 then Inl ValueError
      else Inr \<lparr>atb_rate = rate, atb_capacity = capacity, atb_tokens = capacity, atb_updated = now\<rparr>)"

text \<open>One round of the loop of \<^verbatim>\<open>acquire\<close>: no wait when the tokens were taken.\<close>

definition async_attempt :: "rat \<Rightarrow> rat \<Rightarrow> AsyncTokenBucket \<Rightarrow> rat option \<times> AsyncTokenBucket" where
  "async_attempt now n b =
     (let available = min (atb_capacity b) (atb_tokens b + (now - atb_updated b) * atb_rate b);
          b1 = b\<lparr>atb_tokens := available, atb_updated := now\<rparr>
      in if n - epsilon \<le> available then (None, b1\<lparr>atb_tokens := available - n\<rparr>)
         else (Some ((n - available) / atb_rate b), b1))"

subsection \<open>The bucket in Redis\<close>

record RedisTokenBucket =
  rtb_rate :: rat
  rtb_capacity :: rat
  rtb_state :: "(rat \<times> int) option"

definition make_RedisTokenBucket :: "rat \<Rightarrow> rat \<Rightarrow> RedisTokenBucket result" where
  "make_RedisTokenBucket rate capacity =
     (if rate \<le> 0 then Inl ValueError
      else if capacity \<le> 0 then Inl ValueError
      else Inr \<lparr>rtb_rate = rate, rtb_capacity = capacity, rtb_state = None\<rparr>)"

text \<open>The script, at a time of the server in milliseconds; it answers the milliseconds to wait.\<close>

definition lua_bucket :: "int \<Rightarrow> rat \<Rightarrow> RedisTokenBucket \<Rightarrow> int \<times> RedisTokenBucket" where
  "lua_bucket now n b =
     (let (tokens, last_ms) = (case rtb_state b of None \<Rightarrow> (rtb_capacity b, now) | Some s \<Rightarrow> s);
          elapsed = (if now < last_ms then 0 else of_int (now - last_ms) / 1000);
          available = min (rtb_capacity b) (tokens + elapsed * rtb_rate b)
      in if n - epsilon \<le> available then (0, b\<lparr>rtb_state := Some (available - n, now)\<rparr>)
         else (\<lceil>(n - available) / rtb_rate b * 1000\<rceil>, b\<lparr>rtb_state := Some (available, now)\<rparr>))"

text \<open>One round of \<^verbatim>\<open>RedisTokenBucket.acquire\<close>: the script, or an open failure when Redis is away.\<close>

definition redis_attempt :: "bool \<Rightarrow> bool \<Rightarrow> int \<Rightarrow> rat \<Rightarrow> (RedisTokenBucket, rat option) exec" where
  "redis_attempt reachable fail_open now n b =
     (if reachable
      then (case lua_bucket now n b of (w, b') \<Rightarrow> (Inr (if w \<le> 0 then None else Some (of_int w / 1000)), b'))
      else if fail_open then (Inr None, b)
      else (Inl RuntimeError, b))"

definition redis_step :: "int \<Rightarrow> rat \<Rightarrow> RedisTokenBucket \<Rightarrow> rat option \<times> RedisTokenBucket" where
  "redis_step now n b = (case lua_bucket now n b of (w, b') \<Rightarrow> (if w \<le> 0 then None else Some (of_int w / 1000), b'))"

subsection \<open>Acquiring\<close>

text \<open>A caller that wakes at the given moments, until it has its tokens; the waits it was told.\<close>

fun acquire :: "('t \<Rightarrow> rat \<Rightarrow> 's \<Rightarrow> rat option \<times> 's) \<Rightarrow> rat \<Rightarrow> 't list \<Rightarrow> 's \<Rightarrow> bool \<times> rat list \<times> 's" where
  "acquire attempt n [] s = (False, [], s)"
| "acquire attempt n (t # ts) s = (case attempt t n s of
     (None, s') \<Rightarrow> (True, [], s')
   | (Some w, s') \<Rightarrow> (case acquire attempt n ts s' of (done, ws, s'') \<Rightarrow> (done, w # ws, s'')))"

text \<open>
  \<^verbatim>\<open>RedisTokenBucket.acquire\<close>: at most \<open>MAX_ACQUIRE_ATTEMPTS\<close> rounds, each at its own server time and with Redis
  reachable or not; the waits it slept.  A caller whose rounds are used up goes on without tokens.
\<close>

definition MAX_ACQUIRE_ATTEMPTS :: nat where
  "MAX_ACQUIRE_ATTEMPTS = 10000"

fun redis_rounds :: "nat \<Rightarrow> bool \<Rightarrow> (nat \<Rightarrow> bool \<times> int) \<Rightarrow> rat \<Rightarrow> nat \<Rightarrow> (RedisTokenBucket, rat list) exec" where
  "redis_rounds 0 fail_open env n i b = (Inr [], b)"
| "redis_rounds (Suc k) fail_open env n i b = (case redis_attempt (fst (env i)) fail_open (snd (env i)) n b of
     (Inl e, b') \<Rightarrow> (Inl e, b')
   | (Inr None, b') \<Rightarrow> (Inr [], b')
   | (Inr (Some w), b') \<Rightarrow> (case redis_rounds k fail_open env n (i + 1) b' of
       (Inl e, b'') \<Rightarrow> (Inl e, b'')
     | (Inr ws, b'') \<Rightarrow> (Inr (w # ws), b'')))"

definition redis_acquire :: "bool \<Rightarrow> (nat \<Rightarrow> bool \<times> int) \<Rightarrow> rat \<Rightarrow> (RedisTokenBucket, rat list) exec" where
  "redis_acquire fail_open env n = redis_rounds MAX_ACQUIRE_ATTEMPTS fail_open env n 0"

text \<open>The attempts of all callers in the order they happen; the tokens they took together.\<close>

fun run_attempts :: "('t \<Rightarrow> rat \<Rightarrow> 's \<Rightarrow> rat option \<times> 's) \<Rightarrow> ('t \<times> rat) list \<Rightarrow> 's \<Rightarrow> rat \<times> 's" where
  "run_attempts attempt [] s = (0, s)"
| "run_attempts attempt ((t, n) # es) s = (case attempt t n s of (w, s') \<Rightarrow>
     (case run_attempts attempt es s' of (taken, s'') \<Rightarrow> (if w = None then n + taken else taken, s'')))"

subsection \<open>The adapter and the providers\<close>

text \<open>\<^verbatim>\<open>RateLimitedAdapter.invoke\<close>: one token, then the call.\<close>

definition limited_invoke :: "('s, unit) exec \<Rightarrow> ('s, 'a) exec \<Rightarrow> ('s, 'a) exec" where
  "limited_invoke take_token invoke = bind_exec take_token (\<lambda>_. invoke)"

definition bucket_for :: "(string option \<times> 'b) list \<Rightarrow> string option \<Rightarrow> 'b option" where
  "bucket_for buckets provider = (case map_of buckets provider of
     Some b \<Rightarrow> Some b | None \<Rightarrow> map_of buckets None)"

subsection \<open>The contract\<close>

text \<open>
  What both buckets promise, stated once: time passes in seconds; an attempt refills by the rate up
  to the capacity; it takes the tokens exactly when they are there up to \<open>epsilon\<close>, and otherwise names a
  wait after which they are.
\<close>

locale limiter =
  fixes attempt :: "'t \<Rightarrow> rat \<Rightarrow> 's \<Rightarrow> rat option \<times> 's" and secs :: "'t \<Rightarrow> rat" and ok :: "'s \<Rightarrow> bool"
    and tokens :: "'s \<Rightarrow> rat" and updated :: "'s \<Rightarrow> rat" and rate :: rat and capacity :: rat
  assumes ok_pos: "ok s \<Longrightarrow> 0 < rate \<and> 0 < capacity"
    and ok_tokens: "ok s \<Longrightarrow> - epsilon \<le> tokens s \<and> tokens s \<le> capacity"
    and attempt_step: "ok s \<Longrightarrow> updated s \<le> secs t \<Longrightarrow> 0 \<le> n \<Longrightarrow> attempt t n s = (w, s') \<Longrightarrow>
      ok s' \<and> updated s' = secs t \<and>
      (let available = min capacity (tokens s + (secs t - updated s) * rate)
       in (w = None \<longleftrightarrow> n - epsilon \<le> available) \<and> tokens s' = available - (if w = None then n else 0) \<and>
          (\<forall>d. w = Some d \<longrightarrow> n - available \<le> d * rate))"
begin

text \<open>Over any sequence of attempts the tokens taken are bounded by the capacity and the time.\<close>

lemma taken_balance:
  assumes "ok s" "sorted (map (\<lambda>e. secs (fst e)) es)" "list_all (\<lambda>e. updated s \<le> secs (fst e) \<and> 0 \<le> snd e) es"
    and "run_attempts attempt es s = (taken, s')"
  shows "ok s' \<and> updated s' = (if es = [] then updated s else secs (fst (last es))) \<and>
    taken + tokens s' \<le> tokens s + (updated s' - updated s) * rate"
  using assms
proof (induction es arbitrary: s taken)
  case Nil
  then show ?case by simp
next
  case (Cons e es)
  obtain t n where e: "e = (t, n)" by (cases e)
  obtain w s1 where w: "attempt t n s = (w, s1)" by (cases "attempt t n s")
  obtain tk s2 where r: "run_attempts attempt es s1 = (tk, s2)" by (cases "run_attempts attempt es s1")
  have step: "ok s1" "updated s1 = secs t"
    "tokens s1 = min capacity (tokens s + (secs t - updated s) * rate) - (if w = None then n else 0)"
    using attempt_step [OF Cons.prems(1) _ _ w] Cons.prems(3) by (auto simp: e Let_def)
  have "list_all (\<lambda>e. updated s1 \<le> secs (fst e) \<and> 0 \<le> snd e) es"
    using Cons.prems(2,3) by (auto simp: e step(2) list_all_iff)
  moreover have out: "taken = (if w = None then n + tk else tk)" "s' = s2" using Cons.prems(4) w r by (auto simp: e)
  ultimately have ih: "ok s2" "updated s2 = (if es = [] then updated s1 else secs (fst (last es)))"
    "tk + tokens s2 \<le> tokens s1 + (updated s2 - updated s1) * rate"
    using Cons.IH [OF step(1) _ _ r [folded out(2)]] Cons.prems(2) by auto
  have "taken + tokens s' \<le> min capacity (tokens s + (secs t - updated s) * rate) + (updated s2 - updated s1) * rate"
    using ih(3) step(3) by (auto simp: out)
  also have "\<dots> \<le> tokens s + (updated s2 - updated s) * rate"
    by (simp add: step(2) algebra_simps min_le_iff_disj)
  finally show ?case using ih(1,2) step(2) by (simp add: out e)
qed

lemma taken_bound:
  assumes "ok s" "sorted (map (\<lambda>e. secs (fst e)) es)" "list_all (\<lambda>e. updated s \<le> secs (fst e) \<and> 0 \<le> snd e) es"
    and "run_attempts attempt es s = (taken, s')"
  shows "taken \<le> capacity + epsilon + (updated s' - updated s) * rate"
proof -
  have "taken + tokens s' \<le> tokens s + (updated s' - updated s) * rate" "ok s'" using taken_balance [OF assms] by auto
  with ok_tokens [OF assms(1)] ok_tokens [of s'] show ?thesis by simp
qed

text \<open>A caller nobody overtakes has its tokens after one wait.\<close>

lemma second_attempt:
  assumes "ok s" "updated s \<le> secs t" "0 \<le> n" "n \<le> capacity" "attempt t n s = (Some d, s1)" "secs t + d \<le> secs t'"
  shows "\<exists>s2. attempt t' n s1 = (None, s2)"
proof -
  define a where "a = min capacity (tokens s + (secs t - updated s) * rate)"
  have s1: "ok s1" "updated s1 = secs t" "tokens s1 = a" "n - a \<le> d * rate" "\<not> n - epsilon \<le> a"
    using attempt_step [OF assms(1-3,5)] by (auto simp: Let_def a_def)
  have "0 \<le> d"
  proof (rule ccontr)
    assume "\<not> 0 \<le> d"
    then have "d * rate < 0" using ok_pos [OF assms(1)] by (simp add: mult_less_0_iff)
    with s1(4,5) show False by (simp add: epsilon_def)
  qed
  with assms(6) have le: "updated s1 \<le> secs t'" by (simp add: s1(2))
  obtain w s2 where w: "attempt t' n s1 = (w, s2)" by (cases "attempt t' n s1")
  have "d * rate \<le> (secs t' - secs t) * rate" using assms(6) ok_pos [OF assms(1)] by (intro mult_right_mono) auto
  with s1(4) have "n \<le> a + (secs t' - secs t) * rate" by simp
  with assms(4) have "n - epsilon \<le> min capacity (tokens s1 + (secs t' - updated s1) * rate)"
    by (simp add: s1(2,3) epsilon_def)
  with attempt_step [OF s1(1) le assms(3) w] have "w = None" by (simp add: Let_def)
  with w show ?thesis by blast
qed

text \<open>A caller that wants more than the capacity never has them.\<close>

lemma never:
  assumes "ok s" "sorted (map secs ts)" "list_all (\<lambda>t. updated s \<le> secs t) ts" "capacity + epsilon < n"
  shows "\<not> fst (acquire attempt n ts s)"
  using assms
proof (induction ts arbitrary: s)
  case (Cons t ts)
  have n: "0 \<le> n" using Cons.prems(4) ok_pos [OF Cons.prems(1)] by (simp add: epsilon_def)
  obtain w s1 where w: "attempt t n s = (w, s1)" by (cases "attempt t n s")
  have "updated s \<le> secs t" using Cons.prems(3) by simp
  from attempt_step [OF Cons.prems(1) this n w] Cons.prems(4)
  have "w \<noteq> None" and s1: "ok s1" "updated s1 = secs t" by (auto simp: Let_def)
  moreover have "list_all (\<lambda>t. updated s1 \<le> secs t) ts" using Cons.prems(2) s1(2) by (auto simp: list_all_iff)
  moreover note Cons.IH [OF s1(1) _ this Cons.prems(4)]
  ultimately show ?case using w Cons.prems(2) by (auto split: prod.splits)
qed simp

end

subsection \<open>Both buckets keep it\<close>

definition async_ok :: "rat \<Rightarrow> rat \<Rightarrow> AsyncTokenBucket \<Rightarrow> bool" where
  "async_ok rate capacity b \<longleftrightarrow> 0 < rate \<and> 0 < capacity \<and> atb_rate b = rate \<and> atb_capacity b = capacity \<and>
     - epsilon \<le> atb_tokens b \<and> atb_tokens b \<le> capacity"

lemma async_step:
  assumes "async_ok rate capacity s" "atb_updated s \<le> t" "0 \<le> n" "async_attempt t n s = (w, s')"
  shows "async_ok rate capacity s' \<and> atb_updated s' = t \<and>
    (let available = min capacity (atb_tokens s + (t - atb_updated s) * rate)
     in (w = None \<longleftrightarrow> n - epsilon \<le> available) \<and> atb_tokens s' = available - (if w = None then n else 0) \<and>
        (\<forall>d. w = Some d \<longrightarrow> n - available \<le> d * rate))"
proof -
  define a where "a = min capacity (atb_tokens s + (t - atb_updated s) * rate)"
  have r: "0 < rate" "atb_rate s = rate" "atb_capacity s = capacity" "- epsilon \<le> atb_tokens s" "0 < capacity"
    using assms(1) by (simp_all add: async_ok_def)
  have "0 \<le> (t - atb_updated s) * rate" using assms(2) r(1) by simp
  with r have a: "- epsilon \<le> a" "a \<le> capacity" by (auto simp: a_def epsilon_def)
  have "async_attempt t n s = (if n - epsilon \<le> a then (None, s\<lparr>atb_tokens := a - n, atb_updated := t\<rparr>)
      else (Some ((n - a) / rate), s\<lparr>atb_tokens := a, atb_updated := t\<rparr>))"
    by (simp add: async_attempt_def Let_def a_def r)
  with assms(1,3,4) a r(1) show ?thesis unfolding a_def [symmetric] Let_def
    by (auto simp: async_ok_def split: if_splits)
qed

definition redis_tokens :: "RedisTokenBucket \<Rightarrow> rat" where
  "redis_tokens b = (case rtb_state b of None \<Rightarrow> rtb_capacity b | Some (x, _) \<Rightarrow> x)"

definition redis_updated :: "RedisTokenBucket \<Rightarrow> rat" where
  "redis_updated b = (case rtb_state b of None \<Rightarrow> 0 | Some (_, ts) \<Rightarrow> of_int ts / 1000)"

definition redis_ok :: "rat \<Rightarrow> rat \<Rightarrow> RedisTokenBucket \<Rightarrow> bool" where
  "redis_ok rate capacity b \<longleftrightarrow> 0 < rate \<and> 0 < capacity \<and> rtb_rate b = rate \<and> rtb_capacity b = capacity \<and>
     - epsilon \<le> redis_tokens b \<and> redis_tokens b \<le> capacity"

lemma redis_step_contract:
  assumes "redis_ok rate capacity s" "redis_updated s \<le> of_int t / 1000" "0 \<le> n" "redis_step t n s = (w, s')"
  shows "redis_ok rate capacity s' \<and> redis_updated s' = of_int t / 1000 \<and>
    (let available = min capacity (redis_tokens s + (of_int t / 1000 - redis_updated s) * rate)
     in (w = None \<longleftrightarrow> n - epsilon \<le> available) \<and> redis_tokens s' = available - (if w = None then n else 0) \<and>
        (\<forall>d. w = Some d \<longrightarrow> n - available \<le> d * rate))"
proof -
  define a where "a = min capacity (redis_tokens s + (of_int t / 1000 - redis_updated s) * rate)"
  have r: "0 < rate" "rtb_rate s = rate" "rtb_capacity s = capacity" "- epsilon \<le> redis_tokens s" "0 < capacity"
    using assms(1) by (simp_all add: redis_ok_def)
  have pos: "0 \<le> (of_int t / 1000 - redis_updated s) * rate" using assms(2) r(1) by simp
  with r have a: "- epsilon \<le> a" "a \<le> capacity" by (auto simp: a_def epsilon_def)
  have lua: "lua_bucket t n s = (if n - epsilon \<le> a then (0, s\<lparr>rtb_state := Some (a - n, t)\<rparr>)
      else (\<lceil>(n - a) / rate * 1000\<rceil>, s\<lparr>rtb_state := Some (a, t)\<rparr>))"
  proof (cases "rtb_state s")
    case None
    then have "a = capacity" using pos r(3) by (simp add: a_def redis_tokens_def)
    with None r show ?thesis by (simp add: lua_bucket_def)
  next
    case (Some st)
    obtain x ts where st: "st = (x, ts)" by (cases st)
    have "ts \<le> t" using assms(2) Some st by (simp add: redis_updated_def)
    moreover have "a = min capacity (x + of_int (t - ts) / 1000 * rate)"
      using Some st by (simp add: a_def redis_tokens_def redis_updated_def diff_divide_distrib)
    ultimately show ?thesis using Some st r by (simp add: lua_bucket_def Let_def)
  qed
  have ceil: "n - a \<le> of_int \<lceil>(n - a) / rate * 1000\<rceil> / 1000 * rate"
  proof -
    have "(n - a) / rate * 1000 \<le> of_int \<lceil>(n - a) / rate * 1000\<rceil>" by (rule le_of_int_ceiling)
    then have "(n - a) / rate \<le> of_int \<lceil>(n - a) / rate * 1000\<rceil> / 1000" by simp
    then have "(n - a) / rate * rate \<le> of_int \<lceil>(n - a) / rate * 1000\<rceil> / 1000 * rate" using r(1) by (intro mult_right_mono) auto
    then show ?thesis using r(1) by simp
  qed
  show ?thesis
  proof (cases "n - epsilon \<le> a")
    case True
    with lua assms(4) have "w = None" "s' = s\<lparr>rtb_state := Some (a - n, t)\<rparr>" by (simp_all add: redis_step_def)
    with True assms(1,3) a show ?thesis unfolding a_def [symmetric] Let_def
      by (simp add: redis_ok_def redis_tokens_def redis_updated_def)
  next
    case False
    then have "0 < n - a" by (simp add: epsilon_def)
    then have "0 < (n - a) / rate * 1000" using r(1) by simp
    then have "\<not> \<lceil>(n - a) / rate * 1000\<rceil> \<le> 0" by simp
    with False lua assms(4) have w: "w = Some (of_int \<lceil>(n - a) / rate * 1000\<rceil> / 1000)" "s' = s\<lparr>rtb_state := Some (a, t)\<rparr>"
      by (simp_all add: redis_step_def)
    then have "redis_ok rate capacity s' \<and> redis_updated s' = of_int t / 1000 \<and> redis_tokens s' = a"
      using assms(1) a by (simp add: redis_ok_def redis_tokens_def redis_updated_def)
    moreover have "\<forall>d. w = Some d \<longrightarrow> n - a \<le> d * rate" using ceil by (simp only: w option.inject) blast
    ultimately show ?thesis unfolding a_def [symmetric] Let_def using False w(1) by simp
  qed
qed

lemma make_async_ok: "make_AsyncTokenBucket rate capacity now = Inr b \<Longrightarrow> async_ok rate capacity b \<and> atb_updated b = now"
  by (auto simp: make_AsyncTokenBucket_def async_ok_def epsilon_def split: if_splits)

lemma make_redis_ok: "make_RedisTokenBucket rate capacity = Inr b \<Longrightarrow> redis_ok rate capacity b \<and> redis_updated b = 0"
  by (auto simp: make_RedisTokenBucket_def redis_ok_def redis_tokens_def redis_updated_def epsilon_def split: if_splits)

interpretation local_bucket: limiter async_attempt "\<lambda>t. t" "async_ok rate capacity" atb_tokens atb_updated rate capacity
  for rate capacity
  by unfold_locales ((rule async_step; assumption) | (simp add: async_ok_def; fail))+

interpretation shared_bucket: limiter redis_step "\<lambda>t. of_int t / 1000" "redis_ok rate capacity" redis_tokens redis_updated rate capacity
  for rate capacity
  by unfold_locales ((rule redis_step_contract; assumption) | (simp add: redis_ok_def; fail))+

subsection \<open>A clock that goes back\<close>

text \<open>When the clock of the server goes back, the script takes no tokens away; but it stores the earlier time,
  so the time until the clock is back where it was refills the bucket a second time.\<close>

lemma clock_back_refills_twice:
  "fst (run_attempts redis_step [(0, 1), (1000, 1), (0, 1), (1000, 1)] \<lparr>rtb_rate = 1, rtb_capacity = 1, rtb_state = None\<rparr>) = 3"
  by (simp add: redis_step_def lua_bucket_def epsilon_def)

end
