(* ===== verification/Retry.thy ===== *)
theory Retry
  imports Throttle Experiment_Schema
begin

section \<open>runner/retry.py and the wrapping of adapters (runner/launch/adapters.py)\<close>

text \<open>
  An adapter is a computation over a state of its own.  The retrying adapter runs it again after a
  transient failure, sleeping in between; its own state is the number of random draws so far and
  the sleeps.  The random generator is an argument, and so is the wait of the rate limiter.
\<close>

record RetryPolicy =
  rp_max_retries :: int
  rp_base_delay :: rat
  rp_max_delay :: rat
  rp_multiplier :: rat
  rp_jitter :: rat

definition default_RetryPolicy :: RetryPolicy where
  "default_RetryPolicy = \<lparr>rp_max_retries = 2, rp_base_delay = 1 / 2, rp_max_delay = 30, rp_multiplier = 2, rp_jitter = 1 / 2\<rparr>"

definition expo_delay :: "RetryPolicy \<Rightarrow> nat \<Rightarrow> rat" where
  "expo_delay p attempt = min (rp_max_delay p) (rp_base_delay p * rp_multiplier p ^ attempt)"

text \<open>\<^verbatim>\<open>_compute_delay\<close>, for a draw of the generator.\<close>

definition compute_delay :: "RetryPolicy \<Rightarrow> rat \<Rightarrow> nat \<Rightarrow> rat option \<Rightarrow> rat" where
  "compute_delay p draw attempt retry_after =
     (let expo = expo_delay p attempt;
          low = expo * (1 - rp_jitter p);
          delay = low + draw * (expo - low)
      in case retry_after of None \<Rightarrow> delay | Some r \<Rightarrow> min (rp_max_delay p) (max delay r))"

record 's Retrying =
  rg_inner :: 's
  rg_draws :: nat
  rg_sleeps :: "rat list"

function retry_loop ::
    "('s, 'a) exec \<Rightarrow> RetryPolicy \<Rightarrow> (nat \<Rightarrow> rat) \<Rightarrow> nat \<Rightarrow> ('s Retrying, 'a) exec" where
  "retry_loop invoke p draw attempt s =
     (case invoke (rg_inner s) of
        (Inr x, t) \<Rightarrow> (Inr x, s\<lparr>rg_inner := t\<rparr>)
      | (Inl e, t) \<Rightarrow>
          (case e of
             AdapterError retryable after \<Rightarrow>
               if \<not> retryable \<or> rp_max_retries p \<le> int attempt then (Inl e, s\<lparr>rg_inner := t\<rparr>)
               else retry_loop invoke p draw (attempt + 1)
                 (s\<lparr>rg_inner := t, rg_draws := rg_draws s + 1,
                    rg_sleeps := rg_sleeps s @ [compute_delay p (draw (rg_draws s)) attempt after]\<rparr>)
           | _ \<Rightarrow> (Inl e, s\<lparr>rg_inner := t\<rparr>)))"
  by pat_completeness auto
termination
  by (relation "measure (\<lambda>(invoke, p, draw, attempt, s). nat (rp_max_retries p) - attempt)") auto

declare retry_loop.simps [simp del]

definition retry_invoke :: "('s, 'a) exec \<Rightarrow> RetryPolicy \<Rightarrow> (nat \<Rightarrow> rat) \<Rightarrow> ('s Retrying, 'a) exec" where
  "retry_invoke invoke p draw = retry_loop invoke p draw 0"

subsection \<open>Wrapping an adapter\<close>

definition policy_of :: "RetrySpec \<Rightarrow> RetryPolicy" where
  "policy_of r = \<lparr>rp_max_retries = int (rs_max_retries r), rp_base_delay = rs_base_delay_seconds r,
     rp_max_delay = rs_max_delay_seconds r, rp_multiplier = rs_multiplier r, rp_jitter = rs_jitter r\<rparr>"

text \<open>The rate and the capacity of the bucket, when requests per minute are limited.\<close>

definition bucket_params :: "RateLimitSpec \<Rightarrow> (rat \<times> rat) option" where
  "bucket_params r = map_option (\<lambda>rpm. let rate = of_nat rpm / 60 in
     (rate, case rl_burst r of
        None \<Rightarrow> max 1 rate
      | Some b \<Rightarrow> if b \<noteq> 0 then of_nat b else max 1 rate)) (rl_requests_per_minute r)"

text \<open>The state of a wrapped adapter: its requests so far and the tokens taken for it.\<close>

record 's Wrapped =
  wr_retrying :: "'s Retrying"
  wr_tokens_taken :: nat

definition take_token :: "('s Wrapped, unit) exec" where
  "take_token w = (Inr (), w\<lparr>wr_tokens_taken := wr_tokens_taken w + 1\<rparr>)"

definition plain_invoke :: "('s, 'a) exec \<Rightarrow> ('s Retrying, 'a) exec" where
  "plain_invoke invoke s = (case invoke (rg_inner s) of (r, t) \<Rightarrow> (r, s\<lparr>rg_inner := t\<rparr>))"

definition on_retrying :: "('s Retrying, 'a) exec \<Rightarrow> ('s Wrapped, 'a) exec" where
  "on_retrying m w = (case m (wr_retrying w) of (r, s) \<Rightarrow> (r, w\<lparr>wr_retrying := s\<rparr>))"

definition wrap_resilience :: "RunSpec \<Rightarrow> (nat \<Rightarrow> rat) \<Rightarrow> ('s, 'a) exec \<Rightarrow> ('s Wrapped, 'a) exec" where
  "wrap_resilience run draw invoke =
     (let retried = on_retrying (if 0 < rs_max_retries (run_retry run)
            then retry_invoke invoke (policy_of (run_retry run)) draw else plain_invoke invoke)
      in if bucket_params (run_rate_limit run) = None then retried else limited_invoke take_token retried)"

subsection \<open>Delays\<close>

definition sane_policy :: "RetryPolicy \<Rightarrow> bool" where
  "sane_policy p \<longleftrightarrow> 0 \<le> rp_base_delay p \<and> 0 \<le> rp_max_delay p \<and> 0 \<le> rp_multiplier p \<and>
     0 \<le> rp_jitter p \<and> rp_jitter p \<le> 1"

lemma expo_bounds: "sane_policy p \<Longrightarrow> 0 \<le> expo_delay p n \<and> expo_delay p n \<le> rp_max_delay p"
  by (simp add: expo_delay_def sane_policy_def)

lemma compute_delay_aux:
  assumes "sane_policy p" "0 \<le> u" "u \<le> 1"
  shows "expo_delay p n * (1 - rp_jitter p) \<le> compute_delay p u n None"
    and "compute_delay p u n None \<le> expo_delay p n"
    and "0 \<le> compute_delay p u n after" and "compute_delay p u n after \<le> rp_max_delay p"
    and "after = Some r \<Longrightarrow> min (rp_max_delay p) r \<le> compute_delay p u n after"
proof -
  define e where "e = expo_delay p n"
  define low where "low = e * (1 - rp_jitter p)"
  have e: "0 \<le> e" "e \<le> rp_max_delay p" using expo_bounds [OF assms(1)] by (simp_all add: e_def)
  have "0 \<le> e * rp_jitter p" "0 \<le> low" using e(1) assms(1) by (simp_all add: sane_policy_def low_def)
  then have low: "0 \<le> low" "low \<le> e" by (simp_all add: low_def right_diff_distrib)
  have d: "low \<le> low + u * (e - low)" "low + u * (e - low) \<le> e"
  proof -
    show "low \<le> low + u * (e - low)" using assms(2) low(2) by simp
    have "u * (e - low) \<le> 1 * (e - low)" using assms(3) low(2) by (intro mult_right_mono) auto
    then show "low + u * (e - low) \<le> e" by simp
  qed
  have c: "compute_delay p u n None = low + u * (e - low)"
    by (simp add: compute_delay_def Let_def e_def low_def)
  show "expo_delay p n * (1 - rp_jitter p) \<le> compute_delay p u n None" "compute_delay p u n None \<le> expo_delay p n"
    using d by (simp_all add: c, simp_all add: low_def e_def)
  have s: "compute_delay p u n (Some r) = min (rp_max_delay p) (max (low + u * (e - low)) r)" for r
    by (simp add: compute_delay_def Let_def e_def low_def)
  show "0 \<le> compute_delay p u n after" "compute_delay p u n after \<le> rp_max_delay p"
    using d low e by (cases after; simp add: c s)+
  show "after = Some r \<Longrightarrow> min (rp_max_delay p) r \<le> compute_delay p u n after"
    by (simp add: s)
qed

subsection \<open>The loop against its outcomes\<close>

text \<open>An adapter that answers by a script: the outcome of its next call.\<close>

definition scripted :: "(nat \<Rightarrow> 'a result) \<Rightarrow> (nat, 'a) exec" where
  "scripted outcome n = (outcome n, n + 1)"

definition transient :: "'a result \<Rightarrow> bool" where
  "transient r = (case r of Inl (AdapterError retryable _) \<Rightarrow> retryable | _ \<Rightarrow> False)"

text \<open>The specification: the first outcome that is not transient, or the last one allowed.\<close>

definition first_settled :: "(nat \<Rightarrow> 'a result) \<Rightarrow> nat \<Rightarrow> nat" where
  "first_settled outcome k = (case find (\<lambda>i. \<not> transient (outcome i)) [0..<k] of None \<Rightarrow> k | Some i \<Rightarrow> i)"

lemma retry_loop_scripted:
  assumes "rg_inner s = attempt" "int attempt \<le> rp_max_retries p \<or> attempt = 0"
  shows "\<exists>j s'. retry_loop (scripted outcome) p draw attempt s = (outcome j, s') \<and> rg_inner s' = j + 1 \<and> attempt \<le> j \<and>
    (\<forall>i. attempt \<le> i \<longrightarrow> i < j \<longrightarrow> transient (outcome i)) \<and> (j = nat (rp_max_retries p) \<or> \<not> transient (outcome j)) \<and>
    j \<le> nat (rp_max_retries p) \<and> length (rg_sleeps s') = length (rg_sleeps s) + (j - attempt)"
  using assms
proof (induction "nat (rp_max_retries p) - attempt" arbitrary: attempt s)
  case 0
  then have last: "rp_max_retries p \<le> int attempt" "attempt = nat (rp_max_retries p)" by auto
  have "retry_loop (scripted outcome) p draw attempt s = (outcome attempt, s\<lparr>rg_inner := attempt + 1\<rparr>)"
    using 0(2) last(1) by (auto simp: retry_loop.simps [of _ p draw attempt s] scripted_def split: sum.splits py_error.splits)
  with last(2) show ?case by (intro exI [of _ attempt]) auto
next
  case (Suc m)
  then have more: "int attempt < rp_max_retries p" by simp
  show ?case
  proof (cases "transient (outcome attempt)")
    case False
    then have "retry_loop (scripted outcome) p draw attempt s = (outcome attempt, s\<lparr>rg_inner := attempt + 1\<rparr>)"
      using Suc.prems by (auto simp: retry_loop.simps [of _ p draw attempt s] scripted_def transient_def
          split: sum.splits py_error.splits)
    with False more show ?thesis by (intro exI [of _ attempt]) auto
  next
    case True
    then obtain after where o: "outcome attempt = Inl (AdapterError True after)"
      by (auto simp: transient_def split: sum.splits py_error.splits)
    define s1 where "s1 = s\<lparr>rg_inner := attempt + 1, rg_draws := rg_draws s + 1,
                    rg_sleeps := rg_sleeps s @ [compute_delay p (draw (rg_draws s)) attempt after]\<rparr>"
    have step: "retry_loop (scripted outcome) p draw attempt s = retry_loop (scripted outcome) p draw (attempt + 1) s1"
      using Suc.prems more by (simp add: retry_loop.simps [of _ p draw attempt s] scripted_def o s1_def)
    have "m = nat (rp_max_retries p) - (attempt + 1)" "rg_inner s1 = attempt + 1" "int (attempt + 1) \<le> rp_max_retries p"
      using Suc.hyps(2) more by (simp_all add: s1_def)
    from Suc.hyps(1) [OF this(1,2)] this(3) obtain j s' where j:
      "retry_loop (scripted outcome) p draw (attempt + 1) s1 = (outcome j, s')" "rg_inner s' = j + 1" "attempt + 1 \<le> j"
      "\<forall>i. attempt + 1 \<le> i \<longrightarrow> i < j \<longrightarrow> transient (outcome i)" "j = nat (rp_max_retries p) \<or> \<not> transient (outcome j)"
      "j \<le> nat (rp_max_retries p)" "length (rg_sleeps s') = length (rg_sleeps s1) + (j - (attempt + 1))"
      by blast
    have "transient (outcome i)" if "attempt \<le> i" "i < j" for i
      using that True j(4) by (cases "i = attempt") auto
    with j step show ?thesis by (intro exI [of _ j] exI [of _ s']) (auto simp: s1_def)
  qed
qed

lemma first_settled_eq:
  assumes "\<And>i. i < j \<Longrightarrow> transient (outcome i)" "j = k \<or> \<not> transient (outcome j)" "j \<le> k"
  shows "first_settled outcome k = j"
proof (cases "j = k")
  case True
  with assms(1) have "find (\<lambda>i. \<not> transient (outcome i)) [0..<k] = None" by (simp add: find_None_iff)
  with True show ?thesis by (simp add: first_settled_def)
next
  case False
  with assms have "find (\<lambda>i. \<not> transient (outcome i)) [0..<k] = Some j"
    by (auto simp: find_Some_iff intro!: exI [of _ j])
  then show ?thesis by (simp add: first_settled_def)
qed

lemma retry_invoke_aux:
  assumes "rg_inner s = 0"
  shows "\<exists>s'. retry_invoke (scripted outcome) p draw s = (outcome (first_settled outcome (nat (rp_max_retries p))), s') \<and>
    rg_inner s' = first_settled outcome (nat (rp_max_retries p)) + 1 \<and>
    length (rg_sleeps s') = length (rg_sleeps s) + first_settled outcome (nat (rp_max_retries p))"
proof -
  obtain j s' where j: "retry_loop (scripted outcome) p draw 0 s = (outcome j, s')" "rg_inner s' = j + 1"
    "\<And>i. i < j \<Longrightarrow> transient (outcome i)" "j = nat (rp_max_retries p) \<or> \<not> transient (outcome j)"
    "j \<le> nat (rp_max_retries p)" "length (rg_sleeps s') = length (rg_sleeps s) + j"
    using retry_loop_scripted [of s 0 p outcome draw] assms by auto
  have "first_settled outcome (nat (rp_max_retries p)) = j" by (rule first_settled_eq) (use j in auto)
  with j show ?thesis by (auto simp: retry_invoke_def)
qed

lemma first_settled_le: "first_settled outcome k \<le> k"
  by (auto simp: first_settled_def find_Some_iff split: option.splits)

subsection \<open>The bucket counts invocations, not requests\<close>

text \<open>
  The bucket is outermost: one token is taken for the whole of \<^verbatim>\<open>RetryingAdapter.invoke\<close>, which may send
  \<open>max_retries + 1\<close> requests.
\<close>

lemma wrapped_counts:
  assumes "rg_inner (wr_retrying w) = 0" "rl_requests_per_minute (run_rate_limit run) = Some rpm"
  shows "\<exists>w'. wrap_resilience run draw (scripted outcome) w =
      (outcome (first_settled outcome (rs_max_retries (run_retry run))), w') \<and>
    rg_inner (wr_retrying w') = first_settled outcome (rs_max_retries (run_retry run)) + 1 \<and>
    wr_tokens_taken w' = wr_tokens_taken w + 1"
proof -
  define w1 where "w1 = w\<lparr>wr_tokens_taken := wr_tokens_taken w + 1\<rparr>"
  have on: "bucket_params (run_rate_limit run) \<noteq> None" using assms(2) by (simp add: bucket_params_def)
  have w1: "wrap_resilience run draw (scripted outcome) w =
     on_retrying (if 0 < rs_max_retries (run_retry run)
        then retry_invoke (scripted outcome) (policy_of (run_retry run)) draw else plain_invoke (scripted outcome)) w1"
    using on by (simp only: wrap_resilience_def Let_def if_False) (simp add: limited_invoke_def bind_exec_def take_token_def w1_def)
  show ?thesis
  proof (cases "0 < rs_max_retries (run_retry run)")
    case True
    obtain s' where s': "retry_invoke (scripted outcome) (policy_of (run_retry run)) draw (wr_retrying w1) =
        (outcome (first_settled outcome (rs_max_retries (run_retry run))), s')"
      "rg_inner s' = first_settled outcome (rs_max_retries (run_retry run)) + 1"
      using retry_invoke_aux [of "wr_retrying w1" outcome "policy_of (run_retry run)" draw] assms(1)
      by (auto simp: w1_def policy_of_def)
    with True show ?thesis by (intro exI [of _ "w1\<lparr>wr_retrying := s'\<rparr>"]) (simp add: w1 on_retrying_def, simp add: w1_def)
  next
    case False
    then show ?thesis
      using assms(1) by (intro exI [of _ "w1\<lparr>wr_retrying := (wr_retrying w1)\<lparr>rg_inner := 1\<rparr>\<rparr>"])
        (simp add: w1 on_retrying_def plain_invoke_def scripted_def first_settled_def w1_def)
  qed
qed

subsection \<open>How long it sleeps\<close>

lemma retry_loop_sleeps:
  assumes "sane_policy p" "\<And>n. 0 \<le> draw n \<and> draw n \<le> 1" "retry_loop invoke p draw attempt s = (r, s')"
  shows "sum_list (rg_sleeps s') \<le> sum_list (rg_sleeps s) + of_nat (nat (rp_max_retries p) - attempt) * rp_max_delay p"
  using assms(3)
proof (induction "nat (rp_max_retries p) - attempt" arbitrary: attempt s)
  case 0
  then have "rp_max_retries p \<le> int attempt" by simp
  with 0 show ?case
    by (auto simp: retry_loop.simps [of _ p draw attempt s] split: prod.splits sum.splits py_error.splits if_splits)
next
  case (Suc m)
  have nonneg: "0 \<le> rp_max_delay p" using assms(1) by (simp add: sane_policy_def)
  obtain o' t where o: "invoke (rg_inner s) = (o', t)" by (cases "invoke (rg_inner s)")
  show ?case
  proof (cases "\<exists>after. o' = Inl (AdapterError True after)")
    case False
    then have "rg_sleeps s' = rg_sleeps s"
      using Suc.prems o by (auto simp: retry_loop.simps [of _ p draw attempt s] split: sum.splits py_error.splits if_splits)
    with nonneg show ?thesis by simp
  next
    case True
    then obtain after where a: "o' = Inl (AdapterError True after)" by blast
    define d where "d = compute_delay p (draw (rg_draws s)) attempt after"
    define s1 where "s1 = s\<lparr>rg_inner := t, rg_draws := rg_draws s + 1, rg_sleeps := rg_sleeps s @ [d]\<rparr>"
    have more: "int attempt < rp_max_retries p" using Suc.hyps(2) by simp
    have "retry_loop invoke p draw (attempt + 1) s1 = (r, s')"
      using Suc.prems o a more by (simp add: retry_loop.simps [of _ p draw attempt s] s1_def d_def)
    moreover have m: "m = nat (rp_max_retries p) - (attempt + 1)" using Suc.hyps(2) by simp
    ultimately have "sum_list (rg_sleeps s') \<le> sum_list (rg_sleeps s1) + of_nat m * rp_max_delay p"
      using Suc.hyps(1) [OF m] by (simp add: m [symmetric])
    moreover have "d \<le> rp_max_delay p" using compute_delay_aux(4) [OF assms(1)] assms(2) by (simp add: d_def)
    ultimately show ?thesis by (simp add: s1_def Suc.hyps(2) [symmetric] distrib_right)
  qed
qed

end
