(* ===== verification/Resilience_Properties.thy ===== *)
theory Resilience_Properties
  imports Retry Samples
begin

section \<open>Rate limits and retries\<close>

text \<open>What the two token buckets and the retrying adapter promise, over the facts of \<open>Throttle\<close> and \<open>Retry\<close>.\<close>

definition full_redis_bucket :: "rat \<Rightarrow> rat \<Rightarrow> RedisTokenBucket" where
  "full_redis_bucket rate capacity = \<lparr>rtb_rate = rate, rtb_capacity = capacity, rtb_state = None\<rparr>"



text \<open>A caller whose request fits the capacity waits at most once when nobody overtakes it: after the wait the
  bucket named, its next attempt has the tokens.  A request above the capacity is never served.\<close>

theorem one_wait_enough:
  assumes "redis_ok rate capacity s" "redis_updated s \<le> of_int t / 1000" "0 \<le> n" "n \<le> capacity"
    and "redis_step t n s = (Some d, s1)" "of_int t / 1000 + d \<le> of_int t' / 1000"
  shows "fst (redis_step t' n s1) = None"
  using shared_bucket.second_attempt [OF assms] by auto

theorem one_wait_enough_witness:
  "redis_step 0 1 \<lparr>rtb_rate = 2, rtb_capacity = 1, rtb_state = Some (0, 0)\<rparr> =
     (Some (1 / 2), \<lparr>rtb_rate = 2, rtb_capacity = 1, rtb_state = Some (0, 0)\<rparr>) \<and>
   fst (redis_step 500 1 \<lparr>rtb_rate = 2, rtb_capacity = 1, rtb_state = Some (0, 0)\<rparr>) = None"
proof
  show first: "redis_step 0 1 \<lparr>rtb_rate = 2, rtb_capacity = 1, rtb_state = Some (0, 0)\<rparr> =
     (Some (1 / 2), \<lparr>rtb_rate = 2, rtb_capacity = 1, rtb_state = Some (0, 0)\<rparr>)"
    by (simp add: redis_step_def lua_bucket_def epsilon_def)
  show "fst (redis_step 500 1 \<lparr>rtb_rate = 2, rtb_capacity = 1, rtb_state = Some (0, 0)\<rparr>) = None"
    by (rule one_wait_enough [OF _ _ _ _ first, of 2 1])
      (simp_all add: redis_ok_def redis_updated_def redis_tokens_def epsilon_def)
qed

text \<open>C26. The retrying adapter returns or raises exactly the first outcome of its inner adapter that is not a
  transient failure, or the last outcome it is allowed to ask for; it calls the inner adapter once
  more than it sleeps, and all its sleeps together are at most \<open>max_retries\<close> times the largest delay.\<close>

theorem retries_settle:
  assumes "sane_policy p" "\<And>n. 0 \<le> draw n \<and> draw n \<le> 1"
    and "retry_invoke (scripted outcome) p draw \<lparr>rg_inner = 0, rg_draws = 0, rg_sleeps = []\<rparr> = (r, s)"
  shows "r = outcome (first_settled outcome (nat (rp_max_retries p))) \<and>
    rg_inner s = length (rg_sleeps s) + 1 \<and> length (rg_sleeps s) \<le> nat (rp_max_retries p) \<and>
    sum_list (rg_sleeps s) \<le> of_nat (nat (rp_max_retries p)) * rp_max_delay p"
proof -
  let ?s0 = "\<lparr>rg_inner = 0, rg_draws = 0, rg_sleeps = []\<rparr>"
  have "rg_inner ?s0 = 0" by simp
  from retry_invoke_aux [OF this, of outcome p draw] assms(3)
  have "r = outcome (first_settled outcome (nat (rp_max_retries p)))" "rg_inner s = length (rg_sleeps s) + 1"
    "length (rg_sleeps s) \<le> nat (rp_max_retries p)"
    using first_settled_le [of outcome "nat (rp_max_retries p)"] by auto
  moreover have "sum_list (rg_sleeps s) \<le> of_nat (nat (rp_max_retries p)) * rp_max_delay p"
    using retry_loop_sleeps [OF assms(1) assms(2) assms(3) [unfolded retry_invoke_def]] by simp
  ultimately show ?thesis by simp
qed

definition flaky :: "nat \<Rightarrow> string result" where
  "flaky n = (if n < 2 then Inl (AdapterError True None) else Inr ''ok'')"

theorem retries_settle_witness:
  "\<exists>s. retry_invoke (scripted flaky) default_RetryPolicy (\<lambda>_. 1 / 2) \<lparr>rg_inner = 0, rg_draws = 0, rg_sleeps = []\<rparr> =
     (Inr ''ok'', s) \<and> rg_inner s = length (rg_sleeps s) + 1"
proof -
  let ?s0 = "\<lparr>rg_inner = 0, rg_draws = 0, rg_sleeps = []\<rparr> :: nat Retrying"
  obtain r s where rs: "retry_invoke (scripted flaky) default_RetryPolicy (\<lambda>_. 1 / 2) ?s0 = (r, s)"
    by (cases "retry_invoke (scripted flaky) default_RetryPolicy (\<lambda>_. 1 / 2) ?s0")
  have sane: "sane_policy default_RetryPolicy" by (simp add: sane_policy_def default_RetryPolicy_def)
  have "first_settled flaky (nat (rp_max_retries default_RetryPolicy)) = 2"
    by (simp add: first_settled_def default_RetryPolicy_def flaky_def transient_def upt_rec numeral_2_eq_2)
  with retries_settle [OF sane _ rs] have "r = Inr ''ok''" "rg_inner s = length (rg_sleeps s) + 1"
    by (simp_all add: flaky_def)
  with rs show ?thesis by auto
qed

text \<open>When requests per minute are limited, a wrapped adapter takes one token from its bucket for an
  invocation and may send up to \<open>max_retries + 1\<close> requests for it: a retry does not pass the bucket.\<close>

theorem retries_bypass_bucket:
  assumes "rg_inner (wr_retrying w) = 0" "rl_requests_per_minute (run_rate_limit run) = Some rpm"
    and "\<And>i. transient (outcome i)"
  shows "\<exists>w'. snd (wrap_resilience run draw (scripted outcome) w) = w' \<and>
    wr_tokens_taken w' = wr_tokens_taken w + 1 \<and> rg_inner (wr_retrying w') = rs_max_retries (run_retry run) + 1"
proof -
  have "first_settled outcome (rs_max_retries (run_retry run)) = rs_max_retries (run_retry run)"
    by (rule first_settled_eq) (simp_all add: assms(3))
  with wrapped_counts [OF assms(1,2), of draw outcome] show ?thesis by auto
qed

definition limited_run :: "RunSpec" where
  "limited_run = sample_run_spec\<lparr>run_retry := \<lparr>rs_max_retries = 2, rs_base_delay_seconds = 1 / 2,
       rs_max_delay_seconds = 30, rs_multiplier = 2, rs_jitter = 1 / 2\<rparr>,
     run_rate_limit := \<lparr>rl_requests_per_minute = Some 60, rl_burst = None\<rparr>\<rparr>"

theorem retries_bypass_bucket_witness:
  "\<exists>w'. snd (wrap_resilience limited_run (\<lambda>_. 0) (scripted (\<lambda>_. Inl (AdapterError True None) :: unit result))
      \<lparr>wr_retrying = \<lparr>rg_inner = 0, rg_draws = 0, rg_sleeps = []\<rparr>, wr_tokens_taken = 0\<rparr>) = w' \<and>
    wr_tokens_taken w' = 1 \<and> rg_inner (wr_retrying w') = 3"
  using retries_bypass_bucket [of "\<lparr>wr_retrying = \<lparr>rg_inner = 0, rg_draws = 0, rg_sleeps = []\<rparr>, wr_tokens_taken = 0\<rparr>"
      limited_run 60 "\<lambda>_. Inl (AdapterError True None) :: unit result" "\<lambda>_. 0"]
  by (simp add: limited_run_def transient_def)

end
