(* ===== verification/Compare.thy ===== *)
theory Compare
  imports Loop
begin

section \<open>reporter/compare.py and reporter/\_metrics.py\<close>

text \<open>
  The structured diff of two iteration records and its rendering line by line, and the totals of
  cost and time of a run.  How a number or a value prints is an argument of the rendering; the strings are the UTF-8
  bytes of the lines.
\<close>

subsection \<open>Flattened views of a record\<close>

definition dict_update :: "('k \<times> 'v) list \<Rightarrow> ('k \<times> 'v) list \<Rightarrow> ('k \<times> 'v) list" where
  "dict_update d kvs = foldl (\<lambda>d (k, v). AList.update k v d) d kvs"

definition dotted :: "string \<Rightarrow> string \<Rightarrow> string" where
  "dotted pre k = (if pre = [] then k else pre @ ''.'' @ k)"

fun flatten_into :: "string \<Rightarrow> json dict \<Rightarrow> json dict \<Rightarrow> json dict" where
  "flatten_into pre [] out = out"
| "flatten_into pre ((k, JObj inner) # params) out =
     flatten_into pre params (dict_update out (flatten_into (dotted pre k) inner []))"
| "flatten_into pre ((k, v) # params) out = flatten_into pre params (AList.update (dotted pre k) v out)"

definition flatten :: "json dict \<Rightarrow> json dict" where
  "flatten params = flatten_into [] params []"

definition metrics_map :: "IterationRecord \<Rightarrow> rat dict" where
  "metrics_map r = (case ir_metrics r of
     None \<Rightarrow> []
   | Some m \<Rightarrow> dict_update (dict_update [(mo_name (im_primary m), mo_value (im_primary m))]
       (map (\<lambda>g. (mo_name g, mo_value g)) (im_guardrails m))) (im_reliability m))"

definition failure_modes :: "IterationRecord \<Rightarrow> nat dict" where
  "failure_modes r = (case ir_metrics r of None \<Rightarrow> [] | Some m \<Rightarrow> im_failure_mode_counts m)"

text \<open>The walk of \<^verbatim>\<open>_funnel_map\<close>: a node before the nodes below its key \<^verbatim>\<open>children\<close>.\<close>

fun funnel_walk :: "string \<Rightarrow> json dict \<Rightarrow> rat dict \<Rightarrow> rat dict"
  and funnel_children :: "string \<Rightarrow> json dict \<Rightarrow> rat dict \<Rightarrow> rat dict" where
  "funnel_walk pre [] out = out"
| "funnel_walk pre ((key, JObj node) # nodes) out =
     (let p = dotted pre key;
          out1 = (case json_num (dict_get node ''mean_score'' JNull) of None \<Rightarrow> out | Some q \<Rightarrow> AList.update p q out)
      in funnel_walk pre nodes (funnel_children p node out1))"
| "funnel_walk pre (_ # nodes) out = funnel_walk pre nodes out"
| "funnel_children p [] out = out"
| "funnel_children p ((k, JObj c) # fs) out =
     (if k = ''children'' then funnel_walk p c out else funnel_children p fs out)"
| "funnel_children p ((k, v) # fs) out = (if k = ''children'' then out else funnel_children p fs out)"

definition funnel_map :: "IterationRecord \<Rightarrow> rat dict" where
  "funnel_map r = (case ir_metrics r of None \<Rightarrow> [] | Some m \<Rightarrow> funnel_walk [] (im_funnel m) [])"

subsection \<open>The structured diff\<close>

record ParamDiffRow =
  pd_key :: string
  pd_a :: "json option"
  pd_b :: "json option"
  pd_changed :: bool

record MetricDiffRow =
  md_name :: string
  md_a :: "rat option"
  md_b :: "rat option"
  md_delta :: "rat option"

record FailureModesDiff =
  fd_only_a :: "nat dict"
  fd_only_b :: "nat dict"
  fd_common :: "(nat \<times> nat) dict"

datatype Kind = WinnerKind | TieKind | DifferentMetricKind | NoneKind
datatype Side = SideA | SideB

record Recommendation =
  rc_kind :: Kind
  rc_winner :: "Side option"
  rc_metric_name :: "string option"
  rc_a_metric_name :: "string option"
  rc_b_metric_name :: "string option"
  rc_a_value :: "rat option"
  rc_b_value :: "rat option"
  rc_delta :: "rat option"
  rc_new_failure_modes :: "string list"

record CompareResult =
  cm_a_id :: string
  cm_b_id :: string
  cm_a_iteration :: nat
  cm_b_iteration :: nat
  cm_a_created_at :: timestamp
  cm_b_created_at :: timestamp
  cm_a_decision :: "DecisionOutcome option"
  cm_b_decision :: "DecisionOutcome option"
  cm_proposal_diff :: "ParamDiffRow list"
  cm_metrics_diff :: "MetricDiffRow list"
  cm_failure_modes :: FailureModesDiff
  cm_funnel_diff :: "MetricDiffRow list"
  cm_recommendation :: Recommendation

definition union_keys :: "(string \<times> 'a) list \<Rightarrow> (string \<times> 'b) list \<Rightarrow> string list" where
  "union_keys a b = sorted_set (map fst a @ map fst b)"

definition compute_proposal_diff :: "json dict \<Rightarrow> json dict \<Rightarrow> ParamDiffRow list" where
  "compute_proposal_diff a b = map (\<lambda>k. \<lparr>pd_key = k, pd_a = map_of a k, pd_b = map_of b k,
     pd_changed = (\<not> py_eq (dict_get a k JNull) (dict_get b k JNull))\<rparr>) (union_keys a b)"

definition diff_row :: "rat dict \<Rightarrow> rat dict \<Rightarrow> string \<Rightarrow> MetricDiffRow" where
  "diff_row a b k = \<lparr>md_name = k, md_a = map_of a k, md_b = map_of b k,
     md_delta = (case (map_of a k, map_of b k) of (Some x, Some y) \<Rightarrow> Some (y - x) | _ \<Rightarrow> None)\<rparr>"

definition compute_metrics_diff :: "rat dict \<Rightarrow> rat dict \<Rightarrow> MetricDiffRow list" where
  "compute_metrics_diff a b = map (diff_row a b) (union_keys a b)"

definition compute_failure_modes :: "nat dict \<Rightarrow> nat dict \<Rightarrow> FailureModesDiff" where
  "compute_failure_modes a b =
     \<lparr>fd_only_a = map (\<lambda>m. (m, dict_get a m 0)) (sorted_set (filter (\<lambda>m. m \<notin> set (map fst b)) (map fst a))),
      fd_only_b = map (\<lambda>m. (m, dict_get b m 0)) (sorted_set (filter (\<lambda>m. m \<notin> set (map fst a)) (map fst b))),
      fd_common = map (\<lambda>m. (m, (dict_get a m 0, dict_get b m 0)))
        (sorted_set (filter (\<lambda>m. m \<in> set (map fst b)) (map fst a)))\<rparr>"

definition compute_funnel_diff :: "rat dict \<Rightarrow> rat dict \<Rightarrow> MetricDiffRow list" where
  "compute_funnel_diff a b = (if a = [] \<and> b = [] then [] else map (diff_row a b) (union_keys a b))"

definition TIE_EPSILON :: rat where
  "TIE_EPSILON = 1 / 1000000000"

definition compute_recommendation :: "IterationRecord \<Rightarrow> IterationRecord \<Rightarrow> Recommendation" where
  "compute_recommendation a b =
     (case (map_option im_primary (ir_metrics a), map_option im_primary (ir_metrics b)) of
        (Some p, Some q) \<Rightarrow>
          (if mo_name p \<noteq> mo_name q
           then \<lparr>rc_kind = DifferentMetricKind, rc_winner = None, rc_metric_name = None,
                 rc_a_metric_name = Some (mo_name p), rc_b_metric_name = Some (mo_name q),
                 rc_a_value = Some (mo_value p), rc_b_value = Some (mo_value q), rc_delta = None, rc_new_failure_modes = []\<rparr>
           else let delta = mo_value q - mo_value p
                in if \<bar>delta\<bar> < TIE_EPSILON
                   then \<lparr>rc_kind = TieKind, rc_winner = None, rc_metric_name = Some (mo_name p),
                         rc_a_metric_name = Some (mo_name p), rc_b_metric_name = Some (mo_name q),
                         rc_a_value = Some (mo_value p), rc_b_value = Some (mo_value q), rc_delta = Some delta,
                         rc_new_failure_modes = []\<rparr>
                   else let winner = (if delta > 0 then SideB else SideA);
                            loser_failures = failure_modes (if winner = SideB then a else b);
                            winner_failures = failure_modes (if winner = SideB then b else a)
                        in \<lparr>rc_kind = WinnerKind, rc_winner = Some winner, rc_metric_name = Some (mo_name p),
                            rc_a_metric_name = Some (mo_name p), rc_b_metric_name = Some (mo_name q),
                            rc_a_value = Some (mo_value p), rc_b_value = Some (mo_value q), rc_delta = Some delta,
                            rc_new_failure_modes = sorted_set
                              (filter (\<lambda>m. m \<notin> set (map fst loser_failures)) (map fst winner_failures))\<rparr>)
      | (p, q) \<Rightarrow> \<lparr>rc_kind = NoneKind, rc_winner = None, rc_metric_name = None,
                    rc_a_metric_name = map_option mo_name p, rc_b_metric_name = map_option mo_name q,
                    rc_a_value = None, rc_b_value = None, rc_delta = None, rc_new_failure_modes = []\<rparr>)"

definition compute_compare :: "IterationRecord \<Rightarrow> IterationRecord \<Rightarrow> CompareResult" where
  "compute_compare a b =
     \<lparr>cm_a_id = ent_id a, cm_b_id = ent_id b, cm_a_iteration = ir_iteration a, cm_b_iteration = ir_iteration b,
      cm_a_created_at = created_at a, cm_b_created_at = created_at b,
      cm_a_decision = map_option id_outcome (ir_decision a), cm_b_decision = map_option id_outcome (ir_decision b),
      cm_proposal_diff = compute_proposal_diff (flatten (ir_proposed_parameters a)) (flatten (ir_proposed_parameters b)),
      cm_metrics_diff = compute_metrics_diff (metrics_map a) (metrics_map b),
      cm_failure_modes = compute_failure_modes (failure_modes a) (failure_modes b),
      cm_funnel_diff = compute_funnel_diff (funnel_map a) (funnel_map b),
      cm_recommendation = compute_recommendation a b\<rparr>"

subsection \<open>Rendering\<close>

text \<open>How numbers (\<^verbatim>\<open>:.4g\<close> and \<^verbatim>\<open>:+.4g\<close>), other values and times print.\<close>

record Printer =
  print_num :: "rat \<Rightarrow> string"
  print_signed :: "rat \<Rightarrow> string"
  print_repr :: "json \<Rightarrow> string"
  print_time :: "timestamp \<Rightarrow> string"

definition em_dash :: string where
  "em_dash = map char_of [0xE2, 0x80, 0x94 :: nat]"

definition capital_delta :: string where
  "capital_delta = map char_of [0xCE, 0x94 :: nat]"

definition arrow :: string where
  "arrow = map char_of [0xE2, 0x86, 0x92 :: nat]"

definition code :: "string \<Rightarrow> string" where
  "code s = ''`'' @ s @ ''`''"

definition comma_join :: "string list \<Rightarrow> string" where
  "comma_join xs = (case xs of [] \<Rightarrow> [] | y # ys \<Rightarrow> y @ concat (map (\<lambda>x. '', '' @ x) ys))"

definition delta_str :: "Printer \<Rightarrow> rat option \<Rightarrow> rat option \<Rightarrow> string" where
  "delta_str pr a b = (case (a, b) of
     (None, None) \<Rightarrow> em_dash
   | (None, Some _) \<Rightarrow> ''(only B)''
   | (Some _, None) \<Rightarrow> ''(only A)''
   | (Some x, Some y) \<Rightarrow> print_signed pr (y - x))"

definition fmt_num :: "Printer \<Rightarrow> rat option \<Rightarrow> string" where
  "fmt_num pr x = (case x of None \<Rightarrow> em_dash | Some q \<Rightarrow> print_num pr q)"

definition fmt_value :: "Printer \<Rightarrow> json option \<Rightarrow> string" where
  "fmt_value pr v = (case v of
     None \<Rightarrow> em_dash
   | Some (JFloat q) \<Rightarrow> code (print_num pr q)
   | Some (JStr s) \<Rightarrow> code s
   | Some j \<Rightarrow> code (print_repr pr j))"

definition header_line :: "Printer \<Rightarrow> string \<Rightarrow> string \<Rightarrow> nat \<Rightarrow> timestamp \<Rightarrow> DecisionOutcome option \<Rightarrow> string" where
  "header_line pr side i n t d = ''- **'' @ side @ ''** '' @ code i @ ''  iter=#'' @ nat_str n @ ''  at='' @ print_time pr t @
     ''  decision='' @ code (case d of None \<Rightarrow> ''-'' | Some x \<Rightarrow> DecisionOutcome_value x)"

definition render_header :: "Printer \<Rightarrow> CompareResult \<Rightarrow> string list" where
  "render_header pr r =
     [''Comparing iter A (#'' @ nat_str (cm_a_iteration r) @ '') vs iter B (#'' @ nat_str (cm_b_iteration r) @ '')'',
      [],
      header_line pr ''A'' (cm_a_id r) (cm_a_iteration r) (cm_a_created_at r) (cm_a_decision r),
      header_line pr ''B'' (cm_b_id r) (cm_b_iteration r) (cm_b_created_at r) (cm_b_decision r)]"

definition render_proposal_diff :: "Printer \<Rightarrow> CompareResult \<Rightarrow> string list" where
  "render_proposal_diff pr r =
     (if cm_proposal_diff r = [] then [''## Proposal diff'', [], ''_(no parameters on either iteration)_'']
      else [''## Proposal diff'', [], ''| param | A | B | changed? |'', ''|-------|---|---|----------|''] @
        map (\<lambda>row. ''| '' @ code (pd_key row) @ '' | '' @ fmt_value pr (pd_a row) @ '' | '' @ fmt_value pr (pd_b row) @
               '' | '' @ (if pd_changed row then ''yes'' else []) @ '' |'') (cm_proposal_diff r))"

definition diff_line :: "Printer \<Rightarrow> MetricDiffRow \<Rightarrow> string" where
  "diff_line pr row = ''| '' @ code (md_name row) @ '' | '' @ fmt_num pr (md_a row) @ '' | '' @ fmt_num pr (md_b row) @
     '' | '' @ delta_str pr (md_a row) (md_b row) @ '' |''"

definition render_metrics_diff :: "Printer \<Rightarrow> CompareResult \<Rightarrow> string list" where
  "render_metrics_diff pr r =
     (if cm_metrics_diff r = [] then [''## Metrics diff'', [], ''_(no metrics on either iteration)_'']
      else [''## Metrics diff'', [], ''| metric | A | B | '' @ capital_delta @ '' |'', ''|--------|---|---|---|''] @
        map (diff_line pr) (cm_metrics_diff r))"

definition count_item :: "string \<times> nat \<Rightarrow> string" where
  "count_item = (\<lambda>(m, c). code m @ ''('' @ nat_str c @ '')'')"

definition render_failure_modes :: "CompareResult \<Rightarrow> string list" where
  "render_failure_modes r =
     (let fm = cm_failure_modes r
      in if fd_only_a fm = [] \<and> fd_only_b fm = [] \<and> fd_common fm = []
         then [''## Failure modes'', [], ''_(no failure modes recorded on either iteration)_'']
         else [''## Failure modes'', []] @
           (if fd_only_a fm = [] then [] else [''- in **A only**: '' @ comma_join (map count_item (fd_only_a fm))]) @
           (if fd_only_b fm = [] then [] else [''- in **B only**: '' @ comma_join (map count_item (fd_only_b fm))]) @
           (if fd_common fm = [] then [] else [''- in **both**: '' @
             comma_join (map (\<lambda>(m, (ca, cb)). code m @ '' A='' @ nat_str ca @ '' B='' @ nat_str cb) (fd_common fm))]))"

definition render_funnel_diff :: "Printer \<Rightarrow> CompareResult \<Rightarrow> string list" where
  "render_funnel_diff pr r =
     (if cm_funnel_diff r = [] then []
      else [''## Funnel diff'', [], ''| node | A score | B score | '' @ capital_delta @ '' |'', ''|------|---------|---------|---|''] @
        map (diff_line pr) (cm_funnel_diff r))"

text \<open>The assertions of the rendering are its \<open>AssertionError\<close>.\<close>

definition render_recommendation :: "Printer \<Rightarrow> CompareResult \<Rightarrow> string list result" where
  "render_recommendation pr r =
     (let rec = cm_recommendation r; name = (\<lambda>x. case x of None \<Rightarrow> ''None'' | Some s \<Rightarrow> s)
      in case rc_kind rec of
           NoneKind \<Rightarrow> Inr []
         | DifferentMetricKind \<Rightarrow> Inr [''## Recommendation'', [],
             ''_iterations report different primary metrics_ (A='' @ code (name (rc_a_metric_name rec)) @
             '' vs B='' @ code (name (rc_b_metric_name rec)) @ ''); no recommendation.'']
         | TieKind \<Rightarrow> (case (rc_metric_name rec, rc_a_value rec) of
             (Some m, Some v) \<Rightarrow> Inr [''## Recommendation'', [],
               ''A and B tie on '' @ code m @ '' ('' @ print_num pr v @ ''); compare guardrails or failure modes to decide.'']
           | _ \<Rightarrow> Inl AssertionError)
         | WinnerKind \<Rightarrow> (case (rc_metric_name rec, rc_a_value rec, rc_b_value rec, rc_delta rec) of
             (Some m, Some va, Some vb, Some d) \<Rightarrow> Inr [''## Recommendation'', [],
               ''**'' @ (case rc_winner rec of Some SideA \<Rightarrow> ''A'' | Some SideB \<Rightarrow> ''B'' | None \<Rightarrow> ''None'') @
               '' is better:** '' @ code m @ '' '' @ print_signed pr d @ '' ('' @ print_num pr va @ '' '' @ arrow @ '' '' @
               print_num pr vb @ '')'' @
               (if rc_new_failure_modes rec = [] then ''; no new failure modes''
                else ''; new failure modes introduced: '' @ comma_join (map code (rc_new_failure_modes rec))) @ ''.'']
           | _ \<Rightarrow> Inl AssertionError))"

text \<open>\<^verbatim>\<open>render_compare\<close>: the lines it joins.\<close>

definition render_compare :: "Printer \<Rightarrow> IterationRecord \<Rightarrow> IterationRecord \<Rightarrow> string list result" where
  "render_compare pr a b =
     (let r = compute_compare a b
      in bind_result (render_recommendation pr r) (\<lambda>rec.
           Inr (render_header pr r @ [[]] @ render_proposal_diff pr r @ [[]] @ render_metrics_diff pr r @ [[]] @
                render_failure_modes r @ [[]] @ render_funnel_diff pr r @ [[]] @ rec)))"

subsection \<open>Cost and time of a run\<close>

record CostTimeSummary =
  ct_cost_total_usd :: "rat option"
  ct_cost_per_iteration_usd :: "rat option"
  ct_cost_per_case_usd :: "rat option"
  ct_time_total_seconds :: "rat option"
  ct_time_per_iteration_seconds :: "rat option"
  ct_time_per_case_seconds :: "rat option"
  ct_iterations :: nat
  ct_cases_run :: nat

definition has_cost :: "CostTimeSummary \<Rightarrow> bool" where
  "has_cost s \<longleftrightarrow> ct_cost_total_usd s \<noteq> None"

definition has_time :: "CostTimeSummary \<Rightarrow> bool" where
  "has_time s \<longleftrightarrow> ct_time_total_seconds s \<noteq> None"

definition has_any :: "CostTimeSummary \<Rightarrow> bool" where
  "has_any s \<longleftrightarrow> has_cost s \<or> has_time s"

definition compute_total_cost :: "IterationAggregate list \<Rightarrow> rat option" where
  "compute_total_cost its =
     (if its = [] then None
      else case foldl (\<lambda>(any, tot) a. (any \<or> ia_total_cost_usd a > 0, tot + ia_total_cost_usd a)) (False, 0) its of
             (any, tot) \<Rightarrow> if any then Some tot else None)"

definition compute_total_time_seconds :: "IterationAggregate list \<Rightarrow> rat option" where
  "compute_total_time_seconds its =
     (if its = [] then None
      else case foldl (\<lambda>(any, tot) a. (any \<or> ia_total_duration_ms a > 0, tot + ia_total_duration_ms a)) (False, 0) its of
             (any, tot) \<Rightarrow> if any then Some (of_nat tot / 1000) else None)"

definition compute_total_cases :: "IterationAggregate list \<Rightarrow> nat" where
  "compute_total_cases its = sum_list (map ia_case_count its)"

definition compute_cost_time_summary :: "IterationAggregate list \<Rightarrow> CostTimeSummary" where
  "compute_cost_time_summary its =
     (let n_iter = length its; n_cases = compute_total_cases its;
          total_cost = compute_total_cost its; total_time = compute_total_time_seconds its;
          per = (\<lambda>tot n. case tot of None \<Rightarrow> None | Some x \<Rightarrow> if n > 0 then Some (x / of_nat n) else None)
      in \<lparr>ct_cost_total_usd = total_cost, ct_cost_per_iteration_usd = per total_cost n_iter,
          ct_cost_per_case_usd = per total_cost n_cases, ct_time_total_seconds = total_time,
          ct_time_per_iteration_seconds = per total_time n_iter, ct_time_per_case_seconds = per total_time n_cases,
          ct_iterations = n_iter, ct_cases_run = n_cases\<rparr>)"

end
