(* ===== verification/Compare_Properties.thy ===== *)
theory Compare_Properties
  imports Compare Samples
begin

section \<open>What the comparison of two iterations promises\<close>

text \<open>
  The comparison is antisymmetric, which rests on the symmetry of Python's equality on decoded JSON
  values (numbers by value, objects whatever the order of their keys), and it recommends an
  iteration exactly when both measured the same primary metric and the values differ enough.
\<close>

subsection \<open>Equality of decoded values is symmetric\<close>

primrec wf_json :: "json \<Rightarrow> bool" where
  "wf_json JNull = True"
| "wf_json (JBool b) = True"
| "wf_json (JInt i) = True"
| "wf_json (JFloat q) = True"
| "wf_json (JStr s) = True"
| "wf_json (JList xs) = list_all (\<lambda>b. b) (map wf_json xs)"
| "wf_json (JObj d) = (distinct (map fst d) \<and> list_all snd (map (map_prod id wf_json) d))"

definition wf_dict :: "json dict \<Rightarrow> bool" where
  "wf_dict d \<longleftrightarrow> distinct (map fst d) \<and> (\<forall>(k, v) \<in> set d. wf_json v)"

lemma wf_json_simps [simp]:
  "wf_json (JList xs) \<longleftrightarrow> (\<forall>x \<in> set xs. wf_json x)"
  "wf_json (JObj d) \<longleftrightarrow> wf_dict d"
  by (auto simp: list_all_iff wf_dict_def)

declare wf_json.simps(6,7) [simp del]

lemma py_eq_num: "json_num v = Some q \<Longrightarrow> py_eq v w \<longleftrightarrow> json_num w = Some q"
  by (cases v) auto

lemma py_eq_fields_iff:
  "py_eq_fields xs ys \<longleftrightarrow> (\<forall>(k, x) \<in> set xs. \<exists>y. map_of ys k = Some y \<and> py_eq x y)"
  by (induction xs) (auto split: option.splits)

lemma py_eq_list_iff: "py_eq_list xs ys \<longleftrightarrow> list_all2 py_eq xs ys"
  by (induction xs arbitrary: ys) (auto split: list.splits simp: list_all2_Cons1)

lemma fields_sym:
  assumes sym: "\<And>k x y. (k, x) \<in> set xs \<Longrightarrow> wf_json y \<Longrightarrow> py_eq x y \<Longrightarrow> py_eq y x"
    and wf: "wf_dict xs" "wf_dict ys" and len: "length xs = length ys" and eq: "py_eq_fields xs ys"
  shows "py_eq_fields ys xs"
proof -
  have dist: "distinct (map fst xs)" "distinct (map fst ys)" using wf by (simp_all add: wf_dict_def)
  have "fst ` set xs \<subseteq> fst ` set ys"
  proof
    fix k
    assume "k \<in> fst ` set xs"
    then obtain x where "(k, x) \<in> set xs" by force
    with eq obtain y where "map_of ys k = Some y" by (force simp: py_eq_fields_iff)
    then show "k \<in> fst ` set ys" by (force dest: map_of_SomeD)
  qed
  moreover have "card (fst ` set xs) = card (fst ` set ys)"
    using dist len by (metis distinct_card length_map list.set_map)
  ultimately have keys: "fst ` set xs = fst ` set ys" by (simp add: card_subset_eq)
  have "\<exists>x. map_of xs k = Some x \<and> py_eq y x" if "(k, y) \<in> set ys" for k y
  proof -
    have "k \<in> fst ` set xs" using that keys by (force simp: image_iff)
    then obtain x where x: "(k, x) \<in> set xs" by force
    obtain y' where y': "map_of ys k = Some y'" "py_eq x y'" using eq x by (force simp: py_eq_fields_iff)
    have "y' = y" using y'(1) that dist(2) by (simp add: map_of_is_SomeI)
    moreover have "wf_json y" using wf(2) that by (auto simp: wf_dict_def)
    ultimately have "py_eq y x" using sym [OF x] y'(2) by simp
    with x dist(1) show ?thesis by (simp add: map_of_is_SomeI)
  qed
  then show ?thesis by (auto simp: py_eq_fields_iff)
qed

lemma py_eq_sym_imp: "wf_json v \<Longrightarrow> wf_json w \<Longrightarrow> py_eq v w \<Longrightarrow> py_eq w v"
proof (induction v arbitrary: w)
  case (JList xs)
  then obtain ys where ys: "w = JList ys" "list_all2 py_eq xs ys" by (cases w) (auto simp: py_eq_list_iff)
  have "list_all2 py_eq ys xs"
    unfolding list_all2_conv_all_nth
    using ys(2) JList by (auto simp: list_all2_conv_all_nth ys(1))
  with ys show ?case by (simp add: py_eq_list_iff)
next
  case (JObj d)
  then obtain ys where ys: "w = JObj ys" "length d = length ys" "py_eq_fields d ys" by (cases w) auto
  have "py_eq_fields ys d"
  proof (rule fields_sym [of d])
    show "py_eq y x" if "(k, x) \<in> set d" "wf_json y" "py_eq x y" for k x y
      using JObj.IH [OF that(1), of x y] that JObj.prems(1) by (auto simp: wf_dict_def)
  qed (use JObj.prems ys in auto)
  with ys show ?case by simp
next
  case (JBool b)
  then show ?case using py_eq_num [of w _ "JBool b"] by (cases w) auto
next
  case (JInt i)
  then show ?case using py_eq_num [of w _ "JInt i"] by (cases w) auto
next
  case (JFloat q)
  then show ?case using py_eq_num [of w _ "JFloat q"] by (cases w) auto
qed auto

lemma py_eq_sym: "wf_json v \<Longrightarrow> wf_json w \<Longrightarrow> py_eq v w \<longleftrightarrow> py_eq w v"
  using py_eq_sym_imp by blast

subsection \<open>Flattened parameters\<close>

definition all_wf :: "json dict \<Rightarrow> bool" where
  "all_wf d \<longleftrightarrow> (\<forall>kv \<in> set d. wf_json (snd kv))"

lemma all_wf_simps [simp]:
  "all_wf []"
  "all_wf (kv # d) \<longleftrightarrow> wf_json (snd kv) \<and> all_wf d"
  by (simp_all add: all_wf_def)

lemma all_wf_update: "all_wf d \<Longrightarrow> wf_json v \<Longrightarrow> all_wf (AList.update k v d)"
  by (induction d) auto

lemma all_wf_dict_update: "all_wf d \<Longrightarrow> all_wf kvs \<Longrightarrow> all_wf (dict_update d kvs)"
  by (induction kvs arbitrary: d) (auto simp: dict_update_def all_wf_update)

lemma wf_dict_all: "wf_dict d \<Longrightarrow> all_wf d"
  by (auto simp: wf_dict_def all_wf_def)

lemma flatten_into_wf: "all_wf params \<Longrightarrow> all_wf out \<Longrightarrow> all_wf (flatten_into pre params out)"
  by (induction pre params out rule: flatten_into.induct)
    (simp_all add: all_wf_update all_wf_dict_update wf_dict_all)

lemma flatten_wf:
  assumes "wf_dict params"
  shows "wf_json (dict_get (flatten params) k JNull)"
proof (cases "map_of (flatten params) k")
  case (Some v)
  moreover have "all_wf (flatten params)"
    unfolding flatten_def by (rule flatten_into_wf) (simp_all add: wf_dict_all assms)
  ultimately show ?thesis by (force simp: dict_get_def all_wf_def dest: map_of_SomeD)
qed (simp add: dict_get_def)

subsection \<open>The mirror image of a diff\<close>

fun mirror_side :: "Side \<Rightarrow> Side" where
  "mirror_side SideA = SideB"
| "mirror_side SideB = SideA"

definition mirror_param :: "ParamDiffRow \<Rightarrow> ParamDiffRow" where
  "mirror_param r = \<lparr>pd_key = pd_key r, pd_a = pd_b r, pd_b = pd_a r, pd_changed = pd_changed r\<rparr>"

definition mirror_row :: "MetricDiffRow \<Rightarrow> MetricDiffRow" where
  "mirror_row r = \<lparr>md_name = md_name r, md_a = md_b r, md_b = md_a r, md_delta = map_option uminus (md_delta r)\<rparr>"

definition mirror_modes :: "FailureModesDiff \<Rightarrow> FailureModesDiff" where
  "mirror_modes f = \<lparr>fd_only_a = fd_only_b f, fd_only_b = fd_only_a f,
     fd_common = map (\<lambda>(m, (x, y)). (m, (y, x))) (fd_common f)\<rparr>"

definition mirror_recommendation :: "Recommendation \<Rightarrow> Recommendation" where
  "mirror_recommendation r = \<lparr>rc_kind = rc_kind r, rc_winner = map_option mirror_side (rc_winner r),
     rc_metric_name = rc_metric_name r, rc_a_metric_name = rc_b_metric_name r, rc_b_metric_name = rc_a_metric_name r,
     rc_a_value = rc_b_value r, rc_b_value = rc_a_value r, rc_delta = map_option uminus (rc_delta r),
     rc_new_failure_modes = rc_new_failure_modes r\<rparr>"

definition mirror_compare :: "CompareResult \<Rightarrow> CompareResult" where
  "mirror_compare r =
     \<lparr>cm_a_id = cm_b_id r, cm_b_id = cm_a_id r, cm_a_iteration = cm_b_iteration r, cm_b_iteration = cm_a_iteration r,
      cm_a_created_at = cm_b_created_at r, cm_b_created_at = cm_a_created_at r,
      cm_a_decision = cm_b_decision r, cm_b_decision = cm_a_decision r,
      cm_proposal_diff = map mirror_param (cm_proposal_diff r), cm_metrics_diff = map mirror_row (cm_metrics_diff r),
      cm_failure_modes = mirror_modes (cm_failure_modes r), cm_funnel_diff = map mirror_row (cm_funnel_diff r),
      cm_recommendation = mirror_recommendation (cm_recommendation r)\<rparr>"

lemma union_keys_commute: "union_keys a b = union_keys b a"
  unfolding union_keys_def by (rule sorted_set_cong) auto

lemma diff_row_mirror: "diff_row b a k = mirror_row (diff_row a b k)"
  by (auto simp: diff_row_def mirror_row_def split: option.splits)

lemma metrics_diff_mirror: "compute_metrics_diff b a = map mirror_row (compute_metrics_diff a b)"
  by (simp add: compute_metrics_diff_def union_keys_commute [of b] diff_row_mirror [of b])

lemma funnel_diff_mirror: "compute_funnel_diff b a = map mirror_row (compute_funnel_diff a b)"
  by (simp add: compute_funnel_diff_def union_keys_commute [of b] diff_row_mirror [of b])

lemma proposal_diff_mirror:
  assumes "\<And>k. wf_json (dict_get a k JNull)" "\<And>k. wf_json (dict_get b k JNull)"
  shows "compute_proposal_diff b a = map mirror_param (compute_proposal_diff a b)"
  using py_eq_sym [OF assms(1) assms(2)]
  by (simp add: compute_proposal_diff_def union_keys_commute [of b] mirror_param_def)

lemma failure_modes_mirror: "compute_failure_modes b a = mirror_modes (compute_failure_modes a b)"
proof -
  have "sorted_set (filter (\<lambda>m. m \<in> set (map fst a)) (map fst b)) = sorted_set (filter (\<lambda>m. m \<in> set (map fst b)) (map fst a))"
    by (rule sorted_set_cong) auto
  then show ?thesis by (simp add: compute_failure_modes_def mirror_modes_def)
qed

lemma recommendation_mirror: "compute_recommendation b a = mirror_recommendation (compute_recommendation a b)"
proof (cases "ir_metrics a"; cases "ir_metrics b")
  fix x y
  assume m: "ir_metrics a = Some x" "ir_metrics b = Some y"
  define d where "d = mo_value (im_primary y) - mo_value (im_primary x)"
  have d: "mo_value (im_primary x) - mo_value (im_primary y) = - d" by (simp add: d_def)
  have "0 < TIE_EPSILON" by (simp add: TIE_EPSILON_def)
  then show ?thesis
    by (cases "mo_name (im_primary x) = mo_name (im_primary y)"; cases "\<bar>d\<bar> < TIE_EPSILON"; cases "0 < d"; cases "d = 0")
      (simp_all add: compute_recommendation_def m d_def [symmetric] d mirror_recommendation_def Let_def)
qed (simp_all add: compute_recommendation_def mirror_recommendation_def)

text \<open>C32. Comparing B with A is the mirror image of comparing A with B: every row has its sides exchanged and its
  delta negated, the same rows count as changed, and the same iteration wins with the same new
  failure modes.\<close>

theorem compare_mirrored:
  assumes "wf_dict (ir_proposed_parameters a)" "wf_dict (ir_proposed_parameters b)"
  shows "compute_compare b a = mirror_compare (compute_compare a b)"
proof -
  note mirrors = proposal_diff_mirror [OF flatten_wf [OF assms(1)] flatten_wf [OF assms(2)]]
    metrics_diff_mirror [of "metrics_map b" "metrics_map a"] funnel_diff_mirror [of "funnel_map b" "funnel_map a"]
    failure_modes_mirror [of "failure_modes b" "failure_modes a"] recommendation_mirror [of b a]
  show ?thesis unfolding compute_compare_def mirror_compare_def mirrors by simp
qed

theorem compare_mirrored_witness:
  "rc_winner (cm_recommendation (compute_compare (sample_iteration ''b'' (1 / 2) [] [(''t'', JInt 1)])
      (sample_iteration ''a'' 1 [] [(''t'', JFloat 1)]))) = Some SideB \<and>
   compute_compare (sample_iteration ''a'' 1 [] [(''t'', JFloat 1)]) (sample_iteration ''b'' (1 / 2) [] [(''t'', JInt 1)]) =
     mirror_compare (compute_compare (sample_iteration ''b'' (1 / 2) [] [(''t'', JInt 1)]) (sample_iteration ''a'' 1 [] [(''t'', JFloat 1)]))"
proof
  show "rc_winner (cm_recommendation (compute_compare (sample_iteration ''b'' (1 / 2) [] [(''t'', JInt 1)])
      (sample_iteration ''a'' 1 [] [(''t'', JFloat 1)]))) = Some SideB"
    by (simp add: compute_compare_def compute_recommendation_def sample_iteration_def sample_metrics_def TIE_EPSILON_def Let_def)
  show "compute_compare (sample_iteration ''a'' 1 [] [(''t'', JFloat 1)]) (sample_iteration ''b'' (1 / 2) [] [(''t'', JInt 1)]) =
     mirror_compare (compute_compare (sample_iteration ''b'' (1 / 2) [] [(''t'', JInt 1)]) (sample_iteration ''a'' 1 [] [(''t'', JFloat 1)]))"
    by (rule compare_mirrored) (simp_all add: sample_iteration_def wf_dict_def)
qed

subsection \<open>The recommendation\<close>

text \<open>A side is recommended exactly when both iterations report the same primary metric with values at
  least \<open>1e-9\<close> apart; it is the side with the larger value, and the failure modes named are those it has
  and the other has not.  The text of a comparison can always be rendered.\<close>

theorem recommendation_sound:
  "((\<exists>x y. ir_metrics a = Some x \<and> ir_metrics b = Some y \<and> mo_name (im_primary x) = mo_name (im_primary y) \<and>
       TIE_EPSILON \<le> mo_value (im_primary y) - mo_value (im_primary x)) \<longleftrightarrow>
     rc_winner (cm_recommendation (compute_compare a b)) = Some SideB) \<and>
   ((\<exists>x y. ir_metrics a = Some x \<and> ir_metrics b = Some y \<and> mo_name (im_primary x) = mo_name (im_primary y) \<and>
       TIE_EPSILON \<le> mo_value (im_primary x) - mo_value (im_primary y)) \<longleftrightarrow>
     rc_winner (cm_recommendation (compute_compare a b)) = Some SideA) \<and>
   set (rc_new_failure_modes (cm_recommendation (compute_compare a b))) =
     (case rc_winner (cm_recommendation (compute_compare a b)) of
        None \<Rightarrow> {}
      | Some SideB \<Rightarrow> fst ` set (failure_modes b) - fst ` set (failure_modes a)
      | Some SideA \<Rightarrow> fst ` set (failure_modes a) - fst ` set (failure_modes b)) \<and>
   (\<exists>lines. render_compare pr a b = Inr lines)"
proof -
  have e: "0 < TIE_EPSILON" by (simp add: TIE_EPSILON_def)
  define r where "r = compute_recommendation a b"
  have r: "cm_recommendation (compute_compare a b) = r" by (simp add: compute_compare_def r_def)
  have lines: "\<exists>lines. render_compare pr a b = Inr lines" if "\<exists>l. render_recommendation pr (compute_compare a b) = Inr l"
    using that by (auto simp: render_compare_def Let_def)
  show ?thesis
  proof (cases "ir_metrics a"; cases "ir_metrics b")
    fix x y
    assume m: "ir_metrics a = Some x" "ir_metrics b = Some y"
    define d where "d = mo_value (im_primary y) - mo_value (im_primary x)"
    have d: "mo_value (im_primary x) - mo_value (im_primary y) = - d" by (simp add: d_def)
    have "\<exists>l. render_recommendation pr (compute_compare a b) = Inr l"
      by (auto simp: render_recommendation_def Let_def r r_def compute_recommendation_def m)
    note l = lines [OF this]
    have "fst ` {m \<in> set (failure_modes b). fst m \<notin> fst ` set (failure_modes a)} = fst ` set (failure_modes b) - fst ` set (failure_modes a)"
      "fst ` {m \<in> set (failure_modes a). fst m \<notin> fst ` set (failure_modes b)} = fst ` set (failure_modes a) - fst ` set (failure_modes b)"
      by auto
    with l e show ?thesis
      by (cases "mo_name (im_primary x) = mo_name (im_primary y)"; cases "\<bar>d\<bar> < TIE_EPSILON"; cases "0 < d"; cases "d = 0")
        (auto simp: r r_def compute_recommendation_def m d_def [symmetric] d Let_def)
  qed (use lines in \<open>auto simp: r r_def compute_recommendation_def render_recommendation_def Let_def\<close>)
qed

text \<open>A parameter that is \<^verbatim>\<open>None\<close> on one side and missing on the other prints differently but is not
  marked as changed.\<close>

lemma missing_none_unchanged:
  "compute_proposal_diff (flatten [(''seed'', JNull)]) (flatten []) =
     [\<lparr>pd_key = ''seed'', pd_a = Some JNull, pd_b = None, pd_changed = False\<rparr>]"
  by (simp add: compute_proposal_diff_def flatten_def dotted_def union_keys_def sorted_set_def dict_get_def)

end
