(* ===== verification/Regression.thy ===== *)
theory Regression
  imports Loop Entity_Store
begin

section \<open>ci/regression.py, runner/baseline.py and api/baseline\_ops.py\<close>

text \<open>
  The regression gate compares the metrics of an iteration with the baseline of its dataset: the
  pure comparison, the baseline a dataset has in the entity store (set by hand or by the first run),
  and the operations the API and the command line share.  Detail texts and log lines are left out.
\<close>

subsection \<open>The gate\<close>

record RegressionThresholds =
  rt_primary_drop :: rat
  rt_per_class_f1_drop :: rat
  rt_error_rate_rise :: rat
  rt_tolerance :: rat

definition default_RegressionThresholds :: RegressionThresholds where
  "default_RegressionThresholds = \<lparr>rt_primary_drop = 0, rt_per_class_f1_drop = 1 / 20,
     rt_error_rate_rise = 0, rt_tolerance = 1 / 1000000000\<rparr>"

record BaselineMetrics =
  bm_primary_metric :: string
  bm_primary_value :: rat
  bm_error_rate :: rat
  bm_per_class_f1 :: "rat dict"

text \<open>\<^verbatim>\<open>float(value)\<close> of a stored value; the numbers a string spells are an argument.\<close>

definition json_float :: "(string \<Rightarrow> rat option) \<Rightarrow> json \<Rightarrow> rat result" where
  "json_float float_str v = (case v of
     JStr s \<Rightarrow> (case float_str s of None \<Rightarrow> Inl ValueError | Some q \<Rightarrow> Inr q)
   | _ \<Rightarrow> (case json_num v of None \<Rightarrow> Inl TypeError | Some q \<Rightarrow> Inr q))"

definition f1_entries :: "(string \<Rightarrow> rat option) \<Rightarrow> json dict \<Rightarrow> rat dict result" where
  "f1_entries float_str raw =
     map_result (\<lambda>(label, v). bind_result (json_float float_str v) (\<lambda>q. Inr (label, q)))
       (filter (\<lambda>(label, v). v \<noteq> JNull) raw)"

definition from_confusion ::
    "(string \<Rightarrow> rat option) \<Rightarrow> string \<Rightarrow> rat \<Rightarrow> rat \<Rightarrow> json dict option \<Rightarrow> BaselineMetrics result" where
  "from_confusion float_str metric primary errors confusion =
     bind_result (case confusion of
         None \<Rightarrow> Inr []
       | Some c \<Rightarrow> (case map_of c ''per_label_f1'' of Some (JObj raw) \<Rightarrow> f1_entries float_str raw | _ \<Rightarrow> Inr []))
       (\<lambda>per_class. Inr \<lparr>bm_primary_metric = metric, bm_primary_value = primary, bm_error_rate = errors,
                          bm_per_class_f1 = per_class\<rparr>)"

datatype Signal = PrimarySignal | ErrorRateSignal | F1Signal string

record RegressionFinding =
  rf_signal :: Signal
  rf_baseline :: "rat option"
  rf_current :: "rat option"
  rf_delta :: "rat option"
  rf_regressed :: bool

record RegressionResult =
  rr_regressed :: bool
  rr_findings :: "RegressionFinding list"

definition regressions :: "RegressionResult \<Rightarrow> RegressionFinding list" where
  "regressions r = filter rf_regressed (rr_findings r)"

definition primary_finding :: "RegressionThresholds \<Rightarrow> BaselineMetrics \<Rightarrow> BaselineMetrics \<Rightarrow> RegressionFinding" where
  "primary_finding th b c =
     (let delta = bm_primary_value c - bm_primary_value b
      in if bm_primary_metric c \<noteq> bm_primary_metric b
         then \<lparr>rf_signal = PrimarySignal, rf_baseline = Some (bm_primary_value b), rf_current = Some (bm_primary_value c),
               rf_delta = None, rf_regressed = True\<rparr>
         else \<lparr>rf_signal = PrimarySignal, rf_baseline = Some (bm_primary_value b), rf_current = Some (bm_primary_value c),
               rf_delta = Some delta, rf_regressed = delta < - (rt_primary_drop th + rt_tolerance th)\<rparr>)"

definition error_finding :: "RegressionThresholds \<Rightarrow> BaselineMetrics \<Rightarrow> BaselineMetrics \<Rightarrow> RegressionFinding" where
  "error_finding th b c =
     (let delta = bm_error_rate c - bm_error_rate b
      in \<lparr>rf_signal = ErrorRateSignal, rf_baseline = Some (bm_error_rate b), rf_current = Some (bm_error_rate c),
          rf_delta = Some delta, rf_regressed = delta > rt_error_rate_rise th + rt_tolerance th\<rparr>)"

definition f1_finding :: "RegressionThresholds \<Rightarrow> rat dict \<Rightarrow> rat dict \<Rightarrow> string \<Rightarrow> RegressionFinding" where
  "f1_finding th base_f1 cur_f1 label = (case (map_of base_f1 label, map_of cur_f1 label) of
     (Some b, Some c) \<Rightarrow>
       \<lparr>rf_signal = F1Signal label, rf_baseline = Some b, rf_current = Some c, rf_delta = Some (c - b),
        rf_regressed = c - b < - (rt_per_class_f1_drop th + rt_tolerance th)\<rparr>
   | (b, c) \<Rightarrow>
       \<lparr>rf_signal = F1Signal label, rf_baseline = b, rf_current = c, rf_delta = None, rf_regressed = False\<rparr>)"

definition evaluate_regression ::
    "RegressionThresholds \<Rightarrow> BaselineMetrics \<Rightarrow> BaselineMetrics \<Rightarrow> RegressionResult" where
  "evaluate_regression th b c =
     (let findings = [primary_finding th b c, error_finding th b c] @
            map (f1_finding th (bm_per_class_f1 b) (bm_per_class_f1 c))
              (sorted_set (map fst (bm_per_class_f1 b) @ map fst (bm_per_class_f1 c)))
      in \<lparr>rr_regressed = list_ex rf_regressed findings, rr_findings = findings\<rparr>)"

subsection \<open>The baseline of a dataset\<close>

definition baseline_id_for :: "string \<Rightarrow> string" where
  "baseline_id_for dataset_id =
     ''dbl_'' @ (case split_first (CHR ''_'') dataset_id of (_, Some rest) \<Rightarrow> rest | (_, None) \<Rightarrow> dataset_id)"

definition load_baseline :: "WorkspaceScope \<Rightarrow> string \<Rightarrow> DatasetBaseline list \<Rightarrow> DatasetBaseline option result" where
  "load_baseline sc dataset_id t = (case get_entity sc (baseline_id_for dataset_id) t of
     Inr b \<Rightarrow> Inr (Some b)
   | Inl EntityNotFoundError \<Rightarrow> Inr None
   | Inl e \<Rightarrow> Inl e)"

record BaselineValues =
  bv_iteration_id :: string
  bv_experiment_id :: string
  bv_primary_metric :: string
  bv_primary_value :: rat
  bv_error_rate :: rat
  bv_confusion :: "json option"

definition new_baseline ::
    "WorkspaceScope \<Rightarrow> timestamp \<Rightarrow> string \<Rightarrow> BaselineValues \<Rightarrow> DatasetBaseline option \<Rightarrow> DatasetBaseline" where
  "new_baseline sc now dataset_id v existing =
     \<lparr>ent_id = baseline_id_for dataset_id, workspace_id = sc_workspace_id sc,
      version = (case existing of None \<Rightarrow> 1 | Some b \<Rightarrow> version b + 1),
      created_at = now, updated_at = now, deleted_at = None,
      db_dataset_id = dataset_id, db_iteration_id = bv_iteration_id v, db_experiment_id = bv_experiment_id v,
      db_primary_metric = bv_primary_metric v, db_primary_value = bv_primary_value v,
      db_error_rate = bv_error_rate v, db_confusion = bv_confusion v\<rparr>"

definition set_baseline ::
    "WorkspaceScope \<Rightarrow> timestamp \<Rightarrow> string \<Rightarrow> BaselineValues \<Rightarrow> DatasetBaseline list \<Rightarrow>
     (DatasetBaseline \<times> DatasetBaseline list) result" where
  "set_baseline sc now dataset_id v t =
     bind_result (load_baseline sc dataset_id t) (\<lambda>existing.
       let b = new_baseline sc now dataset_id v existing
       in if \<not> (valid_BaseEntity b \<and> valid_DatasetBaseline b) then Inl ValueError
          else bind_result (put_entity sc b t) (\<lambda>t'. Inr (b, t')))"

definition dataset_id_for_run :: "Experiment \<Rightarrow> string option" where
  "dataset_id_for_run e = (let i = ref_id (du_optimization (exp_datasets e)) in if i = [] then None else Some i)"

definition values_of_aggregate :: "Experiment \<Rightarrow> string \<Rightarrow> IterationAggregate \<Rightarrow> BaselineValues" where
  "values_of_aggregate e iteration_id a =
     \<lparr>bv_iteration_id = iteration_id, bv_experiment_id = ent_id e, bv_primary_metric = ia_primary_metric a,
      bv_primary_value = ia_primary_value a, bv_error_rate = ia_error_rate a,
      bv_confusion = map_option confusion_to_dict (ia_confusion a)\<rparr>"

text \<open>The automatic baseline of a run: whatever is raised is logged and swallowed.\<close>

definition maybe_autoset_baseline ::
    "WorkspaceScope \<Rightarrow> timestamp \<Rightarrow> Experiment \<Rightarrow> IterationOutcome list \<Rightarrow> DatasetBaseline list \<Rightarrow>
     DatasetBaseline option \<times> DatasetBaseline list" where
  "maybe_autoset_baseline sc now e its t = (case dataset_id_for_run e of
     None \<Rightarrow> (None, t)
   | Some dataset_id \<Rightarrow> (case load_baseline sc dataset_id t of
       Inl _ \<Rightarrow> (None, t)
     | Inr (Some _) \<Rightarrow> (None, t)
     | Inr None \<Rightarrow> (case best_iteration its of
         None \<Rightarrow> (None, t)
       | Some best \<Rightarrow>
           (case set_baseline sc now dataset_id
               (values_of_aggregate e (ent_id (io_iteration_record best)) (io_aggregate best)) t of
             Inl _ \<Rightarrow> (None, t)
           | Inr (b, t') \<Rightarrow> (Some b, t')))))"

subsection \<open>The operations of the API and the command line\<close>

datatype baseline_error = BaselineOpError | BaselineNotFoundError | StorageError py_error

record BaselineDb =
  bd_datasets :: "Dataset list"
  bd_iterations :: "IterationRecord list"
  bd_baselines :: "DatasetBaseline list"

definition required ::
    "WorkspaceScope \<Rightarrow> string \<Rightarrow> 'e BaseEntity_scheme list \<Rightarrow> baseline_error + 'e BaseEntity_scheme" where
  "required sc i t = (case get_entity sc i t of
     Inr x \<Rightarrow> Inr x
   | Inl EntityNotFoundError \<Rightarrow> Inl BaselineOpError
   | Inl e \<Rightarrow> Inl (StorageError e))"

definition metrics_of_parts ::
    "(string \<Rightarrow> rat option) \<Rightarrow> string \<Rightarrow> rat \<Rightarrow> rat \<Rightarrow> json option \<Rightarrow> BaselineMetrics result" where
  "metrics_of_parts float_str metric primary errors confusion =
     from_confusion float_str metric primary errors
       (case confusion of Some (JObj c) \<Rightarrow> Some c | _ \<Rightarrow> None)"

definition metrics_from_iteration ::
    "(string \<Rightarrow> rat option) \<Rightarrow> IterationRecord \<Rightarrow> baseline_error + BaselineMetrics" where
  "metrics_from_iteration float_str r = (case ir_metrics r of
     None \<Rightarrow> Inl BaselineOpError
   | Some m \<Rightarrow>
       (case metrics_of_parts float_str (mo_name (im_primary m)) (mo_value (im_primary m)) (im_error_rate m) (im_confusion m) of
         Inl e \<Rightarrow> Inl (StorageError e) | Inr x \<Rightarrow> Inr x))"

definition metrics_from_baseline ::
    "(string \<Rightarrow> rat option) \<Rightarrow> DatasetBaseline \<Rightarrow> BaselineMetrics result" where
  "metrics_from_baseline float_str b =
     metrics_of_parts float_str (db_primary_metric b) (db_primary_value b) (db_error_rate b) (db_confusion b)"

definition get_baseline :: "WorkspaceScope \<Rightarrow> string \<Rightarrow> BaselineDb \<Rightarrow> baseline_error + DatasetBaseline" where
  "get_baseline sc dataset_id db = (case required sc dataset_id (bd_datasets db) of
     Inl e \<Rightarrow> Inl e
   | Inr _ \<Rightarrow> (case load_baseline sc dataset_id (bd_baselines db) of
       Inl e \<Rightarrow> Inl (StorageError e)
     | Inr None \<Rightarrow> Inl BaselineNotFoundError
     | Inr (Some b) \<Rightarrow> Inr b))"

definition set_dataset_baseline ::
    "(string \<Rightarrow> rat option) \<Rightarrow> WorkspaceScope \<Rightarrow> timestamp \<Rightarrow> string \<Rightarrow> string option \<Rightarrow> BaselineDb \<Rightarrow>
     baseline_error + (DatasetBaseline \<times> BaselineDb)" where
  "set_dataset_baseline float_str sc now dataset_id iteration_id db =
     (case required sc dataset_id (bd_datasets db) of
       Inl e \<Rightarrow> Inl e
     | Inr _ \<Rightarrow> (case iteration_id of
         None \<Rightarrow> Inl BaselineOpError
       | Some i \<Rightarrow> (case required sc i (bd_iterations db) of
           Inl e \<Rightarrow> Inl e
         | Inr r \<Rightarrow> (case metrics_from_iteration float_str r of
             Inl e \<Rightarrow> Inl e
           | Inr m \<Rightarrow>
               (case set_baseline sc now dataset_id
                   \<lparr>bv_iteration_id = ent_id r, bv_experiment_id = ir_experiment_id r,
                    bv_primary_metric = bm_primary_metric m, bv_primary_value = bm_primary_value m,
                    bv_error_rate = bm_error_rate m,
                    bv_confusion = (case ir_metrics r of None \<Rightarrow> None | Some im \<Rightarrow> im_confusion im)\<rparr>
                   (bd_baselines db) of
                 Inl e \<Rightarrow> Inl (StorageError e)
               | Inr (b, t') \<Rightarrow> Inr (b, db\<lparr>bd_baselines := t'\<rparr>))))))"

definition run_regression_check ::
    "(string \<Rightarrow> rat option) \<Rightarrow> WorkspaceScope \<Rightarrow> string \<Rightarrow> string \<Rightarrow> rat \<Rightarrow> rat \<Rightarrow> rat \<Rightarrow> BaselineDb \<Rightarrow>
     baseline_error + RegressionResult" where
  "run_regression_check float_str sc dataset_id iteration_id primary_drop f1_drop error_rise db =
     (case get_baseline sc dataset_id db of
       Inl e \<Rightarrow> Inl e
     | Inr b \<Rightarrow> (case required sc iteration_id (bd_iterations db) of
         Inl e \<Rightarrow> Inl e
       | Inr r \<Rightarrow> (case metrics_from_iteration float_str r of
           Inl e \<Rightarrow> Inl e
         | Inr current \<Rightarrow> (case metrics_from_baseline float_str b of
             Inl e \<Rightarrow> Inl (StorageError e)
           | Inr base \<Rightarrow> Inr (evaluate_regression
               (default_RegressionThresholds\<lparr>rt_primary_drop := primary_drop, rt_per_class_f1_drop := f1_drop,
                  rt_error_rate_rise := error_rise\<rparr>) base current)))))"

text \<open>\<^verbatim>\<open>selfevals regression check\<close>: the exit code; a refused operation is a usage error.\<close>

definition regression_exit_code :: "baseline_error + RegressionResult \<Rightarrow> int result" where
  "regression_exit_code r = (case r of
     Inr x \<Rightarrow> Inr (if rr_regressed x then 1 else 0)
   | Inl (StorageError e) \<Rightarrow> Inl e
   | Inl _ \<Rightarrow> Inr 2)"

end
