(* ===== verification/Gate_Properties.thy ===== *)
theory Gate_Properties
  imports Regression Samples
begin

section \<open>What the regression gate and the baselines promise\<close>

text \<open>
  When the gate fails and which signal it then names; that the first run of a dataset sets its
  baseline once and no later run moves it; that an iteration pinned as the baseline passes the gate
  against itself.
\<close>

subsection \<open>The verdict\<close>

definition sane_thresholds :: "RegressionThresholds \<Rightarrow> bool" where
  "sane_thresholds th \<longleftrightarrow> 0 \<le> rt_primary_drop th + rt_tolerance th \<and>
     0 \<le> rt_per_class_f1_drop th + rt_tolerance th \<and> 0 \<le> rt_error_rate_rise th + rt_tolerance th"

lemma f1_finding_regressed:
  "rf_regressed (f1_finding th b c l) \<longleftrightarrow>
     (\<exists>x y. map_of b l = Some x \<and> map_of c l = Some y \<and> y < x - (rt_per_class_f1_drop th + rt_tolerance th))"
  by (auto simp: f1_finding_def split: option.splits)

lemma primary_finding_regressed:
  "rf_regressed (primary_finding th b c) \<longleftrightarrow> bm_primary_metric c \<noteq> bm_primary_metric b \<or>
     bm_primary_value c < bm_primary_value b - (rt_primary_drop th + rt_tolerance th)"
  by (auto simp: primary_finding_def Let_def)

lemma error_finding_regressed:
  "rf_regressed (error_finding th b c) \<longleftrightarrow> bm_error_rate c > bm_error_rate b + (rt_error_rate_rise th + rt_tolerance th)"
  by (auto simp: error_finding_def Let_def)

lemma self_not_regressed: "sane_thresholds th \<Longrightarrow> \<not> rr_regressed (evaluate_regression th b b)"
  by (auto simp: evaluate_regression_def Let_def list_ex_iff f1_finding_regressed primary_finding_regressed
      error_finding_regressed sane_thresholds_def)

definition metric_replaced :: "BaselineMetrics \<Rightarrow> BaselineMetrics \<Rightarrow> bool" where
  "metric_replaced b c \<longleftrightarrow> bm_primary_metric c \<noteq> bm_primary_metric b"


text \<open>The gate takes a larger primary value for the better one, whatever the metric.\<close>

lemma gate_ignores_direction:
  "rr_regressed (evaluate_regression default_RegressionThresholds
     \<lparr>bm_primary_metric = ''total_cost_usd'', bm_primary_value = 2, bm_error_rate = 0, bm_per_class_f1 = []\<rparr>
     \<lparr>bm_primary_metric = ''total_cost_usd'', bm_primary_value = 1, bm_error_rate = 0, bm_per_class_f1 = []\<rparr>)"
  by (simp add: evaluate_regression_def Let_def primary_finding_def error_finding_def default_RegressionThresholds_def)

subsection \<open>Baselines in the store\<close>

lemma load_baseline_row:
  assumes "table_ok t" "load_baseline sc i t = Inr o'"
  shows "\<not> sc_closed sc \<and> o' = find_row t (baseline_id_for i) \<and>
    (o' = None \<or> (\<exists>b. o' = Some b \<and> workspace_id b = sc_workspace_id sc))"
  using assms(2)
  by (cases "sc_closed sc"; cases "find_row t (baseline_id_for i)")
    (auto simp: load_baseline_def get_entity_def guard_open_def load_row_conv [OF assms(1)] split: if_splits)

lemma load_baseline_found:
  assumes "table_ok t" "\<not> sc_closed sc" "find_row t (baseline_id_for i) = Some b" "workspace_id b = sc_workspace_id sc"
  shows "load_baseline sc i t = Inr (Some b)"
  using assms by (simp add: load_baseline_def get_entity_def guard_open_def load_row_conv)

lemma set_baseline_row:
  assumes "table_ok t" "set_baseline sc now i v t = Inr (b, t')"
  shows "table_ok t' \<and> b = new_baseline sc now i v (find_row t (baseline_id_for i)) \<and>
    load_baseline sc i t' = Inr (Some (stamped b (find_row t (baseline_id_for i)))) \<and>
    (\<forall>j. j \<noteq> baseline_id_for i \<longrightarrow> find_row t' j = find_row t j)"
proof -
  obtain o' where o: "load_baseline sc i t = Inr o'" "b = new_baseline sc now i v o'" "put_entity sc b t = Inr t'"
    using assms(2) by (auto simp: set_baseline_def Let_def bind_result_Inr_iff split: if_splits)
  have row: "\<not> sc_closed sc" "o' = find_row t (baseline_id_for i)" using load_baseline_row [OF assms(1) o(1)] by simp_all
  have b: "ent_id b = baseline_id_for i" "workspace_id b = sc_workspace_id sc" by (simp_all add: o(2) new_baseline_def)
  have t': "t' = upsert b t" using o(3) by (simp add: put_entity_Inr)
  have ok: "table_ok t'" using put_entity_ok [OF assms(1) o(3)] .
  have "load_baseline sc i t' = Inr (Some (stamped b (find_row t (baseline_id_for i))))"
  proof (rule load_baseline_found [OF ok row(1)])
    show "find_row t' (baseline_id_for i) = Some (stamped b (find_row t (baseline_id_for i)))"
      by (simp add: t' find_row_upsert b(1))
    show "workspace_id (stamped b (find_row t (baseline_id_for i))) = sc_workspace_id sc"
      using stamped_fields(1) [of b t] b by simp
  qed
  moreover have "find_row t' j = find_row t j" if "j \<noteq> baseline_id_for i" for j
    using that by (simp add: t' find_row_upsert b(1))
  ultimately show ?thesis using ok o(2) row(2) by blast
qed

lemma autoset_cases:
  assumes "table_ok t"
  obtains (nothing) "maybe_autoset_baseline sc now e its t = (None, t)"
  | (wrote) i b t' v where "maybe_autoset_baseline sc now e its t = (Some b, t')" "dataset_id_for_run e = Some i"
      "find_row t (baseline_id_for i) = None" "set_baseline sc now i v t = Inr (b, t')"
proof -
  note def = maybe_autoset_baseline_def [of sc now e its t]
  show ?thesis
  proof (cases "dataset_id_for_run e")
    case None
    show ?thesis by (rule nothing) (simp add: def None)
  next
    case (Some i)
    show ?thesis
    proof (cases "load_baseline sc i t")
      case (Inl err)
      show ?thesis by (rule nothing) (simp add: def Some Inl)
    next
      case (Inr ob)
      note row = load_baseline_row [OF assms Inr]
      show ?thesis
      proof (cases "ob = None \<and> best_iteration its \<noteq> None")
        case False
        show ?thesis by (rule nothing) (use False in \<open>auto simp: def Some Inr split: option.splits\<close>)
      next
        case True
        then obtain best where best: "best_iteration its = Some best" by auto
        let ?v = "values_of_aggregate e (ent_id (io_iteration_record best)) (io_aggregate best)"
        show ?thesis
        proof (cases "set_baseline sc now i ?v t")
          case (Inl err)
          show ?thesis by (rule nothing) (simp add: def Some Inr True best Inl)
        next
          case res: (Inr r)
          obtain b t' where r: "r = (b, t')" by (cases r)
          have "maybe_autoset_baseline sc now e its t = (Some b, t')" by (simp add: def Some Inr True best res r)
          from wrote [OF this Some] row True res r show ?thesis by blast
        qed
      qed
    qed
  qed
qed

text \<open>C30. The automatic baseline never changes a baseline that is there, of this dataset or another; and once a
  run has set the baseline of its dataset, no later run over the same dataset writes anything.\<close>

theorem autoset_once:
  assumes "table_ok t" "maybe_autoset_baseline sc now e its t = (Some b, t')"
    and "dataset_id_for_run e' = dataset_id_for_run e"
  shows "(\<forall>j r. find_row t j = Some r \<longrightarrow> find_row t' j = Some r) \<and>
    maybe_autoset_baseline sc now' e' its' t' = (None, t')"
  using assms(1)
proof (cases rule: autoset_cases [of t sc now e its])
  case nothing
  with assms(2) show ?thesis by simp
next
  case (wrote i b' t'' v)
  then have eq: "b' = b" "t'' = t'" using assms(2) by simp_all
  note row = set_baseline_row [OF assms(1) wrote(4)]
  have "find_row t' j = Some r" if "find_row t j = Some r" for j r
    using that row wrote(3) eq by (cases "j = baseline_id_for i") auto
  moreover have "maybe_autoset_baseline sc now' e' its' t' = (None, t')"
    using row wrote(2) assms(3) eq by (simp add: maybe_autoset_baseline_def)
  ultimately show ?thesis by blast
qed

definition sample_scope :: WorkspaceScope where
  "sample_scope = \<lparr>sc_workspace_id = ''ws_1'', sc_closed = False\<rparr>"

definition sample_aggregate :: IterationAggregate where
  "sample_aggregate = \<lparr>ia_primary_metric = ''pass@1'', ia_primary_value = 1, ia_guardrails = [], ia_reliability = [],
     ia_failure_mode_counts = [], ia_total_cost_usd = 0, ia_total_duration_ms = 0, ia_cache_hit_count = 0,
     ia_llm_call_count = 0, ia_case_count = 1, ia_case_outcomes = [], ia_funnel = [], ia_per_grader_pass_rate = [],
     ia_primary_grader = None, ia_error_rate = 0, ia_confusion = None\<rparr>"

definition sample_iteration_outcome :: IterationOutcome where
  "sample_iteration_outcome = \<lparr>io_iteration = 0, io_proposal = sample_proposal, io_aggregate = sample_aggregate, io_case_runs = [],
     io_iteration_record = sample_iteration ''itr_1'' 1 [] [],
     io_decision_record = \<lparr>ent_id = ''dec_1'', workspace_id = ''ws_1'', version = 1, created_at = 0, updated_at = 0,
       deleted_at = None, dr_experiment_id = ''exp_1'', dr_iteration = 0, dr_variant_id = ''v'',
       dr_outcome = DecisionOutcome.KEEP_CANDIDATE, dr_metrics_snapshot = [], dr_affected_artifacts = [],
       dr_superseded_by = None\<rparr>\<rparr>"

lemma sample_autoset:
  "\<exists>b t'. maybe_autoset_baseline sample_scope 0 sample_experiment [sample_iteration_outcome] [] = (Some b, t')"
  by (simp add: maybe_autoset_baseline_def dataset_id_for_run_def sample_experiment_def sample_ref_def load_baseline_def
      get_entity_def guard_open_def sample_scope_def load_row_def find_row_def best_iteration_def set_baseline_def Let_def
      put_entity_def assert_owns_def put_entity_with_mapper_def new_baseline_def values_of_aggregate_def sample_iteration_outcome_def
      sample_aggregate_def sample_iteration_def valid_BaseEntity_def valid_DatasetBaseline_def unit_interval_def
      baseline_id_for_def)

theorem autoset_once_witness:
  "\<exists>b t'. maybe_autoset_baseline sample_scope 0 sample_experiment [sample_iteration_outcome] [] = (Some b, t') \<and>
     maybe_autoset_baseline sample_scope 9 sample_experiment [] t' = (None, t')"
proof -
  obtain b t' where "maybe_autoset_baseline sample_scope 0 sample_experiment [sample_iteration_outcome] [] = (Some b, t')"
    using sample_autoset by blast
  with autoset_once [OF _ this refl, of 9 "[]"] show ?thesis by (auto simp: table_ok_def)
qed

subsection \<open>Setting a baseline and gating against it\<close>

lemma required_Inr: "required sc i t = Inr x \<Longrightarrow> get_entity sc i t = Inr x"
  by (auto simp: required_def split: sum.splits py_error.splits)

lemma metrics_of_set:
  "metrics_from_iteration float_str r = Inr m \<Longrightarrow> ir_metrics r = Some im \<Longrightarrow>
   metrics_of_parts float_str (bm_primary_metric m) (bm_primary_value m) (bm_error_rate m) (im_confusion im) = Inr m"
  by (auto simp: metrics_from_iteration_def metrics_of_parts_def from_confusion_def bind_result_Inr_iff split: sum.splits)

text \<open>An iteration that has been pinned as the baseline of its dataset passes the gate of that dataset,
  whatever non-negative thresholds the caller chooses.\<close>

theorem pinned_iteration_passes:
  assumes "table_ok (bd_baselines db)"
    and "set_dataset_baseline float_str sc now dataset (Some iteration) db = Inr (b, db')"
    and "0 \<le> primary_drop" "0 \<le> f1_drop" "0 \<le> error_rise"
  shows "\<exists>r. run_regression_check float_str sc dataset iteration primary_drop f1_drop error_rise db' = Inr r \<and>
    regression_exit_code (Inr r) = Inr 0"
proof -
  obtain d r m where d: "required sc dataset (bd_datasets db) = Inr d" and r: "required sc iteration (bd_iterations db) = Inr r"
    and m: "metrics_from_iteration float_str r = Inr m"
    using assms(2) by (auto simp: set_dataset_baseline_def split: sum.splits)
  obtain im where im: "ir_metrics r = Some im" using m by (auto simp: metrics_from_iteration_def split: option.splits)
  define v where "v = \<lparr>bv_iteration_id = ent_id r, bv_experiment_id = ir_experiment_id r,
                    bv_primary_metric = bm_primary_metric m, bv_primary_value = bm_primary_value m,
                    bv_error_rate = bm_error_rate m, bv_confusion = im_confusion im\<rparr>"
  obtain t' where t': "set_baseline sc now dataset v (bd_baselines db) = Inr (b, t')" "db' = db\<lparr>bd_baselines := t'\<rparr>"
    using assms(2) d r m im by (auto simp: set_dataset_baseline_def v_def split: sum.splits)
  note row = set_baseline_row [OF assms(1) t'(1)]
  obtain c where c: "stamped b (find_row (bd_baselines db) (baseline_id_for dataset)) = b\<lparr>created_at := c\<rparr>"
    by (rule stamped_eq [of b "baseline_id_for dataset"]) (simp add: row [THEN conjunct2, THEN conjunct1] new_baseline_def)
  have load: "load_baseline sc dataset t' = Inr (Some (b\<lparr>created_at := c\<rparr>))" using row c by simp
  have b: "db_primary_metric b = bm_primary_metric m" "db_primary_value b = bm_primary_value m"
    "db_error_rate b = bm_error_rate m" "db_confusion b = im_confusion im"
    using row by (simp_all add: new_baseline_def v_def)
  have base: "metrics_from_baseline float_str (b\<lparr>created_at := c\<rparr>) = Inr m"
    using metrics_of_set [OF m im] by (simp add: metrics_from_baseline_def b)
  define th where "th = default_RegressionThresholds\<lparr>rt_primary_drop := primary_drop, rt_per_class_f1_drop := f1_drop,
                  rt_error_rate_rise := error_rise\<rparr>"
  have "run_regression_check float_str sc dataset iteration primary_drop f1_drop error_rise db' =
      Inr (evaluate_regression th m m)"
    using d r m load base by (simp add: run_regression_check_def get_baseline_def t'(2) th_def)
  moreover have "sane_thresholds th" using assms(3-5) by (simp add: sane_thresholds_def th_def default_RegressionThresholds_def)
  ultimately show ?thesis using self_not_regressed [of th m] by (simp add: regression_exit_code_def)
qed

definition sample_baseline_db :: BaselineDb where
  "sample_baseline_db = \<lparr>bd_datasets = [sample_stored_dataset ''ds_1''], bd_iterations = [sample_iteration ''itr_1'' 1 [] []],
     bd_baselines = []\<rparr>"

lemma sample_pin:
  "\<exists>b db'. set_dataset_baseline (\<lambda>_. None) sample_scope 0 ''ds_1'' (Some ''itr_1'') sample_baseline_db = Inr (b, db')"
  by (simp add: set_dataset_baseline_def required_def get_entity_def guard_open_def sample_scope_def sample_baseline_db_def
      load_row_def find_row_def sample_stored_dataset_def sample_iteration_def sample_metrics_def metrics_from_iteration_def
      metrics_of_parts_def from_confusion_def set_baseline_def load_baseline_def Let_def new_baseline_def put_entity_def
      assert_owns_def put_entity_with_mapper_def valid_BaseEntity_def valid_DatasetBaseline_def unit_interval_def
      baseline_id_for_def)

theorem pinned_iteration_passes_witness:
  "\<exists>b db' r. set_dataset_baseline (\<lambda>_. None) sample_scope 0 ''ds_1'' (Some ''itr_1'') sample_baseline_db = Inr (b, db') \<and>
     run_regression_check (\<lambda>_. None) sample_scope ''ds_1'' ''itr_1'' 0 0 0 db' = Inr r \<and> regression_exit_code (Inr r) = Inr 0"
proof -
  obtain b db' where pin: "set_dataset_baseline (\<lambda>_. None) sample_scope 0 ''ds_1'' (Some ''itr_1'') sample_baseline_db = Inr (b, db')"
    using sample_pin by blast
  have "table_ok (bd_baselines sample_baseline_db)" by (simp add: sample_baseline_db_def table_ok_def)
  from pinned_iteration_passes [OF this pin, of 0 0 0] pin show ?thesis by auto
qed

end
