(* ===== verification/Analysis.thy ===== *)
theory Analysis
  imports Trace_Schema Run_Jobs
begin

section \<open>analysis/, schemas/failure\_mode.py and api/failure\_mode\_ops.py\<close>

text \<open>
  Error analysis: the bundle of failed traces an agent codes, the ingestion of what it answers, and
  the taxonomy of failure modes it feeds.  Tables are those of the entity store.  Identifiers that are made
  fresh, the routing of a quote to the object store and the text of a value are arguments.  The modes the code keeps
  in dictionaries are shared objects: a mode that gained an example is the one the next assignment
  sees, as the updated entry of \<^verbatim>\<open>by_id\<close> says.
\<close>

subsection \<open>Failure modes\<close>

record FailureModeExample =
  fe_trace_id :: string
  fe_quote_pointer :: "string option"
  fe_quote_hash :: "string option"
  fe_note :: "string option"

record FailureMode = BaseEntity +
  fm_slug :: string
  fm_title :: string
  fm_definition :: string
  fm_status :: FailureModeStatus
  fm_parent_mode_id :: "string option"
  fm_examples :: "FailureModeExample list"
  fm_proposed_by :: string
  fm_first_seen_iteration :: "nat option"
  fm_superseded_by :: "string option"

definition slug_start :: "char \<Rightarrow> bool" where
  "slug_start c \<longleftrightarrow> is_digit c \<or> (CHR ''a'' \<le> c \<and> c \<le> CHR ''z'')"

text \<open>\<^verbatim>\<open>_SLUG_RE.match\<close>: its \<^verbatim>\<open>$\<close> also matches before a final newline.\<close>

definition slug_matches :: "string \<Rightarrow> bool" where
  "slug_matches s \<longleftrightarrow>
     (let body = (if s \<noteq> [] \<and> last s = CHR 0x0A then butlast s else s)
      in body \<noteq> [] \<and> length body \<le> 63 \<and> slug_start (hd body) \<and>
         list_all (\<lambda>c. slug_start c \<or> c = CHR ''_'') (tl body))"

definition valid_FailureMode :: "FailureMode \<Rightarrow> bool" where
  "valid_FailureMode m \<longleftrightarrow> valid_BaseEntity m \<and> slug_matches (fm_slug m) \<and> fm_title m \<noteq> [] \<and> fm_definition m \<noteq> [] \<and>
     fm_proposed_by m \<noteq> [] \<and> list_all (\<lambda>e. fe_trace_id e \<noteq> []) (fm_examples m)"

subsection \<open>What an analysis answers\<close>

record Assignment =
  an_trace_id :: string
  an_mode_id :: "string option"
  an_new_mode_slug :: "string option"
  an_open_note :: "string option"
  an_quote :: "string option"
  an_confidence :: "rat option"

definition exactly_one_target :: "Assignment \<Rightarrow> bool" where
  "exactly_one_target a \<longleftrightarrow> (an_mode_id a \<noteq> None) \<noteq> (an_new_mode_slug a \<noteq> None)"

definition valid_Assignment :: "Assignment \<Rightarrow> bool" where
  "valid_Assignment a \<longleftrightarrow> an_trace_id a \<noteq> [] \<and> exactly_one_target a \<and>
     (case an_confidence a of None \<Rightarrow> True | Some q \<Rightarrow> unit_interval q)"

record ProposedMode =
  pm_slug :: string
  pm_title :: string
  pm_definition :: string
  pm_parent_slug :: "string option"

record Hypothesis =
  hy_targets_mode_slug :: string
  hy_statement :: string
  hy_suggested_parameters :: "json dict"

record AnalysisResult =
  ar_assignments :: "Assignment list"
  ar_proposed_modes :: "ProposedMode list"
  ar_hypotheses :: "Hypothesis list"

definition valid_AnalysisResult :: "AnalysisResult \<Rightarrow> bool" where
  "valid_AnalysisResult r \<longleftrightarrow> list_all valid_Assignment (ar_assignments r) \<and>
     list_all (\<lambda>p. pm_slug p \<noteq> [] \<and> pm_title p \<noteq> [] \<and> pm_definition p \<noteq> []) (ar_proposed_modes r) \<and>
     list_all (\<lambda>h. hy_targets_mode_slug h \<noteq> [] \<and> hy_statement h \<noteq> []) (ar_hypotheses r)"

record HypothesisRecord = BaseEntity +
  hr_experiment_id :: string
  hr_targets_mode_slug :: string
  hr_statement :: string
  hr_suggested_parameters :: "json dict"
  hr_consumed_by_iteration :: "nat option"

record AnalysisDb =
  ad_modes :: "FailureMode list"
  ad_traces :: "Trace list"
  ad_hypotheses :: "HypothesisRecord list"

subsection \<open>The bundle\<close>

record BundleMessage =
  bg_role :: string
  bg_content :: string

record BundleErrorSpan =
  be_kind :: string
  be_name :: string
  be_error :: "string option"

record BundleGrade =
  bg_label :: string
  bg_score :: "rat option"
  bg_deterministic_modes :: "string list"
  bg_judge_reason :: "string option"

record BundleTrace =
  bt_trace_id :: string
  bt_run_id :: string
  bt_thread_id :: "string option"
  bt_eval_case_id :: "string option"
  bt_grade :: BundleGrade
  bt_transcript :: "BundleMessage list"
  bt_first_error_span :: "BundleErrorSpan option"

record TaxonomyEntry =
  tx_id :: string
  tx_slug :: string
  tx_title :: string
  tx_definition :: string
  tx_status :: string

record AnalysisBundle =
  ab_workspace_id :: string
  ab_experiment_id :: string
  ab_iteration :: "nat option"
  ab_taxonomy :: "TaxonomyEntry list"
  ab_traces :: "BundleTrace list"

definition FAILED_LABELS :: "string list" where
  "FAILED_LABELS = [''fail'', ''error'', ''partial'']"

definition message_view :: "(json \<Rightarrow> string) \<Rightarrow> json \<Rightarrow> BundleMessage option" where
  "message_view py_str msg = (case msg of
     JObj m \<Rightarrow> (case (map_of m ''role'', map_of m ''content'') of
       (Some r, Some c) \<Rightarrow> Some \<lparr>bg_role = py_str r, bg_content = py_str c\<rparr>
     | _ \<Rightarrow> None)
   | _ \<Rightarrow> None)"

definition transcript :: "(json \<Rightarrow> string) \<Rightarrow> Span list \<Rightarrow> BundleMessage list" where
  "transcript py_str spans = concat (map (\<lambda>s. concat (map (\<lambda>key.
       case map_of (lc_provider_metadata s) key of Some (JList raw) \<Rightarrow> List.map_filter (message_view py_str) raw | _ \<Rightarrow> [])
     [''selfevals.messages_in'', ''selfevals.messages_out''])) (List.map_filter as_llm_call spans))"

fun first_error_span :: "Span list \<Rightarrow> BundleErrorSpan option" where
  "first_error_span [] = None"
| "first_error_span (ErrorSpan e # spans) =
     Some \<lparr>be_kind = SpanKind_value SpanKind.ERROR, be_name = span_name e, be_error = Some (es_message e)\<rparr>"
| "first_error_span (ToolCallSpan t # spans) = (case tc_error t of
     Some err \<Rightarrow> if err \<noteq> []
       then Some \<lparr>be_kind = SpanKind_value SpanKind.TOOL_CALL, be_name = span_name t, be_error = Some err\<rparr>
       else first_error_span spans
   | None \<Rightarrow> first_error_span spans)"
| "first_error_span (_ # spans) = first_error_span spans"

definition label_severity :: "string \<Rightarrow> nat" where
  "label_severity l = dict_get [(''error'', 4), (''fail'', 3), (''partial'', 2), (''skipped'', 1), (''pass'', 0)] l 0"

fun worst_grade :: "string \<times> rat option \<Rightarrow> GraderResult list \<Rightarrow> string \<times> rat option" where
  "worst_grade best [] = best"
| "worst_grade best (gr # grs) =
     worst_grade (if label_severity (gx_label gr) \<ge> label_severity (fst best) then (gx_label gr, gx_score gr) else best) grs"

definition truthy_str :: "string option \<Rightarrow> bool" where
  "truthy_str s \<longleftrightarrow> s \<noteq> None \<and> s \<noteq> Some []"

definition grade :: "Trace \<Rightarrow> BundleGrade" where
  "grade t = (let grs = tr_grader_results t; (label, score) = worst_grade (''pass'', None) grs
     in \<lparr>bg_label = label, bg_score = score,
         bg_deterministic_modes = rev (remdups (rev (concat (map gx_failure_modes grs)))),
         bg_judge_reason = (case find (\<lambda>gr. truthy_str (gx_reason_pointer gr)) grs of
            None \<Rightarrow> None | Some gr \<Rightarrow> gx_reason_pointer gr)\<rparr>)"

definition is_failed :: "Trace \<Rightarrow> bool" where
  "is_failed t \<longleftrightarrow> fs_status (tr_final_state t) \<noteq> TraceState.COMPLETED \<or>
     list_ex (\<lambda>gr. gx_label gr \<in> set FAILED_LABELS) (tr_grader_results t)"

text \<open>The columns a trace and a failure mode can be filtered on (\<^verbatim>\<open>queryable_columns\<close> and aliases).\<close>

definition opt_nat_json :: "nat option \<Rightarrow> json" where
  "opt_nat_json x = (case x of None \<Rightarrow> JNull | Some n \<Rightarrow> JInt (int n))"

definition opt_str_json :: "string option \<Rightarrow> json" where
  "opt_str_json x = (case x of None \<Rightarrow> JNull | Some s \<Rightarrow> JStr s)"

definition TRACE_COLUMNS :: "(string \<times> (Trace \<Rightarrow> json)) list" where
  "TRACE_COLUMNS = SHARED_COLUMNS @
     [(''run.run_id'', \<lambda>t. JStr (ri_run_id (tr_run t))),
      (''run.experiment_id'', \<lambda>t. opt_str_json (ri_experiment_id (tr_run t))),
      (''run.iteration'', \<lambda>t. opt_nat_json (ri_iteration (tr_run t))),
      (''run.eval_case_id'', \<lambda>t. opt_str_json (ri_eval_case_id (tr_run t)))]"

definition MODE_COLUMNS :: "(string \<times> (FailureMode \<Rightarrow> json)) list" where
  "MODE_COLUMNS = SHARED_COLUMNS @
     [(''slug'', \<lambda>m. JStr (fm_slug m)), (''status'', \<lambda>m. JStr (FailureModeStatus_value (fm_status m)))]"

definition where_filter :: "(string \<times> json) list \<Rightarrow> ListFilter" where
  "where_filter w = default_ListFilter\<lparr>lf_where := w\<rparr>"

definition bundle_trace :: "(json \<Rightarrow> string) \<Rightarrow> Trace \<Rightarrow> BundleTrace" where
  "bundle_trace py_str t = \<lparr>bt_trace_id = ent_id t, bt_run_id = ri_run_id (tr_run t), bt_thread_id = ri_thread_id (tr_run t),
     bt_eval_case_id = ri_eval_case_id (tr_run t), bt_grade = grade t, bt_transcript = transcript py_str (tr_spans t),
     bt_first_error_span = first_error_span (tr_spans t)\<rparr>"

definition build_bundle ::
    "(json \<Rightarrow> string) \<Rightarrow> string \<Rightarrow> string \<Rightarrow> nat option \<Rightarrow> bool \<Rightarrow> AnalysisDb \<Rightarrow> AnalysisBundle result" where
  "build_bundle py_str ws experiment_id iteration only_failed db =
     bind_result (open_scope ws) (\<lambda>sc.
     bind_result (list_entities sc TRACE_COLUMNS
         (Some (where_filter ((''run.experiment_id'', JStr experiment_id) #
            (case iteration of None \<Rightarrow> [] | Some i \<Rightarrow> [(''run.iteration'', JInt (int i))])))) (ad_traces db)) (\<lambda>traces.
     bind_result (list_entities sc MODE_COLUMNS None (ad_modes db)) (\<lambda>modes.
       Inr \<lparr>ab_workspace_id = ws, ab_experiment_id = experiment_id, ab_iteration = iteration,
            ab_taxonomy = map (\<lambda>m. \<lparr>tx_id = ent_id m, tx_slug = fm_slug m, tx_title = fm_title m,
                tx_definition = fm_definition m, tx_status = FailureModeStatus_value (fm_status m)\<rparr>)
              (filter (\<lambda>m. fm_status m \<noteq> FailureModeStatus.RETIRED) modes),
            ab_traces = map (bundle_trace py_str) (filter (\<lambda>t. only_failed \<longrightarrow> is_failed t) traces)\<rparr>)))"

subsection \<open>Ingestion\<close>

definition worst_failing_label :: "GraderResult list \<Rightarrow> string" where
  "worst_failing_label grs = (case find (\<lambda>gr. gx_label gr \<in> {''error'', ''fail'', ''partial''}) grs of
     None \<Rightarrow> ''fail'' | Some gr \<Rightarrow> gx_label gr)"

fun stamp_results :: "string \<Rightarrow> string \<Rightarrow> GraderResult list \<Rightarrow> GraderResult list option" where
  "stamp_results mode_id grader [] = None"
| "stamp_results mode_id grader (gr # grs) =
     (if gx_grader gr = grader
      then Some ((if mode_id \<in> set (gx_failure_modes gr) then gr
                  else gr\<lparr>gx_failure_modes := gx_failure_modes gr @ [mode_id]\<rparr>) # grs)
      else map_option (\<lambda>rest. gr # rest) (stamp_results mode_id grader grs))"

definition stamp_mode_on_trace :: "string \<Rightarrow> string \<Rightarrow> Trace \<Rightarrow> Trace" where
  "stamp_mode_on_trace mode_id grader t = t\<lparr>tr_grader_results :=
     (case stamp_results mode_id grader (tr_grader_results t) of
        Some grs \<Rightarrow> grs
      | None \<Rightarrow> tr_grader_results t @
          [\<lparr>gx_grader = grader, gx_label = worst_failing_label (tr_grader_results t), gx_score = None, gx_reason = None,
            gx_reason_pointer = None, gx_confidence = None, gx_failure_modes = [mode_id], gx_breakdown = None\<rparr>])\<rparr>"

record IngestSummary =
  is_created_candidates :: "string list"
  is_updated_candidates :: "string list"
  is_assignments_applied :: nat
  is_hypotheses_recorded :: nat

definition check_assignments :: "AnalysisResult \<Rightarrow> string list \<Rightarrow> string list \<Rightarrow> unit result" where
  "check_assignments r ids slugs =
     (if list_ex (\<lambda>a. case an_mode_id a of None \<Rightarrow> False | Some i \<Rightarrow> i \<notin> set ids) (ar_assignments r) then Inl ValueError
      else if list_ex (\<lambda>a. case an_new_mode_slug a of None \<Rightarrow> False
             | Some s \<Rightarrow> s \<notin> set (map pm_slug (ar_proposed_modes r)) \<and> s \<notin> set slugs) (ar_assignments r) then Inl ValueError
      else Inr ())"

definition put_mode :: "WorkspaceScope \<Rightarrow> FailureMode \<Rightarrow> (AnalysisDb, unit) exec" where
  "put_mode sc m db = (case put_entity sc m (ad_modes db) of
     Inl e \<Rightarrow> (Inl e, db) | Inr t \<Rightarrow> (Inr (), db\<lparr>ad_modes := t\<rparr>))"

definition put_trace :: "WorkspaceScope \<Rightarrow> Trace \<Rightarrow> (AnalysisDb, unit) exec" where
  "put_trace sc t db = (case put_entity sc t (ad_traces db) of
     Inl e \<Rightarrow> (Inl e, db) | Inr ts \<Rightarrow> (Inr (), db\<lparr>ad_traces := ts\<rparr>))"

definition put_hypothesis :: "WorkspaceScope \<Rightarrow> HypothesisRecord \<Rightarrow> (AnalysisDb, unit) exec" where
  "put_hypothesis sc h db = (case put_entity sc h (ad_hypotheses db) of
     Inl e \<Rightarrow> (Inl e, db) | Inr hs \<Rightarrow> (Inr (), db\<lparr>ad_hypotheses := hs\<rparr>))"

definition candidate_mode :: "string \<Rightarrow> timestamp \<Rightarrow> string \<Rightarrow> string \<Rightarrow> string option \<Rightarrow> ProposedMode \<Rightarrow> FailureMode" where
  "candidate_mode ws now i proposed_by parent p =
     \<lparr>ent_id = i, workspace_id = ws, version = 1, created_at = now, updated_at = now, deleted_at = None,
      fm_slug = pm_slug p, fm_title = pm_title p, fm_definition = pm_definition p, fm_status = FailureModeStatus.CANDIDATE,
      fm_parent_mode_id = parent, fm_examples = [], fm_proposed_by = proposed_by, fm_first_seen_iteration = None,
      fm_superseded_by = None\<rparr>"

text \<open>The dictionaries of one ingestion: modes by identifier, identifiers by slug, the summary.\<close>

record Ingest =
  in_by_id :: "(string \<times> FailureMode) list"
  in_slug_to_mode :: "(string \<times> string) list"
  in_summary :: IngestSummary

record IngestEnv =
  ie_now :: timestamp
  ie_mode_id :: "nat \<Rightarrow> string"
  ie_hypothesis_id :: "nat \<Rightarrow> string"
  ie_proposed_by :: string
  ie_route :: "(string \<Rightarrow> string \<Rightarrow> string option \<times> string option) option"

fun propose_modes ::
    "WorkspaceScope \<Rightarrow> IngestEnv \<Rightarrow> (string \<times> string) list \<Rightarrow> ProposedMode list \<Rightarrow> Ingest \<Rightarrow> (AnalysisDb, Ingest) exec" where
  "propose_modes sc env by_slug [] st = return_exec st"
| "propose_modes sc env by_slug (p # ps) st = (case map_of by_slug (pm_slug p) of
     Some i \<Rightarrow> propose_modes sc env by_slug ps
       (st\<lparr>in_slug_to_mode := AList.update (pm_slug p) i (in_slug_to_mode st),
           in_summary := (in_summary st)\<lparr>is_updated_candidates := is_updated_candidates (in_summary st) @ [i]\<rparr>\<rparr>)
   | None \<Rightarrow>
       (let parent = (case pm_parent_slug p of None \<Rightarrow> None | Some s \<Rightarrow> map_of by_slug s);
            i = ie_mode_id env (length (is_created_candidates (in_summary st)));
            m = candidate_mode (sc_workspace_id sc) (ie_now env) i (ie_proposed_by env) parent p
        in if \<not> valid_FailureMode m then raise_exec ValueError
           else bind_exec (put_mode sc m) (\<lambda>_.
             propose_modes sc env by_slug ps
               (st\<lparr>in_by_id := AList.update i m (in_by_id st),
                   in_slug_to_mode := AList.update (pm_slug p) i (in_slug_to_mode st),
                   in_summary := (in_summary st)\<lparr>is_created_candidates := is_created_candidates (in_summary st) @ [i]\<rparr>\<rparr>))))"

definition resolve_mode :: "Ingest \<Rightarrow> Assignment \<Rightarrow> string option" where
  "resolve_mode st a = (case an_mode_id a of
     Some i \<Rightarrow> Some i
   | None \<Rightarrow> (case an_new_mode_slug a of None \<Rightarrow> None | Some s \<Rightarrow> map_of (in_slug_to_mode st) s))"

definition example_of :: "IngestEnv \<Rightarrow> Assignment \<Rightarrow> FailureModeExample" where
  "example_of env a =
     (let routed = (case (an_quote a, ie_route env) of
            (Some q, Some route) \<Rightarrow> if q \<noteq> [] then route (''fm_example:'' @ an_trace_id a) q else (None, None)
          | _ \<Rightarrow> (None, None))
      in \<lparr>fe_trace_id = an_trace_id a, fe_quote_pointer = fst routed, fe_quote_hash = snd routed, fe_note = an_open_note a\<rparr>)"

definition apply_assignment :: "WorkspaceScope \<Rightarrow> IngestEnv \<Rightarrow> Assignment \<Rightarrow> Ingest \<Rightarrow> (AnalysisDb, Ingest) exec" where
  "apply_assignment sc env a st db = (case resolve_mode st a of
     None \<Rightarrow> (Inl KeyError, db)
   | Some i \<Rightarrow> (case get_entity sc (an_trace_id a) (ad_traces db) of
       Inl e \<Rightarrow> (Inl e, db)
     | Inr t \<Rightarrow> bind_exec (put_trace sc (stamp_mode_on_trace i ''error_analysis'' t)) (\<lambda>_.
         case map_of (in_by_id st) i of
           None \<Rightarrow> raise_exec KeyError
         | Some m \<Rightarrow>
             (let m' = m\<lparr>fm_examples := fm_examples m @ [example_of env a]\<rparr>
              in bind_exec (put_mode sc m') (\<lambda>_. return_exec
                (st\<lparr>in_by_id := AList.update i m' (in_by_id st),
                    in_summary := (in_summary st)\<lparr>is_assignments_applied := is_assignments_applied (in_summary st) + 1\<rparr>\<rparr>)))) db))"

fun apply_assignments :: "WorkspaceScope \<Rightarrow> IngestEnv \<Rightarrow> Assignment list \<Rightarrow> Ingest \<Rightarrow> (AnalysisDb, Ingest) exec" where
  "apply_assignments sc env [] st = return_exec st"
| "apply_assignments sc env (a # as) st = bind_exec (apply_assignment sc env a st) (apply_assignments sc env as)"

definition hypothesis_record :: "string \<Rightarrow> string \<Rightarrow> IngestEnv \<Rightarrow> nat \<Rightarrow> Hypothesis \<Rightarrow> HypothesisRecord" where
  "hypothesis_record ws experiment_id env n h =
     \<lparr>ent_id = ie_hypothesis_id env n, workspace_id = ws, version = 1, created_at = ie_now env, updated_at = ie_now env,
      deleted_at = None, hr_experiment_id = experiment_id, hr_targets_mode_slug = hy_targets_mode_slug h,
      hr_statement = hy_statement h, hr_suggested_parameters = hy_suggested_parameters h, hr_consumed_by_iteration = None\<rparr>"

fun record_hypotheses :: "WorkspaceScope \<Rightarrow> string \<Rightarrow> IngestEnv \<Rightarrow> nat \<Rightarrow> Hypothesis list \<Rightarrow> (AnalysisDb, nat) exec" where
  "record_hypotheses sc experiment_id env n [] = return_exec n"
| "record_hypotheses sc experiment_id env n (h # hs) =
     bind_exec (put_hypothesis sc (hypothesis_record (sc_workspace_id sc) experiment_id env n h)) (\<lambda>_.
       record_hypotheses sc experiment_id env (n + 1) hs)"

definition ingest_result :: "IngestEnv \<Rightarrow> string \<Rightarrow> string \<Rightarrow> AnalysisResult \<Rightarrow> (AnalysisDb, IngestSummary) exec" where
  "ingest_result env ws experiment_id r db = (case open_scope ws of
     Inl e \<Rightarrow> (Inl e, db)
   | Inr sc \<Rightarrow> (case list_entities sc MODE_COLUMNS None (ad_modes db) of
       Inl e \<Rightarrow> (Inl e, db)
     | Inr existing \<Rightarrow>
         (let by_id = foldl (\<lambda>d m. AList.update (ent_id m) m d) [] existing;
              by_slug = foldl (\<lambda>d m. AList.update (fm_slug m) (ent_id m) d) [] existing
          in case check_assignments r (map fst by_id) (map fst by_slug) of
               Inl e \<Rightarrow> (Inl e, db)
             | Inr _ \<Rightarrow>
                 bind_exec (propose_modes sc env by_slug (ar_proposed_modes r)
                     \<lparr>in_by_id = by_id, in_slug_to_mode = by_slug,
                      in_summary = \<lparr>is_created_candidates = [], is_updated_candidates = [], is_assignments_applied = 0,
                                    is_hypotheses_recorded = 0\<rparr>\<rparr>) (\<lambda>st.
                 bind_exec (apply_assignments sc env (ar_assignments r) st) (\<lambda>st.
                 bind_exec (record_hypotheses sc experiment_id env 0 (ar_hypotheses r)) (\<lambda>n.
                   return_exec ((in_summary st)\<lparr>is_hypotheses_recorded := n\<rparr>)))) db)))"

subsection \<open>The taxonomy\<close>

datatype taxonomy_error = FailureModeNotFoundError | FailureModeOpError | TaxonomyStorageError py_error

definition load_mode :: "string \<Rightarrow> string \<Rightarrow> FailureMode list \<Rightarrow> taxonomy_error + FailureMode" where
  "load_mode ws i t = (case open_scope ws of
     Inl e \<Rightarrow> Inl (TaxonomyStorageError e)
   | Inr sc \<Rightarrow> (case get_entity sc i t of Inl _ \<Rightarrow> Inl FailureModeNotFoundError | Inr m \<Rightarrow> Inr m))"

definition save_mode :: "string \<Rightarrow> FailureMode \<Rightarrow> FailureMode list \<Rightarrow> taxonomy_error + FailureMode list" where
  "save_mode ws m t = (case bind_result (open_scope ws) (\<lambda>sc. put_entity sc m t) of
     Inl e \<Rightarrow> Inl (TaxonomyStorageError e) | Inr t' \<Rightarrow> Inr t')"

definition status_key :: "FailureMode \<Rightarrow> string \<times> string" where
  "status_key m = (FailureModeStatus_value (fm_status m), fm_slug m)"

definition list_failure_modes :: "string \<Rightarrow> string option \<Rightarrow> FailureMode list \<Rightarrow> FailureMode list result" where
  "list_failure_modes ws status t =
     bind_result (open_scope ws) (\<lambda>sc.
     bind_result (list_entities sc MODE_COLUMNS (Some default_ListFilter) t) (\<lambda>modes.
       Inr (sort_key status_key (filter (\<lambda>m. case status of
          None \<Rightarrow> True | Some s \<Rightarrow> s = [] \<or> FailureModeStatus_value (fm_status m) = s) modes))))"

definition promote_failure_mode ::
    "string \<Rightarrow> string \<Rightarrow> FailureMode list \<Rightarrow> (taxonomy_error + FailureMode) \<times> FailureMode list" where
  "promote_failure_mode ws i t = (case load_mode ws i t of
     Inl e \<Rightarrow> (Inl e, t)
   | Inr m \<Rightarrow> if fm_status m = FailureModeStatus.OFFICIAL then (Inr m, t)
       else (let m' = m\<lparr>fm_status := FailureModeStatus.OFFICIAL\<rparr>
             in case save_mode ws m' t of Inl e \<Rightarrow> (Inl e, t) | Inr t' \<Rightarrow> (Inr m', t')))"

definition retire_failure_mode ::
    "string \<Rightarrow> string \<Rightarrow> FailureMode list \<Rightarrow> (taxonomy_error + FailureMode) \<times> FailureMode list" where
  "retire_failure_mode ws i t = (case load_mode ws i t of
     Inl e \<Rightarrow> (Inl e, t)
   | Inr m \<Rightarrow> (let m' = m\<lparr>fm_status := FailureModeStatus.RETIRED\<rparr>
             in case save_mode ws m' t of Inl e \<Rightarrow> (Inl e, t) | Inr t' \<Rightarrow> (Inr m', t')))"

definition merge_failure_modes ::
    "string \<Rightarrow> string \<Rightarrow> string \<Rightarrow> FailureMode list \<Rightarrow> (taxonomy_error + FailureMode) \<times> FailureMode list" where
  "merge_failure_modes ws i into t =
     (if i = into then (Inl FailureModeOpError, t)
      else case load_mode ws i t of
        Inl e \<Rightarrow> (Inl e, t)
      | Inr src \<Rightarrow> (case load_mode ws into t of
          Inl e \<Rightarrow> (Inl e, t)
        | Inr dst \<Rightarrow>
            (let dst' = dst\<lparr>fm_examples := fm_examples dst @ fm_examples src\<rparr>;
                 src' = src\<lparr>fm_superseded_by := Some (ent_id dst), fm_status := FailureModeStatus.RETIRED\<rparr>
             in case save_mode ws dst' t of
                  Inl e \<Rightarrow> (Inl e, t)
                | Inr t1 \<Rightarrow> (case save_mode ws src' t1 of Inl e \<Rightarrow> (Inl e, t1) | Inr t2 \<Rightarrow> (Inr dst', t2)))))"

text \<open>An assigned field is validated as at construction.\<close>

definition edit_failure_mode ::
    "string \<Rightarrow> string \<Rightarrow> string option \<Rightarrow> string option \<Rightarrow> FailureMode list \<Rightarrow>
     (taxonomy_error + FailureMode) \<times> FailureMode list" where
  "edit_failure_mode ws i title definition' t = (case load_mode ws i t of
     Inl e \<Rightarrow> (Inl e, t)
   | Inr m \<Rightarrow>
       if title = Some [] \<or> definition' = Some [] then (Inl (TaxonomyStorageError ValueError), t) else
       (let m1 = (case title of None \<Rightarrow> m | Some s \<Rightarrow> m\<lparr>fm_title := s\<rparr>);
            m2 = (case definition' of None \<Rightarrow> m1 | Some s \<Rightarrow> m1\<lparr>fm_definition := s\<rparr>)
        in case save_mode ws m2 t of Inl e \<Rightarrow> (Inl e, t) | Inr t' \<Rightarrow> (Inr m2, t')))"

end
