(* ===== verification/Analysis_Properties.thy ===== *)
theory Analysis_Properties
  imports Analysis Samples
begin

section \<open>What the ingestion of an analysis promises\<close>

text \<open>
  An ingestion, complete or broken off, only adds: failure modes keep their examples, traces their
  grader results.  A merge moves every example of a failure mode to the mode that supersedes it.
\<close>

subsection \<open>Modes and traces only grow\<close>

definition mode_le :: "FailureMode \<Rightarrow> FailureMode \<Rightarrow> bool" where
  "mode_le m m' \<longleftrightarrow> (\<exists>xs. m' = m\<lparr>fm_examples := fm_examples m @ xs\<rparr>)"

lemma mode_le_refl [simp]: "mode_le m m"
  unfolding mode_le_def by (rule exI [of _ "[]"]) simp

lemma mode_le_trans: "mode_le a b \<Longrightarrow> mode_le b c \<Longrightarrow> mode_le a c"
  by (auto simp: mode_le_def)

lemma mode_le_fields: "mode_le m m' \<Longrightarrow> ent_id m' = ent_id m \<and> created_at m' = created_at m \<and> fm_slug m' = fm_slug m"
  by (auto simp: mode_le_def)

definition modes_grow :: "FailureMode list \<Rightarrow> FailureMode list \<Rightarrow> bool" where
  "modes_grow t t' \<longleftrightarrow> (\<forall>i m. find_row t i = Some m \<longrightarrow> (\<exists>m'. find_row t' i = Some m' \<and> mode_le m m'))"

lemma modes_grow_refl [simp]: "modes_grow t t"
  by (auto simp: modes_grow_def)

lemma modes_grow_trans: "modes_grow a b \<Longrightarrow> modes_grow b c \<Longrightarrow> modes_grow a c"
  unfolding modes_grow_def by (meson mode_le_trans)

definition tags_of :: "GraderResult list \<Rightarrow> (string \<times> string) set" where
  "tags_of grs = (\<Union>gr \<in> set grs. Pair (gx_grader gr) ` set (gx_failure_modes gr))"

definition trace_tags :: "Trace \<Rightarrow> (string \<times> string) set" where
  "trace_tags t = tags_of (tr_grader_results t)"

lemma tags_of_simps [simp]:
  "tags_of [] = {}"
  "tags_of (gr # grs) = Pair (gx_grader gr) ` set (gx_failure_modes gr) \<union> tags_of grs"
  "tags_of (grs @ grs') = tags_of grs \<union> tags_of grs'"
  by (simp_all add: tags_of_def)

definition traces_grow :: "Trace list \<Rightarrow> Trace list \<Rightarrow> bool" where
  "traces_grow ts ts' \<longleftrightarrow>
     (\<forall>i t. find_row ts i = Some t \<longrightarrow> (\<exists>t'. find_row ts' i = Some t' \<and> trace_tags t \<subseteq> trace_tags t'))"

lemma traces_grow_refl [simp]: "traces_grow t t"
  by (auto simp: traces_grow_def)

lemma traces_grow_trans: "traces_grow a b \<Longrightarrow> traces_grow b c \<Longrightarrow> traces_grow a c"
  unfolding traces_grow_def by (meson subset_trans)

lemma stamp_results_tags: "stamp_results i g grs = Some grs' \<Longrightarrow> tags_of grs' = insert (g, i) (tags_of grs)"
proof (induction grs arbitrary: grs')
  case (Cons gr grs)
  show ?case
  proof (cases "gx_grader gr = g")
    case True
    then show ?thesis using Cons.prems by (auto split: if_splits)
  next
    case False
    then obtain rest where "stamp_results i g grs = Some rest" "grs' = gr # rest" using Cons.prems by auto
    with Cons.IH [of rest] show ?thesis by auto
  qed
qed simp

lemma stamp_tags: "trace_tags (stamp_mode_on_trace i g t) = insert (g, i) (trace_tags t)"
  using stamp_results_tags [of i g "tr_grader_results t"]
  by (cases "stamp_results i g (tr_grader_results t)") (simp_all add: trace_tags_def stamp_mode_on_trace_def)

lemma stamp_fields [simp]:
  "ent_id (stamp_mode_on_trace i g t) = ent_id t" "created_at (stamp_mode_on_trace i g t) = created_at t"
  by (simp_all add: stamp_mode_on_trace_def)

subsection \<open>Single writes\<close>

lemma stamped_same: "created_at r = created_at e \<Longrightarrow> ent_id r = ent_id e \<Longrightarrow> stamped e (Some r) = e"
  by (simp add: stamped_def restamp_def)

lemma put_mode_old:
  assumes "put_mode sc m db = (Inr (), db')" "table_ok (ad_modes db)"
    and "find_row (ad_modes db) (ent_id m) = Some m0" "mode_le m0 m"
  shows "table_ok (ad_modes db') \<and> modes_grow (ad_modes db) (ad_modes db') \<and>
    find_row (ad_modes db') (ent_id m) = Some m \<and> ad_traces db' = ad_traces db \<and>
    (\<forall>j. j \<noteq> ent_id m \<longrightarrow> find_row (ad_modes db') j = find_row (ad_modes db) j)"
proof -
  obtain t where t: "put_entity sc m (ad_modes db) = Inr t" "db' = db\<lparr>ad_modes := t\<rparr>"
    using assms(1) by (auto simp: put_mode_def split: sum.splits)
  have up: "t = upsert m (ad_modes db)" using t(1) by (simp add: put_entity_Inr)
  have same: "stamped m (Some m0) = m" using mode_le_fields [OF assms(4)] by (intro stamped_same) simp_all
  have at: "find_row t j = (if j = ent_id m then Some m else find_row (ad_modes db) j)" for j
    using same assms(3) by (simp add: up find_row_upsert)
  with put_entity_ok [OF assms(2) t(1)] assms(3,4) show ?thesis by (auto simp: t(2) modes_grow_def)
qed

lemma put_mode_new:
  assumes "put_mode sc m db = (Inr (), db')" "table_ok (ad_modes db)" "find_row (ad_modes db) (ent_id m) = None"
  shows "table_ok (ad_modes db') \<and> modes_grow (ad_modes db) (ad_modes db') \<and>
    find_row (ad_modes db') (ent_id m) = Some m \<and> ad_traces db' = ad_traces db \<and>
    (\<forall>j. j \<noteq> ent_id m \<longrightarrow> find_row (ad_modes db') j = find_row (ad_modes db) j)"
proof -
  obtain t where t: "put_entity sc m (ad_modes db) = Inr t" "db' = db\<lparr>ad_modes := t\<rparr>"
    using assms(1) by (auto simp: put_mode_def split: sum.splits)
  have up: "t = upsert m (ad_modes db)" using t(1) by (simp add: put_entity_Inr)
  have at: "find_row t j = (if j = ent_id m then Some m else find_row (ad_modes db) j)" for j
    using assms(3) by (simp add: up find_row_upsert stamped_def)
  with put_entity_ok [OF assms(2) t(1)] assms(3) show ?thesis by (auto simp: t(2) modes_grow_def)
qed

lemma put_failed: "put_mode sc m db = (Inl e, db') \<Longrightarrow> db' = db" "put_trace sc t db = (Inl e, db') \<Longrightarrow> db' = db"
  "put_hypothesis sc h db = (Inl e, db') \<Longrightarrow> db' = db"
  by (auto simp: put_mode_def put_trace_def put_hypothesis_def split: sum.splits)

lemma get_entity_row:
  "table_ok t \<Longrightarrow> get_entity sc i t = Inr x \<Longrightarrow> find_row t i = Some x \<and> ent_id x = i"
  using find_row_Some [of t i]
  by (auto simp: get_entity_def bind_result_Inr_iff load_row_conv split: option.splits if_splits)

lemma put_trace_old:
  assumes "put_trace sc t db = (Inr (), db')" "table_ok (ad_traces db)"
    and "find_row (ad_traces db) (ent_id t) = Some t0" "created_at t = created_at t0" "trace_tags t0 \<subseteq> trace_tags t"
  shows "table_ok (ad_traces db') \<and> traces_grow (ad_traces db) (ad_traces db') \<and>
    find_row (ad_traces db') (ent_id t) = Some t \<and> ad_modes db' = ad_modes db"
proof -
  obtain ts where ts: "put_entity sc t (ad_traces db) = Inr ts" "db' = db\<lparr>ad_traces := ts\<rparr>"
    using assms(1) by (auto simp: put_trace_def split: sum.splits)
  have up: "ts = upsert t (ad_traces db)" using ts(1) by (simp add: put_entity_Inr)
  have "ent_id t0 = ent_id t" using find_row_Some [OF assms(3)] by simp
  then have same: "stamped t (Some t0) = t" using assms(4) by (intro stamped_same) simp_all
  have "find_row ts j = (if j = ent_id t then Some t else find_row (ad_traces db) j)" for j
    using same assms(3) by (simp add: up find_row_upsert)
  with put_entity_ok [OF assms(2) ts(1)] assms(3,5) show ?thesis by (auto simp: ts(2) traces_grow_def)
qed

subsection \<open>The loops\<close>

definition db_grows :: "AnalysisDb \<Rightarrow> AnalysisDb \<Rightarrow> bool" where
  "db_grows db db' \<longleftrightarrow> modes_grow (ad_modes db) (ad_modes db') \<and> traces_grow (ad_traces db) (ad_traces db')"

lemma db_grows_refl [simp]: "db_grows db db"
  by (simp add: db_grows_def)

lemma db_grows_trans: "db_grows a b \<Longrightarrow> db_grows b c \<Longrightarrow> db_grows a c"
  unfolding db_grows_def using modes_grow_trans traces_grow_trans by blast

text \<open>The dictionary by identifier mirrors the table, and fresh identifiers stay unused.\<close>

definition ingest_ok :: "IngestEnv \<Rightarrow> Ingest \<Rightarrow> AnalysisDb \<Rightarrow> bool" where
  "ingest_ok env st db \<longleftrightarrow> table_ok (ad_modes db) \<and> table_ok (ad_traces db) \<and>
     (\<forall>i m. map_of (in_by_id st) i = Some m \<longrightarrow> find_row (ad_modes db) i = Some m) \<and>
     (\<forall>n \<ge> length (is_created_candidates (in_summary st)). find_row (ad_modes db) (ie_mode_id env n) = None)"

lemma propose_modes_facts:
  assumes "inj (ie_mode_id env)" "ingest_ok env st db" "propose_modes sc env by_slug ps st db = (res, db')"
  shows "db_grows db db' \<and> (case res of Inl e \<Rightarrow> True | Inr st' \<Rightarrow> ingest_ok env st' db' \<and>
    is_assignments_applied (in_summary st') = is_assignments_applied (in_summary st))"
  using assms(2,3)
proof (induction ps arbitrary: st db)
  case Nil
  then show ?case by (auto simp: return_exec_def)
next
  case (Cons p ps)
  show ?case
  proof (cases "map_of by_slug (pm_slug p)")
    case (Some i)
    define st1 where "st1 = st\<lparr>in_slug_to_mode := AList.update (pm_slug p) i (in_slug_to_mode st),
           in_summary := (in_summary st)\<lparr>is_updated_candidates := is_updated_candidates (in_summary st) @ [i]\<rparr>\<rparr>"
    have "ingest_ok env st1 db" using Cons.prems(1) by (simp add: ingest_ok_def st1_def)
    moreover have "propose_modes sc env by_slug ps st1 db = (res, db')" using Cons.prems(2) Some by (simp add: st1_def)
    moreover have "is_assignments_applied (in_summary st1) = is_assignments_applied (in_summary st)" by (simp add: st1_def)
    ultimately show ?thesis using Cons.IH [of st1 db] by (cases res) auto
  next
    case None
    define k where "k = length (is_created_candidates (in_summary st))"
    define i where "i = ie_mode_id env k"
    define m where "m = candidate_mode (sc_workspace_id sc) (ie_now env) i (ie_proposed_by env)
      (case pm_parent_slug p of None \<Rightarrow> None | Some s \<Rightarrow> map_of by_slug s) p"
    define st1 where "st1 = st\<lparr>in_by_id := AList.update i m (in_by_id st),
                   in_slug_to_mode := AList.update (pm_slug p) i (in_slug_to_mode st),
                   in_summary := (in_summary st)\<lparr>is_created_candidates := is_created_candidates (in_summary st) @ [i]\<rparr>\<rparr>"
    have step: "propose_modes sc env by_slug (p # ps) st = (if \<not> valid_FailureMode m then raise_exec ValueError
       else bind_exec (put_mode sc m) (\<lambda>_. propose_modes sc env by_slug ps st1))"
      by (simp add: None Let_def k_def i_def m_def st1_def)
    note run = Cons.prems(2) [unfolded step]
    have id: "ent_id m = i" by (simp add: m_def candidate_mode_def)
    have fresh: "find_row (ad_modes db) i = None" using Cons.prems(1) by (simp add: ingest_ok_def i_def k_def)
    obtain r db1 where put: "put_mode sc m db = (r, db1)" by (cases "put_mode sc m db")
    show ?thesis
    proof (cases "valid_FailureMode m \<and> (\<exists>u. r = Inr u)")
      case False
      then have "db' = db \<and> (\<exists>e. res = Inl e)"
        using run put put_failed(1) [of sc m db _ db1]
        by (cases r) (auto simp: raise_exec_def bind_exec_def split: if_splits)
      then show ?thesis by auto
    next
      case True
      then have put: "put_mode sc m db = (Inr (), db1)" using put by auto
      have ok: "table_ok (ad_modes db)" using Cons.prems(1) by (simp add: ingest_ok_def)
      note new = put_mode_new [OF put ok, unfolded id, OF fresh]
      have grow: "db_grows db db1" using new by (simp add: db_grows_def)
      have "ie_mode_id env n \<noteq> i" if "Suc k \<le> n" for n using assms(1) that by (auto simp: i_def inj_eq)
      then have "ingest_ok env st1 db1"
        using Cons.prems(1) new by (auto simp: ingest_ok_def st1_def update_conv k_def [symmetric])
      moreover have "propose_modes sc env by_slug ps st1 db1 = (res, db')"
        using run True put by (simp add: bind_exec_def)
      ultimately have "db_grows db1 db' \<and> (case res of Inl e \<Rightarrow> True | Inr st' \<Rightarrow> ingest_ok env st' db' \<and>
          is_assignments_applied (in_summary st') = is_assignments_applied (in_summary st1))" by (rule Cons.IH)
      moreover have "is_assignments_applied (in_summary st1) = is_assignments_applied (in_summary st)" by (simp add: st1_def)
      ultimately show ?thesis using db_grows_trans [OF grow] by (cases res) auto
    qed
  qed
qed

text \<open>The link one assignment leaves behind, and that it stays.\<close>

definition linked :: "AnalysisDb \<Rightarrow> Assignment \<Rightarrow> bool" where
  "linked db a \<longleftrightarrow> (\<exists>i m t. find_row (ad_modes db) i = Some m \<and> an_trace_id a \<in> fe_trace_id ` set (fm_examples m) \<and>
     find_row (ad_traces db) (an_trace_id a) = Some t \<and> (''error_analysis'', i) \<in> trace_tags t \<and>
     (case an_mode_id a of None \<Rightarrow> True | Some j \<Rightarrow> j = i))"

lemma linked_grows: "linked db a \<Longrightarrow> db_grows db db' \<Longrightarrow> linked db' a"
  unfolding linked_def db_grows_def modes_grow_def traces_grow_def mode_le_def by fastforce

lemma apply_assignment_facts:
  assumes "ingest_ok env st db" "apply_assignment sc env a st db = (res, db')"
  shows "db_grows db db' \<and> (case res of Inl e \<Rightarrow> True | Inr st' \<Rightarrow> ingest_ok env st' db' \<and> linked db' a \<and>
    is_assignments_applied (in_summary st') = is_assignments_applied (in_summary st) + 1)"
proof (cases "resolve_mode st a")
  case None
  with assms(2) show ?thesis by (auto simp: apply_assignment_def)
next
  case (Some i)
  show ?thesis
  proof (cases "get_entity sc (an_trace_id a) (ad_traces db)")
    case (Inl e)
    with Some assms(2) show ?thesis by (auto simp: apply_assignment_def)
  next
    case (Inr t)
    have ok: "table_ok (ad_modes db)" "table_ok (ad_traces db)" using assms(1) by (simp_all add: ingest_ok_def)
    note row = get_entity_row [OF ok(2) Inr]
    define t' where "t' = stamp_mode_on_trace i ''error_analysis'' t"
    obtain r db1 where put: "put_trace sc t' db = (r, db1)" by (cases "put_trace sc t' db")
    have step: "apply_assignment sc env a st db = bind_exec (put_trace sc t') (\<lambda>_.
         case map_of (in_by_id st) i of
           None \<Rightarrow> raise_exec KeyError
         | Some m \<Rightarrow>
             (let m' = m\<lparr>fm_examples := fm_examples m @ [example_of env a]\<rparr>
              in bind_exec (put_mode sc m') (\<lambda>_. return_exec
                (st\<lparr>in_by_id := AList.update i m' (in_by_id st),
                    in_summary := (in_summary st)\<lparr>is_assignments_applied := is_assignments_applied (in_summary st) + 1\<rparr>\<rparr>)))) db"
      by (simp add: apply_assignment_def Some Inr t'_def)
    note run = assms(2) [unfolded step]
    show ?thesis
    proof (cases r)
      case (Inl e)
      then have "db' = db" "res = Inl e" using run put put_failed(2) [of sc t' db e db1] by (auto simp: bind_exec_def)
      then show ?thesis by simp
    next
      case r: (Inr u)
      then have put: "put_trace sc t' db = (Inr (), db1)" using put by simp
      have tr: "table_ok (ad_traces db1)" "traces_grow (ad_traces db) (ad_traces db1)"
        "find_row (ad_traces db1) (an_trace_id a) = Some t'" "ad_modes db1 = ad_modes db"
        using put_trace_old [OF put ok(2), of t] row by (auto simp: t'_def stamp_tags)
      have grow1: "db_grows db db1" using tr by (simp add: db_grows_def)
      show ?thesis
      proof (cases "map_of (in_by_id st) i")
        case None
        then have "db' = db1" "\<exists>e. res = Inl e" using run put by (auto simp: bind_exec_def raise_exec_def)
        with grow1 show ?thesis by auto
      next
        case (Some m)
        define m' where "m' = m\<lparr>fm_examples := fm_examples m @ [example_of env a]\<rparr>"
        have old: "find_row (ad_modes db1) i = Some m" using assms(1) Some tr(4) by (simp add: ingest_ok_def)
        have m': "mode_le m m'" "ent_id m' = i" using find_row_Some [OF old] by (auto simp: mode_le_def m'_def)
        obtain r2 db2 where put2: "put_mode sc m' db1 = (r2, db2)" by (cases "put_mode sc m' db1")
        show ?thesis
        proof (cases r2)
          case (Inl e)
          then have "db' = db1" "res = Inl e"
            using run put Some put2 put_failed(1) [of sc m' db1 e db2] by (auto simp: bind_exec_def m'_def Let_def)
          with grow1 show ?thesis by simp
        next
          case (Inr u2)
          then have put2: "put_mode sc m' db1 = (Inr (), db2)" using put2 by simp
          define st' where "st' = st\<lparr>in_by_id := AList.update i m' (in_by_id st),
                    in_summary := (in_summary st)\<lparr>is_assignments_applied := is_assignments_applied (in_summary st) + 1\<rparr>\<rparr>"
          have res: "res = Inr st'" "db' = db2"
            using run put Some put2 by (auto simp: bind_exec_def m'_def Let_def return_exec_def st'_def)
          have md: "table_ok (ad_modes db2)" "modes_grow (ad_modes db1) (ad_modes db2)" "find_row (ad_modes db2) i = Some m'"
            "ad_traces db2 = ad_traces db1" "\<And>j. j \<noteq> i \<Longrightarrow> find_row (ad_modes db2) j = find_row (ad_modes db1) j"
            using put_mode_old [OF put2] ok(1) tr(4) old m' by auto
          have grow: "db_grows db db2" using db_grows_trans [OF grow1, of db2] md by (simp add: db_grows_def)
          have "find_row (ad_modes db2) (ie_mode_id env n) = None" if "find_row (ad_modes db) (ie_mode_id env n) = None" for n
            using that old md(5) [of "ie_mode_id env n"] tr(4) by (cases "ie_mode_id env n = i") auto
          then have "ingest_ok env st' db2"
            using assms(1) md tr by (auto simp: ingest_ok_def st'_def update_conv)
          moreover have "linked db2 a"
            unfolding linked_def using md tr Some \<open>resolve_mode st a = Some i\<close>
            by (intro exI [of _ i] exI [of _ m'] exI [of _ t'])
              (auto simp: m'_def example_of_def t'_def stamp_tags resolve_mode_def Let_def split: option.splits)
          ultimately show ?thesis using grow by (simp add: res st'_def)
        qed
      qed
    qed
  qed
qed

lemma apply_assignments_facts:
  assumes "ingest_ok env st db" "apply_assignments sc env as st db = (res, db')"
  shows "db_grows db db' \<and> (case res of Inl e \<Rightarrow> True | Inr st' \<Rightarrow> (\<forall>a \<in> set as. linked db' a) \<and>
    is_assignments_applied (in_summary st') = is_assignments_applied (in_summary st) + length as)"
  using assms
proof (induction as arbitrary: st db)
  case Nil
  then show ?case by (auto simp: return_exec_def)
next
  case (Cons a as)
  obtain r db1 where a: "apply_assignment sc env a st db = (r, db1)" by (cases "apply_assignment sc env a st db")
  note facts = apply_assignment_facts [OF Cons.prems(1) a]
  show ?case
  proof (cases r)
    case (Inl e)
    with a Cons.prems(2) facts show ?thesis by (auto simp: bind_exec_def)
  next
    case (Inr st1)
    with a Cons.prems(2) have "apply_assignments sc env as st1 db1 = (res, db')" by (simp add: bind_exec_def)
    with Cons.IH [of st1 db1] facts Inr
    have ih: "db_grows db1 db'" "case res of Inl e \<Rightarrow> True | Inr st' \<Rightarrow> (\<forall>a \<in> set as. linked db' a) \<and>
        is_assignments_applied (in_summary st') = is_assignments_applied (in_summary st1) + length as" by auto
    have "linked db' a" using linked_grows [OF _ ih(1)] facts Inr by simp
    with ih facts Inr db_grows_trans [of db db1 db'] show ?thesis by (auto split: sum.splits)
  qed
qed

lemma record_hypotheses_facts:
  "record_hypotheses sc x env n hs db = (res, db') \<Longrightarrow>
     ad_modes db' = ad_modes db \<and> ad_traces db' = ad_traces db \<and> (\<forall>k. res = Inr k \<longrightarrow> k = n + length hs)"
proof (induction hs arbitrary: n db)
  case Nil
  then show ?case by (auto simp: return_exec_def)
next
  case (Cons h hs)
  define x' where "x' = hypothesis_record (sc_workspace_id sc) x env n h"
  obtain r db1 where p: "put_hypothesis sc x' db = (r, db1)" by (cases "put_hypothesis sc x' db")
  have same: "ad_modes db1 = ad_modes db" "ad_traces db1 = ad_traces db"
    using p by (auto simp: put_hypothesis_def split: sum.splits)
  show ?case
  proof (cases r)
    case (Inl e)
    with p Cons.prems same show ?thesis by (auto simp: bind_exec_def x'_def)
  next
    case (Inr u)
    with p Cons.prems have "record_hypotheses sc x env (n + 1) hs db1 = (res, db')" by (simp add: bind_exec_def x'_def)
    from Cons.IH [OF this] same show ?thesis by simp
  qed
qed

lemma map_of_update_all:
  "map_of (foldl (\<lambda>d m. AList.update (ent_id m) m d) d ms) i = Some m \<Longrightarrow>
     map_of d i = Some m \<or> (m \<in> set ms \<and> ent_id m = i)"
  by (induction ms arbitrary: d) (fastforce simp: update_conv split: if_splits)+

text \<open>C31. Whatever an agent answers and wherever the ingestion stops, no failure mode that was there changes but for
  examples added to it (modes are classified against, never renamed or removed) and no trace loses
  a failure mode; and an ingestion that succeeds has applied every assignment: its trace carries
  the mode it names, and the mode has the trace among its examples.\<close>

theorem ingest_grows:
  assumes "inj (ie_mode_id env)" "\<And>n. find_row (ad_modes db) (ie_mode_id env n) = None"
    and "table_ok (ad_modes db)" "table_ok (ad_traces db)" "ingest_result env ws x r db = (res, db')"
  shows "db_grows db db' \<and>
    (case res of Inl e \<Rightarrow> True | Inr s \<Rightarrow> (\<forall>a \<in> set (ar_assignments r). linked db' a) \<and>
      is_assignments_applied s = length (ar_assignments r) \<and> is_hypotheses_recorded s = length (ar_hypotheses r))"
proof (cases "open_scope ws")
  case (Inl e)
  with assms(5) show ?thesis by (auto simp: ingest_result_def)
next
  case sc: (Inr sc)
  show ?thesis
  proof (cases "list_entities sc MODE_COLUMNS None (ad_modes db)")
    case (Inl e)
    show ?thesis using assms(5) unfolding ingest_result_def sc Inl sum.case by auto
  next
    case ex: (Inr existing)
    define by_id where "by_id = foldl (\<lambda>d m. AList.update (ent_id m) m d) [] existing"
    define by_slug where "by_slug = foldl (\<lambda>d m. AList.update (fm_slug m) (ent_id m) d) [] existing"
    define st0 where "st0 = \<lparr>in_by_id = by_id, in_slug_to_mode = by_slug,
                      in_summary = \<lparr>is_created_candidates = [], is_updated_candidates = [], is_assignments_applied = 0,
                                    is_hypotheses_recorded = 0\<rparr>\<rparr>"
    have ok0: "ingest_ok env st0 db"
      using assms(2-4) list_entities_subset [OF ex] find_row_in [OF assms(3)]
      by (auto simp: ingest_ok_def st0_def by_id_def dest!: map_of_update_all)
    have step: "ingest_result env ws x r db = (case check_assignments r (map fst by_id) (map fst by_slug) of
               Inl e \<Rightarrow> (Inl e, db)
             | Inr _ \<Rightarrow> bind_exec (propose_modes sc env by_slug (ar_proposed_modes r) st0) (\<lambda>st.
                 bind_exec (apply_assignments sc env (ar_assignments r) st) (\<lambda>st.
                 bind_exec (record_hypotheses sc x env 0 (ar_hypotheses r)) (\<lambda>n.
                   return_exec ((in_summary st)\<lparr>is_hypotheses_recorded := n\<rparr>)))) db)"
      unfolding ingest_result_def sc ex by_id_def by_slug_def st0_def Let_def sum.case by (rule refl)
    note run = assms(5) [unfolded step]
    show ?thesis
    proof (cases "check_assignments r (map fst by_id) (map fst by_slug)")
      case (Inl e)
      with run show ?thesis by auto
    next
      case (Inr u)
      obtain r1 db1 where r1: "propose_modes sc env by_slug (ar_proposed_modes r) st0 db = (r1, db1)"
        by (cases "propose_modes sc env by_slug (ar_proposed_modes r) st0 db")
      note f1 = propose_modes_facts [OF assms(1) ok0 r1]
      show ?thesis
      proof (cases r1)
        case (Inl e)
        with run Inr r1 f1 show ?thesis by (auto simp: bind_exec_def)
      next
        case s1: (Inr st1)
        obtain r2 db2 where r2: "apply_assignments sc env (ar_assignments r) st1 db1 = (r2, db2)"
          by (cases "apply_assignments sc env (ar_assignments r) st1 db1")
        have ok1: "ingest_ok env st1 db1" "is_assignments_applied (in_summary st1) = 0" using f1 s1 by (simp_all add: st0_def)
        note f2 = apply_assignments_facts [OF ok1(1) r2]
        have grow2: "db_grows db db2" using db_grows_trans f1 f2 by blast
        show ?thesis
        proof (cases r2)
          case (Inl e)
          with run Inr r1 s1 r2 grow2 show ?thesis by (auto simp: bind_exec_def)
        next
          case s2: (Inr st2)
          obtain r3 db3 where r3: "record_hypotheses sc x env 0 (ar_hypotheses r) db2 = (r3, db3)"
            by (cases "record_hypotheses sc x env 0 (ar_hypotheses r) db2")
          note f3 = record_hypotheses_facts [OF r3]
          have grow3: "db_grows db2 db3" using f3 by (simp add: db_grows_def)
          have db': "db' = db3" using run Inr r1 s1 r2 s2 r3 by (cases r3) (auto simp: bind_exec_def return_exec_def)
          show ?thesis
          proof (cases r3)
            case (Inl e)
            with run Inr r1 s1 r2 s2 r3 db_grows_trans [OF grow2 grow3] show ?thesis by (auto simp: bind_exec_def)
          next
            case (Inr k)
            then have "res = Inr ((in_summary st2)\<lparr>is_hypotheses_recorded := k\<rparr>)"
              using run \<open>check_assignments r (map fst by_id) (map fst by_slug) = Inr u\<close> r1 s1 r2 s2 r3
              by (auto simp: bind_exec_def return_exec_def)
            moreover have "\<forall>a \<in> set (ar_assignments r). linked db3 a" using f2 s2 linked_grows [OF _ grow3] by auto
            ultimately show ?thesis using f2 f3 s2 Inr ok1(2) db' db_grows_trans [OF grow2 grow3] by simp
          qed
        qed
      qed
    qed
  qed
qed

definition sample_env :: IngestEnv where
  "sample_env = \<lparr>ie_now = 5, ie_mode_id = (\<lambda>n. ''fm_'' @ replicate n (CHR ''i'')), ie_hypothesis_id = (\<lambda>n. ''hyp''),
     ie_proposed_by = ''agent'', ie_route = None\<rparr>"

definition sample_analysis :: "string \<Rightarrow> AnalysisResult" where
  "sample_analysis trace_id = \<lparr>ar_assignments = [\<lparr>an_trace_id = trace_id, an_mode_id = None, an_new_mode_slug = Some ''late'',
       an_open_note = None, an_quote = None, an_confidence = None\<rparr>],
     ar_proposed_modes = [\<lparr>pm_slug = ''late'', pm_title = ''Late'', pm_definition = ''too late'', pm_parent_slug = None\<rparr>],
     ar_hypotheses = []\<rparr>"

definition sample_analysis_db :: AnalysisDb where
  "sample_analysis_db = \<lparr>ad_modes = [], ad_traces = [sample_trace ''tr_1'' None None], ad_hypotheses = []\<rparr>"

lemma sample_env_inj: "inj (ie_mode_id sample_env)"
  unfolding inj_on_def sample_env_def by (auto dest: arg_cong [where f = length])

lemma sample_ingest:
  "case ingest_result sample_env ''ws_1'' ''exp_1'' (sample_analysis ''tr_1'') sample_analysis_db of
     (Inr s, db') \<Rightarrow> True | _ \<Rightarrow> False"
  by code_simp

theorem ingest_grows_witness:
  "\<exists>s db'. ingest_result sample_env ''ws_1'' ''exp_1'' (sample_analysis ''tr_1'') sample_analysis_db = (Inr s, db') \<and>
     is_assignments_applied s = 1 \<and> list_all (linked db') (ar_assignments (sample_analysis ''tr_1''))"
proof -
  obtain s db' where run: "ingest_result sample_env ''ws_1'' ''exp_1'' (sample_analysis ''tr_1'') sample_analysis_db = (Inr s, db')"
    using sample_ingest by (auto split: prod.splits sum.splits)
  have "\<And>n. find_row (ad_modes sample_analysis_db) (ie_mode_id sample_env n) = None"
    "table_ok (ad_modes sample_analysis_db)" "table_ok (ad_traces sample_analysis_db)"
    by (simp_all add: sample_analysis_db_def find_row_def table_ok_def)
  from ingest_grows [OF sample_env_inj this run] run show ?thesis by (auto simp: sample_analysis_def list_all_iff)
qed

text \<open>An ingestion that is refused for an unknown trace has already stored the modes it proposed.\<close>

lemma ingest_not_atomic:
  "fst (ingest_result sample_env ''ws_1'' ''exp_1'' (sample_analysis ''gone'') sample_analysis_db) = Inl EntityNotFoundError \<and>
   map fm_slug (ad_modes (snd (ingest_result sample_env ''ws_1'' ''exp_1'' (sample_analysis ''gone'') sample_analysis_db))) = [''late'']"
  by code_simp

subsection \<open>The taxonomy\<close>

lemma load_mode_row: "table_ok t \<Longrightarrow> load_mode ws i t = Inr m \<Longrightarrow> find_row t i = Some m \<and> ent_id m = i"
  using get_entity_row by (auto simp: load_mode_def split: sum.splits)

lemma save_mode_row:
  assumes "table_ok t" "save_mode ws m t = Inr t'" "find_row t (ent_id m) = Some r" "created_at r = created_at m"
  shows "table_ok t' \<and> find_row t' i = (if i = ent_id m then Some m else find_row t i)"
proof -
  obtain sc where "put_entity sc m t = Inr t'" using assms(2) by (auto simp: save_mode_def bind_result_Inr_iff split: sum.splits)
  then have "t' = upsert m t" "table_ok t'" using put_entity_ok [OF assms(1)] by (auto simp: put_entity_Inr)
  moreover have "stamped m (Some r) = m" using assms(4) find_row_Some [OF assms(3)] by (intro stamped_same) simp_all
  ultimately show ?thesis using assms(3) by (auto simp: find_row_upsert)
qed

text \<open>Merging a failure mode into another loses no evidence: the destination has its own examples and then those
  of the source, the source stays in the taxonomy, retired, with its examples and a pointer to the
  destination, and no other mode changes.\<close>

theorem merge_keeps_evidence:
  assumes "table_ok t" "merge_failure_modes ws i into t = (Inr dst', t')"
  shows "\<exists>src dst. find_row t i = Some src \<and> find_row t into = Some dst \<and>
    find_row t' into = Some (dst\<lparr>fm_examples := fm_examples dst @ fm_examples src\<rparr>) \<and>
    find_row t' i = Some (src\<lparr>fm_superseded_by := Some into, fm_status := FailureModeStatus.RETIRED\<rparr>) \<and>
    (\<forall>j. j \<notin> {i, into} \<longrightarrow> find_row t' j = find_row t j)"
proof -
  obtain src dst t1 where p: "i \<noteq> into" "load_mode ws i t = Inr src" "load_mode ws into t = Inr dst"
    "save_mode ws (dst\<lparr>fm_examples := fm_examples dst @ fm_examples src\<rparr>) t = Inr t1"
    "save_mode ws (src\<lparr>fm_superseded_by := Some (ent_id dst), fm_status := FailureModeStatus.RETIRED\<rparr>) t1 = Inr t'"
    using assms(2) by (auto simp: merge_failure_modes_def Let_def split: if_splits sum.splits)
  have s: "find_row t i = Some src" "ent_id src = i" and d: "find_row t into = Some dst" "ent_id dst = into"
    using load_mode_row [OF assms(1)] p(2,3) by blast+
  have t1: "table_ok t1" "find_row t1 j = (if j = into then Some (dst\<lparr>fm_examples := fm_examples dst @ fm_examples src\<rparr>) else find_row t j)" for j
    using save_mode_row [OF assms(1) p(4), of dst] d by simp_all
  have "find_row t' j = (if j = i then Some (src\<lparr>fm_superseded_by := Some into, fm_status := FailureModeStatus.RETIRED\<rparr>) else find_row t1 j)" for j
    using save_mode_row [OF t1(1) p(5), of src] s p(1) d t1(2) by simp
  with s d t1(2) p(1) show ?thesis by simp
qed

definition sample_mode :: "string \<Rightarrow> FailureMode" where
  "sample_mode i = candidate_mode ''ws_1'' 0 i ''seed'' None
     \<lparr>pm_slug = i, pm_title = ''t'', pm_definition = ''d'', pm_parent_slug = None\<rparr>"

lemmas taxonomy_eval = merge_failure_modes_def load_mode_def save_mode_def open_scope_def get_entity_def guard_open_def
  load_row_def put_entity_def assert_owns_def put_entity_with_mapper_def find_row_def upsert_def restamp_def
  sample_mode_def candidate_mode_def

theorem merge_keeps_evidence_witness:
  "\<exists>dst' t'. merge_failure_modes ''ws_1'' ''a'' ''b'' [sample_mode ''a'', sample_mode ''b''] = (Inr dst', t') \<and>
     find_row t' ''a'' = Some ((sample_mode ''a'')\<lparr>fm_superseded_by := Some ''b'', fm_status := FailureModeStatus.RETIRED\<rparr>)"
proof -
  obtain dst' t' where run: "merge_failure_modes ''ws_1'' ''a'' ''b'' [sample_mode ''a'', sample_mode ''b''] = (Inr dst', t')"
    by (simp add: taxonomy_eval Let_def)
  have "table_ok [sample_mode ''a'', sample_mode ''b'']" by (simp add: table_ok_def sample_mode_def candidate_mode_def)
  from merge_keeps_evidence [OF this run] run show ?thesis by (auto simp: find_row_def sample_mode_def candidate_mode_def)
qed

text \<open>Two merges in opposite directions leave two retired modes that point at each other.\<close>

lemma merges_make_a_cycle:
  "let t = snd (merge_failure_modes ''ws_1'' ''b'' ''a''
        (snd (merge_failure_modes ''ws_1'' ''a'' ''b'' [sample_mode ''a'', sample_mode ''b''])))
   in map fm_superseded_by t = [Some ''b'', Some ''a''] \<and> map fm_status t = [FailureModeStatus.RETIRED, FailureModeStatus.RETIRED]"
  by (simp add: taxonomy_eval Let_def)

text \<open>A slug may end in a newline, and the first failing label of a trace need not be its worst.\<close>

lemma slug_with_newline: "slug_matches (''late'' @ [CHR 0x0A])"
  by (simp add: slug_matches_def Let_def slug_start_def is_digit_def)

end
