(* ===== verification/Otel.thy ===== *)
theory Otel
  imports Multiturn
begin

section \<open>trace/otel\_importer.py and runner/otlp\_to\_recorder.py\<close>

text \<open>
  Foreign spans made into spans of a trace.  A raw span is the dictionary an exporter emits, decoded
  from JSON.  \<open>OtelEnv\<close> holds what the importer calls: the ISO parser (which says whether the text
  names a zone), the epoch conversion, \<^verbatim>\<open>str\<close> of a value that is not a string, the content hash, and
  fresh identifiers, one for each position.  A parsed time is a pair of a flag, whether it carries a
  zone, and a moment: comparing or subtracting times of both kinds raises a \<^verbatim>\<open>TypeError\<close>.  Letter case,
  white space and digits are those of ASCII.
\<close>

record OtelEnv =
  oe_iso :: "string \<Rightarrow> (bool \<times> timestamp) option"
  oe_epoch :: "rat \<Rightarrow> timestamp option"
  oe_str :: "json \<Rightarrow> string"
  oe_hash :: "json \<Rightarrow> string"
  oe_fresh :: "nat \<Rightarrow> string"

type_synonym moment = "bool \<times> timestamp"

subsection \<open>Values of a raw span\<close>

definition py_or :: "json \<Rightarrow> json \<Rightarrow> json" where
  "py_or v w = (if py_truthy v then v else w)"

definition key_of :: "json dict \<Rightarrow> string \<Rightarrow> json" where
  "key_of d k = dict_get d k JNull"

definition str_of :: "OtelEnv \<Rightarrow> json \<Rightarrow> string" where
  "str_of env v = (case v of JStr s \<Rightarrow> s | _ \<Rightarrow> oe_str env v)"

text \<open>What pydantic accepts for \<^verbatim>\<open>NonEmptyStr\<close>, \<^verbatim>\<open>str | None\<close>, \<^verbatim>\<open>NonEmptyStr | None\<close> and a natural number.\<close>

definition nonempty_field :: "json \<Rightarrow> string result" where
  "nonempty_field v = (case v of JStr s \<Rightarrow> if s = [] then Inl ValueError else Inr s | _ \<Rightarrow> Inl ValueError)"

definition opt_str_field :: "json \<Rightarrow> string option result" where
  "opt_str_field v = (case v of JNull \<Rightarrow> Inr None | JStr s \<Rightarrow> Inr (Some s) | _ \<Rightarrow> Inl ValueError)"

definition opt_nonempty_field :: "json \<Rightarrow> string option result" where
  "opt_nonempty_field v = (case v of JNull \<Rightarrow> Inr None | _ \<Rightarrow> bind_result (nonempty_field v) (\<lambda>s. Inr (Some s)))"

definition nat_field :: "int \<Rightarrow> nat result" where
  "nat_field i = (if i < 0 then Inl ValueError else Inr (nat i))"

definition check_str :: "string \<Rightarrow> string result" where
  "check_str s = (if s = [] then Inl ValueError else Inr s)"

definition attrs_of :: "json dict \<Rightarrow> json dict result" where
  "attrs_of raw = (let v = key_of raw ''attributes'' in
     if \<not> py_truthy v then Inr []
     else case v of JObj d \<Rightarrow> Inr d | JStr _ \<Rightarrow> Inl ValueError | _ \<Rightarrow> Inl TypeError)"

definition z_to_offset :: "string \<Rightarrow> string" where
  "z_to_offset s = (if s \<noteq> [] \<and> last s = CHR ''Z''
     then concat (map (\<lambda>c. if c = CHR ''Z'' then ''+00:00'' else [c]) s) else s)"

definition parse_time :: "OtelEnv \<Rightarrow> json \<Rightarrow> moment result" where
  "parse_time env v =
     (case v of
        JStr s \<Rightarrow> (case oe_iso env (z_to_offset s) of None \<Rightarrow> Inl ValueError | Some m \<Rightarrow> Inr m)
      | _ \<Rightarrow>
        (case json_num v of
           None \<Rightarrow> Inl ValueError
         | Some q \<Rightarrow>
             (case oe_epoch env (if 1000000000000 < q then q / 1000000000 else q) of
                None \<Rightarrow> Inl ValueError
              | Some t \<Rightarrow> Inr (True, t))))"

definition time_less :: "moment \<Rightarrow> moment \<Rightarrow> bool result" where
  "time_less a b = (if fst a \<noteq> fst b then Inl TypeError else Inr (snd a < snd b))"

definition start_value :: "json dict \<Rightarrow> json" where
  "start_value raw = py_or (key_of raw ''start_time'') (key_of raw ''started_at'')"

definition end_value :: "json dict \<Rightarrow> json" where
  "end_value raw = py_or (key_of raw ''end_time'') (key_of raw ''ended_at'')"

definition otel_duration_ms :: "OtelEnv \<Rightarrow> json dict \<Rightarrow> int result" where
  "otel_duration_ms env raw =
     (case map_of raw ''duration_ms'' of
        Some v \<Rightarrow> int_of_json v
      | None \<Rightarrow>
          if start_value raw \<noteq> JNull \<and> end_value raw \<noteq> JNull then
            bind_result (parse_time env (end_value raw)) (\<lambda>e.
            bind_result (parse_time env (start_value raw)) (\<lambda>s.
              if fst e \<noteq> fst s then Inl TypeError
              else int_of_json (JFloat (of_int (snd e - snd s) / 1000))))
          else Inr 0)"

definition STOP_REASON_ALIASES :: "StopReason dict" where
  "STOP_REASON_ALIASES =
     [(''stop'', StopReason.END_TURN), (''end_turn'', StopReason.END_TURN), (''endofturn'', StopReason.END_TURN),
      (''tool_use'', StopReason.TOOL_USE), (''tool_calls'', StopReason.TOOL_USE),
      (''length'', StopReason.MAX_TOKENS), (''max_tokens'', StopReason.MAX_TOKENS),
      (''stop_sequence'', StopReason.STOP_SEQUENCE), (''pause_turn'', StopReason.PAUSE_TURN),
      (''content_filter'', StopReason.REFUSAL), (''refusal'', StopReason.REFUSAL), (''error'', StopReason.ERROR)]"

definition normalize_stop_reason :: "json \<Rightarrow> StopReason option" where
  "normalize_stop_reason v =
     (case (case v of JList (x # _) \<Rightarrow> x | _ \<Rightarrow> v) of
        JStr s \<Rightarrow> map_of STOP_REASON_ALIASES (lower (strip s))
      | _ \<Rightarrow> None)"

definition KIND_ALIASES :: "SpanKind dict" where
  "KIND_ALIASES =
     [(''llm'', SpanKind.LLM_CALL), (''tool'', SpanKind.TOOL_CALL), (''retriever'', SpanKind.RETRIEVAL),
      (''retrieval'', SpanKind.RETRIEVAL), (''agent'', SpanKind.AGENT_TURN), (''chain'', SpanKind.AGENT_TURN),
      (''guardrail'', SpanKind.GUARDRAIL_CHECK), (''memory'', SpanKind.MEMORY_READ)]"

definition classify_span :: "json dict \<Rightarrow> json dict \<Rightarrow> SpanKind" where
  "classify_span raw attrs =
     (case (case py_or (key_of attrs ''openinference.span.kind'') (key_of raw ''kind'') of
              JStr s \<Rightarrow> map_of KIND_ALIASES (lower (strip s))
            | _ \<Rightarrow> None) of
        Some k \<Rightarrow> k
      | None \<Rightarrow>
          if list_ex (\<lambda>k. starts_with k ''gen_ai.'') (dict_keys attrs) then SpanKind.LLM_CALL
          else if ''tool.name'' \<in> set (dict_keys attrs) \<or> ''openinference.tool.name'' \<in> set (dict_keys attrs)
          then SpanKind.TOOL_CALL
          else if ''retrieval.documents.count'' \<in> set (dict_keys attrs) \<or>
                  ''openinference.retrieval.documents'' \<in> set (dict_keys attrs)
          then SpanKind.RETRIEVAL
          else SpanKind.CUSTOM)"

subsection \<open>Messages\<close>

definition message_key :: "string \<Rightarrow> bool \<Rightarrow> string \<Rightarrow> (nat \<times> string) option" where
  "message_key pre nested key =
     (if \<not> starts_with key pre then None
      else let parts = split_first (CHR ''.'') (drop (length pre) key); head = fst parts
      in case snd parts of
           None \<Rightarrow> None
         | Some tail \<Rightarrow>
             if head = [] \<or> \<not> list_all is_digit head \<or> tail = [] then None
             else if nested then
               if starts_with tail ''message.'' then Some (digits_val 0 head, drop (length ''message.'') tail) else None
             else Some (digits_val 0 head, tail))"

definition collect_messages :: "json dict \<Rightarrow> string \<Rightarrow> bool \<Rightarrow> json list" where
  "collect_messages attrs pre nested =
     (let buckets = foldl (\<lambda>bs (k, v). case message_key pre nested k of
            None \<Rightarrow> bs
          | Some (i, sub) \<Rightarrow> dict_modify bs i [] (AList.update sub v)) [] attrs
      in map (\<lambda>i. JObj (dict_get buckets i [])) (sort (dict_keys buckets)))"

definition extract_messages :: "json dict \<Rightarrow> bool \<Rightarrow> json list" where
  "extract_messages attrs is_input =
     (let messages = collect_messages attrs (if is_input then ''llm.input_messages.'' else ''llm.output_messages.'') True
      in if messages = [] then collect_messages attrs (if is_input then ''gen_ai.prompt.'' else ''gen_ai.completion.'') False
         else messages)"

subsection \<open>Builders\<close>

text \<open>The common fields; the times are read before pydantic looks at any field.\<close>

definition read_base :: "OtelEnv \<Rightarrow> nat \<Rightarrow> string \<Rightarrow> json dict \<Rightarrow> SpanBase result" where
  "read_base env i nm raw =
     bind_result (parse_time env (start_value raw)) (\<lambda>started.
     bind_result (otel_duration_ms env raw) (\<lambda>dur.
     bind_result (nonempty_field (py_or (key_of raw ''span_id'') (JStr (oe_fresh env i)))) (\<lambda>sid.
     bind_result (opt_nonempty_field (key_of raw ''parent_span_id'')) (\<lambda>parent.
     bind_result (nonempty_field (dict_get raw ''name'' (JStr nm))) (\<lambda>name.
     bind_result (nat_field dur) (\<lambda>d.
       Inr (build_base sid parent name (snd started) d)))))))"

definition attr_int :: "json dict \<Rightarrow> string \<Rightarrow> int result" where
  "attr_int attrs k = int_of_json (py_or (dict_get attrs k (JInt 0)) (JInt 0))"

definition read_tokens :: "json dict \<Rightarrow> TokenBreakdown result" where
  "read_tokens attrs =
     bind_result (attr_int attrs ''gen_ai.usage.input_tokens'') (\<lambda>inp.
     bind_result (attr_int attrs ''gen_ai.usage.cache_read_input_tokens'') (\<lambda>cr.
     bind_result (attr_int attrs ''gen_ai.usage.cache_creation_input_tokens'') (\<lambda>cc.
     bind_result (attr_int attrs ''gen_ai.usage.output_tokens'') (\<lambda>out.
     bind_result (attr_int attrs ''gen_ai.usage.reasoning_tokens'') (\<lambda>rsn.
     bind_result (int_of_json (py_or (dict_get attrs ''gen_ai.usage.total_tokens'' (JInt 0))
         (JInt (inp + cr + cc + out + rsn)))) (\<lambda>tot.
     bind_result (nat_field inp) (\<lambda>inp'.
     bind_result (nat_field cr) (\<lambda>cr'.
     bind_result (nat_field cc) (\<lambda>cc'.
     bind_result (nat_field out) (\<lambda>out'.
     bind_result (nat_field rsn) (\<lambda>rsn'.
     bind_result (nat_field tot) (\<lambda>tot'.
       (let t = \<lparr>tb_input = inp', tb_input_cache_read = cr', tb_input_cache_creation = cc', tb_output = out',
              tb_reasoning = rsn', tb_total = tot'\<rparr>
        in if total_covers_components t then Inr t else Inl ValueError)))))))))))))"

definition known_prefix :: "string \<Rightarrow> bool" where
  "known_prefix k \<longleftrightarrow> list_ex (starts_with k)
     [''gen_ai.'', ''openinference.'', ''llm.input_messages.'', ''llm.output_messages.'']"

definition otel_metadata :: "json dict \<Rightarrow> json list \<Rightarrow> json list \<Rightarrow> json dict" where
  "otel_metadata attrs messages_in messages_out =
     (let m = filter (\<lambda>(k, v). \<not> known_prefix k) attrs;
          m = (if messages_in \<noteq> [] then AList.update ''selfevals.messages_in'' (JList messages_in) m else m)
      in if messages_out \<noteq> [] then AList.update ''selfevals.messages_out'' (JList messages_out) m else m)"

definition otel_params :: "json dict \<Rightarrow> json dict" where
  "otel_params attrs =
     map (\<lambda>(k, v). (drop (length ''gen_ai.request.'') k, v))
       (filter (\<lambda>(k, v). starts_with k ''gen_ai.request.'' \<and> k \<noteq> ''gen_ai.request.model'') attrs)"

definition build_llm_span :: "OtelEnv \<Rightarrow> nat \<Rightarrow> json dict \<Rightarrow> json dict \<Rightarrow> LLMCallSpan result" where
  "build_llm_span env i raw attrs =
     bind_result (read_tokens attrs) (\<lambda>tokens.
      let messages_in = extract_messages attrs True; messages_out = extract_messages attrs False
      in bind_result (read_base env i ''llm_call'' raw) (\<lambda>b.
         bind_result (check_str (str_of env (dict_get attrs ''gen_ai.system'' (JStr ''unknown'')))) (\<lambda>provider.
         bind_result (check_str (str_of env (dict_get attrs ''gen_ai.request.model'' (JStr ''unknown'')))) (\<lambda>model.
         bind_result (opt_str_field (key_of attrs ''gen_ai.response.model'')) (\<lambda>pinned.
           Inr (SpanBase.extend b
             \<lparr>lc_provider = provider, lc_model = model, lc_model_version_pinned = pinned,
              lc_system_prompt_pointer = None, lc_system_prompt_hash = None, lc_system_prompt_inline = None,
              lc_messages_pointer = None,
              lc_messages_hash = (if messages_in = [] then None else Some (oe_hash env (JList messages_in))),
              lc_messages_inline = None, lc_tools_offered = [], lc_tools_offered_hash = None,
              lc_params = otel_params attrs, lc_reasoning = empty_reasoning,
              lc_output = empty_output\<lparr>
                lo_content_hash := (if messages_out = [] then None else Some (oe_hash env (JList messages_out))),
                lo_stop_reason := normalize_stop_reason (key_of attrs ''gen_ai.response.finish_reasons'')\<rparr>,
              lc_tokens = tokens, lc_cost_usd = zero_cost, lc_time_to_first_token_ms = None,
              lc_tokens_per_second = None, lc_retries = 0, lc_cache_hit = False,
              lc_provider_metadata = otel_metadata attrs messages_in messages_out\<rparr>))))))"

definition tool_status :: "OtelEnv \<Rightarrow> json dict \<Rightarrow> ToolCallStatus" where
  "tool_status env attrs =
     (let raw = py_or (py_or (key_of attrs ''tool.status'') (key_of attrs ''openinference.tool.status'')) (JStr ''ok'')
      in case enum_of ToolCallStatus_value ToolCallStatus_members (lower (strip (str_of env raw))) of
           Inr s \<Rightarrow> s
         | Inl _ \<Rightarrow> ToolCallStatus.OK)"

definition build_tool_span :: "OtelEnv \<Rightarrow> nat \<Rightarrow> json dict \<Rightarrow> json dict \<Rightarrow> ToolCallSpan result" where
  "build_tool_span env i raw attrs =
     bind_result (read_base env i ''tool_call'' raw) (\<lambda>b.
     bind_result (check_str (str_of env (py_or (py_or (key_of attrs ''openinference.tool.name'')
         (key_of attrs ''tool.name'')) (dict_get raw ''name'' (JStr ''tool_call''))))) (\<lambda>tool.
     bind_result (opt_str_field (py_or (key_of attrs ''openinference.tool.call_id'') (key_of attrs ''tool.call_id''))) (\<lambda>call.
     bind_result (opt_str_field (py_or (key_of attrs ''tool.error'') (key_of attrs ''error.message''))) (\<lambda>err.
       Inr (SpanBase.extend b
         \<lparr>tc_tool_name = tool, tc_tool_version = None, tc_tool_use_id = call, tc_args_pointer = None,
          tc_args_hash = None, tc_args_inline = None, tc_result_pointer = None, tc_result_hash = None,
          tc_result_inline = None, tc_status = tool_status env attrs, tc_error = err, tc_retry_chain = [],
          tc_sandboxed = False, tc_side_effects = []\<rparr>)))))"

definition build_retrieval_span :: "OtelEnv \<Rightarrow> nat \<Rightarrow> json dict \<Rightarrow> json dict \<Rightarrow> RetrievalSpan result" where
  "build_retrieval_span env i raw attrs =
     bind_result (int_of_json (py_or (py_or (key_of attrs ''retrieval.documents.count'')
         (key_of attrs ''openinference.retrieval.documents'')) (JInt 1))) (\<lambda>top_k.
     bind_result (read_base env i ''retrieval'' raw) (\<lambda>b.
     bind_result (check_str (str_of env (py_or (key_of attrs ''retrieval.retriever'') (JStr ''unknown'')))) (\<lambda>retriever.
     bind_result (nat_field top_k) (\<lambda>returned.
       Inr (SpanBase.extend b
         \<lparr>rt_retriever = retriever, rt_query_pointer = None, rt_query_hash = None, rt_query_embedding_model = None,
          rt_top_k_requested = nat (max 1 top_k), rt_top_k_returned = returned, rt_retrieved = [],
          rt_reranker = None, rt_grounding_used = []\<rparr>)))))"

definition build_custom :: "OtelEnv \<Rightarrow> nat \<Rightarrow> json dict \<Rightarrow> json dict \<Rightarrow> CustomSpan result" where
  "build_custom env i raw attrs =
     bind_result (read_base env i ''custom'' raw) (\<lambda>b. Inr (SpanBase.extend b \<lparr>cs_payload = attrs\<rparr>))"

text \<open>One turn of the importer's loop.  A guardrail or a memory span becomes a custom span.\<close>

definition build_span :: "OtelEnv \<Rightarrow> nat \<Rightarrow> json dict \<Rightarrow> Span result" where
  "build_span env i raw =
     bind_result (attrs_of raw) (\<lambda>attrs.
       case classify_span raw attrs of
         SpanKind.LLM_CALL \<Rightarrow> bind_result (build_llm_span env i raw attrs) (\<lambda>s. Inr (LLMCallSpan s))
       | SpanKind.TOOL_CALL \<Rightarrow> bind_result (build_tool_span env i raw attrs) (\<lambda>s. Inr (ToolCallSpan s))
       | SpanKind.RETRIEVAL \<Rightarrow> bind_result (build_retrieval_span env i raw attrs) (\<lambda>s. Inr (RetrievalSpan s))
       | SpanKind.AGENT_TURN \<Rightarrow> bind_result (read_base env i ''agent_turn'' raw) (\<lambda>s. Inr (AgentTurnSpan s))
       | _ \<Rightarrow> bind_result (build_custom env i raw attrs) (\<lambda>s. Inr (CustomSpan s)))"

subsection \<open>Linking tool calls to model calls\<close>

definition span_index :: "Span \<Rightarrow> Span list \<Rightarrow> nat option" where
  "span_index s out = (if s \<in> set out then Some (length (takeWhile (\<lambda>x. x \<noteq> s) out)) else None)"

text \<open>The parent is looked up among the spans as they came in, the nearest preceding model call among the
  spans as they are now.\<close>

definition parent_llm :: "Span list \<Rightarrow> ToolCallSpan \<Rightarrow> LLMCallSpan option" where
  "parent_llm spans s =
     (case span_parent_id s of
        None \<Rightarrow> None
      | Some p \<Rightarrow> if p = [] then None
          else Option.bind (map_of (rev (map (\<lambda>x. (span_id (span_base x), x)) spans)) p) as_llm_call)"

definition candidate_llm :: "Span list \<Rightarrow> Span list \<Rightarrow> nat \<Rightarrow> ToolCallSpan \<Rightarrow> LLMCallSpan option" where
  "candidate_llm spans out idx s =
     (case parent_llm spans s of
        Some c \<Rightarrow> Some c
      | None \<Rightarrow> (case List.map_filter as_llm_call (rev (take idx out)) of [] \<Rightarrow> None | c # _ \<Rightarrow> Some c))"

definition add_request :: "ToolUseRequest \<Rightarrow> LLMCallSpan \<Rightarrow> LLMCallSpan" where
  "add_request r c = c\<lparr>lc_output := (lc_output c)\<lparr>lo_tool_use_requested := lo_tool_use_requested (lc_output c) @ [r]\<rparr>\<rparr>"

definition link_step :: "Span list \<Rightarrow> nat \<Rightarrow> Span list \<times> string list \<Rightarrow> (Span list \<times> string list) result" where
  "link_step spans idx st =
     (case st of (out, requested) \<Rightarrow>
        case out ! idx of
          ToolCallSpan s \<Rightarrow>
            (case tc_tool_use_id s of
               None \<Rightarrow> Inr (out, requested)
             | Some call \<Rightarrow>
                 if call \<in> set requested then Inr (out, requested)
                 else case candidate_llm spans out idx s of
                   None \<Rightarrow> Inr (out[idx := ToolCallSpan (s\<lparr>tc_tool_use_id := None\<rparr>)], requested)
                 | Some c \<Rightarrow>
                     if tc_tool_name s = [] \<or> call = [] then Inl ValueError
                     else case span_index (LLMCallSpan c) out of
                       None \<Rightarrow> Inl ValueError
                     | Some k \<Rightarrow>
                         Inr (out[k := LLMCallSpan (add_request \<lparr>tur_tool = tc_tool_name s, tur_tool_use_id = call\<rparr> c)],
                              call # requested))
        | _ \<Rightarrow> Inr (out, requested))"

fun link_loop :: "Span list \<Rightarrow> nat list \<Rightarrow> Span list \<times> string list \<Rightarrow> (Span list \<times> string list) result" where
  "link_loop spans [] st = Inr st"
| "link_loop spans (i # is) st = bind_result (link_step spans i st) (link_loop spans is)"

definition link_tool_use_ids :: "Span list \<Rightarrow> Span list result" where
  "link_tool_use_ids spans =
     bind_result (link_loop spans [0..<length spans] (spans, requested_tool_use_ids spans)) (\<lambda>st. Inr (fst st))"

subsection \<open>The import\<close>

definition thread_value :: "json dict \<Rightarrow> string option" where
  "thread_value attrs =
     (case filter (\<lambda>s. strip s \<noteq> []) (List.map_filter (\<lambda>k. as_str (key_of attrs k)) [''session.id'', ''gen_ai.conversation.id'']) of
        [] \<Rightarrow> None
      | s # _ \<Rightarrow> Some (strip s))"

fun detect_thread_id :: "json dict list \<Rightarrow> string option" where
  "detect_thread_id [] = None"
| "detect_thread_id (raw # raws) =
     (case (case attrs_of raw of Inl _ \<Rightarrow> None | Inr attrs \<Rightarrow> thread_value attrs) of
        Some t \<Rightarrow> Some t
      | None \<Rightarrow> detect_thread_id raws)"

record OtelScan =
  os_spans :: "Span list"
  os_earliest :: "moment option"
  os_latest :: "moment option"

definition earlier :: "moment option \<Rightarrow> moment \<Rightarrow> moment option result" where
  "earlier cur m = (case cur of
     None \<Rightarrow> Inr (Some m)
   | Some e \<Rightarrow> bind_result (time_less m e) (\<lambda>less. Inr (if less then Some m else cur)))"

definition later :: "moment option \<Rightarrow> moment \<Rightarrow> moment option result" where
  "later cur m = (case cur of
     None \<Rightarrow> Inr (Some m)
   | Some l \<Rightarrow> bind_result (time_less l m) (\<lambda>less. Inr (if less then Some m else cur)))"

fun scan_spans :: "OtelEnv \<Rightarrow> nat \<Rightarrow> json dict list \<Rightarrow> OtelScan \<Rightarrow> OtelScan result" where
  "scan_spans env i [] st = Inr st"
| "scan_spans env i (raw # raws) st =
     bind_result (build_span env i raw) (\<lambda>s.
     bind_result (parse_time env (start_value raw)) (\<lambda>m.
     bind_result (earlier (os_earliest st) m) (\<lambda>e.
     bind_result (later (os_latest st) m) (\<lambda>l.
       scan_spans env (i + 1) raws \<lparr>os_spans = os_spans st @ [s], os_earliest = e, os_latest = l\<rparr>))))"

definition default_metrics :: TraceMetrics where
  "default_metrics = \<lparr>tm_total_tokens_in = 0, tm_total_tokens_out = 0, tm_total_cost_usd = 0,
     tm_total_duration_ms = 0, tm_tool_call_count = 0, tm_llm_call_count = 0, tm_retries = 0,
     tm_recovery_events = 0, tm_loop_detected = False\<rparr>"

definition or_else :: "'a option \<Rightarrow> 'a \<Rightarrow> 'a" where
  "or_else x y = (case x of None \<Rightarrow> y | Some v \<Rightarrow> v)"

definition import_otel_spans ::
    "OtelEnv \<Rightarrow> string \<Rightarrow> timestamp \<Rightarrow> json dict list \<Rightarrow> string \<Rightarrow> RunInfo \<Rightarrow> AgentSnapshotRef \<Rightarrow> string \<Rightarrow> string \<Rightarrow>
       SandboxMode \<Rightarrow> moment option \<Rightarrow> FinalState option \<Rightarrow> Trace result" where
  "import_otel_spans env fresh now raws ws run agent framework runtime sandbox env_started final =
     (if ws = [] then Inl ValueError
      else
        bind_result (scan_spans env 0 raws \<lparr>os_spans = [], os_earliest = None, os_latest = None\<rparr>) (\<lambda>sc.
        bind_result (link_tool_use_ids (os_spans sc)) (\<lambda>spans.
         let run' = (if ri_thread_id run = None \<and> detect_thread_id raws \<noteq> None
                     then run\<lparr>ri_thread_id := detect_thread_id raws\<rparr> else run);
             start = or_else env_started (or_else (os_earliest sc) (True, now));
             fin = or_else (os_latest sc) start
         in bind_result (check_str framework) (\<lambda>fw.
            bind_result (check_str runtime) (\<lambda>rt.
            bind_result (time_less fin start) (\<lambda>backwards.
              if backwards then Inl ValueError
              else validate_Trace
                \<lparr>ent_id = fresh, workspace_id = ws, version = 1, created_at = now, updated_at = now, deleted_at = None,
                 tr_schema_version = ''1.5.0'', tr_run = run', tr_agent = agent,
                 tr_environment = \<lparr>ev_framework_version = fw, ev_runtime = rt, ev_sandbox = sandbox,
                   ev_tool_mocks = [], ev_started_at = snd start, ev_ended_at = Some (snd fin)\<rparr>,
                 tr_final_state = or_else final \<lparr>fs_status = TraceState.COMPLETED, fs_error = None\<rparr>,
                 tr_spans = spans, tr_outputs = \<lparr>to_final_response_pointer = None, to_structured_output = None\<rparr>,
                 tr_grader_results = [], tr_metrics = default_metrics, tr_links = [], tr_snapshot_id = None\<rparr>))))))"

subsection \<open>OTLP payloads and the live recorder\<close>

text \<open>The decoded protobuf message.  How a bytes value looks among decoded values is an argument.\<close>

datatype AnyValue =
    NoValue
  | StringValue string
  | BoolValue bool
  | IntValue int
  | DoubleValue rat
  | ArrayValue "AnyValue list"
  | KvlistValue "(string \<times> AnyValue) list"
  | BytesValue string

fun decode_any_value :: "(string \<Rightarrow> json) \<Rightarrow> AnyValue \<Rightarrow> json" where
  "decode_any_value raw_bytes NoValue = JNull"
| "decode_any_value raw_bytes (StringValue s) = JStr s"
| "decode_any_value raw_bytes (BoolValue b) = JBool b"
| "decode_any_value raw_bytes (IntValue i) = JInt i"
| "decode_any_value raw_bytes (DoubleValue q) = JFloat q"
| "decode_any_value raw_bytes (ArrayValue vs) = JList (map (decode_any_value raw_bytes) vs)"
| "decode_any_value raw_bytes (KvlistValue kvs) =
     JObj (foldl (\<lambda>d (k, v). AList.update k v d) [] (map (\<lambda>(k, v). (k, decode_any_value raw_bytes v)) kvs))"
| "decode_any_value raw_bytes (BytesValue b) = raw_bytes b"

definition decode_kv :: "(string \<Rightarrow> json) \<Rightarrow> (string \<times> AnyValue) list \<Rightarrow> json dict" where
  "decode_kv raw_bytes kvs = foldl (\<lambda>d (k, v). AList.update k v d) [] (map (\<lambda>(k, v). (k, decode_any_value raw_bytes v)) kvs)"

record OtlpSpan =
  ot_name :: string
  ot_span_id :: string
  ot_parent_span_id :: string
  ot_trace_id :: string
  ot_start_time_unix_nano :: nat
  ot_end_time_unix_nano :: nat
  ot_attributes :: "(string \<times> AnyValue) list"

record ResourceSpans =
  rs_attributes :: "(string \<times> AnyValue) list"
  rs_scopes :: "OtlpSpan list list"

definition hex_digit :: "nat \<Rightarrow> char" where
  "hex_digit n = char_of (if n < 10 then 48 + n else 87 + n)"

definition bytes_hex :: "string \<Rightarrow> string" where
  "bytes_hex bs = concat (map (\<lambda>b. [hex_digit (of_char b div 16), hex_digit (of_char b mod 16)]) bs)"

definition set_default :: "'v dict \<Rightarrow> string \<times> 'v \<Rightarrow> 'v dict" where
  "set_default d kv = (if fst kv \<in> set (dict_keys d) then d else d @ [kv])"

definition decode_span :: "(string \<Rightarrow> json) \<Rightarrow> json dict \<Rightarrow> OtlpSpan \<Rightarrow> json dict" where
  "decode_span raw_bytes resource_attrs s =
     [(''name'', JStr (ot_name s)),
      (''span_id'', JStr (bytes_hex (ot_span_id s))),
      (''parent_span_id'', if ot_parent_span_id s = [] then JNull else JStr (bytes_hex (ot_parent_span_id s))),
      (''trace_id'', JStr (bytes_hex (ot_trace_id s))),
      (''start_time'', JInt (int (ot_start_time_unix_nano s))),
      (''end_time'', JInt (int (ot_end_time_unix_nano s))),
      (''duration_ms'', JInt (max 0
         (let q = (of_nat (ot_end_time_unix_nano s) - of_nat (ot_start_time_unix_nano s)) / (1000000 :: rat)
          in if 0 \<le> q then \<lfloor>q\<rfloor> else \<lceil>q\<rceil>))),
      (''attributes'', JObj (foldl set_default (decode_kv raw_bytes (ot_attributes s)) resource_attrs))]"

definition decode_otlp :: "(string \<Rightarrow> json) \<Rightarrow> ResourceSpans list \<Rightarrow> json dict list" where
  "decode_otlp raw_bytes request =
     concat (map (\<lambda>r. map (decode_span raw_bytes (decode_kv raw_bytes (rs_attributes r))) (concat (rs_scopes r))) request)"

definition append_built :: "Span \<Rightarrow> Recorder \<Rightarrow> Recorder" where
  "append_built s r =
     (let r1 = r\<lparr>rc_spans := rc_spans r @ [s]\<rparr>
      in case as_llm_call s of
           None \<Rightarrow> r1
         | Some c \<Rightarrow> r1\<lparr>rc_tokens_in := rc_tokens_in r1 + (tb_input (lc_tokens c) + tb_input_cache_read (lc_tokens c)),
             rc_tokens_out := rc_tokens_out r1 + tb_output (lc_tokens c),
             rc_llm_call_count := rc_llm_call_count r1 + 1,
             rc_retries := rc_retries r1 + lc_retries c\<rparr>)"

fun feed_to_recorder :: "OtelEnv \<Rightarrow> nat \<Rightarrow> json dict list \<Rightarrow> (Recorder, nat) exec" where
  "feed_to_recorder env i [] r = (Inr i, r)"
| "feed_to_recorder env i (raw # raws) r =
     (case build_span env i raw of
        Inl e \<Rightarrow> (Inl e, r)
      | Inr s \<Rightarrow> feed_to_recorder env (i + 1) raws (append_built s r))"

end
