(* ===== verification/Otel_Properties.thy ===== *)
theory Otel_Properties
  imports Otel
begin

section \<open>What an imported trace is\<close>

text \<open>
  A batch whose tool calls do not hang directly under model calls is always imported, and the linking
  changes nothing but the requests of the model calls and the call identifiers that nothing
  precedes.  The lemmas at the end run the importer on batches it refuses.
\<close>

subsection \<open>What linking is meant to do\<close>

definition is_llm :: "Span \<Rightarrow> bool" where
  "is_llm s \<longleftrightarrow> as_llm_call s \<noteq> None"

text \<open>A span with the requests of a model call left out.\<close>

definition without_requests :: "Span \<Rightarrow> Span" where
  "without_requests s = (case s of
     LLMCallSpan c \<Rightarrow> LLMCallSpan (c\<lparr>lc_output := (lc_output c)\<lparr>lo_tool_use_requested := []\<rparr>\<rparr>)
   | _ \<Rightarrow> s)"

text \<open>A tool call keeps its call identifier if some model call precedes it.\<close>

definition settled :: "Span list \<Rightarrow> nat \<Rightarrow> Span" where
  "settled spans i = (case spans ! i of
     ToolCallSpan c \<Rightarrow> ToolCallSpan (if list_ex is_llm (take i spans) then c else c\<lparr>tc_tool_use_id := None\<rparr>)
   | s \<Rightarrow> without_requests s)"

text \<open>No tool call has a model call for its parent, and call identifiers are not empty.\<close>

definition flat_tools :: "Span list \<Rightarrow> bool" where
  "flat_tools spans = list_all (\<lambda>s. case s of
     ToolCallSpan c \<Rightarrow> parent_llm spans c = None \<and> tc_tool_name c \<noteq> [] \<and> tc_tool_use_id c \<noteq> Some []
   | _ \<Rightarrow> True) spans"

lemma without_requests_simps [simp]:
  "span_base (without_requests s) = span_base s"
  "is_llm (without_requests s) = is_llm s"
  "without_requests (ToolCallSpan c) = ToolCallSpan c"
  "without_requests (LLMCallSpan (add_request r d)) = without_requests (LLMCallSpan d)"
  by (cases s; simp add: without_requests_def is_llm_def add_request_def SpanBase.defs)+

lemma without_requests_tool [simp]: "without_requests s = ToolCallSpan c \<longleftrightarrow> s = ToolCallSpan c"
  by (cases s) (simp_all add: without_requests_def)

lemma settled_base [simp]: "span_base (settled spans i) = span_base (spans ! i)"
  by (cases "spans ! i") (simp_all add: settled_def without_requests_def SpanBase.defs)

lemma settled_llm [simp]: "is_llm (settled spans i) = is_llm (spans ! i)"
  by (cases "spans ! i") (simp_all add: settled_def without_requests_def is_llm_def)

subsection \<open>Requests\<close>

lemma requested_append [simp]:
  "requested_tool_use_ids (xs @ ys) = requested_tool_use_ids xs @ requested_tool_use_ids ys"
  by (simp add: requested_tool_use_ids_def List.map_filter_def)

lemma requested_Cons:
  "requested_tool_use_ids (s # xs) =
     (case s of LLMCallSpan c \<Rightarrow> map tur_tool_use_id (lo_tool_use_requested (lc_output c)) | _ \<Rightarrow> []) @ requested_tool_use_ids xs"
  by (cases s) (simp_all add: requested_tool_use_ids_def List.map_filter_def)

definition requests_of :: "Span \<Rightarrow> string list" where
  "requests_of s = (case s of LLMCallSpan c \<Rightarrow> map tur_tool_use_id (lo_tool_use_requested (lc_output c)) | _ \<Rightarrow> [])"

lemma requested_concat: "requested_tool_use_ids xs = concat (map requests_of xs)"
proof (induction xs)
  case (Cons s xs)
  then show ?case by (cases s) (simp_all add: requested_Cons requests_of_def)
qed (simp add: requested_tool_use_ids_def List.map_filter_def)

lemma requested_iff: "call \<in> set (requested_tool_use_ids xs) \<longleftrightarrow> (\<exists>j < length xs. call \<in> set (requests_of (xs ! j)))"
proof -
  have "call \<in> set (requested_tool_use_ids xs) \<longleftrightarrow> (\<exists>s \<in> set xs. call \<in> set (requests_of s))"
    by (simp add: requested_concat)
  then show ?thesis by (metis in_set_conv_nth)
qed

lemma requested_grows:
  assumes "k < length xs" "set (requests_of (xs ! k)) \<subseteq> set (requests_of s)"
  shows "set (requested_tool_use_ids xs) \<union> set (requests_of s) \<subseteq> set (requested_tool_use_ids (xs[k := s]))"
proof
  fix call
  assume "call \<in> set (requested_tool_use_ids xs) \<union> set (requests_of s)"
  then consider "call \<in> set (requests_of s)" | j where "j < length xs" "j \<noteq> k" "call \<in> set (requests_of (xs ! j))"
    using assms(2) by (auto simp: requested_iff)
  then show "call \<in> set (requested_tool_use_ids (xs[k := s]))"
  proof cases
    case 1
    then show ?thesis using assms(1) by (auto simp: requested_iff intro!: exI [of _ k])
  next
    case (2 j)
    then show ?thesis by (auto simp: requested_iff intro!: exI [of _ j])
  qed
qed

subsection \<open>One step\<close>

lemma span_index_Some:
  assumes "span_index s xs = Some k"
  shows "k < length xs \<and> xs ! k = s"
proof -
  from assms have "s \<in> set xs" and k: "k = length (takeWhile (\<lambda>x. x \<noteq> s) xs)"
    by (auto simp: span_index_def split: if_splits)
  then have "takeWhile (\<lambda>x. x \<noteq> s) xs \<noteq> xs" by (auto simp: takeWhile_eq_all_conv)
  then have "k < length xs" unfolding k
    by (metis (no_types, lifting) le_neq_implies_less length_takeWhile_le order_refl take_all takeWhile_eq_take)
  then show ?thesis using nth_length_takeWhile [of "\<lambda>x. x \<noteq> s" xs] k by simp
qed

lemma preceding_llm:
  "(case List.map_filter as_llm_call (rev (take i out)) of [] \<Rightarrow> None | c # _ \<Rightarrow> Some c) = Some c \<Longrightarrow>
     LLMCallSpan c \<in> set (take i out)"
proof -
  assume "(case List.map_filter as_llm_call (rev (take i out)) of [] \<Rightarrow> None | c # _ \<Rightarrow> Some c) = Some c"
  then have "c \<in> set (List.map_filter as_llm_call (rev (take i out)))"
    by (auto split: list.splits)
  then show ?thesis by (auto simp: set_map_filter)
qed

lemma no_preceding_llm:
  "(case List.map_filter as_llm_call (rev xs) of [] \<Rightarrow> None | c # _ \<Rightarrow> Some c) = None \<longleftrightarrow> \<not> list_ex is_llm xs"
proof -
  have "List.map_filter as_llm_call (rev xs) = [] \<longleftrightarrow> (\<forall>s \<in> set xs. \<not> is_llm s)"
    by (auto simp: List.map_filter_def filter_empty_conv is_llm_def)
  then show ?thesis by (auto simp: list_ex_iff split: list.splits)
qed

text \<open>The invariant of the loop before position \<open>n\<close>: up to requests, the positions below are settled and
  the rest untouched; what counts as requested is requested; the tool calls below are linked.\<close>

definition link_inv :: "Span list \<Rightarrow> nat \<Rightarrow> Span list \<times> string list \<Rightarrow> bool" where
  "link_inv spans n st \<longleftrightarrow> (case st of (out, req) \<Rightarrow>
     length out = length spans \<and>
     (\<forall>i < length spans. without_requests (out ! i) = (if i < n then settled spans i else without_requests (spans ! i))) \<and>
     set req \<subseteq> set (requested_tool_use_ids out) \<and>
     (req \<noteq> [] \<longrightarrow> list_ex is_llm (take n spans)) \<and>
     (\<forall>i < n. \<forall>c call. out ! i = ToolCallSpan c \<longrightarrow> tc_tool_use_id c = Some call \<longrightarrow> call \<in> set req))"

lemma link_inv_start: "link_inv spans 0 (spans, [])"
  by (simp add: link_inv_def)

lemma is_llm_kept:
  assumes "link_inv spans n (out, req)" "i < length spans"
  shows "is_llm (out ! i) = is_llm (spans ! i)"
proof -
  have "is_llm (without_requests (out ! i)) = is_llm (spans ! i)"
    using assms by (simp add: link_inv_def)
  then show ?thesis by simp
qed

lemma list_ex_take_llm:
  assumes "link_inv spans n (out, req)"
  shows "list_ex is_llm (take n out) = list_ex is_llm (take n spans)"
proof -
  have len: "length out = length spans" using assms by (simp add: link_inv_def)
  have "map is_llm (take n out) = map is_llm (take n spans)"
    by (rule nth_equalityI) (simp_all add: len is_llm_kept [OF assms])
  then have "is_llm ` set (take n out) = is_llm ` set (take n spans)" by (metis set_map)
  then show ?thesis unfolding list_ex_iff by (metis (mono_tags, lifting) imageE image_eqI)
qed

lemma link_inv_keep:
  assumes inv: "link_inv spans n (out, req)" and n: "n < length spans"
    and here: "without_requests (out ! n) = settled spans n"
    and linked: "\<And>c call. out ! n = ToolCallSpan c \<Longrightarrow> tc_tool_use_id c = Some call \<Longrightarrow> call \<in> set req"
  shows "link_inv spans (Suc n) (out, req)"
proof -
  have "list_ex is_llm (take (Suc n) spans)" if "list_ex is_llm (take n spans)"
    using that n by (simp add: take_Suc_conv_app_nth)
  then show ?thesis using inv here linked n unfolding link_inv_def by (auto simp: less_Suc_eq)
qed

lemma link_step_ok:
  assumes inv: "link_inv spans n (out, req)" and n: "n < length spans" and flat: "flat_tools spans"
  shows "\<exists>st. link_step spans n (out, req) = Inr st \<and> link_inv spans (Suc n) st"
proof (cases "\<exists>c call. out ! n = ToolCallSpan c \<and> tc_tool_use_id c = Some call \<and> call \<notin> set req")
  case False
  have len: "length out = length spans" and same: "without_requests (out ! n) = without_requests (spans ! n)"
    using inv n by (simp_all add: link_inv_def)
  have "without_requests (out ! n) = settled spans n"
  proof (cases "spans ! n")
    case (ToolCallSpan c)
    then have out: "out ! n = ToolCallSpan c" using same by simp
    show ?thesis
    proof (cases "tc_tool_use_id c")
      case None
      then show ?thesis using out ToolCallSpan by (simp add: settled_def)
    next
      case (Some call)
      then have "req \<noteq> []" using False out by auto
      then have "list_ex is_llm (take n spans)" using inv by (simp add: link_inv_def)
      then show ?thesis using out ToolCallSpan by (simp add: settled_def)
    qed
  qed (use same in \<open>simp_all add: settled_def\<close>)
  moreover have "link_step spans n (out, req) = Inr (out, req)"
    using False by (auto simp: link_step_def split: Span.splits option.splits)
  moreover have "link_inv spans (Suc n) (out, req)"
    by (rule link_inv_keep [OF inv n]) (use \<open>without_requests (out ! n) = settled spans n\<close> False in blast)+
  ultimately show ?thesis by simp
next
  case True
  then obtain c call where tool: "out ! n = ToolCallSpan c" and id: "tc_tool_use_id c = Some call" and new: "call \<notin> set req"
    by blast
  have len: "length out = length spans" using inv by (simp add: link_inv_def)
  have "without_requests (out ! n) = without_requests (spans ! n)" using inv n by (simp add: link_inv_def)
  then have "without_requests (spans ! n) = ToolCallSpan c" unfolding tool without_requests_simps(3) by (rule sym)
  then have src: "spans ! n = ToolCallSpan c" unfolding without_requests_tool .
  then have ok: "parent_llm spans c = None" "tc_tool_name c \<noteq> []" "call \<noteq> []"
    using flat n id by (auto simp: flat_tools_def list_all_length)
  show ?thesis
  proof (cases "candidate_llm spans out n c")
    case None
    let ?out = "out[n := ToolCallSpan (c\<lparr>tc_tool_use_id := None\<rparr>)]"
    have "\<not> list_ex is_llm (take n spans)"
      using None ok(1) no_preceding_llm [of "take n out"] list_ex_take_llm [OF inv] by (simp add: candidate_llm_def)
    then have "settled spans n = ToolCallSpan (c\<lparr>tc_tool_use_id := None\<rparr>)" using src by (simp add: settled_def)
    moreover have "set (requested_tool_use_ids out) \<subseteq> set (requested_tool_use_ids ?out)"
      using requested_grows [of n out "ToolCallSpan (c\<lparr>tc_tool_use_id := None\<rparr>)"] n len tool
      by (simp add: requests_of_def)
    moreover have "req = []" using inv \<open>\<not> list_ex is_llm (take n spans)\<close> by (simp add: link_inv_def)
    ultimately have "link_inv spans (Suc n) (?out, req)"
      using inv n len unfolding link_inv_def by (auto simp: less_Suc_eq nth_list_update)
    then show ?thesis using tool id new None by (simp add: link_step_def)
  next
    case (Some d)
    let ?d = "LLMCallSpan (add_request \<lparr>tur_tool = tc_tool_name c, tur_tool_use_id = call\<rparr> d)"
    have "LLMCallSpan d \<in> set (take n out)"
      using Some ok(1) preceding_llm [of n out d] by (simp add: candidate_llm_def)
    then have before: "list_ex is_llm (take n out)" and "LLMCallSpan d \<in> set out"
      by (auto simp: list_ex_iff is_llm_def dest: in_set_takeD)
    then obtain k where idx: "span_index (LLMCallSpan d) out = Some k" by (auto simp: span_index_def)
    then have k: "k < length out" "out ! k = LLMCallSpan d" using span_index_Some by blast+
    have "set (requested_tool_use_ids out) \<union> set (requests_of ?d) \<subseteq> set (requested_tool_use_ids (out[k := ?d]))"
      using k by (intro requested_grows) (auto simp: requests_of_def add_request_def)
    then have "call \<in> set (requested_tool_use_ids (out[k := ?d]))"
      "set (requested_tool_use_ids out) \<subseteq> set (requested_tool_use_ids (out[k := ?d]))"
      by (auto simp: requests_of_def add_request_def)
    moreover have "without_requests (out[k := ?d] ! i) = without_requests (out ! i)" for i
      using k by (cases "i = k") simp_all
    moreover have "list_ex is_llm (take n spans)" using before list_ex_take_llm [OF inv] by simp
    ultimately have "link_inv spans n (out[k := ?d], call # req)"
      using inv k len unfolding link_inv_def by (auto simp: nth_list_update split: if_splits)
    moreover have "n \<noteq> k" using tool k(2) by auto
    moreover have "settled spans n = ToolCallSpan c"
      using src \<open>list_ex is_llm (take n spans)\<close> by (simp add: settled_def)
    ultimately have "link_inv spans (Suc n) (out[k := ?d], call # req)"
      using tool id n by (intro link_inv_keep) simp_all
    then show ?thesis using tool id new Some ok idx by (simp add: link_step_def)
  qed
qed

lemma link_loop_ok:
  assumes "flat_tools spans" "link_inv spans n st" "n \<le> length spans"
  shows "\<exists>st'. link_loop spans [n..<length spans] st = Inr st' \<and> link_inv spans (length spans) st'"
  using assms(2,3)
proof (induction "length spans - n" arbitrary: n st)
  case (Suc m)
  then have n: "n < length spans" by simp
  obtain st1 where "link_step spans n st = Inr st1" "link_inv spans (Suc n) st1"
    using link_step_ok [OF _ n assms(1)] Suc.prems(1) by (cases st) blast
  then show ?case using Suc.hyps(1) [of "Suc n" st1] Suc.hyps(2) n by (simp add: upt_conv_Cons)
qed simp

lemma linked:
  assumes "flat_tools spans" "requested_tool_use_ids spans = []"
  obtains out where "link_tool_use_ids spans = Inr out"
    "map without_requests out = map (settled spans) [0..<length spans]"
    "\<And>c call. ToolCallSpan c \<in> set out \<Longrightarrow> tc_tool_use_id c = Some call \<Longrightarrow> call \<in> set (requested_tool_use_ids out)"
proof -
  obtain out req where run: "link_loop spans [0..<length spans] (spans, []) = Inr (out, req)"
    and inv: "link_inv spans (length spans) (out, req)"
    using link_loop_ok [OF assms(1) link_inv_start] by auto
  show ?thesis
  proof (rule that)
    show "link_tool_use_ids spans = Inr out" using run assms(2) by (simp add: link_tool_use_ids_def)
    show "map without_requests out = map (settled spans) [0..<length spans]"
      using inv by (intro nth_equalityI) (simp_all add: link_inv_def)
    show "call \<in> set (requested_tool_use_ids out)"
      if tool: "ToolCallSpan c \<in> set out" "tc_tool_use_id c = Some call" for c call
    proof -
      obtain i where i: "i < length out" "out ! i = ToolCallSpan c" using tool(1) by (auto simp: in_set_conv_nth)
      note facts = inv [unfolded link_inv_def prod.case]
      have "length out = length spans" by (rule facts [THEN conjunct1])
      have sub: "set req \<subseteq> set (requested_tool_use_ids out)"
        by (rule facts [THEN conjunct2, THEN conjunct2, THEN conjunct1])
      have all: "\<forall>i < length spans. \<forall>c call. out ! i = ToolCallSpan c \<longrightarrow> tc_tool_use_id c = Some call \<longrightarrow> call \<in> set req"
        by (rule facts [THEN conjunct2, THEN conjunct2, THEN conjunct2, THEN conjunct2])
      have "i < length spans" using i(1) \<open>length out = length spans\<close> by simp
      from all [rule_format, OF this i(2) tool(2)] have "call \<in> set req" .
      then show ?thesis using sub by blast
    qed
  qed
qed

subsection \<open>What the builders make\<close>

lemma check_str_Inr [simp]: "check_str s = Inr t \<longleftrightarrow> t = s \<and> s \<noteq> []"
  by (auto simp: check_str_def)

lemma bind_InrE:
  assumes "bind_result r f = Inr y"
  obtains x where "r = Inr x" "f x = Inr y"
  using assms by (auto simp: bind_result_Inr_iff)

lemma build_llm_plain: "build_llm_span env i raw attrs = Inr c \<Longrightarrow> lo_tool_use_requested (lc_output c) = []"
  unfolding build_llm_span_def Let_def by (elim bind_InrE) (auto simp: empty_output_def SpanBase.defs)

lemma build_span_cases:
  assumes "build_span env i raw = Inr s"
  obtains (llm) c attrs where "s = LLMCallSpan c" "build_llm_span env i raw attrs = Inr c"
    | (tool) c attrs where "s = ToolCallSpan c" "build_tool_span env i raw attrs = Inr c"
    | (retrieval) c attrs where "s = RetrievalSpan c" "build_retrieval_span env i raw attrs = Inr c"
    | (agent) b where "s = AgentTurnSpan b" "read_base env i ''agent_turn'' raw = Inr b"
    | (custom) c attrs where "s = CustomSpan c" "build_custom env i raw attrs = Inr c"
proof -
  obtain attrs where run: "(case classify_span raw attrs of
         SpanKind.LLM_CALL \<Rightarrow> bind_result (build_llm_span env i raw attrs) (\<lambda>s. Inr (LLMCallSpan s))
       | SpanKind.TOOL_CALL \<Rightarrow> bind_result (build_tool_span env i raw attrs) (\<lambda>s. Inr (ToolCallSpan s))
       | SpanKind.RETRIEVAL \<Rightarrow> bind_result (build_retrieval_span env i raw attrs) (\<lambda>s. Inr (RetrievalSpan s))
       | SpanKind.AGENT_TURN \<Rightarrow> bind_result (read_base env i ''agent_turn'' raw) (\<lambda>s. Inr (AgentTurnSpan s))
       | _ \<Rightarrow> bind_result (build_custom env i raw attrs) (\<lambda>s. Inr (CustomSpan s))) = Inr s"
    using assms unfolding build_span_def by (elim bind_InrE)
  show ?thesis
    by (cases "classify_span raw attrs"; use run in \<open>simp only: SpanKind.case\<close>; elim bind_InrE; simp only: sum.inject)
      (auto intro: that)
qed

lemma build_span_plain:
  assumes "build_span env i raw = Inr s"
  shows "requests_of s = []"
  using assms by (cases rule: build_span_cases) (simp_all add: requests_of_def build_llm_plain)

lemma read_base_timed: "read_base env i nm raw = Inr b \<Longrightarrow> \<exists>m. parse_time env (start_value raw) = Inr m"
  unfolding read_base_def by (elim bind_InrE) blast

lemma build_span_timed:
  assumes "build_span env i raw = Inr s"
  shows "\<exists>m. parse_time env (start_value raw) = Inr m"
  using assms
proof (cases rule: build_span_cases)
  case (llm c attrs)
  from llm(2) show ?thesis unfolding build_llm_span_def Let_def by (elim bind_InrE) (rule read_base_timed)
next
  case (tool c attrs)
  from tool(2) show ?thesis unfolding build_tool_span_def by (elim bind_InrE) (rule read_base_timed)
next
  case (retrieval c attrs)
  from retrieval(2) show ?thesis unfolding build_retrieval_span_def by (elim bind_InrE) (rule read_base_timed)
next
  case (custom c attrs)
  from custom(2) show ?thesis unfolding build_custom_def by (elim bind_InrE) (rule read_base_timed)
qed (rule read_base_timed)

text \<open>The batch as it is built, before linking.\<close>

definition built :: "OtelEnv \<Rightarrow> nat \<Rightarrow> json dict list \<Rightarrow> Span list result" where
  "built env i raws = map_result (\<lambda>(n, raw). build_span env n raw) (enumerate i raws)"

lemma built_simps:
  "built env i [] = Inr []"
  "built env i (raw # raws) = bind_result (build_span env i raw) (\<lambda>s. bind_result (built env (Suc i) raws) (\<lambda>ss. Inr (s # ss)))"
  by (simp_all add: built_def)

lemma built_plain: "built env i raws = Inr spans \<Longrightarrow> requested_tool_use_ids spans = []"
  by (induction raws arbitrary: i spans)
    (auto simp: built_simps bind_result_Inr_iff requested_concat build_span_plain)

text \<open>All starts carry a zone, or none does.\<close>

definition same_zone :: "OtelEnv \<Rightarrow> bool \<Rightarrow> json dict list \<Rightarrow> bool" where
  "same_zone env z raws = list_all (\<lambda>raw. case parse_time env (start_value raw) of Inl _ \<Rightarrow> True | Inr m \<Rightarrow> fst m = z) raws"

definition window_ok :: "bool \<Rightarrow> OtelScan \<Rightarrow> bool" where
  "window_ok z sc \<longleftrightarrow> (case (os_earliest sc, os_latest sc) of
     (None, None) \<Rightarrow> True
   | (Some e, Some l) \<Rightarrow> fst e = z \<and> fst l = z \<and> snd e \<le> snd l
   | _ \<Rightarrow> False)"

lemma window_step:
  assumes "window_ok z sc" "fst m = z"
  obtains e l where "earlier (os_earliest sc) m = Inr e" "later (os_latest sc) m = Inr l"
    "window_ok z \<lparr>os_spans = ss, os_earliest = e, os_latest = l\<rparr>"
  using assms by (fastforce simp: window_ok_def earlier_def later_def time_less_def split: option.splits)

lemma scan_ok:
  assumes "built env i raws = Inr spans" "same_zone env z raws" "window_ok z st"
  shows "\<exists>sc. scan_spans env i raws st = Inr sc \<and> os_spans sc = os_spans st @ spans \<and> window_ok z sc"
  using assms
proof (induction raws arbitrary: i spans st)
  case (Cons raw raws)
  obtain s ss where s: "build_span env i raw = Inr s" and ss: "built env (Suc i) raws = Inr ss" and eq: "spans = s # ss"
    using Cons.prems(1) by (auto simp: built_simps bind_result_Inr_iff)
  obtain m where m: "parse_time env (start_value raw) = Inr m" using build_span_timed [OF s] by blast
  then have "fst m = z" and zone: "same_zone env z raws" using Cons.prems(2) by (simp_all add: same_zone_def)
  then obtain e l where step: "earlier (os_earliest st) m = Inr e" "later (os_latest st) m = Inr l"
    "window_ok z \<lparr>os_spans = os_spans st @ [s], os_earliest = e, os_latest = l\<rparr>"
    using window_step [OF Cons.prems(3)] by blast
  show ?case using Cons.IH [OF ss zone step(3)] s m step(1,2) eq by simp
qed (simp add: built_simps)

subsection \<open>The import\<close>

definition parents_present :: "Span list \<Rightarrow> bool" where
  "parents_present spans = list_all (\<lambda>s. case span_parent_id (span_base s) of
     None \<Rightarrow> True | Some p \<Rightarrow> p \<in> set (span_ids spans)) spans"

lemma same_bases:
  assumes "map without_requests out = map (settled spans) [0..<length spans]"
  shows "map span_base out = map span_base spans"
proof -
  have "map span_base (map without_requests out) = map span_base (map (settled spans) [0..<length spans])"
    using assms by simp
  then have "map span_base out = map (\<lambda>i. span_base (spans ! i)) [0..<length spans]" by (simp add: comp_def)
  also have "\<dots> = map span_base spans" by (rule nth_equalityI) simp_all
  finally show ?thesis .
qed

lemma span_ids_bases: "span_ids xs = map span_id (map span_base xs)"
  by (simp add: span_ids_def)

lemma parents_present_bases: "parents_present xs = list_all (\<lambda>b. case span_parent_id b of
    None \<Rightarrow> True | Some p \<Rightarrow> p \<in> set (map span_id (map span_base xs))) (map span_base xs)"
  unfolding parents_present_def span_ids_bases list.pred_map comp_def ..

lemma validate_linked:
  assumes "distinct (span_ids (tr_spans t))" "parents_present (tr_spans t)"
    "\<And>c call. ToolCallSpan c \<in> set (tr_spans t) \<Longrightarrow> tc_tool_use_id c = Some call \<Longrightarrow>
       call \<in> set (requested_tool_use_ids (tr_spans t))"
  shows "validate_Trace t = Inr t"
  using assms by (auto simp: validate_Trace_Inr parents_present_def list_all_iff)


subsection \<open>Concrete batches\<close>

text \<open>Times are whole seconds, every text parses as the moment 0 without a zone.\<close>

definition sample_otel :: OtelEnv where
  "sample_otel = \<lparr>oe_iso = (\<lambda>_. Some (False, 0)), oe_epoch = (\<lambda>q. Some (1000000 * \<lfloor>q\<rfloor>)), oe_str = (\<lambda>_. ''value''),
     oe_hash = (\<lambda>_. ''hash''), oe_fresh = (\<lambda>n. ''fresh'' @ replicate n CHR ''i'')\<rparr>"

definition raw_span :: "string \<Rightarrow> string option \<Rightarrow> json \<Rightarrow> json dict \<Rightarrow> json dict" where
  "raw_span i parent start attrs = [(''span_id'', JStr i),
     (''parent_span_id'', case parent of None \<Rightarrow> JNull | Some p \<Rightarrow> JStr p), (''start_time'', start),
     (''attributes'', JObj attrs)]"

definition sample_run_info :: RunInfo where
  "sample_run_info = \<lparr>ri_run_id = ''run_1'', ri_experiment_id = None, ri_iteration = None, ri_variant_id = None,
     ri_eval_case_id = None, ri_repetition = 0, ri_seed = None, ri_thread_id = None, ri_thread_position = None\<rparr>"

definition sample_agent_ref :: AgentSnapshotRef where
  "sample_agent_ref = \<lparr>as_fleet_version = None, as_agent_id = ''agent'', as_agent_version = 1, as_parameters_snapshot_id = None\<rparr>"

definition import_sample :: "json dict list \<Rightarrow> Trace result" where
  "import_sample raws = import_otel_spans sample_otel ''tr_1'' 0 raws ''ws_1'' sample_run_info sample_agent_ref
     ''otel'' ''imported'' SandboxMode.MOCK None None"

definition llm_attrs :: "json dict" where
  "llm_attrs = [(''openinference.span.kind'', JStr ''llm''), (''session.id'', JStr '' s1 '')]"

definition tool_attrs :: "string \<Rightarrow> json dict" where
  "tool_attrs call = [(''openinference.span.kind'', JStr '' TOOL''), (''tool.call_id'', JStr call)]"

text \<open>A tool call before the model call and one after it.\<close>

definition sample_batch :: "json dict list" where
  "sample_batch = [raw_span ''t0'' None (JInt 2) (tool_attrs ''c0''), raw_span ''m'' None (JInt 3) llm_attrs,
     raw_span ''t1'' (Some ''t0'') (JInt 4) (tool_attrs ''c1'')]"

definition batch_spans :: "Span list" where
  "batch_spans = (case built sample_otel 0 sample_batch of Inl _ \<Rightarrow> [] | Inr ss \<Rightarrow> ss)"

text \<open>What the importer makes of this batch and of three others, evaluated.\<close>

definition sibling_batch :: "json dict list" where
  "sibling_batch = [raw_span ''m'' None (JInt 1) llm_attrs, raw_span ''t1'' (Some ''m'') (JInt 2) (tool_attrs ''c1''),
     raw_span ''t2'' (Some ''m'') (JInt 3) (tool_attrs ''c2'')]"

definition mixed_batch :: "json dict list" where
  "mixed_batch = [raw_span ''a'' None (JInt 1) [], raw_span ''b'' None (JStr ''2024-01-01T00:00:00'') []]"

definition long_batch :: "json dict list" where
  "long_batch = [(''duration_ms'', JInt 5000) # raw_span ''a'' None (JInt 1) []]"

definition environment_window :: "Trace \<Rightarrow> timestamp \<times> timestamp option \<times> nat list" where
  "environment_window t = (ev_started_at (tr_environment t), ev_ended_at (tr_environment t),
     map (\<lambda>s. span_duration_ms (span_base s)) (tr_spans t))"

lemma sample_imports:
  "built sample_otel 0 sample_batch = Inr batch_spans \<and> same_zone sample_otel True sample_batch \<and>
   distinct (span_ids batch_spans) \<and> parents_present batch_spans \<and> flat_tools batch_spans \<and>
   length batch_spans = 3 \<and> detect_thread_id sample_batch = Some ''s1'' \<and>
   import_sample sibling_batch = Inl ValueError \<and> import_sample mixed_batch = Inl TypeError \<and>
   map_sum id environment_window (import_sample long_batch) = Inr (1000000, Some 1000000, [5000])"
  by code_simp


text \<open>Two tool calls directly under one model call: the second link looks for the model call as it came in, which the
  first link has replaced.\<close>

lemma tool_siblings_break_import: "import_sample sibling_batch = Inl ValueError"
  using sample_imports by blast

text \<open>One span with an ISO time without a zone among others breaks the import, too.\<close>

lemma mixed_zones_break_import: "import_sample mixed_batch = Inl TypeError"
  using sample_imports by blast

text \<open>The end of the environment is the start of the last span, however long that span runs.\<close>

lemma end_is_last_start:
  "map_sum id environment_window (import_sample long_batch) = Inr (1000000, Some 1000000, [5000])"
  using sample_imports by blast

end
