(* ===== verification/Arena.thy ===== *)
theory Arena
  imports Analysis Compare
begin

section \<open>schemas/arena.py, arena/service.py and api/arena\_ops.py\<close>

text \<open>
  Code variants that compete on one dataset.  \<open>ArenaDb\<close> holds the tables the service writes (arenas,
  variants, rounds) and those it reads.  Every step runs in \<open>arena\<close>, which keeps the writes made before
  an exception.  \<open>ArenaEnv\<close> holds what lies outside: git (references, worktrees, the setup command; a
  \<^verbatim>\<open>WorktreeError\<close> is its message), the validation of an experiment specification, the launch of one
  child experiment, fresh identifiers, the clock, and how a \<^verbatim>\<open>repr\<close> prints.  Failures to
  remove a worktree are only logged, so removal is left out of the clean-up.
\<close>

subsection \<open>Records\<close>

record ArenaBudget =
  bu_max_rounds :: "nat option"
  bu_max_variants :: "nat option"
  bu_max_cost_usd :: "rat option"

definition valid_ArenaBudget :: "ArenaBudget \<Rightarrow> bool" where
  "valid_ArenaBudget b \<longleftrightarrow> bu_max_rounds b \<noteq> Some 0 \<and> bu_max_variants b \<noteq> Some 0 \<and>
     (case bu_max_cost_usd b of None \<Rightarrow> True | Some q \<Rightarrow> 0 < q)"

record Arena = BaseEntity +
  arn_name :: string
  arn_goal :: string
  arn_repo_path :: string
  arn_agent_command :: "string list"
  arn_agent_env :: "string dict option"
  arn_spec_template :: "json dict"
  arn_dataset_id :: "string option"
  arn_objective_metric :: string
  arn_budget :: ArenaBudget
  arn_current_round :: nat
  arn_state :: ArenaState
  arn_winner_variant_id :: "string option"

definition valid_Arena :: "Arena \<Rightarrow> bool" where
  "valid_Arena a \<longleftrightarrow> ent_id a \<noteq> [] \<and> workspace_id a \<noteq> [] \<and> arn_name a \<noteq> [] \<and> arn_goal a \<noteq> [] \<and>
     arn_repo_path a \<noteq> [] \<and> arn_agent_command a \<noteq> [] \<and> list_all (\<lambda>c. c \<noteq> []) (arn_agent_command a) \<and>
     arn_objective_metric a \<noteq> [] \<and> valid_ArenaBudget (arn_budget a)"

record ArenaVariant = BaseEntity +
  var_arena_id :: string
  var_name :: string
  var_git_ref :: string
  var_resolved_sha :: "string option"
  var_worktree_path :: "string option"
  var_setup_command :: "string list option"
  var_env_overrides :: "string dict option"
  var_hypothesis :: "string option"
  var_created_in_round :: nat
  var_state :: ArenaVariantState
  var_error :: "string option"

definition valid_ArenaVariant :: "ArenaVariant \<Rightarrow> bool" where
  "valid_ArenaVariant v \<longleftrightarrow> ent_id v \<noteq> [] \<and> workspace_id v \<noteq> [] \<and> var_arena_id v \<noteq> [] \<and> var_name v \<noteq> [] \<and>
     var_git_ref v \<noteq> []"

record RoundEntry =
  re_variant_id :: string
  re_experiment_id :: "string option"
  re_run_job_id :: "string option"
  re_status :: string

record ArenaRound = BaseEntity +
  rnd_arena_id :: string
  rnd_index :: nat
  rnd_entries :: "RoundEntry list"
  rnd_reps :: nat
  rnd_state :: ArenaRoundState
  rnd_started_at :: "string option"
  rnd_finished_at :: "string option"
  rnd_summary :: "json dict option"

record ArenaDb =
  av_arenas :: "Arena list"
  av_variants :: "ArenaVariant list"
  av_rounds :: "ArenaRound list"
  av_experiments :: "Experiment list"
  av_iterations :: "IterationRecord list"
  av_traces :: "Trace list"

definition ARENA_COLUMNS :: "(string \<times> (Arena \<Rightarrow> json)) list" where
  "ARENA_COLUMNS = SHARED_COLUMNS @
     [(''state'', \<lambda>a. JStr (ArenaState_value (arn_state a))), (''dataset_id'', \<lambda>a. opt_str_json (arn_dataset_id a))]"

definition VARIANT_COLUMNS :: "(string \<times> (ArenaVariant \<Rightarrow> json)) list" where
  "VARIANT_COLUMNS = SHARED_COLUMNS @
     [(''arena_id'', \<lambda>v. JStr (var_arena_id v)), (''state'', \<lambda>v. JStr (ArenaVariantState_value (var_state v)))]"

text \<open>The column \<^verbatim>\<open>index_\<close> can also be named by its alias \<^verbatim>\<open>index\<close>.\<close>

definition ROUND_COLUMNS :: "(string \<times> (ArenaRound \<Rightarrow> json)) list" where
  "ROUND_COLUMNS = SHARED_COLUMNS @
     [(''arena_id'', \<lambda>r. JStr (rnd_arena_id r)), (''state'', \<lambda>r. JStr (ArenaRoundState_value (rnd_state r))),
      (''index_'', \<lambda>r. JInt (int (rnd_index r))), (''index'', \<lambda>r. JInt (int (rnd_index r)))]"

definition ITERATION_COLUMNS :: "(string \<times> (IterationRecord \<Rightarrow> json)) list" where
  "ITERATION_COLUMNS = SHARED_COLUMNS @
     [(''experiment_id'', \<lambda>r. JStr (ir_experiment_id r)), (''iteration'', \<lambda>r. JInt (int (ir_iteration r))),
      (''state'', \<lambda>r. JStr (IterationState_value (ir_state r)))]"

subsection \<open>Steps of the service\<close>

datatype arena_error = SelfEvalsUserError | ArenaPyError py_error

type_synonym 'a arena = "ArenaDb \<Rightarrow> (arena_error + 'a) \<times> ArenaDb"

definition return_arena :: "'a \<Rightarrow> 'a arena" where
  "return_arena x db = (Inr x, db)"

definition fail_arena :: "arena_error \<Rightarrow> 'a arena" where
  "fail_arena e db = (Inl e, db)"

definition bind_arena :: "'a arena \<Rightarrow> ('a \<Rightarrow> 'b arena) \<Rightarrow> 'b arena" where
  "bind_arena m f db = (case m db of (Inl e, db') \<Rightarrow> (Inl e, db') | (Inr x, db') \<Rightarrow> f x db')"

definition read_arena :: "(ArenaDb \<Rightarrow> 'a result) \<Rightarrow> 'a arena" where
  "read_arena f db = (case f db of Inl e \<Rightarrow> (Inl (ArenaPyError e), db) | Inr x \<Rightarrow> (Inr x, db))"

definition with_scope :: "string \<Rightarrow> (WorkspaceScope \<Rightarrow> 'a arena) \<Rightarrow> 'a arena" where
  "with_scope ws f = bind_arena (read_arena (\<lambda>_. open_scope ws)) f"

definition require :: "bool \<Rightarrow> arena_error \<Rightarrow> unit arena" where
  "require b e = (if b then return_arena () else fail_arena e)"

definition put_arena :: "WorkspaceScope \<Rightarrow> Arena \<Rightarrow> unit arena" where
  "put_arena sc a db = (case put_entity sc a (av_arenas db) of
     Inl e \<Rightarrow> (Inl (ArenaPyError e), db) | Inr t \<Rightarrow> (Inr (), db\<lparr>av_arenas := t\<rparr>))"

definition put_variant :: "WorkspaceScope \<Rightarrow> ArenaVariant \<Rightarrow> unit arena" where
  "put_variant sc v db = (case put_entity sc v (av_variants db) of
     Inl e \<Rightarrow> (Inl (ArenaPyError e), db) | Inr t \<Rightarrow> (Inr (), db\<lparr>av_variants := t\<rparr>))"

definition put_round :: "WorkspaceScope \<Rightarrow> ArenaRound \<Rightarrow> unit arena" where
  "put_round sc r db = (case put_entity sc r (av_rounds db) of
     Inl e \<Rightarrow> (Inl (ArenaPyError e), db) | Inr t \<Rightarrow> (Inr (), db\<lparr>av_rounds := t\<rparr>))"

definition arena_filter :: "string \<Rightarrow> ListFilter" where
  "arena_filter arena_id = where_filter [(''arena_id'', JStr arena_id)]"

definition variants_of :: "WorkspaceScope \<Rightarrow> string \<Rightarrow> ArenaDb \<Rightarrow> ArenaVariant list result" where
  "variants_of sc arena_id db = list_entities sc VARIANT_COLUMNS (Some (arena_filter arena_id)) (av_variants db)"

record LaunchResponse =
  lr_experiment_id :: string
  lr_job_id :: "string option"
  lr_state :: string

record ArenaEnv =
  nv_now :: timestamp
  nv_fresh :: string
  nv_experiment_id :: "nat \<Rightarrow> string"
  nv_spec_ok :: "json dict \<Rightarrow> string \<Rightarrow> bool"
  nv_resolve_ref :: "string \<Rightarrow> string \<Rightarrow> string option"
  nv_worktree_path :: "string \<Rightarrow> string \<Rightarrow> string"
  nv_ensure_worktree :: "string \<Rightarrow> string \<Rightarrow> string \<Rightarrow> string option"
  nv_run_setup :: "string \<Rightarrow> string list \<Rightarrow> string option"
  nv_launch :: "json dict \<Rightarrow> string option \<Rightarrow> int \<Rightarrow> arena_error + LaunchResponse"
  nv_repr :: "string \<Rightarrow> string"

subsection \<open>Arenas and variants\<close>

record CreateArenaRequest =
  ca_name :: string
  ca_goal :: string
  ca_repo_path :: string
  ca_agent_command :: "string list"
  ca_spec_template :: "json dict"
  ca_objective_metric :: string
  ca_agent_env :: "string dict option"
  ca_dataset_id :: "string option"
  ca_budget :: "ArenaBudget option"

definition spec_probe :: "json dict \<Rightarrow> json dict" where
  "spec_probe template = AList.update ''agent'' (JObj [(''type'', JStr ''cli''), (''command'', JList [JStr ''true''])]) template"

definition create_arena :: "ArenaEnv \<Rightarrow> string \<Rightarrow> CreateArenaRequest \<Rightarrow> Arena arena" where
  "create_arena env ws req =
     bind_arena (require (nv_spec_ok env (spec_probe (ca_spec_template req)) ws) SelfEvalsUserError) (\<lambda>_.
      let a = \<lparr>ent_id = nv_fresh env, workspace_id = ws, version = 1, created_at = nv_now env, updated_at = nv_now env,
            deleted_at = None, arn_name = ca_name req, arn_goal = ca_goal req, arn_repo_path = ca_repo_path req,
            arn_agent_command = ca_agent_command req, arn_agent_env = ca_agent_env req,
            arn_spec_template = ca_spec_template req, arn_dataset_id = ca_dataset_id req,
            arn_objective_metric = ca_objective_metric req,
            arn_budget = (case ca_budget req of None \<Rightarrow> \<lparr>bu_max_rounds = None, bu_max_variants = None, bu_max_cost_usd = None\<rparr>
                          | Some b \<Rightarrow> b),
            arn_current_round = 0, arn_state = ArenaState.DRAFT, arn_winner_variant_id = None\<rparr>
      in bind_arena (require (valid_Arena a) (ArenaPyError ValueError)) (\<lambda>_.
         with_scope ws (\<lambda>sc. bind_arena (put_arena sc a) (\<lambda>_. return_arena a))))"

record RegisterVariantRequest =
  rv_name :: string
  rv_git_ref :: string
  rv_setup_command :: "string list option"
  rv_env_overrides :: "string dict option"
  rv_hypothesis :: "string option"

definition check_variant_budget :: "WorkspaceScope \<Rightarrow> string \<Rightarrow> Arena \<Rightarrow> unit arena" where
  "check_variant_budget sc arena_id a = (case bu_max_variants (arn_budget a) of
     None \<Rightarrow> return_arena ()
   | Some m \<Rightarrow> bind_arena (read_arena (variants_of sc arena_id)) (\<lambda>existing.
       require (length existing < m) SelfEvalsUserError))"

definition register_variant :: "ArenaEnv \<Rightarrow> string \<Rightarrow> string \<Rightarrow> RegisterVariantRequest \<Rightarrow> ArenaVariant arena" where
  "register_variant env ws arena_id req =
     with_scope ws (\<lambda>sc.
     bind_arena (read_arena (\<lambda>db. get_entity sc arena_id (av_arenas db))) (\<lambda>a.
     bind_arena (check_variant_budget sc arena_id a) (\<lambda>_.
       case nv_resolve_ref env (arn_repo_path a) (rv_git_ref req) of
         None \<Rightarrow> fail_arena SelfEvalsUserError
       | Some sha \<Rightarrow>
           (let v = \<lparr>ent_id = nv_fresh env, workspace_id = ws, version = 1, created_at = nv_now env,
                 updated_at = nv_now env, deleted_at = None, var_arena_id = arena_id, var_name = rv_name req,
                 var_git_ref = rv_git_ref req, var_resolved_sha = Some sha, var_worktree_path = None,
                 var_setup_command = rv_setup_command req, var_env_overrides = rv_env_overrides req,
                 var_hypothesis = rv_hypothesis req, var_created_in_round = arn_current_round a,
                 var_state = ArenaVariantState.PREPARING, var_error = None\<rparr>
            in bind_arena (require (valid_ArenaVariant v) (ArenaPyError ValueError)) (\<lambda>_.
               bind_arena (put_variant sc v) (\<lambda>_. return_arena v))))))"

text \<open>The background thread.  \<open>meanwhile\<close> is what other requests do to the database while the worktree is
  made, between the first read of the variant and the write of its state.\<close>

definition preparation_error :: "ArenaEnv \<Rightarrow> string \<Rightarrow> string \<Rightarrow> string \<Rightarrow> ArenaVariant \<Rightarrow> string option" where
  "preparation_error env repo sha dest v =
     (case nv_ensure_worktree env repo sha dest of
        Some err \<Rightarrow> Some err
      | None \<Rightarrow> (case var_setup_command v of
          Some (c # cs) \<Rightarrow> nv_run_setup env dest (c # cs)
        | _ \<Rightarrow> None))"

definition prepare_variant :: "ArenaEnv \<Rightarrow> (ArenaDb \<Rightarrow> ArenaDb) \<Rightarrow> string \<Rightarrow> string \<Rightarrow> string \<Rightarrow> unit arena" where
  "prepare_variant env meanwhile ws repo variant_id =
     bind_arena (with_scope ws (\<lambda>sc. read_arena (\<lambda>db. get_entity sc variant_id (av_variants db)))) (\<lambda>v.
       case var_resolved_sha v of
         None \<Rightarrow> fail_arena (ArenaPyError AssertionError)
       | Some sha \<Rightarrow>
           (let dest = nv_worktree_path env (var_arena_id v) (ent_id v)
            in bind_arena (\<lambda>db. (Inr (), meanwhile db)) (\<lambda>_. with_scope ws (\<lambda>sc.
               bind_arena (read_arena (\<lambda>db. get_entity sc variant_id (av_variants db))) (\<lambda>v'.
                 put_variant sc (case preparation_error env repo sha dest v of
                   Some err \<Rightarrow> v'\<lparr>var_state := ArenaVariantState.FAILED, var_error := Some err\<rparr>
                 | None \<Rightarrow> v'\<lparr>var_worktree_path := Some dest, var_state := ArenaVariantState.READY\<rparr>))))))"

subsection \<open>Rounds\<close>

definition dict_or_empty :: "json \<Rightarrow> json dict result" where
  "dict_or_empty v =
     (if \<not> py_truthy v then Inr []
      else case v of JObj d \<Rightarrow> Inr d | JStr _ \<Rightarrow> Inl ValueError | _ \<Rightarrow> Inl TypeError)"

definition variant_env :: "Arena \<Rightarrow> ArenaVariant \<Rightarrow> string dict" where
  "variant_env a v = dict_update (case arn_agent_env a of None \<Rightarrow> [] | Some d \<Rightarrow> d)
     (case var_env_overrides v of None \<Rightarrow> [] | Some d \<Rightarrow> d)"

definition agent_block :: "Arena \<Rightarrow> ArenaVariant \<Rightarrow> json dict" where
  "agent_block a v =
     [(''type'', JStr ''cli''), (''command'', JList (map JStr (arn_agent_command a))),
      (''cwd'', opt_str_json (var_worktree_path v))] @
     (if variant_env a v = [] then [] else [(''env'', JObj (map (\<lambda>(k, s). (k, JStr s)) (variant_env a v)))])"

definition build_variant_spec :: "ArenaEnv \<Rightarrow> nat \<Rightarrow> Arena \<Rightarrow> ArenaVariant \<Rightarrow> nat \<Rightarrow> json dict result" where
  "build_variant_spec env n a v round_index =
     bind_result (dict_or_empty (dict_get (arn_spec_template a) ''experiment'' JNull)) (\<lambda>block.
      let block1 = AList.update ''id'' (JStr (nv_experiment_id env n)) block;
          block2 = AList.update ''name''
            (JStr (arn_name a @ ''/'' @ var_name v @ ''/r'' @ int_str (int round_index))) block1
      in Inr (AList.update ''agent'' (JObj (agent_block a v))
           (AList.update ''experiment'' (JObj block2) (arn_spec_template a))))"

definition latest_iteration :: "WorkspaceScope \<Rightarrow> string \<Rightarrow> ArenaDb \<Rightarrow> IterationRecord option result" where
  "latest_iteration sc experiment_id db =
     bind_result (list_entities sc ITERATION_COLUMNS (Some (where_filter [(''experiment_id'', JStr experiment_id)]))
       (av_iterations db)) (\<lambda>records. Inr (case records of [] \<Rightarrow> None | r # _ \<Rightarrow> Some r))"

definition latest_iteration_cost :: "WorkspaceScope \<Rightarrow> string \<Rightarrow> ArenaDb \<Rightarrow> rat option result" where
  "latest_iteration_cost sc experiment_id db =
     bind_result (latest_iteration sc experiment_id db) (\<lambda>r. Inr (case r of
       None \<Rightarrow> None
     | Some record \<Rightarrow> (case ir_metrics record of None \<Rightarrow> None | Some m \<Rightarrow> im_cost_usd m)))"

fun entry_costs :: "WorkspaceScope \<Rightarrow> ArenaDb \<Rightarrow> RoundEntry list \<Rightarrow> rat list dict \<Rightarrow> rat list dict result" where
  "entry_costs sc db [] d = Inr d"
| "entry_costs sc db (e # es) d = (case re_experiment_id e of
     None \<Rightarrow> entry_costs sc db es d
   | Some x \<Rightarrow> bind_result (latest_iteration_cost sc x db) (\<lambda>c. entry_costs sc db es (case c of
       None \<Rightarrow> d
     | Some q \<Rightarrow> dict_modify d (re_variant_id e) [] (\<lambda>qs. qs @ [q]))))"

definition per_variant_costs :: "WorkspaceScope \<Rightarrow> string \<Rightarrow> ArenaDb \<Rightarrow> rat list dict result" where
  "per_variant_costs sc arena_id db =
     bind_result (list_entities sc ROUND_COLUMNS (Some (arena_filter arena_id)) (av_rounds db)) (\<lambda>rounds.
       entry_costs sc db (concat (map rnd_entries rounds)) [])"

text \<open>The estimate of a history.  Its printed basis is left out.\<close>

definition estimate_of :: "rat list dict \<Rightarrow> string list \<Rightarrow> int \<Rightarrow> rat option" where
  "estimate_of costs variant_ids reps =
     (let all_costs = concat (map snd costs)
      in if all_costs = [] then None
         else let arena_avg = sum_list all_costs / of_nat (length all_costs)
              in Some (sum_list (map (\<lambda>vid. (case dict_get costs vid [] of
                     [] \<Rightarrow> arena_avg
                   | c # cs \<Rightarrow> sum_list (c # cs) / of_nat (length (c # cs))) * of_int reps) variant_ids)))"

definition estimate_round_cost :: "string \<Rightarrow> string \<Rightarrow> string list \<Rightarrow> int \<Rightarrow> ArenaDb \<Rightarrow> rat option result" where
  "estimate_round_cost ws arena_id variant_ids reps db =
     bind_result (open_scope ws) (\<lambda>sc. bind_result (per_variant_costs sc arena_id db) (\<lambda>costs.
       Inr (estimate_of costs variant_ids reps)))"

definition select_variants :: "string list option \<Rightarrow> ArenaVariant list \<Rightarrow> arena_error + ArenaVariant list" where
  "select_variants variant_ids all_variants = (case variant_ids of
     None \<Rightarrow> Inr (filter (\<lambda>v. var_state v = ArenaVariantState.READY) all_variants)
   | Some ids \<Rightarrow>
       if list_all (\<lambda>i. i \<in> ent_id ` set all_variants) ids
       then Inr (List.map_filter (\<lambda>i. find (\<lambda>v. ent_id v = i) (rev all_variants)) ids)
       else Inl SelfEvalsUserError)"

definition check_cost_budget :: "string \<Rightarrow> string \<Rightarrow> Arena \<Rightarrow> string list \<Rightarrow> int \<Rightarrow> unit arena" where
  "check_cost_budget ws arena_id a ids reps = (case bu_max_cost_usd (arn_budget a) of
     None \<Rightarrow> return_arena ()
   | Some m \<Rightarrow> bind_arena (read_arena (estimate_round_cost ws arena_id ids reps)) (\<lambda>estimate.
       require (case estimate of None \<Rightarrow> True | Some q \<Rightarrow> \<not> q > m) SelfEvalsUserError))"

fun launch_variants :: "ArenaEnv \<Rightarrow> Arena \<Rightarrow> nat \<Rightarrow> int \<Rightarrow> nat \<Rightarrow> ArenaVariant list \<Rightarrow> arena_error + RoundEntry list" where
  "launch_variants env a round_index reps n [] = Inr []"
| "launch_variants env a round_index reps n (v # vs) = (case build_variant_spec env n a v round_index of
     Inl e \<Rightarrow> Inl (ArenaPyError e)
   | Inr spec \<Rightarrow> (case nv_launch env spec (arn_dataset_id a) reps of
       Inl e \<Rightarrow> Inl e
     | Inr resp \<Rightarrow> (case launch_variants env a round_index reps (n + 1) vs of
         Inl e \<Rightarrow> Inl e
       | Inr entries \<Rightarrow> Inr (\<lparr>re_variant_id = ent_id v, re_experiment_id = Some (lr_experiment_id resp),
           re_run_job_id = lr_job_id resp, re_status = lr_state resp\<rparr> # entries))))"

definition new_round :: "ArenaEnv \<Rightarrow> string \<Rightarrow> string \<Rightarrow> nat \<Rightarrow> int \<Rightarrow> ArenaVariant list \<Rightarrow> ArenaRound" where
  "new_round env ws arena_id round_index reps selected =
     \<lparr>ent_id = nv_fresh env, workspace_id = ws, version = 1, created_at = nv_now env, updated_at = nv_now env,
      deleted_at = None, rnd_arena_id = arena_id, rnd_index = round_index,
      rnd_entries = map (\<lambda>v. \<lparr>re_variant_id = ent_id v, re_experiment_id = None, re_run_job_id = None,
        re_status = ''pending''\<rparr>) selected,
      rnd_reps = nat reps, rnd_state = ArenaRoundState.RUNNING, rnd_started_at = None, rnd_finished_at = None,
      rnd_summary = None\<rparr>"

text \<open>The first scope: the checks, in their order, and the round with its pending entries.\<close>

definition open_round :: "ArenaEnv \<Rightarrow> string \<Rightarrow> string \<Rightarrow> string list option \<Rightarrow> int \<Rightarrow> (Arena \<times> ArenaVariant list) arena" where
  "open_round env ws arena_id variant_ids reps =
     with_scope ws (\<lambda>sc.
     bind_arena (read_arena (\<lambda>db. get_entity sc arena_id (av_arenas db))) (\<lambda>a.
     bind_arena (require (case bu_max_rounds (arn_budget a) of None \<Rightarrow> True | Some m \<Rightarrow> \<not> m \<le> arn_current_round a)
       SelfEvalsUserError) (\<lambda>_.
     bind_arena (read_arena (variants_of sc arena_id)) (\<lambda>all_variants.
     bind_arena (case select_variants variant_ids all_variants of Inl e \<Rightarrow> fail_arena e | Inr vs \<Rightarrow> return_arena vs) (\<lambda>selected.
     bind_arena (require (list_all (\<lambda>v. var_state v = ArenaVariantState.READY) selected) SelfEvalsUserError) (\<lambda>_.
     bind_arena (require (selected \<noteq> []) SelfEvalsUserError) (\<lambda>_.
     bind_arena (check_cost_budget ws arena_id a (map ent_id selected) reps) (\<lambda>_.
     bind_arena (require (1 \<le> reps) (ArenaPyError ValueError)) (\<lambda>_.
     bind_arena (put_round sc (new_round env ws arena_id (arn_current_round a) reps selected)) (\<lambda>_.
       return_arena (a, selected)))))))))))"

text \<open>The second scope: the launched entries, and the arena moves to its next round.\<close>

definition close_launch :: "ArenaEnv \<Rightarrow> string \<Rightarrow> string \<Rightarrow> nat \<Rightarrow> RoundEntry list \<Rightarrow> ArenaRound arena" where
  "close_launch env ws arena_id round_index entries =
     with_scope ws (\<lambda>sc.
     bind_arena (read_arena (\<lambda>db. get_entity sc (nv_fresh env) (av_rounds db))) (\<lambda>r.
      let r' = r\<lparr>rnd_entries := entries\<rparr>
      in bind_arena (put_round sc r') (\<lambda>_.
     bind_arena (read_arena (\<lambda>db. get_entity sc arena_id (av_arenas db))) (\<lambda>a.
     bind_arena (put_arena sc (a\<lparr>arn_current_round := round_index + 1, arn_state := ArenaState.ACTIVE\<rparr>)) (\<lambda>_.
       return_arena r')))))"

definition launch_round :: "ArenaEnv \<Rightarrow> string \<Rightarrow> string \<Rightarrow> string list option \<Rightarrow> int \<Rightarrow> ArenaRound arena" where
  "launch_round env ws arena_id variant_ids reps =
     bind_arena (open_round env ws arena_id variant_ids reps) (\<lambda>opened.
     bind_arena (case launch_variants env (fst opened) (arn_current_round (fst opened)) reps 0 (snd opened) of
         Inl e \<Rightarrow> fail_arena e | Inr entries \<Rightarrow> return_arena entries) (\<lambda>entries.
       close_launch env ws arena_id (arn_current_round (fst opened)) entries))"

definition TERMINAL_EXPERIMENT_STATES :: "ExperimentState list" where
  "TERMINAL_EXPERIMENT_STATES = [ExperimentState.COMPLETED, ExperimentState.ABORTED, ExperimentState.SUPERSEDED]"

text \<open>The child experiment of an entry, if it is stored.\<close>

definition child_experiment :: "WorkspaceScope \<Rightarrow> ArenaDb \<Rightarrow> RoundEntry \<Rightarrow> Experiment option result" where
  "child_experiment sc db e = (case re_experiment_id e of
     None \<Rightarrow> Inr None
   | Some x \<Rightarrow> if x = [] then Inr None
       else bind_result (entity_exists sc x (av_experiments db)) (\<lambda>there.
         if there then bind_result (get_entity sc x (av_experiments db)) (\<lambda>ex. Inr (Some ex)) else Inr None))"

definition refreshed_entry :: "RoundEntry \<Rightarrow> Experiment option \<Rightarrow> RoundEntry" where
  "refreshed_entry e child = (case child of None \<Rightarrow> e | Some ex \<Rightarrow> e\<lparr>re_status := ExperimentState_value (exp_state ex)\<rparr>)"

definition child_terminal :: "Experiment option \<Rightarrow> bool" where
  "child_terminal child = (case child of None \<Rightarrow> False | Some ex \<Rightarrow> exp_state ex \<in> set TERMINAL_EXPERIMENT_STATES)"

definition refreshed_round :: "ArenaRound \<Rightarrow> Experiment option list \<Rightarrow> ArenaRound" where
  "refreshed_round r children =
     (let r1 = r\<lparr>rnd_entries := map2 refreshed_entry (rnd_entries r) children\<rparr>
      in if list_all child_terminal children \<and> rnd_state r1 = ArenaRoundState.RUNNING
         then r1\<lparr>rnd_state := ArenaRoundState.COMPLETED\<rparr> else r1)"

definition refresh_round_status :: "string \<Rightarrow> string \<Rightarrow> ArenaRound arena" where
  "refresh_round_status ws round_id =
     with_scope ws (\<lambda>sc.
     bind_arena (read_arena (\<lambda>db. get_entity sc round_id (av_rounds db))) (\<lambda>r.
     bind_arena (read_arena (\<lambda>db. map_result (child_experiment sc db) (rnd_entries r))) (\<lambda>children.
      let r' = refreshed_round r children
      in bind_arena (put_round sc r') (\<lambda>_. return_arena r'))))"

subsection \<open>The end of an arena\<close>

record Promotion =
  po_winner_variant_id :: string
  po_git_ref :: string
  po_resolved_sha :: "string option"
  po_suggested_commands :: "string list"

definition promote_winner :: "ArenaEnv \<Rightarrow> string \<Rightarrow> string \<Rightarrow> string \<Rightarrow> Promotion arena" where
  "promote_winner env ws arena_id variant_id =
     with_scope ws (\<lambda>sc.
     bind_arena (read_arena (\<lambda>db. get_entity sc arena_id (av_arenas db))) (\<lambda>a.
     bind_arena (read_arena (\<lambda>db. get_entity sc variant_id (av_variants db))) (\<lambda>v.
     bind_arena (require (var_arena_id v = arena_id) SelfEvalsUserError) (\<lambda>_.
     bind_arena (put_arena sc (a\<lparr>arn_winner_variant_id := Some variant_id, arn_state := ArenaState.COMPLETED\<rparr>)) (\<lambda>_.
      let sha = (case var_resolved_sha v of Some (c # cs) \<Rightarrow> c # cs | _ \<Rightarrow> var_git_ref v)
      in return_arena \<lparr>po_winner_variant_id = variant_id, po_git_ref = var_git_ref v,
           po_resolved_sha = var_resolved_sha v,
           po_suggested_commands =
             [''git -C '' @ arn_repo_path a @ '' merge '' @ sha,
              ''gh pr create --head '' @ var_git_ref v @ '' --title '' @ nv_repr env (arn_name a @ '': '' @ var_name v)]\<rparr>)))))"

fun retire_variants :: "WorkspaceScope \<Rightarrow> ArenaVariant list \<Rightarrow> unit arena" where
  "retire_variants sc [] = return_arena ()"
| "retire_variants sc (v # vs) =
     bind_arena (put_variant sc (v\<lparr>var_state := ArenaVariantState.RETIRED\<rparr>)) (\<lambda>_. retire_variants sc vs)"

definition cleanup_arena :: "string \<Rightarrow> string \<Rightarrow> unit arena" where
  "cleanup_arena ws arena_id =
     with_scope ws (\<lambda>sc.
     bind_arena (read_arena (\<lambda>db. get_entity sc arena_id (av_arenas db))) (\<lambda>a.
     bind_arena (read_arena (variants_of sc arena_id)) (\<lambda>vs.
     bind_arena (retire_variants sc vs) (\<lambda>_.
       put_arena sc (a\<lparr>arn_state := ArenaState.ARCHIVED\<rparr>)))))"

text \<open>The sweep of the directory of worktrees: directories below the root, each with its entries.  The
  paths are resolved; an entry that cannot be removed stays and is not reported.\<close>

record WorktreeEntry =
  we_path :: string
  we_is_dir :: bool
  we_removable :: bool

definition live_paths :: "ArenaVariant list \<Rightarrow> (string \<Rightarrow> string) \<Rightarrow> string list" where
  "live_paths variants resolve = map resolve (filter (\<lambda>p. p \<noteq> []) (List.map_filter var_worktree_path variants))"

definition orphaned :: "string list \<Rightarrow> WorktreeEntry \<Rightarrow> bool" where
  "orphaned live e \<longleftrightarrow> we_is_dir e \<and> we_path e \<notin> set live"

definition gc_arena_dir :: "string list \<Rightarrow> bool \<Rightarrow> WorktreeEntry list \<Rightarrow> string list \<times> WorktreeEntry list option" where
  "gc_arena_dir live dry_run es =
     (if dry_run then (map we_path (filter (orphaned live) es), Some es)
      else let left = filter (\<lambda>e. \<not> (orphaned live e \<and> we_removable e)) es
           in (map we_path (filter (\<lambda>e. orphaned live e \<and> we_removable e) es), if left = [] then None else Some left))"

definition gc_orphaned_worktrees ::
    "ArenaVariant list \<Rightarrow> (string \<Rightarrow> string) \<Rightarrow> bool \<Rightarrow> WorktreeEntry list list \<Rightarrow> string list \<times> WorktreeEntry list list" where
  "gc_orphaned_worktrees variants resolve dry_run dirs =
     (let swept = map (gc_arena_dir (live_paths variants resolve) dry_run) dirs
      in (concat (map fst swept), List.map_filter snd swept))"

subsection \<open>The operations of the API\<close>

definition list_arenas :: "string \<Rightarrow> Arena list arena" where
  "list_arenas ws = with_scope ws (\<lambda>sc. read_arena (\<lambda>db. list_entities sc ARENA_COLUMNS
     (Some (default_ListFilter\<lparr>lf_order_by := ''created_at'', lf_order_desc := True\<rparr>)) (av_arenas db)))"

definition round_ids :: "WorkspaceScope \<Rightarrow> string \<Rightarrow> ArenaDb \<Rightarrow> ArenaRound list result" where
  "round_ids sc arena_id db = list_entities sc ROUND_COLUMNS
     (Some ((arena_filter arena_id)\<lparr>lf_order_by := ''index'', lf_order_desc := False\<rparr>)) (av_rounds db)"

fun refresh_rounds :: "string \<Rightarrow> string list \<Rightarrow> ArenaRound list arena" where
  "refresh_rounds ws [] = return_arena []"
| "refresh_rounds ws (i # is) =
     bind_arena (refresh_round_status ws i) (\<lambda>r. bind_arena (refresh_rounds ws is) (\<lambda>rs. return_arena (r # rs)))"

definition list_rounds :: "string \<Rightarrow> string \<Rightarrow> ArenaRound list arena" where
  "list_rounds ws arena_id =
     bind_arena (with_scope ws (\<lambda>sc. read_arena (round_ids sc arena_id))) (\<lambda>rounds.
     bind_arena (refresh_rounds ws (map ent_id rounds)) (\<lambda>rs. return_arena (sort_key rnd_index rs)))"

definition get_round :: "string \<Rightarrow> string \<Rightarrow> string \<Rightarrow> ArenaRound arena" where
  "get_round ws arena_id round_id =
     bind_arena (refresh_round_status ws round_id) (\<lambda>r.
       if rnd_arena_id r \<noteq> arena_id then fail_arena (ArenaPyError EntityNotFoundError) else return_arena r)"

definition round_cost_op :: "string \<Rightarrow> string \<Rightarrow> string list option \<Rightarrow> int \<Rightarrow> rat option arena" where
  "round_cost_op ws arena_id variant_ids reps =
     bind_arena (with_scope ws (\<lambda>sc.
       bind_arena (read_arena (\<lambda>db. get_entity sc arena_id (av_arenas db))) (\<lambda>_.
       case variant_ids of
         Some ids \<Rightarrow> return_arena ids
       | None \<Rightarrow> bind_arena (read_arena (variants_of sc arena_id)) (\<lambda>vs.
           return_arena (map ent_id (filter (\<lambda>v. var_state v = ArenaVariantState.READY) vs)))))) (\<lambda>ids.
     read_arena (estimate_round_cost ws arena_id ids reps))"

end
