(* ===== verification/Arena_Bundle.thy ===== *)
theory Arena_Bundle
  imports Arena
begin

section \<open>arena/bundle.py and arena/schemas.py\<close>

text \<open>
  What a coding agent reads of an arena: a card for every variant with its latest result and its
  history, the leaderboard of the round, each loser compared with the best, exemplary failures, and
  the plateau signal.  Reading changes nothing, so every function is a plain result.
\<close>

record BundleMetrics =
  bm_experiment_id :: string
  bm_iteration_id :: string
  bm_primary_name :: string
  bm_primary :: rat
  bm_guardrails :: "rat dict"
  bm_reliability :: "rat dict"
  bm_cost_usd :: "rat option"
  bm_duration_seconds :: "rat option"
  bm_errors :: rat
  bm_failure_mode_counts :: "nat dict"

record RoundHistoryPoint =
  rh_round :: nat
  rh_primary_value :: "rat option"
  rh_cost_usd :: "rat option"

record VariantCard =
  vc_variant_id :: string
  vc_name :: string
  vc_git_ref :: string
  vc_resolved_sha :: "string option"
  vc_hypothesis :: "string option"
  vc_state :: string
  vc_error :: "string option"
  vc_latest_result :: "BundleMetrics option"
  vc_history :: "RoundHistoryPoint list"

record LeaderboardRow =
  lb_rank :: nat
  lb_variant_id :: string
  lb_name :: string
  lb_primary_value :: rat
  lb_delta_vs_best :: "rat option"
  lb_cost_usd :: "rat option"

record PairwiseVsBest =
  pb_variant_id :: string
  pb_name :: string
  pb_proposal_diff :: "ParamDiffRow list"
  pb_metrics_diff :: "MetricDiffRow list"
  pb_only_best :: "nat dict"
  pb_only_this :: "nat dict"
  pb_common_failure_modes :: "nat list dict"
  pb_recommendation_kind :: Kind
  pb_winner :: "Side option"

record BundleTraceView =
  tv_trace_id :: string
  tv_grade_label :: string
  tv_first_error_span :: "BundleErrorSpan option"

record ExemplarFailures =
  xf_variant_id :: string
  xf_name :: string
  xf_traces :: "BundleTraceView list"

record ArenaSummary =
  sm_id :: string
  sm_name :: string
  sm_goal :: string
  sm_objective_metric :: string
  sm_current_round :: nat
  sm_state :: string
  sm_budget_rounds_remaining :: "nat option"
  sm_budget_variants_remaining :: "nat option"

record ArenaConvergence =
  ag_converged :: bool
  ag_rounds_observed :: nat
  ag_min_delta :: rat
  ag_patience :: nat
  ag_best_value :: "rat option"

record ArenaContract =
  ac_register_variant :: string
  ac_launch_round :: string
  ac_poll_round :: string
  ac_promote :: string

record ArenaBundle =
  ar_arena :: ArenaSummary
  ar_round :: "int option"
  ar_variants :: "VariantCard list"
  ar_leaderboard :: "LeaderboardRow list"
  ar_pairwise_vs_best :: "PairwiseVsBest list"
  ar_exemplar_failures :: "ExemplarFailures list"
  ar_convergence :: ArenaConvergence
  ar_contract :: ArenaContract

definition EXEMPLAR_LIMIT :: nat where
  "EXEMPLAR_LIMIT = 3"

definition bundle_metrics :: "string \<Rightarrow> IterationRecord \<Rightarrow> BundleMetrics option" where
  "bundle_metrics experiment_id r = (case ir_metrics r of
     None \<Rightarrow> None
   | Some m \<Rightarrow> Some \<lparr>bm_experiment_id = experiment_id, bm_iteration_id = ent_id r,
       bm_primary_name = mo_name (im_primary m), bm_primary = mo_value (im_primary m),
       bm_guardrails = dict_update [] (map (\<lambda>g. (mo_name g, mo_value g)) (im_guardrails m)),
       bm_reliability = im_reliability m, bm_cost_usd = im_cost_usd m, bm_duration_seconds = im_duration_seconds m,
       bm_errors = im_error_rate m, bm_failure_mode_counts = im_failure_mode_counts m\<rparr>)"

fun history_points :: "WorkspaceScope \<Rightarrow> ArenaDb \<Rightarrow> string \<Rightarrow> ArenaRound list \<Rightarrow> RoundHistoryPoint list result" where
  "history_points sc db variant_id [] = Inr []"
| "history_points sc db variant_id (r # rs) =
     (case Option.bind (find (\<lambda>e. re_variant_id e = variant_id) (rnd_entries r)) re_experiment_id of
        None \<Rightarrow> history_points sc db variant_id rs
      | Some x \<Rightarrow>
          bind_result (latest_iteration sc x db) (\<lambda>record.
          bind_result (history_points sc db variant_id rs) (\<lambda>points.
            Inr ((case Option.bind record ir_metrics of
                    None \<Rightarrow> \<lparr>rh_round = rnd_index r, rh_primary_value = None, rh_cost_usd = None\<rparr>
                  | Some m \<Rightarrow> \<lparr>rh_round = rnd_index r, rh_primary_value = Some (mo_value (im_primary m)),
                      rh_cost_usd = im_cost_usd m\<rparr>) # points))))"

definition variant_history :: "WorkspaceScope \<Rightarrow> string \<Rightarrow> string \<Rightarrow> ArenaDb \<Rightarrow> RoundHistoryPoint list result" where
  "variant_history sc arena_id variant_id db =
     bind_result (round_ids sc arena_id db) (history_points sc db variant_id)"

definition pairwise_vs_best :: "IterationRecord \<Rightarrow> VariantCard \<Rightarrow> IterationRecord \<Rightarrow> PairwiseVsBest" where
  "pairwise_vs_best best_record other other_record =
     (let c = compute_compare best_record other_record
      in \<lparr>pb_variant_id = vc_variant_id other, pb_name = vc_name other, pb_proposal_diff = cm_proposal_diff c,
          pb_metrics_diff = cm_metrics_diff c, pb_only_best = fd_only_a (cm_failure_modes c),
          pb_only_this = fd_only_b (cm_failure_modes c),
          pb_common_failure_modes = map (\<lambda>(k, x, y). (k, [x, y])) (fd_common (cm_failure_modes c)),
          pb_recommendation_kind = rc_kind (cm_recommendation c), pb_winner = rc_winner (cm_recommendation c)\<rparr>)"

definition trace_view :: "Trace \<Rightarrow> BundleTraceView" where
  "trace_view t = \<lparr>tv_trace_id = ent_id t, tv_grade_label = bg_label (grade t),
     tv_first_error_span = first_error_span (tr_spans t)\<rparr>"

definition exemplar_failures :: "WorkspaceScope \<Rightarrow> ArenaDb \<Rightarrow> ArenaVariant \<Rightarrow> string \<Rightarrow> ExemplarFailures result" where
  "exemplar_failures sc db v experiment_id =
     bind_result (list_entities sc TRACE_COLUMNS (Some (where_filter [(''run.experiment_id'', JStr experiment_id)]))
       (av_traces db)) (\<lambda>traces.
       Inr \<lparr>xf_variant_id = ent_id v, xf_name = var_name v,
            xf_traces = map trace_view (take EXEMPLAR_LIMIT (filter is_failed traces))\<rparr>)"

definition round_entries_for :: "WorkspaceScope \<Rightarrow> string \<Rightarrow> int \<Rightarrow> ArenaDb \<Rightarrow> string dict result" where
  "round_entries_for sc arena_id target db =
     (if target < 0 then Inr []
      else bind_result (list_entities sc ROUND_COLUMNS
          (Some (where_filter [(''arena_id'', JStr arena_id), (''index_'', JInt target)])) (av_rounds db)) (\<lambda>rounds.
        Inr (case rounds of
               [] \<Rightarrow> []
             | r # _ \<Rightarrow> dict_update [] (List.map_filter (\<lambda>e. map_option (Pair (re_variant_id e)) (re_experiment_id e))
                 (rnd_entries r)))))"

definition card_of :: "ArenaVariant \<Rightarrow> BundleMetrics option \<Rightarrow> RoundHistoryPoint list \<Rightarrow> VariantCard" where
  "card_of v latest points =
     \<lparr>vc_variant_id = ent_id v, vc_name = var_name v, vc_git_ref = var_git_ref v, vc_resolved_sha = var_resolved_sha v,
      vc_hypothesis = var_hypothesis v, vc_state = ArenaVariantState_value (var_state v), vc_error = var_error v,
      vc_latest_result = latest, vc_history = points\<rparr>"

definition variant_record :: "WorkspaceScope \<Rightarrow> ArenaDb \<Rightarrow> string dict \<Rightarrow> ArenaVariant \<Rightarrow> (string \<times> IterationRecord) option result" where
  "variant_record sc db entries v = (case map_of entries (ent_id v) of
     None \<Rightarrow> Inr None
   | Some x \<Rightarrow> bind_result (latest_iteration sc x db) (\<lambda>r. Inr (map_option (Pair x) r)))"

fun build_variant_cards ::
    "WorkspaceScope \<Rightarrow> ArenaDb \<Rightarrow> string \<Rightarrow> string dict \<Rightarrow> ArenaVariant list \<Rightarrow>
       (VariantCard list \<times> (string \<times> IterationRecord) dict) result" where
  "build_variant_cards sc db arena_id entries [] = Inr ([], [])"
| "build_variant_cards sc db arena_id entries (v # vs) =
     bind_result (variant_record sc db entries v) (\<lambda>found.
     bind_result (variant_history sc arena_id (ent_id v) db) (\<lambda>points.
     bind_result (build_variant_cards sc db arena_id entries vs) (\<lambda>(cards, records).
       Inr (card_of v (case found of None \<Rightarrow> None | Some (x, r) \<Rightarrow> bundle_metrics x r) points # cards,
            (case found of None \<Rightarrow> records | Some xr \<Rightarrow> (ent_id v, xr) # records)))))"

text \<open>\<^verbatim>\<open>scored.sort(key=..., reverse=True)\<close>: descending, cards that tie keep their order.\<close>

definition rank_cards :: "VariantCard list \<Rightarrow> (VariantCard \<times> BundleMetrics) list" where
  "rank_cards cards = sort_key (\<lambda>p. - bm_primary (snd p))
     (List.map_filter (\<lambda>c. map_option (Pair c) (vc_latest_result c)) cards)"

definition leaderboard_row :: "rat \<Rightarrow> nat \<Rightarrow> VariantCard \<times> BundleMetrics \<Rightarrow> LeaderboardRow" where
  "leaderboard_row best i cm = \<lparr>lb_rank = i + 1, lb_variant_id = vc_variant_id (fst cm), lb_name = vc_name (fst cm),
     lb_primary_value = bm_primary (snd cm), lb_delta_vs_best = Some (bm_primary (snd cm) - best),
     lb_cost_usd = bm_cost_usd (snd cm)\<rparr>"

definition leaderboard_of :: "VariantCard list \<Rightarrow> LeaderboardRow list" where
  "leaderboard_of cards = (case rank_cards cards of
     [] \<Rightarrow> []
   | (c, m) # rest \<Rightarrow> map2 (leaderboard_row (bm_primary m)) [0..<length (rank_cards cards)] (rank_cards cards))"

definition pairwise_of :: "VariantCard list \<Rightarrow> (string \<times> IterationRecord) dict \<Rightarrow> PairwiseVsBest list result" where
  "pairwise_of cards records = (case rank_cards cards of
     [] \<Rightarrow> Inr []
   | (best, _) # losers \<Rightarrow> (case map_of records (vc_variant_id best) of
       None \<Rightarrow> Inl KeyError
     | Some (_, best_record) \<Rightarrow> map_result (\<lambda>(c, _). case map_of records (vc_variant_id c) of
         None \<Rightarrow> Inl KeyError
       | Some (_, r) \<Rightarrow> Inr (pairwise_vs_best best_record c r)) losers))"

definition exemplars_of ::
    "WorkspaceScope \<Rightarrow> ArenaDb \<Rightarrow> ArenaVariant list \<Rightarrow> (string \<times> IterationRecord) dict \<Rightarrow> ExemplarFailures list result" where
  "exemplars_of sc db variants records = map_result (\<lambda>(vid, x, _). case find (\<lambda>v. ent_id v = vid) variants of
     None \<Rightarrow> Inl KeyError | Some v \<Rightarrow> exemplar_failures sc db v x) records"

definition CONVERGENCE_MIN_DELTA :: rat where
  "CONVERGENCE_MIN_DELTA = 5 / 1000"

definition CONVERGENCE_PATIENCE :: nat where
  "CONVERGENCE_PATIENCE = 3"

definition best_point :: "(nat \<times> rat) list \<Rightarrow> RoundHistoryPoint \<Rightarrow> (nat \<times> rat) list" where
  "best_point best p = (case rh_primary_value p of
     None \<Rightarrow> best
   | Some q \<Rightarrow> (case map_of best (rh_round p) of
       None \<Rightarrow> AList.update (rh_round p) q best
     | Some cur \<Rightarrow> if q > cur then AList.update (rh_round p) q best else best))"

definition best_by_round :: "VariantCard list \<Rightarrow> (nat \<times> rat) list" where
  "best_by_round cards = foldl best_point [] (concat (map vc_history cards))"

definition convergence_signal :: "VariantCard list \<Rightarrow> ArenaConvergence" where
  "convergence_signal cards =
     (let best = best_by_round cards; ordered = map (\<lambda>r. dict_get best r 0) (sort (dict_keys best))
      in \<lparr>ag_converged = has_converged ordered CONVERGENCE_MIN_DELTA CONVERGENCE_PATIENCE,
          ag_rounds_observed = length ordered, ag_min_delta = CONVERGENCE_MIN_DELTA, ag_patience = CONVERGENCE_PATIENCE,
          ag_best_value = (if ordered = [] then None else Some (last ordered))\<rparr>)"

definition arena_url :: "string \<Rightarrow> string \<Rightarrow> string \<Rightarrow> string" where
  "arena_url ws arena_id rest = ''/api/workspaces/'' @ ws @ ''/arenas/'' @ arena_id @ rest"

definition arena_summary :: "Arena \<Rightarrow> nat \<Rightarrow> ArenaSummary" where
  "arena_summary a variant_count =
     \<lparr>sm_id = ent_id a, sm_name = arn_name a, sm_goal = arn_goal a, sm_objective_metric = arn_objective_metric a,
      sm_current_round = arn_current_round a, sm_state = ArenaState_value (arn_state a),
      sm_budget_rounds_remaining = map_option (\<lambda>m. m - arn_current_round a) (bu_max_rounds (arn_budget a)),
      sm_budget_variants_remaining = map_option (\<lambda>m. m - variant_count) (bu_max_variants (arn_budget a))\<rparr>"

definition build_arena_bundle :: "string \<Rightarrow> string \<Rightarrow> int option \<Rightarrow> ArenaDb \<Rightarrow> ArenaBundle result" where
  "build_arena_bundle ws arena_id round_index db =
     bind_result (open_scope ws) (\<lambda>sc.
     bind_result (get_entity sc arena_id (av_arenas db)) (\<lambda>a.
     bind_result (variants_of sc arena_id db) (\<lambda>variants.
      let target = (case round_index of Some i \<Rightarrow> i | None \<Rightarrow> int (arn_current_round a) - 1)
      in bind_result (round_entries_for sc arena_id target db) (\<lambda>entries.
         bind_result (build_variant_cards sc db arena_id entries variants) (\<lambda>(cards, records).
         bind_result (pairwise_of cards records) (\<lambda>pairwise.
         bind_result (exemplars_of sc db variants records) (\<lambda>exemplars.
           Inr \<lparr>ar_arena = arena_summary a (length variants),
                ar_round = (if target \<ge> 0 then Some target else None),
                ar_variants = cards, ar_leaderboard = leaderboard_of cards, ar_pairwise_vs_best = pairwise,
                ar_exemplar_failures = exemplars, ar_convergence = convergence_signal cards,
                ar_contract = \<lparr>ac_register_variant = arena_url ws arena_id ''/variants'',
                  ac_launch_round = arena_url ws arena_id ''/rounds'',
                  ac_poll_round = arena_url ws arena_id ''/rounds/{round_id}'',
                  ac_promote = arena_url ws arena_id ''/promote''\<rparr>\<rparr>)))))))"

end
