(* ===== verification/Arena_Properties.thy ===== *)
theory Arena_Properties
  imports Arena_Bundle Samples
begin

section \<open>What an arena promises\<close>

text \<open>
  A round is launched within the budget, from variants that are ready, and moves the arena to its next
  round; a launch that fails halfway leaves a round that never ends; refreshing a round is idempotent
  and closes it exactly when all its experiments have ended; the leaderboard ranks every scored
  variant once.
\<close>

subsection \<open>Steps of the service\<close>

lemmas arena_step_defs = bind_arena_def read_arena_def with_scope_def require_def return_arena_def fail_arena_def

lemma bind_arena_Inr:
  "bind_arena m f db = (Inr y, db') \<longleftrightarrow> (\<exists>x db1. m db = (Inr x, db1) \<and> f x db1 = (Inr y, db'))"
  by (auto simp: bind_arena_def split: prod.splits sum.splits)

lemma read_arena_Inr: "read_arena f db = (Inr x, db') \<longleftrightarrow> f db = Inr x \<and> db' = db"
  by (auto simp: read_arena_def split: sum.splits)

lemma with_scope_Inr:
  "with_scope ws f db = (Inr x, db') \<longleftrightarrow> ws \<noteq> [] \<and> f \<lparr>sc_workspace_id = ws, sc_closed = False\<rparr> db = (Inr x, db')"
  by (auto simp: with_scope_def bind_arena_Inr read_arena_Inr)

lemma require_Inr: "require b e db = (Inr u, db') \<longleftrightarrow> b \<and> db' = db"
  by (auto simp: require_def return_arena_def fail_arena_def)

lemma return_arena_Inr: "return_arena x db = (Inr y, db') \<longleftrightarrow> y = x \<and> db' = db"
  by (auto simp: return_arena_def)

lemma put_round_Inr: "put_round sc r db = (Inr u, db') \<longleftrightarrow>
    (\<exists>t. put_entity sc r (av_rounds db) = Inr t \<and> db' = db\<lparr>av_rounds := t\<rparr>)"
  by (auto simp: put_round_def split: sum.splits)

lemma put_arena_Inr: "put_arena sc a db = (Inr u, db') \<longleftrightarrow>
    (\<exists>t. put_entity sc a (av_arenas db) = Inr t \<and> db' = db\<lparr>av_arenas := t\<rparr>)"
  by (auto simp: put_arena_def split: sum.splits)

lemmas arena_runs = bind_arena_Inr read_arena_Inr with_scope_Inr require_Inr return_arena_Inr put_round_Inr put_arena_Inr

lemma scope_get_Inr:
  assumes "table_ok t"
  shows "get_entity \<lparr>sc_workspace_id = ws, sc_closed = False\<rparr> i t = Inr e \<longleftrightarrow>
           find_row t i = Some e \<and> workspace_id e = ws"
  by (auto simp: get_entity_def guard_open_def load_row_conv [OF assms] split: option.splits if_splits)

text \<open>Writing back a row that was changed in other columns than the key, the version and the times.\<close>

lemma put_back:
  assumes "find_row t i = Some e" "ent_id e' = i" "workspace_id e' = workspace_id e" "version e' = version e"
    "created_at e' = created_at e" "workspace_id e = ws"
  shows "put_entity \<lparr>sc_workspace_id = ws, sc_closed = False\<rparr> e' t = Inr (upsert e' t) \<and>
         find_row (upsert e' t) i = Some e'"
proof -
  have "ent_id e = i" using find_row_Some [OF assms(1)] by simp
  then have "stamped e' (find_row t i) = e'\<lparr>created_at := created_at e'\<rparr>"
    using assms by (simp add: stamped_def restamp_def)
  then show ?thesis using assms by (simp add: put_entity_Inr find_row_upsert)
qed

lemma variants_of_in:
  assumes "variants_of \<lparr>sc_workspace_id = ws, sc_closed = False\<rparr> arena_id db = Inr vs" "v \<in> set vs"
  shows "v \<in> set (av_variants db) \<and> var_arena_id v = arena_id \<and> workspace_id v = ws"
  using assms
  by (auto simp: variants_of_def list_entities_def load_many_def scalar_where_def arena_filter_def where_filter_def
      default_ListFilter_def validate_order_by_def VARIANT_COLUMNS_def SHARED_COLUMNS_def bind_result_Inr_iff Let_def
      guard_open_def)

lemma found_in: "find p xs = Some x \<Longrightarrow> x \<in> set xs \<and> p x"
  by (auto simp: find_Some_iff)

lemma select_variants_in: "select_variants ids vs = Inr sel \<Longrightarrow> set sel \<subseteq> set vs"
  by (auto simp: select_variants_def set_map_filter split: option.splits if_splits dest!: found_in)

subsection \<open>Opening a round\<close>

lemma open_round_Inr:
  assumes "open_round env ws arena_id ids reps db = (Inr (a, sel), db1)" "table_ok (av_arenas db)"
  shows "ws \<noteq> [] \<and> find_row (av_arenas db) arena_id = Some a \<and> workspace_id a = ws \<and>
    (case bu_max_rounds (arn_budget a) of None \<Rightarrow> True | Some m \<Rightarrow> arn_current_round a < m) \<and>
    list_all (\<lambda>v. v \<in> set (av_variants db) \<and> var_arena_id v = arena_id \<and> var_state v = ArenaVariantState.READY) sel \<and>
    sel \<noteq> [] \<and> 1 \<le> reps \<and>
    (\<exists>u. check_cost_budget ws arena_id a (map ent_id sel) reps db = (Inr u, db)) \<and>
    put_entity \<lparr>sc_workspace_id = ws, sc_closed = False\<rparr> (new_round env ws arena_id (arn_current_round a) reps sel)
      (av_rounds db) = Inr (av_rounds db1) \<and>
    db1 = db\<lparr>av_rounds := av_rounds db1\<rparr>"
proof -
  have pure: "check_cost_budget ws arena_id a' js reps db' = (Inr u, db'') \<Longrightarrow> db'' = db'" for a' js db' u db''
    by (auto simp: check_cost_budget_def arena_runs split: option.splits)
  have sel: "(case select_variants ids vs of Inl e \<Rightarrow> fail_arena e | Inr vs \<Rightarrow> return_arena vs) db' = (Inr sel', db'') \<longleftrightarrow>
      select_variants ids vs = Inr sel' \<and> db'' = db'" for vs sel' db' db''
    by (auto simp: fail_arena_def return_arena_def split: sum.splits)
  from assms(1) obtain vs u t where run:
    "ws \<noteq> []" "get_entity \<lparr>sc_workspace_id = ws, sc_closed = False\<rparr> arena_id (av_arenas db) = Inr a"
    "case bu_max_rounds (arn_budget a) of None \<Rightarrow> True | Some m \<Rightarrow> \<not> m \<le> arn_current_round a"
    "variants_of \<lparr>sc_workspace_id = ws, sc_closed = False\<rparr> arena_id db = Inr vs" "select_variants ids vs = Inr sel"
    "list_all (\<lambda>v. var_state v = ArenaVariantState.READY) sel" "sel \<noteq> []"
    "check_cost_budget ws arena_id a (map ent_id sel) reps db = (Inr u, db)" "1 \<le> reps"
    "put_entity \<lparr>sc_workspace_id = ws, sc_closed = False\<rparr> (new_round env ws arena_id (arn_current_round a) reps sel)
      (av_rounds db) = Inr t" "db1 = db\<lparr>av_rounds := t\<rparr>"
    unfolding open_round_def arena_runs sel by (auto dest: pure)
  have "list_all (\<lambda>v. v \<in> set (av_variants db) \<and> var_arena_id v = arena_id \<and> var_state v = ArenaVariantState.READY) sel"
    using run(6) select_variants_in [OF run(5)] variants_of_in [OF run(4)] by (auto simp: list_all_iff)
  then show ?thesis using run by (auto simp: scope_get_Inr [OF assms(2)] split: option.splits)
qed

lemma launch_variants_entries:
  "launch_variants env a k reps n vs = Inr es \<Longrightarrow>
     map re_variant_id es = map ent_id vs \<and> list_all (\<lambda>e. re_experiment_id e \<noteq> None) es"
  by (induction vs arbitrary: n es) (auto split: sum.splits)

lemma launch_variants_case:
  "(case launch_variants env a k reps n vs of Inl e \<Rightarrow> fail_arena e | Inr es \<Rightarrow> return_arena es) db = (Inr es', db') \<longleftrightarrow>
     launch_variants env a k reps n vs = Inr es' \<and> db' = db"
  by (auto simp: fail_arena_def return_arena_def split: sum.splits)

lemma new_round_fields [simp]:
  "ent_id (new_round env ws arena_id k reps sel) = nv_fresh env"
  "workspace_id (new_round env ws arena_id k reps sel) = ws"
  "rnd_index (new_round env ws arena_id k reps sel) = k"
  "rnd_state (new_round env ws arena_id k reps sel) = ArenaRoundState.RUNNING"
  by (simp_all add: new_round_def)

lemma round_opened:
  assumes "open_round env ws arena_id ids reps db = (Inr (a, sel), db1)" "table_ok (av_arenas db)" "table_ok (av_rounds db)"
    "find_row (av_rounds db) (nv_fresh env) = None"
  shows "table_ok (av_rounds db1) \<and>
    find_row (av_rounds db1) (nv_fresh env) = Some (new_round env ws arena_id (arn_current_round a) reps sel)"
proof -
  have put: "put_entity \<lparr>sc_workspace_id = ws, sc_closed = False\<rparr> (new_round env ws arena_id (arn_current_round a) reps sel)
      (av_rounds db) = Inr (av_rounds db1)"
    using open_round_Inr [OF assms(1,2)] by blast
  then have "av_rounds db1 = upsert (new_round env ws arena_id (arn_current_round a) reps sel) (av_rounds db)"
    by (simp add: put_entity_Inr)
  then show ?thesis
    using put_entity_ok [OF assms(3) put] assms(4) by (simp add: find_row_upsert stamped_def)
qed

lemma check_cost_Inr:
  "check_cost_budget ws arena_id a ids reps db = (Inr u, db') \<Longrightarrow>
     (case (bu_max_cost_usd (arn_budget a), estimate_round_cost ws arena_id ids reps db) of
        (Some m, Inr (Some q)) \<Rightarrow> q \<le> m | (Some m, Inl e) \<Rightarrow> False | _ \<Rightarrow> True)"
  by (auto simp: check_cost_budget_def arena_runs split: option.splits sum.splits)

text \<open>C33. A launch that returns has stayed within the budget of rounds and, if the past allows an estimate, of cost;
  the round it returns is stored, is running under the arena's round number, and has one started
  experiment for each of one or more variants of that arena that were ready; and the arena has moved to its next
  round and is active.\<close>

theorem round_launched_in_budget:
  assumes "launch_round env ws arena_id ids reps db = (Inr r, db')" "table_ok (av_arenas db)" "table_ok (av_rounds db)"
    "find_row (av_rounds db) (nv_fresh env) = None"
  shows "\<exists>a. find_row (av_arenas db) arena_id = Some a \<and>
    (case bu_max_rounds (arn_budget a) of None \<Rightarrow> True | Some m \<Rightarrow> arn_current_round a < m) \<and>
    (case (bu_max_cost_usd (arn_budget a), estimate_round_cost ws arena_id (map re_variant_id (rnd_entries r)) reps db) of
       (Some m, Inr (Some q)) \<Rightarrow> q \<le> m | (Some m, Inl e) \<Rightarrow> False | _ \<Rightarrow> True) \<and>
    rnd_index r = arn_current_round a \<and> rnd_state r = ArenaRoundState.RUNNING \<and> rnd_entries r \<noteq> [] \<and>
    (\<forall>e \<in> set (rnd_entries r). re_experiment_id e \<noteq> None \<and>
       (\<exists>v \<in> set (av_variants db). ent_id v = re_variant_id e \<and> var_arena_id v = arena_id \<and>
          var_state v = ArenaVariantState.READY)) \<and>
    find_row (av_rounds db') (ent_id r) = Some r \<and>
    find_row (av_arenas db') arena_id =
      Some (a\<lparr>arn_current_round := arn_current_round a + 1, arn_state := ArenaState.ACTIVE\<rparr>)"
proof -
  let ?sc = "\<lparr>sc_workspace_id = ws, sc_closed = False\<rparr>"
  obtain a sel db1 es where opened: "open_round env ws arena_id ids reps db = (Inr (a, sel), db1)"
    and es: "launch_variants env a (arn_current_round a) reps 0 sel = Inr es"
    and closing: "close_launch env ws arena_id (arn_current_round a) es db1 = (Inr r, db')"
    using assms(1) unfolding launch_round_def bind_arena_Inr launch_variants_case by auto
  note o = open_round_Inr [OF opened assms(2)] and row = round_opened [OF opened assms(2-4)]
  define r0 where "r0 = new_round env ws arena_id (arn_current_round a) reps sel"
  have same: "av_arenas db1 = av_arenas db" using o by (metis ArenaDb.select_convs(1) ArenaDb.surjective ArenaDb.update_convs(3))
  have r0: "find_row (av_rounds db1) (nv_fresh env) = Some r0" using row by (simp add: r0_def)
  have put0: "put_entity ?sc (r0\<lparr>rnd_entries := es\<rparr>) (av_rounds db1) = Inr (upsert (r0\<lparr>rnd_entries := es\<rparr>) (av_rounds db1)) \<and>
      find_row (upsert (r0\<lparr>rnd_entries := es\<rparr>) (av_rounds db1)) (nv_fresh env) = Some (r0\<lparr>rnd_entries := es\<rparr>)"
    by (rule put_back [OF r0]) (simp_all add: r0_def)
  have arena: "find_row (av_arenas db1) arena_id = Some a" "workspace_id a = ws" using o same by simp_all
  let ?a = "a\<lparr>arn_current_round := arn_current_round a + 1, arn_state := ArenaState.ACTIVE\<rparr>"
  have "ent_id a = arena_id" using find_row_Some [OF arena(1)] by simp
  then have put1: "put_entity ?sc ?a (av_arenas db1) = Inr (upsert ?a (av_arenas db1)) \<and>
      find_row (upsert ?a (av_arenas db1)) arena_id = Some ?a"
    by (intro put_back [OF arena(1)]) (simp_all add: arena(2))
  have "r = r0\<lparr>rnd_entries := es\<rparr> \<and> db' = db1\<lparr>av_rounds := upsert (r0\<lparr>rnd_entries := es\<rparr>) (av_rounds db1),
      av_arenas := upsert ?a (av_arenas db1)\<rparr>"
    using closing o row put0 put1 arena assms(2) same
    by (auto simp: close_launch_def arena_runs Let_def scope_get_Inr r0 r0_def [symmetric])
  then have result: "rnd_entries r = es" "rnd_index r = arn_current_round a" "rnd_state r = ArenaRoundState.RUNNING"
    "find_row (av_rounds db') (ent_id r) = Some r" "find_row (av_arenas db') arena_id = Some ?a"
    using put0 put1 by (simp_all add: r0_def)
  have vs: "map re_variant_id es = map ent_id sel" and started: "list_all (\<lambda>e. re_experiment_id e \<noteq> None) es"
    using launch_variants_entries [OF es] by simp_all
  have "\<exists>v \<in> set (av_variants db). ent_id v = re_variant_id e \<and> var_arena_id v = arena_id \<and>
      var_state v = ArenaVariantState.READY" if "e \<in> set es" for e
  proof -
    have "re_variant_id e \<in> set (map ent_id sel)" using that vs by (metis image_eqI set_map)
    then show ?thesis using o by (auto simp: list_all_iff)
  qed
  moreover have "es \<noteq> []" using vs o by auto
  moreover note o check_cost_Inr [of ws arena_id a "map ent_id sel" reps db]
  ultimately show ?thesis using result vs started by (intro exI [of _ a]) (auto simp: list_all_iff)
qed

subsection \<open>A launch that fails halfway\<close>

lemma refreshed_entry_experiment [simp]: "re_experiment_id (refreshed_entry e c) = re_experiment_id e"
  by (simp add: refreshed_entry_def split: option.splits)

lemma pending_round_stays:
  assumes "rnd_state r = ArenaRoundState.RUNNING" "rnd_entries r \<noteq> []" "list_all (\<lambda>e. re_experiment_id e = None) (rnd_entries r)"
    "find_row (av_rounds db) i = Some r" "table_ok (av_rounds db)" "refresh_round_status ws i db = (Inr r', db')"
  shows "r' = r"
proof -
  obtain children where run: "find_row (av_rounds db) i = Some r"
    "map_result (child_experiment \<lparr>sc_workspace_id = ws, sc_closed = False\<rparr> db) (rnd_entries r) = Inr children"
    "r' = refreshed_round r children"
    using assms(4,6) by (auto simp: refresh_round_status_def arena_runs Let_def scope_get_Inr [OF assms(5)])
  have none: "child_experiment \<lparr>sc_workspace_id = ws, sc_closed = False\<rparr> db e = Inr None" if "e \<in> set (rnd_entries r)" for e
    using assms(3) that by (simp add: child_experiment_def list_all_iff)
  then have children: "children = map (\<lambda>_. None) (rnd_entries r)"
    using run(2) map_result_total [of "rnd_entries r" "child_experiment \<lparr>sc_workspace_id = ws, sc_closed = False\<rparr> db" "\<lambda>_. None"] none
    by simp
  have same: "map2 refreshed_entry es (map (\<lambda>_. None) es) = es" for es
    by (induction es) (simp_all add: refreshed_entry_def)
  have "\<not> list_all child_terminal children" using assms(2) children by (cases "rnd_entries r") (simp_all add: child_terminal_def)
  then show ?thesis unfolding run(3) refreshed_round_def Let_def children same by simp
qed


subsection \<open>Refreshing a round\<close>

definition round_ended :: "WorkspaceScope \<Rightarrow> ArenaDb \<Rightarrow> ArenaRound \<Rightarrow> bool" where
  "round_ended sc db r \<longleftrightarrow> list_all (\<lambda>e. case child_experiment sc db e of
     Inl _ \<Rightarrow> False | Inr c \<Rightarrow> child_terminal c) (rnd_entries r)"

lemma map_result_list_all:
  "map_result f xs = Inr ys \<Longrightarrow> list_all p ys \<longleftrightarrow> list_all (\<lambda>x. case f x of Inl _ \<Rightarrow> False | Inr y \<Rightarrow> p y) xs"
  by (induction xs arbitrary: ys) (auto simp: bind_result_Inr_iff)

lemma child_experiment_refreshed [simp]:
  "child_experiment sc db (refreshed_entry e c) = child_experiment sc db e"
  by (simp add: child_experiment_def)

lemma map_result_refreshed:
  "map_result (child_experiment sc db) es = Inr cs \<Longrightarrow>
     map_result (child_experiment sc db) (map2 refreshed_entry es cs) = Inr cs"
  by (induction es arbitrary: cs) (auto simp: bind_result_Inr_iff)

lemma map2_refreshed_twice:
  "length es = length cs \<Longrightarrow> map2 refreshed_entry (map2 refreshed_entry es cs) cs = map2 refreshed_entry es cs"
  by (induction es cs rule: list_induct2) (auto simp: refreshed_entry_def split: option.splits)

lemma map2_refreshed_experiments:
  "length es = length cs \<Longrightarrow> map re_experiment_id (map2 refreshed_entry es cs) = map re_experiment_id es"
  by (induction es cs rule: list_induct2) simp_all

lemma refreshed_round_twice:
  "length (rnd_entries r) = length cs \<Longrightarrow> refreshed_round (refreshed_round r cs) cs = refreshed_round r cs"
  by (simp add: refreshed_round_def Let_def map2_refreshed_twice)

lemma child_experiment_frame:
  "av_experiments db' = av_experiments db \<Longrightarrow> child_experiment sc db' e = child_experiment sc db e"
  by (simp only: child_experiment_def)

lemma upsert_twice: "upsert e (upsert e t) = upsert e t"
proof (cases "find_row t (ent_id e)")
  case None
  then have "restamp e x = x" if "x \<in> set t" for x
    using that find_row_None [of t "ent_id e"] by (intro restamp_other) (auto simp: rev_image_eqI)
  then have "map (restamp e) (t @ [e]) = t @ [e]" by (simp add: map_idI restamp_def)
  then show ?thesis using None by (simp add: upsert_def find_row_snoc)
next
  case (Some r)
  have "restamp e (restamp e x) = restamp e x" for x by (simp add: restamp_def)
  then show ?thesis using Some by (simp add: upsert_def find_row_map_restamp comp_def)
qed

text \<open>Refreshing a round ends it exactly when it was running and the experiment of every entry is stored and
  has ended, never reopens it, and does all it does at once: a second refresh with the experiments unchanged
  returns the same round and the same database.\<close>

theorem refresh_closes_once:
  assumes "refresh_round_status ws i db = (Inr r', db')" "table_ok (av_rounds db)"
  shows "\<exists>r. find_row (av_rounds db) i = Some r \<and>
    rnd_state r' = (if rnd_state r = ArenaRoundState.RUNNING \<and> round_ended \<lparr>sc_workspace_id = ws, sc_closed = False\<rparr> db r
                    then ArenaRoundState.COMPLETED else rnd_state r) \<and>
    map re_experiment_id (rnd_entries r') = map re_experiment_id (rnd_entries r) \<and>
    refresh_round_status ws i db' = (Inr r', db')"
proof -
  let ?sc = "\<lparr>sc_workspace_id = ws, sc_closed = False\<rparr>"
  obtain r cs t where ws: "ws \<noteq> []" and r: "find_row (av_rounds db) i = Some r" "workspace_id r = ws"
    and cs: "map_result (child_experiment ?sc db) (rnd_entries r) = Inr cs" and r': "r' = refreshed_round r cs"
    and put: "put_entity ?sc r' (av_rounds db) = Inr t" and db': "db' = db\<lparr>av_rounds := t\<rparr>"
    using assms(1) by (auto simp: refresh_round_status_def arena_runs Let_def scope_get_Inr [OF assms(2)])
  have len: "length (rnd_entries r) = length cs" using map_result_InrD [OF cs] by (rule list_all2_lengthD)
  have same: "ent_id r' = ent_id r" "workspace_id r' = workspace_id r" "version r' = version r" "created_at r' = created_at r"
    "rnd_entries r' = map2 refreshed_entry (rnd_entries r) cs"
    by (simp_all add: r' refreshed_round_def Let_def)
  have ended: "list_all child_terminal cs = round_ended ?sc db r"
    using map_result_list_all [OF cs] by (simp add: round_ended_def)
  have id: "ent_id r' = i" using find_row_Some [OF r(1)] same(1) by simp
  have t: "t = upsert r' (av_rounds db)" using put by (simp add: put_entity_Inr)
  have row: "find_row t i = Some r'"
    using put_back [OF r(1) id same(2-4) r(2)] t by simp
  have put2: "put_entity ?sc r' t = Inr t"
    using put_back [OF row id refl refl refl] same(2) r(2) t upsert_twice [of r' "av_rounds db"] by simp
  have "table_ok (av_rounds db')" using put_entity_ok [OF assms(2) put] db' by simp
  moreover have "map_result (child_experiment ?sc db') (rnd_entries r') = Inr cs"
  proof -
    have "child_experiment ?sc db' = child_experiment ?sc db" by (rule ext, rule child_experiment_frame) (simp add: db')
    then show ?thesis using map_result_refreshed [OF cs] same(5) by simp
  qed
  moreover have "refreshed_round r' cs = r'" using refreshed_round_twice [OF len] r' by simp
  ultimately have "refresh_round_status ws i db' = (Inr r', db')"
    using ws row same(2) r(2) put2 db'
    by (auto simp: refresh_round_status_def arena_runs Let_def scope_get_Inr)
  moreover have "map re_experiment_id (rnd_entries r') = map re_experiment_id (rnd_entries r)"
    unfolding same(5) using len by (rule map2_refreshed_experiments)
  moreover have "rnd_state r' = (if rnd_state r = ArenaRoundState.RUNNING \<and> round_ended ?sc db r
      then ArenaRoundState.COMPLETED else rnd_state r)"
    unfolding ended [symmetric] r' refreshed_round_def Let_def by simp
  ultimately show ?thesis using r(1) by blast
qed

subsection \<open>The leaderboard and the bundle\<close>

definition scored :: "VariantCard list \<Rightarrow> (VariantCard \<times> BundleMetrics) list" where
  "scored cards = List.map_filter (\<lambda>c. map_option (Pair c) (vc_latest_result c)) cards"

lemma rank_cards_mset: "mset (rank_cards cards) = mset (scored cards)"
  by (simp add: rank_cards_def scored_def)

lemma rank_cards_sorted: "sorted_wrt (\<lambda>p q. bm_primary (snd q) \<le> bm_primary (snd p)) (rank_cards cards)"
proof -
  have "sorted (map (\<lambda>p. - bm_primary (snd p)) (rank_cards cards))" by (simp add: rank_cards_def)
  then show ?thesis by (simp add: sorted_map)
qed

lemma leaderboard_rows:
  "leaderboard_of cards =
     map (\<lambda>i. leaderboard_row (bm_primary (snd (hd (rank_cards cards)))) i (rank_cards cards ! i)) [0..<length (rank_cards cards)]"
proof (cases "rank_cards cards")
  case (Cons p ps)
  have "map2 f [0..<length xs] xs = map (\<lambda>i. f i (xs ! i)) [0..<length xs]" for f :: "nat \<Rightarrow> _ \<Rightarrow> LeaderboardRow" and xs
    by (rule nth_equalityI) simp_all
  then show ?thesis using Cons by (cases p) (simp only: leaderboard_of_def list.case prod.case list.sel snd_conv)
qed (simp add: leaderboard_of_def)

lemma length_scored: "length (scored cards) = count_if (\<lambda>c. vc_latest_result c \<noteq> None) cards"
  by (induction cards) (auto simp: scored_def List.map_filter_simps count_if_def split: option.splits)

lemma leaderboard_entries:
  "map (\<lambda>r. (lb_variant_id r, lb_primary_value r)) (leaderboard_of cards) =
     map (\<lambda>(c, m). (vc_variant_id c, bm_primary m)) (rank_cards cards)"
  unfolding leaderboard_rows by (rule nth_equalityI) (simp_all add: leaderboard_row_def case_prod_beta)

text \<open>C35. The leaderboard has one row for every variant with a result, ranked 1, 2, 3 and so on by descending primary
  value; the difference to the best is never positive, and that of the first row is zero.\<close>

theorem leaderboard_ranks_all:
  "sorted_wrt (\<lambda>p q. lb_primary_value q \<le> lb_primary_value p) (leaderboard_of cards) \<and>
   map lb_rank (leaderboard_of cards) = [1..<Suc (count_if (\<lambda>c. vc_latest_result c \<noteq> None) cards)] \<and>
   mset (map (\<lambda>r. (lb_variant_id r, lb_primary_value r)) (leaderboard_of cards)) =
     mset (map (\<lambda>(c, m). (vc_variant_id c, bm_primary m)) (scored cards)) \<and>
   list_all (\<lambda>r. \<exists>d \<le> 0. lb_delta_vs_best r = Some d) (leaderboard_of cards) \<and>
   (leaderboard_of cards = [] \<or> lb_delta_vs_best (hd (leaderboard_of cards)) = Some 0)"
proof (intro conjI)
  let ?r = "rank_cards cards"
  note sorted = rank_cards_sorted [of cards]
  have len: "length ?r = count_if (\<lambda>c. vc_latest_result c \<noteq> None) cards"
    using mset_eq_length [OF rank_cards_mset] length_scored by metis
  show "sorted_wrt (\<lambda>p q. lb_primary_value q \<le> lb_primary_value p) (leaderboard_of cards)"
    unfolding leaderboard_rows
    by (simp add: sorted_wrt_iff_nth_less leaderboard_row_def sorted_wrt_nth_less [OF sorted])
  show "map lb_rank (leaderboard_of cards) = [1..<Suc (count_if (\<lambda>c. vc_latest_result c \<noteq> None) cards)]"
    unfolding leaderboard_rows len [symmetric] by (rule nth_equalityI) (simp_all add: leaderboard_row_def del: upt_Suc)
  show "mset (map (\<lambda>r. (lb_variant_id r, lb_primary_value r)) (leaderboard_of cards)) =
      mset (map (\<lambda>(c, m). (vc_variant_id c, bm_primary m)) (scored cards))"
    unfolding leaderboard_entries mset_map rank_cards_mset ..
  have "bm_primary (snd (?r ! i)) \<le> bm_primary (snd (hd ?r))" if "i < length ?r" for i
  proof -
    have "hd ?r = ?r ! 0" using that by (intro hd_conv_nth) auto
    then show ?thesis using that sorted_wrt_nth_less [OF sorted, of 0 i] by (cases "i = 0") simp_all
  qed
  then show "list_all (\<lambda>r. \<exists>d \<le> 0. lb_delta_vs_best r = Some d) (leaderboard_of cards)"
    unfolding leaderboard_rows by (auto simp: list_all_iff leaderboard_row_def)
  show "leaderboard_of cards = [] \<or> lb_delta_vs_best (hd (leaderboard_of cards)) = Some 0"
    unfolding leaderboard_rows by (cases ?r) (simp_all add: leaderboard_row_def upt_conv_Cons del: upt_Suc)
qed

subsection \<open>Reading an arena\<close>

text \<open>A listing of an open scope on known columns returns.\<close>

lemma where_ok:
  assumes "list_all (\<lambda>(k, v). map_of cols k \<noteq> None) w"
  shows "\<exists>p. scalar_where cols w = Inr p"
proof -
  have "\<exists>ps. map_result (\<lambda>(k, v). case map_of cols k of
      None \<Rightarrow> Inl ValueError | Some f \<Rightarrow> Inr (\<lambda>e. f e \<noteq> JNull \<and> f e = v)) w = Inr ps"
    using assms by (induction w) (auto simp: bind_result_def)
  then show ?thesis by (auto simp: scalar_where_def)
qed

lemma listing_ok:
  assumes "\<not> sc_closed sc" "map_of cols (lf_order_by flt) = Some f" "list_all (\<lambda>(k, v). map_of cols k \<noteq> None) (lf_where flt)"
  shows "\<exists>rows. list_entities sc cols (Some flt) t = Inr rows"
  using where_ok [OF assms(3)] assms(1,2)
  by (auto simp: list_entities_def load_many_def guard_open_def validate_order_by_def Let_def)

lemma listings:
  assumes "\<not> sc_closed sc"
  shows "\<exists>rows. list_entities sc ITERATION_COLUMNS (Some (where_filter [(''experiment_id'', JStr x)])) t1 = Inr rows"
    "\<exists>rows. list_entities sc TRACE_COLUMNS (Some (where_filter [(''run.experiment_id'', JStr x)])) t2 = Inr rows"
    "\<exists>rows. list_entities sc ROUND_COLUMNS (Some (where_filter [(''arena_id'', JStr x), (''index_'', JInt k)])) t3 = Inr rows"
    "\<exists>rows. round_ids sc x db = Inr rows"
    "\<exists>rows. variants_of sc x db = Inr rows"
proof -
  show "\<exists>rows. list_entities sc ITERATION_COLUMNS (Some (where_filter [(''experiment_id'', JStr x)])) t1 = Inr rows"
    by (rule listing_ok [OF assms]) (simp_all add: where_filter_def default_ListFilter_def ITERATION_COLUMNS_def SHARED_COLUMNS_def)
  show "\<exists>rows. list_entities sc TRACE_COLUMNS (Some (where_filter [(''run.experiment_id'', JStr x)])) t2 = Inr rows"
    by (rule listing_ok [OF assms]) (simp_all add: where_filter_def default_ListFilter_def TRACE_COLUMNS_def SHARED_COLUMNS_def)
  show "\<exists>rows. list_entities sc ROUND_COLUMNS (Some (where_filter [(''arena_id'', JStr x), (''index_'', JInt k)])) t3 = Inr rows"
    by (rule listing_ok [OF assms]) (simp_all add: where_filter_def default_ListFilter_def ROUND_COLUMNS_def SHARED_COLUMNS_def)
  show "\<exists>rows. round_ids sc x db = Inr rows" unfolding round_ids_def
    by (rule listing_ok [OF assms]) (simp_all add: where_filter_def arena_filter_def default_ListFilter_def ROUND_COLUMNS_def SHARED_COLUMNS_def)
  show "\<exists>rows. variants_of sc x db = Inr rows" unfolding variants_of_def
    by (rule listing_ok [OF assms]) (simp_all add: where_filter_def arena_filter_def default_ListFilter_def VARIANT_COLUMNS_def SHARED_COLUMNS_def)
qed

lemma latest_iteration_ok:
  assumes "\<not> sc_closed sc"
  obtains r where "latest_iteration sc x db = Inr r"
  using listings(1) [OF assms, of x "av_iterations db"] by (auto simp: latest_iteration_def)

lemma history_ok:
  assumes "\<not> sc_closed sc"
  shows "\<exists>points. history_points sc db vid rs = Inr points"
proof (induction rs)
  case (Cons r rs)
  then obtain points where rest: "history_points sc db vid rs = Inr points" by blast
  show ?case
  proof (cases "Option.bind (find (\<lambda>e. re_variant_id e = vid) (rnd_entries r)) re_experiment_id")
    case (Some x)
    obtain row where "latest_iteration sc x db = Inr row" by (rule latest_iteration_ok [OF assms])
    then show ?thesis using Some rest by simp
  qed (simp add: rest)
qed simp

lemma record_ok:
  assumes "\<not> sc_closed sc"
  shows "\<exists>found. variant_record sc db entries v = Inr found"
proof (cases "map_of entries (ent_id v)")
  case (Some x)
  obtain row where "latest_iteration sc x db = Inr row" by (rule latest_iteration_ok [OF assms])
  then show ?thesis using Some by (simp add: variant_record_def)
qed (simp add: variant_record_def)

text \<open>Every card with a result has its record.\<close>

definition records_cover :: "VariantCard list \<Rightarrow> (string \<times> IterationRecord) dict \<Rightarrow> bool" where
  "records_cover cards records \<longleftrightarrow>
     (\<forall>c \<in> set cards. vc_latest_result c \<noteq> None \<longrightarrow> map_of records (vc_variant_id c) \<noteq> None)"

lemma cards_ok:
  assumes "\<not> sc_closed sc"
  shows "\<exists>cards records. build_variant_cards sc db arena_id entries vs = Inr (cards, records) \<and>
    map vc_variant_id cards = map ent_id vs \<and> fst ` set records \<subseteq> ent_id ` set vs \<and> records_cover cards records"
proof (induction vs)
  case (Cons v vs)
  obtain cards records where rest: "build_variant_cards sc db arena_id entries vs = Inr (cards, records)"
    "map vc_variant_id cards = map ent_id vs" "fst ` set records \<subseteq> ent_id ` set vs" "records_cover cards records"
    using Cons by blast
  obtain found where found: "variant_record sc db entries v = Inr found"
    using record_ok [OF assms] by blast
  obtain rows where rows: "round_ids sc arena_id db = Inr rows" using listings(4) [OF assms] by blast
  obtain points where "history_points sc db (ent_id v) rows = Inr points" using history_ok [OF assms] by blast
  with rows have points: "variant_history sc arena_id (ent_id v) db = Inr points" by (simp add: variant_history_def)
  show ?case
  proof (cases found)
    case None
    then show ?thesis using found points rest by (auto simp: records_cover_def card_of_def)
  next
    case (Some xr)
    then show ?thesis using found points rest by (cases xr) (auto simp: records_cover_def card_of_def)
  qed
qed (simp add: records_cover_def)

lemma map_result_ok: "(\<And>x. x \<in> set xs \<Longrightarrow> \<exists>y. f x = Inr y) \<Longrightarrow> \<exists>ys. map_result f xs = Inr ys"
proof (induction xs)
  case (Cons x xs)
  obtain y ys where "f x = Inr y" "map_result f xs = Inr ys" using Cons by (meson list.set_intros)
  then show ?case by simp
qed simp

lemma ranked_cards: "set (rank_cards cards) \<subseteq> {(c, m). c \<in> set cards \<and> vc_latest_result c = Some m}"
  by (auto simp: rank_cards_def set_map_filter)

lemma pairwise_ok:
  assumes "records_cover cards records"
  shows "\<exists>ps. pairwise_of cards records = Inr ps \<and>
    map pb_variant_id ps = tl (map lb_variant_id (leaderboard_of cards))"
proof (cases "rank_cards cards")
  case Nil
  then show ?thesis by (simp add: pairwise_of_def leaderboard_of_def)
next
  case (Cons p losers)
  have covered: "\<exists>x r. map_of records (vc_variant_id (fst q)) = Some (x, r)" if "q \<in> set (p # losers)" for q
  proof -
    have "q \<in> {(c, m). c \<in> set cards \<and> vc_latest_result c = Some m}"
      using ranked_cards [of cards] Cons that by (simp only:) blast
    then have "map_of records (vc_variant_id (fst q)) \<noteq> None"
      using assms unfolding records_cover_def by (cases q) simp
    then show ?thesis by auto
  qed
  obtain x best where best: "map_of records (vc_variant_id (fst p)) = Some (x, best)" using covered [of p] by auto
  let ?f = "\<lambda>(c, m). case map_of records (vc_variant_id c) of
      None \<Rightarrow> Inl KeyError | Some (_, r) \<Rightarrow> Inr (pairwise_vs_best best c r)"
  have "\<exists>y. ?f q = Inr y \<and> pb_variant_id y = vc_variant_id (fst q)" if loser: "q \<in> set losers" for q
  proof -
    obtain x r where "map_of records (vc_variant_id (fst q)) = Some (x, r)" using covered [of q] loser by auto
    then show ?thesis by (cases q) (simp add: pairwise_vs_best_def Let_def)
  qed
  then have "\<exists>ps. map_result ?f losers = Inr ps \<and> map pb_variant_id ps = map (\<lambda>q. vc_variant_id (fst q)) losers"
  proof (induction losers)
    case (Cons q qs)
    obtain y where "?f q = Inr y" "pb_variant_id y = vc_variant_id (fst q)"
      using Cons.prems [of q] by auto
    moreover obtain ps where "map_result ?f qs = Inr ps" "map pb_variant_id ps = map (\<lambda>q. vc_variant_id (fst q)) qs"
      using Cons.IH Cons.prems by (meson list.set_intros(2))
    ultimately show ?case by simp
  qed simp
  moreover have "map lb_variant_id (leaderboard_of cards) = map (\<lambda>q. vc_variant_id (fst q)) (p # losers)"
  proof -
    have "map fst (map (\<lambda>r. (lb_variant_id r, lb_primary_value r)) (leaderboard_of cards)) =
        map fst (map (\<lambda>(c, m). (vc_variant_id c, bm_primary m)) (p # losers))"
      using leaderboard_entries [of cards] Cons by simp
    then show ?thesis by (simp add: comp_def case_prod_beta)
  qed
  ultimately show ?thesis using Cons best by (cases p) (simp add: pairwise_of_def)
qed


subsection \<open>A concrete arena\<close>

definition sample_arena :: Arena where
  "sample_arena = \<lparr>ent_id = ''arn_1'', workspace_id = ''ws_1'', version = 1, created_at = 0, updated_at = 0, deleted_at = None,
     arn_name = ''race'', arn_goal = ''faster'', arn_repo_path = ''repo'', arn_agent_command = [''run''], arn_agent_env = None,
     arn_spec_template = [], arn_dataset_id = None, arn_objective_metric = ''pass@1'',
     arn_budget = \<lparr>bu_max_rounds = Some 1, bu_max_variants = None, bu_max_cost_usd = Some 1\<rparr>,
     arn_current_round = 0, arn_state = ArenaState.DRAFT, arn_winner_variant_id = None\<rparr>"

definition sample_variant :: "string \<Rightarrow> ArenaVariantState \<Rightarrow> ArenaVariant" where
  "sample_variant i st = \<lparr>ent_id = i, workspace_id = ''ws_1'', version = 1, created_at = 0, updated_at = 0, deleted_at = None,
     var_arena_id = ''arn_1'', var_name = i, var_git_ref = ''main'', var_resolved_sha = Some ''c0ffee'', var_worktree_path = None,
     var_setup_command = None, var_env_overrides = None, var_hypothesis = None, var_created_in_round = 0, var_state = st,
     var_error = None\<rparr>"

definition sample_round :: ArenaRound where
  "sample_round = \<lparr>ent_id = ''rnd_0'', workspace_id = ''ws_1'', version = 1, created_at = 0, updated_at = 0, deleted_at = None,
     rnd_arena_id = ''arn_1'', rnd_index = 0,
     rnd_entries = [\<lparr>re_variant_id = ''v1'', re_experiment_id = Some ''x1'', re_run_job_id = None, re_status = ''queued''\<rparr>],
     rnd_reps = 1, rnd_state = ArenaRoundState.RUNNING, rnd_started_at = None, rnd_finished_at = None, rnd_summary = None\<rparr>"

definition sample_arena_db :: "ArenaVariantState \<Rightarrow> ArenaDb" where
  "sample_arena_db st = \<lparr>av_arenas = [sample_arena], av_variants = [sample_variant ''v1'' ArenaVariantState.READY, sample_variant ''v2'' st],
     av_rounds = [sample_round],
     av_experiments = [sample_experiment\<lparr>ent_id := ''x1'', workspace_id := ''ws_1'', exp_state := ExperimentState.COMPLETED\<rparr>],
     av_iterations = [], av_traces = []\<rparr>"

definition sample_arena_env :: "bool \<Rightarrow> ArenaEnv" where
  "sample_arena_env launches = \<lparr>nv_now = 1, nv_fresh = ''rnd_1'', nv_experiment_id = (\<lambda>_. ''x2''), nv_spec_ok = (\<lambda>_ _. True),
     nv_resolve_ref = (\<lambda>_ r. Some r), nv_worktree_path = (\<lambda>a v. a @ v), nv_ensure_worktree = (\<lambda>_ _ _. None),
     nv_run_setup = (\<lambda>_ _. None),
     nv_launch = (\<lambda>_ _ _. if launches then Inr \<lparr>lr_experiment_id = ''x2'', lr_job_id = None, lr_state = ''queued''\<rparr>
                          else Inl SelfEvalsUserError),
     nv_repr = (\<lambda>s. s)\<rparr>"

lemmas sample_arena_defs = sample_arena_def sample_variant_def sample_round_def sample_arena_db_def sample_arena_env_def

lemma sample_rows:
  "table_ok (av_arenas (sample_arena_db st))" "table_ok (av_rounds (sample_arena_db st))"
  "find_row (av_rounds (sample_arena_db st)) ''rnd_1'' = None"
  "find_row (av_arenas (sample_arena_db st)) ''arn_1'' = Some sample_arena"
  by (simp_all add: sample_arena_defs table_ok_def find_row_def)

text \<open>Evaluated: a launch that works, one whose experiment cannot be started, a refresh, and a preparation that
  ends after the arena was cleaned up.\<close>

lemma sample_arena_runs:
  "\<not> isl (fst (launch_round (sample_arena_env True) ''ws_1'' ''arn_1'' None 1 (sample_arena_db ArenaVariantState.READY))) \<and>
   (case open_round (sample_arena_env False) ''ws_1'' ''arn_1'' None 1 (sample_arena_db ArenaVariantState.READY) of
      (Inr (a, sel), _) \<Rightarrow> isl (launch_variants (sample_arena_env False) a (arn_current_round a) 1 0 sel) | _ \<Rightarrow> False) \<and>
   (case fst (refresh_round_status ''ws_1'' ''rnd_0'' (sample_arena_db ArenaVariantState.READY)) of
      Inr r \<Rightarrow> rnd_state r = ArenaRoundState.COMPLETED | Inl _ \<Rightarrow> False) \<and>
   map var_state (av_variants (snd (prepare_variant (sample_arena_env True) (\<lambda>db. snd (cleanup_arena ''ws_1'' ''arn_1'' db))
      ''ws_1'' ''repo'' ''v2'' (sample_arena_db ArenaVariantState.PREPARING)))) =
     [ArenaVariantState.RETIRED, ArenaVariantState.READY]"
  by code_simp

theorem round_launched_in_budget_witness:
  "\<exists>r. fst (launch_round (sample_arena_env True) ''ws_1'' ''arn_1'' None 1 (sample_arena_db ArenaVariantState.READY)) = Inr r \<and>
     rnd_index r = 0 \<and> rnd_entries r \<noteq> []"
proof -
  obtain r db' where run: "launch_round (sample_arena_env True) ''ws_1'' ''arn_1'' None 1 (sample_arena_db ArenaVariantState.READY) =
      (Inr r, db')"
    using sample_arena_runs
    by (cases "launch_round (sample_arena_env True) ''ws_1'' ''arn_1'' None 1 (sample_arena_db ArenaVariantState.READY)";
        cases "fst (launch_round (sample_arena_env True) ''ws_1'' ''arn_1'' None 1 (sample_arena_db ArenaVariantState.READY))") auto
  have "nv_fresh (sample_arena_env True) = ''rnd_1''" by (simp add: sample_arena_env_def)
  with round_launched_in_budget [OF run sample_rows(1,2)] sample_rows(3,4) [of ArenaVariantState.READY]
  show ?thesis by (auto simp: run sample_arena_def)
qed


theorem refresh_closes_once_witness:
  "\<exists>r' db'. refresh_round_status ''ws_1'' ''rnd_0'' (sample_arena_db ArenaVariantState.READY) = (Inr r', db') \<and>
     rnd_state r' = ArenaRoundState.COMPLETED \<and> refresh_round_status ''ws_1'' ''rnd_0'' db' = (Inr r', db')"
proof -
  obtain r' db' where run: "refresh_round_status ''ws_1'' ''rnd_0'' (sample_arena_db ArenaVariantState.READY) = (Inr r', db')"
    "rnd_state r' = ArenaRoundState.COMPLETED"
    using sample_arena_runs by (cases "refresh_round_status ''ws_1'' ''rnd_0'' (sample_arena_db ArenaVariantState.READY)")
      (auto split: sum.splits)
  from refresh_closes_once [OF run(1) sample_rows(2)] run show ?thesis by blast
qed


text \<open>A variant that was retired while its worktree was being made is ready again when the preparation ends.\<close>

lemma retired_variant_revived:
  "map var_state (av_variants (snd (prepare_variant (sample_arena_env True) (\<lambda>db. snd (cleanup_arena ''ws_1'' ''arn_1'' db))
      ''ws_1'' ''repo'' ''v2'' (sample_arena_db ArenaVariantState.PREPARING)))) =
     [ArenaVariantState.RETIRED, ArenaVariantState.READY]"
  using sample_arena_runs by blast

text \<open>The estimate multiplies the cost of a past round, all its repetitions included, by the repetitions of the next one.\<close>

lemma estimate_counts_repetitions_twice: "estimate_of [(''v1'', [6])] [''v1''] 3 = Some 18"
  by (simp add: estimate_of_def dict_get_def)

end
