(* ===== verification/Artifact.thy ===== *)
theory Artifact
  imports Grading Confusion
begin

section \<open>graders/artifact.py, graders/calibration.py and graders/registry.py\<close>

text \<open>
  The completeness of a produced artifact: a subset of JSON Schema, the required sections, and a judge
  whose opinion rides along without a say.  A violation of the schema keeps its path and, for a
  missing property, its key; the rendered text is left out.  Then the calibration of labels against those
  of people, and the registry that turns names into graders (an import by dotted path is an argument).
\<close>

subsection \<open>The schema subset\<close>

definition is_non_empty_value :: "json \<Rightarrow> bool" where
  "is_non_empty_value v = (case v of
     JNull \<Rightarrow> False | JStr s \<Rightarrow> s \<noteq> [] | JList xs \<Rightarrow> xs \<noteq> [] | JObj d \<Rightarrow> d \<noteq> [] | _ \<Rightarrow> True)"

fun type_matches :: "json \<Rightarrow> string \<Rightarrow> bool" where
  "type_matches v t =
     (if t = ''integer'' then (case v of JInt _ \<Rightarrow> True | _ \<Rightarrow> False)
      else if t = ''number'' then (case v of JInt _ \<Rightarrow> True | JFloat _ \<Rightarrow> True | _ \<Rightarrow> False)
      else if t = ''string'' then (case v of JStr _ \<Rightarrow> True | _ \<Rightarrow> False)
      else if t = ''boolean'' then (case v of JBool _ \<Rightarrow> True | _ \<Rightarrow> False)
      else if t = ''object'' then (case v of JObj _ \<Rightarrow> True | _ \<Rightarrow> False)
      else if t = ''array'' then (case v of JList _ \<Rightarrow> True | _ \<Rightarrow> False)
      else if t = ''null'' then v = JNull
      else True)"

datatype SchemaError = WrongType string | MissingRequired string json

text \<open>\<^verbatim>\<open>key not in value\<close>: a key that cannot be hashed raises, one that is no text is in no object.\<close>

fun required_errors :: "json dict \<Rightarrow> json list \<Rightarrow> string \<Rightarrow> SchemaError list result" where
  "required_errors d [] path = Inr []"
| "required_errors d (k # ks) path = (case k of
     JList _ \<Rightarrow> Inl TypeError
   | JObj _ \<Rightarrow> Inl TypeError
   | JStr s \<Rightarrow> bind_result (required_errors d ks path) (\<lambda>es.
       Inr (if s \<in> set (dict_keys d) then es else MissingRequired path k # es))
   | _ \<Rightarrow> bind_result (required_errors d ks path) (\<lambda>es. Inr (MissingRequired path k # es)))"

definition required_of :: "json dict \<Rightarrow> json list" where
  "required_of schema = (case map_of schema ''required'' of Some (JList ks) \<Rightarrow> ks | _ \<Rightarrow> [])"

definition type_violated :: "json \<Rightarrow> json dict \<Rightarrow> bool" where
  "type_violated v schema = (case map_of schema ''type'' of Some (JStr t) \<Rightarrow> \<not> type_matches v t | _ \<Rightarrow> False)"

definition child_path :: "string \<Rightarrow> string \<Rightarrow> string" where
  "child_path path k = (if path = [] then k else path @ ''.'' @ k)"

text \<open>\<open>schema_properties\<close> walks the schema to its key \<^verbatim>\<open>properties\<close>.\<close>

fun validate_schema :: "json \<Rightarrow> json dict \<Rightarrow> string \<Rightarrow> SchemaError list result"
  and schema_properties :: "json dict \<Rightarrow> json dict \<Rightarrow> string \<Rightarrow> SchemaError list result"
  and property_schemas :: "json dict \<Rightarrow> json dict \<Rightarrow> string \<Rightarrow> SchemaError list result" where
  "validate_schema v schema path =
     (if type_violated v schema then Inr [WrongType path]
      else case v of
        JObj d \<Rightarrow> bind_result (required_errors d (required_of schema) path) (\<lambda>es.
          bind_result (schema_properties d schema path) (\<lambda>ps. Inr (es @ ps)))
      | _ \<Rightarrow> Inr [])"
| "schema_properties d [] path = Inr []"
| "schema_properties d ((k, JObj ps) # rest) path =
     (if k = ''properties'' then property_schemas d ps path else schema_properties d rest path)"
| "schema_properties d ((k, v) # rest) path =
     (if k = ''properties'' then Inr [] else schema_properties d rest path)"
| "property_schemas d [] path = Inr []"
| "property_schemas d ((k, JObj sub) # rest) path = (case map_of d k of
     None \<Rightarrow> property_schemas d rest path
   | Some v \<Rightarrow> bind_result (validate_schema v sub (child_path path k)) (\<lambda>es.
       bind_result (property_schemas d rest path) (\<lambda>ps. Inr (es @ ps))))"
| "property_schemas d ((k, v) # rest) path = property_schemas d rest path"

declare validate_schema.simps [simp del] schema_properties.simps [simp del] property_schemas.simps [simp del]

subsection \<open>The grader\<close>

record ArtifactGrader =
  af_name :: string
  af_quality_judge :: "(GraderContext \<Rightarrow> GradeResult result) option"

definition make_ArtifactGrader :: "string \<Rightarrow> (GraderContext \<Rightarrow> GradeResult result) option \<Rightarrow> ArtifactGrader result" where
  "make_ArtifactGrader nm judge =
     (if nm = [] then Inl ValueError else Inr \<lparr>af_name = nm, af_quality_judge = judge\<rparr>)"

definition run_quality_judge :: "ArtifactGrader \<Rightarrow> GraderContext \<Rightarrow> BreakdownNode list result" where
  "run_quality_judge g ctx = (case af_quality_judge g of
     None \<Rightarrow> Inr []
   | Some judge \<Rightarrow> bind_result (judge ctx) (\<lambda>j.
       Inr [BreakdownNode (''quality:'' @ gr_grader j) (Some (gr_label j)) (gr_score j) 0 (gr_reason j)
              (gr_failure_modes j) []]))"

definition artifact_result ::
    "ArtifactGrader \<Rightarrow> GradeLabel \<Rightarrow> rat \<Rightarrow> string list \<Rightarrow> BreakdownNode list \<Rightarrow> BreakdownNode list \<Rightarrow> GradeResult" where
  "artifact_result g label score modes sections quality =
     grade_result (af_name g) label (Some score) modes
       (Some (BreakdownNode ''artifact_completeness'' (Some label) (Some score) 1 no_text modes (sections @ quality)))"

definition section_present :: "json dict \<Rightarrow> string \<Rightarrow> bool" where
  "section_present artifact sec = is_non_empty_value (dict_get artifact sec JNull)"

definition section_node :: "json dict \<Rightarrow> string \<Rightarrow> BreakdownNode" where
  "section_node artifact sec =
     (if section_present artifact sec
      then BreakdownNode (''section:'' @ sec) (Some GradeLabel.PASS) (Some 1) 1 ''present'' [] []
      else BreakdownNode (''section:'' @ sec) (Some GradeLabel.FAIL) (Some 0) 1 ''missing or empty'' [''missing_section''] [])"

text \<open>The part of \<^verbatim>\<open>grade\<close> after the judge has spoken.\<close>

definition grade_artifact :: "ArtifactGrader \<Rightarrow> GraderContext \<Rightarrow> BreakdownNode list \<Rightarrow> GradeResult result" where
  "grade_artifact g ctx quality =
     (let expected = ec_expected (gcx_case ctx)
      in case Option.bind (gcx_response ctx) rsp_structured_output of
           None \<Rightarrow> Inr (artifact_result g GradeLabel.FAIL 0 [''empty_artifact''] [] quality)
         | Some [] \<Rightarrow> Inr (artifact_result g GradeLabel.FAIL 0 [''empty_artifact''] [] quality)
         | Some artifact \<Rightarrow>
             bind_result (case ep_output_schema expected of
                 None \<Rightarrow> Inr [] | Some schema \<Rightarrow> validate_schema (JObj artifact) schema []) (\<lambda>errors.
               if errors \<noteq> [] then Inr (artifact_result g GradeLabel.FAIL 0 [''schema_invalid''] [] quality)
               else let sections = ep_required_sections expected;
                        nodes = map (section_node artifact) sections;
                        missing = filter (\<lambda>s. \<not> section_present artifact s) sections
                    in if missing \<noteq> []
                       then Inr (artifact_result g GradeLabel.PARTIAL
                              (of_nat (length sections - length missing) / of_nat (length sections))
                              [''missing_section''] nodes quality)
                       else Inr (artifact_result g GradeLabel.PASS 1 [] nodes quality)))"

definition artifact_grade :: "ArtifactGrader \<Rightarrow> GraderContext \<Rightarrow> GradeResult result" where
  "artifact_grade g ctx = bind_result (run_quality_judge g ctx) (grade_artifact g ctx)"

text \<open>Every grade of an artifact is one of five.\<close>

inductive artifact_verdict :: "GradeLabel \<Rightarrow> rat \<Rightarrow> string list \<Rightarrow> bool" where
  "artifact_verdict GradeLabel.FAIL 0 [''empty_artifact'']"
| "artifact_verdict GradeLabel.FAIL 0 [''schema_invalid'']"
| "0 \<le> s \<Longrightarrow> s \<le> 1 \<Longrightarrow> artifact_verdict GradeLabel.PARTIAL s [''missing_section'']"
| "artifact_verdict GradeLabel.PASS 1 []"

lemma missing_fraction [simp]:
  "0 \<le> (of_nat (length xs - length (filter p xs)) / of_nat (length xs) :: rat)"
  "(of_nat (length xs - length (filter p xs)) / of_nat (length xs) :: rat) \<le> 1"
  by (simp_all add: divide_le_eq_1)

lemma grade_artifact_uniform:
  assumes "grade_artifact g ctx quality = Inr r"
  shows "\<exists>l s ms sections. artifact_verdict l s ms \<and>
    (\<forall>quality. grade_artifact g ctx quality = Inr (artifact_result g l s ms sections quality))"
proof (cases "Option.bind (gcx_response ctx) rsp_structured_output")
  case None
  then show ?thesis unfolding grade_artifact_def Let_def by (auto intro: artifact_verdict.intros)
next
  case (Some artifact)
  show ?thesis
  proof (cases artifact)
    case Nil
    with Some show ?thesis unfolding grade_artifact_def Let_def by (auto intro: artifact_verdict.intros)
  next
    case (Cons kv rest)
    let ?missing = "filter (\<lambda>s. \<not> section_present (kv # rest) s) (ep_required_sections (ec_expected (gcx_case ctx)))"
    from assms Some Cons obtain errors where errors: "(case ep_output_schema (ec_expected (gcx_case ctx)) of
        None \<Rightarrow> Inr [] | Some schema \<Rightarrow> validate_schema (JObj (kv # rest)) schema []) = Inr errors"
      by (auto simp: grade_artifact_def Let_def bind_result_Inr_iff)
    consider "errors \<noteq> []" | "errors = []" "?missing \<noteq> []" | "errors = []" "?missing = []" by blast
    then show ?thesis
    proof cases
      case 1
      with Some Cons errors show ?thesis
        unfolding grade_artifact_def Let_def by (auto intro: artifact_verdict.intros)
    next
      case 2
      with Some Cons errors have "\<forall>quality. grade_artifact g ctx quality = Inr (artifact_result g GradeLabel.PARTIAL
          (of_nat (length (ep_required_sections (ec_expected (gcx_case ctx))) - length ?missing) /
            of_nat (length (ep_required_sections (ec_expected (gcx_case ctx))))) [''missing_section'']
          (map (section_node artifact) (ep_required_sections (ec_expected (gcx_case ctx)))) quality)"
        by (simp add: grade_artifact_def Let_def)
      moreover note artifact_verdict.intros(3) [OF missing_fraction]
      ultimately show ?thesis by blast
    next
      case 3
      then have "\<forall>s \<in> set (ep_required_sections (ec_expected (gcx_case ctx))). section_present (kv # rest) s"
        by (simp add: filter_empty_conv)
      with 3 Some Cons errors have "\<forall>quality. grade_artifact g ctx quality = Inr (artifact_result g GradeLabel.PASS 1 []
          (map (section_node artifact) (ep_required_sections (ec_expected (gcx_case ctx)))) quality)"
        by (simp add: grade_artifact_def Let_def)
      then show ?thesis using artifact_verdict.intros(4) by blast
    qed
  qed
qed

interpretation artifact: grader_contract "af_name g" "artifact_grade g" for g
proof unfold_locales
  fix ctx r
  assume "artifact_grade g ctx = Inr r"
  then obtain quality where graded: "grade_artifact g ctx quality = Inr r"
    by (auto simp: artifact_grade_def bind_result_Inr_iff)
  from grade_artifact_uniform [OF this] obtain l s ms sections where "artifact_verdict l s ms"
    "\<forall>quality. grade_artifact g ctx quality = Inr (artifact_result g l s ms sections quality)" by blast
  with graded have "r = artifact_result g l s ms sections quality" "artifact_verdict l s ms" by simp_all
  then show "well_graded (af_name g) r"
    by (auto simp: artifact_result_def score_ok_def elim!: artifact_verdict.cases)
qed

subsection \<open>Calibration\<close>

record PredictedLabel =
  pl_case_id :: string
  pl_label :: GradeLabel

record HumanLabel =
  hl_case_id :: string
  hl_label :: GradeLabel
  hl_high_risk :: bool

record CalibrationMetrics =
  km_n_pairs :: nat
  km_precision :: "rat option"
  km_recall :: "rat option"
  km_f1 :: "rat option"
  km_macro_f1 :: "rat option"
  km_accuracy :: rat
  km_high_risk_false_negatives :: nat
  km_per_label_precision :: "rat option dict"
  km_per_label_recall :: "rat option dict"
  km_confusion :: "((string \<times> string) \<times> nat) list"

text \<open>\<^verbatim>\<open>{p.case_id: p for p in predictions}\<close>: the last entry of a case counts.\<close>

definition by_case :: "('a \<Rightarrow> string) \<Rightarrow> 'a list \<Rightarrow> string \<Rightarrow> 'a option" where
  "by_case case_id xs c = find (\<lambda>x. case_id x = c) (rev xs)"

definition paired_ids :: "PredictedLabel list \<Rightarrow> HumanLabel list \<Rightarrow> string list" where
  "paired_ids predictions humans =
     sorted_set (filter (\<lambda>c. c \<in> set (map hl_case_id humans)) (map pl_case_id predictions))"

definition label_pair :: "PredictedLabel list \<Rightarrow> HumanLabel list \<Rightarrow> string \<Rightarrow> (HumanLabel \<times> PredictedLabel) option" where
  "label_pair predictions humans c =
     (case (by_case hl_case_id humans c, by_case pl_case_id predictions c) of
        (Some h, Some p) \<Rightarrow> Some (h, p) | _ \<Rightarrow> None)"

definition compute_classification_metrics ::
    "PredictedLabel list \<Rightarrow> HumanLabel list \<Rightarrow> GradeLabel \<Rightarrow> CalibrationMetrics" where
  "compute_classification_metrics predictions humans positive =
     (let joined = List.map_filter (label_pair predictions humans) (paired_ids predictions humans)
      in if paired_ids predictions humans = [] then
           \<lparr>km_n_pairs = 0, km_precision = None, km_recall = None, km_f1 = None, km_macro_f1 = None, km_accuracy = 0,
            km_high_risk_false_negatives = 0, km_per_label_precision = [], km_per_label_recall = [], km_confusion = []\<rparr>
         else
           let report = confusion_from_pairs
                 (map (\<lambda>(h, p). (GradeLabel_value (hl_label h), GradeLabel_value (pl_label p))) joined);
               pos = GradeLabel_value positive;
               precision = dict_get (cr_per_label_precision report) pos None;
               recall = dict_get (cr_per_label_recall report) pos None
           in \<lparr>km_n_pairs = cr_n_pairs report, km_precision = precision, km_recall = recall,
               km_f1 = f1_score precision recall, km_macro_f1 = cr_macro_f1 report, km_accuracy = cr_accuracy report,
               km_high_risk_false_negatives =
                 count_if (\<lambda>(h, p). hl_label h = positive \<and> pl_label p \<noteq> positive \<and> hl_high_risk h) joined,
               km_per_label_precision = cr_per_label_precision report, km_per_label_recall = cr_per_label_recall report,
               km_confusion = cr_confusion report\<rparr>)"

subsection \<open>The registry\<close>

text \<open>Factories by name; \<open>load\<close> imports and builds the class of a dotted path, or fails.\<close>

type_synonym 'g registry = "(string \<times> 'g) list"

definition register_grader :: "string \<Rightarrow> 'g \<Rightarrow> 'g registry \<Rightarrow> 'g registry result" where
  "register_grader nm factory reg = (if nm = [] then Inl ValueError else Inr (AList.update nm factory reg))"

definition unregister_grader :: "string \<Rightarrow> 'g registry \<Rightarrow> 'g registry" where
  "unregister_grader nm reg = AList.delete nm reg"

definition available_graders :: "'g registry \<Rightarrow> string list" where
  "available_graders reg = sort (dict_keys reg)"

datatype grader_error = UnknownGrader string "string list" | BadGraderPath string

definition resolve_dotted_grader :: "(string \<Rightarrow> string \<Rightarrow> 'g option) \<Rightarrow> string \<Rightarrow> grader_error + 'g" where
  "resolve_dotted_grader load spec = (case split_first (CHR '':'') spec of
     (modul, Some attribute) \<Rightarrow>
       if modul = [] \<or> attribute = [] then Inl (BadGraderPath spec)
       else (case load modul attribute of None \<Rightarrow> Inl (BadGraderPath spec) | Some g \<Rightarrow> Inr g)
   | (_, None) \<Rightarrow> Inl (BadGraderPath spec))"

fun resolve_graders :: "(string \<Rightarrow> string \<Rightarrow> 'g option) \<Rightarrow> 'g registry \<Rightarrow> string list \<Rightarrow> grader_error + 'g list" where
  "resolve_graders load reg [] = Inr []"
| "resolve_graders load reg (n # ns) =
     (case (if CHR '':'' \<in> set n then resolve_dotted_grader load n
            else case map_of reg n of None \<Rightarrow> Inl (UnknownGrader n (dict_keys reg)) | Some g \<Rightarrow> Inr g) of
        Inl e \<Rightarrow> Inl e
      | Inr g \<Rightarrow> (case resolve_graders load reg ns of Inl e \<Rightarrow> Inl e | Inr gs \<Rightarrow> Inr (g # gs)))"

subsection \<open>Facts\<close>

text \<open>The advisory judge has no say: with and without it, the label, the score and the failure modes are the same.\<close>

lemma judge_has_no_say:
  assumes "artifact_grade (g\<lparr>af_quality_judge := None\<rparr>) ctx = Inr r" "af_quality_judge g = Some judge" "judge ctx = Inr j"
  shows "\<exists>r'. artifact_grade g ctx = Inr r' \<and> gr_label r' = gr_label r \<and> gr_score r' = gr_score r \<and>
    gr_failure_modes r' = gr_failure_modes r"
proof -
  have "artifact_result (g\<lparr>af_quality_judge := None\<rparr>) = artifact_result g"
    by (intro ext) (simp add: artifact_result_def)
  then have same: "grade_artifact (g\<lparr>af_quality_judge := None\<rparr>) = grade_artifact g"
    by (intro ext) (simp only: grade_artifact_def)
  with assms(1) have "grade_artifact g ctx [] = Inr r" by (simp add: artifact_grade_def run_quality_judge_def)
  moreover from grade_artifact_uniform [OF this] obtain l s ms sections where
    any: "\<And>quality. grade_artifact g ctx quality = Inr (artifact_result g l s ms sections quality)" by blast
  ultimately have r: "r = artifact_result g l s ms sections []" by simp
  show ?thesis by (simp add: artifact_grade_def run_quality_judge_def assms(2,3) any r artifact_result_def)
qed

text \<open>No case is counted twice, and a case without a label on both sides is not counted.\<close>

lemma calibration_pairs:
  "length (List.map_filter (label_pair predictions humans) (paired_ids predictions humans)) =
     card (pl_case_id ` set predictions \<inter> hl_case_id ` set humans)"
proof -
  have pairs: "\<exists>p. label_pair predictions humans c = Some p" if "c \<in> set (paired_ids predictions humans)" for c
  proof -
    have "c \<in> pl_case_id ` set predictions" "c \<in> hl_case_id ` set humans" using that by (auto simp: paired_ids_def)
    then have "by_case pl_case_id predictions c \<noteq> None" "by_case hl_case_id humans c \<noteq> None"
      by (auto simp: by_case_def find_None_iff)
    then show ?thesis by (auto simp: label_pair_def)
  qed
  have "length (List.map_filter (label_pair predictions humans) xs) = length xs"
    if "set xs \<subseteq> set (paired_ids predictions humans)" for xs
    using that
  proof (induction xs)
    case (Cons a xs)
    then obtain p where "label_pair predictions humans a = Some p"
      using pairs by fastforce
    with Cons show ?case by (simp add: List.map_filter_simps)
  qed (simp add: List.map_filter_simps)
  moreover have "length (paired_ids predictions humans) = card (set (paired_ids predictions humans))"
    unfolding paired_ids_def by (metis distinct_card distinct_sorted_set)
  moreover have "set (paired_ids predictions humans) = pl_case_id ` set predictions \<inter> hl_case_id ` set humans"
    by (auto simp: paired_ids_def)
  ultimately show ?thesis by simp
qed

text \<open>A list of graders resolves exactly when each of its names does, in order.\<close>

lemma resolve_graders_append:
  "resolve_graders load reg (xs @ ys) = (case resolve_graders load reg xs of
     Inl e \<Rightarrow> Inl e
   | Inr gs \<Rightarrow> (case resolve_graders load reg ys of Inl e \<Rightarrow> Inl e | Inr hs \<Rightarrow> Inr (gs @ hs)))"
  by (induction xs) (auto split: sum.splits)

lemma registered_resolves:
  assumes "register_grader nm g reg = Inr reg'" "CHR '':'' \<notin> set nm"
  shows "resolve_graders load reg' [nm] = Inr [g]"
  using assms by (auto simp: register_grader_def update_conv split: if_splits)

end
