(* ===== verification/Loader.thy ===== *)
theory Loader
  imports Case_Schema Select Grading
begin

section \<open>repo/loader: agents and graders\<close>

text \<open>
  The blocks of an experiment file that say which agent runs and which graders judge: from the decoded YAML
  to typed specifications, and back to the mapping a worker reads.  \<^verbatim>\<open>LoaderError\<close> is a
  \<^verbatim>\<open>ValueError\<close>, and so is its value here; the place and the text of an error are left out.  The keys of a
  mapping are texts.
\<close>

subsection \<open>Fields of a mapping\<close>

definition ensure :: "bool \<Rightarrow> unit result" where
  "ensure b = (if b then Inr () else Inl ValueError)"

lemma ensure_Inr [simp]: "ensure b = Inr u \<longleftrightarrow> b"
  by (simp add: ensure_def)

definition field_of :: "json dict \<Rightarrow> string \<Rightarrow> json" where
  "field_of d k = dict_get d k JNull"

text \<open>\<^verbatim>\<open>value in {...}\<close>: a value that cannot be hashed raises.\<close>

definition member_of :: "json \<Rightarrow> string list \<Rightarrow> bool result" where
  "member_of v names = (case v of
     JStr s \<Rightarrow> Inr (s \<in> set names)
   | JList _ \<Rightarrow> Inl TypeError
   | JObj _ \<Rightarrow> Inl TypeError
   | _ \<Rightarrow> Inr False)"

definition nonempty_text :: "json \<Rightarrow> string result" where
  "nonempty_text v = (case v of JStr s \<Rightarrow> if s = [] then Inl ValueError else Inr s | _ \<Rightarrow> Inl ValueError)"

lemma nonempty_text_Inr: "nonempty_text v = Inr s \<longleftrightarrow> v = JStr s \<and> s \<noteq> []"
  by (cases v) (auto simp: nonempty_text_def)

subsection \<open>repo/loader/agent.py\<close>

record AgentEntrypoint =
  ae_raw :: string
  ae_module :: string
  ae_attribute :: string

record AgentModelDecl =
  ad_provider :: string
  ad_name :: string

datatype AgentSpec =
    EmbeddedAgentSpec AgentEntrypoint "rat option"
  | CliAgentSpec "string list" "string dict option" "rat option" "AgentModelDecl option" "string option"
  | HttpAgentSpec string "string dict option" "rat option" "AgentModelDecl option"

definition parse_entrypoint :: "json dict \<Rightarrow> AgentEntrypoint result" where
  "parse_entrypoint d = (case field_of d ''entrypoint'' of
     JStr s \<Rightarrow> (case split_first (CHR '':'') s of
       (m, Some a) \<Rightarrow> if m = [] \<or> a = [] then Inl ValueError
                     else Inr \<lparr>ae_raw = s, ae_module = m, ae_attribute = a\<rparr>
     | (_, None) \<Rightarrow> Inl ValueError)
   | _ \<Rightarrow> Inl ValueError)"

definition parse_timeout :: "json \<Rightarrow> rat option result" where
  "parse_timeout v = (case v of
     JNull \<Rightarrow> Inr None
   | JInt i \<Rightarrow> if i \<le> 0 then Inl ValueError else Inr (Some (of_int i))
   | JFloat q \<Rightarrow> if q \<le> 0 then Inl ValueError else Inr (Some q)
   | _ \<Rightarrow> Inl ValueError)"

definition parse_agent_model :: "json \<Rightarrow> AgentModelDecl option result" where
  "parse_agent_model v = (case v of
     JNull \<Rightarrow> Inr None
   | JObj d \<Rightarrow> (case (field_of d ''provider'', field_of d ''name'') of
       (JStr p, JStr n) \<Rightarrow> if strip p = [] \<or> strip n = [] then Inl ValueError
                          else Inr (Some \<lparr>ad_provider = p, ad_name = n\<rparr>)
     | _ \<Rightarrow> Inl ValueError)
   | _ \<Rightarrow> Inl ValueError)"

definition text_field :: "string \<times> json \<Rightarrow> (string \<times> string) result" where
  "text_field kv = (case snd kv of JStr s \<Rightarrow> Inr (fst kv, s) | _ \<Rightarrow> Inl ValueError)"

definition parse_str_map :: "json \<Rightarrow> string dict option result" where
  "parse_str_map v = (case v of
     JNull \<Rightarrow> Inr None
   | JObj d \<Rightarrow> bind_result (map_result text_field d) (\<lambda>m. Inr (Some m))
   | _ \<Rightarrow> Inl ValueError)"

definition text_value :: "json \<Rightarrow> string result" where
  "text_value v = (case v of JStr s \<Rightarrow> Inr s | _ \<Rightarrow> Inl ValueError)"

definition opt_text :: "json \<Rightarrow> string option result" where
  "opt_text v = (case v of JNull \<Rightarrow> Inr None | JStr s \<Rightarrow> Inr (Some s) | _ \<Rightarrow> Inl ValueError)"

definition parse_command :: "json \<Rightarrow> string list result" where
  "parse_command v = (case v of
     JList (c # cs) \<Rightarrow> map_result text_value (c # cs)
   | _ \<Rightarrow> Inl ValueError)"

definition build_embedded_agent_spec :: "json dict \<Rightarrow> AgentSpec result" where
  "build_embedded_agent_spec d =
     bind_result (parse_entrypoint d) (\<lambda>e.
     bind_result (parse_timeout (field_of d ''timeout_seconds'')) (\<lambda>t. Inr (EmbeddedAgentSpec e t)))"

definition build_cli_agent_spec :: "json dict \<Rightarrow> AgentSpec result" where
  "build_cli_agent_spec d =
     bind_result (ensure (''entrypoint'' \<notin> set (dict_keys d))) (\<lambda>_.
     bind_result (parse_command (field_of d ''command'')) (\<lambda>command.
     bind_result (parse_str_map (field_of d ''env'')) (\<lambda>env.
     bind_result (parse_timeout (field_of d ''timeout_seconds'')) (\<lambda>timeout.
     bind_result (parse_agent_model (field_of d ''model'')) (\<lambda>model.
     bind_result (opt_text (field_of d ''cwd'')) (\<lambda>cwd.
       Inr (CliAgentSpec command env timeout model cwd)))))))"

definition build_http_agent_spec :: "json dict \<Rightarrow> AgentSpec result" where
  "build_http_agent_spec d =
     bind_result (ensure (''entrypoint'' \<notin> set (dict_keys d))) (\<lambda>_.
     bind_result (text_value (field_of d ''url'')) (\<lambda>url.
     bind_result (ensure (strip url \<noteq> [])) (\<lambda>_.
     bind_result (parse_str_map (field_of d ''headers'')) (\<lambda>headers.
     bind_result (parse_timeout (field_of d ''timeout_seconds'')) (\<lambda>timeout.
     bind_result (parse_agent_model (field_of d ''model'')) (\<lambda>model.
       Inr (HttpAgentSpec url headers timeout model)))))))"

definition build_agent_spec :: "json dict \<Rightarrow> AgentSpec result" where
  "build_agent_spec raw = (case dict_get raw ''agent'' (JObj []) of
     JObj d \<Rightarrow> (case field_of d ''type'' of
       JNull \<Rightarrow> build_embedded_agent_spec d
     | JStr t \<Rightarrow>
         if t = ''embedded'' then build_embedded_agent_spec d
         else if t = ''cli'' then build_cli_agent_spec d
         else if t = ''http'' then build_http_agent_spec d
         else Inl ValueError
     | _ \<Rightarrow> Inl ValueError)
   | _ \<Rightarrow> Inl ValueError)"

definition opt_entry :: "string \<Rightarrow> ('a \<Rightarrow> json) \<Rightarrow> 'a option \<Rightarrow> json dict" where
  "opt_entry k f v = (case v of None \<Rightarrow> [] | Some x \<Rightarrow> [(k, f x)])"

definition dump_str_map :: "string dict \<Rightarrow> json" where
  "dump_str_map d = JObj (map (\<lambda>(k, s). (k, JStr s)) d)"

definition dump_agent_model :: "AgentModelDecl \<Rightarrow> json" where
  "dump_agent_model m = JObj [(''provider'', JStr (ad_provider m)), (''name'', JStr (ad_name m))]"

fun dump_agent_spec :: "AgentSpec \<Rightarrow> json dict" where
  "dump_agent_spec (EmbeddedAgentSpec e timeout) = [(''type'', JStr ''embedded''), (''entrypoint'', JStr (ae_raw e))]"
| "dump_agent_spec (CliAgentSpec command env timeout model cwd) =
     [(''type'', JStr ''cli''), (''command'', JList (map JStr command))] @ opt_entry ''env'' dump_str_map env @
     opt_entry ''timeout_seconds'' JFloat timeout @ opt_entry ''model'' dump_agent_model model @ opt_entry ''cwd'' JStr cwd"
| "dump_agent_spec (HttpAgentSpec url headers timeout model) =
     [(''type'', JStr ''http''), (''url'', JStr url)] @ opt_entry ''headers'' dump_str_map headers @
     opt_entry ''timeout_seconds'' JFloat timeout @ opt_entry ''model'' dump_agent_model model"

subsection \<open>repo/loader/graders.py\<close>

definition SUPPORTED_GRADER_TYPES :: "string list" where
  "SUPPORTED_GRADER_TYPES =
     [''deterministic'', ''llm_judge'', ''judge_panel'', ''pairwise'', ''set_match'', ''funnel'', ''confusion'']"

definition PAIRWISE_COMPARE_AGAINST :: "string list" where
  "PAIRWISE_COMPARE_AGAINST = [''reference'']"

definition SET_MATCH_GATINGS :: "string list" where
  "SET_MATCH_GATINGS = [''completeness'', ''precision'', ''recall'', ''f1'']"

definition CONSENSUS_RULES :: "string list" where
  "CONSENSUS_RULES = [''majority'', ''unanimous'', ''weighted'']"

definition FUNNEL_MATCH_KINDS :: "string list" where
  "FUNNEL_MATCH_KINDS =
     [''exists'', ''equals'', ''set_match'', ''by_key'', ''by_index'', ''tool_called'', ''span_exists'']"

definition SPAN_KINDS :: "string list" where
  "SPAN_KINDS = map SpanKind_value SpanKind_members"

record GraderSpec =
  gs_type :: string
  gs_name :: string
  gs_rubric :: "string option"
  gs_judge_entrypoint :: "AgentEntrypoint option"
  gs_n_judges :: "int option"
  gs_consensus :: "string option"
  gs_params :: "json dict"

text \<open>The optional parameters of a grader: each present and not null is checked and copied, in this order.\<close>

fun parse_params :: "(string \<times> (json \<Rightarrow> json result)) list \<Rightarrow> json dict \<Rightarrow> json dict result" where
  "parse_params [] raw = Inr []"
| "parse_params ((k, parse) # fs) raw =
     (if field_of raw k = JNull then parse_params fs raw
      else bind_result (parse (field_of raw k)) (\<lambda>v. bind_result (parse_params fs raw) (\<lambda>d. Inr ((k, v) # d))))"

definition name_value :: "string list \<Rightarrow> json \<Rightarrow> json result" where
  "name_value names v = bind_result (member_of v names) (\<lambda>b. if b then Inr v else Inl ValueError)"

definition threshold_value :: "json \<Rightarrow> json result" where
  "threshold_value v = (case v of
     JInt i \<Rightarrow> if 0 \<le> i \<and> i \<le> 1 then Inr (JFloat (of_int i)) else Inl ValueError
   | JFloat q \<Rightarrow> if 0 \<le> q \<and> q \<le> 1 then Inr (JFloat q) else Inl ValueError
   | _ \<Rightarrow> Inl ValueError)"

definition bool_value :: "json \<Rightarrow> json result" where
  "bool_value v = (case v of JBool _ \<Rightarrow> Inr v | _ \<Rightarrow> Inl ValueError)"

definition path_value :: "json \<Rightarrow> json result" where
  "path_value v = (case v of JStr s \<Rightarrow> bind_result (validate_path s) (\<lambda>_. Inr v) | _ \<Rightarrow> Inl ValueError)"

definition SET_MATCH_FIELDS :: "(string \<times> (json \<Rightarrow> json result)) list" where
  "SET_MATCH_FIELDS = [(''gating'', name_value SET_MATCH_GATINGS), (''threshold'', threshold_value),
     (''case_sensitive'', bool_value)]"

definition PAIRWISE_FIELDS :: "(string \<times> (json \<Rightarrow> json result)) list" where
  "PAIRWISE_FIELDS = [(''compare_against'', name_value PAIRWISE_COMPARE_AGAINST), (''tie_is_pass'', bool_value),
     (''swap_and_average'', bool_value)]"

definition CONFUSION_FIELDS :: "(string \<times> (json \<Rightarrow> json result)) list" where
  "CONFUSION_FIELDS = [(''extract'', path_value), (''expected_from'', path_value), (''case_sensitive'', bool_value)]"

definition params_of :: "json dict \<Rightarrow> json dict result" where
  "params_of entry = (case dict_get entry ''params'' (JObj []) of JObj d \<Rightarrow> Inr d | _ \<Rightarrow> Inl ValueError)"

definition parse_set_match_params :: "json dict \<Rightarrow> json dict result" where
  "parse_set_match_params entry = bind_result (params_of entry) (parse_params SET_MATCH_FIELDS)"

definition parse_pairwise_params :: "json dict \<Rightarrow> json dict result" where
  "parse_pairwise_params entry = bind_result (params_of entry) (parse_params PAIRWISE_FIELDS)"

definition parse_confusion_params :: "json dict \<Rightarrow> json dict result" where
  "parse_confusion_params entry = bind_result (params_of entry) (parse_params CONFUSION_FIELDS)"

text \<open>One level's match: a declared grader, or a built-in kind with its own fields.\<close>

definition required_value :: "json dict \<Rightarrow> json dict result" where
  "required_value m = (case map_of m ''value'' of None \<Rightarrow> Inl ValueError | Some v \<Rightarrow> Inr [(''value'', v)])"

definition kind_fields :: "string \<Rightarrow> json dict \<Rightarrow> json dict result" where
  "kind_fields kd m =
     (if kd = ''equals'' then required_value m
      else if kd = ''by_key'' then
        bind_result (nonempty_text (field_of m ''key'')) (\<lambda>k.
        bind_result (required_value m) (\<lambda>v. Inr ((''key'', JStr k) # v)))
      else if kd = ''by_index'' then
        (case field_of m ''index'' of
           JInt i \<Rightarrow> bind_result (required_value m) (\<lambda>v. Inr ((''index'', JInt i) # v))
         | _ \<Rightarrow> Inl ValueError)
      else if kd = ''tool_called'' then
        bind_result (nonempty_text (field_of m ''tool'')) (\<lambda>t. Inr [(''tool'', JStr t)])
      else if kd = ''span_exists'' then
        bind_result (name_value SPAN_KINDS (field_of m ''span_kind'')) (\<lambda>v. Inr [(''span_kind'', v)])
      else if kd = ''set_match'' then
        parse_params [(''gating'', name_value SET_MATCH_GATINGS), (''threshold'', threshold_value)] m
      else Inr [])"

definition case_field :: "string \<Rightarrow> json dict \<Rightarrow> json dict result" where
  "case_field kd m =
     (if kd \<in> set [''equals'', ''by_key'', ''by_index'', ''set_match'']
      then parse_params [(''case_sensitive'', bool_value)] m else Inr [])"

definition funnel_match :: "json \<Rightarrow> json result" where
  "funnel_match v = (case v of
     JObj m \<Rightarrow>
       if (''kind'' \<in> set (dict_keys m)) = (''grader'' \<in> set (dict_keys m)) then Inl ValueError
       else if ''grader'' \<in> set (dict_keys m) then
         bind_result (nonempty_text (field_of m ''grader'')) (\<lambda>ref. Inr (JObj [(''grader'', JStr ref)]))
       else
         bind_result (name_value FUNNEL_MATCH_KINDS (field_of m ''kind'')) (\<lambda>kd.
         bind_result (text_value kd) (\<lambda>kd.
         bind_result (kind_fields kd m) (\<lambda>fs.
         bind_result (case_field kd m) (\<lambda>cs. Inr (JObj ((''kind'', JStr kd) # fs @ cs))))))
   | _ \<Rightarrow> Inl ValueError)"

text \<open>The fields of one level, its key checked against the keys seen so far in the tree.\<close>

record LevelHead =
  lh_key :: string
  lh_extract :: string
  lh_gate :: bool
  lh_feeds :: bool
  lh_failure_mode :: "string option"
  lh_match :: json

definition bool_field :: "json dict \<Rightarrow> string \<Rightarrow> bool result" where
  "bool_field d k = (case dict_get d k (JBool False) of JBool b \<Rightarrow> Inr b | _ \<Rightarrow> Inl ValueError)"

definition level_head :: "json dict \<Rightarrow> string list \<Rightarrow> LevelHead result" where
  "level_head d seen =
     bind_result (nonempty_text (field_of d ''key'')) (\<lambda>key.
     bind_result (ensure (key \<notin> set seen)) (\<lambda>_.
     bind_result (text_value (dict_get d ''extract'' (JStr []))) (\<lambda>slice.
     bind_result (validate_path slice) (\<lambda>_.
     bind_result (bool_field d ''gate'') (\<lambda>gate.
     bind_result (bool_field d ''feeds_extract'') (\<lambda>feeds.
     bind_result (opt_text (field_of d ''failure_mode'')) (\<lambda>fm.
     bind_result (ensure (fm \<noteq> Some [])) (\<lambda>_.
     bind_result (funnel_match (field_of d ''match'')) (\<lambda>m.
       Inr \<lparr>lh_key = key, lh_extract = slice, lh_gate = gate, lh_feeds = feeds, lh_failure_mode = fm,
            lh_match = m\<rparr>)))))))))"

definition level_json :: "LevelHead \<Rightarrow> json list \<Rightarrow> json" where
  "level_json h children = JObj
     ([(''key'', JStr (lh_key h)), (''extract'', JStr (lh_extract h)), (''gate'', JBool (lh_gate h)),
       (''feeds_extract'', JBool (lh_feeds h)), (''match'', lh_match h), (''children'', JList children)] @
      opt_entry ''failure_mode'' JStr (lh_failure_mode h))"

definition level_children :: "json dict \<Rightarrow> json list result" where
  "level_children d = (case dict_get d ''children'' (JList []) of JList cs \<Rightarrow> Inr cs | _ \<Rightarrow> Inl ValueError)"

lemma level_children_size: "level_children d = Inr cs \<Longrightarrow> size_list size cs < size (JObj d)"
  using size_json_field [of d "''children''"]
  by (auto simp: level_children_def dict_get_def split: option.splits json.splits)

function funnel_level :: "json \<Rightarrow> string list \<Rightarrow> (json \<times> string list) result"
  and funnel_levels :: "json list \<Rightarrow> string list \<Rightarrow> (json list \<times> string list) result" where
  "funnel_level node seen = (case node of
     JObj d \<Rightarrow>
       bind_result (level_head d seen) (\<lambda>h.
         case level_children d of
           Inl e \<Rightarrow> Inl e
         | Inr cs \<Rightarrow> bind_result (funnel_levels cs (lh_key h # seen)) (\<lambda>(children, seen').
             Inr (level_json h children, seen')))
   | _ \<Rightarrow> Inl ValueError)"
| "funnel_levels [] seen = Inr ([], seen)"
| "funnel_levels (n # ns) seen =
     bind_result (funnel_level n seen) (\<lambda>(out, seen').
     bind_result (funnel_levels ns seen') (\<lambda>(outs, seen''). Inr (out # outs, seen'')))"
  by pat_completeness auto
termination
  by (relation "measure (\<lambda>x. case x of Inl (n, s) \<Rightarrow> 2 * size n | Inr (ns, s) \<Rightarrow> 2 * size_list size ns + 1)")
    (auto dest!: level_children_size)

declare funnel_level.simps [simp del]

definition parse_funnel_params :: "json dict \<Rightarrow> json dict result" where
  "parse_funnel_params entry =
     bind_result (params_of entry) (\<lambda>raw. case field_of raw ''levels'' of
       JList (n # ns) \<Rightarrow> bind_result (funnel_levels (n # ns) []) (\<lambda>(levels, _). Inr [(''levels'', JList levels)])
     | _ \<Rightarrow> Inl ValueError)"

definition parse_judge_entrypoint :: "json dict \<Rightarrow> AgentEntrypoint option result" where
  "parse_judge_entrypoint entry = (case field_of entry ''judge_entrypoint'' of
     JNull \<Rightarrow> Inr None
   | JStr s \<Rightarrow> (case split_first (CHR '':'') s of
       (m, Some a) \<Rightarrow> Inr (Some \<lparr>ae_raw = s, ae_module = m, ae_attribute = a\<rparr>)
     | (_, None) \<Rightarrow> Inl ValueError)
   | _ \<Rightarrow> Inl ValueError)"

definition parse_n_judges :: "json dict \<Rightarrow> int result" where
  "parse_n_judges entry = (case dict_get entry ''n_judges'' (JInt 3) of
     JInt i \<Rightarrow> if i < 1 then Inl ValueError else Inr i
   | _ \<Rightarrow> Inl ValueError)"

definition parse_consensus :: "json dict \<Rightarrow> string result" where
  "parse_consensus entry =
     bind_result (name_value CONSENSUS_RULES (dict_get entry ''consensus'' (JStr ''majority''))) text_value"

definition parse_rubric :: "json dict \<Rightarrow> string result" where
  "parse_rubric entry = bind_result (text_value (field_of entry ''rubric'')) (\<lambda>s.
     if strip s = [] then Inl ValueError else Inr s)"

definition grader_name :: "json dict \<Rightarrow> string \<Rightarrow> string result" where
  "grader_name entry t = nonempty_text (if py_truthy (field_of entry ''name'') then field_of entry ''name'' else JStr t)"

definition judge_types :: "string list" where
  "judge_types = [''llm_judge'', ''judge_panel'', ''pairwise'']"

definition when_result :: "bool \<Rightarrow> 'a result \<Rightarrow> 'a option result" where
  "when_result b r = (if b then bind_result r (\<lambda>x. Inr (Some x)) else Inr None)"

text \<open>What the kinds of graders add to an entry: rubric and judge, panel, parameters.\<close>

definition grader_params :: "string \<Rightarrow> json dict \<Rightarrow> json dict result" where
  "grader_params t entry =
     (if t = ''pairwise'' then parse_pairwise_params entry
      else if t = ''set_match'' then parse_set_match_params entry
      else if t = ''funnel'' then parse_funnel_params entry
      else if t = ''confusion'' then parse_confusion_params entry
      else Inr [])"

definition build_grader_spec :: "json \<Rightarrow> string list \<Rightarrow> GraderSpec result" where
  "build_grader_spec v seen = (case v of
     JObj entry \<Rightarrow>
       bind_result (text_value (field_of entry ''type'')) (\<lambda>t.
       bind_result (ensure (t \<in> set SUPPORTED_GRADER_TYPES)) (\<lambda>_.
       bind_result (grader_name entry t) (\<lambda>nm.
       bind_result (ensure (nm \<notin> set seen)) (\<lambda>_.
       bind_result (when_result (t \<in> set judge_types) (parse_rubric entry)) (\<lambda>rubric.
       bind_result (if t \<in> set judge_types then parse_judge_entrypoint entry else Inr None) (\<lambda>judge.
       bind_result (when_result (t = ''judge_panel'') (parse_n_judges entry)) (\<lambda>n.
       bind_result (when_result (t = ''judge_panel'') (parse_consensus entry)) (\<lambda>consensus.
       bind_result (grader_params t entry) (\<lambda>params.
         Inr \<lparr>gs_type = t, gs_name = nm, gs_rubric = rubric, gs_judge_entrypoint = judge, gs_n_judges = n,
              gs_consensus = consensus, gs_params = params\<rparr>)))))))))
   | _ \<Rightarrow> Inl ValueError)"

fun build_grader_list :: "json list \<Rightarrow> string list \<Rightarrow> GraderSpec list result" where
  "build_grader_list [] seen = Inr []"
| "build_grader_list (v # vs) seen =
     bind_result (build_grader_spec v seen) (\<lambda>g.
     bind_result (build_grader_list vs (gs_name g # seen)) (\<lambda>gs. Inr (g # gs)))"

definition build_grader_specs :: "json dict \<Rightarrow> GraderSpec list result" where
  "build_grader_specs raw = (case field_of raw ''graders'' of
     JNull \<Rightarrow> Inr []
   | JList es \<Rightarrow> build_grader_list es []
   | _ \<Rightarrow> Inl ValueError)"

definition dump_grader_spec :: "GraderSpec \<Rightarrow> json dict" where
  "dump_grader_spec g =
     [(''type'', JStr (gs_type g)), (''name'', JStr (gs_name g))] @ opt_entry ''rubric'' JStr (gs_rubric g) @
     opt_entry ''judge_entrypoint'' (\<lambda>e. JStr (ae_raw e)) (gs_judge_entrypoint g) @
     opt_entry ''n_judges'' JInt (gs_n_judges g) @ opt_entry ''consensus'' JStr (gs_consensus g) @
     (if gs_params g = [] then [] else [(''params'', JObj (gs_params g))])"

end
