(* ===== verification/Loader_Spec.thy ===== *)
theory Loader_Spec
  imports Loader
begin

section \<open>repo/loader: datasets and whole specifications\<close>

text \<open>
  The block that says where the cases come from, the specification of an experiment, and the
  payload of a run job (\<^verbatim>\<open>serialize_experiment_spec\<close>, \<^verbatim>\<open>deserialize_experiment_spec\<close>).  \<open>LoaderEnv\<close> holds
  what the loader calls: pydantic on the payload of an experiment, of a case and of a split, the dumps of
  experiments and cases, the lines of a file, the JSON decoder, \<^verbatim>\<open>str\<close>, and fresh identifiers.
\<close>

record LoaderEnv =
  le_experiment :: "json dict \<Rightarrow> Experiment option"
  le_case :: "json dict \<Rightarrow> EvalCase option"
  le_split :: "json dict \<Rightarrow> SplitAllocation option"
  le_dump_experiment :: "Experiment \<Rightarrow> json dict"
  le_dump_case :: "EvalCase \<Rightarrow> json dict"
  le_lines :: "string \<Rightarrow> string list option"
  le_json :: "string \<Rightarrow> json option"
  le_str :: "json \<Rightarrow> string"
  le_experiment_id :: string
  le_case_id :: "nat \<Rightarrow> string"

definition or_fail :: "'a option \<Rightarrow> 'a result" where
  "or_fail x = (case x of None \<Rightarrow> Inl ValueError | Some v \<Rightarrow> Inr v)"

definition with_default :: "string \<Rightarrow> json \<Rightarrow> json dict \<Rightarrow> json dict" where
  "with_default k v d = (if k \<in> set (dict_keys d) then d else d @ [(k, v)])"

subsection \<open>repo/loader/datasets.py\<close>

record InlineSource =
  il_cases :: "EvalCase list"
  il_name :: "string option"
  il_dataset_type :: "DatasetType option"
  il_split_allocation :: "SplitAllocation option"
  il_description :: "string option"

datatype DatasetSpec = InlineDatasetSource InlineSource | RefDatasetSource EntityRef

text \<open>\<^verbatim>\<open>isinstance(version, int)\<close> holds of a truth value, which pydantic then reads as 0 or 1.\<close>

definition ref_version_of :: "json \<Rightarrow> int option result" where
  "ref_version_of v = (case v of
     JNull \<Rightarrow> Inr None
   | JInt i \<Rightarrow> Inr (Some i)
   | JBool b \<Rightarrow> Inr (Some (if b then 1 else 0))
   | _ \<Rightarrow> Inl ValueError)"

definition build_ref_dataset_source :: "json dict \<Rightarrow> json \<Rightarrow> DatasetSpec result" where
  "build_ref_dataset_source d ref =
     bind_result (nonempty_text ref) (\<lambda>i.
     bind_result (ref_version_of (field_of d ''version'')) (\<lambda>v.
       let r = \<lparr>ref_id = i, ref_version = v\<rparr>
       in if valid_EntityRef r then Inr (RefDatasetSource r) else Inl ValueError))"

definition opt_str_of :: "json dict \<Rightarrow> string \<Rightarrow> string option result" where
  "opt_str_of d k = (case field_of d k of
     JNull \<Rightarrow> Inr None
   | v \<Rightarrow> bind_result (nonempty_text v) (\<lambda>s. Inr (Some s)))"

definition opt_dataset_type :: "json dict \<Rightarrow> DatasetType option result" where
  "opt_dataset_type d = (case field_of d ''dataset_type'' of
     JNull \<Rightarrow> Inr None
   | JStr s \<Rightarrow> bind_result (enum_of DatasetType_value DatasetType_members s) (\<lambda>t. Inr (Some t))
   | _ \<Rightarrow> Inl ValueError)"

definition opt_split_allocation :: "LoaderEnv \<Rightarrow> json dict \<Rightarrow> SplitAllocation option result" where
  "opt_split_allocation env d = (case field_of d ''split_allocation'' of
     JNull \<Rightarrow> Inr None
   | JObj s \<Rightarrow> bind_result (or_fail (le_split env s)) (\<lambda>a. Inr (Some a))
   | _ \<Rightarrow> Inl ValueError)"

definition read_row :: "LoaderEnv \<Rightarrow> string \<Rightarrow> json result" where
  "read_row env line = bind_result (or_fail (le_json env line)) (\<lambda>v. case v of JObj _ \<Rightarrow> Inr v | _ \<Rightarrow> Inl ValueError)"

definition read_jsonl :: "LoaderEnv \<Rightarrow> string \<Rightarrow> json list result" where
  "read_jsonl env path = bind_result (or_fail (le_lines env path)) (\<lambda>lines.
     map_result (read_row env) (filter (\<lambda>l. l \<noteq> []) (map strip lines)))"

definition case_rows :: "LoaderEnv \<Rightarrow> json dict \<Rightarrow> json list result" where
  "case_rows env d = (case (field_of d ''cases_inline'', field_of d ''cases_path'') of
     (JNull, JNull) \<Rightarrow> Inl ValueError
   | (JNull, p) \<Rightarrow> read_jsonl env (case p of JStr s \<Rightarrow> s | _ \<Rightarrow> le_str env p)
   | (JList rows, JNull) \<Rightarrow> Inr rows
   | _ \<Rightarrow> Inl ValueError)"

definition build_case :: "LoaderEnv \<Rightarrow> json \<Rightarrow> nat \<times> json \<Rightarrow> EvalCase result" where
  "build_case env ws row = (case snd row of
     JObj d \<Rightarrow> or_fail (le_case env (with_default ''workspace_id'' ws (with_default ''id'' (JStr (le_case_id env (fst row))) d)))
   | _ \<Rightarrow> Inl ValueError)"

definition build_cases :: "LoaderEnv \<Rightarrow> json dict \<Rightarrow> json \<Rightarrow> EvalCase list result" where
  "build_cases env d ws = bind_result (case_rows env d) (\<lambda>rows.
     if rows = [] then Inl ValueError else map_result (build_case env ws) (enumerate 0 rows))"

definition build_inline_dataset_source :: "LoaderEnv \<Rightarrow> json dict \<Rightarrow> json \<Rightarrow> DatasetSpec result" where
  "build_inline_dataset_source env d ws =
     bind_result (build_cases env d ws) (\<lambda>cs.
     bind_result (opt_str_of d ''name'') (\<lambda>nm.
     bind_result (opt_dataset_type d) (\<lambda>t.
     bind_result (opt_split_allocation env d) (\<lambda>split.
     bind_result (opt_str_of d ''description'') (\<lambda>description.
       Inr (InlineDatasetSource \<lparr>il_cases = cs, il_name = nm, il_dataset_type = t, il_split_allocation = split,
         il_description = description\<rparr>))))))"

definition build_dataset_source :: "LoaderEnv \<Rightarrow> json dict \<Rightarrow> json \<Rightarrow> DatasetSpec result" where
  "build_dataset_source env raw ws = (case dict_get raw ''dataset'' (JObj []) of
     JObj d \<Rightarrow>
       if field_of d ''ref'' = JNull then build_inline_dataset_source env d ws
       else if field_of d ''cases_inline'' \<noteq> JNull \<or> field_of d ''cases_path'' \<noteq> JNull then Inl ValueError
       else build_ref_dataset_source d (field_of d ''ref'')
   | _ \<Rightarrow> Inl ValueError)"

subsection \<open>repo/loader/\_\_init\_\_.py\<close>

record ExperimentSpec =
  es_workspace_id :: json
  es_experiment :: Experiment
  es_cases :: "EvalCase list"
  es_agent :: AgentSpec
  es_dataset_source :: DatasetSpec
  es_graders :: "GraderSpec list"

definition dump_dataset_source :: "LoaderEnv \<Rightarrow> ExperimentSpec \<Rightarrow> json dict" where
  "dump_dataset_source env s = (case es_dataset_source s of
     RefDatasetSource r \<Rightarrow> (''ref'', JStr (ref_id r)) # opt_entry ''version'' JInt (ref_version r)
   | InlineDatasetSource _ \<Rightarrow> [(''cases_inline'', JList (map (\<lambda>c. JObj (le_dump_case env c)) (es_cases s)))])"

definition build_experiment :: "LoaderEnv \<Rightarrow> json dict \<Rightarrow> json \<Rightarrow> Experiment result" where
  "build_experiment env raw ws = (case field_of raw ''experiment'' of
     JObj d \<Rightarrow> or_fail (le_experiment env (with_default ''workspace_id'' ws (with_default ''id'' (JStr (le_experiment_id env)) d)))
   | _ \<Rightarrow> Inl ValueError)"

definition available_names :: "GraderSpec list \<Rightarrow> EvalCase list \<Rightarrow> string list" where
  "available_names graders cs =
     (let names = map gs_name graders @ concat (map ec_graders cs)
      in if names = [] then [''deterministic''] else names)"

definition validate_primary_grader :: "Experiment \<Rightarrow> GraderSpec list \<Rightarrow> EvalCase list \<Rightarrow> unit result" where
  "validate_primary_grader e graders cs = (case target_primary_grader (exp_target e) of
     None \<Rightarrow> Inr ()
   | Some p \<Rightarrow> ensure (p \<in> set (available_names graders cs)))"

definition spec_workspace :: "json dict \<Rightarrow> json \<Rightarrow> json result" where
  "spec_workspace raw ws =
     (let v = (if py_truthy ws then ws
               else if py_truthy (field_of raw ''workspace'') then field_of raw ''workspace''
               else field_of raw ''workspace_id'')
      in if py_truthy v then Inr v else Inl ValueError)"

text \<open>\<open>ws\<close> is the keyword argument \<^verbatim>\<open>workspace_id\<close>, null when it is not given.\<close>

definition build_spec_from_mapping :: "LoaderEnv \<Rightarrow> json \<Rightarrow> json dict \<Rightarrow> ExperimentSpec result" where
  "build_spec_from_mapping env ws raw =
     bind_result (spec_workspace raw ws) (\<lambda>ws_id.
     bind_result (build_experiment env raw ws_id) (\<lambda>experiment.
     bind_result (build_dataset_source env raw ws_id) (\<lambda>source.
     let cs = (case source of InlineDatasetSource i \<Rightarrow> il_cases i | RefDatasetSource _ \<Rightarrow> [])
     in bind_result (build_agent_spec raw) (\<lambda>agent.
        bind_result (build_grader_specs raw) (\<lambda>graders.
        bind_result (validate_primary_grader experiment graders cs) (\<lambda>_.
          Inr \<lparr>es_workspace_id = ws_id, es_experiment = experiment, es_cases = cs, es_agent = agent,
               es_dataset_source = source, es_graders = graders\<rparr>))))))"

definition serialize_experiment_spec :: "LoaderEnv \<Rightarrow> ExperimentSpec \<Rightarrow> json dict" where
  "serialize_experiment_spec env s =
     [(''workspace'', es_workspace_id s), (''experiment'', JObj (le_dump_experiment env (es_experiment s))),
      (''dataset'', JObj (dump_dataset_source env s)), (''agent'', JObj (dump_agent_spec (es_agent s))),
      (''graders'', JList (map (\<lambda>g. JObj (dump_grader_spec g)) (es_graders s)))]"

definition deserialize_experiment_spec :: "LoaderEnv \<Rightarrow> json dict \<Rightarrow> ExperimentSpec result" where
  "deserialize_experiment_spec env payload =
     build_spec_from_mapping env
       (JStr (let w = field_of payload ''workspace''
              in if py_truthy w then (case w of JStr s \<Rightarrow> s | _ \<Rightarrow> le_str env w) else [])) payload"

end
