(* ===== verification/Grader_Launch.thy ===== *)
theory Grader_Launch
  imports Loader_Spec Artifact Deterministic Classification Set_Match Funnel Judges Judge_Panel
begin

section \<open>runner/launch/graders.py and graders/registry.py: from specifications to graders\<close>

text \<open>
  Declared graders become factories in the process-wide registry, the names the cases use are resolved
  to graders, and the declared names are taken out again.  Calling the factory of a funnel resolves the
  graders its levels name, through the same registry; the factory of any other kind needs no registry
  and is represented by what calling it returns.  A result of \<open>None\<close> stands for a recursion that
  is deeper than the given depth: Python raises a \<^verbatim>\<open>RecursionError\<close> at its own limit.
  \<open>LaunchEnv\<close> holds what is imported or asked: whether an entrypoint can be imported, the judge behind it (wrapped as
  an adapter, with its rubric), the graders of dotted paths, \<^verbatim>\<open>float\<close> of a text, the paraphraser.
  The parameters are those the loader checked; where the tree of a funnel is not, a missing key is a \<^verbatim>\<open>KeyError\<close> and a
  value of another type than the casts say a \<^verbatim>\<open>TypeError\<close>.
\<close>

datatype launch_error = SpecUserError | ResolveError grader_error | RaisedError py_error

type_synonym 'a launched = "(launch_error + 'a) option"

definition bind_launched :: "'a launched \<Rightarrow> ('a \<Rightarrow> 'b launched) \<Rightarrow> 'b launched" where
  "bind_launched m f = (case m of None \<Rightarrow> None | Some (Inl e) \<Rightarrow> Some (Inl e) | Some (Inr x) \<Rightarrow> f x)"

lemma bind_launched_simps [simp]:
  "bind_launched None f = None" "bind_launched (Some (Inl e)) f = Some (Inl e)" "bind_launched (Some (Inr x)) f = f x"
  by (simp_all add: bind_launched_def)

definition raised :: "'a result \<Rightarrow> 'a launched" where
  "raised r = (case r of Inl e \<Rightarrow> Some (Inl (RaisedError e)) | Inr x \<Rightarrow> Some (Inr x))"

lemma raised_simps [simp]: "raised (Inr x) = Some (Inr x)" "raised (Inl e) = Some (Inl (RaisedError e))"
  by (simp_all add: raised_def)

record LaunchEnv =
  ln_importable :: "AgentEntrypoint \<Rightarrow> bool"
  ln_judge :: "AgentEntrypoint \<Rightarrow> string \<Rightarrow> EvalCase \<Rightarrow> string \<Rightarrow> reply result"
  ln_pair_judge :: "AgentEntrypoint \<Rightarrow> string \<Rightarrow> EvalCase \<Rightarrow> pair_judge"
  ln_load :: "string \<Rightarrow> string \<Rightarrow> Grader option"
  ln_float :: "string \<Rightarrow> rat option"
  ln_paraphraser :: "string \<Rightarrow> nat \<Rightarrow> string"

datatype Factory = Ready "Grader result" | FunnelFactory string "json list"

subsection \<open>Factories\<close>

definition named_grader :: "string \<Rightarrow> (GraderContext \<Rightarrow> GradeResult result) \<Rightarrow> Grader result" where
  "named_grader nm grade = (if nm = [] then Inl ValueError else Inr \<lparr>grd_name = nm, grd_grade = grade\<rparr>)"

definition deterministic_factory :: "string \<Rightarrow> Grader result" where
  "deterministic_factory nm =
     bind_result (make_DeterministicGrader nm False None) (\<lambda>g. Inr \<lparr>grd_name = nm, grd_grade = deterministic_grade g\<rparr>)"

definition llm_judge_factory :: "LaunchEnv \<Rightarrow> string \<Rightarrow> AgentEntrypoint \<Rightarrow> string \<Rightarrow> Grader result" where
  "llm_judge_factory env nm e rubric =
     named_grader nm (llm_judge_grade (ln_float env) (ln_judge env e rubric) \<lparr>lj_name = nm, lj_card = None, lj_force = False\<rparr>)"

definition consensus_of :: "string \<Rightarrow> ConsensusRule result" where
  "consensus_of s = (if s = ''majority'' then Inr Majority else if s = ''unanimous'' then Inr Unanimous
     else if s = ''weighted'' then Inr Weighted else Inl ValueError)"

definition panel_judge_name :: "string \<Rightarrow> nat \<Rightarrow> string" where
  "panel_judge_name nm k = nm @ ''-judge-'' @ nat_str k"

definition judge_panel_factory :: "LaunchEnv \<Rightarrow> string \<Rightarrow> AgentEntrypoint \<Rightarrow> string \<Rightarrow> int \<Rightarrow> string \<Rightarrow> Grader result" where
  "judge_panel_factory env nm e rubric n consensus =
     bind_result (map_result (\<lambda>k. llm_judge_factory env (panel_judge_name nm k) e rubric) [0..<nat n]) (\<lambda>judges.
     bind_result (consensus_of consensus) (\<lambda>rule.
     bind_result (make_JudgePanelGrader nm judges rule
         (if consensus = ''weighted'' then Some (replicate (nat n) 1) else None) None) (\<lambda>g.
       Inr \<lparr>grd_name = nm, grd_grade = judge_panel_grade (ln_paraphraser env) g\<rparr>)))"

definition flag_of :: "json dict \<Rightarrow> string \<Rightarrow> bool \<Rightarrow> bool" where
  "flag_of params k b = py_truthy (dict_get params k (JBool b))"

definition pairwise_factory :: "LaunchEnv \<Rightarrow> string \<Rightarrow> AgentEntrypoint \<Rightarrow> string \<Rightarrow> json dict \<Rightarrow> Grader result" where
  "pairwise_factory env nm e rubric params =
     named_grader nm (pairwise_grade (ln_float env) (ln_pair_judge env e rubric)
       \<lparr>pg_name = nm, pg_tie_is_pass = flag_of params ''tie_is_pass'' True,
        pg_swap = flag_of params ''swap_and_average'' False\<rparr>)"

definition gating_of :: "json \<Rightarrow> GatingDimension result" where
  "gating_of v = bind_result (name_value SET_MATCH_GATINGS v) (\<lambda>v.
     Inr (if v = JStr ''precision'' then Precision else if v = JStr ''recall'' then Recall
          else if v = JStr ''f1'' then F1 else Completeness))"

definition float_value :: "LaunchEnv \<Rightarrow> json \<Rightarrow> rat result" where
  "float_value env v = (case v of
     JStr s \<Rightarrow> (case ln_float env s of None \<Rightarrow> Inl ValueError | Some q \<Rightarrow> Inr q)
   | _ \<Rightarrow> (case json_num v of None \<Rightarrow> Inl TypeError | Some q \<Rightarrow> Inr q))"

definition set_match_grader :: "LaunchEnv \<Rightarrow> string \<Rightarrow> json dict \<Rightarrow> string \<Rightarrow> Grader result" where
  "set_match_grader env nm params slice =
     bind_result (float_value env (dict_get params ''threshold'' (JFloat 1))) (\<lambda>threshold.
     bind_result (gating_of (dict_get params ''gating'' (JStr ''completeness''))) (\<lambda>gating.
     bind_result (make_SetMatchGrader nm gating threshold (flag_of params ''case_sensitive'' False) slice) (\<lambda>g.
       Inr \<lparr>grd_name = nm, grd_grade = set_match_grade g\<rparr>)))"

definition set_match_factory :: "LaunchEnv \<Rightarrow> string \<Rightarrow> json dict \<Rightarrow> Grader result" where
  "set_match_factory env nm params = set_match_grader env nm params ''detected''"

definition confusion_factory :: "string \<Rightarrow> json dict \<Rightarrow> Grader result" where
  "confusion_factory nm params =
     bind_result (text_value (dict_get params ''extract'' (JStr ''label''))) (\<lambda>slice.
     bind_result (opt_text (field_of params ''expected_from'')) (\<lambda>expected_from.
     bind_result (make_ClassificationGrader nm slice expected_from (flag_of params ''case_sensitive'' False)) (\<lambda>g.
       Inr \<lparr>grd_name = nm, grd_grade = classification_grade g\<rparr>)))"

subsection \<open>Funnels\<close>

definition default_fm :: "string \<Rightarrow> string \<Rightarrow> string" where
  "default_fm key kind = ''funnel_'' @ key @ ''_'' @
     dict_get [(''exists'', ''absent''), (''equals'', ''mismatch''), (''by_key'', ''key_mismatch''),
       (''by_index'', ''index_mismatch''), (''tool_called'', ''tool_absent''), (''span_exists'', ''span_absent'')] kind ''fail''"

definition item_of :: "json dict \<Rightarrow> string \<Rightarrow> json result" where
  "item_of d k = (case map_of d k of None \<Rightarrow> Inl KeyError | Some v \<Rightarrow> Inr v)"

definition cast_text :: "json \<Rightarrow> string result" where
  "cast_text v = (case v of JStr s \<Rightarrow> Inr s | _ \<Rightarrow> Inl TypeError)"

definition cast_int :: "json \<Rightarrow> int result" where
  "cast_int v = (case v of JInt i \<Rightarrow> Inr i | _ \<Rightarrow> Inl TypeError)"

definition build_kind :: "LaunchEnv \<Rightarrow> string \<Rightarrow> string \<Rightarrow> string \<Rightarrow> json dict \<Rightarrow> Grader result" where
  "build_kind env nm key slice m =
     bind_result (item_of m ''kind'') (\<lambda>k. bind_result (cast_text k) (\<lambda>kind.
      let gname = nm @ ''.'' @ key; cs = flag_of m ''case_sensitive'' False; fm = default_fm key kind;
          made = (\<lambda>grade. Inr \<lparr>grd_name = gname, grd_grade = grade\<rparr>)
      in if kind = ''set_match'' then set_match_grader env gname m (if slice = [] then ''detected'' else slice)
         else if kind = ''exists'' then made (exists_match gname slice fm)
         else if kind = ''equals'' then bind_result (item_of m ''value'') (\<lambda>v. made (equals_match gname slice v cs fm))
         else if kind = ''by_key'' then
           bind_result (bind_result (item_of m ''key'') cast_text) (\<lambda>k.
           bind_result (item_of m ''value'') (\<lambda>v. made (by_key_match gname slice k v cs fm)))
         else if kind = ''by_index'' then
           bind_result (bind_result (item_of m ''index'') cast_int) (\<lambda>i.
           bind_result (item_of m ''value'') (\<lambda>v. made (by_index_match gname slice i v cs fm)))
         else if kind = ''tool_called'' then
           bind_result (bind_result (item_of m ''tool'') cast_text) (\<lambda>t. made (tool_called_match gname t fm))
         else if kind = ''span_exists'' then
           bind_result (bind_result (item_of m ''span_kind'') cast_text) (\<lambda>s.
           bind_result (enum_of SpanKind_value SpanKind_members s) (\<lambda>k. made (span_exists_match gname k fm)))
         else Inl ValueError))"

definition build_match ::
    "LaunchEnv \<Rightarrow> (string \<Rightarrow> Grader launched) \<Rightarrow> string \<Rightarrow> string \<Rightarrow> string \<Rightarrow> json dict \<Rightarrow> Grader launched" where
  "build_match env resolve nm key slice m =
     (if ''grader'' \<in> set (dict_keys m)
      then bind_launched (raised (cast_text (field_of m ''grader''))) resolve
      else raised (build_kind env nm key slice m))"

record LevelParts =
  lp_key :: string
  lp_extract :: string
  lp_match :: "json dict"
  lp_failure_mode :: "string option"

definition level_parts :: "json dict \<Rightarrow> LevelParts result" where
  "level_parts d =
     bind_result (bind_result (item_of d ''key'') cast_text) (\<lambda>key.
     bind_result (cast_text (dict_get d ''extract'' (JStr []))) (\<lambda>slice.
     bind_result (item_of d ''match'') (\<lambda>m.
     case m of
       JObj m \<Rightarrow> (case field_of d ''failure_mode'' of
           JNull \<Rightarrow> Inr \<lparr>lp_key = key, lp_extract = slice, lp_match = m, lp_failure_mode = None\<rparr>
         | JStr f \<Rightarrow> Inr \<lparr>lp_key = key, lp_extract = slice, lp_match = m, lp_failure_mode = Some f\<rparr>
         | _ \<Rightarrow> Inl TypeError)
     | _ \<Rightarrow> Inl TypeError)))"

function build_level :: "LaunchEnv \<Rightarrow> (string \<Rightarrow> Grader launched) \<Rightarrow> string \<Rightarrow> json \<Rightarrow> Level launched"
  and build_levels :: "LaunchEnv \<Rightarrow> (string \<Rightarrow> Grader launched) \<Rightarrow> string \<Rightarrow> json list \<Rightarrow> Level list launched" where
  "build_level env resolve nm node = (case node of
     JObj d \<Rightarrow>
       bind_launched (raised (level_parts d)) (\<lambda>p.
       bind_launched (build_match env resolve nm (lp_key p) (lp_extract p) (lp_match p)) (\<lambda>g.
         case level_children d of
           Inl e \<Rightarrow> raised (Inl TypeError)
         | Inr cs \<Rightarrow> bind_launched (build_levels env resolve nm cs) (\<lambda>children.
             Some (Inr (Level (lp_key p) (lp_extract p) g (flag_of d ''gate'' False) (lp_failure_mode p)
               (flag_of d ''feeds_extract'' False) children)))))
   | _ \<Rightarrow> raised (Inl TypeError))"
| "build_levels env resolve nm [] = Some (Inr [])"
| "build_levels env resolve nm (n # ns) =
     bind_launched (build_level env resolve nm n) (\<lambda>l.
     bind_launched (build_levels env resolve nm ns) (\<lambda>ls. Some (Inr (l # ls))))"
  by pat_completeness auto
termination
  by (relation "measure (\<lambda>x. case x of Inl (_, _, _, n) \<Rightarrow> 2 * size n | Inr (_, _, _, ns) \<Rightarrow> 2 * size_list size ns + 1)")
    (auto dest!: level_children_size)

declare build_level.simps [simp del]

definition build_funnel :: "LaunchEnv \<Rightarrow> (string \<Rightarrow> Grader launched) \<Rightarrow> string \<Rightarrow> json list \<Rightarrow> Grader launched" where
  "build_funnel env resolve nm levels =
     bind_launched (build_levels env resolve nm levels) (\<lambda>ls.
     bind_launched (raised (make_FunnelGrader nm ls)) (\<lambda>g.
       Some (Inr \<lparr>grd_name = nm, grd_grade = funnel_grade g\<rparr>)))"

text \<open>\<^verbatim>\<open>resolve_graders([name])[0]\<close>, to the given depth of references.\<close>

fun build_named :: "nat \<Rightarrow> LaunchEnv \<Rightarrow> Factory registry \<Rightarrow> string \<Rightarrow> Grader launched" where
  "build_named 0 env reg nm = None"
| "build_named (Suc depth) env reg nm =
     (if CHR '':'' \<in> set nm then
        Some (case resolve_dotted_grader (ln_load env) nm of Inl e \<Rightarrow> Inl (ResolveError e) | Inr g \<Rightarrow> Inr g)
      else case map_of reg nm of
        None \<Rightarrow> Some (Inl (ResolveError (UnknownGrader nm (dict_keys reg))))
      | Some (Ready g) \<Rightarrow> raised g
      | Some (FunnelFactory fn levels) \<Rightarrow> build_funnel env (build_named depth env reg) fn levels)"

fun build_all_named :: "nat \<Rightarrow> LaunchEnv \<Rightarrow> Factory registry \<Rightarrow> string list \<Rightarrow> Grader list launched" where
  "build_all_named depth env reg [] = Some (Inr [])"
| "build_all_named depth env reg (n # ns) =
     bind_launched (build_named depth env reg n) (\<lambda>g.
     bind_launched (build_all_named depth env reg ns) (\<lambda>gs. Some (Inr (g # gs))))"

subsection \<open>Registration\<close>

definition judge_entry :: "LaunchEnv \<Rightarrow> AgentSpec \<Rightarrow> GraderSpec \<Rightarrow> launch_error + AgentEntrypoint" where
  "judge_entry env agent g =
     (case (case gs_judge_entrypoint g of
              Some e \<Rightarrow> Inr e
            | None \<Rightarrow> (case agent of EmbeddedAgentSpec e _ \<Rightarrow> Inr e | _ \<Rightarrow> Inl SpecUserError)) of
        Inl e \<Rightarrow> Inl e
      | Inr e \<Rightarrow> if ln_importable env e then Inr e else Inl SpecUserError)"

definition factory_of :: "LaunchEnv \<Rightarrow> AgentSpec \<Rightarrow> GraderSpec \<Rightarrow> launch_error + Factory" where
  "factory_of env agent g =
     (let nm = gs_name g; rubric = (case gs_rubric g of None \<Rightarrow> [] | Some r \<Rightarrow> r);
          judged = (\<lambda>f. case judge_entry env agent g of Inl e \<Rightarrow> Inl e | Inr e \<Rightarrow> Inr (Ready (f e)))
      in if gs_type g = ''deterministic'' then Inr (Ready (deterministic_factory nm))
         else if gs_type g = ''llm_judge'' then judged (\<lambda>e. llm_judge_factory env nm e rubric)
         else if gs_type g = ''judge_panel'' then
           judged (\<lambda>e. judge_panel_factory env nm e rubric
             (case gs_n_judges g of None \<Rightarrow> 3 | Some n \<Rightarrow> if n = 0 then 3 else n)
             (case gs_consensus g of None \<Rightarrow> ''majority'' | Some c \<Rightarrow> if c = [] then ''majority'' else c))
         else if gs_type g = ''pairwise'' then judged (\<lambda>e. pairwise_factory env nm e rubric (gs_params g))
         else if gs_type g = ''set_match'' then
           (case float_value env (dict_get (gs_params g) ''threshold'' (JFloat 1)) of
              Inl e \<Rightarrow> Inl (RaisedError e)
            | Inr _ \<Rightarrow> Inr (Ready (set_match_factory env nm (gs_params g))))
         else if gs_type g = ''funnel'' then
           (case dict_get (gs_params g) ''levels'' (JList []) of
              JList levels \<Rightarrow> Inr (FunnelFactory nm levels) | _ \<Rightarrow> Inl (RaisedError TypeError))
         else if gs_type g = ''confusion'' then Inr (Ready (confusion_factory nm (gs_params g)))
         else Inl SpecUserError)"

text \<open>The names registered, or the error; and the registry as it is then.\<close>

fun register_grader_specs ::
    "LaunchEnv \<Rightarrow> AgentSpec \<Rightarrow> GraderSpec list \<Rightarrow> Factory registry \<Rightarrow> (launch_error + string list) \<times> Factory registry" where
  "register_grader_specs env agent [] reg = (Inr [], reg)"
| "register_grader_specs env agent (g # gs) reg =
     (case factory_of env agent g of
        Inl e \<Rightarrow> (Inl e, reg)
      | Inr f \<Rightarrow> (case register_grader (gs_name g) f reg of
          Inl e \<Rightarrow> (Inl (RaisedError e), reg)
        | Inr reg' \<Rightarrow> (case register_grader_specs env agent gs reg' of
            (Inl e, reg'') \<Rightarrow> (Inl e, reg'')
          | (Inr names, reg'') \<Rightarrow> (Inr (gs_name g # names), reg''))))"

definition resolve_case_graders :: "nat \<Rightarrow> LaunchEnv \<Rightarrow> Factory registry \<Rightarrow> EvalCase list \<Rightarrow> Grader list launched" where
  "resolve_case_graders depth env reg cs =
     (let referenced = first_occurrences (concat (map ec_graders cs))
      in if referenced = []
         then bind_launched (raised (deterministic_factory ''deterministic'')) (\<lambda>g. Some (Inr [g]))
         else build_all_named depth env reg referenced)"

text \<open>\<^verbatim>\<open>execute_spec\<close>: registration, resolution, and the removal of what was registered.\<close>

definition with_spec_graders ::
    "nat \<Rightarrow> LaunchEnv \<Rightarrow> AgentSpec \<Rightarrow> GraderSpec list \<Rightarrow> EvalCase list \<Rightarrow> Factory registry \<Rightarrow>
       Grader list launched \<times> Factory registry" where
  "with_spec_graders depth env agent gs cs reg = (case register_grader_specs env agent gs reg of
     (Inl e, reg') \<Rightarrow> (Some (Inl e), reg')
   | (Inr names, reg') \<Rightarrow> (resolve_case_graders depth env reg' cs, foldl (\<lambda>r n. unregister_grader n r) reg' names))"

end
