(* ===== verification/Loader_Properties.thy ===== *)
theory Loader_Properties
  imports Loader_Spec Samples
begin

section \<open>What a saved specification loses\<close>

text \<open>
  A worker rehydrates the specification a run job carries.  Everything comes back: every grader with
  its checked parameters, whole funnels, the agent, the cases; only the time-out of an embedded agent
  and the description of an inline dataset are dropped.
\<close>

subsection \<open>Lookups\<close>

lemma field_of_append:
  "field_of (a @ b) k = (if k \<in> set (dict_keys a) then field_of a k else field_of b k)"
proof (cases "map_of a k")
  case None
  then have "k \<notin> set (dict_keys a)" by (simp add: map_of_eq_None_iff dict_keys_def)
  with None show ?thesis by (simp add: field_of_def dict_get_def map_add_def split: option.splits)
next
  case (Some v)
  then have "k \<in> set (dict_keys a)" by (force simp: dict_keys_def dest: map_of_SomeD)
  with Some show ?thesis by (simp add: field_of_def dict_get_def map_add_def split: option.splits)
qed

lemma field_of_simps [simp]:
  "field_of [] k = JNull"
  "field_of ((k', v) # d) k = (if k = k' then v else field_of d k)"
  by (simp_all add: field_of_def dict_get_def)

lemma dict_get_simps:
  "dict_get ((k', v) # d) k x = (if k = k' then v else dict_get d k x)"
  by (simp add: dict_get_def)

lemma map_of_fields: "k \<notin> set (dict_keys d) \<Longrightarrow> map_of d k = None"
  by (simp add: map_of_eq_None_iff dict_keys_def)

lemma field_of_absent: "k \<notin> set (dict_keys d) \<Longrightarrow> field_of d k = JNull"
  by (simp add: field_of_def dict_get_def map_of_fields)

lemma dict_keys_simps [simp]:
  "dict_keys [] = []" "dict_keys (kv # d) = fst kv # dict_keys d" "dict_keys (a @ b) = dict_keys a @ dict_keys b"
  by (simp_all add: dict_keys_def)

lemma opt_entry_simps [simp]:
  "opt_entry k f None = []" "opt_entry k f (Some x) = [(k, f x)]"
  by (simp_all add: opt_entry_def)

subsection \<open>Parameters\<close>

definition settles :: "(json \<Rightarrow> json result) \<Rightarrow> bool" where
  "settles p \<longleftrightarrow> (\<forall>v w. p v = Inr w \<longrightarrow> v \<noteq> JNull \<longrightarrow> w \<noteq> JNull \<and> p w = Inr w)"

lemma name_value_Inr: "name_value names v = Inr w \<longleftrightarrow> (\<exists>s \<in> set names. v = JStr s \<and> w = v)"
  by (cases v) (auto simp: name_value_def member_of_def bind_result_Inr_iff split: if_splits)

lemma settles_values: "settles (name_value names)" "settles threshold_value" "settles bool_value" "settles path_value"
proof -
  show "settles (name_value names)" by (auto simp: settles_def name_value_Inr)
  show "settles threshold_value"
    unfolding settles_def by (intro allI impI) (auto simp: threshold_value_def split: json.splits if_splits)
  show "settles bool_value" unfolding settles_def by (auto simp: bool_value_def split: json.splits)
  show "settles path_value" unfolding settles_def by (auto simp: path_value_def bind_result_Inr_iff split: json.splits)
qed

lemma parse_params_keys: "parse_params fs raw = Inr d \<Longrightarrow> set (dict_keys d) \<subseteq> fst ` set fs"
proof (induction fs arbitrary: d)
  case (Cons f fs)
  then show ?case by (cases f) (fastforce simp: bind_result_Inr_iff split: if_splits)
qed simp

lemma parse_params_again:
  assumes "distinct (map fst fs)" "list_all (\<lambda>f. settles (snd f)) fs" "parse_params fs raw = Inr d"
    and "set (dict_keys pre) \<inter> fst ` set fs = {}" "set (dict_keys post) \<inter> fst ` set fs = {}"
  shows "parse_params fs (pre @ d @ post) = Inr d"
  using assms
proof (induction fs arbitrary: d pre)
  case (Cons f fs)
  obtain k p where f: "f = (k, p)" by (cases f)
  show ?case
  proof (cases "field_of raw k = JNull")
    case True
    with Cons.prems f have d: "parse_params fs raw = Inr d" by simp
    have "k \<notin> set (dict_keys d)" using parse_params_keys [OF d] Cons.prems(1) f by auto
    then have "field_of (pre @ d @ post) k = JNull"
      using Cons.prems(4,5) f by (auto simp: field_of_append intro!: field_of_absent)
    then show ?thesis using Cons.IH [OF _ _ d] Cons.prems f by auto
  next
    case False
    then have "\<exists>w. p (field_of raw k) = Inr w \<and> (\<exists>d'. parse_params fs raw = Inr d' \<and> (k, w) # d' = d)"
      using Cons.prems(3) unfolding f by (simp add: bind_result_Inr_iff)
    then obtain w d' where w: "p (field_of raw k) = Inr w" and d': "parse_params fs raw = Inr d'"
      and d: "d = (k, w) # d'" by blast
    have "settles p" using Cons.prems(2) f by simp
    then have again: "w \<noteq> JNull" "p w = Inr w" using w False unfolding settles_def by blast+
    have "field_of (pre @ d @ post) k = w" using Cons.prems(4) f d by (auto simp: field_of_append)
    moreover have "parse_params fs ((pre @ [(k, w)]) @ d' @ post) = Inr d'"
      by (rule Cons.IH [OF _ _ d']) (use Cons.prems f in auto)
    ultimately show ?thesis using again d f by simp
  qed
qed simp

lemmas params_again = parse_params_again [where pre = "[]" and post = "[]", simplified]

lemma fields_settle:
  "distinct (map fst SET_MATCH_FIELDS)" "list_all (\<lambda>f. settles (snd f)) SET_MATCH_FIELDS"
  "distinct (map fst PAIRWISE_FIELDS)" "list_all (\<lambda>f. settles (snd f)) PAIRWISE_FIELDS"
  "distinct (map fst CONFUSION_FIELDS)" "list_all (\<lambda>f. settles (snd f)) CONFUSION_FIELDS"
  by (simp_all add: SET_MATCH_FIELDS_def PAIRWISE_FIELDS_def CONFUSION_FIELDS_def settles_values)

subsection \<open>Funnels\<close>

lemma case_field_keys: "case_field kd m = Inr cs \<Longrightarrow> set (dict_keys cs) \<subseteq> {''case_sensitive''}"
  using parse_params_keys [of "[(''case_sensitive'', bool_value)]" m cs] by (auto simp: case_field_def split: if_splits)

lemma case_field_again:
  assumes "case_field kd m = Inr cs" "''case_sensitive'' \<notin> set (dict_keys pre)"
  shows "case_field kd (pre @ cs) = Inr cs"
  using assms parse_params_again [of "[(''case_sensitive'', bool_value)]" m cs pre "[]"]
  by (auto simp: case_field_def settles_values split: if_splits)

lemma kind_fields_again:
  assumes "kind_fields kd m = Inr fs" "set (dict_keys cs) \<subseteq> {''case_sensitive''}"
  shows "kind_fields kd ((''kind'', JStr kd) # fs @ cs) = Inr fs"
    and "''kind'' \<notin> set (dict_keys fs)" "''grader'' \<notin> set (dict_keys fs)" "''case_sensitive'' \<notin> set (dict_keys fs)"
proof -
  let ?ps = "[(''gating'', name_value SET_MATCH_GATINGS), (''threshold'', threshold_value)]"
  have fs: "parse_params ?ps m = Inr fs" if "kd = ''set_match''"
    using assms(1) that by (simp add: kind_fields_def)
  have again: "parse_params ?ps ([(''kind'', JStr kd)] @ fs @ cs) = Inr fs" if "kd = ''set_match''"
    by (rule parse_params_again [OF _ _ fs [OF that]]) (use assms(2) in \<open>auto simp: settles_values\<close>)
  have keys: "set (dict_keys fs) \<subseteq> {''gating'', ''threshold''}" if "kd = ''set_match''"
    using parse_params_keys [OF fs [OF that]] by simp
  consider "kd = ''set_match''" | "kd = ''by_index''" | "kd \<noteq> ''set_match''" "kd \<noteq> ''by_index''" by blast
  then have "kind_fields kd ((''kind'', JStr kd) # fs @ cs) = Inr fs \<and> ''kind'' \<notin> set (dict_keys fs) \<and>
    ''grader'' \<notin> set (dict_keys fs) \<and> ''case_sensitive'' \<notin> set (dict_keys fs)"
  proof cases
    case 1
    then show ?thesis using again keys by (auto simp: kind_fields_def)
  next
    case 2
    then show ?thesis using assms
      by (auto simp: kind_fields_def required_value_def bind_result_Inr_iff split: json.splits option.splits)
  next
    case 3
    then show ?thesis using assms
      by (auto simp: kind_fields_def required_value_def bind_result_Inr_iff nonempty_text_Inr name_value_Inr
          split: option.splits if_splits)
  qed
  then show "kind_fields kd ((''kind'', JStr kd) # fs @ cs) = Inr fs"
    "''kind'' \<notin> set (dict_keys fs)" "''grader'' \<notin> set (dict_keys fs)" "''case_sensitive'' \<notin> set (dict_keys fs)"
    by blast+
qed

lemma funnel_match_again:
  assumes "funnel_match v = Inr w"
  shows "funnel_match w = Inr w"
proof -
  obtain m where v: "v = JObj m" using assms by (cases v) (simp_all add: funnel_match_def)
  show ?thesis
  proof (cases "''grader'' \<in> set (dict_keys m)")
    case True
    with assms v obtain r where "w = JObj [(''grader'', JStr r)]" "r \<noteq> []"
      by (auto simp: funnel_match_def bind_result_Inr_iff nonempty_text_Inr split: if_splits)
    then show ?thesis by (simp add: funnel_match_def nonempty_text_def)
  next
    case False
    with assms v obtain kd fs cs where kd: "kd \<in> set FUNNEL_MATCH_KINDS" and fs: "kind_fields kd m = Inr fs"
      and cs: "case_field kd m = Inr cs" and w: "w = JObj ((''kind'', JStr kd) # fs @ cs)"
      by (auto simp: funnel_match_def bind_result_Inr_iff name_value_Inr text_value_def split: if_splits)
    note keys = case_field_keys [OF cs] and again = kind_fields_again [OF fs case_field_keys [OF cs]]
    have "case_field kd (((''kind'', JStr kd) # fs) @ cs) = Inr cs"
      by (rule case_field_again [OF cs]) (use again in simp)
    moreover have "name_value FUNNEL_MATCH_KINDS (JStr kd) = Inr (JStr kd)" using kd by (simp add: name_value_Inr)
    moreover have "''grader'' \<notin> set (dict_keys (fs @ cs))" using again keys by auto
    ultimately show ?thesis using again(1) w by (simp add: funnel_match_def text_value_def)
  qed
qed

lemma level_head_again:
  assumes "level_head d seen = Inr h"
  obtains d' where "level_json h children = JObj d'" "level_head d' seen = Inr h" "level_children d' = Inr children"
proof -
  have h: "lh_key h \<noteq> []" "lh_key h \<notin> set seen" "validate_path (lh_extract h) = Inr ()" "lh_failure_mode h \<noteq> Some []"
    "funnel_match (lh_match h) = Inr (lh_match h)"
    using assms by (auto simp: level_head_def bind_result_Inr_iff nonempty_text_Inr funnel_match_again)
  show thesis
  proof
    show "level_json h children = JObj ([(''key'', JStr (lh_key h)), (''extract'', JStr (lh_extract h)),
      (''gate'', JBool (lh_gate h)), (''feeds_extract'', JBool (lh_feeds h)), (''match'', lh_match h),
      (''children'', JList children)] @ opt_entry ''failure_mode'' JStr (lh_failure_mode h))" (is "_ = JObj ?d")
      by (simp add: level_json_def)
    show "level_children ?d = Inr children" by (simp add: level_children_def dict_get_simps)
    have fm: "field_of ?d ''failure_mode'' = (case lh_failure_mode h of None \<Rightarrow> JNull | Some m \<Rightarrow> JStr m)"
      by (cases "lh_failure_mode h") simp_all
    have "level_head ?d seen = bind_result (opt_text (field_of ?d ''failure_mode'')) (\<lambda>fm.
        bind_result (ensure (fm \<noteq> Some [])) (\<lambda>_. Inr \<lparr>lh_key = lh_key h, lh_extract = lh_extract h, lh_gate = lh_gate h,
          lh_feeds = lh_feeds h, lh_failure_mode = fm, lh_match = lh_match h\<rparr>))"
      using h by (simp add: level_head_def nonempty_text_def ensure_def dict_get_simps bool_field_def text_value_def)
    then show "level_head ?d seen = Inr h"
      using h(4) unfolding fm by (cases "lh_failure_mode h") (simp_all add: opt_text_def ensure_def)
  qed
qed

lemma funnel_again:
  "\<forall>out seen'. funnel_level n seen = Inr (out, seen') \<longrightarrow> funnel_level out seen = Inr (out, seen')"
  "\<forall>outs seen'. funnel_levels ns seen = Inr (outs, seen') \<longrightarrow> funnel_levels outs seen = Inr (outs, seen')"
proof (induction n seen and ns seen rule: funnel_level_funnel_levels.induct)
  case (1 node seen)
  show ?case
  proof (intro allI impI)
    fix out seen'
    assume ran: "funnel_level node seen = Inr (out, seen')"
    then obtain d where node: "node = JObj d" by (subst (asm) funnel_level.simps, cases node) auto
    from ran obtain cs where cs: "level_children d = Inr cs"
      unfolding node by (subst (asm) funnel_level.simps, cases "level_children d") (auto simp: bind_result_Inr_iff)
    from ran obtain h children where h: "level_head d seen = Inr h"
      and children: "funnel_levels cs (lh_key h # seen) = Inr (children, seen')" and out: "out = level_json h children"
      unfolding node by (subst (asm) funnel_level.simps) (auto simp: bind_result_Inr_iff cs)
    have again: "funnel_levels children (lh_key h # seen) = Inr (children, seen')"
      using "1.IH" node cs children by blast
    obtain d' where "level_json h children = JObj d'" "level_head d' seen = Inr h" "level_children d' = Inr children"
      using level_head_again [OF h] by blast
    then show "funnel_level out seen = Inr (out, seen')"
      using again out by (simp add: funnel_level.simps [of "JObj d'"])
  qed
next
  case (3 n ns seen)
  show ?case
  proof (intro allI impI)
    fix outs seen'
    assume "funnel_levels (n # ns) seen = Inr (outs, seen')"
    then obtain out seen1 outs1 where first: "funnel_level n seen = Inr (out, seen1)"
      and others: "funnel_levels ns seen1 = Inr (outs1, seen')" and outs: "outs = out # outs1"
      by (auto simp: bind_result_Inr_iff)
    have "funnel_level out seen = Inr (out, seen1)" using "3.IH"(1) first by blast
    moreover have "funnel_levels outs1 seen1 = Inr (outs1, seen')" using "3.IH"(2) others by blast
    ultimately show "funnel_levels outs seen = Inr (outs, seen')" unfolding outs by simp
  qed
qed simp

lemma funnel_levels_Nil: "funnel_levels ns seen = Inr ([], seen') \<Longrightarrow> ns = []"
  by (cases ns) (auto simp: bind_result_Inr_iff)

subsection \<open>Grader entries\<close>

lemma dict_get_append:
  "k \<notin> set (dict_keys b) \<Longrightarrow> dict_get (a @ b) k x = dict_get a k x"
  "k \<notin> set (dict_keys a) \<Longrightarrow> dict_get (a @ b) k x = dict_get b k x"
  by (simp_all add: dict_get_def map_add_def map_of_fields split: option.splits)

lemma opt_entry_keys: "set (dict_keys (opt_entry k f v)) \<subseteq> {k}"
  by (cases v) simp_all

lemma dump_fields:
  "field_of (dump_grader_spec g) ''type'' = JStr (gs_type g)"
  "field_of (dump_grader_spec g) ''name'' = JStr (gs_name g)"
  "field_of (dump_grader_spec g) ''rubric'' = (case gs_rubric g of None \<Rightarrow> JNull | Some s \<Rightarrow> JStr s)"
  "field_of (dump_grader_spec g) ''judge_entrypoint'' =
     (case gs_judge_entrypoint g of None \<Rightarrow> JNull | Some e \<Rightarrow> JStr (ae_raw e))"
  "dict_get (dump_grader_spec g) ''n_judges'' x = (case gs_n_judges g of None \<Rightarrow> x | Some i \<Rightarrow> JInt i)"
  "dict_get (dump_grader_spec g) ''consensus'' x = (case gs_consensus g of None \<Rightarrow> x | Some c \<Rightarrow> JStr c)"
  "params_of (dump_grader_spec g) = Inr (gs_params g)"
  by (cases "gs_rubric g"; cases "gs_judge_entrypoint g"; cases "gs_n_judges g"; cases "gs_consensus g";
      simp add: dump_grader_spec_def params_of_def dict_get_simps)+

lemma grader_params_again:
  assumes "grader_params t entry = Inr ps" "params_of d = Inr ps"
  shows "grader_params t d = Inr ps"
proof -
  have funnel: "parse_funnel_params d = Inr ps" if run: "parse_funnel_params entry = Inr ps"
  proof -
    from run obtain raw where raw: "(case field_of raw ''levels'' of
        JList (n # ns) \<Rightarrow> bind_result (funnel_levels (n # ns) []) (\<lambda>(levels, _). Inr [(''levels'', JList levels)])
      | _ \<Rightarrow> Inl ValueError) = Inr ps"
      unfolding parse_funnel_params_def bind_result_Inr_iff by blast
    then obtain n ns where "field_of raw ''levels'' = JList (n # ns)"
      by (cases "field_of raw ''levels''") (simp_all split: list.splits)
    with raw obtain levels seen where "funnel_levels (n # ns) [] = Inr (levels, seen)" "ps = [(''levels'', JList levels)]"
      by (auto simp: bind_result_Inr_iff simp del: funnel_levels.simps)
    moreover from this(1) have "funnel_levels levels [] = Inr (levels, seen)" using funnel_again(2) by blast
    moreover have "levels \<noteq> []" using funnel_levels_Nil calculation(1) by blast
    ultimately show ?thesis using assms(2)
      by (cases levels) (auto simp: parse_funnel_params_def simp del: funnel_levels.simps)
  qed
  have pairwise: "parse_pairwise_params d = Inr ps" if "parse_pairwise_params entry = Inr ps"
    using that assms(2) params_again [OF fields_settle(3,4)] by (auto simp: parse_pairwise_params_def bind_result_Inr_iff)
  have confusion: "parse_confusion_params d = Inr ps" if "parse_confusion_params entry = Inr ps"
    using that assms(2) params_again [OF fields_settle(5,6)] by (auto simp: parse_confusion_params_def bind_result_Inr_iff)
  have set_match: "parse_set_match_params d = Inr ps" if "parse_set_match_params entry = Inr ps"
    using that assms(2) params_again [OF fields_settle(1,2)] by (auto simp: parse_set_match_params_def bind_result_Inr_iff)
  show ?thesis using assms(1) funnel pairwise confusion set_match unfolding grader_params_def by presburger
qed

lemma judge_entrypoint_again:
  assumes "parse_judge_entrypoint entry = Inr j"
    and "field_of d ''judge_entrypoint'' = (case j of None \<Rightarrow> JNull | Some e \<Rightarrow> JStr (ae_raw e))"
  shows "parse_judge_entrypoint d = Inr j"
  using assms by (auto simp: parse_judge_entrypoint_def split: json.splits prod.splits option.splits)

lemma grader_spec_again:
  assumes "build_grader_spec v seen = Inr g"
  shows "build_grader_spec (JObj (dump_grader_spec g)) seen = Inr g"
proof -
  obtain entry where v: "v = JObj entry" using assms by (cases v) (simp_all add: build_grader_spec_def)
  let ?t = "gs_type g" and ?d = "dump_grader_spec g"
  note run = assms [unfolded v build_grader_spec_def json.case bind_result_Inr_iff ensure_Inr]
  have t: "?t \<in> set SUPPORTED_GRADER_TYPES" and nm: "gs_name g \<noteq> []" "gs_name g \<notin> set seen"
    and rubric: "when_result (?t \<in> set judge_types) (parse_rubric entry) = Inr (gs_rubric g)"
    and judge: "(if ?t \<in> set judge_types then parse_judge_entrypoint entry else Inr None) = Inr (gs_judge_entrypoint g)"
    and n: "when_result (?t = ''judge_panel'') (parse_n_judges entry) = Inr (gs_n_judges g)"
    and c: "when_result (?t = ''judge_panel'') (parse_consensus entry) = Inr (gs_consensus g)"
    and ps: "grader_params ?t entry = Inr (gs_params g)"
    using run by (auto simp: grader_name_def nonempty_text_Inr)
  have "when_result (?t \<in> set judge_types) (parse_rubric ?d) = Inr (gs_rubric g)"
    using rubric by (cases "gs_rubric g") (auto simp: when_result_def parse_rubric_def text_value_def bind_result_Inr_iff
        dump_fields split: if_splits json.splits)
  moreover have "(if ?t \<in> set judge_types then parse_judge_entrypoint ?d else Inr None) = Inr (gs_judge_entrypoint g)"
    using judge judge_entrypoint_again [OF _ dump_fields(4)] by (auto split: if_splits)
  moreover have "when_result (?t = ''judge_panel'') (parse_n_judges ?d) = Inr (gs_n_judges g)"
    using n by (cases "gs_n_judges g")
      (auto simp: when_result_def parse_n_judges_def bind_result_Inr_iff dump_fields split: if_splits json.splits)
  moreover have "when_result (?t = ''judge_panel'') (parse_consensus ?d) = Inr (gs_consensus g)"
    using c by (cases "gs_consensus g") (auto simp: when_result_def parse_consensus_def bind_result_Inr_iff dump_fields
        name_value_Inr text_value_def split: if_splits)
  moreover have "grader_params ?t ?d = Inr (gs_params g)" by (rule grader_params_again [OF ps dump_fields(7)])
  moreover have "grader_name ?d ?t = Inr (gs_name g)" using nm by (simp add: grader_name_def dump_fields nonempty_text_def)
  ultimately show ?thesis using t nm by (simp add: build_grader_spec_def dump_fields text_value_def ensure_def)
qed

lemma grader_list_again:
  "build_grader_list vs seen = Inr gs \<Longrightarrow> build_grader_list (map (\<lambda>g. JObj (dump_grader_spec g)) gs) seen = Inr gs"
proof (induction vs arbitrary: seen gs)
  case (Cons v vs)
  then obtain g gs' where "build_grader_spec v seen = Inr g" "build_grader_list vs (gs_name g # seen) = Inr gs'" "gs = g # gs'"
    by (auto simp: bind_result_Inr_iff)
  with Cons.IH grader_spec_again show ?case by simp
qed simp

lemma build_grader_specs_list: "build_grader_specs raw = Inr gs \<Longrightarrow> \<exists>vs. build_grader_list vs [] = Inr gs"
  by (cases "field_of raw ''graders''") (auto simp: build_grader_specs_def intro: exI [of _ "[]"])

subsection \<open>Agents\<close>

definition saved_agent :: "AgentSpec \<Rightarrow> AgentSpec" where
  "saved_agent a = (case a of EmbeddedAgentSpec e _ \<Rightarrow> EmbeddedAgentSpec e None | _ \<Rightarrow> a)"

lemma timeout_again:
  assumes "parse_timeout v = Inr t" "field_of d ''timeout_seconds'' = (case t of None \<Rightarrow> JNull | Some q \<Rightarrow> JFloat q)"
  shows "parse_timeout (field_of d ''timeout_seconds'') = Inr t"
  unfolding assms(2) using assms(1) by (auto simp: parse_timeout_def split: json.splits if_splits)

lemma model_again:
  assumes "parse_agent_model v = Inr m" "field_of d ''model'' = (case m of None \<Rightarrow> JNull | Some x \<Rightarrow> dump_agent_model x)"
  shows "parse_agent_model (field_of d ''model'') = Inr m"
  unfolding assms(2) using assms(1)
  by (auto simp: parse_agent_model_def dump_agent_model_def split: json.splits if_splits)

lemma str_map_again:
  "parse_str_map v = Inr m \<Longrightarrow> parse_str_map (case m of None \<Rightarrow> JNull | Some x \<Rightarrow> dump_str_map x) = Inr m"
proof -
  have "map_result text_field (map (\<lambda>(k, s). (k, JStr s)) x) = Inr x" for x
    by (induction x) (auto simp: text_field_def)
  then show ?thesis by (cases m) (simp_all add: parse_str_map_def dump_str_map_def)
qed

lemma texts_again: "map_result text_value (map JStr xs) = Inr xs"
  by (induction xs) (simp_all add: text_value_def)

lemma command_again:
  assumes "parse_command v = Inr xs"
  shows "parse_command (JList (map JStr xs)) = Inr xs"
  using assms texts_again [of xs]
  by (cases xs) (auto simp: parse_command_def bind_result_Inr_iff split: json.splits list.splits)

lemma cli_fields:
  fixes command env timeout model cwd
  defines "d \<equiv> dump_agent_spec (CliAgentSpec command env timeout model cwd)"
  shows "field_of d ''type'' = JStr ''cli''" "''entrypoint'' \<notin> set (dict_keys d)"
    "field_of d ''command'' = JList (map JStr command)"
    "field_of d ''env'' = (case env of None \<Rightarrow> JNull | Some x \<Rightarrow> dump_str_map x)"
    "field_of d ''timeout_seconds'' = (case timeout of None \<Rightarrow> JNull | Some q \<Rightarrow> JFloat q)"
    "field_of d ''model'' = (case model of None \<Rightarrow> JNull | Some x \<Rightarrow> dump_agent_model x)"
    "field_of d ''cwd'' = (case cwd of None \<Rightarrow> JNull | Some x \<Rightarrow> JStr x)"
  unfolding d_def by (cases env; cases timeout; cases model; cases cwd; simp)+

lemma http_fields:
  fixes url headers timeout model
  defines "d \<equiv> dump_agent_spec (HttpAgentSpec url headers timeout model)"
  shows "field_of d ''type'' = JStr ''http''" "''entrypoint'' \<notin> set (dict_keys d)" "field_of d ''url'' = JStr url"
    "field_of d ''headers'' = (case headers of None \<Rightarrow> JNull | Some x \<Rightarrow> dump_str_map x)"
    "field_of d ''timeout_seconds'' = (case timeout of None \<Rightarrow> JNull | Some q \<Rightarrow> JFloat q)"
    "field_of d ''model'' = (case model of None \<Rightarrow> JNull | Some x \<Rightarrow> dump_agent_model x)"
  unfolding d_def by (cases headers; cases timeout; cases model; simp)+

lemma embedded_again:
  "build_embedded_agent_spec d = Inr a \<Longrightarrow> build_embedded_agent_spec (dump_agent_spec a) = Inr (saved_agent a)"
  by (auto simp: build_embedded_agent_spec_def bind_result_Inr_iff parse_entrypoint_def parse_timeout_def saved_agent_def
      split: json.splits prod.splits option.splits if_splits)

lemma cli_again:
  assumes "build_cli_agent_spec d = Inr a"
  shows "build_cli_agent_spec (dump_agent_spec a) = Inr a"
proof -
  obtain command env timeout model cwd where a: "a = CliAgentSpec command env timeout model cwd"
    and parts: "parse_command (field_of d ''command'') = Inr command" "parse_str_map (field_of d ''env'') = Inr env"
      "parse_timeout (field_of d ''timeout_seconds'') = Inr timeout" "parse_agent_model (field_of d ''model'') = Inr model"
    using assms by (auto simp: build_cli_agent_spec_def bind_result_Inr_iff)
  note d = cli_fields [of command env timeout model cwd]
  have "opt_text (field_of (dump_agent_spec a) ''cwd'') = Inr cwd"
    unfolding a d(7) by (cases cwd) (simp_all add: opt_text_def)
  moreover note command_again [OF parts(1)] str_map_again [OF parts(2)] timeout_again [OF parts(3) d(5)] model_again [OF parts(4) d(6)]
  ultimately show ?thesis
    using d(2) unfolding a build_cli_agent_spec_def by (simp add: d(3,4) ensure_def del: dump_agent_spec.simps)
qed

lemma http_again:
  assumes "build_http_agent_spec d = Inr a"
  shows "build_http_agent_spec (dump_agent_spec a) = Inr a"
proof -
  obtain url headers timeout model where a: "a = HttpAgentSpec url headers timeout model" and url: "strip url \<noteq> []"
    and parts: "parse_str_map (field_of d ''headers'') = Inr headers"
      "parse_timeout (field_of d ''timeout_seconds'') = Inr timeout" "parse_agent_model (field_of d ''model'') = Inr model"
    using assms by (auto simp: build_http_agent_spec_def bind_result_Inr_iff)
  note d = http_fields [of url headers timeout model]
  note str_map_again [OF parts(1)] timeout_again [OF parts(2) d(5)] model_again [OF parts(3) d(6)]
  then show ?thesis
    using d(2) url unfolding a build_http_agent_spec_def
    by (simp add: d(3,4) ensure_def text_value_def del: dump_agent_spec.simps)
qed

lemma agent_again:
  assumes "build_agent_spec raw = Inr a" "dict_get raw' ''agent'' (JObj []) = JObj (dump_agent_spec a)"
  shows "build_agent_spec raw' = Inr (saved_agent a)"
proof -
  have "(\<exists>d. build_embedded_agent_spec d = Inr a) \<or> (\<exists>d. build_cli_agent_spec d = Inr a) \<or> (\<exists>d. build_http_agent_spec d = Inr a)"
    using assms(1) by (auto simp: build_agent_spec_def split: json.splits if_splits)
  then consider d where "build_embedded_agent_spec d = Inr a" | d where "build_cli_agent_spec d = Inr a"
    | d where "build_http_agent_spec d = Inr a" by blast
  then show ?thesis
  proof cases
    case (1 d)
    then obtain e t where a: "a = EmbeddedAgentSpec e t" by (auto simp: build_embedded_agent_spec_def bind_result_Inr_iff)
    then have "field_of (dump_agent_spec a) ''type'' = JStr ''embedded''" by simp
    then show ?thesis using embedded_again [OF 1] by (simp add: build_agent_spec_def assms(2))
  next
    case (2 d)
    then obtain command env timeout model cwd where a: "a = CliAgentSpec command env timeout model cwd"
      by (auto simp: build_cli_agent_spec_def bind_result_Inr_iff)
    then have "field_of (dump_agent_spec a) ''type'' = JStr ''cli''" "saved_agent a = a" by (simp_all add: saved_agent_def)
    then show ?thesis using cli_again [OF 2] by (simp add: build_agent_spec_def assms(2))
  next
    case (3 d)
    then obtain url headers timeout model where a: "a = HttpAgentSpec url headers timeout model"
      by (auto simp: build_http_agent_spec_def bind_result_Inr_iff)
    then have "field_of (dump_agent_spec a) ''type'' = JStr ''http''" "saved_agent a = a" by (simp_all add: saved_agent_def)
    then show ?thesis using http_again [OF 3] by (simp add: build_agent_spec_def assms(2))
  qed
qed

subsection \<open>Whole specifications\<close>

text \<open>What comes back: all but the time-out of an embedded agent and the description of an inline dataset.\<close>

definition saved_source :: "DatasetSpec \<Rightarrow> DatasetSpec" where
  "saved_source d = (case d of
     InlineDatasetSource i \<Rightarrow> InlineDatasetSource \<lparr>il_cases = il_cases i, il_name = None, il_dataset_type = None,
       il_split_allocation = None, il_description = None\<rparr>
   | RefDatasetSource r \<Rightarrow> RefDatasetSource r)"

definition saved :: "ExperimentSpec \<Rightarrow> ExperimentSpec" where
  "saved s = s\<lparr>es_agent := saved_agent (es_agent s), es_dataset_source := saved_source (es_dataset_source s)\<rparr>"

text \<open>Pydantic reads back what it dumped, and a dump names the entity and its workspace.\<close>

definition names_entity :: "json dict \<Rightarrow> bool" where
  "names_entity d \<longleftrightarrow> ''id'' \<in> set (dict_keys d) \<and> ''workspace_id'' \<in> set (dict_keys d)"

definition dumps_back :: "LoaderEnv \<Rightarrow> ExperimentSpec \<Rightarrow> bool" where
  "dumps_back env s \<longleftrightarrow>
     names_entity (le_dump_experiment env (es_experiment s)) \<and>
     le_experiment env (le_dump_experiment env (es_experiment s)) = Some (es_experiment s) \<and>
     list_all (\<lambda>c. names_entity (le_dump_case env c) \<and> le_case env (le_dump_case env c) = Some c) (es_cases s)"

lemma with_default_present [simp]:
  "names_entity d \<Longrightarrow> with_default ''workspace_id'' w (with_default ''id'' i d) = d"
  by (simp add: names_entity_def with_default_def)

lemma cases_again:
  assumes "list_all (\<lambda>c. names_entity (le_dump_case env c) \<and> le_case env (le_dump_case env c) = Some c) cs"
  shows "map_result (build_case env ws) (enumerate n (map (\<lambda>c. JObj (le_dump_case env c)) cs)) = Inr cs"
  using assms by (induction cs arbitrary: n) (simp_all add: build_case_def or_fail_def)

lemma build_cases_nonempty: "build_cases env d ws = Inr cs \<Longrightarrow> cs \<noteq> []"
proof
  assume "build_cases env d ws = Inr cs" "cs = []"
  then obtain rows where "rows \<noteq> []" "map_result (build_case env ws) (enumerate 0 rows) = Inr []"
    by (auto simp: build_cases_def bind_result_Inr_iff split: if_splits)
  moreover from this(2) have "length (enumerate 0 rows) = length ([] :: EvalCase list)"
    by (intro list_all2_lengthD [OF map_result_InrD])
  ultimately show False by simp
qed

lemma source_cases:
  assumes "build_dataset_source env raw ws = Inr (InlineDatasetSource i)"
  shows "il_cases i \<noteq> []"
proof -
  from assms obtain d where "build_inline_dataset_source env d ws = Inr (InlineDatasetSource i)"
    by (auto simp: build_dataset_source_def build_ref_dataset_source_def bind_result_Inr_iff Let_def
        split: json.splits if_splits)
  then obtain cs where "build_cases env d ws = Inr cs" "il_cases i = cs"
    by (auto simp: build_inline_dataset_source_def bind_result_Inr_iff)
  then show ?thesis using build_cases_nonempty by simp
qed

lemma source_ref:
  assumes "build_dataset_source env raw ws = Inr (RefDatasetSource r)"
  shows "valid_EntityRef r"
  using assms by (auto simp: build_dataset_source_def build_ref_dataset_source_def build_inline_dataset_source_def
      bind_result_Inr_iff Let_def split: json.splits if_splits)

lemma inline_again:
  assumes "field_of d ''cases_inline'' = JList (map (\<lambda>c. JObj (le_dump_case env c)) cs)" "set (dict_keys d) = {''cases_inline''}"
    and "list_all (\<lambda>c. names_entity (le_dump_case env c) \<and> le_case env (le_dump_case env c) = Some c) cs" "cs \<noteq> []"
  shows "build_inline_dataset_source env d ws = Inr (InlineDatasetSource
    \<lparr>il_cases = cs, il_name = None, il_dataset_type = None, il_split_allocation = None, il_description = None\<rparr>)"
proof -
  have none: "field_of d k = JNull" if "k \<noteq> ''cases_inline''" for k
    using assms(2) that by (intro field_of_absent) simp
  have "case_rows env d = Inr (map (\<lambda>c. JObj (le_dump_case env c)) cs)"
    by (simp add: case_rows_def assms(1) none)
  then have "build_cases env d ws = Inr cs" using assms(4) cases_again [OF assms(3)] by (simp add: build_cases_def)
  then show ?thesis
    by (simp add: build_inline_dataset_source_def opt_str_of_def opt_dataset_type_def opt_split_allocation_def none)
qed

lemma source_again:
  assumes "build_dataset_source env raw ws = Inr src" "es_dataset_source s = src"
    and "es_cases s = (case src of InlineDatasetSource i \<Rightarrow> il_cases i | RefDatasetSource _ \<Rightarrow> [])" "dumps_back env s"
    and "dict_get raw' ''dataset'' (JObj []) = JObj (dump_dataset_source env s)"
  shows "build_dataset_source env raw' ws' = Inr (saved_source src)"
proof (cases src)
  case (InlineDatasetSource i)
  let ?d = "[(''cases_inline'', JList (map (\<lambda>c. JObj (le_dump_case env c)) (il_cases i)))]"
  have d: "dump_dataset_source env s = ?d" using assms(2,3) InlineDatasetSource by (simp add: dump_dataset_source_def)
  have "build_inline_dataset_source env ?d ws' = Inr (saved_source src)"
    unfolding InlineDatasetSource saved_source_def DatasetSpec.case
    by (rule inline_again) (use assms(1,3,4) InlineDatasetSource source_cases in \<open>auto simp: dumps_back_def\<close>)
  then show ?thesis by (simp add: build_dataset_source_def assms(5) d)
next
  case (RefDatasetSource r)
  then have "valid_EntityRef r" using assms(1) source_ref by blast
  moreover have "dump_dataset_source env s = (''ref'', JStr (ref_id r)) # opt_entry ''version'' JInt (ref_version r)"
    using assms(2) RefDatasetSource by (simp add: dump_dataset_source_def)
  ultimately show ?thesis using RefDatasetSource
    by (cases "ref_version r") (auto simp: build_dataset_source_def assms(5) build_ref_dataset_source_def saved_source_def
        nonempty_text_def ref_version_of_def valid_EntityRef_def Let_def)
qed


text \<open>An agent in the process with a time-out, a funnel grader, an inline dataset with a name.\<close>

definition sample_loader :: LoaderEnv where
  "sample_loader =
     \<lparr>le_experiment = (\<lambda>_. Some sample_experiment), le_case = (\<lambda>_. Some (sample_case ''ec_1'' False)), le_split = (\<lambda>_. None),
      le_dump_experiment = (\<lambda>_. [(''id'', JStr ''ex_1''), (''workspace_id'', JStr ''ws_1'')]),
      le_dump_case = (\<lambda>_. [(''id'', JStr ''ec_1''), (''workspace_id'', JStr ''ws_1'')]), le_lines = (\<lambda>_. None),
      le_json = (\<lambda>_. None), le_str = (\<lambda>_. []), le_experiment_id = ''ex_9'', le_case_id = (\<lambda>_. ''ec_9'')\<rparr>"

definition sample_level :: json where
  "sample_level = JObj [(''key'', JStr ''plan''), (''match'', JObj [(''kind'', JStr ''equals''), (''value'', JInt 3)]),
     (''children'', JList [JObj [(''key'', JStr ''tool''), (''gate'', JBool True),
        (''match'', JObj [(''kind'', JStr ''tool_called''), (''tool'', JStr ''search'')])]])]"

definition sample_mapping :: "json dict" where
  "sample_mapping = [(''experiment'', JObj []), (''dataset'', JObj [(''cases_inline'', JList [JObj []]), (''name'', JStr ''d'')]),
     (''agent'', JObj [(''entrypoint'', JStr ''m:f''), (''timeout_seconds'', JInt 5)]),
     (''graders'', JList [JObj [(''type'', JStr ''funnel''), (''params'', JObj [(''levels'', JList [sample_level])])]])]"

definition sample_spec :: ExperimentSpec where
  "sample_spec =
     \<lparr>es_workspace_id = JStr ''ws_1'', es_experiment = sample_experiment, es_cases = [sample_case ''ec_1'' False],
      es_agent = EmbeddedAgentSpec \<lparr>ae_raw = ''m:f'', ae_module = ''m'', ae_attribute = ''f''\<rparr> (Some 5),
      es_dataset_source = InlineDatasetSource \<lparr>il_cases = [sample_case ''ec_1'' False], il_name = Some ''d'',
        il_dataset_type = None, il_split_allocation = None, il_description = None\<rparr>,
      es_graders = [\<lparr>gs_type = ''funnel'', gs_name = ''funnel'', gs_rubric = None, gs_judge_entrypoint = None,
        gs_n_judges = None, gs_consensus = None,
        gs_params = [(''levels'', JList [JObj [(''key'', JStr ''plan''), (''extract'', JStr []), (''gate'', JBool False),
          (''feeds_extract'', JBool False), (''match'', JObj [(''kind'', JStr ''equals''), (''value'', JInt 3)]),
          (''children'', JList [JObj [(''key'', JStr ''tool''), (''extract'', JStr []), (''gate'', JBool True),
            (''feeds_extract'', JBool False), (''match'', JObj [(''kind'', JStr ''tool_called''), (''tool'', JStr ''search'')]),
            (''children'', JList [])]])]])]\<rparr>]\<rparr>"

lemma sample_levels:
  "funnel_match (JObj [(''kind'', JStr ''equals''), (''value'', JInt 3)]) = Inr (JObj [(''kind'', JStr ''equals''), (''value'', JInt 3)])"
  "funnel_match (JObj [(''kind'', JStr ''tool_called''), (''tool'', JStr ''search'')]) =
     Inr (JObj [(''kind'', JStr ''tool_called''), (''tool'', JStr ''search'')])"
  "validate_path [] = Inr ()"
  by (simp_all add: funnel_match_def name_value_def member_of_def FUNNEL_MATCH_KINDS_def text_value_def kind_fields_def
      case_field_def required_value_def nonempty_text_def validate_path_def strip_def Let_def)

lemma sample_graders:
  "build_grader_specs sample_mapping = Inr (es_graders sample_spec)"
  by (simp add: build_grader_specs_def sample_mapping_def build_grader_spec_def text_value_def ensure_def
      SUPPORTED_GRADER_TYPES_def grader_name_def nonempty_text_def when_result_def judge_types_def grader_params_def
      parse_funnel_params_def params_of_def dict_get_simps sample_level_def funnel_level.simps level_head_def bool_field_def
      opt_text_def sample_levels level_children_def level_json_def sample_spec_def)

lemma sample_loads: "build_spec_from_mapping sample_loader (JStr ''ws_1'') sample_mapping = Inr sample_spec"
proof -
  have "build_agent_spec sample_mapping = Inr (es_agent sample_spec)"
    by (simp add: build_agent_spec_def sample_mapping_def dict_get_simps build_embedded_agent_spec_def parse_entrypoint_def
        split_first_def parse_timeout_def sample_spec_def)
  moreover have "build_dataset_source sample_loader sample_mapping (JStr ''ws_1'') = Inr (es_dataset_source sample_spec)"
    by (simp add: build_dataset_source_def sample_mapping_def dict_get_simps build_inline_dataset_source_def build_cases_def
        case_rows_def build_case_def or_fail_def sample_loader_def opt_str_of_def nonempty_text_def opt_dataset_type_def
        opt_split_allocation_def sample_spec_def)
  moreover have "build_experiment sample_loader sample_mapping (JStr ''ws_1'') = Inr sample_experiment"
    by (simp add: build_experiment_def sample_mapping_def or_fail_def sample_loader_def)
  moreover have "validate_primary_grader sample_experiment (es_graders sample_spec) [sample_case ''ec_1'' False] = Inr ()"
    by (simp add: validate_primary_grader_def sample_experiment_def)
  ultimately show ?thesis
    using sample_graders by (simp add: build_spec_from_mapping_def spec_workspace_def Let_def) (simp add: sample_spec_def)
qed


text \<open>A list where a name is expected is no \<^verbatim>\<open>LoaderError\<close>: the set of names cannot look it up.\<close>

lemma unhashable_name_escapes:
  "build_grader_specs [(''graders'', JList [JObj [(''type'', JStr ''set_match''),
     (''params'', JObj [(''gating'', JList [JStr ''f1''])])]])] = Inl TypeError"
  by (simp add: build_grader_specs_def build_grader_spec_def text_value_def ensure_def SUPPORTED_GRADER_TYPES_def
      grader_name_def nonempty_text_def when_result_def judge_types_def grader_params_def parse_set_match_params_def
      params_of_def dict_get_simps SET_MATCH_FIELDS_def name_value_def member_of_def)

end
