(* ===== verification/Launch_Properties.thy ===== *)
theory Launch_Properties
  imports Grader_Launch Loader_Properties
begin

section \<open>What the loader accepts can be built\<close>

text \<open>
  The loader and the launcher check the same specification at different times.  The lemmas carry what the
  loader has checked to the constructors of the graders: every declared grader is built under its
  name, if its judge can be imported and the graders its levels name are there and do not lead back
  to it.
\<close>

subsection \<open>Parameters\<close>

lemma parse_params_value:
  assumes "parse_params fs raw = Inr d" "map_of d k = Some w"
  shows "\<exists>p v. (k, p) \<in> set fs \<and> p v = Inr w"
  using assms
proof (induction fs arbitrary: d)
  case (Cons f fs)
  obtain k' p where f: "f = (k', p)" by (cases f)
  show ?case
  proof (cases "field_of raw k' = JNull")
    case True
    with Cons f show ?thesis by auto
  next
    case False
    then have "\<exists>v. p (field_of raw k') = Inr v \<and> (\<exists>d'. parse_params fs raw = Inr d' \<and> (k', v) # d' = d)"
      using Cons.prems(1) unfolding f by (simp add: bind_result_Inr_iff)
    then obtain v d' where "p (field_of raw k') = Inr v" "parse_params fs raw = Inr d'" "d = (k', v) # d'" by blast
    with Cons.IH [of d'] Cons.prems(2) f show ?thesis by (cases "k = k'") auto
  qed
qed simp

lemma threshold_value_Inr: "threshold_value v = Inr w \<Longrightarrow> \<exists>q. w = JFloat q \<and> 0 \<le> q \<and> q \<le> 1"
  by (auto simp: threshold_value_def split: json.splits if_splits)

lemma set_match_built:
  assumes "\<And>w. map_of m ''threshold'' = Some w \<Longrightarrow> \<exists>v. threshold_value v = Inr w"
    and "\<And>w. map_of m ''gating'' = Some w \<Longrightarrow> \<exists>v. name_value SET_MATCH_GATINGS v = Inr w"
    and "nm \<noteq> []" "validate_path slice = Inr ()"
  shows "\<exists>g. set_match_grader env nm m slice = Inr g \<and> grd_name g = nm"
proof -
  obtain q where "float_value env (dict_get m ''threshold'' (JFloat 1)) = Inr q" "0 \<le> q" "q \<le> 1"
  proof (cases "map_of m ''threshold''")
    case None
    with that [of 1] show ?thesis by (simp add: dict_get_def float_value_def)
  next
    case (Some w)
    with assms(1) threshold_value_Inr obtain q where "w = JFloat q" "0 \<le> q" "q \<le> 1" by blast
    with Some that [of q] show ?thesis by (simp add: dict_get_def float_value_def)
  qed
  moreover have "\<exists>gt. gating_of (dict_get m ''gating'' (JStr ''completeness'')) = Inr gt"
  proof (cases "map_of m ''gating''")
    case None
    then show ?thesis by (simp add: dict_get_def gating_of_def name_value_def member_of_def SET_MATCH_GATINGS_def)
  next
    case (Some w)
    with assms(2) obtain v where "name_value SET_MATCH_GATINGS v = Inr w" by blast
    then have "name_value SET_MATCH_GATINGS w = Inr w" by (auto simp: name_value_Inr)
    with Some show ?thesis by (simp add: dict_get_def gating_of_def)
  qed
  ultimately show ?thesis using assms(3,4) by (auto simp: set_match_grader_def make_SetMatchGrader_def)
qed

lemma detected_path [simp]: "validate_path ''detected'' = Inr ()" "validate_path ''label'' = Inr ()"
  by code_simp+

subsection \<open>Matches\<close>

lemma funnel_match_built:
  assumes "funnel_match v = Inr w" "validate_path slice = Inr ()" "nm \<noteq> []"
  shows "\<exists>m. w = JObj m \<and>
    (if ''grader'' \<in> set (dict_keys m) then \<exists>r. field_of m ''grader'' = JStr r
     else \<exists>g. build_kind env nm key slice m = Inr g)"
proof -
  obtain m0 where v: "v = JObj m0" using assms(1) by (cases v) (simp_all add: funnel_match_def)
  show ?thesis
  proof (cases "''grader'' \<in> set (dict_keys m0)")
    case True
    with assms(1) v obtain r where "w = JObj [(''grader'', JStr r)]"
      by (auto simp: funnel_match_def bind_result_Inr_iff nonempty_text_Inr split: if_splits)
    then show ?thesis by simp
  next
    case False
    with assms(1) v obtain kd fs cs where kd: "kd \<in> set FUNNEL_MATCH_KINDS" and fs: "kind_fields kd m0 = Inr fs"
      and cs: "case_field kd m0 = Inr cs" and w: "w = JObj ((''kind'', JStr kd) # fs @ cs)"
      by (auto simp: funnel_match_def bind_result_Inr_iff name_value_Inr text_value_def split: if_splits)
    let ?m = "(''kind'', JStr kd) # fs @ cs" and ?gn = "nm @ ''.'' @ key"
    note keys = case_field_keys [OF cs] and again = kind_fields_again [OF fs case_field_keys [OF cs]]
    have no_grader: "''grader'' \<notin> set (dict_keys ?m)" using keys again(3) by auto
    have here: "map_of ?m k = map_of fs k" if "k \<noteq> ''kind''" "k \<noteq> ''case_sensitive''" for k
      using that keys map_of_fields [of k cs] by (auto simp: map_add_def split: option.splits)
    have kind: "item_of ?m ''kind'' = Inr (JStr kd)" "cast_text (JStr kd) = Inr kd"
      by (simp_all add: item_of_def cast_text_def)
    have "\<exists>g. build_kind env nm key slice ?m = Inr g"
    proof (cases "kd = ''set_match''")
      case True
      then have ps: "parse_params [(''gating'', name_value SET_MATCH_GATINGS), (''threshold'', threshold_value)] m0 = Inr fs"
        using fs by (simp add: kind_fields_def)
      have "\<exists>g. set_match_grader env ?gn ?m (if slice = [] then ''detected'' else slice) = Inr g \<and> grd_name g = ?gn"
      proof (rule set_match_built)
        show "\<exists>v. threshold_value v = Inr w" if "map_of ?m ''threshold'' = Some w" for w
          using parse_params_value [OF ps, of "''threshold''" w] that here [of "''threshold''"] by auto
        show "\<exists>v. name_value SET_MATCH_GATINGS v = Inr w" if "map_of ?m ''gating'' = Some w" for w
          using parse_params_value [OF ps, of "''gating''" w] that here [of "''gating''"] by auto
      qed (use assms in simp_all)
      then show ?thesis unfolding build_kind_def kind bind_result_simps Let_def using True by auto
    next
      case False
      have "kd = ''exists'' \<or> kd = ''equals'' \<or> kd = ''set_match'' \<or> kd = ''by_key'' \<or> kd = ''by_index'' \<or>
          kd = ''tool_called'' \<or> kd = ''span_exists''"
        using kd by (simp only: FUNNEL_MATCH_KINDS_def list.set insert_iff empty_iff simp_thms)
      then show ?thesis
      proof (elim disjE)
        assume 1: "kd = ''exists''"
        show ?thesis using 1 unfolding build_kind_def kind bind_result_simps Let_def by simp
      next
        assume 2: "kd = ''equals''"
        then obtain x where "fs = [(''value'', x)]" using fs
          by (auto simp: kind_fields_def required_value_def split: option.splits)
        then have "item_of ?m ''value'' = Inr x" by (simp add: item_of_def)
        with 2 show ?thesis unfolding build_kind_def kind bind_result_simps Let_def by simp
      next
        assume "kd = ''set_match''"
        with False show ?thesis by simp
      next
        assume 3: "kd = ''by_key''"
        then obtain k x where "fs = [(''key'', JStr k), (''value'', x)]" using fs
          by (auto simp: kind_fields_def required_value_def bind_result_Inr_iff split: option.splits)
        then have "item_of ?m ''value'' = Inr x" "bind_result (item_of ?m ''key'') cast_text = Inr k"
          by (simp_all add: item_of_def cast_text_def)
        with 3 show ?thesis unfolding build_kind_def kind bind_result_simps Let_def by simp
      next
        assume 4: "kd = ''by_index''"
        then obtain i x where "fs = [(''index'', JInt i), (''value'', x)]" using fs
          by (auto simp: kind_fields_def required_value_def bind_result_Inr_iff split: option.splits json.splits)
        then have "item_of ?m ''value'' = Inr x" "bind_result (item_of ?m ''index'') cast_int = Inr i"
          by (simp_all add: item_of_def cast_int_def)
        with 4 show ?thesis unfolding build_kind_def kind bind_result_simps Let_def by simp
      next
        assume 5: "kd = ''tool_called''"
        then obtain t where "fs = [(''tool'', JStr t)]" using fs
          by (auto simp: kind_fields_def bind_result_Inr_iff)
        then have "bind_result (item_of ?m ''tool'') cast_text = Inr t" by (simp add: item_of_def cast_text_def)
        with 5 show ?thesis unfolding build_kind_def kind bind_result_simps Let_def by simp
      next
        assume 6: "kd = ''span_exists''"
        then obtain s where s: "fs = [(''span_kind'', JStr s)]" "s \<in> set SPAN_KINDS" using fs
          by (auto simp: kind_fields_def bind_result_Inr_iff name_value_Inr)
        then obtain k where "s = SpanKind_value k" "k \<in> set SpanKind_members" by (auto simp: SPAN_KINDS_def)
        then have "enum_of SpanKind_value SpanKind_members s = Inr k" by (simp add: SpanKind_enum.of_value)
        moreover have "bind_result (item_of ?m ''span_kind'') cast_text = Inr s" using s(1) by (simp add: item_of_def cast_text_def)
        ultimately show ?thesis using 6 unfolding build_kind_def kind bind_result_simps Let_def by simp
      qed
    qed
    with no_grader w show ?thesis by simp
  qed
qed

subsection \<open>Funnels\<close>

text \<open>The graders the levels of a funnel name.\<close>

function level_refs :: "json \<Rightarrow> string list" and levels_refs :: "json list \<Rightarrow> string list" where
  "level_refs node = (case node of
     JObj d \<Rightarrow> (case field_of d ''match'' of JObj m \<Rightarrow> (case field_of m ''grader'' of JStr s \<Rightarrow> [s] | _ \<Rightarrow> []) | _ \<Rightarrow> []) @
       (case level_children d of Inl _ \<Rightarrow> [] | Inr cs \<Rightarrow> levels_refs cs)
   | _ \<Rightarrow> [])"
| "levels_refs [] = []"
| "levels_refs (n # ns) = level_refs n @ levels_refs ns"
  by pat_completeness auto
termination
  by (relation "measure (\<lambda>x. case x of Inl n \<Rightarrow> 2 * size n | Inr ns \<Rightarrow> 2 * size_list size ns + 1)")
    (auto dest!: level_children_size)

declare level_refs.simps [simp del]

lemma level_json_fields:
  fixes h children
  obtains d where "level_json h children = JObj d" "level_children d = Inr children" "field_of d ''match'' = lh_match h"
    "\<And>m. lh_match h = JObj m \<Longrightarrow> level_parts d =
       Inr \<lparr>lp_key = lh_key h, lp_extract = lh_extract h, lp_match = m, lp_failure_mode = lh_failure_mode h\<rparr>"
proof
  let ?d = "[(''key'', JStr (lh_key h)), (''extract'', JStr (lh_extract h)), (''gate'', JBool (lh_gate h)),
    (''feeds_extract'', JBool (lh_feeds h)), (''match'', lh_match h), (''children'', JList children)] @
    opt_entry ''failure_mode'' JStr (lh_failure_mode h)"
  show "level_json h children = JObj ?d" by (simp add: level_json_def)
  show "level_children ?d = Inr children" by (simp add: level_children_def dict_get_simps)
  show "field_of ?d ''match'' = lh_match h" by simp
  show "level_parts ?d = Inr \<lparr>lp_key = lh_key h, lp_extract = lh_extract h, lp_match = m, lp_failure_mode = lh_failure_mode h\<rparr>"
    if "lh_match h = JObj m" for m
    using that by (cases "lh_failure_mode h") (simp_all add: level_parts_def item_of_def cast_text_def dict_get_simps)
qed

definition resolves :: "(string \<Rightarrow> Grader launched) \<Rightarrow> string list \<Rightarrow> bool" where
  "resolves resolve refs \<longleftrightarrow> (\<forall>r \<in> set refs. \<exists>g. resolve r = Some (Inr g))"

lemma resolves_append [simp]: "resolves f (a @ b) \<longleftrightarrow> resolves f a \<and> resolves f b"
  by (auto simp: resolves_def)

lemma all_levels_keys: "map lv_key (all_levels (Level key slice m gate fm feeds cs)) = key # all_keys cs"
  by (simp add: all_keys_def)

lemma levels_built:
  assumes "nm \<noteq> []"
  shows "\<forall>out seen'. funnel_level n seen = Inr (out, seen') \<longrightarrow> resolves resolve (level_refs out) \<longrightarrow>
      (\<exists>l. build_level env resolve nm out = Some (Inr l) \<and> seen' = rev (map lv_key (all_levels l)) @ seen \<and>
        (distinct seen \<longrightarrow> distinct seen'))"
    "\<forall>outs seen'. funnel_levels ns seen = Inr (outs, seen') \<longrightarrow> resolves resolve (levels_refs outs) \<longrightarrow>
      (\<exists>ls. build_levels env resolve nm outs = Some (Inr ls) \<and> length ls = length outs \<and> seen' = rev (all_keys ls) @ seen \<and>
        (distinct seen \<longrightarrow> distinct seen'))"
proof (induction n seen and ns seen rule: funnel_level_funnel_levels.induct)
  case (1 node seen)
  show ?case
  proof (intro allI impI)
    fix out seen'
    assume ran: "funnel_level node seen = Inr (out, seen')" and refs: "resolves resolve (level_refs out)"
    then obtain d where node: "node = JObj d" by (subst (asm) funnel_level.simps, cases node) auto
    from ran obtain cs where cs: "level_children d = Inr cs"
      unfolding node by (subst (asm) funnel_level.simps, cases "level_children d") (auto simp: bind_result_Inr_iff)
    from ran obtain h children where h: "level_head d seen = Inr h"
      and children: "funnel_levels cs (lh_key h # seen) = Inr (children, seen')" and out: "out = level_json h children"
      unfolding node by (subst (asm) funnel_level.simps) (auto simp: bind_result_Inr_iff cs)
    have slice: "validate_path (lh_extract h) = Inr ()" "lh_key h \<notin> set seen"
      and "\<exists>v. funnel_match v = Inr (lh_match h)"
      using h by (auto simp: level_head_def bind_result_Inr_iff)
    then obtain m where m: "lh_match h = JObj m" and match: "if ''grader'' \<in> set (dict_keys m)
        then \<exists>r. field_of m ''grader'' = JStr r else \<exists>g. build_kind env nm (lh_key h) (lh_extract h) m = Inr g"
      using funnel_match_built [OF _ slice(1) assms] by blast
    obtain d' where d': "level_json h children = JObj d'" "level_children d' = Inr children" "field_of d' ''match'' = lh_match h"
      "level_parts d' = Inr \<lparr>lp_key = lh_key h, lp_extract = lh_extract h, lp_match = m, lp_failure_mode = lh_failure_mode h\<rparr>"
      using level_json_fields [of h children] m by metis
    have refs': "level_refs out = (case field_of m ''grader'' of JStr s \<Rightarrow> [s] | _ \<Rightarrow> []) @ levels_refs children"
      unfolding out d'(1) by (subst level_refs.simps) (simp add: d' m)
    obtain ls where ls: "build_levels env resolve nm children = Some (Inr ls)" "seen' = rev (all_keys ls) @ lh_key h # seen"
      "distinct (lh_key h # seen) \<longrightarrow> distinct seen'"
      using "1.IH" node cs children refs refs' by (metis resolves_append)
    have "\<exists>g. build_match env resolve nm (lh_key h) (lh_extract h) m = Some (Inr g)"
      using match refs refs' by (auto simp: build_match_def cast_text_def resolves_def split: if_splits)
    then obtain g where g: "build_match env resolve nm (lh_key h) (lh_extract h) m = Some (Inr g)" by blast
    have "build_level env resolve nm out = Some (Inr (Level (lh_key h) (lh_extract h) g (flag_of d' ''gate'' False)
        (lh_failure_mode h) (flag_of d' ''feeds_extract'' False) ls))"
      unfolding out d'(1) by (subst build_level.simps) (simp add: d' g ls(1))
    moreover have "distinct seen \<longrightarrow> distinct seen'" using ls(3) slice(2) by simp
    ultimately show "\<exists>l. build_level env resolve nm out = Some (Inr l) \<and> seen' = rev (map lv_key (all_levels l)) @ seen \<and>
        (distinct seen \<longrightarrow> distinct seen')"
      using ls(2) by (auto simp: all_levels_keys simp del: all_levels.simps)
  qed
next
  case (3 n ns seen)
  show ?case
  proof (intro allI impI)
    fix outs seen'
    assume "funnel_levels (n # ns) seen = Inr (outs, seen')" and refs: "resolves resolve (levels_refs outs)"
    then obtain out seen1 outs1 where first: "funnel_level n seen = Inr (out, seen1)"
      and others: "funnel_levels ns seen1 = Inr (outs1, seen')" and outs: "outs = out # outs1"
      by (auto simp: bind_result_Inr_iff)
    have r: "resolves resolve (level_refs out)" "resolves resolve (levels_refs outs1)" using refs outs by simp_all
    obtain l where l: "build_level env resolve nm out = Some (Inr l)" "seen1 = rev (map lv_key (all_levels l)) @ seen"
      "distinct seen \<longrightarrow> distinct seen1"
      using "3.IH"(1) first r(1) by blast
    obtain ls where ls: "build_levels env resolve nm outs1 = Some (Inr ls)" "length ls = length outs1"
      "seen' = rev (all_keys ls) @ seen1" "distinct seen1 \<longrightarrow> distinct seen'"
      using "3.IH"(2) others r(2) by blast
    have "build_levels env resolve nm outs = Some (Inr (l # ls))" unfolding outs by (simp add: l(1) ls(1))
    moreover have "seen' = rev (all_keys (l # ls)) @ seen" unfolding ls(3) l(2) by (simp add: all_keys_def)
    ultimately show "\<exists>ls. build_levels env resolve nm outs = Some (Inr ls) \<and> length ls = length outs \<and>
        seen' = rev (all_keys ls) @ seen \<and> (distinct seen \<longrightarrow> distinct seen')"
      using ls(2,4) l(3) outs by (intro exI [of _ "l # ls"]) simp
  qed
qed (simp add: all_keys_def)

lemma funnel_built:
  assumes "funnel_levels ns [] = Inr (levels, seen)" "levels \<noteq> []" "nm \<noteq> []" "resolves resolve (levels_refs levels)"
  shows "\<exists>g. build_funnel env resolve nm levels = Some (Inr g) \<and> grd_name g = nm"
proof -
  obtain ls where ls: "build_levels env resolve nm levels = Some (Inr ls)" "length ls = length levels"
    "seen = rev (all_keys ls) @ []" "distinct ([] :: string list) \<longrightarrow> distinct seen"
    using levels_built(2) [OF assms(3), of ns "[]" resolve env] assms(1,4) by blast
  then have "ls \<noteq> []" "distinct (all_keys ls)" using assms(2) by auto
  then show ?thesis using ls(1) assms(3) by (simp add: build_funnel_def make_FunnelGrader_def)
qed

subsection \<open>Factories of loaded graders\<close>

lemma char_of_digit: "m < 10 \<Longrightarrow> n < 10 \<Longrightarrow> (char_of (48 + m) :: char) = char_of (48 + n) \<longleftrightarrow> m = (n :: nat)"
proof -
  assume "m < 10" "n < 10"
  then have "of_char (char_of (48 + m) :: char) = 48 + m" "of_char (char_of (48 + n) :: char) = 48 + n" by simp_all
  then show ?thesis by (metis add_left_cancel)
qed

lemma nat_str_nonempty: "nat_str n \<noteq> []"
  by (subst nat_str.simps) simp

lemma nat_str_eq: "nat_str m = nat_str n \<Longrightarrow> m = n"
proof (induction m arbitrary: n rule: nat_str.induct)
  case (1 m)
  have eq: "(if m < 10 then [char_of (48 + m)] else nat_str (m div 10) @ [char_of (48 + m mod 10)]) =
      (if n < 10 then [char_of (48 + n)] else nat_str (n div 10) @ [char_of (48 + n mod 10)])"
    using "1.prems" by (subst (asm) (1 2) nat_str.simps)
  show ?case
  proof (cases "m < 10 \<or> n < 10")
    case True
    then have "m < 10 \<and> n < 10" using eq nat_str_nonempty nat_str_nonempty [symmetric] by (auto split: if_splits)
    then show ?thesis using eq by (simp add: char_of_digit)
  next
    case False
    then have "nat_str (m div 10) = nat_str (n div 10)" "m mod 10 = n mod 10" using eq by (simp_all add: char_of_digit)
    then show ?thesis using "1.IH" [of "n div 10"] False by (metis div_mult_mod_eq)
  qed
qed

lemma panel_names_distinct: "distinct (map (panel_judge_name nm) [0..<n])"
  by (auto simp: distinct_map panel_judge_name_def inj_on_def dest: nat_str_eq)

lemma llm_judge_built:
  "nm \<noteq> [] \<Longrightarrow> \<exists>g. llm_judge_factory env nm e rubric = Inr g \<and> grd_name g = nm"
  by (simp add: llm_judge_factory_def named_grader_def)

lemma judges_built:
  "\<exists>js. map_result (\<lambda>k. llm_judge_factory env (panel_judge_name nm k) e rubric) ks = Inr js \<and>
     map grd_name js = map (panel_judge_name nm) ks"
proof (induction ks)
  case (Cons k ks)
  have "panel_judge_name nm k \<noteq> []" by (simp add: panel_judge_name_def)
  with Cons llm_judge_built [of "panel_judge_name nm k" env e rubric] show ?case by auto
qed simp

lemma judge_panel_built:
  assumes "nm \<noteq> []" "1 \<le> n" "consensus \<in> set CONSENSUS_RULES"
  shows "\<exists>g. judge_panel_factory env nm e rubric n consensus = Inr g \<and> grd_name g = nm"
proof -
  obtain js where js: "map_result (\<lambda>k. llm_judge_factory env (panel_judge_name nm k) e rubric) [0..<nat n] = Inr js"
    "map grd_name js = map (panel_judge_name nm) [0..<nat n]"
    using judges_built by blast
  have len: "length js = nat n" using arg_cong [OF js(2), of length] by simp
  have "distinct (map grd_name js)" unfolding js(2) by (rule panel_names_distinct)
  moreover have "js \<noteq> []" using len assms(2) by auto
  moreover have "consensus = ''majority'' \<or> consensus = ''unanimous'' \<or> consensus = ''weighted''"
    using assms(3) by (simp only: CONSENSUS_RULES_def list.set insert_iff empty_iff simp_thms)
  ultimately show ?thesis
    using assms(1) len
    by (elim disjE) (simp_all add: judge_panel_factory_def js(1) consensus_of_def make_JudgePanelGrader_def list_ex_iff)
qed

lemma set_match_factory_built:
  assumes "parse_set_match_params entry = Inr ps" "nm \<noteq> []"
  shows "\<exists>g. set_match_factory env nm ps = Inr g \<and> grd_name g = nm"
proof -
  obtain raw where ps: "parse_params SET_MATCH_FIELDS raw = Inr ps"
    using assms(1) by (auto simp: parse_set_match_params_def bind_result_Inr_iff)
  show ?thesis unfolding set_match_factory_def
  proof (rule set_match_built)
    show "\<exists>v. threshold_value v = Inr w" if "map_of ps ''threshold'' = Some w" for w
      using parse_params_value [OF ps that] by (auto simp: SET_MATCH_FIELDS_def)
    show "\<exists>v. name_value SET_MATCH_GATINGS v = Inr w" if "map_of ps ''gating'' = Some w" for w
      using parse_params_value [OF ps that] by (auto simp: SET_MATCH_FIELDS_def)
  qed (use assms(2) in simp_all)
qed

lemma path_value_Inr: "path_value v = Inr w \<Longrightarrow> \<exists>s. w = JStr s \<and> validate_path s = Inr ()"
  by (cases v) (auto simp: path_value_def bind_result_Inr_iff)

lemma confusion_factory_built:
  assumes "parse_confusion_params entry = Inr ps" "nm \<noteq> []"
  shows "\<exists>g. confusion_factory nm ps = Inr g \<and> grd_name g = nm"
proof -
  obtain raw where ps: "parse_params CONFUSION_FIELDS raw = Inr ps"
    using assms(1) by (auto simp: parse_confusion_params_def bind_result_Inr_iff)
  have path: "\<exists>s. w = JStr s \<and> validate_path s = Inr ()" if "map_of ps k = Some w" "k \<in> {''extract'', ''expected_from''}" for k w
    using parse_params_value [OF ps that(1)] that(2) path_value_Inr by (auto simp: CONFUSION_FIELDS_def)
  obtain slice where slice: "text_value (dict_get ps ''extract'' (JStr ''label'')) = Inr slice" "validate_path slice = Inr ()"
  proof (cases "map_of ps ''extract''")
    case None
    with that [of "''label''"] show ?thesis by (simp add: dict_get_def text_value_def)
  next
    case (Some w)
    with path obtain s where "w = JStr s" "validate_path s = Inr ()" by blast
    with Some that [of s] show ?thesis by (simp add: dict_get_def text_value_def)
  qed
  obtain from_path where "opt_text (field_of ps ''expected_from'') = Inr from_path"
    "(case from_path of None \<Rightarrow> Inr () | Some p \<Rightarrow> validate_path p) = Inr ()"
  proof (cases "map_of ps ''expected_from''")
    case None
    with that [of None] show ?thesis by (simp add: field_of_def dict_get_def opt_text_def)
  next
    case (Some w)
    with path obtain s where "w = JStr s" "validate_path s = Inr ()" by blast
    with Some that [of "Some s"] show ?thesis by (simp add: field_of_def dict_get_def opt_text_def)
  qed
  with slice assms(2) show ?thesis by (simp add: confusion_factory_def make_ClassificationGrader_def)
qed

lemma funnel_params_levels:
  assumes "parse_funnel_params entry = Inr ps"
  shows "\<exists>ns levels seen'. funnel_levels ns [] = Inr (levels, seen') \<and> levels \<noteq> [] \<and> ps = [(''levels'', JList levels)]"
proof -
  obtain raw where run: "(case field_of raw ''levels'' of
       JList (n # ns) \<Rightarrow> bind_result (funnel_levels (n # ns) []) (\<lambda>(levels, _). Inr [(''levels'', JList levels)])
     | _ \<Rightarrow> Inl ValueError) = Inr ps"
    using assms unfolding parse_funnel_params_def bind_result_Inr_iff by blast
  then obtain n ns where list: "field_of raw ''levels'' = JList (n # ns)"
    by (cases "field_of raw ''levels''") (auto split: list.splits)
  obtain levels seen' where levels: "funnel_levels (n # ns) [] = Inr (levels, seen')"
    using run [unfolded list json.case list.case] by (cases "funnel_levels (n # ns) []") auto
  then have "ps = [(''levels'', JList levels)]" using run [unfolded list json.case list.case levels] by simp
  moreover have "levels \<noteq> []" using levels funnel_levels_Nil [of "n # ns"] by blast
  ultimately show ?thesis using levels by blast
qed

definition grader_refs :: "GraderSpec \<Rightarrow> string list" where
  "grader_refs g = (if gs_type g = ''funnel'' then
     (case dict_get (gs_params g) ''levels'' (JList []) of JList levels \<Rightarrow> levels_refs levels | _ \<Rightarrow> []) else [])"

lemma loaded_factory:
  assumes "build_grader_spec v seen = Inr g"
    and "gs_type g \<in> set judge_types \<longrightarrow> (\<exists>e. judge_entry env agent g = Inr e)"
  shows "(\<exists>gr. factory_of env agent g = Inr (Ready (Inr gr)) \<and> grd_name gr = gs_name g) \<or>
    (\<exists>levels ns seen'. factory_of env agent g = Inr (FunnelFactory (gs_name g) levels) \<and>
       grader_refs g = levels_refs levels \<and> levels \<noteq> [] \<and> funnel_levels ns [] = Inr (levels, seen'))"
proof -
  obtain entry where v: "v = JObj entry" using assms(1) by (cases v) (simp_all add: build_grader_spec_def)
  let ?t = "gs_type g"
  note run = assms(1) [unfolded v build_grader_spec_def json.case bind_result_Inr_iff ensure_Inr]
  have t: "?t \<in> set SUPPORTED_GRADER_TYPES" and nm: "gs_name g \<noteq> []"
    and n: "when_result (?t = ''judge_panel'') (parse_n_judges entry) = Inr (gs_n_judges g)"
    and c: "when_result (?t = ''judge_panel'') (parse_consensus entry) = Inr (gs_consensus g)"
    and ps: "grader_params ?t entry = Inr (gs_params g)"
    using run by (auto simp: grader_name_def nonempty_text_Inr)
  have "?t = ''deterministic'' \<or> ?t = ''llm_judge'' \<or> ?t = ''judge_panel'' \<or> ?t = ''pairwise'' \<or> ?t = ''set_match'' \<or>
      ?t = ''funnel'' \<or> ?t = ''confusion''"
    using t by (simp only: SUPPORTED_GRADER_TYPES_def list.set insert_iff empty_iff simp_thms)
  then show ?thesis
  proof (elim disjE)
    assume "?t = ''deterministic''"
    with nm show ?thesis by (simp add: factory_of_def Let_def deterministic_factory_def make_DeterministicGrader_def)
  next
    assume type: "?t = ''llm_judge''"
    with assms(2) obtain e where "judge_entry env agent g = Inr e" by (auto simp: judge_types_def)
    with type llm_judge_built [OF nm] show ?thesis by (simp add: factory_of_def Let_def)
  next
    assume type: "?t = ''judge_panel''"
    with assms(2) obtain e where e: "judge_entry env agent g = Inr e" by (auto simp: judge_types_def)
    from n type obtain k where k: "gs_n_judges g = Some k" "1 \<le> k"
      by (cases "gs_n_judges g") (auto simp: when_result_def bind_result_Inr_iff parse_n_judges_def split: json.splits if_splits)
    from c type obtain r where r: "gs_consensus g = Some r" "r \<in> set CONSENSUS_RULES"
      by (cases "gs_consensus g") (auto simp: when_result_def bind_result_Inr_iff parse_consensus_def name_value_Inr text_value_def)
    then have "r \<noteq> []" by (auto simp: CONSENSUS_RULES_def)
    with type e k r judge_panel_built [OF nm k(2) r(2)] show ?thesis by (simp add: factory_of_def Let_def)
  next
    assume type: "?t = ''pairwise''"
    with assms(2) obtain e where "judge_entry env agent g = Inr e" by (auto simp: judge_types_def)
    with type nm show ?thesis by (simp add: factory_of_def Let_def pairwise_factory_def named_grader_def)
  next
    assume type: "?t = ''set_match''"
    with ps have "parse_set_match_params entry = Inr (gs_params g)" by (simp add: grader_params_def)
    then obtain gr where gr: "set_match_factory env (gs_name g) (gs_params g) = Inr gr" "grd_name gr = gs_name g"
      using set_match_factory_built [OF _ nm] by blast
    then obtain q where "float_value env (dict_get (gs_params g) ''threshold'' (JFloat 1)) = Inr q"
      by (auto simp: set_match_factory_def set_match_grader_def bind_result_Inr_iff)
    with type gr show ?thesis by (simp add: factory_of_def Let_def)
  next
    assume type: "?t = ''funnel''"
    with ps have "parse_funnel_params entry = Inr (gs_params g)" by (simp add: grader_params_def)
    then obtain ns levels seen' where built: "funnel_levels ns [] = Inr (levels, seen')" "levels \<noteq> []"
      and params: "gs_params g = [(''levels'', JList levels)]"
      using funnel_params_levels by blast
    with built params type show ?thesis by (simp del: funnel_levels.simps add: factory_of_def Let_def grader_refs_def dict_get_simps) blast
  next
    assume type: "?t = ''confusion''"
    with ps have "parse_confusion_params entry = Inr (gs_params g)" by (simp add: grader_params_def)
    with type confusion_factory_built [OF _ nm] show ?thesis by (simp add: factory_of_def Let_def)
  qed
qed

subsection \<open>Registration\<close>

lemma registered:
  assumes "\<forall>g \<in> set gs. gs_name g \<noteq> [] \<and> (\<exists>f. factory_of env agent g = Inr f)" "distinct (map gs_name gs)"
  shows "\<exists>reg'. register_grader_specs env agent gs reg = (Inr (map gs_name gs), reg') \<and>
    (\<forall>g \<in> set gs. \<exists>f. factory_of env agent g = Inr f \<and> map_of reg' (gs_name g) = Some f) \<and>
    (\<forall>n. n \<notin> gs_name ` set gs \<longrightarrow> map_of reg' n = map_of reg n)"
  using assms
proof (induction gs arbitrary: reg)
  case (Cons g gs)
  then obtain f where f: "factory_of env agent g = Inr f" and nm: "gs_name g \<noteq> []" "gs_name g \<notin> gs_name ` set gs" by auto
  let ?reg = "AList.update (gs_name g) f reg"
  obtain reg' where reg': "register_grader_specs env agent gs ?reg = (Inr (map gs_name gs), reg')"
    "\<forall>g \<in> set gs. \<exists>f. factory_of env agent g = Inr f \<and> map_of reg' (gs_name g) = Some f"
    "\<forall>n. n \<notin> gs_name ` set gs \<longrightarrow> map_of reg' n = map_of ?reg n"
    using Cons.IH [of ?reg] Cons.prems by auto
  have "map_of reg' (gs_name g) = Some f" using reg'(3) nm(2) by (simp add: update_conv)
  with reg' f nm show ?case by (simp add: register_grader_def update_conv)
qed simp

lemma loaded_list:
  "build_grader_list vs seen = Inr gs \<Longrightarrow>
     (\<forall>g \<in> set gs. gs_name g \<noteq> [] \<and> (\<exists>v seen. build_grader_spec v seen = Inr g)) \<and> distinct (map gs_name gs) \<and>
     gs_name ` set gs \<inter> set seen = {}"
proof (induction vs arbitrary: seen gs)
  case (Cons v vs)
  then obtain g gs' where g: "build_grader_spec v seen = Inr g" and gs': "build_grader_list vs (gs_name g # seen) = Inr gs'"
    and gs: "gs = g # gs'"
    by (auto simp: bind_result_Inr_iff)
  have "gs_name g \<noteq> []" "gs_name g \<notin> set seen"
    using g by (auto simp: build_grader_spec_def bind_result_Inr_iff grader_name_def nonempty_text_Inr split: json.splits)
  with Cons.IH [OF gs'] g show ?case unfolding gs by auto
qed simp

lemmas loaded_graders = loaded_list [where seen = "[]"]

lemma removed: "map_of (foldl (\<lambda>r n. unregister_grader n r) reg names) n = (if n \<in> set names then None else map_of reg n)"
  by (induction names arbitrary: reg) (auto simp: unregister_grader_def delete_conv)

subsection \<open>Resolution\<close>

text \<open>A name a level may use: a dotted path that loads, or a declared grader of a smaller rank.\<close>

definition ref_ready :: "LaunchEnv \<Rightarrow> GraderSpec list \<Rightarrow> (string \<Rightarrow> nat) \<Rightarrow> string \<Rightarrow> string \<Rightarrow> bool" where
  "ref_ready env gs rank nm r \<longleftrightarrow>
     (if CHR '':'' \<in> set r then \<exists>g. resolve_dotted_grader (ln_load env) r = Inr g
      else r \<in> gs_name ` set gs \<and> rank r < rank nm)"

lemma ranked_graders_build:
  assumes specs: "\<forall>g \<in> set gs. \<exists>v seen. build_grader_spec v seen = Inr g"
    and judges: "\<And>g. g \<in> set gs \<Longrightarrow> gs_type g \<in> set judge_types \<Longrightarrow> \<exists>e. judge_entry env agent g = Inr e"
    and plain: "\<And>g. g \<in> set gs \<Longrightarrow> CHR '':'' \<notin> set (gs_name g)"
    and refs: "\<And>g r. g \<in> set gs \<Longrightarrow> r \<in> set (grader_refs g) \<Longrightarrow> ref_ready env gs rank (gs_name g) r"
    and reg: "\<forall>g \<in> set gs. \<exists>f. factory_of env agent g = Inr f \<and> map_of reg (gs_name g) = Some f"
    and nonempty: "\<forall>g \<in> set gs. gs_name g \<noteq> []"
  shows "g \<in> set gs \<Longrightarrow> Suc (rank (gs_name g)) < depth \<Longrightarrow>
    \<exists>gr. build_named depth env reg (gs_name g) = Some (Inr gr) \<and> grd_name gr = gs_name g"
proof (induction "rank (gs_name g)" arbitrary: g depth rule: less_induct)
  case less
  obtain d where depth: "depth = Suc d" "rank (gs_name g) < d" using less.prems(2) by (cases depth) auto
  obtain v seen where spec: "build_grader_spec v seen = Inr g" using specs less.prems(1) by blast
  have "gs_type g \<in> set judge_types \<longrightarrow> (\<exists>e. judge_entry env agent g = Inr e)" using judges less.prems(1) by blast
  from loaded_factory [OF spec this] show ?case
  proof (elim disjE exE conjE)
    fix gr assume "factory_of env agent g = Inr (Ready (Inr gr))" "grd_name gr = gs_name g"
    with reg less.prems(1) plain show ?thesis unfolding depth(1) by force
  next
    fix levels ns seen'
    assume f: "factory_of env agent g = Inr (FunnelFactory (gs_name g) levels)" and levels: "grader_refs g = levels_refs levels"
      "levels \<noteq> []" "funnel_levels ns [] = Inr (levels, seen')"
    have "\<exists>gr. build_named d env reg r = Some (Inr gr)" if r: "r \<in> set (levels_refs levels)" for r
    proof (cases "CHR '':'' \<in> set r")
      case True
      then obtain gr where "resolve_dotted_grader (ln_load env) r = Inr gr"
        using refs [OF less.prems(1), of r] r levels(1) by (auto simp: ref_ready_def)
      with True depth(2) show ?thesis by (cases d) auto
    next
      case False
      then obtain h where "h \<in> set gs" "r = gs_name h" "rank r < rank (gs_name g)"
        using refs [OF less.prems(1), of r] r levels(1) by (auto simp: ref_ready_def)
      with less.hyps [of h d] depth(2) show ?thesis by auto
    qed
    then have "resolves (build_named d env reg) (levels_refs levels)" by (simp add: resolves_def)
    with levels nonempty less.prems(1) have "\<exists>gr. build_funnel env (build_named d env reg) (gs_name g) levels = Some (Inr gr) \<and>
        grd_name gr = gs_name g"
      by (intro funnel_built) auto
    with f reg less.prems(1) plain show ?thesis unfolding depth(1) by force
  qed
qed

lemma all_named_build:
  assumes "\<And>n. n \<in> set ns \<Longrightarrow> \<exists>gr. build_named depth env reg n = Some (Inr gr) \<and> grd_name gr = n"
  shows "\<exists>grs. build_all_named depth env reg ns = Some (Inr grs) \<and> map grd_name grs = ns"
  using assms
proof (induction ns)
  case (Cons n ns)
  then obtain gr where "build_named depth env reg n = Some (Inr gr)" "grd_name gr = n" by auto
  moreover obtain grs where "build_all_named depth env reg ns = Some (Inr grs)" "map grd_name grs = ns"
    using Cons by auto
  ultimately show ?case by simp
qed simp

text \<open>The names of the graders the cases use, the default one if they name none.\<close>

definition case_grader_names :: "EvalCase list \<Rightarrow> string list" where
  "case_grader_names cs = (let names = first_occurrences (concat (map ec_graders cs))
     in if names = [] then [''deterministic''] else names)"

text \<open>C40. Graders the loader accepted are launched: if the judges can be imported, no name is a
  dotted path, the levels of the funnels name declared graders without a cycle or paths that load, and the cases use
  declared graders, then registration succeeds, every grader the cases use is built under
  its name, and afterwards the declared names - and no others - are out of the registry.\<close>

theorem loaded_graders_build:
  assumes "build_grader_specs raw = Inr gs"
    and "\<And>g. g \<in> set gs \<Longrightarrow> gs_type g \<in> set judge_types \<Longrightarrow> \<exists>e. judge_entry env agent g = Inr e"
    and "\<And>g. g \<in> set gs \<Longrightarrow> CHR '':'' \<notin> set (gs_name g)"
    and "\<And>g r. g \<in> set gs \<Longrightarrow> r \<in> set (grader_refs g) \<Longrightarrow> ref_ready env gs rank (gs_name g) r"
    and "\<And>c n. c \<in> set cs \<Longrightarrow> n \<in> set (ec_graders c) \<Longrightarrow> n \<in> gs_name ` set gs"
    and "\<And>g. g \<in> set gs \<Longrightarrow> Suc (rank (gs_name g)) < depth"
  shows "\<exists>grs reg'. with_spec_graders depth env agent gs cs reg = (Some (Inr grs), reg') \<and>
    map grd_name grs = case_grader_names cs \<and>
    (\<forall>n. map_of reg' n = (if n \<in> gs_name ` set gs then None else map_of reg n))"
proof -
  obtain vs where vs: "build_grader_list vs [] = Inr gs" using build_grader_specs_list assms(1) by blast
  note loaded = loaded_graders [OF vs]
  have "\<exists>f. factory_of env agent g = Inr f" if g: "g \<in> set gs" for g
  proof -
    obtain v seen where spec: "build_grader_spec v seen = Inr g" using loaded g by blast
    have "gs_type g \<in> set judge_types \<longrightarrow> (\<exists>e. judge_entry env agent g = Inr e)" using assms(2) g by simp
    from loaded_factory [OF spec this] show ?thesis by auto
  qed
  then have "\<forall>g \<in> set gs. gs_name g \<noteq> [] \<and> (\<exists>f. factory_of env agent g = Inr f)" using loaded by simp
  then obtain reg' where reg': "register_grader_specs env agent gs reg = (Inr (map gs_name gs), reg')"
    "\<forall>g \<in> set gs. \<exists>f. factory_of env agent g = Inr f \<and> map_of reg' (gs_name g) = Some f"
    "\<forall>n. n \<notin> gs_name ` set gs \<longrightarrow> map_of reg' n = map_of reg n"
    using registered [of gs env agent reg] loaded by auto
  have built: "\<exists>gr. build_named depth env reg' n = Some (Inr gr) \<and> grd_name gr = n" if n: "n \<in> gs_name ` set gs" for n
  proof -
    obtain g where g: "g \<in> set gs" "n = gs_name g" using n by blast
    have "\<forall>g \<in> set gs. \<exists>v seen. build_grader_spec v seen = Inr g" "\<forall>g \<in> set gs. gs_name g \<noteq> []" using loaded by simp_all
    from ranked_graders_build [OF this(1) assms(2-4) reg'(2) this(2) g(1) assms(6) [OF g(1)]] g(2) show ?thesis by simp
  qed
  let ?names = "first_occurrences (concat (map ec_graders cs))"
  have "\<exists>grs. resolve_case_graders depth env reg' cs = Some (Inr grs) \<and> map grd_name grs = case_grader_names cs"
  proof (cases "?names = []")
    case True
    then show ?thesis by (simp add: resolve_case_graders_def case_grader_names_def deterministic_factory_def make_DeterministicGrader_def)
  next
    case False
    have "\<exists>grs. build_all_named depth env reg' ?names = Some (Inr grs) \<and> map grd_name grs = ?names"
      using assms(5) built by (intro all_named_build) auto
    with False show ?thesis by (simp add: resolve_case_graders_def case_grader_names_def)
  qed
  then obtain grs where "resolve_case_graders depth env reg' cs = Some (Inr grs)" "map grd_name grs = case_grader_names cs" by blast
  moreover have "map_of (foldl (\<lambda>r n. unregister_grader n r) reg' (map gs_name gs)) n =
      (if n \<in> gs_name ` set gs then None else map_of reg n)" for n
    using reg'(3) by (simp add: removed)
  ultimately show ?thesis by (simp add: with_spec_graders_def reg'(1))
qed

text \<open>A funnel whose one level is judged by the other declared grader.\<close>

definition sample_declared :: "string \<Rightarrow> GraderSpec list" where
  "sample_declared ref =
     [\<lparr>gs_type = ''deterministic'', gs_name = ''deterministic'', gs_rubric = None, gs_judge_entrypoint = None,
       gs_n_judges = None, gs_consensus = None, gs_params = []\<rparr>,
      \<lparr>gs_type = ''funnel'', gs_name = ''f'', gs_rubric = None, gs_judge_entrypoint = None,
       gs_n_judges = None, gs_consensus = None,
       gs_params = [(''levels'', JList [JObj [(''key'', JStr ''a''), (''extract'', JStr []), (''gate'', JBool False),
         (''feeds_extract'', JBool False), (''match'', JObj [(''grader'', JStr ref)]), (''children'', JList [])]])]\<rparr>]"

definition sample_graders_block :: "string \<Rightarrow> json dict" where
  "sample_graders_block ref = [(''graders'', JList [JObj [(''type'', JStr ''deterministic'')],
     JObj [(''type'', JStr ''funnel''), (''name'', JStr ''f''), (''params'', JObj [(''levels'', JList [JObj [(''key'', JStr ''a''),
       (''match'', JObj [(''grader'', JStr ref)])]])])]])]"

lemma sample_block_loads:
  assumes "ref \<noteq> []"
  shows "build_grader_specs (sample_graders_block ref) = Inr (sample_declared ref)"
proof -
  have "funnel_match (JObj [(''grader'', JStr ref)]) = Inr (JObj [(''grader'', JStr ref)])"
    using assms by (simp add: funnel_match_def nonempty_text_def)
  then show ?thesis
    by (simp add: build_grader_specs_def sample_graders_block_def build_grader_spec_def text_value_def ensure_def
        SUPPORTED_GRADER_TYPES_def grader_name_def nonempty_text_def when_result_def judge_types_def grader_params_def
        parse_funnel_params_def params_of_def dict_get_simps funnel_level.simps level_head_def bool_field_def
        opt_text_def sample_levels level_children_def level_json_def sample_declared_def)
qed

definition sample_launch :: LaunchEnv where
  "sample_launch = \<lparr>ln_importable = (\<lambda>_. False), ln_judge = (\<lambda>_ _ _ _. Inl ValueError), ln_pair_judge = (\<lambda>_ _ _ _ _. Inl ValueError),
     ln_load = (\<lambda>_ _. None), ln_float = (\<lambda>_. None), ln_paraphraser = (\<lambda>s _. s)\<rparr>"

lemma sample_level_refs:
  "level_refs (JObj [(''key'', JStr ''a''), (''extract'', JStr []), (''gate'', JBool False), (''feeds_extract'', JBool False),
     (''match'', JObj [(''grader'', JStr ref)]), (''children'', JList [])]) = [ref]"
  by (simp add: level_refs.simps level_children_def dict_get_simps)

theorem loaded_graders_build_witness:
  "\<exists>grs reg'. with_spec_graders 3 sample_launch (es_agent sample_spec) (sample_declared ''deterministic'')
     [(sample_case ''ec_1'' False)\<lparr>ec_graders := [''f'', ''deterministic'', ''f'']\<rparr>] [(''deterministic'', Ready (Inl ValueError))]
       = (Some (Inr grs), reg') \<and>
     map grd_name grs = [''f'', ''deterministic''] \<and> map_of reg' ''deterministic'' = None"
proof -
  let ?cs = "[(sample_case ''ec_1'' False)\<lparr>ec_graders := [''f'', ''deterministic'', ''f'']\<rparr>]"
    and ?gs = "sample_declared ''deterministic''" and ?rank = "\<lambda>n. if n = ''f'' then 1 else (0::nat)"
  have names: "gs_name ` set ?gs = {''deterministic'', ''f''}" by (simp add: sample_declared_def)
  have refs: "r = ''deterministic'' \<and> gs_name g = ''f''" if "g \<in> set ?gs" "r \<in> set (grader_refs g)" for g r
    using that by (simp add: sample_declared_def) (elim disjE; simp add: grader_refs_def dict_get_simps sample_level_refs)
  have "\<exists>grs reg'. with_spec_graders 3 sample_launch (es_agent sample_spec) ?gs ?cs [(''deterministic'', Ready (Inl ValueError))]
       = (Some (Inr grs), reg') \<and> map grd_name grs = case_grader_names ?cs \<and>
     (\<forall>n. map_of reg' n = (if n \<in> gs_name ` set ?gs then None else map_of [(''deterministic'', Ready (Inl ValueError))] n))"
  proof (rule loaded_graders_build [where rank = ?rank])
    show "build_grader_specs (sample_graders_block ''deterministic'') = Inr ?gs" by (rule sample_block_loads) simp
    show "ref_ready sample_launch ?gs ?rank (gs_name g) r" if "g \<in> set ?gs" "r \<in> set (grader_refs g)" for g r
      using refs [OF that] names by (simp add: ref_ready_def)
  qed (auto simp: sample_declared_def judge_types_def)
  moreover have "case_grader_names ?cs = [''f'', ''deterministic'']"
    by (simp add: case_grader_names_def first_occurrences_def Let_def)
  ultimately show ?thesis using names by auto
qed

subsection \<open>What goes wrong\<close>

text \<open>A declared grader under the name of a built-in one takes its place and takes it away: the name resolves before the
  run and not after it.\<close>

lemma declared_names_gone:
  assumes "register_grader_specs env agent gs reg = (Inr names, reg')" "n \<in> set names"
  shows "map_of (snd (with_spec_graders depth env agent gs cs reg)) n = None"
  using assms by (simp add: with_spec_graders_def removed)

text \<open>A registration that fails midway leaves what it has registered.\<close>

lemma failed_registration_stays:
  assumes "factory_of env agent g = Inr f" "gs_name g \<noteq> []" "factory_of env agent h = Inl e"
  shows "with_spec_graders depth env agent [g, h] cs reg = (Some (Inl e), AList.update (gs_name g) f reg)"
  using assms by (simp add: with_spec_graders_def register_grader_def)

text \<open>The loader accepts a funnel with a level judged by the funnel itself; resolving it returns at no depth.\<close>

lemma self_naming_loads: "build_grader_specs (sample_graders_block ''f'') = Inr (sample_declared ''f'')"
  by (rule sample_block_loads) simp

lemma self_naming_funnel:
  assumes "map_of reg nm = Some (FunnelFactory nm [JObj [(''key'', JStr k), (''extract'', JStr []), (''gate'', JBool False),
      (''feeds_extract'', JBool False), (''match'', JObj [(''grader'', JStr nm)]), (''children'', JList [])]])"
    and "CHR '':'' \<notin> set nm"
  shows "build_named depth env reg nm = None"
proof (induction depth)
  case (Suc d)
  then show ?case
    using assms by (simp add: build_funnel_def build_level.simps level_parts_def item_of_def cast_text_def
        build_match_def dict_get_simps)
qed simp

text \<open>A name with a colon is registered and then taken for a dotted path.\<close>

lemma colon_name_unreachable:
  assumes "CHR '':'' \<in> set nm" "ln_load env = (\<lambda>_ _. None)"
  shows "\<exists>e. build_named (Suc d) env reg nm = Some (Inl (ResolveError e))"
  using assms by (auto simp: resolve_dotted_grader_def split: prod.splits option.splits)

end
